(* ===== verification/Prelude.thy ===== *)
theory Prelude
  imports Main "HOL-Library.Word" "HOL-Library.Sublist" "HOL-Library.List_Lexorder" "HOL-Library.Char_ord"
begin

text \<open>
  The shared vocabulary of the development: Rust results (\<open>Result<T, RvError>\<close> with the panics of
  the language made explicit), state-passing operations that keep the state they reached when they
  fail, checked and wrapping machine arithmetic, and the string functions of the Rust standard
  library that the components call (\<open>starts_with\<close>, \<open>strip_prefix\<close>, \<open>split\<close>, \<open>trim\<close>, ...).
\<close>

unbundle bit_operations_syntax

named_theorems res_simps \<open>unfolding of the result and operation combinators\<close>
named_theorems str_simps \<open>unfolding of the string functions\<close>

section \<open>Machine integers\<close>

type_synonym u8 = "8 word"
type_synonym u32 = "32 word"
type_synonym bytes = "u8 list"

lemma unat_u8_less: "unat (a :: u8) < 256"
proof -
  have "unat a < 2 ^ LENGTH(8)" by (rule unsigned_less)
  then show ?thesis by simp
qed

lemma of_nat_u8_inj: "i < 256 \<Longrightarrow> j < 256 \<Longrightarrow> (of_nat i :: u8) = of_nat j \<Longrightarrow> i = j"
  by (simp add: word_of_nat_eq_iff take_bit_eq_mod)

lemma of_nat_u8_nonzero: "0 < i \<Longrightarrow> i < 256 \<Longrightarrow> (of_nat i :: u8) \<noteq> 0"
  using of_nat_u8_inj [of i 0] by auto

section \<open>Errors and results\<close>

text \<open>
  \<open>src/errors.rs\<close>: the variants of \<open>RvError\<close>. A variant that wraps an error of another crate (\<open>IO\<close>,
  \<open>SerdeJson\<close>, \<open>OpenSSL\<close>, ...) is \<open>External\<close> with its name and a description. The variants that none of the
  components here returns (of the database, ...) are grouped as \<open>Unraised\<close>, those of the
  PKI module as \<open>Pki\<close>.
\<close>

datatype ext_source =
    IO | SerdeJson | SerdeYaml | OpenSSL | Pem | Regex | Hex | Hcl | HumantimeDuration | HumantimeTimestamp
  | SystemTimeError | ChronoError | BcryptError | UreqError | AddrParseError | IpNetworkError
  | ActixWebHttpHeaderError | UrlError | RustlsError | RustlsPemFileError | RustlsPkiTypesPemFileError
  | TokioTaskJoinError | StringUtf8 | ConnectionPoolCreate | DatabaseExecuteEntry | Other

datatype unraised_error =
    ErrCoreRouterNotHandling | ErrBarrierKeyGenerationFailed
  | ErrMountTableNotFound | ErrMountTableNotReady | ErrResponseDataInvalid
  | ErrAuthModuleDisabled | ErrCredentailInvalid | ErrRwLockReadPoison | ErrRwLockWritePoison | ErrDatabaseTypeInvalid
  | ErrDatabaseConnectionInfoInvalid | ErrUnknown

datatype pki_error =
    ErrPkiPemBundleInvalid | ErrPkiCertKeyMismatch | ErrPkiCertChainIncorrect | ErrPkiCertIsNotCA | ErrPkiCaKeyNotFound
  | ErrPkiCaNotConfig | ErrPkiCaExtensionIncorrect | ErrPkiKeyTypeInvalid | ErrPkiKeyBitsInvalid
  | ErrPkiKeyNameAlreadyExist | ErrPkiKeyOperationInvalid | ErrPkiCertNotFound | ErrPkiRoleNotFound
  | ErrPkiDataInvalid | ErrPkiInternal

datatype rv_error =
    ErrCryptoCipherUpdateFailed
  | ErrCryptoCipherFinalizeFailed
  | ErrCryptoCipherInitFailed
  | ErrCryptoCipherNotInited
  | ErrCryptoCipherOPNotSupported
  | ErrCryptoCipherNoTag
  | ErrCryptoCipherAEADTagPresent
  | ErrConfigPathInvalid
  | ErrConfigLoadFailed
  | ErrConfigStorageNotFound
  | ErrConfigListenerNotFound
  | ErrCoreNotInit
  | ErrCoreLogicalBackendExist
  | ErrCoreLogicalBackendNoExist
  | ErrCoreHandlerExist
  | ErrCoreSealConfigInvalid
  | ErrCoreSealConfigNotFound
  | ErrPhysicalConfigItemMissing
  | ErrPhysicalTypeInvalid
  | ErrPhysicalBackendPrefixInvalid
  | ErrPhysicalBackendKeyInvalid
  | ErrBarrierKeySanityCheckFailed
  | ErrBarrierAlreadyInit
  | ErrBarrierKeyInvalid
  | ErrBarrierNotInit
  | ErrBarrierSealed
  | ErrBarrierUnsealed
  | ErrBarrierUnsealFailed
  | ErrBarrierEpochMismatch
  | ErrBarrierVersionMismatch
  | ErrRouterMountConflict
  | ErrRouterMountNotFound
  | ErrMountFailed
  | ErrMountPathProtected
  | ErrMountPathExist
  | ErrMountNotMatch
  | ErrLogicalPathUnsupported
  | ErrLogicalOperationUnsupported
  | ErrRequestNotReady
  | ErrRequestNoData
  | ErrRequestNoDataField
  | ErrRequestInvalid
  | ErrRequestClientTokenMissing
  | ErrRequestFieldNotFound
  | ErrRequestFieldInvalid
  | ErrHandlerDefault
  | ErrModuleKvDataFieldMissing
  | ErrRustDowncastFailed
  | ErrShamirShareCountInvalid
  | ErrModuleConflict
  | ErrModuleNotFound
  | ErrModuleNotInit
  | ErrAuthTokenNotFound
  | ErrAuthTokenIdInvalid
  | ErrLeaseNotFound
  | ErrLeaseNotRenewable
  | ErrPermissionDenied
  | ErrCredentailNotConfig
  | Pki pki_error
  | Unraised unraised_error
  | External ext_source string
  | ErrResponse string
  | ErrResponseStatus nat string
  | ErrString string

text \<open>
  \<open>impl PartialEq for RvError\<close>: a wrapped error is never equal to anything, not even to itself (the
  last arm of the match); every other modelled variant is compared structurally.
\<close>

definition rv_error_eq :: "rv_error \<Rightarrow> rv_error \<Rightarrow> bool" where
  "rv_error_eq a b =
     (case a of
        External _ _ \<Rightarrow> False
      | Unraised u \<Rightarrow> u \<noteq> ErrDatabaseTypeInvalid \<and> u \<noteq> ErrDatabaseConnectionInfoInvalid \<and> a = b
      | _ \<Rightarrow> a = b)"

lemma rv_error_eq_imp_eq: "rv_error_eq a b \<Longrightarrow> a = b"
  by (simp add: rv_error_eq_def split: rv_error.splits)

lemma rv_error_eq_default [simp]: "rv_error_eq e ErrHandlerDefault \<longleftrightarrow> e = ErrHandlerDefault"
  by (simp add: rv_error_eq_def split: rv_error.split)

text \<open>\<open>RvError::response_status\<close>: the HTTP status of an error.\<close>

definition response_status :: "rv_error \<Rightarrow> nat" where
  "response_status e =
     (case e of
        ErrRequestNoData \<Rightarrow> 400 | ErrBarrierAlreadyInit \<Rightarrow> 400 | ErrBarrierKeyInvalid \<Rightarrow> 400
      | ErrBarrierNotInit \<Rightarrow> 400 | ErrBarrierUnsealed \<Rightarrow> 400 | ErrBarrierUnsealFailed \<Rightarrow> 400
      | ErrRequestNoDataField \<Rightarrow> 400 | ErrRequestInvalid \<Rightarrow> 400 | ErrRequestClientTokenMissing \<Rightarrow> 400
      | ErrRequestFieldNotFound \<Rightarrow> 400 | ErrRequestFieldInvalid \<Rightarrow> 400
      | ErrBarrierSealed \<Rightarrow> 503 | ErrPermissionDenied \<Rightarrow> 403 | ErrRouterMountNotFound \<Rightarrow> 404
      | _ \<Rightarrow> 500)"

text \<open>A Rust result: the value, the error, or a panic of the thread.\<close>

datatype 'a res = Ok 'a | Err rv_error | Panic

definition res_bind :: "'a res \<Rightarrow> ('a \<Rightarrow> 'b res) \<Rightarrow> 'b res" where
  "res_bind r f = (case r of Ok a \<Rightarrow> f a | Err e \<Rightarrow> Err e | Panic \<Rightarrow> Panic)"

definition is_ok :: "'a res \<Rightarrow> bool" where
  "is_ok r \<longleftrightarrow> (case r of Ok _ \<Rightarrow> True | _ \<Rightarrow> False)"

lemma res_bind_simps [simp, res_simps]:
  "res_bind (Ok a) f = f a" "res_bind (Err e) f = Err e" "res_bind Panic f = Panic"
  by (simp_all add: res_bind_def)

lemma is_ok_simps [simp]: "is_ok (Ok a)" "\<not> is_ok (Err e)" "\<not> is_ok Panic"
  by (simp_all add: is_ok_def)

lemma is_ok_iff: "is_ok r \<longleftrightarrow> (\<exists>a. r = Ok a)"
  by (cases r) auto

lemma res_bind_Ok_iff: "res_bind r f = Ok b \<longleftrightarrow> (\<exists>a. r = Ok a \<and> f a = Ok b)"
  by (cases r) auto

lemma res_bind_cong [fundef_cong]:
  "r = r' \<Longrightarrow> (\<And>a. r' = Ok a \<Longrightarrow> f a = g a) \<Longrightarrow> res_bind r f = res_bind r' g"
  by (cases r') auto

text \<open>
  A stateful operation returns its result together with the state it reached: what was written
  before an error stays written, as in the code.
\<close>

type_synonym ('s, 'a) op = "'s \<Rightarrow> 'a res \<times> 's"

definition op_return :: "'a \<Rightarrow> ('s, 'a) op" where
  "op_return a s = (Ok a, s)"

definition op_fail :: "rv_error \<Rightarrow> ('s, 'a) op" where
  "op_fail e s = (Err e, s)"

definition op_bind :: "('s, 'a) op \<Rightarrow> ('a \<Rightarrow> ('s, 'b) op) \<Rightarrow> ('s, 'b) op" where
  "op_bind m f s =
     (case m s of (Ok a, s') \<Rightarrow> f a s' | (Err e, s') \<Rightarrow> (Err e, s') | (Panic, s') \<Rightarrow> (Panic, s'))"

definition op_res :: "'a res \<Rightarrow> ('s, 'a) op" where
  "op_res r s = (r, s)"

lemma op_simps [simp, res_simps]:
  "op_return a s = (Ok a, s)" "op_fail e s = (Err e, s)" "op_res r s = (r, s)"
  by (simp_all add: op_return_def op_fail_def op_res_def)

lemma op_bind_simps [simp, res_simps]:
  "m s = (Ok a, s') \<Longrightarrow> op_bind m f s = f a s'"
  "m s = (Err e, s') \<Longrightarrow> op_bind m f s = (Err e, s')"
  "m s = (Panic, s') \<Longrightarrow> op_bind m f s = (Panic, s')"
  by (simp_all add: op_bind_def)

lemma op_bind_OkD:
  "op_bind m f s = (Ok b, t) \<Longrightarrow> \<exists>a s'. m s = (Ok a, s') \<and> f a s' = (Ok b, t)"
  by (auto simp: op_bind_def split: prod.splits res.splits)

lemma op_bind_OkE:
  assumes "op_bind m f s = (Ok b, t)"
  obtains a s' where "m s = (Ok a, s')" "f a s' = (Ok b, t)"
  using op_bind_OkD [OF assms] by blast

section \<open>JSON values\<close>

text \<open>
  \<open>serde_json::Value\<close>: an integer number is its value, a floating-point number is its text, an object is
  the list of its entries with distinct keys.
\<close>

datatype json =
    JNull
  | JBool bool
  | JNum int
  | JFloat string
  | JString string
  | JArray "json list"
  | JObject "(string \<times> json) list"

type_synonym json_map = "string \<Rightarrow> json option"

definition as_str :: "json \<Rightarrow> string option" where
  "as_str v = (case v of JString s \<Rightarrow> Some s | _ \<Rightarrow> None)"

definition as_bool :: "json \<Rightarrow> bool option" where
  "as_bool v = (case v of JBool b \<Rightarrow> Some b | _ \<Rightarrow> None)"

definition as_u64 :: "json \<Rightarrow> nat option" where
  "as_u64 v = (case v of JNum n \<Rightarrow> (if 0 \<le> n \<and> n < 2 ^ 64 then Some (nat n) else None) | _ \<Rightarrow> None)"

definition as_i64 :: "json \<Rightarrow> int option" where
  "as_i64 v =
     (case v of JNum n \<Rightarrow> (if - (2 ^ 63) \<le> n \<and> n < 2 ^ 63 then Some n else None) | _ \<Rightarrow> None)"

section \<open>Checked arithmetic\<close>

text \<open>
  Addition and subtraction on \<open>u8\<close>: with overflow checks (the debug profile) an overflow panics,
  without them (the release profile) it wraps. The profile is the argument \<open>ovf\<close>.
\<close>

definition u8_add :: "bool \<Rightarrow> u8 \<Rightarrow> u8 \<Rightarrow> u8 res" where
  "u8_add ovf a b = (if ovf \<and> unat a + unat b \<ge> 256 then Panic else Ok (a + b))"

definition u8_sub :: "bool \<Rightarrow> u8 \<Rightarrow> u8 \<Rightarrow> u8 res" where
  "u8_sub ovf a b = (if ovf \<and> unat a < unat b then Panic else Ok (a - b))"

section \<open>Loops that stop at the first failure\<close>

fun res_mapM :: "('a \<Rightarrow> 'b res) \<Rightarrow> 'a list \<Rightarrow> 'b list res" where
  "res_mapM f [] = Ok []"
| "res_mapM f (x # xs) = res_bind (f x) (\<lambda>y. res_bind (res_mapM f xs) (\<lambda>ys. Ok (y # ys)))"

lemma res_mapM_Ok: "(\<And>x. x \<in> set xs \<Longrightarrow> f x = Ok (g x)) \<Longrightarrow> res_mapM f xs = Ok (map g xs)"
  by (induction xs) auto

fun op_iter :: "('a \<Rightarrow> ('s, unit) op) \<Rightarrow> 'a list \<Rightarrow> ('s, unit) op" where
  "op_iter f [] s = (Ok (), s)"
| "op_iter f (x # xs) s = op_bind (f x) (\<lambda>_. op_iter f xs) s"

lemma op_iter_invariant:
  assumes "op_iter f xs s = (r, t)" and "I s"
    and "\<And>x s r t. x \<in> set xs \<Longrightarrow> I s \<Longrightarrow> f x s = (r, t) \<Longrightarrow> I t"
  shows "I t"
  using assms
proof (induction xs arbitrary: s)
  case Nil
  then show ?case by simp
next
  case (Cons x xs)
  obtain r1 s1 where x: "f x s = (r1, s1)" by fastforce
  with Cons.prems have I1: "I s1" by (meson list.set_intros(1))
  show ?case
  proof (cases r1)
    case (Ok u)
    with x Cons.prems(1) have "op_iter f xs s1 = (r, t)" by simp
    then show ?thesis
      using Cons.IH I1 Cons.prems(3) by (meson list.set_intros(2))
  qed (use x I1 Cons.prems(1) in auto)
qed

section \<open>Operations that may not return\<close>

text \<open>An operation that may run forever, or wait forever for a lock: \<open>None\<close> is that it does not return.\<close>

type_synonym ('s, 'a) pop = "'s \<Rightarrow> ('a res \<times> 's) option"

definition pop_of :: "('s, 'a) op \<Rightarrow> ('s, 'a) pop" where
  "pop_of m s = Some (m s)"

definition pop_bind :: "('s, 'a) pop \<Rightarrow> ('a \<Rightarrow> ('s, 'b) pop) \<Rightarrow> ('s, 'b) pop" where
  "pop_bind m f s =
     (case m s of
        None \<Rightarrow> None
      | Some (Ok a, s') \<Rightarrow> f a s'
      | Some (Err e, s') \<Rightarrow> Some (Err e, s')
      | Some (Panic, s') \<Rightarrow> Some (Panic, s'))"

lemma pop_of_simp [simp]: "pop_of m s = Some (m s)"
  by (simp add: pop_of_def)

lemma pop_bind_simps [simp]:
  "m s = None \<Longrightarrow> pop_bind m f s = None"
  "m s = Some (Ok a, s') \<Longrightarrow> pop_bind m f s = f a s'"
  "m s = Some (Err e, s') \<Longrightarrow> pop_bind m f s = Some (Err e, s')"
  "m s = Some (Panic, s') \<Longrightarrow> pop_bind m f s = Some (Panic, s')"
  by (simp_all add: pop_bind_def)

lemma pop_bind_OkD:
  "pop_bind m f s = Some (Ok b, t) \<Longrightarrow> \<exists>a s'. m s = Some (Ok a, s') \<and> f a s' = Some (Ok b, t)"
  by (auto simp: pop_bind_def split: option.splits prod.splits res.splits)

end
