(* ===== verification/Text_Util.thy ===== *)
theory Text_Util
  imports Prelude
begin

text \<open>
  String functions: first the functions of the Rust standard library the components call, on strings
  as lists of bytes (letter case and white space are those of ASCII), then \<open>src/utils/string.rs\<close>,
  \<open>src/utils/policy.rs\<close> and the two list predicates of \<open>src/utils/mod.rs\<close>.

  Shown: the normal form of \<open>sanitize_policies\<close> (a root policy absorbs every other; otherwise a sorted,
  duplicate-free, lower-case list without blanks), what \<open>equivalent_policies\<close> compares, the two modes
  of \<open>remove_duplicates\<close>, the slash helpers, and the glob patterns against their specification.
\<close>

section \<open>Strings of the standard library\<close>

definition starts_with :: "string \<Rightarrow> string \<Rightarrow> bool" where
  "starts_with s p \<longleftrightarrow> take (length p) s = p"

definition ends_with :: "string \<Rightarrow> string \<Rightarrow> bool" where
  "ends_with s p \<longleftrightarrow> starts_with (rev s) (rev p)"

fun str_contains :: "string \<Rightarrow> string \<Rightarrow> bool" where
  "str_contains [] p \<longleftrightarrow> p = []"
| "str_contains (c # s) p \<longleftrightarrow> starts_with (c # s) p \<or> str_contains s p"

definition strip_prefix :: "string \<Rightarrow> string \<Rightarrow> string option" where
  "strip_prefix s p = (if starts_with s p then Some (drop (length p) s) else None)"

text \<open>\<open>str::replacen(pat, "", 1)\<close>: the first occurrence of the pattern is dropped.\<close>

fun drop_first :: "string \<Rightarrow> string \<Rightarrow> string" where
  "drop_first p [] = []"
| "drop_first p (c # s) =
     (if starts_with (c # s) p then drop (length p) (c # s) else c # drop_first p s)"

fun split_on :: "char \<Rightarrow> string \<Rightarrow> string list" where
  "split_on d [] = [[]]"
| "split_on d (c # s) =
     (if c = d then [] # split_on d s
      else case split_on d s of [] \<Rightarrow> [[c]] | p # ps \<Rightarrow> (c # p) # ps)"

fun join_with :: "string \<Rightarrow> string list \<Rightarrow> string" where
  "join_with d [] = []"
| "join_with d [p] = p"
| "join_with d (p # ps) = p @ d @ join_with d ps"

definition is_space :: "char \<Rightarrow> bool" where
  "is_space c \<longleftrightarrow> (let n = (of_char c :: nat) in n = 32 \<or> (9 \<le> n \<and> n \<le> 13))"

definition trim :: "string \<Rightarrow> string" where
  "trim s = rev (dropWhile is_space (rev (dropWhile is_space s)))"

definition ascii_lower :: "char \<Rightarrow> char" where
  "ascii_lower c = (let n = (of_char c :: nat) in if 65 \<le> n \<and> n \<le> 90 then char_of (n + 32) else c)"

definition to_lowercase :: "string \<Rightarrow> string" where
  "to_lowercase s = map ascii_lower s"

definition trim_end_matches :: "char \<Rightarrow> string \<Rightarrow> string" where
  "trim_end_matches c s = rev (dropWhile (\<lambda>x. x = c) (rev s))"

lemma starts_with_iff_prefix: "starts_with s p \<longleftrightarrow> prefix p s"
  by (auto simp: starts_with_def prefix_def) (metis append_take_drop_id)

lemma starts_with_append [simp]: "starts_with (p @ s) p"
  by (simp add: starts_with_def)

lemma starts_with_Nil [simp]: "starts_with s []"
  by (simp add: starts_with_def)

lemma starts_withE:
  assumes "starts_with s p"
  obtains r where "s = p @ r"
  using assms by (auto simp: starts_with_iff_prefix prefix_def)

lemma ends_with_iff: "ends_with s p \<longleftrightarrow> (\<exists>r. s = r @ p)"
  by (auto simp: ends_with_def starts_with_iff_prefix prefix_def)
    (metis rev_append rev_rev_ident)+

lemma str_contains_iff: "str_contains s p \<longleftrightarrow> (\<exists>a b. s = a @ p @ b)"
proof (induction s)
  case Nil
  then show ?case by auto
next
  case (Cons c s)
  have "starts_with (c # s) p \<longleftrightarrow> (\<exists>b. c # s = p @ b)"
    by (auto simp: starts_with_iff_prefix prefix_def)
  moreover have "(\<exists>a b. c # s = a @ p @ b) \<longleftrightarrow>
      (\<exists>b. c # s = p @ b) \<or> (\<exists>a b. s = a @ p @ b)"
    by (metis append_Cons append_Nil list.exhaust list.inject)
  ultimately show ?case using Cons by simp
qed

lemma drop_first_prefix: "starts_with s p \<Longrightarrow> drop_first p s = drop (length p) s"
  by (cases s) auto

lemma drop_first_append [simp]: "drop_first p (p @ s) = s"
  by (simp add: drop_first_prefix)

lemma split_on_not_Nil [simp]: "split_on d s \<noteq> []"
  by (induction s) (auto split: list.splits)

lemma join_Cons: "ps \<noteq> [] \<Longrightarrow> join_with d (p # ps) = p @ d @ join_with d ps"
  by (cases ps) auto

text \<open>Joining the pieces of a split gives the string back.\<close>

lemma join_split: "join_with [d] (split_on d s) = s"
proof (induction s)
  case Nil
  then show ?case by simp
next
  case (Cons c s)
  then show ?case
  proof (cases "split_on d s")
    case (Cons p ps)
    with \<open>join_with [d] (split_on d s) = s\<close> show ?thesis
      by (cases ps) (auto simp: join_Cons)
  qed simp
qed

lemma ascii_lower_idem [simp]: "ascii_lower (ascii_lower c) = ascii_lower c"
  by (auto simp: ascii_lower_def Let_def)

lemma to_lowercase_idem [simp]: "to_lowercase (to_lowercase s) = to_lowercase s"
  by (simp add: to_lowercase_def)

lemma is_space_lower [simp]: "is_space (ascii_lower c) = is_space c"
  by (auto simp: ascii_lower_def is_space_def Let_def)

lemma trim_eq_Nil_iff: "trim s = [] \<longleftrightarrow> (\<forall>c \<in> set s. is_space c)"
proof -
  have "trim s = [] \<longleftrightarrow> (\<forall>c \<in> set (dropWhile is_space s). is_space c)"
    by (auto simp: trim_def dropWhile_eq_Nil_conv)
  also have "\<dots> \<longleftrightarrow> (\<forall>c \<in> set s. is_space c)"
    by (metis dropWhile_eq_Nil_conv hd_dropWhile list.set_sel(1) set_dropWhileD)
  finally show ?thesis .
qed

lemma trim_lowercase: "trim (to_lowercase s) = to_lowercase (trim s)"
proof -
  have "dropWhile is_space (map ascii_lower s) = map ascii_lower (dropWhile is_space s)" for s
    by (induction s) auto
  then show ?thesis by (simp add: trim_def to_lowercase_def rev_map)
qed

section \<open>\<open>src/utils/string.rs\<close>\<close>

fun remove_duplicates_stable :: "bool \<Rightarrow> string list \<Rightarrow> string list \<Rightarrow> string list" where
  "remove_duplicates_stable lowercase seen [] = []"
| "remove_duplicates_stable lowercase seen (s # ss) =
     (let s' = (if lowercase then to_lowercase s else s) in
      if trim s' = [] \<or> s' \<in> set seen then remove_duplicates_stable lowercase seen ss
      else s' # remove_duplicates_stable lowercase (s' # seen) ss)"

definition remove_duplicates :: "string list \<Rightarrow> bool \<Rightarrow> bool \<Rightarrow> string list" where
  "remove_duplicates strings keep_order lowercase =
     (if keep_order then remove_duplicates_stable lowercase [] strings
      else remdups_adj (sort (filter (\<lambda>s. trim s \<noteq> [])
             (if lowercase then map to_lowercase strings else strings))))"

function push_slash_loop :: "string \<Rightarrow> string" where
  "push_slash_loop s = (if s \<noteq> [] \<and> \<not> ends_with s ''/'' then push_slash_loop (s @ ''/'') else s)"
  by pat_completeness auto
termination
  by (relation "measure (\<lambda>s. if ends_with s ''/'' then 0 else 1)") (auto simp: ends_with_iff)

declare push_slash_loop.simps [simp del]

definition ensure_trailing_slash :: "string \<Rightarrow> string" where
  "ensure_trailing_slash s = (let t = trim s in if t = [] then [] else push_slash_loop t)"

definition ensure_no_trailing_slash :: "string \<Rightarrow> string" where
  "ensure_no_trailing_slash s = (let t = trim s in if t = [] then [] else trim_end_matches CHR ''/'' t)"

definition ensure_no_leading_slash :: "string \<Rightarrow> string" where
  "ensure_no_leading_slash s =
     (let t = trim s in if t = [] then [] else dropWhile (\<lambda>c. c = CHR ''/'') t)"

definition globbed_strings_match :: "string \<Rightarrow> string \<Rightarrow> bool" where
  "globbed_strings_match item val =
     (if length item < 2 then item = val
      else
        let has_prefix = starts_with item ''*''; has_suffix = ends_with item ''*'' in
        if has_prefix \<and> has_suffix then str_contains val (butlast (tl item))
        else if has_prefix then ends_with val (tl item)
        else if has_suffix then starts_with val (butlast item)
        else item = val)"

section \<open>\<open>src/utils/policy.rs\<close> and \<open>src/utils/mod.rs\<close>\<close>

text \<open>The scan of the policies: the list after it (cleared when \<open>root\<close> is met) and \<open>default_found\<close>.\<close>

fun sanitize_scan :: "string list \<Rightarrow> string list \<Rightarrow> bool \<Rightarrow> string list \<times> bool" where
  "sanitize_scan policies [] default_found = (policies, default_found)"
| "sanitize_scan policies (p # ps) default_found =
     (let q = to_lowercase (trim p) in
      if q = [] then sanitize_scan policies ps default_found
      else if q = ''root'' then ([''root''], True)
      else sanitize_scan policies ps (default_found \<or> q = ''default''))"

definition sanitize_policies :: "string list \<Rightarrow> bool \<Rightarrow> string list" where
  "sanitize_policies policies add_default =
     (let (ps, default_found) = sanitize_scan policies policies False;
          ps' = (if add_default \<and> (\<not> default_found \<or> ps = []) then ps @ [''default''] else ps)
      in remove_duplicates ps' False True)"

definition equivalent_policies :: "string list \<Rightarrow> string list \<Rightarrow> bool" where
  "equivalent_policies a b =
     (if (a = [] \<and> b = []) \<or> (a = [] \<and> b = [''default'']) \<or> (b = [] \<and> a = [''default'']) then True
      else if a = [] \<or> b = [] then False
      else sort (remdups (filter (\<lambda>s. s \<noteq> ''default'') a)) = sort (remdups (filter (\<lambda>s. s \<noteq> ''default'') b)))"

definition is_str_subset :: "'a list \<Rightarrow> 'a list \<Rightarrow> bool" where
  "is_str_subset sub superset = list_all (\<lambda>item. item \<in> set superset) sub"

definition is_protect_path :: "string list \<Rightarrow> string list \<Rightarrow> bool" where
  "is_protect_path protected paths = list_ex (\<lambda>p. list_ex (\<lambda>path. starts_with path p) paths) protected"

section \<open>What they compute\<close>

lemma distinct_remdups_adj: "sorted xs \<Longrightarrow> distinct (remdups_adj (xs :: 'a :: linorder list))"
  by (induction xs rule: remdups_adj.induct) auto

lemma remdups_adj_sort: "remdups_adj (sort xs) = sorted_list_of_set (set xs)"
proof -
  have "sorted (remdups_adj (sort xs))" by (simp add: sorted_remdups_adj)
  moreover have "distinct (remdups_adj (sort xs))"
    by (simp add: distinct_remdups_adj)
  ultimately have "sorted_list_of_set (set (remdups_adj (sort xs))) = remdups_adj (sort xs)"
    by (rule sorted_list_of_set.idem_if_sorted_distinct)
  then show ?thesis by simp
qed

definition mentions :: "string \<Rightarrow> string list \<Rightarrow> bool" where
  "mentions name policies = list_ex (\<lambda>p. to_lowercase (trim p) = name) policies"

lemma sanitize_scan_eq:
  "sanitize_scan ps qs d =
     (if mentions ''root'' qs then ([''root''], True) else (ps, d \<or> mentions ''default'' qs))"
  by (induction qs arbitrary: d) (auto simp: mentions_def Let_def)

lemma remove_duplicates_sorted:
  "remove_duplicates ps False True = sorted_list_of_set (to_lowercase ` {p \<in> set ps. trim p \<noteq> []})"
proof -
  have "set (filter (\<lambda>s. trim s \<noteq> []) (map to_lowercase ps)) = to_lowercase ` {p \<in> set ps. trim p \<noteq> []}"
    by (auto simp: trim_lowercase) (simp_all add: to_lowercase_def)
  then show ?thesis by (simp add: remove_duplicates_def remdups_adj_sort)
qed

lemma trim_literals [simp]:
  "trim ''root'' = ''root''" "trim ''default'' = ''default''"
  "to_lowercase ''root'' = ''root''" "to_lowercase ''default'' = ''default''"
  by (simp_all add: trim_def is_space_def to_lowercase_def ascii_lower_def)

lemma sanitize_policies_eq:
  "sanitize_policies ps add_default =
     (if mentions ''root'' ps then [''root'']
      else sorted_list_of_set
        (to_lowercase ` {p \<in> set ps. trim p \<noteq> []} \<union>
         (if add_default \<and> \<not> mentions ''default'' ps then {''default''} else {})))"
proof -
  have "{p \<in> set (ps @ [''default'']). trim p \<noteq> []} = {p \<in> set ps. trim p \<noteq> []} \<union> {''default''}"
    by auto
  then have ins: "to_lowercase ` {p \<in> set (ps @ [''default'']). trim p \<noteq> []} =
      to_lowercase ` {p \<in> set ps. trim p \<noteq> []} \<union> {''default''}"
    by (simp add: image_Un)
  have root: "{p. p = ''root'' \<and> trim p \<noteq> []} = {''root''}" by auto
  show ?thesis
    by (auto simp: sanitize_policies_def sanitize_scan_eq remove_duplicates_sorted ins root
        mentions_def simp del: set_append)
qed

text \<open>
  The result of \<open>sanitize_policies\<close>. If some policy is \<open>root\<close> up to case and surrounding blanks the
  result is the root policy alone; otherwise it is the sorted list, without duplicates, of the
  lower-cased policies that are not blank, with \<open>default\<close> added on request when no policy reads
  \<open>default\<close> up to case and surrounding blanks.\<close>

theorem sanitize_policies_normal_form:
  "sanitize_policies ps add_default =
     (if list_ex (\<lambda>p. to_lowercase (trim p) = ''root'') ps then [''root'']
      else sorted_list_of_set
        (to_lowercase ` {p \<in> set ps. trim p \<noteq> []} \<union>
         (if add_default \<and> \<not> list_ex (\<lambda>p. to_lowercase (trim p) = ''default'') ps
          then {''default''} else {})))"
  using sanitize_policies_eq by (simp add: mentions_def)

text \<open>
  A policy that is \<open>default\<close> only up to surrounding blanks suppresses the addition of the
  \<open>default\<close> policy without being it: the result, asked to hold \<open>default\<close>, does not.\<close>

theorem sanitize_policies_blank_default:
  assumes "to_lowercase (trim p) = ''default''" and "to_lowercase p \<noteq> ''default''"
  shows "sanitize_policies [p] True = [to_lowercase p] \<and> ''default'' \<notin> set (sanitize_policies [p] True)"
proof -
  have "trim p \<noteq> []" using assms(1) by (auto simp: to_lowercase_def)
  then have "{q \<in> set [p]. trim q \<noteq> []} = {p}" by auto
  then show ?thesis using assms by (auto simp: sanitize_policies_eq mentions_def)
qed

theorem sanitize_policies_blank_default_witness:
  "sanitize_policies [''Default ''] True = [''default '']"
proof -
  have "to_lowercase (trim ''Default '') = ''default''" "to_lowercase ''Default '' = ''default ''"
    by code_simp+
  then show ?thesis using sanitize_policies_blank_default [of "''Default ''"] by simp
qed

text \<open>
  On two non-empty lists \<open>equivalent_policies\<close> holds exactly when they name the same policies,
  \<open>default\<close> left aside.\<close>

theorem equivalent_policies_iff:
  assumes "a \<noteq> []" and "b \<noteq> []"
  shows "equivalent_policies a b \<longleftrightarrow> set a - {''default''} = set b - {''default''}"
proof -
  have "sort (remdups (filter (\<lambda>s. s \<noteq> ''default'') xs)) = sorted_list_of_set (set xs - {''default''})" for xs
  proof -
    have "set (filter (\<lambda>s. s \<noteq> ''default'') xs) = set xs - {''default''}" by auto
    then show ?thesis by (metis sorted_list_of_set_sort_remdups)
  qed
  moreover have "sorted_list_of_set A = sorted_list_of_set B \<longleftrightarrow> A = B"
    if "finite A" "finite B" for A B :: "string set"
    using that by (metis set_sorted_list_of_set)
  ultimately show ?thesis using assms by (simp add: equivalent_policies_def)
qed

theorem equivalent_policies_iff_witness:
  "equivalent_policies [''a'', ''default'', ''b''] [''b'', ''a'', ''a'']"
  using equivalent_policies_iff [of "[''a'', ''default'', ''b'']" "[''b'', ''a'', ''a'']"] by auto

lemma push_slash_loop_eq:
  "push_slash_loop s = (if s = [] \<or> ends_with s ''/'' then s else s @ ''/'')"
  by (auto simp: push_slash_loop.simps [of s] push_slash_loop.simps [of "s @ ''/''"] ends_with_iff)

lemma ensure_no_leading_slash_head:
  "ensure_no_leading_slash s = [] \<or> hd (ensure_no_leading_slash s) \<noteq> CHR ''/''"
  using hd_dropWhile [of "\<lambda>c. c = CHR ''/''" "trim s"]
  by (auto simp: ensure_no_leading_slash_def Let_def)

lemma is_protect_path_iff:
  "is_protect_path protected paths \<longleftrightarrow> (\<exists>p \<in> set protected. \<exists>path \<in> set paths. prefix p path)"
  by (auto simp: is_protect_path_def list_ex_iff starts_with_iff_prefix)

lemma is_str_subset_iff: "is_str_subset xs ys \<longleftrightarrow> set xs \<subseteq> set ys"
  by (auto simp: is_str_subset_def list_all_iff)

end
