(* ===== verification/Physical.thy ===== *)
theory Physical
  imports Text_Util
begin

text \<open>
  The physical storage layer: the \<open>Backend\<close> trait of \<open>src/storage/mod.rs\<close> as a record of operations, the
  file backend \<open>src/storage/physical/file.rs\<close> on a model of the file system, and the mock backend
  \<open>src/storage/physical/mock.rs\<close>.

  A file system is a list of nodes under absolute component paths; the order of the list is the order
  in which \<open>read_dir\<close> reports the entries. The JSON form of a stored entry is the pair of arguments
  \<open>ser\<close> and \<open>de\<close>.

  The locale \<open>physical_backend\<close> states what the layers above rely on (a lookup returns what was last
  stored, other keys are not affected); it is interpreted on the file backend for its well-formed keys.
\<close>

section \<open>The trait\<close>

record backend_entry =
  be_key :: string
  be_value :: bytes

record 'b backend_ops =
  backend_list :: "string \<Rightarrow> ('b, string list) op"
  backend_get :: "string \<Rightarrow> ('b, backend_entry option) op"
  backend_put :: "backend_entry \<Rightarrow> ('b, unit) op"
  backend_delete :: "string \<Rightarrow> ('b, unit) op"

text \<open>The contract. \<open>contents\<close> is the abstract state: a partial map from the valid keys to values.\<close>

locale physical_backend =
  fixes ops :: "'b backend_ops"
    and valid_key :: "string \<Rightarrow> bool"
    and contents :: "'b \<Rightarrow> string \<Rightarrow> bytes option"
    and invar :: "'b \<Rightarrow> bool"
  assumes get_contents: "invar b \<Longrightarrow> valid_key k \<Longrightarrow>
      backend_get ops k b = (Ok (map_option (\<lambda>v. \<lparr>be_key = k, be_value = v\<rparr>) (contents b k)), b)"
    and put_contents: "invar b \<Longrightarrow> valid_key k \<Longrightarrow>
      \<exists>b'. backend_put ops \<lparr>be_key = k, be_value = v\<rparr> b = (Ok (), b') \<and> invar b' \<and>
        (\<forall>k'. valid_key k' \<longrightarrow> contents b' k' = ((contents b)(k \<mapsto> v)) k')"
    and delete_contents: "invar b \<Longrightarrow> valid_key k \<Longrightarrow>
      \<exists>b'. backend_delete ops k b = (Ok (), b') \<and> invar b' \<and>
        (\<forall>k'. valid_key k' \<longrightarrow> contents b' k' = ((contents b)(k := None)) k')"
begin

lemma get_after_put:
  assumes "invar b" "valid_key k" "backend_put ops \<lparr>be_key = k, be_value = v\<rparr> b = (r, b')"
  shows "backend_get ops k b' = (Ok (Some \<lparr>be_key = k, be_value = v\<rparr>), b')"
  using put_contents [OF assms(1,2), of v] get_contents [of b' k] assms by auto

lemma get_after_put_other:
  assumes "invar b" "valid_key k" "valid_key k'" "k' \<noteq> k"
    and "backend_put ops \<lparr>be_key = k, be_value = v\<rparr> b = (r, b')"
  shows "fst (backend_get ops k' b') = fst (backend_get ops k' b)"
  using put_contents [OF assms(1,2), of v] get_contents [of b' k'] get_contents [of b k'] assms
  by auto

lemma get_after_delete:
  assumes "invar b" "valid_key k" "backend_delete ops k b = (r, b')"
  shows "backend_get ops k b' = (Ok None, b')"
  using delete_contents [OF assms(1,2)] get_contents [of b' k] assms by auto

lemma get_after_delete_other:
  assumes "invar b" "valid_key k" "valid_key k'" "k' \<noteq> k" "backend_delete ops k b = (r, b')"
  shows "fst (backend_get ops k' b') = fst (backend_get ops k' b)"
  using delete_contents [OF assms(1,2)] get_contents [of b' k'] get_contents [of b k'] assms
  by auto

end

section \<open>The file system\<close>

type_synonym fpath = "string list"

datatype node = Dir | File string

type_synonym fs = "(fpath \<times> node) list"

datatype io_kind = NotFound | NotADirectory | IsADirectory | AlreadyExists

definition io_error :: "io_kind \<Rightarrow> rv_error" where
  "io_error k = External IO (case k of NotFound \<Rightarrow> ''not found''
     | NotADirectory \<Rightarrow> ''not a directory'' | IsADirectory \<Rightarrow> ''is a directory''
     | AlreadyExists \<Rightarrow> ''already exists'')"

definition fs_remove :: "fpath \<Rightarrow> fs \<Rightarrow> fs" where
  "fs_remove p fs = filter (\<lambda>(q, _). q \<noteq> p) fs"

definition fs_set :: "fpath \<Rightarrow> node \<Rightarrow> fs \<Rightarrow> fs" where
  "fs_set p n fs = (p, n) # fs_remove p fs"

lemma map_of_fs_remove: "map_of (fs_remove p fs) = (map_of fs)(p := None)"
  by (induction fs) (auto simp: fs_remove_def fun_eq_iff)

lemma map_of_fs_set [simp]: "map_of (fs_set p n fs) = (map_of fs)(p \<mapsto> n)"
  by (auto simp: fs_set_def map_of_fs_remove)

text \<open>Resolving directory components from a directory, as the operating system does.\<close>

fun walk :: "fs \<Rightarrow> fpath \<Rightarrow> string list \<Rightarrow> io_kind + fpath" where
  "walk fs cur [] = Inr cur"
| "walk fs cur (c # cs) =
     (if c = ''..'' then walk fs (butlast cur) cs
      else case map_of fs (cur @ [c]) of
          Some Dir \<Rightarrow> walk fs (cur @ [c]) cs
        | Some (File _) \<Rightarrow> Inl NotADirectory
        | None \<Rightarrow> Inl NotFound)"

definition read_file :: "fpath \<Rightarrow> string \<Rightarrow> fs \<Rightarrow> io_kind + string" where
  "read_file dir name fs =
     (case walk fs [] dir of
        Inl e \<Rightarrow> Inl e
      | Inr d \<Rightarrow> (case map_of fs (d @ [name]) of
            Some (File s) \<Rightarrow> Inr s | Some Dir \<Rightarrow> Inl IsADirectory | None \<Rightarrow> Inl NotFound))"

fun create_dir_all :: "fpath \<Rightarrow> string list \<Rightarrow> fs \<Rightarrow> (io_kind + fpath) \<times> fs" where
  "create_dir_all cur [] fs = (Inr cur, fs)"
| "create_dir_all cur (c # cs) fs =
     (if c = ''..'' then create_dir_all (butlast cur) cs fs
      else case map_of fs (cur @ [c]) of
          Some Dir \<Rightarrow> create_dir_all (cur @ [c]) cs fs
        | Some (File _) \<Rightarrow> (Inl (if cs = [] then AlreadyExists else NotADirectory), fs)
        | None \<Rightarrow> create_dir_all (cur @ [c]) cs (fs_set (cur @ [c]) Dir fs))"

definition write_file :: "fpath \<Rightarrow> string \<Rightarrow> string \<Rightarrow> fs \<Rightarrow> (io_kind + unit) \<times> fs" where
  "write_file d name content fs =
     (case map_of fs (d @ [name]) of
        Some Dir \<Rightarrow> (Inl IsADirectory, fs)
      | _ \<Rightarrow> (Inr (), fs_set (d @ [name]) (File content) fs))"

definition remove_file :: "fpath \<Rightarrow> string \<Rightarrow> fs \<Rightarrow> (io_kind + unit) \<times> fs" where
  "remove_file dir name fs =
     (case walk fs [] dir of
        Inl e \<Rightarrow> (Inl e, fs)
      | Inr d \<Rightarrow> (case map_of fs (d @ [name]) of
            Some (File _) \<Rightarrow> (Inr (), fs_remove (d @ [name]) fs)
          | Some Dir \<Rightarrow> (Inl IsADirectory, fs)
          | None \<Rightarrow> (Inl NotFound, fs)))"

definition dir_names :: "fpath \<Rightarrow> fs \<Rightarrow> string list" where
  "dir_names d fs = map (\<lambda>(p, _). last p) (filter (\<lambda>(p, _). p \<noteq> [] \<and> butlast p = d) fs)"

section \<open>The file backend\<close>

text \<open>The components of a relative path: \<open>PathBuf\<close> skips empty components and single dots.\<close>

definition components :: "string \<Rightarrow> string list" where
  "components k = filter (\<lambda>c. c \<noteq> [] \<and> c \<noteq> ''.'') (split_on CHR ''/'' k)"

text \<open>\<open>FileBackend::path_key\<close>: the parent directory and the file name. A path that ends in \<open>..\<close> has no file
  name, and the root has no parent: both unwraps panic.\<close>

definition path_key :: "fpath \<Rightarrow> string \<Rightarrow> (fpath \<times> string) res" where
  "path_key root k =
     (let path = root @ components k in
      if path = [] \<or> last path = ''..'' then Panic
      else Ok (butlast path, CHR ''_'' # last path))"

text \<open>A path that ends in a slash or in a dot names a directory: a file under that name does not exist.\<close>

definition names_directory :: "string \<Rightarrow> bool" where
  "names_directory k \<longleftrightarrow> k \<noteq> [] \<and> last (split_on CHR ''/'' k) \<in> {[], ''.''}"

definition file_list :: "fpath \<Rightarrow> string \<Rightarrow> (fs, string list) op" where
  "file_list root pfx fs =
     (if starts_with pfx ''/'' then (Err ErrPhysicalBackendPrefixInvalid, fs)
      else
        let path = root @ components pfx in
        case walk fs [] (butlast path) of
          Inl _ \<Rightarrow> (Ok [], fs)
        | Inr d \<Rightarrow>
            let (target, n) =
              (if path = [] then (d, Some Dir)
               else if last path = ''..'' then (butlast d, Some Dir)
               else (d @ [last path], map_of fs (d @ [last path])))
            in case n of
                None \<Rightarrow> (Ok [], fs)
              | Some (File _) \<Rightarrow>
                  (if names_directory pfx then (Ok [], fs) else (Err (io_error NotADirectory), fs))
              | Some Dir \<Rightarrow>
                  (Ok (map (\<lambda>name. case strip_prefix name ''_'' of
                         Some stripped \<Rightarrow> stripped | None \<Rightarrow> name @ ''/'') (dir_names target fs)), fs))"

definition file_get ::
  "(string \<Rightarrow> backend_entry option) \<Rightarrow> fpath \<Rightarrow> string \<Rightarrow> (fs, backend_entry option) op" where
  "file_get de root k fs =
     (if starts_with k ''/'' then (Err ErrPhysicalBackendKeyInvalid, fs)
      else case path_key root k of
          Panic \<Rightarrow> (Panic, fs)
        | Err e \<Rightarrow> (Err e, fs)
        | Ok (dir, name) \<Rightarrow>
            (case read_file dir name fs of
               Inr s \<Rightarrow> (case de s of
                   Some e \<Rightarrow> (Ok (Some e), fs)
                 | None \<Rightarrow> (Err (External SerdeJson ''invalid entry''), fs))
             | Inl NotFound \<Rightarrow> (Ok None, fs)
             | Inl e \<Rightarrow> (Err (io_error e), fs)))"

definition file_put ::
  "(backend_entry \<Rightarrow> string) \<Rightarrow> fpath \<Rightarrow> backend_entry \<Rightarrow> (fs, unit) op" where
  "file_put ser root e fs =
     (if starts_with (be_key e) ''/'' then (Err ErrPhysicalBackendKeyInvalid, fs)
      else case path_key root (be_key e) of
          Panic \<Rightarrow> (Panic, fs)
        | Err er \<Rightarrow> (Err er, fs)
        | Ok (dir, name) \<Rightarrow>
            (case create_dir_all [] dir fs of
               (Inl er, fs1) \<Rightarrow> (Err (io_error er), fs1)
             | (Inr d, fs1) \<Rightarrow>
                 (case write_file d name (ser e) fs1 of
                    (Inl er, fs2) \<Rightarrow> (Err (io_error er), fs2)
                  | (Inr _, fs2) \<Rightarrow> (Ok (), fs2))))"

definition file_delete :: "fpath \<Rightarrow> string \<Rightarrow> (fs, unit) op" where
  "file_delete root k fs =
     (if starts_with k ''/'' then (Err ErrPhysicalBackendKeyInvalid, fs)
      else case path_key root k of
          Panic \<Rightarrow> (Panic, fs)
        | Err e \<Rightarrow> (Err e, fs)
        | Ok (dir, name) \<Rightarrow>
            (case remove_file dir name fs of
               (Inr _, fs1) \<Rightarrow> (Ok (), fs1)
             | (Inl NotFound, fs1) \<Rightarrow> (Ok (), fs1)
             | (Inl e, fs1) \<Rightarrow> (Err (io_error e), fs1)))"

definition file_backend ::
  "(backend_entry \<Rightarrow> string) \<Rightarrow> (string \<Rightarrow> backend_entry option) \<Rightarrow> fpath \<Rightarrow> fs backend_ops" where
  "file_backend ser de root =
     \<lparr>backend_list = file_list root, backend_get = file_get de root,
      backend_put = file_put ser root, backend_delete = file_delete root\<rparr>"

section \<open>The mock backend\<close>

definition mock_backend :: "unit backend_ops" where
  "mock_backend =
     \<lparr>backend_list = (\<lambda>_ s. (Ok [], s)), backend_get = (\<lambda>_ s. (Ok None, s)),
      backend_put = (\<lambda>_ s. (Ok (), s)), backend_delete = (\<lambda>_ s. (Ok (), s))\<rparr>"

section \<open>Choosing the backend\<close>

text \<open>\<open>FileBackend::new\<close> reads the directory from the configuration; \<open>new_backend\<close> chooses by the type name.\<close>

definition file_backend_new :: "json_map \<Rightarrow> string res" where
  "file_backend_new conf =
     (case conf ''path'' of
        Some path \<Rightarrow> (case as_str path of
            None \<Rightarrow> Err ErrPhysicalConfigItemMissing
          | Some p \<Rightarrow> Ok p)
      | None \<Rightarrow> Err ErrPhysicalConfigItemMissing)"

datatype backend_choice = FileBackend string | MockBackend

definition new_backend :: "string \<Rightarrow> json_map \<Rightarrow> backend_choice res" where
  "new_backend t conf =
     (if t = ''file'' then res_bind (file_backend_new conf) (\<lambda>p. Ok (FileBackend p))
      else if t = ''mock'' then Ok MockBackend
      else Err ErrPhysicalTypeInvalid)"


section \<open>The file backend keeps the contract\<close>

text \<open>
  Well-formed keys: no empty component, no dots, and no directory component that starts with an
  underscore (the mark of a file). On these keys the file of a key is never on the way to another.
\<close>

definition valid_component :: "string \<Rightarrow> bool" where
  "valid_component c \<longleftrightarrow> c \<noteq> [] \<and> c \<noteq> ''.'' \<and> c \<noteq> ''..''"

definition file_key :: "string \<Rightarrow> bool" where
  "file_key k \<longleftrightarrow>
     (let cs = split_on CHR ''/'' k in
      (\<forall>c \<in> set cs. valid_component c) \<and> (\<forall>c \<in> set (butlast cs). hd c \<noteq> CHR ''_''))"

definition key_dir :: "fpath \<Rightarrow> string \<Rightarrow> fpath" where
  "key_dir root k = root @ butlast (split_on CHR ''/'' k)"

definition key_file :: "fpath \<Rightarrow> string \<Rightarrow> fpath" where
  "key_file root k = key_dir root k @ [CHR ''_'' # last (split_on CHR ''/'' k)]"

definition file_contents ::
  "(string \<Rightarrow> backend_entry option) \<Rightarrow> fpath \<Rightarrow> fs \<Rightarrow> string \<Rightarrow> bytes option" where
  "file_contents de root fs k =
     (case map_of fs (key_file root k) of
        Some (File s) \<Rightarrow> map_option be_value (de s) | _ \<Rightarrow> None)"

text \<open>
  The invariant: the JSON encoding of entries can be read back, parents are directories, and what the
  files of well-formed keys hold are entries of these keys.
\<close>

definition file_invar ::
  "(backend_entry \<Rightarrow> string) \<Rightarrow> (string \<Rightarrow> backend_entry option) \<Rightarrow> fpath \<Rightarrow> fs \<Rightarrow> bool" where
  "file_invar ser de root fs \<longleftrightarrow>
     (\<forall>e. de (ser e) = Some e) \<and> ''..'' \<notin> set root \<and>
     (\<forall>p c n. map_of fs (p @ [c]) = Some n \<longrightarrow> p \<noteq> [] \<longrightarrow> map_of fs p = Some Dir) \<and>
     (\<forall>k. file_key k \<longrightarrow>
        (\<forall>p. prefix p (key_dir root k) \<longrightarrow> p \<noteq> [] \<longrightarrow> map_of fs p \<in> {None, Some Dir}) \<and>
        map_of fs (key_file root k) \<noteq> Some Dir \<and>
        (\<forall>s. map_of fs (key_file root k) = Some (File s) \<longrightarrow>
           (\<exists>v. de s = Some \<lparr>be_key = k, be_value = v\<rparr>)))"

lemma file_keyD:
  assumes "file_key k"
  shows "\<not> starts_with k ''/''" "components k = split_on CHR ''/'' k"
    "''..'' \<notin> set (split_on CHR ''/'' k)"
    "path_key root k = Ok (key_dir root k, CHR ''_'' # last (split_on CHR ''/'' k))"
proof -
  let ?cs = "split_on CHR ''/'' k"
  have v: "\<And>c. c \<in> set ?cs \<Longrightarrow> valid_component c"
    using assms by (auto simp: file_key_def Let_def)
  show "\<not> starts_with k ''/''"
    using v [of "[]"] by (cases k) (auto simp: starts_with_def valid_component_def)
  show c: "components k = ?cs"
    using v by (auto simp: components_def valid_component_def filter_id_conv)
  show d: "''..'' \<notin> set ?cs"
    using v by (auto simp: valid_component_def)
  have "last ?cs \<noteq> ''..''" using d by (metis last_in_set split_on_not_Nil)
  then show "path_key root k = Ok (key_dir root k, CHR ''_'' # last ?cs)"
    by (simp add: path_key_def c Let_def key_dir_def butlast_append)
qed

lemma split_on_inj: "split_on d s = split_on d t \<Longrightarrow> s = t"
  by (metis join_split)

lemma key_file_inj: "key_file root k = key_file root k' \<longleftrightarrow> k = k'"
proof
  assume "key_file root k = key_file root k'"
  then have "butlast (split_on CHR ''/'' k) = butlast (split_on CHR ''/'' k')"
    "last (split_on CHR ''/'' k) = last (split_on CHR ''/'' k')"
    by (auto simp: key_file_def key_dir_def)
  then show "k = k'"
    by (metis append_butlast_last_id split_on_inj split_on_not_Nil)
qed simp

text \<open>The file of a key is not a directory on the way to a well-formed key.\<close>

lemma key_file_not_dir:
  assumes "file_key k'"
  shows "\<not> prefix (key_file root k) (key_dir root k')"
proof
  assume "prefix (key_file root k) (key_dir root k')"
  then have "prefix (butlast (split_on CHR ''/'' k) @ [CHR ''_'' # last (split_on CHR ''/'' k)])
      (butlast (split_on CHR ''/'' k'))"
    by (simp add: key_file_def key_dir_def)
  then have "CHR ''_'' # last (split_on CHR ''/'' k) \<in> set (butlast (split_on CHR ''/'' k'))"
    by (auto simp: prefix_def)
  with assms show False by (auto simp: file_key_def Let_def)
qed

lemma walk_dirs:
  assumes "''..'' \<notin> set cs"
    and "\<And>ys. ys \<noteq> [] \<Longrightarrow> prefix ys cs \<Longrightarrow> map_of fs (cur @ ys) \<in> {None, Some Dir}"
  shows "walk fs cur cs =
    (if \<forall>ys. ys \<noteq> [] \<longrightarrow> prefix ys cs \<longrightarrow> map_of fs (cur @ ys) = Some Dir
     then Inr (cur @ cs) else Inl NotFound)"
  using assms
proof (induction cs arbitrary: cur)
  case (Cons c cs)
  have IH: "walk fs (cur @ [c]) cs =
    (if \<forall>ys. ys \<noteq> [] \<longrightarrow> prefix ys cs \<longrightarrow> map_of fs (cur @ c # ys) = Some Dir
     then Inr (cur @ c # cs) else Inl NotFound)"
    using Cons.IH [of "cur @ [c]"] Cons.prems(1) Cons.prems(2) [of "c # ys" for ys] by auto
  have c: "map_of fs (cur @ [c]) \<in> {None, Some Dir}"
    using Cons.prems(2) [of "[c]"] by simp
  have all: "(\<forall>ys. ys \<noteq> [] \<longrightarrow> prefix ys (c # cs) \<longrightarrow> map_of fs (cur @ ys) = Some Dir) \<longleftrightarrow>
    map_of fs (cur @ [c]) = Some Dir \<and>
    (\<forall>ys. ys \<noteq> [] \<longrightarrow> prefix ys cs \<longrightarrow> map_of fs (cur @ c # ys) = Some Dir)" (is "?L \<longleftrightarrow> ?R")
  proof
    assume L: ?L
    show ?R using L [rule_format, of "[c]"] L [rule_format, of "c # ys" for ys] by auto
  next
    assume R: ?R
    show ?L
    proof (intro allI impI)
      fix ys assume "ys \<noteq> []" "prefix ys (c # cs)"
      then obtain zs where "ys = c # zs" "prefix zs cs" by (cases ys) auto
      with R show "map_of fs (cur @ ys) = Some Dir" by (cases zs) auto
    qed
  qed
  show ?case
    using c Cons.prems(1) unfolding all by (auto simp: IH)
qed (simp)

lemma create_dirs:
  assumes "''..'' \<notin> set cs"
    and "\<And>ys. ys \<noteq> [] \<Longrightarrow> prefix ys cs \<Longrightarrow> map_of fs (cur @ ys) \<in> {None, Some Dir}"
  shows "\<exists>fs'. create_dir_all cur cs fs = (Inr (cur @ cs), fs') \<and>
    (\<forall>p. map_of fs' p =
      (if strict_prefix cur p \<and> prefix p (cur @ cs) then Some Dir else map_of fs p))"
  using assms
proof (induction cs arbitrary: cur fs)
  case Nil
  then show ?case using prefix_order.less_le_not_le by auto
next
  case (Cons c cs)
  define fs1 where
    "fs1 = (case map_of fs (cur @ [c]) of None \<Rightarrow> fs_set (cur @ [c]) Dir fs | _ \<Rightarrow> fs)"
  have c: "map_of fs (cur @ [c]) \<in> {None, Some Dir}"
    using Cons.prems(2) [of "[c]"] by simp
  have fs1: "map_of fs1 = (map_of fs)(cur @ [c] \<mapsto> Dir)"
    using c by (auto simp: fs1_def fun_eq_iff)
  have step: "create_dir_all cur (c # cs) fs = create_dir_all (cur @ [c]) cs fs1"
    using Cons.prems(1) c by (auto simp: fs1_def)
  have "map_of fs1 ((cur @ [c]) @ ys) \<in> {None, Some Dir}" if "ys \<noteq> []" "prefix ys cs" for ys
    using Cons.prems(2) [of "c # ys"] that by (auto simp: fs1)
  then obtain fs' where fs': "create_dir_all (cur @ [c]) cs fs1 = (Inr ((cur @ [c]) @ cs), fs')"
    "\<And>p. map_of fs' p =
      (if strict_prefix (cur @ [c]) p \<and> prefix p ((cur @ [c]) @ cs) then Some Dir else map_of fs1 p)"
    using Cons.IH [of fs1 "cur @ [c]"] Cons.prems(1) by auto
  have "map_of fs' p =
      (if strict_prefix cur p \<and> prefix p (cur @ c # cs) then Some Dir else map_of fs p)" for p
    unfolding fs'(2) fs1 by (auto simp: strict_prefix_def prefix_def append_eq_append_conv2
        append_eq_Cons_conv Cons_eq_append_conv)
  with step fs'(1) show ?case by auto
qed


lemma file_invarD:
  assumes "file_invar ser de root fs"
  shows "de (ser e) = Some e" "''..'' \<notin> set root"
    "map_of fs (p @ [c]) = Some n \<Longrightarrow> p \<noteq> [] \<Longrightarrow> map_of fs p = Some Dir"
    "file_key k \<Longrightarrow> prefix q (key_dir root k) \<Longrightarrow> q \<noteq> [] \<Longrightarrow> map_of fs q \<in> {None, Some Dir}"
    "file_key k \<Longrightarrow> map_of fs (key_file root k) \<noteq> Some Dir"
    "file_key k \<Longrightarrow> map_of fs (key_file root k) = Some (File s) \<Longrightarrow>
       \<exists>v. de s = Some \<lparr>be_key = k, be_value = v\<rparr>"
  using assms unfolding file_invar_def by blast+

lemma parents_are_dirs:
  assumes "file_invar ser de root fs" "map_of fs (p @ [c]) = Some n"
  shows "ys \<noteq> [] \<Longrightarrow> prefix ys p \<Longrightarrow> map_of fs ys = Some Dir"
  using assms(2)
proof (induction p arbitrary: c n rule: rev_induct)
  case (snoc x p)
  have "map_of fs (p @ [x]) = Some Dir"
    using file_invarD(3) [OF assms(1) snoc.prems(3)] by simp
  then show ?case using snoc.IH snoc.prems by (auto simp: prefix_snoc)
qed simp

lemma key_dir_no_dots:
  assumes "file_invar ser de root fs" "file_key k"
  shows "''..'' \<notin> set (key_dir root k)"
  using file_invarD(2) [OF assms(1)] file_keyD(3) [OF assms(2)]
  by (auto simp: key_dir_def dest: in_set_butlastD)

lemma walk_key_dir:
  assumes "file_invar ser de root fs" "file_key k"
  shows "walk fs [] (key_dir root k) =
    (if \<forall>ys. ys \<noteq> [] \<longrightarrow> prefix ys (key_dir root k) \<longrightarrow> map_of fs ys = Some Dir
     then Inr (key_dir root k) else Inl NotFound)"
  using walk_dirs [OF key_dir_no_dots [OF assms], of fs "[]"] file_invarD(4) [OF assms] by auto

lemma no_walk_no_file:
  assumes "file_invar ser de root fs" "walk fs [] (key_dir root k) = Inl e" "file_key k"
  shows "map_of fs (key_file root k) = None" "e = NotFound"
  using assms walk_key_dir [OF assms(1,3)] parents_are_dirs [OF assms(1)]
  by (auto simp: key_file_def split: if_splits) (metis option.exhaust)

lemma file_get_contents:
  assumes "file_invar ser de root fs" "file_key k"
  shows "file_get de root k fs =
    (Ok (map_option (\<lambda>v. \<lparr>be_key = k, be_value = v\<rparr>) (file_contents de root fs k)), fs)"
proof (cases "walk fs [] (key_dir root k)")
  case (Inl e)
  with no_walk_no_file [OF assms(1) Inl assms(2)] show ?thesis
    by (simp add: file_get_def file_keyD [OF assms(2)] read_file_def file_contents_def)
next
  case (Inr d)
  then have d: "d = key_dir root k"
    using walk_key_dir [OF assms] by (auto split: if_splits)
  show ?thesis
  proof (cases "map_of fs (key_file root k)")
    case None
    then show ?thesis using Inr d
      by (simp add: file_get_def file_keyD [OF assms(2)] read_file_def file_contents_def key_file_def)
  next
    case (Some n)
    with file_invarD(5) [OF assms] obtain s where n: "n = File s" by (cases n) auto
    with file_invarD(6) [OF assms] Some obtain v where "de s = Some \<lparr>be_key = k, be_value = v\<rparr>"
      by blast
    with Some n Inr d show ?thesis
      by (simp add: file_get_def file_keyD [OF assms(2)] read_file_def file_contents_def key_file_def)
  qed
qed

text \<open>Storing makes the directories of the key and then its file; nothing else changes.\<close>

lemma file_put_effect:
  assumes "file_invar ser de root fs" "file_key k" and e: "e = \<lparr>be_key = k, be_value = v\<rparr>"
  shows "\<exists>fs'. file_put ser root e fs = (Ok (), fs') \<and>
    (\<forall>p. map_of fs' p = (if p = key_file root k then Some (File (ser e))
       else if p \<noteq> [] \<and> prefix p (key_dir root k) then Some Dir else map_of fs p))"
proof -
  obtain fs1 where fs1: "create_dir_all [] (key_dir root k) fs = (Inr (key_dir root k), fs1)"
    "\<And>p. map_of fs1 p =
      (if p \<noteq> [] \<and> prefix p (key_dir root k) then Some Dir else map_of fs p)"
    using create_dirs [OF key_dir_no_dots [OF assms(1,2)], of fs "[]"]
      file_invarD(4) [OF assms(1,2)] by (auto simp: strict_prefix_def)
  have "map_of fs1 (key_file root k) \<noteq> Some Dir"
    using fs1(2) file_invarD(5) [OF assms(1,2)] key_file_not_dir [OF assms(2)] by auto
  then have "write_file (key_dir root k) (CHR ''_'' # last (split_on CHR ''/'' k)) (ser e) fs1 =
      (Inr (), fs_set (key_file root k) (File (ser e)) fs1)"
    by (auto simp: write_file_def key_file_def split: option.split node.split)
  then show ?thesis
    using fs1 by (auto simp: file_put_def e file_keyD [OF assms(2)])
qed

lemma file_put_contents:
  assumes I: "file_invar ser de root fs" and k: "file_key k"
  shows "\<exists>fs'. file_put ser root \<lparr>be_key = k, be_value = v\<rparr> fs = (Ok (), fs') \<and>
    file_invar ser de root fs' \<and>
    (\<forall>k'. file_key k' \<longrightarrow>
      file_contents de root fs' k' = ((file_contents de root fs)(k \<mapsto> v)) k')"
proof -
  let ?e = "\<lparr>be_key = k, be_value = v\<rparr>"
  obtain fs' where put: "file_put ser root ?e fs = (Ok (), fs')"
    and m: "\<And>p. map_of fs' p = (if p = key_file root k then Some (File (ser ?e))
       else if p \<noteq> [] \<and> prefix p (key_dir root k) then Some Dir else map_of fs p)"
    using file_put_effect [OF I k refl] by blast
  have mk: "map_of fs' (key_file root k') =
      (if k' = k then Some (File (ser ?e)) else map_of fs (key_file root k'))" for k'
    using key_file_not_dir [OF k] by (simp add: m key_file_inj)
  have parents: "map_of fs' p = Some Dir" if "map_of fs' (p @ [c]) = Some n" "p \<noteq> []" for p c n
  proof (cases "p @ [c] = key_file root k \<or> prefix (p @ [c]) (key_dir root k)")
    case True
    then have "prefix p (key_dir root k)"
      by (auto simp: key_file_def dest: append_prefixD)
    then show ?thesis using m that(2) key_file_not_dir [OF k] by auto
  next
    case False
    then have "map_of fs (p @ [c]) = Some n" using that(1) m by auto
    then have "map_of fs p = Some Dir" using file_invarD(3) [OF I] that(2) by blast
    then show ?thesis using m file_invarD(5) [OF I k] by auto
  qed
  have dirs: "map_of fs' p \<in> {None, Some Dir}"
    if "file_key k'" "prefix p (key_dir root k')" "p \<noteq> []" for p k'
    using m [of p] key_file_not_dir [OF that(1), of root k] file_invarD(4) [OF I that] that by auto
  have "file_invar ser de root fs'"
    unfolding file_invar_def
    using parents dirs file_invarD(1,2) [OF I] file_invarD(5,6) [OF I] by (simp add: mk)
  moreover have "file_contents de root fs' k' = ((file_contents de root fs)(k \<mapsto> v)) k'" for k'
    using file_invarD(1) [OF I] by (simp add: file_contents_def mk)
  ultimately show ?thesis using put by blast
qed

lemma file_delete_contents:
  assumes I: "file_invar ser de root fs" and k: "file_key k"
  shows "\<exists>fs'. file_delete root k fs = (Ok (), fs') \<and> file_invar ser de root fs' \<and>
    (\<forall>k'. file_key k' \<longrightarrow>
      file_contents de root fs' k' = ((file_contents de root fs)(k := None)) k')"
proof (cases "map_of fs (key_file root k)")
  case None
  then have "file_delete root k fs = (Ok (), fs)"
    using no_walk_no_file [OF I _ k] walk_key_dir [OF I k]
    by (auto simp: file_delete_def file_keyD [OF k] remove_file_def key_file_def
        split: sum.splits if_splits)
  then show ?thesis using I None by (auto simp: file_contents_def)
next
  case (Some n)
  with file_invarD(5) [OF I k] obtain s where n: "n = File s" by (cases n) auto
  have "walk fs [] (key_dir root k) = Inr (key_dir root k)"
    using no_walk_no_file(1) [OF I _ k] walk_key_dir [OF I k] Some by (auto split: if_splits)
  then have del: "file_delete root k fs = (Ok (), fs_remove (key_file root k) fs)"
    using Some n by (simp add: file_delete_def file_keyD [OF k] remove_file_def key_file_def)
  have mk: "map_of (fs_remove (key_file root k) fs) p =
      (if p = key_file root k then None else map_of fs p)" for p
    by (simp add: map_of_fs_remove)
  have "map_of fs (key_file root k @ [c]) = None" for c
    using file_invarD(3) [OF I, of "key_file root k" c] Some n
    by (cases "map_of fs (key_file root k @ [c])") (auto simp: key_file_def)
  then have "file_invar ser de root (fs_remove (key_file root k) fs)"
    unfolding file_invar_def
    using file_invarD [OF I] Some n by (auto simp: mk)
  then show ?thesis
    using del by (auto simp: file_contents_def mk key_file_inj)
qed

lemma file_backend_sel:
  "backend_list (file_backend ser de root) = file_list root"
  "backend_get (file_backend ser de root) = file_get de root"
  "backend_put (file_backend ser de root) = file_put ser root"
  "backend_delete (file_backend ser de root) = file_delete root"
  by (simp_all add: file_backend_def)

interpretation fb: physical_backend "file_backend ser de root" file_key "file_contents de root"
  "file_invar ser de root" for ser de root
  by unfold_locales
    (unfold file_backend_sel, (erule (1) file_get_contents file_put_contents file_delete_contents)+)


text \<open>
  On well-formed keys the file backend is a map. A stored entry is read back as it was stored, the
  other keys keep their values, and a deleted key is absent; the invariant is kept throughout.
\<close>

theorem file_backend_is_map:
  assumes "file_invar ser de root fs" "file_key k"
    and "file_put ser root \<lparr>be_key = k, be_value = v\<rparr> fs = (r, fs1)"
    and "file_delete root k fs1 = (r', fs2)"
  shows "r = Ok () \<and> r' = Ok () \<and> file_invar ser de root fs1 \<and> file_invar ser de root fs2 \<and>
    file_get de root k fs1 = (Ok (Some \<lparr>be_key = k, be_value = v\<rparr>), fs1) \<and>
    file_get de root k fs2 = (Ok None, fs2) \<and>
    (\<forall>k'. file_key k' \<longrightarrow> k' \<noteq> k \<longrightarrow>
      fst (file_get de root k' fs1) = fst (file_get de root k' fs) \<and>
      fst (file_get de root k' fs2) = fst (file_get de root k' fs))"
proof -
  have 1: "r = Ok ()" "file_invar ser de root fs1"
    using fb.put_contents [OF assms(1,2), where v = v] assms(3) by (auto simp: file_backend_sel)
  have 2: "r' = Ok ()" "file_invar ser de root fs2"
    using fb.delete_contents [OF 1(2) assms(2)] assms(4) by (auto simp: file_backend_sel)
  show ?thesis
    using 1 2 fb.get_after_put [OF assms(1,2)] fb.get_after_delete [OF 1(2) assms(2)]
      fb.get_after_put_other [OF assms(1,2)] fb.get_after_delete_other [OF 1(2) assms(2)] assms(3,4)
    by (simp add: file_backend_sel)
qed

text \<open>A concrete encoding of entries, to show that the hypotheses can be met.\<close>

definition demo_ser :: "backend_entry \<Rightarrow> string" where
  "demo_ser e = replicate (length (be_key e)) CHR ''1'' @ ''0'' @ be_key e @
     map (\<lambda>w. char_of (unat w)) (be_value e)"

definition demo_de :: "string \<Rightarrow> backend_entry option" where
  "demo_de s =
     (let n = length (takeWhile (\<lambda>c. c = CHR ''1'') s); rest = drop (n + 1) s in
      Some \<lparr>be_key = take n rest, be_value = map (\<lambda>c. of_nat (of_char c)) (drop n rest)\<rparr>)"

lemma demo_codec: "demo_de (demo_ser e) = Some e"
proof -
  have "of_nat (of_char (char_of (unat w) :: char)) = w" for w :: u8
    by (simp add: take_bit_eq_mod unat_u8_less)
  moreover have "takeWhile (\<lambda>c. c = CHR ''1'') (replicate n CHR ''1'' @ CHR ''0'' # s) =
      replicate n CHR ''1''" for n s
    by (induction n) auto
  ultimately show ?thesis
    by (cases e) (simp add: demo_ser_def demo_de_def Let_def comp_def)
qed

text \<open>
  Why the well-formed keys leave out directories whose name starts with an underscore, and keys that end in a slash. A key
  below such a directory is accepted, but the listing takes the directory for the file of a key, which then cannot be
  deleted, and the key is refused where that other key is stored; a key that ends in a slash has the file of the key
  without it.
\<close>

lemma underscore_directory_listed_as_key:
  "\<exists>fs. file_put demo_ser [''data''] \<lparr>be_key = ''m/_a/b'', be_value = [1]\<rparr> [] = (Ok (), fs) \<and>
    file_list [''data''] ''m/'' fs = (Ok [''a''], fs) \<and>
    file_delete [''data''] ''m/a'' fs = (Err (io_error IsADirectory), fs) \<and>
    file_get demo_de [''data''] ''m/_a/b'' fs = (Ok (Some \<lparr>be_key = ''m/_a/b'', be_value = [1]\<rparr>), fs)"
  by (rule exI [of _ "snd (file_put demo_ser [''data''] \<lparr>be_key = ''m/_a/b'', be_value = [1]\<rparr> [])"]) code_simp

lemma underscore_directory_refused:
  "\<exists>fs. file_put demo_ser [''data''] \<lparr>be_key = ''m/a'', be_value = [1]\<rparr> [] = (Ok (), fs) \<and>
    file_put demo_ser [''data''] \<lparr>be_key = ''m/_a/b'', be_value = [1]\<rparr> fs = (Err (io_error AlreadyExists), fs)"
  by (rule exI [of _ "snd (file_put demo_ser [''data''] \<lparr>be_key = ''m/a'', be_value = [1]\<rparr> [])"]) code_simp

lemma slash_aliases_key: "path_key [''data''] ''m/a/'' = path_key [''data''] ''m/a''"
  by code_simp

lemma demo_invar: "file_invar demo_ser demo_de [''data''] []"
  by (simp add: file_invar_def demo_codec)

lemma demo_key: "file_key ''core/keyring''" "file_key ''core''"
  by (simp_all add: file_key_def valid_component_def)

theorem file_backend_is_map_witness:
  "\<exists>fs1 fs2.
    file_put demo_ser [''data''] \<lparr>be_key = ''core/keyring'', be_value = [1, 2]\<rparr> [] = (Ok (), fs1) \<and>
    file_delete [''data''] ''core/keyring'' fs1 = (Ok (), fs2) \<and>
    file_get demo_de [''data''] ''core/keyring'' fs1 =
      (Ok (Some \<lparr>be_key = ''core/keyring'', be_value = [1, 2]\<rparr>), fs1) \<and>
    file_get demo_de [''data''] ''core/keyring'' fs2 = (Ok None, fs2) \<and>
    fst (file_get demo_de [''data''] ''core'' fs2) = Ok None"
proof -
  obtain r fs1 where p: "file_put demo_ser [''data'']
      \<lparr>be_key = ''core/keyring'', be_value = [1, 2]\<rparr> [] = (r, fs1)" by fastforce
  obtain r' fs2 where d: "file_delete [''data''] ''core/keyring'' fs1 = (r', fs2)" by fastforce
  have "fst (file_get demo_de [''data''] ''core'' []) = Ok None" by code_simp
  with file_backend_is_map [OF demo_invar demo_key(1) p d] p d demo_key(2) show ?thesis by auto
qed

lemma split_on_append:
  "split_on d (p @ d # s) = split_on d p @ split_on d s"
  by (induction p) (auto split: list.splits)

lemma split_on_no_sep: "d \<notin> set s \<Longrightarrow> split_on d s = [s]"
  by (induction s) auto

lemma parent_components:
  assumes "file_key (pfx @ name)" "CHR ''/'' \<notin> set name" "pfx = [] \<or> last pfx = CHR ''/''"
  shows "split_on CHR ''/'' (pfx @ name) = components pfx @ [name]"
proof (cases "pfx = []")
  case True
  then show ?thesis using assms(2) by (simp add: split_on_no_sep components_def)
next
  case False
  then obtain q where q: "pfx = q @ ''/''"
    using assms(3) by (metis append_butlast_last_id)
  then have s: "split_on CHR ''/'' (pfx @ name) = split_on CHR ''/'' q @ [name]"
    using assms(2) by (simp add: split_on_append split_on_no_sep)
  then have "\<forall>c \<in> set (split_on CHR ''/'' q). c \<noteq> [] \<and> c \<noteq> ''.''"
    using assms(1) by (auto simp: file_key_def Let_def valid_component_def)
  then show ?thesis
    using s q split_on_append [of "CHR ''/''" q "[]"] by (simp add: components_def filter_id_conv)
qed

lemma dir_names_iff: "name \<in> set (dir_names d fs) \<longleftrightarrow> map_of fs (d @ [name]) \<noteq> None"
proof -
  have "name \<in> set (dir_names d fs) \<longleftrightarrow> d @ [name] \<in> fst ` set fs"
    by (force simp: dir_names_def image_iff snoc_eq_iff_butlast)
  then show ?thesis by (simp add: map_of_eq_None_iff)
qed

lemma file_list_parent:
  assumes I: "file_invar ser de root fs" and k: "file_key (pfx @ name)"
    and n: "CHR ''/'' \<notin> set name" and p: "pfx = [] \<or> last pfx = CHR ''/''"
  shows "file_list root pfx fs =
    (Ok (if walk fs [] (key_dir root (pfx @ name)) = Inl NotFound then []
      else map (\<lambda>x. case strip_prefix x ''_'' of Some y \<Rightarrow> y | None \<Rightarrow> x @ ''/'')
        (dir_names (key_dir root (pfx @ name)) fs)), fs)"
proof -
  let ?d = "key_dir root (pfx @ name)"
  have d: "root @ components pfx = ?d"
    by (simp add: key_dir_def parent_components [OF k n p])
  have sl: "\<not> starts_with pfx ''/''"
    using file_keyD(1) [OF k] by (auto simp: starts_with_iff_prefix)
  have nd: "''..'' \<notin> set ?d" by (rule key_dir_no_dots [OF I k])
  show ?thesis
  proof (cases "?d = []")
    case True
    then show ?thesis using sl d by (simp add: file_list_def)
  next
    case False
    then obtain d1 x where dx: "?d = d1 @ [x]" by (metis rev_exhaust)
    have w1: "walk fs [] d1 = (if \<forall>ys. ys \<noteq> [] \<longrightarrow> prefix ys d1 \<longrightarrow> map_of fs ys = Some Dir
       then Inr d1 else Inl NotFound)"
      using walk_dirs [of d1 fs "[]"] nd file_invarD(4) [OF I k] dx by (auto simp: prefix_snoc)
    have w: "walk fs [] ?d = (if walk fs [] d1 = Inr d1 \<and> map_of fs ?d = Some Dir
       then Inr ?d else Inl NotFound)"
      using walk_key_dir [OF I k] unfolding w1 dx by (auto simp: prefix_snoc)
    have "map_of fs ?d \<in> {None, Some Dir}" using file_invarD(4) [OF I k] False by auto
    then show ?thesis
      using sl d nd w w1 by (auto simp: file_list_def dx Let_def split: if_splits)
  qed
qed

text \<open>
  Listing the directory of a well-formed key succeeds and names the key if and only if the key is
  stored: no stored key is missing from a listing, and no absent one appears.
\<close>

theorem file_list_names_stored_keys:
  assumes I: "file_invar ser de root fs" and k: "file_key (pfx @ name)"
    and n: "CHR ''/'' \<notin> set name" and p: "pfx = [] \<or> last pfx = CHR ''/''"
  shows "\<exists>names. file_list root pfx fs = (Ok names, fs) \<and>
    (name \<in> set names \<longleftrightarrow> fst (file_get de root (pfx @ name) fs) \<noteq> Ok None)"
proof -
  let ?k = "pfx @ name"
  let ?f = "\<lambda>x. case strip_prefix x ''_'' of Some y \<Rightarrow> y | None \<Rightarrow> x @ ''/''"
  have kf: "key_file root ?k = key_dir root ?k @ [CHR ''_'' # name]"
    by (simp add: key_file_def parent_components [OF k n p])
  have f: "?f x = name \<longleftrightarrow> x = CHR ''_'' # name" for x
    using n by (cases x) (auto simp: strip_prefix_def starts_with_def)
  have "name \<in> ?f ` set (dir_names d fs) \<longleftrightarrow> CHR ''_'' # name \<in> set (dir_names d fs)" for d
    by (simp only: image_iff eq_commute [of name] f) simp
  then have listed: "name \<in> ?f ` set (dir_names (key_dir root ?k) fs) \<longleftrightarrow>
      map_of fs (key_file root ?k) \<noteq> None"
    by (simp add: dir_names_iff kf)
  have absent: "walk fs [] (key_dir root ?k) = Inl NotFound \<Longrightarrow> map_of fs (key_file root ?k) = None"
    using no_walk_no_file(1) [OF I _ k] by blast
  have "fst (file_get de root ?k fs) \<noteq> Ok None \<longleftrightarrow> map_of fs (key_file root ?k) \<noteq> None"
    using file_get_contents [OF I k] file_invarD(5,6) [OF I k]
    by (auto simp: file_contents_def split: option.splits node.splits)
  with listed absent show ?thesis
    unfolding file_list_parent [OF assms] by auto
qed

theorem file_list_names_stored_keys_witness:
  "\<exists>fs names. file_put demo_ser [''data''] \<lparr>be_key = ''core/keyring'', be_value = [1]\<rparr> [] = (Ok (), fs) \<and>
    file_list [''data''] ''core/'' fs = (Ok names, fs) \<and> ''keyring'' \<in> set names"
proof -
  obtain fs where p: "file_put demo_ser [''data''] \<lparr>be_key = ''core/keyring'', be_value = [1]\<rparr> [] =
      (Ok (), fs)" and I: "file_invar demo_ser demo_de [''data''] fs"
    using file_put_contents [OF demo_invar demo_key(1)] by blast
  have g: "fst (file_get demo_de [''data''] ''core/keyring'' fs) \<noteq> Ok None"
    using fb.get_after_put [OF demo_invar demo_key(1)] p by (simp add: file_backend_sel)
  have "file_key (''core/'' @ ''keyring'')" using demo_key(1) by simp
  from file_list_names_stored_keys [OF I this] g p show ?thesis by simp
qed

end
