(* ===== verification/Barrier.thy ===== *)
theory Barrier
  imports Physical
begin

text \<open>
  The security barrier: the \<open>Storage\<close> trait of \<open>src/storage/mod.rs\<close>, the \<open>SecurityBarrier\<close> trait of
  \<open>src/storage/barrier.rs\<close> and its AES-GCM implementation \<open>src/storage/barrier_aes_gcm.rs\<close>.

  What the code takes from OpenSSL, from the random generator and from \<open>serde_json\<close> is the record
  \<open>crypto\<close>: an argument of every operation. The generator is a function of the number of draws made
  so far, which is a field of the barrier's state.

  The locale \<open>storage\<close> is the contract of a \<open>Storage\<close>; a barrier that is unsealed implements it on top
  of every backend that implements \<open>physical_backend\<close> (a \<open>sublocale\<close>), hence on the file backend.
\<close>

section \<open>The storage trait\<close>

record storage_entry =
  se_key :: string
  se_value :: bytes

record 's storage_ops =
  storage_list :: "string \<Rightarrow> ('s, string list) op"
  storage_get :: "string \<Rightarrow> ('s, storage_entry option) op"
  storage_put :: "storage_entry \<Rightarrow> ('s, unit) op"
  storage_delete :: "string \<Rightarrow> ('s, unit) op"

locale storage =
  fixes sops :: "'s storage_ops"
    and valid :: "string \<Rightarrow> bool"
    and stored :: "'s \<Rightarrow> string \<Rightarrow> bytes option"
    and ready :: "'s \<Rightarrow> bool"
  assumes get_stored: "ready s \<Longrightarrow> valid k \<Longrightarrow>
      storage_get sops k s = (Ok (map_option (\<lambda>v. \<lparr>se_key = k, se_value = v\<rparr>) (stored s k)), s)"
    and put_stored: "ready s \<Longrightarrow> valid k \<Longrightarrow>
      \<exists>s'. storage_put sops \<lparr>se_key = k, se_value = v\<rparr> s = (Ok (), s') \<and> ready s' \<and>
        (\<forall>k'. valid k' \<longrightarrow> stored s' k' = ((stored s)(k \<mapsto> v)) k')"
    and delete_stored: "ready s \<Longrightarrow> valid k \<Longrightarrow>
      \<exists>s'. storage_delete sops k s = (Ok (), s') \<and> ready s' \<and>
        (\<forall>k'. valid k' \<longrightarrow> stored s' k' = ((stored s)(k := None)) k')"
begin

lemma put_then_get:
  assumes "ready s" "valid k" "storage_put sops \<lparr>se_key = k, se_value = v\<rparr> s = (r, s')"
  shows "r = Ok () \<and> ready s' \<and>
    storage_get sops k s' = (Ok (Some \<lparr>se_key = k, se_value = v\<rparr>), s')"
  using put_stored [OF assms(1,2), of v] get_stored [of s' k] assms by auto

lemma put_frame:
  assumes "ready s" "valid k" "valid k'" "k' \<noteq> k"
    and "storage_put sops \<lparr>se_key = k, se_value = v\<rparr> s = (r, s')"
  shows "fst (storage_get sops k' s') = fst (storage_get sops k' s)"
  using put_stored [OF assms(1,2), of v] get_stored [of s' k'] get_stored [of s k'] assms
  by auto

lemma delete_then_get:
  assumes "ready s" "valid k" "storage_delete sops k s = (r, s')"
  shows "r = Ok () \<and> ready s' \<and> storage_get sops k s' = (Ok None, s')"
  using delete_stored [OF assms(1,2)] get_stored [of s' k] assms by auto

lemma delete_frame:
  assumes "ready s" "valid k" "valid k'" "k' \<noteq> k" "storage_delete sops k s = (r, s')"
  shows "fst (storage_get sops k' s') = fst (storage_get sops k' s)"
  using delete_stored [OF assms(1,2)] get_stored [of s' k'] get_stored [of s k'] assms by auto

end

section \<open>State and environment\<close>

record barrier_init_rec =
  bi_version :: u32
  bi_key :: bytes

text \<open>
  \<open>crypter_new\<close> is the failure of \<open>Crypter::new\<close>, if any; \<open>aead_enc\<close> is the update and finalisation of
  an encrypter (with the associated data, if \<open>aad_update\<close> was called) and its tag; \<open>aead_dec\<close> is the
  same for a decrypter, where the tag is set.
\<close>

record crypto =
  iv_len :: nat
  crypter_new :: "bytes \<Rightarrow> bytes option \<Rightarrow> rv_error option"
  aead_enc :: "bytes \<Rightarrow> bytes option \<Rightarrow> bytes option \<Rightarrow> bytes \<Rightarrow> (bytes \<times> bytes) res"
  aead_dec :: "bytes \<Rightarrow> bytes option \<Rightarrow> bytes option \<Rightarrow> bytes \<Rightarrow> bytes \<Rightarrow> bytes res"
  sha256 :: "bytes \<Rightarrow> bytes res"
  rng_fill :: "nat \<Rightarrow> nat \<Rightarrow> bytes"
  ser_init :: "barrier_init_rec \<Rightarrow> bytes"
  de_init :: "bytes \<Rightarrow> barrier_init_rec option"

record 'b barrier =
  b_sealed :: bool
  b_key :: "bytes option"
  b_version :: u8
  b_backend :: 'b
  b_draws :: nat

definition BARRIER_INIT_PATH :: string where
  "BARRIER_INIT_PATH = ''barrier/init''"

definition AES_BLOCK_SIZE :: nat where
  "AES_BLOCK_SIZE = 16"

definition tag_len :: nat where
  "tag_len = 16"

definition str_bytes :: "string \<Rightarrow> bytes" where
  "str_bytes s = map (\<lambda>c. of_nat (of_char c)) s"

definition barrier_new :: "'b \<Rightarrow> 'b barrier" where
  "barrier_new b = \<lparr>b_sealed = True, b_key = None, b_version = 2, b_backend = b, b_draws = 0\<rparr>"

definition init_cipher :: "bytes \<Rightarrow> 'b barrier \<Rightarrow> 'b barrier" where
  "init_cipher k s = s\<lparr>b_key := Some k\<rparr>"

definition reset_cipher :: "'b barrier \<Rightarrow> 'b barrier" where
  "reset_cipher s = s\<lparr>b_key := None\<rparr>"

definition key_length_range :: "nat \<times> nat" where
  "key_length_range = (AES_BLOCK_SIZE, 2 * AES_BLOCK_SIZE)"

text \<open>\<open>thread_rng().fill\<close>: the next \<open>n\<close> random bytes.\<close>

definition draw :: "crypto \<Rightarrow> nat \<Rightarrow> 'b barrier \<Rightarrow> bytes \<times> 'b barrier" where
  "draw E n s = (rng_fill E (b_draws s) n, s\<lparr>b_draws := Suc (b_draws s)\<rparr>)"

definition generate_key :: "crypto \<Rightarrow> ('b barrier, bytes) op" where
  "generate_key E s = (let (k, s') = draw E (2 * AES_BLOCK_SIZE) s in (Ok k, s'))"

section \<open>Encryption and decryption\<close>

text \<open>The form of a stored value: four bytes of epoch, the version byte, the nonce, the text, the tag.\<close>

definition barrier_encrypt :: "crypto \<Rightarrow> string \<Rightarrow> bytes \<Rightarrow> ('b barrier, bytes) op" where
  "barrier_encrypt E path plaintext s =
     (case b_key s of
        None \<Rightarrow> (Err ErrBarrierNotInit, s)
      | Some key \<Rightarrow>
          let (nonce, s1) = (if iv_len E = 0 then ([], s) else draw E (iv_len E) s);
              iv = (if iv_len E = 0 then None else Some nonce);
              aad = (if b_version s = 2 then Some (str_bytes path) else None)
          in case crypter_new E key iv of
               Some e \<Rightarrow> (Err e, s1)
             | None \<Rightarrow>
                 (case aead_enc E key iv aad plaintext of
                    Ok (raw, tag) \<Rightarrow> (Ok ([0, 0, 0, 1, b_version s] @ nonce @ raw @ tag), s1)
                  | Err e \<Rightarrow> (Err e, s1)
                  | Panic \<Rightarrow> (Panic, s1)))"

text \<open>
  The checks are made in this order: an index or a slice out of range panics (\<open>ciphertext.len() - tag_len\<close>
  underflows, or the slice it bounds is out of range, when the value is too short for a nonce and a tag).
\<close>

definition epoch_ok :: "bytes \<Rightarrow> bool res" where
  "epoch_ok c =
     (let at = (\<lambda>i. if i < length c then Ok (c ! i) else Panic);
          other = (\<lambda>i w rest. res_bind (at i) (\<lambda>x. if x \<noteq> w then Ok False else rest))
      in other 0 0 (other 1 0 (other 2 0 (other 3 1 (Ok True)))))"

definition barrier_decrypt :: "crypto \<Rightarrow> bytes option \<Rightarrow> string \<Rightarrow> bytes \<Rightarrow> bytes res" where
  "barrier_decrypt E key_opt path c =
     (case key_opt of
        None \<Rightarrow> Err ErrBarrierNotInit
      | Some key \<Rightarrow>
          res_bind (epoch_ok c) (\<lambda>ok.
            if \<not> ok then Err ErrBarrierEpochMismatch
            else if iv_len E \<noteq> 0 \<and> length c < 5 + iv_len E then Panic
            else
              let iv = (if iv_len E = 0 then None else Some (take (iv_len E) (drop 5 c)))
              in case crypter_new E key iv of
                   Some e \<Rightarrow> Err e
                 | None \<Rightarrow>
                     if length c < 5 then Panic
                     else if c ! 4 \<noteq> 1 \<and> c ! 4 \<noteq> 2 then Err ErrBarrierVersionMismatch
                     else if length c < 5 + iv_len E + tag_len then Panic
                     else
                       let aad = (if c ! 4 = 2 then Some (str_bytes path) else None);
                           raw = take (length c - 5 - iv_len E - tag_len) (drop (5 + iv_len E) c);
                           tag = drop (length c - tag_len) c
                       in aead_dec E key iv aad raw tag))"

section \<open>The storage operations\<close>

definition on_backend :: "('b, 'a) op \<Rightarrow> ('b barrier, 'a) op" where
  "on_backend f s = (let (r, b) = f (b_backend s) in (r, s\<lparr>b_backend := b\<rparr>))"

definition barrier_list :: "'b backend_ops \<Rightarrow> string \<Rightarrow> ('b barrier, string list) op" where
  "barrier_list ops pfx s =
     (if b_sealed s then (Err ErrBarrierSealed, s)
      else op_bind (on_backend (backend_list ops pfx)) (\<lambda>ret. op_return (sort ret)) s)"

definition barrier_get :: "crypto \<Rightarrow> 'b backend_ops \<Rightarrow> string \<Rightarrow> ('b barrier, storage_entry option) op" where
  "barrier_get E ops k s =
     (if b_sealed s then (Err ErrBarrierSealed, s)
      else op_bind (on_backend (backend_get ops k)) (\<lambda>pe.
        case pe of
          None \<Rightarrow> op_return None
        | Some e \<Rightarrow> (\<lambda>s. (res_bind (barrier_decrypt E (b_key s) k (be_value e))
            (\<lambda>plain. Ok (Some \<lparr>se_key = k, se_value = plain\<rparr>)), s))) s)"

definition barrier_put :: "crypto \<Rightarrow> 'b backend_ops \<Rightarrow> storage_entry \<Rightarrow> ('b barrier, unit) op" where
  "barrier_put E ops entry s =
     (if b_sealed s then (Err ErrBarrierSealed, s)
      else op_bind (barrier_encrypt E (se_key entry) (se_value entry)) (\<lambda>ciphertext.
        on_backend (backend_put ops \<lparr>be_key = se_key entry, be_value = ciphertext\<rparr>)) s)"

definition barrier_delete :: "'b backend_ops \<Rightarrow> string \<Rightarrow> ('b barrier, unit) op" where
  "barrier_delete ops k s =
     (if b_sealed s then (Err ErrBarrierSealed, s) else on_backend (backend_delete ops k) s)"

definition barrier_storage :: "crypto \<Rightarrow> 'b backend_ops \<Rightarrow> 'b barrier storage_ops" where
  "barrier_storage E ops =
     \<lparr>storage_list = barrier_list ops, storage_get = barrier_get E ops,
      storage_put = barrier_put E ops, storage_delete = barrier_delete ops\<rparr>"

section \<open>Initialisation, seal and unseal\<close>

definition barrier_inited :: "'b backend_ops \<Rightarrow> ('b barrier, bool) op" where
  "barrier_inited ops =
     op_bind (on_backend (backend_get ops BARRIER_INIT_PATH)) (\<lambda>r. op_return (r \<noteq> None))"

definition barrier_init :: "crypto \<Rightarrow> 'b backend_ops \<Rightarrow> bytes \<Rightarrow> ('b barrier, unit) op" where
  "barrier_init E ops kek =
     (let (min, max) = key_length_range in
      if length kek < min \<or> length kek > max then op_fail ErrBarrierKeyInvalid
      else op_bind (barrier_inited ops) (\<lambda>inited.
        if inited then op_fail ErrBarrierAlreadyInit
        else op_bind (generate_key E) (\<lambda>encrypt_key.
          let init = \<lparr>bi_version = 1, bi_key = encrypt_key\<rparr> in
          op_bind (\<lambda>s. (Ok (), init_cipher kek s)) (\<lambda>_.
          op_bind (barrier_encrypt E BARRIER_INIT_PATH (ser_init E init)) (\<lambda>v.
          op_bind (on_backend (backend_put ops \<lparr>be_key = BARRIER_INIT_PATH, be_value = v\<rparr>)) (\<lambda>_ s.
            (Ok (), reset_cipher s)))))))"

definition barrier_unseal :: "crypto \<Rightarrow> 'b backend_ops \<Rightarrow> bytes \<Rightarrow> ('b barrier, unit) op" where
  "barrier_unseal E ops kek s =
     (if \<not> b_sealed s then (Ok (), s)
      else op_bind (on_backend (backend_get ops BARRIER_INIT_PATH)) (\<lambda>entry.
        case entry of
          None \<Rightarrow> op_fail ErrBarrierNotInit
        | Some e \<Rightarrow> (\<lambda>s0.
            let s = init_cipher kek s0 in
            case barrier_decrypt E (b_key s) BARRIER_INIT_PATH (be_value e) of
              Panic \<Rightarrow> (Panic, s)
            | Err _ \<Rightarrow> (Err ErrBarrierUnsealFailed, s)
            | Ok v \<Rightarrow>
                (case de_init E v of
                   None \<Rightarrow> (Err (External SerdeJson ''invalid barrier init''), s)
                 | Some init \<Rightarrow> (Ok (), (init_cipher (bi_key init) s)\<lparr>b_sealed := False\<rparr>)))) s)"

definition barrier_seal :: "('b barrier, unit) op" where
  "barrier_seal s = (Ok (), (reset_cipher s)\<lparr>b_sealed := True\<rparr>)"

definition derive_hmac_key :: "crypto \<Rightarrow> 'b barrier \<Rightarrow> bytes res" where
  "derive_hmac_key E s =
     (case b_key s of
        None \<Rightarrow> Err ErrBarrierNotInit
      | Some key \<Rightarrow> if b_sealed s then Err ErrBarrierSealed else sha256 E key)"


section \<open>What is relied on\<close>

text \<open>
  The documented behaviour of AES-GCM in OpenSSL under a key of the right length: a crypter is made, the
  ciphertext is as long as the plaintext, the tag has sixteen bytes, and decrypting what was encrypted
  with the same nonce and associated data gives the plaintext. The generator fills the whole buffer.
\<close>

definition iv_arg :: "crypto \<Rightarrow> bytes \<Rightarrow> bytes option" where
  "iv_arg E nonce = (if iv_len E = 0 then None else Some nonce)"

definition aead_ok :: "crypto \<Rightarrow> bytes \<Rightarrow> bool" where
  "aead_ok E key \<longleftrightarrow>
     (\<forall>i n. length (rng_fill E i n) = n) \<and>
     (\<forall>nonce. length nonce = iv_len E \<longrightarrow>
        crypter_new E key (iv_arg E nonce) = None \<and>
        (\<forall>aad pt. \<exists>raw tag. aead_enc E key (iv_arg E nonce) aad pt = Ok (raw, tag) \<and>
           length raw = length pt \<and> length tag = tag_len \<and>
           aead_dec E key (iv_arg E nonce) aad raw tag = Ok pt))"

lemma aead_okE:
  assumes "aead_ok E key" "length nonce = iv_len E"
  obtains raw tag where "aead_enc E key (iv_arg E nonce) aad pt = Ok (raw, tag)"
    "length raw = length pt" "length tag = tag_len"
    "aead_dec E key (iv_arg E nonce) aad raw tag = Ok pt" "crypter_new E key (iv_arg E nonce) = None"
  using assms unfolding aead_ok_def by blast

lemma rng_length: "aead_ok E key \<Longrightarrow> length (rng_fill E i n) = n"
  by (simp add: aead_ok_def)

lemma epoch_ok_header [simp]: "epoch_ok (0 # 0 # 0 # 1 # c) = Ok True"
  by (simp add: epoch_ok_def)

lemma decrypt_layout:
  assumes "length nonce = iv_len E" "length tag = tag_len" "ver = 1 \<or> ver = 2"
    and "crypter_new E key (iv_arg E nonce) = None"
  shows "barrier_decrypt E (Some key) path ([0, 0, 0, 1, ver] @ nonce @ raw @ tag) =
    aead_dec E key (iv_arg E nonce) (if ver = 2 then Some (str_bytes path) else None) raw tag"
proof -
  let ?c = "[0, 0, 0, 1, ver] @ nonce @ raw @ tag"
  have "drop (5 + n) ?c = drop n (nonce @ raw @ tag)" for n
    using drop_append [of "5 + n" "[0, 0, 0, 1, ver]" "nonce @ raw @ tag"] by simp
  from this [of "iv_len E"] this [of "iv_len E + length raw"] show ?thesis
    using assms by (auto simp: barrier_decrypt_def Let_def iv_arg_def tag_len_def)
qed

lemma encrypt_layout:
  assumes "b_key s = Some key" "aead_ok E key"
  shows "\<exists>nonce raw tag d. length nonce = iv_len E \<and> length raw = length pt \<and> length tag = tag_len \<and>
    aead_enc E key (iv_arg E nonce) (if b_version s = 2 then Some (str_bytes path) else None) pt =
      Ok (raw, tag) \<and>
    barrier_encrypt E path pt s =
      (Ok ([0, 0, 0, 1, b_version s] @ nonce @ raw @ tag), s\<lparr>b_draws := d\<rparr>)"
proof -
  define nonce where "nonce = (if iv_len E = 0 then [] else rng_fill E (b_draws s) (iv_len E))"
  let ?aad = "if b_version s = 2 then Some (str_bytes path) else None"
  have n: "length nonce = iv_len E" using rng_length [OF assms(2)] by (simp add: nonce_def)
  obtain raw tag where "aead_enc E key (iv_arg E nonce) ?aad pt = Ok (raw, tag)"
    "length raw = length pt" "length tag = tag_len" "crypter_new E key (iv_arg E nonce) = None"
    using aead_okE [OF assms(2) n] by metis
  moreover from this have "barrier_encrypt E path pt s =
      (Ok ([0, 0, 0, 1, b_version s] @ nonce @ raw @ tag),
       s\<lparr>b_draws := if iv_len E = 0 then b_draws s else Suc (b_draws s)\<rparr>)"
    using assms(1) by (auto simp: barrier_encrypt_def Let_def iv_arg_def nonce_def draw_def)
  ultimately show ?thesis using n by blast
qed

text \<open>Decrypting an encrypted value under the same key and path gives it back.\<close>

lemma decrypt_encrypt:
  assumes "b_key s = Some key" "aead_ok E key" "b_version s = 1 \<or> b_version s = 2"
  shows "\<exists>c d. barrier_encrypt E path pt s = (Ok c, s\<lparr>b_draws := d\<rparr>) \<and>
    barrier_decrypt E (Some key) path c = Ok pt \<and>
    length c = 5 + iv_len E + length pt + tag_len"
proof -
  let ?aad = "if b_version s = 2 then Some (str_bytes path) else None"
  obtain nonce raw tag d where *: "length nonce = iv_len E" "length raw = length pt"
    "length tag = tag_len" "aead_enc E key (iv_arg E nonce) ?aad pt = Ok (raw, tag)"
    "barrier_encrypt E path pt s =
      (Ok ([0, 0, 0, 1, b_version s] @ nonce @ raw @ tag), s\<lparr>b_draws := d\<rparr>)"
    using encrypt_layout [OF assms(1,2)] by metis
  obtain raw' tag' where "aead_enc E key (iv_arg E nonce) ?aad pt = Ok (raw', tag')"
    "aead_dec E key (iv_arg E nonce) ?aad raw' tag' = Ok pt" "crypter_new E key (iv_arg E nonce) = None"
    using aead_okE [OF assms(2) *(1)] by metis
  with *(4) have "barrier_decrypt E (Some key) path ([0, 0, 0, 1, b_version s] @ nonce @ raw @ tag) = Ok pt"
    using decrypt_layout [OF *(1,3) assms(3)] by auto
  then show ?thesis using *(1,2,3,5) by (auto simp: tag_len_def)
qed

section \<open>An unsealed barrier is a storage\<close>

definition barrier_stored ::
  "crypto \<Rightarrow> ('b \<Rightarrow> string \<Rightarrow> bytes option) \<Rightarrow> 'b barrier \<Rightarrow> string \<Rightarrow> bytes option" where
  "barrier_stored E contents s k =
     (case contents (b_backend s) k of
        None \<Rightarrow> None
      | Some c \<Rightarrow> (case barrier_decrypt E (b_key s) k c of Ok p \<Rightarrow> Some p | _ \<Rightarrow> None))"

definition barrier_valid :: "(string \<Rightarrow> bool) \<Rightarrow> string \<Rightarrow> bool" where
  "barrier_valid valid_key k \<longleftrightarrow> valid_key k \<and> k \<noteq> BARRIER_INIT_PATH"

definition barrier_ready ::
  "crypto \<Rightarrow> (string \<Rightarrow> bool) \<Rightarrow> ('b \<Rightarrow> string \<Rightarrow> bytes option) \<Rightarrow> ('b \<Rightarrow> bool) \<Rightarrow> 'b barrier \<Rightarrow> bool" where
  "barrier_ready E valid_key contents invar s \<longleftrightarrow>
     \<not> b_sealed s \<and> (\<exists>key. b_key s = Some key \<and> aead_ok E key) \<and>
     (b_version s = 1 \<or> b_version s = 2) \<and> invar (b_backend s) \<and>
     (\<forall>k c. barrier_valid valid_key k \<longrightarrow> contents (b_backend s) k = Some c \<longrightarrow>
        is_ok (barrier_decrypt E (b_key s) k c))"

lemma barrier_storage_sel:
  "storage_list (barrier_storage E ops) = barrier_list ops"
  "storage_get (barrier_storage E ops) = barrier_get E ops"
  "storage_put (barrier_storage E ops) = barrier_put E ops"
  "storage_delete (barrier_storage E ops) = barrier_delete ops"
  by (simp_all add: barrier_storage_def)

context physical_backend
begin

lemma barrier_get_stored:
  assumes "barrier_ready E valid_key contents invar s" "barrier_valid valid_key k"
  shows "barrier_get E ops k s =
    (Ok (map_option (\<lambda>v. \<lparr>se_key = k, se_value = v\<rparr>) (barrier_stored E contents s k)), s)"
proof -
  have r: "\<not> b_sealed s" "invar (b_backend s)" "valid_key k"
    using assms by (auto simp: barrier_ready_def barrier_valid_def)
  have g: "on_backend (backend_get ops k) s =
      (Ok (map_option (\<lambda>v. \<lparr>be_key = k, be_value = v\<rparr>) (contents (b_backend s) k)), s)"
    by (simp add: on_backend_def get_contents [OF r(2,3)])
  show ?thesis
  proof (cases "contents (b_backend s) k")
    case None
    with g r(1) show ?thesis by (simp add: barrier_get_def barrier_stored_def)
  next
    case (Some c)
    then obtain p where "barrier_decrypt E (b_key s) k c = Ok p"
      using assms by (auto simp: barrier_ready_def is_ok_iff)
    with Some g r(1) show ?thesis by (simp add: barrier_get_def barrier_stored_def)
  qed
qed

lemma barrier_put_stored:
  assumes R: "barrier_ready E valid_key contents invar s" and k: "barrier_valid valid_key k"
  shows "\<exists>s'. barrier_put E ops \<lparr>se_key = k, se_value = v\<rparr> s = (Ok (), s') \<and>
    barrier_ready E valid_key contents invar s' \<and>
    (\<forall>k'. barrier_valid valid_key k' \<longrightarrow>
      barrier_stored E contents s' k' = ((barrier_stored E contents s)(k \<mapsto> v)) k')"
proof -
  obtain key where key: "b_key s = Some key" "aead_ok E key" and ns: "\<not> b_sealed s"
    and ver: "b_version s = 1 \<or> b_version s = 2" and I: "invar (b_backend s)"
    using R by (auto simp: barrier_ready_def)
  obtain c d where enc: "barrier_encrypt E k v s = (Ok c, s\<lparr>b_draws := d\<rparr>)"
    and dec: "barrier_decrypt E (Some key) k c = Ok v"
    using decrypt_encrypt [OF key ver] by blast
  obtain b' where put: "backend_put ops \<lparr>be_key = k, be_value = c\<rparr> (b_backend s) = (Ok (), b')"
    and I': "invar b'"
    and upd: "\<And>k'. valid_key k' \<Longrightarrow> contents b' k' = ((contents (b_backend s))(k \<mapsto> c)) k'"
    using put_contents [OF I, of k c] k by (auto simp: barrier_valid_def)
  let ?s = "s\<lparr>b_draws := d, b_backend := b'\<rparr>"
  have "barrier_put E ops \<lparr>se_key = k, se_value = v\<rparr> s = (Ok (), ?s)"
    using ns enc put by (simp add: barrier_put_def on_backend_def)
  moreover have "barrier_ready E valid_key contents invar ?s"
    using R I' upd key(1) dec by (auto simp: barrier_ready_def barrier_valid_def)
  moreover have "barrier_stored E contents ?s k' = ((barrier_stored E contents s)(k \<mapsto> v)) k'"
    if "barrier_valid valid_key k'" for k'
    using upd [of k'] that key(1) dec
    by (cases "contents (b_backend s) k'") (auto simp: barrier_stored_def barrier_valid_def)
  ultimately show ?thesis by blast
qed

lemma barrier_delete_stored:
  assumes R: "barrier_ready E valid_key contents invar s" and k: "barrier_valid valid_key k"
  shows "\<exists>s'. barrier_delete ops k s = (Ok (), s') \<and>
    barrier_ready E valid_key contents invar s' \<and>
    (\<forall>k'. barrier_valid valid_key k' \<longrightarrow>
      barrier_stored E contents s' k' = ((barrier_stored E contents s)(k := None)) k')"
proof -
  obtain b' where del: "backend_delete ops k (b_backend s) = (Ok (), b')" and I': "invar b'"
    and upd: "\<And>k'. valid_key k' \<Longrightarrow> contents b' k' = ((contents (b_backend s))(k := None)) k'"
    using delete_contents [of "b_backend s" k] R k by (auto simp: barrier_ready_def barrier_valid_def)
  let ?s = "s\<lparr>b_backend := b'\<rparr>"
  have "barrier_delete ops k s = (Ok (), ?s)"
    using R del by (simp add: barrier_ready_def barrier_delete_def on_backend_def)
  moreover have "barrier_ready E valid_key contents invar ?s"
    using R I' upd by (auto simp: barrier_ready_def barrier_valid_def)
  moreover have "barrier_stored E contents ?s k' = ((barrier_stored E contents s)(k := None)) k'"
    if "barrier_valid valid_key k'" for k'
    using upd [of k'] that
    by (cases "contents (b_backend s) k'") (auto simp: barrier_stored_def barrier_valid_def)
  ultimately show ?thesis by blast
qed

end

sublocale physical_backend \<subseteq> bar: storage "barrier_storage E ops" "barrier_valid valid_key"
  "barrier_stored E contents" "barrier_ready E valid_key contents invar" for E
  by unfold_locales
    (unfold barrier_storage_sel, (erule (1) barrier_get_stored barrier_put_stored barrier_delete_stored)+)


text \<open>
  C6: the data path of an unsealed vault, from the barrier to the files. On well-formed keys other than the
  barrier's own record, what is stored through the barrier is read back decrypted, and a deleted key is absent; the
  other keys keep their values in both steps, and the barrier is ready after each.
\<close>

theorem barrier_on_files_is_storage:
  assumes "barrier_ready E file_key (file_contents de root) (file_invar ser de root) s"
    and "file_key k" "k \<noteq> BARRIER_INIT_PATH"
    and "barrier_put E (file_backend ser de root) \<lparr>se_key = k, se_value = v\<rparr> s = (r, s1)"
    and "barrier_delete (file_backend ser de root) k s1 = (r', s2)"
  shows "r = Ok () \<and> r' = Ok () \<and>
    barrier_ready E file_key (file_contents de root) (file_invar ser de root) s1 \<and>
    barrier_ready E file_key (file_contents de root) (file_invar ser de root) s2 \<and>
    barrier_get E (file_backend ser de root) k s1 = (Ok (Some \<lparr>se_key = k, se_value = v\<rparr>), s1) \<and>
    barrier_get E (file_backend ser de root) k s2 = (Ok None, s2) \<and>
    (\<forall>k'. file_key k' \<longrightarrow> k' \<noteq> BARRIER_INIT_PATH \<longrightarrow> k' \<noteq> k \<longrightarrow>
      fst (barrier_get E (file_backend ser de root) k' s1) = fst (barrier_get E (file_backend ser de root) k' s) \<and>
      fst (barrier_get E (file_backend ser de root) k' s2) = fst (barrier_get E (file_backend ser de root) k' s))"
proof -
  have k: "barrier_valid file_key k" using assms(2,3) by (simp add: barrier_valid_def)
  note p = fb.bar.put_then_get [OF assms(1) k, unfolded barrier_storage_sel, OF assms(4)]
  note d = fb.bar.delete_then_get [OF _ k, unfolded barrier_storage_sel, OF _ assms(5)]
  have "fst (barrier_get E (file_backend ser de root) k' s1) = fst (barrier_get E (file_backend ser de root) k' s) \<and>
        fst (barrier_get E (file_backend ser de root) k' s2) = fst (barrier_get E (file_backend ser de root) k' s)"
    if "file_key k'" "k' \<noteq> BARRIER_INIT_PATH" "k' \<noteq> k" for k'
  proof -
    have v: "barrier_valid file_key k'" using that by (simp add: barrier_valid_def)
    note f = fb.bar.put_frame [OF assms(1) k v that(3), unfolded barrier_storage_sel, OF assms(4)]
      fb.bar.delete_frame [OF _ k v that(3), unfolded barrier_storage_sel, OF _ assms(5)]
    show ?thesis using f p by simp
  qed
  with p d show ?thesis by blast
qed

text \<open>
  A sealed barrier refuses every storage operation with \<open>ErrBarrierSealed\<close>, gives out no key for the
  mount table's authentication code, and does not change.
\<close>

theorem sealed_barrier_refuses:
  assumes "b_sealed s"
  shows "barrier_list ops pfx s = (Err ErrBarrierSealed, s) \<and>
    barrier_get E ops k s = (Err ErrBarrierSealed, s) \<and>
    barrier_put E ops entry s = (Err ErrBarrierSealed, s) \<and>
    barrier_delete ops k s = (Err ErrBarrierSealed, s) \<and>
    derive_hmac_key E s \<in> {Err ErrBarrierNotInit, Err ErrBarrierSealed}"
  using assms
  by (simp add: barrier_list_def barrier_get_def barrier_put_def barrier_delete_def derive_hmac_key_def
      split: option.split)

context physical_backend
begin

lemma inited_iff:
  assumes "invar (b_backend s)" "valid_key BARRIER_INIT_PATH"
  shows "barrier_inited ops s = (Ok (contents (b_backend s) BARRIER_INIT_PATH \<noteq> None), s)"
  using assms by (simp add: barrier_inited_def on_backend_def get_contents)

text \<open>Initialisation stores the new key under the key encryption key and forgets both.\<close>

lemma init_effect:
  assumes I: "invar (b_backend s)" and v: "valid_key BARRIER_INIT_PATH"
    and fresh: "contents (b_backend s) BARRIER_INIT_PATH = None"
    and kek: "16 \<le> length kek" "length kek \<le> 32" "aead_ok E kek"
    and ver: "b_version s = 1 \<or> b_version s = 2"
  shows "\<exists>s' c. barrier_init E ops kek s = (Ok (), s') \<and>
    b_key s' = None \<and> b_sealed s' = b_sealed s \<and> b_version s' = b_version s \<and> invar (b_backend s') \<and>
    (\<forall>k. valid_key k \<longrightarrow>
      contents (b_backend s') k = ((contents (b_backend s))(BARRIER_INIT_PATH \<mapsto> c)) k) \<and>
    barrier_decrypt E (Some kek) BARRIER_INIT_PATH c =
      Ok (ser_init E \<lparr>bi_version = 1, bi_key = rng_fill E (b_draws s) 32\<rparr>)"
proof -
  let ?init = "\<lparr>bi_version = 1, bi_key = rng_fill E (b_draws s) 32\<rparr>"
  define s1 where "s1 = s\<lparr>b_draws := Suc (b_draws s), b_key := Some kek\<rparr>"
  have "b_key s1 = Some kek" "b_version s1 = 1 \<or> b_version s1 = 2" using ver by (auto simp: s1_def)
  then obtain c d where enc: "barrier_encrypt E BARRIER_INIT_PATH (ser_init E ?init) s1 =
      (Ok c, s1\<lparr>b_draws := d\<rparr>)"
    and dec: "barrier_decrypt E (Some kek) BARRIER_INIT_PATH c = Ok (ser_init E ?init)"
    using decrypt_encrypt [OF _ kek(3)] by metis
  obtain b' where put: "backend_put ops \<lparr>be_key = BARRIER_INIT_PATH, be_value = c\<rparr> (b_backend s) = (Ok (), b')"
    and I': "invar b'"
    and upd: "\<And>k. valid_key k \<Longrightarrow> contents b' k = ((contents (b_backend s))(BARRIER_INIT_PATH \<mapsto> c)) k"
    using put_contents [OF I v, of c] by auto
  have "barrier_init E ops kek s = (Ok (), s1\<lparr>b_draws := d, b_backend := b', b_key := None\<rparr>)"
    using kek inited_iff [OF I v] fresh put
    by (simp add: barrier_init_def key_length_range_def AES_BLOCK_SIZE_def Let_def op_bind_def
        generate_key_def draw_def init_cipher_def reset_cipher_def on_backend_def
        s1_def [symmetric] enc) (simp add: s1_def)
  then show ?thesis using dec I' upd by (auto simp: s1_def)
qed

lemma unseal_effect:
  assumes "b_sealed s" "invar (b_backend s)" "valid_key BARRIER_INIT_PATH"
    and "contents (b_backend s) BARRIER_INIT_PATH = Some c"
  shows "barrier_unseal E ops kek s =
    (case barrier_decrypt E (Some kek) BARRIER_INIT_PATH c of
       Panic \<Rightarrow> (Panic, s\<lparr>b_key := Some kek\<rparr>)
     | Err _ \<Rightarrow> (Err ErrBarrierUnsealFailed, s\<lparr>b_key := Some kek\<rparr>)
     | Ok v \<Rightarrow> (case de_init E v of
          None \<Rightarrow> (Err (External SerdeJson ''invalid barrier init''), s\<lparr>b_key := Some kek\<rparr>)
        | Some i \<Rightarrow> (Ok (), s\<lparr>b_key := Some (bi_key i), b_sealed := False\<rparr>)))"
  using assms
  by (simp add: barrier_unseal_def on_backend_def get_contents op_bind_def init_cipher_def Let_def
      split: res.split option.split)

end

lemma init_path_is_file_key: "file_key BARRIER_INIT_PATH"
  by (simp add: BARRIER_INIT_PATH_def file_key_def valid_component_def)

text \<open>
  C20: initialising a barrier over files that hold no barrier record succeeds with a key encryption key of
  16 to 32 bytes that the cipher accepts; the barrier stays sealed and keeps no key. Unsealing with the same
  key encryption key then succeeds and installs the generated key, a second initialisation is refused, and
  unsealing an unsealed barrier changes nothing.
\<close>

theorem barrier_init_unseal:
  assumes I: "file_invar ser de root fs" and fresh: "fst (file_get de root BARRIER_INIT_PATH fs) = Ok None"
    and kek: "16 \<le> length kek" "length kek \<le> 32" "aead_ok E kek"
    and codec: "\<And>i. de_init E (ser_init E i) = Some i"
  shows "\<exists>s1 s2. barrier_init E (file_backend ser de root) kek (barrier_new fs) = (Ok (), s1) \<and>
    b_sealed s1 \<and> b_key s1 = None \<and>
    barrier_init E (file_backend ser de root) kek s1 = (Err ErrBarrierAlreadyInit, s1) \<and>
    barrier_unseal E (file_backend ser de root) kek s1 = (Ok (), s2) \<and>
    \<not> b_sealed s2 \<and> b_key s2 = Some (rng_fill E 0 32) \<and> b_backend s2 = b_backend s1 \<and>
    barrier_unseal E (file_backend ser de root) kek' s2 = (Ok (), s2)"
proof -
  let ?ops = "file_backend ser de root" and ?s = "barrier_new fs"
  have "file_contents de root fs BARRIER_INIT_PATH = None"
    using fresh file_get_contents [OF I init_path_is_file_key] by simp
  then obtain s1 c where s1: "barrier_init E ?ops kek ?s = (Ok (), s1)" "b_key s1 = None"
    "b_sealed s1" "file_invar ser de root (b_backend s1)"
    and upd: "\<And>k. file_key k \<Longrightarrow> file_contents de root (b_backend s1) k =
      ((file_contents de root fs)(BARRIER_INIT_PATH \<mapsto> c)) k"
    and dec: "barrier_decrypt E (Some kek) BARRIER_INIT_PATH c =
      Ok (ser_init E \<lparr>bi_version = 1, bi_key = rng_fill E 0 32\<rparr>)"
    using fb.init_effect [of ser de root ?s kek E] I kek init_path_is_file_key
    by (auto simp: barrier_new_def)
  have c: "file_contents de root (b_backend s1) BARRIER_INIT_PATH = Some c"
    using upd init_path_is_file_key by simp
  have again: "barrier_init E ?ops kek s1 = (Err ErrBarrierAlreadyInit, s1)"
    using fb.inited_iff [OF s1(4) init_path_is_file_key] kek c
    by (simp add: barrier_init_def key_length_range_def AES_BLOCK_SIZE_def)
  have "barrier_unseal E ?ops kek s1 =
      (Ok (), s1\<lparr>b_key := Some (rng_fill E 0 32), b_sealed := False\<rparr>)"
    using fb.unseal_effect [OF s1(3,4) init_path_is_file_key c, of E kek] dec codec by simp
  with s1 again show ?thesis by (auto simp: barrier_unseal_def)
qed

text \<open>
  Unsealing with a key encryption key under which the stored record does not decrypt fails with
  \<open>ErrBarrierUnsealFailed\<close>: the barrier stays sealed, so every storage operation is still refused, and
  neither the backend nor the version changes.
\<close>

theorem barrier_unseal_wrong_key:
  assumes "b_sealed s" "file_invar ser de root (b_backend s)"
    and "file_get de root BARRIER_INIT_PATH (b_backend s) =
      (Ok (Some \<lparr>be_key = BARRIER_INIT_PATH, be_value = [0, 0, 0, 1, 2] @ nonce @ raw @ tag\<rparr>), b_backend s)"
    and "length nonce = iv_len E" "length tag = tag_len" "crypter_new E kek (iv_arg E nonce) = None"
    and reject: "aead_dec E kek (iv_arg E nonce) (Some (str_bytes BARRIER_INIT_PATH)) raw tag = Err e"
  shows "\<exists>s'. barrier_unseal E (file_backend ser de root) kek s = (Err ErrBarrierUnsealFailed, s') \<and>
    b_sealed s' \<and> b_backend s' = b_backend s \<and> b_version s' = b_version s \<and>
    barrier_get E (file_backend ser de root) k s' = (Err ErrBarrierSealed, s')"
proof -
  let ?c = "[0, 0, 0, 1, 2] @ nonce @ raw @ tag"
  have c: "file_contents de root (b_backend s) BARRIER_INIT_PATH = Some ?c"
    using assms(3) file_get_contents [OF assms(2) init_path_is_file_key]
    by (auto simp: map_option_case split: option.splits)
  have "barrier_decrypt E (Some kek) BARRIER_INIT_PATH ?c = Err e"
    using decrypt_layout [OF assms(4,5) _ assms(6), of 2] reject by simp
  then have "barrier_unseal E (file_backend ser de root) kek s =
      (Err ErrBarrierUnsealFailed, s\<lparr>b_key := Some kek\<rparr>)"
    using fb.unseal_effect [OF assms(1,2) init_path_is_file_key c, of E kek] by simp
  then show ?thesis using assms(1) by (auto simp: barrier_get_def)
qed

text \<open>
  A stored value that has the right epoch but is too short for a nonce and a tag is not reported as an
  error: the slice is out of range and the thread panics.
\<close>

theorem decrypt_short_value_panics:
  assumes "take 4 c = [0, 0, 0, 1]" "length c < 5 + iv_len E + tag_len"
    and "0 < iv_len E" "\<And>iv. crypter_new E key (Some iv) = None"
    and "4 < length c \<longrightarrow> c ! 4 \<in> {1, 2}"
  shows "barrier_decrypt E (Some key) path c = Panic"
proof -
  obtain rest where "c = 0 # 0 # 0 # 1 # rest"
    using assms(1) by (metis append_Cons append_Nil append_take_drop_id)
  then show ?thesis using assms by (auto simp: barrier_decrypt_def Let_def)
qed


section \<open>A concrete environment\<close>

text \<open>
  A stand-in for the cipher, to show that the hypotheses can be met: the text is not hidden, the tag is made
  of the first bytes of the key and of the end of the associated data.
\<close>

definition demo_tag :: "bytes \<Rightarrow> bytes option \<Rightarrow> bytes" where
  "demo_tag key aad =
     take 8 (key @ replicate 8 0) @ take 8 (rev (case aad of Some a \<Rightarrow> a | None \<Rightarrow> []) @ replicate 8 0)"

definition demo_crypto :: crypto where
  "demo_crypto =
     \<lparr>iv_len = 12,
      crypter_new = (\<lambda>key _. if length key = 32 then None else Some (External OpenSSL ''key length'')),
      aead_enc = (\<lambda>key iv aad pt. Ok (pt, demo_tag key aad)),
      aead_dec = (\<lambda>key iv aad raw tag.
        if tag = demo_tag key aad then Ok raw else Err (External OpenSSL ''tag'')),
      sha256 = (\<lambda>d. Ok (take 32 (d @ replicate 32 0))),
      rng_fill = (\<lambda>i n. replicate n (of_nat i)),
      ser_init = (\<lambda>i. replicate (unat (bi_version i)) 1 @ 0 # bi_key i),
      de_init = (\<lambda>d. let n = length (takeWhile (\<lambda>w. w = 1) d) in
        Some \<lparr>bi_version = of_nat n, bi_key = drop (n + 1) d\<rparr>)\<rparr>"

lemma demo_tag_length: "length (demo_tag key aad) = 16"
  by (simp add: demo_tag_def)

lemma demo_aead_ok: "length key = 32 \<Longrightarrow> aead_ok demo_crypto key"
  by (simp add: aead_ok_def demo_crypto_def demo_tag_length tag_len_def iv_arg_def)


lemma demo_init_codec: "de_init demo_crypto (ser_init demo_crypto i) = Some i"
proof -
  have "takeWhile (\<lambda>w. w = 1) (replicate n (1 :: u8) @ 0 # s) = replicate n 1" for n s
    by (induction n) auto
  then show ?thesis by (cases i) (simp add: demo_crypto_def Let_def)
qed

definition demo_ops :: "fs backend_ops" where
  "demo_ops = file_backend demo_ser demo_de [''data'']"

definition demo_unsealed :: "fs barrier" where
  "demo_unsealed = \<lparr>b_sealed = False, b_key = Some (replicate 32 7), b_version = 2, b_backend = [], b_draws = 0\<rparr>"

lemma demo_ready:
  "barrier_ready demo_crypto file_key (file_contents demo_de [''data''])
     (file_invar demo_ser demo_de [''data'']) demo_unsealed"
  using demo_invar by (simp add: barrier_ready_def demo_unsealed_def demo_aead_ok file_contents_def)

theorem sealed_barrier_refuses_witness:
  "barrier_get demo_crypto mock_backend ''secret/a'' (snd (barrier_seal (barrier_new ()))) =
     (Err ErrBarrierSealed, snd (barrier_seal (barrier_new ())))"
  using sealed_barrier_refuses [of "snd (barrier_seal (barrier_new ()))" mock_backend _ demo_crypto] by (simp add: barrier_seal_def)

theorem barrier_on_files_is_storage_witness:
  "\<exists>s1 s2. barrier_put demo_crypto demo_ops \<lparr>se_key = ''core'', se_value = [1, 2]\<rparr> demo_unsealed = (Ok (), s1) \<and>
    barrier_get demo_crypto demo_ops ''core'' s1 = (Ok (Some \<lparr>se_key = ''core'', se_value = [1, 2]\<rparr>), s1) \<and>
    barrier_delete demo_ops ''core'' s1 = (Ok (), s2) \<and>
    barrier_get demo_crypto demo_ops ''core'' s2 = (Ok None, s2) \<and>
    fst (barrier_get demo_crypto demo_ops ''core/a'' s2) = fst (barrier_get demo_crypto demo_ops ''core/a'' demo_unsealed)"
proof -
  obtain r s1 where p: "barrier_put demo_crypto (file_backend demo_ser demo_de [''data''])
      \<lparr>se_key = ''core'', se_value = [1, 2]\<rparr> demo_unsealed = (r, s1)" by fastforce
  obtain r' s2 where d: "barrier_delete (file_backend demo_ser demo_de [''data'']) ''core'' s1 = (r', s2)"
    by fastforce
  have n: "''core'' \<noteq> BARRIER_INIT_PATH" by (simp add: BARRIER_INIT_PATH_def)
  have "file_key ''core/a''" "''core/a'' \<noteq> BARRIER_INIT_PATH" "''core/a'' \<noteq> ''core''" by code_simp+
  with barrier_on_files_is_storage [OF demo_ready demo_key(2) n p d] p d show ?thesis
    unfolding demo_ops_def by auto
qed

theorem barrier_init_unseal_witness:
  "\<exists>s1 s2. barrier_init demo_crypto demo_ops (replicate 32 7) (barrier_new []) = (Ok (), s1) \<and>
    barrier_unseal demo_crypto demo_ops (replicate 32 7) s1 = (Ok (), s2) \<and>
    \<not> b_sealed s2 \<and> b_key s2 = Some (replicate 32 0)"
proof -
  have g: "fst (file_get demo_de [''data''] BARRIER_INIT_PATH []) = Ok None" by code_simp
  have r: "rng_fill demo_crypto 0 32 = replicate 32 0" by (simp add: demo_crypto_def)
  have "16 \<le> length (replicate 32 (7 :: u8))" "length (replicate 32 (7 :: u8)) \<le> 32"
    "aead_ok demo_crypto (replicate 32 7)" by (simp_all add: demo_aead_ok)
  from barrier_init_unseal [OF demo_invar g this demo_init_codec] show ?thesis
    unfolding demo_ops_def r by blast
qed

definition demo_sealed :: "fs barrier" where
  "demo_sealed = snd (barrier_init demo_crypto demo_ops (replicate 32 7) (barrier_new []))"

theorem barrier_unseal_wrong_key_witness:
  "\<exists>s'. barrier_unseal demo_crypto demo_ops (replicate 32 8) demo_sealed = (Err ErrBarrierUnsealFailed, s') \<and>
    b_sealed s'"
proof -
  have I: "file_invar demo_ser demo_de [''data''] (b_backend demo_sealed)"
    using fb.init_effect [of demo_ser demo_de "[''data'']" "barrier_new []" "replicate 32 7" demo_crypto]
      demo_invar init_path_is_file_key
    by (auto simp: demo_sealed_def demo_ops_def barrier_new_def demo_aead_ok file_contents_def)
  have g: "file_get demo_de [''data''] BARRIER_INIT_PATH (b_backend demo_sealed) =
      (Ok (Some \<lparr>be_key = BARRIER_INIT_PATH, be_value = [0, 0, 0, 1, 2] @ replicate 12 1 @
        (1 # 0 # replicate 32 0) @
        demo_tag (replicate 32 7) (Some (str_bytes BARRIER_INIT_PATH))\<rparr>), b_backend demo_sealed)"
    by code_simp
  have s: "b_sealed demo_sealed" by code_simp
  have c: "crypter_new demo_crypto (replicate 32 8) (iv_arg demo_crypto (replicate 12 1)) = None"
    by (simp add: demo_crypto_def)
  have "demo_tag (replicate 32 7) (Some (str_bytes BARRIER_INIT_PATH)) \<noteq>
      demo_tag (replicate 32 8) (Some (str_bytes BARRIER_INIT_PATH))"
    by (simp add: demo_tag_def)
  then have "aead_dec demo_crypto (replicate 32 8) (iv_arg demo_crypto (replicate 12 1))
      (Some (str_bytes BARRIER_INIT_PATH)) (1 # 0 # replicate 32 0)
      (demo_tag (replicate 32 7) (Some (str_bytes BARRIER_INIT_PATH))) = Err (External OpenSSL ''tag'')"
    by (simp add: demo_crypto_def)
  from barrier_unseal_wrong_key [OF s I g _ _ c this] show ?thesis
    unfolding demo_ops_def by (auto simp: demo_crypto_def demo_tag_length tag_len_def)
qed

theorem decrypt_short_value_panics_witness:
  "barrier_decrypt demo_crypto (Some (replicate 32 7)) ''a'' [0, 0, 0, 1, 2, 5, 5, 5] = Panic"
  by (rule decrypt_short_value_panics) (simp_all add: demo_crypto_def tag_len_def)

end
