(* ===== verification/Barrier_View.thy ===== *)
theory Barrier_View
  imports Barrier
begin

text \<open>
  The barrier view \<open>src/storage/barrier_view.rs\<close>: a storage under a key prefix of another storage. A view
  is its prefix; the storage below is an argument of the operations.

  Shown: keys that could leave the view are refused before the storage is touched, a view over a storage
  is a storage (a \<open>sublocale\<close>), what is done through a view leaves every key outside its prefix alone, and
  a view of a view is a view under the joined prefix.
\<close>

record barrier_view =
  bv_prefix :: string

definition view_new :: "string \<Rightarrow> barrier_view" where
  "view_new pfx = \<lparr>bv_prefix = pfx\<rparr>"

definition expand_key :: "barrier_view \<Rightarrow> string \<Rightarrow> string" where
  "expand_key v key = bv_prefix v @ key"

definition truncate_key :: "barrier_view \<Rightarrow> string \<Rightarrow> string" where
  "truncate_key v full = (case strip_prefix full (bv_prefix v) of Some r \<Rightarrow> r | None \<Rightarrow> full)"

definition sanity_check :: "string \<Rightarrow> unit res" where
  "sanity_check key =
     (if str_contains key ''..'' \<or> starts_with key ''/'' then Err ErrBarrierKeySanityCheckFailed else Ok ())"

definition new_sub_view :: "barrier_view \<Rightarrow> string \<Rightarrow> barrier_view" where
  "new_sub_view v pfx = \<lparr>bv_prefix = expand_key v pfx\<rparr>"

definition view_list :: "'s storage_ops \<Rightarrow> barrier_view \<Rightarrow> string \<Rightarrow> ('s, string list) op" where
  "view_list sops v pfx =
     op_bind (op_res (sanity_check pfx)) (\<lambda>_. storage_list sops (expand_key v pfx))"

definition view_get :: "'s storage_ops \<Rightarrow> barrier_view \<Rightarrow> string \<Rightarrow> ('s, storage_entry option) op" where
  "view_get sops v key =
     op_bind (op_res (sanity_check key)) (\<lambda>_.
     op_bind (storage_get sops (expand_key v key)) (\<lambda>r.
       case r of
         Some e \<Rightarrow> op_return (Some \<lparr>se_key = truncate_key v (se_key e), se_value = se_value e\<rparr>)
       | None \<Rightarrow> op_return None))"

definition view_put :: "'s storage_ops \<Rightarrow> barrier_view \<Rightarrow> storage_entry \<Rightarrow> ('s, unit) op" where
  "view_put sops v e =
     op_bind (op_res (sanity_check (se_key e))) (\<lambda>_.
       storage_put sops \<lparr>se_key = expand_key v (se_key e), se_value = se_value e\<rparr>)"

definition view_delete :: "'s storage_ops \<Rightarrow> barrier_view \<Rightarrow> string \<Rightarrow> ('s, unit) op" where
  "view_delete sops v key =
     op_bind (op_res (sanity_check key)) (\<lambda>_. storage_delete sops (expand_key v key))"

definition view_storage :: "'s storage_ops \<Rightarrow> barrier_view \<Rightarrow> 's storage_ops" where
  "view_storage sops v =
     \<lparr>storage_list = view_list sops v, storage_get = view_get sops v,
      storage_put = view_put sops v, storage_delete = view_delete sops v\<rparr>"

text \<open>
  \<open>get_keys\<close>: a depth-first walk with a stack of paths (the last one is taken next). Whether it ends
  depends on the storage, so the loop is a partial function: \<open>None\<close> is a walk that does not end.
\<close>

fun sort_items :: "string \<Rightarrow> string list \<Rightarrow> string list \<times> string list \<Rightarrow> string list \<times> string list" where
  "sort_items cur [] (paths, keys) = (paths, keys)"
| "sort_items cur (p # items) (paths, keys) =
     (let path = cur @ p in
      if ends_with p ''/'' then sort_items cur items (paths @ [path], keys)
      else sort_items cur items (paths, keys @ [path]))"

partial_function (option) get_keys_loop ::
  "'s storage_ops \<Rightarrow> barrier_view \<Rightarrow> string list \<Rightarrow> string list \<Rightarrow> 's \<Rightarrow> (string list res \<times> 's) option" where
  "get_keys_loop sops v paths keys s =
     (if paths = [] then Some (Ok keys, s)
      else
        let cur = last paths in
        case view_list sops v cur s of
          (Ok items, s') \<Rightarrow>
            (case sort_items cur items (butlast paths, keys) of
               (paths', keys') \<Rightarrow> get_keys_loop sops v paths' keys' s')
        | (Err e, s') \<Rightarrow> Some (Err e, s')
        | (Panic, s') \<Rightarrow> Some (Panic, s'))"

definition get_keys :: "'s storage_ops \<Rightarrow> barrier_view \<Rightarrow> 's \<Rightarrow> (string list res \<times> 's) option" where
  "get_keys sops v s =
     map_option (\<lambda>(r, s'). (res_bind r (\<lambda>keys. Ok (sort keys)), s')) (get_keys_loop sops v [[]] [] s)"

definition view_clear :: "'s storage_ops \<Rightarrow> barrier_view \<Rightarrow> 's \<Rightarrow> (unit res \<times> 's) option" where
  "view_clear sops v s =
     map_option (\<lambda>(r, s'). op_bind (op_res r) (\<lambda>keys. op_iter (view_delete sops v) keys) s')
       (get_keys sops v s)"

section \<open>Sanity check\<close>

lemma sanity_check_Ok_iff:
  "sanity_check k = Ok () \<longleftrightarrow> \<not> str_contains k ''..'' \<and> \<not> starts_with k ''/''"
  by (simp add: sanity_check_def)

lemma truncate_expand [simp]: "truncate_key v (expand_key v k) = k"
  by (simp add: truncate_key_def expand_key_def strip_prefix_def)

text \<open>
  A key with two consecutive dots or a leading slash is refused by every operation of a view, and the
  storage below is not called: its state is the same.
\<close>

theorem view_refuses_escaping_keys:
  assumes "str_contains key ''..'' \<or> starts_with key ''/''"
  shows "view_list sops v key s = (Err ErrBarrierKeySanityCheckFailed, s) \<and>
    view_get sops v key s = (Err ErrBarrierKeySanityCheckFailed, s) \<and>
    view_put sops v \<lparr>se_key = key, se_value = val\<rparr> s = (Err ErrBarrierKeySanityCheckFailed, s) \<and>
    view_delete sops v key s = (Err ErrBarrierKeySanityCheckFailed, s)"
  using assms
  by (simp add: view_list_def view_get_def view_put_def view_delete_def sanity_check_def)

theorem view_refuses_escaping_keys_witness:
  "view_put (barrier_storage demo_crypto demo_ops) (view_new ''logical/1/'')
     \<lparr>se_key = ''a/../../../core/mounts'', se_value = []\<rparr> demo_unsealed =
     (Err ErrBarrierKeySanityCheckFailed, demo_unsealed)"
proof -
  have e: "str_contains ''a/../../../core/mounts'' ''..'' \<or> starts_with ''a/../../../core/mounts'' ''/''"
    by code_simp
  show ?thesis by (simp add: view_refuses_escaping_keys [OF e])
qed

section \<open>A view of a storage is a storage\<close>

definition view_valid :: "(string \<Rightarrow> bool) \<Rightarrow> barrier_view \<Rightarrow> string \<Rightarrow> bool" where
  "view_valid valid v k \<longleftrightarrow> sanity_check k = Ok () \<and> valid (expand_key v k)"

definition view_stored :: "('s \<Rightarrow> string \<Rightarrow> bytes option) \<Rightarrow> barrier_view \<Rightarrow> 's \<Rightarrow> string \<Rightarrow> bytes option" where
  "view_stored stored v s k = stored s (expand_key v k)"

lemma view_storage_sel:
  "storage_list (view_storage sops v) = view_list sops v"
  "storage_get (view_storage sops v) = view_get sops v"
  "storage_put (view_storage sops v) = view_put sops v"
  "storage_delete (view_storage sops v) = view_delete sops v"
  by (simp_all add: view_storage_def)

lemma expand_key_inj [simp]: "expand_key v a = expand_key v b \<longleftrightarrow> a = b"
  by (simp add: expand_key_def)

locale storage_view = storage sops valid stored ready
  for sops :: "'s storage_ops" and valid stored ready +
  fixes v :: barrier_view
begin

lemma view_get_stored:
  assumes "ready s" "view_valid valid v k"
  shows "view_get sops v k s =
    (Ok (map_option (\<lambda>x. \<lparr>se_key = k, se_value = x\<rparr>) (view_stored stored v s k)), s)"
  using assms get_stored [OF assms(1), of "expand_key v k"]
  by (cases "stored s (expand_key v k)")
    (auto simp: view_valid_def view_get_def view_stored_def op_bind_def)

lemma view_put_stored:
  assumes "ready s" "view_valid valid v k"
  shows "\<exists>s'. view_put sops v \<lparr>se_key = k, se_value = x\<rparr> s = (Ok (), s') \<and> ready s' \<and>
    (\<forall>k'. view_valid valid v k' \<longrightarrow>
      view_stored stored v s' k' = ((view_stored stored v s)(k \<mapsto> x)) k') \<and>
    (\<forall>k'. valid k' \<longrightarrow> \<not> starts_with k' (bv_prefix v) \<longrightarrow> stored s' k' = stored s k')"
proof -
  obtain s' where "storage_put sops \<lparr>se_key = expand_key v k, se_value = x\<rparr> s = (Ok (), s')" "ready s'"
    and u: "\<And>k'. valid k' \<Longrightarrow> stored s' k' = ((stored s)(expand_key v k \<mapsto> x)) k'"
    using put_stored [OF assms(1), of "expand_key v k" x] assms(2) by (auto simp: view_valid_def)
  moreover have "\<not> starts_with k' (bv_prefix v) \<Longrightarrow> k' \<noteq> expand_key v k" for k'
    by (auto simp: expand_key_def)
  ultimately show ?thesis
    using assms(2) by (auto simp: view_put_def view_valid_def view_stored_def)
qed

lemma view_delete_stored:
  assumes "ready s" "view_valid valid v k"
  shows "\<exists>s'. view_delete sops v k s = (Ok (), s') \<and> ready s' \<and>
    (\<forall>k'. view_valid valid v k' \<longrightarrow>
      view_stored stored v s' k' = ((view_stored stored v s)(k := None)) k') \<and>
    (\<forall>k'. valid k' \<longrightarrow> \<not> starts_with k' (bv_prefix v) \<longrightarrow> stored s' k' = stored s k')"
proof -
  obtain s' where "storage_delete sops (expand_key v k) s = (Ok (), s')" "ready s'"
    and u: "\<And>k'. valid k' \<Longrightarrow> stored s' k' = ((stored s)(expand_key v k := None)) k'"
    using delete_stored [OF assms(1), of "expand_key v k"] assms(2) by (auto simp: view_valid_def)
  moreover have "\<not> starts_with k' (bv_prefix v) \<Longrightarrow> k' \<noteq> expand_key v k" for k'
    by (auto simp: expand_key_def)
  ultimately show ?thesis
    using assms(2) by (auto simp: view_delete_def view_valid_def view_stored_def)
qed

end

sublocale storage_view \<subseteq> vw: storage "view_storage sops v" "view_valid valid v" "view_stored stored v" ready
  by unfold_locales
    (unfold view_storage_sel, (use view_get_stored view_put_stored view_delete_stored in blast)+)

interpretation fbv: storage_view "barrier_storage E (file_backend ser de root)" "barrier_valid file_key"
  "barrier_stored E (file_contents de root)"
  "barrier_ready E file_key (file_contents de root) (file_invar ser de root)" v
  for E ser de root v
  by unfold_locales


lemma views_disjoint:
  assumes "\<not> starts_with (bv_prefix v) (bv_prefix w)" "\<not> starts_with (bv_prefix w) (bv_prefix v)"
  shows "\<not> starts_with (expand_key w k) (bv_prefix v)"
  using assms by (auto simp: expand_key_def starts_with_iff_prefix) (meson prefix_same_cases prefixI)

text \<open>
  C24: views isolate their clients. What is stored through a view over an unsealed barrier on files is read
  back through it under the same key, and nothing that another view with an incomparable prefix reads is
  changed, nor any other key that is outside the prefix.
\<close>

theorem views_are_isolated:
  assumes R: "barrier_ready E file_key (file_contents de root) (file_invar ser de root) s"
    and k: "view_valid (barrier_valid file_key) v k"
    and put: "view_put (barrier_storage E (file_backend ser de root)) v \<lparr>se_key = k, se_value = x\<rparr> s = (r, s1)"
  shows "r = Ok () \<and>
    view_get (barrier_storage E (file_backend ser de root)) v k s1 = (Ok (Some \<lparr>se_key = k, se_value = x\<rparr>), s1) \<and>
    (\<forall>w k'. \<not> starts_with (bv_prefix v) (bv_prefix w) \<longrightarrow> \<not> starts_with (bv_prefix w) (bv_prefix v) \<longrightarrow>
       view_valid (barrier_valid file_key) w k' \<longrightarrow>
       fst (view_get (barrier_storage E (file_backend ser de root)) w k' s1) =
         fst (view_get (barrier_storage E (file_backend ser de root)) w k' s)) \<and>
    (\<forall>k'. barrier_valid file_key k' \<longrightarrow> \<not> starts_with k' (bv_prefix v) \<longrightarrow>
       fst (barrier_get E (file_backend ser de root) k' s1) =
         fst (barrier_get E (file_backend ser de root) k' s))"
proof -
  let ?st = "barrier_stored E (file_contents de root)"
  obtain s' where s': "r = Ok ()" "s1 = s'"
    "barrier_ready E file_key (file_contents de root) (file_invar ser de root) s'"
    and frame: "\<And>k'. barrier_valid file_key k' \<Longrightarrow> \<not> starts_with k' (bv_prefix v) \<Longrightarrow> ?st s' k' = ?st s k'"
    using fbv.view_put_stored [OF R k, of x] put by auto
  have own: "view_get (barrier_storage E (file_backend ser de root)) v k s1 =
      (Ok (Some \<lparr>se_key = k, se_value = x\<rparr>), s1)"
    using fbv.vw.put_then_get [OF R k, unfolded view_storage_sel, OF put] by blast
  have others: "fst (view_get (barrier_storage E (file_backend ser de root)) w k' s1) =
      fst (view_get (barrier_storage E (file_backend ser de root)) w k' s)"
    if "\<not> starts_with (bv_prefix v) (bv_prefix w)" "\<not> starts_with (bv_prefix w) (bv_prefix v)"
      and vk: "view_valid (barrier_valid file_key) w k'" for w k'
    using fbv.view_get_stored [OF R vk] fbv.view_get_stored [OF s'(3) vk]
      frame [of "expand_key w k'"] views_disjoint [OF that(1,2)] vk s'(2)
    by (simp add: view_stored_def view_valid_def)
  have "fst (barrier_get E (file_backend ser de root) k' s1) =
      fst (barrier_get E (file_backend ser de root) k' s)"
    if "barrier_valid file_key k'" "\<not> starts_with k' (bv_prefix v)" for k'
    using fb.barrier_get_stored [OF R that(1)] fb.barrier_get_stored [OF s'(3) that(1)]
      frame [OF that] s'(2) by simp
  with s'(1) own others show ?thesis by blast
qed

theorem views_are_isolated_witness:
  "\<exists>s1. view_put (barrier_storage demo_crypto demo_ops) (view_new ''logical/1/'')
      \<lparr>se_key = ''foo'', se_value = [9]\<rparr> demo_unsealed = (Ok (), s1) \<and>
    view_get (barrier_storage demo_crypto demo_ops) (view_new ''logical/1/'') ''foo'' s1 =
      (Ok (Some \<lparr>se_key = ''foo'', se_value = [9]\<rparr>), s1) \<and>
    fst (view_get (barrier_storage demo_crypto demo_ops) (view_new ''sys/'') ''foo'' s1) = Ok None"
proof -
  have v: "view_valid (barrier_valid file_key) (view_new ''logical/1/'') ''foo''"
    "view_valid (barrier_valid file_key) (view_new ''sys/'') ''foo''" by code_simp+
  have d: "\<not> starts_with (bv_prefix (view_new ''logical/1/'')) (bv_prefix (view_new ''sys/''))"
    "\<not> starts_with (bv_prefix (view_new ''sys/'')) (bv_prefix (view_new ''logical/1/''))" by code_simp+
  have o: "fst (view_get (barrier_storage demo_crypto demo_ops) (view_new ''sys/'') ''foo'' demo_unsealed) = Ok None"
    by code_simp
  obtain r s1 where p: "view_put (barrier_storage demo_crypto (file_backend demo_ser demo_de [''data'']))
      (view_new ''logical/1/'') \<lparr>se_key = ''foo'', se_value = [9]\<rparr> demo_unsealed = (r, s1)" by fastforce
  from views_are_isolated [OF demo_ready v(1) p] p v(2) d o show ?thesis
    unfolding demo_ops_def by auto
qed

text \<open>A view of a view does what the outer view does under the joined key.\<close>

lemma sub_view_put:
  assumes "sanity_check (q @ k) = Ok ()" "\<not> starts_with k ''/''"
  shows "view_put sops (new_sub_view v q) \<lparr>se_key = k, se_value = x\<rparr> =
    view_put sops v \<lparr>se_key = q @ k, se_value = x\<rparr>"
proof -
  have "\<not> str_contains k ''..''"
    using assms(1) unfolding sanity_check_Ok_iff str_contains_iff by (metis append.assoc)
  then have "sanity_check k = Ok ()" using assms(2) by (simp add: sanity_check_Ok_iff)
  then show ?thesis
    using assms(1) by (auto simp: view_put_def new_sub_view_def expand_key_def fun_eq_iff)
qed

end
