(* ===== verification/Logical.thy ===== *)
theory Logical
  imports Barrier_View
begin

text \<open>
  The logical layer, \<open>src/logical/\<close>: operations, typed fields (\<open>field.rs\<close>), requests and responses
  (\<open>request.rs\<close>, \<open>response.rs\<close>), leases and their time-to-live (\<open>lease.rs\<close>), authentication data (\<open>auth.rs\<close>),
  secrets (\<open>secret.rs\<close>) and the dispatch of a request by a \<open>LogicalBackend\<close> (\<open>backend.rs\<close>).

  A duration is its number of nanoseconds; a time is its number of nanoseconds since the epoch, negative
  before it. The parsers of \<open>humantime\<close> and \<open>serde_json\<close> and the regular expressions are arguments.
  A handler acts on the pair of the vault's state and the request. The fields \<open>id\<close>, \<open>name\<close>, \<open>headers\<close> and \<open>ctx\<close> of a
  request and \<open>headers\<close> of a response, which none of the modelled operations read, are left out.
\<close>

section \<open>Data\<close>

datatype operation = List | Read | Write | Delete | Help | Renew | Revoke | Rollback

datatype handle_phase = PreAuth | PostAuth | PreRoute | Route | PostRoute | LogPhase

datatype field_type = Str | SecretStr | IntType | BoolType | MapType | ArrayType | DurationSecond | CommaStringSlice

type_synonym duration = nat
type_synonym json_obj = "(string \<times> json) list"

record field =
  required :: bool
  field_type :: field_type
  field_default :: json

record lease =
  ttl :: duration
  max_ttl :: duration
  renewable :: bool
  increment :: duration
  issue_time :: "int option"

record policy_info =
  pi_name :: string
  pi_namespace_id :: string
  pi_namespace_path :: string
  pi_type :: string

record policy_results =
  pr_allowed :: bool
  pr_granting_policies :: "policy_info list"

record auth =
  au_lease :: lease
  au_client_token :: string
  au_display_name :: string
  au_policies :: "string list"
  au_token_policies :: "string list"
  au_no_default_policy :: bool
  au_internal_data :: "string \<Rightarrow> string option"
  au_metadata :: "string \<Rightarrow> string option"
  au_policy_results :: "policy_results option"
  au_period :: duration
  au_explicit_max_ttl :: duration

record secret_data =
  sd_lease :: lease
  sd_lease_id :: string
  sd_internal_data :: json_obj

record lpath =
  lp_pattern :: string
  lp_fields :: "(string \<times> field) list"

record connection =
  peer_addr :: string
  peer_tls_cert :: "bytes list option"

record request =
  rq_name :: string
  rq_operation :: operation
  rq_path :: string
  rq_match_path :: "lpath option"
  rq_body :: "json_obj option"
  rq_data :: "json_obj option"
  rq_client_token :: string
  rq_storage :: "barrier_view option"
  rq_connection :: "connection option"
  rq_secret :: "secret_data option"
  rq_auth :: "auth option"
  rq_handler :: "string option"
  rq_handle_phase :: handle_phase

record response =
  rs_request_id :: string
  rs_data :: "json_obj option"
  rs_auth :: "auth option"
  rs_secret :: "secret_data option"
  rs_redirect :: string
  rs_warnings :: "string list"

definition request_new :: "string \<Rightarrow> request" where
  "request_new p =
     \<lparr>rq_name = [], rq_operation = Read, rq_path = p, rq_match_path = None, rq_body = None, rq_data = None,
      rq_client_token = [], rq_storage = None, rq_connection = None, rq_secret = None, rq_auth = None,
      rq_handler = None, rq_handle_phase = PreRoute\<rparr>"

definition response_new :: response where
  "response_new = \<lparr>rs_request_id = [], rs_data = None, rs_auth = None, rs_secret = None,
     rs_redirect = [], rs_warnings = []\<rparr>"

definition data_response :: "json_obj option \<Rightarrow> response" where
  "data_response d = response_new\<lparr>rs_data := d\<rparr>"

definition list_response :: "string list \<Rightarrow> response" where
  "list_response keys = response_new\<lparr>rs_data := Some [(''keys'', JArray (map JString keys))]\<rparr>"

text \<open>\<open>Map::insert\<close> of \<open>serde_json\<close>: the entries are kept in the order of the keys.\<close>

definition obj_insert :: "string \<Rightarrow> json \<Rightarrow> json_obj \<Rightarrow> json_obj" where
  "obj_insert k v m = insort_key fst (k, v) (filter (\<lambda>(k', _). k' \<noteq> k) m)"

definition error_response :: "string \<Rightarrow> response" where
  "error_response txt = response_new\<lparr>rs_data := Some [(''error'', JString txt)]\<rparr>"

definition help_response :: "string \<Rightarrow> string list \<Rightarrow> response" where
  "help_response txt see_also =
     response_new\<lparr>rs_data := Some [(''help'', JString txt), (''sea_also'', JArray (map JString see_also))]\<rparr>"

text \<open>\<open>respond_with_status_code\<close>; the JSON form of a response (\<open>serde\<close>) is an argument.\<close>

definition respond_with_status_code :: "(response \<Rightarrow> json) \<Rightarrow> response option \<Rightarrow> u8 \<Rightarrow> response" where
  "respond_with_status_code to_value resp code =
     (let data = [(''http_content_type'', JString ''application/json''), (''http_status_code'', JNum (uint code))] in
      response_new\<lparr>rs_data := Some (case resp of
          Some r \<Rightarrow> obj_insert ''http_raw_body'' (to_value r) data | None \<Rightarrow> data)\<rparr>)"

definition add_warning :: "string \<Rightarrow> response \<Rightarrow> response" where
  "add_warning w r = r\<lparr>rs_warnings := rs_warnings r @ [w]\<rparr>"

definition set_request_id :: "string \<Rightarrow> response \<Rightarrow> response" where
  "set_request_id i r = r\<lparr>rs_request_id := i\<rparr>"

definition new_revoke_request :: "string \<Rightarrow> secret_data option \<Rightarrow> json_obj option \<Rightarrow> request" where
  "new_revoke_request p sec data =
     (request_new p)\<lparr>rq_operation := Revoke, rq_secret := sec, rq_data := data\<rparr>"

definition new_renew_request :: "string \<Rightarrow> secret_data option \<Rightarrow> json_obj option \<Rightarrow> request" where
  "new_renew_request p sec data =
     (request_new p)\<lparr>rq_operation := Renew, rq_secret := sec, rq_data := data\<rparr>"

definition new_renew_auth_request :: "string \<Rightarrow> auth option \<Rightarrow> json_obj option \<Rightarrow> request" where
  "new_renew_auth_request p au data =
     (request_new p)\<lparr>rq_operation := Renew, rq_auth := au, rq_data := data\<rparr>"

text \<open>The default of a lease takes its issue time from the clock.\<close>

definition lease_default :: "int \<Rightarrow> lease" where
  "lease_default now = \<lparr>ttl = 0, max_ttl = 0, renewable = True, increment = 0, issue_time = Some now\<rparr>"

definition auth_default :: "int \<Rightarrow> auth" where
  "auth_default now =
     \<lparr>au_lease = lease_default now,
      au_client_token = [], au_display_name = [], au_policies = [], au_token_policies = [],
      au_no_default_policy = False, au_internal_data = Map.empty, au_metadata = Map.empty,
      au_policy_results = None, au_period = 0, au_explicit_max_ttl = 0\<rparr>"

text \<open>An operation of the state that reads the request and leaves it as it is.\<close>

definition on_state :: "('s \<times> request) \<Rightarrow> (request \<Rightarrow> ('s, 'a) op) \<Rightarrow> 'a res \<times> ('s \<times> request)" where
  "on_state st f = (case f (snd st) (fst st) of (r, s') \<Rightarrow> (r, (s', snd st)))"

definition keep_req :: "'s \<times> request \<Rightarrow> ('s, 'a) pop \<Rightarrow> ('a res \<times> ('s \<times> request)) option" where
  "keep_req st m = map_option (\<lambda>(r, s'). (r, (s', snd st))) (m (fst st))"

section \<open>Integers as text\<close>

text \<open>\<open>str::parse::<u64>\<close> and \<open>str::parse::<i64>\<close>, and the decimal form of an integer.\<close>

definition digit_val :: "char \<Rightarrow> nat option" where
  "digit_val c = (let n = of_char c in if 48 \<le> n \<and> n \<le> 57 then Some (n - 48) else None)"

fun parse_digits :: "nat \<Rightarrow> string \<Rightarrow> nat option" where
  "parse_digits acc [] = Some acc"
| "parse_digits acc (c # cs) =
     (case digit_val c of Some d \<Rightarrow> parse_digits (10 * acc + d) cs | None \<Rightarrow> None)"

definition parse_nat :: "string \<Rightarrow> nat option" where
  "parse_nat s = (if s = [] then None else parse_digits 0 s)"

definition parse_u64 :: "string \<Rightarrow> nat option" where
  "parse_u64 s =
     (case parse_nat (if starts_with s ''+'' then tl s else s) of
        Some n \<Rightarrow> (if n < 2 ^ 64 then Some n else None)
      | None \<Rightarrow> None)"

definition parse_i64 :: "string \<Rightarrow> int option" where
  "parse_i64 s =
     (if starts_with s ''-'' then
        (case parse_nat (tl s) of
           Some n \<Rightarrow> (if n \<le> 2 ^ 63 then Some (- int n) else None) | None \<Rightarrow> None)
      else
        (case parse_nat (if starts_with s ''+'' then tl s else s) of
           Some n \<Rightarrow> (if n < 2 ^ 63 then Some (int n) else None) | None \<Rightarrow> None))"

fun nat_to_string :: "nat \<Rightarrow> string" where
  "nat_to_string n =
     (if n < 10 then [char_of (48 + n)] else nat_to_string (n div 10) @ [char_of (48 + n mod 10)])"

declare nat_to_string.simps [simp del]

definition int_to_string :: "int \<Rightarrow> string" where
  "int_to_string i = (if i < 0 then CHR ''-'' # nat_to_string (nat (- i)) else nat_to_string (nat i))"

section \<open>Typed fields\<close>

definition from_secs :: "nat \<Rightarrow> duration" where
  "from_secs n = n * 1000000000"

definition is_i64 :: "json \<Rightarrow> bool" where
  "is_i64 v \<longleftrightarrow> as_i64 v \<noteq> None"

definition is_int :: "json \<Rightarrow> bool" where
  "is_int v \<longleftrightarrow>
     is_i64 v \<or> (case as_str v of None \<Rightarrow> False | Some s \<Rightarrow> parse_i64 s \<noteq> None)"

definition is_duration :: "(string \<Rightarrow> duration option) \<Rightarrow> json \<Rightarrow> bool" where
  "is_duration parse_duration v \<longleftrightarrow>
     is_i64 v \<or>
     (case as_str v of None \<Rightarrow> False | Some s \<Rightarrow> parse_u64 s \<noteq> None \<or> parse_duration s \<noteq> None)"

definition is_comma_string_slice :: "json \<Rightarrow> bool" where
  "is_comma_string_slice v =
     (case v of
        JArray xs \<Rightarrow> list_all (\<lambda>x. as_str x \<noteq> None \<or> as_i64 x \<noteq> None) xs
      | _ \<Rightarrow> as_i64 v \<noteq> None \<or> as_str v \<noteq> None)"

definition is_map :: "(string \<Rightarrow> json option) \<Rightarrow> json \<Rightarrow> bool" where
  "is_map parse_json v =
     (case v of
        JObject _ \<Rightarrow> True
      | JString s \<Rightarrow> (case parse_json s of Some (JObject _) \<Rightarrow> True | _ \<Rightarrow> False)
      | _ \<Rightarrow> False)"

definition as_int :: "json \<Rightarrow> int option" where
  "as_int v =
     (case as_i64 v of
        Some i \<Rightarrow> Some i
      | None \<Rightarrow> (case as_str v of None \<Rightarrow> None | Some s \<Rightarrow> parse_i64 s))"

definition as_duration :: "(string \<Rightarrow> duration option) \<Rightarrow> json \<Rightarrow> duration option" where
  "as_duration parse_duration v =
     (case as_u64 v of
        Some secs \<Rightarrow> Some (from_secs secs)
      | None \<Rightarrow> (case as_str v of
            None \<Rightarrow> None
          | Some s \<Rightarrow> (case parse_u64 s of
                Some secs \<Rightarrow> Some (from_secs secs) | None \<Rightarrow> parse_duration s)))"

fun slice_items :: "json list \<Rightarrow> string list option" where
  "slice_items [] = Some []"
| "slice_items (x # xs) =
     (case as_str x of
        Some s \<Rightarrow> map_option (\<lambda>r. trim s # r) (slice_items xs)
      | None \<Rightarrow> (case as_i64 x of
            Some i \<Rightarrow> map_option (\<lambda>r. int_to_string i # r) (slice_items xs)
          | None \<Rightarrow> None))"

definition as_comma_string_slice :: "json \<Rightarrow> string list option" where
  "as_comma_string_slice v =
     (case v of
        JArray xs \<Rightarrow> slice_items xs
      | _ \<Rightarrow> (case as_i64 v of
            Some i \<Rightarrow> Some [int_to_string i]
          | None \<Rightarrow> (case as_str v of
                Some s \<Rightarrow> Some (filter (\<lambda>x. x \<noteq> []) (map trim (split_on CHR '','' s)))
              | None \<Rightarrow> None)))"

definition as_map :: "(string \<Rightarrow> json option) \<Rightarrow> json \<Rightarrow> (string \<Rightarrow> string option) option" where
  "as_map parse_json v =
     (case v of
        JObject m \<Rightarrow> Some (\<lambda>k. Option.bind (map_of m k) as_str)
      | JString s \<Rightarrow>
          (case parse_json s of
             Some (JObject m) \<Rightarrow>
               (if list_all (\<lambda>(_, x). as_str x \<noteq> None) m then Some (\<lambda>k. Option.bind (map_of m k) as_str)
                else Some Map.empty)
           | _ \<Rightarrow> Some Map.empty)
      | _ \<Rightarrow> None)"

definition check_data_type :: "(string \<Rightarrow> duration option) \<Rightarrow> field \<Rightarrow> json \<Rightarrow> bool" where
  "check_data_type parse_duration f v =
     (case field_type f of
        SecretStr \<Rightarrow> as_str v \<noteq> None
      | Str \<Rightarrow> as_str v \<noteq> None
      | IntType \<Rightarrow> is_int v
      | BoolType \<Rightarrow> as_bool v \<noteq> None
      | ArrayType \<Rightarrow> (case v of JArray _ \<Rightarrow> True | _ \<Rightarrow> False)
      | MapType \<Rightarrow> (case v of JObject _ \<Rightarrow> True | _ \<Rightarrow> False)
      | DurationSecond \<Rightarrow> is_duration parse_duration v
      | CommaStringSlice \<Rightarrow> is_comma_string_slice v)"

definition zero_value :: "field_type \<Rightarrow> json" where
  "zero_value t =
     (case t of
        SecretStr \<Rightarrow> JString [] | Str \<Rightarrow> JString [] | IntType \<Rightarrow> JNum 0 | BoolType \<Rightarrow> JBool False
      | ArrayType \<Rightarrow> JArray [] | MapType \<Rightarrow> JObject [] | DurationSecond \<Rightarrow> JNum 0 | CommaStringSlice \<Rightarrow> JArray [])"

definition parsed_default :: "(string \<Rightarrow> json option) \<Rightarrow> string \<Rightarrow> json res" where
  "parsed_default parse_json s =
     (case parse_json s of Some v \<Rightarrow> Ok v | None \<Rightarrow> Err (External SerdeJson ''invalid default''))"

definition get_default ::
  "(string \<Rightarrow> json option) \<Rightarrow> (string \<Rightarrow> duration option) \<Rightarrow> field \<Rightarrow> json res" where
  "get_default parse_json parse_duration f =
     (let d = field_default f; keep = (\<lambda>ok. if ok then Ok d else Err ErrRustDowncastFailed) in
      if d = JNull then Ok (zero_value (field_type f))
      else case field_type f of
          SecretStr \<Rightarrow> keep (as_str d \<noteq> None)
        | Str \<Rightarrow> keep (as_str d \<noteq> None)
        | IntType \<Rightarrow> keep (is_i64 d)
        | BoolType \<Rightarrow> keep (as_bool d \<noteq> None)
        | ArrayType \<Rightarrow> (case d of
              JArray _ \<Rightarrow> Ok d | JString s \<Rightarrow> parsed_default parse_json s | _ \<Rightarrow> Err ErrRustDowncastFailed)
        | MapType \<Rightarrow> (case d of
              JObject _ \<Rightarrow> Ok d | JString s \<Rightarrow> parsed_default parse_json s | _ \<Rightarrow> Err ErrRustDowncastFailed)
        | DurationSecond \<Rightarrow> keep (is_duration parse_duration d)
        | CommaStringSlice \<Rightarrow> keep (is_comma_string_slice d))"

section \<open>Reading a request's data\<close>

type_synonym parsers = "(string \<Rightarrow> json option) \<times> (string \<Rightarrow> duration option)"

definition typed :: "parsers \<Rightarrow> field \<Rightarrow> json \<Rightarrow> json res" where
  "typed ps f v = (if check_data_type (snd ps) f v then Ok v else Err ErrRequestFieldInvalid)"

definition lookup_in :: "json_obj option \<Rightarrow> string \<Rightarrow> json option" where
  "lookup_in m key = (case m of None \<Rightarrow> None | Some d \<Rightarrow> map_of d key)"

definition get_data_raw :: "parsers \<Rightarrow> request \<Rightarrow> string \<Rightarrow> bool \<Rightarrow> json res" where
  "get_data_raw ps req key dflt =
     (case rq_match_path req of
        None \<Rightarrow> Panic
      | Some p \<Rightarrow>
          (case map_of (lp_fields p) key of
             None \<Rightarrow> Err ErrRequestNoDataField
           | Some f \<Rightarrow>
               (case lookup_in (rq_data req) key of
                  Some v \<Rightarrow> typed ps f v
                | None \<Rightarrow> (case lookup_in (rq_body req) key of
                      Some v \<Rightarrow> typed ps f v
                    | None \<Rightarrow>
                        if dflt then
                          (if required f then Err ErrRequestFieldNotFound
                           else get_default (fst ps) (snd ps) f)
                        else Err ErrRequestFieldNotFound))))"

definition data_ready :: "request \<Rightarrow> 'a res \<Rightarrow> 'a res" where
  "data_ready req r =
     (if rq_match_path req = None then Err ErrRequestNotReady
      else if rq_data req = None \<and> rq_body req = None then Err ErrRequestNoData
      else r)"

definition get_data :: "parsers \<Rightarrow> request \<Rightarrow> string \<Rightarrow> json res" where
  "get_data ps req key = data_ready req (get_data_raw ps req key False)"

definition get_data_or_default :: "parsers \<Rightarrow> request \<Rightarrow> string \<Rightarrow> json res" where
  "get_data_or_default ps req key = data_ready req (get_data_raw ps req key True)"

fun next_data :: "parsers \<Rightarrow> request \<Rightarrow> string list \<Rightarrow> json res" where
  "next_data ps req [] = Err ErrRequestFieldNotFound"
| "next_data ps req (key # keys) =
     (case get_data_raw ps req key False of
        Ok v \<Rightarrow> Ok v
      | Err e \<Rightarrow> (if \<not> rv_error_eq e ErrRequestFieldNotFound then Err e else next_data ps req keys)
      | Panic \<Rightarrow> Panic)"

definition get_data_or_next :: "parsers \<Rightarrow> request \<Rightarrow> string list \<Rightarrow> json res" where
  "get_data_or_next ps req keys = data_ready req (next_data ps req keys)"

definition get_data_as_str :: "parsers \<Rightarrow> request \<Rightarrow> string \<Rightarrow> string res" where
  "get_data_as_str ps req key =
     res_bind (get_data ps req key) (\<lambda>v.
       case as_str v of
         None \<Rightarrow> Err ErrRequestFieldInvalid
       | Some s \<Rightarrow> if trim s = [] then Err (ErrResponse (''missing '' @ key)) else Ok (trim s))"

definition get_field_default_or_zero :: "parsers \<Rightarrow> request \<Rightarrow> string \<Rightarrow> json res" where
  "get_field_default_or_zero ps req key =
     (case rq_match_path req of
        None \<Rightarrow> Err ErrRequestNotReady
      | Some p \<Rightarrow> (case map_of (lp_fields p) key of
            None \<Rightarrow> Err ErrRequestNoDataField
          | Some f \<Rightarrow> get_default (fst ps) (snd ps) f))"

definition data_iter :: "request \<Rightarrow> (string \<times> json) list" where
  "data_iter req =
     (case rq_data req of None \<Rightarrow> [] | Some d \<Rightarrow> d) @ (case rq_body req of None \<Rightarrow> [] | Some b \<Rightarrow> b)"

definition blank_string :: "json \<Rightarrow> json" where
  "blank_string v = (case v of JString _ \<Rightarrow> JString [] | _ \<Rightarrow> v)"

definition blank_key :: "string \<Rightarrow> json_obj \<Rightarrow> json_obj" where
  "blank_key key m = map (\<lambda>(k, v). (k, if k = key then blank_string v else v)) m"

definition clear_data :: "string \<Rightarrow> request \<Rightarrow> request" where
  "clear_data key req =
     req\<lparr>rq_data := map_option (blank_key key) (rq_data req),
         rq_body := map_option (blank_key key) (rq_body req)\<rparr>"

text \<open>The storage operations of a request act on the view the router gave it.\<close>

definition on_storage :: "request \<Rightarrow> (barrier_view \<Rightarrow> ('s, 'a) op) \<Rightarrow> ('s, 'a) op" where
  "on_storage req f = (case rq_storage req of None \<Rightarrow> op_fail ErrRequestNotReady | Some v \<Rightarrow> f v)"

definition rq_storage_list :: "'s storage_ops \<Rightarrow> request \<Rightarrow> string \<Rightarrow> ('s, string list) op" where
  "rq_storage_list sops req pfx = on_storage req (\<lambda>v. view_list sops v pfx)"

definition rq_storage_get :: "'s storage_ops \<Rightarrow> request \<Rightarrow> string \<Rightarrow> ('s, storage_entry option) op" where
  "rq_storage_get sops req key = on_storage req (\<lambda>v. view_get sops v key)"

definition rq_storage_put :: "'s storage_ops \<Rightarrow> request \<Rightarrow> storage_entry \<Rightarrow> ('s, unit) op" where
  "rq_storage_put sops req e = on_storage req (\<lambda>v. view_put sops v e)"

definition rq_storage_delete :: "'s storage_ops \<Rightarrow> request \<Rightarrow> string \<Rightarrow> ('s, unit) op" where
  "rq_storage_delete sops req key = on_storage req (\<lambda>v. view_delete sops v key)"

section \<open>Leases\<close>

definition NANOS :: nat where
  "NANOS = 1000000000"

text \<open>\<open>Duration\<close> arithmetic panics when the result does not fit.\<close>

definition dur_add :: "duration \<Rightarrow> duration \<Rightarrow> duration res" where
  "dur_add a b = (if a + b \<ge> 2 ^ 64 * NANOS then Panic else Ok (a + b))"

definition dur_sub :: "duration \<Rightarrow> duration \<Rightarrow> duration res" where
  "dur_sub a b = (if a < b then Panic else Ok (a - b))"

definition secs_since_epoch :: "int \<Rightarrow> nat option" where
  "secs_since_epoch t = (if t < 0 then None else Some (nat t div NANOS))"

definition lease_enabled :: "lease \<Rightarrow> bool" where
  "lease_enabled l \<longleftrightarrow> ttl l div NANOS > 0"

definition lease_expiration_time :: "int \<Rightarrow> lease \<Rightarrow> int" where
  "lease_expiration_time now l = (if lease_enabled l then now + int (ttl l) else 0)"

definition min_positive :: "duration \<Rightarrow> duration \<Rightarrow> duration" where
  "min_positive cap m = (if cap > 0 \<and> cap < m then cap else m)"

definition effective_max_ttl :: "duration \<Rightarrow> duration \<Rightarrow> duration \<Rightarrow> duration" where
  "effective_max_ttl max_lease_ttl backend_max_ttl explicit_max_ttl =
     min_positive explicit_max_ttl (min_positive backend_max_ttl max_lease_ttl)"

definition calculate_ttl ::
  "int \<Rightarrow> duration \<Rightarrow> duration \<Rightarrow> duration \<Rightarrow> duration \<Rightarrow> duration \<Rightarrow> duration \<Rightarrow> duration \<Rightarrow> int \<Rightarrow> duration res" where
  "calculate_ttl clock max_lease_ttl default_lease_ttl increment0 period backend_ttl backend_max_ttl
     explicit_max_ttl start_time0 =
     (let now = (case secs_since_epoch clock of Some s \<Rightarrow> s | None \<Rightarrow> 0);
          start = (case secs_since_epoch start_time0 of Some s \<Rightarrow> s | None \<Rightarrow> now);
          max = effective_max_ttl max_lease_ttl backend_max_ttl explicit_max_ttl
      in if max = 0 then Err (ErrString ''max TTL must be greater than zero'')
         else
           let ttl0 =
             (if period > 0 then (if period > max then max else period)
              else if increment0 > 0 then increment0
              else if backend_ttl > 0 then backend_ttl
              else default_lease_ttl)
           in res_bind
                (if period > 0 then
                   (if explicit_max_ttl > 0 then dur_add (from_secs start) explicit_max_ttl else Ok 0)
                 else dur_add (from_secs start) max)
                (\<lambda>max_valid_time.
                  if max_valid_time = 0 then Ok ttl0
                  else res_bind (dur_sub max_valid_time (from_secs now)) (\<lambda>max_valid_ttl.
                    if max_valid_ttl = 0 then Err (ErrString ''past the max TTL, cannot renew'')
                    else Ok (if max_valid_ttl < ttl0 then max_valid_ttl else ttl0))))"

section \<open>Dispatch by a logical backend\<close>

type_synonym 's handler = "('s \<times> request, response option) op"

record 's secret_def =
  secret_type :: string
  default_duration :: duration
  renew_handler :: "'s handler option"
  revoke_handler :: "'s handler option"

record 's backend_path =
  bp_path :: lpath
  bp_operations :: "(operation \<times> 's handler) list"

record 's logical_backend =
  lb_paths :: "'s backend_path list"
  lb_paths_re :: "string list"
  lb_root_paths :: "string list"
  lb_unauth_paths :: "string list"
  lb_secrets :: "'s secret_def list"
  lb_auth_renew_handler :: "'s handler option"

definition anchored :: "string \<Rightarrow> string" where
  "anchored p =
     (let q = (if starts_with p ''^'' then p else ''^'' @ p) in
      if ends_with p ''$'' then q else q @ ''$'')"

text \<open>\<open>init\<close> compiles the patterns in order and stops at the first that is not a regular expression.\<close>

fun compile_paths :: "(string \<Rightarrow> bool) \<Rightarrow> 's backend_path list \<Rightarrow> string list \<Rightarrow> unit res \<times> string list" where
  "compile_paths valid_re [] acc = (Ok (), acc)"
| "compile_paths valid_re (p # ps) acc =
     (let re = anchored (lp_pattern (bp_path p)) in
      if valid_re re then compile_paths valid_re ps (acc @ [re])
      else (Err (External Regex ''invalid pattern''), acc))"

definition backend_init :: "(string \<Rightarrow> bool) \<Rightarrow> ('s logical_backend, unit) op" where
  "backend_init valid_re b =
     (if length (lb_paths b) = length (lb_paths_re b) then (Ok (), b)
      else let (r, res) = compile_paths valid_re (lb_paths b) (lb_paths_re b)
           in (r, b\<lparr>lb_paths_re := res\<rparr>))"

text \<open>
  The regular expressions are the argument \<open>captures\<close>: the named groups of a match, where a group that
  took no part in the match has no text (indexing it panics).
\<close>

type_synonym regex = "string \<Rightarrow> string \<Rightarrow> (string \<times> string option) list option"

fun match_from :: "regex \<Rightarrow> 's backend_path list \<Rightarrow> string list \<Rightarrow> nat \<Rightarrow> string \<Rightarrow>
    ('s backend_path \<times> (string \<times> string) list) option res" where
  "match_from captures paths [] i p = Ok None"
| "match_from captures paths (re # rs) i p =
     (case captures re p of
        None \<Rightarrow> match_from captures paths rs (Suc i) p
      | Some groups \<Rightarrow>
          if length paths \<le> i then Panic
          else if list_ex (\<lambda>(_, g). g = None) groups then Panic
          else Ok (Some (paths ! i, map (\<lambda>(k, g). (k, the g)) groups)))"

definition match_path :: "regex \<Rightarrow> 's logical_backend \<Rightarrow> string \<Rightarrow>
    ('s backend_path \<times> (string \<times> string) list) option res" where
  "match_path captures b p = match_from captures (lb_paths b) (lb_paths_re b) 0 p"

definition secret_fields :: "'s logical_backend \<Rightarrow> string list" where
  "secret_fields b =
     concat (map (\<lambda>p. map fst (filter (\<lambda>(_, f). field_type f = SecretStr) (lp_fields (bp_path p)))) (lb_paths b))"

definition clear_secret_field :: "'s logical_backend \<Rightarrow> request \<Rightarrow> request" where
  "clear_secret_field b req = fold clear_data (secret_fields b) req"

definition handle_auth_renew :: "'s logical_backend \<Rightarrow> 's handler" where
  "handle_auth_renew b =
     (case lb_auth_renew_handler b of None \<Rightarrow> op_fail ErrLogicalOperationUnsupported | Some h \<Rightarrow> h)"

definition secret_renew :: "'s secret_def \<Rightarrow> 's handler" where
  "secret_renew s =
     (case renew_handler s of None \<Rightarrow> op_fail ErrLogicalOperationUnsupported | Some h \<Rightarrow> h)"

definition secret_revoke :: "'s secret_def \<Rightarrow> 's handler" where
  "secret_revoke s =
     (case revoke_handler s of None \<Rightarrow> op_fail ErrLogicalOperationUnsupported | Some h \<Rightarrow> h)"

definition secret_renewable :: "'s secret_def \<Rightarrow> bool" where
  "secret_renewable s \<longleftrightarrow> renew_handler s \<noteq> None"

text \<open>What \<open>Secret::response\<close> reads of a secret; the handlers of a backend see its secrets through it.\<close>

record secret_info =
  si_type :: string
  si_default_duration :: duration
  si_renewable :: bool

definition info_of :: "'s secret_def \<Rightarrow> secret_info" where
  "info_of s =
     \<lparr>si_type = secret_type s, si_default_duration = default_duration s, si_renewable = secret_renewable s\<rparr>"

definition secret_response :: "int \<Rightarrow> secret_info \<Rightarrow> json_obj option \<Rightarrow> json_obj option \<Rightarrow> response" where
  "secret_response now s data internal =
     (let l = (lease_default now)\<lparr>ttl := si_default_duration s, renewable := si_renewable s\<rparr>;
          int_data = (case internal of Some m \<Rightarrow> m | None \<Rightarrow> [])
      in response_new\<lparr>rs_data := data,
           rs_secret := Some \<lparr>sd_lease = l, sd_lease_id = [],
             sd_internal_data = obj_insert ''secret_type'' (JString (si_type s)) int_data\<rparr>\<rparr>)"

definition find_secret :: "'s logical_backend \<Rightarrow> string \<Rightarrow> 's secret_def option" where
  "find_secret b key = find (\<lambda>s. secret_type s = key) (lb_secrets b)"

definition handle_revoke_renew :: "'s logical_backend \<Rightarrow> 's handler" where
  "handle_revoke_renew b st =
     (let req = snd st in
      if rq_operation req = Renew \<and> rq_auth req \<noteq> None then handle_auth_renew b st
      else case rq_secret req of
          None \<Rightarrow> (Ok None, st)
        | Some sd \<Rightarrow>
            (case Option.bind (map_of (sd_internal_data sd) ''secret_type'') as_str of
               None \<Rightarrow> (Ok None, st)
             | Some ty \<Rightarrow>
                 (case find_secret b ty of
                    None \<Rightarrow> (Ok None, st)
                  | Some sec \<Rightarrow>
                      (case rq_operation req of
                         Renew \<Rightarrow> secret_renew sec st
                       | Revoke \<Rightarrow> secret_revoke sec st
                       | _ \<Rightarrow> (Ok None, st)))))"

definition with_captures :: "(string \<times> string) list \<Rightarrow> request \<Rightarrow> request" where
  "with_captures caps req =
     (if caps = [] then req
      else req\<lparr>rq_data := Some (fold (\<lambda>(k, v). obj_insert k (JString v)) caps [])\<rparr>)"

definition backend_handle_request :: "regex \<Rightarrow> 's logical_backend \<Rightarrow> 's handler" where
  "backend_handle_request captures b st =
     (let (s, req) = st in
      if rq_storage req = None then (Err ErrRequestNotReady, st)
      else if rq_operation req = Renew \<or> rq_operation req = Revoke then handle_revoke_renew b st
      else if rq_path req = [] \<and> rq_operation req = Help then (Ok None, st)
      else case match_path captures b (rq_path req) of
          Panic \<Rightarrow> (Panic, st)
        | Err e \<Rightarrow> (Err e, st)
        | Ok None \<Rightarrow> (Err ErrLogicalPathUnsupported, st)
        | Ok (Some (p, caps)) \<Rightarrow>
            let req1 = (with_captures caps req)\<lparr>rq_match_path := Some (bp_path p)\<rparr> in
            (case map_of (bp_operations p) (rq_operation req1) of
               None \<Rightarrow> (Err ErrLogicalOperationUnsupported, (s, req1))
             | Some h \<Rightarrow>
                 (case h (s, req1) of
                    (r, (s', req2)) \<Rightarrow>
                      (r, (s', if r = Panic then req2 else clear_secret_field b req2)))))"


section \<open>Properties of fields\<close>

lemma map_of_obj_insert [simp]: "map_of (obj_insert k v m) = (map_of m)(k \<mapsto> v)"
proof -
  have i: "map_of (insort_key fst (k, v) xs) = (map_of xs)(k \<mapsto> v)" if "k \<notin> fst ` set xs" for xs :: json_obj
    using that by (induction xs) (auto simp: fun_eq_iff)
  have "map_of (filter (\<lambda>(k', _). k' \<noteq> k) m) = (map_of m)(k := None)"
    by (induction m) (auto simp: fun_eq_iff)
  then show ?thesis unfolding obj_insert_def by (subst i) (auto simp: fun_upd_idem_iff)
qed

lemma digit_val_char [simp]: "d < 10 \<Longrightarrow> digit_val (char_of (48 + d)) = Some d"
  by (simp add: digit_val_def Let_def take_bit_eq_mod)

lemma parse_digits_append:
  "parse_digits acc (s @ [c]) =
    (case parse_digits acc s of
       Some n \<Rightarrow> (case digit_val c of Some d \<Rightarrow> Some (10 * n + d) | None \<Rightarrow> None)
     | None \<Rightarrow> None)"
  by (induction s arbitrary: acc) (auto split: option.splits)

lemma nat_to_string_not_Nil [simp]: "nat_to_string n \<noteq> []"
  by (subst nat_to_string.simps) simp

lemma parse_nat_to_string: "parse_digits 0 (nat_to_string n) = Some n"
proof (induction n rule: nat_to_string.induct)
  case (1 n)
  show ?case
  proof (cases "n < 10")
    case True
    then show ?thesis by (subst nat_to_string.simps) simp
  next
    case False
    then show ?thesis
      using 1 by (subst nat_to_string.simps) (simp add: parse_digits_append)
  qed
qed

lemma nat_to_string_hd: "\<exists>d < (10 :: nat). hd (nat_to_string n) = char_of (48 + d)"
proof (induction n rule: nat_to_string.induct)
  case (1 n)
  then show ?case by (subst nat_to_string.simps) (auto simp: hd_append)
qed

lemma nat_to_string_no_sign:
  "\<not> starts_with (nat_to_string n) ''-''" "\<not> starts_with (nat_to_string n) ''+''"
proof -
  obtain d :: nat where d: "d < 10" "hd (nat_to_string n) = char_of (48 + d)" using nat_to_string_hd by blast
  then have "digit_val (hd (nat_to_string n)) \<noteq> None" by simp
  then have "hd (nat_to_string n) \<noteq> CHR ''-''" "hd (nat_to_string n) \<noteq> CHR ''+''"
    by (auto simp: digit_val_def)
  then show "\<not> starts_with (nat_to_string n) ''-''" "\<not> starts_with (nat_to_string n) ''+''"
    by (cases "nat_to_string n"; auto simp: starts_with_def)+
qed

text \<open>A machine integer printed in decimal is read back.\<close>

lemma parse_int_to_string:
  assumes "- (2 ^ 63) \<le> i" "i < 2 ^ 63"
  shows "parse_i64 (int_to_string i) = Some i"
proof (cases "i < 0")
  case True
  then have "nat (- i) \<le> 2 ^ 63" using assms by simp
  with True show ?thesis
    by (simp add: int_to_string_def parse_i64_def parse_nat_def parse_nat_to_string starts_with_def)
next
  case False
  then have "nat i < 2 ^ 63" using assms by simp
  with False show ?thesis
    by (simp add: int_to_string_def parse_i64_def parse_nat_def parse_nat_to_string nat_to_string_no_sign)
qed

lemma slice_items_iff:
  "slice_items xs \<noteq> None \<longleftrightarrow> list_all (\<lambda>x. as_str x \<noteq> None \<or> as_i64 x \<noteq> None) xs"
  by (induction xs) (auto split: option.splits)

lemma comma_slice_iff: "as_comma_string_slice v \<noteq> None \<longleftrightarrow> is_comma_string_slice v"
  using slice_items_iff
  by (cases v) (auto simp: as_comma_string_slice_def is_comma_string_slice_def split: option.splits)

lemma int_iff: "as_int v \<noteq> None \<longleftrightarrow> is_int v"
  by (auto simp: as_int_def is_int_def is_i64_def split: option.splits)

lemma duration_gap:
  "is_duration pd v \<and> as_duration pd v = None \<longleftrightarrow> (\<exists>n. v = JNum n \<and> - (2 ^ 63) \<le> n \<and> n < 0)"
  by (cases v) (auto simp: is_duration_def as_duration_def is_i64_def as_i64_def as_u64_def as_str_def
      split: option.splits if_splits)

text \<open>
  The type check of a field against the conversion its handler then makes. A value that passes the check
  converts, for every type but one: a negative integer passes the check of a duration field, and has no
  conversion to a duration.
\<close>

theorem checked_fields_convert:
  assumes "check_data_type pd f v"
  shows "(field_type f \<in> {Str, SecretStr} \<longrightarrow> as_str v \<noteq> None) \<and>
    (field_type f = IntType \<longrightarrow> as_int v \<noteq> None) \<and>
    (field_type f = BoolType \<longrightarrow> as_bool v \<noteq> None) \<and>
    (field_type f = CommaStringSlice \<longrightarrow> as_comma_string_slice v \<noteq> None) \<and>
    (field_type f = DurationSecond \<longrightarrow>
      (as_duration pd v = None \<longleftrightarrow> (\<exists>n. v = JNum n \<and> - (2 ^ 63) \<le> n \<and> n < 0)))"
  using assms duration_gap [of pd v] comma_slice_iff [of v] int_iff [of v]
  by (auto simp: check_data_type_def)

theorem checked_fields_convert_witness:
  "check_data_type (\<lambda>_. None) \<lparr>required = True, field_type = DurationSecond, field_default = JNull\<rparr> (JNum (- 5)) \<and>
   as_duration (\<lambda>_. None) (JNum (- 5)) = None"
proof -
  let ?f = "\<lparr>required = True, field_type = DurationSecond, field_default = JNull\<rparr>"
  have c: "check_data_type (\<lambda>_. None) ?f (JNum (- 5))"
    by (simp add: check_data_type_def is_duration_def is_i64_def as_i64_def)
  then show ?thesis using checked_fields_convert [OF c] by simp
qed

section \<open>Properties of leases\<close>

lemma min_positive_le: "min_positive c m \<le> m" "c > 0 \<Longrightarrow> min_positive c m \<le> c"
  by (auto simp: min_positive_def)

lemma effective_max_ttl_le:
  "effective_max_ttl m b e \<le> m" "b > 0 \<Longrightarrow> effective_max_ttl m b e \<le> b"
  "e > 0 \<Longrightarrow> effective_max_ttl m b e \<le> e"
  unfolding effective_max_ttl_def using min_positive_le le_trans by blast+

text \<open>
  A computed time-to-live respects its limits. A periodic lease gets at most the effective maximum, which
  is at most each positive configured maximum, and does not outlive its explicit maximum, counted from the
  start; any other lease does not outlive the effective maximum, counted from the start.
\<close>

theorem calculate_ttl_bounds:
  assumes "calculate_ttl clock m dflt incr period bttl bmax emax start = Ok t"
    and "secs_since_epoch clock = Some now" "secs_since_epoch start = Some st"
  shows "(period > 0 \<longrightarrow> t \<le> effective_max_ttl m bmax emax \<and>
      (emax > 0 \<longrightarrow> from_secs now + t \<le> from_secs st + emax)) \<and>
    (period = 0 \<longrightarrow> from_secs now + t \<le> from_secs st + effective_max_ttl m bmax emax) \<and>
    effective_max_ttl m bmax emax \<le> m \<and>
    (bmax > 0 \<longrightarrow> effective_max_ttl m bmax emax \<le> bmax) \<and>
    (emax > 0 \<longrightarrow> effective_max_ttl m bmax emax \<le> emax)"
proof -
  let ?max = "effective_max_ttl m bmax emax"
  have eq: "calculate_ttl clock m dflt incr period bttl bmax emax start = Ok t" by (rule assms(1))
  have periodic: "t \<le> ?max \<and> (emax > 0 \<longrightarrow> from_secs now + t \<le> from_secs st + emax)" if "period > 0"
    using eq that
    by (auto simp: calculate_ttl_def assms(2,3) Let_def res_bind_Ok_iff dur_add_def dur_sub_def
        split: if_splits)
  have plain: "from_secs now + t \<le> from_secs st + ?max" if p0: "period = 0"
  proof -
    obtain a where "dur_add (from_secs st) ?max = Ok a" "?max \<noteq> 0"
      and rest: "(if a = 0 then Ok (if incr > 0 then incr else if bttl > 0 then bttl else dflt)
        else res_bind (dur_sub a (from_secs now)) (\<lambda>mt. if mt = 0 then Err (ErrString ''past the max TTL, cannot renew'')
          else Ok (if mt < (if incr > 0 then incr else if bttl > 0 then bttl else dflt) then mt
            else if incr > 0 then incr else if bttl > 0 then bttl else dflt))) = Ok t"
      using eq p0
      by (auto simp: calculate_ttl_def assms(2,3) Let_def res_bind_Ok_iff split: if_splits)
    then have a: "a = from_secs st + ?max" "a \<noteq> 0" by (auto simp: dur_add_def split: if_splits)
    with rest obtain mt where "dur_sub a (from_secs now) = Ok mt" "t \<le> mt"
      by (auto simp: res_bind_Ok_iff split: if_splits)
    with a show ?thesis by (auto simp: dur_sub_def split: if_splits)
  qed
  show ?thesis using periodic plain effective_max_ttl_le by blast
qed

theorem calculate_ttl_bounds_witness:
  "from_secs 1000 + 3600000000000 \<le> from_secs 900 + effective_max_ttl 7200000000000 0 0"
proof -
  have "calculate_ttl (1000 * 1000000000) 7200000000000 0 3600000000000 0 0 0 0 (900 * 1000000000) =
      Ok 3600000000000"
    by (simp add: calculate_ttl_def secs_since_epoch_def NANOS_def from_secs_def effective_max_ttl_def
        min_positive_def dur_add_def dur_sub_def)
  moreover have "secs_since_epoch (1000 * 1000000000) = Some 1000"
    "secs_since_epoch (900 * 1000000000) = Some 900"
    by (simp_all add: secs_since_epoch_def NANOS_def)
  ultimately show ?thesis using calculate_ttl_bounds by blast
qed

text \<open>
  A lease that is past its maximum is not refused with the error the code has for it: the subtraction of
  durations underflows first, and the thread panics. The error is returned only in the one second in which
  the maximum is reached exactly.
\<close>

theorem calculate_ttl_past_max:
  assumes "secs_since_epoch clock = Some now" "secs_since_epoch start = Some st"
    and "effective_max_ttl m bmax emax > 0"
    and "from_secs st + effective_max_ttl m bmax emax < 2 ^ 64 * NANOS"
  shows "(from_secs st + effective_max_ttl m bmax emax < from_secs now \<longrightarrow>
      calculate_ttl clock m dflt incr 0 bttl bmax emax start = Panic) \<and>
    (calculate_ttl clock m dflt incr 0 bttl bmax emax start = Err (ErrString ''past the max TTL, cannot renew'')
      \<longleftrightarrow> from_secs st + effective_max_ttl m bmax emax = from_secs now)"
  using assms by (auto simp: calculate_ttl_def Let_def dur_add_def dur_sub_def)

theorem calculate_ttl_past_max_witness:
  "calculate_ttl (1000 * 1000000000) 60000000000 0 5000000000 0 0 0 0 (900 * 1000000000) = Panic"
proof -
  have "secs_since_epoch (1000 * 1000000000) = Some 1000" "secs_since_epoch (900 * 1000000000) = Some 900"
    "effective_max_ttl 60000000000 0 0 > 0"
    "from_secs 900 + effective_max_ttl 60000000000 0 0 < 2 ^ 64 * NANOS"
    by (simp_all add: secs_since_epoch_def NANOS_def effective_max_ttl_def min_positive_def from_secs_def)
  moreover have "from_secs 900 + effective_max_ttl 60000000000 0 0 < from_secs 1000"
    by (simp add: effective_max_ttl_def min_positive_def from_secs_def)
  ultimately show ?thesis using calculate_ttl_past_max by blast
qed

section \<open>Secret fields are erased\<close>

definition erased :: "string \<Rightarrow> json_obj option \<Rightarrow> bool" where
  "erased key m = (case m of None \<Rightarrow> True | Some d \<Rightarrow> list_all (\<lambda>(k, v). k = key \<longrightarrow> v = blank_string v) d)"

lemma blank_string_idem [simp]: "blank_string (blank_string v) = blank_string v"
  by (simp add: blank_string_def split: json.split)

lemma erased_blank [simp]: "erased key (map_option (blank_key key) m)"
  by (auto simp: erased_def blank_key_def list_all_iff split: option.split)

lemma erased_keep: "erased key m \<Longrightarrow> erased key (map_option (blank_key k) m)"
  by (auto simp: erased_def blank_key_def list_all_iff split: option.splits if_splits)

lemma fold_clear_data_erases:
  "key \<in> set ks \<or> (erased key (rq_data req) \<and> erased key (rq_body req)) \<Longrightarrow>
   erased key (rq_data (fold clear_data ks req)) \<and> erased key (rq_body (fold clear_data ks req))"
proof (induction ks arbitrary: req)
  case (Cons k ks)
  have "key \<in> set ks \<or> (erased key (rq_data (clear_data k req)) \<and> erased key (rq_body (clear_data k req)))"
    using Cons.prems by (auto simp: clear_data_def erased_keep)
  then show ?case using Cons.IH by simp
qed simp

text \<open>
  When a logical backend has dispatched a request to a handler, whatever the handler returned, no field
  that any of the backend's paths declares secret still holds a text: in the data and in the body of the
  request the string is empty.
\<close>

theorem secret_fields_erased:
  assumes "backend_handle_request captures b (s, req) = (r, (s', req'))" "r \<noteq> Panic"
    and "rq_storage req \<noteq> None" "rq_operation req \<notin> {Renew, Revoke, Help}"
    and "match_path captures b (rq_path req) = Ok (Some (p, caps))"
    and "map_of (bp_operations p) (rq_operation req) = Some h"
    and "q \<in> set (lb_paths b)" "(key, f) \<in> set (lp_fields (bp_path q))" "field_type f = SecretStr"
  shows "lookup_in (rq_data req') key \<in> {Some (JString [])} \<union> {v. Option.bind v as_str = None} \<and>
    lookup_in (rq_body req') key \<in> {Some (JString [])} \<union> {v. Option.bind v as_str = None}"
proof -
  have "rq_operation ((with_captures caps req)\<lparr>rq_match_path := Some (bp_path p)\<rparr>) = rq_operation req"
    by (simp add: with_captures_def)
  then obtain req2 where "req' = clear_secret_field b req2"
    using assms(1-6)
    by (auto simp: backend_handle_request_def Let_def split: prod.splits if_splits)
  moreover have "key \<in> set (secret_fields b)"
    using assms(7-9) by (force simp: secret_fields_def)
  ultimately have "erased key (rq_data req')" "erased key (rq_body req')"
    using fold_clear_data_erases [of key "secret_fields b" req2] by (auto simp: clear_secret_field_def)
  moreover have "lookup_in m key \<in> {Some (JString [])} \<union> {v. Option.bind v as_str = None}"
    if "erased key m" for m
  proof -
    have "v = blank_string v" if "lookup_in m key = Some v" for v
      using \<open>erased key m\<close> that
      by (auto simp: erased_def lookup_in_def list_all_iff split: option.splits dest: map_of_SomeD)
    then show ?thesis
      by (cases "lookup_in m key") (auto simp: blank_string_def as_str_def split: json.splits)
  qed
  ultimately show ?thesis by blast
qed

definition demo_lpath :: lpath where
  "demo_lpath = \<lparr>lp_pattern = ''login'', lp_fields =
     [(''password'', \<lparr>required = True, field_type = SecretStr, field_default = JNull\<rparr>)]\<rparr>"

definition demo_backend :: "unit logical_backend" where
  "demo_backend =
     \<lparr>lb_paths = [\<lparr>bp_path = demo_lpath, bp_operations = [(Write, \<lambda>st. (Err ErrPermissionDenied, st))]\<rparr>],
      lb_paths_re = [''^login$''], lb_root_paths = [], lb_unauth_paths = [], lb_secrets = [],
      lb_auth_renew_handler = None\<rparr>"

definition demo_login :: request where
  "demo_login = (request_new ''login'')\<lparr>rq_operation := Write, rq_storage := Some (view_new ''auth/''),
     rq_body := Some [(''password'', JString ''hunter2'')]\<rparr>"

theorem secret_fields_erased_witness:
  "\<exists>req'. backend_handle_request (\<lambda>re p. if p = ''login'' then Some [] else None) demo_backend ((), demo_login) =
      (Err ErrPermissionDenied, ((), req')) \<and>
    lookup_in (rq_body req') ''password'' \<in> {Some (JString [])} \<union> {v. Option.bind v as_str = None}"
proof -
  let ?c = "\<lambda>re p. if p = ''login'' then Some [] else None"
  let ?p = "\<lparr>bp_path = demo_lpath, bp_operations = [(Write, \<lambda>st. (Err ErrPermissionDenied, st))]\<rparr>"
  have run: "backend_handle_request ?c demo_backend ((), demo_login) =
      (Err ErrPermissionDenied, ((), clear_secret_field demo_backend (demo_login\<lparr>rq_match_path := Some demo_lpath\<rparr>)))"
    by (simp add: backend_handle_request_def demo_backend_def demo_login_def request_new_def match_path_def
        with_captures_def)
  have "match_path ?c demo_backend (rq_path demo_login) = Ok (Some (?p, []))"
    by (simp add: match_path_def demo_backend_def demo_login_def request_new_def)
  from secret_fields_erased [OF run _ _ _ this] run show ?thesis
    by (auto simp: demo_login_def demo_backend_def demo_lpath_def request_new_def)
qed

end
