(* ===== verification/Radix.thy ===== *)
theory Radix
  imports Text_Util
begin

text \<open>
  The contract of \<open>Trie::get_ancestor\<close> of the crate \<open>radix_trie\<close>, which the router and the access control
  lists call: among the stored keys, the longest that is a prefix of the argument. The contents of a trie
  are an association list with distinct keys; the lookup of the closest ancestor is the argument \<open>anc\<close> of
  the definitions that use it, from the stored keys and the argument to a stored key.
\<close>

locale radix =
  fixes anc :: "string list \<Rightarrow> string \<Rightarrow> string option"
  assumes anc_Some: "anc ks p = Some k \<Longrightarrow>
      k \<in> set ks \<and> starts_with p k \<and> (\<forall>k' \<in> set ks. starts_with p k' \<longrightarrow> length k' \<le> length k)"
    and anc_None: "anc ks p = None \<longleftrightarrow> (\<forall>k \<in> set ks. \<not> starts_with p k)"
begin

lemma anc_unique:
  assumes "k \<in> set ks" "starts_with p k"
    and "\<And>k'. k' \<in> set ks \<Longrightarrow> starts_with p k' \<Longrightarrow> length k' \<le> length k"
  shows "anc ks p = Some k"
proof -
  obtain a where a: "anc ks p = Some a" using anc_None [of ks p] assms(1,2) by (cases "anc ks p") auto
  have "length a = length k" using anc_Some [OF a] assms by (meson le_antisym)
  then have "a = k" using anc_Some [OF a] assms(2) by (auto simp: starts_with_def)
  with a show ?thesis by simp
qed

lemma anc_self: "p \<in> set ks \<Longrightarrow> anc ks p = Some p"
  by (rule anc_unique) (auto simp: starts_with_iff_prefix prefix_length_le)

lemma anc_set_cong: "set ks = set ks' \<Longrightarrow> anc ks p = anc ks' p"
  using anc_Some anc_None anc_unique by (metis option.exhaust)

end

text \<open>A reference implementation.\<close>

fun longest_ancestor :: "string list \<Rightarrow> string \<Rightarrow> string option" where
  "longest_ancestor [] p = None"
| "longest_ancestor (k # ks) p =
     (case longest_ancestor ks p of
        None \<Rightarrow> if starts_with p k then Some k else None
      | Some k' \<Rightarrow> if starts_with p k \<and> length k' < length k then Some k else Some k')"

lemma longest_ancestor_None: "longest_ancestor ks p = None \<longleftrightarrow> (\<forall>k \<in> set ks. \<not> starts_with p k)"
  by (induction ks) (auto split: option.splits)

lemma longest_ancestor_Some:
  "longest_ancestor ks p = Some k \<Longrightarrow>
    k \<in> set ks \<and> starts_with p k \<and> (\<forall>k' \<in> set ks. starts_with p k' \<longrightarrow> length k' \<le> length k)"
proof (induction ks arbitrary: k)
  case (Cons a ks)
  show ?case
  proof (cases "longest_ancestor ks p")
    case None
    then show ?thesis using Cons.prems longest_ancestor_None [of ks p] by (auto split: if_splits)
  next
    case (Some b)
    with Cons.IH [OF this] Cons.prems show ?thesis by (fastforce split: if_splits)
  qed
qed simp

interpretation la: radix longest_ancestor
  by unfold_locales (use longest_ancestor_Some longest_ancestor_None in blast)+

end
