(* ===== verification/Router.thy ===== *)
theory Router
  imports Logical Radix "HOL-Library.AList"
begin

text \<open>
  The router, \<open>src/router.rs\<close>: the trie of mounted backends, the routing of a request to the backend mounted
  under the longest prefix of its path, and the classification of paths that need no token or need root.

  A trie is the association list of its contents, with the lookup of the closest ancestor as the argument
  \<open>anc\<close> (the locale \<open>radix\<close> states its contract). A backend is the record of what the router calls; it
  shares the mount entry with the mount table, so an entry holds the address of that object.

  Shown: which path is routed where and with which storage view, what a tainted mount still accepts, that a
  path is exempt from authentication only by a declared pattern, and what is left of a request on an error.
\<close>

record 's backend_obj =
  be_unauth_paths :: "string list option"
  be_root_paths :: "string list option"
  be_handle_request :: "'s handler"

record 's router_entry =
  re_tainted :: bool
  re_backend :: "'s backend_obj"
  re_view :: barrier_view
  re_root_paths :: "(string \<times> bool) list"
  re_unauth_paths :: "(string \<times> bool) list"
  re_mount_entry :: nat

type_synonym 's router = "(string \<times> 's router_entry) list"
type_synonym ancestor = "string list \<Rightarrow> string \<Rightarrow> string option"

fun new_radix_from_paths :: "string list \<Rightarrow> (string \<times> bool) list \<Rightarrow> (string \<times> bool) list" where
  "new_radix_from_paths [] t = t"
| "new_radix_from_paths (p # ps) t =
     (let prefix_match = ends_with p ''*''; p' = (if prefix_match then butlast p else p)
      in new_radix_from_paths ps (AList.update p' prefix_match t))"

definition trie_ancestor :: "ancestor \<Rightarrow> (string \<times> 'v) list \<Rightarrow> string \<Rightarrow> (string \<times> 'v) option" where
  "trie_ancestor anc t p =
     (case anc (map fst t) p of None \<Rightarrow> None | Some k \<Rightarrow> map_option (Pair k) (map_of t k))"

definition router_mount ::
  "ancestor \<Rightarrow> 's backend_obj \<Rightarrow> string \<Rightarrow> nat \<Rightarrow> barrier_view \<Rightarrow> ('s router, unit) op" where
  "router_mount anc backend pfx me view root =
     (if trie_ancestor anc root pfx \<noteq> None then (Err ErrRouterMountConflict, root)
      else
        let unauth = (case be_unauth_paths backend of Some ps \<Rightarrow> ps | None \<Rightarrow> []);
            roots = (case be_root_paths backend of Some ps \<Rightarrow> ps | None \<Rightarrow> []);
            entry = \<lparr>re_tainted = False, re_backend = backend, re_view = view,
                     re_root_paths = new_radix_from_paths roots [],
                     re_unauth_paths = new_radix_from_paths unauth [], re_mount_entry = me\<rparr>
        in (Ok (), AList.update pfx entry root))"

definition router_unmount :: "string \<Rightarrow> ('s router, unit) op" where
  "router_unmount pfx root = (Ok (), AList.delete pfx root)"

definition router_remount :: "string \<Rightarrow> string \<Rightarrow> ('s router, unit) op" where
  "router_remount dst src root =
     (case map_of root src of
        Some raw \<Rightarrow> (Ok (), AList.update dst raw (AList.delete src root))
      | None \<Rightarrow> (Err ErrRouterMountNotFound, root))"

definition router_set_taint :: "bool \<Rightarrow> string \<Rightarrow> ('s router, unit) op" where
  "router_set_taint b path root =
     (case map_of root path of
        Some raw \<Rightarrow> (Ok (), AList.update path (raw\<lparr>re_tainted := b\<rparr>) root)
      | None \<Rightarrow> (Err ErrRouterMountNotFound, root))"

definition router_taint :: "string \<Rightarrow> ('s router, unit) op" where
  "router_taint = router_set_taint True"

definition router_untaint :: "string \<Rightarrow> ('s router, unit) op" where
  "router_untaint = router_set_taint False"

definition matching_mount :: "ancestor \<Rightarrow> 's router \<Rightarrow> string \<Rightarrow> string" where
  "matching_mount anc root path =
     (case trie_ancestor anc root path of Some (k, _) \<Rightarrow> k | None \<Rightarrow> [])"

definition matching_mount_entry :: "ancestor \<Rightarrow> 's router \<Rightarrow> string \<Rightarrow> nat option" where
  "matching_mount_entry anc root path = map_option (\<lambda>(_, e). re_mount_entry e) (trie_ancestor anc root path)"

definition matching_view :: "ancestor \<Rightarrow> 's router \<Rightarrow> string \<Rightarrow> barrier_view option" where
  "matching_view anc root path = map_option (\<lambda>(_, e). re_view e) (trie_ancestor anc root path)"

definition path_in_radix :: "ancestor \<Rightarrow> (string \<times> bool) list \<Rightarrow> string \<Rightarrow> bool" where
  "path_in_radix anc t remain =
     (case trie_ancestor anc t remain of
        None \<Rightarrow> False
      | Some (k, prefix_match) \<Rightarrow> if prefix_match then starts_with remain k else remain = k)"

definition is_unauth_path :: "ancestor \<Rightarrow> 's router \<Rightarrow> string \<Rightarrow> bool" where
  "is_unauth_path anc root path =
     (case trie_ancestor anc root path of
        None \<Rightarrow> False
      | Some (mount, me) \<Rightarrow> path_in_radix anc (re_unauth_paths me) (drop_first mount path))"

definition is_root_path :: "ancestor \<Rightarrow> 's router \<Rightarrow> string \<Rightarrow> bool" where
  "is_root_path anc root path =
     (case trie_ancestor anc root path of
        None \<Rightarrow> False
      | Some (mount, me) \<Rightarrow> path_in_radix anc (re_root_paths me) (drop_first mount path))"

definition salt_id :: "string \<Rightarrow> string" where
  "salt_id s = s"

text \<open>
  \<open>Router::handle_request\<close>. On an error of the backend the function returns at once: the path, the connection,
  the storage and the token of the request stay as they were set for the backend.
\<close>

definition router_handle_request :: "ancestor \<Rightarrow> 's router \<Rightarrow> 's handler" where
  "router_handle_request anc root st =
     (let (s, req0) = st;
          req = (if CHR ''/'' \<in> set (rq_path req0) then req0 else req0\<lparr>rq_path := rq_path req0 @ ''/''\<rparr>);
          original = rq_path req;
          unauth = is_unauth_path anc root original;
          original_conn = (if unauth then None else rq_connection req);
          req1 = (if unauth then req else req\<lparr>rq_connection := None\<rparr>);
          client_token = rq_client_token req1
      in case trie_ancestor anc root (rq_path req1) of
           None \<Rightarrow> (Err ErrRouterMountNotFound, (s, req1))
         | Some (mount, me) \<Rightarrow>
             if re_tainted me \<and> rq_operation req1 \<noteq> Revoke \<and> rq_operation req1 \<noteq> Rollback
             then (Err ErrRouterMountNotFound, (s, req1))
             else
               let p = drop_first mount (rq_path req1);
                   p' = (if p = ''/'' then [] else p);
                   req2 = req1\<lparr>rq_path := p', rq_storage := Some (re_view me)\<rparr>;
                   req3 = (if starts_with p' ''auth/token/'' then req2
                           else req2\<lparr>rq_client_token := salt_id (rq_client_token req2)\<rparr>)
               in case be_handle_request (re_backend me) (s, req3) of
                    (Ok resp, (s', req4)) \<Rightarrow>
                      (Ok resp, (s', req4\<lparr>rq_path := original, rq_connection := original_conn,
                        rq_storage := None, rq_client_token := client_token\<rparr>))
                  | (Err e, st') \<Rightarrow> (Err e, st')
                  | (Panic, st') \<Rightarrow> (Panic, st'))"

section \<open>Routing\<close>

lemma trie_ancestor_Some:
  assumes "radix anc" "trie_ancestor anc t p = Some (k, v)"
  shows "map_of t k = Some v" "starts_with p k"
    "\<And>k'. k' \<in> fst ` set t \<Longrightarrow> starts_with p k' \<Longrightarrow> length k' \<le> length k"
  using assms(2) radix.anc_Some [OF assms(1), of "map fst t" p k]
  by (auto simp: trie_ancestor_def split: option.splits)

lemma trie_ancestor_None:
  assumes "radix anc"
  shows "trie_ancestor anc t p = None \<longleftrightarrow> (\<forall>k \<in> fst ` set t. \<not> starts_with p k)"
proof (cases "anc (map fst t) p")
  case None
  then show ?thesis using radix.anc_None [OF assms, of "map fst t" p] by (simp add: trie_ancestor_def)
next
  case (Some k)
  then have "k \<in> fst ` set t" "starts_with p k" using radix.anc_Some [OF assms Some] by auto
  with Some show ?thesis by (auto simp: trie_ancestor_def map_of_eq_None_iff)
qed

lemma trie_ancestorI:
  assumes "radix anc" "map_of t k = Some v" "starts_with p k"
    and "\<And>k'. k' \<in> fst ` set t \<Longrightarrow> starts_with p k' \<Longrightarrow> length k' \<le> length k"
  shows "trie_ancestor anc t p = Some (k, v)"
proof -
  have "k \<in> set (map fst t)" using map_of_SomeD [OF assms(2)] by force
  then have "anc (map fst t) p = Some k"
    using assms(3,4) by (intro radix.anc_unique [OF assms(1)]) auto
  then show ?thesis using assms(2) by (simp add: trie_ancestor_def)
qed

text \<open>
  C9: an authenticated request is handled by the backend mounted under the longest prefix of its path: the
  backend gets the rest of the path, the storage view of that mount and no connection; when it succeeds, the
  caller's request has its path, connection and token back and no storage.
\<close>

theorem router_handles_by_longest_prefix:
  assumes "radix anc" "map_of root m = Some me" "rq_path req = m @ rest" "CHR ''/'' \<in> set (rq_path req)"
    and "\<forall>k \<in> fst ` set root. starts_with (m @ rest) k \<longrightarrow> length k \<le> length m"
    and "\<not> re_tainted me" "\<not> is_unauth_path anc root (m @ rest)"
    and "be_handle_request (re_backend me) (s, req\<lparr>rq_path := (if rest = ''/'' then [] else rest),
           rq_storage := Some (re_view me), rq_connection := None\<rparr>) = (Ok resp, (s', req'))"
  shows "router_handle_request anc root (s, req) =
    (Ok resp, (s', req'\<lparr>rq_path := m @ rest, rq_connection := rq_connection req, rq_storage := None,
       rq_client_token := rq_client_token req\<rparr>))"
proof -
  have t: "trie_ancestor anc root (m @ rest) = Some (m, me)"
    using assms(5) by (intro trie_ancestorI [OF assms(1,2)]) auto
  have eq: "req\<lparr>rq_connection := None, rq_path := p, rq_storage := v\<rparr> =
      req\<lparr>rq_path := p, rq_storage := v, rq_connection := None\<rparr>" for p v by simp
  have tok: "r\<lparr>rq_client_token := rq_client_token r\<rparr> = r" for r :: request by simp
  show ?thesis
    using assms(3,4,6-8) t by (simp add: router_handle_request_def salt_id_def eq tok Let_def)
qed

lemma router_handle_tainted:
  assumes "CHR ''/'' \<in> set (rq_path req)" "trie_ancestor anc root (rq_path req) = Some (m, me)"
    and "re_tainted me" "rq_operation req \<noteq> Revoke" "rq_operation req \<noteq> Rollback"
  shows "router_handle_request anc root (s, req) = (Err ErrRouterMountNotFound,
    (s, if is_unauth_path anc root (rq_path req) then req else req\<lparr>rq_connection := None\<rparr>))"
  unfolding router_handle_request_def Let_def prod.case using assms by simp

text \<open>
  A tainted mount, and a path under no mount, are not reachable: every request but a revocation or a
  rollback gets \<open>ErrRouterMountNotFound\<close> and the backend's state does not change.
\<close>

theorem router_refuses_tainted_and_unmounted:
  assumes "radix anc" "CHR ''/'' \<in> set (rq_path req)"
    and "(\<forall>k \<in> fst ` set root. \<not> starts_with (rq_path req) k) \<or>
      (rq_operation req \<notin> {Revoke, Rollback} \<and>
       (\<exists>m me. map_of root m = Some me \<and> re_tainted me \<and> starts_with (rq_path req) m \<and>
         (\<forall>k \<in> fst ` set root. starts_with (rq_path req) k \<longrightarrow> length k \<le> length m)))"
  shows "\<exists>req'. router_handle_request anc root (s, req) = (Err ErrRouterMountNotFound, (s, req'))"
  using assms(3)
proof
  assume "\<forall>k \<in> fst ` set root. \<not> starts_with (rq_path req) k"
  then have "trie_ancestor anc root (rq_path req) = None" using trie_ancestor_None [OF assms(1)] by blast
  then show ?thesis using assms(2) by (auto simp: router_handle_request_def is_unauth_path_def)
next
  assume "rq_operation req \<notin> {Revoke, Rollback} \<and>
       (\<exists>m me. map_of root m = Some me \<and> re_tainted me \<and> starts_with (rq_path req) m \<and>
         (\<forall>k \<in> fst ` set root. starts_with (rq_path req) k \<longrightarrow> length k \<le> length m))"
  then obtain m me where "trie_ancestor anc root (rq_path req) = Some (m, me)" "re_tainted me"
    "rq_operation req \<notin> {Revoke, Rollback}"
    by (metis trie_ancestorI [OF assms(1)])
  then show ?thesis using router_handle_tainted [OF assms(2)] by fast
qed

section \<open>Paths without authentication\<close>

lemma radix_paths_sound:
  "map_of (new_radix_from_paths ps t) k = Some b \<Longrightarrow>
    map_of t k = Some b \<or> (if b then k @ ''*'' \<in> set ps else k \<in> set ps)"
proof (induction ps arbitrary: t)
  case (Cons p ps)
  have star: "p = butlast p @ ''*''" if "ends_with p ''*''"
    using that by (auto simp: ends_with_iff)
  show ?case
    using Cons.IH [of "AList.update (if ends_with p ''*'' then butlast p else p) (ends_with p ''*'') t"]
      Cons.prems star
    by (auto simp: Let_def update_conv' split: if_splits)
qed simp

lemma path_in_radix_sound:
  assumes "radix anc" "path_in_radix anc (new_radix_from_paths ps []) remain"
  shows "remain \<in> set ps \<or> (\<exists>q. q @ ''*'' \<in> set ps \<and> starts_with remain q)"
proof -
  obtain k b where kb: "trie_ancestor anc (new_radix_from_paths ps []) remain = Some (k, b)"
    and m: "if b then starts_with remain k else remain = k"
    using assms(2) by (auto simp: path_in_radix_def split: option.splits)
  have "if b then k @ ''*'' \<in> set ps else k \<in> set ps"
    using radix_paths_sound [OF trie_ancestor_Some(1) [OF assms(1) kb]] by simp
  with m show ?thesis by (auto split: if_splits)
qed

text \<open>
  A request is exempt from authentication only by a pattern of the backend it is routed to. If a path is
  classified as unauthenticated, then it lies under a mount, and what is left of it is one of the paths the
  mounted backend declared, or starts with one it declared with a star.
\<close>

theorem unauth_paths_are_declared:
  assumes "radix anc" "is_unauth_path anc root path"
    and decl: "\<forall>(m, me) \<in> set root. \<exists>ps. re_unauth_paths me = new_radix_from_paths ps [] \<and>
      be_unauth_paths (re_backend me) = Some ps"
  shows "\<exists>m me ps rest. (m, me) \<in> set root \<and> path = m @ rest \<and> be_unauth_paths (re_backend me) = Some ps \<and>
    (rest \<in> set ps \<or> (\<exists>q. q @ ''*'' \<in> set ps \<and> starts_with rest q))"
proof -
  obtain m me where t: "trie_ancestor anc root path = Some (m, me)"
    and p: "path_in_radix anc (re_unauth_paths me) (drop_first m path)"
    using assms(2) by (auto simp: is_unauth_path_def split: option.splits)
  have me: "(m, me) \<in> set root" using trie_ancestor_Some(1) [OF assms(1) t] by (rule map_of_SomeD)
  obtain rest where rest: "path = m @ rest"
    using trie_ancestor_Some(2) [OF assms(1) t] by (elim starts_withE)
  obtain ps where ps: "re_unauth_paths me = new_radix_from_paths ps []"
    "be_unauth_paths (re_backend me) = Some ps"
    using decl me by blast
  have "rest \<in> set ps \<or> (\<exists>q. q @ ''*'' \<in> set ps \<and> starts_with rest q)"
    using path_in_radix_sound [OF assms(1)] p ps(1) rest by simp
  with me rest ps(2) show ?thesis by blast
qed

section \<open>A concrete router\<close>

definition demo_kv :: "unit backend_obj" where
  "demo_kv = \<lparr>be_unauth_paths = Some [''login/*'', ''health''], be_root_paths = None,
     be_handle_request = (\<lambda>st. (Ok None, st))\<rparr>"

definition demo_entry :: "bool \<Rightarrow> unit router_entry" where
  "demo_entry b = \<lparr>re_tainted = b, re_backend = demo_kv, re_view = view_new ''logical/1/'', re_root_paths = [],
     re_unauth_paths = new_radix_from_paths [''login/*'', ''health''] [], re_mount_entry = 0\<rparr>"

definition demo_router :: "unit router" where
  "demo_router = [(''secret/'', demo_entry False), (''old/'', demo_entry True)]"

theorem router_handles_by_longest_prefix_witness:
  "router_handle_request longest_ancestor demo_router ((), request_new ''secret/foo'') =
     (Ok None, ((), request_new ''secret/foo''))"
proof -
  let ?req = "request_new ''secret/foo''"
  have a: "map_of demo_router ''secret/'' = Some (demo_entry False)" "rq_path ?req = ''secret/'' @ ''foo''"
    "CHR ''/'' \<in> set (rq_path ?req)"
    by (simp_all add: demo_router_def request_new_def)
  have b: "\<forall>k \<in> fst ` set demo_router. starts_with (''secret/'' @ ''foo'') k \<longrightarrow> length k \<le> length ''secret/''"
    by (simp add: demo_router_def starts_with_def)
  have c: "\<not> re_tainted (demo_entry False)" "\<not> is_unauth_path longest_ancestor demo_router (''secret/'' @ ''foo'')"
    by code_simp+
  have d: "be_handle_request (re_backend (demo_entry False)) ((), ?req\<lparr>rq_path := (if ''foo'' = ''/'' then [] else ''foo''),
      rq_storage := Some (re_view (demo_entry False)), rq_connection := None\<rparr>) =
      (Ok None, ((), ?req\<lparr>rq_path := (if ''foo'' = ''/'' then [] else ''foo''),
      rq_storage := Some (re_view (demo_entry False)), rq_connection := None\<rparr>))"
    by (simp add: demo_entry_def demo_kv_def)
  from router_handles_by_longest_prefix [OF la.radix_axioms a b c d] show ?thesis
    by (simp add: request_new_def)
qed

theorem router_refuses_tainted_and_unmounted_witness:
  "\<exists>req'. router_handle_request longest_ancestor demo_router ((), request_new ''old/foo'') =
     (Err ErrRouterMountNotFound, ((), req'))"
  by (rule router_refuses_tainted_and_unmounted [OF la.radix_axioms], simp add: request_new_def,
      rule disjI2, rule conjI, simp add: request_new_def, rule exI [of _ "''old/''"],
      rule exI [of _ "demo_entry True"])
    (simp add: demo_router_def demo_entry_def request_new_def starts_with_def)

theorem unauth_paths_are_declared_witness:
  "\<exists>m me ps rest. (m, me) \<in> set demo_router \<and> ''secret/login/bob'' = m @ rest \<and>
     be_unauth_paths (re_backend me) = Some ps \<and>
     (rest \<in> set ps \<or> (\<exists>q. q @ ''*'' \<in> set ps \<and> starts_with rest q))"
proof -
  have "is_unauth_path longest_ancestor demo_router ''secret/login/bob''" by code_simp
  then show ?thesis
    by (rule unauth_paths_are_declared [OF la.radix_axioms])
      (simp add: demo_router_def demo_entry_def demo_kv_def)
qed

text \<open>
  The longest pattern shadows a shorter one with a star: a path that a starred pattern covers is not
  exempt (nor a root path) when a longer exact pattern is a prefix of it.
\<close>

lemma exact_pattern_shadows_star:
  "\<not> path_in_radix longest_ancestor (new_radix_from_paths [''a*'', ''abc''] []) ''abcd''"
  by code_simp

section \<open>Requests that revoke a secret\<close>

text \<open>
  A backend whose handlers for the revocation of its secrets keep the state and do not panic, and a router all of whose
  backends answer a revocation so. A logical backend asks no other handler for a revocation.
\<close>

definition idle_revocation :: "'s logical_backend \<Rightarrow> bool" where
  "idle_revocation b \<longleftrightarrow>
     (\<forall>sec \<in> set (lb_secrets b). \<forall>st. fst (secret_revoke sec st) \<noteq> Panic \<and> fst (snd (secret_revoke sec st)) = fst st)"

definition idle_revocations :: "'s router \<Rightarrow> bool" where
  "idle_revocations root \<longleftrightarrow>
     (\<forall>(p, me) \<in> set root. \<forall>s req. rq_operation req = Revoke \<longrightarrow>
        fst (be_handle_request (re_backend me) (s, req)) \<noteq> Panic \<and>
        fst (snd (be_handle_request (re_backend me) (s, req))) = s)"

lemma backend_revokes_idly:
  assumes "idle_revocation b" "rq_operation req = Revoke"
  shows "fst (backend_handle_request captures b (s, req)) \<noteq> Panic \<and> fst (snd (backend_handle_request captures b (s, req))) = s"
proof -
  have "find_secret b ty = Some sec \<Longrightarrow> sec \<in> set (lb_secrets b)" for ty sec
    by (auto simp: find_secret_def find_Some_iff)
  then show ?thesis
    using assms by (auto simp: backend_handle_request_def handle_revoke_renew_def idle_revocation_def Let_def split: option.splits)
qed

lemma router_revokes_idly:
  assumes "idle_revocations root" "rq_operation req = Revoke"
  shows "fst (router_handle_request anc root (s, req)) \<noteq> Panic \<and> fst (snd (router_handle_request anc root (s, req))) = s"
proof (cases "trie_ancestor anc root (if CHR ''/'' \<in> set (rq_path req) then rq_path req else rq_path req @ ''/'')")
  case None
  then show ?thesis using assms(2) by (auto simp: router_handle_request_def Let_def)
next
  case (Some pm)
  obtain p me where pm: "pm = (p, me)" by (cases pm)
  then have "(p, me) \<in> set root" using Some by (auto simp: trie_ancestor_def map_of_SomeD split: option.splits)
  then have "\<forall>s req. rq_operation req = Revoke \<longrightarrow> fst (be_handle_request (re_backend me) (s, req)) \<noteq> Panic \<and>
      fst (snd (be_handle_request (re_backend me) (s, req))) = s"
    using bspec [OF assms(1) [unfolded idle_revocations_def], of "(p, me)"] by simp
  then have h: "r \<noteq> Panic \<and> s' = s"
    if "be_handle_request (re_backend me) (s, rq) = (r, (s', rq'))" "rq_operation rq = Revoke" for rq r s' rq'
    using that by (metis fst_conv snd_conv)
  have answer: "fst (case be_handle_request (re_backend me) (s, rq) of (Ok x, s', r) \<Rightarrow> (Ok x, s', f r)
        | (Err e, st) \<Rightarrow> (Err e, st) | (Panic, st) \<Rightarrow> (Panic, st)) \<noteq> Panic"
      "fst (snd (case be_handle_request (re_backend me) (s, rq) of (Ok x, s', r) \<Rightarrow> (Ok x, s', f r)
        | (Err e, st) \<Rightarrow> (Err e, st) | (Panic, st) \<Rightarrow> (Panic, st))) = s"
    if "rq_operation rq = Revoke" for rq f
    using h [OF _ that] by (auto split: prod.splits res.splits)
  show ?thesis
    using Some assms(2) unfolding pm by (auto simp: router_handle_request_def Let_def answer split: if_splits)
qed

end
