(* ===== verification/Mount.thy ===== *)
theory Mount
  imports Router
begin

text \<open>
  Mounts, \<open>src/mount.rs\<close>: mount entries with their authentication codes, the mount table with its loading
  and persisting, and the operations of the core that mount, unmount and remount a backend and that set up
  the mounts after an unseal.

  A mount entry is an object that the table and the router share and that \<open>remount\<close> changes in place: entries
  live in a heap (a list, indexed by address), the table and the router hold addresses. The hash map of the
  table is an association list in the order of its iteration. JSON, hexadecimal text, the message
  authentication code and the generator of identifiers are the record \<open>mount_env\<close>.

  Shown: what a mount makes reachable and stores, that a stored entry's code is never verified, that a mount
  above an existing one is accepted and then makes the set-up of the mounts fail, and that a mount that was
  moved and then unmounted stays in the stored table.
\<close>

section \<open>Data\<close>

datatype hmac_level = HmacNone | HmacCompat | HmacHigh

record mount_entry =
  me_table :: string
  me_tainted :: bool
  me_uuid :: string
  me_path :: string
  me_logical_type :: string
  me_description :: string
  me_options :: "(string \<times> string) list option"
  me_hmac :: string

type_synonym mount_table = "(string \<times> nat) list"
type_synonym mtab = "mount_entry list \<times> mount_table"

record mount_env =
  ser_table :: "(string \<times> mount_entry) list \<Rightarrow> bytes"
  de_table :: "bytes \<Rightarrow> (string \<times> mount_entry) list option"
  hmac_sign :: "bytes \<Rightarrow> bytes \<Rightarrow> bytes res"
  hmac_verify :: "bytes \<Rightarrow> bytes \<Rightarrow> bytes \<Rightarrow> bool res"
  hex_encode :: "bytes \<Rightarrow> string"
  new_uuid :: "nat \<Rightarrow> string"
  default_uuids :: "string \<times> string"

definition CORE_MOUNT_CONFIG_PATH :: string where "CORE_MOUNT_CONFIG_PATH = ''core/mounts''"
definition LOGICAL_BARRIER_PREFIX :: string where "LOGICAL_BARRIER_PREFIX = ''logical/''"
definition SYSTEM_BARRIER_PREFIX :: string where "SYSTEM_BARRIER_PREFIX = ''sys/''"
definition MOUNT_TABLE_TYPE :: string where "MOUNT_TABLE_TYPE = ''mounts''"

definition PROTECTED_MOUNTS :: "string list" where
  "PROTECTED_MOUNTS = [''audit/'', ''auth/'', ''sys/'']"

definition mount_entry_new :: "string \<Rightarrow> string \<Rightarrow> string \<Rightarrow> string \<Rightarrow> mount_entry" where
  "mount_entry_new table path ty desc =
     \<lparr>me_table = table, me_tainted = False, me_uuid = [], me_path = path, me_logical_type = ty,
      me_description = desc, me_options = None, me_hmac = []\<rparr>"

definition DEFAULT_CORE_MOUNTS :: "mount_env \<Rightarrow> mount_entry list" where
  "DEFAULT_CORE_MOUNTS env =
     [(mount_entry_new MOUNT_TABLE_TYPE ''secret/'' ''kv'' ''key/value secret storage'')
        \<lparr>me_uuid := fst (default_uuids env)\<rparr>,
      (mount_entry_new MOUNT_TABLE_TYPE ''sys/'' ''system''
        ''system endpoints used for control, policy and debugging'')\<lparr>me_uuid := snd (default_uuids env)\<rparr>]"

section \<open>Authentication codes of entries\<close>

definition get_hmac_msg :: "mount_entry \<Rightarrow> string" where
  "get_hmac_msg e =
     (let msg = me_table e @ ''-'' @ me_path e @ ''-'' @ me_logical_type e @ ''-'' @ me_description e in
      case me_options e of
        None \<Rightarrow> msg
      | Some opts \<Rightarrow> foldl (\<lambda>m (k, v). m @ ''-'' @ k @ '':'' @ v) msg (sort_key fst opts))"

definition calc_hmac :: "mount_env \<Rightarrow> bytes \<Rightarrow> mount_entry \<Rightarrow> mount_entry res" where
  "calc_hmac env key e =
     res_bind (hmac_sign env key (str_bytes (get_hmac_msg e))) (\<lambda>h. Ok (e\<lparr>me_hmac := hex_encode env h\<rparr>))"

definition verify_hmac :: "mount_env \<Rightarrow> bytes \<Rightarrow> mount_entry \<Rightarrow> bool res" where
  "verify_hmac env key e = hmac_verify env key (str_bytes (get_hmac_msg e)) (str_bytes (me_hmac e))"

section \<open>The mount table\<close>

definition table_insert :: "string \<Rightarrow> mount_entry \<Rightarrow> mtab \<Rightarrow> mtab" where
  "table_insert path e mt = (fst mt @ [e], AList.update path (length (fst mt)) (snd mt))"

definition table_get :: "mtab \<Rightarrow> string \<Rightarrow> nat option" where
  "table_get mt path = map_of (snd mt) path"

definition table_delete :: "string \<Rightarrow> mtab \<Rightarrow> bool \<times> mtab" where
  "table_delete path mt = (map_of (snd mt) path \<noteq> None, (fst mt, AList.delete path (snd mt)))"

definition table_set_taint :: "string \<Rightarrow> bool \<Rightarrow> mtab \<Rightarrow> bool \<times> mtab" where
  "table_set_taint path b mt =
     (case map_of (snd mt) path of
        Some a \<Rightarrow> (True, ((fst mt)[a := (fst mt ! a)\<lparr>me_tainted := b\<rparr>], snd mt))
      | None \<Rightarrow> (False, mt))"

fun table_set_default :: "mount_env \<Rightarrow> bytes option \<Rightarrow> mount_entry list \<Rightarrow> (mtab, unit) op" where
  "table_set_default env key [] mt = (Ok (), mt)"
| "table_set_default env key (m # ms) mt =
     (case (case key of Some k \<Rightarrow> calc_hmac env k m | None \<Rightarrow> Ok m) of
        Ok m' \<Rightarrow> table_set_default env key ms (table_insert (me_path m') m' mt)
      | Err e \<Rightarrow> (Err e, mt)
      | Panic \<Rightarrow> (Panic, mt))"

definition table_contents :: "mtab \<Rightarrow> (string \<times> mount_entry) list" where
  "table_contents mt = map (\<lambda>(p, a). (p, fst mt ! a)) (snd mt)"

definition table_persist :: "mount_env \<Rightarrow> 's storage_ops \<Rightarrow> string \<Rightarrow> mtab \<Rightarrow> ('s, unit) op" where
  "table_persist env sops to mt =
     storage_put sops \<lparr>se_key = to, se_value = ser_table env (table_contents mt)\<rparr>"

fun insert_all :: "(string \<times> mount_entry) list \<Rightarrow> mtab \<Rightarrow> mtab" where
  "insert_all [] mt = mt"
| "insert_all ((p, e) # es) mt = insert_all es (table_insert p e mt)"

text \<open>\<open>retain\<close> with the check of the code: an error of the check drops the entry.\<close>

fun retain_verified :: "mount_env \<Rightarrow> bytes \<Rightarrow> (string \<times> mount_entry) list \<Rightarrow> (string \<times> mount_entry) list res" where
  "retain_verified env key [] = Ok []"
| "retain_verified env key ((p, e) # es) =
     (case verify_hmac env key e of
        Panic \<Rightarrow> Panic
      | r \<Rightarrow> res_bind (retain_verified env key es) (\<lambda>rest. Ok (if r = Ok True then (p, e) # rest else rest)))"

definition table_load ::
  "mount_env \<Rightarrow> 's storage_ops \<Rightarrow> string \<Rightarrow> bytes option \<Rightarrow> hmac_level \<Rightarrow> (mtab \<times> 's, unit) op" where
  "table_load env sops path key level st =
     (case storage_get sops path (snd st) of
        (Err e, s) \<Rightarrow> (Err e, (fst st, s))
      | (Panic, s) \<Rightarrow> (Panic, (fst st, s))
      | (Ok None, s) \<Rightarrow> (Err ErrConfigLoadFailed, (fst st, s))
      | (Ok (Some e), s) \<Rightarrow>
          (case de_table env (se_value e) of
             None \<Rightarrow> (Err (External SerdeJson ''invalid mount table''), (fst st, s))
           | Some new \<Rightarrow>
               let cleared = (fst (fst st), []) in
               (case (if level \<noteq> HmacNone \<and> key \<noteq> None then retain_verified env (the key) new else Ok new) of
                  Ok kept \<Rightarrow> (Ok (), (insert_all kept cleared, s))
                | Err er \<Rightarrow> (Err er, (cleared, s))
                | Panic \<Rightarrow> (Panic, (cleared, s)))))"

text \<open>\<open>mount_update\<close>: entries of an older format get the name of the table and, in the compatible mode, a code.\<close>

fun update_entries :: "mount_env \<Rightarrow> bytes option \<Rightarrow> hmac_level \<Rightarrow> nat list \<Rightarrow> bool \<Rightarrow> (mount_entry list, bool) op" where
  "update_entries env key level [] need heap = (Ok need, heap)"
| "update_entries env key level (a # as) need heap =
     (let e = heap ! a;
          e1 = (if me_table e = [] then e\<lparr>me_table := MOUNT_TABLE_TYPE\<rparr> else e);
          need1 = (need \<or> me_table e = [])
      in if me_hmac e1 = [] \<and> key \<noteq> None \<and> level = HmacCompat then
           (case calc_hmac env (the key) e1 of
              Ok e2 \<Rightarrow> update_entries env key level as True (heap[a := e2])
            | Err er \<Rightarrow> (Err er, heap[a := e1])
            | Panic \<Rightarrow> (Panic, heap[a := e1]))
         else update_entries env key level as need1 (heap[a := e1]))"

definition mount_update ::
  "mount_env \<Rightarrow> 's storage_ops \<Rightarrow> bytes option \<Rightarrow> hmac_level \<Rightarrow> (mtab \<times> 's, unit) op" where
  "mount_update env sops key level st =
     (case update_entries env key level (map snd (snd (fst st))) False (fst (fst st)) of
        (Err e, heap) \<Rightarrow> (Err e, ((heap, snd (fst st)), snd st))
      | (Panic, heap) \<Rightarrow> (Panic, ((heap, snd (fst st)), snd st))
      | (Ok need, heap) \<Rightarrow>
          let mt = (heap, snd (fst st)) in
          if need then
            (case table_persist env sops CORE_MOUNT_CONFIG_PATH mt (snd st) of (r, s) \<Rightarrow> (r, (mt, s)))
          else (Ok (), (mt, snd st)))"

definition load_or_default ::
  "mount_env \<Rightarrow> 's storage_ops \<Rightarrow> bytes option \<Rightarrow> hmac_level \<Rightarrow> (mtab \<times> 's, unit) op" where
  "load_or_default env sops key level st =
     (case storage_get sops CORE_MOUNT_CONFIG_PATH (snd st) of
        (Err e, s) \<Rightarrow> (Err e, (fst st, s))
      | (Panic, s) \<Rightarrow> (Panic, (fst st, s))
      | (Ok None, s) \<Rightarrow>
          (case table_set_default env key (DEFAULT_CORE_MOUNTS env) (fst st) of
             (Ok _, mt) \<Rightarrow>
               (case table_persist env sops CORE_MOUNT_CONFIG_PATH mt s of (r, s') \<Rightarrow> (r, (mt, s')))
           | (Err e, mt) \<Rightarrow> (Err e, (mt, s))
           | (Panic, mt) \<Rightarrow> (Panic, (mt, s)))
      | (Ok (Some _), s) \<Rightarrow>
          op_bind (table_load env sops CORE_MOUNT_CONFIG_PATH key level) (\<lambda>_. mount_update env sops key level)
            (fst st, s))"

section \<open>The core and its mounts\<close>

record 's handler_obj =
  h_name :: string
  h_pre_route :: "'s handler"
  h_route :: "'s handler"
  h_post_route :: "response option \<Rightarrow> ('s \<times> request, response option) op"
  h_log :: "response option \<Rightarrow> ('s \<times> request, unit) op"

text \<open>The first handler is the router of the core, the same object as the field \<open>router\<close>.\<close>

datatype 's handler_ref = CoreRouter | Custom "'s handler_obj"

record 's core =
  co_storage :: 's
  co_system_view :: "barrier_view option"
  co_heap :: "mount_entry list"
  co_mounts :: mount_table
  co_router :: "'s router"
  co_handlers :: "'s handler_ref list"
  co_logical_backends :: "(string \<times> 's backend_obj res) list"
  co_hmac_key :: bytes
  co_hmac_level :: hmac_level
  co_uuids :: nat

definition with_slash :: "string \<Rightarrow> string" where
  "with_slash p = (if ends_with p ''/'' then p else p @ ''/'')"

definition get_logical_backend :: "'s core \<Rightarrow> string \<Rightarrow> 's backend_obj res res" where
  "get_logical_backend c ty =
     (case map_of (co_logical_backends c) ty of
        Some b \<Rightarrow> Ok b | None \<Rightarrow> Err ErrCoreLogicalBackendNoExist)"

definition core_persist :: "mount_env \<Rightarrow> 's storage_ops \<Rightarrow> ('s core, unit) op" where
  "core_persist env sops c =
     (case table_persist env sops CORE_MOUNT_CONFIG_PATH (co_heap c, co_mounts c) (co_storage c) of
        (r, s) \<Rightarrow> (r, c\<lparr>co_storage := s\<rparr>))"

definition core_mount :: "ancestor \<Rightarrow> mount_env \<Rightarrow> 's storage_ops \<Rightarrow> mount_entry \<Rightarrow> ('s core, unit) op" where
  "core_mount anc env sops me c =
     (let entry = me\<lparr>me_path := with_slash (me_path me)\<rparr> in
      if is_protect_path PROTECTED_MOUNTS [me_path entry] then (Err ErrMountPathProtected, c)
      else
        let entry = (if me_table entry = [] then entry\<lparr>me_table := MOUNT_TABLE_TYPE\<rparr> else entry) in
        if matching_mount anc (co_router c) (me_path entry) \<noteq> [] then (Err ErrMountPathExist, c)
        else case res_bind (get_logical_backend c (me_logical_type me)) (\<lambda>b. b) of
            Err e \<Rightarrow> (Err e, c)
          | Panic \<Rightarrow> (Panic, c)
          | Ok backend \<Rightarrow>
              let uuid = new_uuid env (co_uuids c);
                  c1 = c\<lparr>co_uuids := Suc (co_uuids c)\<rparr>;
                  entry = entry\<lparr>me_uuid := uuid\<rparr>;
                  view = view_new (LOGICAL_BARRIER_PREFIX @ uuid @ ''/'')
              in case calc_hmac env (co_hmac_key c) entry of
                   Err e \<Rightarrow> (Err e, c1)
                 | Panic \<Rightarrow> (Panic, c1)
                 | Ok entry \<Rightarrow>
                     let a = length (co_heap c1); c2 = c1\<lparr>co_heap := co_heap c1 @ [entry]\<rparr> in
                     (case router_mount anc backend (me_path entry) a view (co_router c2) of
                        (Err e, r) \<Rightarrow> (Err e, c2\<lparr>co_router := r\<rparr>)
                      | (Panic, r) \<Rightarrow> (Panic, c2\<lparr>co_router := r\<rparr>)
                      | (Ok _, r) \<Rightarrow>
                          core_persist env sops
                            (c2\<lparr>co_router := r, co_mounts := AList.update (me_path entry) a (co_mounts c2)\<rparr>)))"

definition taint_mount_entry :: "mount_env \<Rightarrow> 's storage_ops \<Rightarrow> string \<Rightarrow> ('s core, unit) op" where
  "taint_mount_entry env sops path c =
     (case table_set_taint path True (co_heap c, co_mounts c) of
        (True, mt) \<Rightarrow> core_persist env sops (c\<lparr>co_heap := fst mt, co_mounts := snd mt\<rparr>)
      | (False, mt) \<Rightarrow> (Ok (), c))"

definition remove_mount_entry :: "mount_env \<Rightarrow> 's storage_ops \<Rightarrow> string \<Rightarrow> ('s core, unit) op" where
  "remove_mount_entry env sops path c =
     (case table_delete path (co_heap c, co_mounts c) of
        (True, mt) \<Rightarrow> core_persist env sops (c\<lparr>co_heap := fst mt, co_mounts := snd mt\<rparr>)
      | (False, mt) \<Rightarrow> (Ok (), c))"

definition on_router :: "('s router, 'a) op \<Rightarrow> ('s core, 'a) op" where
  "on_router f c = (case f (co_router c) of (r, root) \<Rightarrow> (r, c\<lparr>co_router := root\<rparr>))"

text \<open>
  \<open>unmount\<close> clears the storage view of the mount, a loop that may not end (the value \<open>None\<close>).
\<close>

definition core_unmount ::
  "ancestor \<Rightarrow> mount_env \<Rightarrow> 's storage_ops \<Rightarrow> string \<Rightarrow> 's core \<Rightarrow> (unit res \<times> 's core) option" where
  "core_unmount anc env sops path0 c =
     (let path = with_slash path0 in
      if is_protect_path PROTECTED_MOUNTS [path] then Some (Err ErrMountPathProtected, c)
      else if matching_mount anc (co_router c) path = [] \<or> matching_mount anc (co_router c) path \<noteq> path
      then Some (Err ErrMountNotMatch, c)
      else
        let view = matching_view anc (co_router c) path in
        case op_bind (taint_mount_entry env sops path)
               (\<lambda>_. op_bind (on_router (router_taint path)) (\<lambda>_. on_router (router_unmount path))) c of
          (Err e, c1) \<Rightarrow> Some (Err e, c1)
        | (Panic, c1) \<Rightarrow> Some (Panic, c1)
        | (Ok _, c1) \<Rightarrow>
            (case (case view of None \<Rightarrow> Some (Ok (), co_storage c1) | Some v \<Rightarrow> view_clear sops v (co_storage c1)) of
               None \<Rightarrow> None
             | Some (Err e, s) \<Rightarrow> Some (Err e, c1\<lparr>co_storage := s\<rparr>)
             | Some (Panic, s) \<Rightarrow> Some (Panic, c1\<lparr>co_storage := s\<rparr>)
             | Some (Ok _, s) \<Rightarrow> Some (remove_mount_entry env sops path (c1\<lparr>co_storage := s\<rparr>))))"

definition heap_update :: "nat \<Rightarrow> (mount_entry \<Rightarrow> mount_entry) \<Rightarrow> 's core \<Rightarrow> 's core" where
  "heap_update a f c = c\<lparr>co_heap := (co_heap c)[a := f (co_heap c ! a)]\<rparr>"

text \<open>
  The part of \<open>remount\<close> after the source is tainted: the entry at address \<open>a\<close> gets the new path and a new code,
  and the table is stored; when storing fails the entry gets its old path back and stays tainted.
\<close>

definition remount_entry ::
  "ancestor \<Rightarrow> mount_env \<Rightarrow> 's storage_ops \<Rightarrow> nat \<Rightarrow> string \<Rightarrow> string \<Rightarrow> ('s core, unit) op" where
  "remount_entry anc env sops a src dst c =
     (if matching_mount anc (co_router c) dst \<noteq> [] then (Err ErrMountPathExist, c)
      else
        let src_path = me_path (co_heap c ! a);
            c3 = heap_update a (\<lambda>e. e\<lparr>me_path := dst, me_tainted := False\<rparr>) c
        in case calc_hmac env (co_hmac_key c3) (co_heap c3 ! a) of
             Err e \<Rightarrow> (Err e, c3)
           | Panic \<Rightarrow> (Panic, c3)
           | Ok e' \<Rightarrow>
               let c4 = heap_update a (\<lambda>_. e') c3 in
               (case core_persist env sops c4 of
                  (Panic, c5) \<Rightarrow> (Panic, c5)
                | (Err e, c5) \<Rightarrow>
                    let c6 = heap_update a (\<lambda>e. e\<lparr>me_path := src_path, me_tainted := True\<rparr>) c5 in
                    (case calc_hmac env (co_hmac_key c6) (co_heap c6 ! a) of
                       Ok e'' \<Rightarrow> (Err e, heap_update a (\<lambda>_. e'') c6)
                     | Err e2 \<Rightarrow> (Err e2, c6)
                     | Panic \<Rightarrow> (Panic, c6))
                | (Ok _, c5) \<Rightarrow>
                    op_bind (on_router (router_remount dst src)) (\<lambda>_. on_router (router_untaint dst)) c5))"

definition core_remount ::
  "ancestor \<Rightarrow> mount_env \<Rightarrow> 's storage_ops \<Rightarrow> string \<Rightarrow> string \<Rightarrow> ('s core, unit) op" where
  "core_remount anc env sops src0 dst0 c =
     (let src = with_slash src0; dst = with_slash dst0 in
      if is_protect_path PROTECTED_MOUNTS [src, dst] then (Err ErrMountPathProtected, c)
      else if matching_mount anc (co_router c) dst \<noteq> [] then (Err ErrMountPathExist, c)
      else case matching_mount_entry anc (co_router c) src of
          None \<Rightarrow> (Err ErrMountNotMatch, c)
        | Some a \<Rightarrow>
            op_bind (on_router (router_taint src)) (\<lambda>_. remount_entry anc env sops a src dst)
              (heap_update a (\<lambda>e. e\<lparr>me_tainted := True\<rparr>) c))"

definition setup_mount :: "ancestor \<Rightarrow> nat \<Rightarrow> ('s core, unit) op" where
  "setup_mount anc a c =
     (let entry = co_heap c ! a;
          system = (me_logical_type entry = ''system'');
          barrier_path = (if system then SYSTEM_BARRIER_PREFIX else LOGICAL_BARRIER_PREFIX @ me_uuid entry @ ''/'')
      in case res_bind (get_logical_backend c (me_logical_type entry)) (\<lambda>b. b) of
           Err e \<Rightarrow> (Err e, c)
         | Panic \<Rightarrow> (Panic, c)
         | Ok backend \<Rightarrow>
             op_bind (on_router (router_mount anc backend (me_path entry) a (view_new barrier_path))) (\<lambda>_ c1.
               let c2 = (if system then c1\<lparr>co_system_view := Some (view_new barrier_path)\<rparr> else c1) in
               if me_tainted entry then on_router (router_taint (me_path entry)) c2 else (Ok (), c2)) c)"

definition setup_mounts :: "ancestor \<Rightarrow> ('s core, unit) op" where
  "setup_mounts anc c = op_iter (setup_mount anc) (map snd (co_mounts c)) c"

definition unload_mounts :: "('s core, unit) op" where
  "unload_mounts c =
     (let c1 = c\<lparr>co_router := []\<rparr> in
      if co_handlers c1 = [] then (Panic, c1)
      else (Ok (), c1\<lparr>co_handlers := (co_handlers c1)[0 := CoreRouter], co_mounts := [], co_system_view := None\<rparr>))"


section \<open>Mounting\<close>

lemma with_slash_not_Nil [simp]: "with_slash p \<noteq> []"
  by (auto simp: with_slash_def ends_with_iff)

lemma matching_mount_Nil:
  assumes "radix anc" "[] \<notin> fst ` set root"
  shows "matching_mount anc root p = [] \<longleftrightarrow> (\<forall>k \<in> fst ` set root. \<not> starts_with p k)"
proof -
  have "k \<noteq> []" if "trie_ancestor anc root p = Some (k, v)" for k v
    using map_of_SomeD [OF trie_ancestor_Some(1) [OF assms(1) that]] assms(2) by force
  then show ?thesis
    using trie_ancestor_None [OF assms(1), of root p]
    by (cases "trie_ancestor anc root p") (auto simp: matching_mount_def)
qed

lemma core_persist_effect:
  assumes "storage sops valid stored ready" "ready (co_storage c)" "valid CORE_MOUNT_CONFIG_PATH"
  shows "\<exists>s'. core_persist env sops c = (Ok (), c\<lparr>co_storage := s'\<rparr>) \<and> ready s' \<and>
    stored s' CORE_MOUNT_CONFIG_PATH = Some (ser_table env (table_contents (co_heap c, co_mounts c)))"
proof -
  from storage.put_stored [OF assms, of "ser_table env (table_contents (co_heap c, co_mounts c))"] assms(3)
  show ?thesis by (auto simp: core_persist_def table_persist_def)
qed

lemma router_mount_effect:
  assumes "trie_ancestor anc root p = None"
  shows "\<exists>x. router_mount anc b p a view root = (Ok (), AList.update p x root) \<and>
    re_view x = view \<and> re_mount_entry x = a"
  by (rule exI [of _ "\<lparr>re_tainted = False, re_backend = b, re_view = view,
      re_root_paths = new_radix_from_paths (case be_root_paths b of Some ps \<Rightarrow> ps | None \<Rightarrow> []) [],
      re_unauth_paths = new_radix_from_paths (case be_unauth_paths b of Some ps \<Rightarrow> ps | None \<Rightarrow> []) [],
      re_mount_entry = a\<rparr>"]) (simp add: router_mount_def assms Let_def)

lemma core_mount_ok:
  assumes "radix anc" "storage sops valid stored ready" "ready (co_storage c)" "valid CORE_MOUNT_CONFIG_PATH"
    and "p = with_slash (me_path me)" "\<not> is_protect_path PROTECTED_MOUNTS [p]"
    and free: "\<forall>k \<in> fst ` set (co_router c). \<not> starts_with p k"
    and "map_of (co_logical_backends c) (me_logical_type me) = Some (Ok backend)"
    and sign: "\<And>k m. is_ok (hmac_sign env k m)"
  obtains c' e x where "core_mount anc env sops me c = (Ok (), c')" "ready (co_storage c')"
    "co_heap c' = co_heap c @ [e]" "co_mounts c' = AList.update p (length (co_heap c)) (co_mounts c)"
    "me_path e = p" "me_uuid e = new_uuid env (co_uuids c)" "me_logical_type e = me_logical_type me"
    "me_description e = me_description me" "co_router c' = AList.update p x (co_router c)"
    "re_view x = view_new (''logical/'' @ new_uuid env (co_uuids c) @ ''/'')" "re_mount_entry x = length (co_heap c)"
    "trie_ancestor anc (co_router c') p = Some (p, x)"
    "stored (co_storage c') CORE_MOUNT_CONFIG_PATH = Some (ser_table env (table_contents (co_heap c', co_mounts c')))"
proof -
  define uuid where "uuid = new_uuid env (co_uuids c)"
  define e0 where "e0 = (let e = me\<lparr>me_path := p\<rparr> in
      (if me_table e = [] then e\<lparr>me_table := MOUNT_TABLE_TYPE\<rparr> else e)\<lparr>me_uuid := uuid\<rparr>)"
  obtain h where h: "hmac_sign env (co_hmac_key c) (str_bytes (get_hmac_msg e0)) = Ok h"
    using sign by (auto simp: is_ok_iff)
  define e1 where "e1 = e0\<lparr>me_hmac := hex_encode env h\<rparr>"
  have e1: "calc_hmac env (co_hmac_key c) e0 = Ok e1" by (simp add: calc_hmac_def h e1_def)
  have e1_sel: "me_path e1 = p" "me_uuid e1 = uuid" "me_logical_type e1 = me_logical_type me" "me_description e1 = me_description me"
    by (simp_all add: e1_def e0_def Let_def)
  define a where "a = length (co_heap c)"
  define view where "view = view_new (''logical/'' @ uuid @ ''/'')"
  have none: "trie_ancestor anc (co_router c) p = None"
    using trie_ancestor_None [OF assms(1)] free by blast
  obtain r x where r: "router_mount anc backend p a view (co_router c) = (Ok (), r)"
    and x: "r = AList.update p x (co_router c)" "re_view x = view" "re_mount_entry x = a"
    using router_mount_effect [OF none] by blast
  have anc: "trie_ancestor anc r p = Some (p, x)"
    by (rule trie_ancestorI [OF assms(1)])
      (auto simp: x(1) update_conv' starts_with_iff_prefix dest: prefix_length_le)
  define c3 where "c3 = c\<lparr>co_uuids := Suc (co_uuids c), co_heap := co_heap c @ [e1], co_router := r,
      co_mounts := AList.update p a (co_mounts c)\<rparr>"
  have p0: "matching_mount anc (co_router c) p = []" using none by (simp add: matching_mount_def)
  have run: "core_mount anc env sops me c = core_persist env sops c3"
    using assms(5-6,8) p0 e1 e1_sel r
    by (simp add: core_mount_def Let_def get_logical_backend_def c3_def a_def view_def uuid_def e0_def
        LOGICAL_BARRIER_PREFIX_def split: if_splits)
  obtain s' where s': "core_persist env sops c3 = (Ok (), c3\<lparr>co_storage := s'\<rparr>)" "ready s'"
    "stored s' CORE_MOUNT_CONFIG_PATH = Some (ser_table env (table_contents (co_heap c3, co_mounts c3)))"
    using core_persist_effect [OF assms(2), of c3] assms(3,4) by (auto simp: c3_def)
  show ?thesis
    by (rule that [of "c3\<lparr>co_storage := s'\<rparr>" e1 x])
      (use run s' anc x e1_sel in \<open>simp_all add: c3_def a_def view_def uuid_def\<close>)
qed

text \<open>
  A mount under a path that is not protected and not under another mount succeeds: the path is then routed
  to the new backend with a storage view of its own, under a fresh identifier, the table has the entry under
  the path, and the whole table is what the storage holds.
\<close>

theorem core_mount_effect:
  assumes "radix anc" "storage sops valid stored ready" "ready (co_storage c)" "valid CORE_MOUNT_CONFIG_PATH"
    and "p = with_slash (me_path me)" "\<not> is_protect_path PROTECTED_MOUNTS [p]"
    and free: "\<forall>k \<in> fst ` set (co_router c). \<not> starts_with p k"
    and "map_of (co_logical_backends c) (me_logical_type me) = Some (Ok backend)"
    and sign: "\<And>k m. is_ok (hmac_sign env k m)"
  shows "\<exists>c' a. core_mount anc env sops me c = (Ok (), c') \<and>
    map_of (co_mounts c') p = Some a \<and> me_path (co_heap c' ! a) = p \<and>
    me_uuid (co_heap c' ! a) = new_uuid env (co_uuids c) \<and>
    matching_mount anc (co_router c') p = p \<and> matching_mount_entry anc (co_router c') p = Some a \<and>
    matching_view anc (co_router c') p = Some (view_new (''logical/'' @ new_uuid env (co_uuids c) @ ''/'')) \<and>
    stored (co_storage c') CORE_MOUNT_CONFIG_PATH =
      Some (ser_table env (table_contents (co_heap c', co_mounts c')))"
proof -
  obtain c' e x where c': "core_mount anc env sops me c = (Ok (), c')" "co_heap c' = co_heap c @ [e]"
    "co_mounts c' = AList.update p (length (co_heap c)) (co_mounts c)" "me_path e = p" "me_uuid e = new_uuid env (co_uuids c)"
    "re_view x = view_new (''logical/'' @ new_uuid env (co_uuids c) @ ''/'')" "re_mount_entry x = length (co_heap c)"
    "trie_ancestor anc (co_router c') p = Some (p, x)"
    "stored (co_storage c') CORE_MOUNT_CONFIG_PATH = Some (ser_table env (table_contents (co_heap c', co_mounts c')))"
    by (rule core_mount_ok [OF assms]) blast
  then show ?thesis
    by (intro exI [of _ c'] exI [of _ "length (co_heap c)"])
      (simp add: update_conv' matching_mount_def matching_mount_entry_def matching_view_def)
qed


section \<open>The codes of stored entries\<close>

lemma str_bytes_length [simp]: "length (str_bytes s) = length s"
  by (simp add: str_bytes_def)

text \<open>The documented behaviour of the code and of its text: one signature per message, two digits per byte.\<close>

definition mac_ok :: "mount_env \<Rightarrow> bool" where
  "mac_ok env \<longleftrightarrow>
     (\<forall>key m. \<exists>sig. hmac_sign env key m = Ok sig \<and> sig \<noteq> [] \<and> (\<forall>s. hmac_verify env key m s = Ok (s = sig))) \<and>
     (\<forall>b. length (hex_encode env b) = 2 * length b)"

lemma hmac_msg_ignores_hmac [simp]: "get_hmac_msg (e\<lparr>me_hmac := h\<rparr>) = get_hmac_msg e"
  by (simp add: get_hmac_msg_def)

lemma verify_calc_False:
  assumes "mac_ok env" "calc_hmac env key e0 = Ok e"
  shows "verify_hmac env key e = Ok False"
proof -
  obtain sig where s: "hmac_sign env key (str_bytes (get_hmac_msg e0)) = Ok sig" "sig \<noteq> []"
    "\<And>x. hmac_verify env key (str_bytes (get_hmac_msg e0)) x = Ok (x = sig)"
    using assms(1) unfolding mac_ok_def by blast
  have e: "e = e0\<lparr>me_hmac := hex_encode env sig\<rparr>" using assms(2) s(1) by (simp add: calc_hmac_def)
  have "length (str_bytes (hex_encode env sig)) \<noteq> length sig"
    using assms(1) s(2) by (simp add: mac_ok_def)
  then have "str_bytes (hex_encode env sig) \<noteq> sig" by metis
  then show ?thesis by (simp add: verify_hmac_def e s(3))
qed

lemma retain_verified_Nil:
  assumes "mac_ok env" "\<forall>(p, e) \<in> set tbl. \<exists>e0. calc_hmac env key e0 = Ok e"
  shows "retain_verified env key tbl = Ok []"
  using assms(2)
proof (induction tbl)
  case (Cons x tbl)
  obtain p e where x: "x = (p, e)" by fastforce
  then obtain e0 where "calc_hmac env key e0 = Ok e" using Cons.prems by auto
  then have "verify_hmac env key e = Ok False" by (rule verify_calc_False [OF assms(1)])
  then show ?case using Cons x by simp
qed simp

text \<open>
  The authentication code of an entry is stored as hexadecimal text, and that text, not the code, is given
  to the verifier: no entry that the vault wrote passes. When the codes are checked (any level but none), loading
  a table of such entries succeeds and leaves the table empty.
\<close>

theorem stored_mounts_fail_verification:
  assumes "mac_ok env" "level \<noteq> HmacNone"
    and "storage_get sops path s = (Ok (Some entry), s1)" "de_table env (se_value entry) = Some tbl"
    and "\<forall>(p, e) \<in> set tbl. \<exists>e0. calc_hmac env key e0 = Ok e"
  shows "table_load env sops path (Some key) level (mt, s) = (Ok (), ((fst mt, []), s1))"
  using assms(2-4) retain_verified_Nil [OF assms(1,5)] by (simp add: table_load_def Let_def)

section \<open>Nested mounts\<close>

lemma setup_mount_ok:
  assumes "radix anc" "\<forall>k \<in> fst ` set (co_router c). \<not> starts_with (me_path (co_heap c ! a)) k"
    and "map_of (co_logical_backends c) (me_logical_type (co_heap c ! a)) = Some (Ok b)"
    and "\<not> me_tainted (co_heap c ! a)" "me_logical_type (co_heap c ! a) \<noteq> ''system''"
  shows "\<exists>x. setup_mount anc a c =
    (Ok (), c\<lparr>co_router := AList.update (me_path (co_heap c ! a)) x (co_router c)\<rparr>)"
proof -
  have "trie_ancestor anc (co_router c) (me_path (co_heap c ! a)) = None"
    using trie_ancestor_None [OF assms(1)] assms(2) by blast
  then show ?thesis
    using assms(3-5)
    by (auto simp: setup_mount_def get_logical_backend_def op_bind_def on_router_def router_mount_def Let_def)
qed

lemma setup_mount_conflict:
  assumes "radix anc" "k \<in> fst ` set (co_router c)" "starts_with (me_path (co_heap c ! a)) k"
    and "map_of (co_logical_backends c) (me_logical_type (co_heap c ! a)) = Some (Ok b)"
  shows "setup_mount anc a c = (Err ErrRouterMountConflict, c)"
proof -
  have "trie_ancestor anc (co_router c) (me_path (co_heap c ! a)) \<noteq> None"
    using trie_ancestor_None [OF assms(1)] assms(2,3) by blast
  then show ?thesis
    using assms(4)
    by (auto simp: setup_mount_def get_logical_backend_def op_bind_def on_router_def router_mount_def Let_def)
qed

text \<open>
  A mount above an existing mount passes the check for nested mounts, which looks only for mounts above the
  new one. With both in the table, setting up the mounts depends on the order of the hash map's iteration: it
  succeeds when the lower mount comes first, and fails with \<open>ErrRouterMountConflict\<close> when the upper one does.
\<close>

theorem nested_mounts_break_setup:
  assumes "radix anc" "co_router c = []" "q \<noteq> []" "p \<noteq> []"
    and "upper < length (co_heap c)" "lower < length (co_heap c)"
    and "me_path (co_heap c ! upper) = p" "me_path (co_heap c ! lower) = p @ q"
    and "\<forall>a \<in> {upper, lower}. \<not> me_tainted (co_heap c ! a) \<and> me_logical_type (co_heap c ! a) = ty"
    and "ty \<noteq> ''system''" "map_of (co_logical_backends c) ty = Some (Ok b)"
  shows "matching_mount anc [(p @ q, x)] p = [] \<and>
    (\<exists>c'. setup_mounts anc (c\<lparr>co_mounts := [(p @ q, lower), (p, upper)]\<rparr>) = (Ok (), c')) \<and>
    (\<exists>c'. setup_mounts anc (c\<lparr>co_mounts := [(p, upper), (p @ q, lower)]\<rparr>) = (Err ErrRouterMountConflict, c'))"
proof -
  have n: "\<not> starts_with p (p @ q)" using assms(3) by (auto simp: starts_with_iff_prefix dest: prefix_length_le)
  have accepted: "matching_mount anc [(p @ q, x)] p = []"
    using matching_mount_Nil [OF assms(1), of "[(p @ q, x)]" p] n assms(4) by simp
  let ?low = "c\<lparr>co_mounts := [(p @ q, lower), (p, upper)]\<rparr>"
  let ?up = "c\<lparr>co_mounts := [(p, upper), (p @ q, lower)]\<rparr>"
  obtain x1 where 1: "setup_mount anc lower ?low = (Ok (), ?low\<lparr>co_router := [(p @ q, x1)]\<rparr>)"
    using setup_mount_ok [OF assms(1), of ?low lower] assms(2,8-11) by auto
  obtain x2 where 2: "setup_mount anc upper (?low\<lparr>co_router := [(p @ q, x1)]\<rparr>) =
      (Ok (), ?low\<lparr>co_router := AList.update p x2 [(p @ q, x1)]\<rparr>)"
    using setup_mount_ok [OF assms(1), of "?low\<lparr>co_router := [(p @ q, x1)]\<rparr>" upper] assms(7,9-11) n by auto
  obtain x3 where 3: "setup_mount anc upper ?up = (Ok (), ?up\<lparr>co_router := [(p, x3)]\<rparr>)"
    using setup_mount_ok [OF assms(1), of ?up upper] assms(2,7,9-11) by auto
  have 4: "setup_mount anc lower (?up\<lparr>co_router := [(p, x3)]\<rparr>) =
      (Err ErrRouterMountConflict, ?up\<lparr>co_router := [(p, x3)]\<rparr>)"
    using setup_mount_conflict [OF assms(1), of p "?up\<lparr>co_router := [(p, x3)]\<rparr>" lower b] assms(8-11) by auto
  show ?thesis using accepted 1 2 3 4 by (simp add: setup_mounts_def)
qed


section \<open>Moving a mount\<close>

lemma on_router_keeps:
  "on_router f c = (r, c') \<Longrightarrow> co_mounts c' = co_mounts c \<and> co_heap c' = co_heap c"
  by (auto simp: on_router_def split: prod.splits)

lemma heap_update_keeps [simp]: "co_mounts (heap_update a f c) = co_mounts c"
  by (simp add: heap_update_def)

lemma core_persist_keeps:
  "core_persist env sops c = (r, c') \<Longrightarrow> co_mounts c' = co_mounts c \<and> co_heap c' = co_heap c"
  by (auto simp: core_persist_def split: prod.splits)

lemma op_bind_keeps:
  assumes "op_bind m f c = (r, c')"
    and "\<And>r1 c1. m c = (r1, c1) \<Longrightarrow> P c1" "\<And>a c1 r2 c2. P c1 \<Longrightarrow> f a c1 = (r2, c2) \<Longrightarrow> P c2"
  shows "P c'"
  using assms by (cases "m c"; cases "fst (m c)") (auto simp: op_bind_def)

lemma remount_entry_keeps_table:
  assumes "remount_entry anc env sops a src dst c = (r, c')"
  shows "co_mounts c' = co_mounts c"
proof -
  have router: "co_mounts d' = co_mounts d"
    if "op_bind (on_router (router_remount dst src)) (\<lambda>_. on_router (router_untaint dst)) d = (r2, d')" for d r2 d'
    by (rule op_bind_keeps [OF that, where P = "\<lambda>x. co_mounts x = co_mounts d"]) (use on_router_keeps in metis)+
  show ?thesis
    using assms unfolding remount_entry_def
    by (auto simp: Let_def split: if_splits res.splits prod.splits dest!: core_persist_keeps router)
qed

lemma core_remount_keeps_table:
  assumes "core_remount anc env sops src dst c = (r, c')"
  shows "co_mounts c' = co_mounts c"
proof (cases "matching_mount_entry anc (co_router c) (with_slash src)")
  case None
  then show ?thesis using assms by (auto simp: core_remount_def Let_def split: if_splits)
next
  case (Some a)
  have "co_mounts c' = co_mounts c"
    if "op_bind (on_router (router_taint (with_slash src)))
      (\<lambda>_. remount_entry anc env sops a (with_slash src) (with_slash dst))
      (heap_update a (\<lambda>e. e\<lparr>me_tainted := True\<rparr>) c) = (r, c')"
    by (rule op_bind_keeps [OF that, where P = "\<lambda>x. co_mounts x = co_mounts c"])
      (use on_router_keeps remount_entry_keeps_table heap_update_keeps in metis)+
  then show ?thesis using assms Some by (auto simp: core_remount_def Let_def split: if_splits)
qed

lemma core_unmount_keeps_table:
  assumes "core_unmount anc env sops path c = Some (Ok (), c')" "map_of (co_mounts c) (with_slash path) = None"
  shows "co_mounts c' = co_mounts c"
proof -
  let ?p = "with_slash path" and ?P = "\<lambda>d. co_mounts d = co_mounts c"
  define m where "m = op_bind (taint_mount_entry env sops ?p)
      (\<lambda>_. op_bind (on_router (router_taint ?p)) (\<lambda>_. on_router (router_unmount ?p)))"
  have taint: "taint_mount_entry env sops ?p c = (Ok (), c)"
    using assms(2) by (simp add: taint_mount_entry_def table_set_taint_def)
  have m: "?P c1" if "m c = (r1, c1)" for r1 c1
  proof -
    have "op_bind (on_router (router_taint ?p)) (\<lambda>_. on_router (router_unmount ?p)) c = (r1, c1)"
      using that taint by (simp add: m_def)
    then show ?thesis
      by (rule op_bind_keeps [where P = ?P]) (use on_router_keeps in metis)+
  qed
  obtain c1 s where c1: "m c = (Ok (), c1)" and
    last: "remove_mount_entry env sops ?p (c1\<lparr>co_storage := s\<rparr>) = (Ok (), c')"
    using assms(1) unfolding core_unmount_def Let_def m_def [symmetric]
    by (auto split: if_splits res.splits prod.splits option.splits)
  then show ?thesis
    using m [OF c1] assms(2) by (auto simp: remove_mount_entry_def table_delete_def)
qed

text \<open>
  Moving a mount does not change the keys of the mount table, so unmounting the moved mount at its new path
  finds no entry to remove: after both operations succeeded the table still maps the same keys to the same
  entries.
\<close>

theorem unmount_after_remount_keeps_entry:
  assumes "core_remount anc env sops src dst c = (Ok (), c1)"
    and "core_unmount anc env sops dst c1 = Some (Ok (), c2)"
    and "map_of (co_mounts c) (with_slash dst) = None"
  shows "co_mounts c2 = co_mounts c"
proof -
  have 1: "co_mounts c1 = co_mounts c" by (rule core_remount_keeps_table [OF assms(1)])
  then show ?thesis using core_unmount_keeps_table [OF assms(2)] assms(3) by simp
qed


section \<open>Concrete mounts\<close>

definition demo_hex :: "bytes \<Rightarrow> string" where
  "demo_hex bs = concat (map (\<lambda>b. [char_of (97 + unat b mod 16), char_of (97 + unat b div 16)]) bs)"

definition demo_env :: mount_env where
  "demo_env =
     \<lparr>ser_table = (\<lambda>tbl. concat (map (\<lambda>(p, e). str_bytes p @ [0]) tbl)),
      de_table = (\<lambda>b. if b = [] then Some [] else None),
      hmac_sign = (\<lambda>key m. Ok (take 32 (key @ m @ replicate 32 7))),
      hmac_verify = (\<lambda>key m s. Ok (s = take 32 (key @ m @ replicate 32 7))),
      hex_encode = demo_hex, new_uuid = (\<lambda>n. replicate (Suc n) CHR ''u''), default_uuids = (''u1'', ''u2'')\<rparr>"

lemma demo_mac_ok: "mac_ok demo_env"
proof -
  have "length (demo_hex b) = 2 * length b" for b by (induction b) (simp_all add: demo_hex_def)
  then show ?thesis by (simp add: mac_ok_def demo_env_def)
qed

definition demo_sops :: "unit storage_ops" where
  "demo_sops =
     \<lparr>storage_list = (\<lambda>_ s. (Ok [], s)), storage_get = (\<lambda>_ s. (Ok None, s)),
      storage_put = (\<lambda>_ s. (Ok (), s)), storage_delete = (\<lambda>_ s. (Ok (), s))\<rparr>"

definition core_empty :: "'s \<Rightarrow> (string \<times> 's backend_obj res) list \<Rightarrow> 's core" where
  "core_empty s backends =
     \<lparr>co_storage = s, co_system_view = None, co_heap = [], co_mounts = [], co_router = [],
      co_handlers = [CoreRouter], co_logical_backends = backends, co_hmac_key = [1], co_hmac_level = HmacNone,
      co_uuids = 0\<rparr>"

definition demo_fs_kv :: "fs barrier backend_obj" where
  "demo_fs_kv = \<lparr>be_unauth_paths = None, be_root_paths = None, be_handle_request = (\<lambda>st. (Ok None, st))\<rparr>"

theorem core_mount_effect_witness:
  "\<exists>c'. core_mount longest_ancestor demo_env (barrier_storage demo_crypto demo_ops)
      (mount_entry_new [] ''kv'' ''kv'' []) (core_empty demo_unsealed [(''kv'', Ok demo_fs_kv)]) = (Ok (), c') \<and>
    matching_mount longest_ancestor (co_router c') ''kv/'' = ''kv/''"
proof -
  let ?c = "core_empty demo_unsealed [(''kv'', Ok demo_fs_kv)]"
  have sig: "is_ok (hmac_sign demo_env k m)" for k m by (simp add: demo_env_def)
  have st: "storage (barrier_storage demo_crypto demo_ops) (barrier_valid file_key)
      (barrier_stored demo_crypto (file_contents demo_de [''data'']))
      (barrier_ready demo_crypto file_key (file_contents demo_de [''data'']) (file_invar demo_ser demo_de [''data'']))"
    unfolding demo_ops_def by (rule fb.bar.storage_axioms)
  have v: "barrier_valid file_key CORE_MOUNT_CONFIG_PATH" by code_simp
  have p: "''kv/'' = with_slash (me_path (mount_entry_new [] ''kv'' ''kv'' []))"
    "\<not> is_protect_path PROTECTED_MOUNTS [''kv/'']" by code_simp+
  have "barrier_ready demo_crypto file_key (file_contents demo_de [''data'']) (file_invar demo_ser demo_de [''data''])
      (co_storage ?c)"
    using demo_ready by (simp add: core_empty_def)
  from core_mount_effect [OF la.radix_axioms st this v p _ _ sig, of demo_fs_kv] show ?thesis
    by (auto simp: core_empty_def mount_entry_new_def)
qed

definition demo_stored_mount :: mount_entry where
  "demo_stored_mount = (case calc_hmac demo_env [1] (mount_entry_new ''mounts'' ''kv/'' ''kv'' []) of Ok e \<Rightarrow> e)"

theorem stored_mounts_fail_verification_witness:
  "table_load (demo_env\<lparr>de_table := (\<lambda>_. Some [(''kv/'', demo_stored_mount)])\<rparr>)
     (demo_sops\<lparr>storage_get := (\<lambda>k s. (Ok (Some \<lparr>se_key = k, se_value = []\<rparr>), s))\<rparr>) ''core/mounts'' (Some [1]) HmacHigh
     (([], []), ()) = (Ok (), (([], []), ()))"
proof -
  let ?env = "demo_env\<lparr>de_table := (\<lambda>_. Some [(''kv/'', demo_stored_mount)])\<rparr>"
  let ?sops = "demo_sops\<lparr>storage_get := (\<lambda>k s. (Ok (Some \<lparr>se_key = k, se_value = []\<rparr>), s))\<rparr>"
  have m: "mac_ok ?env" using demo_mac_ok by (simp add: mac_ok_def)
  have "calc_hmac ?env [1] (mount_entry_new ''mounts'' ''kv/'' ''kv'' []) = Ok demo_stored_mount"
    by (simp add: calc_hmac_def demo_stored_mount_def demo_env_def)
  then have "\<forall>(p, e) \<in> set [(''kv/'', demo_stored_mount)]. \<exists>e0. calc_hmac ?env [1] e0 = Ok e" by auto
  from stored_mounts_fail_verification [OF m _ _ _ this, of HmacHigh ?sops "''core/mounts''" "()"] show ?thesis
    by simp
qed

definition demo_nested :: "unit core" where
  "demo_nested = (core_empty () [(''kv'', Ok demo_kv)])
     \<lparr>co_heap := [mount_entry_new ''mounts'' ''a/'' ''kv'' [], mount_entry_new ''mounts'' ''a/b/'' ''kv'' []]\<rparr>"

theorem nested_mounts_break_setup_witness:
  "\<exists>c'. setup_mounts longest_ancestor (demo_nested\<lparr>co_mounts := [(''a/'', 0), (''a/b/'', 1)]\<rparr>) =
     (Err ErrRouterMountConflict, c')"
proof -
  have "me_path (co_heap demo_nested ! 1) = ''a/'' @ ''b/''"
    by (simp add: demo_nested_def mount_entry_new_def)
  from nested_mounts_break_setup [OF la.radix_axioms _ _ _ _ _ _ this, of 0 "''kv''" demo_kv] show ?thesis
    by (auto simp: demo_nested_def core_empty_def mount_entry_new_def)
qed

definition demo_plain_env :: mount_env where
  "demo_plain_env = demo_env\<lparr>hmac_sign := (\<lambda>_ _. Ok []), hex_encode := (\<lambda>_. [])\<rparr>"

definition demo_mounted :: "unit core" where
  "demo_mounted = (core_empty () [(''kv'', Ok demo_kv)])
     \<lparr>co_heap := [mount_entry_new ''mounts'' ''kv/'' ''kv'' []], co_mounts := [(''kv/'', 0)],
      co_router := [(''kv/'', demo_entry False)]\<rparr>"

definition demo_moved :: "unit core" where
  "demo_moved = demo_mounted
     \<lparr>co_heap := [mount_entry_new ''mounts'' ''kv2/'' ''kv'' []], co_router := [(''kv2/'', demo_entry False)]\<rparr>"

lemma demo_clear: "view_clear demo_sops v () = Some (Ok (), ())"
proof -
  have "sanity_check [] = Ok ()" by code_simp
  then have "get_keys_loop demo_sops v [[]] [] () = Some (Ok [], ())"
    by (subst get_keys_loop.simps) (simp add: view_list_def demo_sops_def get_keys_loop.simps)
  then show ?thesis by (simp add: view_clear_def get_keys_def)
qed

lemma demo_taint: "re_mount_entry (demo_entry b) = 0" "re_view (demo_entry b) = view_new ''logical/1/''"
  "(demo_entry False)\<lparr>re_tainted := b\<rparr> = demo_entry b" "(demo_entry b)\<lparr>re_tainted := False\<rparr> = demo_entry False"
  by (simp_all add: demo_entry_def)

lemmas demo_mount_simps = demo_mounted_def demo_moved_def core_empty_def demo_plain_env_def demo_sops_def
  mount_entry_new_def with_slash_def ends_with_def starts_with_def is_protect_path_def PROTECTED_MOUNTS_def
  matching_mount_def matching_mount_entry_def matching_view_def trie_ancestor_def on_router_def router_taint_def
  router_untaint_def router_set_taint_def router_remount_def router_unmount_def heap_update_def calc_hmac_def
  core_persist_def table_persist_def op_bind_def demo_taint taint_mount_entry_def table_set_taint_def
  remove_mount_entry_def table_delete_def Let_def

lemma demo_remount:
  "core_remount longest_ancestor demo_plain_env demo_sops ''kv'' ''kv2'' demo_mounted = (Ok (), demo_moved)"
  by (simp add: core_remount_def remount_entry_def demo_mount_simps)

lemma demo_unmount:
  "core_unmount longest_ancestor demo_plain_env demo_sops ''kv2'' demo_moved =
     Some (Ok (), demo_moved\<lparr>co_router := []\<rparr>)"
  using demo_clear [of "view_new ''logical/1/''"]
  by (simp add: core_unmount_def demo_mount_simps)

theorem unmount_after_remount_keeps_entry_witness:
  "co_mounts (demo_moved\<lparr>co_router := []\<rparr>) = co_mounts demo_mounted"
  by (rule unmount_after_remount_keeps_entry [OF demo_remount demo_unmount])
    (simp add: demo_mounted_def with_slash_def ends_with_def starts_with_def)

end
