(* ===== verification/GF256.thy ===== *)
theory GF256
  imports Prelude
begin

text \<open>
  The field arithmetic of \<open>src/shamir.rs\<close>: the two lookup tables, addition, multiplication and checked
  division as the code computes them, and the proof that they form the field with 256 elements. The
  reference is carry-less multiplication modulo the polynomial \<open>0x11b\<close> (\<open>pmul\<close>); the tables are the
  powers of the generator \<open>0xe5\<close> and their logarithms. The type \<open>gf256\<close> is an instance of the class
  \<open>field\<close>, so that the algebra of the library applies to the shares.
\<close>

section \<open>The tables\<close>

definition GF256_EXP :: "u8 list" where
  "GF256_EXP =
     [0x01, 0xe5, 0x4c, 0xb5, 0xfb, 0x9f, 0xfc, 0x12, 0x03, 0x34, 0xd4, 0xc4, 0x16, 0xba, 0x1f, 0x36,
      0x05, 0x5c, 0x67, 0x57, 0x3a, 0xd5, 0x21, 0x5a, 0x0f, 0xe4, 0xa9, 0xf9, 0x4e, 0x64, 0x63, 0xee,
      0x11, 0x37, 0xe0, 0x10, 0xd2, 0xac, 0xa5, 0x29, 0x33, 0x59, 0x3b, 0x30, 0x6d, 0xef, 0xf4, 0x7b,
      0x55, 0xeb, 0x4d, 0x50, 0xb7, 0x2a, 0x07, 0x8d, 0xff, 0x26, 0xd7, 0xf0, 0xc2, 0x7e, 0x09, 0x8c,
      0x1a, 0x6a, 0x62, 0x0b, 0x5d, 0x82, 0x1b, 0x8f, 0x2e, 0xbe, 0xa6, 0x1d, 0xe7, 0x9d, 0x2d, 0x8a,
      0x72, 0xd9, 0xf1, 0x27, 0x32, 0xbc, 0x77, 0x85, 0x96, 0x70, 0x08, 0x69, 0x56, 0xdf, 0x99, 0x94,
      0xa1, 0x90, 0x18, 0xbb, 0xfa, 0x7a, 0xb0, 0xa7, 0xf8, 0xab, 0x28, 0xd6, 0x15, 0x8e, 0xcb, 0xf2,
      0x13, 0xe6, 0x78, 0x61, 0x3f, 0x89, 0x46, 0x0d, 0x35, 0x31, 0x88, 0xa3, 0x41, 0x80, 0xca, 0x17,
      0x5f, 0x53, 0x83, 0xfe, 0xc3, 0x9b, 0x45, 0x39, 0xe1, 0xf5, 0x9e, 0x19, 0x5e, 0xb6, 0xcf, 0x4b,
      0x38, 0x04, 0xb9, 0x2b, 0xe2, 0xc1, 0x4a, 0xdd, 0x48, 0x0c, 0xd0, 0x7d, 0x3d, 0x58, 0xde, 0x7c,
      0xd8, 0x14, 0x6b, 0x87, 0x47, 0xe8, 0x79, 0x84, 0x73, 0x3c, 0xbd, 0x92, 0xc9, 0x23, 0x8b, 0x97,
      0x95, 0x44, 0xdc, 0xad, 0x40, 0x65, 0x86, 0xa2, 0xa4, 0xcc, 0x7f, 0xec, 0xc0, 0xaf, 0x91, 0xfd,
      0xf7, 0x4f, 0x81, 0x2f, 0x5b, 0xea, 0xa8, 0x1c, 0x02, 0xd1, 0x98, 0x71, 0xed, 0x25, 0xe3, 0x24,
      0x06, 0x68, 0xb3, 0x93, 0x2c, 0x6f, 0x3e, 0x6c, 0x0a, 0xb8, 0xce, 0xae, 0x74, 0xb1, 0x42, 0xb4,
      0x1e, 0xd3, 0x49, 0xe9, 0x9c, 0xc8, 0xc6, 0xc7, 0x22, 0x6e, 0xdb, 0x20, 0xbf, 0x43, 0x51, 0x52,
      0x66, 0xb2, 0x76, 0x60, 0xda, 0xc5, 0xf3, 0xf6, 0xaa, 0xcd, 0x9a, 0xa0, 0x75, 0x54, 0x0e, 0x01]"

definition GF256_LOG :: "u8 list" where
  "GF256_LOG =
     [0x00, 0xff, 0xc8, 0x08, 0x91, 0x10, 0xd0, 0x36, 0x5a, 0x3e, 0xd8, 0x43, 0x99, 0x77, 0xfe, 0x18,
      0x23, 0x20, 0x07, 0x70, 0xa1, 0x6c, 0x0c, 0x7f, 0x62, 0x8b, 0x40, 0x46, 0xc7, 0x4b, 0xe0, 0x0e,
      0xeb, 0x16, 0xe8, 0xad, 0xcf, 0xcd, 0x39, 0x53, 0x6a, 0x27, 0x35, 0x93, 0xd4, 0x4e, 0x48, 0xc3,
      0x2b, 0x79, 0x54, 0x28, 0x09, 0x78, 0x0f, 0x21, 0x90, 0x87, 0x14, 0x2a, 0xa9, 0x9c, 0xd6, 0x74,
      0xb4, 0x7c, 0xde, 0xed, 0xb1, 0x86, 0x76, 0xa4, 0x98, 0xe2, 0x96, 0x8f, 0x02, 0x32, 0x1c, 0xc1,
      0x33, 0xee, 0xef, 0x81, 0xfd, 0x30, 0x5c, 0x13, 0x9d, 0x29, 0x17, 0xc4, 0x11, 0x44, 0x8c, 0x80,
      0xf3, 0x73, 0x42, 0x1e, 0x1d, 0xb5, 0xf0, 0x12, 0xd1, 0x5b, 0x41, 0xa2, 0xd7, 0x2c, 0xe9, 0xd5,
      0x59, 0xcb, 0x50, 0xa8, 0xdc, 0xfc, 0xf2, 0x56, 0x72, 0xa6, 0x65, 0x2f, 0x9f, 0x9b, 0x3d, 0xba,
      0x7d, 0xc2, 0x45, 0x82, 0xa7, 0x57, 0xb6, 0xa3, 0x7a, 0x75, 0x4f, 0xae, 0x3f, 0x37, 0x6d, 0x47,
      0x61, 0xbe, 0xab, 0xd3, 0x5f, 0xb0, 0x58, 0xaf, 0xca, 0x5e, 0xfa, 0x85, 0xe4, 0x4d, 0x8a, 0x05,
      0xfb, 0x60, 0xb7, 0x7b, 0xb8, 0x26, 0x4a, 0x67, 0xc6, 0x1a, 0xf8, 0x69, 0x25, 0xb3, 0xdb, 0xbd,
      0x66, 0xdd, 0xf1, 0xd2, 0xdf, 0x03, 0x8d, 0x34, 0xd9, 0x92, 0x0d, 0x63, 0x55, 0xaa, 0x49, 0xec,
      0xbc, 0x95, 0x3c, 0x84, 0x0b, 0xf5, 0xe6, 0xe7, 0xe5, 0xac, 0x7e, 0x6e, 0xb9, 0xf9, 0xda, 0x8e,
      0x9a, 0xc9, 0x24, 0xe1, 0x0a, 0x15, 0x6b, 0x3a, 0xa0, 0x51, 0xf4, 0xea, 0xb2, 0x97, 0x9e, 0x5d,
      0x22, 0x88, 0x94, 0xce, 0x19, 0x01, 0x71, 0x4c, 0xa5, 0xe3, 0xc5, 0x31, 0xbb, 0xcc, 0x1f, 0x2d,
      0x3b, 0x52, 0x6f, 0xf6, 0x2e, 0x89, 0xf7, 0xc0, 0x68, 0x1b, 0x64, 0x04, 0x06, 0xbf, 0x83, 0x38]"

section \<open>The operations of the code\<close>

definition gf256_add :: "u8 \<Rightarrow> u8 \<Rightarrow> u8" where
  "gf256_add a b = a XOR b"

definition gf256_sub :: "u8 \<Rightarrow> u8 \<Rightarrow> u8" where
  "gf256_sub a b = gf256_add a b"

text \<open>The index is computed in \<open>u16\<close>, where the sum of two bytes does not overflow.\<close>

definition gf256_mul :: "u8 \<Rightarrow> u8 \<Rightarrow> u8" where
  "gf256_mul a b =
     (if a = 0 \<or> b = 0 then 0
      else GF256_EXP ! ((unat (GF256_LOG ! unat a) + unat (GF256_LOG ! unat b)) mod 255))"

text \<open>The difference of the logarithms is computed in \<open>i16\<close>, where it does not overflow either.\<close>

definition gf256_checked_div :: "u8 \<Rightarrow> u8 \<Rightarrow> u8 option" where
  "gf256_checked_div a b =
     (if a = 0 then Some 0
      else if b = 0 then None
      else
        let diff = int (unat (GF256_LOG ! unat a)) - int (unat (GF256_LOG ! unat b));
            diff' = (if diff < 0 then diff + 255 else diff)
        in Some (GF256_EXP ! nat (diff' mod 255)))"

section \<open>Carry-less multiplication modulo \<open>0x11b\<close>\<close>

definition xtime :: "u8 \<Rightarrow> u8" where
  "xtime a = push_bit 1 a XOR (if bit a 7 then 0x1b else 0)"

fun pmuln :: "nat \<Rightarrow> u8 \<Rightarrow> u8 \<Rightarrow> u8" where
  "pmuln 0 a b = 0"
| "pmuln (Suc n) a b = pmuln n a b XOR (if bit b n then (xtime ^^ n) a else 0)"

definition pmul :: "u8 \<Rightarrow> u8 \<Rightarrow> u8" where
  "pmul a b = pmuln 8 a b"

definition mulg :: "u8 \<Rightarrow> u8" where
  "mulg a = pmul a 0xe5"

text \<open>\<open>pmul\<close> is additive in both arguments and commutes with every additive map that commutes with \<open>xtime\<close>.\<close>

lemma xtime_xor: "xtime (a XOR b) = xtime a XOR xtime b"
  by (auto simp: xtime_def bit_xor_iff push_bit_xor ac_simps)

lemma xtime_pow_xor: "(xtime ^^ n) (a XOR b) = (xtime ^^ n) a XOR (xtime ^^ n) b"
  by (induction n arbitrary: a b) (simp_all add: xtime_xor)

lemma xtime_zero [simp]: "xtime 0 = 0"
  by (simp add: xtime_def)

lemma xtime_pow_zero [simp]: "(xtime ^^ n) 0 = 0"
  by (induction n) simp_all

lemma pmuln_xor_left: "pmuln n (a XOR b) c = pmuln n a c XOR pmuln n b c"
  by (induction n) (simp_all add: xtime_pow_xor ac_simps)

lemma pmuln_xor_right: "pmuln n a (b XOR c) = pmuln n a b XOR pmuln n a c"
  by (induction n) (auto simp: bit_xor_iff ac_simps)

lemma pmuln_zero [simp]: "pmuln n 0 b = 0" "pmuln n a 0 = 0"
  by (induction n) simp_all

lemma funpow_commute_xtime:
  "(\<And>x. f (xtime x) = xtime (f x)) \<Longrightarrow> (xtime ^^ n) (f a) = f ((xtime ^^ n) a)"
  by (induction n arbitrary: a) simp_all

lemma pmuln_commute:
  assumes "\<And>x. f (xtime x) = xtime (f x)" and "f 0 = 0"
    and "\<And>x y. f (x XOR y) = f x XOR f y"
  shows "pmuln n (f a) b = f (pmuln n a b)"
  by (induction n) (simp_all add: assms(2,3) funpow_commute_xtime [of f, OF assms(1)])

lemma mulg_pmuln: "mulg a = pmuln 8 a 0xe5"
  by (simp add: mulg_def pmul_def)

lemma mulg_xtime: "mulg (xtime x) = xtime (mulg x)"
  unfolding mulg_pmuln by (rule pmuln_commute) (simp_all add: xtime_xor)

lemma pmul_mulg: "pmul (mulg a) b = mulg (pmul a b)"
  unfolding pmul_def
  by (rule pmuln_commute) (simp_all add: mulg_xtime, simp_all add: mulg_pmuln pmuln_xor_left)

lemma pmul_mulg_pow: "pmul ((mulg ^^ n) a) b = (mulg ^^ n) (pmul a b)"
  by (induction n) (simp_all add: pmul_mulg)

lemma eight_Suc: "(8::nat) = Suc (Suc (Suc (Suc (Suc (Suc (Suc (Suc 0)))))))"
  by simp

text \<open>One is neutral on the left: its eight multiples under \<open>xtime\<close> are the eight bits.\<close>

lemma xtime_pow_one: "n < 8 \<Longrightarrow> (xtime ^^ n) 1 = push_bit n 1"
  unfolding eight_Suc by (auto simp: less_Suc_eq xtime_def numeral_eq_Suc)

lemma pmuln_one: "n \<le> 8 \<Longrightarrow> pmuln n 1 b = take_bit n b"
proof (induction n)
  case 0
  then show ?case by simp
next
  case (Suc n)
  then have IH: "pmuln n 1 b = take_bit n b" and p: "(xtime ^^ n) 1 = push_bit n 1"
    by (simp_all add: xtime_pow_one)
  show ?case
    by (rule bit_word_eqI) (auto simp: IH p bit_simps less_Suc_eq)
qed

lemma pmul_one [simp]: "pmul 1 b = b"
  by (simp add: pmul_def pmuln_one take_bit_word_eq_self)

section \<open>The tables are powers and logarithms of the generator\<close>

lemma length_tables [simp]: "length GF256_EXP = 256" "length GF256_LOG = 256"
  by (simp_all add: GF256_EXP_def GF256_LOG_def)

lemma mulg_xtimes:
  "mulg a = a XOR xtime (xtime a) XOR
     (let c = xtime (xtime (xtime (xtime (xtime a)))) in c XOR xtime c XOR xtime (xtime c))"
  by (simp add: mulg_pmuln eight_Suc bit_numeral_rec Let_def ac_simps numeral_eq_Suc)

lemma GF256_EXP_step: "map mulg (butlast GF256_EXP) = tl GF256_EXP"
  by (simp add: mulg_xtimes xtime_def GF256_EXP_def)

lemma GF256_LOG_inverse: "map (\<lambda>l. GF256_EXP ! unat l) (tl GF256_LOG) = map of_nat [1..<256]"
  by (simp add: GF256_LOG_def GF256_EXP_def) code_simp

lemma GF256_EXP_nonzero: "0 \<notin> set GF256_EXP"
  by (simp add: GF256_EXP_def)

lemma GF256_EXP_pow: "i < 256 \<Longrightarrow> GF256_EXP ! i = (mulg ^^ i) 1"
proof (induction i)
  case 0
  then show ?case by (simp add: GF256_EXP_def)
next
  case (Suc i)
  then have "map mulg (butlast GF256_EXP) ! i = mulg (GF256_EXP ! i)"
    by (simp add: nth_butlast)
  moreover have "tl GF256_EXP ! i = GF256_EXP ! Suc i"
    using Suc.prems by (simp add: nth_tl)
  ultimately show ?case
    using Suc GF256_EXP_step by simp
qed

lemma mulg_period: "(mulg ^^ 255) 1 = 1"
proof -
  have "GF256_EXP ! 255 = 1" by (simp add: GF256_EXP_def)
  then show ?thesis using GF256_EXP_pow [of 255] by simp
qed

lemma mulg_pow_mod: "(mulg ^^ (n mod 255)) 1 = (mulg ^^ n) 1"
proof -
  have "(mulg ^^ (255 * q + r)) 1 = (mulg ^^ r) 1" for q r
    by (induction q arbitrary: r) (simp_all add: funpow_add mulg_period algebra_simps)
  from this [of "n div 255" "n mod 255"] show ?thesis by simp
qed

lemma GF256_EXP_mod: "GF256_EXP ! (n mod 255) = (mulg ^^ n) 1"
  by (simp add: GF256_EXP_pow mulg_pow_mod order.strict_trans [of _ 255])

lemma mulg_pow_nonzero: "(mulg ^^ n) 1 \<noteq> 0"
proof -
  have "n mod 255 < 255" by simp
  then have "n mod 255 < length GF256_EXP" by simp
  then have "GF256_EXP ! (n mod 255) \<in> set GF256_EXP" by (rule nth_mem)
  then show ?thesis using GF256_EXP_nonzero by (auto simp: GF256_EXP_mod)
qed

text \<open>Every nonzero byte is the power of the generator its logarithm names.\<close>

definition glog :: "u8 \<Rightarrow> nat" where
  "glog a = unat (GF256_LOG ! unat a)"

lemma glog_le: "glog a \<le> 255"
  using unat_u8_less [of "GF256_LOG ! unat a"] by (simp add: glog_def)

lemma glog_pow: "a \<noteq> 0 \<Longrightarrow> (mulg ^^ glog a) 1 = a"
proof -
  assume "a \<noteq> 0"
  then have pos: "0 < unat a" by (simp add: unat_gt_0)
  have tl_nth: "tl GF256_LOG ! (unat a - 1) = GF256_LOG ! unat a"
    using pos unat_u8_less [of a] nth_tl [of "unat a - 1" GF256_LOG] by simp
  have "map (\<lambda>l. GF256_EXP ! unat l) (tl GF256_LOG) ! (unat a - 1) = GF256_EXP ! glog a"
    unfolding glog_def tl_nth [symmetric] using pos unat_u8_less [of a] by (subst nth_map) simp_all
  moreover have "map of_nat [1..<256] ! (unat a - 1) = a"
    using pos unat_u8_less [of a] by (simp add: nth_upt)
  ultimately have "GF256_EXP ! glog a = a"
    using GF256_LOG_inverse by simp
  then show ?thesis
    using GF256_EXP_pow [of "glog a"] glog_le [of a] by simp
qed

lemma gf256_mul_pow: "gf256_mul ((mulg ^^ i) 1) ((mulg ^^ j) 1) = (mulg ^^ (i + j)) 1"
proof -
  define a b where "a = (mulg ^^ i) 1" and "b = (mulg ^^ j) 1"
  have nz: "a \<noteq> 0" "b \<noteq> 0" by (simp_all add: a_def b_def mulg_pow_nonzero)
  then have "gf256_mul a b = (mulg ^^ (glog a + glog b)) 1"
    by (simp add: gf256_mul_def GF256_EXP_mod glog_def)
  also have "\<dots> = (mulg ^^ glog a) b"
    using glog_pow [OF nz(2)] by (simp add: funpow_add)
  also have "\<dots> = pmul ((mulg ^^ glog a) 1) b"
    by (simp add: pmul_mulg_pow)
  also have "\<dots> = pmul a b"
    using glog_pow [OF nz(1)] by simp
  also have "\<dots> = (mulg ^^ (i + j)) 1"
    by (simp add: a_def pmul_mulg_pow b_def funpow_add)
  finally show ?thesis by (simp add: a_def b_def)
qed

lemma nonzero_powE:
  assumes "a \<noteq> 0"
  obtains i where "a = (mulg ^^ i) 1"
  using glog_pow [OF assms] by metis

lemma gf256_mul_zero [simp]: "gf256_mul 0 b = 0" "gf256_mul a 0 = 0"
  by (simp_all add: gf256_mul_def)

lemma gf256_mul_is_polynomial: "gf256_mul a b = pmul a b"
proof (cases "a = 0 \<or> b = 0")
  case True
  then show ?thesis by (auto simp: pmul_def)
next
  case False
  then obtain i j where "a = (mulg ^^ i) 1" "b = (mulg ^^ j) 1"
    by (metis nonzero_powE)
  then show ?thesis
    by (simp add: gf256_mul_pow pmul_mulg_pow funpow_add)
qed

text \<open>The table multiplication of the code is multiplication of polynomials over the two-element
  field, modulo \<open>x^8 + x^4 + x^3 + x + 1\<close>, for all 65536 pairs of bytes.\<close>

theorem gf256_mul_is_polynomial_mul: "gf256_mul a b = pmul a b"
  by (rule gf256_mul_is_polynomial)

section \<open>The field\<close>

lemma gf256_mul_commute: "gf256_mul a b = gf256_mul b a"
  by (simp add: gf256_mul_def add.commute)

lemma gf256_mul_assoc: "gf256_mul (gf256_mul a b) c = gf256_mul a (gf256_mul b c)"
proof (cases "a = 0 \<or> b = 0 \<or> c = 0")
  case True
  then show ?thesis by auto
next
  case False
  then obtain i j k where "a = (mulg ^^ i) 1" "b = (mulg ^^ j) 1" "c = (mulg ^^ k) 1"
    by (metis nonzero_powE)
  then show ?thesis by (simp add: gf256_mul_pow add.assoc)
qed

lemma gf256_mul_add: "gf256_mul (a XOR b) c = gf256_mul a c XOR gf256_mul b c"
  by (simp add: gf256_mul_is_polynomial pmul_def pmuln_xor_left)

lemma gf256_mul_one: "gf256_mul 1 b = b"
  by (simp add: gf256_mul_is_polynomial)

lemma gf256_checked_div_Some:
  assumes "b \<noteq> 0"
  shows "\<exists>c. gf256_checked_div a b = Some c \<and> gf256_mul c b = a"
proof (cases "a = 0")
  case True
  then show ?thesis by (simp add: gf256_checked_div_def)
next
  case False
  define k where "k = nat ((let diff = int (glog a) - int (glog b)
    in if diff < 0 then diff + 255 else diff) mod 255)"
  have k: "(k + glog b) mod 255 = glog a mod 255"
  proof -
    have "int ((k + glog b) mod 255) = int (glog a mod 255)"
      unfolding k_def Let_def zmod_int of_nat_add
      by (simp add: mod_add_left_eq)
    then show ?thesis by simp
  qed
  have div: "gf256_checked_div a b = Some ((mulg ^^ k) 1)"
    using False assms GF256_EXP_pow [of k]
    by (simp add: gf256_checked_div_def k_def glog_def Let_def nat_less_iff)
  have "gf256_mul ((mulg ^^ k) 1) b = (mulg ^^ (k + glog b)) 1"
    using gf256_mul_pow [of k "glog b"] glog_pow [OF assms] by simp
  also have "\<dots> = (mulg ^^ glog a) 1"
    using mulg_pow_mod [of "k + glog b"] mulg_pow_mod [of "glog a"] k by simp
  also have "\<dots> = a" using glog_pow [OF False] .
  finally show ?thesis using div by blast
qed

typedef gf256 = "UNIV :: u8 set"
  morphisms byte gf
  by simp

setup_lifting type_definition_gf256

instantiation gf256 :: field
begin

lift_definition zero_gf256 :: gf256 is "0 :: u8" .

lift_definition one_gf256 :: gf256 is "1 :: u8" .

lift_definition plus_gf256 :: "gf256 \<Rightarrow> gf256 \<Rightarrow> gf256" is gf256_add .

lift_definition minus_gf256 :: "gf256 \<Rightarrow> gf256 \<Rightarrow> gf256" is gf256_sub .

lift_definition uminus_gf256 :: "gf256 \<Rightarrow> gf256" is "\<lambda>a. a" .

lift_definition times_gf256 :: "gf256 \<Rightarrow> gf256 \<Rightarrow> gf256" is gf256_mul .

lift_definition inverse_gf256 :: "gf256 \<Rightarrow> gf256"
  is "\<lambda>b. case gf256_checked_div 1 b of Some c \<Rightarrow> c | None \<Rightarrow> 0" .

definition divide_gf256 :: "gf256 \<Rightarrow> gf256 \<Rightarrow> gf256" where
  "divide_gf256 a b = a * inverse b"

instance
proof
  fix a b c :: gf256
  show "a * b * c = a * (b * c)" by transfer (rule gf256_mul_assoc)
  show "a * b = b * a" by transfer (rule gf256_mul_commute)
  show "1 * a = a" by transfer (rule gf256_mul_one)
  show "a + b + c = a + (b + c)" by transfer (simp add: gf256_add_def ac_simps)
  show "a + b = b + a" by transfer (simp add: gf256_add_def ac_simps)
  show "0 + a = a" by transfer (simp add: gf256_add_def)
  show "- a + a = 0" by transfer (simp add: gf256_add_def)
  show "a - b = a + - b" by transfer (simp add: gf256_sub_def)
  show "(a + b) * c = a * c + b * c" by transfer (simp add: gf256_add_def gf256_mul_add)
  show "(0 :: gf256) \<noteq> 1" by transfer simp
  show "inverse a * a = 1" if "a \<noteq> 0"
    using that by transfer (use gf256_checked_div_Some [of _ 1] in fastforce)
  show "divide a b = a * inverse b" by (rule divide_gf256_def)
  show "inverse (0 :: gf256) = 0" by transfer (simp add: gf256_checked_div_def)
qed

end

text \<open>The bytes of the code and the elements of the field.\<close>

lemma gf_hom:
  "gf 0 = 0" "gf 1 = 1"
  "gf (gf256_add a b) = gf a + gf b"
  "gf (gf256_sub a b) = gf a - gf b"
  "gf (gf256_mul a b) = gf a * gf b"
  by (simp_all add: zero_gf256_def one_gf256_def plus_gf256_def minus_gf256_def times_gf256_def
      gf_inverse)

lemma gf_eq_iff [simp]: "gf a = gf b \<longleftrightarrow> a = b"
  by (simp add: gf_inject)

lemma gf_eq_0_iff [simp]: "gf a = 0 \<longleftrightarrow> a = 0"
  using gf_eq_iff [of a 0] by (simp add: gf_hom)

lemma gf_add_self: "(a :: gf256) + a = 0"
  by transfer (simp add: gf256_add_def)

lemma gf_uminus: "- (a :: gf256) = a"
  by transfer simp

lemma gf_minus_eq_plus: "(a :: gf256) - b = a + b"
  by transfer (simp add: gf256_sub_def)

lemma gf256_checked_div_gf:
  assumes "b \<noteq> 0"
  obtains c where "gf256_checked_div a b = Some c" "gf c = gf a / gf b"
proof -
  obtain c where c: "gf256_checked_div a b = Some c" "gf256_mul c b = a"
    using gf256_checked_div_Some [OF assms] by blast
  then have "gf c * gf b = gf a" by (metis gf_hom(5))
  then have "gf c = gf a / gf b" using assms by (simp add: nonzero_eq_divide_eq)
  with c show thesis using that by blast
qed

text \<open>
  Checked division is the inverse of multiplication wherever it returns a quotient, and it
  refuses exactly the division of a nonzero byte by zero.\<close>

theorem gf256_div_mul_cancel:
  "(case gf256_checked_div a b of
      None \<Rightarrow> a \<noteq> 0 \<and> b = 0
    | Some c \<Rightarrow> gf256_mul c b = a)"
proof (cases "b = 0")
  case True
  then show ?thesis by (simp add: gf256_checked_div_def)
next
  case False
  then show ?thesis using gf256_checked_div_Some [OF False, of a] by auto
qed

end
