(* ===== verification/Shamir.thy ===== *)
theory Shamir
  imports GF256
begin

text \<open>
  \<open>src/shamir.rs\<close>: splitting a secret into shares and recovering it. Each byte of the secret is the
  constant coefficient of a random polynomial of degree \<open>threshold - 1\<close> over the field with 256
  elements; a share is the list of the values of these polynomials at the share's identifier,
  followed by the identifier. The random source is the argument \<open>rnd\<close>: \<open>rnd i j\<close> is byte \<open>j\<close> of the
  \<open>i\<close>-th call of \<open>fill_bytes\<close>.

  Shown: any \<open>threshold\<close> distinct shares recover the secret (round trip); fewer than \<open>threshold\<close>
  shares say nothing about the secret (for every candidate secret there is exactly one choice of the
  random coefficients that gives the same shares); malformed share lists are refused.
\<close>

section \<open>Polynomials as coefficient lists\<close>

definition add_polynomials :: "bytes \<Rightarrow> bytes \<Rightarrow> bytes" where
  "add_polynomials a b =
     (let a' = (if length a < length b then a @ replicate (length b - length a) 0 else a);
          b' = (if length b < length a then b @ replicate (length a - length b) 0 else b)
      in map (\<lambda>i. gf256_add (a' ! i) (b' ! i)) [0..<length a'])"

fun multiply_loop :: "bytes \<Rightarrow> bytes \<Rightarrow> bytes \<Rightarrow> bytes \<Rightarrow> bytes" where
  "multiply_loop a [] termpadding resultterms = resultterms"
| "multiply_loop a (bterm # bs) termpadding resultterms =
     multiply_loop a bs (termpadding @ [0])
       (add_polynomials resultterms (termpadding @ map (\<lambda>aterm. gf256_mul aterm bterm) a))"

definition multiply_polynomials :: "bytes \<Rightarrow> bytes \<Rightarrow> bytes" where
  "multiply_polynomials a b = multiply_loop a b [] []"

section \<open>Shares\<close>

record shamir_secret =
  coefficients :: "bytes list"

definition with_secret ::
  "bool \<Rightarrow> (nat \<Rightarrow> nat \<Rightarrow> u8) \<Rightarrow> bytes \<Rightarrow> u8 \<Rightarrow> shamir_secret res" where
  "with_secret ovf rnd secret threshold =
     res_bind (u8_sub ovf threshold 1) (\<lambda>n.
       Ok \<lparr>coefficients = map (\<lambda>(i, c). c # map (rnd i) [0..<unat n]) (enumerate 0 secret)\<rparr>)"

fun accumulate_loop :: "u8 \<Rightarrow> bytes \<Rightarrow> u8 \<Rightarrow> u8 \<Rightarrow> u8" where
  "accumulate_loop ident [] accumulator x_i = accumulator"
| "accumulate_loop ident (c # cs) accumulator x_i =
     accumulate_loop ident cs (gf256_add accumulator (gf256_mul c x_i)) (gf256_mul x_i ident)"

definition accumulate_share_bytes :: "u8 \<Rightarrow> bytes \<Rightarrow> u8 res" where
  "accumulate_share_bytes ident coefficient_bytes =
     (if ident = 0 then Err ErrShamirShareCountInvalid
      else Ok (accumulate_loop ident coefficient_bytes 0 1))"

definition get_share :: "shamir_secret \<Rightarrow> u8 \<Rightarrow> bytes res" where
  "get_share s ident =
     (if ident = 0 then Err ErrShamirShareCountInvalid
      else res_bind (res_mapM (accumulate_share_bytes ident) (coefficients s))
             (\<lambda>share_bytes. Ok (share_bytes @ [ident])))"

text \<open>An empty share makes the index \<open>share.len() - 1\<close> fail: the call panics.\<close>

definition is_valid_share :: "shamir_secret \<Rightarrow> bytes \<Rightarrow> bool res" where
  "is_valid_share s share =
     (if share = [] then Panic
      else case get_share s (last share) of
          Ok sh \<Rightarrow> Ok (sh = share)
        | Err _ \<Rightarrow> Ok False
        | Panic \<Rightarrow> Panic)"

section \<open>Recovery\<close>

fun lagrange_inner :: "bytes \<Rightarrow> nat \<Rightarrow> nat list \<Rightarrow> bytes \<Rightarrow> bytes option" where
  "lagrange_inner xs i [] this_polynomial = Some this_polynomial"
| "lagrange_inner xs i (j # js) this_polynomial =
     (if i = j then lagrange_inner xs i js this_polynomial
      else
        let denominator = gf256_sub (xs ! i) (xs ! j) in
        case (gf256_checked_div (xs ! j) denominator, gf256_checked_div 1 denominator) of
          (Some a, Some b) \<Rightarrow>
            lagrange_inner xs i js (multiply_polynomials this_polynomial [a, b])
        | _ \<Rightarrow> None)"

fun lagrange_outer :: "bytes \<Rightarrow> bytes \<Rightarrow> nat list \<Rightarrow> bytes \<Rightarrow> bytes option" where
  "lagrange_outer xs fxs [] returned = Some returned"
| "lagrange_outer xs fxs (i # is) returned =
     (case lagrange_inner xs i [0..<length fxs] [1] of
        None \<Rightarrow> None
      | Some p \<Rightarrow>
          let p' = (if length fxs + 1 \<ge> i then multiply_polynomials p [fxs ! i] else p)
          in lagrange_outer xs fxs is (add_polynomials returned p'))"

text \<open>The caller passes as many identifiers as values, so the indices into \<open>xs\<close> are in range.\<close>

definition full_lagrange :: "bytes \<Rightarrow> bytes \<Rightarrow> bytes option" where
  "full_lagrange xs fxs = lagrange_outer xs fxs [0..<length fxs] []"

fun collect_ids :: "nat \<Rightarrow> bytes list \<Rightarrow> bytes \<Rightarrow> bytes option" where
  "collect_ids len0 [] xs = Some xs"
| "collect_ids len0 (share # shares) xs =
     (if share = [] then None
      else if last share \<in> set xs then None
      else if length share \<noteq> len0 then None
      else collect_ids len0 shares (xs @ [last share]))"

fun recover_rounds :: "bytes \<Rightarrow> bytes list \<Rightarrow> nat list \<Rightarrow> bytes \<Rightarrow> bytes option" where
  "recover_rounds xs shares [] mysecretdata = Some mysecretdata"
| "recover_rounds xs shares (byte_to_use # rounds) mysecretdata =
     (case full_lagrange xs (map (\<lambda>share. share ! byte_to_use) shares) of
        None \<Rightarrow> None
      | Some resulting_poly \<Rightarrow>
          recover_rounds xs shares rounds (mysecretdata @ [resulting_poly ! 0]))"

definition recover_secret :: "bytes list \<Rightarrow> bytes option" where
  "recover_secret shares =
     (if length shares < 2 then None
      else case collect_ids (length (shares ! 0)) shares [] of
          None \<Rightarrow> None
        | Some xs \<Rightarrow> recover_rounds xs shares [0..<length (shares ! 0) - 1] [])"

definition shamir_split ::
  "bool \<Rightarrow> (nat \<Rightarrow> nat \<Rightarrow> u8) \<Rightarrow> bytes \<Rightarrow> u8 \<Rightarrow> u8 \<Rightarrow> bytes list res" where
  "shamir_split ovf rnd secret part threshold =
     (if part < threshold \<or> threshold < 2 then Err ErrShamirShareCountInvalid
      else res_bind (with_secret ovf rnd secret threshold) (\<lambda>secret_data.
           res_bind (u8_add ovf part 1) (\<lambda>upper.
             res_mapM (get_share secret_data) (map of_nat [1..<unat upper]))))"

definition shamir_combine :: "bytes list \<Rightarrow> bytes option" where
  "shamir_combine shares = recover_secret shares"

section \<open>Evaluation\<close>

fun peval :: "gf256 list \<Rightarrow> gf256 \<Rightarrow> gf256" where
  "peval [] x = 0"
| "peval (c # cs) x = c + x * peval cs x"

abbreviation bpeval :: "bytes \<Rightarrow> gf256 \<Rightarrow> gf256" where
  "bpeval p x \<equiv> peval (map gf p) x"

lemma peval_append: "peval (p @ q) x = peval p x + x ^ length p * peval q x"
  by (induction p) (simp_all add: algebra_simps)

lemma peval_replicate_0 [simp]: "peval (replicate n 0) x = 0"
  by (induction n) simp_all

lemma peval_0: "p \<noteq> [] \<Longrightarrow> peval p 0 = hd p"
  by (cases p) simp_all

lemma length_add_polynomials [simp]:
  "length (add_polynomials a b) = max (length a) (length b)"
  by (simp add: add_polynomials_def Let_def)

lemma peval_map2_add:
  "length a = length b \<Longrightarrow>
   bpeval (map (\<lambda>i. gf256_add (a ! i) (b ! i)) [0..<length a]) x = bpeval a x + bpeval b x"
proof (induction a b rule: list_induct2)
  case Nil
  then show ?case by simp
next
  case (Cons a as b bs)
  have "map (\<lambda>i. gf256_add ((a # as) ! i) ((b # bs) ! i)) [0..<length (a # as)]
      = gf256_add a b # map (\<lambda>i. gf256_add (as ! i) (bs ! i)) [0..<length as]"
    by (simp add: map_upt_Suc del: upt_Suc)
  then show ?case using Cons.IH by (simp add: gf_hom algebra_simps)
qed

lemma peval_pad: "bpeval (p @ replicate n 0) x = bpeval p x"
  by (simp add: peval_append gf_hom map_replicate_const)

lemma peval_add [simp]: "bpeval (add_polynomials a b) x = bpeval a x + bpeval b x"
  unfolding add_polynomials_def Let_def
  by (subst peval_map2_add) (auto simp: peval_pad simp del: map_append)

lemma peval_scale: "bpeval (map (\<lambda>a. gf256_mul a b) p) x = gf b * bpeval p x"
  by (induction p) (simp_all add: gf_hom algebra_simps)

lemma peval_multiply_loop:
  "bpeval (multiply_loop a bs (replicate n 0) r) x = bpeval r x + x ^ n * bpeval a x * bpeval bs x"
proof (induction bs arbitrary: n r)
  case Nil
  then show ?case by simp
next
  case (Cons b bs)
  have pad: "replicate n 0 @ [0 :: u8] = replicate (Suc n) 0"
    by (simp add: replicate_append_same)
  have "bpeval (replicate n 0 @ map (\<lambda>a. gf256_mul a b) a) x = x ^ n * (gf b * bpeval a x)"
    unfolding map_append peval_append peval_scale by (simp add: gf_hom)
  then show ?case
    by (simp add: pad Cons.IH algebra_simps del: replicate_Suc map_append)
qed

lemma peval_multiply [simp]: "bpeval (multiply_polynomials a b) x = bpeval a x * bpeval b x"
  using peval_multiply_loop [of a b 0 "[]" x] by (simp add: multiply_polynomials_def)

lemma length_multiply_linear [simp]:
  "length (multiply_polynomials p [a, b]) = Suc (length p)"
  "length (multiply_polynomials p [c]) = length p"
  by (simp_all add: multiply_polynomials_def)

lemma gf_accumulate_loop:
  "gf (accumulate_loop i cs acc y) = gf acc + gf y * bpeval cs (gf i)"
  by (induction cs arbitrary: acc y) (simp_all add: gf_hom algebra_simps)

section \<open>Polynomials of the same values are equal\<close>

lemma peval_root_factor:
  "\<exists>q. length q = length p - 1 \<and> (\<forall>x. peval p x = peval p a + (x - a) * peval q x)"
proof (induction p)
  case Nil
  show ?case by (rule exI [of _ "[]"]) simp
next
  case (Cons c cs)
  then obtain q where q: "length q = length cs - 1"
    "\<And>x. peval cs x = peval cs a + (x - a) * peval q x" by blast
  show ?case
  proof (cases cs)
    case Nil
    then show ?thesis by (intro exI [of _ "[]"]) simp
  next
    case (Cons d ds)
    have eq: "peval (c # cs) x = peval (c # cs) a + (x - a) * peval (peval cs a # q) x" for x
    proof -
      have "peval (c # cs) x = c + x * (peval cs a + (x - a) * peval q x)"
        by (simp only: peval.simps q(2) [of x])
      also have "\<dots> = peval (c # cs) a + (x - a) * peval (peval cs a # q) x"
        by (simp add: algebra_simps)
      finally show ?thesis .
    qed
    have "length (peval cs a # q) = length (c # cs) - 1" using q(1) Cons by simp
    with eq show ?thesis by blast
  qed
qed

lemma peval_zero_of_roots:
  assumes "distinct as" "length p \<le> length as" "\<forall>a \<in> set as. peval p a = 0"
  shows "peval p x = 0"
  using assms
proof (induction as arbitrary: p x)
  case Nil
  then show ?case by simp
next
  case (Cons a as)
  obtain q where q: "length q = length p - 1" "\<And>x. peval p x = peval p a + (x - a) * peval q x"
    using peval_root_factor by blast
  have pa: "peval p a = 0" using Cons.prems by simp
  have "peval q b = 0" if "b \<in> set as" for b
  proof -
    have "(b - a) * peval q b = 0" using q(2) [of b] pa Cons.prems(3) that by simp
    moreover have "b - a \<noteq> 0" using Cons.prems(1) that by auto
    ultimately show ?thesis by simp
  qed
  then have "peval q x = 0" using Cons.IH [of q x] Cons.prems q(1) by auto
  then show ?case using q(2) [of x] pa by simp
qed

lemma bpeval_unique:
  assumes "distinct as" "length p \<le> length as" "length q \<le> length as"
    and "\<forall>a \<in> set as. bpeval p a = bpeval q a"
  shows "bpeval p x = bpeval q x"
proof -
  have "bpeval (add_polynomials p q) x = 0"
    by (rule peval_zero_of_roots [OF assms(1)]) (use assms gf_add_self in auto)
  then have "bpeval p x - bpeval q x = 0" by (simp add: gf_minus_eq_plus)
  then show ?thesis by simp
qed

lemma bpeval_nth_0: "p \<noteq> [] \<Longrightarrow> bpeval p 0 = gf (p ! 0)"
  by (cases p) simp_all

section \<open>Interpolation\<close>

definition basis :: "bytes \<Rightarrow> nat list \<Rightarrow> nat \<Rightarrow> gf256 \<Rightarrow> gf256" where
  "basis xs js i x = (\<Prod>j \<leftarrow> filter (\<lambda>j. j \<noteq> i) js. (x - gf (xs ! j)) / (gf (xs ! i) - gf (xs ! j)))"

lemma lagrange_inner_correct:
  assumes "\<forall>j \<in> set js. j \<noteq> i \<longrightarrow> xs ! i \<noteq> xs ! j"
  shows "\<exists>q. lagrange_inner xs i js p = Some q \<and>
           length q = length p + length (filter (\<lambda>j. j \<noteq> i) js) \<and>
           (\<forall>x. bpeval q x = bpeval p x * basis xs js i x)"
  using assms
proof (induction js arbitrary: p)
  case Nil
  then show ?case by (simp add: basis_def)
next
  case (Cons j js)
  show ?case
  proof (cases "i = j")
    case True
    then show ?thesis using Cons by (simp add: basis_def)
  next
    case False
    let ?d = "gf256_sub (xs ! i) (xs ! j)"
    have gd: "gf ?d = gf (xs ! i) - gf (xs ! j)" by (simp add: gf_hom)
    have "gf (xs ! i) - gf (xs ! j) \<noteq> 0" using Cons.prems False by simp
    then have d: "?d \<noteq> 0" using gd by (metis gf_eq_0_iff)
    obtain a where a: "gf256_checked_div (xs ! j) ?d = Some a" "gf a = gf (xs ! j) / gf ?d"
      using gf256_checked_div_gf [OF d] by blast
    obtain b where b: "gf256_checked_div 1 ?d = Some b" "gf b = 1 / gf ?d"
      using gf256_checked_div_gf [OF d, of 1] by (auto simp: gf_hom)
    have lin: "bpeval [a, b] x = (x - gf (xs ! j)) / (gf (xs ! i) - gf (xs ! j))" for x
      by (simp add: a(2) b(2) gd gf_minus_eq_plus add_divide_distrib [symmetric] add.commute)
    obtain q where q: "lagrange_inner xs i js (multiply_polynomials p [a, b]) = Some q"
      "length q = Suc (length p) + length (filter (\<lambda>j. j \<noteq> i) js)"
      "\<And>x. bpeval q x = bpeval p x * bpeval [a, b] x * basis xs js i x"
      using Cons.IH [of "multiply_polynomials p [a, b]"] Cons.prems by auto
    have "bpeval q x = bpeval p x * basis xs (j # js) i x" for x
      unfolding q(3) lin using False by (simp add: basis_def)
    then show ?thesis
      using False q(1,2) a(1) b(1) by (simp add: Let_def)
  qed
qed

lemma length_filter_neq_upt: "i < n \<Longrightarrow> length (filter (\<lambda>j. j \<noteq> i) [0..<n]) = n - 1"
proof -
  assume "i < n"
  have "length (filter (\<lambda>j. j \<noteq> i) [0..<n]) = card ({0..<n} - {i})"
    by (subst distinct_card [symmetric]) (auto intro!: arg_cong [where f = card])
  then show ?thesis using \<open>i < n\<close> by simp
qed

lemma lagrange_outer_correct:
  assumes "distinct xs" "length xs = length fxs" "\<forall>i \<in> set is. i < length fxs"
  shows "\<exists>q. lagrange_outer xs fxs is r = Some q \<and>
           length q = (if is = [] then length r else max (length r) (length fxs)) \<and>
           (\<forall>x. bpeval q x = bpeval r x + (\<Sum>i \<leftarrow> is. gf (fxs ! i) * basis xs [0..<length fxs] i x))"
  using assms(3)
proof (induction "is" arbitrary: r)
  case Nil
  then show ?case by simp
next
  case (Cons i "is")
  have i: "i < length fxs" using Cons.prems by simp
  have "\<forall>j \<in> set [0..<length fxs]. j \<noteq> i \<longrightarrow> xs ! i \<noteq> xs ! j"
    using assms(1,2) i by (simp add: nth_eq_iff_index_eq)
  from lagrange_inner_correct [OF this, of "[1]"] obtain p where
    p: "lagrange_inner xs i [0..<length fxs] [1] = Some p" "length p = length fxs"
      "\<And>x. bpeval p x = basis xs [0..<length fxs] i x"
    using i by (auto simp: length_filter_neq_upt gf_hom)
  define r' where "r' = add_polynomials r (multiply_polynomials p [fxs ! i])"
  obtain q where q: "lagrange_outer xs fxs is r' = Some q"
    "length q = (if is = [] then length r' else max (length r') (length fxs))"
    "\<And>x. bpeval q x = bpeval r' x + (\<Sum>i \<leftarrow> is. gf (fxs ! i) * basis xs [0..<length fxs] i x)"
    using Cons.IH [of r'] Cons.prems by auto
  have "lagrange_outer xs fxs (i # is) r = Some q"
    using p(1) q(1) i by (simp add: r'_def Let_def)
  then show ?case
    using q(2,3) p(2,3) by (auto simp: r'_def algebra_simps)
qed

lemma basis_nodes:
  assumes "distinct xs" "i < length xs" "k < length xs"
  shows "basis xs [0..<length xs] i (gf (xs ! k)) = (if i = k then 1 else 0)"
proof (cases "i = k")
  case True
  have "map (\<lambda>j. (gf (xs ! k) - gf (xs ! j)) / (gf (xs ! i) - gf (xs ! j)))
      (filter (\<lambda>j. j \<noteq> i) [0..<length xs]) = map (\<lambda>_. 1) (filter (\<lambda>j. j \<noteq> i) [0..<length xs])"
    using assms True by (auto simp: nth_eq_iff_index_eq)
  then show ?thesis using True by (simp add: basis_def map_replicate_const)
next
  case False
  then have "k \<in> set (filter (\<lambda>j. j \<noteq> i) [0..<length xs])" using assms by simp
  then have "0 \<in> set (map (\<lambda>j. (gf (xs ! k) - gf (xs ! j)) / (gf (xs ! i) - gf (xs ! j)))
      (filter (\<lambda>j. j \<noteq> i) [0..<length xs]))"
    by (metis (no_types, lifting) diff_self div_0 image_eqI set_map)
  then show ?thesis using False by (simp add: basis_def prod_list_zero_iff)
qed

text \<open>The interpolation polynomial exists for distinct identifiers, has one coefficient per point and
  takes the given values.\<close>

lemma full_lagrange_correct:
  assumes "distinct xs" "length xs = length fxs"
  shows "\<exists>q. full_lagrange xs fxs = Some q \<and> length q = length fxs \<and>
           (\<forall>k < length fxs. bpeval q (gf (xs ! k)) = gf (fxs ! k))"
proof -
  obtain q where q: "full_lagrange xs fxs = Some q"
    "length q = (if [0..<length fxs] = [] then 0 else length fxs)"
    "\<And>x. bpeval q x = (\<Sum>i \<leftarrow> [0..<length fxs]. gf (fxs ! i) * basis xs [0..<length fxs] i x)"
    using lagrange_outer_correct [OF assms, of "[0..<length fxs]" "[]"]
    by (auto simp: full_lagrange_def)
  have "bpeval q (gf (xs ! k)) = gf (fxs ! k)" if "k < length fxs" for k
  proof -
    have "bpeval q (gf (xs ! k))
        = (\<Sum>i \<in> {0..<length fxs}. gf (fxs ! i) * (if i = k then 1 else 0))"
      unfolding q(3) interv_sum_list_conv_sum_set_nat using assms that
      by (auto intro!: sum.cong simp: basis_nodes simp flip: assms(2))
    then show ?thesis using that by (simp add: if_distrib sum.delta cong: if_cong)
  qed
  with q show ?thesis by auto
qed

section \<open>Shares determine the secret\<close>

definition share_of :: "bytes list \<Rightarrow> u8 \<Rightarrow> bytes" where
  "share_of coefs ident = map (\<lambda>c. accumulate_loop ident c 0 1) coefs @ [ident]"

lemma share_of_simps [simp]:
  "share_of coefs ident \<noteq> []" "last (share_of coefs ident) = ident"
  "length (share_of coefs ident) = Suc (length coefs)"
  by (simp_all add: share_of_def)

lemma share_of_nth:
  "k < length coefs \<Longrightarrow> gf (share_of coefs ident ! k) = bpeval (coefs ! k) (gf ident)"
  by (simp add: share_of_def nth_append gf_accumulate_loop gf_hom)

lemma get_share_Ok: "ident \<noteq> 0 \<Longrightarrow> get_share s ident = Ok (share_of (coefficients s) ident)"
  by (simp add: get_share_def share_of_def accumulate_share_bytes_def
      res_mapM_Ok [where g = "\<lambda>c. accumulate_loop ident c 0 1"])

lemma collect_ids_shares:
  "distinct (xs @ ids) \<Longrightarrow>
   collect_ids (Suc (length coefs)) (map (share_of coefs) ids) xs = Some (xs @ ids)"
  by (induction ids arbitrary: xs) auto

lemma lagrange_at_zero:
  assumes "distinct ids" "k < length coefs" "coefs ! k \<noteq> []" "length (coefs ! k) \<le> length ids"
  shows "\<exists>q. full_lagrange ids (map (\<lambda>share. share ! k) (map (share_of coefs) ids)) = Some q \<and>
           q ! 0 = coefs ! k ! 0"
proof -
  let ?fxs = "map (\<lambda>share. share ! k) (map (share_of coefs) ids)"
  obtain q where q: "full_lagrange ids ?fxs = Some q" "length q = length ids"
    "\<And>m. m < length ids \<Longrightarrow> bpeval q (gf (ids ! m)) = bpeval (coefs ! k) (gf (ids ! m))"
    using full_lagrange_correct [of ids ?fxs] assms(1,2) by (auto simp: share_of_nth)
  have "bpeval q 0 = bpeval (coefs ! k) 0"
  proof (rule bpeval_unique [where as = "map gf ids"])
    show "distinct (map gf ids)" using assms(1) by (simp add: distinct_map inj_on_def)
    show "\<forall>a \<in> set (map gf ids). bpeval q a = bpeval (coefs ! k) a"
      using q(3) by (auto simp: in_set_conv_nth)
  qed (use q(2) assms(4) in auto)
  moreover have "q \<noteq> []" using q(2) assms(3,4) by auto
  ultimately have "q ! 0 = coefs ! k ! 0" using assms(3) by (simp add: bpeval_nth_0)
  with q(1) show ?thesis by blast
qed

lemma recover_rounds_shares:
  assumes "distinct ids" "\<forall>c \<in> set coefs. c \<noteq> [] \<and> length c \<le> length ids"
    and "\<forall>k \<in> set ks. k < length coefs"
  shows "recover_rounds ids (map (share_of coefs) ids) ks d = Some (d @ map (\<lambda>k. coefs ! k ! 0) ks)"
  using assms(3)
proof (induction ks arbitrary: d)
  case Nil
  then show ?case by simp
next
  case (Cons k ks)
  obtain q where "full_lagrange ids (map (\<lambda>share. share ! k) (map (share_of coefs) ids)) = Some q"
    "q ! 0 = coefs ! k ! 0"
    using lagrange_at_zero [OF assms(1), of k coefs] assms(2) Cons.prems by (auto simp: nth_mem)
  then show ?case using Cons by simp
qed

lemma recover_secret_shares:
  assumes "distinct ids" "2 \<le> length ids" "\<forall>c \<in> set coefs. c \<noteq> [] \<and> length c \<le> length ids"
  shows "recover_secret (map (share_of coefs) ids) = Some (map (\<lambda>c. c ! 0) coefs)"
proof -
  have len0: "length (map (share_of coefs) ids ! 0) = Suc (length coefs)"
    using assms(2) by (cases ids) simp_all
  have "map (\<lambda>k. coefs ! k ! 0) [0..<length coefs] = map (\<lambda>c. c ! 0) coefs"
    by (rule nth_equalityI) simp_all
  then show ?thesis
    using assms len0
    by (simp add: recover_secret_def collect_ids_shares recover_rounds_shares del: nth_map)
qed

lemma unat_sub_1: "2 \<le> (t :: u8) \<Longrightarrow> unat (t - 1) = unat t - 1 \<and> 2 \<le> unat t"
proof -
  assume "2 \<le> t"
  then have t: "2 \<le> unat t" by (simp add: word_le_nat_alt)
  then have "t \<noteq> 0" by auto
  with t show ?thesis by (simp add: unat_minus_one)
qed

lemma with_secret_Ok:
  assumes "2 \<le> threshold"
  shows "with_secret ovf rnd secret threshold =
    Ok \<lparr>coefficients = map (\<lambda>(i, c). c # map (rnd i) [0..<unat threshold - 1]) (enumerate 0 secret)\<rparr>"
  using unat_sub_1 [OF assms] by (simp add: with_secret_def u8_sub_def)

lemma shamir_split_OkD:
  assumes "shamir_split ovf rnd secret part threshold = Ok out"
  shows "\<exists>coefs ids. out = map (share_of coefs) ids \<and> map (\<lambda>c. c ! 0) coefs = secret \<and>
    (\<forall>c \<in> set coefs. length c = unat threshold) \<and> 2 \<le> unat threshold \<and> distinct ids \<and> 0 \<notin> set ids"
proof -
  let ?coefs = "map (\<lambda>(i, c). c # map (rnd i) [0..<unat threshold - 1]) (enumerate 0 secret)"
  have t: "2 \<le> threshold" using assms by (auto simp: shamir_split_def split: if_splits)
  from assms t obtain upper :: u8 where
    out: "res_mapM (get_share \<lparr>coefficients = ?coefs\<rparr>) (map of_nat [1..<unat upper]) = Ok out"
    by (fastforce simp: shamir_split_def with_secret_Ok res_bind_Ok_iff split: if_splits)
  have small: "i < 256" if "i < unat upper" for i
    using that unat_u8_less [of upper] by simp
  have nz: "of_nat i \<noteq> (0 :: u8)" if "i \<in> {1..<unat upper}" for i
    using that small [of i] by (intro of_nat_u8_nonzero) auto
  have "res_mapM (get_share \<lparr>coefficients = ?coefs\<rparr>) (map of_nat [1..<unat upper])
      = Ok (map (share_of ?coefs) (map of_nat [1..<unat upper]))"
    by (rule res_mapM_Ok) (use nz in \<open>auto simp: get_share_Ok\<close>)
  with out have "out = map (share_of ?coefs) (map of_nat [1..<unat upper])" by simp
  moreover have "map (\<lambda>c. c ! 0) ?coefs = secret"
    by (rule nth_equalityI) (simp_all add: nth_enumerate_eq)
  moreover have "\<forall>c \<in> set ?coefs. length c = unat threshold"
    using unat_sub_1 [OF t] by auto
  moreover have "distinct (map of_nat [1..<unat upper] :: u8 list)"
  proof -
    have "inj_on (of_nat :: nat \<Rightarrow> u8) {1..<unat upper}"
      by (rule inj_onI) (use small of_nat_u8_inj in auto)
    then show ?thesis by (simp add: distinct_map)
  qed
  moreover have "0 \<notin> set (map of_nat [1..<unat upper] :: u8 list)" using nz by force
  ultimately show ?thesis using unat_sub_1 [OF t] by blast
qed

lemma combine_of_split:
  assumes "shamir_split ovf rnd secret part threshold = Ok out"
    and "set shares \<subseteq> set out" and "distinct shares" and "unat threshold \<le> length shares"
  shows "shamir_combine shares = Some secret"
proof -
  obtain coefs ids where split: "out = map (share_of coefs) ids" "map (\<lambda>c. c ! 0) coefs = secret"
    "\<forall>c \<in> set coefs. length c = unat threshold" "2 \<le> unat threshold"
    using shamir_split_OkD [OF assms(1)] by blast
  have shares: "shares = map (share_of coefs) (map last shares)"
    unfolding map_map by (rule map_idI [symmetric]) (use assms(2) split(1) in auto)
  have "distinct (map last shares)"
    using assms(3) by (subst (asm) shares) (auto simp: distinct_map intro: inj_on_imageI2)
  then have "recover_secret (map (share_of coefs) (map last shares)) = Some (map (\<lambda>c. c ! 0) coefs)"
    by (rule recover_secret_shares) (use split(3,4) assms(4) in force)+
  then show ?thesis using shares split(2) by (simp add: shamir_combine_def)
qed

text \<open>C1: the round trip of the secret sharing. Whatever the random coefficients are, any list of
  distinct shares of a split, as long as the threshold, combines to the secret.\<close>

theorem shamir_roundtrip:
  assumes "shamir_split ovf rnd secret part threshold = Ok out"
    and "set shares \<subseteq> set out" and "distinct shares" and "unat threshold \<le> length shares"
  shows "shamir_combine shares = Some secret"
  by (rule combine_of_split [OF assms])

theorem shamir_roundtrip_witness:
  "shamir_split True (\<lambda>i j. 7) [0x48] 3 2 = Ok [[0x4f, 1], [0x46, 2], [0x41, 3]] \<and>
   shamir_combine [[0x41, 3], [0x4f, 1]] = Some [0x48]"
proof -
  have split: "shamir_split True (\<lambda>i j. 7) [0x48] 3 2 = Ok [[0x4f, 1], [0x46, 2], [0x41, 3]]"
    by (simp add: shamir_split_def with_secret_def u8_sub_def u8_add_def get_share_def
        accumulate_share_bytes_def gf256_add_def gf256_mul_def GF256_EXP_def GF256_LOG_def
        upt_rec)
  then show ?thesis
    using shamir_roundtrip [OF split, of "[[0x41, 3], [0x4f, 1]]"] by simp
qed

section \<open>Fewer shares than the threshold say nothing\<close>

definition nonzero_points :: "gf256 list" where
  "nonzero_points = map (\<lambda>i. gf (of_nat i)) [1..<256]"

lemma nonzero_points:
  "distinct nonzero_points" "length nonzero_points = 255" "0 \<notin> set nonzero_points"
proof -
  have "inj_on (of_nat :: nat \<Rightarrow> u8) {1..<256}"
    by (rule inj_onI) (use of_nat_u8_inj in auto)
  then show "distinct nonzero_points"
    by (auto simp: nonzero_points_def distinct_map inj_on_def)
  show "length nonzero_points = 255" by (simp add: nonzero_points_def)
  show "0 \<notin> set nonzero_points"
    using of_nat_u8_nonzero by (force simp: nonzero_points_def dest!: sym [of 0])
qed

text \<open>A polynomial with at most 256 coefficients that vanishes everywhere has no nonzero coefficient.\<close>

lemma peval_zero_coefficients:
  "(\<And>x. peval p x = 0) \<Longrightarrow> length p \<le> 256 \<Longrightarrow> p = replicate (length p) 0"
proof (induction p)
  case Nil
  then show ?case by simp
next
  case (Cons c cs)
  have c: "c = 0" using Cons.prems(1) [of 0] by simp
  have "peval cs x = 0" for x
  proof (rule peval_zero_of_roots [OF nonzero_points(1)])
    show "length cs \<le> length nonzero_points" using Cons.prems(2) nonzero_points(2) by simp
    show "\<forall>a \<in> set nonzero_points. peval cs a = 0"
      using Cons.prems(1) c nonzero_points(3) by (metis add_0 mult_eq_0_iff peval.simps(2))
  qed
  then show ?case using Cons c by simp
qed

lemma bpeval_coefficients_unique:
  assumes "length p = length q" "length p \<le> 256" "\<And>x. bpeval p x = bpeval q x"
  shows "p = q"
proof -
  let ?a = "add_polynomials p q"
  have "map gf ?a = replicate (length p) 0"
    using peval_zero_coefficients [of "map gf ?a"] assms gf_add_self by simp
  then have "map gf ?a ! i = 0" if "i < length p" for i
    using that by simp
  moreover have "map gf ?a ! i = gf (p ! i) - gf (q ! i)" if "i < length p" for i
    using that assms(1) by (simp add: add_polynomials_def gf_hom gf_minus_eq_plus)
  ultimately have "p ! i = q ! i" if "i < length p" for i
    using that by (metis eq_iff_diff_eq_0 gf_eq_iff)
  then show ?thesis using assms(1) by (simp add: nth_equalityI)
qed

lemma interpolate_with_constant:
  assumes "distinct ids" "0 \<notin> set ids" "length c = Suc (length ids)"
  shows "\<exists>r. length r = length ids \<and>
    (\<forall>ident \<in> set ids. bpeval (s # r) (gf ident) = bpeval c (gf ident))"
proof -
  let ?fxs = "s # map (\<lambda>ident. accumulate_loop ident c 0 1) ids"
  obtain q where q: "length q = Suc (length ids)"
    "\<And>k. k < Suc (length ids) \<Longrightarrow> bpeval q (gf ((0 # ids) ! k)) = gf (?fxs ! k)"
    using full_lagrange_correct [of "0 # ids" ?fxs] assms(1,2) by auto
  obtain a r where ar: "q = a # r" using q(1) by (cases q) auto
  have "a = s" using q(2) [of 0] ar by (simp add: gf_hom)
  moreover have "bpeval q (gf (ids ! k)) = bpeval c (gf (ids ! k))" if "k < length ids" for k
    using q(2) [of "Suc k"] that by (simp add: gf_accumulate_loop gf_hom)
  ultimately show ?thesis using ar q(1) by (metis in_set_conv_nth length_Cons old.nat.inject)
qed

lemma constant_determines_rest:
  assumes "distinct ids" "0 \<notin> set ids" "length r = length ids" "length r' = length ids"
    and "length ids < 256"
    and "\<forall>ident \<in> set ids. bpeval (s # r) (gf ident) = bpeval (s # r') (gf ident)"
  shows "r = r'"
proof -
  have "bpeval (s # r) x = bpeval (s # r') x" for x
    by (rule bpeval_unique [where as = "map gf (0 # ids)"])
      (use assms in \<open>auto simp: distinct_map inj_on_def gf_hom\<close>)
  then have "s # r = s # r'"
    by (rule bpeval_coefficients_unique [rotated 2]) (use assms in auto)
  then show ?thesis by simp
qed

lemma share_of_eq_iff:
  "length coefs = length coefs' \<Longrightarrow>
   share_of coefs ident = share_of coefs' ident \<longleftrightarrow>
   (\<forall>i < length coefs. bpeval (coefs ! i) (gf ident) = bpeval (coefs' ! i) (gf ident))"
proof -
  assume len: "length coefs = length coefs'"
  let ?f = "\<lambda>c. accumulate_loop ident c 0 1"
  have "?f c = ?f c' \<longleftrightarrow> bpeval c (gf ident) = bpeval c' (gf ident)" for c c'
    by (subst gf_eq_iff [symmetric]) (simp add: gf_accumulate_loop gf_hom del: gf_eq_iff)
  moreover have "share_of coefs ident = share_of coefs' ident \<longleftrightarrow> map ?f coefs = map ?f coefs'"
    by (simp add: share_of_def)
  ultimately show ?thesis using len by (simp add: list_eq_iff_nth_eq)
qed

text \<open>The coefficients of a split, as a function of the random source.\<close>

definition split_coefs :: "(nat \<Rightarrow> nat \<Rightarrow> u8) \<Rightarrow> bytes \<Rightarrow> nat \<Rightarrow> bytes list" where
  "split_coefs rnd secret n = map (\<lambda>(i, c). c # map (rnd i) [0..<n]) (enumerate 0 secret)"

lemma split_coefs_simps [simp]:
  "length (split_coefs rnd secret n) = length secret"
  "i < length secret \<Longrightarrow> split_coefs rnd secret n ! i = secret ! i # map (rnd i) [0..<n]"
  by (simp_all add: split_coefs_def nth_enumerate_eq)

lemma get_share_split:
  assumes "2 \<le> threshold" "with_secret ovf rnd secret threshold = Ok sd" "ident \<noteq> 0"
  shows "get_share sd ident = Ok (share_of (split_coefs rnd secret (unat threshold - 1)) ident)"
  using assms by (auto simp: with_secret_Ok get_share_Ok split_coefs_def)

lemma shares_explained:
  assumes "distinct ids" "0 \<notin> set ids" "length secret' = length secret" "length ids = n"
  obtains rnd' where "\<And>ident. ident \<in> set ids \<Longrightarrow>
    share_of (split_coefs rnd' secret' n) ident = share_of (split_coefs rnd secret n) ident"
proof -
  have "\<exists>r. length r = n \<and> (\<forall>ident \<in> set ids. bpeval (secret' ! i # r) (gf ident) =
      bpeval (split_coefs rnd secret n ! i) (gf ident))" if "i < length secret" for i
    using interpolate_with_constant [OF assms(1,2), of "split_coefs rnd secret n ! i"] assms that
    by auto
  then obtain R where R: "\<And>i. i < length secret \<Longrightarrow> length (R i) = n"
    "\<And>i ident. i < length secret \<Longrightarrow> ident \<in> set ids \<Longrightarrow>
      bpeval (secret' ! i # R i) (gf ident) = bpeval (split_coefs rnd secret n ! i) (gf ident)"
    by metis
  have map_R: "map (\<lambda>j. R i ! j) [0..<n] = R i" if "i < length secret" for i
    using R(1) [OF that] by (metis map_nth)
  show thesis
  proof (rule that [of "\<lambda>i j. R i ! j"])
    fix ident assume "ident \<in> set ids"
    then show "share_of (split_coefs (\<lambda>i j. R i ! j) secret' n) ident =
        share_of (split_coefs rnd secret n) ident"
      using assms(3) R(2) map_R by (subst share_of_eq_iff) auto
  qed
qed

lemma shares_explained_unique:
  assumes "distinct ids" "0 \<notin> set ids" "length ids = n" "n < 256"
    and "\<And>ident. ident \<in> set ids \<Longrightarrow>
      share_of (split_coefs rnd1 secret n) ident = share_of (split_coefs rnd2 secret n) ident"
    and "i < length secret" "j < n"
  shows "rnd1 i j = rnd2 i j"
proof -
  have eq: "\<forall>ident \<in> set ids. bpeval (secret ! i # map (rnd1 i) [0..<n]) (gf ident) =
      bpeval (secret ! i # map (rnd2 i) [0..<n]) (gf ident)"
    using assms(5,6) by (auto simp: share_of_eq_iff)
  have "map (rnd1 i) [0..<n] = map (rnd2 i) [0..<n]"
    by (rule constant_determines_rest [OF assms(1,2) _ _ _ eq]) (use assms(3,4) in simp_all)
  then show ?thesis using assms(7) by simp
qed

text \<open>C14: perfect secrecy of the sharing. Take the shares with any \<open>threshold - 1\<close> distinct identifiers.
  For every other secret of the same length there is a choice of the random bytes that gives exactly
  these shares, and it is unique on the bytes the code draws: all secrets are equally consistent with
  the shares.\<close>

theorem shamir_perfect_secrecy:
  assumes "2 \<le> threshold" and "with_secret ovf rnd secret threshold = Ok sd"
    and "distinct ids" and "0 \<notin> set ids" and "length ids = unat threshold - 1"
    and "length secret' = length secret"
  shows "\<exists>rnd' sd'. with_secret ovf rnd' secret' threshold = Ok sd' \<and>
           (\<forall>ident \<in> set ids. get_share sd' ident = get_share sd ident) \<and>
           (\<forall>rnd'' sd''. with_secret ovf rnd'' secret' threshold = Ok sd'' \<longrightarrow>
              (\<forall>ident \<in> set ids. get_share sd'' ident = get_share sd ident) \<longrightarrow>
              (\<forall>i < length secret'. \<forall>j < unat threshold - 1. rnd'' i j = rnd' i j))"
proof -
  let ?n = "unat threshold - 1"
  obtain rnd' where rnd': "\<And>ident. ident \<in> set ids \<Longrightarrow>
      share_of (split_coefs rnd' secret' ?n) ident = share_of (split_coefs rnd secret ?n) ident"
    using shares_explained [OF assms(3,4,6,5)] by blast
  obtain sd' where sd': "with_secret ovf rnd' secret' threshold = Ok sd'"
    using with_secret_Ok [OF assms(1)] by blast
  have nz: "ident \<noteq> 0" if "ident \<in> set ids" for ident using that assms(4) by auto
  note shares = get_share_split [OF assms(1)]
  have "get_share sd' ident = get_share sd ident" if "ident \<in> set ids" for ident
    using shares [OF sd' nz] shares [OF assms(2) nz] rnd' that by simp
  moreover have "rnd'' i j = rnd' i j"
    if "with_secret ovf rnd'' secret' threshold = Ok sd''"
      "\<forall>ident \<in> set ids. get_share sd'' ident = get_share sd ident"
      "i < length secret'" "j < ?n" for rnd'' sd'' i j
  proof (rule shares_explained_unique [OF assms(3,4,5)])
    show "?n < 256" using unat_u8_less [of threshold] by simp
    show "share_of (split_coefs rnd'' secret' ?n) ident = share_of (split_coefs rnd' secret' ?n) ident"
      if "ident \<in> set ids" for ident
      using shares [OF \<open>with_secret ovf rnd'' secret' threshold = Ok sd''\<close> nz]
        shares [OF assms(2) nz] rnd' \<open>\<forall>ident \<in> set ids. get_share sd'' ident = get_share sd ident\<close> that
      by (metis res.inject(1))
  qed (use that in auto)
  ultimately show ?thesis using sd' by blast
qed

theorem shamir_perfect_secrecy_witness:
  "\<exists>rnd' sd'. with_secret True rnd' [0x99] 2 = Ok sd' \<and>
     get_share sd' 5 = get_share \<lparr>coefficients = [[0x48, 7]]\<rparr> 5"
proof -
  have "with_secret True (\<lambda>i j. 7) [0x48] 2 = Ok \<lparr>coefficients = [[0x48, 7]]\<rparr>"
    by (simp add: with_secret_def u8_sub_def)
  from shamir_perfect_secrecy [OF _ this, of "[5]" "[0x99]"] show ?thesis by fastforce
qed

text \<open>
  What the recovery refuses. Fewer than two shares, an empty share, two shares with the same
  identifier or two shares of different lengths give no secret.\<close>

theorem recover_secret_refuses:
  assumes "length shares < 2 \<or> [] \<in> set shares \<or> \<not> distinct (map last shares) \<or>
           (\<exists>a \<in> set shares. \<exists>b \<in> set shares. length a \<noteq> length b)"
  shows "shamir_combine shares = None"
proof -
  have collect: "collect_ids len0 ss xs = Some ys \<Longrightarrow>
      [] \<notin> set ss \<and> (distinct xs \<longrightarrow> distinct (xs @ map last ss)) \<and> (\<forall>a \<in> set ss. length a = len0)"
    for len0 ss xs ys
    by (induction len0 ss xs rule: collect_ids.induct) (auto split: if_splits)
  show ?thesis
    using assms collect [of "length (shares ! 0)" shares "[]"]
    by (cases "collect_ids (length (shares ! 0)) shares []")
      (auto simp: shamir_combine_def recover_secret_def)
qed

theorem recover_secret_refuses_witness:
  "shamir_combine [[1, 2, 3], [9, 9, 3]] = None"
  by (rule recover_secret_refuses) simp

text \<open>
  The identifier of the last share is computed in a byte. Asking for 255 shares overflows it:
  with overflow checks the split panics, without them it returns no share at all.\<close>

theorem shamir_split_255_shares:
  assumes "2 \<le> threshold"
  shows "shamir_split True rnd secret 255 threshold = Panic \<and>
         shamir_split False rnd secret 255 threshold = Ok []"
proof -
  have "\<not> (255 :: u8) < threshold"
    using unat_u8_less [of threshold] by (simp add: word_less_nat_alt)
  moreover have "\<not> threshold < 2" using assms by simp
  ultimately show ?thesis
    using with_secret_Ok [OF assms] by (simp add: shamir_split_def u8_add_def)
qed

theorem shamir_split_255_shares_witness:
  "shamir_split True (\<lambda>i j. 7) [1, 2] 255 3 = Panic \<and> shamir_split False (\<lambda>i j. 7) [1, 2] 255 3 = Ok []"
  by (simp add: shamir_split_255_shares)

end
