(* ===== verification/Core.thy ===== *)
theory Core
  imports Mount Shamir
begin

text \<open>
  The core, \<open>src/core.rs\<close>, with the module manager \<open>src/module_manager.rs\<close> and the request handlers
  \<open>src/handler.rs\<close>: initialisation, unsealing by shares, sealing, and the phases of a request.

  A vault is the core of the mount operations over an AES-GCM barrier, whose backend is also the core's
  \<open>physical\<close> backend, with the seal flag, the shares presented so far and the modules. A module is the record of
  its operations on the core. The JSON of the seal configuration and the random bytes are arguments.

  Shown: shares are collected until the threshold and not twice, the shares that an initialisation returns
  unseal the vault, a configuration that the validation accepts makes the vault unusable, and a sealed vault
  handles no request.
\<close>

section \<open>Modules\<close>

record 's module =
  mo_name :: string
  mo_setup :: "('s core, unit) op"
  mo_init :: "('s core, unit) op"
  mo_cleanup :: "('s core, unit) op"
  mo_root_token :: "('s core, string) op option"

definition get_module :: "'s module list \<Rightarrow> string \<Rightarrow> 's module option" where
  "get_module ms name = find (\<lambda>m. mo_name m = name) ms"

definition add_module :: "'s module \<Rightarrow> ('s module list, unit) op" where
  "add_module m ms =
     (if get_module ms (mo_name m) \<noteq> None then (Err ErrModuleConflict, ms) else (Ok (), ms @ [m]))"

definition remove_module :: "string \<Rightarrow> ('s module list, unit) op" where
  "remove_module name ms = (Ok (), filter (\<lambda>m. mo_name m \<noteq> name) ms)"

definition modules_setup :: "'s module list \<Rightarrow> ('s core, unit) op" where
  "modules_setup ms = op_iter mo_setup ms"

definition modules_init :: "'s module list \<Rightarrow> ('s core, unit) op" where
  "modules_init ms = op_iter mo_init ms"

definition modules_cleanup :: "'s module list \<Rightarrow> ('s core, unit) op" where
  "modules_cleanup ms = op_iter mo_cleanup ms"

section \<open>The vault\<close>

record seal_config =
  secret_shares :: u8
  secret_threshold :: u8

record init_result =
  ir_secret_shares :: "bytes list"
  ir_root_token :: string

record 'b vault =
  va_core :: "'b barrier core"
  va_sealed :: bool
  va_unseal_key_shares :: "bytes list"
  va_modules :: "'b barrier module list"

text \<open>What the operations take from outside: the physical backend, OpenSSL, JSON and the overflow profile.\<close>

record 'b vault_env =
  ve_physical :: "'b backend_ops"
  ve_crypto :: crypto
  ve_mount :: mount_env
  ve_ancestor :: ancestor
  ve_ser_config :: "seal_config \<Rightarrow> bytes"
  ve_de_config :: "bytes \<Rightarrow> seal_config option"
  ve_shamir_rnd :: "nat \<Rightarrow> nat \<Rightarrow> u8"
  ve_overflow :: bool

definition SEAL_CONFIG_PATH :: string where "SEAL_CONFIG_PATH = ''core/seal-config''"

definition SHAMIR_OVERHEAD :: nat where "SHAMIR_OVERHEAD = 1"

definition validate :: "seal_config \<Rightarrow> unit res" where
  "validate cfg =
     (if secret_threshold cfg > secret_shares cfg then Err ErrCoreSealConfigInvalid else Ok ())"

definition the_barrier :: "'b vault \<Rightarrow> 'b barrier" where
  "the_barrier v = co_storage (va_core v)"

definition on_core :: "('b barrier core, 'a) op \<Rightarrow> ('b vault, 'a) op" where
  "on_core f v = (case f (va_core v) of (r, c) \<Rightarrow> (r, v\<lparr>va_core := c\<rparr>))"

definition on_barrier :: "('b barrier, 'a) op \<Rightarrow> ('b vault, 'a) op" where
  "on_barrier f v =
     (case f (the_barrier v) of (r, b) \<Rightarrow> (r, v\<lparr>va_core := (va_core v)\<lparr>co_storage := b\<rparr>\<rparr>))"

definition env_storage :: "'b vault_env \<Rightarrow> 'b barrier storage_ops" where
  "env_storage E = barrier_storage (ve_crypto E) (ve_physical E)"

section \<open>Set-up and tear-down\<close>

definition load_mounts :: "'b vault_env \<Rightarrow> ('b barrier core, unit) op" where
  "load_mounts E c =
     (case load_or_default (ve_mount E) (env_storage E) (Some (co_hmac_key c)) (co_hmac_level c)
             ((co_heap c, co_mounts c), co_storage c) of
        (r, ((heap, mounts), s)) \<Rightarrow> (r, c\<lparr>co_heap := heap, co_mounts := mounts, co_storage := s\<rparr>))"

definition post_unseal :: "'b vault_env \<Rightarrow> ('b vault, unit) op" where
  "post_unseal E v =
     op_bind (on_core (modules_setup (va_modules v))) (\<lambda>_ v.
       case derive_hmac_key (ve_crypto E) (the_barrier v) of
         Err e \<Rightarrow> (Err e, v)
       | Panic \<Rightarrow> (Panic, v)
       | Ok key \<Rightarrow>
           op_bind (on_core (load_mounts E)) (\<lambda>_.
           op_bind (on_core (setup_mounts (ve_ancestor E))) (\<lambda>_ v.
             on_core (modules_init (va_modules v)) v))
           (v\<lparr>va_core := (va_core v)\<lparr>co_hmac_key := key\<rparr>\<rparr>)) v"

definition pre_seal :: "('b vault, unit) op" where
  "pre_seal v =
     op_bind (on_core (modules_cleanup (va_modules v))) (\<lambda>_. on_core unload_mounts) v"

section \<open>Initialisation, unseal, seal\<close>

definition core_inited :: "'b vault_env \<Rightarrow> ('b vault, bool) op" where
  "core_inited E = on_barrier (barrier_inited (ve_physical E))"

definition root_token_of :: "('b vault, string) op" where
  "root_token_of v =
     (case get_module (va_modules v) ''auth'' of
        None \<Rightarrow> (Ok [], v)
      | Some m \<Rightarrow> (case mo_root_token m of None \<Rightarrow> (Ok [], v) | Some f \<Rightarrow> on_core f v))"

text \<open>The part of \<open>init\<close> after the unseal, where the barrier is sealed again on every way out.\<close>

definition init_setup :: "'b vault_env \<Rightarrow> bytes list \<Rightarrow> ('b vault, init_result) op" where
  "init_setup E shares v =
     (case op_bind (post_unseal E) (\<lambda>_. op_bind root_token_of (\<lambda>tok.
             op_bind pre_seal (\<lambda>_. op_return \<lparr>ir_secret_shares = shares, ir_root_token = tok\<rparr>))) v of
        (r, v') \<Rightarrow> (r, snd (on_barrier barrier_seal v')))"

definition make_shares :: "'b vault_env \<Rightarrow> seal_config \<Rightarrow> bytes \<Rightarrow> bytes list res" where
  "make_shares E cfg master_key =
     (if secret_shares cfg = 1 then Ok [master_key]
      else shamir_split (ve_overflow E) (ve_shamir_rnd E) master_key (secret_shares cfg) (secret_threshold cfg))"

definition core_init :: "'b vault_env \<Rightarrow> seal_config \<Rightarrow> ('b vault, init_result) op" where
  "core_init E cfg =
     op_bind (core_inited E) (\<lambda>inited.
       if inited then op_fail ErrBarrierAlreadyInit
       else op_bind (op_res (validate cfg)) (\<lambda>_.
         op_bind (on_barrier (on_backend (backend_put (ve_physical E)
           \<lparr>be_key = SEAL_CONFIG_PATH, be_value = ve_ser_config E cfg\<rparr>))) (\<lambda>_.
         op_bind (on_barrier (generate_key (ve_crypto E))) (\<lambda>master_key.
         op_bind (on_barrier (barrier_init (ve_crypto E) (ve_physical E) master_key)) (\<lambda>_.
         op_bind (op_res (make_shares E cfg master_key)) (\<lambda>shares.
         op_bind (on_barrier (barrier_unseal (ve_crypto E) (ve_physical E) master_key)) (\<lambda>_.
           init_setup E shares)))))))"

definition core_seal_config :: "'b vault_env \<Rightarrow> ('b vault, seal_config) op" where
  "core_seal_config E =
     op_bind (on_barrier (on_backend (backend_get (ve_physical E) SEAL_CONFIG_PATH))) (\<lambda>pe.
       case pe of
         None \<Rightarrow> op_fail ErrCoreSealConfigNotFound
       | Some e \<Rightarrow>
           (case ve_de_config E (be_value e) of
              None \<Rightarrow> op_fail (External SerdeJson ''invalid seal config'')
            | Some cfg \<Rightarrow> op_bind (op_res (validate cfg)) (\<lambda>_. op_return cfg)))"

definition unseal_progress :: "'b vault \<Rightarrow> nat" where
  "unseal_progress v = length (va_unseal_key_shares v)"

text \<open>The master key from the shares presented; the shares are forgotten whatever the outcome.\<close>

definition take_master_key :: "seal_config \<Rightarrow> ('b vault, bytes) op" where
  "take_master_key cfg v =
     (let shares = va_unseal_key_shares v; v' = v\<lparr>va_unseal_key_shares := []\<rparr> in
      if secret_threshold cfg = 1 then (Ok (shares ! 0), v')
      else case shamir_combine shares of
          Some k \<Rightarrow> (Ok k, v') | None \<Rightarrow> (Err ErrBarrierKeyInvalid, v'))"

definition core_unseal :: "'b vault_env \<Rightarrow> bytes \<Rightarrow> ('b vault, bool) op" where
  "core_unseal E key =
     op_bind (core_inited E) (\<lambda>inited v.
       if \<not> inited then (Err ErrBarrierNotInit, v)
       else if \<not> b_sealed (the_barrier v) then (Err ErrBarrierUnsealed, v)
       else if length key < fst key_length_range \<or> length key > snd key_length_range + SHAMIR_OVERHEAD
       then (Err ErrBarrierKeyInvalid, v)
       else op_bind (core_seal_config E) (\<lambda>cfg v.
         if key \<in> set (va_unseal_key_shares v) then (Ok False, v)
         else
           let v = v\<lparr>va_unseal_key_shares := va_unseal_key_shares v @ [key]\<rparr> in
           if length (va_unseal_key_shares v) < unat (secret_threshold cfg) then (Ok False, v)
           else op_bind (take_master_key cfg) (\<lambda>master_key.
                op_bind (on_barrier (barrier_unseal (ve_crypto E) (ve_physical E) master_key)) (\<lambda>_.
                op_bind (post_unseal E) (\<lambda>_ v. (Ok True, v\<lparr>va_sealed := False\<rparr>)))) v) v)"

definition core_seal :: "'b vault_env \<Rightarrow> ('b vault, unit) op" where
  "core_seal E =
     op_bind (core_inited E) (\<lambda>inited v.
       if \<not> inited then (Err ErrBarrierNotInit, v)
       else if b_sealed (the_barrier v) then (Err ErrBarrierSealed, v)
       else op_bind pre_seal (\<lambda>_ v. on_barrier barrier_seal (v\<lparr>va_sealed := True\<rparr>)) v)"

section \<open>Logical backends and handlers\<close>

definition add_logical_backend :: "string \<Rightarrow> 's backend_obj res \<Rightarrow> ('s core, unit) op" where
  "add_logical_backend ty b c =
     (if map_of (co_logical_backends c) ty \<noteq> None then (Err ErrCoreLogicalBackendExist, c)
      else (Ok (), c\<lparr>co_logical_backends := AList.update ty b (co_logical_backends c)\<rparr>))"

definition delete_logical_backend :: "string \<Rightarrow> ('s core, unit) op" where
  "delete_logical_backend ty c =
     (Ok (), c\<lparr>co_logical_backends := AList.delete ty (co_logical_backends c)\<rparr>)"

definition handler_name :: "'s handler_ref \<Rightarrow> string" where
  "handler_name h = (case h of CoreRouter \<Rightarrow> ''core_router'' | Custom o1 \<Rightarrow> h_name o1)"

definition add_handler :: "'s handler_ref \<Rightarrow> ('s core, unit) op" where
  "add_handler h c =
     (if list_ex (\<lambda>x. handler_name x = handler_name h) (co_handlers c) then (Err ErrCoreHandlerExist, c)
      else (Ok (), c\<lparr>co_handlers := co_handlers c @ [h]\<rparr>))"

definition delete_handler :: "'s handler_ref \<Rightarrow> ('s core, unit) op" where
  "delete_handler h c =
     (Ok (), c\<lparr>co_handlers := filter (\<lambda>x. handler_name x \<noteq> handler_name h) (co_handlers c)\<rparr>)"

text \<open>The default methods of the trait fail with \<open>ErrHandlerDefault\<close>; the router has a \<open>route\<close> of its own.\<close>

definition pre_route :: "'s handler_ref \<Rightarrow> 's handler" where
  "pre_route h = (case h of CoreRouter \<Rightarrow> op_fail ErrHandlerDefault | Custom o1 \<Rightarrow> h_pre_route o1)"

definition route :: "ancestor \<Rightarrow> 's router \<Rightarrow> 's handler_ref \<Rightarrow> 's handler" where
  "route anc root h = (case h of CoreRouter \<Rightarrow> router_handle_request anc root | Custom o1 \<Rightarrow> h_route o1)"

definition post_route :: "'s handler_ref \<Rightarrow> response option \<Rightarrow> ('s \<times> request, response option) op" where
  "post_route h resp = (case h of CoreRouter \<Rightarrow> op_fail ErrHandlerDefault | Custom o1 \<Rightarrow> h_post_route o1 resp)"

definition log_phase :: "'s handler_ref \<Rightarrow> response option \<Rightarrow> ('s \<times> request, unit) op" where
  "log_phase h resp = (case h of CoreRouter \<Rightarrow> op_fail ErrHandlerDefault | Custom o1 \<Rightarrow> h_log o1 resp)"

section \<open>The phases of a request\<close>

text \<open>Handlers in order, until one answers or fails; the default error means that a handler has no opinion.\<close>

fun first_answer :: "'s handler list \<Rightarrow> 's handler" where
  "first_answer [] st = (Ok None, st)"
| "first_answer (h # hs) st =
     (case h st of
        (Ok (Some r), st') \<Rightarrow> (Ok (Some r), st')
      | (Ok None, st') \<Rightarrow> first_answer hs st'
      | (Err e, st') \<Rightarrow> if \<not> rv_error_eq e ErrHandlerDefault then (Err e, st') else first_answer hs st'
      | (Panic, st') \<Rightarrow> (Panic, st'))"

text \<open>
  Handlers in order, each with the response as the one before left it. A handler that fails with the
  default error has not touched the response.
\<close>

fun each_post_route :: "'s handler_ref list \<Rightarrow> response option \<Rightarrow> ('s \<times> request, response option) op" where
  "each_post_route [] resp st = (Ok resp, st)"
| "each_post_route (h # hs) resp st =
     (case post_route h resp st of
        (Ok resp', st') \<Rightarrow> each_post_route hs resp' st'
      | (Err e, st') \<Rightarrow> if \<not> rv_error_eq e ErrHandlerDefault then (Err e, st') else each_post_route hs resp st'
      | (Panic, st') \<Rightarrow> (Panic, st'))"

fun each_log :: "'s handler_ref list \<Rightarrow> response option \<Rightarrow> ('s \<times> request, unit) op" where
  "each_log [] resp st = (Ok (), st)"
| "each_log (h # hs) resp st =
     (case log_phase h resp st of
        (Ok _, st') \<Rightarrow> each_log hs resp st'
      | (Err e, st') \<Rightarrow> if \<not> rv_error_eq e ErrHandlerDefault then (Err e, st') else each_log hs resp st'
      | (Panic, st') \<Rightarrow> (Panic, st'))"

definition enter_phase :: "handle_phase \<Rightarrow> 's \<times> request \<Rightarrow> 's \<times> request" where
  "enter_phase ph st = (fst st, (snd st)\<lparr>rq_handle_phase := ph\<rparr>)"

definition handle_pre_route_phase :: "'s handler_ref list \<Rightarrow> 's handler" where
  "handle_pre_route_phase hs st = first_answer (map pre_route hs) (enter_phase PreRoute st)"

text \<open>The handler bound to the request, if any, is looked up by the argument \<open>bound\<close>.\<close>

definition handle_route_phase ::
  "(string \<Rightarrow> 's handler_ref) \<Rightarrow> ancestor \<Rightarrow> 's router \<Rightarrow> 's handler_ref list \<Rightarrow> 's handler" where
  "handle_route_phase bound anc root hs st0 =
     (let st = enter_phase Route st0 in
      case rq_handler (snd st) of
        None \<Rightarrow> first_answer (map (route anc root) hs) st
      | Some n \<Rightarrow>
          (case route anc root (bound n) st of
             (Ok r, st') \<Rightarrow> (Ok r, st')
           | (Err e, st') \<Rightarrow>
               if \<not> rv_error_eq e ErrHandlerDefault then (Err e, st')
               else first_answer (map (route anc root) hs) st'
           | (Panic, st') \<Rightarrow> (Panic, st')))"

definition handle_post_route_phase ::
  "(string \<Rightarrow> 's handler_ref) \<Rightarrow> 's handler_ref list \<Rightarrow> response option \<Rightarrow> ('s \<times> request, response option) op" where
  "handle_post_route_phase bound hs resp st0 =
     (let st = enter_phase PostRoute st0 in
      case rq_handler (snd st) of
        None \<Rightarrow> each_post_route hs resp st
      | Some n \<Rightarrow>
          (case post_route (bound n) resp st of
             (Ok r, st') \<Rightarrow> (Ok r, st')
           | (Err e, st') \<Rightarrow>
               if \<not> rv_error_eq e ErrHandlerDefault then (Err e, st') else each_post_route hs resp st'
           | (Panic, st') \<Rightarrow> (Panic, st')))"

definition handle_log_phase ::
  "(string \<Rightarrow> 's handler_ref) \<Rightarrow> 's handler_ref list \<Rightarrow> response option \<Rightarrow> ('s \<times> request, unit) op" where
  "handle_log_phase bound hs resp st0 =
     (let st = enter_phase LogPhase st0 in
      case rq_handler (snd st) of
        None \<Rightarrow> each_log hs resp st
      | Some n \<Rightarrow>
          (case log_phase (bound n) resp st of
             (Ok _, st') \<Rightarrow> (Ok (), st')
           | (Err e, st') \<Rightarrow>
               if \<not> rv_error_eq e ErrHandlerDefault then (Err e, st') else each_log hs resp st'
           | (Panic, st') \<Rightarrow> (Panic, st')))"

definition core_handle_request ::
  "(string \<Rightarrow> 's handler_ref) \<Rightarrow> ancestor \<Rightarrow> bool \<Rightarrow> 's router \<Rightarrow> 's handler_ref list \<Rightarrow> 's handler" where
  "core_handle_request bound anc sealed root hs =
     (if sealed then op_fail ErrBarrierSealed
      else op_bind (handle_pre_route_phase hs) (\<lambda>resp.
        op_bind
          (if resp \<noteq> None then op_return resp
           else op_bind (handle_route_phase bound anc root hs) (handle_post_route_phase bound hs))
          (\<lambda>resp. op_bind (handle_log_phase bound hs resp) (\<lambda>_. op_return resp))))"


section \<open>Reading the physical backend\<close>

text \<open>
  A vault that is initialised and sealed, with its stored configuration, over a backend with the given
  contents and invariant.
\<close>

definition awaits_shares ::
  "('b \<Rightarrow> string \<Rightarrow> bytes option) \<Rightarrow> ('b \<Rightarrow> bool) \<Rightarrow> 'b vault_env \<Rightarrow> seal_config \<Rightarrow> 'b vault \<Rightarrow> bool" where
  "awaits_shares contents invar E cfg v \<longleftrightarrow>
     invar (b_backend (the_barrier v)) \<and> b_sealed (the_barrier v) \<and>
     contents (b_backend (the_barrier v)) BARRIER_INIT_PATH \<noteq> None \<and>
     (case contents (b_backend (the_barrier v)) SEAL_CONFIG_PATH of
        None \<Rightarrow> False | Some x \<Rightarrow> ve_de_config E x = Some cfg) \<and>
     validate cfg = Ok ()"

lemma awaits_shares_upd [simp]:
  "awaits_shares contents invar E cfg (v\<lparr>va_unseal_key_shares := ks\<rparr>) = awaits_shares contents invar E cfg v"
  by (simp add: awaits_shares_def the_barrier_def)

text \<open>The shares that are presented one after the other, whatever the answers.\<close>

definition present :: "'b vault_env \<Rightarrow> bytes list \<Rightarrow> 'b vault \<Rightarrow> 'b vault" where
  "present E keys v = fold (\<lambda>key v. snd (core_unseal E key v)) keys v"

lemma the_barrier_upd [simp]: "the_barrier (v\<lparr>va_unseal_key_shares := ks\<rparr>) = the_barrier v"
  by (simp add: the_barrier_def)

lemma on_barrier_same [simp]: "f (the_barrier v) = (r, the_barrier v) \<Longrightarrow> on_barrier f v = (r, v)"
  by (simp add: on_barrier_def the_barrier_def)

lemma on_barrier_to:
  "f (the_barrier v) = (r, b) \<Longrightarrow> on_barrier f v = (r, v\<lparr>va_core := (va_core v)\<lparr>co_storage := b\<rparr>\<rparr>)"
  by (simp add: on_barrier_def)

definition share_length_ok :: "bytes \<Rightarrow> bool" where
  "share_length_ok key \<longleftrightarrow> 16 \<le> length key \<and> length key \<le> 33"

lemma make_shares_length:
  assumes "make_shares E cfg master = Ok out" "length master = 32" "key \<in> set out"
  shows "share_length_ok key"
proof (cases "secret_shares cfg = 1")
  case False
  then obtain coefs ids where "out = map (share_of coefs) ids" "map (\<lambda>c. c ! 0) coefs = master"
    using shamir_split_OkD assms(1) by (force simp: make_shares_def)
  then show ?thesis using assms(2,3) by (auto simp: share_length_ok_def)
qed (use assms in \<open>auto simp: make_shares_def share_length_ok_def\<close>)

text \<open>As many distinct shares as the threshold asks for give the master key back.\<close>

lemma take_master_key_shares:
  assumes "make_shares E cfg master = Ok out" "validate cfg = Ok ()" "secret_threshold cfg \<noteq> 0"
    and "set (va_unseal_key_shares v) \<subseteq> set out" "distinct (va_unseal_key_shares v)"
    and "length (va_unseal_key_shares v) = unat (secret_threshold cfg)"
  shows "take_master_key cfg v = (Ok master, v\<lparr>va_unseal_key_shares := []\<rparr>)"
proof (cases "secret_shares cfg = 1")
  case True
  then have "secret_threshold cfg \<le> 1" using assms(2) by (auto simp: validate_def split: if_splits)
  then have t: "secret_threshold cfg = 1" using assms(3) by (metis word_le_less_eq word_less_1)
  then obtain k where "va_unseal_key_shares v = [k]" using assms(6) by (auto simp: length_Suc_conv)
  then show ?thesis using t True assms(1,4) by (auto simp: make_shares_def take_master_key_def)
next
  case False
  then have s: "shamir_split (ve_overflow E) (ve_shamir_rnd E) master (secret_shares cfg)
      (secret_threshold cfg) = Ok out"
    using assms(1) by (simp add: make_shares_def)
  then have "2 \<le> unat (secret_threshold cfg)" using shamir_split_OkD by blast
  then have "secret_threshold cfg \<noteq> 1" by auto
  then show ?thesis
    using combine_of_split [OF s assms(4,5)] assms(6) by (simp add: take_master_key_def Let_def)
qed

context physical_backend
begin

lemma physical_get:
  assumes "invar (b_backend (the_barrier v))" "valid_key k"
  shows "on_barrier (on_backend (backend_get ops k)) v =
    (Ok (map_option (\<lambda>x. \<lparr>be_key = k, be_value = x\<rparr>) (contents (b_backend (the_barrier v)) k)), v)"
  using assms by (simp add: on_backend_def get_contents)

lemma core_inited_eq:
  assumes "invar (b_backend (the_barrier v))" "valid_key BARRIER_INIT_PATH" "ve_physical E = ops"
  shows "core_inited E v = (Ok (contents (b_backend (the_barrier v)) BARRIER_INIT_PATH \<noteq> None), v)"
  using inited_iff [OF assms(1,2)] assms(3) by (simp add: core_inited_def)

lemma seal_config_eq:
  assumes "invar (b_backend (the_barrier v))" "valid_key SEAL_CONFIG_PATH" "ve_physical E = ops"
    and "contents (b_backend (the_barrier v)) SEAL_CONFIG_PATH = Some x" "ve_de_config E x = Some cfg"
    and "validate cfg = Ok ()"
  shows "core_seal_config E v = (Ok cfg, v)"
  using physical_get [OF assms(1,2)] assms(3-6) by (simp add: core_seal_config_def op_bind_def)

lemma core_unseal_eq:
  assumes ops: "ve_physical E = ops" and valid: "valid_key BARRIER_INIT_PATH" "valid_key SEAL_CONFIG_PATH"
    and aw: "awaits_shares contents invar E cfg v" and "share_length_ok key"
  shows "core_unseal E key v =
    (if key \<in> set (va_unseal_key_shares v) then (Ok False, v)
     else
       let v = v\<lparr>va_unseal_key_shares := va_unseal_key_shares v @ [key]\<rparr> in
       if length (va_unseal_key_shares v) < unat (secret_threshold cfg) then (Ok False, v)
       else op_bind (take_master_key cfg) (\<lambda>master_key.
            op_bind (on_barrier (barrier_unseal (ve_crypto E) (ve_physical E) master_key)) (\<lambda>_.
            op_bind (post_unseal E) (\<lambda>_ v. (Ok True, v\<lparr>va_sealed := False\<rparr>)))) v)"
proof -
  have "core_inited E v = (Ok True, v)" "core_seal_config E v = (Ok cfg, v)" "b_sealed (the_barrier v)"
    using aw core_inited_eq [of v E, OF _ valid(1) ops] seal_config_eq [of v E _ cfg, OF _ valid(2) ops]
    by (auto simp: awaits_shares_def split: option.splits)
  then show ?thesis
    using assms(5)
    by (simp add: core_unseal_def key_length_range_def AES_BLOCK_SIZE_def SHAMIR_OVERHEAD_def share_length_ok_def)
qed

lemma present_collects:
  assumes ops: "ve_physical E = ops" and valid: "valid_key BARRIER_INIT_PATH" "valid_key SEAL_CONFIG_PATH"
    and aw: "awaits_shares contents invar E cfg v" and "list_all share_length_ok keys"
    and "distinct (va_unseal_key_shares v)"
    and "card (set (va_unseal_key_shares v) \<union> set keys) < unat (secret_threshold cfg)"
  shows "\<exists>ks. present E keys v = v\<lparr>va_unseal_key_shares := ks\<rparr> \<and> distinct ks \<and>
    set ks = set (va_unseal_key_shares v) \<union> set keys"
  using assms(4-)
proof (induction keys arbitrary: v)
  case Nil
  then show ?case by (intro exI [of _ "va_unseal_key_shares v"]) (simp add: present_def)
next
  case (Cons key keys)
  let ?old = "va_unseal_key_shares v"
  let ?ks = "if key \<in> set ?old then ?old else ?old @ [key]"
  have "card (set (?old @ [key])) \<le> card (set ?old \<union> set (key # keys))" by (rule card_mono) auto
  then have "key \<notin> set ?old \<Longrightarrow> Suc (length ?old) < unat (secret_threshold cfg)"
    using Cons.prems(3,4) distinct_card [of ?old] by auto
  then have step: "core_unseal E key v = (Ok False, v\<lparr>va_unseal_key_shares := ?ks\<rparr>)"
    using core_unseal_eq [OF ops valid Cons.prems(1), of key] Cons.prems(2) by simp
  have "\<exists>ks. present E keys (v\<lparr>va_unseal_key_shares := ?ks\<rparr>) =
      (v\<lparr>va_unseal_key_shares := ?ks\<rparr>)\<lparr>va_unseal_key_shares := ks\<rparr> \<and> distinct ks \<and>
      set ks = set ?ks \<union> set keys"
    using Cons.IH [of "v\<lparr>va_unseal_key_shares := ?ks\<rparr>"] Cons.prems
    by (auto simp: insert_absorb)
  moreover have "present E (key # keys) v = present E keys (v\<lparr>va_unseal_key_shares := ?ks\<rparr>)"
    by (simp only: present_def fold_simps comp_def step snd_conv)
  ultimately show ?case by (auto simp: insert_absorb)
qed

text \<open>The share that completes a threshold of shares of the master key unseals the barrier.\<close>

lemma unseal_completes:
  assumes ops: "ve_physical E = ops" and valid: "valid_key BARRIER_INIT_PATH" "valid_key SEAL_CONFIG_PATH"
    and aw: "awaits_shares contents invar E cfg v" and shares: "make_shares E cfg master = Ok out"
    and master: "length master = 32" and t: "secret_threshold cfg \<noteq> 0"
    and prior: "distinct (va_unseal_key_shares v @ [key])" "set (va_unseal_key_shares v @ [key]) \<subseteq> set out"
      "Suc (unseal_progress v) = unat (secret_threshold cfg)"
    and c: "contents (b_backend (the_barrier v)) BARRIER_INIT_PATH = Some c"
    and dec: "barrier_decrypt (ve_crypto E) (Some master) BARRIER_INIT_PATH c = Ok x" "de_init (ve_crypto E) x = Some i"
  shows "core_unseal E key v =
    op_bind (post_unseal E) (\<lambda>_ v. (Ok True, v\<lparr>va_sealed := False\<rparr>))
      (v\<lparr>va_unseal_key_shares := [],
         va_core := (va_core v)\<lparr>co_storage := (the_barrier v)\<lparr>b_key := Some (bi_key i), b_sealed := False\<rparr>\<rparr>\<rparr>)"
proof -
  let ?v = "v\<lparr>va_unseal_key_shares := va_unseal_key_shares v @ [key]\<rparr>"
  have ok: "share_length_ok key" using make_shares_length [OF shares master] prior(2) by simp
  have v: "validate cfg = Ok ()" "b_sealed (the_barrier v)" "invar (b_backend (the_barrier v))"
    using aw by (simp_all add: awaits_shares_def)
  have "take_master_key cfg ?v = (Ok master, v\<lparr>va_unseal_key_shares := []\<rparr>)"
    using take_master_key_shares [OF shares v(1) t, of ?v] prior by (simp add: unseal_progress_def)
  moreover have "barrier_unseal (ve_crypto E) ops master (the_barrier v) =
      (Ok (), (the_barrier v)\<lparr>b_key := Some (bi_key i), b_sealed := False\<rparr>)"
    using unseal_effect [OF v(2,3) valid(1) c] dec by simp
  ultimately show ?thesis
    using core_unseal_eq [OF ops valid aw ok] prior(1,3)
    by (simp add: ops on_barrier_def unseal_progress_def)
qed

text \<open>The part of \<open>init\<close> before the shares are made.\<close>

lemma init_until_shares:
  assumes ops: "ve_physical E = ops" and valid: "valid_key BARRIER_INIT_PATH" "valid_key SEAL_CONFIG_PATH"
    and I: "invar (b_backend (the_barrier v))"
    and fresh: "contents (b_backend (the_barrier v)) BARRIER_INIT_PATH = None" and "validate cfg = Ok ()"
    and ver: "b_version (the_barrier v) = 1 \<or> b_version (the_barrier v) = 2"
    and m: "master = rng_fill (ve_crypto E) (b_draws (the_barrier v)) 32" "aead_ok (ve_crypto E) master"
  shows "\<exists>v' c. core_init E cfg v =
      op_bind (op_res (make_shares E cfg master)) (\<lambda>shares.
        op_bind (on_barrier (barrier_unseal (ve_crypto E) ops master)) (\<lambda>_. init_setup E shares)) v' \<and>
    invar (b_backend (the_barrier v')) \<and> b_sealed (the_barrier v') = b_sealed (the_barrier v) \<and>
    va_unseal_key_shares v' = va_unseal_key_shares v \<and>
    contents (b_backend (the_barrier v')) BARRIER_INIT_PATH = Some c \<and>
    contents (b_backend (the_barrier v')) SEAL_CONFIG_PATH = Some (ve_ser_config E cfg) \<and>
    barrier_decrypt (ve_crypto E) (Some master) BARRIER_INIT_PATH c =
      Ok (ser_init (ve_crypto E) \<lparr>bi_version = 1, bi_key = rng_fill (ve_crypto E) (Suc (b_draws (the_barrier v))) 32\<rparr>)"
proof -
  let ?C = "ve_crypto E" and ?b = "the_barrier v"
  let ?to = "\<lambda>b. v\<lparr>va_core := (va_core v)\<lparr>co_storage := b\<rparr>\<rparr>"
  have ne: "BARRIER_INIT_PATH \<noteq> SEAL_CONFIG_PATH" by (simp add: BARRIER_INIT_PATH_def SEAL_CONFIG_PATH_def)
  obtain b1 where put: "backend_put ops \<lparr>be_key = SEAL_CONFIG_PATH, be_value = ve_ser_config E cfg\<rparr>
      (b_backend ?b) = (Ok (), b1)" and I1: "invar b1"
    and upd1: "\<And>k. valid_key k \<Longrightarrow> contents b1 k = ((contents (b_backend ?b))(SEAL_CONFIG_PATH \<mapsto> ve_ser_config E cfg)) k"
    using put_contents [OF I valid(2)] by meson
  define s where "s = ?b\<lparr>b_backend := b1, b_draws := Suc (b_draws ?b)\<rparr>"
  have len: "length master = 32" using m rng_length by blast
  have "invar (b_backend s)" "contents (b_backend s) BARRIER_INIT_PATH = None"
    "b_version s = 1 \<or> b_version s = 2"
    using I1 upd1 [OF valid(1)] fresh ne ver by (auto simp: s_def)
  then obtain s' c where init: "barrier_init ?C ops master s = (Ok (), s')"
    and s': "b_sealed s' = b_sealed s" "invar (b_backend s')"
    and upd: "\<And>k. valid_key k \<Longrightarrow> contents (b_backend s') k = ((contents (b_backend s))(BARRIER_INIT_PATH \<mapsto> c)) k"
    and dec: "barrier_decrypt ?C (Some master) BARRIER_INIT_PATH c =
      Ok (ser_init ?C \<lparr>bi_version = 1, bi_key = rng_fill ?C (b_draws s) 32\<rparr>)"
    using init_effect [of s master ?C] valid(1) len m(2) by auto
  have 1: "core_inited E v = (Ok False, v)" using core_inited_eq [OF I valid(1) ops] fresh by simp
  have 2: "on_barrier (on_backend (backend_put ops \<lparr>be_key = SEAL_CONFIG_PATH, be_value = ve_ser_config E cfg\<rparr>)) v =
      (Ok (), ?to (?b\<lparr>b_backend := b1\<rparr>))"
    using put by (simp add: on_barrier_def on_backend_def)
  have 3: "on_barrier (generate_key ?C) (?to (?b\<lparr>b_backend := b1\<rparr>)) = (Ok master, ?to s)"
    by (simp add: on_barrier_def the_barrier_def generate_key_def draw_def s_def AES_BLOCK_SIZE_def m(1))
  have 4: "on_barrier (barrier_init ?C ops master) (?to s) = (Ok (), ?to s')"
    using init by (simp add: on_barrier_def the_barrier_def)
  have "core_init E cfg v = op_bind (op_res (make_shares E cfg master)) (\<lambda>shares.
      op_bind (on_barrier (barrier_unseal ?C ops master)) (\<lambda>_. init_setup E shares)) (?to s')"
    unfolding core_init_def ops using 1 2 3 4 assms(6) by (simp add: op_bind_def)
  then show ?thesis
    using s' upd [OF valid(1)] upd [OF valid(2)] upd1 [OF valid(2)] dec ne
    by (intro exI [of _ "?to s'"] exI [of _ c]) (simp add: the_barrier_def s_def)
qed

end

lemma seal_config_is_file_key: "file_key SEAL_CONFIG_PATH"
  by (simp add: SEAL_CONFIG_PATH_def file_key_def valid_component_def)

lemmas core_file_keys = init_path_is_file_key seal_config_is_file_key

section \<open>Unsealing by shares\<close>

text \<open>
  C16: below the threshold nothing is unsealed. In an initialised and sealed vault over files, presenting any
  sequence of keys of an admissible length, with repetitions, of which fewer than the threshold are distinct,
  only collects the distinct ones: the barrier and everything else of the vault are as before, and the
  progress is the number of distinct keys.
\<close>

theorem unseal_collects_shares:
  assumes "ve_physical E = file_backend ser de root"
    and "awaits_shares (file_contents de root) (file_invar ser de root) E cfg v"
    and "va_unseal_key_shares v = []" "list_all share_length_ok keys"
    and "card (set keys) < unat (secret_threshold cfg)"
  shows "\<exists>ks. present E keys v = v\<lparr>va_unseal_key_shares := ks\<rparr> \<and> set ks = set keys \<and>
    unseal_progress (present E keys v) = card (set keys) \<and> b_sealed (the_barrier (present E keys v))"
  using fb.present_collects [OF assms(1) core_file_keys assms(2,4)] assms(2,3,5)
  by (auto simp: unseal_progress_def awaits_shares_def distinct_card [symmetric])

lemma threshold_unseals:
  assumes "ve_physical E = file_backend ser de root"
    and "awaits_shares (file_contents de root) (file_invar ser de root) E cfg v"
    and "va_unseal_key_shares v = []" "secret_threshold cfg \<noteq> 0"
    and "make_shares E cfg master = Ok out" "length master = 32"
    and "set keys \<subseteq> set out" "key \<in> set out - set keys" "Suc (card (set keys)) = unat (secret_threshold cfg)"
    and "file_contents de root (b_backend (the_barrier v)) BARRIER_INIT_PATH = Some c"
    and "barrier_decrypt (ve_crypto E) (Some master) BARRIER_INIT_PATH c = Ok x"
    and "de_init (ve_crypto E) x = Some i"
  shows "core_unseal E key (present E keys v) =
    op_bind (post_unseal E) (\<lambda>_ v. (Ok True, v\<lparr>va_sealed := False\<rparr>))
      (v\<lparr>va_unseal_key_shares := [],
         va_core := (va_core v)\<lparr>co_storage := (the_barrier v)\<lparr>b_key := Some (bi_key i), b_sealed := False\<rparr>\<rparr>\<rparr>)"
proof -
  have len: "list_all share_length_ok keys"
    using make_shares_length [OF assms(5,6)] assms(7) by (auto simp: list_all_iff)
  then obtain ks where ks: "present E keys v = v\<lparr>va_unseal_key_shares := ks\<rparr>" "distinct ks" "set ks = set keys"
    using fb.present_collects [OF assms(1) core_file_keys assms(2) len] assms(3,9) by auto
  then show ?thesis
    using fb.unseal_completes [OF assms(1) core_file_keys _ assms(5,6,4) _ _ _ _ assms(11,12),
        of "v\<lparr>va_unseal_key_shares := ks\<rparr>" key] assms(2,7-10)
    by (auto simp: unseal_progress_def distinct_card [symmetric])
qed

text \<open>
  C2: a threshold of shares unseals the vault. Let \<open>out\<close> be the shares of a master key of 32 bytes under the
  stored configuration, with a positive threshold, and let the stored record decrypt under the master key. When
  one share less than the threshold has been presented, in any order and with any repetitions, one more share
  recovers the master key: the shares are forgotten, the barrier is unsealed with the key of the record, and
  the set-up after an unseal decides the outcome.
\<close>

theorem threshold_of_shares_unseals:
  assumes "ve_physical E = file_backend ser de root"
    and "awaits_shares (file_contents de root) (file_invar ser de root) E cfg v"
    and "va_unseal_key_shares v = []" "secret_threshold cfg \<noteq> 0"
    and "make_shares E cfg master = Ok out" "length master = 32"
    and "set keys \<subseteq> set out" "key \<in> set out - set keys" "Suc (card (set keys)) = unat (secret_threshold cfg)"
    and "file_contents de root (b_backend (the_barrier v)) BARRIER_INIT_PATH = Some c"
    and "barrier_decrypt (ve_crypto E) (Some master) BARRIER_INIT_PATH c = Ok x"
    and "de_init (ve_crypto E) x = Some i"
  shows "core_unseal E key (present E keys v) =
    op_bind (post_unseal E) (\<lambda>_ v. (Ok True, v\<lparr>va_sealed := False\<rparr>))
      (v\<lparr>va_unseal_key_shares := [],
         va_core := (va_core v)\<lparr>co_storage := (the_barrier v)\<lparr>b_key := Some (bi_key i), b_sealed := False\<rparr>\<rparr>\<rparr>)"
  by (rule threshold_unseals [OF assms])

text \<open>
  The validation of the seal configuration accepts thresholds below two with several shares, which the
  secret sharing refuses. Initialising an empty vault over files with such a configuration fails with
  \<open>ErrShamirShareCountInvalid\<close>, but only after the barrier record was stored: no share was ever given out, and the
  vault counts as initialised from then on, whatever configuration the next attempt uses.
\<close>

theorem unusable_config_blocks_vault:
  assumes "ve_physical E = file_backend ser de root"
    and "file_invar ser de root (b_backend (the_barrier v))"
    and "file_contents de root (b_backend (the_barrier v)) BARRIER_INIT_PATH = None"
    and "b_version (the_barrier v) = 2"
    and "aead_ok (ve_crypto E) (rng_fill (ve_crypto E) (b_draws (the_barrier v)) 32)"
    and "secret_shares cfg \<noteq> 1" "secret_threshold cfg < 2" "secret_threshold cfg \<le> secret_shares cfg"
  shows "\<exists>v'. core_init E cfg v = (Err ErrShamirShareCountInvalid, v') \<and>
    core_inited E v' = (Ok True, v') \<and> core_init E cfg' v' = (Err ErrBarrierAlreadyInit, v')"
proof -
  have ok: "validate cfg = Ok ()" using assms(8) by (simp add: validate_def)
  have bad: "make_shares E cfg m = Err ErrShamirShareCountInvalid" for m
    using assms(6,7) by (simp add: make_shares_def shamir_split_def)
  obtain v' where v': "core_init E cfg v = (Err ErrShamirShareCountInvalid, v')"
    "file_invar ser de root (b_backend (the_barrier v'))"
    "file_contents de root (b_backend (the_barrier v')) BARRIER_INIT_PATH \<noteq> None"
    using fb.init_until_shares [OF assms(1) core_file_keys assms(2,3) ok _ refl assms(5)] assms(4) bad
    by auto
  then have "core_inited E v' = (Ok True, v')"
    using fb.core_inited_eq [OF v'(2) core_file_keys(1) assms(1)] by simp
  then show ?thesis using v'(1) by (auto simp: core_init_def)
qed

section \<open>A concrete vault\<close>

definition demo_venv :: "fs vault_env" where
  "demo_venv =
     \<lparr>ve_physical = demo_ops, ve_crypto = demo_crypto, ve_mount = demo_env, ve_ancestor = longest_ancestor,
      ve_ser_config = (\<lambda>cfg. [secret_shares cfg, secret_threshold cfg]),
      ve_de_config = (\<lambda>d. case d of [a, b] \<Rightarrow> Some \<lparr>secret_shares = a, secret_threshold = b\<rparr> | _ \<Rightarrow> None),
      ve_shamir_rnd = (\<lambda>i j. 7), ve_overflow = True\<rparr>"

definition demo_vault :: "fs vault" where
  "demo_vault =
     \<lparr>va_core = core_empty (barrier_new []) [], va_sealed = True, va_unseal_key_shares = [], va_modules = []\<rparr>"

definition demo_config :: seal_config where
  "demo_config = \<lparr>secret_shares = 3, secret_threshold = 2\<rparr>"

lemma demo_vault_simps [simp]:
  "ve_physical demo_venv = file_backend demo_ser demo_de [''data'']" "ve_crypto demo_venv = demo_crypto"
  "the_barrier demo_vault = barrier_new []" "va_unseal_key_shares demo_vault = []"
  "b_backend (barrier_new fs) = fs" "b_version (barrier_new fs) = 2" "b_draws (barrier_new fs) = 0"
  by (simp_all add: demo_venv_def demo_ops_def demo_vault_def the_barrier_def core_empty_def barrier_new_def)

lemma demo_master: "rng_fill demo_crypto 0 32 = replicate 32 0"
  by (simp add: demo_crypto_def)

lemma demo_shares:
  "make_shares demo_venv demo_config (replicate 32 0) =
     Ok [replicate 32 7 @ [1], replicate 32 14 @ [2], replicate 32 9 @ [3]]"
  by code_simp

text \<open>The vault of the example after the barrier was initialised.\<close>

lemma demo_awaiting:
  "\<exists>v c. awaits_shares (file_contents demo_de [''data'']) (file_invar demo_ser demo_de [''data'']) demo_venv demo_config v \<and>
    va_unseal_key_shares v = [] \<and>
    file_contents demo_de [''data''] (b_backend (the_barrier v)) BARRIER_INIT_PATH = Some c \<and>
    barrier_decrypt demo_crypto (Some (replicate 32 0)) BARRIER_INIT_PATH c =
      Ok (ser_init demo_crypto \<lparr>bi_version = 1, bi_key = rng_fill demo_crypto 1 32\<rparr>)"
proof -
  have ok: "validate demo_config = Ok ()" by (simp add: validate_def demo_config_def)
  have de: "ve_de_config demo_venv (ve_ser_config demo_venv demo_config) = Some demo_config"
    by (simp add: demo_venv_def)
  have "b_sealed (the_barrier demo_vault)" by (simp add: barrier_new_def)
  then show ?thesis
    using fb.init_until_shares [of demo_venv demo_ser demo_de "[''data'']" demo_vault demo_config, OF _ core_file_keys _ _ ok]
      demo_invar demo_aead_ok [of "replicate 32 0"] ok de
    by (fastforce simp: file_contents_def demo_master awaits_shares_def)
qed

theorem unseal_collects_shares_witness:
  "\<exists>v ks. awaits_shares (file_contents demo_de [''data'']) (file_invar demo_ser demo_de [''data'']) demo_venv demo_config v \<and>
    present demo_venv [replicate 32 7 @ [1], replicate 32 7 @ [1]] v = v\<lparr>va_unseal_key_shares := ks\<rparr> \<and>
    set ks = {replicate 32 7 @ [1]} \<and>
    unseal_progress (present demo_venv [replicate 32 7 @ [1], replicate 32 7 @ [1]] v) = 1"
proof -
  let ?keys = "[replicate 32 7 @ [1], replicate 32 7 @ [1]] :: bytes list"
  obtain v where aw: "awaits_shares (file_contents demo_de [''data'']) (file_invar demo_ser demo_de [''data''])
      demo_venv demo_config v" "va_unseal_key_shares v = []"
    using demo_awaiting by blast
  have "list_all share_length_ok ?keys" "card (set ?keys) < unat (secret_threshold demo_config)"
    by (simp_all add: share_length_ok_def demo_config_def)
  from unseal_collects_shares [OF demo_vault_simps(1) aw this] aw(1) show ?thesis by auto
qed

theorem threshold_of_shares_unseals_witness:
  "\<exists>v. awaits_shares (file_contents demo_de [''data'']) (file_invar demo_ser demo_de [''data'']) demo_venv demo_config v \<and>
    core_unseal demo_venv (replicate 32 9 @ [3]) (present demo_venv [replicate 32 7 @ [1]] v) =
    op_bind (post_unseal demo_venv) (\<lambda>_ v. (Ok True, v\<lparr>va_sealed := False\<rparr>))
      (v\<lparr>va_unseal_key_shares := [],
         va_core := (va_core v)\<lparr>co_storage := (the_barrier v)\<lparr>b_key := Some (replicate 32 1), b_sealed := False\<rparr>\<rparr>\<rparr>)"
proof -
  obtain v c where aw: "awaits_shares (file_contents demo_de [''data'']) (file_invar demo_ser demo_de [''data''])
      demo_venv demo_config v" "va_unseal_key_shares v = []"
    and c: "file_contents demo_de [''data''] (b_backend (the_barrier v)) BARRIER_INIT_PATH = Some c"
    and dec: "barrier_decrypt demo_crypto (Some (replicate 32 0)) BARRIER_INIT_PATH c =
      Ok (ser_init demo_crypto \<lparr>bi_version = 1, bi_key = rng_fill demo_crypto 1 32\<rparr>)"
    using demo_awaiting by blast
  have dec': "barrier_decrypt (ve_crypto demo_venv) (Some (replicate 32 0)) BARRIER_INIT_PATH c =
      Ok (ser_init demo_crypto \<lparr>bi_version = 1, bi_key = replicate 32 1\<rparr>)"
    using dec by (simp add: demo_crypto_def)
  have de: "de_init (ve_crypto demo_venv) (ser_init demo_crypto i) = Some i" for i
    by (simp add: demo_init_codec)
  have t: "secret_threshold demo_config \<noteq> 0" "Suc (card (set [replicate 32 (7 :: u8) @ [1]])) =
      unat (secret_threshold demo_config)"
    by (simp_all add: demo_config_def)
  have k: "length (replicate 32 (0 :: u8)) = 32"
    "set [replicate 32 7 @ [1]] \<subseteq> set [replicate 32 7 @ [1 :: u8], replicate 32 14 @ [2], replicate 32 9 @ [3]]"
    "replicate 32 9 @ [3] \<in> set [replicate 32 7 @ [1 :: u8], replicate 32 14 @ [2], replicate 32 9 @ [3]] -
      set [replicate 32 7 @ [1]]"
    by simp_all
  from threshold_of_shares_unseals [OF demo_vault_simps(1) aw t(1) demo_shares k t(2) c dec' de] aw(1)
  show ?thesis by auto
qed

theorem unusable_config_blocks_vault_witness:
  "\<exists>v'. core_init demo_venv \<lparr>secret_shares = 3, secret_threshold = 1\<rparr> demo_vault =
      (Err ErrShamirShareCountInvalid, v') \<and>
    core_init demo_venv demo_config v' = (Err ErrBarrierAlreadyInit, v')"
  using unusable_config_blocks_vault [OF demo_vault_simps(1), of demo_vault "\<lparr>secret_shares = 3, secret_threshold = 1\<rparr>"
      demo_config] demo_invar demo_aead_ok [of "replicate 32 0"]
  by (auto simp: file_contents_def demo_master)

end
