(* ===== verification/Policy.thy ===== *)
theory Policy
  imports Logical "HOL-Library.AList"
begin

text \<open>
  Policies, \<open>src/modules/policy/policy.rs\<close>, with the glob lists of \<open>src/utils/string.rs\<close> they use: the
  capabilities as bits of a word, the rules of a path, the merging of permissions and the check of a request
  against them. The parsed HCL document is an argument (its attributes and blocks, and for each block the
  configuration that \<open>hcl::from_body\<close> reads). Hash maps are association lists; their order is the order of
  iteration.

  Shown: the capability words and their names correspond, a denied path keeps no other capability through
  parsing and merging, merging is the union of the capabilities unless one denies, and the check of a
  request is its declarative reading.
\<close>

section \<open>Capabilities\<close>

datatype capability = Deny | Create | CapRead | Update | CapDelete | CapList | Sudo | Patch

definition cap_index :: "capability \<Rightarrow> nat" where
  "cap_index c =
     (case c of Deny \<Rightarrow> 0 | Create \<Rightarrow> 1 | CapRead \<Rightarrow> 2 | Update \<Rightarrow> 3 | CapDelete \<Rightarrow> 4 | CapList \<Rightarrow> 5
      | Sudo \<Rightarrow> 6 | Patch \<Rightarrow> 7)"

definition to_bits :: "capability \<Rightarrow> u32" where
  "to_bits c = push_bit (cap_index c) 1"

definition cap_name :: "capability \<Rightarrow> string" where
  "cap_name c =
     (case c of Deny \<Rightarrow> ''deny'' | Create \<Rightarrow> ''create'' | CapRead \<Rightarrow> ''read'' | Update \<Rightarrow> ''update''
      | CapDelete \<Rightarrow> ''delete'' | CapList \<Rightarrow> ''list'' | Sudo \<Rightarrow> ''sudo'' | Patch \<Rightarrow> ''patch'')"

text \<open>\<open>Capability::iter()\<close>: the variants in the order of their declaration.\<close>

definition capability_iter :: "capability list" where
  "capability_iter = [Deny, Create, CapRead, Update, CapDelete, CapList, Sudo, Patch]"

definition has_cap :: "u32 \<Rightarrow> capability \<Rightarrow> bool" where
  "has_cap bitmap c \<longleftrightarrow> bitmap AND to_bits c \<noteq> 0"

definition caps_bitmap :: "capability list \<Rightarrow> u32" where
  "caps_bitmap caps = foldl (\<lambda>acc c. acc OR to_bits c) 0 caps"

definition to_granting_capabilities :: "u32 \<Rightarrow> string list" where
  "to_granting_capabilities v =
     (if has_cap v Deny then [cap_name Deny]
      else map cap_name (filter (has_cap v) capability_iter))"

section \<open>Policies\<close>

datatype policy_type = Acl | Rgp | Egp | Token

datatype old_path_policy = OldDeny | OldRead | OldWrite | OldSudo

type_synonym params = "(string \<times> json list) list"

record permissions =
  capabilities_bitmap :: u32
  min_wrapping_ttl :: duration
  max_wrapping_ttl :: duration
  allowed_parameters :: params
  denied_parameters :: params
  required_parameters :: "string list"
  granting_policies_map :: "u32 \<Rightarrow> policy_info list"

record policy_path_rules =
  pp_path :: string
  pp_permissions :: permissions
  pp_capabilities :: "capability list"
  pp_is_prefix :: bool
  pp_has_segment_wildcards :: bool
  pp_min_wrapping_ttl :: duration
  pp_max_wrapping_ttl :: duration

record policy =
  po_name :: string
  po_paths :: "policy_path_rules list"
  po_raw :: string
  po_type :: policy_type
  po_templated :: bool

record policy_path_config =
  pc_policy :: "old_path_policy option"
  pc_capabilities :: "capability list"
  pc_min_wrapping_ttl :: duration
  pc_max_wrapping_ttl :: duration
  pc_allowed_parameters :: params
  pc_denied_parameters :: params
  pc_required_parameters :: "string list"

definition permissions_default :: permissions where
  "permissions_default =
     \<lparr>capabilities_bitmap = 0, min_wrapping_ttl = 0, max_wrapping_ttl = 0, allowed_parameters = [],
      denied_parameters = [], required_parameters = [], granting_policies_map = (\<lambda>_. [])\<rparr>"

section \<open>Parsing\<close>

text \<open>A parsed document: the attributes with a string value, and the blocks with their labels.\<close>

record hcl_block =
  hb_identifier :: string
  hb_labels :: "string list"
  hb_config :: "policy_path_config res"

record hcl_body =
  hcl_attributes :: "(string \<times> string) list"
  hcl_blocks :: "hcl_block list"

definition lower_keys :: "params \<Rightarrow> params" where
  "lower_keys ps = fold (\<lambda>(k, v) m. AList.update (to_lowercase k) v m) ps []"

definition extend_params :: "string list \<Rightarrow> string list \<Rightarrow> string list" where
  "extend_params dst src = dst @ filter (\<lambda>x. x \<notin> set dst) src"

text \<open>One key of a parameter map merged into another map: no value at all stands for every value.\<close>

definition merge_param :: "string \<times> json list \<Rightarrow> params \<Rightarrow> params" where
  "merge_param kv dst =
     (case map_of dst (fst kv) of
        Some old \<Rightarrow>
          if snd kv = [] then AList.update (fst kv) [] dst
          else if old \<noteq> [] then AList.update (fst kv) (old @ snd kv) dst
          else dst
      | None \<Rightarrow> AList.update (fst kv) (snd kv) dst)"

definition add_block :: "(string \<times> policy_path_config) list \<Rightarrow> hcl_block \<Rightarrow> (string \<times> policy_path_config) list res" where
  "add_block conf b =
     (if hb_identifier b \<noteq> ''path'' then Ok conf
      else case hb_labels b of
          [] \<Rightarrow> Ok conf
        | path # _ \<Rightarrow>
            if str_contains path ''+*'' then
              Err (ErrString (''path '' @ path @ '': invalid use of wildcards ('' @ [CHR 0x27] @ ''+*'' @ [CHR 0x27] @ '' is forbidden)''))
            else res_bind (hb_config b) (\<lambda>pc0.
              let pc = pc0\<lparr>pc_allowed_parameters := lower_keys (pc_allowed_parameters pc0),
                           pc_denied_parameters := lower_keys (pc_denied_parameters pc0)\<rparr>
              in case map_of conf path of
                   None \<Rightarrow> Ok (AList.update path pc conf)
                 | Some ex \<Rightarrow> Ok (AList.update path
                     (ex\<lparr>pc_required_parameters := extend_params (pc_required_parameters ex) (pc_required_parameters pc),
                         pc_allowed_parameters := fold merge_param (pc_allowed_parameters pc) (pc_allowed_parameters ex),
                         pc_denied_parameters := fold merge_param (pc_denied_parameters pc) (pc_denied_parameters ex)\<rparr>)
                     conf)))"

fun add_blocks :: "hcl_block list \<Rightarrow> (string \<times> policy_path_config) list \<Rightarrow> (string \<times> policy_path_config) list res" where
  "add_blocks [] conf = Ok conf"
| "add_blocks (b # bs) conf = res_bind (add_block conf b) (add_blocks bs)"

definition parse_name :: "hcl_body \<Rightarrow> string" where
  "parse_name body =
     fold (\<lambda>(k, v) name. if k = ''name'' then v else name) (hcl_attributes body) []"

definition old_capabilities :: "old_path_policy option \<Rightarrow> capability list \<Rightarrow> capability list" where
  "old_capabilities old caps =
     (case old of
        None \<Rightarrow> caps
      | Some OldDeny \<Rightarrow> [Deny]
      | Some OldRead \<Rightarrow> caps @ [CapRead, CapList]
      | Some OldWrite \<Rightarrow> caps @ [CapRead, CapList, Create, Update, CapDelete]
      | Some OldSudo \<Rightarrow> caps @ [CapRead, CapList, Create, Update, CapDelete, Sudo])"

definition init_rules :: "string \<times> policy_path_config \<Rightarrow> policy_path_rules" where
  "init_rules entry =
     (let pc = snd entry;
          path0 = ensure_no_leading_slash (fst entry);
          wild = (path0 = ''+'' \<or> str_contains path0 ''/+'' \<or> starts_with path0 ''+/'');
          isp = (ends_with path0 ''*'' \<and> \<not> wild);
          path = (if isp then trim_end_matches CHR ''*'' path0 else path0);
          caps0 = old_capabilities (pc_policy pc) (pc_capabilities pc);
          denied = has_cap (caps_bitmap caps0) Deny
      in \<lparr>pp_path = path,
          pp_permissions =
            \<lparr>capabilities_bitmap = (if denied then to_bits Deny else caps_bitmap caps0),
             min_wrapping_ttl = pc_min_wrapping_ttl pc, max_wrapping_ttl = pc_max_wrapping_ttl pc,
             allowed_parameters = pc_allowed_parameters pc, denied_parameters = pc_denied_parameters pc,
             required_parameters = pc_required_parameters pc, granting_policies_map = (\<lambda>_. [])\<rparr>,
          pp_capabilities = (if denied then [Deny] else caps0),
          pp_is_prefix = isp, pp_has_segment_wildcards = wild,
          pp_min_wrapping_ttl = pc_min_wrapping_ttl pc, pp_max_wrapping_ttl = pc_max_wrapping_ttl pc\<rparr>)"

text \<open>\<open>Policy::from_str\<close> on a parsed document; \<open>raw\<close> is the text.\<close>

definition policy_from_body :: "string \<Rightarrow> hcl_body \<Rightarrow> policy res" where
  "policy_from_body raw body =
     res_bind (add_blocks (hcl_blocks body) []) (\<lambda>conf.
       Ok \<lparr>po_name = parse_name body, po_paths = map init_rules conf, po_raw = raw,
           po_type = Acl, po_templated = False\<rparr>)"

definition policy_from_str :: "(string \<Rightarrow> hcl_body res) \<Rightarrow> string \<Rightarrow> policy res" where
  "policy_from_str hcl_parse raw = res_bind (hcl_parse raw) (policy_from_body raw)"

section \<open>Glob lists\<close>

fun glob_scan :: "json list \<Rightarrow> json list \<Rightarrow> json \<Rightarrow> bool" where
  "glob_scan full [] v = False"
| "glob_scan full (item # items) v =
     (case as_str item of
        Some pat \<Rightarrow>
          if globbed_strings_match pat (case as_str v of Some s \<Rightarrow> s | None \<Rightarrow> []) then True
          else glob_scan full items v
      | None \<Rightarrow> v \<in> set full)"

definition glob_contains :: "json list \<Rightarrow> json \<Rightarrow> bool" where
  "glob_contains xs v = (if xs = [] then True else glob_scan xs xs v)"

section \<open>Checking a request\<close>

record acl_results =
  ar_allowed :: bool
  ar_root_privs :: bool
  ar_is_root :: bool
  ar_capabilities_bitmap :: u32
  ar_granting_policies :: "policy_info list"

definition acl_results_default :: acl_results where
  "acl_results_default =
     \<lparr>ar_allowed = False, ar_root_privs = False, ar_is_root = False, ar_capabilities_bitmap = 0,
      ar_granting_policies = []\<rparr>"

definition op_capability :: "operation \<Rightarrow> capability option" where
  "op_capability op =
     (case op of
        Read \<Rightarrow> Some CapRead | List \<Rightarrow> Some CapList | Write \<Rightarrow> Some Update | Delete \<Rightarrow> Some CapDelete
      | Renew \<Rightarrow> Some Update | Revoke \<Rightarrow> Some Update | Rollback \<Rightarrow> Some Update | Help \<Rightarrow> None)"

definition no_entries :: "json_obj option \<Rightarrow> bool" where
  "no_entries m = (case m of None \<Rightarrow> True | Some d \<Rightarrow> d = [])"

text \<open>\<open>Permissions::check\<close>; every exit of the function is an \<open>Ok\<close>.\<close>

definition perm_check :: "permissions \<Rightarrow> request \<Rightarrow> bool \<Rightarrow> acl_results" where
  "perm_check P req check_only =
     (let ret = acl_results_default\<lparr>ar_root_privs := has_cap (capabilities_bitmap P) Sudo\<rparr> in
      if check_only then ret\<lparr>ar_capabilities_bitmap := capabilities_bitmap P\<rparr>
      else case op_capability (rq_operation req) of
          None \<Rightarrow> ret
        | Some cap \<Rightarrow>
            if \<not> has_cap (capabilities_bitmap P) cap \<and>
               (rq_operation req \<noteq> Write \<or> \<not> has_cap (capabilities_bitmap P) Create) then ret
            else
              let ret = ret\<lparr>ar_granting_policies := granting_policies_map P (to_bits cap)\<rparr>;
                  yes = ret\<lparr>ar_capabilities_bitmap := capabilities_bitmap P, ar_allowed := True\<rparr>
              in if min_wrapping_ttl P \<noteq> 0 \<and> max_wrapping_ttl P \<noteq> 0 \<and> max_wrapping_ttl P < min_wrapping_ttl P
                 then ret
                 else if rq_operation req = Read \<or> rq_operation req = Write then
                   (if \<not> list_all (\<lambda>p. lookup_in (rq_data req) (to_lowercase p) \<noteq> None \<or>
                          lookup_in (rq_body req) (to_lowercase p) \<noteq> None) (required_parameters P) then ret
                    else if no_entries (rq_data req) \<and> no_entries (rq_body req) then yes
                    else if map_of (denied_parameters P) ''*'' \<noteq> None then ret
                    else if list_ex (\<lambda>(k, v). case map_of (denied_parameters P) (to_lowercase k) of
                        Some ds \<Rightarrow> glob_contains ds v | None \<Rightarrow> False) (data_iter req) then ret
                    else
                      let allowed_all = (map_of (allowed_parameters P) ''*'' \<noteq> None) in
                      if allowed_parameters P = [] \<or> (allowed_all \<and> length (allowed_parameters P) = 1) then yes
                      else if list_all (\<lambda>(k, v). case map_of (allowed_parameters P) (to_lowercase k) of
                          Some as \<Rightarrow> glob_contains as v | None \<Rightarrow> allowed_all) (data_iter req) then yes
                      else ret)
                 else yes)"

section \<open>Merging\<close>

definition merge_ttl :: "duration \<Rightarrow> duration \<Rightarrow> duration" where
  "merge_ttl mine other = (if other > 0 \<and> (mine = 0 \<or> mine < other) then other else mine)"

definition merge_params :: "params \<Rightarrow> params \<Rightarrow> params" where
  "merge_params mine other =
     (if other = [] then mine else if mine = [] then other else fold merge_param other mine)"

definition merge_required :: "string list \<Rightarrow> string list \<Rightarrow> string list" where
  "merge_required mine other = fold (\<lambda>p acc. if p \<in> set acc then acc else acc @ [p]) other mine"

definition perm_merge :: "permissions \<Rightarrow> permissions \<Rightarrow> permissions" where
  "perm_merge P Q =
     (if has_cap (capabilities_bitmap P) Deny then P
      else if has_cap (capabilities_bitmap Q) Deny then
        P\<lparr>capabilities_bitmap := to_bits Deny, allowed_parameters := [], denied_parameters := []\<rparr>
      else
        P\<lparr>capabilities_bitmap := capabilities_bitmap P OR capabilities_bitmap Q,
          max_wrapping_ttl := merge_ttl (max_wrapping_ttl P) (max_wrapping_ttl Q),
          min_wrapping_ttl := merge_ttl (min_wrapping_ttl P) (min_wrapping_ttl Q),
          allowed_parameters := merge_params (allowed_parameters P) (allowed_parameters Q),
          denied_parameters := merge_params (denied_parameters P) (denied_parameters Q),
          required_parameters := merge_required (required_parameters P) (required_parameters Q)\<rparr>)"

definition acl_policy_info :: "string \<Rightarrow> policy_info" where
  "acl_policy_info name =
     \<lparr>pi_name = name, pi_namespace_id = [], pi_namespace_path = [], pi_type = ''acl''\<rparr>"

definition add_granting_policy_to_map :: "policy \<Rightarrow> u32 \<Rightarrow> permissions \<Rightarrow> permissions" where
  "add_granting_policy_to_map pol bitmap P =
     fold (\<lambda>cap P. if has_cap bitmap cap then
         P\<lparr>granting_policies_map := (granting_policies_map P)
             (to_bits cap := granting_policies_map P (to_bits cap) @ [acl_policy_info (po_name pol)])\<rparr>
       else P) capability_iter P"

definition get_granting_capabilities :: "permissions \<Rightarrow> string list" where
  "get_granting_capabilities P = to_granting_capabilities (capabilities_bitmap P)"


section \<open>Capability words\<close>

lemma cap_index_inj [simp]: "cap_index a = cap_index b \<longleftrightarrow> a = b"
  by (cases a; cases b) (simp_all add: cap_index_def)

lemma cap_index_less: "cap_index c < 32"
  by (cases c) (simp_all add: cap_index_def)

lemma has_cap_bit: "has_cap v c \<longleftrightarrow> bit v (cap_index c)"
  by (simp add: has_cap_def to_bits_def bit_iff_and_push_bit_not_eq_0)

lemma has_cap_to_bits [simp]: "has_cap (to_bits d) c \<longleftrightarrow> c = d"
proof -
  have "bit (push_bit m (1 :: u32)) n \<longleftrightarrow> n = m" if "n < 32" for m n
    unfolding bit_push_bit_iff using that by (auto simp: bit_1_iff)
  then show ?thesis using cap_index_less [of c] by (simp add: has_cap_bit to_bits_def)
qed

lemma has_cap_or [simp]: "has_cap (a OR b) c \<longleftrightarrow> has_cap a c \<or> has_cap b c"
  by (simp add: has_cap_bit bit_or_iff)

lemma has_cap_0 [simp]: "\<not> has_cap 0 c"
  by (simp add: has_cap_bit)

lemma has_cap_foldl: "has_cap (foldl (\<lambda>acc c. acc OR to_bits c) v cs) c \<longleftrightarrow> has_cap v c \<or> c \<in> set cs"
  by (induction cs arbitrary: v) auto

lemma has_cap_bitmap [simp]: "has_cap (caps_bitmap cs) c \<longleftrightarrow> c \<in> set cs"
  by (simp add: caps_bitmap_def has_cap_foldl)

text \<open>
  The names listed for a capability word built from a list of capabilities: only \<open>deny\<close> when the list
  denies, and otherwise exactly the capabilities of the list, once each, in the order of their declaration.
\<close>

theorem granting_capabilities_of_bitmap:
  "to_granting_capabilities (caps_bitmap cs) =
     (if Deny \<in> set cs then [''deny''] else map cap_name (filter (\<lambda>c. c \<in> set cs) capability_iter))"
proof -
  have "has_cap (caps_bitmap cs) = (\<lambda>c. c \<in> set cs)" by (rule ext) simp
  then show ?thesis by (simp add: to_granting_capabilities_def cap_name_def)
qed

section \<open>Merging of permissions\<close>

text \<open>A denied path has no other capability.\<close>

definition deny_normal :: "permissions \<Rightarrow> bool" where
  "deny_normal P \<longleftrightarrow> (has_cap (capabilities_bitmap P) Deny \<longrightarrow> capabilities_bitmap P = to_bits Deny)"

definition configured :: "string \<times> policy_path_config \<Rightarrow> capability set" where
  "configured e = set (old_capabilities (pc_policy (snd e)) (pc_capabilities (snd e)))"

lemma init_rules_caps:
  "has_cap (capabilities_bitmap (pp_permissions (init_rules e))) c \<longleftrightarrow>
     (if Deny \<in> configured e then c = Deny else c \<in> configured e)"
  by (simp add: init_rules_def Let_def configured_def)

lemma init_rules_deny_normal: "deny_normal (pp_permissions (init_rules e))"
  by (simp add: deny_normal_def init_rules_def Let_def)

lemma perm_merge_deny_normal: "deny_normal P \<Longrightarrow> deny_normal Q \<Longrightarrow> deny_normal (perm_merge P Q)"
  by (auto simp: deny_normal_def perm_merge_def)

lemma perm_merge_caps:
  assumes "deny_normal P"
  shows "has_cap (capabilities_bitmap (perm_merge P Q)) c \<longleftrightarrow>
    (if has_cap (capabilities_bitmap P) Deny \<or> has_cap (capabilities_bitmap Q) Deny then c = Deny
     else has_cap (capabilities_bitmap P) c \<or> has_cap (capabilities_bitmap Q) c)"
  using assms by (auto simp: deny_normal_def perm_merge_def)

lemma foldl_merge_caps:
  assumes "deny_normal P" "\<And>Q. Q \<in> set Qs \<Longrightarrow> deny_normal Q"
  shows "has_cap (capabilities_bitmap (foldl perm_merge P Qs)) c \<longleftrightarrow>
    (if \<exists>Q \<in> set (P # Qs). has_cap (capabilities_bitmap Q) Deny then c = Deny
     else \<exists>Q \<in> set (P # Qs). has_cap (capabilities_bitmap Q) c)"
  using assms
proof (induction Qs arbitrary: P)
  case Nil
  then show ?case by (auto simp: deny_normal_def)
next
  case (Cons Q Qs)
  have "deny_normal (perm_merge P Q)" using Cons.prems by (simp add: perm_merge_deny_normal)
  from Cons.IH [OF this] Cons.prems show ?case
    by (auto simp: perm_merge_caps)
qed

text \<open>
  The capabilities a path ends up with when its rules from several policies are merged. If one of the
  configurations denies, the path is denied and has no other capability; otherwise it has exactly the
  capabilities that one of them lists. The result does not depend on the order of the policies.
\<close>

theorem merged_capabilities:
  "has_cap (capabilities_bitmap
      (foldl perm_merge (pp_permissions (init_rules e)) (map (pp_permissions \<circ> init_rules) es))) c \<longleftrightarrow>
    (if \<exists>x \<in> set (e # es). Deny \<in> configured x then c = Deny else \<exists>x \<in> set (e # es). c \<in> configured x)"
proof -
  let ?Qs = "map (pp_permissions \<circ> init_rules) es"
  have "deny_normal Q" if "Q \<in> set ?Qs" for Q
    using that init_rules_deny_normal by auto
  from foldl_merge_caps [OF init_rules_deny_normal this, of ?Qs e c] show ?thesis
    by (auto simp: init_rules_caps)
qed

section \<open>The check of a request\<close>

lemma glob_scan_strings:
  "glob_scan full (map JString ps) v \<longleftrightarrow>
     (\<exists>p \<in> set ps. globbed_strings_match p (case as_str v of Some s \<Rightarrow> s | None \<Rightarrow> []))"
  by (induction ps) (auto simp: as_str_def)

lemma glob_contains_strings:
  "glob_contains (map JString ps) v \<longleftrightarrow>
     ps = [] \<or> (\<exists>p \<in> set ps. globbed_strings_match p (case as_str v of Some s \<Rightarrow> s | None \<Rightarrow> []))"
  by (simp add: glob_contains_def glob_scan_strings)

text \<open>The scan stops at the first item that is not a string: the patterns after it are not tried.\<close>

lemma glob_contains_stops_at_non_string:
  "glob_contains [JNum 1, JString ''foo*''] (JString ''foobar'') = False"
  "glob_contains [JString ''foo*'', JNum 1] (JString ''foobar'') = True"
  by code_simp+

definition param_denied :: "permissions \<Rightarrow> string \<times> json \<Rightarrow> bool" where
  "param_denied P kv =
     (case map_of (denied_parameters P) (to_lowercase (fst kv)) of
        Some ds \<Rightarrow> glob_contains ds (snd kv) | None \<Rightarrow> False)"

definition param_allowed :: "permissions \<Rightarrow> string \<times> json \<Rightarrow> bool" where
  "param_allowed P kv =
     (case map_of (allowed_parameters P) (to_lowercase (fst kv)) of
        Some as \<Rightarrow> glob_contains as (snd kv)
      | None \<Rightarrow> ''*'' \<in> set (map fst (allowed_parameters P)))"

definition param_ok :: "permissions \<Rightarrow> string \<times> json \<Rightarrow> bool" where
  "param_ok P kv \<longleftrightarrow>
     \<not> param_denied P kv \<and>
     (map fst (allowed_parameters P) \<in> {[], [''*'']} \<or> param_allowed P kv)"

definition params_ok :: "permissions \<Rightarrow> request \<Rightarrow> bool" where
  "params_ok P req \<longleftrightarrow>
     (\<forall>p \<in> set (required_parameters P). \<exists>m \<in> {rq_data req, rq_body req}. lookup_in m (to_lowercase p) \<noteq> None) \<and>
     (data_iter req = [] \<or>
      ''*'' \<notin> set (map fst (denied_parameters P)) \<and> (\<forall>kv \<in> set (data_iter req). param_ok P kv))"

definition perm_allows :: "permissions \<Rightarrow> request \<Rightarrow> bool" where
  "perm_allows P req \<longleftrightarrow>
     (\<exists>cap. op_capability (rq_operation req) = Some cap \<and>
       (has_cap (capabilities_bitmap P) cap \<or>
        rq_operation req = Write \<and> has_cap (capabilities_bitmap P) Create)) \<and>
     (min_wrapping_ttl P = 0 \<or> max_wrapping_ttl P = 0 \<or> min_wrapping_ttl P \<le> max_wrapping_ttl P) \<and>
     (rq_operation req \<in> {Read, Write} \<longrightarrow> params_ok P req)"

lemma no_entries_iff: "no_entries (rq_data req) \<and> no_entries (rq_body req) \<longleftrightarrow> data_iter req = []"
  by (auto simp: no_entries_def data_iter_def split: option.splits)

lemma single_star: "map_of m ''*'' \<noteq> None \<and> length m = 1 \<longleftrightarrow> map fst m = [''*'']"
  by (cases m) (auto simp: length_Suc_conv split: if_splits)

text \<open>
  C8: what the check of a request against a set of permissions allows. The operation's capability is granted
  (for a write also by \<open>create\<close>), the wrapping bounds are consistent, and for a read or a write every required
  parameter is given and, unless no parameter is given, no parameter is denied and each is allowed.
\<close>

theorem perm_check_allows:
  "ar_allowed (perm_check P req False) \<longleftrightarrow> perm_allows P req"
proof -
  let ?A = "allowed_parameters P" and ?D = "denied_parameters P"
  have star: "map_of m ''*'' \<noteq> None \<longleftrightarrow> ''*'' \<in> set (map fst m)" for m :: params
    by (auto simp: map_of_eq_None_iff)
  have denied: "(\<lambda>(k, v). case map_of ?D (to_lowercase k) of
      Some ds \<Rightarrow> glob_contains ds v | None \<Rightarrow> False) = param_denied P"
    by (auto simp: fun_eq_iff param_denied_def split: option.split)
  have allowed: "(\<lambda>(k, v). case map_of ?A (to_lowercase k) of
      Some as \<Rightarrow> glob_contains as v | None \<Rightarrow> map_of ?A ''*'' \<noteq> None) = param_allowed P"
    unfolding star by (auto simp: fun_eq_iff param_allowed_def split: option.split)
  have all: "(\<forall>kv \<in> set (data_iter req). param_ok P kv) \<longleftrightarrow>
      \<not> list_ex (param_denied P) (data_iter req) \<and>
      (?A = [] \<or> map fst ?A = [''*''] \<or> list_all (param_allowed P) (data_iter req))"
    if "data_iter req \<noteq> []"
    using that by (auto simp: param_ok_def list_all_iff list_ex_iff)
  have req: "list_all (\<lambda>p. lookup_in (rq_data req) (to_lowercase p) \<noteq> None \<or>
      lookup_in (rq_body req) (to_lowercase p) \<noteq> None) (required_parameters P) \<longleftrightarrow>
      (\<forall>p \<in> set (required_parameters P). \<exists>m \<in> {rq_data req, rq_body req}. lookup_in m (to_lowercase p) \<noteq> None)"
    by (auto simp: list_all_iff)
  show ?thesis
  proof (cases "op_capability (rq_operation req)")
    case None
    then show ?thesis by (simp add: perm_check_def perm_allows_def acl_results_default_def Let_def)
  next
    case (Some cap)
    then show ?thesis
      unfolding perm_check_def perm_allows_def params_ok_def Let_def no_entries_iff req [symmetric]
        denied allowed single_star star [of ?D, symmetric]
      using all by (auto simp: acl_results_default_def)
  qed
qed

lemma denied_never_allowed:
  "capabilities_bitmap P = to_bits Deny \<Longrightarrow> \<not> perm_allows P req"
  by (auto simp: perm_allows_def op_capability_def split: operation.splits)

end
