(* ===== verification/Acl.thy ===== *)
theory Acl
  imports Policy Radix "HOL-Library.Product_Lexorder" "HOL-Library.Multiset"
begin

text \<open>
  Access control lists, \<open>src/modules/policy/acl.rs\<close>: building a list from policies, the lookup of the rule
  for a path (an exact rule, then the best of the longest prefix rule and the matching rules with segment
  wildcards) and the decision on a request.

  The two tries and the concurrent map are association lists with distinct keys; the order of the last is
  the order in which the map is iterated.

  Shown: what a path is granted after building from any list of policies, that a denial of a path by one
  policy is final, that what no rule matches is denied, the meaning of segment wildcards, and that the
  choice among wildcard rules does not depend on the order of iteration.
\<close>

record acl =
  exact_rules :: "(string \<times> permissions) list"
  prefix_rules :: "(string \<times> permissions) list"
  segment_wildcard_paths :: "(string \<times> permissions) list"
  rgp_policies :: "policy list"
  acl_root :: bool

record wc_path_descr =
  first_wc_or_glob :: int
  wc_path :: string
  wc_is_prefix :: bool
  wc_wildcards :: nat
  wc_perms :: "permissions option"

text \<open>\<open>Ord for WcPathDescr\<close>, as the key that is compared: later first wildcard, then no prefix before prefix,
  then fewer wildcards, then the longer path, then the larger one.\<close>

definition wc_key :: "wc_path_descr \<Rightarrow> int \<times> bool \<times> int \<times> nat \<times> string" where
  "wc_key d =
     (first_wc_or_glob d, \<not> wc_is_prefix d, - int (wc_wildcards d), length (wc_path d), wc_path d)"

definition acl_default :: acl where
  "acl_default =
     \<lparr>exact_rules = [], prefix_rules = [], segment_wildcard_paths = [], rgp_policies = [], acl_root = False\<rparr>"

definition acl_get_permissions :: "acl \<Rightarrow> policy_path_rules \<Rightarrow> permissions option" where
  "acl_get_permissions a pr =
     (if pp_has_segment_wildcards pr then map_of (segment_wildcard_paths a) (pp_path pr)
      else map_of (if pp_is_prefix pr then prefix_rules a else exact_rules a) (pp_path pr))"

definition acl_insert_permissions :: "policy_path_rules \<Rightarrow> permissions \<Rightarrow> acl \<Rightarrow> acl" where
  "acl_insert_permissions pr perm a =
     (if pp_has_segment_wildcards pr then
        a\<lparr>segment_wildcard_paths := AList.update (pp_path pr) perm (segment_wildcard_paths a)\<rparr>
      else if pp_is_prefix pr then a\<lparr>prefix_rules := AList.update (pp_path pr) perm (prefix_rules a)\<rparr>
      else a\<lparr>exact_rules := AList.update (pp_path pr) perm (exact_rules a)\<rparr>)"

definition acl_add_rule :: "policy \<Rightarrow> policy_path_rules \<Rightarrow> acl \<Rightarrow> acl" where
  "acl_add_rule pol pr a =
     (let bitmap = capabilities_bitmap (pp_permissions pr) in
      case acl_get_permissions a pr of
        Some ex \<Rightarrow>
          if has_cap (capabilities_bitmap ex) Deny then a
          else acl_insert_permissions pr
            (add_granting_policy_to_map pol bitmap (perm_merge ex (pp_permissions pr))) a
      | None \<Rightarrow>
          acl_insert_permissions pr (add_granting_policy_to_map pol bitmap (pp_permissions pr)) a)"

fun acl_add_policies :: "nat \<Rightarrow> policy list \<Rightarrow> acl \<Rightarrow> acl res" where
  "acl_add_policies n [] a = Ok a"
| "acl_add_policies n (pol # ps) a =
     (if po_type pol = Rgp then acl_add_policies n ps (a\<lparr>rgp_policies := rgp_policies a @ [pol]\<rparr>)
      else if po_type pol \<noteq> Acl then Err (ErrString ''unable to parse policy (wrong type)'')
      else if po_name pol = ''root'' \<and> n \<noteq> 1 then Err (ErrString ''other policies present along with root'')
      else
        let a1 = (if po_name pol = ''root'' then a\<lparr>acl_root := True\<rparr> else a) in
        acl_add_policies n ps (fold (acl_add_rule pol) (po_paths pol) a1))"

definition acl_new :: "policy list \<Rightarrow> acl res" where
  "acl_new policies = acl_add_policies (length policies) policies acl_default"

section \<open>Segment wildcards\<close>

datatype seg_result = SegSkip | SegReturn | SegPush nat | SegPanic

definition bare_outcome :: "string \<Rightarrow> permissions \<Rightarrow> string list \<Rightarrow> seg_result" where
  "bare_outcome path perms segments =
     (if starts_with (join_with ''/'' segments @ ''/'') path \<and>
         \<not> has_cap (capabilities_bitmap perms) Deny \<and> capabilities_bitmap perms > 0
      then SegReturn else SegSkip)"

text \<open>
  The loop over the parts of a wildcard path, with the parts of the request path. In the mode \<open>bare\<close> the
  index of the request part can be out of range, and \<open>path_parts.len() - 2\<close> can underflow (\<open>ovf\<close> is the
  profile with overflow checks).
\<close>

fun seg_loop :: "bool \<Rightarrow> bool \<Rightarrow> string \<Rightarrow> string list \<Rightarrow> bool \<Rightarrow> nat \<Rightarrow> permissions \<Rightarrow> nat \<Rightarrow> string list \<Rightarrow>
    nat \<Rightarrow> string list \<Rightarrow> seg_result" where
  "seg_loop ovf bare path parts isp n perms i [] w segments = SegPush w"
| "seg_loop ovf bare path parts isp n perms i (a # as) w segments =
     (if length parts \<le> i then SegPanic
      else
        let part = parts ! i;
            (skip, w', segments') =
              (if a = ''+'' then (False, w + 1, segments @ [part])
               else if a = part then (False, w, segments @ [part])
               else if isp \<and> i = n - 1 \<and> starts_with part a then (False, w, segments @ drop i parts)
               else if \<not> bare then (True, w, segments)
               else (False, w, segments))
        in if skip then SegSkip
           else if bare \<and> length parts < 2 \<and> ovf then SegPanic
           else if bare \<and> 2 \<le> length parts \<and> i = length parts - 2 then bare_outcome path perms segments'
           else seg_loop ovf bare path parts isp n perms (Suc i) as w' segments')"

definition find_plus :: "string \<Rightarrow> int" where
  "find_plus s = (if CHR ''+'' \<in> set s then int (length (takeWhile (\<lambda>c. c \<noteq> CHR ''+'') s)) else - 1)"

definition strip_star :: "string \<Rightarrow> bool \<times> string" where
  "strip_star s = (if ends_with s ''*'' then (True, butlast s) else (False, s))"

definition seg_match :: "bool \<Rightarrow> bool \<Rightarrow> string \<Rightarrow> string \<times> permissions \<Rightarrow> seg_result" where
  "seg_match ovf bare path entry =
     (let (isp, cur) = strip_star (fst entry);
          acl_parts = split_on CHR ''/'' cur; parts = split_on CHR ''/'' path
      in if fst entry = [] then SegSkip
         else if \<not> bare \<and> length parts < length acl_parts then SegSkip
         else if \<not> bare \<and> \<not> isp \<and> length acl_parts \<noteq> length parts then SegSkip
         else seg_loop ovf bare path parts isp (length acl_parts) (snd entry) 0 acl_parts 0 [])"

definition wc_descr :: "string \<times> permissions \<Rightarrow> nat \<Rightarrow> wc_path_descr" where
  "wc_descr entry w =
     (let (isp, cur) = strip_star (fst entry) in
      \<lparr>first_wc_or_glob = find_plus (fst entry), wc_path = cur, wc_is_prefix = isp, wc_wildcards = w,
       wc_perms = Some (snd entry)\<rparr>)"

text \<open>The loop over the wildcard rules: an early return, or the list of the descriptions that matched.\<close>

fun wc_collect :: "bool \<Rightarrow> bool \<Rightarrow> string \<Rightarrow> (string \<times> permissions) list \<Rightarrow> wc_path_descr list \<Rightarrow>
    (permissions + wc_path_descr list) res" where
  "wc_collect ovf bare path [] ds = Ok (Inr ds)"
| "wc_collect ovf bare path (e # es) ds =
     (case seg_match ovf bare path e of
        SegSkip \<Rightarrow> wc_collect ovf bare path es ds
      | SegPush w \<Rightarrow> wc_collect ovf bare path es (ds @ [wc_descr e w])
      | SegReturn \<Rightarrow> Ok (Inl (snd e))
      | SegPanic \<Rightarrow> Panic)"

definition prefix_descr :: "string \<Rightarrow> permissions option \<Rightarrow> wc_path_descr" where
  "prefix_descr k P =
     \<lparr>first_wc_or_glob = int (length k), wc_path = k, wc_is_prefix = True, wc_wildcards = 0, wc_perms = P\<rparr>"

definition get_none_exact_paths_permissions ::
  "(string list \<Rightarrow> string \<Rightarrow> string option) \<Rightarrow> bool \<Rightarrow> acl \<Rightarrow> string \<Rightarrow> bool \<Rightarrow> permissions option res" where
  "get_none_exact_paths_permissions anc ovf a path bare =
     (let item = anc (map fst (prefix_rules a)) path;
          segs = segment_wildcard_paths a;
          ds0 = (case item of None \<Rightarrow> [] | Some k \<Rightarrow> [prefix_descr k (map_of (prefix_rules a) k)])
      in if segs = [] then
           Ok (case item of None \<Rightarrow> None | Some k \<Rightarrow> map_of (prefix_rules a) k)
         else res_bind (wc_collect ovf bare path segs ds0) (\<lambda>r.
           case r of
             Inl P \<Rightarrow> Ok (Some P)
           | Inr ds \<Rightarrow>
               if bare \<or> ds = [] then Ok None
               else Ok (wc_perms (last (sort_key wc_key ds)))))"

section \<open>The decision\<close>

definition root_results :: acl_results where
  "root_results =
     \<lparr>ar_allowed = True, ar_root_privs = True, ar_is_root = True, ar_capabilities_bitmap = 0,
      ar_granting_policies =
        [\<lparr>pi_name = ''root'', pi_namespace_id = ''root'', pi_namespace_path = [], pi_type = ''acl''\<rparr>]\<rparr>"

definition allow_operation ::
  "(string list \<Rightarrow> string \<Rightarrow> string option) \<Rightarrow> bool \<Rightarrow> acl \<Rightarrow> request \<Rightarrow> bool \<Rightarrow> acl_results res" where
  "allow_operation anc ovf a req check_only =
     (if acl_root a then Ok root_results
      else if rq_operation req = Help then Ok (acl_results_default\<lparr>ar_allowed := True\<rparr>)
      else
        let path = ensure_no_leading_slash (rq_path req) in
        case map_of (exact_rules a) path of
          Some P \<Rightarrow> Ok (perm_check P req check_only)
        | None \<Rightarrow>
            (case (if rq_operation req = List then map_of (exact_rules a) (trim_end_matches CHR ''/'' path) else None) of
               Some P \<Rightarrow> Ok (perm_check P req check_only)
             | None \<Rightarrow>
                 res_bind (get_none_exact_paths_permissions anc ovf a path False) (\<lambda>r.
                   case r of
                     Some P \<Rightarrow> Ok (perm_check P req check_only)
                   | None \<Rightarrow> Ok acl_results_default)))"


section \<open>What a wildcard rule matches\<close>

definition plus_count :: "string \<Rightarrow> nat" where
  "plus_count pat = length (filter (\<lambda>s. s = ''+'') (split_on CHR ''/'' (snd (strip_star pat))))"

definition part_matches :: "bool \<Rightarrow> nat \<Rightarrow> nat \<Rightarrow> string \<Rightarrow> string \<Rightarrow> bool" where
  "part_matches isp n j a part \<longleftrightarrow> a = ''+'' \<or> a = part \<or> (isp \<and> j = n - 1 \<and> starts_with part a)"

definition wc_matches :: "string \<Rightarrow> string \<Rightarrow> bool" where
  "wc_matches pat path \<longleftrightarrow>
     (let (isp, cur) = strip_star pat; as = split_on CHR ''/'' cur; parts = split_on CHR ''/'' path in
      pat \<noteq> [] \<and> length as \<le> length parts \<and> (isp \<or> length as = length parts) \<and>
      (\<forall>j < length as. part_matches isp (length as) j (as ! j) (parts ! j)))"

lemma seg_loop_matches:
  assumes "i + length as = n" "n \<le> length parts"
  shows "seg_loop ovf False path parts isp n P i as w segs =
    (if \<forall>j < length as. part_matches isp n (i + j) (as ! j) (parts ! (i + j))
     then SegPush (w + length (filter (\<lambda>s. s = ''+'') as)) else SegSkip)"
  using assms
proof (induction as arbitrary: i w segs)
  case (Cons a as)
  define rest where "rest \<longleftrightarrow>
      (\<forall>j < length as. part_matches isp n (Suc i + j) (as ! j) (parts ! (Suc i + j)))"
  have split: "(\<forall>j < length (a # as). part_matches isp n (i + j) ((a # as) ! j) (parts ! (i + j))) \<longleftrightarrow>
      (a = ''+'' \<or> a = parts ! i \<or> (isp \<and> i = n - 1 \<and> starts_with (parts ! i) a)) \<and> rest"
    unfolding part_matches_def [of isp n i a, symmetric] rest_def by (auto simp: less_Suc_eq_0_disj)
  have i: "i < length parts" using Cons.prems by simp
  have IH: "seg_loop ovf False path parts isp n P (Suc i) as w' segs' =
      (if rest then SegPush (w' + length (filter (\<lambda>s. s = ''+'') as)) else SegSkip)" for w' segs'
    using Cons.IH [of "Suc i"] Cons.prems by (simp add: rest_def)
  show ?case unfolding split using i IH by (auto simp: Let_def)
qed simp

lemma seg_match_eq:
  "seg_match ovf False path e =
     (if wc_matches (fst e) path then SegPush (plus_count (fst e)) else SegSkip)"
proof -
  obtain isp cur where s: "strip_star (fst e) = (isp, cur)" by fastforce
  let ?as = "split_on CHR ''/'' cur" and ?ps = "split_on CHR ''/'' path"
  have "seg_loop ovf False path ?ps isp (length ?as) P 0 ?as 0 [] =
      (if \<forall>j < length ?as. part_matches isp (length ?as) j (?as ! j) (?ps ! j)
       then SegPush (length (filter (\<lambda>s. s = ''+'') ?as)) else SegSkip)"
    if "length ?as \<le> length ?ps" for P
    using seg_loop_matches [of 0 ?as "length ?as" ?ps] that by simp
  then show ?thesis
    unfolding seg_match_def wc_matches_def plus_count_def Let_def s by simp
qed

text \<open>
  The loop over the segments of a wildcard rule decides the declarative match, segment by segment: \<open>+\<close>
  stands for one whole segment, other segments are equal, and the last segment of a rule that ended in \<open>*\<close>
  is a prefix, with any segments after it; the count it keeps is the number of \<open>+\<close> segments. It never
  indexes out of range.
\<close>

theorem seg_match_decides:
  "seg_match ovf False path (pat, P) =
     (if wc_matches pat path then SegPush (plus_count pat) else SegSkip)"
  by (simp add: seg_match_eq)

section \<open>The choice among the rules that are not exact\<close>

definition entry_descr :: "string \<times> permissions \<Rightarrow> wc_path_descr" where
  "entry_descr e = wc_descr e (plus_count (fst e))"

definition prefix_candidates ::
  "(string list \<Rightarrow> string \<Rightarrow> string option) \<Rightarrow> acl \<Rightarrow> string \<Rightarrow> wc_path_descr list" where
  "prefix_candidates anc a path =
     (case anc (map fst (prefix_rules a)) path of
        None \<Rightarrow> [] | Some k \<Rightarrow> [prefix_descr k (map_of (prefix_rules a) k)])"

definition candidates ::
  "(string list \<Rightarrow> string \<Rightarrow> string option) \<Rightarrow> acl \<Rightarrow> string \<Rightarrow> wc_path_descr list" where
  "candidates anc a path =
     prefix_candidates anc a path @
     map entry_descr (filter (\<lambda>e. wc_matches (fst e) path) (segment_wildcard_paths a))"

lemma wc_collect_eq:
  "wc_collect ovf False path es ds =
    Ok (Inr (ds @ map entry_descr (filter (\<lambda>e. wc_matches (fst e) path) es)))"
  by (induction es arbitrary: ds) (auto simp: seg_match_eq entry_descr_def)

lemma get_none_exact_eq:
  "get_none_exact_paths_permissions anc ovf a path False =
    Ok (if candidates anc a path = [] then None
        else wc_perms (last (sort_key wc_key (candidates anc a path))))"
  by (simp add: get_none_exact_paths_permissions_def candidates_def wc_collect_eq
      prefix_candidates_def prefix_descr_def Let_def split: option.split)

definition acl_wf :: "acl \<Rightarrow> bool" where
  "acl_wf a \<longleftrightarrow>
     distinct (map fst (segment_wildcard_paths a)) \<and>
     (\<forall>k \<in> fst ` set (segment_wildcard_paths a). CHR ''+'' \<in> set k)"

lemma strip_star_inj: "strip_star s = strip_star t \<Longrightarrow> s = t"
  by (auto simp: strip_star_def ends_with_iff split: if_splits)

lemma wc_descr_sel:
  "wc_path (entry_descr e) = snd (strip_star (fst e))" "wc_is_prefix (entry_descr e) = fst (strip_star (fst e))"
  "first_wc_or_glob (entry_descr e) = find_plus (fst e)"
  by (simp_all add: entry_descr_def wc_descr_def split: prod.split)

lemma find_plus_less:
  assumes "CHR ''+'' \<in> set s"
  shows "find_plus s < int (length (snd (strip_star s)))"
proof -
  have "length (takeWhile (\<lambda>c. c \<noteq> CHR ''+'') (xs @ ys)) < length xs" if "CHR ''+'' \<in> set xs" for xs ys
    using that by (induction xs) auto
  from this [of "snd (strip_star s)" "if fst (strip_star s) then ''*'' else []"] show ?thesis
    using assms by (auto simp: find_plus_def strip_star_def ends_with_iff split: if_splits)
qed

lemma candidates_inj:
  assumes "acl_wf a"
  shows "inj_on wc_key (set (candidates anc a path))"
proof -
  let ?segs = "segment_wildcard_paths a"
  have seg: "d = entry_descr e" if "e \<in> set ?segs" "e' \<in> set ?segs" "d = entry_descr e'"
    "wc_key (entry_descr e) = wc_key d" for e e' d
  proof -
    have "strip_star (fst e) = strip_star (fst e')"
      using that(3,4) by (auto simp: wc_key_def wc_descr_sel prod_eq_iff)
    then have "fst e = fst e'" by (rule strip_star_inj)
    then have "e = e'"
      using assms that(1,2) by (metis acl_wf_def eq_key_imp_eq_value prod.collapse)
    with that(3) show ?thesis by simp
  qed
  have mixed: "wc_key (prefix_descr k P) \<noteq> wc_key (entry_descr e)" if "e \<in> set ?segs" for e k P
  proof
    assume "wc_key (prefix_descr k P) = wc_key (entry_descr e)"
    then have "int (length k) = find_plus (fst e)" "k = snd (strip_star (fst e))"
      by (auto simp: wc_key_def prefix_descr_def wc_descr_sel)
    moreover have "find_plus (fst e) < int (length (snd (strip_star (fst e))))"
      using assms that by (intro find_plus_less) (auto simp: acl_wf_def)
    ultimately show False by simp
  qed
  have "x = y" if "x \<in> set (candidates anc a path)" "y \<in> set (candidates anc a path)"
    "wc_key x = wc_key y" for x y
  proof -
    have pre: "\<exists>k P. d = prefix_descr k P" "d' = d"
      if "d \<in> set (prefix_candidates anc a path)" "d' \<in> set (prefix_candidates anc a path)" for d d'
      using that by (cases "anc (map fst (prefix_rules a)) path"; auto simp: prefix_candidates_def)+
    have c: "z \<in> set (prefix_candidates anc a path) \<or> (\<exists>e \<in> set ?segs. z = entry_descr e)"
      if "z \<in> {x, y}" for z
      using that \<open>x \<in> _\<close> \<open>y \<in> _\<close> by (auto simp: candidates_def)
    show ?thesis
      using c [of x] c [of y] pre seg mixed \<open>wc_key x = wc_key y\<close> by (metis insertCI)
  qed
  then show ?thesis by (auto intro: inj_onI)
qed

lemma choice_permutation:
  assumes "acl_wf a" "mset segs = mset (segment_wildcard_paths a)"
  shows "get_none_exact_paths_permissions anc ovf (a\<lparr>segment_wildcard_paths := segs\<rparr>) path False =
    get_none_exact_paths_permissions anc ovf a path False"
proof -
  let ?b = "a\<lparr>segment_wildcard_paths := segs\<rparr>"
  have m: "mset (candidates anc ?b path) = mset (candidates anc a path)"
    using assms(2) by (simp add: candidates_def prefix_candidates_def split: option.split)
  have "sort_key wc_key (candidates anc a path) = sort_key wc_key (candidates anc ?b path)"
    by (rule sort_key_inj_key_eq) (use m candidates_inj [OF assms(1)] in auto)
  moreover have "candidates anc ?b path = [] \<longleftrightarrow> candidates anc a path = []"
    using m by (metis mset_zero_iff)
  ultimately show ?thesis by (simp add: get_none_exact_eq)
qed


section \<open>What a path is granted\<close>

definition same_slot :: "policy_path_rules \<Rightarrow> policy_path_rules \<Rightarrow> bool" where
  "same_slot p q \<longleftrightarrow>
     pp_path p = pp_path q \<and> pp_has_segment_wildcards p = pp_has_segment_wildcards q \<and>
     (pp_has_segment_wildcards p \<or> pp_is_prefix p = pp_is_prefix q)"

definition rule_has :: "policy_path_rules \<Rightarrow> capability \<Rightarrow> bool" where
  "rule_has r c \<longleftrightarrow> has_cap (capabilities_bitmap (pp_permissions r)) c"

definition granted :: "policy_path_rules list \<Rightarrow> policy_path_rules \<Rightarrow> capability \<Rightarrow> bool" where
  "granted rules pr c \<longleftrightarrow>
     (if \<exists>r \<in> set rules. same_slot r pr \<and> rule_has r Deny then c = Deny
      else \<exists>r \<in> set rules. same_slot r pr \<and> rule_has r c)"

definition rule_wf :: "policy_path_rules \<Rightarrow> bool" where
  "rule_wf r \<longleftrightarrow>
     deny_normal (pp_permissions r) \<and> (pp_has_segment_wildcards r \<longrightarrow> CHR ''+'' \<in> set (pp_path r))"

definition acl_rules :: "policy list \<Rightarrow> policy_path_rules list" where
  "acl_rules ps = concat (map po_paths (filter (\<lambda>p. po_type p = Acl) ps))"

lemma same_slot_sym: "same_slot p q \<longleftrightarrow> same_slot q p"
  by (auto simp: same_slot_def)

lemma same_slot_refl [simp]: "same_slot p p"
  by (simp add: same_slot_def)

lemma same_slot_trans: "same_slot p q \<Longrightarrow> same_slot q r \<Longrightarrow> same_slot p r"
  by (auto simp: same_slot_def)

lemma init_rules_wf: "rule_wf (init_rules e)"
proof -
  have "CHR ''+'' \<in> set p" if "p = ''+'' \<or> str_contains p ''/+'' \<or> starts_with p ''+/''" for p
    using that by (auto simp: str_contains_iff starts_with_iff_prefix prefix_def)
  then show ?thesis
    using init_rules_deny_normal [of e] by (auto simp: rule_wf_def init_rules_def Let_def)
qed

lemma add_granting_fold_bitmap:
  "capabilities_bitmap (fold (\<lambda>cap P. if has_cap bitmap cap then
      P\<lparr>granting_policies_map := g cap P\<rparr> else P) caps P) = capabilities_bitmap P"
  by (induction caps arbitrary: P) auto

lemma add_granting_bitmap [simp]:
  "capabilities_bitmap (add_granting_policy_to_map pol bitmap P) = capabilities_bitmap P"
  unfolding add_granting_policy_to_map_def by (rule add_granting_fold_bitmap)

lemma get_insert:
  "acl_get_permissions (acl_insert_permissions pr P a) q =
     (if same_slot pr q then Some P else acl_get_permissions a q)"
  by (auto simp: acl_get_permissions_def acl_insert_permissions_def same_slot_def update_conv')

lemma get_same_slot: "same_slot p q \<Longrightarrow> acl_get_permissions a p = acl_get_permissions a q"
  by (auto simp: acl_get_permissions_def same_slot_def)

text \<open>The list holds, for every path, what the rules added so far grant it.\<close>

definition slot_ok :: "permissions option \<Rightarrow> policy_path_rules list \<Rightarrow> policy_path_rules \<Rightarrow> bool" where
  "slot_ok x rules q =
     (case x of
        None \<Rightarrow> \<not> (\<exists>r \<in> set rules. same_slot r q)
      | Some P \<Rightarrow> (\<exists>r \<in> set rules. same_slot r q) \<and> deny_normal P \<and>
          (\<forall>c. has_cap (capabilities_bitmap P) c \<longleftrightarrow> granted rules q c))"

definition acl_ok :: "acl \<Rightarrow> policy_path_rules list \<Rightarrow> bool" where
  "acl_ok a rules \<longleftrightarrow> (\<forall>q. slot_ok (acl_get_permissions a q) rules q)"

lemma same_slot_right: "same_slot p q \<Longrightarrow> same_slot r p \<longleftrightarrow> same_slot r q"
  by (auto simp: same_slot_def)

lemma granted_slot: "same_slot p q \<Longrightarrow> granted rules p c \<longleftrightarrow> granted rules q c"
  by (auto simp: granted_def same_slot_right)

lemma slot_ok_cong: "same_slot p q \<Longrightarrow> slot_ok x rules p \<longleftrightarrow> slot_ok x rules q"
  by (cases x) (simp_all add: slot_ok_def same_slot_right granted_slot)

lemma slot_ok_other:
  assumes "\<not> same_slot r q"
  shows "slot_ok x (rules @ [r]) q \<longleftrightarrow> slot_ok x rules q"
proof -
  have "granted (rules @ [r]) q = granted rules q" using assms by (auto simp: granted_def fun_eq_iff)
  then show ?thesis using assms by (cases x) (simp_all add: slot_ok_def)
qed

lemma slot_ok_first:
  assumes "slot_ok None rules r" "deny_normal (pp_permissions r)"
    and "capabilities_bitmap P = capabilities_bitmap (pp_permissions r)"
  shows "slot_ok (Some P) (rules @ [r]) r"
  using assms by (auto simp: slot_ok_def granted_def rule_has_def deny_normal_def)

lemma slot_ok_merge:
  assumes "slot_ok (Some ex) rules r" "deny_normal (pp_permissions r)"
    and "capabilities_bitmap P = capabilities_bitmap (perm_merge ex (pp_permissions r))"
  shows "slot_ok (Some P) (rules @ [r]) r"
proof -
  have ex: "deny_normal ex" "\<And>c. has_cap (capabilities_bitmap ex) c \<longleftrightarrow> granted rules r c"
    using assms(1) by (auto simp: slot_ok_def)
  have "has_cap (capabilities_bitmap P) c \<longleftrightarrow> granted (rules @ [r]) r c" for c
    unfolding assms(3) perm_merge_caps [OF ex(1)] ex(2) by (auto simp: granted_def rule_has_def)
  moreover have "deny_normal P"
    using perm_merge_deny_normal [OF ex(1) assms(2)] assms(3) by (simp add: deny_normal_def)
  ultimately show ?thesis by (simp add: slot_ok_def)
qed

lemma acl_add_rule_ok:
  assumes ok: "acl_ok a rules" and r: "deny_normal (pp_permissions r)"
  shows "acl_ok (acl_add_rule pol r a) (rules @ [r])"
proof -
  have other: "acl_get_permissions (acl_add_rule pol r a) q = acl_get_permissions a q"
    if "\<not> same_slot r q" for q
    using that by (auto simp: acl_add_rule_def get_insert Let_def split: option.split)
  have own: "slot_ok (acl_get_permissions (acl_add_rule pol r a) r) (rules @ [r]) r"
  proof (cases "acl_get_permissions a r")
    case None
    with ok have "slot_ok None rules r" by (metis acl_ok_def)
    from slot_ok_first [OF this r] show ?thesis
      by (simp add: acl_add_rule_def None get_insert Let_def)
  next
    case (Some ex)
    with ok have s: "slot_ok (Some ex) rules r" by (metis acl_ok_def)
    have "perm_merge ex (pp_permissions r) = ex" if "has_cap (capabilities_bitmap ex) Deny"
      using that by (simp add: perm_merge_def)
    then show ?thesis
      using slot_ok_merge [OF s r] by (simp add: acl_add_rule_def Some get_insert Let_def)
  qed
  have "slot_ok (acl_get_permissions (acl_add_rule pol r a) q) (rules @ [r]) q" for q
  proof (cases "same_slot r q")
    case True
    then show ?thesis using own slot_ok_cong [OF True] get_same_slot [OF True] by metis
  next
    case False
    then show ?thesis using ok other slot_ok_other by (simp add: acl_ok_def)
  qed
  then show ?thesis by (simp add: acl_ok_def)
qed

lemma acl_add_rules_ok:
  assumes "acl_ok a rules" "\<And>r. r \<in> set rs \<Longrightarrow> deny_normal (pp_permissions r)"
  shows "acl_ok (fold (acl_add_rule pol) rs a) (rules @ rs)"
  using assms
proof (induction rs arbitrary: a rules)
  case (Cons r rs)
  then have "acl_ok (acl_add_rule pol r a) (rules @ [r])" by (simp add: acl_add_rule_ok)
  from Cons.IH [OF this] Cons.prems(2) show ?case by simp
qed simp


lemma acl_add_policies_ok:
  assumes "acl_add_policies n ps a = Ok b" "acl_ok a rules"
    and "\<And>r. r \<in> set (acl_rules ps) \<Longrightarrow> deny_normal (pp_permissions r)"
  shows "acl_ok b (rules @ acl_rules ps)"
  using assms
proof (induction ps arbitrary: a rules)
  case Nil
  then show ?case by (simp add: acl_rules_def)
next
  case (Cons p ps)
  have keep: "acl_ok (a\<lparr>rgp_policies := x\<rparr>) rules" "acl_ok (a\<lparr>acl_root := y\<rparr>) rules" for x y
  proof -
    have "acl_get_permissions (a\<lparr>rgp_policies := x\<rparr>) = acl_get_permissions a"
      "acl_get_permissions (a\<lparr>acl_root := y\<rparr>) = acl_get_permissions a"
      by (simp_all add: acl_get_permissions_def fun_eq_iff)
    then show "acl_ok (a\<lparr>rgp_policies := x\<rparr>) rules" "acl_ok (a\<lparr>acl_root := y\<rparr>) rules"
      using Cons.prems(2) by (simp_all add: acl_ok_def)
  qed
  show ?case
  proof (cases "po_type p = Rgp")
    case True
    then show ?thesis
      using Cons.IH [OF _ keep(1)] Cons.prems(1,3) by (simp add: acl_rules_def)
  next
    case False
    define a1 where "a1 = (if po_name p = ''root'' then a\<lparr>acl_root := True\<rparr> else a)"
    have acl: "po_type p = Acl" and rest: "acl_add_policies n ps (fold (acl_add_rule p) (po_paths p) a1) = Ok b"
      using Cons.prems(1) False by (auto simp: a1_def Let_def split: if_splits)
    have "acl_ok a1 rules" using keep(2) Cons.prems(2) by (simp add: a1_def)
    then have "acl_ok (fold (acl_add_rule p) (po_paths p) a1) (rules @ po_paths p)"
      using Cons.prems(3) acl by (intro acl_add_rules_ok) (auto simp: acl_rules_def)
    from Cons.IH [OF rest this] show ?thesis
      using Cons.prems(3) acl by (simp add: acl_rules_def)
  qed
qed

lemma acl_new_ok:
  assumes "acl_new ps = Ok a" "\<And>r. r \<in> set (acl_rules ps) \<Longrightarrow> deny_normal (pp_permissions r)"
  shows "acl_ok a (acl_rules ps)"
proof -
  have "acl_ok acl_default []" by (simp add: acl_ok_def slot_ok_def acl_default_def acl_get_permissions_def)
  from acl_add_policies_ok [OF assms(1) [unfolded acl_new_def] this assms(2)] show ?thesis by simp
qed

lemma acl_get_after_new:
  assumes "acl_new ps = Ok a" "\<And>r. r \<in> set (acl_rules ps) \<Longrightarrow> deny_normal (pp_permissions r)"
    and "pr \<in> set (acl_rules ps)"
  shows "\<exists>P. acl_get_permissions a pr = Some P \<and> deny_normal P \<and>
    (\<forall>c. has_cap (capabilities_bitmap P) c \<longleftrightarrow> granted (acl_rules ps) pr c)"
  using acl_new_ok [OF assms(1,2)] assms(3)
  by (auto simp: acl_ok_def slot_ok_def dest!: spec [of _ pr] split: option.splits)

text \<open>
  C7: what a path is granted by the access control list of a set of policies. For every rule of the policies,
  the list has permissions for its path; they are a denial alone if some policy denies that path, and
  otherwise exactly the capabilities that some policy grants it.
\<close>

theorem acl_grants_union_unless_denied:
  assumes "acl_new ps = Ok a" "\<forall>r \<in> set (acl_rules ps). rule_wf r" "pr \<in> set (acl_rules ps)"
  shows "\<exists>P. acl_get_permissions a pr = Some P \<and>
    (\<forall>c. has_cap (capabilities_bitmap P) c \<longleftrightarrow>
      (if \<exists>r \<in> set (acl_rules ps). same_slot r pr \<and> rule_has r Deny then c = Deny
       else \<exists>r \<in> set (acl_rules ps). same_slot r pr \<and> rule_has r c))"
  using acl_get_after_new [OF assms(1) _ assms(3)] assms(2) by (auto simp: rule_wf_def granted_def)

lemma wf_insert: "acl_wf a \<Longrightarrow> rule_wf r \<Longrightarrow> acl_wf (acl_insert_permissions r P a)"
proof -
  have "(\<forall>x \<in> fst ` set (AList.update k P al). Q x) \<longleftrightarrow> Q k \<and> (\<forall>x \<in> fst ` set al. Q x)" for k al Q
    unfolding dom_update by blast
  note this [of _ _ "\<lambda>k. CHR ''+'' \<in> set k"]
  then show "acl_wf a \<Longrightarrow> rule_wf r \<Longrightarrow> acl_wf (acl_insert_permissions r P a)"
    unfolding acl_wf_def acl_insert_permissions_def rule_wf_def by (auto simp: distinct_update)
qed

lemma wf_add_rule: "acl_wf a \<Longrightarrow> rule_wf r \<Longrightarrow> acl_wf (acl_add_rule pol r a)"
  by (auto simp: acl_add_rule_def Let_def wf_insert split: option.split)

lemma wf_add_rules:
  "acl_wf a \<Longrightarrow> (\<And>r. r \<in> set rs \<Longrightarrow> rule_wf r) \<Longrightarrow> acl_wf (fold (acl_add_rule pol) rs a)"
  by (induction rs arbitrary: a) (auto simp: wf_add_rule)

lemma wf_add_policies:
  assumes "acl_add_policies n ps a = Ok b" "acl_wf a" "\<And>r. r \<in> set (acl_rules ps) \<Longrightarrow> rule_wf r"
  shows "acl_wf b"
  using assms
proof (induction ps arbitrary: a)
  case (Cons p ps)
  have keep: "acl_wf (a\<lparr>rgp_policies := x\<rparr>)" "acl_wf (a\<lparr>acl_root := y\<rparr>)" for x y
    using Cons.prems(2) by (simp_all add: acl_wf_def)
  have "acl_wf (fold (acl_add_rule p) (po_paths p) (if po_name p = ''root'' then a\<lparr>acl_root := True\<rparr> else a))"
    if "po_type p = Acl"
    using keep(2) Cons.prems(2,3) that by (intro wf_add_rules) (auto simp: acl_rules_def)
  then show ?case
    using Cons.IH Cons.prems keep(1) by (auto simp: Let_def acl_rules_def split: if_splits)
qed simp

lemma acl_new_wf:
  assumes "acl_new ps = Ok a" "\<And>r. r \<in> set (acl_rules ps) \<Longrightarrow> rule_wf r"
  shows "acl_wf a"
  using wf_add_policies [OF assms(1) [unfolded acl_new_def] _ assms(2)]
  by (simp add: acl_wf_def acl_default_def)

text \<open>
  The choice of a rule for a path with no exact rule does not depend on the order in which the concurrent
  map of wildcard rules is iterated, for every list built from parsed policies.
\<close>

theorem acl_choice_ignores_iteration_order:
  assumes "acl_new ps = Ok a" "\<forall>r \<in> set (acl_rules ps). rule_wf r"
    and "mset segs = mset (segment_wildcard_paths a)"
  shows "get_none_exact_paths_permissions anc ovf (a\<lparr>segment_wildcard_paths := segs\<rparr>) path False =
    get_none_exact_paths_permissions anc ovf a path False"
  using choice_permutation [OF acl_new_wf assms(3)] assms(1,2) by blast

section \<open>Decisions\<close>

text \<open>
  Default deny. A list that is not the root list does not allow an operation other than help on a path
  for which it has no exact rule (nor, for a listing, one without the trailing slashes), no prefix rule that
  is a prefix of the path, and no wildcard rule that matches it.
\<close>

theorem acl_default_deny:
  assumes "radix anc" "\<not> acl_root a" "rq_operation req \<noteq> Help"
    and "path = ensure_no_leading_slash (rq_path req)"
    and "map_of (exact_rules a) path = None"
    and "rq_operation req = List \<Longrightarrow> map_of (exact_rules a) (trim_end_matches CHR ''/'' path) = None"
    and "\<forall>(k, P) \<in> set (prefix_rules a). \<not> starts_with path k"
    and "\<forall>(k, P) \<in> set (segment_wildcard_paths a). \<not> wc_matches k path"
  shows "allow_operation anc ovf a req check_only = Ok acl_results_default"
proof -
  have "anc (map fst (prefix_rules a)) path = None"
    using radix.anc_None [OF assms(1), of "map fst (prefix_rules a)" path] assms(7) by auto
  moreover have "filter (\<lambda>e. wc_matches (fst e) path) (segment_wildcard_paths a) = []"
    using assms(8) by (auto simp: filter_empty_conv)
  ultimately have "candidates anc a path = []"
    by (simp add: candidates_def prefix_candidates_def)
  then show ?thesis
    using assms(2-6) by (auto simp: allow_operation_def get_none_exact_eq Let_def)
qed

text \<open>
  A denial is final. If one of the policies denies the exact path of a request, the list built from all
  of them does not allow the request, whatever the other policies grant, unless it is the root list or
  asks for help.
\<close>

theorem acl_exact_deny_is_final:
  assumes "acl_new ps = Ok a" "\<forall>r \<in> set (acl_rules ps). rule_wf r" "\<not> acl_root a"
    and "pr \<in> set (acl_rules ps)" "rule_has pr Deny" "\<not> pp_has_segment_wildcards pr" "\<not> pp_is_prefix pr"
    and "pp_path pr = ensure_no_leading_slash (rq_path req)" "rq_operation req \<noteq> Help"
  shows "\<exists>r. allow_operation anc ovf a req False = Ok r \<and> \<not> ar_allowed r"
proof -
  obtain P where P: "acl_get_permissions a pr = Some P" "deny_normal P"
    "\<And>c. has_cap (capabilities_bitmap P) c \<longleftrightarrow> granted (acl_rules ps) pr c"
    using acl_get_after_new [OF assms(1) _ assms(4)] assms(2) by (auto simp: rule_wf_def)
  have "granted (acl_rules ps) pr Deny"
    using assms(4,5) by (auto simp: granted_def)
  then have "capabilities_bitmap P = to_bits Deny" using P(2,3) by (simp add: deny_normal_def)
  then have "\<not> ar_allowed (perm_check P req False)"
    by (auto simp: perm_check_def acl_results_default_def Let_def op_capability_def split: operation.splits)
  moreover have "map_of (exact_rules a) (ensure_no_leading_slash (rq_path req)) = Some P"
    using P(1) assms(6-8) by (simp add: acl_get_permissions_def)
  ultimately show ?thesis using assms(3,9) by (simp add: allow_operation_def)
qed

section \<open>A concrete list\<close>

definition demo_rule :: "string \<Rightarrow> capability list \<Rightarrow> string \<times> policy_path_config" where
  "demo_rule path caps = (path, \<lparr>pc_policy = None, pc_capabilities = caps, pc_min_wrapping_ttl = 0,
     pc_max_wrapping_ttl = 0, pc_allowed_parameters = [], pc_denied_parameters = [], pc_required_parameters = []\<rparr>)"

definition demo_policy :: "string \<Rightarrow> (string \<times> capability list) list \<Rightarrow> policy" where
  "demo_policy name rs = \<lparr>po_name = name, po_paths = map (\<lambda>(p, cs). init_rules (demo_rule p cs)) rs, po_raw = [],
     po_type = Acl, po_templated = False\<rparr>"

definition demo_policies :: "policy list" where
  "demo_policies = [demo_policy ''dev'' [(''secret/a'', [CapRead]), (''secret/+/b'', [CapRead]), (''kv/*'', [CapRead])],
     demo_policy ''ops'' [(''secret/a'', [Deny]), (''secret/+/*'', [Update])]]"

lemma demo_rules_wf: "\<forall>r \<in> set (acl_rules demo_policies). rule_wf r"
  by (auto simp: acl_rules_def demo_policies_def demo_policy_def init_rules_wf)

definition demo_acl :: acl where
  "demo_acl = (case acl_new demo_policies of Ok a \<Rightarrow> a | _ \<Rightarrow> acl_default)"

lemma demo_acl_new: "acl_new demo_policies = Ok demo_acl"
proof -
  have "is_ok (acl_new demo_policies)"
    by (simp add: acl_new_def demo_policies_def demo_policy_def Let_def)
  then show ?thesis by (auto simp: is_ok_iff demo_acl_def)
qed

definition demo_denied :: policy_path_rules where
  "demo_denied = init_rules (demo_rule ''secret/a'' [Deny])"

lemma demo_denied_in: "demo_denied \<in> set (acl_rules demo_policies)"
  by (simp add: acl_rules_def demo_policies_def demo_policy_def demo_denied_def)

theorem acl_grants_union_unless_denied_witness:
  "\<exists>P. acl_get_permissions demo_acl demo_denied = Some P \<and>
    (\<forall>c. has_cap (capabilities_bitmap P) c \<longleftrightarrow>
      (if \<exists>r \<in> set (acl_rules demo_policies). same_slot r demo_denied \<and> rule_has r Deny then c = Deny
       else \<exists>r \<in> set (acl_rules demo_policies). same_slot r demo_denied \<and> rule_has r c))"
  by (rule acl_grants_union_unless_denied [OF demo_acl_new demo_rules_wf demo_denied_in])

theorem acl_choice_ignores_iteration_order_witness:
  "get_none_exact_paths_permissions longest_ancestor True
     (demo_acl\<lparr>segment_wildcard_paths := rev (segment_wildcard_paths demo_acl)\<rparr>) ''secret/x/b'' False =
   get_none_exact_paths_permissions longest_ancestor True demo_acl ''secret/x/b'' False"
  by (rule acl_choice_ignores_iteration_order [OF demo_acl_new demo_rules_wf]) simp

theorem acl_default_deny_witness:
  "allow_operation longest_ancestor True acl_default (request_new ''sys/seal'') False = Ok acl_results_default"
  by (rule acl_default_deny [OF la.radix_axioms _ _ refl]) (simp_all add: acl_default_def request_new_def)

theorem acl_exact_deny_is_final_witness:
  "\<exists>r. allow_operation longest_ancestor True demo_acl (request_new ''secret/a'') False = Ok r \<and> \<not> ar_allowed r"
proof -
  have root: "\<not> acl_root demo_acl" by code_simp
  have d: "rule_has demo_denied Deny" "\<not> pp_has_segment_wildcards demo_denied" "\<not> pp_is_prefix demo_denied"
    "pp_path demo_denied = ensure_no_leading_slash (rq_path (request_new ''secret/a''))" by code_simp+
  show ?thesis
    by (rule acl_exact_deny_is_final [OF demo_acl_new demo_rules_wf root demo_denied_in d])
      (simp add: request_new_def)
qed

end
