(* ===== verification/Kv.thy ===== *)
theory Kv
  imports Logical
begin

text \<open>
  The key-value secrets engine, \<open>src/modules/kv/mod.rs\<close>. Its handlers store the body of a request, as JSON, under
  the path of the request in the view the router gave to the request.

  The JSON codec and the parser of durations are in the record \<open>kv_env\<close>, with the clock. Shown, through the
  dispatch of the backend: what is written is read back until it is deleted, another path is not touched, and the
  lease of a response.
\<close>

section \<open>Model\<close>

record kv_env =
  kv_to_bytes :: "json_obj \<Rightarrow> bytes"
  kv_from_slice :: "bytes \<Rightarrow> json_obj option"
  kv_parse_duration :: "string \<Rightarrow> duration option"
  kv_now :: int

definition DEFAULT_LEASE_TTL :: duration where
  "DEFAULT_LEASE_TTL = from_secs 3600"

text \<open>A number of seconds as \<open>i64\<close> is cast to \<open>u64\<close>, which wraps a negative one.\<close>

definition kv_duration :: "kv_env \<Rightarrow> json \<Rightarrow> duration option" where
  "kv_duration E v =
     (case as_i64 v of
        Some i \<Rightarrow> Some (from_secs (nat (i mod 2 ^ 64)))
      | None \<Rightarrow> (case as_str v of Some s \<Rightarrow> kv_parse_duration E s | None \<Rightarrow> None))"

definition kv_ttl :: "kv_env \<Rightarrow> json_obj \<Rightarrow> duration option" where
  "kv_ttl E data =
     (case map_of data ''ttl'' of
        Some v \<Rightarrow> kv_duration E v
      | None \<Rightarrow> (case map_of data ''lease'' of Some v \<Rightarrow> kv_duration E v | None \<Rightarrow> None))"

definition kv_lease :: "kv_env \<Rightarrow> json_obj \<Rightarrow> lease \<Rightarrow> lease" where
  "kv_lease E data l =
     (case kv_ttl E data of
        Some d \<Rightarrow> l\<lparr>renewable := True, ttl := d\<rparr>
      | None \<Rightarrow> l\<lparr>renewable := False, ttl := DEFAULT_LEASE_TTL\<rparr>)"

definition kv_response :: "kv_env \<Rightarrow> secret_info \<Rightarrow> json_obj \<Rightarrow> response" where
  "kv_response E info data =
     (let resp = secret_response (kv_now E) info (Some data) None in
      resp\<lparr>rs_secret := map_option (\<lambda>sd. sd\<lparr>sd_lease := kv_lease E data (sd_lease sd)\<rparr>) (rs_secret resp)\<rparr>)"

text \<open>\<open>handle_read\<close>; \<open>secrets\<close> is \<open>Backend::secret\<close> of the backend that called it, whose \<open>unwrap\<close> may panic.\<close>

definition kv_handle_read ::
  "'s storage_ops \<Rightarrow> kv_env \<Rightarrow> (string \<Rightarrow> secret_info option) \<Rightarrow> 's handler" where
  "kv_handle_read sops E secrets st =
     on_state st (\<lambda>req.
       op_bind (rq_storage_get sops req (rq_path req)) (\<lambda>entry.
         case entry of
           None \<Rightarrow> op_return None
         | Some e \<Rightarrow>
             (case kv_from_slice E (se_value e) of
                None \<Rightarrow> op_fail (External SerdeJson ''invalid data'')
              | Some data \<Rightarrow>
                  (case secrets ''kv'' of
                     None \<Rightarrow> op_res Panic
                   | Some info \<Rightarrow> op_return (Some (kv_response E info data))))))"

definition kv_handle_write :: "'s storage_ops \<Rightarrow> kv_env \<Rightarrow> 's handler" where
  "kv_handle_write sops E st =
     on_state st (\<lambda>req.
       case rq_body req of
         None \<Rightarrow> op_fail ErrModuleKvDataFieldMissing
       | Some body \<Rightarrow>
           op_bind (rq_storage_put sops req \<lparr>se_key = rq_path req, se_value = kv_to_bytes E body\<rparr>) (\<lambda>_.
             op_return None))"

definition kv_handle_delete :: "'s storage_ops \<Rightarrow> 's handler" where
  "kv_handle_delete sops st =
     on_state st (\<lambda>req. op_bind (rq_storage_delete sops req (rq_path req)) (\<lambda>_. op_return None))"

definition kv_handle_list :: "'s storage_ops \<Rightarrow> 's handler" where
  "kv_handle_list sops st =
     on_state st (\<lambda>req. op_bind (rq_storage_list sops req (rq_path req)) (\<lambda>keys.
       op_return (Some (list_response keys))))"

definition kv_handle_noop :: "'s handler" where
  "kv_handle_noop st = (Ok None, st)"

definition kv_secrets :: "string \<Rightarrow> secret_info option" where
  "kv_secrets key =
     (if key = ''kv'' then Some \<lparr>si_type = ''kv'', si_default_duration = 0, si_renewable = True\<rparr> else None)"

definition kv_new_backend :: "'s storage_ops \<Rightarrow> kv_env \<Rightarrow> 's logical_backend" where
  "kv_new_backend sops E =
     \<lparr>lb_paths =
        [\<lparr>bp_path = \<lparr>lp_pattern = ''.*'',
            lp_fields = [(''ttl'', \<lparr>required = False, field_type = IntType, field_default = JString []\<rparr>)]\<rparr>,
          bp_operations =
            [(Read, kv_handle_read sops E kv_secrets), (Write, kv_handle_write sops E),
             (Delete, kv_handle_delete sops), (List, kv_handle_list sops)]\<rparr>],
      lb_paths_re = [], lb_root_paths = [], lb_unauth_paths = [],
      lb_secrets = [\<lparr>secret_type = ''kv'', default_duration = 0,
        renew_handler = Some (kv_handle_read sops E kv_secrets), revoke_handler = Some kv_handle_noop\<rparr>],
      lb_auth_renew_handler = None\<rparr>"

text \<open>The constructor that \<open>setup\<close> registers: a backend with its patterns compiled.\<close>

definition kv_backend_new_func :: "(string \<Rightarrow> bool) \<Rightarrow> 's storage_ops \<Rightarrow> kv_env \<Rightarrow> 's logical_backend res" where
  "kv_backend_new_func valid_re sops E =
     (case backend_init valid_re (kv_new_backend sops E) of
        (Ok _, b) \<Rightarrow> Ok b | (Err e, _) \<Rightarrow> Err e | (Panic, _) \<Rightarrow> Panic)"

text \<open>The secrets its handlers see are the ones of the backend.\<close>

lemma kv_secrets_of_backend:
  "kv_backend_new_func valid_re sops E = Ok b \<Longrightarrow> map_option info_of (find_secret b key) = kv_secrets key"
  by (auto simp: kv_backend_new_func_def backend_init_def kv_new_backend_def find_secret_def kv_secrets_def
      info_of_def secret_renewable_def Let_def split: res.splits prod.splits if_splits)

text \<open>A negative number of seconds becomes an enormous lease.\<close>

lemma kv_negative_ttl: "kv_ttl E [(''ttl'', JNum (- 1))] = Some (from_secs (2 ^ 64 - 1))"
  by (simp add: kv_ttl_def kv_duration_def as_i64_def)

section \<open>The engine is a map from paths to documents\<close>

text \<open>
  The specification: a map from paths to documents. A read answers with the document and a lease for it, a write
  replaces the document of its path, a delete removes it.
\<close>

datatype kv_cmd = KvRead string | KvWrite string json_obj | KvDelete string

fun kv_spec :: "kv_env \<Rightarrow> (string \<Rightarrow> json_obj option) \<Rightarrow> kv_cmd list \<Rightarrow> response option list" where
  "kv_spec E m [] = []"
| "kv_spec E m (KvRead p # cs) = map_option (kv_response E (the (kv_secrets ''kv''))) (m p) # kv_spec E m cs"
| "kv_spec E m (KvWrite p d # cs) = None # kv_spec E (m(p \<mapsto> d)) cs"
| "kv_spec E m (KvDelete p # cs) = None # kv_spec E (m(p := None)) cs"

fun kv_request :: "barrier_view \<Rightarrow> request \<Rightarrow> kv_cmd \<Rightarrow> request" where
  "kv_request v req (KvRead p) = req\<lparr>rq_operation := Read, rq_path := p, rq_storage := Some v\<rparr>"
| "kv_request v req (KvWrite p d) =
     req\<lparr>rq_operation := Write, rq_path := p, rq_storage := Some v, rq_body := Some d\<rparr>"
| "kv_request v req (KvDelete p) = req\<lparr>rq_operation := Delete, rq_path := p, rq_storage := Some v\<rparr>"

text \<open>A sequence of requests, each dispatched by the backend in the state the previous one left.\<close>

fun kv_run ::
  "regex \<Rightarrow> 's logical_backend \<Rightarrow> barrier_view \<Rightarrow> request \<Rightarrow> 's \<Rightarrow> kv_cmd list \<Rightarrow> response option res list" where
  "kv_run captures b v req s [] = []"
| "kv_run captures b v req s (c # cs) =
     (case backend_handle_request captures b (s, kv_request v req c) of
        (r, (s', _)) \<Rightarrow> r # kv_run captures b v req s' cs)"

fun kv_path :: "kv_cmd \<Rightarrow> string" where
  "kv_path (KvRead p) = p"
| "kv_path (KvWrite p d) = p"
| "kv_path (KvDelete p) = p"

text \<open>The documents the codec gives back as they were.\<close>

definition kv_doc :: "kv_env \<Rightarrow> json_obj \<Rightarrow> bool" where
  "kv_doc E d \<longleftrightarrow> kv_from_slice E (kv_to_bytes E d) = Some d"

fun kv_cmd_ok :: "(string \<Rightarrow> bool) \<Rightarrow> regex \<Rightarrow> kv_env \<Rightarrow> kv_cmd \<Rightarrow> bool" where
  "kv_cmd_ok valid captures E (KvWrite p d) \<longleftrightarrow> valid p \<and> captures ''^.*$'' p = Some [] \<and> kv_doc E d"
| "kv_cmd_ok valid captures E c \<longleftrightarrow> valid (kv_path c) \<and> captures ''^.*$'' (kv_path c) = Some []"

definition kv_abs ::
  "(string \<Rightarrow> bool) \<Rightarrow> kv_env \<Rightarrow> (string \<Rightarrow> bytes option) \<Rightarrow> (string \<Rightarrow> json_obj option) \<Rightarrow> bool" where
  "kv_abs valid E st m \<longleftrightarrow>
     (\<forall>k. valid k \<longrightarrow> st k = map_option (kv_to_bytes E) (m k) \<and> (\<forall>d. m k = Some d \<longrightarrow> kv_doc E d))"

lemma kv_dispatch:
  assumes b: "kv_backend_new_func valid_re sops E = Ok b"
    and p: "captures ''^.*$'' (rq_path req) = Some []" and st: "rq_storage req = Some v"
    and op: "(rq_operation req, h) \<in>
      {(Read, kv_handle_read sops E kv_secrets), (Write, kv_handle_write sops E), (Delete, kv_handle_delete sops)}"
    and h: "\<And>mp. \<exists>rq. h (s, req\<lparr>rq_match_path := mp\<rparr>) = (Ok r, (s', rq))"
  shows "\<exists>rq. backend_handle_request captures b (s, req) = (Ok r, (s', rq))"
proof -
  have a: "anchored ''.*'' = ''^.*$''" by code_simp
  let ?re = "[''^.*$'']"
  have b': "b = (kv_new_backend sops E)\<lparr>lb_paths_re := ?re\<rparr>"
    using b a by (auto simp: kv_backend_new_func_def backend_init_def kv_new_backend_def Let_def
        split: if_splits)
  let ?p = "bp_path (hd (lb_paths (kv_new_backend sops E)))"
  have m: "match_path captures b (rq_path req) = Ok (Some (hd (lb_paths (kv_new_backend sops E)), []))"
    unfolding b' using p by (simp add: match_path_def kv_new_backend_def)
  have o: "map_of (bp_operations (hd (lb_paths (kv_new_backend sops E)))) (rq_operation req) = Some h"
    using op by (auto simp: kv_new_backend_def)
  obtain rq where h': "h (s, req\<lparr>rq_match_path := Some ?p\<rparr>) = (Ok r, (s', rq))" using h by blast
  have "rq_operation req \<noteq> Renew" "rq_operation req \<noteq> Revoke" "rq_operation req \<noteq> Help" using op by auto
  then show ?thesis
    using m o h' st by (simp add: backend_handle_request_def with_captures_def)
qed

context storage_view
begin

lemma kv_step:
  assumes b: "kv_backend_new_func valid_re sops E = Ok b" and R: "ready s"
    and A: "kv_abs (view_valid valid v) E (view_stored stored v s) m"
    and c: "kv_cmd_ok (view_valid valid v) captures E c"
  shows "\<exists>s' m' rq. backend_handle_request captures b (s, kv_request v req c) =
      (Ok (hd (kv_spec E m [c])), (s', rq)) \<and>
    ready s' \<and> kv_abs (view_valid valid v) E (view_stored stored v s') m' \<and>
    (\<forall>cs. tl (kv_spec E m (c # cs)) = kv_spec E m' cs)"
proof (cases c)
  case (KvRead p)
  with c have p: "view_valid valid v p" "captures ''^.*$'' p = Some []" by simp_all
  let ?r = "map_option (kv_response E (the (kv_secrets ''kv''))) (m p)"
  have "\<exists>rq. backend_handle_request captures b (s, kv_request v req c) = (Ok ?r, (s, rq))"
  proof (rule kv_dispatch [OF b, where h = "kv_handle_read sops E kv_secrets"])
    show "\<exists>rq. kv_handle_read sops E kv_secrets (s, (kv_request v req c)\<lparr>rq_match_path := mp\<rparr>) = (Ok ?r, (s, rq))" for mp
      using view_get_stored [OF R p(1)] A p(1) KvRead
      by (cases "m p") (auto simp: kv_handle_read_def on_state_def rq_storage_get_def on_storage_def op_bind_def
          kv_abs_def kv_doc_def kv_secrets_def)
  qed (use KvRead p in simp_all)
  then show ?thesis using KvRead R A by auto
next
  case (KvWrite p d)
  with c have p: "view_valid valid v p" "captures ''^.*$'' p = Some []" "kv_doc E d" by simp_all
  obtain s' where s': "view_put sops v \<lparr>se_key = p, se_value = kv_to_bytes E d\<rparr> s = (Ok (), s')" "ready s'"
    "\<And>k. view_valid valid v k \<Longrightarrow> view_stored stored v s' k = ((view_stored stored v s)(p \<mapsto> kv_to_bytes E d)) k"
    using view_put_stored [OF R p(1), of "kv_to_bytes E d"] by blast
  have "\<exists>rq. backend_handle_request captures b (s, kv_request v req c) = (Ok None, (s', rq))"
  proof (rule kv_dispatch [OF b, where h = "kv_handle_write sops E"])
    show "\<exists>rq. kv_handle_write sops E (s, (kv_request v req c)\<lparr>rq_match_path := mp\<rparr>) = (Ok None, (s', rq))" for mp
      using s'(1) KvWrite
      by (simp add: kv_handle_write_def on_state_def rq_storage_put_def on_storage_def op_bind_def)
  qed (use KvWrite p in simp_all)
  moreover have "kv_abs (view_valid valid v) E (view_stored stored v s') (m(p \<mapsto> d))"
    using A s'(3) p(3) by (auto simp: kv_abs_def)
  ultimately show ?thesis using s'(2) KvWrite by fastforce
next
  case (KvDelete p)
  with c have p: "view_valid valid v p" "captures ''^.*$'' p = Some []" by simp_all
  obtain s' where s': "view_delete sops v p s = (Ok (), s')" "ready s'"
    "\<And>k. view_valid valid v k \<Longrightarrow> view_stored stored v s' k = ((view_stored stored v s)(p := None)) k"
    using view_delete_stored [OF R p(1)] by blast
  have "\<exists>rq. backend_handle_request captures b (s, kv_request v req c) = (Ok None, (s', rq))"
  proof (rule kv_dispatch [OF b, where h = "kv_handle_delete sops"])
    show "\<exists>rq. kv_handle_delete sops (s, (kv_request v req c)\<lparr>rq_match_path := mp\<rparr>) = (Ok None, (s', rq))" for mp
      using s'(1) KvDelete
      by (simp add: kv_handle_delete_def on_state_def rq_storage_delete_def on_storage_def op_bind_def)
  qed (use KvDelete p in simp_all)
  moreover have "kv_abs (view_valid valid v) E (view_stored stored v s') (m(p := None))"
    using A s'(3) by (auto simp: kv_abs_def)
  ultimately show ?thesis using s'(2) KvDelete by fastforce
qed

lemma kv_run_meets_spec:
  assumes b: "kv_backend_new_func valid_re sops E = Ok b" and "ready s"
    and "kv_abs (view_valid valid v) E (view_stored stored v s) m"
    and "list_all (kv_cmd_ok (view_valid valid v) captures E) cs"
  shows "kv_run captures b v req s cs = map Ok (kv_spec E m cs)"
  using assms(2-)
proof (induction cs arbitrary: s m)
  case Nil
  then show ?case by simp
next
  case (Cons c cs)
  obtain s' m' rq where 1: "backend_handle_request captures b (s, kv_request v req c) = (Ok (hd (kv_spec E m [c])), (s', rq))"
    "ready s'" "kv_abs (view_valid valid v) E (view_stored stored v s') m'"
    "tl (kv_spec E m (c # cs)) = kv_spec E m' cs"
    using kv_step [OF b Cons.prems(1,2), of captures c req] Cons.prems(3) by auto
  have "kv_run captures b v req s' cs = map Ok (kv_spec E m' cs)"
    using Cons.IH [OF 1(2,3)] Cons.prems(3) by simp
  moreover have "kv_spec E m (c # cs) = hd (kv_spec E m [c]) # kv_spec E m' cs"
    using 1(4) by (cases c) auto
  ultimately show ?case using 1(1) by simp
qed

end

text \<open>
  C27: the key-value engine is a map from well-formed paths to documents. On an unsealed vault over files, every sequence
  of reads, writes and deletes through the dispatch of the engine, whose paths are well-formed keys of the view
  (\<open>file_key\<close>: no empty or dotted component, no directory whose name starts with an underscore) and whose documents the
  JSON encoding gives back, gets the answers of the specification: a read answers with the last document written to
  its path and not deleted since, with the lease its data asks for, or with nothing. On other paths the engine is no
  map: \<open>foo/\<close> has the file of \<open>foo\<close> (\<open>slash_aliases_key\<close>), and a write to \<open>_a/b\<close> fails when \<open>a\<close> is stored
  (\<open>underscore_directory_refused\<close>).
\<close>

theorem kv_engine_is_map:
  assumes "kv_backend_new_func valid_re (barrier_storage C (file_backend ser de root)) E = Ok b"
    and "barrier_ready C file_key (file_contents de root) (file_invar ser de root) s"
    and "kv_abs (view_valid (barrier_valid file_key) v) E
      (view_stored (barrier_stored C (file_contents de root)) v s) m"
    and "list_all (kv_cmd_ok (view_valid (barrier_valid file_key) v) captures E) cs"
  shows "kv_run captures b v req s cs = map Ok (kv_spec E m cs)"
  by (rule fbv.kv_run_meets_spec [OF assms])

section \<open>Witnesses\<close>

text \<open>A codec for documents with at most one member, whose value is a short text.\<close>

definition demo_kv_env :: kv_env where
  "demo_kv_env =
     \<lparr>kv_to_bytes = (\<lambda>d. case d of [(k, JString x)] \<Rightarrow> of_nat (length k) # map (of_nat \<circ> of_char) (k @ x) | _ \<Rightarrow> []),
      kv_from_slice = (\<lambda>bs. case bs of [] \<Rightarrow> None
        | n # r \<Rightarrow> (let t = map (char_of \<circ> unat) r in Some [(take (unat n) t, JString (drop (unat n) t))])),
      kv_parse_duration = (\<lambda>s. if s = ''1h'' then Some (from_secs 3600) else None), kv_now = 0\<rparr>"

definition demo_kv_backend :: "fs barrier logical_backend" where
  "demo_kv_backend = (kv_new_backend (barrier_storage demo_crypto demo_ops) demo_kv_env)\<lparr>lb_paths_re := [''^.*$'']\<rparr>"

theorem kv_engine_is_map_witness:
  "kv_run (\<lambda>_ _. Some []) demo_kv_backend (view_new ''logical/1/'') (request_new [])
     demo_unsealed [KvWrite ''a'' [(''ttl'', JString ''1h'')], KvRead ''a'', KvDelete ''a'', KvRead ''a''] =
   [Ok None, Ok (Some (kv_response demo_kv_env (the (kv_secrets ''kv'')) [(''ttl'', JString ''1h'')])), Ok None, Ok None]"
proof -
  have v: "view_valid (barrier_valid file_key) (view_new ''logical/1/'') ''a''"
    "kv_doc demo_kv_env [(''ttl'', JString ''1h'')]" by code_simp+
  have a: "anchored ''.*'' = ''^.*$''" by code_simp
  have b: "kv_backend_new_func (\<lambda>_. True) (barrier_storage demo_crypto demo_ops) demo_kv_env = Ok demo_kv_backend"
    by (simp add: kv_backend_new_func_def backend_init_def demo_kv_backend_def kv_new_backend_def Let_def a)
  have ab: "kv_abs (view_valid (barrier_valid file_key) (view_new ''logical/1/'')) demo_kv_env
      (view_stored (barrier_stored demo_crypto (file_contents demo_de [''data''])) (view_new ''logical/1/'') demo_unsealed) Map.empty"
    by (simp add: kv_abs_def view_stored_def barrier_stored_def file_contents_def demo_unsealed_def)
  show ?thesis
    by (subst kv_engine_is_map [OF b [unfolded demo_ops_def] demo_ready ab]) (use v in simp_all)
qed

end
