(* ===== verification/Token_Store.thy ===== *)
theory Token_Store
  imports Mount Text_Util
begin

text \<open>
  The token store and the expiration manager, \<open>src/modules/auth/token_store.rs\<close> and
  \<open>src/modules/auth/expiration.rs\<close>: tokens and leases in the storage, the queue of leases, and revocation, in which
  the two call each other.

  The state is the storage, the queue, and counters that index the clock and the generator of UUIDs. A record
  \<open>tenv\<close> holds what the code has beside it: the storage operations, the views and the salt of the two objects, the
  JSON codecs, SHA-1 and the router. Revocation may recurse forever, and the thread that checks for expired leases
  waits for itself when a revocation it started registers a lease: both are the value \<open>None\<close>.
\<close>

section \<open>Data\<close>

record token_entry =
  tke_id :: string
  tke_parent :: string
  tke_policies :: "string list"
  tke_path :: string
  tke_meta :: "string \<Rightarrow> string option"
  tke_display_name :: string
  tke_num_uses :: u32
  tke_ttl :: nat
  tke_creation_time :: int
  tke_period :: duration
  tke_explicit_max_ttl :: duration

record token_req_data =
  trd_id :: string
  trd_policies :: "string list"
  trd_meta :: "string \<Rightarrow> string option"
  trd_no_parent :: bool
  trd_lease :: string
  trd_ttl :: string
  trd_display_name :: string
  trd_num_uses :: u32
  trd_renewable :: bool
  trd_period :: duration
  trd_explicit_max_ttl :: duration

record lease_entry =
  le_lease_id :: string
  le_client_token :: string
  le_path :: string
  le_data :: json_obj
  le_secret :: "secret_data option"
  le_auth :: "auth option"
  le_issue_time :: int
  le_expire_time :: int
  le_revoke_err :: string

record old_lease_entry =
  ole_lease_id :: string
  ole_client_token :: string
  ole_path :: string
  ole_data :: "json_obj option"
  ole_secret :: "secret_data option"
  ole_auth :: "auth option"
  ole_issue_time :: int
  ole_expire_time :: int

text \<open>
  The priority queue: the items with their priorities, in milliseconds since the epoch; the smallest is on top.
  Pushing an item equal to one of the queue changes the priority of that one.
\<close>

type_synonym lease_queue = "(lease_entry \<times> nat) list"

definition lease_eq :: "lease_entry \<Rightarrow> lease_entry \<Rightarrow> bool" where
  "lease_eq a b \<longleftrightarrow>
     le_lease_id a = le_lease_id b \<and> le_client_token a = le_client_token b \<and> le_path a = le_path b"

definition queue_push :: "lease_entry \<Rightarrow> nat \<Rightarrow> lease_queue \<Rightarrow> lease_queue" where
  "queue_push le p q =
     (if list_ex (\<lambda>(x, _). lease_eq x le) q then map (\<lambda>(x, p0). (x, if lease_eq x le then p else p0)) q
      else q @ [(le, p)])"

record 's tstate =
  ts_store :: 's
  ts_queue :: lease_queue
  ts_uuids :: nat
  ts_reads :: nat

record 's tenv =
  tn_sops :: "'s storage_ops"
  tn_view :: "barrier_view option"
  tn_salt :: string
  tn_id_view :: barrier_view
  tn_token_view :: barrier_view
  tn_linked :: bool
  tn_router :: "'s tstate router"
  tn_anc :: ancestor
  tn_mounts :: "mount_entry list"
  tn_digest :: "bytes \<Rightarrow> 160 word"
  tn_uuid :: "nat \<Rightarrow> string"
  tn_clock :: "nat \<Rightarrow> int"
  tn_enc_token :: "token_entry \<Rightarrow> bytes"
  tn_dec_token :: "bytes \<Rightarrow> token_entry option"
  tn_enc_lease :: "lease_entry \<Rightarrow> bytes"
  tn_dec_lease :: "bytes \<Rightarrow> lease_entry option"
  tn_dec_old_lease :: "bytes \<Rightarrow> old_lease_entry option"
  tn_dec_req :: "json_obj \<Rightarrow> token_req_data option"
  tn_utf8 :: "string \<Rightarrow> bytes"
  tn_lossy :: "bytes \<Rightarrow> string"
  tn_parsers :: parsers

definition on_store :: "('s, 'a) op \<Rightarrow> ('s tstate, 'a) op" where
  "on_store m s = (case m (ts_store s) of (r, x) \<Rightarrow> (r, s\<lparr>ts_store := x\<rparr>))"

definition now_op :: "'s tenv \<Rightarrow> ('s tstate, int) op" where
  "now_op E s = (Ok (tn_clock E (ts_reads s)), s\<lparr>ts_reads := Suc (ts_reads s)\<rparr>)"

definition uuid_op :: "'s tenv \<Rightarrow> ('s tstate, string) op" where
  "uuid_op E s = (Ok (tn_uuid E (ts_uuids s)), s\<lparr>ts_uuids := Suc (ts_uuids s)\<rparr>)"

definition route_op :: "'s tenv \<Rightarrow> request \<Rightarrow> ('s tstate, response option) op" where
  "route_op E req s =
     (case router_handle_request (tn_anc E) (tn_router E) (s, req) of (r, (s', _)) \<Rightarrow> (r, s'))"

definition TOKEN_LOOKUP_PREFIX :: string where "TOKEN_LOOKUP_PREFIX = ''id/''"
definition TOKEN_PARENT_PREFIX :: string where "TOKEN_PARENT_PREFIX = ''parent/''"
definition TOKEN_SALT_LOCATION :: string where "TOKEN_SALT_LOCATION = ''salt''"
definition TOKEN_SUB_PATH :: string where "TOKEN_SUB_PATH = ''token/''"
definition LEASE_VIEW_PREFIX :: string where "LEASE_VIEW_PREFIX = ''id/''"
definition TOKEN_VIEW_PREFIX :: string where "TOKEN_VIEW_PREFIX = ''token/''"

definition MAX_LEASE_DURATION_SECS :: duration where
  "MAX_LEASE_DURATION_SECS = from_secs (30 * 24 * 60 * 60)"

definition DEFAULT_LEASE_DURATION_SECS :: duration where
  "DEFAULT_LEASE_DURATION_SECS = from_secs (24 * 60 * 60)"

definition MAX_TOKEN_TTL :: duration where
  "MAX_TOKEN_TTL = from_secs (30 * 24 * 60 * 60)"

definition DEFAULT_TOKEN_TTL :: duration where
  "DEFAULT_TOKEN_TTL = from_secs (24 * 60 * 60)"

section \<open>Leases in the storage\<close>

definition linked_op :: "'s tenv \<Rightarrow> ('s tstate, unit) op" where
  "linked_op E = (if tn_linked E then op_return () else op_fail ErrBarrierSealed)"

text \<open>SHA-1 in hexadecimal: the digest is a number of 160 bits, of which every four are a digit.\<close>

definition hex_digit :: "nat \<Rightarrow> char" where
  "hex_digit n = ''0123456789abcdef'' ! (n mod 16)"

definition sha1 :: "'s tenv \<Rightarrow> bytes \<Rightarrow> string" where
  "sha1 E data = map (\<lambda>i. hex_digit (unat (drop_bit (4 * i) (tn_digest E data)))) (rev [0..<40])"

definition ts_salt_id :: "'s tenv \<Rightarrow> string \<Rightarrow> string" where
  "ts_salt_id E i = sha1 E (tn_utf8 E (tn_salt E @ i))"

definition lease_renewable :: "int \<Rightarrow> lease_entry \<Rightarrow> bool" where
  "lease_renewable now le \<longleftrightarrow>
     le_expire_time le \<ge> now \<and>
     (case le_secret le of None \<Rightarrow> True | Some sd \<Rightarrow> renewable (sd_lease sd)) \<and>
     (case le_auth le of None \<Rightarrow> True | Some a \<Rightarrow> renewable (au_lease a))"

definition is_non_expiring :: "lease_entry \<Rightarrow> bool" where
  "is_non_expiring le =
     (case le_auth le of None \<Rightarrow> False
      | Some a \<Rightarrow> lease_enabled (au_lease a) \<and> length (au_policies a) = 1 \<and> au_policies a ! 0 = ''root'')"

definition is_irrevocable :: "lease_entry \<Rightarrow> bool" where
  "is_irrevocable le \<longleftrightarrow> le_revoke_err le \<noteq> []"

definition is_incorrectly_non_expiring :: "lease_entry \<Rightarrow> bool" where
  "is_incorrectly_non_expiring le \<longleftrightarrow> le_expire_time le = 0 \<and> \<not> is_non_expiring le"

definition persist_lease_entry :: "'s tenv \<Rightarrow> lease_entry \<Rightarrow> ('s tstate, unit) op" where
  "persist_lease_entry E le =
     on_store (view_put (tn_sops E) (tn_id_view E) \<lparr>se_key = le_lease_id le, se_value = tn_enc_lease E le\<rparr>)"

definition convert_old_lease :: "old_lease_entry \<Rightarrow> lease_entry" where
  "convert_old_lease ole =
     \<lparr>le_lease_id = ole_lease_id ole, le_client_token = ole_client_token ole, le_path = ole_path ole,
      le_data = (case ole_data ole of Some d \<Rightarrow> fold (\<lambda>(k, v). obj_insert k v) d [] | None \<Rightarrow> []),
      le_secret = ole_secret ole, le_auth = ole_auth ole, le_issue_time = ole_issue_time ole,
      le_expire_time = ole_expire_time ole, le_revoke_err = []\<rparr>"

definition load_lease_entry :: "'s tenv \<Rightarrow> string \<Rightarrow> ('s tstate, lease_entry option) op" where
  "load_lease_entry E lease_id =
     op_bind (on_store (view_get (tn_sops E) (tn_id_view E) lease_id)) (\<lambda>raw.
       case raw of
         None \<Rightarrow> op_return None
       | Some e \<Rightarrow>
           (case tn_dec_lease E (se_value e) of
              Some le \<Rightarrow> op_return (Some le)
            | None \<Rightarrow>
                (case tn_dec_old_lease E (se_value e) of
                   Some ole \<Rightarrow>
                     (let le = convert_old_lease ole in
                      op_bind (persist_lease_entry E le) (\<lambda>_. op_return (Some le)))
                 | None \<Rightarrow> op_return None)))"

definition delete_lease_entry :: "'s tenv \<Rightarrow> string \<Rightarrow> ('s tstate, unit) op" where
  "delete_lease_entry E lease_id = on_store (view_delete (tn_sops E) (tn_id_view E) lease_id)"

definition index_key :: "'s tenv \<Rightarrow> string \<Rightarrow> string \<Rightarrow> string" where
  "index_key E token lease_id = ts_salt_id E token @ ''/'' @ ts_salt_id E lease_id"

definition create_index_by_token :: "'s tenv \<Rightarrow> string \<Rightarrow> string \<Rightarrow> ('s tstate, unit) op" where
  "create_index_by_token E token lease_id =
     op_bind (linked_op E) (\<lambda>_.
       on_store (view_put (tn_sops E) (tn_token_view E)
         \<lparr>se_key = index_key E token lease_id, se_value = tn_utf8 E lease_id\<rparr>))"

definition remove_index_by_token :: "'s tenv \<Rightarrow> string \<Rightarrow> string \<Rightarrow> ('s tstate, unit) op" where
  "remove_index_by_token E token lease_id =
     op_bind (linked_op E) (\<lambda>_.
       on_store (view_delete (tn_sops E) (tn_token_view E) (index_key E token lease_id)))"

definition index_by_token :: "'s tenv \<Rightarrow> string \<Rightarrow> string \<Rightarrow> ('s tstate, storage_entry option) op" where
  "index_by_token E token lease_id =
     op_bind (linked_op E) (\<lambda>_.
       on_store (view_get (tn_sops E) (tn_token_view E) (index_key E token lease_id)))"

fun read_indexes :: "'s tenv \<Rightarrow> string \<Rightarrow> string list \<Rightarrow> string list \<Rightarrow> ('s tstate, string list) op" where
  "read_indexes E pfx [] acc = op_return acc"
| "read_indexes E pfx (sub # subs) acc =
     op_bind (on_store (view_get (tn_sops E) (tn_token_view E) (pfx @ sub))) (\<lambda>raw.
       case raw of
         None \<Rightarrow> read_indexes E pfx subs acc
       | Some e \<Rightarrow> read_indexes E pfx subs (acc @ [tn_lossy E (se_value e)]))"

definition lookup_by_token :: "'s tenv \<Rightarrow> string \<Rightarrow> ('s tstate, string list) op" where
  "lookup_by_token E token =
     op_bind (linked_op E) (\<lambda>_.
       let pfx = ts_salt_id E token @ ''/'' in
       op_bind (on_store (view_list (tn_sops E) (tn_token_view E) pfx)) (\<lambda>subs.
         read_indexes E pfx subs []))"

text \<open>A time before the epoch has no priority: the conversion is an error.\<close>

definition register_lease_entry :: "lease_entry \<Rightarrow> ('s tstate, unit) op" where
  "register_lease_entry le s =
     (if le_expire_time le < 0 then (Err (External SystemTimeError ''before the epoch''), s)
      else (Ok (), s\<lparr>ts_queue := queue_push le (nat (le_expire_time le) div 1000000) (ts_queue s)\<rparr>))"

section \<open>Tokens in the storage\<close>

definition with_view :: "'s tenv \<Rightarrow> (barrier_view \<Rightarrow> ('s tstate, 'a) op) \<Rightarrow> ('s tstate, 'a) op" where
  "with_view E f = (case tn_view E of None \<Rightarrow> op_fail ErrModuleNotInit | Some v \<Rightarrow> f v)"

definition lookup_salted :: "'s tenv \<Rightarrow> string \<Rightarrow> ('s tstate, token_entry option) op" where
  "lookup_salted E sid =
     with_view E (\<lambda>v.
       op_bind (on_store (view_get (tn_sops E) v (TOKEN_LOOKUP_PREFIX @ sid))) (\<lambda>raw.
         case raw of
           None \<Rightarrow> op_return None
         | Some e \<Rightarrow>
             (case tn_dec_token E (se_value e) of
                None \<Rightarrow> op_fail (External SerdeJson ''invalid token entry'')
              | Some te \<Rightarrow> op_return (Some te))))"

definition token_lookup :: "'s tenv \<Rightarrow> string \<Rightarrow> ('s tstate, token_entry option) op" where
  "token_lookup E i = (if i = [] then op_fail ErrAuthTokenIdInvalid else lookup_salted E (ts_salt_id E i))"

definition parent_key :: "'s tenv \<Rightarrow> string \<Rightarrow> string \<Rightarrow> string" where
  "parent_key E parent sid = TOKEN_PARENT_PREFIX @ ts_salt_id E parent @ ''/'' @ sid"

definition put_parent_index :: "'s tenv \<Rightarrow> barrier_view \<Rightarrow> token_entry \<Rightarrow> string \<Rightarrow> ('s tstate, unit) op" where
  "put_parent_index E v te sid =
     (if tke_parent te = [] then op_return ()
      else op_bind (token_lookup E (tke_parent te)) (\<lambda>parent.
        case parent of
          None \<Rightarrow> op_fail ErrAuthTokenNotFound
        | Some _ \<Rightarrow>
            on_store (view_put (tn_sops E) v \<lparr>se_key = parent_key E (tke_parent te) sid, se_value = []\<rparr>)))"

text \<open>\<open>create\<close> returns the entry, whose empty id it replaces.\<close>

definition token_create :: "'s tenv \<Rightarrow> token_entry \<Rightarrow> ('s tstate, token_entry) op" where
  "token_create E te0 =
     with_view E (\<lambda>v.
       op_bind (if tke_id te0 = [] then op_bind (uuid_op E) (\<lambda>u. op_return (te0\<lparr>tke_id := u\<rparr>)) else op_return te0) (\<lambda>te.
       let sid = ts_salt_id E (tke_id te) in
       op_bind (put_parent_index E v te sid) (\<lambda>_.
       op_bind (on_store (view_put (tn_sops E) v
           \<lparr>se_key = TOKEN_LOOKUP_PREFIX @ sid, se_value = tn_enc_token E te\<rparr>)) (\<lambda>_.
         op_return te))))"

definition token_entry_default :: "'s tenv \<Rightarrow> ('s tstate, token_entry) op" where
  "token_entry_default E =
     op_bind (uuid_op E) (\<lambda>u. op_bind (now_op E) (\<lambda>now.
       op_return \<lparr>tke_id = u, tke_parent = [], tke_policies = [], tke_path = [], tke_meta = Map.empty,
         tke_display_name = [], tke_num_uses = 0, tke_ttl = 0, tke_creation_time = now, tke_period = 0,
         tke_explicit_max_ttl = 0\<rparr>))"

definition root_token :: "'s tenv \<Rightarrow> ('s tstate, token_entry) op" where
  "root_token E =
     op_bind (token_entry_default E) (\<lambda>te.
       token_create E (te\<lparr>tke_policies := [''root''], tke_path := ''auth/token/root'', tke_display_name := ''root''\<rparr>))"

text \<open>\<open>TokenStore::new\<close>: the view and the salt, which is drawn and stored the first time.\<close>

definition token_store_new :: "'s tenv \<Rightarrow> barrier_view option \<Rightarrow> ('s tstate, 's tenv) op" where
  "token_store_new E system_view =
     (case system_view of
        None \<Rightarrow> op_fail ErrBarrierSealed
      | Some sv \<Rightarrow>
          let view = new_sub_view sv TOKEN_SUB_PATH in
          op_bind (on_store (view_get (tn_sops E) view TOKEN_SALT_LOCATION)) (\<lambda>salt.
          let found = (case salt of Some e \<Rightarrow> tn_lossy E (se_value e) | None \<Rightarrow> []) in
          op_bind
            (if found \<noteq> [] then op_return found
             else op_bind (uuid_op E) (\<lambda>u.
               op_bind (on_store (view_put (tn_sops E) view
                   \<lparr>se_key = TOKEN_SALT_LOCATION, se_value = tn_utf8 E u\<rparr>)) (\<lambda>_. op_return u)))
            (\<lambda>s. op_return (E\<lparr>tn_view := Some view, tn_salt := s\<rparr>))))"

definition expiration_new :: "'s tenv \<Rightarrow> barrier_view option \<Rightarrow> ('s tstate, 's tenv) op" where
  "expiration_new E system_view s =
     (case system_view of
        None \<Rightarrow> (Err ErrBarrierSealed, s)
      | Some sv \<Rightarrow>
          (Ok (E\<lparr>tn_id_view := new_sub_view sv LEASE_VIEW_PREFIX,
                tn_token_view := new_sub_view sv TOKEN_VIEW_PREFIX, tn_linked := False\<rparr>),
           s\<lparr>ts_queue := []\<rparr>))"

definition set_token_store :: "'s tenv \<Rightarrow> 's tenv" where
  "set_token_store E = E\<lparr>tn_linked := True\<rparr>"

section \<open>Revocation\<close>

text \<open>
  The functions that call each other: \<open>revoke_tree_salted\<close>, \<open>revoke_salted\<close>, \<open>revoke_by_token\<close> and
  \<open>revoke_lease_id\<close> (with \<open>revoke_lease_entry\<close> inside) are the cases of one recursive function; \<open>Children\<close> and
  \<open>Leases\<close> are the loops of the first and the third. \<open>held\<close> is that the calling thread holds the lock of the queue,
  which \<open>register_lease_entry\<close> takes for itself: then it waits forever.
\<close>

datatype revocation =
    RevokeTree string
  | Children "string list"
  | RevokeSalted string
  | ByToken token_entry
  | Leases "string list"
  | LeaseId string bool

definition pop_then :: "(unit res \<times> 's) option \<Rightarrow> ('s \<Rightarrow> (unit res \<times> 's) option) \<Rightarrow> (unit res \<times> 's) option" where
  "pop_then m k =
     Option.bind m (\<lambda>(r, s). case r of Ok _ \<Rightarrow> k s | Err e \<Rightarrow> Some (Err e, s) | Panic \<Rightarrow> Some (Panic, s))"

definition op_then :: "'a res \<times> 's \<Rightarrow> ('a \<Rightarrow> 's \<Rightarrow> (unit res \<times> 's) option) \<Rightarrow> (unit res \<times> 's) option" where
  "op_then m k = (case m of (Ok a, s) \<Rightarrow> k a s | (Err e, s) \<Rightarrow> Some (Err e, s) | (Panic, s) \<Rightarrow> Some (Panic, s))"

lemma res_case_mono:
  assumes "\<And>a. mono_option (\<lambda>f. k f a)"
  shows "mono_option (\<lambda>f. case r of Ok a \<Rightarrow> k f a | Err e \<Rightarrow> x e | Panic \<Rightarrow> y)"
  by (cases r) (auto intro: assms option.const_mono)

lemma pop_then_mono [partial_function_mono]:
  assumes "mono_option m" and "\<And>s. mono_option (\<lambda>f. k f s)"
  shows "mono_option (\<lambda>f. pop_then (m f) (k f))"
  unfolding pop_then_def split_beta
  by (intro bind_mono assms(1) res_case_mono assms(2))

lemma op_then_mono [partial_function_mono]:
  assumes "\<And>a s. mono_option (\<lambda>f. k f a s)"
  shows "mono_option (\<lambda>f. op_then m (k f))"
  unfolding op_then_def split_beta by (cases m) (auto intro!: res_case_mono assms)

lemma then_simps [simp]:
  "pop_then None k = None"
  "pop_then (Some (Ok u, s)) k = k s"
  "pop_then (Some (Err e, s)) k = Some (Err e, s)"
  "pop_then (Some (Panic, s)) k = Some (Panic, s)"
  "op_then (Ok a, s) h = h a s"
  "op_then (Err e, s) h = Some (Err e, s)"
  "op_then (Panic, s) h = Some (Panic, s)"
  by (simp_all add: pop_then_def op_then_def)

text \<open>The entry of a revoked lease goes back into the queue with no time left, to be dropped there.\<close>

definition requeue :: "bool \<Rightarrow> bool \<Rightarrow> lease_entry \<Rightarrow> 's tstate \<Rightarrow> (unit res \<times> 's tstate) option" where
  "requeue held reg le s =
     (if \<not> reg then Some (Ok (), s)
      else if held then None
      else Some (register_lease_entry (le\<lparr>le_expire_time := 0\<rparr>) s))"

definition delete_parent_index :: "'s tenv \<Rightarrow> barrier_view \<Rightarrow> token_entry \<Rightarrow> string \<Rightarrow> ('s tstate, unit) op" where
  "delete_parent_index E v te sid =
     (if tke_parent te = [] then op_return ()
      else on_store (view_delete (tn_sops E) v (parent_key E (tke_parent te) sid)))"

text \<open>The request that revokes a secret; its error is only logged.\<close>

definition revoke_secret :: "'s tenv \<Rightarrow> lease_entry \<Rightarrow> ('s tstate, unit) op" where
  "revoke_secret E le s =
     (case route_op E (new_revoke_request (le_path le) (le_secret le)
         (if le_data le = [] then None else Some (le_data le))) s of
        (Panic, s') \<Rightarrow> (Panic, s') | (_, s') \<Rightarrow> (Ok (), s'))"

definition forget_lease :: "'s tenv \<Rightarrow> string \<Rightarrow> lease_entry \<Rightarrow> ('s tstate, unit) op" where
  "forget_lease E lid le =
     op_bind (delete_lease_entry E lid) (\<lambda>_.
       if le_secret le \<noteq> None then remove_index_by_token E (le_client_token le) (le_lease_id le)
       else op_return ())"

partial_function (option) revocation_run ::
  "'s tenv \<Rightarrow> bool \<Rightarrow> revocation \<Rightarrow> 's tstate \<Rightarrow> (unit res \<times> 's tstate) option" where
  "revocation_run E held t s =
     (case t of
        RevokeTree sid \<Rightarrow>
          (case tn_view E of
             None \<Rightarrow> Some (Err ErrModuleNotInit, s)
           | Some v \<Rightarrow>
               op_then (on_store (view_list (tn_sops E) v (TOKEN_PARENT_PREFIX @ sid @ ''/'')) s) (\<lambda>children s1.
               pop_then (revocation_run E held (Children children) s1) (\<lambda>s2.
                 revocation_run E held (RevokeSalted sid) s2)))
      | Children cs \<Rightarrow>
          (case cs of
             [] \<Rightarrow> Some (Ok (), s)
           | c # cs' \<Rightarrow>
               pop_then (revocation_run E held (RevokeTree c) s) (\<lambda>s1. revocation_run E held (Children cs') s1))
      | RevokeSalted sid \<Rightarrow>
          (case tn_view E of
             None \<Rightarrow> Some (Err ErrModuleNotInit, s)
           | Some v \<Rightarrow>
               op_then (lookup_salted E sid s) (\<lambda>entry s1.
               op_then (on_store (view_delete (tn_sops E) v (TOKEN_LOOKUP_PREFIX @ sid)) s1) (\<lambda>_ s2.
                 case entry of
                   None \<Rightarrow> Some (Ok (), s2)
                 | Some te \<Rightarrow>
                     op_then (delete_parent_index E v te sid s2) (\<lambda>_ s3. revocation_run E held (ByToken te) s3))))
      | ByToken te \<Rightarrow>
          op_then (lookup_by_token E (tke_id te) s) (\<lambda>lids s1. revocation_run E held (Leases lids) s1)
      | Leases ls \<Rightarrow>
          (case ls of
             [] \<Rightarrow> Some (Ok (), s)
           | l # ls' \<Rightarrow>
               pop_then (revocation_run E held (LeaseId l True) s) (\<lambda>s1. revocation_run E held (Leases ls') s1))
      | LeaseId lid reg \<Rightarrow>
          op_then (load_lease_entry E lid s) (\<lambda>r s1.
            case r of
              None \<Rightarrow> Some (Ok (), s1)
            | Some le \<Rightarrow>
                op_then (linked_op E s1) (\<lambda>_ s2.
                pop_then
                  (case le_auth le of
                     Some au \<Rightarrow>
                       (if au_client_token au = [] then Some (Err ErrAuthTokenIdInvalid, s2)
                        else revocation_run E held (RevokeTree (ts_salt_id E (au_client_token au))) s2)
                   | None \<Rightarrow> Some (revoke_secret E le s2)) (\<lambda>s3.
                op_then (forget_lease E lid le s3) (\<lambda>_ s4. requeue held reg le s4)))))"

definition revoke_salted :: "'s tenv \<Rightarrow> string \<Rightarrow> ('s tstate, unit) pop" where
  "revoke_salted E sid = revocation_run E False (RevokeSalted sid)"

definition token_revoke :: "'s tenv \<Rightarrow> string \<Rightarrow> ('s tstate, unit) pop" where
  "token_revoke E i = (if i = [] then pop_of (op_fail ErrAuthTokenIdInvalid) else revoke_salted E (ts_salt_id E i))"

definition revoke_tree_salted :: "'s tenv \<Rightarrow> string \<Rightarrow> ('s tstate, unit) pop" where
  "revoke_tree_salted E sid = revocation_run E False (RevokeTree sid)"

definition revoke_tree :: "'s tenv \<Rightarrow> string \<Rightarrow> ('s tstate, unit) pop" where
  "revoke_tree E i =
     (if i = [] then pop_of (op_fail ErrAuthTokenIdInvalid) else revoke_tree_salted E (ts_salt_id E i))"

definition revoke_by_token :: "'s tenv \<Rightarrow> token_entry \<Rightarrow> ('s tstate, unit) pop" where
  "revoke_by_token E te = revocation_run E False (ByToken te)"

definition revoke_lease_id :: "'s tenv \<Rightarrow> bool \<Rightarrow> string \<Rightarrow> bool \<Rightarrow> ('s tstate, unit) pop" where
  "revoke_lease_id E held lid reg = revocation_run E held (LeaseId lid reg)"

fun revoke_suffixes :: "'s tenv \<Rightarrow> string \<Rightarrow> string list \<Rightarrow> ('s tstate, unit) pop" where
  "revoke_suffixes E pfx [] = pop_of (op_return ())"
| "revoke_suffixes E pfx (x # xs) =
     pop_bind (revoke_lease_id E False (pfx @ x) True) (\<lambda>_. revoke_suffixes E pfx xs)"

definition get_keys_op :: "'s tenv \<Rightarrow> barrier_view \<Rightarrow> ('s tstate, string list) pop" where
  "get_keys_op E v s =
     map_option (\<lambda>(r, x). (r, s\<lparr>ts_store := x\<rparr>)) (get_keys (tn_sops E) v (ts_store s))"

definition revoke_prefix :: "'s tenv \<Rightarrow> string \<Rightarrow> ('s tstate, unit) pop" where
  "revoke_prefix E pfx0 =
     (let pfx = (if ends_with pfx0 ''/'' then pfx0 else pfx0 @ ''/'') in
      pop_bind (get_keys_op E (new_sub_view (tn_id_view E) pfx)) (\<lambda>existing. revoke_suffixes E pfx existing))"

fun restore_leases :: "'s tenv \<Rightarrow> string list \<Rightarrow> ('s tstate, unit) op" where
  "restore_leases E [] = op_return ()"
| "restore_leases E (l # ls) =
     op_bind (load_lease_entry E l) (\<lambda>r.
       case r of
         None \<Rightarrow> restore_leases E ls
       | Some le \<Rightarrow> op_bind (register_lease_entry le) (\<lambda>_. restore_leases E ls))"

definition restore :: "'s tenv \<Rightarrow> ('s tstate, unit) pop" where
  "restore E = pop_bind (get_keys_op E (tn_id_view E)) (\<lambda>existing. pop_of (restore_leases E existing))"

end
