(* ===== verification/Expiration.thy ===== *)
theory Expiration
  imports Token_Store
begin

text \<open>
  The expiration manager, \<open>src/modules/auth/expiration.rs\<close>: registration and renewal of the leases of secrets and
  tokens, and the thread that revokes the expired ones, as a step relation.
\<close>

section \<open>Registration\<close>

definition ttl_op ::
  "'s tenv \<Rightarrow> duration \<Rightarrow> duration \<Rightarrow> duration \<Rightarrow> duration \<Rightarrow> duration \<Rightarrow> int \<Rightarrow> ('s tstate, duration) op" where
  "ttl_op E incr period backend_ttl backend_max explicit_max start =
     op_bind (now_op E) (\<lambda>now.
       op_res (calculate_ttl now MAX_TOKEN_TTL DEFAULT_TOKEN_TTL incr period backend_ttl backend_max explicit_max start))"

definition expiration_op :: "'s tenv \<Rightarrow> lease \<Rightarrow> ('s tstate, int) op" where
  "expiration_op E l =
     (if lease_enabled l then op_bind (now_op E) (\<lambda>now. op_return (lease_expiration_time now l)) else op_return 0)"

definition clamp_lease_ttl :: "duration \<Rightarrow> duration" where
  "clamp_lease_ttl d =
     (let d1 = (if d div NANOS = 0 then DEFAULT_LEASE_DURATION_SECS else d) in
      if d1 > MAX_LEASE_DURATION_SECS then MAX_LEASE_DURATION_SECS else d1)"

text \<open>\<open>register_secret\<close> returns the lease id and the response it changed.\<close>

definition register_secret :: "'s tenv \<Rightarrow> request \<Rightarrow> response \<Rightarrow> ('s tstate, string \<times> response) op" where
  "register_secret E req resp =
     (case rs_secret resp of
        None \<Rightarrow> op_return ([], resp)
      | Some sec0 \<Rightarrow>
          op_bind (now_op E) (\<lambda>now.
          op_bind (uuid_op E) (\<lambda>u.
          let lid = rq_path req @ ''/'' @ u;
              sec = sec0\<lparr>sd_lease := (sd_lease sec0)\<lparr>ttl := clamp_lease_ttl (ttl (sd_lease sec0)), issue_time := Some now\<rparr>,
                         sd_lease_id := lid\<rparr>
          in op_bind (expiration_op E (sd_lease sec)) (\<lambda>expire.
          let le = \<lparr>le_lease_id = lid, le_client_token = rq_client_token req, le_path = rq_path req,
                    le_data = (case rs_data resp of Some d \<Rightarrow> d | None \<Rightarrow> []), le_secret = Some sec,
                    le_auth = None, le_issue_time = now, le_expire_time = expire, le_revoke_err = []\<rparr>
          in op_bind (persist_lease_entry E le) (\<lambda>_.
             op_bind (create_index_by_token E (le_client_token le) lid) (\<lambda>_.
             op_bind (if expire < now then op_fail (External SystemTimeError ''clock went back'')
                      else op_return (nat (expire - now))) (\<lambda>left.
             op_bind (register_lease_entry le) (\<lambda>_.
               op_return (lid, resp\<lparr>rs_secret := Some (sec\<lparr>sd_lease := (sd_lease sec)\<lparr>ttl := left\<rparr>\<rparr>)\<rparr>)))))))))"

definition refuses_auth_lease :: "'s tenv \<Rightarrow> token_entry \<Rightarrow> auth \<Rightarrow> ('s tstate, bool) op" where
  "refuses_auth_lease E te au =
     (if tke_ttl te = 0 then
        op_bind (expiration_op E (au_lease au)) (\<lambda>t.
          op_return (t = 0 \<and> (length (tke_policies te) \<noteq> 1 \<or> tke_policies te ! 0 \<noteq> ''root'')))
      else op_return False)"

definition register_auth :: "'s tenv \<Rightarrow> token_entry \<Rightarrow> auth \<Rightarrow> ('s tstate, auth) op" where
  "register_auth E te au =
     op_bind (refuses_auth_lease E te au) (\<lambda>bad.
     if bad then op_fail (ErrString ''refusing to register a lease for a non-root token with no TTL'')
     else if au_client_token au = [] then op_fail (ErrString ''cannot register an auth lease with an empty token'')
     else if str_contains (tke_path te) ''..'' then
       op_fail (ErrString ''cannot register an auth lease with n token entry whose path contains parent references'')
     else
       op_bind (linked_op E) (\<lambda>_.
       op_bind (now_op E) (\<lambda>now.
       let au1 = au\<lparr>au_lease := (au_lease au)\<lparr>issue_time := Some now\<rparr>\<rparr> in
       op_bind (expiration_op E (au_lease au1)) (\<lambda>expire.
       let le = \<lparr>le_lease_id = tke_path te @ ''/'' @ ts_salt_id E (au_client_token au),
                 le_client_token = au_client_token au, le_path = tke_path te, le_data = [], le_secret = None,
                 le_auth = Some au1, le_issue_time = now, le_expire_time = expire, le_revoke_err = []\<rparr>
       in op_bind (persist_lease_entry E le) (\<lambda>_.
          op_bind (register_lease_entry le) (\<lambda>_. op_return au1))))))"

section \<open>Renewal\<close>

definition renew_secret_lease_entry :: "'s tenv \<Rightarrow> lease_entry \<Rightarrow> duration \<Rightarrow> ('s tstate, response option) op" where
  "renew_secret_lease_entry E le incr =
     (let sec = map_option (\<lambda>sd. sd\<lparr>sd_lease_id := [],
            sd_lease := (sd_lease sd)\<lparr>increment := incr, issue_time := Some (le_issue_time le)\<rparr>\<rparr>) (le_secret le)
      in route_op E (new_renew_request (le_path le) sec (if le_data le = [] then None else Some (le_data le))))"

definition renew_auth_lease_entry :: "'s tenv \<Rightarrow> lease_entry \<Rightarrow> duration \<Rightarrow> ('s tstate, response option) op" where
  "renew_auth_lease_entry E le incr =
     (let au = map_option (\<lambda>a. a\<lparr>
            au_client_token := (if starts_with (le_path le) ''auth/token/'' then le_client_token le else []),
            au_lease := (au_lease a)\<lparr>increment := incr, issue_time := Some (le_issue_time le)\<rparr>\<rparr>) (le_auth le)
      in route_op E (new_renew_auth_request (le_path le) au None))"

definition renewable_op :: "'s tenv \<Rightarrow> lease_entry option \<Rightarrow> ('s tstate, lease_entry) op" where
  "renewable_op E r =
     (case r of
        None \<Rightarrow> op_fail ErrLeaseNotFound
      | Some le \<Rightarrow>
          op_bind (now_op E) (\<lambda>now. if lease_renewable now le then op_return le else op_fail ErrLeaseNotRenewable))"

definition renew :: "'s tenv \<Rightarrow> string \<Rightarrow> duration \<Rightarrow> ('s tstate, response option) op" where
  "renew E lid incr =
     op_bind (load_lease_entry E lid) (\<lambda>r.
     op_bind (renewable_op E r) (\<lambda>le.
     op_bind (renew_secret_lease_entry E le incr) (\<lambda>ro.
       case ro of
         None \<Rightarrow> op_return None
       | Some resp \<Rightarrow>
           (case rs_secret resp of
              None \<Rightarrow> op_return (Some resp)
            | Some sec \<Rightarrow>
                if \<not> lease_enabled (sd_lease sec) then op_return (Some resp)
                else
                  op_bind (ttl_op E incr 0 (ttl (sd_lease sec)) (max_ttl (sd_lease sec)) 0 (le_issue_time le)) (\<lambda>d.
                  let sec1 = sec\<lparr>sd_lease := (sd_lease sec)\<lparr>ttl := d\<rparr>, sd_lease_id := lid\<rparr>;
                      resp1 = resp\<lparr>rs_secret := Some sec1\<rparr>
                  in op_bind (expiration_op E (sd_lease sec1)) (\<lambda>expire.
                     let le1 = le\<lparr>le_data := (case rs_data resp of Some x \<Rightarrow> x | None \<Rightarrow> []),
                                  le_expire_time := expire, le_secret := Some sec1\<rparr>
                     in op_bind (persist_lease_entry E le1) (\<lambda>_.
                        op_bind (register_lease_entry le1) (\<lambda>_. op_return (Some resp1)))))))))"

definition renew_token :: "'s tenv \<Rightarrow> token_entry \<Rightarrow> duration \<Rightarrow> ('s tstate, response option) op" where
  "renew_token E te incr =
     op_bind (linked_op E) (\<lambda>_.
     op_bind (load_lease_entry E (tke_path te @ ''/'' @ ts_salt_id E (tke_id te))) (\<lambda>r.
     op_bind (renewable_op E r) (\<lambda>le.
     op_bind (renew_auth_lease_entry E le incr) (\<lambda>ro.
       case Option.bind ro rs_auth of
         None \<Rightarrow> op_return None
       | Some au \<Rightarrow>
           op_bind (ttl_op E incr (au_period au) (ttl (au_lease au)) (max_ttl (au_lease au))
               (au_explicit_max_ttl au) (le_issue_time le)) (\<lambda>d.
           let au1 = au\<lparr>au_lease := (au_lease au)\<lparr>ttl := d\<rparr>, au_client_token := tke_id te\<rparr> in
           op_bind (expiration_op E (au_lease au1)) (\<lambda>expire.
           let le1 = le\<lparr>le_expire_time := expire, le_auth := Some au1\<rparr> in
           op_bind (persist_lease_entry E le1) (\<lambda>_.
           op_bind (register_lease_entry le1) (\<lambda>_.
             op_return (Some (response_new\<lparr>rs_auth := Some au1\<rparr>)))))))))) "

definition get_lease_count :: "'s tstate \<Rightarrow> nat" where
  "get_lease_count s = length (ts_queue s)"

definition stop_check_expired_lease_entries :: "('s tstate, unit) op" where
  "stop_check_expired_lease_entries s = (Ok (), s\<lparr>ts_queue := []\<rparr>)"

section \<open>The thread that revokes expired leases\<close>

text \<open>
  \<open>start_check_expired_lease_entries\<close>: a state of the thread is whether it holds the lock of the queue, with the
  state of the vault. It takes the lock when the first lease of the queue is due, and works through the leases
  that are due with the lock held. When a revocation does not return there is no step.
\<close>

definition millis :: "int \<Rightarrow> nat" where
  "millis t = (if t < 0 then 0 else nat t div 1000000)"

definition queue_top :: "lease_queue \<Rightarrow> lease_entry \<times> nat \<Rightarrow> bool" where
  "queue_top q x \<longleftrightarrow> x \<in> set q \<and> list_all (\<lambda>(_, p). snd x \<le> p) q"

inductive ticker_step :: "'s tenv \<Rightarrow> bool \<times> 's tstate \<Rightarrow> bool \<times> 's tstate \<Rightarrow> bool" for E where
  Idle: "now_op E s = (Ok t, s1) \<Longrightarrow> (\<And>x. queue_top (ts_queue s1) x \<Longrightarrow> \<not> snd x < millis t) \<Longrightarrow>
      ticker_step E (False, s) (False, s1)"
| Lock: "now_op E s = (Ok t, s1) \<Longrightarrow> queue_top (ts_queue s1) x \<Longrightarrow> snd x < millis t \<Longrightarrow>
      ticker_step E (False, s) (True, s1)"
| Done: "now_op E s = (Ok t, s1) \<Longrightarrow> (\<And>x. queue_top (ts_queue s1) x \<Longrightarrow> millis t < snd x) \<Longrightarrow>
      ticker_step E (True, s) (False, s1)"
| Drop: "now_op E s = (Ok t, s1) \<Longrightarrow> queue_top (ts_queue s1) (le, 0) \<Longrightarrow>
      ticker_step E (True, s) (True, s1\<lparr>ts_queue := remove1 (le, 0) (ts_queue s1)\<rparr>)"
| Expire: "now_op E s = (Ok t, s1) \<Longrightarrow> queue_top (ts_queue s1) (le, p) \<Longrightarrow> p \<noteq> 0 \<Longrightarrow> p \<le> millis t \<Longrightarrow>
      revoke_lease_id E True (le_lease_id le) False s1 = Some (Ok (), s2) \<Longrightarrow> queue_top (ts_queue s2) x \<Longrightarrow>
      ticker_step E (True, s) (True, s2\<lparr>ts_queue := remove1 x (ts_queue s2)\<rparr>)"
| Failed: "now_op E s = (Ok t, s1) \<Longrightarrow> queue_top (ts_queue s1) (le, p) \<Longrightarrow> p \<noteq> 0 \<Longrightarrow> p \<le> millis t \<Longrightarrow>
      revoke_lease_id E True (le_lease_id le) False s1 = Some (Err e, s2) \<Longrightarrow>
      ticker_step E (True, s) (False, s2)"

inductive_cases ticker_step_heldE: "ticker_step E (True, s) y"

end
