(* ===== verification/Token_Api.thy ===== *)
theory Token_Api
  imports Expiration
begin

text \<open>
  The requests of the token store, \<open>src/modules/auth/token_store.rs\<close>: the use of a token, the handlers of the paths
  under \<open>auth/token/\<close>, and the two phases of every request, \<open>pre_route\<close> (authentication) and \<open>post_route\<close> (tokens
  and leases for the response).
\<close>

section \<open>Use of a token\<close>

definition use_token :: "'s tenv \<Rightarrow> token_entry \<Rightarrow> ('s tstate, unit) pop" where
  "use_token E te s =
     (case tn_view E of
        None \<Rightarrow> Some (Err ErrModuleNotInit, s)
      | Some v \<Rightarrow>
          if tke_num_uses te = 0 then Some (Ok (), s)
          else
            let te1 = te\<lparr>tke_num_uses := tke_num_uses te - 1\<rparr> in
            if tke_num_uses te1 = 0 then token_revoke E (tke_id te1) s
            else Some (on_store (view_put (tn_sops E) v
              \<lparr>se_key = TOKEN_LOOKUP_PREFIX @ ts_salt_id E (tke_id te1), se_value = tn_enc_token E te1\<rparr>) s))"

definition auth_of_entry :: "int \<Rightarrow> string \<Rightarrow> token_entry \<Rightarrow> auth" where
  "auth_of_entry now token te =
     (auth_default now)\<lparr>au_client_token := token, au_display_name := tke_display_name te,
       au_token_policies := tke_policies te, au_policies := sanitize_policies (tke_policies te) False,
       au_metadata := tke_meta te\<rparr>"

definition check_token :: "'s tenv \<Rightarrow> string \<Rightarrow> ('s tstate, auth) pop" where
  "check_token E token =
     (if token = [] then pop_of (op_fail ErrRequestClientTokenMissing)
      else
        pop_bind (pop_of (token_lookup E token)) (\<lambda>r.
          case r of
            None \<Rightarrow> pop_of (op_fail ErrPermissionDenied)
          | Some te \<Rightarrow>
              pop_bind (use_token E te) (\<lambda>_.
              pop_bind (pop_of (now_op E)) (\<lambda>now. pop_of (op_return (auth_of_entry now token te))))))"

section \<open>Creation of a token by another\<close>

definition RESPONSE_WRAPPING_POLICY_NAME :: string where
  "RESPONSE_WRAPPING_POLICY_NAME = ''response-wrapping''"

definition CONTROL_GROUP_POLICY_NAME :: string where
  "CONTROL_GROUP_POLICY_NAME = ''control-group''"

definition NON_ASSIGNABLE_POLICIES :: "string list" where
  "NON_ASSIGNABLE_POLICIES = [RESPONSE_WRAPPING_POLICY_NAME, CONTROL_GROUP_POLICY_NAME]"

definition name_char :: "char \<Rightarrow> bool" where
  "name_char c \<longleftrightarrow> c \<in> set ''abcdefghijklmnopqrstuvwxyzABCDEFGHIJKLMNOPQRSTUVWXYZ0123456789-''"

definition trim_dashes :: "string \<Rightarrow> string" where
  "trim_dashes s = rev (dropWhile (\<lambda>c. c = CHR ''-'') (rev s))"

definition token_display_name :: "string \<Rightarrow> string" where
  "token_display_name n =
     (if n = [] then ''token''
      else trim_dashes (map (\<lambda>c. if name_char c then c else CHR ''-'') (''token-'' @ n)))"

text \<open>The policies of the new token, and the checks on them.\<close>

definition requested_policies :: "token_entry \<Rightarrow> token_req_data \<Rightarrow> string list" where
  "requested_policies parent d =
     (if trd_policies d = [] then sanitize_policies (tke_policies parent) False else trd_policies d)"

definition check_policies :: "token_entry \<Rightarrow> string list \<Rightarrow> unit res" where
  "check_policies parent ps =
     (if ''root'' \<notin> set (tke_policies parent) \<and> \<not> is_str_subset ps (tke_policies parent) then Err ErrRequestInvalid
      else case find (\<lambda>p. p \<in> set NON_ASSIGNABLE_POLICIES) ps of
          Some p \<Rightarrow> Err (ErrResponse (''cannot assign policy '' @ p))
        | None \<Rightarrow>
            if ''root'' \<in> set ps \<and> ''root'' \<notin> set (tke_policies parent) then
              Err (ErrResponse ''root tokens may not be created without parent token being root'')
            else Ok ())"

definition requested_ttl :: "'s tenv \<Rightarrow> token_req_data \<Rightarrow> nat res" where
  "requested_ttl E d =
     (let parse = (\<lambda>x. case snd (tn_parsers E) x of
          Some dur \<Rightarrow> Ok (dur div NANOS) | None \<Rightarrow> Err (External HumantimeDuration ''invalid duration''))
      in if trd_ttl d \<noteq> [] then parse (trd_ttl d) else if trd_lease d \<noteq> [] then parse (trd_lease d) else Ok 0)"

definition token_ttl_op :: "'s tenv \<Rightarrow> token_entry \<Rightarrow> ('s tstate, nat) op" where
  "token_ttl_op E te =
     op_bind
       (if tke_period te div NANOS > 0 \<or> tke_ttl te > 0 \<or> (tke_ttl te = 0 \<and> ''root'' \<notin> set (tke_policies te)) then
          op_bind (ttl_op E 0 (tke_period te) (from_secs (tke_ttl te)) 0 (tke_explicit_max_ttl te)
            (tke_creation_time te)) (\<lambda>d. op_return (d div NANOS))
        else op_return (tke_ttl te))
       (\<lambda>t. op_return (if t = 0 \<and> tke_explicit_max_ttl te div NANOS > 0 then tke_explicit_max_ttl te div NANOS else t))"

definition auth_of_new_token :: "int \<Rightarrow> bool \<Rightarrow> token_entry \<Rightarrow> auth" where
  "auth_of_new_token now ren te =
     (auth_default now)\<lparr>au_lease := (lease_default now)\<lparr>ttl := from_secs (tke_ttl te), renewable := ren\<rparr>,
       au_client_token := tke_id te, au_display_name := tke_display_name te, au_policies := tke_policies te,
       au_period := tke_period te, au_explicit_max_ttl := tke_explicit_max_ttl te, au_metadata := tke_meta te\<rparr>"

text \<open>The entry built from the request, up to its time to live.\<close>

definition new_token_entry :: "request \<Rightarrow> token_entry \<Rightarrow> token_req_data \<Rightarrow> token_entry \<Rightarrow> token_entry res" where
  "new_token_entry req parent d te0 =
     (let is_root = ''root'' \<in> set (tke_policies parent); ps = requested_policies parent d in
      if trd_id d \<noteq> [] \<and> \<not> is_root then Err ErrRequestInvalid
      else
        res_bind (check_policies parent ps) (\<lambda>_.
          if trd_no_parent d \<and> \<not> is_root then Err ErrRequestInvalid
          else Ok (te0\<lparr>
            tke_id := (if trd_id d \<noteq> [] then trd_id d else tke_id te0),
            tke_parent := (if trd_no_parent d then [] else rq_client_token req),
            tke_policies := ps, tke_path := ''auth/token/create'', tke_meta := trd_meta d,
            tke_display_name := token_display_name (trd_display_name d), tke_num_uses := trd_num_uses d,
            tke_period := trd_period d, tke_explicit_max_ttl := trd_explicit_max_ttl d\<rparr>)))"

definition handle_create :: "'s tenv \<Rightarrow> ('s tstate \<times> request, response option) op" where
  "handle_create E st =
     (let req = snd st; (r, s') =
       (case rq_body req of
          None \<Rightarrow> op_fail ErrRequestInvalid
        | Some body \<Rightarrow>
            op_bind (token_lookup E (rq_client_token req)) (\<lambda>p.
              case p of
                None \<Rightarrow> op_fail ErrRequestInvalid
              | Some parent \<Rightarrow>
                  if tke_num_uses parent > 0 then op_fail ErrRequestInvalid
                  else (case tn_dec_req E body of
                      None \<Rightarrow> op_fail (External SerdeJson ''invalid token request'')
                    | Some d \<Rightarrow>
                        op_bind (token_entry_default E) (\<lambda>te0.
                        op_bind (op_res (new_token_entry req parent d te0)) (\<lambda>te1.
                        op_bind (op_res (requested_ttl E d)) (\<lambda>t0.
                        op_bind (token_ttl_op E (te1\<lparr>tke_ttl := t0\<rparr>)) (\<lambda>t.
                        if t = 0 \<and> tke_ttl parent \<noteq> 0 then
                          op_fail (ErrResponse ''expiring root tokens cannot create non-expiring root tokens'')
                        else
                          op_bind (token_create E (te1\<lparr>tke_ttl := t\<rparr>)) (\<lambda>te.
                          op_bind (now_op E) (\<lambda>now.
                            op_return (Some (response_new\<lparr>rs_auth :=
                              Some (auth_of_new_token now (trd_renewable d \<and> t \<noteq> 0) te)\<rparr>))))))))))) (fst st)
      in (r, (s', req)))"

section \<open>The other handlers\<close>

definition token_id_of :: "'s tenv \<Rightarrow> request \<Rightarrow> string res" where
  "token_id_of E req =
     res_bind (get_data_as_str (tn_parsers E) req ''token'') (\<lambda>i. if i = [] then Err ErrRequestInvalid else Ok i)"

definition handle_revoke_tree :: "'s tenv \<Rightarrow> ('s tstate \<times> request, response option) pop" where
  "handle_revoke_tree E st =
     keep_req st (pop_bind (pop_of (op_res (token_id_of E (snd st)))) (\<lambda>i.
       pop_bind (revoke_tree E i) (\<lambda>_. pop_of (op_return None))))"

definition handle_revoke_orphan :: "'s tenv \<Rightarrow> ('s tstate \<times> request, response option) pop" where
  "handle_revoke_orphan E st =
     keep_req st (pop_bind (pop_of (op_res (token_id_of E (snd st)))) (\<lambda>i.
       pop_bind (token_revoke E i) (\<lambda>_. pop_of (op_return None))))"

definition secs_or_zero :: "int \<Rightarrow> nat" where
  "secs_or_zero t = (case secs_since_epoch t of Some n \<Rightarrow> n | None \<Rightarrow> 0)"

text \<open>The answer to a lookup; the JSON form of the metadata of the entry is an argument.\<close>

definition token_data :: "json \<Rightarrow> token_entry \<Rightarrow> json_obj" where
  "token_data meta te =
     (let d = [(''creation_time'', JNum (int (secs_or_zero (tke_creation_time te)))),
               (''creation_ttl'', JNum (int (tke_ttl te))),
               (''display_name'', JString (tke_display_name te)),
               (''explicit_max_ttl'', JNum (int (tke_explicit_max_ttl te div NANOS))),
               (''id'', JString (tke_id te)), (''meta'', meta),
               (''num_uses'', JNum (uint (tke_num_uses te))),
               (''path'', JString (tke_path te)),
               (''policies'', JArray (map JString (tke_policies te))), (''ttl'', JNum 0)]
      in if tke_period te div NANOS > 0 then obj_insert ''period'' (JNum (int (tke_period te div NANOS))) d else d)"

definition handle_lookup ::
  "'s tenv \<Rightarrow> ((string \<Rightarrow> string option) \<Rightarrow> json) \<Rightarrow> ('s tstate \<times> request, response option) op" where
  "handle_lookup E to_value st =
     (let req = snd st; (r, s') =
       op_bind (op_res (get_data_as_str (tn_parsers E) req ''token'')) (\<lambda>i0.
       let i = (if i0 = [] then rq_client_token req else i0) in
       if i = [] then op_fail ErrRequestInvalid
       else op_bind (token_lookup E i) (\<lambda>t.
         case t of
           None \<Rightarrow> op_return None
         | Some te \<Rightarrow> op_return (Some (data_response (Some (token_data (to_value (tke_meta te)) te)))))) (fst st)
      in (r, (s', req)))"

definition handle_lookup_self ::
  "'s tenv \<Rightarrow> ((string \<Rightarrow> string option) \<Rightarrow> json) \<Rightarrow> ('s tstate \<times> request, response option) op" where
  "handle_lookup_self E to_value st =
     (let req = snd st; tok = JString (rq_client_token req);
          d = (case rq_data req of Some d \<Rightarrow> obj_insert ''token'' tok d | None \<Rightarrow> [(''token'', tok)])
      in handle_lookup E to_value (fst st, req\<lparr>rq_data := Some d\<rparr>))"

text \<open>The increment is read as \<open>i32\<close> and cast to \<open>u64\<close>: a negative one wraps.\<close>

definition increment_of :: "json \<Rightarrow> duration res" where
  "increment_of v =
     (case v of
        JNum i \<Rightarrow> (if - (2 ^ 31) \<le> i \<and> i < 2 ^ 31 then Ok (from_secs (nat (i mod 2 ^ 64)))
                    else Err (External SerdeJson ''invalid i32''))
      | _ \<Rightarrow> Err (External SerdeJson ''invalid i32''))"

definition handle_renew :: "'s tenv \<Rightarrow> ('s tstate \<times> request, response option) op" where
  "handle_renew E st =
     (let req = snd st; (r, s') =
       op_bind (op_res (token_id_of E req)) (\<lambda>i.
       op_bind (token_lookup E i) (\<lambda>t.
         case t of
           None \<Rightarrow> op_fail ErrRequestInvalid
         | Some te \<Rightarrow>
             op_bind (op_res (res_bind (get_data (tn_parsers E) req ''increment'') increment_of)) (\<lambda>incr.
               renew_token E te incr))) (fst st)
      in (r, (s', req)))"

definition auth_renew :: "'s tenv \<Rightarrow> ('s tstate \<times> request, response option) op" where
  "auth_renew E st =
     (let req = snd st in
      case rq_auth req of
        None \<Rightarrow> (Err (ErrString ''request auth is nil''), st)
      | Some au \<Rightarrow>
          (case token_lookup E (au_client_token au) (fst st) of
             (Err e, s') \<Rightarrow> (Err e, (s', req))
           | (Panic, s') \<Rightarrow> (Panic, (s', req))
           | (Ok None, s') \<Rightarrow> (Err (ErrString ''no token entry found during lookup''), (s', req))
           | (Ok (Some te), s') \<Rightarrow>
               let au1 = au\<lparr>au_period := tke_period te, au_explicit_max_ttl := tke_explicit_max_ttl te\<rparr>
               in (Ok (Some (response_new\<lparr>rs_auth := Some au1\<rparr>)), (s', req\<lparr>rq_auth := Some au1\<rparr>))))"

section \<open>The paths of the backend\<close>

datatype token_handler =
  Create | Lookup | LookupSelf | RevokeTreeHandler | RevokeOrphan | RenewHandler

definition plain_field :: "field_type \<Rightarrow> field" where
  "plain_field t = \<lparr>required = False, field_type = t, field_default = JNull\<rparr>"

definition token_paths :: "(lpath \<times> operation \<times> token_handler) list" where
  "token_paths =
     [(\<lparr>lp_pattern = ''create*'', lp_fields =
         [(''num_uses'', plain_field IntType), (''period'', plain_field Str), (''ttl'', plain_field DurationSecond),
          (''renewable'', \<lparr>required = False, field_type = BoolType, field_default = JBool True\<rparr>),
          (''policies'', plain_field ArrayType)]\<rparr>, Write, Create),
      (\<lparr>lp_pattern = ''lookup/(?P<token>.+)'', lp_fields = [(''token'', plain_field Str)]\<rparr>, Read, Lookup),
      (\<lparr>lp_pattern = ''lookup-self$'', lp_fields = [(''token'', plain_field Str)]\<rparr>, Read, LookupSelf),
      (\<lparr>lp_pattern = ''revoke/(?P<token>.+)'', lp_fields = [(''token'', plain_field Str)]\<rparr>, Write, RevokeTreeHandler),
      (\<lparr>lp_pattern = ''revoke-orphan/(?P<token>.+)'', lp_fields = [(''token'', plain_field Str)]\<rparr>, Write, RevokeOrphan),
      (\<lparr>lp_pattern = ''renew/(?P<token>.+)'', lp_fields =
         [(''token'', plain_field Str), (''increment'', plain_field IntType)]\<rparr>, Write, RenewHandler)]"

definition token_root_paths :: "string list" where
  "token_root_paths = [''revoke-orphan/*'']"

fun token_handle ::
  "'s tenv \<Rightarrow> ((string \<Rightarrow> string option) \<Rightarrow> json) \<Rightarrow> token_handler \<Rightarrow> ('s tstate \<times> request, response option) pop" where
  "token_handle E to_value Create = pop_of (handle_create E)"
| "token_handle E to_value Lookup = pop_of (handle_lookup E to_value)"
| "token_handle E to_value LookupSelf = pop_of (handle_lookup_self E to_value)"
| "token_handle E to_value RevokeTreeHandler = handle_revoke_tree E"
| "token_handle E to_value RevokeOrphan = handle_revoke_orphan E"
| "token_handle E to_value RenewHandler = pop_of (handle_renew E)"

section \<open>Before and after routing\<close>

record 's auth_handler =
  ah_name :: string
  ah_pre_auth :: "('s tstate \<times> request, auth option) op"
  ah_post_auth :: "('s tstate \<times> request, unit) op"

text \<open>The first handler that returns authentication data ends the loop; a handler that declines is passed.\<close>

fun first_auth :: "'s auth_handler list \<Rightarrow> ('s tstate \<times> request, auth option) op" where
  "first_auth [] st = (Ok None, st)"
| "first_auth (h # hs) st =
     (case ah_pre_auth h st of
        (Ok (Some a), st') \<Rightarrow> (Ok (Some a), st')
      | (Ok None, st') \<Rightarrow> first_auth hs st'
      | (Err ErrHandlerDefault, st') \<Rightarrow> first_auth hs st'
      | (Err e, st') \<Rightarrow> (Err e, st')
      | (Panic, st') \<Rightarrow> (Panic, st'))"

fun each_post_auth :: "'s auth_handler list \<Rightarrow> ('s tstate \<times> request, unit) op" where
  "each_post_auth [] st = (Ok (), st)"
| "each_post_auth (h # hs) st =
     (case ah_post_auth h st of
        (Ok _, st') \<Rightarrow> each_post_auth hs st'
      | (Err ErrHandlerDefault, st') \<Rightarrow> each_post_auth hs st'
      | (Err e, st') \<Rightarrow> (Err e, st')
      | (Panic, st') \<Rightarrow> (Panic, st'))"

definition check_request_token :: "'s tenv \<Rightarrow> auth option \<Rightarrow> ('s tstate \<times> request, auth) pop" where
  "check_request_token E au st =
     (case au of
        Some a \<Rightarrow> Some (Ok a, st)
      | None \<Rightarrow> keep_req st (check_token E (rq_client_token (snd st))))"

definition token_pre_route :: "'s tenv \<Rightarrow> 's auth_handler list \<Rightarrow> ('s tstate \<times> request, response option) pop" where
  "token_pre_route E handlers st0 =
     (if is_unauth_path (tn_anc E) (tn_router E) (rq_path (snd st0)) then Some (Ok None, st0)
      else
        pop_bind (pop_of (first_auth handlers)) (\<lambda>au.
        pop_bind (check_request_token E au) (\<lambda>a st.
        pop_bind (pop_of (each_post_auth handlers)) (\<lambda>_. pop_of (op_return None))
          (fst st, (snd st)\<lparr>rq_name := au_display_name a, rq_auth := Some a, rq_handle_phase := PostAuth\<rparr>)))
        (fst st0, (snd st0)\<lparr>rq_handle_phase := PreAuth\<rparr>))"

text \<open>
  Whether \<open>post_route\<close> registers a lease for a secret. Without a mount entry for the path the unwrap after the
  check panics.
\<close>

definition registers_lease :: "'s tenv \<Rightarrow> string \<Rightarrow> bool res" where
  "registers_lease E path =
     (case matching_mount_entry (tn_anc E) (tn_router E) path of
        None \<Rightarrow> Panic
      | Some i \<Rightarrow>
          if length (tn_mounts E) \<le> i then Panic
          else (case me_options (tn_mounts E ! i) of
              None \<Rightarrow> Ok False
            | Some opts \<Rightarrow> Ok (map_of opts ''leased_passthrough'' = Some ''true'')))"

definition lease_of_secret :: "'s tenv \<Rightarrow> bool \<Rightarrow> request \<Rightarrow> response \<Rightarrow> ('s tstate, response) op" where
  "lease_of_secret E unauth req resp =
     (if \<not> unauth \<and> rs_secret resp \<noteq> None \<and> \<not> starts_with (rq_path req) ''/sys/renew'' then
        op_bind (op_res (registers_lease E (rq_path req))) (\<lambda>b.
          if b then op_bind (register_secret E req resp) (\<lambda>(_, resp'). op_return resp') else op_return resp)
      else op_return resp)"

function trim_start_matches :: "string \<Rightarrow> string \<Rightarrow> string" where
  "trim_start_matches pat s =
     (if pat \<noteq> [] \<and> starts_with s pat then trim_start_matches pat (drop (length pat) s) else s)"
  by pat_completeness auto
termination
  by (relation "measure (length \<circ> snd)") (auto elim!: starts_withE)

declare trim_start_matches.simps [simp del]

definition display_name_under :: "string \<Rightarrow> string \<Rightarrow> string" where
  "display_name_under mount n =
     trim_dashes (map (\<lambda>c. if c = CHR ''/'' then CHR ''-'' else c) (trim_start_matches ''auth/'' mount) @ n)"

definition token_of_auth :: "'s tenv \<Rightarrow> request \<Rightarrow> auth \<Rightarrow> ('s tstate, auth) op" where
  "token_of_auth E req au0 =
     (let au = au0\<lparr>au_lease := (au_lease au0)\<lparr>ttl := clamp_lease_ttl (ttl (au_lease au0))\<rparr>\<rparr> in
      op_bind (now_op E) (\<lambda>start.
      op_bind (ttl_op E 0 (au_period au) (ttl (au_lease au)) (max_ttl (au_lease au)) (au_explicit_max_ttl au) start) (\<lambda>d.
      let tps = sanitize_policies (au_policies au) (\<not> au_no_default_policy au) in
      if ''root'' \<in> set tps then op_fail (ErrResponse ''auth methods cannot create root tokens'')
      else
        op_bind (token_entry_default E) (\<lambda>te0.
        op_bind (token_create E (te0\<lparr>tke_path := rq_path req, tke_meta := au_metadata au,
            tke_display_name := au_display_name au, tke_ttl := d div NANOS, tke_policies := tps,
            tke_explicit_max_ttl := au_explicit_max_ttl au, tke_period := au_period au\<rparr>)) (\<lambda>te.
        op_bind (register_auth E te (au\<lparr>au_token_policies := tps, au_client_token := tke_id te,
            au_lease := (au_lease au)\<lparr>ttl := from_secs (tke_ttl te)\<rparr>\<rparr>)) (\<lambda>au1.
          op_return (au1\<lparr>au_policies := tps\<rparr>)))))))"

definition token_post_route ::
  "'s tenv \<Rightarrow> response option \<Rightarrow> ('s tstate \<times> request, response option) op" where
  "token_post_route E ro st =
     (case ro of
        None \<Rightarrow> (Ok None, st)
      | Some resp0 \<Rightarrow>
          let req = snd st; unauth = is_unauth_path (tn_anc E) (tn_router E) (rq_path req) in
          case lease_of_secret E unauth req resp0 (fst st) of
            (Err e, s1) \<Rightarrow> (Err e, (s1, req))
          | (Panic, s1) \<Rightarrow> (Panic, (s1, req))
          | (Ok resp, s1) \<Rightarrow>
              (case rs_auth resp of
                 None \<Rightarrow> (Ok (Some resp), (s1, req))
               | Some au \<Rightarrow>
                   if \<not> unauth \<and> \<not> starts_with (rq_path req) ''auth/token/'' then (Err ErrPermissionDenied, (s1, req))
                   else
                     let name = (if unauth then display_name_under
                             (matching_mount (tn_anc E) (tn_router E) (rq_path req)) (au_display_name au)
                           else au_display_name au);
                         req1 = (if unauth then req\<lparr>rq_name := name\<rparr> else req)
                     in (case token_of_auth E req1 (au\<lparr>au_display_name := name\<rparr>) s1 of
                           (Err e, s2) \<Rightarrow> (Err e, (s2, req1))
                         | (Panic, s2) \<Rightarrow> (Panic, (s2, req1))
                         | (Ok au2, s2) \<Rightarrow> (Ok (Some (resp\<lparr>rs_auth := Some au2\<rparr>)), (s2, req1)))))"

end
