(* ===== verification/Listing.thy ===== *)
theory Listing
  imports Barrier_View "HOL-Library.Multiset"
begin

text \<open>
  What a listing promises, through the layers: the file backend \<open>src/storage/physical/file.rs\<close>, the barrier
  \<open>src/storage/barrier_aes_gcm.rs\<close> and the views \<open>src/storage/barrier_view.rs\<close>.

  The locale \<open>listing_backend\<close> adds to \<open>physical_backend\<close> that the listing of a folder succeeds, names only
  stored keys and existing folders, and leads to every stored key; \<open>listing_storage\<close> is the same for a \<open>Storage\<close>.
  The file backend keeps the contract for keys without two consecutive dots, as long as nothing else is in its
  directory (\<open>file_closed\<close>); a barrier and a view pass it on (two sublocales).

  Shown on top of it: \<open>get_keys\<close> ends and returns exactly the stored keys, and \<open>clear\<close> ends and leaves no key.
\<close>

section \<open>The contract\<close>

text \<open>What the names that a listing of \<open>p\<close> returns are: keys that \<open>has\<close> holds of, and folders.\<close>

definition lists_folder ::
  "(string \<Rightarrow> bool) \<Rightarrow> (string \<Rightarrow> bool) \<Rightarrow> (string \<Rightarrow> bool) \<Rightarrow> string set \<Rightarrow> string \<Rightarrow> string list \<Rightarrow> bool" where
  "lists_folder valid has folder dirs p names \<longleftrightarrow>
     (\<forall>n \<in> set names. n \<noteq> [] \<and>
        (if ends_with n ''/'' then folder (p @ n) \<and> p @ n \<in> dirs else valid (p @ n) \<and> has (p @ n))) \<and>
     (\<forall>k. valid k \<longrightarrow> has k \<longrightarrow> starts_with k p \<longrightarrow>
        (\<exists>n \<in> set names. if ends_with n ''/'' then starts_with k (p @ n) else k = p @ n))"

lemma lists_folder_cong:
  "set names = set names' \<Longrightarrow>
    lists_folder valid has folder dirs p names = lists_folder valid has folder dirs p names'"
  by (simp add: lists_folder_def)

text \<open>A listing seen from below a prefix.\<close>

lemma lists_folder_shift:
  assumes "lists_folder valid has folder dirs (pfx @ p) names"
    and v: "\<And>k. starts_with k p \<Longrightarrow> valid' k \<and> has' k \<longleftrightarrow> valid (pfx @ k) \<and> has (pfx @ k)"
    and f: "\<And>n. folder (pfx @ p @ n) \<Longrightarrow> folder' (p @ n)"
  shows "lists_folder valid' has' folder' {q. pfx @ q \<in> dirs} p names"
proof -
  have "\<exists>n \<in> set names. if ends_with n ''/'' then starts_with k (p @ n) else k = p @ n"
    if k: "valid' k" "has' k" "starts_with k p" for k
  proof -
    have "starts_with (pfx @ k) (pfx @ p)" using k(3) by (simp add: starts_with_iff_prefix)
    then obtain n where "n \<in> set names"
      "if ends_with n ''/'' then starts_with (pfx @ k) ((pfx @ p) @ n) else pfx @ k = (pfx @ p) @ n"
      using assms(1) v [OF k(3)] k unfolding lists_folder_def by blast
    then show ?thesis by (intro bexI [of _ n]) (simp_all add: starts_with_iff_prefix split: if_splits)
  qed
  moreover have "n \<noteq> [] \<and> (if ends_with n ''/'' then folder' (p @ n) \<and> p @ n \<in> {q. pfx @ q \<in> dirs}
      else valid' (p @ n) \<and> has' (p @ n))" if "n \<in> set names" for n
  proof -
    have "n \<noteq> [] \<and> (if ends_with n ''/'' then folder (pfx @ p @ n) \<and> pfx @ p @ n \<in> dirs
        else valid (pfx @ p @ n) \<and> has (pfx @ p @ n))"
      using assms(1) that unfolding lists_folder_def append.assoc by blast
    then show ?thesis using v [of "p @ n"] f [of n] by (simp split: if_splits)
  qed
  ultimately show ?thesis unfolding lists_folder_def by blast
qed

text \<open>A key brings at most the folders it is in.\<close>

definition folder_of :: "string \<Rightarrow> string \<Rightarrow> bool" where
  "folder_of k d \<longleftrightarrow> starts_with k d \<and> (d = [] \<or> ends_with d ''/'')"

locale listing_backend = physical_backend ops valid_key contents invar
  for ops :: "'b backend_ops" and valid_key contents invar +
  fixes folder :: "string \<Rightarrow> bool"
    and subdirs :: "'b \<Rightarrow> string set"
  assumes finite_subdirs: "finite (subdirs b)"
    and list_contents: "invar b \<Longrightarrow> folder p \<Longrightarrow>
      \<exists>names. backend_list ops p b = (Ok names, b) \<and>
        lists_folder valid_key (\<lambda>k. contents b k \<noteq> None) folder (subdirs b) p names"
    and put_subdirs: "invar b \<Longrightarrow> valid_key k \<Longrightarrow> backend_put ops \<lparr>be_key = k, be_value = x\<rparr> b = (r, b') \<Longrightarrow>
      d \<in> subdirs b' \<Longrightarrow> d \<in> subdirs b \<or> folder_of k d"
    and delete_subdirs: "backend_delete ops k b = (r, b') \<Longrightarrow> subdirs b' \<subseteq> subdirs b"

locale listing_storage = storage sops valid stored ready
  for sops :: "'s storage_ops" and valid stored ready +
  fixes folder :: "string \<Rightarrow> bool"
    and subdirs :: "'s \<Rightarrow> string set"
  assumes finite_subdirs: "finite (subdirs s)"
    and list_stored: "ready s \<Longrightarrow> folder p \<Longrightarrow>
      \<exists>names. storage_list sops p s = (Ok names, s) \<and>
        lists_folder valid (\<lambda>k. stored s k \<noteq> None) folder (subdirs s) p names"
    and put_subdirs: "ready s \<Longrightarrow> valid k \<Longrightarrow> storage_put sops \<lparr>se_key = k, se_value = x\<rparr> s = (r, s') \<Longrightarrow>
      d \<in> subdirs s' \<Longrightarrow> d \<in> subdirs s \<or> folder_of k d"
    and delete_subdirs: "storage_delete sops k s = (r, s') \<Longrightarrow> subdirs s' \<subseteq> subdirs s"

section \<open>The barrier passes listings on\<close>

definition barrier_folder :: "(string \<Rightarrow> bool) \<Rightarrow> string \<Rightarrow> bool" where
  "barrier_folder folder p \<longleftrightarrow> folder p \<and> \<not> starts_with BARRIER_INIT_PATH p"

lemma barrier_stored_iff:
  assumes "barrier_ready E valid_key contents invar s" "barrier_valid valid_key k"
  shows "barrier_stored E contents s k \<noteq> None \<longleftrightarrow> contents (b_backend s) k \<noteq> None"
proof (cases "contents (b_backend s) k")
  case (Some c)
  then obtain x where "barrier_decrypt E (b_key s) k c = Ok x"
    using assms by (auto simp: barrier_ready_def is_ok_iff)
  then show ?thesis using Some by (simp add: barrier_stored_def)
qed (simp add: barrier_stored_def)

lemma barrier_encrypt_backend:
  "barrier_encrypt E k x s = (r, s') \<Longrightarrow> b_backend s' = b_backend s"
  by (auto simp: barrier_encrypt_def draw_def Let_def split: res.splits option.splits prod.splits if_splits)

sublocale listing_backend \<subseteq> lbar: listing_storage "barrier_storage E ops" "barrier_valid valid_key"
  "barrier_stored E contents" "barrier_ready E valid_key contents invar" "barrier_folder folder"
  "\<lambda>s. subdirs (b_backend s)" for E
proof unfold_locales
  fix s :: "'b barrier" and p
  assume R: "barrier_ready E valid_key contents invar s" and p: "barrier_folder folder p"
  obtain names where l: "backend_list ops p (b_backend s) = (Ok names, b_backend s)"
    and n: "lists_folder valid_key (\<lambda>k. contents (b_backend s) k \<noteq> None) folder (subdirs (b_backend s)) p names"
    using list_contents [of "b_backend s" p] R p by (auto simp: barrier_ready_def barrier_folder_def)
  have "storage_list (barrier_storage E ops) p s = (Ok (sort names), s)"
    using R l by (simp add: barrier_storage_sel barrier_list_def barrier_ready_def on_backend_def)
  moreover have ni: "starts_with k p \<Longrightarrow> k \<noteq> BARRIER_INIT_PATH" for k
    using p by (auto simp: barrier_folder_def)
  have "lists_folder (barrier_valid valid_key) (\<lambda>k. barrier_stored E contents s k \<noteq> None)
      (barrier_folder folder) {q. [] @ q \<in> subdirs (b_backend s)} p names"
  proof (rule lists_folder_shift)
    show "lists_folder valid_key (\<lambda>k. contents (b_backend s) k \<noteq> None) folder (subdirs (b_backend s))
      ([] @ p) names" using n by simp
    show "barrier_valid valid_key k \<and> barrier_stored E contents s k \<noteq> None \<longleftrightarrow>
      valid_key ([] @ k) \<and> contents (b_backend s) ([] @ k) \<noteq> None" if "starts_with k p" for k
      using barrier_stored_iff [OF R, of k] ni [OF that] by (auto simp: barrier_valid_def)
    show "folder ([] @ p @ n) \<Longrightarrow> barrier_folder folder (p @ n)" for n
      using ni [of BARRIER_INIT_PATH] by (auto simp: barrier_folder_def starts_with_iff_prefix dest: append_prefixD)
  qed
  ultimately show "\<exists>names. storage_list (barrier_storage E ops) p s = (Ok names, s) \<and>
      lists_folder (barrier_valid valid_key) (\<lambda>k. barrier_stored E contents s k \<noteq> None)
        (barrier_folder folder) (subdirs (b_backend s)) p names"
    using lists_folder_cong [of names "sort names"] by simp
next
  fix s :: "'b barrier" and k x r s' d
  assume R: "barrier_ready E valid_key contents invar s" and k: "barrier_valid valid_key k"
    and put: "storage_put (barrier_storage E ops) \<lparr>se_key = k, se_value = x\<rparr> s = (r, s')"
    and d: "d \<in> subdirs (b_backend s')"
  obtain c s1 where e: "barrier_encrypt E k x s = (c, s1)" by fastforce
  have b1: "b_backend s1 = b_backend s" using barrier_encrypt_backend [OF e] .
  show "d \<in> subdirs (b_backend s) \<or> folder_of k d"
  proof (cases c)
    case (Ok ct)
    obtain r2 b2 where b2: "backend_put ops \<lparr>be_key = k, be_value = ct\<rparr> (b_backend s) = (r2, b2)" by fastforce
    then have "b_backend s' = b2"
      using put R e Ok b1 by (auto simp: barrier_storage_sel barrier_put_def barrier_ready_def on_backend_def)
    then show ?thesis using put_subdirs [OF _ _ b2] R k d by (auto simp: barrier_ready_def barrier_valid_def)
  qed (use put R e b1 d in \<open>auto simp: barrier_storage_sel barrier_put_def barrier_ready_def\<close>)
next
  show "subdirs (b_backend s') \<subseteq> subdirs (b_backend s)"
    if "storage_delete (barrier_storage E ops) k s = (r, s')" for s :: "'b barrier" and k r s'
    using that delete_subdirs
    by (auto simp: barrier_storage_sel barrier_delete_def on_backend_def split: if_splits prod.splits) blast
qed (simp add: finite_subdirs)

section \<open>A view passes listings on\<close>

text \<open>
  The keys and folders of a view: those whose full name is one of the storage and that pass the sanity check.
  A view is clean when this is all there is under its prefix.
\<close>

definition clean_view :: "(string \<Rightarrow> bool) \<Rightarrow> (string \<Rightarrow> bool) \<Rightarrow> barrier_view \<Rightarrow> bool" where
  "clean_view valid folder v \<longleftrightarrow>
     folder (bv_prefix v) \<and>
     (\<forall>k. valid (expand_key v k) \<or> folder (expand_key v k) \<longrightarrow> sanity_check k = Ok ())"

locale listing_view = listing_storage sops valid stored ready folder subdirs
  for sops :: "'s storage_ops" and valid stored ready folder subdirs +
  fixes v :: barrier_view
  assumes clean: "clean_view valid folder v"

sublocale listing_view \<subseteq> sv: storage_view sops valid stored ready v
  by unfold_locales

context listing_view
begin

lemma view_valid_iff: "view_valid valid v k \<longleftrightarrow> valid (expand_key v k)"
  using clean by (auto simp: view_valid_def clean_view_def)

lemma view_list_stored:
  assumes "ready s" "folder (expand_key v p)"
  shows "\<exists>names. view_list sops v p s = (Ok names, s) \<and>
    lists_folder (view_valid valid v) (\<lambda>k. view_stored stored v s k \<noteq> None) (\<lambda>p. folder (expand_key v p))
      {q. expand_key v q \<in> subdirs s} p names"
proof -
  obtain names where l: "storage_list sops (expand_key v p) s = (Ok names, s)"
    and n: "lists_folder valid (\<lambda>k. stored s k \<noteq> None) folder (subdirs s) (bv_prefix v @ p) names"
    using list_stored [OF assms] by (auto simp: expand_key_def)
  have "sanity_check p = Ok ()" using clean assms(2) by (auto simp: clean_view_def)
  then have "view_list sops v p s = (Ok names, s)" using l by (simp add: view_list_def)
  moreover have "lists_folder (view_valid valid v) (\<lambda>k. view_stored stored v s k \<noteq> None)
      (\<lambda>p. folder (expand_key v p)) {q. bv_prefix v @ q \<in> subdirs s} p names"
    by (rule lists_folder_shift [OF n]) (simp_all add: view_valid_iff view_stored_def expand_key_def)
  ultimately show ?thesis by (auto simp: expand_key_def)
qed

end

sublocale listing_view \<subseteq> lv: listing_storage "view_storage sops v" "view_valid valid v" "view_stored stored v"
  ready "\<lambda>p. folder (expand_key v p)" "\<lambda>s. {q. expand_key v q \<in> subdirs s}"
proof unfold_locales
  show "finite {q. expand_key v q \<in> subdirs s}" for s
    by (rule finite_subset [OF _ finite_vimageI [OF finite_subdirs, of "expand_key v" s]])
      (auto simp: inj_def)
next
  fix s k x r s' d
  assume R: "ready s" and k: "view_valid valid v k"
    and put: "storage_put (view_storage sops v) \<lparr>se_key = k, se_value = x\<rparr> s = (r, s')"
    and d: "d \<in> {q. expand_key v q \<in> subdirs s'}"
  have "storage_put sops \<lparr>se_key = expand_key v k, se_value = x\<rparr> s = (r, s')" "valid (expand_key v k)"
    using put k by (simp_all add: view_storage_sel view_put_def view_valid_def)
  then have "expand_key v d \<in> subdirs s \<or> folder_of (expand_key v k) (expand_key v d)"
    using put_subdirs [OF R] d by blast
  then show "d \<in> {q. expand_key v q \<in> subdirs s} \<or> folder_of k d"
    by (auto simp: folder_of_def expand_key_def starts_with_iff_prefix ends_with_def) (cases d rule: rev_cases; simp)
next
  show "{q. expand_key v q \<in> subdirs s'} \<subseteq> {q. expand_key v q \<in> subdirs s}"
    if "storage_delete (view_storage sops v) k s = (r, s')" for k s r s'
    using that delete_subdirs
    by (auto simp: view_storage_sel view_delete_def op_bind_def op_res_def split: res.splits prod.splits) blast
qed (unfold view_storage_sel, rule view_list_stored)

section \<open>All the keys of a view\<close>

lemma sort_items_eq:
  "sort_items cur items (paths, keys) =
     (paths @ map ((@) cur) (filter (\<lambda>p. ends_with p ''/'') items),
      keys @ map ((@) cur) (filter (\<lambda>p. \<not> ends_with p ''/'') items))"
  by (induction items arbitrary: paths keys) (auto simp: Let_def)

text \<open>The order in which the walk goes down: to longer names, among finitely many.\<close>

definition below :: "string set \<Rightarrow> (string \<times> string) set" where
  "below dirs = {(x, y). x \<in> dirs \<and> strict_prefix y x}"

lemma wf_below:
  assumes "finite dirs"
  shows "wf (below dirs)"
proof (rule wf_subset)
  let ?N = "Max (length ` dirs)"
  show "below dirs \<subseteq> measure (\<lambda>x. ?N - length x)"
  proof (clarsimp simp: below_def)
    fix x y :: string assume "x \<in> dirs" "strict_prefix y x"
    then have "length x \<le> ?N" "length y < length x" using assms by (auto simp: prefix_length_less)
    then show "?N - length x < ?N - length y" by linarith
  qed
qed simp

context listing_view
begin

lemma get_keys_loop_complete:
  assumes "ready s" "\<And>p. p \<in> set paths \<Longrightarrow> folder (expand_key v p)"
  shows "\<exists>ks. get_keys_loop sops v paths keys s = Some (Ok ks, s) \<and>
    set ks = set keys \<union> {k. view_valid valid v k \<and> view_stored stored v s k \<noteq> None \<and>
      (\<exists>p \<in> set paths. starts_with k p)}"
  using assms(2)
proof (induction "mset paths" arbitrary: paths keys
    rule: wf_induct_rule [OF wf_mult [OF wf_below [OF lv.finite_subdirs [of s]]]])
  case 1
  let ?dirs = "{q. expand_key v q \<in> subdirs s}"
  let ?ks = "\<lambda>ps. {k. view_valid valid v k \<and> view_stored stored v s k \<noteq> None \<and> (\<exists>p \<in> set ps. starts_with k p)}"
  show ?case
  proof (cases "paths = []")
    case True
    then show ?thesis by (simp add: get_keys_loop.simps)
  next
    case False
    define cur rest where "cur = last paths" and "rest = butlast paths"
    have paths: "paths = rest @ [cur]" using False by (simp add: cur_def rest_def)
    obtain items where l: "view_list sops v cur s = (Ok items, s)"
      and n: "lists_folder (view_valid valid v) (\<lambda>k. view_stored stored v s k \<noteq> None)
        (\<lambda>p. folder (expand_key v p)) ?dirs cur items"
      using view_list_stored [OF assms(1), of cur] 1(2) paths by auto
    define new found where "new = map ((@) cur) (filter (\<lambda>p. ends_with p ''/'') items)"
      and "found = map ((@) cur) (filter (\<lambda>p. \<not> ends_with p ''/'') items)"
    have step: "get_keys_loop sops v paths keys s = get_keys_loop sops v (rest @ new) (keys @ found) s"
      using False l
      by (subst get_keys_loop.simps)
        (simp add: cur_def [symmetric] rest_def [symmetric] sort_items_eq new_def found_def)
    have below: "p \<in> ?dirs \<and> folder (expand_key v p) \<and> strict_prefix cur p" if "p \<in> set new" for p
      using that n by (auto simp: new_def lists_folder_def strict_prefix_def split: if_splits)
    have "(mset rest + mset new, mset rest + mset [cur]) \<in> mult (below ?dirs)"
      by (rule one_step_implies_mult) (use below in \<open>auto simp: below_def\<close>)
    then have "(mset (rest @ new), mset paths) \<in> mult (below ?dirs)" by (simp add: paths)
    moreover have "\<And>p. p \<in> set (rest @ new) \<Longrightarrow> folder (expand_key v p)"
      using 1(2) paths below by auto
    ultimately obtain ks where ks: "get_keys_loop sops v (rest @ new) (keys @ found) s = Some (Ok ks, s)"
      "set ks = set (keys @ found) \<union> ?ks (rest @ new)"
      using 1(1) by blast
    have "?ks [cur] = set found \<union> ?ks new"
    proof (intro set_eqI iffI)
      fix k assume "k \<in> ?ks [cur]"
      then obtain m where "m \<in> set items" "if ends_with m ''/'' then starts_with k (cur @ m) else k = cur @ m"
        and "view_valid valid v k" "view_stored stored v s k \<noteq> None"
        using n by (auto simp: lists_folder_def)
      then show "k \<in> set found \<union> ?ks new" by (auto simp: found_def new_def split: if_splits)
    next
      fix k assume "k \<in> set found \<union> ?ks new"
      then show "k \<in> ?ks [cur]"
        using n by (auto simp: found_def new_def lists_folder_def starts_with_iff_prefix
            dest: append_prefixD split: if_splits)
    qed
    then have "set (keys @ found) \<union> ?ks (rest @ new) = set keys \<union> ?ks paths"
      unfolding paths by auto
    then show ?thesis using step ks by auto
  qed
qed

lemma get_keys_complete:
  assumes "ready s"
  shows "\<exists>ks. get_keys sops v s = Some (Ok ks, s) \<and> sorted ks \<and>
    set ks = {k. view_valid valid v k \<and> view_stored stored v s k \<noteq> None}"
proof -
  have "folder (expand_key v [])" using clean by (simp add: clean_view_def expand_key_def)
  then obtain ks where "get_keys_loop sops v [[]] [] s = Some (Ok ks, s)"
    "set ks = {k. view_valid valid v k \<and> view_stored stored v s k \<noteq> None}"
    using get_keys_loop_complete [OF assms, of "[[]]" "[]"] by auto
  then show ?thesis by (auto simp: get_keys_def)
qed

lemma delete_all_stored:
  assumes "ready s" "\<And>k. k \<in> set ks \<Longrightarrow> view_valid valid v k"
  shows "\<exists>s'. op_iter (view_delete sops v) ks s = (Ok (), s') \<and> ready s' \<and>
    (\<forall>k. view_valid valid v k \<longrightarrow>
      view_stored stored v s' k = (if k \<in> set ks then None else view_stored stored v s k)) \<and>
    (\<forall>k. valid k \<longrightarrow> \<not> starts_with k (bv_prefix v) \<longrightarrow> stored s' k = stored s k)"
  using assms
proof (induction ks arbitrary: s)
  case (Cons k ks)
  obtain s1 where s1: "view_delete sops v k s = (Ok (), s1)" "ready s1"
    "\<And>k'. view_valid valid v k' \<Longrightarrow> view_stored stored v s1 k' = ((view_stored stored v s)(k := None)) k'"
    "\<And>k'. valid k' \<Longrightarrow> \<not> starts_with k' (bv_prefix v) \<Longrightarrow> stored s1 k' = stored s k'"
    using sv.view_delete_stored [OF Cons.prems(1), of k] Cons.prems(2) by auto
  obtain s2 where s2: "op_iter (view_delete sops v) ks s1 = (Ok (), s2)" "ready s2"
    "\<And>k. view_valid valid v k \<Longrightarrow>
      view_stored stored v s2 k = (if k \<in> set ks then None else view_stored stored v s1 k)"
    "\<And>k. valid k \<Longrightarrow> \<not> starts_with k (bv_prefix v) \<Longrightarrow> stored s2 k = stored s1 k"
    using Cons.IH [OF s1(2)] Cons.prems(2) by auto
  have "op_iter (view_delete sops v) (k # ks) s = (Ok (), s2)" using s1(1) s2(1) by simp
  then show ?case using s1 s2 by (intro exI [of _ s2]) simp
qed simp

lemma clear_complete:
  assumes "ready s"
  shows "\<exists>s'. view_clear sops v s = Some (Ok (), s') \<and> ready s' \<and>
    (\<forall>k. view_valid valid v k \<longrightarrow> view_stored stored v s' k = None) \<and>
    (\<forall>k. valid k \<longrightarrow> \<not> starts_with k (bv_prefix v) \<longrightarrow> stored s' k = stored s k)"
proof -
  obtain ks where ks: "get_keys sops v s = Some (Ok ks, s)"
    "set ks = {k. view_valid valid v k \<and> view_stored stored v s k \<noteq> None}"
    using get_keys_complete [OF assms] by blast
  obtain s' where s': "op_iter (view_delete sops v) ks s = (Ok (), s')" "ready s'"
    "\<And>k. view_valid valid v k \<Longrightarrow>
      view_stored stored v s' k = (if k \<in> set ks then None else view_stored stored v s k)"
    "\<And>k. valid k \<Longrightarrow> \<not> starts_with k (bv_prefix v) \<Longrightarrow> stored s' k = stored s k"
    using delete_all_stored [OF assms, of ks] ks(2) by blast
  have "view_clear sops v s = Some (Ok (), s')" using ks(1) s'(1) by (simp add: view_clear_def)
  then show ?thesis using s'(2-4) ks(2) by auto
qed

end

section \<open>The file backend lists completely\<close>

text \<open>A folder is a list of directory components, written with a slash after each.\<close>

definition dir_component :: "string \<Rightarrow> bool" where
  "dir_component c \<longleftrightarrow> valid_component c \<and> hd c \<noteq> CHR ''_'' \<and> CHR ''/'' \<notin> set c"

definition dir_string :: "string list \<Rightarrow> string" where
  "dir_string q = concat (map (\<lambda>d. d @ ''/'') q)"

definition clean_key :: "string \<Rightarrow> bool" where
  "clean_key k \<longleftrightarrow> file_key k \<and> \<not> str_contains k ''..''"

definition clean_folder :: "string \<Rightarrow> bool" where
  "clean_folder p \<longleftrightarrow> (\<exists>q. list_all dir_component q \<and> p = dir_string q) \<and> \<not> str_contains p ''..''"

text \<open>Nothing but clean keys and their directories is below the root of the backend.\<close>

definition file_closed :: "fpath \<Rightarrow> fs \<Rightarrow> bool" where
  "file_closed root fs \<longleftrightarrow>
     (\<forall>q n. map_of fs (root @ q) = Some n \<longrightarrow> q \<noteq> [] \<longrightarrow>
        (case n of
           Dir \<Rightarrow> list_all dir_component q \<and> \<not> str_contains (dir_string q) ''..''
         | File _ \<Rightarrow> \<exists>k. clean_key k \<and> root @ q = key_file root k))"

definition file_subdirs :: "fpath \<Rightarrow> fs \<Rightarrow> string set" where
  "file_subdirs root fs = {dir_string q | q. map_of fs (root @ q) = Some Dir}"

lemma dir_string_simps [simp]:
  "dir_string [] = []" "dir_string (d # q) = d @ ''/'' @ dir_string q"
  "dir_string (q @ q') = dir_string q @ dir_string q'"
  by (simp_all add: dir_string_def)

lemma split_dir_append:
  assumes "list_all dir_component q"
  shows "split_on CHR ''/'' (dir_string q @ r) = q @ split_on CHR ''/'' r"
  using assms
proof (induction q)
  case (Cons d q)
  then have "CHR ''/'' \<notin> set d" by (simp add: dir_component_def)
  then show ?case
    using Cons split_on_append [of "CHR ''/''" d "dir_string q @ r"] split_on_no_sep [of "CHR ''/''" d] by simp
qed simp

lemma split_no_sep: "c \<in> set (split_on d s) \<Longrightarrow> d \<notin> set c"
  by (induction s arbitrary: c) (auto split: list.splits if_splits)

lemma join_dir_string: "cs \<noteq> [] \<Longrightarrow> join_with ''/'' cs = dir_string (butlast cs) @ last cs"
  by (induction cs) (auto simp: join_Cons)

lemma key_parts:
  assumes "file_key k"
  obtains q c where "k = dir_string q @ c" "split_on CHR ''/'' k = q @ [c]" "list_all dir_component q"
    "valid_component c" "CHR ''/'' \<notin> set c" "key_dir root k = root @ q" "key_file root k = root @ q @ [CHR ''_'' # c]"
proof -
  let ?cs = "split_on CHR ''/'' k"
  have "k = dir_string (butlast ?cs) @ last ?cs" using join_dir_string [of ?cs] join_split by simp
  moreover have "list_all dir_component (butlast ?cs)"
    using assms split_no_sep [of _ "CHR ''/''" k]
    by (auto simp: file_key_def Let_def list_all_iff dir_component_def dest: in_set_butlastD)
  moreover have "valid_component (last ?cs)" "CHR ''/'' \<notin> set (last ?cs)"
    using assms split_no_sep [of _ "CHR ''/''" k] by (auto simp: file_key_def Let_def)
  ultimately show thesis using that [of "butlast ?cs" "last ?cs"] by (simp add: key_dir_def key_file_def)
qed

lemma file_key_dir_string:
  assumes "list_all dir_component q" "valid_component c" "CHR ''/'' \<notin> set c"
  shows "file_key (dir_string q @ c)" "split_on CHR ''/'' (dir_string q @ c) = q @ [c]"
proof -
  show s: "split_on CHR ''/'' (dir_string q @ c) = q @ [c]"
    using split_dir_append [OF assms(1)] split_on_no_sep [OF assms(3)] by simp
  show "file_key (dir_string q @ c)"
    using assms by (auto simp: file_key_def s list_all_iff dir_component_def)
qed

lemma contains_append:
  "\<not> str_contains (a @ b) t \<Longrightarrow> \<not> str_contains a t" "\<not> str_contains (a @ b) t \<Longrightarrow> \<not> str_contains b t"
  unfolding str_contains_iff by (metis append.assoc)+

lemma finite_file_subdirs: "finite (file_subdirs root fs)"
proof (rule finite_subset)
  show "file_subdirs root fs \<subseteq> (\<lambda>p. dir_string (drop (length root) p)) ` fst ` set fs"
    by (force simp: file_subdirs_def image_iff dest: map_of_SomeD)
qed simp

text \<open>A folder that a name starts with is made of its first directories.\<close>

lemma dir_string_prefix:
  assumes "list_all dir_component q" "list_all dir_component ds" "CHR ''/'' \<notin> set c"
    and "starts_with (dir_string ds @ c) (dir_string q)"
  shows "prefix q ds"
proof -
  obtain r where "dir_string ds @ c = dir_string q @ r" using starts_withE [OF assms(4)] .
  then have "ds @ [c] = q @ split_on CHR ''/'' r"
    using split_dir_append [OF assms(1), of r] split_dir_append [OF assms(2), of c] split_on_no_sep [OF assms(3)]
    by simp
  then have "ds = q @ butlast (split_on CHR ''/'' r)" by (metis butlast_append butlast_snoc split_on_not_Nil)
  then show ?thesis by simp
qed

text \<open>Every node in a folder is a key or a folder, and is named as such.\<close>

lemma closed_node:
  assumes I: "file_invar ser de root fs" "file_closed root fs" and q: "list_all dir_component q"
    and x: "map_of fs (root @ q @ [x]) \<noteq> None"
    and n: "n = (case strip_prefix x ''_'' of Some y \<Rightarrow> y | None \<Rightarrow> x @ ''/'')"
  shows "n \<noteq> [] \<and>
    (if ends_with n ''/'' then clean_folder (dir_string q @ n) \<and> dir_string q @ n \<in> file_subdirs root fs
     else clean_key (dir_string q @ n) \<and> file_contents de root fs (dir_string q @ n) \<noteq> None)"
proof (cases "map_of fs (root @ q @ [x])")
  case (Some node)
  note closed = I(2) [unfolded file_closed_def, rule_format, of "q @ [x]" node]
  show ?thesis
  proof (cases node)
    case Dir
    then have "list_all dir_component (q @ [x])" "\<not> str_contains (dir_string (q @ [x])) ''..''"
      using closed Some by simp_all
    moreover from this(1) have "n = x @ ''/''"
      using n by (cases x) (auto simp: dir_component_def strip_prefix_def starts_with_def)
    moreover have "dir_string (q @ [x]) \<in> file_subdirs root fs"
      using Some Dir unfolding file_subdirs_def by blast
    ultimately show ?thesis by (auto simp: clean_folder_def ends_with_iff intro: exI [of _ "q @ [x]"])
  next
    case (File t)
    then obtain k where k: "clean_key k" "root @ q @ [x] = key_file root k"
      using closed Some by auto
    then have fk: "file_key k" by (simp add: clean_key_def)
    obtain q' c where kp: "k = dir_string q' @ c" "valid_component c" "CHR ''/'' \<notin> set c"
      "key_file root k = root @ q' @ [CHR ''_'' # c]" by (rule key_parts [OF fk])
    then have "q' = q" "x = CHR ''_'' # c" using k(2) by auto
    moreover from this have "n = c" using n by (simp add: strip_prefix_def starts_with_def)
    moreover have "file_contents de root fs k \<noteq> None"
      using file_invarD(6) [OF I(1) fk, of t] Some File k(2) by (auto simp: file_contents_def)
    ultimately show ?thesis using kp k(1) by (auto simp: valid_component_def ends_with_iff)
  qed
qed (use x in simp)

lemma stored_node:
  assumes I: "file_invar ser de root fs" and q: "list_all dir_component q"
    and k: "file_key k" "file_contents de root fs k \<noteq> None" "starts_with k (dir_string q)"
  obtains x n where "map_of fs (root @ q @ [x]) \<noteq> None"
    "n = (case strip_prefix x ''_'' of Some y \<Rightarrow> y | None \<Rightarrow> x @ ''/'')"
    "if ends_with n ''/'' then starts_with k (dir_string q @ n) else k = dir_string q @ n"
proof -
  obtain ds c where kp: "k = dir_string ds @ c" "list_all dir_component ds" "valid_component c" "CHR ''/'' \<notin> set c"
    "key_file root k = root @ ds @ [CHR ''_'' # c]" by (rule key_parts [OF k(1)])
  then obtain zs where ds: "ds = q @ zs"
    using dir_string_prefix [OF q] k(3) by (auto simp: prefix_def)
  have node: "map_of fs (root @ ds @ [CHR ''_'' # c]) \<noteq> None"
    using k(2) kp(5) by (auto simp: file_contents_def split: option.splits)
  show thesis
  proof (cases zs)
    case Nil
    have "\<not> ends_with c ''/''" using kp(4) by (auto simp: ends_with_iff)
    then show ?thesis
      using that [of "CHR ''_'' # c" c] node ds Nil kp(1) by (simp add: strip_prefix_def starts_with_def)
  next
    case (Cons z zs')
    then have "map_of fs (root @ q @ [z]) = Some Dir"
      using parents_are_dirs [OF I, of "root @ ds"] node ds by (force simp: prefix_def)
    moreover have "strip_prefix z ''_'' = None"
      using kp(2) ds Cons by (cases z) (auto simp: dir_component_def strip_prefix_def starts_with_def)
    ultimately show ?thesis
      using that [of z "z @ ''/''"] ds Cons kp(1) by (simp add: ends_with_iff starts_with_iff_prefix)
  qed
qed

lemma file_list_complete:
  assumes I: "file_invar ser de root fs" "file_closed root fs" and p: "clean_folder p"
  shows "\<exists>names. file_list root p fs = (Ok names, fs) \<and>
    lists_folder clean_key (\<lambda>k. file_contents de root fs k \<noteq> None) clean_folder (file_subdirs root fs) p names"
proof -
  obtain q where q: "list_all dir_component q" "p = dir_string q" using p by (auto simp: clean_folder_def)
  have a: "valid_component ''a''" "CHR ''/'' \<notin> set ''a''" by (simp_all add: valid_component_def)
  note fk = file_key_dir_string [OF q(1) a]
  have kd: "key_dir root (p @ ''a'') = root @ q" using fk(2) by (simp add: key_dir_def q(2))
  have "p = [] \<or> last p = CHR ''/''"
    by (cases q rule: rev_cases) (simp_all add: q(2))
  from file_list_parent [OF I(1) _ a(2) this] fk(1) kd
  have l: "file_list root p fs = (Ok (if walk fs [] (root @ q) = Inl NotFound then []
      else map (\<lambda>x. case strip_prefix x ''_'' of Some y \<Rightarrow> y | None \<Rightarrow> x @ ''/'') (dir_names (root @ q) fs)), fs)"
    (is "_ = (Ok ?names, fs)") by (simp add: q(2))
  have walk: "map_of fs (root @ q @ [x]) \<noteq> None \<Longrightarrow> walk fs [] (root @ q) \<noteq> Inl NotFound" for x
    using walk_key_dir [OF I(1) fk(1)] parents_are_dirs [OF I(1), of "root @ q" x] kd
    by (auto simp: q(2) split: if_splits)
  have in_names: "n \<in> set ?names \<longleftrightarrow> (\<exists>x. map_of fs (root @ q @ [x]) \<noteq> None \<and>
      n = (case strip_prefix x ''_'' of Some y \<Rightarrow> y | None \<Rightarrow> x @ ''/''))" for n
    using walk dir_names_iff [of _ "root @ q" fs] by auto
  have "lists_folder clean_key (\<lambda>k. file_contents de root fs k \<noteq> None) clean_folder (file_subdirs root fs) p ?names"
    unfolding lists_folder_def
  proof (intro conjI ballI allI impI)
    fix n assume "n \<in> set ?names"
    then obtain x where "map_of fs (root @ q @ [x]) \<noteq> None"
      "n = (case strip_prefix x ''_'' of Some y \<Rightarrow> y | None \<Rightarrow> x @ ''/'')" using in_names by blast
    from closed_node [OF I q(1) this]
    show "n \<noteq> []" "if ends_with n ''/'' then clean_folder (p @ n) \<and> p @ n \<in> file_subdirs root fs
      else clean_key (p @ n) \<and> file_contents de root fs (p @ n) \<noteq> None" by (simp_all add: q(2))
  next
    fix k assume "clean_key k" "file_contents de root fs k \<noteq> None" "starts_with k p"
    then obtain x n where "map_of fs (root @ q @ [x]) \<noteq> None"
      "n = (case strip_prefix x ''_'' of Some y \<Rightarrow> y | None \<Rightarrow> x @ ''/'')"
      "if ends_with n ''/'' then starts_with k (p @ n) else k = p @ n"
      using stored_node [OF I(1) q(1)] unfolding q(2) clean_key_def by metis
    then show "\<exists>n \<in> set ?names. if ends_with n ''/'' then starts_with k (p @ n) else k = p @ n"
      using in_names by blast
  qed
  then show ?thesis using l by blast
qed

definition file_ready ::
  "(backend_entry \<Rightarrow> string) \<Rightarrow> (string \<Rightarrow> backend_entry option) \<Rightarrow> fpath \<Rightarrow> fs \<Rightarrow> bool" where
  "file_ready ser de root fs \<longleftrightarrow> file_invar ser de root fs \<and> file_closed root fs"

lemma file_put_closed:
  assumes I: "file_ready ser de root fs" and k: "clean_key k"
    and put: "file_put ser root \<lparr>be_key = k, be_value = v\<rparr> fs = (r, fs')"
  shows "file_closed root fs'"
  unfolding file_closed_def
proof (intro allI impI)
  fix q n assume n: "map_of fs' (root @ q) = Some n" and ne: "q \<noteq> []"
  have fk: "file_key k" using k by (simp add: clean_key_def)
  obtain ds c where kp: "k = dir_string ds @ c" "list_all dir_component ds" "key_dir root k = root @ ds"
    by (rule key_parts [OF fk])
  have m: "map_of fs' p = (if p = key_file root k then Some (File (ser \<lparr>be_key = k, be_value = v\<rparr>))
      else if p \<noteq> [] \<and> prefix p (key_dir root k) then Some Dir else map_of fs p)" for p
    using file_put_effect [OF _ fk refl, of ser de root fs v] I put by (auto simp: file_ready_def)
  show "case n of Dir \<Rightarrow> list_all dir_component q \<and> \<not> str_contains (dir_string q) ''..''
      | File _ \<Rightarrow> \<exists>k. clean_key k \<and> root @ q = key_file root k"
  proof (cases "root @ q = key_file root k")
    case True
    then show ?thesis using n m k by auto
  next
    case other: False
    show ?thesis
    proof (cases "prefix (root @ q) (key_dir root k)")
      case True
      then obtain zs where "ds = q @ zs" by (auto simp: kp(3) prefix_def)
      then show ?thesis
        using kp(1,2) k n m True ne other contains_append(1) [of "dir_string q" "dir_string zs @ c"]
        by (auto simp: clean_key_def)
    next
      case False
      then show ?thesis using n m other I ne by (auto simp: file_ready_def file_closed_def)
    qed
  qed
qed

lemma file_delete_closed:
  assumes "file_closed root fs" "file_delete root k fs = (r, fs')"
  shows "file_closed root fs'"
proof -
  have "fs' = fs \<or> (\<exists>p. fs' = fs_remove p fs)"
    using assms(2)
    by (auto simp: file_delete_def remove_file_def split: if_splits res.splits prod.splits sum.splits
        option.splits node.splits io_kind.splits)
  then have "map_of fs' p = Some n \<Longrightarrow> map_of fs p = Some n" for p n
    by (auto simp: map_of_fs_remove split: if_splits)
  then show ?thesis using assms(1) unfolding file_closed_def by blast
qed

lemma file_put_subdirs:
  assumes I: "file_ready ser de root fs" and k: "clean_key k"
    and put: "file_put ser root \<lparr>be_key = k, be_value = v\<rparr> fs = (r, fs')" and d: "d \<in> file_subdirs root fs'"
  shows "d \<in> file_subdirs root fs \<or> folder_of k d"
proof -
  have fk: "file_key k" using k by (simp add: clean_key_def)
  obtain ds c where kp: "k = dir_string ds @ c" "list_all dir_component ds" "key_dir root k = root @ ds"
    by (rule key_parts [OF fk])
  have m: "map_of fs' p = (if p = key_file root k then Some (File (ser \<lparr>be_key = k, be_value = v\<rparr>))
      else if p \<noteq> [] \<and> prefix p (key_dir root k) then Some Dir else map_of fs p)" for p
    using file_put_effect [OF _ fk refl, of ser de root fs v] I put by (auto simp: file_ready_def)
  obtain q where q: "d = dir_string q" "map_of fs' (root @ q) = Some Dir" using d by (auto simp: file_subdirs_def)
  have "d = [] \<or> ends_with d ''/''"
    by (cases q rule: rev_cases) (simp_all add: q(1) ends_with_iff dir_string_def)
  moreover have "map_of fs (root @ q) = Some Dir \<or> prefix q ds"
    using q(2) m [of "root @ q"] kp(3) by (auto split: if_splits)
  ultimately show ?thesis
    using kp(1) q(1) by (auto simp: folder_of_def file_subdirs_def starts_with_iff_prefix dir_string_def prefix_def)
qed

lemma file_delete_subdirs:
  assumes "file_delete root k fs = (r, fs')"
  shows "file_subdirs root fs' \<subseteq> file_subdirs root fs"
proof -
  have "fs' = fs \<or> (\<exists>p. fs' = fs_remove p fs)"
    using assms
    by (auto simp: file_delete_def remove_file_def split: if_splits res.splits prod.splits sum.splits
        option.splits node.splits io_kind.splits)
  then show ?thesis by (auto simp: file_subdirs_def map_of_fs_remove split: if_splits)
qed

interpretation fl: listing_backend "file_backend ser de root" clean_key "file_contents de root"
  "file_ready ser de root" clean_folder "file_subdirs root" for ser de root
proof unfold_locales
  fix b k v
  assume I: "file_ready ser de root b" and k: "clean_key k"
  then have i: "file_invar ser de root b" "file_closed root b" "file_key k"
    by (simp_all add: file_ready_def clean_key_def)
  show "backend_get (file_backend ser de root) k b =
      (Ok (map_option (\<lambda>v. \<lparr>be_key = k, be_value = v\<rparr>) (file_contents de root b k)), b)"
    by (rule fb.get_contents [OF i(1,3)])
  obtain b1 where "file_put ser root \<lparr>be_key = k, be_value = v\<rparr> b = (Ok (), b1)" "file_invar ser de root b1"
    "\<And>k'. file_key k' \<Longrightarrow> file_contents de root b1 k' = ((file_contents de root b)(k \<mapsto> v)) k'"
    using file_put_contents [OF i(1,3)] by meson
  then show "\<exists>b'. backend_put (file_backend ser de root) \<lparr>be_key = k, be_value = v\<rparr> b = (Ok (), b') \<and>
      file_ready ser de root b' \<and>
      (\<forall>k'. clean_key k' \<longrightarrow> file_contents de root b' k' = ((file_contents de root b)(k \<mapsto> v)) k')"
    using file_put_closed [OF I k] unfolding file_backend_sel by (auto simp: file_ready_def clean_key_def)
  obtain b2 where "file_delete root k b = (Ok (), b2)" "file_invar ser de root b2"
    "\<And>k'. file_key k' \<Longrightarrow> file_contents de root b2 k' = ((file_contents de root b)(k := None)) k'"
    using file_delete_contents [OF i(1,3)] by meson
  then show "\<exists>b'. backend_delete (file_backend ser de root) k b = (Ok (), b') \<and> file_ready ser de root b' \<and>
      (\<forall>k'. clean_key k' \<longrightarrow> file_contents de root b' k' = ((file_contents de root b)(k := None)) k')"
    using file_delete_closed [OF i(2)] unfolding file_backend_sel by (auto simp: file_ready_def clean_key_def)
next
  show "\<exists>names. backend_list (file_backend ser de root) p b = (Ok names, b) \<and>
      lists_folder clean_key (\<lambda>k. file_contents de root b k \<noteq> None) clean_folder (file_subdirs root b) p names"
    if "file_ready ser de root b" "clean_folder p" for b p
    using file_list_complete that unfolding file_backend_sel file_ready_def by blast
qed (unfold file_backend_sel, rule finite_file_subdirs, erule (3) file_put_subdirs, erule file_delete_subdirs)

section \<open>Clearing a view over files\<close>

lemma clean_view_folder:
  assumes "clean_folder (bv_prefix v)" "bv_prefix v \<noteq> []" "\<not> starts_with BARRIER_INIT_PATH (bv_prefix v)"
  shows "clean_view (barrier_valid clean_key) (barrier_folder clean_folder) v"
proof -
  obtain q where q: "list_all dir_component q" "bv_prefix v = dir_string q"
    using assms(1) by (auto simp: clean_folder_def)
  have slash: "\<not> starts_with k ''/''" if "clean_key (dir_string q @ k) \<or> clean_folder (dir_string q @ k)" for k
  proof
    assume "starts_with k ''/''"
    then obtain r where "k = CHR ''/'' # r" by (auto elim: starts_withE)
    then have e: "[] \<in> set (butlast (split_on CHR ''/'' (dir_string q @ k)))"
      using split_dir_append [OF q(1), of k] by (simp add: butlast_append)
    from that show False
    proof
      assume "clean_key (dir_string q @ k)"
      then show False using e by (auto simp: clean_key_def file_key_def Let_def valid_component_def dest: in_set_butlastD)
    next
      assume "clean_folder (dir_string q @ k)"
      then obtain q' where "list_all dir_component q'" "dir_string q @ k = dir_string q' @ []"
        by (auto simp: clean_folder_def)
      then have "[] \<in> set q'" using e split_dir_append [of q' "[]"] by simp
      then show False using \<open>list_all dir_component q'\<close>
        by (auto simp: list_all_iff dir_component_def valid_component_def)
    qed
  qed
  have "sanity_check k = Ok ()"
    if "barrier_valid clean_key (expand_key v k) \<or> barrier_folder clean_folder (expand_key v k)" for k
  proof -
    have c: "clean_key (dir_string q @ k) \<or> clean_folder (dir_string q @ k)"
      using that q(2) by (auto simp: expand_key_def barrier_valid_def barrier_folder_def)
    then have "\<not> str_contains k ''..''"
      using contains_append(2) by (auto simp: clean_key_def clean_folder_def)
    then show ?thesis using slash [OF c] by (simp add: sanity_check_Ok_iff)
  qed
  then show ?thesis using assms by (simp add: clean_view_def barrier_folder_def)
qed

abbreviation vault_ready ::
  "crypto \<Rightarrow> (backend_entry \<Rightarrow> string) \<Rightarrow> (string \<Rightarrow> backend_entry option) \<Rightarrow> fpath \<Rightarrow> fs barrier \<Rightarrow> bool" where
  "vault_ready E ser de root \<equiv> barrier_ready E clean_key (file_contents de root) (file_ready ser de root)"

lemma listing_view_files:
  assumes "clean_folder (bv_prefix v)" "bv_prefix v \<noteq> []" "\<not> starts_with BARRIER_INIT_PATH (bv_prefix v)"
  shows "listing_view (barrier_storage E (file_backend ser de root)) (barrier_valid clean_key)
    (barrier_stored E (file_contents de root)) (vault_ready E ser de root)
    (barrier_folder clean_folder) (\<lambda>s. file_subdirs root (b_backend s)) v"
  by unfold_locales (rule clean_view_folder [OF assms])

text \<open>
  Clearing a view ends and clears it. For a view under a folder of an unsealed vault over files, the
  depth-first walk over the listings ends, all the keys it returns are deleted, and then no key of the view is
  stored, while every key outside the view is as before.
\<close>

theorem view_clear_clears:
  assumes "clean_folder (bv_prefix v)" "bv_prefix v \<noteq> []" "\<not> starts_with BARRIER_INIT_PATH (bv_prefix v)"
    and "vault_ready E ser de root s"
  shows "\<exists>s'. view_clear (barrier_storage E (file_backend ser de root)) v s = Some (Ok (), s') \<and>
    vault_ready E ser de root s' \<and>
    (\<forall>k. barrier_valid clean_key k \<longrightarrow>
      barrier_get E (file_backend ser de root) k s' =
        (if starts_with k (bv_prefix v) then Ok None
         else fst (barrier_get E (file_backend ser de root) k s), s'))"
proof -
  obtain s' where s': "view_clear (barrier_storage E (file_backend ser de root)) v s = Some (Ok (), s')"
    "vault_ready E ser de root s'"
    "\<And>k. view_valid (barrier_valid clean_key) v k \<Longrightarrow>
      view_stored (barrier_stored E (file_contents de root)) v s' k = None"
    "\<And>k. barrier_valid clean_key k \<Longrightarrow> \<not> starts_with k (bv_prefix v) \<Longrightarrow>
      barrier_stored E (file_contents de root) s' k = barrier_stored E (file_contents de root) s k"
    using listing_view.clear_complete [OF listing_view_files [OF assms(1-3)] assms(4)] by blast
  have "barrier_stored E (file_contents de root) s' k = None"
    if k: "barrier_valid clean_key k" "starts_with k (bv_prefix v)" for k
  proof -
    obtain r where r: "k = expand_key v r" using k(2) by (auto simp: expand_key_def elim: starts_withE)
    then have "view_valid (barrier_valid clean_key) v r"
      using k(1) listing_view.view_valid_iff [OF listing_view_files [OF assms(1-3)]] by blast
    then show ?thesis using s'(3) r by (auto simp: view_stored_def)
  qed
  then have "barrier_get E (file_backend ser de root) k s' =
        (if starts_with k (bv_prefix v) then Ok None
         else fst (barrier_get E (file_backend ser de root) k s), s')"
    if "barrier_valid clean_key k" for k
    using fl.barrier_get_stored [OF s'(2) that] fl.barrier_get_stored [OF assms(4) that] s'(4) [OF that] that
    by auto
  then show ?thesis using s'(1,2) by blast
qed

lemma demo_vault_ready: "vault_ready demo_crypto demo_ser demo_de [''data''] demo_unsealed"
  using demo_invar
  by (simp add: barrier_ready_def demo_unsealed_def demo_aead_ok file_contents_def file_ready_def file_closed_def)

lemma demo_clean: "clean_folder ''logical/1/''" "clean_key ''logical/1/a/b''"
proof -
  have "list_all dir_component [''logical'', ''1'']" "''logical/1/'' = dir_string [''logical'', ''1'']"
    by (simp_all add: dir_component_def valid_component_def)
  moreover have "\<not> str_contains ''logical/1/'' ''..''" by code_simp
  ultimately show "clean_folder ''logical/1/''" unfolding clean_folder_def by blast
  show "clean_key ''logical/1/a/b''" by code_simp
qed

theorem view_clear_clears_witness:
  "\<exists>s s'. barrier_put demo_crypto demo_ops \<lparr>se_key = ''logical/1/a/b'', se_value = [5]\<rparr> demo_unsealed = (Ok (), s) \<and>
    view_clear (barrier_storage demo_crypto demo_ops) (view_new ''logical/1/'') s = Some (Ok (), s') \<and>
    barrier_get demo_crypto demo_ops ''logical/1/a/b'' s' = (Ok None, s')"
proof -
  have k: "barrier_valid clean_key ''logical/1/a/b''"
    using demo_clean(2) by (simp add: barrier_valid_def BARRIER_INIT_PATH_def)
  obtain s where put: "barrier_put demo_crypto demo_ops \<lparr>se_key = ''logical/1/a/b'', se_value = [5]\<rparr> demo_unsealed = (Ok (), s)"
    "vault_ready demo_crypto demo_ser demo_de [''data''] s"
    using fl.barrier_put_stored [OF demo_vault_ready k] unfolding demo_ops_def by meson
  have v: "clean_folder (bv_prefix (view_new ''logical/1/''))" "bv_prefix (view_new ''logical/1/'') \<noteq> []"
    "\<not> starts_with BARRIER_INIT_PATH (bv_prefix (view_new ''logical/1/''))"
    "starts_with ''logical/1/a/b'' (bv_prefix (view_new ''logical/1/''))"
    using demo_clean(1) by (simp_all add: view_new_def BARRIER_INIT_PATH_def starts_with_def)
  from view_clear_clears [OF v(1-3) put(2)] k v(4) put(1) show ?thesis
    unfolding demo_ops_def by auto
qed

end
