(* ===== verification/Token_Tree.thy ===== *)
theory Token_Tree
  imports Token_Api Listing
begin

text \<open>
  The tree of tokens. The locale \<open>token_storage\<close> states what the token store and the expiration manager rely on: a
  storage with complete listings, two views of it, and identifiers that are names in it. An invariant says that the
  index of the children and the entries of the tokens agree; under it, revocation ends and revokes exactly the
  descendants of a token. The locale is interpreted on the barrier over files.
\<close>

section \<open>Names and keys\<close>

definition hex_name :: "string \<Rightarrow> bool" where
  "hex_name x \<longleftrightarrow> x \<noteq> [] \<and> set x \<subseteq> set ''0123456789abcdef''"

lemma hex_digit_in: "hex_digit n \<in> set ''0123456789abcdef''"
  unfolding hex_digit_def by (rule nth_mem) simp

lemma salt_id_hex: "hex_name (ts_salt_id E x)"
  using hex_digit_in by (auto simp: hex_name_def ts_salt_id_def sha1_def simp del: insert_iff list.set)

lemma hex_name_no_slash: "hex_name a \<Longrightarrow> CHR ''/'' \<notin> set a"
  by (auto simp: hex_name_def)

lemma hex_name_not_fixed: "\<not> hex_name ''id''" "\<not> hex_name ''parent''" "\<not> hex_name ''salt''"
  by (auto simp: hex_name_def)

lemma slash_append_inj:
  assumes "CHR ''/'' \<notin> set a" "CHR ''/'' \<notin> set a'"
  shows "a @ CHR ''/'' # b = a' @ CHR ''/'' # b' \<longleftrightarrow> a = a' \<and> b = b'"
  using assms by (induction a arbitrary: a') (case_tac a', auto)+

abbreviation id_key :: "string \<Rightarrow> string" where
  "id_key a \<equiv> TOKEN_LOOKUP_PREFIX @ a"

abbreviation child_key :: "string \<Rightarrow> string \<Rightarrow> string" where
  "child_key p c \<equiv> TOKEN_PARENT_PREFIX @ p @ CHR ''/'' # c"

abbreviation lease_key :: "string \<Rightarrow> string \<Rightarrow> string" where
  "lease_key a b \<equiv> a @ CHR ''/'' # b"

lemma id_key_split: "id_key a = ''id'' @ CHR ''/'' # a"
  by (simp add: TOKEN_LOOKUP_PREFIX_def)

lemma child_key_split: "child_key p c = ''parent'' @ CHR ''/'' # p @ CHR ''/'' # c"
  by (simp add: TOKEN_PARENT_PREFIX_def)

lemma keys_distinct [simp]:
  "id_key a \<noteq> child_key p c" "child_key p c \<noteq> id_key a"
  "hex_name q \<Longrightarrow> id_key a \<noteq> lease_key q b" "hex_name q \<Longrightarrow> lease_key q b \<noteq> id_key a"
  "hex_name q \<Longrightarrow> child_key p c \<noteq> lease_key q b" "hex_name q \<Longrightarrow> lease_key q b \<noteq> child_key p c"
  "hex_name p \<Longrightarrow> hex_name p' \<Longrightarrow> child_key p c = child_key p' c' \<longleftrightarrow> p = p' \<and> c = c'"
  "hex_name p \<Longrightarrow> hex_name p' \<Longrightarrow> lease_key p c = lease_key p' c' \<longleftrightarrow> p = p' \<and> c = c'"
  unfolding id_key_split child_key_split
  using slash_append_inj [of p p'] slash_append_inj [of "''id''" q] slash_append_inj [of "''parent''" q]
    slash_append_inj [of q "''id''"] slash_append_inj [of q "''parent''"] hex_name_no_slash hex_name_not_fixed by auto

section \<open>The invariant, on the contents of the views\<close>

text \<open>
  A snapshot of the contents: what the token view stores, what the lease view stores, the folders of the token
  view, and the entry a stored value encodes.
\<close>

type_synonym contents = "string \<Rightarrow> bytes option"

definition token_at :: "'s tenv \<Rightarrow> contents \<Rightarrow> string \<Rightarrow> token_entry option" where
  "token_at E st a = Option.bind (st (id_key a)) (tn_dec_token E)"

definition child_of :: "contents \<Rightarrow> string \<Rightarrow> string \<Rightarrow> bool" where
  "child_of st p c \<longleftrightarrow> hex_name p \<and> hex_name c \<and> st (child_key p c) \<noteq> None"

definition children :: "contents \<Rightarrow> (string \<times> string) set" where
  "children st = {(p, c). child_of st p c}"

definition lease_ok :: "'s tenv \<Rightarrow> (string \<Rightarrow> bool) \<Rightarrow> contents \<Rightarrow> string \<Rightarrow> bool" where
  "lease_ok E lvalid wst lid \<longleftrightarrow>
     lvalid lid \<and>
     (\<forall>x. wst lid = Some x \<longrightarrow>
        (case tn_dec_lease E x of Some le \<Rightarrow> le_auth le = None | None \<Rightarrow> tn_dec_old_lease E x = None))"

definition flat_folders :: "string set \<Rightarrow> bool" where
  "flat_folders dirs \<longleftrightarrow>
     (\<forall>p x. hex_name p \<longrightarrow> child_key p x \<in> dirs \<or> lease_key p x \<in> dirs \<longrightarrow> x = [])"

definition tree_inv :: "'s tenv \<Rightarrow> (string \<Rightarrow> bool) \<Rightarrow> (string \<Rightarrow> bool) \<Rightarrow> contents \<Rightarrow> contents \<Rightarrow> bool" where
  "tree_inv E valid lvalid st wst \<longleftrightarrow>
     (\<forall>a x. hex_name a \<longrightarrow> st (id_key a) = Some x \<longrightarrow>
        (\<exists>te. tn_dec_token E x = Some te \<and> ts_salt_id E (tke_id te) = a)) \<and>
     (\<forall>p n. hex_name p \<longrightarrow> valid (child_key p n) \<longrightarrow> st (child_key p n) \<noteq> None \<longrightarrow> hex_name n) \<and>
     (\<forall>p n. hex_name p \<longrightarrow> valid (lease_key p n) \<longrightarrow> st (lease_key p n) \<noteq> None \<longrightarrow> hex_name n) \<and>
     (\<forall>p c. child_of st p c \<longrightarrow>
        (\<exists>te. token_at E st c = Some te \<and> tke_parent te \<noteq> [] \<and> ts_salt_id E (tke_parent te) = p)) \<and>
     (\<forall>a b x. hex_name a \<longrightarrow> hex_name b \<longrightarrow> st (lease_key a b) = Some x \<longrightarrow> lease_ok E lvalid wst (tn_lossy E x))"

lemma tree_invD:
  assumes "tree_inv E valid lvalid st wst"
  shows "hex_name a \<Longrightarrow> st (id_key a) = Some x \<Longrightarrow>
      \<exists>te. tn_dec_token E x = Some te \<and> ts_salt_id E (tke_id te) = a"
    and "hex_name p \<Longrightarrow> valid (child_key p n) \<Longrightarrow> st (child_key p n) \<noteq> None \<Longrightarrow> hex_name n"
    and "hex_name p \<Longrightarrow> valid (lease_key p n) \<Longrightarrow> st (lease_key p n) \<noteq> None \<Longrightarrow> hex_name n"
    and "child_of st p c \<Longrightarrow>
      \<exists>te. token_at E st c = Some te \<and> tke_parent te \<noteq> [] \<and> ts_salt_id E (tke_parent te) = p"
    and "hex_name a \<Longrightarrow> hex_name b \<Longrightarrow> st (lease_key a b) = Some y \<Longrightarrow> lease_ok E lvalid wst (tn_lossy E y)"
  using assms unfolding tree_inv_def by blast+

text \<open>What removing the tokens of a set does to the contents.\<close>

definition removes :: "'s tenv \<Rightarrow> string set \<Rightarrow> contents \<Rightarrow> contents \<Rightarrow> bool" where
  "removes E D st st' \<longleftrightarrow>
     (\<forall>a. hex_name a \<longrightarrow> token_at E st' a = (if a \<in> D then None else token_at E st a)) \<and>
     (\<forall>p c. child_of st' p c \<longleftrightarrow> child_of st p c \<and> c \<notin> D)"

definition descendants :: "contents \<Rightarrow> string \<Rightarrow> string set" where
  "descendants st p = {a. (p, a) \<in> (children st)\<^sup>*}"

lemma removes_trans: "removes E D st st1 \<Longrightarrow> removes E D' st1 st2 \<Longrightarrow> removes E (D \<union> D') st st2"
  by (auto simp: removes_def)

lemma removes_children: "removes E D st st' \<Longrightarrow> children st' = {(p, c) \<in> children st. c \<notin> D}"
  by (auto simp: removes_def children_def)

lemma descendants_hex: "a \<in> descendants st p \<Longrightarrow> hex_name p \<Longrightarrow> hex_name a"
  unfolding descendants_def mem_Collect_eq
  by (induction rule: rtrancl_induct) (auto simp: children_def child_of_def)

text \<open>After a set closed under children is removed, the other descendants are the ones that are left.\<close>

lemma descendants_removed:
  assumes "removes E D st st'" and closed: "\<And>p c. p \<in> D \<Longrightarrow> (p, c) \<in> children st \<Longrightarrow> c \<in> D"
  shows "D \<union> descendants st' p = D \<union> descendants st p"
proof -
  have "a \<in> D \<or> (p, a) \<in> (children st')\<^sup>*" if "(p, a) \<in> (children st)\<^sup>*" for a
    using that
  proof (induction rule: rtrancl_induct)
    case (step a b)
    then show ?case
      using closed removes_children [OF assms(1)] by (auto intro: rtrancl_into_rtrancl)
  qed simp
  moreover have "(children st')\<^sup>* \<subseteq> (children st)\<^sup>*"
    by (rule rtrancl_mono) (auto simp: removes_children [OF assms(1)])
  ultimately show ?thesis by (auto simp: descendants_def)
qed

lemma descendants_step: "descendants st p = insert p (\<Union>c \<in> {c. child_of st p c}. descendants st c)"
  unfolding descendants_def
  by (auto simp: children_def intro: converse_rtrancl_into_rtrancl elim: converse_rtranclE)

lemma descendants_closed: "a \<in> descendants st p \<Longrightarrow> (a, b) \<in> children st \<Longrightarrow> b \<in> descendants st p"
  by (auto simp: descendants_def intro: rtrancl_into_rtrancl)

text \<open>
  The leases of a token: those in its index. A lease is gone when loading it finds nothing. The leases are in order when
  each is stored under its own identifier and indexed by the salted one, and no two stored leases have the same salted
  identifier.
\<close>

definition indexes_lease :: "'s tenv \<Rightarrow> contents \<Rightarrow> string \<Rightarrow> string \<Rightarrow> bool" where
  "indexes_lease E st a l \<longleftrightarrow> (\<exists>b x. hex_name b \<and> st (lease_key a b) = Some x \<and> tn_lossy E x = l)"

definition lease_gone :: "'s tenv \<Rightarrow> contents \<Rightarrow> string \<Rightarrow> bool" where
  "lease_gone E wst l \<longleftrightarrow> (\<forall>y. wst l = Some y \<longrightarrow> tn_dec_lease E y = None \<and> tn_dec_old_lease E y = None)"

definition leases_in_order :: "'s tenv \<Rightarrow> (string \<Rightarrow> bool) \<Rightarrow> contents \<Rightarrow> contents \<Rightarrow> bool" where
  "leases_in_order E lvalid st wst \<longleftrightarrow>
     (\<forall>a b x. hex_name a \<longrightarrow> hex_name b \<longrightarrow> st (lease_key a b) = Some x \<longrightarrow> ts_salt_id E (tn_lossy E x) = b) \<and>
     (\<forall>l y le. lvalid l \<longrightarrow> wst l = Some y \<longrightarrow> tn_dec_lease E y = Some le \<longrightarrow> le_lease_id le = l) \<and>
     inj_on (ts_salt_id E) {l. lvalid l \<and> wst l \<noteq> None}"

section \<open>The contract\<close>

text \<open>The token store and the lease index share the view \<open>v\<close>; \<open>w\<close> is the view of the leases.\<close>

locale token_storage = listing_view sops valid stored ready folder subdirs v
  for sops :: "'s storage_ops" and valid stored ready folder subdirs v +
  fixes E :: "'s tenv" and w :: barrier_view
  assumes env: "tn_sops E = sops" "tn_view E = Some v" "tn_token_view E = v" "tn_id_view E = w" "tn_linked E"
    and valid_id: "hex_name a \<Longrightarrow> valid (expand_key v (id_key a))"
    and valid_child: "hex_name p \<Longrightarrow> hex_name c \<Longrightarrow> valid (expand_key v (child_key p c))"
    and valid_lease: "hex_name a \<Longrightarrow> hex_name b \<Longrightarrow> valid (expand_key v (lease_key a b))"
    and folder_child: "hex_name p \<Longrightarrow> folder (expand_key v (child_key p []))"
    and folder_lease: "hex_name a \<Longrightarrow> folder (expand_key v (lease_key a []))"
    and apart: "\<not> starts_with (bv_prefix v) (bv_prefix w)" "\<not> starts_with (bv_prefix w) (bv_prefix v)"

sublocale token_storage \<subseteq> lw: storage_view sops valid stored ready w
  by unfold_locales

context token_storage
begin

abbreviation tvalid where "tvalid \<equiv> view_valid valid v"
abbreviation lvalid where "lvalid \<equiv> view_valid valid w"

definition tst :: "'s tstate \<Rightarrow> contents" where
  "tst s = view_stored stored v (ts_store s)"

definition wst :: "'s tstate \<Rightarrow> contents" where
  "wst s = view_stored stored w (ts_store s)"

definition tdirs :: "'s tstate \<Rightarrow> string set" where
  "tdirs s = {d. expand_key v d \<in> subdirs (ts_store s)}"

definition tok_inv :: "'s tstate \<Rightarrow> bool" where
  "tok_inv s \<longleftrightarrow> ready (ts_store s) \<and> flat_folders (tdirs s) \<and> tree_inv E tvalid lvalid (tst s) (wst s)"

lemma tvalid_keys:
  "hex_name a \<Longrightarrow> tvalid (id_key a)" "hex_name p \<Longrightarrow> hex_name c \<Longrightarrow> tvalid (child_key p c)"
  "hex_name a \<Longrightarrow> hex_name b \<Longrightarrow> tvalid (lease_key a b)"
  by (simp_all add: view_valid_iff valid_id valid_child valid_lease)

lemmas hex_salt = salt_id_hex [of E]

text \<open>The operations of the views, on the whole state.\<close>

lemma get_v:
  assumes "ready (ts_store s)" "tvalid k"
  shows "on_store (view_get sops v k) s = (Ok (map_option (\<lambda>x. \<lparr>se_key = k, se_value = x\<rparr>) (tst s k)), s)"
  using sv.view_get_stored [OF assms] by (simp add: on_store_def tst_def)

lemma get_w:
  assumes "ready (ts_store s)" "lvalid k"
  shows "on_store (view_get sops w k) s = (Ok (map_option (\<lambda>x. \<lparr>se_key = k, se_value = x\<rparr>) (wst s k)), s)"
  using lw.view_get_stored [OF assms] by (simp add: on_store_def wst_def)

lemma same_outside:
  assumes "\<And>k. valid k \<Longrightarrow> \<not> starts_with k (bv_prefix v) \<Longrightarrow> stored x' k = stored x k" "lvalid k"
  shows "view_stored stored w x' k = view_stored stored w x k"
  using assms views_disjoint [OF apart] by (auto simp: view_stored_def view_valid_def)

lemma same_outside_w:
  assumes "\<And>k. valid k \<Longrightarrow> \<not> starts_with k (bv_prefix w) \<Longrightarrow> stored x' k = stored x k" "tvalid k"
  shows "view_stored stored v x' k = view_stored stored v x k"
  using assms views_disjoint [OF apart(2,1)] by (auto simp: view_stored_def view_valid_def)

text \<open>Steps of the storage that only take keys away.\<close>

definition shrinks :: "string set \<Rightarrow> string set \<Rightarrow> 's tstate \<Rightarrow> 's tstate \<Rightarrow> bool" where
  "shrinks K L s s' \<longleftrightarrow>
     ready (ts_store s') \<and> tdirs s' \<subseteq> tdirs s \<and>
     (\<forall>k. tvalid k \<longrightarrow> tst s' k = (if k \<in> K then None else tst s k)) \<and>
     (\<forall>k. lvalid k \<longrightarrow> wst s' k = (if k \<in> L then None else wst s k))"

lemma shrinks_trans: "shrinks K L s s1 \<Longrightarrow> shrinks K' L' s1 s2 \<Longrightarrow> shrinks (K \<union> K') (L \<union> L') s s2"
  by (auto simp: shrinks_def)

lemma delete_v:
  assumes "ready (ts_store s)" "tvalid k"
  shows "\<exists>s'. on_store (view_delete sops v k) s = (Ok (), s') \<and> shrinks {k} {} s s' \<and> ts_queue s' = ts_queue s"
proof -
  obtain x' where x': "view_delete sops v k (ts_store s) = (Ok (), x')" "ready x'"
    "\<And>k'. tvalid k' \<Longrightarrow> view_stored stored v x' k' = ((view_stored stored v (ts_store s))(k := None)) k'"
    "\<And>k'. valid k' \<Longrightarrow> \<not> starts_with k' (bv_prefix v) \<Longrightarrow> stored x' k' = stored (ts_store s) k'"
    using sv.view_delete_stored [OF assms] by blast
  have "{d. expand_key v d \<in> subdirs x'} \<subseteq> {d. expand_key v d \<in> subdirs (ts_store s)}"
    by (rule lv.delete_subdirs [of k, unfolded view_storage_sel, OF x'(1)])
  then show ?thesis
    using x' same_outside [OF x'(4)] by (auto simp: on_store_def shrinks_def tst_def wst_def tdirs_def)
qed

lemma delete_w:
  assumes "ready (ts_store s)" "lvalid k"
  shows "\<exists>s'. on_store (view_delete sops w k) s = (Ok (), s') \<and> shrinks {} {k} s s' \<and> ts_queue s' = ts_queue s"
proof -
  obtain x' where x': "view_delete sops w k (ts_store s) = (Ok (), x')" "ready x'"
    "\<And>k'. lvalid k' \<Longrightarrow> view_stored stored w x' k' = ((view_stored stored w (ts_store s))(k := None)) k'"
    "\<And>k'. valid k' \<Longrightarrow> \<not> starts_with k' (bv_prefix w) \<Longrightarrow> stored x' k' = stored (ts_store s) k'"
    using lw.view_delete_stored [OF assms] by blast
  have "storage_delete sops (expand_key w k) (ts_store s) = (Ok (), x')"
    using x'(1) assms(2) by (simp add: view_delete_def view_valid_def)
  then have "subdirs x' \<subseteq> subdirs (ts_store s)" by (rule delete_subdirs)
  then show ?thesis
    using x' same_outside_w [OF x'(4)] by (auto simp: on_store_def shrinks_def tst_def wst_def tdirs_def)
qed

text \<open>The invariant survives when no token is taken away, or a token with its place in the index.\<close>

lemma flat_folders_mono: "flat_folders dirs \<Longrightarrow> dirs' \<subseteq> dirs \<Longrightarrow> flat_folders dirs'"
  unfolding flat_folders_def by blast

lemma lease_ok_shrinks:
  assumes "shrinks K L s s'" "lease_ok E lvalid (wst s) l"
  shows "lease_ok E lvalid (wst s') l"
  using assms by (auto simp: lease_ok_def shrinks_def)

lemma shrinks_inv:
  assumes I: "tok_inv s" and S: "shrinks K L s s'"
    and K: "\<And>a. hex_name a \<Longrightarrow> id_key a \<in> K \<Longrightarrow> (\<forall>p. child_of (tst s) p a \<longrightarrow> child_key p a \<in> K)"
  shows "tok_inv s'"
proof -
  have R: "tree_inv E tvalid lvalid (tst s) (wst s)" "flat_folders (tdirs s)" using I by (auto simp: tok_inv_def)
  have st: "tvalid k \<Longrightarrow> tst s' k = (if k \<in> K then None else tst s k)" for k
    using S by (auto simp: shrinks_def)
  have ch: "child_of (tst s') p c \<Longrightarrow> child_of (tst s) p c \<and> child_key p c \<notin> K" for p c
    using st tvalid_keys(2) by (auto simp: child_of_def split: if_splits)
  have tk: "hex_name a \<Longrightarrow> id_key a \<notin> K \<Longrightarrow> token_at E (tst s') a = token_at E (tst s) a" for a
    using st tvalid_keys(1) by (simp add: token_at_def)
  have "tree_inv E tvalid lvalid (tst s') (wst s')"
    unfolding tree_inv_def
  proof (intro conjI allI impI)
    fix a x assume "hex_name a" "tst s' (id_key a) = Some x"
    then show "\<exists>te. tn_dec_token E x = Some te \<and> ts_salt_id E (tke_id te) = a"
      using st [of "id_key a"] tvalid_keys(1) tree_invD(1) [OF R(1)] by (auto split: if_splits)
  next
    fix p n assume "hex_name p" "tvalid (child_key p n)" "tst s' (child_key p n) \<noteq> None"
    then show "hex_name n" using st tree_invD(2) [OF R(1)] by (auto split: if_splits)
  next
    fix p n assume "hex_name p" "tvalid (lease_key p n)" "tst s' (lease_key p n) \<noteq> None"
    then show "hex_name n" using st tree_invD(3) [OF R(1)] by (auto split: if_splits)
  next
    fix p c assume c: "child_of (tst s') p c"
    then have "id_key c \<notin> K" using ch [OF c] K by (auto simp: child_of_def)
    then show "\<exists>te. token_at E (tst s') c = Some te \<and> tke_parent te \<noteq> [] \<and> ts_salt_id E (tke_parent te) = p"
      using ch [OF c] tk [of c] tree_invD(4) [OF R(1)] by (auto simp: child_of_def)
  next
    fix a b x assume "hex_name a" "hex_name b" "tst s' (lease_key a b) = Some x"
    then show "lease_ok E lvalid (wst s') (tn_lossy E x)"
      using st [of "lease_key a b"] tvalid_keys(3) tree_invD(5) [OF R(1)] lease_ok_shrinks [OF S]
      by (auto split: if_splits)
  qed
  then show ?thesis
    using S I flat_folders_mono [OF R(2)] by (auto simp: tok_inv_def shrinks_def)
qed

lemma shrinks_removes:
  assumes S: "shrinks K L s s'" and K: "\<And>p c. child_of (tst s) p c \<Longrightarrow> child_key p c \<in> K \<longleftrightarrow> id_key c \<in> K"
  shows "removes E {a. id_key a \<in> K} (tst s) (tst s')"
proof -
  have st: "tvalid k \<Longrightarrow> tst s' k = (if k \<in> K then None else tst s k)" for k
    using S by (auto simp: shrinks_def)
  have "child_of (tst s') p c \<longleftrightarrow> child_of (tst s) p c \<and> id_key c \<notin> K" for p c
    using st [OF tvalid_keys(2), of p c] K [of p c]
    by (cases "tst s (child_key p c)") (auto simp: child_of_def split: if_splits)
  then show ?thesis using st tvalid_keys(1) by (auto simp: removes_def token_at_def)
qed

text \<open>
  What a step does to the leases: it may end leases that tokens of \<open>D\<close> have, and keeps the others; a lease that was in an
  index stays there or is gone. \<open>revokes\<close> adds that the tokens of \<open>D\<close> are removed and all their leases gone.
\<close>

abbreviation in_order :: "'s tstate \<Rightarrow> bool" where
  "in_order s \<equiv> leases_in_order E lvalid (tst s) (wst s)"

definition carries :: "'s tstate \<Rightarrow> 's tstate \<Rightarrow> bool" where
  "carries s s' \<longleftrightarrow>
     (in_order s \<longrightarrow>
        (\<forall>a l. hex_name a \<longrightarrow> lvalid l \<longrightarrow> indexes_lease E (tst s) a l \<longrightarrow>
           lease_gone E (wst s') l \<or> indexes_lease E (tst s') a l))"

definition leases_step :: "string set \<Rightarrow> 's tstate \<Rightarrow> 's tstate \<Rightarrow> bool" where
  "leases_step D s s' \<longleftrightarrow>
     (\<forall>l. lvalid l \<longrightarrow> lease_gone E (wst s) l \<longrightarrow> lease_gone E (wst s') l) \<and>
     (\<forall>a l. hex_name a \<longrightarrow> indexes_lease E (tst s') a l \<longrightarrow> indexes_lease E (tst s) a l) \<and>
     (\<forall>l. lvalid l \<longrightarrow> (\<forall>a \<in> D. \<not> indexes_lease E (tst s) a l) \<longrightarrow> wst s' l = wst s l) \<and>
     (in_order s \<longrightarrow> in_order s') \<and> carries s s'"

definition revokes :: "string set \<Rightarrow> 's tstate \<Rightarrow> 's tstate \<Rightarrow> bool" where
  "revokes D s s' \<longleftrightarrow>
     removes E D (tst s) (tst s') \<and> leases_step D s s' \<and>
     (in_order s \<longrightarrow>
        (\<forall>a \<in> D. \<forall>l. hex_name a \<longrightarrow> token_at E (tst s) a \<noteq> None \<longrightarrow> lvalid l \<longrightarrow> indexes_lease E (tst s) a l \<longrightarrow>
           lease_gone E (wst s') l))"

lemma leases_step_trans:
  assumes "leases_step D s s1" "leases_step D' s1 s2" "\<forall>a \<in> D'. hex_name a"
  shows "leases_step (D \<union> D') s s2"
proof -
  note A = assms(1) [unfolded leases_step_def carries_def] assms(2) [unfolded leases_step_def carries_def]
  have "wst s2 l = wst s l" if l: "lvalid l" "\<forall>a \<in> D \<union> D'. \<not> indexes_lease E (tst s) a l" for l
  proof -
    have "wst s1 l = wst s l" "\<forall>a \<in> D'. \<not> indexes_lease E (tst s1) a l" using A(1) l assms(3) by blast+
    then show ?thesis using A(2) l(1) by simp
  qed
  moreover have "lease_gone E (wst s2) l \<or> indexes_lease E (tst s2) a l"
    if "in_order s" "hex_name a" "lvalid l" "indexes_lease E (tst s) a l" for a l
  proof (cases "lease_gone E (wst s1) l")
    case True
    then show ?thesis using A(2) that(3) by blast
  next
    case False
    then have "in_order s1" "indexes_lease E (tst s1) a l" using A(1) that by blast+
    then show ?thesis using A(2) that(2,3) by blast
  qed
  ultimately show ?thesis using A unfolding leases_step_def carries_def by simp
qed

lemma revokes_trans:
  assumes "revokes D s s1" "revokes D' s1 s2" "\<forall>a \<in> D'. hex_name a"
  shows "revokes (D \<union> D') s s2"
proof -
  note A = assms(1,2) [unfolded revokes_def]
  have "lease_gone E (wst s2) l"
    if o: "in_order s" and a: "a \<in> D \<union> D'" "hex_name a" "token_at E (tst s) a \<noteq> None" and l: "lvalid l" "indexes_lease E (tst s) a l"
    for a l
  proof (cases "a \<in> D")
    case True
    then have "lease_gone E (wst s1) l" using A(1) o a l by blast
    then show ?thesis using A(2) l(1) unfolding leases_step_def by blast
  next
    case False
    then have "token_at E (tst s1) a \<noteq> None" using A(1) a unfolding removes_def by simp
    then show ?thesis using A o a l False unfolding leases_step_def carries_def by (metis Un_iff)
  qed
  then show ?thesis
    using A removes_trans leases_step_trans [OF _ _ assms(3)] unfolding revokes_def by blast
qed

text \<open>The leases of a token.\<close>

definition lease_keys :: "string set" where
  "lease_keys = {lease_key a b | a b. hex_name a \<and> hex_name b}"

lemma lease_keys_apart: "K \<subseteq> lease_keys \<Longrightarrow> id_key a \<notin> K" "K \<subseteq> lease_keys \<Longrightarrow> child_key p c \<notin> K"
  by (auto simp: lease_keys_def)

lemma load_lease:
  assumes "ready (ts_store s)" "lease_ok E lvalid (wst s) l"
  shows "load_lease_entry E l s = (Ok (Option.bind (wst s l) (tn_dec_lease E)), s)"
  using assms get_w [OF assms(1), of l]
  by (cases "wst s l") (auto simp: load_lease_entry_def env lease_ok_def op_bind_def split: option.splits)

lemma route_shrinks:
  assumes "ready (ts_store s)" "idle_revocations (tn_router E)"
  shows "\<exists>s'. revoke_secret E le s = (Ok (), s') \<and> shrinks {} {} s s'"
proof -
  let ?rq = "new_revoke_request (le_path le) (le_secret le) (if le_data le = [] then None else Some (le_data le))"
  have "rq_operation ?rq = Revoke" by (simp add: new_revoke_request_def)
  then have "fst (route_op E ?rq s) \<noteq> Panic" "snd (route_op E ?rq s) = s"
    using router_revokes_idly [OF assms(2), of ?rq "tn_anc E" s] by (simp_all add: route_op_def split_beta)
  then have "revoke_secret E le s = (Ok (), s)"
    unfolding revoke_secret_def by (cases "route_op E ?rq s"; cases "fst (route_op E ?rq s)") auto
  then show ?thesis using assms(1) by (auto simp: shrinks_def)
qed

lemma forget_shrinks:
  assumes "ready (ts_store s)" "lvalid l"
  shows "\<exists>s' K. forget_lease E l le s = (Ok (), s') \<and> shrinks K {l} s s' \<and>
    K \<subseteq> {index_key E (le_client_token le) (le_lease_id le)}"
proof -
  obtain s1 where s1: "delete_lease_entry E l s = (Ok (), s1)" "shrinks {} {l} s s1"
    using delete_w [OF assms] by (auto simp: delete_lease_entry_def env)
  show ?thesis
  proof (cases "le_secret le")
    case None
    then show ?thesis using s1 by (auto simp: forget_lease_def intro!: exI [of _ "{}"])
  next
    case (Some sd)
    let ?k = "index_key E (le_client_token le) (le_lease_id le)"
    have k: "tvalid ?k" using hex_salt tvalid_keys(3) by (auto simp: index_key_def)
    have "ready (ts_store s1)" using s1(2) by (simp add: shrinks_def)
    then obtain s2 where "on_store (view_delete sops v ?k) s1 = (Ok (), s2)" "shrinks {?k} {} s1 s2"
      using delete_v k by blast
    then show ?thesis
      using s1 Some shrinks_trans [OF s1(2)]
      by (auto simp: forget_lease_def remove_index_by_token_def linked_op_def env op_bind_def
          intro!: exI [of _ "{?k}"])
  qed
qed

lemma in_order_shrinks:
  assumes "in_order s" "shrinks K L s s'"
  shows "in_order s'"
proof -
  have t: "tst s' (lease_key a b) = Some x \<Longrightarrow> tst s (lease_key a b) = Some x" if "hex_name a" "hex_name b" for a b x
    using assms(2) tvalid_keys(3) [OF that] by (simp add: shrinks_def split: if_splits)
  have w: "wst s' l = Some y \<Longrightarrow> wst s l = Some y" if "lvalid l" for l y
    using assms(2) that by (simp add: shrinks_def split: if_splits)
  then have "{l. lvalid l \<and> wst s' l \<noteq> None} \<subseteq> {l. lvalid l \<and> wst s l \<noteq> None}" by auto
  then show ?thesis
    using assms(1) t w inj_on_subset unfolding leases_in_order_def by blast
qed

lemma gone_shrinks: "shrinks K L s s' \<Longrightarrow> lvalid l \<Longrightarrow> lease_gone E (wst s) l \<Longrightarrow> lease_gone E (wst s') l"
  by (auto simp: shrinks_def lease_gone_def)

lemma carries_trans:
  assumes "carries s s1" "shrinks K L s s1" "carries s1 s2" "shrinks K' L' s1 s2"
  shows "carries s s2"
  using assms(1,3) in_order_shrinks [OF _ assms(2)] gone_shrinks [OF assms(4)] unfolding carries_def by blast

lemma shrinks_carries:
  assumes "shrinks K L s s'"
    and K: "\<And>a l. in_order s \<Longrightarrow> hex_name a \<Longrightarrow> lvalid l \<Longrightarrow> lease_key a (ts_salt_id E l) \<in> K \<Longrightarrow> lease_gone E (wst s') l"
  shows "carries s s'"
  unfolding carries_def
proof (intro impI allI)
  fix a l assume o: "in_order s" and a: "hex_name a" "lvalid l" "indexes_lease E (tst s) a l"
  obtain b x where b: "hex_name b" "tst s (lease_key a b) = Some x" "tn_lossy E x = l"
    using a(3) by (auto simp: indexes_lease_def)
  have "ts_salt_id E l = b" using o a(1) b unfolding leases_in_order_def by blast
  then show "lease_gone E (wst s') l \<or> indexes_lease E (tst s') a l"
    using K [OF o a(1,2)] assms(1) tvalid_keys(3) [OF a(1) b(1)] b unfolding indexes_lease_def shrinks_def by metis
qed

lemma shrinks_leases_step:
  assumes "shrinks K L s s'" "carries s s'" "\<And>l. l \<in> L \<Longrightarrow> \<exists>a \<in> D. indexes_lease E (tst s) a l"
  shows "leases_step D s s'"
proof -
  have "indexes_lease E (tst s) a l" if "hex_name a" "indexes_lease E (tst s') a l" for a l
    using that assms(1) tvalid_keys(3) [OF that(1)] unfolding indexes_lease_def shrinks_def by (metis option.distinct(1))
  moreover have "wst s' l = wst s l" if "lvalid l" "\<forall>a \<in> D. \<not> indexes_lease E (tst s) a l" for l
    using that assms(1) assms(3) [of l] by (auto simp: shrinks_def)
  ultimately show ?thesis
    using in_order_shrinks [OF _ assms(1)] gone_shrinks [OF assms(1)] assms(2) unfolding leases_step_def carries_def by blast
qed

lemma lease_run:
  assumes R: "ready (ts_store s)" and l: "lease_ok E lvalid (wst s) l" and S: "idle_revocations (tn_router E)"
  shows "\<exists>s' K L. revocation_run E False (LeaseId l True) s = Some (Ok (), s') \<and> shrinks K L s s' \<and> K \<subseteq> lease_keys \<and>
    L \<subseteq> {l} \<and> lease_gone E (wst s') l \<and> carries s s'"
proof (cases "Option.bind (wst s l) (tn_dec_lease E)")
  case None
  have "shrinks {} {} s s" using R by (simp add: shrinks_def)
  moreover have "lease_gone E (wst s) l" using None l by (auto simp: lease_gone_def lease_ok_def split: option.splits)
  ultimately show ?thesis
    using None load_lease [OF R l] by (fastforce simp: revocation_run.simps [of E False "LeaseId l True"] carries_def)
next
  case (Some le)
  then have au: "le_auth le = None" using l by (auto simp: lease_ok_def split: bind_splits)
  obtain s1 where s1: "revoke_secret E le s = (Ok (), s1)" "shrinks {} {} s s1" using route_shrinks [OF R S] by blast
  have r1: "ready (ts_store s1)" "lvalid l" using s1(2) l by (auto simp: shrinks_def lease_ok_def)
  let ?k = "lease_key (ts_salt_id E (le_client_token le)) (ts_salt_id E (le_lease_id le))"
  obtain s2 K where s2: "forget_lease E l le s1 = (Ok (), s2)" "shrinks K {l} s1 s2" "K \<subseteq> {?k}"
    using forget_shrinks [OF r1, of le] by (auto simp: index_key_def)
  obtain s3 where s3: "register_lease_entry (le\<lparr>le_expire_time := 0\<rparr>) s2 = (Ok (), s3)" "ts_store s3 = ts_store s2"
    by (simp add: register_lease_entry_def)
  have sh: "shrinks K {l} s s3"
    using shrinks_trans [OF s1(2) s2(2)] s3(2) by (simp add: shrinks_def tst_def wst_def tdirs_def)
  have gone: "lease_gone E (wst s3) l" using sh r1(2) by (simp add: shrinks_def lease_gone_def)
  have "carries s s3"
  proof (rule shrinks_carries [OF sh])
    fix c l' assume o: "in_order s" and c: "hex_name c" "lvalid l'" "lease_key c (ts_salt_id E l') \<in> K"
    have "le_lease_id le = l" using o Some r1(2) unfolding leases_in_order_def by (auto split: bind_splits)
    then have eq: "ts_salt_id E l' = ts_salt_id E l" using c s2(3) hex_salt by auto
    show "lease_gone E (wst s3) l'"
    proof (cases "wst s l'")
      case None
      then show ?thesis using sh c(2) by (simp add: shrinks_def lease_gone_def)
    next
      case (Some y)
      have "wst s l \<noteq> None" using \<open>Option.bind (wst s l) (tn_dec_lease E) = Some le\<close> by (auto split: bind_splits)
      then have "l' = l" using o eq Some c(2) r1(2) by (auto simp: leases_in_order_def inj_on_def)
      then show ?thesis using gone by simp
    qed
  qed
  moreover have "revocation_run E False (LeaseId l True) s = Some (Ok (), s3)"
    using load_lease [OF R l] Some au s1(1) s2(1) s3(1) env(5)
    by (simp add: revocation_run.simps [of E False "LeaseId l True"] linked_op_def requeue_def)
  moreover have "K \<subseteq> lease_keys" using s2(3) hex_salt by (auto simp: lease_keys_def)
  ultimately show ?thesis using sh gone by blast
qed

lemma leases_run:
  assumes "ready (ts_store s)" "\<forall>l \<in> set ls. lease_ok E lvalid (wst s) l"
    and S: "idle_revocations (tn_router E)"
  shows "\<exists>s' K L. revocation_run E False (Leases ls) s = Some (Ok (), s') \<and> shrinks K L s s' \<and> K \<subseteq> lease_keys \<and>
    L \<subseteq> set ls \<and> (\<forall>l \<in> set ls. lease_gone E (wst s') l) \<and> carries s s'"
  using assms(1,2)
proof (induction ls arbitrary: s)
  case Nil
  then have "shrinks {} {} s s" by (simp add: shrinks_def)
  then show ?case by (fastforce simp: revocation_run.simps [of E False "Leases []"] carries_def)
next
  case (Cons l ls)
  obtain s1 K L where 1: "revocation_run E False (LeaseId l True) s = Some (Ok (), s1)" "shrinks K L s s1" "K \<subseteq> lease_keys"
    "L \<subseteq> {l}" "lease_gone E (wst s1) l" "carries s s1"
    using lease_run [OF Cons.prems(1) _ S] Cons.prems(2) by (metis list.set_intros(1))
  then have "ready (ts_store s1)" "\<forall>l \<in> set ls. lease_ok E lvalid (wst s1) l"
    using Cons.prems lease_ok_shrinks [OF 1(2)] by (auto simp: shrinks_def)
  then obtain s2 K' L' where 2: "revocation_run E False (Leases ls) s1 = Some (Ok (), s2)" "shrinks K' L' s1 s2" "K' \<subseteq> lease_keys"
    "L' \<subseteq> set ls" "\<forall>l \<in> set ls. lease_gone E (wst s2) l" "carries s1 s2"
    using Cons.IH by blast
  have "lvalid l" using Cons.prems(2) by (simp add: lease_ok_def)
  then have "lease_gone E (wst s2) l" using gone_shrinks [OF 2(2)] 1(5) by blast
  moreover have "revocation_run E False (Leases (l # ls)) s = Some (Ok (), s2)"
    using 1(1) 2(1) by (simp add: revocation_run.simps [of E False "Leases (l # ls)"])
  moreover have "carries s s2" by (rule carries_trans [OF 1(6,2) 2(6,2)])
  moreover have "K \<union> K' \<subseteq> lease_keys" "L \<union> L' \<subseteq> set (l # ls)" using 1(3,4) 2(3,4) by auto
  ultimately show ?case using shrinks_trans [OF 1(2) 2(2)] 2(5) by (metis set_ConsD)
qed

text \<open>Listings of the two indexes return names of keys only.\<close>

lemma list_names:
  assumes R: "ready (ts_store s)" and f: "folder (expand_key v p)"
    and flat: "\<And>x. p @ x \<in> tdirs s \<Longrightarrow> x = []"
  shows "\<exists>names. on_store (view_list sops v p) s = (Ok names, s) \<and>
    (\<forall>n \<in> set names. tvalid (p @ n) \<and> tst s (p @ n) \<noteq> None) \<and>
    (\<forall>n. tvalid (p @ n) \<longrightarrow> tst s (p @ n) \<noteq> None \<longrightarrow> n \<in> set names)"
proof -
  obtain names where l: "view_list sops v p (ts_store s) = (Ok names, ts_store s)"
    and n: "lists_folder tvalid (\<lambda>k. view_stored stored v (ts_store s) k \<noteq> None) (\<lambda>p. folder (expand_key v p))
      {q. expand_key v q \<in> subdirs (ts_store s)} p names"
    using view_list_stored [OF R f] by blast
  have no_dir: "\<not> ends_with m ''/''" if "m \<in> set names" for m
    using n that flat [of m] by (auto simp: lists_folder_def tdirs_def)
  have "m \<in> set names" if m: "tvalid (p @ m)" "tst s (p @ m) \<noteq> None" for m
  proof -
    have "starts_with (p @ m) p" by (simp add: starts_with_iff_prefix)
    then obtain x where x: "x \<in> set names" "if ends_with x ''/'' then starts_with (p @ m) (p @ x) else p @ m = p @ x"
      using n m unfolding lists_folder_def tst_def by blast
    then show ?thesis using no_dir by simp
  qed
  moreover have "tvalid (p @ m) \<and> tst s (p @ m) \<noteq> None" if "m \<in> set names" for m
    using n no_dir [OF that] that unfolding lists_folder_def tst_def by auto
  ultimately show ?thesis using l by (auto simp: on_store_def)
qed

lemma list_children:
  assumes I: "tok_inv s" and p: "hex_name p"
  shows "\<exists>names. on_store (view_list sops v (child_key p [])) s = (Ok names, s) \<and>
    set names = {c. child_of (tst s) p c}"
proof -
  have R: "ready (ts_store s)" "tree_inv E tvalid lvalid (tst s) (wst s)" "flat_folders (tdirs s)"
    using I by (auto simp: tok_inv_def)
  have flat: "x = []" if "child_key p [] @ x \<in> tdirs s" for x
    using R(3) that p by (auto simp: flat_folders_def)
  obtain names where l: "on_store (view_list sops v (child_key p [])) s = (Ok names, s)"
    "\<And>n. n \<in> set names \<Longrightarrow> tvalid (child_key p n) \<and> tst s (child_key p n) \<noteq> None"
    "\<And>n. tvalid (child_key p n) \<Longrightarrow> tst s (child_key p n) \<noteq> None \<Longrightarrow> n \<in> set names"
    using list_names [OF R(1) folder_child [OF p] flat] by auto
  moreover have "n \<in> set names \<longleftrightarrow> child_of (tst s) p n" for n
    using l(2,3) [of n] tree_invD(2) [OF R(2) p, of n] p tvalid_keys(2) [OF p, of n]
    unfolding child_of_def by blast
  ultimately show ?thesis by blast
qed

lemma read_indexes_ok:
  assumes "ready (ts_store s)" "\<forall>n \<in> set subs. tvalid (pfx @ n) \<and> tst s (pfx @ n) \<noteq> None"
  shows "read_indexes E pfx subs acc s = (Ok (acc @ map (\<lambda>n. tn_lossy E (the (tst s (pfx @ n)))) subs), s)"
  using assms(2)
proof (induction subs arbitrary: acc)
  case (Cons n subs)
  then have "on_store (view_get sops v (pfx @ n)) s =
      (Ok (Some \<lparr>se_key = pfx @ n, se_value = the (tst s (pfx @ n))\<rparr>), s)"
    using get_v [OF assms(1), of "pfx @ n"] by auto
  then show ?case using Cons by (simp add: env op_bind_def)
qed simp

lemma lookup_leases:
  assumes I: "tok_inv s"
  shows "\<exists>ls. lookup_by_token E i s = (Ok ls, s) \<and> (\<forall>l \<in> set ls. lease_ok E lvalid (wst s) l) \<and>
    set ls = {l. indexes_lease E (tst s) (ts_salt_id E i) l}"
proof -
  let ?a = "ts_salt_id E i" and ?x = "\<lambda>n. tn_lossy E (the (tst s (lease_key (ts_salt_id E i) n)))"
  have R: "ready (ts_store s)" "tree_inv E tvalid lvalid (tst s) (wst s)" "flat_folders (tdirs s)"
    using I by (auto simp: tok_inv_def)
  have flat: "x = []" if "lease_key ?a [] @ x \<in> tdirs s" for x
    using R(3) that hex_salt by (auto simp: flat_folders_def)
  obtain names where l: "on_store (view_list sops v (lease_key ?a [])) s = (Ok names, s)"
    "\<And>n. n \<in> set names \<Longrightarrow> tvalid (lease_key ?a n) \<and> tst s (lease_key ?a n) \<noteq> None"
    "\<And>n. tvalid (lease_key ?a n) \<Longrightarrow> tst s (lease_key ?a n) \<noteq> None \<Longrightarrow> n \<in> set names"
    using list_names [OF R(1) folder_lease [OF hex_salt [of i]] flat] by auto
  have hex: "hex_name n" if "n \<in> set names" for n using l(2) [OF that] tree_invD(3) [OF R(2) hex_salt, of i n] by blast
  have "lookup_by_token E i s = (Ok (map ?x names), s)"
    using l(1,2) read_indexes_ok [OF R(1), of names "lease_key ?a []" "[]"] env
    by (simp add: lookup_by_token_def linked_op_def Let_def)
  moreover have "lease_ok E lvalid (wst s) (?x n)" if "n \<in> set names" for n
    using l(2) [OF that] hex [OF that] tree_invD(5) [OF R(2) hex_salt, of n] by auto
  moreover have "l' \<in> ?x ` set names \<longleftrightarrow> indexes_lease E (tst s) ?a l'" for l'
  proof
    assume "l' \<in> ?x ` set names"
    then show "indexes_lease E (tst s) ?a l'" using l(2) hex unfolding indexes_lease_def by force
  next
    assume "indexes_lease E (tst s) ?a l'"
    then obtain b x where b: "hex_name b" "tst s (lease_key ?a b) = Some x" "tn_lossy E x = l'" by (auto simp: indexes_lease_def)
    then have "b \<in> set names" using l(3) [of b] tvalid_keys(3) [OF hex_salt b(1)] by simp
    then show "l' \<in> ?x ` set names" using b by force
  qed
  ultimately show ?thesis by (intro exI [of _ "map ?x names"]) auto
qed

lemma by_token_run:
  assumes I: "tok_inv s" and S: "idle_revocations (tn_router E)"
  shows "\<exists>s'. revocation_run E False (ByToken te) s = Some (Ok (), s') \<and> tok_inv s' \<and>
    removes E {} (tst s) (tst s') \<and> leases_step {ts_salt_id E (tke_id te)} s s' \<and>
    (\<forall>l. indexes_lease E (tst s) (ts_salt_id E (tke_id te)) l \<longrightarrow> lease_gone E (wst s') l)"
proof -
  have R: "ready (ts_store s)" using I by (simp add: tok_inv_def)
  obtain ls where ls: "lookup_by_token E (tke_id te) s = (Ok ls, s)" "\<forall>l \<in> set ls. lease_ok E lvalid (wst s) l"
    "set ls = {l. indexes_lease E (tst s) (ts_salt_id E (tke_id te)) l}"
    using lookup_leases [OF I] by blast
  obtain s' K L where s': "revocation_run E False (Leases ls) s = Some (Ok (), s')" "shrinks K L s s'" "K \<subseteq> lease_keys"
    "L \<subseteq> set ls" "\<forall>l \<in> set ls. lease_gone E (wst s') l" "carries s s'"
    using leases_run [OF R ls(2) S] by blast
  have "tok_inv s'" by (rule shrinks_inv [OF I s'(2)]) (use lease_keys_apart [OF s'(3)] in blast)
  moreover have "removes E {a. id_key a \<in> K} (tst s) (tst s')"
    by (rule shrinks_removes [OF s'(2)]) (use lease_keys_apart [OF s'(3)] in blast)
  moreover have "leases_step {ts_salt_id E (tke_id te)} s s'"
    by (rule shrinks_leases_step [OF s'(2,6)]) (use s'(4) ls(3) in auto)
  ultimately show ?thesis
    using s'(1,5) ls(1,3) lease_keys_apart(1) [OF s'(3)] by (simp add: revocation_run.simps [of E False "ByToken te"])
qed

lemma lookup_salted_ok:
  assumes I: "tok_inv s" and a: "hex_name a"
  shows "lookup_salted E a s = (Ok (token_at E (tst s) a), s)"
proof -
  have R: "ready (ts_store s)" "tree_inv E tvalid lvalid (tst s) (wst s)" using I by (auto simp: tok_inv_def)
  show ?thesis
    using get_v [OF R(1) tvalid_keys(1) [OF a]] tree_invD(1) [OF R(2) a]
    by (cases "tst s (id_key a)") (auto simp: lookup_salted_def with_view_def env op_bind_def token_at_def)
qed

text \<open>Taking away keys that are not of the lease index leaves the leases as they are.\<close>

lemma other_keys_leases:
  assumes "shrinks K {} s s'" "\<And>a b. hex_name a \<Longrightarrow> lease_key a b \<notin> K"
  shows "leases_step D s s'"
  by (rule shrinks_leases_step [OF assms(1) shrinks_carries [OF assms(1)]]) (use assms(2) in auto)

lemma revokes_refl: "revokes {} s s"
  by (simp add: revokes_def removes_def leases_step_def carries_def)

lemma salted_run:
  assumes I: "tok_inv s" and a: "hex_name a" and S: "idle_revocations (tn_router E)"
  shows "\<exists>s'. revocation_run E False (RevokeSalted a) s = Some (Ok (), s') \<and> tok_inv s' \<and> revokes {a} s s'"
proof -
  have R: "ready (ts_store s)" "tree_inv E tvalid lvalid (tst s) (wst s)" using I by (auto simp: tok_inv_def)
  obtain s1 where s1: "on_store (view_delete sops v (id_key a)) s = (Ok (), s1)" "shrinks {id_key a} {} s s1"
    using delete_v [OF R(1) tvalid_keys(1) [OF a]] by blast
  note run = revocation_run.simps [of E False "RevokeSalted a"]
  show ?thesis
  proof (cases "token_at E (tst s) a")
    case None
    then have "\<not> child_of (tst s) p a" for p using tree_invD(4) [OF R(2)] by fastforce
    then have "tok_inv s1" and "removes E {x. id_key x \<in> {id_key a}} (tst s) (tst s1)"
      using shrinks_inv [OF I s1(2)] shrinks_removes [OF s1(2)] by auto
    moreover have "leases_step {a} s s1" by (rule other_keys_leases [OF s1(2)]) simp
    ultimately show ?thesis
      using None s1(1) lookup_salted_ok [OF I a] by (simp add: run env revokes_def)
  next
    case (Some te)
    obtain s2 K where s2: "delete_parent_index E v te a s1 = (Ok (), s2)" "shrinks K {} s s2"
      "id_key a \<in> K" "\<And>x. id_key x \<in> K \<Longrightarrow> x = a" "\<And>p c. child_of (tst s) p c \<Longrightarrow> child_key p c \<in> K \<longleftrightarrow> c = a"
      "\<And>p b. hex_name p \<Longrightarrow> lease_key p b \<notin> K"
    proof (cases "tke_parent te = []")
      case True
      moreover have "\<not> child_of (tst s) p a" for p using tree_invD(4) [OF R(2), of p a] Some True by auto
      ultimately show thesis
        using that [of s1 "{id_key a}"] s1(2) by (auto simp: delete_parent_index_def)
    next
      case False
      let ?p = "ts_salt_id E (tke_parent te)"
      have "ready (ts_store s1)" using s1(2) by (simp add: shrinks_def)
      then obtain s2 where s2: "on_store (view_delete sops v (child_key ?p a)) s1 = (Ok (), s2)"
        "shrinks {child_key ?p a} {} s1 s2"
        using delete_v tvalid_keys(2) [OF hex_salt a] by blast
      have "child_of (tst s) p a \<Longrightarrow> p = ?p" for p using tree_invD(4) [OF R(2), of p a] Some by auto
      then show thesis
        using that [of s2 "{id_key a} \<union> {child_key ?p a}"] s2 shrinks_trans [OF s1(2) s2(2)] False hex_salt
        by (auto simp: delete_parent_index_def parent_key_def env child_of_def)
    qed
    have I2: "tok_inv s2" by (rule shrinks_inv [OF I s2(2)]) (use s2(4,5) in blast)
    have "removes E {x. id_key x \<in> K} (tst s) (tst s2)"
      by (rule shrinks_removes [OF s2(2)]) (use s2(3-5) in blast)
    moreover have "{x. id_key x \<in> K} = {a}" using s2(3,4) by blast
    ultimately have r2: "removes E {a} (tst s) (tst s2)" by simp
    have l2: "leases_step {} s s2" by (rule other_keys_leases [OF s2(2,6)])
    have id: "ts_salt_id E (tke_id te) = a" using tree_invD(1) [OF R(2) a] Some by (auto simp: token_at_def split: bind_splits)
    obtain s3 where s3: "revocation_run E False (ByToken te) s2 = Some (Ok (), s3)" "tok_inv s3"
      "removes E {} (tst s2) (tst s3)" "leases_step {a} s2 s3" "\<forall>l. indexes_lease E (tst s2) a l \<longrightarrow> lease_gone E (wst s3) l"
      using by_token_run [OF I2 S, of te] id by auto
    have "leases_step ({} \<union> {a}) s s3" by (rule leases_step_trans [OF l2 s3(4)]) (use a in simp)
    moreover have "lease_gone E (wst s3) l" if "in_order s" "lvalid l" "indexes_lease E (tst s) a l" for l
      using that a l2 s3(4,5) unfolding leases_step_def carries_def by blast
    ultimately have "revokes {a} s s3" using removes_trans [OF r2 s3(3)] by (simp add: revokes_def)
    then show ?thesis
      using s3(1,2) s1(1) s2(1) Some lookup_salted_ok [OF I a] by (simp add: run env)
  qed
qed

text \<open>The tree: by induction on the index of the children, which the removals only make smaller.\<close>

lemma children_run:
  assumes "tok_inv s" "children (tst s) \<subseteq> R" "\<forall>c \<in> set cs. hex_name c"
    and IH: "\<And>c s. c \<in> set cs \<Longrightarrow> tok_inv s \<Longrightarrow> children (tst s) \<subseteq> R \<Longrightarrow>
      \<exists>s'. revocation_run E False (RevokeTree c) s = Some (Ok (), s') \<and> tok_inv s' \<and> revokes (descendants (tst s) c) s s'"
  shows "\<exists>s'. revocation_run E False (Children cs) s = Some (Ok (), s') \<and> tok_inv s' \<and>
    revokes (\<Union>c \<in> set cs. descendants (tst s) c) s s'"
  using assms
proof (induction cs arbitrary: s)
  case Nil
  then show ?case by (simp add: revocation_run.simps [of E False "Children []"] revokes_refl)
next
  case (Cons c cs)
  obtain s1 where 1: "revocation_run E False (RevokeTree c) s = Some (Ok (), s1)" "tok_inv s1"
    "revokes (descendants (tst s) c) s s1"
    using Cons.prems(4) [of c s] Cons.prems(1,2) by auto
  have r1: "removes E (descendants (tst s) c) (tst s) (tst s1)" using 1(3) by (simp add: revokes_def)
  have "children (tst s1) \<subseteq> R" using removes_children [OF r1] Cons.prems(2) by auto
  then obtain s2 where 2: "revocation_run E False (Children cs) s1 = Some (Ok (), s2)" "tok_inv s2"
    "revokes (\<Union>c \<in> set cs. descendants (tst s1) c) s1 s2"
    using Cons.IH [OF 1(2)] Cons.prems(3,4) by auto
  have d: "descendants (tst s) c \<union> descendants (tst s1) x = descendants (tst s) c \<union> descendants (tst s) x" for x
    by (rule descendants_removed [OF r1]) (rule descendants_closed)
  then have "descendants (tst s) c \<union> (\<Union>x \<in> set cs. descendants (tst s1) x) =
      (\<Union>x \<in> set (c # cs). descendants (tst s) x)" by auto
  moreover have "\<forall>a \<in> (\<Union>x \<in> set cs. descendants (tst s1) x). hex_name a" using descendants_hex Cons.prems(3) by auto
  ultimately have "revokes (\<Union>x \<in> set (c # cs). descendants (tst s) x) s s2"
    using revokes_trans [OF 1(3) 2(3)] by simp
  then show ?case
    using 1(1) 2(1,2) by (simp add: revocation_run.simps [of E False "Children (c # cs)"])
qed

lemma tree_run:
  assumes "wf (R\<inverse>)" and S: "idle_revocations (tn_router E)"
  shows "tok_inv s \<Longrightarrow> children (tst s) \<subseteq> R \<Longrightarrow> hex_name p \<Longrightarrow>
    \<exists>s'. revocation_run E False (RevokeTree p) s = Some (Ok (), s') \<and> tok_inv s' \<and> revokes (descendants (tst s) p) s s'"
  using assms(1)
proof (induction p arbitrary: s rule: wf_induct_rule)
  case (less p)
  obtain cs where cs: "on_store (view_list sops v (child_key p [])) s = (Ok cs, s)" "set cs = {c. child_of (tst s) p c}"
    using list_children [OF less.prems(1,3)] by blast
  have sub: "(c, p) \<in> R\<inverse>" "hex_name c" if "c \<in> set cs" for c
    using that cs(2) less.prems(2) by (auto simp: children_def child_of_def)
  then obtain s1 where s1: "revocation_run E False (Children cs) s = Some (Ok (), s1)" "tok_inv s1"
    "revokes (\<Union>c \<in> set cs. descendants (tst s) c) s s1"
    using children_run [OF less.prems(1,2), of cs] less.IH by blast
  obtain s2 where s2: "revocation_run E False (RevokeSalted p) s1 = Some (Ok (), s2)" "tok_inv s2" "revokes {p} s1 s2"
    using salted_run [OF s1(2) less.prems(3) S] by blast
  have "revokes (descendants (tst s) p) s s2"
    using revokes_trans [OF s1(3) s2(3)] less.prems(3) descendants_step [of "tst s" p] cs(2) by simp
  then show ?case
    using cs(1) s1(1) s2(1,2) by (simp add: revocation_run.simps [of E False "RevokeTree p"] env)
qed

text \<open>Creation adds a token, and its place in the index.\<close>

lemma put_v:
  assumes "ready (ts_store s)" "tvalid k"
  shows "\<exists>s'. on_store (view_put sops v \<lparr>se_key = k, se_value = x\<rparr>) s = (Ok (), s') \<and> ready (ts_store s') \<and>
    (\<forall>k'. tvalid k' \<longrightarrow> tst s' k' = ((tst s)(k \<mapsto> x)) k') \<and> (\<forall>k'. lvalid k' \<longrightarrow> wst s' k' = wst s k') \<and>
    (\<forall>d \<in> tdirs s'. d \<in> tdirs s \<or> folder_of k d)"
proof -
  obtain x' where x': "view_put sops v \<lparr>se_key = k, se_value = x\<rparr> (ts_store s) = (Ok (), x')" "ready x'"
    "\<And>k'. tvalid k' \<Longrightarrow> view_stored stored v x' k' = ((view_stored stored v (ts_store s))(k \<mapsto> x)) k'"
    "\<And>k'. valid k' \<Longrightarrow> \<not> starts_with k' (bv_prefix v) \<Longrightarrow> stored x' k' = stored (ts_store s) k'"
    using sv.view_put_stored [OF assms] by blast
  have "d \<in> {d. expand_key v d \<in> subdirs (ts_store s)} \<or> folder_of k d" if "expand_key v d \<in> subdirs x'" for d
    using lv.put_subdirs [OF assms, unfolded view_storage_sel, OF x'(1)] that by blast
  then show ?thesis
    using x' same_outside [OF x'(4)] by (auto simp: on_store_def tst_def wst_def tdirs_def)
qed

end

lemma folder_of_flat:
  assumes "flat_folders dirs" "\<And>d. d \<in> dirs' \<Longrightarrow> d \<in> dirs \<or> folder_of k d"
    and k: "(\<exists>a. k = id_key a) \<or> (\<exists>p c. hex_name p \<and> hex_name c \<and> k \<in> {child_key p c, lease_key p c})"
  shows "flat_folders dirs'"
proof -
  have name: "x = []" if "hex_name (x @ r)" "folder_of k (u @ CHR ''/'' # x)" for u x r
  proof -
    have "CHR ''/'' \<notin> set x" using hex_name_no_slash [OF that(1)] by simp
    then show ?thesis using that(2) by (cases x rule: rev_cases) (auto simp: folder_of_def ends_with_iff)
  qed
  have lease: "x = []" if p: "hex_name p" and f: "folder_of k (lease_key p x)" for p x
  proof -
    obtain r where "k = lease_key p (x @ r)" using f by (auto simp: folder_of_def elim: starts_withE)
    then have "hex_name (x @ r)" using k p by auto
    then show ?thesis using f by (rule name)
  qed
  have child: "x = []" if p: "hex_name p" and f: "folder_of k (child_key p x)" for p x
  proof -
    obtain r where "k = child_key p (x @ r)" using f by (auto simp: folder_of_def elim: starts_withE)
    then have "hex_name (x @ r)" using k p by auto
    then show ?thesis using f name [of x r "TOKEN_PARENT_PREFIX @ p"] by simp
  qed
  show ?thesis
    using assms(1,2) lease child unfolding flat_folders_def by blast
qed

context token_storage
begin

lemma put_token_inv:
  assumes I: "tok_inv s" and te: "tn_dec_token E (tn_enc_token E te) = Some te"
    and no_child: "\<And>p. \<not> child_of (tst s) p (ts_salt_id E (tke_id te))"
    and par: "tke_parent te = [] \<or> token_at E (tst s) (ts_salt_id E (tke_parent te)) \<noteq> None"
  shows "\<exists>s1 s2. put_parent_index E v te (ts_salt_id E (tke_id te)) s = (Ok (), s1) \<and>
    on_store (view_put sops v \<lparr>se_key = id_key (ts_salt_id E (tke_id te)), se_value = tn_enc_token E te\<rparr>) s1 = (Ok (), s2) \<and>
    tok_inv s2 \<and>
    (\<forall>a. hex_name a \<longrightarrow> token_at E (tst s2) a =
      (if a = ts_salt_id E (tke_id te) then Some te else token_at E (tst s) a)) \<and>
    children (tst s2) = children (tst s) \<union>
      {(ts_salt_id E (tke_parent te), ts_salt_id E (tke_id te)) | x. tke_parent te \<noteq> []} \<and>
    (\<forall>a b. hex_name a \<longrightarrow> hex_name b \<longrightarrow> tst s2 (lease_key a b) = tst s (lease_key a b)) \<and>
    (\<forall>k. lvalid k \<longrightarrow> wst s2 k = wst s k)"
proof -
  let ?c = "ts_salt_id E (tke_id te)" and ?p = "ts_salt_id E (tke_parent te)"
  have R: "ready (ts_store s)" "tree_inv E tvalid lvalid (tst s) (wst s)" "flat_folders (tdirs s)"
    using I by (auto simp: tok_inv_def)
  define f where "f = (if tke_parent te = [] then tst s else (tst s)(child_key ?p ?c \<mapsto> []))"
  obtain s1 where s1: "put_parent_index E v te ?c s = (Ok (), s1)" "ready (ts_store s1)"
    "\<And>k. tvalid k \<Longrightarrow> tst s1 k = f k" "\<And>k. lvalid k \<Longrightarrow> wst s1 k = wst s k" "flat_folders (tdirs s1)"
  proof (cases "tke_parent te = []")
    case True
    then show thesis using that [of s] R by (simp add: put_parent_index_def f_def)
  next
    case False
    obtain s1 where s1: "on_store (view_put sops v \<lparr>se_key = child_key ?p ?c, se_value = []\<rparr>) s = (Ok (), s1)"
      "ready (ts_store s1)" "\<And>k'. tvalid k' \<Longrightarrow> tst s1 k' = ((tst s)(child_key ?p ?c \<mapsto> [])) k'"
      "\<And>k'. lvalid k' \<Longrightarrow> wst s1 k' = wst s k'" "\<And>d. d \<in> tdirs s1 \<Longrightarrow> d \<in> tdirs s \<or> folder_of (child_key ?p ?c) d"
      using put_v [OF R(1) tvalid_keys(2) [OF hex_salt hex_salt]] by blast
    have "flat_folders (tdirs s1)" by (rule folder_of_flat [OF R(3) s1(5)]) (use hex_salt in blast)+
    moreover have "put_parent_index E v te ?c s = (Ok (), s1)"
      using par False s1(1) lookup_salted_ok [OF I hex_salt]
      by (auto simp: put_parent_index_def token_lookup_def parent_key_def env op_bind_def)
    ultimately show thesis using that s1(2-4) False by (simp add: f_def)
  qed
  obtain s2 where s2: "on_store (view_put sops v \<lparr>se_key = id_key ?c, se_value = tn_enc_token E te\<rparr>) s1 = (Ok (), s2)"
    "ready (ts_store s2)" "\<And>k'. tvalid k' \<Longrightarrow> tst s2 k' = ((tst s1)(id_key ?c \<mapsto> tn_enc_token E te)) k'"
    "\<And>k'. lvalid k' \<Longrightarrow> wst s2 k' = wst s1 k'" "\<And>d. d \<in> tdirs s2 \<Longrightarrow> d \<in> tdirs s1 \<or> folder_of (id_key ?c) d"
    using put_v [OF s1(2) tvalid_keys(1) [OF hex_salt]] by blast
  have flat: "flat_folders (tdirs s2)" by (rule folder_of_flat [OF s1(5) s2(5)]) blast+
  have st: "tst s2 k = (f(id_key ?c \<mapsto> tn_enc_token E te)) k" if "tvalid k" for k
    using s2(3) [OF that] s1(3) [OF that] by simp
  have tok: "token_at E (tst s2) a = (if a = ?c then Some te else token_at E (tst s) a)" if "hex_name a" for a
    using st [OF tvalid_keys(1) [OF that]] te by (auto simp: token_at_def f_def)
  have ch: "child_of (tst s2) p c \<longleftrightarrow> child_of (tst s) p c \<or> (tke_parent te \<noteq> [] \<and> p = ?p \<and> c = ?c)" for p c
  proof (cases "hex_name p \<and> hex_name c")
    case True
    then have "tst s2 (child_key p c) =
        (if tke_parent te \<noteq> [] \<and> p = ?p \<and> c = ?c then Some [] else tst s (child_key p c))"
      using st [OF tvalid_keys(2), of p c] hex_salt by (simp add: f_def)
    then show ?thesis using True by (auto simp: child_of_def)
  qed (use hex_salt in \<open>auto simp: child_of_def\<close>)
  have lease: "lease_ok E lvalid (wst s2) l \<longleftrightarrow> lease_ok E lvalid (wst s) l" for l
    using s2(4) s1(4) by (auto simp: lease_ok_def)
  have "tree_inv E tvalid lvalid (tst s2) (wst s2)"
    unfolding tree_inv_def
  proof (intro conjI allI impI)
    fix a x assume "hex_name a" "tst s2 (id_key a) = Some x"
    then show "\<exists>te. tn_dec_token E x = Some te \<and> ts_salt_id E (tke_id te) = a"
      using st [OF tvalid_keys(1), of a] te tree_invD(1) [OF R(2), of a x] by (auto simp: f_def split: if_splits)
  next
    fix p n assume "hex_name p" "tvalid (child_key p n)" "tst s2 (child_key p n) \<noteq> None"
    then show "hex_name n"
      using st [of "child_key p n"] tree_invD(2) [OF R(2), of p n] hex_salt by (auto simp: f_def split: if_splits)
  next
    fix p n assume "hex_name p" "tvalid (lease_key p n)" "tst s2 (lease_key p n) \<noteq> None"
    then show "hex_name n"
      using st [of "lease_key p n"] tree_invD(3) [OF R(2), of p n] by (auto simp: f_def split: if_splits)
  next
    fix p c assume c: "child_of (tst s2) p c"
    then have hc: "hex_name c" by (simp add: child_of_def)
    from c show "\<exists>te'. token_at E (tst s2) c = Some te' \<and> tke_parent te' \<noteq> [] \<and> ts_salt_id E (tke_parent te') = p"
      using ch [of p c] tok [OF hc] no_child tree_invD(4) [OF R(2), of p c] by auto
  next
    fix a b x assume "hex_name a" "hex_name b" "tst s2 (lease_key a b) = Some x"
    then show "lease_ok E lvalid (wst s2) (tn_lossy E x)"
      using st [OF tvalid_keys(3), of a b] tree_invD(5) [OF R(2), of a b x] lease
      by (auto simp: f_def split: if_splits)
  qed
  then have "tok_inv s2" using s2(2) flat by (simp add: tok_inv_def)
  moreover have "children (tst s2) = children (tst s) \<union> {(?p, ?c) | x. tke_parent te \<noteq> []}"
    using ch by (auto simp: children_def)
  moreover have "tst s2 (lease_key a b) = tst s (lease_key a b)" if "hex_name a" "hex_name b" for a b
    using st [OF tvalid_keys(3) [OF that]] that by (simp add: f_def)
  moreover have "wst s2 k = wst s k" if "lvalid k" for k using s2(4) s1(4) that by simp
  ultimately show ?thesis using s1(1) s2(1) tok by blast
qed

end

end
