(* ===== verification/Token_Use.thy ===== *)
theory Token_Use
  imports Token_Tree
begin

text \<open>
  What the operations of the token store do under the contract \<open>token_storage\<close>: creation, use of a limited token,
  revocation of a cycle, and the thread that revokes expired leases.
\<close>

section \<open>Creation and use\<close>

text \<open>Using a token several times, with the answers.\<close>

fun use_times :: "'s tenv \<Rightarrow> string \<Rightarrow> nat \<Rightarrow> 's tstate \<Rightarrow> (auth res list \<times> 's tstate) option" where
  "use_times E i 0 s = Some ([], s)"
| "use_times E i (Suc n) s =
     (case check_token E i s of
        None \<Rightarrow> None
      | Some (r, s') \<Rightarrow> map_option (\<lambda>(rs, s''). (r # rs, s'')) (use_times E i n s'))"

definition counted :: "token_entry \<Rightarrow> nat \<Rightarrow> token_entry" where
  "counted te n = te\<lparr>tke_num_uses := of_nat n\<rparr>"

lemma u32_minus_one:
  "0 < n \<Longrightarrow> n < 2 ^ 32 \<Longrightarrow> (of_nat n :: u32) - 1 = of_nat (n - 1)"
  by (cases n) simp_all

lemma u32_eq_0: "n < 2 ^ 32 \<Longrightarrow> (of_nat n :: u32) = 0 \<longleftrightarrow> n = 0"
  by (simp add: word_of_nat_eq_0_iff nat_dvd_not_less dvd_imp_le) (metis dvd_0_right nat_dvd_not_less neq0_conv)

context token_storage
begin

lemma create_ok:
  assumes I: "tok_inv s" and te: "tn_dec_token E (tn_enc_token E te) = Some te" "tke_id te \<noteq> []"
    and no_child: "\<And>p. \<not> child_of (tst s) p (ts_salt_id E (tke_id te))"
    and par: "tke_parent te = [] \<or> token_at E (tst s) (ts_salt_id E (tke_parent te)) \<noteq> None"
  shows "\<exists>s'. token_create E te s = (Ok te, s') \<and> tok_inv s' \<and>
    (\<forall>a. hex_name a \<longrightarrow> token_at E (tst s') a =
      (if a = ts_salt_id E (tke_id te) then Some te else token_at E (tst s) a)) \<and>
    children (tst s') = children (tst s) \<union>
      {(ts_salt_id E (tke_parent te), ts_salt_id E (tke_id te)) | x. tke_parent te \<noteq> []} \<and>
    (\<forall>a b. hex_name a \<longrightarrow> hex_name b \<longrightarrow> tst s' (lease_key a b) = tst s (lease_key a b)) \<and>
    (\<forall>k. lvalid k \<longrightarrow> wst s' k = wst s k)"
proof -
  obtain s1 s2 where s: "put_parent_index E v te (ts_salt_id E (tke_id te)) s = (Ok (), s1)"
    "on_store (view_put sops v \<lparr>se_key = id_key (ts_salt_id E (tke_id te)), se_value = tn_enc_token E te\<rparr>) s1 = (Ok (), s2)"
    "tok_inv s2"
    "\<forall>a. hex_name a \<longrightarrow> token_at E (tst s2) a =
      (if a = ts_salt_id E (tke_id te) then Some te else token_at E (tst s) a)"
    "children (tst s2) = children (tst s) \<union>
      {(ts_salt_id E (tke_parent te), ts_salt_id E (tke_id te)) | x. tke_parent te \<noteq> []}"
    "\<forall>a b. hex_name a \<longrightarrow> hex_name b \<longrightarrow> tst s2 (lease_key a b) = tst s (lease_key a b)"
    "\<forall>k. lvalid k \<longrightarrow> wst s2 k = wst s k"
    using put_token_inv [OF I te(1) no_child par] by blast
  from s(1,2) have "token_create E te s = (Ok te, s2)"
    using te(2) by (simp add: token_create_def with_view_def env op_bind_def Let_def)
  then show ?thesis using s(3-) by blast
qed

lemma lookup_ok:
  assumes "tok_inv s" "i \<noteq> []"
  shows "token_lookup E i s = (Ok (token_at E (tst s) (ts_salt_id E i)), s)"
  using lookup_salted_ok [OF assms(1) hex_salt] assms(2) by (simp add: token_lookup_def)

text \<open>A stored entry may be replaced by one with the same id and parent.\<close>

lemma update_token:
  assumes I: "tok_inv s" and te: "tn_dec_token E (tn_enc_token E te') = Some te'"
    and old: "token_at E (tst s) (ts_salt_id E (tke_id te')) = Some te" "tke_parent te' = tke_parent te"
  shows "\<exists>s'. on_store (view_put sops v \<lparr>se_key = id_key (ts_salt_id E (tke_id te')),
      se_value = tn_enc_token E te'\<rparr>) s = (Ok (), s') \<and> tok_inv s' \<and>
    (\<forall>a. hex_name a \<longrightarrow> token_at E (tst s') a =
      (if a = ts_salt_id E (tke_id te') then Some te' else token_at E (tst s) a)) \<and>
    children (tst s') = children (tst s)"
proof -
  let ?c = "ts_salt_id E (tke_id te')"
  have R: "ready (ts_store s)" "tree_inv E tvalid lvalid (tst s) (wst s)" "flat_folders (tdirs s)"
    using I by (auto simp: tok_inv_def)
  obtain s2 where s2: "on_store (view_put sops v \<lparr>se_key = id_key ?c, se_value = tn_enc_token E te'\<rparr>) s = (Ok (), s2)"
    "ready (ts_store s2)" "\<And>k'. tvalid k' \<Longrightarrow> tst s2 k' = ((tst s)(id_key ?c \<mapsto> tn_enc_token E te')) k'"
    "\<And>k'. lvalid k' \<Longrightarrow> wst s2 k' = wst s k'" "\<And>d. d \<in> tdirs s2 \<Longrightarrow> d \<in> tdirs s \<or> folder_of (id_key ?c) d"
    using put_v [OF R(1) tvalid_keys(1) [OF hex_salt]] by blast
  have flat: "flat_folders (tdirs s2)" by (rule folder_of_flat [OF R(3) s2(5)]) blast+
  have tok: "token_at E (tst s2) a = (if a = ?c then Some te' else token_at E (tst s) a)" if "hex_name a" for a
    using s2(3) [OF tvalid_keys(1) [OF that]] te by (auto simp: token_at_def)
  have ch: "child_of (tst s2) p c \<longleftrightarrow> child_of (tst s) p c" for p c
    using s2(3) [OF tvalid_keys(2), of p c] by (simp add: child_of_def cong: conj_cong)
  have lease: "lease_ok E lvalid (wst s2) l \<longleftrightarrow> lease_ok E lvalid (wst s) l" for l
    using s2(4) by (auto simp: lease_ok_def)
  have "tree_inv E tvalid lvalid (tst s2) (wst s2)"
    unfolding tree_inv_def
  proof (intro conjI allI impI)
    fix a x assume "hex_name a" "tst s2 (id_key a) = Some x"
    then show "\<exists>te. tn_dec_token E x = Some te \<and> ts_salt_id E (tke_id te) = a"
      using s2(3) [OF tvalid_keys(1), of a] te tree_invD(1) [OF R(2), of a x] by (auto split: if_splits)
  next
    fix p n assume "hex_name p" "tvalid (child_key p n)" "tst s2 (child_key p n) \<noteq> None"
    then show "hex_name n" using s2(3) [of "child_key p n"] tree_invD(2) [OF R(2), of p n] by auto
  next
    fix p n assume "hex_name p" "tvalid (lease_key p n)" "tst s2 (lease_key p n) \<noteq> None"
    then show "hex_name n" using s2(3) [of "lease_key p n"] tree_invD(3) [OF R(2), of p n] by auto
  next
    fix p c assume c: "child_of (tst s2) p c"
    then have hc: "hex_name c" by (simp add: child_of_def)
    from c show "\<exists>te. token_at E (tst s2) c = Some te \<and> tke_parent te \<noteq> [] \<and> ts_salt_id E (tke_parent te) = p"
      using ch [of p c] tok [OF hc] old tree_invD(4) [OF R(2), of p c] by auto
  next
    fix a b x assume "hex_name a" "hex_name b" "tst s2 (lease_key a b) = Some x"
    then show "lease_ok E lvalid (wst s2) (tn_lossy E x)"
      using s2(3) [OF tvalid_keys(3), of a b] tree_invD(5) [OF R(2), of a b x] lease by auto
  qed
  then have "tok_inv s2" using s2(2) flat by (simp add: tok_inv_def)
  then show ?thesis using s2(1) tok ch by (auto simp: children_def)
qed

lemma tok_inv_store: "ts_store s' = ts_store s \<Longrightarrow> tok_inv s' = tok_inv s" "ts_store s' = ts_store s \<Longrightarrow> tst s' = tst s"
  by (simp_all add: tok_inv_def tst_def wst_def tdirs_def)

lemma revoke_ok:
  assumes "tok_inv s" "i \<noteq> []" "idle_revocations (tn_router E)"
  shows "\<exists>s'. token_revoke E i s = Some (Ok (), s') \<and> tok_inv s' \<and> removes E {ts_salt_id E i} (tst s) (tst s')"
  using salted_run [OF assms(1) hex_salt [of i] assms(3)] assms(2)
  by (auto simp: token_revoke_def revoke_salted_def revokes_def)

lemma check_counted:
  assumes S: "idle_revocations (tn_router E)" and I: "tok_inv s" and i: "tke_id te \<noteq> []" and n: "0 < n" "n < 2 ^ 32"
    and at: "token_at E (tst s) (ts_salt_id E (tke_id te)) = Some (counted te n)"
    and codec: "tn_dec_token E (tn_enc_token E (counted te (n - 1))) = Some (counted te (n - 1))"
  shows "\<exists>au s'. check_token E (tke_id te) s = Some (Ok au, s') \<and> tok_inv s' \<and>
    token_at E (tst s') (ts_salt_id E (tke_id te)) = (if n = 1 then None else Some (counted te (n - 1)))"
proof -
  let ?a = "ts_salt_id E (tke_id te)"
  have uses: "tke_num_uses (counted te n) \<noteq> 0" "tke_num_uses (counted te n) - 1 = of_nat (n - 1)"
    using n u32_eq_0 u32_minus_one by (simp_all add: counted_def)
  have rec: "(counted te n)\<lparr>tke_num_uses := of_nat (n - 1)\<rparr> = counted te (n - 1)" by (simp add: counted_def)
  have z: "tke_num_uses (counted te (n - 1)) = 0 \<longleftrightarrow> n = 1"
    using n u32_eq_0 [of "n - 1"] by (auto simp: counted_def)
  obtain s1 where s1: "use_token E (counted te n) s = Some (Ok (), s1)" "tok_inv s1"
    "token_at E (tst s1) ?a = (if n = 1 then None else Some (counted te (n - 1)))"
  proof (cases "n = 1")
    case True
    obtain s1 where "token_revoke E (tke_id te) s = Some (Ok (), s1)" "tok_inv s1" "removes E {?a} (tst s) (tst s1)"
      using revoke_ok [OF I i S] by blast
    then show thesis
      using that [of s1] True uses z rec hex_salt by (simp add: use_token_def env Let_def removes_def counted_def)
  next
    case False
    have "token_at E (tst s) (ts_salt_id E (tke_id (counted te (n - 1)))) = Some (counted te n)"
      "tke_parent (counted te (n - 1)) = tke_parent (counted te n)" using at by (simp_all add: counted_def)
    from update_token [OF I codec this] obtain s1 where
      "on_store (view_put sops v \<lparr>se_key = id_key ?a, se_value = tn_enc_token E (counted te (n - 1))\<rparr>) s = (Ok (), s1)"
      "tok_inv s1" "token_at E (tst s1) ?a = Some (counted te (n - 1))"
      using hex_salt by (auto simp: counted_def)
    then show thesis
      using that [of s1] False uses z rec by (simp add: use_token_def env Let_def counted_def)
  qed
  let ?s2 = "s1\<lparr>ts_reads := Suc (ts_reads s1)\<rparr>"
  have "check_token E (tke_id te) s =
      Some (Ok (auth_of_entry (tn_clock E (ts_reads s1)) (tke_id te) (counted te n)), ?s2)"
    using i lookup_ok [OF I i] at s1(1) by (simp add: check_token_def now_op_def pop_bind_def)
  then show ?thesis using s1(2,3) tok_inv_store [of ?s2 s1] by auto
qed

lemma check_missing:
  assumes "tok_inv s" "i \<noteq> []" "token_at E (tst s) (ts_salt_id E i) = None"
  shows "check_token E i s = Some (Err ErrPermissionDenied, s)"
  using assms lookup_ok [OF assms(1,2)] by (simp add: check_token_def pop_bind_def)

lemma limited_uses:
  assumes S: "idle_revocations (tn_router E)" and "tok_inv s" "tke_id te \<noteq> []" "n < 2 ^ 32"
    and "token_at E (tst s) (ts_salt_id E (tke_id te)) = (if n = 0 then None else Some (counted te n))"
    and codec: "\<forall>m < n. tn_dec_token E (tn_enc_token E (counted te m)) = Some (counted te m)"
  shows "\<exists>rs s'. use_times E (tke_id te) (Suc n) s = Some (rs @ [Err ErrPermissionDenied], s') \<and>
    length rs = n \<and> list_all is_ok rs"
  using assms(2-)
proof (induction n arbitrary: s)
  case 0
  then show ?case using check_missing [OF 0(1,2)] by simp
next
  case (Suc n)
  obtain au s1 where s1: "check_token E (tke_id te) s = Some (Ok au, s1)" "tok_inv s1"
    "token_at E (tst s1) (ts_salt_id E (tke_id te)) = (if n = 0 then None else Some (counted te n))"
    using check_counted [OF S Suc.prems(1,2), of "Suc n"] Suc.prems(3-5) by auto
  obtain rs s2 where "use_times E (tke_id te) (Suc n) s1 = Some (rs @ [Err ErrPermissionDenied], s2)"
    "length rs = n" "list_all is_ok rs"
    using Suc.IH [OF s1(2) Suc.prems(2)] s1(3) Suc.prems(3,5) by auto
  then show ?case using s1(1) by (auto intro!: exI [of _ "Ok au # rs"])
qed

text \<open>Leases: what is stored of them, and their index, may change as long as the indexed leases are in order.\<close>

lemma leases_inv:
  assumes I: "tok_inv s" and R: "ready (ts_store s')" "flat_folders (tdirs s')"
    and id: "\<And>a. hex_name a \<Longrightarrow> tst s' (id_key a) = tst s (id_key a)"
    and ch: "\<And>p n. hex_name p \<Longrightarrow> tvalid (child_key p n) \<Longrightarrow> tst s' (child_key p n) = tst s (child_key p n)"
    and names: "\<And>p n. hex_name p \<Longrightarrow> tvalid (lease_key p n) \<Longrightarrow> tst s' (lease_key p n) \<noteq> None \<Longrightarrow> hex_name n"
    and ok: "\<And>a b x. hex_name a \<Longrightarrow> hex_name b \<Longrightarrow> tst s' (lease_key a b) = Some x \<Longrightarrow>
      lease_ok E lvalid (wst s') (tn_lossy E x)"
  shows "tok_inv s'"
proof -
  have T: "tree_inv E tvalid lvalid (tst s) (wst s)" using I by (auto simp: tok_inv_def)
  have same: "token_at E (tst s') a = token_at E (tst s) a" if "hex_name a" for a
    using id [OF that] by (simp add: token_at_def)
  have chs: "child_of (tst s') p c \<longleftrightarrow> child_of (tst s) p c" for p c
    using ch [of p c] tvalid_keys(2) by (simp add: child_of_def cong: conj_cong)
  have "tree_inv E tvalid lvalid (tst s') (wst s')"
    unfolding tree_inv_def
  proof (intro conjI allI impI)
    show "\<exists>te. tn_dec_token E x = Some te \<and> ts_salt_id E (tke_id te) = a"
      if "hex_name a" "tst s' (id_key a) = Some x" for a x
      using tree_invD(1) [OF T] id that by simp
    show "hex_name n" if "hex_name p" "tvalid (child_key p n)" "tst s' (child_key p n) \<noteq> None" for p n
      using tree_invD(2) [OF T] ch that by simp
    show "\<exists>te. token_at E (tst s') c = Some te \<and> tke_parent te \<noteq> [] \<and> ts_salt_id E (tke_parent te) = p"
      if "child_of (tst s') p c" for p c
      using tree_invD(4) [OF T] chs same [of c] that by (simp add: child_of_def)
  qed (rule names ok; assumption)+
  then show ?thesis using R by (simp add: tok_inv_def)
qed

lemma put_w:
  assumes "ready (ts_store s)" "lvalid k"
  shows "\<exists>s'. on_store (view_put sops w \<lparr>se_key = k, se_value = x\<rparr>) s = (Ok (), s') \<and> ready (ts_store s') \<and>
    ts_queue s' = ts_queue s \<and> ts_reads s' = ts_reads s \<and> ts_uuids s' = ts_uuids s \<and>
    (\<forall>k'. tvalid k' \<longrightarrow> tst s' k' = tst s k') \<and> (\<forall>k'. lvalid k' \<longrightarrow> wst s' k' = ((wst s)(k \<mapsto> x)) k') \<and>
    tdirs s' \<subseteq> tdirs s"
proof -
  obtain x' where x': "view_put sops w \<lparr>se_key = k, se_value = x\<rparr> (ts_store s) = (Ok (), x')" "ready x'"
    "\<And>k'. lvalid k' \<Longrightarrow> view_stored stored w x' k' = ((view_stored stored w (ts_store s))(k \<mapsto> x)) k'"
    "\<And>k'. valid k' \<Longrightarrow> \<not> starts_with k' (bv_prefix w) \<Longrightarrow> stored x' k' = stored (ts_store s) k'"
    using lw.view_put_stored [OF assms] by blast
  have p: "storage_put sops \<lparr>se_key = expand_key w k, se_value = x\<rparr> (ts_store s) = (Ok (), x')" "valid (expand_key w k)"
    using x'(1) assms(2) by (simp_all add: view_put_def view_valid_def)
  have "expand_key v d \<in> subdirs (ts_store s)" if "expand_key v d \<in> subdirs x'" for d
    using put_subdirs [OF assms(1) p(2,1) that] views_disjoint [OF apart, of k]
    by (auto simp: folder_of_def expand_key_def starts_with_iff_prefix dest: append_prefixD)
  then show ?thesis
    using x' same_outside_w [OF x'(4)] by (auto simp: on_store_def tst_def wst_def tdirs_def)
qed

lemma persist_inv:
  assumes I: "tok_inv s" and l: "lvalid (le_lease_id le)" and codec: "tn_dec_lease E (tn_enc_lease E le) = Some le"
    and safe: "le_auth le = None \<or> (\<forall>a b x. hex_name a \<longrightarrow> hex_name b \<longrightarrow> tst s (lease_key a b) = Some x \<longrightarrow>
      tn_lossy E x \<noteq> le_lease_id le)"
  shows "\<exists>s'. persist_lease_entry E le s = (Ok (), s') \<and> tok_inv s' \<and> ts_queue s' = ts_queue s \<and>
    ts_reads s' = ts_reads s \<and> ts_uuids s' = ts_uuids s \<and> (\<forall>k. tvalid k \<longrightarrow> tst s' k = tst s k) \<and>
    (\<forall>k. lvalid k \<longrightarrow> wst s' k = ((wst s)(le_lease_id le \<mapsto> tn_enc_lease E le)) k)"
proof -
  have R: "ready (ts_store s)" "flat_folders (tdirs s)" "tree_inv E tvalid lvalid (tst s) (wst s)"
    using I by (auto simp: tok_inv_def)
  obtain s' where s': "on_store (view_put sops w \<lparr>se_key = le_lease_id le, se_value = tn_enc_lease E le\<rparr>) s = (Ok (), s')"
    "ready (ts_store s')" "ts_queue s' = ts_queue s \<and> ts_reads s' = ts_reads s \<and> ts_uuids s' = ts_uuids s"
    "\<And>k. tvalid k \<Longrightarrow> tst s' k = tst s k" "\<And>k. lvalid k \<Longrightarrow> wst s' k = ((wst s)(le_lease_id le \<mapsto> tn_enc_lease E le)) k"
    "tdirs s' \<subseteq> tdirs s"
    using put_w [OF R(1) l] by blast
  have "tok_inv s'"
  proof (rule leases_inv [OF I s'(2) flat_folders_mono [OF R(2) s'(6)]])
    show "hex_name n" if "hex_name p" "tvalid (lease_key p n)" "tst s' (lease_key p n) \<noteq> None" for p n
      using tree_invD(3) [OF R(3) that(1,2)] that(3) s'(4) [OF that(2)] by simp
    show "lease_ok E lvalid (wst s') (tn_lossy E x)"
      if a: "hex_name a" "hex_name b" and x: "tst s' (lease_key a b) = Some x" for a b x
    proof -
      have x': "tst s (lease_key a b) = Some x" using x s'(4) [OF tvalid_keys(3) [OF a]] by simp
      have "tn_lossy E x = le_lease_id le \<longrightarrow> le_auth le = None" using safe a x' by blast
      then show ?thesis
        using tree_invD(5) [OF R(3) a x'] s'(5) codec by (auto simp: lease_ok_def)
    qed
  qed (simp_all add: s'(4) tvalid_keys(1))
  then show ?thesis using s'(1,3-5) by (auto simp: persist_lease_entry_def env)
qed

lemma index_inv:
  assumes I: "tok_inv s" and l: "lease_ok E lvalid (wst s) l" and utf: "tn_lossy E (tn_utf8 E l) = l"
  shows "\<exists>s'. create_index_by_token E tok l s = (Ok (), s') \<and> tok_inv s' \<and> ts_queue s' = ts_queue s \<and>
    ts_reads s' = ts_reads s \<and>
    (\<forall>k. tvalid k \<longrightarrow> tst s' k = ((tst s)(index_key E tok l \<mapsto> tn_utf8 E l)) k) \<and> (\<forall>k. lvalid k \<longrightarrow> wst s' k = wst s k)"
proof -
  let ?k = "index_key E tok l"
  have R: "ready (ts_store s)" "flat_folders (tdirs s)" "tree_inv E tvalid lvalid (tst s) (wst s)"
    using I by (auto simp: tok_inv_def)
  have k: "?k = lease_key (ts_salt_id E tok) (ts_salt_id E l)" by (simp add: index_key_def)
  then have tv: "tvalid ?k" using tvalid_keys(3) hex_salt by simp
  obtain s' where s': "on_store (view_put sops v \<lparr>se_key = ?k, se_value = tn_utf8 E l\<rparr>) s = (Ok (), s')"
    "ready (ts_store s')" "\<And>k'. tvalid k' \<Longrightarrow> tst s' k' = ((tst s)(?k \<mapsto> tn_utf8 E l)) k'"
    "\<And>k'. lvalid k' \<Longrightarrow> wst s' k' = wst s k'" "\<And>d. d \<in> tdirs s' \<Longrightarrow> d \<in> tdirs s \<or> folder_of ?k d"
    using put_v [OF R(1) tv] by blast
  have flat: "flat_folders (tdirs s')"
    by (rule folder_of_flat [OF R(2) s'(5)]) (use k hex_salt in auto)
  have "tok_inv s'"
  proof (rule leases_inv [OF I s'(2) flat])
    show "hex_name n" if "hex_name p" "tvalid (lease_key p n)" "tst s' (lease_key p n) \<noteq> None" for p n
      using tree_invD(3) [OF R(3) that(1,2)] that s'(3) [OF that(2)] k hex_salt by (auto split: if_splits)
    show "lease_ok E lvalid (wst s') (tn_lossy E x)"
      if a: "hex_name a" "hex_name b" and x: "tst s' (lease_key a b) = Some x" for a b x
      using s'(3) [OF tvalid_keys(3) [OF a]] x utf l tree_invD(5) [OF R(3) a, of x] s'(4)
      by (auto simp: lease_ok_def split: if_splits)
  qed (use s'(3) tvalid_keys(1) k hex_salt in auto)
  moreover have "create_index_by_token E tok l s = (Ok (), s')"
    using s'(1) env by (simp add: create_index_by_token_def linked_op_def)
  moreover have "ts_queue s' = ts_queue s" "ts_reads s' = ts_reads s"
    using s'(1) by (auto simp: on_store_def split: prod.splits)
  ultimately show ?thesis using s'(3,4) by blast
qed

section \<open>Revocation of a cycle\<close>

text \<open>
  A set of tokens each of which has a child, and all of whose children are in the set: revoking one of them calls
  the revocation of another before it changes anything.
\<close>

lemma cycle_step:
  assumes "tok_inv s" "hex_name x" "child_of (tst s) x c"
  shows "\<exists>b cs. on_store (view_list sops v (child_key x [])) s = (Ok (b # cs), s) \<and> child_of (tst s) x b"
proof -
  obtain names where "on_store (view_list sops v (child_key x [])) s = (Ok names, s)"
    "set names = {c. child_of (tst s) x c}" using list_children [OF assms(1,2)] by blast
  then show ?thesis using assms(3) by (cases names) auto
qed

lemma cycle_diverges:
  assumes I: "tok_inv s"
    and X: "\<And>x. x \<in> X \<Longrightarrow> hex_name x \<and> (\<exists>c. child_of (tst s) x c) \<and> (\<forall>c. child_of (tst s) x c \<longrightarrow> c \<in> X)"
    and a: "a \<in> X"
  shows "revocation_run E held (RevokeTree a) s = None"
proof -
  let ?bad = "\<lambda>t s0. s0 = s \<and> ((\<exists>x \<in> X. t = RevokeTree x) \<or> (\<exists>x \<in> X. \<exists>cs. t = Children (x # cs)))"
  have "E0 = E \<longrightarrow> \<not> ?bad t s0" if "revocation_run E0 held0 t s0 = Some y" for E0 held0 t s0 y
  proof (rule revocation_run.raw_induct [where P = "\<lambda>E0 _ t s0 _. E0 = E \<longrightarrow> \<not> ?bad t s0", OF _ that], goal_cases)
    case (1 run E0 held0 t s0 y)
    have no: "\<not> ?bad t' s'" if "run E held0 t' s' = Some y'" for t' s' y'
      using 1(1) [OF that] by blast
    note eq = 1(2)
    show ?case
    proof (intro impI notI)
      assume E0: "E0 = E" and "?bad t s0"
      then consider x where "s0 = s" "x \<in> X" "t = RevokeTree x" | x cs where "s0 = s" "x \<in> X" "t = Children (x # cs)"
        by blast
      then show False
      proof cases
        case (1 x)
        then obtain b cs where "on_store (view_list sops v (child_key x [])) s = (Ok (b # cs), s)" "b \<in> X"
          using X [OF 1(2)] cycle_step [OF I] by metis
        then show False
          using eq 1 E0 no [of "Children (b # cs)" s] by (auto simp: env pop_then_def bind_eq_Some_conv)
      next
        case (2 x cs)
        then show False using eq E0 no [of "RevokeTree x" s] by (auto simp: pop_then_def bind_eq_Some_conv)
      qed
    qed
  qed
  then show ?thesis using a by (cases "revocation_run E held (RevokeTree a) s") blast+
qed

section \<open>The lock of the queue\<close>

text \<open>With the lock held, a lease of a secret that is revoked on behalf of its token waits for the lock.\<close>

lemma held_lease_waits:
  assumes R: "tok_inv s" and l: "lease_ok E lvalid (wst s) l" and S: "idle_revocations (tn_router E)"
  shows "revocation_run E True (LeaseId l True) s =
    (if Option.bind (wst s l) (tn_dec_lease E) = None then Some (Ok (), s) else None)"
proof (cases "Option.bind (wst s l) (tn_dec_lease E)")
  case None
  then show ?thesis
    using R load_lease [OF _ l] by (simp add: revocation_run.simps [of E True "LeaseId l True"] tok_inv_def)
next
  case (Some le)
  have I: "ready (ts_store s)" using R by (simp add: tok_inv_def)
  have au: "le_auth le = None" using l Some by (auto simp: lease_ok_def split: bind_splits)
  obtain s1 where s1: "revoke_secret E le s = (Ok (), s1)" "shrinks {} {} s s1" using route_shrinks [OF I S] by blast
  have r1: "ready (ts_store s1)" "lvalid l" using s1(2) l by (auto simp: shrinks_def lease_ok_def)
  obtain s2 where s2: "forget_lease E l le s1 = (Ok (), s2)" using forget_shrinks [OF r1] by blast
  show ?thesis
    using load_lease [OF I l] Some au s1(1) s2 env(5)
    by (simp add: revocation_run.simps [of E True "LeaseId l True"] linked_op_def requeue_def)
qed

lemma held_leases_wait:
  assumes "tok_inv s" "\<forall>l \<in> set ls. lease_ok E lvalid (wst s) l"
    and "\<exists>l \<in> set ls. Option.bind (wst s l) (tn_dec_lease E) \<noteq> None" and S: "idle_revocations (tn_router E)"
  shows "revocation_run E True (Leases ls) s = None"
  using assms(2,3)
proof (induction ls)
  case (Cons l ls)
  then show ?case
    using held_lease_waits [OF assms(1) _ S, of l]
    by (cases "Option.bind (wst s l) (tn_dec_lease E)") (auto simp: revocation_run.simps [of E True "Leases (l # ls)"])
qed simp

text \<open>
  The lease of a login whose token holds the lease of a secret: the revocation of the login with the lock held
  does not return.
\<close>

lemma login_lease_waits:
  assumes S: "idle_revocations (tn_router E)" and I: "tok_inv s" and l: "lvalid l" "Option.bind (wst s l) (tn_dec_lease E) = Some le"
    and au: "le_auth le = Some au" "au_client_token au = tke_id te" "tke_id te \<noteq> []"
    and te: "token_at E (tst s) (ts_salt_id E (tke_id te)) = Some te"
    and leaf: "\<And>c. \<not> child_of (tst s) (ts_salt_id E (tke_id te)) c"
    and x: "indexes_lease E (tst s) (ts_salt_id E (tke_id te)) l2"
    and l2: "Option.bind (wst s l2) (tn_dec_lease E) \<noteq> None"
  shows "revoke_lease_id E True l reg s = None"
proof -
  let ?a = "ts_salt_id E (tke_id te)"
  have R: "ready (ts_store s)" "tree_inv E tvalid lvalid (tst s) (wst s)" using I by (auto simp: tok_inv_def)
  have load: "load_lease_entry E l s = (Ok (Some le), s)"
    using get_w [OF R(1) l(1)] l(2) by (auto simp: load_lease_entry_def env op_bind_def split: bind_splits)
  have "revocation_run E True (Children []) s = Some (Ok (), s)"
    by (simp add: revocation_run.simps [of E True "Children []"])
  moreover obtain names where n: "on_store (view_list sops v (child_key ?a [])) s = (Ok names, s)" "names = []"
    using list_children [OF I hex_salt [of "tke_id te"]] leaf by auto
  moreover have "revocation_run E True (RevokeSalted ?a) s = None"
  proof -
    obtain s1 where s1: "on_store (view_delete sops v (id_key ?a)) s = (Ok (), s1)" "shrinks {id_key ?a} {} s s1"
      using delete_v [OF R(1) tvalid_keys(1) [OF hex_salt]] by blast
    obtain s2 K where s2: "delete_parent_index E v te ?a s1 = (Ok (), s2)" "shrinks (insert (id_key ?a) K) {} s s2"
      "K \<subseteq> {child_key (ts_salt_id E (tke_parent te)) ?a}" "tke_parent te \<noteq> [] \<Longrightarrow> K \<noteq> {}"
    proof (cases "tke_parent te = []")
      case True
      then show thesis using that [of s1 "{}"] s1(2) by (simp add: delete_parent_index_def)
    next
      case False
      have "ready (ts_store s1)" using s1(2) by (simp add: shrinks_def)
      then obtain s2 where s2: "on_store (view_delete sops v (child_key (ts_salt_id E (tke_parent te)) ?a)) s1 = (Ok (), s2)"
        "shrinks {child_key (ts_salt_id E (tke_parent te)) ?a} {} s1 s2"
        using delete_v tvalid_keys(2) [OF hex_salt hex_salt] by blast
      then show thesis
        using that [of s2 "{child_key (ts_salt_id E (tke_parent te)) ?a}"] shrinks_trans [OF s1(2) s2(2)] False
        by (simp add: delete_parent_index_def parent_key_def env insert_commute)
    qed
    have I2: "tok_inv s2"
    proof (rule shrinks_inv [OF I s2(2)], intro allI impI)
      fix a p assume a: "hex_name a" "id_key a \<in> insert (id_key ?a) K" and c: "child_of (tst s) p a"
      then have "a = ?a" using s2(3) by auto
      then have "p = ts_salt_id E (tke_parent te)" "tke_parent te \<noteq> []"
        using tree_invD(4) [OF R(2) c] te by auto
      then show "child_key p a \<in> insert (id_key ?a) K" using s2(3,4) \<open>a = ?a\<close> by auto
    qed
    obtain b x where b: "hex_name b" "tst s (lease_key ?a b) = Some x" "tn_lossy E x = l2"
      using x by (auto simp: indexes_lease_def)
    have "tst s2 (lease_key ?a b) = Some x" "wst s2 l2 = wst s l2"
      using s2(2,3) b tvalid_keys(3) [OF hex_salt b(1)] hex_salt tree_invD(5) [OF R(2) hex_salt b(1,2)]
      by (auto simp: shrinks_def lease_ok_def)
    then have same: "indexes_lease E (tst s2) ?a l2" "wst s2 l2 = wst s l2" using b by (auto simp: indexes_lease_def)
    obtain ls where ls: "lookup_by_token E (tke_id te) s2 = (Ok ls, s2)" "\<forall>l \<in> set ls. lease_ok E lvalid (wst s2) l"
      "l2 \<in> set ls" using lookup_leases [OF I2, of "tke_id te"] same(1) by auto
    have "revocation_run E True (Leases ls) s2 = None"
      by (rule held_leases_wait [OF I2 ls(2) _ S]) (intro bexI [OF _ ls(3)], use l2 same(2) in simp)
    then have "revocation_run E True (ByToken te) s2 = None"
      using ls(1) by (simp add: revocation_run.simps [of E True "ByToken te"])
    then show ?thesis
      using lookup_salted_ok [OF I hex_salt] te s1(1) s2(1)
      by (simp add: revocation_run.simps [of E True "RevokeSalted ?a"] env)
  qed
  ultimately have "revocation_run E True (RevokeTree ?a) s = None"
    by (simp add: revocation_run.simps [of E True "RevokeTree ?a"] env)
  then show ?thesis
    using load au env(5) by (simp add: revoke_lease_id_def revocation_run.simps [of E True "LeaseId l reg"] linked_op_def)
qed

end

section \<open>Tokens made through the API\<close>

lemma check_policies_Ok:
  assumes "check_policies parent ps = Ok ()"
  shows "''root'' \<notin> set (tke_policies parent) \<Longrightarrow> set ps \<subseteq> set (tke_policies parent) \<and> ''root'' \<notin> set ps"
    and "set ps \<inter> set NON_ASSIGNABLE_POLICIES = {}"
proof -
  show "''root'' \<notin> set (tke_policies parent) \<Longrightarrow> set ps \<subseteq> set (tke_policies parent) \<and> ''root'' \<notin> set ps"
    using assms by (auto simp: check_policies_def is_str_subset_def list_all_iff split: if_splits option.splits)
  have "find (\<lambda>p. p \<in> set NON_ASSIGNABLE_POLICIES) ps = None"
    using assms by (auto simp: check_policies_def split: if_splits option.splits)
  then show "set ps \<inter> set NON_ASSIGNABLE_POLICIES = {}" by (auto simp: find_None_iff)
qed

lemma handle_create_parts:
  assumes "handle_create E (s, req) = (Ok r, (s', req'))" and u: "\<And>n. tn_uuid E n \<noteq> []"
  obtains body parent s0 d te s1 s2 au where
    "rq_body req = Some body" "tn_dec_req E body = Some d"
    "token_lookup E (rq_client_token req) s = (Ok (Some parent), s0)" "tke_num_uses parent = 0"
    "check_policies parent (requested_policies parent d) = Ok ()"
    "trd_no_parent d \<or> trd_id d \<noteq> [] \<longrightarrow> ''root'' \<in> set (tke_policies parent)"
    "token_create E te s1 = (Ok te, s2)" "ts_store s1 = ts_store s0" "ts_store s' = ts_store s2"
    "tke_id te = (if trd_id d \<noteq> [] then trd_id d else tn_uuid E (ts_uuids s0))"
    "tke_parent te = (if trd_no_parent d then [] else rq_client_token req)" "tke_policies te = requested_policies parent d"
    "tke_meta te = trd_meta d"
    "r = Some (response_new\<lparr>rs_auth := Some au\<rparr>)" "au_policies au = requested_policies parent d"
    "au_client_token au = tke_id te" "au_no_default_policy au = False"
proof -
  obtain body where b: "rq_body req = Some body"
    using assms by (cases "rq_body req") (auto simp: handle_create_def)
  obtain lr s0 where l: "token_lookup E (rq_client_token req) s = (lr, s0)" by fastforce
  obtain parent where p: "lr = Ok (Some parent)" "tke_num_uses parent = 0"
    using assms b l by (auto simp: handle_create_def op_bind_def word_gt_0 split: res.splits option.splits if_splits)
  obtain d where d: "tn_dec_req E body = Some d"
    using assms b l p by (auto simp: handle_create_def op_bind_def split: option.splits)
  obtain te0 s1 where t0: "token_entry_default E s0 = (Ok te0, s1)" "ts_store s1 = ts_store s0" "tke_id te0 = tn_uuid E (ts_uuids s0)"
    by (simp add: token_entry_default_def uuid_op_def now_op_def op_bind_def)
  obtain te1 where n: "new_token_entry req parent d te0 = Ok te1"
    using assms(1) b l p d t0 by (cases "new_token_entry req parent d te0") (auto simp: handle_create_def op_bind_def)
  have n': "check_policies parent (requested_policies parent d) = Ok ()" "tke_policies te1 = requested_policies parent d"
    "trd_no_parent d \<or> trd_id d \<noteq> [] \<longrightarrow> ''root'' \<in> set (tke_policies parent)"
    "tke_id te1 = (if trd_id d \<noteq> [] then trd_id d else tn_uuid E (ts_uuids s0))"
    "tke_parent te1 = (if trd_no_parent d then [] else rq_client_token req)" "tke_meta te1 = trd_meta d"
    using n t0(3) by (auto simp: new_token_entry_def Let_def res_bind_Ok_iff split: if_splits)
  obtain t0' where q: "requested_ttl E d = Ok t0'"
    using assms(1) b l p d t0 n by (cases "requested_ttl E d") (auto simp: handle_create_def op_bind_def)
  obtain t s2 where t: "token_ttl_op E (te1\<lparr>tke_ttl := t0'\<rparr>) s1 = (Ok t, s2)"
    using assms(1) b l p d t0 n q by (auto simp: handle_create_def op_bind_def split: res.splits prod.splits)
  have st2: "ts_store s2 = ts_store s1"
    using t by (auto simp: token_ttl_op_def ttl_op_def now_op_def op_bind_def split: if_splits res.splits)
  let ?te = "te1\<lparr>tke_ttl := t\<rparr>"
  obtain te s3 where c: "token_create E ?te s2 = (Ok te, s3)"
    using assms(1) b l p d t0 n q t by (auto simp: handle_create_def op_bind_def split: res.splits prod.splits if_splits)
  have id: "tke_id ?te \<noteq> []" using n'(4) u by simp
  have "te = ?te"
    using c id by (auto simp: token_create_def with_view_def Let_def split: option.splits if_splits dest!: op_bind_OkD)
  moreover have "s' = s3\<lparr>ts_reads := Suc (ts_reads s3)\<rparr> \<and> (\<exists>ren. r = Some (response_new\<lparr>rs_auth :=
      Some (auth_of_new_token (tn_clock E (ts_reads s3)) ren te)\<rparr>))"
    using assms(1) b l p d t0(1) n q t c
    by (auto simp: handle_create_def op_bind_def now_op_def split: if_splits)
  ultimately show thesis
    using that [OF b d l [unfolded p(1)] p(2) n'(1,3), of ?te s2 s3] c st2 t0(2) n'(2,4-6)
    by (auto simp: auth_of_new_token_def auth_default_def)
qed

text \<open>
  The token that \<open>post_route\<close> makes for the authentication data of a response: whatever token the data came with,
  this one has no parent and no limit of uses.
\<close>

lemma token_of_auth_parts:
  assumes ok: "token_of_auth E req au s = (Ok au2, s2)" and u: "tn_uuid E (ts_uuids s) \<noteq> []"
  obtains te s1 s3 au0 au1 where
    "token_create E te s1 = (Ok te, s3)" "ts_store s1 = ts_store s"
    "tke_id te = tn_uuid E (ts_uuids s)" "tke_parent te = []" "tke_num_uses te = 0"
    "tke_policies te = sanitize_policies (au_policies au) (\<not> au_no_default_policy au)"
    "''root'' \<notin> set (tke_policies te)" "au_policies au2 = tke_policies te" "au_client_token au2 = tke_id te"
    "tke_path te = rq_path req"
    "register_auth E te au0 s3 = (Ok au1, s2)" "au_client_token au0 = tke_id te"
    "tke_meta te = au_metadata au" "tke_period te = au_period au" "tke_explicit_max_ttl te = au_explicit_max_ttl au"
    "tke_creation_time te \<in> range (tn_clock E)"
proof -
  let ?tps = "sanitize_policies (au_policies au) (\<not> au_no_default_policy au)"
  let ?au = "au\<lparr>au_lease := (au_lease au)\<lparr>ttl := clamp_lease_ttl (ttl (au_lease au))\<rparr>\<rparr>"
  obtain d sB where B: "ttl_op E 0 (au_period ?au) (ttl (au_lease ?au)) (max_ttl (au_lease ?au)) (au_explicit_max_ttl ?au)
      (tn_clock E (ts_reads s)) (s\<lparr>ts_reads := Suc (ts_reads s)\<rparr>) = (Ok d, sB)"
    using ok by (auto simp: token_of_auth_def Let_def now_op_def op_bind_def split: res.splits prod.splits)
  have sB: "ts_store sB = ts_store s" "ts_uuids sB = ts_uuids s"
    using B by (auto simp: ttl_op_def now_op_def op_bind_def)
  have nr: "''root'' \<notin> set ?tps"
    using ok B by (auto simp: token_of_auth_def Let_def now_op_def op_bind_def split: if_splits)
  let ?s1 = "sB\<lparr>ts_uuids := Suc (ts_uuids sB), ts_reads := Suc (ts_reads sB)\<rparr>"
  define te where "te = \<lparr>tke_id = tn_uuid E (ts_uuids s), tke_parent = [], tke_policies = ?tps, tke_path = rq_path req,
    tke_meta = au_metadata au, tke_display_name = au_display_name au, tke_num_uses = 0, tke_ttl = d div NANOS,
    tke_creation_time = tn_clock E (ts_reads sB), tke_period = au_period au, tke_explicit_max_ttl = au_explicit_max_ttl au\<rparr>"
  obtain te' s3 where c: "token_create E te ?s1 = (Ok te', s3)"
    using ok B nr sB
    by (auto simp: token_of_auth_def Let_def now_op_def op_bind_def token_entry_default_def uuid_op_def te_def
        split: res.splits prod.splits)
  have "te' = te"
    using c u by (auto simp: token_create_def with_view_def Let_def te_def split: option.splits if_splits dest!: op_bind_OkD)
  define au0 where "au0 = ?au\<lparr>au_token_policies := ?tps, au_client_token := tke_id te,
    au_lease := (au_lease ?au)\<lparr>ttl := from_secs (tke_ttl te)\<rparr>\<rparr>"
  obtain au1 where r: "register_auth E te au0 s3 = (Ok au1, s2)" "au2 = au1\<lparr>au_policies := ?tps\<rparr>"
    using ok B nr sB c unfolding \<open>te' = te\<close>
    by (auto simp: token_of_auth_def Let_def now_op_def op_bind_def token_entry_default_def uuid_op_def te_def au0_def
        split: res.splits prod.splits)
  have "au_client_token au1 = tke_id te"
    using r(1) by (auto simp: register_auth_def Let_def au0_def split: if_splits dest!: op_bind_OkD)
  then show thesis
    using that [of te ?s1 s3 au0 au1] c \<open>te' = te\<close> r nr sB by (simp add: te_def au0_def)
qed

lemma register_auth_parts:
  assumes "register_auth E te au s = (Ok au1, s2)"
  obtains le s1 s3 where "persist_lease_entry E le s1 = (Ok (), s3)" "ts_store s1 = ts_store s"
    "ts_store s2 = ts_store s3" "le_lease_id le = tke_path te @ ''/'' @ ts_salt_id E (au_client_token au)"
proof -
  have same: "refuses_auth_lease E te au s = (Ok b, s') \<Longrightarrow> ts_store s' = ts_store s"
    "expiration_op E l s = (Ok x, s') \<Longrightarrow> ts_store s' = ts_store s"
    "linked_op E s = (Ok (), s') \<Longrightarrow> s' = s" "now_op E s = (Ok x, s') \<Longrightarrow> ts_store s' = ts_store s"
    for b s s' l x
    by (auto simp: refuses_auth_lease_def expiration_op_def linked_op_def now_op_def op_bind_def split: if_splits)
  have reg: "register_lease_entry le s = (Ok (), s') \<Longrightarrow> ts_store s' = ts_store s" for le s s'
    by (auto simp: register_lease_entry_def split: if_splits)
  from assms show thesis
    unfolding register_auth_def Let_def
    by (auto split: if_splits dest!: op_bind_OkD same reg) (rule that, assumption, simp_all)
qed

context token_storage
begin

lemma register_auth_keeps:
  assumes R: "ready (ts_store s)" and ok: "register_auth E te au s = (Ok au1, s2)"
    and l: "lvalid (tke_path te @ ''/'' @ ts_salt_id E (au_client_token au))"
  shows "ready (ts_store s2)" "\<And>k. tvalid k \<Longrightarrow> tst s2 k = tst s k"
proof -
  obtain le s1 s3 where p: "persist_lease_entry E le s1 = (Ok (), s3)" "ts_store s1 = ts_store s"
    "ts_store s2 = ts_store s3" "le_lease_id le = tke_path te @ ''/'' @ ts_salt_id E (au_client_token au)"
    by (rule register_auth_parts [OF ok])
  obtain x' where x': "view_put sops w \<lparr>se_key = le_lease_id le, se_value = tn_enc_lease E le\<rparr> (ts_store s1) = (Ok (), x')"
    "ready x'" "\<And>k. valid k \<Longrightarrow> \<not> starts_with k (bv_prefix w) \<Longrightarrow> stored x' k = stored (ts_store s1) k"
    using lw.view_put_stored [of "ts_store s1" "le_lease_id le" "tn_enc_lease E le"] R l p(2,4) by auto
  then have "ts_store s3 = x'" using p(1) by (auto simp: persist_lease_entry_def on_store_def env)
  then show "ready (ts_store s2)" "\<And>k. tvalid k \<Longrightarrow> tst s2 k = tst s k"
    using x' p(2,3) same_outside_w [OF x'(3)] by (simp_all add: tst_def)
qed

lemma register_auth_ok:
  assumes R: "ready (ts_store s)" and te: "tke_ttl te \<noteq> 0" "\<not> str_contains (tke_path te) ''..''"
    and au: "au_client_token au \<noteq> []" and l: "lvalid (tke_path te @ ''/'' @ ts_salt_id E (au_client_token au))"
    and clock: "\<And>n. 0 \<le> tn_clock E n"
  shows "\<exists>au1 s'. register_auth E te au s = (Ok au1, s')"
proof -
  let ?au = "\<lambda>now. au\<lparr>au_lease := (au_lease au)\<lparr>issue_time := Some now\<rparr>\<rparr>"
  obtain now s1 where s1: "now_op E s = (Ok now, s1)" "ts_store s1 = ts_store s" by (simp add: now_op_def)
  obtain expire s2 where s2: "expiration_op E (au_lease (?au now)) s1 = (Ok expire, s2)" "ts_store s2 = ts_store s1" "0 \<le> expire"
    using clock by (cases "lease_enabled (au_lease (?au now))")
      (auto simp: expiration_op_def now_op_def op_bind_def lease_expiration_time_def)
  define le where "le = \<lparr>le_lease_id = tke_path te @ ''/'' @ ts_salt_id E (au_client_token au),
    le_client_token = au_client_token au, le_path = tke_path te, le_data = [], le_secret = None,
    le_auth = Some (?au now), le_issue_time = now, le_expire_time = expire, le_revoke_err = []\<rparr>"
  have "ready (ts_store s2)" using R s1(2) s2(2) by simp
  then obtain s3 where s3: "persist_lease_entry E le s2 = (Ok (), s3)"
    using put_w [of s2 "le_lease_id le" "tn_enc_lease E le"] l by (auto simp: persist_lease_entry_def env le_def)
  obtain s4 where s4: "register_lease_entry le s3 = (Ok (), s4)" using s2(3) by (simp add: register_lease_entry_def le_def)
  have "register_auth E te au s = (Ok (?au now), s4)"
    using te au env(5) s1(1) s2(1) s3 s4
    by (simp add: register_auth_def refuses_auth_lease_def linked_op_def op_bind_def Let_def le_def)
  then show ?thesis by blast
qed

lemma new_token_of_auth:
  assumes I: "tok_inv s" and ok: "token_of_auth E req au s = (Ok au2, s2)"
    and u: "tn_uuid E (ts_uuids s) \<noteq> []" "\<And>p. \<not> child_of (tst s) p (ts_salt_id E (tn_uuid E (ts_uuids s)))"
    and codec: "\<And>te. tke_meta te = au_metadata au \<Longrightarrow> tke_period te = au_period au \<Longrightarrow>
      tke_explicit_max_ttl te = au_explicit_max_ttl au \<Longrightarrow> tke_creation_time te \<in> range (tn_clock E) \<Longrightarrow>
      tn_dec_token E (tn_enc_token E te) = Some te"
    and l: "lvalid (rq_path req @ ''/'' @ ts_salt_id E (tn_uuid E (ts_uuids s)))"
  shows "\<exists>te. token_lookup E (au_client_token au2) s2 = (Ok (Some te), s2) \<and>
    tke_id te = au_client_token au2 \<and> tke_parent te = [] \<and> tke_num_uses te = 0 \<and>
    tke_policies te = sanitize_policies (au_policies au) (\<not> au_no_default_policy au) \<and> ''root'' \<notin> set (tke_policies te)"
proof -
  obtain te s1 s3 au0 au1 where t: "token_create E te s1 = (Ok te, s3)" "ts_store s1 = ts_store s"
    "tke_id te = tn_uuid E (ts_uuids s)" "tke_parent te = []" "tke_num_uses te = 0"
    "tke_policies te = sanitize_policies (au_policies au) (\<not> au_no_default_policy au)"
    "''root'' \<notin> set (tke_policies te)" "au_client_token au2 = tke_id te" "tke_path te = rq_path req"
    "register_auth E te au0 s3 = (Ok au1, s2)" "au_client_token au0 = tke_id te"
    "tke_meta te = au_metadata au" "tke_period te = au_period au" "tke_explicit_max_ttl te = au_explicit_max_ttl au"
    "tke_creation_time te \<in> range (tn_clock E)"
    by (rule token_of_auth_parts [OF ok u(1)])
  have I1: "tok_inv s1" "tst s1 = tst s" using I t(2) tok_inv_store [OF t(2)] by simp_all
  obtain s3' where "token_create E te s1 = (Ok te, s3')" "tok_inv s3'"
    "token_at E (tst s3') (ts_salt_id E (tke_id te)) = Some te"
    using create_ok [OF I1(1) codec [OF t(12-15)]] u I1(2) t(3,4) hex_salt by auto
  with t(1) have I3: "tok_inv s3" "token_at E (tst s3) (ts_salt_id E (tke_id te)) = Some te" by simp_all
  have "ready (ts_store s3)" using I3(1) by (simp add: tok_inv_def)
  then have R: "ready (ts_store s2)" "\<And>k. tvalid k \<Longrightarrow> tst s2 k = tst s3 k"
    using register_auth_keeps [OF _ t(10)] l t(3,9,11) by auto
  have k: "tvalid (id_key (ts_salt_id E (tke_id te)))" by (rule tvalid_keys(1) [OF hex_salt])
  have "token_lookup E (tke_id te) s2 = (Ok (Some te), s2)"
    using get_v [OF R(1) k] R(2) [OF k] I3(2) t(3) u(1)
    by (auto simp: token_lookup_def lookup_salted_def with_view_def env op_bind_def token_at_def split: bind_splits)
  then show ?thesis using t by auto
qed

lemma gone_load:
  assumes "ready (ts_store s)" "lvalid l" "lease_gone E (wst s) l"
  shows "fst (load_lease_entry E l s) = Ok None"
  using assms(3) get_w [OF assms(1,2)] by (auto simp: load_lease_entry_def env op_bind_def lease_gone_def split: option.splits)

lemma index_valid: "tok_inv s \<Longrightarrow> hex_name a \<Longrightarrow> indexes_lease E (tst s) a l \<Longrightarrow> lvalid l"
  using tree_invD(5) by (fastforce simp: tok_inv_def indexes_lease_def lease_ok_def)

text \<open>The token that a request to create a token stores.\<close>

lemma handle_create_stores:
  assumes I: "tok_inv s" and ok: "handle_create E (s, req) = (Ok r, (s', req'))" and u: "\<And>n. tn_uuid E n \<noteq> []"
    and d: "rq_body req = Some body" "tn_dec_req E body = Some d"
    and codec: "\<And>te. tke_meta te = trd_meta d \<Longrightarrow> tn_dec_token E (tn_enc_token E te) = Some te"
    and i: "i = (if trd_id d \<noteq> [] then trd_id d else tn_uuid E (ts_uuids s))" "\<And>p. \<not> child_of (tst s) p (ts_salt_id E i)"
  shows "\<exists>parent te. token_at E (tst s) (ts_salt_id E (rq_client_token req)) = Some parent \<and> tke_num_uses parent = 0 \<and>
    tke_id te = i \<and> tke_parent te = (if trd_no_parent d then [] else rq_client_token req) \<and>
    tke_policies te = requested_policies parent d \<and> check_policies parent (tke_policies te) = Ok () \<and>
    (trd_no_parent d \<or> trd_id d \<noteq> [] \<longrightarrow> ''root'' \<in> set (tke_policies parent)) \<and> tok_inv s' \<and>
    token_at E (tst s') (ts_salt_id E i) = Some te \<and>
    (\<exists>au. r = Some (response_new\<lparr>rs_auth := Some au\<rparr>) \<and> au_client_token au = i \<and> au_policies au = tke_policies te \<and>
      \<not> au_no_default_policy au) \<and>
    (tke_parent te \<noteq> [] \<longrightarrow> children (tst s') = insert (ts_salt_id E (tke_parent te), ts_salt_id E i) (children (tst s)))"
proof -
  obtain body' parent s0 d' te s1 s2 au where p: "rq_body req = Some body'" "tn_dec_req E body' = Some d'"
    "token_lookup E (rq_client_token req) s = (Ok (Some parent), s0)" "tke_num_uses parent = 0"
    "check_policies parent (requested_policies parent d') = Ok ()"
    "trd_no_parent d' \<or> trd_id d' \<noteq> [] \<longrightarrow> ''root'' \<in> set (tke_policies parent)"
    "token_create E te s1 = (Ok te, s2)" "ts_store s1 = ts_store s0" "ts_store s' = ts_store s2"
    "tke_id te = (if trd_id d' \<noteq> [] then trd_id d' else tn_uuid E (ts_uuids s0))"
    "tke_parent te = (if trd_no_parent d' then [] else rq_client_token req)" "tke_policies te = requested_policies parent d'"
    "tke_meta te = trd_meta d'"
    "r = Some (response_new\<lparr>rs_auth := Some au\<rparr>)" "au_policies au = requested_policies parent d'"
    "au_client_token au = tke_id te" "au_no_default_policy au = False"
    by (rule handle_create_parts [OF ok u])
  have d': "d' = d" using p(1,2) d by simp
  have t: "rq_client_token req \<noteq> []" using p(3) by (auto simp: token_lookup_def)
  then have s0: "s0 = s" "token_at E (tst s) (ts_salt_id E (rq_client_token req)) = Some parent"
    using p(3) lookup_ok [OF I t] by auto
  have I1: "tok_inv s1" "tst s1 = tst s" using tok_inv_store [of s1 s] p(8) s0(1) I by simp_all
  have id: "tke_id te = i" "i \<noteq> []" using p(10) i(1) d' s0(1) u by simp_all
  have "\<not> child_of (tst s1) q (ts_salt_id E (tke_id te))" for q using i(2) I1(2) id(1) by simp
  moreover have "tke_parent te = [] \<or> token_at E (tst s1) (ts_salt_id E (tke_parent te)) \<noteq> None"
    using s0(2) p(11) I1(2) by simp
  ultimately obtain s2' where "token_create E te s1 = (Ok te, s2')" "tok_inv s2'" "token_at E (tst s2') (ts_salt_id E i) = Some te"
    "children (tst s2') = children (tst s) \<union> {(ts_salt_id E (tke_parent te), ts_salt_id E i) | x. tke_parent te \<noteq> []}"
    using create_ok [OF I1(1) codec, of te] p(13) id hex_salt d' I1(2) by auto
  then have s2: "tok_inv s2" "token_at E (tst s2) (ts_salt_id E i) = Some te"
    "children (tst s2) = children (tst s) \<union> {(ts_salt_id E (tke_parent te), ts_salt_id E i) | x. tke_parent te \<noteq> []}"
    using p(7) by simp_all
  have same: "tok_inv s'" "tst s' = tst s2" using tok_inv_store [OF p(9)] s2(1) by simp_all
  have "\<exists>au. r = Some (response_new\<lparr>rs_auth := Some au\<rparr>) \<and> au_client_token au = i \<and> au_policies au = tke_policies te \<and>
      \<not> au_no_default_policy au"
    using p(12,14-17) id(1) by metis
  moreover have "tke_parent te \<noteq> [] \<longrightarrow> children (tst s') = insert (ts_salt_id E (tke_parent te), ts_salt_id E i) (children (tst s))"
    using s2(3) same(2) by simp
  ultimately show ?thesis
    using s0(2) p(4,5,6,11,12) id(1) same s2(2) unfolding d' by (intro exI [of _ parent] exI [of _ te]) simp
qed

end

end
