(* ===== verification/Tokens.thy ===== *)
theory Tokens
  imports Token_Use "HOL-Library.Countable"
begin

text \<open>
  The properties of tokens on the vault over files: the locale \<open>token_storage\<close> is interpreted on the barrier over
  the file backend, for the views that \<open>TokenStore::new\<close> and \<open>ExpirationManager::new\<close> make.
\<close>

section \<open>The token store over files\<close>

text \<open>The environment that the constructors of \<open>token_store.rs\<close> and \<open>expiration.rs\<close> leave.\<close>

definition system_env ::
  "crypto \<Rightarrow> (backend_entry \<Rightarrow> string) \<Rightarrow> (string \<Rightarrow> backend_entry option) \<Rightarrow> fpath \<Rightarrow> fs barrier tenv \<Rightarrow> fs barrier tenv" where
  "system_env C ser de root E =
     E\<lparr>tn_sops := barrier_storage C (file_backend ser de root), tn_view := Some (view_new ''sys/token/''),
       tn_id_view := view_new ''sys/id/'', tn_token_view := view_new ''sys/token/'', tn_linked := True\<rparr>"

lemma system_env_sel:
  "tn_uuid (system_env C ser de root E) = tn_uuid E" "tn_clock (system_env C ser de root E) = tn_clock E"
  "tn_dec_token (system_env C ser de root E) = tn_dec_token E" "tn_enc_token (system_env C ser de root E) = tn_enc_token E"
  "tn_dec_lease (system_env C ser de root E) = tn_dec_lease E" "tn_lossy (system_env C ser de root E) = tn_lossy E"
  "tn_enc_lease (system_env C ser de root E) = tn_enc_lease E" "tn_utf8 (system_env C ser de root E) = tn_utf8 E"
  "tn_router (system_env C ser de root E) = tn_router E" "tn_dec_req (system_env C ser de root E) = tn_dec_req E"
  by (simp_all add: system_env_def)

lemma constructors_give_system_env:
  assumes "tn_sops E = barrier_storage C (file_backend ser de root)"
    and "expiration_new E (Some (view_new SYSTEM_BARRIER_PREFIX)) s = (Ok E1, s1)"
    and "token_store_new E1 (Some (view_new SYSTEM_BARRIER_PREFIX)) s1 = (Ok E2, s2)"
  shows "set_token_store E2 = system_env C ser de root E2"
  using assms
  by (auto simp: expiration_new_def token_store_new_def Let_def system_env_def set_token_store_def new_sub_view_def
      view_new_def expand_key_def SYSTEM_BARRIER_PREFIX_def LEASE_VIEW_PREFIX_def TOKEN_VIEW_PREFIX_def
      TOKEN_SUB_PATH_def dest!: op_bind_OkD split: if_splits)

text \<open>Keys and folders made of plain names are clean.\<close>

definition plain_name :: "string \<Rightarrow> bool" where
  "plain_name c \<longleftrightarrow> c \<noteq> [] \<and> CHR ''.'' \<notin> set c \<and> CHR ''/'' \<notin> set c \<and> hd c \<noteq> CHR ''_''"

lemma plain_dir_component: "plain_name c \<Longrightarrow> dir_component c"
  by (auto simp: plain_name_def dir_component_def valid_component_def)

lemma no_dots: "CHR ''.'' \<notin> set s \<Longrightarrow> \<not> str_contains s ''..''"
  by (auto simp: str_contains_iff)

lemma plain_dir_no_dot: "list_all plain_name q \<Longrightarrow> CHR ''.'' \<notin> set (dir_string q)"
  by (induction q) (auto simp: plain_name_def)

lemma plain_clean:
  assumes "list_all plain_name q"
  shows "clean_folder (dir_string q)" and "plain_name c \<Longrightarrow> clean_key (dir_string q @ c)"
proof -
  have q: "list_all dir_component q" using assms plain_dir_component by (auto simp: list_all_iff)
  then show "clean_folder (dir_string q)"
    using no_dots [OF plain_dir_no_dot [OF assms]] by (auto simp: clean_folder_def)
  assume c: "plain_name c"
  then have "file_key (dir_string q @ c)"
    by (intro file_key_dir_string(1) [OF q]) (auto simp: plain_name_def valid_component_def)
  moreover have "\<not> str_contains (dir_string q @ c) ''..''"
    using plain_dir_no_dot [OF assms] c by (intro no_dots) (auto simp: plain_name_def)
  ultimately show "clean_key (dir_string q @ c)" by (simp add: clean_key_def)
qed

lemma hex_plain: "hex_name a \<Longrightarrow> plain_name a"
  by (cases a) (auto simp: hex_name_def plain_name_def)

lemma fixed_plain: "plain_name ''sys''" "plain_name ''token''" "plain_name ''id''" "plain_name ''parent''"
  by (simp_all add: plain_name_def)

lemma not_init_path: "k = ''sys/'' @ r \<Longrightarrow> k \<noteq> BARRIER_INIT_PATH" "\<not> starts_with BARRIER_INIT_PATH (''sys/'' @ r)"
  by (auto simp: BARRIER_INIT_PATH_def starts_with_def)

interpretation ft: token_storage "barrier_storage C (file_backend ser de root)" "barrier_valid clean_key"
  "barrier_stored C (file_contents de root)" "vault_ready C ser de root" "barrier_folder clean_folder"
  "\<lambda>s. file_subdirs root (b_backend s)" "view_new ''sys/token/''" "system_env C ser de root E" "view_new ''sys/id/''"
  for C ser de root E
proof -
  note plain = plain_clean [unfolded list_all_iff]
  have f: "clean_folder ''sys/token/''"
    using plain(1) [of "[''sys'', ''token'']"] fixed_plain by simp
  have lv: "listing_view (barrier_storage C (file_backend ser de root)) (barrier_valid clean_key)
      (barrier_stored C (file_contents de root)) (vault_ready C ser de root) (barrier_folder clean_folder)
      (\<lambda>s. file_subdirs root (b_backend s)) (view_new ''sys/token/'')"
    by (rule listing_view_files) (use f in \<open>simp_all add: view_new_def BARRIER_INIT_PATH_def starts_with_def\<close>)
  show "token_storage (barrier_storage C (file_backend ser de root)) (barrier_valid clean_key)
      (barrier_stored C (file_contents de root)) (vault_ready C ser de root) (barrier_folder clean_folder)
      (\<lambda>s. file_subdirs root (b_backend s)) (view_new ''sys/token/'') (system_env C ser de root E) (view_new ''sys/id/'')"
  proof (intro token_storage.intro lv token_storage_axioms.intro)
    fix a b assume a: "hex_name a"
    show "barrier_valid clean_key (expand_key (view_new ''sys/token/'') (id_key a))"
      using plain(2) [of "[''sys'', ''token'', ''id'']" a] hex_plain [OF a] fixed_plain not_init_path(1)
      by (simp add: barrier_valid_def expand_key_def view_new_def TOKEN_LOOKUP_PREFIX_def)
    show "barrier_folder clean_folder (expand_key (view_new ''sys/token/'') (child_key a []))"
      using plain(1) [of "[''sys'', ''token'', ''parent'', a]"] hex_plain [OF a] fixed_plain
        not_init_path(2) [of "''token/parent/'' @ a @ ''/''"]
      by (simp add: barrier_folder_def expand_key_def view_new_def TOKEN_PARENT_PREFIX_def)
    show "barrier_folder clean_folder (expand_key (view_new ''sys/token/'') (lease_key a []))"
      using plain(1) [of "[''sys'', ''token'', a]"] hex_plain [OF a] fixed_plain
        not_init_path(2) [of "''token/'' @ a @ ''/''"]
      by (simp add: barrier_folder_def expand_key_def view_new_def)
    assume b: "hex_name b"
    show "barrier_valid clean_key (expand_key (view_new ''sys/token/'') (child_key a b))"
      using plain(2) [of "[''sys'', ''token'', ''parent'', a]" b] hex_plain a b fixed_plain not_init_path(1)
      by (simp add: barrier_valid_def expand_key_def view_new_def TOKEN_PARENT_PREFIX_def)
    show "barrier_valid clean_key (expand_key (view_new ''sys/token/'') (lease_key a b))"
      using plain(2) [of "[''sys'', ''token'', a]" b] hex_plain a b fixed_plain not_init_path(1)
      by (simp add: barrier_valid_def expand_key_def view_new_def)
  qed (simp_all add: system_env_def view_new_def starts_with_def)
qed

text \<open>What the two views store, the identifiers of leases, and the invariant of the tokens, on this vault.\<close>

abbreviation lease_id_ok :: "string \<Rightarrow> bool" where
  "lease_id_ok \<equiv> view_valid (barrier_valid clean_key) (view_new ''sys/id/'')"

definition token_contents :: "crypto \<Rightarrow> (string \<Rightarrow> backend_entry option) \<Rightarrow> fpath \<Rightarrow> fs barrier tstate \<Rightarrow> contents" where
  "token_contents C de root s = view_stored (barrier_stored C (file_contents de root)) (view_new ''sys/token/'') (ts_store s)"

definition lease_contents :: "crypto \<Rightarrow> (string \<Rightarrow> backend_entry option) \<Rightarrow> fpath \<Rightarrow> fs barrier tstate \<Rightarrow> contents" where
  "lease_contents C de root s = view_stored (barrier_stored C (file_contents de root)) (view_new ''sys/id/'') (ts_store s)"

text \<open>
  A token store in order: the vault is ready, an entry is stored under the salted identifier of its token, a child of the
  index has an entry that names its parent, the folders of both indexes are flat, and a lease that the index has for a
  token is, where it is stored, the lease of a secret in the present format (the code indexes no others).
\<close>

definition token_tree_ok ::
  "crypto \<Rightarrow> (backend_entry \<Rightarrow> string) \<Rightarrow> (string \<Rightarrow> backend_entry option) \<Rightarrow> fpath \<Rightarrow> fs barrier tenv \<Rightarrow>
    fs barrier tstate \<Rightarrow> bool" where
  "token_tree_ok C ser de root E s \<longleftrightarrow>
     vault_ready C ser de root (ts_store s) \<and>
     flat_folders {d. expand_key (view_new ''sys/token/'') d \<in> file_subdirs root (b_backend (ts_store s))} \<and>
     tree_inv (system_env C ser de root E) (view_valid (barrier_valid clean_key) (view_new ''sys/token/''))
       (view_valid (barrier_valid clean_key) (view_new ''sys/id/''))
       (token_contents C de root s) (lease_contents C de root s)"

lemma token_contents_eq: "ft.tst C de root s = token_contents C de root s" "ft.wst C de root s = lease_contents C de root s"
  by (simp_all add: ft.tst_def ft.wst_def token_contents_def lease_contents_def)

lemma token_tree_ok_eq: "ft.tok_inv C de root ser E s = token_tree_ok C ser de root E s"
  by (simp add: ft.tok_inv_def token_tree_ok_def token_contents_eq ft.tdirs_def)

lemma finite_children: "finite (children (token_contents C de root s))"
proof -
  let ?f = "\<lambda>(p, c). key_file root (expand_key (view_new ''sys/token/'') (child_key p c))"
  have "inj_on ?f (children (token_contents C de root s))"
    by (auto simp: inj_on_def key_file_inj children_def child_of_def)
  moreover have "?f ` children (token_contents C de root s) \<subseteq> fst ` set (b_backend (ts_store s))"
    by (auto simp: children_def child_of_def token_contents_def view_stored_def barrier_stored_def file_contents_def
        split: option.splits dest!: map_of_SomeD) force+
  ultimately show ?thesis by (meson finite_image_iff finite_imageI finite_set finite_subset)
qed

lemmas token_files = token_tree_ok_eq token_contents_eq

section \<open>Revocation of a tree of tokens\<close>

text \<open>
  C15: revoking a token ends, and revokes exactly the token and its descendants with their leases. As long as the token
  store is in order (\<open>token_tree_ok\<close>), the index of children has no cycle and no mounted backend panics or changes the
  state when it is asked to revoke a secret, \<open>revoke_tree\<close> succeeds; afterwards a lookup finds none of these tokens, every
  other token is found as before, the store is still in order, and every lease that was indexed for one of these tokens
  that was stored cannot be loaded any more, while a
  lease that was indexed for none of them is stored as before. The leases are supposed to be in order: each is stored under
  its own identifier and indexed by the salted one, and no two of the stored leases have the same salted identifier.
\<close>

theorem revoke_tree_revokes_descendants:
  assumes "token_tree_ok C ser de root E s" "acyclic (children (token_contents C de root s))" "i \<noteq> []"
    and "idle_revocations (tn_router E)"
    and "leases_in_order (system_env C ser de root E) lease_id_ok (token_contents C de root s) (lease_contents C de root s)"
  shows "\<exists>s'. revoke_tree (system_env C ser de root E) i s = Some (Ok (), s') \<and> token_tree_ok C ser de root E s' \<and>
    (\<forall>j. j \<noteq> [] \<longrightarrow> fst (token_lookup (system_env C ser de root E) j s') =
      (if ts_salt_id (system_env C ser de root E) j
          \<in> descendants (token_contents C de root s) (ts_salt_id (system_env C ser de root E) i)
       then Ok None else fst (token_lookup (system_env C ser de root E) j s))) \<and>
    (\<forall>a \<in> descendants (token_contents C de root s) (ts_salt_id (system_env C ser de root E) i). \<forall>l.
      token_at (system_env C ser de root E) (token_contents C de root s) a \<noteq> None \<longrightarrow>
      indexes_lease (system_env C ser de root E) (token_contents C de root s) a l \<longrightarrow>
      fst (load_lease_entry (system_env C ser de root E) l s') = Ok None) \<and>
    (\<forall>l. lease_id_ok l \<longrightarrow>
      (\<forall>a \<in> descendants (token_contents C de root s) (ts_salt_id (system_env C ser de root E) i).
        \<not> indexes_lease (system_env C ser de root E) (token_contents C de root s) a l) \<longrightarrow>
      lease_contents C de root s' l = lease_contents C de root s l)"
proof -
  let ?E = "system_env C ser de root E" and ?a = "ts_salt_id (system_env C ser de root E) i"
  let ?D = "descendants (token_contents C de root s) (ts_salt_id (system_env C ser de root E) i)"
  have S: "idle_revocations (tn_router ?E)" using assms(4) by (simp add: system_env_sel)
  have w: "wf ((children (token_contents C de root s))\<inverse>)"
    by (rule finite_acyclic_wf_converse [OF finite_children assms(2)])
  obtain s' where s': "revocation_run ?E False (RevokeTree ?a) s = Some (Ok (), s')" "token_tree_ok C ser de root E s'"
    "ft.revokes C de root ser E ?D s s'"
    using ft.tree_run [OF w S, unfolded token_files, OF assms(1) subset_refl salt_id_hex] by blast
  note r = s'(3) [unfolded ft.revokes_def ft.leases_step_def token_files]
  have "fst (token_lookup ?E j s') = (if ts_salt_id ?E j \<in> ?D then Ok None else fst (token_lookup ?E j s))" if "j \<noteq> []" for j
    using ft.lookup_ok [unfolded token_files, OF s'(2) that]
      ft.lookup_ok [unfolded token_files, OF assms(1) that] r salt_id_hex [of ?E j]
    by (simp add: removes_def)
  moreover have "fst (load_lease_entry ?E l s') = Ok None"
    if "a \<in> ?D" "token_at ?E (token_contents C de root s) a \<noteq> None" "indexes_lease ?E (token_contents C de root s) a l" for a l
  proof -
    have a: "hex_name a" by (rule descendants_hex [OF that(1) salt_id_hex])
    have l: "lease_id_ok l" by (rule ft.index_valid [unfolded token_files, OF assms(1) a that(3)])
    have "lease_gone ?E (lease_contents C de root s') l" using r assms(5) that a l by blast
    moreover have "vault_ready C ser de root (ts_store s')" using s'(2) by (simp add: token_tree_ok_def)
    ultimately show ?thesis using ft.gone_load [unfolded token_files, OF _ l] by blast
  qed
  ultimately show ?thesis
    using s'(1,2) assms(3) r by (intro exI [of _ s']) (simp add: revoke_tree_def revoke_tree_salted_def)
qed

text \<open>
  Creating a token keeps the tree. For an id whose place is free and a parent that exists, \<open>create\<close> succeeds; the
  token is found under its id, every other token is as before, and the index of children still agrees with the
  entries and has no cycle.
\<close>

theorem token_create_keeps_tree:
  assumes "token_tree_ok C ser de root E s" "acyclic (children (token_contents C de root s))"
    and "tn_dec_token E (tn_enc_token E te) = Some te" "tke_id te \<noteq> []"
    and free: "fst (token_lookup (system_env C ser de root E) (tke_id te) s) = Ok None"
      "\<forall>c. \<not> child_of (token_contents C de root s) (ts_salt_id (system_env C ser de root E) (tke_id te)) c"
    and par: "tke_parent te = [] \<or> fst (token_lookup (system_env C ser de root E) (tke_parent te) s) \<noteq> Ok None"
  shows "\<exists>s'. token_create (system_env C ser de root E) te s = (Ok te, s') \<and> token_tree_ok C ser de root E s' \<and>
    acyclic (children (token_contents C de root s')) \<and>
    (\<forall>j. j \<noteq> [] \<longrightarrow> fst (token_lookup (system_env C ser de root E) j s') =
      (if ts_salt_id (system_env C ser de root E) j = ts_salt_id (system_env C ser de root E) (tke_id te)
       then Ok (Some te) else fst (token_lookup (system_env C ser de root E) j s)))"
proof -
  let ?E = "system_env C ser de root E"
  let ?c = "ts_salt_id ?E (tke_id te)" and ?p = "ts_salt_id ?E (tke_parent te)" and ?st = "token_contents C de root s"
  have look: "token_lookup ?E j s' = (Ok (token_at ?E (token_contents C de root s') (ts_salt_id ?E j)), s')"
    if "token_tree_ok C ser de root E s'" "j \<noteq> []" for j s'
    using ft.lookup_ok [unfolded token_files, OF that] .
  have codec: "tn_dec_token ?E (tn_enc_token ?E te) = Some te" using assms(3) by (simp add: system_env_def)
  have free': "token_at ?E ?st ?c = None" using free(1) look [OF assms(1,4)] by simp
  have inv: "tree_inv ?E (view_valid (barrier_valid clean_key) (view_new ''sys/token/''))
      (view_valid (barrier_valid clean_key) (view_new ''sys/id/'')) ?st (lease_contents C de root s)"
    using assms(1) by (simp add: token_tree_ok_def)
  have no: "\<not> child_of ?st p ?c" for p using tree_invD(4) [OF inv, of p ?c] free' by auto
  have par': "tke_parent te = [] \<or> token_at ?E ?st ?p \<noteq> None"
    using par look [OF assms(1), of "tke_parent te"] by (cases "tke_parent te = []") simp_all
  obtain s' where s': "token_create ?E te s = (Ok te, s')" "token_tree_ok C ser de root E s'"
    "\<And>a. hex_name a \<Longrightarrow> token_at ?E (token_contents C de root s') a = (if a = ?c then Some te else token_at ?E ?st a)"
    "children (token_contents C de root s') = children ?st \<union> {(?p, ?c) | x. tke_parent te \<noteq> []}"
    using ft.create_ok [unfolded token_files, OF assms(1) codec assms(4) no par'] by blast
  have "(?c, ?p) \<notin> (children ?st)\<^sup>*" if "tke_parent te \<noteq> []"
  proof
    assume "(?c, ?p) \<in> (children ?st)\<^sup>*"
    then show False
    proof (cases rule: converse_rtranclE)
      case base
      then show False using free' par' that by simp
    next
      case (step y)
      then show False using free(2) by (simp add: children_def)
    qed
  qed
  then have "acyclic (children (token_contents C de root s'))"
    using assms(2) s'(4) by (cases "tke_parent te = []") (simp_all add: acyclic_insert)
  then show ?thesis
    using s'(1,2) s'(3) [OF salt_id_hex [of ?E]] look [OF s'(2)] look [OF assms(1)] by auto
qed



section \<open>Tokens with a limited number of uses\<close>

text \<open>
  C17: a token with a limit of \<open>n\<close> uses passes \<open>check_token\<close> exactly \<open>n\<close> times; the next check is refused with
  \<open>ErrPermissionDenied\<close>, since the last use revoked the token. The token store is supposed to be in order
  (\<open>token_tree_ok\<close>), the entries with fewer uses left to be read as they are written, and no mounted backend to panic or to change the state when it is asked to revoke a secret.
\<close>

theorem limited_token_expires:
  assumes "token_tree_ok C ser de root E s" "tke_id te \<noteq> []" "0 < n" "n < 2 ^ 32"
    and "fst (token_lookup (system_env C ser de root E) (tke_id te) s) = Ok (Some (counted te n))"
    and "\<forall>m < n. tn_dec_token E (tn_enc_token E (counted te m)) = Some (counted te m)" "idle_revocations (tn_router E)"
  shows "\<exists>rs s'. use_times (system_env C ser de root E) (tke_id te) (Suc n) s =
      Some (rs @ [Err ErrPermissionDenied], s') \<and> length rs = n \<and> list_all is_ok rs"
proof -
  let ?E = "system_env C ser de root E"
  have "token_at ?E (token_contents C de root s) (ts_salt_id ?E (tke_id te)) =
      (if n = 0 then None else Some (counted te n))"
    using ft.lookup_ok [unfolded token_files, OF assms(1,2)] assms(3,5) by simp
  then show ?thesis
    using ft.limited_uses [unfolded token_files system_env_sel, OF assms(7,1,2,4)] assms(6) by blast
qed

section \<open>Tokens made by other tokens\<close>


text \<open>
  A token made through the API is an orphan without a limit of uses, whatever the request asked for.
  \<open>handle_create\<close> stores a token with the parent and the limit of the request, but \<open>post_route\<close> then makes a second
  token from the authentication data, and that is the one the client is given: it has no parent, so it survives
  the revocation of its creator, and no limit of uses.
\<close>

theorem api_token_is_orphan:
  assumes "token_tree_ok C ser de root E s"
    and "token_of_auth (system_env C ser de root E) req au s = (Ok au2, s2)"
    and "tn_uuid E (ts_uuids s) \<noteq> []"
    and "\<forall>p. \<not> child_of (token_contents C de root s) p (ts_salt_id (system_env C ser de root E) (tn_uuid E (ts_uuids s)))"
    and "\<forall>te. tke_meta te = au_metadata au \<longrightarrow> tke_period te = au_period au \<longrightarrow>
      tke_explicit_max_ttl te = au_explicit_max_ttl au \<longrightarrow> tke_creation_time te \<in> range (tn_clock E) \<longrightarrow>
      tn_dec_token E (tn_enc_token E te) = Some te"
    and "view_valid (barrier_valid clean_key) (view_new ''sys/id/'')
      (rq_path req @ ''/'' @ ts_salt_id (system_env C ser de root E) (tn_uuid E (ts_uuids s)))"
  shows "\<exists>te. token_lookup (system_env C ser de root E) (au_client_token au2) s2 = (Ok (Some te), s2) \<and>
    tke_parent te = [] \<and> tke_num_uses te = 0 \<and> ''root'' \<notin> set (tke_policies te) \<and>
    tke_policies te = sanitize_policies (au_policies au) (\<not> au_no_default_policy au)"
  using ft.new_token_of_auth [unfolded token_files system_env_sel, OF assms(1,2,3) assms(4) [rule_format] assms(5) [rule_format]
      assms(6)]
  by blast

section \<open>The thread that revokes expired leases\<close>

text \<open>
  C40: the thread that revokes expired leases can wait for itself. The token store is in order (\<open>token_tree_ok\<close>). When the
  first lease of the queue is due, is the lease
  of a login, and the token of the login has no children and holds the lease of a secret, then the thread takes the lock
  of the queue, revokes the token and then the lease of the secret, whose registration asks for the same lock: there
  is no further step, and the lock is never given back. The other leases of the queue, that of the secret among them, are due
  later, and no mounted backend panics or changes the state when it is asked to revoke a secret.
\<close>

theorem expired_login_blocks_ticker:
  assumes "token_tree_ok C ser de root E s" "idle_revocations (tn_router E)"
    and queue: "(q, p) \<in> set (ts_queue s)" "\<forall>x \<in> set (ts_queue s). x = (q, p) \<or> p < snd x" "p \<noteq> 0"
    and due: "p < millis (tn_clock E (ts_reads s))" "p \<le> millis (tn_clock E (Suc (ts_reads s)))"
    and lease: "lease_id_ok (le_lease_id q)"
      "Option.bind (lease_contents C de root s (le_lease_id q)) (tn_dec_lease E) = Some le"
    and login: "le_auth le = Some au" "au_client_token au = tke_id te" "tke_id te \<noteq> []"
    and token: "fst (token_lookup (system_env C ser de root E) (tke_id te) s) = Ok (Some te)"
      "\<forall>c. \<not> child_of (token_contents C de root s) (ts_salt_id (system_env C ser de root E) (tke_id te)) c"
    and secret: "indexes_lease (system_env C ser de root E) (token_contents C de root s)
        (ts_salt_id (system_env C ser de root E) (tke_id te)) l"
      "Option.bind (lease_contents C de root s l) (tn_dec_lease E) \<noteq> None"
  shows "(\<exists>s1. ticker_step (system_env C ser de root E) (False, s) (True, s1)) \<and>
    (\<forall>y z. ticker_step (system_env C ser de root E) (False, s) y \<longrightarrow> \<not> ticker_step (system_env C ser de root E) y z)"
proof -
  let ?E = "system_env C ser de root E" and ?s = "\<lambda>n. s\<lparr>ts_reads := n\<rparr>"
  let ?n = "Suc (ts_reads s)"
  have now: "now_op ?E (?s n) = (Ok (tn_clock E n), ?s (Suc n))" for n by (simp add: now_op_def system_env_sel)
  have top: "queue_top (ts_queue (?s n)) x \<longleftrightarrow> x = (q, p)" for n x
    using queue(1,2) by (fastforce simp: queue_top_def list_all_iff)
  have same: "token_tree_ok C ser de root E (?s n)" "token_contents C de root (?s n) = token_contents C de root s"
    "lease_contents C de root (?s n) = lease_contents C de root s" for n
    using assms(1) by (simp_all add: token_tree_ok_def token_contents_def lease_contents_def)
  have te: "token_at ?E (token_contents C de root s) (ts_salt_id ?E (tke_id te)) = Some te"
    using ft.lookup_ok [unfolded token_files, OF assms(1) login(3)] token(1) by simp
  have none: "revoke_lease_id ?E True (le_lease_id q) False (?s n) = None" for n
    by (rule ft.login_lease_waits [unfolded token_files system_env_sel, OF assms(2) same(1), unfolded same(2,3),
          OF lease login te token(2) [rule_format] secret])
  have "\<not> ticker_step ?E (True, ?s ?n) z" for z
    using now [of ?n] none top queue(3) due(2) by (auto elim!: ticker_step_heldE simp: not_less)
  moreover have "y = (True, ?s ?n)" if "ticker_step ?E (False, s) y" for y
    using that now [of "ts_reads s"] top [of ?n] due(1) by (cases rule: ticker_step.cases) auto
  moreover have "ticker_step ?E (False, s) (True, ?s ?n)"
    using now [of "ts_reads s"] top [of ?n] due(1) by (intro ticker_step.Lock [where x = "(q, p)"]) auto
  ultimately show ?thesis by blast
qed

section \<open>Witnesses\<close>

text \<open>A codec for the entries without metadata, by their number.\<close>

definition demo_enc_token :: "token_entry \<Rightarrow> bytes" where
  "demo_enc_token te = replicate
     (to_nat (tke_id te, tke_parent te, tke_policies te, tke_path te, tke_display_name te, unat (tke_num_uses te),
       tke_ttl te, tke_creation_time te, tke_period te, tke_explicit_max_ttl te)) 0"

definition demo_dec_token :: "bytes \<Rightarrow> token_entry option" where
  "demo_dec_token bs =
     (case from_nat (length bs) of (i, p, ps, pa, dn, n, t, c, pe, ex) \<Rightarrow>
        Some \<lparr>tke_id = i, tke_parent = p, tke_policies = ps, tke_path = pa, tke_meta = Map.empty,
          tke_display_name = dn, tke_num_uses = of_nat n, tke_ttl = t, tke_creation_time = c, tke_period = pe,
          tke_explicit_max_ttl = ex\<rparr>)"

lemma demo_token_codec: "tke_meta te = Map.empty \<Longrightarrow> demo_dec_token (demo_enc_token te) = Some te"
  by (cases te) (simp add: demo_enc_token_def demo_dec_token_def)

text \<open>
  A vault with the token store mounted: the handlers of its backend run on the vault without mounts, and a handler that
  does not return is given as a panic. A request with an empty body asks for a token with the policy \<open>dev\<close>, any other for a
  token with the identifier \<open>a\<close>.
\<close>

definition demo_unmounted :: "fs barrier tenv" where
  "demo_unmounted =
     \<lparr>tn_sops = barrier_storage demo_crypto demo_ops, tn_view = None, tn_salt = [], tn_id_view = view_new [],
      tn_token_view = view_new [], tn_linked = False, tn_router = [], tn_anc = longest_ancestor, tn_mounts = [],
      tn_digest = (\<lambda>bs. fold (\<lambda>b w. 256 * w + ucast b) bs 0), tn_uuid = (\<lambda>n. ''u'' @ nat_to_string n),
      tn_clock = (\<lambda>n. 1000000000), tn_enc_token = demo_enc_token, tn_dec_token = demo_dec_token,
      tn_enc_lease = (\<lambda>le. of_bool (le_auth le = None) # map (of_nat \<circ> of_char) (le_lease_id le)),
      tn_dec_lease = (\<lambda>bs. case bs of [] \<Rightarrow> None
        | b # r \<Rightarrow> Some \<lparr>le_lease_id = map (char_of \<circ> unat) r, le_client_token = ''a'', le_path = [], le_data = [],
            le_secret = None, le_auth = (if b = 0 then Some ((auth_default 0)\<lparr>au_client_token := ''a''\<rparr>) else None),
            le_issue_time = 0, le_expire_time = 0, le_revoke_err = []\<rparr>),
      tn_dec_old_lease = (\<lambda>_. None),
      tn_dec_req = (\<lambda>b. Some \<lparr>trd_id = (if b = [] then [] else ''a''), trd_policies = (if b = [] then [''dev''] else []),
        trd_meta = Map.empty, trd_no_parent = False, trd_lease = [], trd_ttl = [], trd_display_name = [], trd_num_uses = 0,
        trd_renewable = False, trd_period = 0, trd_explicit_max_ttl = 0\<rparr>),
      tn_utf8 = map (of_nat \<circ> of_char), tn_lossy = map (char_of \<circ> unat),
      tn_parsers = (\<lambda>_. None, \<lambda>_. None)\<rparr>"

definition demo_token_backend :: "fs barrier tstate logical_backend" where
  "demo_token_backend =
     \<lparr>lb_paths = map (\<lambda>(p, o1, h). \<lparr>bp_path = p, bp_operations =
        [(o1, \<lambda>st. case token_handle demo_unmounted (\<lambda>_. JNull) h st of Some r \<Rightarrow> r | None \<Rightarrow> (Panic, st))]\<rparr>) token_paths,
      lb_paths_re = map (\<lambda>(p, _). anchored (lp_pattern p)) token_paths, lb_root_paths = token_root_paths,
      lb_unauth_paths = [], lb_secrets = [], lb_auth_renew_handler = Some (auth_renew demo_unmounted)\<rparr>"

definition demo_token_router :: "fs barrier tstate router" where
  "demo_token_router =
     [(''auth/token/'',
       \<lparr>re_tainted = False, re_backend = \<lparr>be_unauth_paths = Some [], be_root_paths = Some token_root_paths,
          be_handle_request = backend_handle_request (\<lambda>re p. if re = anchored p then Some [] else None) demo_token_backend\<rparr>,
        re_view = view_new ''auth/token/'', re_root_paths = new_radix_from_paths token_root_paths [], re_unauth_paths = [],
        re_mount_entry = 0\<rparr>)]"

definition demo_base :: "fs barrier tenv" where
  "demo_base = demo_unmounted\<lparr>tn_router := demo_token_router\<rparr>"

lemmas demo_env_defs = demo_base_def demo_unmounted_def

lemma demo_idle: "idle_revocations (tn_router demo_base)"
proof -
  have "idle_revocation demo_token_backend" by (simp add: idle_revocation_def demo_token_backend_def)
  then show ?thesis
    using backend_revokes_idly [of demo_token_backend] by (simp add: idle_revocations_def demo_base_def demo_token_router_def)
qed

abbreviation demo_tenv :: "fs barrier tenv" where
  "demo_tenv \<equiv> system_env demo_crypto demo_ser demo_de [''data''] demo_base"

definition demo_tstate :: "fs barrier tstate" where
  "demo_tstate = \<lparr>ts_store = demo_unsealed, ts_queue = [], ts_uuids = 0, ts_reads = 0\<rparr>"

lemma demo_contents: "token_contents demo_crypto demo_de [''data''] demo_tstate = Map.empty"
  "lease_contents demo_crypto demo_de [''data''] demo_tstate = Map.empty"
  by (simp_all add: token_contents_def lease_contents_def view_stored_def barrier_stored_def file_contents_def
      demo_tstate_def demo_unsealed_def fun_eq_iff)

lemma demo_tree_ok: "token_tree_ok demo_crypto demo_ser demo_de [''data''] demo_base demo_tstate"
  using demo_vault_ready
  by (simp add: token_tree_ok_def demo_contents tree_inv_def child_of_def flat_folders_def)
    (simp add: demo_tstate_def demo_unsealed_def file_subdirs_def)

definition demo_entry :: "string \<Rightarrow> string \<Rightarrow> u32 \<Rightarrow> token_entry" where
  "demo_entry i p n =
     \<lparr>tke_id = i, tke_parent = p, tke_policies = [''dev''], tke_path = ''auth/token/create'', tke_meta = Map.empty,
      tke_display_name = ''token'', tke_num_uses = n, tke_ttl = 3600, tke_creation_time = 0, tke_period = 0,
      tke_explicit_max_ttl = 0\<rparr>"

lemma demo_entry_sel [simp]:
  "tke_id (demo_entry i p n) = i" "tke_parent (demo_entry i p n) = p" "tke_meta (demo_entry i p n) = Map.empty"
  "tke_num_uses (demo_entry i p n) = n"
  by (simp_all add: demo_entry_def)

abbreviation demo_salt :: "string \<Rightarrow> string" where
  "demo_salt \<equiv> ts_salt_id demo_tenv"

abbreviation demo_tokens :: "fs barrier tstate \<Rightarrow> contents" where
  "demo_tokens \<equiv> token_contents demo_crypto demo_de [''data'']"

abbreviation demo_leases :: "fs barrier tstate \<Rightarrow> contents" where
  "demo_leases \<equiv> lease_contents demo_crypto demo_de [''data'']"

abbreviation demo_ok :: "fs barrier tstate \<Rightarrow> bool" where
  "demo_ok \<equiv> token_tree_ok demo_crypto demo_ser demo_de [''data''] demo_base"

lemma demo_salt_last:
  "last (demo_salt ''a'') = CHR ''1''" "last (demo_salt ''b'') = CHR ''2''"
  "last (demo_salt ''auth/token/create/1'') = CHR ''1''" "last (demo_salt ''auth/token/create/2'') = CHR ''2''"
  by (simp_all add: ts_salt_id_def sha1_def system_env_def demo_env_defs hex_digit_def last_map last_rev upt_rec)

lemma demo_salts: "demo_salt ''a'' \<noteq> demo_salt ''b''"
  using demo_salt_last by auto

lemma demo_create:
  assumes "demo_ok s" "tke_meta te = Map.empty" "tke_id te \<noteq> []" "\<And>q. \<not> child_of (demo_tokens s) q (demo_salt (tke_id te))"
    and "tke_parent te = [] \<or> token_at demo_tenv (demo_tokens s) (demo_salt (tke_parent te)) \<noteq> None"
  shows "\<exists>s'. token_create demo_tenv te s = (Ok te, s') \<and> demo_ok s' \<and>
    (\<forall>a. hex_name a \<longrightarrow> token_at demo_tenv (demo_tokens s') a =
      (if a = demo_salt (tke_id te) then Some te else token_at demo_tenv (demo_tokens s) a)) \<and>
    children (demo_tokens s') =
      children (demo_tokens s) \<union> {(demo_salt (tke_parent te), demo_salt (tke_id te)) | x. tke_parent te \<noteq> []} \<and>
    (\<forall>a b. hex_name a \<longrightarrow> hex_name b \<longrightarrow> demo_tokens s' (lease_key a b) = demo_tokens s (lease_key a b)) \<and>
    (\<forall>k. lease_id_ok k \<longrightarrow> demo_leases s' k = demo_leases s k)"
proof -
  have "tn_dec_token demo_tenv (tn_enc_token demo_tenv te) = Some te"
    using assms(2) by (simp add: system_env_sel demo_env_defs demo_token_codec)
  then show ?thesis using ft.create_ok [unfolded token_files, OF assms(1), of te] assms(3-) by simp
qed

lemma demo_lookup: "demo_ok s \<Longrightarrow> i \<noteq> [] \<Longrightarrow>
    token_lookup demo_tenv i s = (Ok (token_at demo_tenv (demo_tokens s) (demo_salt i)), s)"
  using ft.lookup_ok [unfolded token_files] .

lemma demo_one_token:
  "\<exists>s. token_create demo_tenv (demo_entry ''a'' [] n) demo_tstate = (Ok (demo_entry ''a'' [] n), s) \<and> demo_ok s \<and>
    children (demo_tokens s) = {} \<and> token_at demo_tenv (demo_tokens s) (demo_salt ''a'') = Some (demo_entry ''a'' [] n) \<and>
    token_at demo_tenv (demo_tokens s) (demo_salt ''b'') = None"
  using demo_create [OF demo_tree_ok, of "demo_entry ''a'' [] n"] demo_salts salt_id_hex [of demo_tenv]
  by (auto simp: demo_contents child_of_def children_def token_at_def)

theorem token_create_keeps_tree_witness:
  "\<exists>s. token_create demo_tenv (demo_entry ''a'' [] 0) demo_tstate = (Ok (demo_entry ''a'' [] 0), s) \<and>
    acyclic (children (demo_tokens s)) \<and> fst (token_lookup demo_tenv ''a'' s) = Ok (Some (demo_entry ''a'' [] 0))"
proof -
  have "tn_dec_token demo_base (tn_enc_token demo_base (demo_entry ''a'' [] 0)) = Some (demo_entry ''a'' [] 0)"
    by (simp add: demo_env_defs demo_token_codec)
  from token_create_keeps_tree [OF demo_tree_ok _ this] show ?thesis
    using demo_lookup [OF demo_tree_ok, of "''a''"]
    by (auto simp: demo_contents children_def child_of_def acyclic_def token_at_def)
qed

theorem limited_token_expires_witness:
  "\<exists>s rs s'. token_create demo_tenv (demo_entry ''a'' [] 2) demo_tstate = (Ok (demo_entry ''a'' [] 2), s) \<and>
    use_times demo_tenv ''a'' 3 s = Some (rs @ [Err ErrPermissionDenied], s') \<and> length rs = 2 \<and> list_all is_ok rs"
proof -
  obtain s where s: "token_create demo_tenv (demo_entry ''a'' [] 2) demo_tstate = (Ok (demo_entry ''a'' [] 2), s)"
    "demo_ok s" "token_at demo_tenv (demo_tokens s) (demo_salt ''a'') = Some (demo_entry ''a'' [] 2)"
    using demo_one_token by blast
  have c: "counted (demo_entry ''a'' [] 2) m = demo_entry ''a'' [] (of_nat m)" for m
    by (simp add: counted_def demo_entry_def)
  have d: "\<forall>m < 2. tn_dec_token demo_base (tn_enc_token demo_base (counted (demo_entry ''a'' [] 2) m)) =
      Some (counted (demo_entry ''a'' [] 2) m)" unfolding c by (simp add: demo_env_defs demo_token_codec)
  have "\<exists>rs s'. use_times demo_tenv (tke_id (demo_entry ''a'' [] 2)) (Suc 2) s = Some (rs @ [Err ErrPermissionDenied], s') \<and>
      length rs = 2 \<and> list_all is_ok rs"
    by (rule limited_token_expires [OF s(2) _ _ _ _ d demo_idle]) (use s(3) demo_lookup [OF s(2), of "''a''"] in \<open>simp_all add: c\<close>)
  then show ?thesis using s(1) by (auto simp: numeral_3_eq_3 numeral_2_eq_2)
qed

lemma demo_id_valid:
  "view_valid (barrier_valid clean_key) (view_new ''sys/id/'') (''auth/token/create/'' @ x)" if "hex_name x"
proof -
  have "clean_key (dir_string [''sys'', ''id'', ''auth'', ''token'', ''create''] @ x)"
    by (rule plain_clean(2)) (use fixed_plain hex_plain [OF that] in \<open>simp_all add: plain_name_def\<close>)
  moreover have "CHR ''.'' \<notin> set x" using hex_plain [OF that] by (simp add: plain_name_def)
  then have "sanity_check (''auth/token/create/'' @ x) = Ok ()"
    using no_dots [of "''auth/token/create/'' @ x"] by (simp add: sanity_check_Ok_iff starts_with_def)
  ultimately show ?thesis
    by (simp add: view_valid_def barrier_valid_def expand_key_def view_new_def BARRIER_INIT_PATH_def)
qed

text \<open>A login with the token \<open>a\<close>, whose lease is \<open>auth/token/create/1\<close>, and a secret with the lease \<open>auth/token/create/2\<close>.\<close>

definition demo_lease :: "string \<Rightarrow> auth option \<Rightarrow> lease_entry" where
  "demo_lease l au =
     \<lparr>le_lease_id = ''auth/token/create/'' @ l, le_client_token = ''a'', le_path = [], le_data = [], le_secret = None,
      le_auth = au, le_issue_time = 0, le_expire_time = 0, le_revoke_err = []\<rparr>"

abbreviation demo_login_lease :: lease_entry where
  "demo_login_lease \<equiv> demo_lease ''1'' (Some ((auth_default 0)\<lparr>au_client_token := ''a''\<rparr>))"

abbreviation demo_secret_lease :: lease_entry where
  "demo_secret_lease \<equiv> demo_lease ''2'' None"

lemma demo_char: "char_of (unat (word_of_nat (of_char c) :: u8)) = c"
  by (simp add: unsigned_of_nat take_bit_eq_mod)

lemma demo_lease_codec:
  "tn_dec_lease demo_base (tn_enc_lease demo_base demo_login_lease) = Some demo_login_lease"
  "tn_dec_lease demo_base (tn_enc_lease demo_base demo_secret_lease) = Some demo_secret_lease"
  "tn_lossy demo_base (tn_utf8 demo_base (le_lease_id (demo_lease l x))) = le_lease_id (demo_lease l x)"
  unfolding demo_lease_def by (simp_all add: demo_env_defs comp_def demo_char del: of_char_Char)

lemma demo_lease_valid:
  "hex_name l \<Longrightarrow> view_valid (barrier_valid clean_key) (view_new ''sys/id/'') (le_lease_id (demo_lease l x))"
  using demo_id_valid [of l] by (simp add: demo_lease_def)

lemma demo_lease_state:
  "\<exists>s. demo_ok s \<and> children (demo_tokens s) = {} \<and>
    token_at demo_tenv (demo_tokens s) (demo_salt ''a'') = Some (demo_entry ''a'' [] 0) \<and>
    demo_tokens s (lease_key (demo_salt ''a'') (demo_salt (le_lease_id demo_secret_lease))) =
      Some (tn_utf8 demo_base (le_lease_id demo_secret_lease)) \<and>
    demo_leases s (le_lease_id demo_secret_lease) = Some (tn_enc_lease demo_base demo_secret_lease) \<and>
    demo_leases s (le_lease_id demo_login_lease) = Some (tn_enc_lease demo_base demo_login_lease) \<and>
    (\<forall>k. lease_id_ok k \<longrightarrow> demo_leases s k \<noteq> None \<longrightarrow> k = le_lease_id demo_login_lease \<or> k = le_lease_id demo_secret_lease) \<and>
    (\<forall>a b x. hex_name a \<longrightarrow> hex_name b \<longrightarrow> demo_tokens s (lease_key a b) = Some x \<longrightarrow>
      b = demo_salt (le_lease_id demo_secret_lease) \<and> x = tn_utf8 demo_base (le_lease_id demo_secret_lease))"
proof -
  let ?l1 = "le_lease_id demo_login_lease" and ?l2 = "le_lease_id demo_secret_lease"
  have h: "hex_name ''1''" "hex_name ''2''" by (simp_all add: hex_name_def)
  note v = demo_lease_valid [OF h(1)] demo_lease_valid [OF h(2)]
  have ne: "?l1 \<noteq> ?l2" by (simp add: demo_lease_def)
  note persist = ft.persist_inv [unfolded token_files system_env_sel]
  obtain s1 where s1: "demo_ok s1" "demo_tokens s1 = demo_tokens s1"
    "\<And>k. view_valid (barrier_valid clean_key) (view_new ''sys/token/'') k \<Longrightarrow> demo_tokens s1 k = None"
    "\<And>k. view_valid (barrier_valid clean_key) (view_new ''sys/id/'') k \<Longrightarrow>
      demo_leases s1 k = (if k = ?l1 then Some (tn_enc_lease demo_base demo_login_lease) else None)"
    using persist [OF demo_tree_ok v(1) demo_lease_codec(1)] by (auto simp: demo_contents)
  obtain s2 where s2: "demo_ok s2"
    "\<And>k. view_valid (barrier_valid clean_key) (view_new ''sys/token/'') k \<Longrightarrow> demo_tokens s2 k = None"
    "\<And>k. view_valid (barrier_valid clean_key) (view_new ''sys/id/'') k \<Longrightarrow>
      demo_leases s2 k = (if k = ?l2 then Some (tn_enc_lease demo_base demo_secret_lease) else demo_leases s1 k)"
    using persist [OF s1(1) v(2) demo_lease_codec(2)] s1(3) by (auto simp: demo_lease_def)
  have ok: "lease_ok demo_tenv (view_valid (barrier_valid clean_key) (view_new ''sys/id/'')) (demo_leases s2) ?l2"
    using v(2) s2(3) [OF v(2)] demo_lease_codec(2) by (simp add: lease_ok_def system_env_sel demo_lease_def)
  obtain s3 where s3: "demo_ok s3"
    "\<And>k. view_valid (barrier_valid clean_key) (view_new ''sys/token/'') k \<Longrightarrow>
      demo_tokens s3 k = ((demo_tokens s2)(index_key demo_tenv ''a'' ?l2 \<mapsto> tn_utf8 demo_tenv ?l2)) k"
    "\<And>k. view_valid (barrier_valid clean_key) (view_new ''sys/id/'') k \<Longrightarrow> demo_leases s3 k = demo_leases s2 k"
    using ft.index_inv [unfolded token_files, OF s2(1) ok, of "''a''"] demo_lease_codec(3)
    by (auto simp: system_env_sel)
  have i: "index_key demo_tenv ''a'' ?l2 = lease_key (demo_salt ''a'') (demo_salt ?l2)" by (simp add: index_key_def)
  have t3: "demo_tokens s3 (id_key a) = None" "demo_tokens s3 (child_key a b) = None" if "hex_name a" "hex_name b" for a b
    using s3(2) [OF ft.tvalid_keys(1) [OF that(1)]] s3(2) [OF ft.tvalid_keys(2) [OF that]] s2(2) ft.tvalid_keys that
      salt_id_hex [of demo_tenv] by (simp_all add: i)
  then have nc: "\<not> child_of (demo_tokens s3) q c" for q c by (auto simp: child_of_def)
  obtain s4 where s4: "demo_ok s4"
    "token_at demo_tenv (demo_tokens s4) (demo_salt ''a'') = Some (demo_entry ''a'' [] 0)"
    "children (demo_tokens s4) = children (demo_tokens s3)"
    "\<And>a b. hex_name a \<Longrightarrow> hex_name b \<Longrightarrow> demo_tokens s4 (lease_key a b) = demo_tokens s3 (lease_key a b)"
    "\<And>k. view_valid (barrier_valid clean_key) (view_new ''sys/id/'') k \<Longrightarrow> demo_leases s4 k = demo_leases s3 k"
    using demo_create [OF s3(1), of "demo_entry ''a'' [] 0"] nc salt_id_hex [of demo_tenv "''a''"] by auto
  have "children (demo_tokens s4) = {}" using s4(3) nc by (simp add: children_def)
  moreover have "demo_tokens s4 (lease_key (demo_salt ''a'') (demo_salt ?l2)) = Some (tn_utf8 demo_base ?l2)"
    using s4(4) [OF salt_id_hex [of demo_tenv] salt_id_hex [of demo_tenv], of "''a''" ?l2]
      s3(2) [OF ft.tvalid_keys(3) [OF salt_id_hex [of demo_tenv] salt_id_hex [of demo_tenv]], of "''a''" ?l2] i
    by (simp add: system_env_sel)
  moreover have "demo_leases s4 ?l2 = Some (tn_enc_lease demo_base demo_secret_lease)"
    using s4(5) [OF v(2)] s3(3) [OF v(2)] s2(3) [OF v(2)] by simp
  moreover have "demo_leases s4 ?l1 = Some (tn_enc_lease demo_base demo_login_lease)"
    using s4(5) [OF v(1)] s3(3) [OF v(1)] s2(3) [OF v(1)] s1(4) [OF v(1)] ne by simp
  moreover have "k = ?l1 \<or> k = ?l2" if "lease_id_ok k" "demo_leases s4 k \<noteq> None" for k
    using that s4(5) s3(3) s2(3) s1(4) by (auto split: if_splits)
  moreover have "b = demo_salt ?l2 \<and> x = tn_utf8 demo_base ?l2"
    if "hex_name a" "hex_name b" "demo_tokens s4 (lease_key a b) = Some x" for a b x
    using that s4(4) [OF that(1,2)] s3(2) [OF ft.tvalid_keys(3) [OF that(1,2)]] s2(2) [OF ft.tvalid_keys(3) [OF that(1,2)]]
      salt_id_hex [of demo_tenv] i
    by (auto simp: system_env_sel split: if_splits)
  ultimately show ?thesis using s4(1,2) by blast
qed

text \<open>These leases are in order, and stay so when another token is made.\<close>

lemma demo_indexed:
  assumes "t (lease_key (demo_salt ''a'') (demo_salt (le_lease_id demo_secret_lease))) =
    Some (tn_utf8 demo_base (le_lease_id demo_secret_lease))"
  shows "indexes_lease demo_tenv t (demo_salt ''a'') (le_lease_id demo_secret_lease)"
  unfolding indexes_lease_def system_env_sel using assms salt_id_hex [of demo_tenv] demo_lease_codec(3) [of "''2''" None] by blast

lemma demo_in_order:
  assumes "\<forall>k. lease_id_ok k \<longrightarrow> w k \<noteq> None \<longrightarrow> k = le_lease_id demo_login_lease \<or> k = le_lease_id demo_secret_lease"
    and "w (le_lease_id demo_login_lease) = Some (tn_enc_lease demo_base demo_login_lease)"
      "w (le_lease_id demo_secret_lease) = Some (tn_enc_lease demo_base demo_secret_lease)"
    and "\<forall>a b x. hex_name a \<longrightarrow> hex_name b \<longrightarrow> t (lease_key a b) = Some x \<longrightarrow>
      b = demo_salt (le_lease_id demo_secret_lease) \<and> x = tn_utf8 demo_base (le_lease_id demo_secret_lease)"
  shows "leases_in_order demo_tenv lease_id_ok t w"
  unfolding leases_in_order_def
proof (intro conjI allI impI)
  show "ts_salt_id demo_tenv (tn_lossy demo_tenv x) = b" if "hex_name a" "hex_name b" "t (lease_key a b) = Some x" for a b x
    using assms(4) [rule_format, OF that] demo_lease_codec(3) [of "''2''" None] by (simp add: system_env_sel)
  show "le_lease_id le = l" if "lease_id_ok l" "w l = Some y" "tn_dec_lease demo_tenv y = Some le" for l y le
    using assms(1-3) that demo_lease_codec(1,2) by (auto simp: system_env_sel)
  have "{l. lease_id_ok l \<and> w l \<noteq> None} \<subseteq> {le_lease_id demo_login_lease, le_lease_id demo_secret_lease}"
    using assms(1) by auto
  moreover have "inj_on demo_salt {le_lease_id demo_login_lease, le_lease_id demo_secret_lease}"
    using demo_salt_last(3,4) by (auto simp: demo_lease_def)
  ultimately show "inj_on demo_salt {l. lease_id_ok l \<and> w l \<noteq> None}" by (rule inj_on_subset [rotated])
qed

theorem revoke_tree_revokes_descendants_witness:
  "\<exists>s s'. demo_ok s \<and> children (demo_tokens s) = {(demo_salt ''a'', demo_salt ''b'')} \<and>
    fst (load_lease_entry demo_tenv (le_lease_id demo_secret_lease) s) = Ok (Some demo_secret_lease) \<and>
    revoke_tree demo_tenv ''a'' s = Some (Ok (), s') \<and> fst (token_lookup demo_tenv ''b'' s') = Ok None \<and>
    fst (load_lease_entry demo_tenv (le_lease_id demo_secret_lease) s') = Ok None"
proof -
  let ?l1 = "le_lease_id demo_login_lease" and ?l2 = "le_lease_id demo_secret_lease"
  obtain s0 where s0: "demo_ok s0" "children (demo_tokens s0) = {}"
    "token_at demo_tenv (demo_tokens s0) (demo_salt ''a'') = Some (demo_entry ''a'' [] 0)"
    "demo_tokens s0 (lease_key (demo_salt ''a'') (demo_salt ?l2)) = Some (tn_utf8 demo_base ?l2)"
    "demo_leases s0 ?l2 = Some (tn_enc_lease demo_base demo_secret_lease)"
    "demo_leases s0 ?l1 = Some (tn_enc_lease demo_base demo_login_lease)"
    "\<forall>k. lease_id_ok k \<longrightarrow> demo_leases s0 k \<noteq> None \<longrightarrow> k = ?l1 \<or> k = ?l2"
    "\<forall>a b x. hex_name a \<longrightarrow> hex_name b \<longrightarrow> demo_tokens s0 (lease_key a b) = Some x \<longrightarrow>
      b = demo_salt ?l2 \<and> x = tn_utf8 demo_base ?l2"
    using demo_lease_state by blast
  have v: "lease_id_ok ?l1" "lease_id_ok ?l2" by (rule demo_lease_valid, simp add: hex_name_def)+
  have "\<not> child_of (demo_tokens s0) q c" for q c using s0(2) by (auto simp: children_def)
  then obtain s where s: "demo_ok s" "children (demo_tokens s) = {(demo_salt ''a'', demo_salt ''b'')}"
    "\<forall>a. hex_name a \<longrightarrow> token_at demo_tenv (demo_tokens s) a =
      (if a = demo_salt ''b'' then Some (demo_entry ''b'' ''a'' 0) else token_at demo_tenv (demo_tokens s0) a)"
    "\<forall>a b. hex_name a \<longrightarrow> hex_name b \<longrightarrow> demo_tokens s (lease_key a b) = demo_tokens s0 (lease_key a b)"
    "\<forall>k. lease_id_ok k \<longrightarrow> demo_leases s k = demo_leases s0 k"
    using demo_create [OF s0(1), of "demo_entry ''b'' ''a'' 0"] s0(2,3) by auto
  have o: "leases_in_order demo_tenv lease_id_ok (demo_tokens s) (demo_leases s)"
    by (rule demo_in_order) (use s(4,5) s0(5-8) v in auto)
  have ix: "indexes_lease demo_tenv (demo_tokens s) (demo_salt ''a'') ?l2"
    by (rule demo_indexed) (use s(4) s0(4) salt_id_hex [of demo_tenv] in simp)
  have t: "token_at demo_tenv (demo_tokens s) (demo_salt ''a'') \<noteq> None"
    using s(3) s0(3) salt_id_hex [of demo_tenv] demo_salts by simp
  have "acyclic ({} :: (string \<times> string) set)" by (simp add: acyclic_def)
  then have "acyclic (children (demo_tokens s))" using demo_salts by (auto simp: s(2) acyclic_insert)
  from revoke_tree_revokes_descendants [OF s(1) this, of "''a''", OF _ demo_idle o] obtain s' where
    r: "revoke_tree demo_tenv ''a'' s = Some (Ok (), s')"
    "\<forall>j. j \<noteq> [] \<longrightarrow> fst (token_lookup demo_tenv j s') = (if demo_salt j \<in> descendants (demo_tokens s) (demo_salt ''a'')
      then Ok None else fst (token_lookup demo_tenv j s))"
    "\<forall>a \<in> descendants (demo_tokens s) (demo_salt ''a''). \<forall>l. token_at demo_tenv (demo_tokens s) a \<noteq> None \<longrightarrow>
      indexes_lease demo_tenv (demo_tokens s) a l \<longrightarrow> fst (load_lease_entry demo_tenv l s') = Ok None" by blast
  have d: "demo_salt ''a'' \<in> descendants (demo_tokens s) (demo_salt ''a'')"
    "demo_salt ''b'' \<in> descendants (demo_tokens s) (demo_salt ''a'')" using s(2) by (auto simp: descendants_def)
  note r(1) moreover have "fst (token_lookup demo_tenv ''b'' s') = Ok None" using r(2) d(2) by simp
  moreover have "fst (load_lease_entry demo_tenv ?l2 s') = Ok None" using r(3) d(1) t ix by blast
  moreover have "fst (load_lease_entry demo_tenv ?l2 s) = Ok (Some demo_secret_lease)"
    using ft.get_w [unfolded token_files, where s = s and k = ?l2 and C = demo_crypto and de = demo_de and ser = demo_ser
        and root = "[''data'']"] s(1,5) v(2) s0(5) demo_lease_codec(2)
    by (simp add: load_lease_entry_def system_env_sel token_tree_ok_def) (simp add: system_env_def op_bind_def)
  ultimately show ?thesis using s(1,2) by blast
qed



theorem expired_login_blocks_ticker_witness:
  "\<exists>s. demo_ok s \<and> ts_queue s = [(demo_secret_lease, 2), (demo_login_lease, 1)] \<and>
    (\<exists>s1. ticker_step demo_tenv (False, s) (True, s1) \<and> (\<nexists>y. ticker_step demo_tenv (True, s1) y))"
proof -
  let ?l2 = "le_lease_id demo_secret_lease"
  obtain s where s: "demo_ok s" "children (demo_tokens s) = {}"
    "token_at demo_tenv (demo_tokens s) (demo_salt ''a'') = Some (demo_entry ''a'' [] 0)"
    "demo_tokens s (lease_key (demo_salt ''a'') (demo_salt ?l2)) = Some (tn_utf8 demo_base ?l2)"
    "demo_leases s ?l2 = Some (tn_enc_lease demo_base demo_secret_lease)"
    "demo_leases s (le_lease_id demo_login_lease) = Some (tn_enc_lease demo_base demo_login_lease)"
    using demo_lease_state by blast
  let ?s = "s\<lparr>ts_queue := [(demo_secret_lease, 2), (demo_login_lease, 1)]\<rparr>"
  have same: "demo_ok ?s" "demo_tokens ?s = demo_tokens s" "demo_leases ?s = demo_leases s"
    using s(1) by (simp_all add: token_tree_ok_def token_contents_def lease_contents_def)
  have v: "lease_id_ok (le_lease_id demo_login_lease)" by (rule demo_lease_valid) (simp add: hex_name_def)
  have d: "Option.bind (demo_leases ?s (le_lease_id demo_login_lease)) (tn_dec_lease demo_base) = Some demo_login_lease"
    "Option.bind (demo_leases ?s ?l2) (tn_dec_lease demo_base) \<noteq> None"
    unfolding same using s(5,6) demo_lease_codec(1,2) by simp_all
  have ix: "indexes_lease demo_tenv (demo_tokens ?s) (demo_salt ''a'') ?l2"
    unfolding same by (rule demo_indexed) (rule s(4))
  have tok: "fst (token_lookup demo_tenv ''a'' ?s) = Ok (Some (demo_entry ''a'' [] 0))"
    using demo_lookup [OF same(1), of "''a''", unfolded same] s(3) by simp
  have leaf: "\<forall>c. \<not> child_of (demo_tokens ?s) (demo_salt ''a'') c" unfolding same using s(2) by (auto simp: children_def)
  have q: "(demo_login_lease, 1) \<in> set (ts_queue ?s)" "\<forall>x \<in> set (ts_queue ?s). x = (demo_login_lease, 1) \<or> 1 < snd x"
    "(1 :: nat) \<noteq> 0" "1 < millis (tn_clock demo_base (ts_reads ?s))" "1 \<le> millis (tn_clock demo_base (Suc (ts_reads ?s)))"
    by (simp_all add: millis_def demo_env_defs)
  have au: "le_auth demo_login_lease = Some ((auth_default 0)\<lparr>au_client_token := ''a''\<rparr>)" by (simp add: demo_lease_def)
  have te: "au_client_token ((auth_default 0)\<lparr>au_client_token := ''a''\<rparr>) = tke_id (demo_entry ''a'' [] 0)"
    "tke_id (demo_entry ''a'' [] 0) \<noteq> []" by simp_all
  from expired_login_blocks_ticker [OF same(1) demo_idle q v d(1) au te, unfolded demo_entry_sel, OF tok leaf ix d(2)] same(1)
  show ?thesis by (intro exI [of _ ?s]) auto
qed

section \<open>Witnesses for requests that create tokens\<close>

lemma demo_steps:
  "now_op demo_tenv s = (Ok 1000000000, s\<lparr>ts_reads := Suc (ts_reads s)\<rparr>)"
  "uuid_op demo_tenv s = (Ok (''u'' @ nat_to_string (ts_uuids s)), s\<lparr>ts_uuids := Suc (ts_uuids s)\<rparr>)"
  "t \<le> from_secs 86400 \<Longrightarrow> ttl_op demo_tenv 0 0 t 0 0 1000000000 s =
    (Ok (if t = 0 then from_secs 86400 else t), s\<lparr>ts_reads := Suc (ts_reads s)\<rparr>)"
  by (auto simp: now_op_def uuid_op_def ttl_op_def op_bind_def system_env_sel demo_env_defs calculate_ttl_def
      secs_since_epoch_def NANOS_def from_secs_def effective_max_ttl_def min_positive_def MAX_TOKEN_TTL_def
      DEFAULT_TOKEN_TTL_def dur_add_def dur_sub_def)



lemma demo_ok_reads [simp]: "demo_ok (s\<lparr>ts_uuids := u\<rparr>) = demo_ok s" "demo_ok (s\<lparr>ts_reads := r\<rparr>) = demo_ok s"
  "demo_tokens (s\<lparr>ts_uuids := u\<rparr>) = demo_tokens s" "demo_tokens (s\<lparr>ts_reads := r\<rparr>) = demo_tokens s"
  by (simp_all add: token_tree_ok_def token_contents_def lease_contents_def)






text \<open>Authentication data for a token with the policy \<open>dev\<close>, for which a token is made.\<close>

definition demo_auth_data :: "nat \<Rightarrow> auth \<Rightarrow> bool" where
  "demo_auth_data n au \<longleftrightarrow> 0 < n \<and> n \<le> 86400 \<and> ttl (au_lease au) = from_secs n \<and> max_ttl (au_lease au) = 0 \<and>
     au_policies au = [''dev''] \<and> \<not> au_no_default_policy au \<and> au_metadata au = Map.empty \<and> au_period au = 0 \<and>
     au_explicit_max_ttl au = 0"

lemma demo_login:
  assumes I: "demo_ok s" and n: "\<And>q. \<not> child_of (demo_tokens s) q (demo_salt (tn_uuid demo_base (ts_uuids s)))"
    and au: "demo_auth_data n au" and req: "rq_path req = ''auth/token/create''"
  shows "\<exists>au1 s'. token_of_auth demo_tenv req au s = (Ok au1, s')"
proof -
  let ?u = "tn_uuid demo_base (ts_uuids s)"
  have u: "?u = ''u'' @ nat_to_string (ts_uuids s)" by (simp add: demo_env_defs)
  let ?s1 = "s\<lparr>ts_uuids := Suc (ts_uuids s), ts_reads := Suc (Suc (Suc (ts_reads s)))\<rparr>"
  let ?te = "\<lparr>tke_id = ?u, tke_parent = [], tke_policies = [''default'', ''dev''], tke_path = ''auth/token/create'',
    tke_meta = Map.empty, tke_display_name = au_display_name au, tke_num_uses = 0, tke_ttl = n, tke_creation_time = 1000000000,
    tke_period = 0, tke_explicit_max_ttl = 0\<rparr>"
  obtain s2 where s2: "token_create demo_tenv ?te ?s1 = (Ok ?te, s2)" "demo_ok s2"
    using demo_create [of ?s1 ?te] I n u by auto
  have l: "lease_id_ok (''auth/token/create/'' @ demo_salt ?u)" by (rule demo_id_valid [OF salt_id_hex])
  have R: "vault_ready demo_crypto demo_ser demo_de [''data''] (ts_store s2)" using s2(2) by (simp add: token_tree_ok_def)
  have san: "sanitize_policies [''dev''] True = [''default'', ''dev'']" by code_simp
  have dots: "\<not> str_contains ''auth/token/create'' ''..''" by code_simp
  have secs: "clamp_lease_ttl (from_secs n) = from_secs n" "from_secs n div NANOS = n" "from_secs n \<le> from_secs 86400" "from_secs n \<noteq> 0"
    using au by (simp_all add: demo_auth_data_def clamp_lease_ttl_def from_secs_def NANOS_def DEFAULT_LEASE_DURATION_SECS_def
        MAX_LEASE_DURATION_SECS_def)
  let ?au = "au\<lparr>au_token_policies := [''default'', ''dev''], au_client_token := ?u\<rparr>"
  have "\<exists>au1 s3. register_auth demo_tenv ?te (?au\<lparr>au_lease := (au_lease au)\<lparr>ttl := from_secs n\<rparr>\<rparr>) s2 = (Ok au1, s3)"
    by (rule ft.register_auth_ok [OF R]) (use u l dots au in \<open>simp_all add: system_env_sel demo_auth_data_def demo_env_defs\<close>)
  then obtain au1 s3 where s3: "register_auth demo_tenv ?te (?au\<lparr>au_lease := (au_lease au)\<lparr>ttl := from_secs n\<rparr>\<rparr>) s2 = (Ok au1, s3)"
    by blast
  have "token_of_auth demo_tenv req au s = (Ok (au1\<lparr>au_policies := [''default'', ''dev'']\<rparr>), s3)"
    using s2(1) s3 san secs au u req
    by (simp add: token_of_auth_def Let_def demo_steps op_bind_def token_entry_default_def demo_auth_data_def)
  then show ?thesis by blast
qed

definition demo_auth :: auth where
  "demo_auth = (auth_default 0)\<lparr>au_lease := (lease_default 0)\<lparr>ttl := from_secs 3600\<rparr>, au_policies := [''dev'']\<rparr>"

lemma demo_auth_ok: "demo_auth_data 3600 demo_auth"
  by (simp add: demo_auth_data_def demo_auth_def auth_default_def lease_default_def)


theorem api_token_is_orphan_witness:
  "\<exists>au s te. token_of_auth demo_tenv (request_new ''auth/token/create'') demo_auth demo_tstate = (Ok au, s) \<and>
    token_lookup demo_tenv (au_client_token au) s = (Ok (Some te), s) \<and> tke_parent te = [] \<and> tke_num_uses te = 0"
proof -
  have n: "\<forall>q. \<not> child_of (demo_tokens demo_tstate) q a" for a by (simp add: demo_contents child_of_def)
  then obtain au s where t: "token_of_auth demo_tenv (request_new ''auth/token/create'') demo_auth demo_tstate = (Ok au, s)"
    using demo_login [OF demo_tree_ok _ demo_auth_ok] by (force simp: request_new_def)
  have u: "tn_uuid demo_base (ts_uuids demo_tstate) \<noteq> []" by (simp add: demo_env_defs)
  have c: "\<forall>te. tke_meta te = au_metadata demo_auth \<longrightarrow> tke_period te = au_period demo_auth \<longrightarrow>
      tke_explicit_max_ttl te = au_explicit_max_ttl demo_auth \<longrightarrow> tke_creation_time te \<in> range (tn_clock demo_base) \<longrightarrow>
      tn_dec_token demo_base (tn_enc_token demo_base te) = Some te"
    by (simp add: demo_auth_def auth_default_def demo_env_defs demo_token_codec)
  have l: "view_valid (barrier_valid clean_key) (view_new ''sys/id/'') (rq_path (request_new ''auth/token/create'') @ ''/'' @
      demo_salt (tn_uuid demo_base (ts_uuids demo_tstate)))"
    using demo_id_valid [OF salt_id_hex] by (simp add: request_new_def)
  from api_token_is_orphan [OF demo_tree_ok t u n c l] t show ?thesis by blast
qed



end
