(* ===== verification/Auth.thy ===== *)
theory Auth
  imports Core Token_Api
begin

text \<open>
  The authentication module, \<open>src/modules/auth/mod.rs\<close>: the table of authentication mounts, which are routed under
  \<open>auth/\<close>, with the operations that enable, disable and move a mount and set the mounts up after an unseal.

  The state holds the core, whose router, storage and heap of mount entries it shares, and the module's own table and
  backends; after \<open>teardown_auth\<close> the module has a router of its own until \<open>setup\<close> takes the one of the core again.
\<close>

section \<open>Model\<close>

definition AUTH_CONFIG_PATH :: string where "AUTH_CONFIG_PATH = ''core/auth''"
definition AUTH_BARRIER_PREFIX :: string where "AUTH_BARRIER_PREFIX = ''auth/''"
definition AUTH_ROUTER_PREFIX :: string where "AUTH_ROUTER_PREFIX = ''auth/''"
definition AUTH_TABLE_TYPE :: string where "AUTH_TABLE_TYPE = ''auth''"

definition PROTECTED_AUTHS :: "string list" where
  "PROTECTED_AUTHS = [''auth/token'']"

definition DEFAULT_AUTH_MOUNTS :: "string \<Rightarrow> mount_entry list" where
  "DEFAULT_AUTH_MOUNTS uuid =
     [(mount_entry_new AUTH_TABLE_TYPE ''token/'' ''token'' ''token based credentials'')\<lparr>me_uuid := uuid\<rparr>]"

record 's auth_module =
  am_core :: "'s core"
  am_router :: "'s router option"
  am_mounts :: mount_table
  am_backends :: "(string \<times> 's backend_obj res) list"

definition auth_router :: "'s auth_module \<Rightarrow> 's router" where
  "auth_router a = (case am_router a of Some r \<Rightarrow> r | None \<Rightarrow> co_router (am_core a))"

definition auth_on_router :: "('s router, 'a) op \<Rightarrow> ('s auth_module, 'a) op" where
  "auth_on_router f a =
     (case f (auth_router a) of (r, root) \<Rightarrow>
        (r, case am_router a of
              Some _ \<Rightarrow> a\<lparr>am_router := Some root\<rparr>
            | None \<Rightarrow> a\<lparr>am_core := (am_core a)\<lparr>co_router := root\<rparr>\<rparr>))"

definition auth_persist :: "mount_env \<Rightarrow> 's storage_ops \<Rightarrow> ('s auth_module, unit) op" where
  "auth_persist env sops a =
     (case table_persist env sops AUTH_CONFIG_PATH (co_heap (am_core a), am_mounts a) (co_storage (am_core a)) of
        (r, s) \<Rightarrow> (r, a\<lparr>am_core := (am_core a)\<lparr>co_storage := s\<rparr>\<rparr>))"

definition get_auth_backend :: "'s auth_module \<Rightarrow> string \<Rightarrow> 's backend_obj res res" where
  "get_auth_backend a ty =
     (case map_of (am_backends a) ty of Some b \<Rightarrow> Ok b | None \<Rightarrow> Err ErrCoreLogicalBackendNoExist)"

definition add_auth_backend :: "string \<Rightarrow> 's backend_obj res \<Rightarrow> ('s auth_module, unit) op" where
  "add_auth_backend ty b a =
     (if map_of (am_backends a) ty \<noteq> None then (Err ErrCoreLogicalBackendExist, a)
      else (Ok (), a\<lparr>am_backends := AList.update ty b (am_backends a)\<rparr>))"

definition delete_auth_backend :: "string \<Rightarrow> ('s auth_module, unit) op" where
  "delete_auth_backend ty a = (Ok (), a\<lparr>am_backends := AList.delete ty (am_backends a)\<rparr>)"

text \<open>The checks of \<open>enable_auth\<close> on the entry, before its backend is made.\<close>

definition enable_check :: "ancestor \<Rightarrow> 's auth_module \<Rightarrow> mount_entry \<Rightarrow> unit res" where
  "enable_check anc a entry =
     (let p = me_path entry; used = matching_mount anc (auth_router a) p in
      if p = ''/'' then Err ErrMountPathProtected
      else if me_logical_type entry = ''token'' then Err ErrMountFailed
      else if is_protect_path PROTECTED_AUTHS [p] then Err ErrMountPathProtected
      else if list_ex (\<lambda>(_, i). let q = me_path (co_heap (am_core a) ! i) in starts_with q p \<or> starts_with p q) (am_mounts a)
      then Err (ErrResponseStatus 409 (''path is already in use at '' @ p))
      else if used \<noteq> [] then Err (ErrResponseStatus 409 (''path is already in use at '' @ used))
      else Ok ())"

definition enable_auth :: "ancestor \<Rightarrow> mount_env \<Rightarrow> 's storage_ops \<Rightarrow> mount_entry \<Rightarrow> ('s auth_module, unit) op" where
  "enable_auth anc env sops me a =
     (let entry0 = me\<lparr>me_path := with_slash (me_path me)\<rparr> in
      case res_bind (enable_check anc a entry0) (\<lambda>_. res_bind (get_auth_backend a (me_logical_type entry0)) (\<lambda>b. b)) of
        Err e \<Rightarrow> (Err e, a)
      | Panic \<Rightarrow> (Panic, a)
      | Ok backend \<Rightarrow>
          let c = am_core a; uuid = new_uuid env (co_uuids c); entry = entry0\<lparr>me_uuid := uuid\<rparr>;
              view = view_new (AUTH_BARRIER_PREFIX @ uuid @ ''/''); i = length (co_heap c);
              a1 = a\<lparr>am_core := c\<lparr>co_uuids := Suc (co_uuids c), co_heap := co_heap c @ [entry]\<rparr>\<rparr>
          in op_bind (auth_on_router (router_mount anc backend (AUTH_ROUTER_PREFIX @ me_path entry) i view)) (\<lambda>_ a2.
               auth_persist env sops (a2\<lparr>am_mounts := AList.update (me_path entry) i (am_mounts a2)\<rparr>)) a1)"

definition with_auth_table :: "(mtab \<Rightarrow> bool \<times> mtab) \<Rightarrow> 's auth_module \<Rightarrow> bool \<times> 's auth_module" where
  "with_auth_table f a =
     (case f (co_heap (am_core a), am_mounts a) of (b, (heap, tab)) \<Rightarrow>
        (b, a\<lparr>am_core := (am_core a)\<lparr>co_heap := heap\<rparr>, am_mounts := tab\<rparr>))"

definition remove_auth_entry :: "mount_env \<Rightarrow> 's storage_ops \<Rightarrow> string \<Rightarrow> ('s auth_module, unit) op" where
  "remove_auth_entry env sops path a =
     (case with_auth_table (table_delete path) a of (b, a1) \<Rightarrow> if b then auth_persist env sops a1 else (Ok (), a1))"

definition taint_auth_entry :: "mount_env \<Rightarrow> 's storage_ops \<Rightarrow> string \<Rightarrow> ('s auth_module, unit) op" where
  "taint_auth_entry env sops path a =
     (case with_auth_table (table_set_taint path True) a of (b, a1) \<Rightarrow> if b then auth_persist env sops a1 else (Ok (), a1))"

definition auth_clear :: "'s storage_ops \<Rightarrow> barrier_view option \<Rightarrow> ('s auth_module, unit) pop" where
  "auth_clear sops view a =
     (case view of
        None \<Rightarrow> Some (Ok (), a)
      | Some v \<Rightarrow> map_option (\<lambda>(r, s). (r, a\<lparr>am_core := (am_core a)\<lparr>co_storage := s\<rparr>\<rparr>))
          (view_clear sops v (co_storage (am_core a))))"

definition disable_auth :: "ancestor \<Rightarrow> mount_env \<Rightarrow> 's storage_ops \<Rightarrow> string \<Rightarrow> ('s auth_module, unit) pop" where
  "disable_auth anc env sops path0 a =
     (let path = with_slash path0; full = AUTH_ROUTER_PREFIX @ path; view = matching_view anc (auth_router a) full in
      if path = ''token/'' then Some (Err ErrMountPathProtected, a)
      else
        pop_bind (pop_of (op_bind (taint_auth_entry env sops path) (\<lambda>_.
          op_bind (auth_on_router (router_taint full)) (\<lambda>_. auth_on_router (router_unmount full))))) (\<lambda>_.
        pop_bind (auth_clear sops view) (\<lambda>_. pop_of (remove_auth_entry env sops path))) a)"

definition auth_entry_update :: "nat \<Rightarrow> (mount_entry \<Rightarrow> mount_entry) \<Rightarrow> 's auth_module \<Rightarrow> 's auth_module" where
  "auth_entry_update i f a = a\<lparr>am_core := heap_update i f (am_core a)\<rparr>"

text \<open>The part of \<open>remount_auth\<close> after the source is tainted.\<close>

definition remount_auth_entry ::
  "ancestor \<Rightarrow> mount_env \<Rightarrow> 's storage_ops \<Rightarrow> nat \<Rightarrow> string \<Rightarrow> string \<Rightarrow> ('s auth_module, unit) op" where
  "remount_auth_entry anc env sops i src dst a =
     (if matching_mount anc (auth_router a) dst \<noteq> [] then (Err ErrMountPathExist, a)
      else
        let src_path = me_path (co_heap (am_core a) ! i);
            a1 = auth_entry_update i (\<lambda>e. e\<lparr>me_path := trim_start_matches AUTH_ROUTER_PREFIX dst, me_tainted := False\<rparr>) a
        in case auth_persist env sops a1 of
             (Panic, a2) \<Rightarrow> (Panic, a2)
           | (Err e, a2) \<Rightarrow> (Err e, auth_entry_update i (\<lambda>e. e\<lparr>me_path := src_path, me_tainted := True\<rparr>) a2)
           | (Ok _, a2) \<Rightarrow>
               op_bind (auth_on_router (router_remount dst src)) (\<lambda>_. auth_on_router (router_untaint dst)) a2)"

definition remount_auth ::
  "ancestor \<Rightarrow> mount_env \<Rightarrow> 's storage_ops \<Rightarrow> string \<Rightarrow> string \<Rightarrow> ('s auth_module, unit) op" where
  "remount_auth anc env sops src0 dst0 a =
     (let src = with_slash src0; dst = with_slash dst0 in
      if \<not> starts_with src AUTH_ROUTER_PREFIX then
        (Err (ErrResponseStatus 400 (''cannot remount non-auth mount '' @ src)), a)
      else if \<not> starts_with dst AUTH_ROUTER_PREFIX then
        (Err (ErrResponseStatus 400 (''cannot remount auth mount to non-auth mount '' @ dst)), a)
      else if is_protect_path PROTECTED_AUTHS [src, dst] then (Err ErrMountPathProtected, a)
      else if matching_mount anc (auth_router a) dst \<noteq> [] then (Err ErrMountPathExist, a)
      else case matching_mount_entry anc (auth_router a) src of
          None \<Rightarrow> (Err ErrMountNotMatch, a)
        | Some i \<Rightarrow>
            op_bind (auth_on_router (router_taint src)) (\<lambda>_. remount_auth_entry anc env sops i src dst)
              (auth_entry_update i (\<lambda>e. e\<lparr>me_tainted := True\<rparr>) a))"

definition teardown_auth :: "('s auth_module, unit) op" where
  "teardown_auth a = (Ok (), a\<lparr>am_mounts := [], am_router := Some []\<rparr>)"

fun update_auth_entries ::
  "mount_env \<Rightarrow> bytes option \<Rightarrow> hmac_level \<Rightarrow> nat list \<Rightarrow> bool \<Rightarrow> (mount_entry list, bool) op" where
  "update_auth_entries env key level [] need heap = (Ok need, heap)"
| "update_auth_entries env key level (i # is) need heap =
     (let e = heap ! i;
          e1 = (if me_table e = [] then e\<lparr>me_table := AUTH_TABLE_TYPE\<rparr> else e);
          need1 = (need \<or> me_table e = [])
      in if me_hmac e1 = [] \<and> key \<noteq> None \<and> level = HmacCompat then
           (case calc_hmac env (the key) e1 of
              Ok e2 \<Rightarrow> update_auth_entries env key level is True (heap[i := e2])
            | Err er \<Rightarrow> (Err er, heap[i := e1])
            | Panic \<Rightarrow> (Panic, heap[i := e1]))
         else update_auth_entries env key level is need1 (heap[i := e1]))"

definition update_auth_mount ::
  "mount_env \<Rightarrow> 's storage_ops \<Rightarrow> bytes option \<Rightarrow> hmac_level \<Rightarrow> ('s auth_module, unit) op" where
  "update_auth_mount env sops key level a =
     (case update_auth_entries env key level (map snd (am_mounts a)) False (co_heap (am_core a)) of
        (r, heap) \<Rightarrow>
          let a1 = a\<lparr>am_core := (am_core a)\<lparr>co_heap := heap\<rparr>\<rparr> in
          (case r of
             Err e \<Rightarrow> (Err e, a1)
           | Panic \<Rightarrow> (Panic, a1)
           | Ok need \<Rightarrow> if need then auth_persist env sops a1 else (Ok (), a1)))"

definition set_auth_tab :: "mtab \<Rightarrow> 's \<Rightarrow> 's auth_module \<Rightarrow> 's auth_module" where
  "set_auth_tab mt s a = a\<lparr>am_core := (am_core a)\<lparr>co_heap := fst mt, co_storage := s\<rparr>, am_mounts := snd mt\<rparr>"

definition load_auth ::
  "mount_env \<Rightarrow> string \<Rightarrow> 's storage_ops \<Rightarrow> bytes option \<Rightarrow> hmac_level \<Rightarrow> ('s auth_module, unit) op" where
  "load_auth env uuid sops key level a =
     (case table_load env sops AUTH_CONFIG_PATH key level ((co_heap (am_core a), am_mounts a), co_storage (am_core a)) of
        (Panic, (mt, s)) \<Rightarrow> (Panic, set_auth_tab mt s a)
      | (Ok _, (mt, s)) \<Rightarrow> update_auth_mount env sops key level (set_auth_tab mt s a)
      | (Err _, (mt, s)) \<Rightarrow>
          (case table_set_default env key (DEFAULT_AUTH_MOUNTS uuid) mt of
             (Err e, mt1) \<Rightarrow> (Err e, set_auth_tab mt1 s a)
           | (Panic, mt1) \<Rightarrow> (Panic, set_auth_tab mt1 s a)
           | (Ok _, mt1) \<Rightarrow>
               op_bind (auth_persist env sops) (\<lambda>_. update_auth_mount env sops key level) (set_auth_tab mt1 s a)))"

text \<open>A tainted mount is tainted in the router under the path without the prefix \<open>auth/\<close>.\<close>

definition setup_auth_mount :: "ancestor \<Rightarrow> nat \<Rightarrow> ('s auth_module, unit) op" where
  "setup_auth_mount anc i a =
     (let entry = co_heap (am_core a) ! i in
      case res_bind (get_auth_backend a (me_logical_type entry)) (\<lambda>b. b) of
        Err e \<Rightarrow> (Err e, a)
      | Panic \<Rightarrow> (Panic, a)
      | Ok backend \<Rightarrow>
          op_bind (auth_on_router (router_mount anc backend (AUTH_ROUTER_PREFIX @ me_path entry) i
              (view_new (AUTH_BARRIER_PREFIX @ me_uuid entry @ ''/'')))) (\<lambda>_.
            if me_tainted entry then auth_on_router (router_taint (me_path entry)) else op_return ()) a)"

definition setup_auth :: "ancestor \<Rightarrow> ('s auth_module, unit) op" where
  "setup_auth anc a = op_iter (setup_auth_mount anc) (map snd (am_mounts a)) a"

definition auth_module_new :: "'s core \<Rightarrow> 's auth_module" where
  "auth_module_new c = \<lparr>am_core = c, am_router = None, am_mounts = [], am_backends = []\<rparr>"

definition auth_module_setup :: "('s auth_module, unit) op" where
  "auth_module_setup a = (Ok (), a\<lparr>am_router := None\<rparr>)"

text \<open>
  \<open>Module::init\<close>. The storage of the core is the state of the token store; \<open>mk\<close> makes the backend object of the token
  store and \<open>h\<close> its handler, from the environment that \<open>ExpirationManager::new\<close> and \<open>TokenStore::new\<close> leave.
\<close>

definition auth_core_op :: "('s, 'a) op \<Rightarrow> ('s auth_module, 'a) op" where
  "auth_core_op m a = (case m (co_storage (am_core a)) of (r, s) \<Rightarrow> (r, a\<lparr>am_core := (am_core a)\<lparr>co_storage := s\<rparr>\<rparr>))"

definition auth_core_pop :: "('s, 'a) pop \<Rightarrow> ('s auth_module, 'a) pop" where
  "auth_core_pop m a =
     map_option (\<lambda>(r, s). (r, a\<lparr>am_core := (am_core a)\<lparr>co_storage := s\<rparr>\<rparr>)) (m (co_storage (am_core a)))"

definition auth_module_init ::
  "ancestor \<Rightarrow> mount_env \<Rightarrow> string \<Rightarrow> 's tenv \<Rightarrow> ('s tenv \<Rightarrow> 's tstate backend_obj res) \<Rightarrow>
    ('s tenv \<Rightarrow> 's tstate handler_ref) \<Rightarrow> ('s tstate auth_module, 's tenv) pop" where
  "auth_module_init anc env uuid E mk h a0 =
     (let sv = co_system_view (am_core a0); key = Some (co_hmac_key (am_core a0)); level = co_hmac_level (am_core a0);
          sops = \<lparr>storage_list = (\<lambda>p. on_store (storage_list (tn_sops E) p)),
                  storage_get = (\<lambda>k. on_store (storage_get (tn_sops E) k)),
                  storage_put = (\<lambda>e. on_store (storage_put (tn_sops E) e)),
                  storage_delete = (\<lambda>k. on_store (storage_delete (tn_sops E) k))\<rparr>
      in pop_bind (pop_of (auth_core_op (op_bind (expiration_new E sv) (\<lambda>E1. token_store_new E1 sv)))) (\<lambda>E2.
         let E3 = set_token_store E2 in
         pop_bind (pop_of (op_bind (add_auth_backend ''token'' (mk E3)) (\<lambda>_.
           op_bind (load_auth env uuid sops key level) (\<lambda>_. setup_auth anc)))) (\<lambda>_.
         pop_bind (auth_core_pop (restore E3)) (\<lambda>_ a.
           case add_handler (h E3) (am_core a) of
             (Ok _, c) \<Rightarrow> Some (Ok (E3\<lparr>tn_router := auth_router a, tn_mounts := co_heap c\<rparr>), a\<lparr>am_core := c\<rparr>)
           | (Err e, c) \<Rightarrow> Some (Err e, a\<lparr>am_core := c\<rparr>)
           | (Panic, c) \<Rightarrow> Some (Panic, a\<lparr>am_core := c\<rparr>)))) a0)"

definition auth_module_cleanup :: "'s handler_ref \<Rightarrow> ('s auth_module, unit) op" where
  "auth_module_cleanup h a =
     (case delete_handler h (am_core a) of
        (r, c) \<Rightarrow> op_bind (op_res r) (\<lambda>_. op_bind (delete_auth_backend ''token'') (\<lambda>_. teardown_auth)) (a\<lparr>am_core := c\<rparr>))"

section \<open>Enabling a mount\<close>

lemma auth_persist_effect:
  assumes "storage sops valid stored ready" "ready (co_storage (am_core a))" "valid AUTH_CONFIG_PATH"
  shows "\<exists>s'. auth_persist env sops a = (Ok (), a\<lparr>am_core := (am_core a)\<lparr>co_storage := s'\<rparr>\<rparr>) \<and> ready s' \<and>
    stored s' AUTH_CONFIG_PATH = Some (ser_table env (table_contents (co_heap (am_core a), am_mounts a)))"
  using storage.put_stored [OF assms, of "ser_table env (table_contents (co_heap (am_core a), am_mounts a))"] assms(3)
  by (auto simp: auth_persist_def table_persist_def)

text \<open>
  Enabling an authentication method under a free path works. When no authentication mount is above or below the
  path and no mount of the router is above it, with or without the prefix \<open>auth/\<close>, the path under \<open>auth/\<close> is routed to
  the new backend with a storage view of its own, and the stored table is the new table.
\<close>

theorem enable_auth_effect:
  assumes "radix anc" "storage sops valid stored ready" "ready (co_storage (am_core a))" "valid AUTH_CONFIG_PATH"
    and p: "p = with_slash (me_path me)" "p \<noteq> ''/''" "me_logical_type me \<noteq> ''token''" "\<not> starts_with p ''auth/token''"
    and free: "\<forall>(k, i) \<in> set (am_mounts a). \<not> starts_with (me_path (co_heap (am_core a) ! i)) p \<and>
        \<not> starts_with p (me_path (co_heap (am_core a) ! i))"
      "\<forall>k \<in> fst ` set (auth_router a). \<not> starts_with p k \<and> \<not> starts_with (''auth/'' @ p) k"
    and "map_of (am_backends a) (me_logical_type me) = Some (Ok backend)"
  shows "\<exists>a' i. enable_auth anc env sops me a = (Ok (), a') \<and> map_of (am_mounts a') p = Some i \<and>
    co_heap (am_core a') ! i = me\<lparr>me_path := p, me_uuid := new_uuid env (co_uuids (am_core a))\<rparr> \<and>
    matching_mount anc (auth_router a') (''auth/'' @ p) = ''auth/'' @ p \<and>
    matching_mount_entry anc (auth_router a') (''auth/'' @ p) = Some i \<and>
    matching_view anc (auth_router a') (''auth/'' @ p) =
      Some (view_new (''auth/'' @ new_uuid env (co_uuids (am_core a)) @ ''/'')) \<and>
    stored (co_storage (am_core a')) AUTH_CONFIG_PATH =
      Some (ser_table env (table_contents (co_heap (am_core a'), am_mounts a')))"
proof -
  let ?c = "am_core a" and ?full = "''auth/'' @ p"
  define uuid where "uuid = new_uuid env (co_uuids ?c)"
  define entry where "entry = me\<lparr>me_path := p, me_uuid := uuid\<rparr>"
  define i where "i = length (co_heap ?c)"
  define view where "view = view_new (''auth/'' @ uuid @ ''/'')"
  have none: "trie_ancestor anc (auth_router a) p = None" "trie_ancestor anc (auth_router a) ?full = None"
    using trie_ancestor_None [OF assms(1)] free(2) by blast+
  have check: "enable_check anc a (me\<lparr>me_path := p\<rparr>) = Ok ()"
    using p none(1) free(1)
    by (auto simp: enable_check_def matching_mount_def is_protect_path_def PROTECTED_AUTHS_def list_ex_iff Let_def)
  obtain x where x: "router_mount anc backend ?full i view (auth_router a) = (Ok (), AList.update ?full x (auth_router a))"
    "re_view x = view" "re_mount_entry x = i"
    using router_mount_effect [OF none(2)] by blast
  define a1 where "a1 = a\<lparr>am_core := ?c\<lparr>co_uuids := Suc (co_uuids ?c), co_heap := co_heap ?c @ [entry]\<rparr>\<rparr>"
  have r1: "auth_router a1 = auth_router a" by (simp add: a1_def auth_router_def split: option.split)
  obtain a2 where a2: "auth_on_router (router_mount anc backend ?full i view) a1 = (Ok (), a2)"
    "auth_router a2 = AList.update ?full x (auth_router a)" "co_heap (am_core a2) = co_heap ?c @ [entry]"
    "co_storage (am_core a2) = co_storage ?c"
    using x(1) r1 by (cases "am_router a") (auto simp: auth_on_router_def auth_router_def a1_def)
  define a3 where "a3 = a2\<lparr>am_mounts := AList.update p i (am_mounts a2)\<rparr>"
  obtain s' where s': "auth_persist env sops a3 = (Ok (), a3\<lparr>am_core := (am_core a3)\<lparr>co_storage := s'\<rparr>\<rparr>)"
    "stored s' AUTH_CONFIG_PATH = Some (ser_table env (table_contents (co_heap (am_core a3), am_mounts a3)))"
    using auth_persist_effect [OF assms(2), of a3] assms(3,4) a2(4) by (auto simp: a3_def)
  have run: "enable_auth anc env sops me a = (Ok (), a3\<lparr>am_core := (am_core a3)\<lparr>co_storage := s'\<rparr>\<rparr>)"
    using check a2(1) s'(1) assms(11) p(1)
    by (simp add: enable_auth_def Let_def get_auth_backend_def entry_def uuid_def i_def view_def a1_def a3_def
        AUTH_ROUTER_PREFIX_def AUTH_BARRIER_PREFIX_def)
  have anc: "trie_ancestor anc (AList.update ?full x (auth_router a)) ?full = Some (?full, x)"
    by (rule trie_ancestorI [OF assms(1)])
      (auto simp: update_conv' starts_with_iff_prefix dest: prefix_length_le)
  have router: "auth_router (a3\<lparr>am_core := (am_core a3)\<lparr>co_storage := s'\<rparr>\<rparr>) = AList.update ?full x (auth_router a)"
    using a2(2) by (simp add: a3_def auth_router_def split: option.splits)
  show ?thesis
    by (rule exI [of _ "a3\<lparr>am_core := (am_core a3)\<lparr>co_storage := s'\<rparr>\<rparr>"], rule exI [of _ i])
      (use run router anc x(2,3) s'(2) a2(3) in \<open>simp add: a3_def i_def entry_def uuid_def view_def update_conv'
        matching_mount_def matching_mount_entry_def matching_view_def\<close>)
qed

section \<open>Setting the mounts up\<close>

text \<open>
  A tainted authentication mount blocks the set-up. Disabling a mount stores its entry as tainted before it is
  removed; when the vault starts again with such an entry, \<open>setup_auth\<close> asks the router to taint the path without
  the prefix \<open>auth/\<close>. Unless a mount of that very name exists, the module cannot be initialised.
\<close>

theorem tainted_auth_mount_blocks_setup:
  assumes "radix anc" "am_router a = None"
    and entry: "am_mounts a = (k, i) # rest" "me_tainted (co_heap (am_core a) ! i)"
      "map_of (am_backends a) (me_logical_type (co_heap (am_core a) ! i)) = Some (Ok backend)"
    and free: "\<forall>q \<in> fst ` set (co_router (am_core a)). \<not> starts_with (''auth/'' @ me_path (co_heap (am_core a) ! i)) q"
      "me_path (co_heap (am_core a) ! i) \<notin> fst ` set (co_router (am_core a))"
  shows "fst (setup_auth anc a) = Err ErrRouterMountNotFound"
proof -
  let ?e = "co_heap (am_core a) ! i"
  have none: "trie_ancestor anc (auth_router a) (''auth/'' @ me_path ?e) = None"
    using trie_ancestor_None [OF assms(1)] free(1) assms(2) by (auto simp: auth_router_def)
  obtain x where x: "router_mount anc backend (''auth/'' @ me_path ?e) i (view_new (''auth/'' @ me_uuid ?e @ ''/'')) (auth_router a) =
      (Ok (), AList.update (''auth/'' @ me_path ?e) x (auth_router a))"
    using router_mount_effect [OF none] by blast
  have "''auth/'' @ me_path ?e \<noteq> me_path ?e" by (metis append_self_conv2 list.distinct(1))
  then have "map_of (AList.update (''auth/'' @ me_path ?e) x (co_router (am_core a))) (me_path ?e) = None"
    using free(2) by (simp add: update_conv' map_of_eq_None_iff)
  then show ?thesis
    using assms(2) entry x
    by (simp add: setup_auth_def setup_auth_mount_def get_auth_backend_def auth_on_router_def auth_router_def Let_def
        AUTH_ROUTER_PREFIX_def AUTH_BARRIER_PREFIX_def router_taint_def router_set_taint_def op_bind_def)
qed

section \<open>Witnesses\<close>

definition demo_auth :: "fs barrier auth_module" where
  "demo_auth = (auth_module_new (core_empty demo_unsealed []))\<lparr>am_backends := [(''userpass'', Ok demo_fs_kv)]\<rparr>"

theorem enable_auth_effect_witness:
  "\<exists>a'. enable_auth longest_ancestor demo_env (barrier_storage demo_crypto demo_ops)
      (mount_entry_new ''auth'' ''pass'' ''userpass'' []) demo_auth = (Ok (), a') \<and>
    matching_mount longest_ancestor (auth_router a') ''auth/pass/'' = ''auth/pass/''"
proof -
  have st: "storage (barrier_storage demo_crypto demo_ops) (barrier_valid file_key)
      (barrier_stored demo_crypto (file_contents demo_de [''data'']))
      (barrier_ready demo_crypto file_key (file_contents demo_de [''data'']) (file_invar demo_ser demo_de [''data'']))"
    unfolding demo_ops_def by (rule fb.bar.storage_axioms)
  have v: "barrier_valid file_key AUTH_CONFIG_PATH" by code_simp
  have p: "''pass/'' = with_slash (me_path (mount_entry_new ''auth'' ''pass'' ''userpass'' []))" "''pass/'' \<noteq> ''/''"
    "me_logical_type (mount_entry_new ''auth'' ''pass'' ''userpass'' []) \<noteq> ''token''" "\<not> starts_with ''pass/'' ''auth/token''"
    by code_simp+
  have "barrier_ready demo_crypto file_key (file_contents demo_de [''data'']) (file_invar demo_ser demo_de [''data''])
      (co_storage (am_core demo_auth))"
    using demo_ready by (simp add: demo_auth_def auth_module_new_def core_empty_def)
  from enable_auth_effect [OF la.radix_axioms st this v p, of demo_fs_kv demo_env] show ?thesis
    by (auto simp: demo_auth_def auth_module_new_def core_empty_def auth_router_def mount_entry_new_def)
qed

theorem tainted_auth_mount_blocks_setup_witness:
  "fst (setup_auth longest_ancestor (demo_auth\<lparr>am_mounts := [(''pass/'', 0)],
      am_core := (core_empty demo_unsealed [])\<lparr>co_heap :=
        [(mount_entry_new ''auth'' ''pass/'' ''userpass'' [])\<lparr>me_tainted := True\<rparr>]\<rparr>\<rparr>)) = Err ErrRouterMountNotFound"
  by (rule tainted_auth_mount_blocks_setup [OF la.radix_axioms, of _ "''pass/''" 0 "[]" demo_fs_kv])
    (simp_all add: demo_auth_def auth_module_new_def core_empty_def mount_entry_new_def)

end
