(* ===== verification/Policy_Store.thy ===== *)
theory Policy_Store
  imports Acl Listing Token_Api
begin

text \<open>
  The policy store and the policy module, \<open>src/modules/policy/policy_store.rs\<close> and \<open>src/modules/policy/mod.rs\<close>:
  policies in the storage under a view for each type, a cache of parsed policies, the map from names to types, and
  the check of every authenticated request.

  The state is the storage, the two caches and the type map. The cache crate is an argument, the record
  \<open>cache_ops\<close>; what is relied on is \<open>cache_contract\<close>: it may forget what was inserted, and a lookup gives nothing else
  than the last policy inserted under the name since it was removed. The HCL parser, JSON and base64 are arguments
  too. With the three empty functions for Sentinel policies, policies of the types \<open>Rgp\<close> and \<open>Egp\<close> are never stored.
\<close>

section \<open>State\<close>

definition POLICY_ACL_SUB_PATH :: string where "POLICY_ACL_SUB_PATH = ''policy/''"
definition POLICY_RGP_SUB_PATH :: string where "POLICY_RGP_SUB_PATH = ''policy-rgp/''"
definition POLICY_EGP_SUB_PATH :: string where "POLICY_EGP_SUB_PATH = ''policy-egp/''"
definition DEFAULT_POLICY_NAME :: string where "DEFAULT_POLICY_NAME = ''default''"

text \<open>The text of a raw string literal that opens and closes with a line break.\<close>

definition policy_text :: "string list \<Rightarrow> string" where
  "policy_text ls = concat (map (\<lambda>l. CHR 0x0A # l) ls) @ [CHR 0x0A]"

definition DEFAULT_POLICY :: string where
  \<open>DEFAULT_POLICY =
     policy_text
     [''# Allow tokens to look up their own properties'',
      ''path "auth/token/lookup-self" {'',
      ''    capabilities = ["read"]'',
      ''}'',
      '''',
      ''# Allow tokens to renew themselves'',
      ''path "auth/token/renew-self" {'',
      ''    capabilities = ["update"]'',
      ''}'',
      '''',
      ''# Allow tokens to revoke themselves'',
      ''path "auth/token/revoke-self" {'',
      ''    capabilities = ["update"]'',
      ''}'',
      '''',
      ''# Allow a token to look up its own capabilities on a path'',
      ''path "sys/capabilities-self" {'',
      ''    capabilities = ["update"]'',
      ''}'',
      '''',
      ''# Allow a token to look up its own entity by id or name'',
      ''path "identity/entity/id/{{identity.entity.id}}" {'',
      ''  capabilities = ["read"]'',
      ''}'',
      ''path "identity/entity/name/{{identity.entity.name}}" {'',
      ''  capabilities = ["read"]'',
      ''}'',
      '''',
      '''',
      ''# Allow a token to look up its resultant ACL from all policies. This is useful'',
      ''# for UIs. It is an internal path because the format may change at any time'',
      ''# based on how the internal ACL features and capabilities change.'',
      ''path "sys/internal/ui/resultant-acl" {'',
      ''    capabilities = ["read"]'',
      ''}'',
      '''',
      ''# Allow a token to renew a lease via lease_id in the request body; old path for'',
      ''# old clients, new path for newer'',
      ''path "sys/renew" {'',
      ''    capabilities = ["update"]'',
      ''}'',
      ''path "sys/leases/renew" {'',
      ''    capabilities = ["update"]'',
      ''}'',
      '''',
      ''# Allow looking up lease properties. This requires knowing the lease ID ahead'',
      ''# of time and does not divulge any sensitive information.'',
      ''path "sys/leases/lookup" {'',
      ''    capabilities = ["update"]'',
      ''}'',
      '''',
      ''# Allow a token to manage its own cubbyhole'',
      ''path "cubbyhole/*" {'',
      ''    capabilities = ["create", "read", "update", "delete", "list"]'',
      ''}'',
      '''',
      ''# Allow a token to wrap arbitrary values in a response-wrapping token'',
      ''path "sys/wrapping/wrap" {'',
      ''    capabilities = ["update"]'',
      ''}'',
      '''',
      ''# Allow a token to look up the creation time and TTL of a given'',
      ''# response-wrapping token'',
      ''path "sys/wrapping/lookup" {'',
      ''    capabilities = ["update"]'',
      ''}'',
      '''',
      ''# Allow a token to unwrap a response-wrapping token. This is a convenience to'',
      ''# avoid client token swapping since this is also part of the response wrapping'',
      ''# policy.'',
      ''path "sys/wrapping/unwrap" {'',
      ''    capabilities = ["update"]'',
      ''}'',
      '''',
      ''# Allow general purpose tools'',
      ''path "sys/tools/hash" {'',
      ''    capabilities = ["update"]'',
      ''}'',
      ''path "sys/tools/hash/*" {'',
      ''    capabilities = ["update"]'',
      ''}'',
      '''',
      ''# Allow checking the status of a Control Group request if the user has the'',
      ''# accessor'',
      ''path "sys/control-group/request" {'',
      ''    capabilities = ["update"]'',
      ''}'']\<close>

definition RESPONSE_WRAPPING_POLICY :: string where
  \<open>RESPONSE_WRAPPING_POLICY =
     policy_text
     [''path "cubbyhole/response" {'',
      ''    capabilities = ["create", "read"]'',
      ''}'',
      '''',
      ''path "sys/wrapping/unwrap" {'',
      ''    capabilities = ["update"]'',
      ''}'']\<close>

definition CONTROL_GROUP_POLICY :: string where
  \<open>CONTROL_GROUP_POLICY =
     policy_text
     [''path "cubbyhole/control-group" {'',
      ''    capabilities = ["update", "create", "read"]'',
      ''}'',
      '''',
      ''path "sys/wrapping/unwrap" {'',
      ''    capabilities = ["update"]'',
      ''}'']\<close>

definition IMMUTABLE_POLICIES :: "string list" where
  "IMMUTABLE_POLICIES = [''root'', RESPONSE_WRAPPING_POLICY_NAME, CONTROL_GROUP_POLICY_NAME]"

record policy_entry =
  pe_version :: u32
  pe_raw :: string
  pe_templated :: bool
  pe_policy_type :: policy_type

record 'c cache_ops =
  cc_new :: 'c
  cc_get :: "string \<Rightarrow> 'c \<Rightarrow> policy option \<times> 'c"
  cc_insert :: "string \<Rightarrow> policy \<Rightarrow> 'c \<Rightarrow> bool \<times> 'c"
  cc_remove :: "string \<Rightarrow> 'c \<Rightarrow> 'c"

record ('s, 'c) pstate =
  ps_store :: 's
  ps_token_policies_lru :: "'c option"
  ps_egp_lru :: "'c option"
  ps_policy_type_map :: "string \<Rightarrow> policy_type option"

record ('s, 'c, 'r) penv =
  pn_sops :: "'s storage_ops"
  pn_acl_view :: "barrier_view option"
  pn_rgp_view :: "barrier_view option"
  pn_egp_view :: "barrier_view option"
  pn_cache :: "'c cache_ops"
  pn_router :: "'r router"
  pn_anc :: ancestor
  pn_ovf :: bool
  pn_hcl :: "string \<Rightarrow> hcl_body res"
  pn_enc_entry :: "policy_entry \<Rightarrow> bytes"
  pn_dec_entry :: "bytes \<Rightarrow> policy_entry option"
  pn_base64 :: "string \<Rightarrow> bytes option"
  pn_utf8_lossy :: "bytes \<Rightarrow> string"
  pn_parsers :: parsers

definition policy_type_name :: "policy_type \<Rightarrow> string" where
  "policy_type_name t = (case t of Acl \<Rightarrow> ''acl'' | Rgp \<Rightarrow> ''rgp'' | Egp \<Rightarrow> ''egp'' | Token \<Rightarrow> ''token'')"

definition on_policy_store :: "('s, 'a) op \<Rightarrow> (('s, 'c) pstate, 'a) op" where
  "on_policy_store m s = (case m (ps_store s) of (r, x) \<Rightarrow> (r, s\<lparr>ps_store := x\<rparr>))"

definition policy_default :: policy where
  "policy_default = \<lparr>po_name = [], po_paths = [], po_raw = [], po_type = Acl, po_templated = False\<rparr>"

definition sanitize_name :: "string \<Rightarrow> string" where
  "sanitize_name name = to_lowercase name"

definition cache_key :: "string \<Rightarrow> string" where
  "cache_key name = name"

definition get_acl_view :: "('s, 'c, 'r) penv \<Rightarrow> barrier_view res" where
  "get_acl_view E =
     (case pn_acl_view E of Some v \<Rightarrow> Ok v
      | None \<Rightarrow> Err (ErrString ''unable to get the barrier subview for policy type acl''))"

definition get_rgp_view :: "('s, 'c, 'r) penv \<Rightarrow> barrier_view res" where
  "get_rgp_view E =
     (case pn_rgp_view E of Some v \<Rightarrow> Ok v
      | None \<Rightarrow> Err (ErrString ''unable to get the barrier subview for policy type rpg''))"

definition get_egp_view :: "('s, 'c, 'r) penv \<Rightarrow> barrier_view res" where
  "get_egp_view E =
     (case pn_egp_view E of Some v \<Rightarrow> Ok v
      | None \<Rightarrow> Err (ErrString ''unable to get the barrier subview for policy type epg''))"

text \<open>Whatever the type, the view is the one of the access control lists.\<close>

definition get_barrier_view :: "('s, 'c, 'r) penv \<Rightarrow> policy_type \<Rightarrow> barrier_view res" where
  "get_barrier_view E t = get_acl_view E"

definition set_type :: "string \<Rightarrow> policy_type option \<Rightarrow> (('s, 'c) pstate, unit) op" where
  "set_type index t s = (Ok (), s\<lparr>ps_policy_type_map := (ps_policy_type_map s)(index := t)\<rparr>)"

section \<open>The caches\<close>

datatype which_cache = TokenPolicies | Egps

definition cache_of :: "which_cache \<Rightarrow> ('s, 'c) pstate \<Rightarrow> 'c option" where
  "cache_of w s = (case w of TokenPolicies \<Rightarrow> ps_token_policies_lru s | Egps \<Rightarrow> ps_egp_lru s)"

definition set_cache :: "which_cache \<Rightarrow> 'c \<Rightarrow> ('s, 'c) pstate \<Rightarrow> ('s, 'c) pstate" where
  "set_cache w c s =
     (case w of TokenPolicies \<Rightarrow> s\<lparr>ps_token_policies_lru := Some c\<rparr> | Egps \<Rightarrow> s\<lparr>ps_egp_lru := Some c\<rparr>)"

definition cache_get ::
  "('s, 'c, 'r) penv \<Rightarrow> which_cache option \<Rightarrow> string \<Rightarrow> (('s, 'c) pstate, policy option) op" where
  "cache_get E w index s =
     (case w of
        None \<Rightarrow> (Ok None, s)
      | Some w' \<Rightarrow>
          (case cache_of w' s of
             None \<Rightarrow> (Ok None, s)
           | Some c \<Rightarrow> (case cc_get (pn_cache E) index c of (r, c') \<Rightarrow> (Ok r, set_cache w' c' s))))"

text \<open>\<open>get_policy\<close> ignores whether the cache took the policy, the functions that save a policy do not.\<close>

definition cache_insert ::
  "('s, 'c, 'r) penv \<Rightarrow> which_cache option \<Rightarrow> string \<Rightarrow> policy \<Rightarrow> (('s, 'c) pstate, bool) op" where
  "cache_insert E w index p s =
     (case w of
        None \<Rightarrow> (Ok True, s)
      | Some w' \<Rightarrow>
          (case cache_of w' s of
             None \<Rightarrow> (Ok True, s)
           | Some c \<Rightarrow> (case cc_insert (pn_cache E) index p c of (ok, c') \<Rightarrow> (Ok ok, set_cache w' c' s))))"

definition save_cache ::
  "('s, 'c, 'r) penv \<Rightarrow> which_cache \<Rightarrow> string \<Rightarrow> policy \<Rightarrow> (('s, 'c) pstate, unit) op" where
  "save_cache E w index p =
     op_bind (cache_insert E (Some w) index p) (\<lambda>ok.
       if ok then op_return () else op_fail (ErrString ''save token policy cache failed!''))"

definition save_token_policy_cache :: "('s, 'c, 'r) penv \<Rightarrow> string \<Rightarrow> policy \<Rightarrow> (('s, 'c) pstate, unit) op" where
  "save_token_policy_cache E = save_cache E TokenPolicies"

definition save_egp_cache :: "('s, 'c, 'r) penv \<Rightarrow> string \<Rightarrow> policy \<Rightarrow> (('s, 'c) pstate, unit) op" where
  "save_egp_cache E = save_cache E Egps"

definition remove_cache :: "('s, 'c, 'r) penv \<Rightarrow> which_cache \<Rightarrow> string \<Rightarrow> (('s, 'c) pstate, unit) op" where
  "remove_cache E w index s =
     (case cache_of w s of
        None \<Rightarrow> (Ok (), s)
      | Some c \<Rightarrow> (Ok (), set_cache w (cc_remove (pn_cache E) index c) s))"

definition remove_token_policy_cache :: "('s, 'c, 'r) penv \<Rightarrow> string \<Rightarrow> (('s, 'c) pstate, unit) op" where
  "remove_token_policy_cache E = remove_cache E TokenPolicies"

definition remove_egp_cache :: "('s, 'c, 'r) penv \<Rightarrow> string \<Rightarrow> (('s, 'c) pstate, unit) op" where
  "remove_egp_cache E = remove_cache E Egps"

definition handle_sentinel_policy :: "(('s, 'c) pstate, unit) op" where
  "handle_sentinel_policy = op_return ()"

definition invalidate_sentinal_policy :: "policy_type \<Rightarrow> string \<Rightarrow> (('s, 'c) pstate, unit) op" where
  "invalidate_sentinal_policy t index = op_return ()"

definition invalidate_egp_tree_path :: "string \<Rightarrow> (('s, 'c) pstate, unit) op" where
  "invalidate_egp_tree_path index = op_return ()"

section \<open>Operations\<close>

text \<open>The view, the cache and the type that \<open>get_policy\<close> looks in.\<close>

definition policy_place ::
  "('s, 'c, 'r) penv \<Rightarrow> string \<Rightarrow> policy_type \<Rightarrow> ('s, 'c) pstate \<Rightarrow>
    (barrier_view option \<times> which_cache option \<times> policy_type) res" where
  "policy_place E index t s =
     (let acl = res_bind (get_acl_view E) (\<lambda>v. Ok (Some v, Some TokenPolicies, Acl));
          rgp = res_bind (get_rgp_view E) (\<lambda>v. Ok (Some v, Some TokenPolicies, Rgp))
      in case t of
           Acl \<Rightarrow> acl
         | Rgp \<Rightarrow> rgp
         | Egp \<Rightarrow> res_bind (get_egp_view E) (\<lambda>v. Ok (Some v, Some Egps, Egp))
         | Token \<Rightarrow>
             (case ps_policy_type_map s index of
                None \<Rightarrow> Ok (None, None, Token)
              | Some Acl \<Rightarrow> acl
              | Some Rgp \<Rightarrow> rgp
              | Some t' \<Rightarrow> Err (ErrString (''invalid type of policy in type map: '' @ policy_type_name t'))))"

text \<open>The policy of a stored entry.\<close>

definition policy_of_entry ::
  "('s, 'c, 'r) penv \<Rightarrow> string \<Rightarrow> policy_type \<Rightarrow> policy_entry \<Rightarrow> (('s, 'c) pstate, policy) op" where
  "policy_of_entry E index t pe =
     (case t of
        Acl \<Rightarrow>
          op_bind (op_res (policy_from_str (pn_hcl E) (pe_raw pe))) (\<lambda>p.
          op_bind (set_type index (Some Acl)) (\<lambda>_. op_return p))
      | Rgp \<Rightarrow>
          op_bind handle_sentinel_policy (\<lambda>_.
          op_bind (set_type index (Some Rgp)) (\<lambda>_. op_return policy_default))
      | Egp \<Rightarrow> op_bind handle_sentinel_policy (\<lambda>_. op_return policy_default)
      | Token \<Rightarrow> op_fail (ErrString ''invalid type of policy''))"

definition load_policy ::
  "('s, 'c, 'r) penv \<Rightarrow> barrier_view \<Rightarrow> which_cache option \<Rightarrow> policy_type \<Rightarrow> string \<Rightarrow> (('s, 'c) pstate, policy option) op" where
  "load_policy E v w t name =
     op_bind (on_policy_store (view_get (pn_sops E) v name)) (\<lambda>entry.
       case entry of
         None \<Rightarrow> op_return None
       | Some e \<Rightarrow>
           (case pn_dec_entry E (se_value e) of
              None \<Rightarrow> op_fail (External SerdeJson ''invalid policy entry'')
            | Some pe \<Rightarrow>
                op_bind (policy_of_entry E (cache_key name) t pe) (\<lambda>p0.
                let p = p0\<lparr>po_name := name, po_type := pe_policy_type pe, po_templated := pe_templated pe\<rparr> in
                op_bind (cache_insert E w (cache_key name) p) (\<lambda>_. op_return (Some p)))))"

definition get_policy ::
  "('s, 'c, 'r) penv \<Rightarrow> string \<Rightarrow> policy_type \<Rightarrow> (('s, 'c) pstate, policy option) op" where
  "get_policy E name0 t0 s =
     (let name = sanitize_name name0; index = cache_key name in
      op_bind (op_res (policy_place E index t0 s)) (\<lambda>(view, w, t).
      op_bind (cache_get E w index) (\<lambda>hit.
        case hit of
          Some p \<Rightarrow> op_return (Some p)
        | None \<Rightarrow>
            if t = Acl \<and> name = ''root'' then
              let p = policy_default\<lparr>po_name := ''root''\<rparr> in
              op_bind (cache_insert E w index p) (\<lambda>_. op_return (Some p))
            else
              (case view of
                 None \<Rightarrow> op_fail (ErrString (''unable to get the barrier subview for policy type '' @ policy_type_name t))
               | Some v \<Rightarrow> load_policy E v w t name))) s)"

definition set_policy_internal :: "('s, 'c, 'r) penv \<Rightarrow> policy \<Rightarrow> (('s, 'c) pstate, unit) op" where
  "set_policy_internal E p =
     op_bind (op_res (get_barrier_view E (po_type p))) (\<lambda>view.
     let pe = \<lparr>pe_version = 2, pe_raw = po_raw p, pe_templated = po_templated p, pe_policy_type = po_type p\<rparr>;
         entry = \<lparr>se_key = po_name p, se_value = pn_enc_entry E pe\<rparr>;
         index = cache_key (po_name p);
         reuse = op_fail (ErrString ''cannot reuse policy names between ACLs and RGPs'')
     in case po_type p of
          Acl \<Rightarrow>
            op_bind (op_res (get_rgp_view E)) (\<lambda>rgp_view.
            op_bind (on_policy_store (view_get (pn_sops E) rgp_view (po_name p))) (\<lambda>rgp.
            if rgp \<noteq> None then reuse
            else
              op_bind (on_policy_store (view_put (pn_sops E) view entry)) (\<lambda>_.
              op_bind (set_type index (Some Acl)) (\<lambda>_. save_token_policy_cache E index p))))
        | Rgp \<Rightarrow>
            op_bind (op_res (get_acl_view E)) (\<lambda>acl_view.
            op_bind (on_policy_store (view_get (pn_sops E) acl_view (po_name p))) (\<lambda>acl.
            if acl \<noteq> None then reuse
            else
              op_bind handle_sentinel_policy (\<lambda>_.
              op_bind (set_type index (Some Rgp)) (\<lambda>_. save_token_policy_cache E index p))))
        | Egp \<Rightarrow> op_bind handle_sentinel_policy (\<lambda>_. save_egp_cache E index p)
        | Token \<Rightarrow> op_fail (ErrString ''unknown policy type, cannot set''))"

definition set_policy :: "('s, 'c, 'r) penv \<Rightarrow> policy \<Rightarrow> (('s, 'c) pstate, unit) op" where
  "set_policy E p =
     (if po_name p = [] then op_fail (ErrString ''policy name missing'')
      else
        let name = sanitize_name (po_name p) in
        if name \<in> set IMMUTABLE_POLICIES then op_fail (ErrString (''cannot update '' @ name @ '' policy''))
        else set_policy_internal E (p\<lparr>po_name := name\<rparr>))"

definition list_keys :: "('s, 'c, 'r) penv \<Rightarrow> barrier_view \<Rightarrow> (('s, 'c) pstate, string list) pop" where
  "list_keys E v s = map_option (\<lambda>(r, x). (r, s\<lparr>ps_store := x\<rparr>)) (get_keys (pn_sops E) v (ps_store s))"

definition list_policy :: "('s, 'c, 'r) penv \<Rightarrow> policy_type \<Rightarrow> (('s, 'c) pstate, string list) pop" where
  "list_policy E t =
     pop_bind (pop_of (op_res (get_barrier_view E t))) (\<lambda>view.
       case t of
         Acl \<Rightarrow> pop_bind (list_keys E view) (\<lambda>keys.
           pop_of (op_return (filter (\<lambda>k. k \<notin> set NON_ASSIGNABLE_POLICIES) keys)))
       | Rgp \<Rightarrow> list_keys E view
       | Egp \<Rightarrow> list_keys E view
       | Token \<Rightarrow> pop_of (op_fail (ErrString ''invalid type of policy'')))"

definition delete_policy :: "('s, 'c, 'r) penv \<Rightarrow> string \<Rightarrow> policy_type \<Rightarrow> (('s, 'c) pstate, unit) op" where
  "delete_policy E name0 t =
     (let name = sanitize_name name0; index = cache_key name in
      op_bind (op_res (get_barrier_view E t)) (\<lambda>view.
        case t of
          Acl \<Rightarrow>
            if name \<in> set IMMUTABLE_POLICIES then op_fail (ErrResponseStatus 400 (''cannot delete '' @ name @ '' policy''))
            else if name = ''default'' then op_fail (ErrResponseStatus 400 ''cannot delete default policy'')
            else
              op_bind (on_policy_store (view_delete (pn_sops E) view name)) (\<lambda>_.
              op_bind (remove_token_policy_cache E index) (\<lambda>_. set_type index None))
        | Rgp \<Rightarrow>
            op_bind (on_policy_store (view_delete (pn_sops E) view name)) (\<lambda>_.
            op_bind (remove_token_policy_cache E index) (\<lambda>_.
            op_bind (set_type index None) (\<lambda>_. invalidate_sentinal_policy t [])))
        | Egp \<Rightarrow>
            op_bind (on_policy_store (view_delete (pn_sops E) view name)) (\<lambda>_.
            op_bind (remove_egp_cache E index) (\<lambda>_.
            op_bind (invalidate_egp_tree_path []) (\<lambda>_. invalidate_sentinal_policy t [])))
        | Token \<Rightarrow> op_fail (ErrString ''unknown policy type, cannot set'')))"

definition load_acl_policy :: "('s, 'c, 'r) penv \<Rightarrow> string \<Rightarrow> string \<Rightarrow> (('s, 'c) pstate, unit) op" where
  "load_acl_policy E policy_name text =
     (let name = sanitize_name policy_name in
      op_bind (get_policy E name Acl) (\<lambda>r.
        if (case r of None \<Rightarrow> False | Some p \<Rightarrow> name \<notin> set IMMUTABLE_POLICIES \<or> text = po_raw p) then op_return ()
        else
          op_bind (op_res (policy_from_str (pn_hcl E) text)) (\<lambda>p.
            set_policy_internal E (p\<lparr>po_name := name, po_type := Acl\<rparr>))))"

definition load_default_acl_policy :: "('s, 'c, 'r) penv \<Rightarrow> (('s, 'c) pstate, unit) op" where
  "load_default_acl_policy E =
     op_bind (load_acl_policy E DEFAULT_POLICY_NAME DEFAULT_POLICY) (\<lambda>_.
     op_bind (load_acl_policy E RESPONSE_WRAPPING_POLICY_NAME RESPONSE_WRAPPING_POLICY) (\<lambda>_.
       load_acl_policy E CONTROL_GROUP_POLICY_NAME CONTROL_GROUP_POLICY))"

text \<open>\<open>PolicyStore::new\<close>: the views, fresh caches, and a type for every policy in the storage and for \<open>root\<close>.\<close>

definition policy_store_new ::
  "('s, 'c, 'r) penv \<Rightarrow> barrier_view option \<Rightarrow> (('s, 'c) pstate, ('s, 'c, 'r) penv) pop" where
  "policy_store_new E system_view =
     (case system_view of
        None \<Rightarrow> pop_of (op_fail ErrBarrierSealed)
      | Some sv \<Rightarrow>
          let acl_view = new_sub_view sv POLICY_ACL_SUB_PATH;
              E' = E\<lparr>pn_acl_view := Some acl_view, pn_rgp_view := Some (new_sub_view sv POLICY_RGP_SUB_PATH),
                     pn_egp_view := Some (new_sub_view sv POLICY_EGP_SUB_PATH)\<rparr>
          in pop_bind (list_keys E acl_view) (\<lambda>keys s.
               Some (Ok E', s\<lparr>ps_token_policies_lru := Some (cc_new (pn_cache E)), ps_egp_lru := Some (cc_new (pn_cache E)),
                 ps_policy_type_map := (fold (\<lambda>k m. m(cache_key k \<mapsto> Acl)) keys Map.empty)(cache_key ''root'' \<mapsto> Acl)\<rparr>)))"

fun get_policies :: "('s, 'c, 'r) penv \<Rightarrow> string list \<Rightarrow> (('s, 'c) pstate, policy list) op" where
  "get_policies E [] = op_return []"
| "get_policies E (n # ns) =
     op_bind (get_policy E n Token) (\<lambda>r.
     op_bind (get_policies E ns) (\<lambda>ps. op_return ((case r of Some p \<Rightarrow> [p] | None \<Rightarrow> []) @ ps)))"

definition new_acl :: "('s, 'c, 'r) penv \<Rightarrow> string list \<Rightarrow> policy list option \<Rightarrow> (('s, 'c) pstate, acl) op" where
  "new_acl E names additional =
     op_bind (get_policies E names) (\<lambda>ps.
       op_res (acl_new (ps @ (case additional of Some ap \<Rightarrow> ap | None \<Rightarrow> []))))"

section \<open>The check of a request\<close>

definition post_auth :: "('s, 'c, 'r) penv \<Rightarrow> (('s, 'c) pstate \<times> request, unit) op" where
  "post_auth E st =
     (let s = fst st; req = snd st; is_root_path = is_root_path (pn_anc E) (pn_router E) (rq_path req);
          no_root = Err (ErrString ''cannot access root path in unauthenticated request'')
      in case rq_auth req of
           None \<Rightarrow> (if is_root_path then no_root else Ok (), st)
         | Some au \<Rightarrow>
             if au_policies au = [] then (Ok (), st)
             else (case new_acl E (au_policies au) None s of
                 (Err e, s1) \<Rightarrow> (Err e, (s1, req))
               | (Panic, s1) \<Rightarrow> (Panic, (s1, req))
               | (Ok acl, s1) \<Rightarrow>
                   (case allow_operation (pn_anc E) (pn_ovf E) acl req False of
                      Err e \<Rightarrow> (Err e, (s1, req))
                    | Panic \<Rightarrow> (Panic, (s1, req))
                    | Ok res \<Rightarrow>
                        if is_root_path \<and> \<not> ar_root_privs res \<and> rq_operation req \<noteq> Help then (no_root, (s1, req))
                        else
                          (if ar_allowed res then Ok () else Err ErrPermissionDenied,
                           (s1, req\<lparr>rq_auth := Some (au\<lparr>au_policy_results :=
                              Some \<lparr>pr_allowed = ar_allowed res, pr_granting_policies = ar_granting_policies res\<rparr>\<rparr>)\<rparr>)))))"

text \<open>As a handler of the requests of the token store, whose storage is the storage and the state above.\<close>

definition lift_storage :: "'s storage_ops \<Rightarrow> ('s, 'c) pstate storage_ops" where
  "lift_storage sops =
     \<lparr>storage_list = (\<lambda>p. on_policy_store (storage_list sops p)),
      storage_get = (\<lambda>k. on_policy_store (storage_get sops k)),
      storage_put = (\<lambda>e. on_policy_store (storage_put sops e)),
      storage_delete = (\<lambda>k. on_policy_store (storage_delete sops k))\<rparr>"

definition policy_auth_handler :: "('s, 'c, 'r) penv \<Rightarrow> ('s, 'c) pstate auth_handler" where
  "policy_auth_handler E =
     \<lparr>ah_name = ''policy_store'',
      ah_pre_auth = (\<lambda>st. (Err ErrHandlerDefault, st)),
      ah_post_auth = (\<lambda>(t, req).
        case post_auth E (ts_store t, req) of (r, (x, req')) \<Rightarrow> (r, (t\<lparr>ts_store := x\<rparr>, req')))\<rparr>"

section \<open>The policy module\<close>

definition handle_policy_list :: "('s, 'c, 'r) penv \<Rightarrow> (('s, 'c) pstate \<times> request, response option) pop" where
  "handle_policy_list E st =
     keep_req st (pop_bind (list_policy E Acl) (\<lambda>policies.
       let keys = JArray (map JString (policies @ [''root'']));
           resp = list_response (policies @ [''root'']);
           data = (if starts_with (rq_path (snd st)) ''policy'' then obj_insert ''policies'' keys [(''keys'', keys)]
                   else [(''keys'', keys)])
       in pop_of (op_return (Some (resp\<lparr>rs_data := Some data\<rparr>)))))"

definition handle_policy_read :: "('s, 'c, 'r) penv \<Rightarrow> (('s, 'c) pstate \<times> request, response option) op" where
  "handle_policy_read E st =
     on_state st (\<lambda>req.
       op_bind (op_res (get_data_as_str (pn_parsers E) req ''name'')) (\<lambda>name.
       op_bind (get_policy E name Acl) (\<lambda>r.
         case r of
           None \<Rightarrow> op_fail (ErrResponseStatus 404 (''No policy named: '' @ name))
         | Some p \<Rightarrow>
             let field = (if starts_with (rq_path req) ''policy'' then ''rules'' else ''policy'') in
             op_return (Some (data_response (Some
               (obj_insert field (JString (po_raw p)) [(''name'', JString name)])))))))"

definition decode_policy :: "('s, 'c, 'r) penv \<Rightarrow> string \<Rightarrow> string" where
  "decode_policy E str = (case pn_base64 E str of Some b \<Rightarrow> pn_utf8_lossy E b | None \<Rightarrow> str)"

definition handle_policy_write :: "('s, 'c, 'r) penv \<Rightarrow> (('s, 'c) pstate \<times> request, response option) op" where
  "handle_policy_write E st =
     on_state st (\<lambda>req.
       op_bind (op_res (get_data_as_str (pn_parsers E) req ''name'')) (\<lambda>name.
       op_bind (op_res (get_data (pn_parsers E) req ''policy'')) (\<lambda>v.
         case as_str v of
           None \<Rightarrow> op_fail ErrRequestFieldInvalid
         | Some str \<Rightarrow>
             op_bind (op_res (policy_from_str (pn_hcl E) (decode_policy E str))) (\<lambda>p.
             op_bind (set_policy E (p\<lparr>po_name := name\<rparr>)) (\<lambda>_. op_return None)))))"

definition handle_policy_delete :: "('s, 'c, 'r) penv \<Rightarrow> (('s, 'c) pstate \<times> request, response option) op" where
  "handle_policy_delete E st =
     on_state st (\<lambda>req.
       op_bind (op_res (get_data_as_str (pn_parsers E) req ''name'')) (\<lambda>name.
       op_bind (delete_policy E name Acl) (\<lambda>_. op_return None)))"

definition add_auth_handler :: "'s auth_handler \<Rightarrow> 's auth_handler list \<Rightarrow> 's auth_handler list res" where
  "add_auth_handler h hs =
     (if list_ex (\<lambda>x. ah_name x = ah_name h) hs then Err ErrCoreHandlerExist else Ok (hs @ [h]))"

definition delete_auth_handler :: "'s auth_handler \<Rightarrow> 's auth_handler list \<Rightarrow> 's auth_handler list" where
  "delete_auth_handler h hs = filter (\<lambda>x. ah_name x \<noteq> ah_name h) hs"

text \<open>\<open>Module::init\<close> and \<open>Module::cleanup\<close>; the handlers are those of the core.\<close>

definition policy_module_init ::
  "('s, 'c, 'r) penv \<Rightarrow> barrier_view option \<Rightarrow> ('s, 'c) pstate auth_handler list \<Rightarrow>
    (('s, 'c) pstate, ('s, 'c, 'r) penv \<times> ('s, 'c) pstate auth_handler list) pop" where
  "policy_module_init E system_view handlers =
     pop_bind (policy_store_new E system_view) (\<lambda>E'.
     pop_bind (pop_of (load_default_acl_policy E')) (\<lambda>_.
       pop_of (op_bind (op_res (add_auth_handler (policy_auth_handler E') handlers)) (\<lambda>hs. op_return (E', hs)))))"

definition policy_module_cleanup ::
  "('s, 'c, 'r) penv \<Rightarrow> ('s, 'c) pstate auth_handler list \<Rightarrow> ('s, 'c) pstate \<Rightarrow>
    ('s, 'c, 'r) penv \<times> ('s, 'c) pstate auth_handler list \<times> ('s, 'c) pstate" where
  "policy_module_cleanup E handlers s =
     (E\<lparr>pn_acl_view := None, pn_rgp_view := None, pn_egp_view := None\<rparr>,
      delete_auth_handler (policy_auth_handler E) handlers,
      s\<lparr>ps_token_policies_lru := None, ps_egp_lru := None, ps_policy_type_map := Map.empty\<rparr>)"

end
