(* ===== verification/Policies.thy ===== *)
theory Policies
  imports Policy_Store Tokens
begin

text \<open>
  The properties of the policy store. The invariant \<open>policy_inv\<close> is that the cache agrees with the storage and that the
  type map lists the stored policies. Under it every lookup has the value it has without a cache, and the check of a
  request is \<open>authorise\<close>, which reads the storage only. The locale \<open>policy_storage\<close> is interpreted on the barrier over
  files, for the views that \<open>PolicyStore::new\<close> makes.
\<close>

section \<open>Specification\<close>

definition cache_contract :: "'c cache_ops \<Rightarrow> ('c \<Rightarrow> string \<Rightarrow> policy option) \<Rightarrow> bool" where
  "cache_contract cc holds \<longleftrightarrow>
     holds (cc_new cc) = Map.empty \<and>
     (\<forall>k c r c'. cc_get cc k c = (r, c') \<longrightarrow> (\<forall>p. r = Some p \<longrightarrow> holds c k = Some p) \<and> holds c' \<subseteq>\<^sub>m holds c) \<and>
     (\<forall>k p c ok c'. cc_insert cc k p c = (ok, c') \<longrightarrow>
        holds c' \<subseteq>\<^sub>m (if ok then (holds c)(k \<mapsto> p) else holds c)) \<and>
     (\<forall>k c. holds (cc_remove cc k c) \<subseteq>\<^sub>m (holds c)(k := None))"

definition root_policy :: policy where
  "root_policy = policy_default\<lparr>po_name := ''root''\<rparr>"

text \<open>The policy that a stored value stands for.\<close>

definition entry_policy :: "('s, 'c, 'r) penv \<Rightarrow> string \<Rightarrow> bytes \<Rightarrow> policy res" where
  "entry_policy E n b =
     (case pn_dec_entry E b of
        None \<Rightarrow> Err (External SerdeJson ''invalid policy entry'')
      | Some pe \<Rightarrow>
          res_bind (policy_from_str (pn_hcl E) (pe_raw pe)) (\<lambda>p.
            Ok (p\<lparr>po_name := n, po_type := pe_policy_type pe, po_templated := pe_templated pe\<rparr>)))"

definition named_policy :: "('s, 'c, 'r) penv \<Rightarrow> contents \<Rightarrow> string \<Rightarrow> policy option res" where
  "named_policy E m n =
     (if n = ''root'' then Ok (Some root_policy)
      else case m n of None \<Rightarrow> Ok None | Some b \<Rightarrow> res_bind (entry_policy E n b) (\<lambda>p. Ok (Some p)))"

text \<open>A policy of a token must exist.\<close>

definition token_policy :: "('s, 'c, 'r) penv \<Rightarrow> contents \<Rightarrow> string \<Rightarrow> policy res" where
  "token_policy E m n =
     (if n = ''root'' then Ok root_policy
      else case m n of
          None \<Rightarrow> Err (ErrString ''unable to get the barrier subview for policy type token'')
        | Some b \<Rightarrow> entry_policy E n b)"

definition authorise :: "('s, 'c, 'r) penv \<Rightarrow> contents \<Rightarrow> request \<Rightarrow> unit res" where
  "authorise E m req =
     (let root_path = is_root_path (pn_anc E) (pn_router E) (rq_path req);
          no_root = Err (ErrString ''cannot access root path in unauthenticated request'')
      in case rq_auth req of
           None \<Rightarrow> if root_path then no_root else Ok ()
         | Some au \<Rightarrow>
             if au_policies au = [] then Ok ()
             else
               res_bind (res_mapM (\<lambda>n. token_policy E m (to_lowercase n)) (au_policies au)) (\<lambda>ps.
               res_bind (acl_new ps) (\<lambda>acl.
               res_bind (allow_operation (pn_anc E) (pn_ovf E) acl req False) (\<lambda>res.
                 if root_path \<and> \<not> ar_root_privs res \<and> rq_operation req \<noteq> Help then no_root
                 else if ar_allowed res then Ok () else Err ErrPermissionDenied))))"

text \<open>The cache agrees with the storage, and the types are those of the stored policies.\<close>

definition cache_ok ::
  "('s, 'c, 'r) penv \<Rightarrow> ('c \<Rightarrow> string \<Rightarrow> policy option) \<Rightarrow> (string \<Rightarrow> bool) \<Rightarrow> contents \<Rightarrow> ('s, 'c) pstate \<Rightarrow> bool" where
  "cache_ok E holds name_ok m s \<longleftrightarrow>
     (\<forall>c k p. ps_token_policies_lru s = Some c \<longrightarrow> holds c k = Some p \<longrightarrow> name_ok k \<longrightarrow>
        named_policy E m k = Ok (Some p))"

definition types_ok :: "(string \<Rightarrow> bool) \<Rightarrow> contents \<Rightarrow> ('s, 'c) pstate \<Rightarrow> bool" where
  "types_ok name_ok m s \<longleftrightarrow>
     (\<forall>k. name_ok k \<or> k = ''root'' \<longrightarrow>
        ps_policy_type_map s k = (if k = ''root'' \<or> m k \<noteq> None then Some Acl else None))"

section \<open>The cache\<close>

lemma sanitize_cache [simp]: "sanitize_name n = to_lowercase n" "cache_key n = n"
  by (simp_all add: sanitize_name_def cache_key_def)

lemma named_policy_cong: "m' k = m k \<Longrightarrow> named_policy E m' k = named_policy E m k"
  by (simp add: named_policy_def)

lemma cache_getE:
  assumes "cache_contract (pn_cache E) holds" "cache_ok E holds name_ok m s"
  obtains r s' where "cache_get E (Some TokenPolicies) k s = (Ok r, s')" "ps_store s' = ps_store s"
    "ps_policy_type_map s' = ps_policy_type_map s" "cache_ok E holds name_ok m s'"
    "\<And>p. r = Some p \<Longrightarrow> name_ok k \<Longrightarrow> named_policy E m k = Ok (Some p)"
proof (cases "ps_token_policies_lru s")
  case None
  then have "cache_get E (Some TokenPolicies) k s = (Ok None, s)" by (simp add: cache_get_def cache_of_def)
  then show ?thesis using that assms(2) by blast
next
  case (Some c)
  obtain r c' where g: "cc_get (pn_cache E) k c = (r, c')" by fastforce
  then have r: "r = Some p \<Longrightarrow> holds c k = Some p" and c': "holds c' \<subseteq>\<^sub>m holds c" for p
    using assms(1) unfolding cache_contract_def by blast+
  have "cache_get E (Some TokenPolicies) k s = (Ok r, s\<lparr>ps_token_policies_lru := Some c'\<rparr>)"
    using Some g by (simp add: cache_get_def cache_of_def set_cache_def)
  moreover have "cache_ok E holds name_ok m (s\<lparr>ps_token_policies_lru := Some c'\<rparr>)"
    using assms(2) Some c' by (auto simp: cache_ok_def map_le_def dom_def)
  moreover have "named_policy E m k = Ok (Some p)" if "r = Some p" "name_ok k" for p
    using assms(2) Some r [OF that(1)] that(2) by (auto simp: cache_ok_def)
  ultimately show ?thesis using that by simp
qed

lemma cache_insertE:
  assumes "cache_contract (pn_cache E) holds" "cache_ok E holds name_ok m s"
    and "\<And>j. name_ok j \<Longrightarrow> j \<noteq> k \<Longrightarrow> m' j = m j"
    and "name_ok k \<Longrightarrow> named_policy E m' k = Ok (Some p)"
  obtains ok s' where "cache_insert E (Some TokenPolicies) k p s = (Ok ok, s')" "ps_store s' = ps_store s"
    "ps_policy_type_map s' = ps_policy_type_map s"
    "ok \<or> m' = m \<Longrightarrow> cache_ok E holds name_ok m' s'" "\<forall>c. fst (cc_insert (pn_cache E) k p c) \<Longrightarrow> ok"
proof (cases "ps_token_policies_lru s")
  case None
  then have "cache_insert E (Some TokenPolicies) k p s = (Ok True, s)" by (simp add: cache_insert_def cache_of_def)
  then show ?thesis using that None by (auto simp: cache_ok_def)
next
  case (Some c)
  obtain ok c' where g: "cc_insert (pn_cache E) k p c = (ok, c')" by fastforce
  then have c': "holds c' \<subseteq>\<^sub>m (if ok then (holds c)(k \<mapsto> p) else holds c)"
    using assms(1) unfolding cache_contract_def by blast
  have "cache_ok E holds name_ok m' (s\<lparr>ps_token_policies_lru := Some c'\<rparr>)" if okm: "ok \<or> m' = m"
    unfolding cache_ok_def
  proof (intro allI impI)
    fix d j q
    assume "ps_token_policies_lru (s\<lparr>ps_token_policies_lru := Some c'\<rparr>) = Some d" "holds d j = Some q" and j: "name_ok j"
    then have "(if ok then (holds c)(k \<mapsto> p) else holds c) j = Some q"
      using c' by (force simp: map_le_def dom_def)
    then consider "j = k" "q = p" | "j \<noteq> k \<or> m' = m" "holds c j = Some q"
      using okm by (auto split: if_splits)
    then show "named_policy E m' j = Ok (Some q)"
    proof cases
      case 2
      then have "named_policy E m j = Ok (Some q)" using assms(2) Some j by (auto simp: cache_ok_def)
      then show ?thesis using 2(1) named_policy_cong [of m' j m E] assms(3) [OF j] by auto
    qed (use assms(4) j in simp)
  qed
  moreover have "ok" if "\<forall>c. fst (cc_insert (pn_cache E) k p c)" using that g by (metis fst_conv)
  ultimately show ?thesis
    using that [of ok "s\<lparr>ps_token_policies_lru := Some c'\<rparr>"] Some g by (simp add: cache_insert_def cache_of_def set_cache_def)
qed

lemma cache_removeE:
  assumes "cache_contract (pn_cache E) holds" "cache_ok E holds name_ok m s"
    and "\<And>j. name_ok j \<Longrightarrow> j \<noteq> k \<Longrightarrow> m' j = m j"
  obtains s' where "remove_token_policy_cache E k s = (Ok (), s')" "ps_store s' = ps_store s"
    "ps_policy_type_map s' = ps_policy_type_map s" "cache_ok E holds name_ok m' s'"
proof (cases "ps_token_policies_lru s")
  case None
  then show ?thesis
    using that [of s] by (simp add: remove_token_policy_cache_def remove_cache_def cache_of_def cache_ok_def)
next
  case (Some c)
  let ?s = "s\<lparr>ps_token_policies_lru := Some (cc_remove (pn_cache E) k c)\<rparr>"
  have h: "holds (cc_remove (pn_cache E) k c) \<subseteq>\<^sub>m (holds c)(k := None)"
    using assms(1) unfolding cache_contract_def by blast
  have "cache_ok E holds name_ok m' ?s"
    unfolding cache_ok_def
  proof (intro allI impI)
    fix d j q
    assume "ps_token_policies_lru ?s = Some d" "holds d j = Some q" and j: "name_ok j"
    then have "((holds c)(k := None)) j = Some q" using h by (force simp: map_le_def dom_def)
    then have "j \<noteq> k" "holds c j = Some q" by (auto split: if_splits)
    then have "named_policy E m j = Ok (Some q)" using assms(2) Some j by (auto simp: cache_ok_def)
    then show "named_policy E m' j = Ok (Some q)"
      using named_policy_cong [of m' j m E] assms(3) [OF j \<open>j \<noteq> k\<close>] by simp
  qed
  then show ?thesis
    using that [of ?s] Some by (simp add: remove_token_policy_cache_def remove_cache_def cache_of_def set_cache_def)
qed


section \<open>The operations\<close>

locale policy_storage = storage sops valid stored ready
  for sops :: "'s storage_ops" and valid stored ready +
  fixes E :: "('s, 'c, 'r) penv" and acl rgp :: barrier_view
  assumes env: "pn_sops E = sops" "pn_acl_view E = Some acl" "pn_rgp_view E = Some rgp"
    and apart: "\<not> starts_with (bv_prefix acl) (bv_prefix rgp)" "\<not> starts_with (bv_prefix rgp) (bv_prefix acl)"

sublocale policy_storage \<subseteq> av: storage_view sops valid stored ready acl
  by unfold_locales

sublocale policy_storage \<subseteq> rv: storage_view sops valid stored ready rgp
  by unfold_locales

context policy_storage
begin

definition name_ok :: "string \<Rightarrow> bool" where
  "name_ok n \<longleftrightarrow> view_valid valid acl n \<and> view_valid valid rgp n"

definition acls :: "('s, 'c) pstate \<Rightarrow> contents" where
  "acls s = view_stored stored acl (ps_store s)"

definition pinv :: "('c \<Rightarrow> string \<Rightarrow> policy option) \<Rightarrow> ('s, 'c) pstate \<Rightarrow> bool" where
  "pinv holds s \<longleftrightarrow>
     cache_contract (pn_cache E) holds \<and> ready (ps_store s) \<and>
     (\<forall>n. name_ok n \<longrightarrow> view_stored stored rgp (ps_store s) n = None) \<and>
     types_ok name_ok (acls s) s \<and> cache_ok E holds name_ok (acls s) s"

lemmas views = env(2,3) get_acl_view_def get_rgp_view_def get_barrier_view_def

lemma acl_get:
  assumes "ready (ps_store s)" "name_ok n"
  shows "on_policy_store (view_get sops acl n) s =
    (Ok (map_option (\<lambda>x. \<lparr>se_key = n, se_value = x\<rparr>) (acls s n)), s)"
  using av.view_get_stored [OF assms(1), of n] assms(2) by (simp add: on_policy_store_def name_ok_def acls_def)

text \<open>The storage is read when the cache has no answer; the answer is the same.\<close>

lemma load_policy_spec:
  assumes inv: "pinv holds s" and n: "name_ok n" "n \<noteq> ''root''"
  shows "\<exists>s'. load_policy E acl (Some TokenPolicies) Acl n s = (named_policy E (acls s) n, s') \<and>
    ps_store s' = ps_store s \<and> pinv holds s'"
proof (cases "acls s n")
  case None
  then show ?thesis
    using acl_get [OF _ n(1), of s] inv n(2) by (simp add: load_policy_def env named_policy_def pinv_def)
next
  case (Some b)
  have g: "on_policy_store (view_get sops acl n) s = (Ok (Some \<lparr>se_key = n, se_value = b\<rparr>), s)"
    using acl_get [OF _ n(1), of s] inv Some by (simp add: pinv_def)
  have t: "ps_policy_type_map s n = Some Acl" using inv n Some by (simp add: pinv_def types_ok_def)
  have set: "set_type n (Some Acl) s = (Ok (), s)" using t by (simp add: set_type_def fun_upd_idem)
  show ?thesis
  proof (cases "entry_policy E n b")
    case (Ok p)
    then obtain pe p0 where pe: "pn_dec_entry E b = Some pe" "policy_from_str (pn_hcl E) (pe_raw pe) = Ok p0"
      "p = p0\<lparr>po_name := n, po_type := pe_policy_type pe, po_templated := pe_templated pe\<rparr>"
      by (auto simp: entry_policy_def res_bind_Ok_iff split: option.splits)
    have named: "named_policy E (acls s) n = Ok (Some p)" using Ok Some n(2) by (simp add: named_policy_def)
    obtain ok s' where i: "cache_insert E (Some TokenPolicies) n p s = (Ok ok, s')" "ps_store s' = ps_store s"
      "ps_policy_type_map s' = ps_policy_type_map s" "cache_ok E holds name_ok (acls s) s'"
      by (rule cache_insertE [of E holds name_ok "acls s" s n "acls s" p]) (use inv named in \<open>auto simp: pinv_def\<close>)
    have "load_policy E acl (Some TokenPolicies) Acl n s = (Ok (Some p), s')"
      using g pe set i(1) by (simp add: load_policy_def env policy_of_entry_def Let_def)
    moreover have "pinv holds s'" using inv i by (simp add: pinv_def acls_def types_ok_def)
    ultimately show ?thesis using named i(2) by simp
  next
    case (Err e)
    then have "load_policy E acl (Some TokenPolicies) Acl n s = (Err e, s)"
      using g by (cases "pn_dec_entry E b"; cases "policy_from_str (pn_hcl E) (pe_raw (the (pn_dec_entry E b)))")
        (auto simp: load_policy_def env policy_of_entry_def entry_policy_def op_bind_def)
    then show ?thesis using Err Some n(2) inv by (simp add: named_policy_def)
  next
    case Panic
    then have "load_policy E acl (Some TokenPolicies) Acl n s = (Panic, s)"
      using g by (cases "pn_dec_entry E b"; cases "policy_from_str (pn_hcl E) (pe_raw (the (pn_dec_entry E b)))")
        (auto simp: load_policy_def env policy_of_entry_def entry_policy_def op_bind_def)
    then show ?thesis using Panic Some n(2) inv by (simp add: named_policy_def)
  qed
qed

lemma get_policy_at:
  assumes inv: "pinv holds s" and n: "name_ok (to_lowercase n0)"
    and place: "policy_place E (to_lowercase n0) t s = Ok (Some acl, Some TokenPolicies, Acl)"
  shows "\<exists>s'. get_policy E n0 t s = (named_policy E (acls s) (to_lowercase n0), s') \<and>
    ps_store s' = ps_store s \<and> pinv holds s'"
proof -
  let ?n = "to_lowercase n0"
  obtain r s1 where g: "cache_get E (Some TokenPolicies) ?n s = (Ok r, s1)" "ps_store s1 = ps_store s"
    "ps_policy_type_map s1 = ps_policy_type_map s" "cache_ok E holds name_ok (acls s) s1"
    "\<And>p. r = Some p \<Longrightarrow> name_ok ?n \<Longrightarrow> named_policy E (acls s) ?n = Ok (Some p)"
    by (rule cache_getE [of E holds name_ok "acls s" s ?n]) (use inv in \<open>auto simp: pinv_def\<close>)
  have m: "acls s1 = acls s" using g(2) by (simp add: acls_def)
  have inv1: "pinv holds s1" using inv g by (simp add: pinv_def m types_ok_def)
  show ?thesis
  proof (cases r)
    case (Some p)
    then show ?thesis using g(1,2,5) n inv1 place by (simp add: get_policy_def Let_def)
  next
    case None
    show ?thesis
    proof (cases "?n = ''root''")
      case True
      have named: "named_policy E (acls s) ?n = Ok (Some root_policy)" using True by (simp add: named_policy_def)
      obtain ok s' where i: "cache_insert E (Some TokenPolicies) ?n root_policy s1 = (Ok ok, s')" "ps_store s' = ps_store s1"
        "ps_policy_type_map s' = ps_policy_type_map s1" "cache_ok E holds name_ok (acls s) s'"
        by (rule cache_insertE [of E holds name_ok "acls s" s1 ?n "acls s" root_policy])
          (use inv1 named m in \<open>auto simp: pinv_def\<close>)
      have "pinv holds s'" using inv1 i m by (simp add: pinv_def acls_def types_ok_def)
      moreover have "get_policy E n0 t s = (Ok (Some root_policy), s')"
        using place g(1) i(1) None True by (simp add: get_policy_def Let_def root_policy_def)
      ultimately show ?thesis using named i(2) g(2) by simp
    next
      case False
      then show ?thesis
        using load_policy_spec [OF inv1 n False] place g(1,2) None m by (simp add: get_policy_def Let_def)
    qed
  qed
qed

lemma get_policy_acl:
  assumes "pinv holds s" "name_ok (to_lowercase n)"
  shows "\<exists>s'. get_policy E n Acl s = (named_policy E (acls s) (to_lowercase n), s') \<and>
    ps_store s' = ps_store s \<and> pinv holds s'"
  by (rule get_policy_at [OF assms]) (simp add: policy_place_def Let_def views)

lemma get_policy_token:
  assumes "pinv holds s" "name_ok (to_lowercase n)"
  shows "\<exists>s'. get_policy E n Token s =
      (res_bind (token_policy E (acls s) (to_lowercase n)) (\<lambda>p. Ok (Some p)), s') \<and>
    ps_store s' = ps_store s \<and> pinv holds s'"
proof (cases "to_lowercase n = ''root'' \<or> acls s (to_lowercase n) \<noteq> None")
  case True
  then have "ps_policy_type_map s (to_lowercase n) = Some Acl"
    using assms by (auto simp: pinv_def types_ok_def)
  then have "\<exists>s'. get_policy E n Token s = (named_policy E (acls s) (to_lowercase n), s') \<and>
      ps_store s' = ps_store s \<and> pinv holds s'"
    by (intro get_policy_at [OF assms]) (simp add: policy_place_def Let_def views)
  moreover have "named_policy E (acls s) (to_lowercase n) =
      res_bind (token_policy E (acls s) (to_lowercase n)) (\<lambda>p. Ok (Some p))"
    using True by (auto simp: named_policy_def token_policy_def)
  ultimately show ?thesis by simp
next
  case False
  then have "ps_policy_type_map s (to_lowercase n) = None" using assms by (auto simp: pinv_def types_ok_def)
  then have "get_policy E n Token s = (Err (ErrString ''unable to get the barrier subview for policy type token''), s)"
    by (simp add: get_policy_def policy_place_def Let_def cache_get_def policy_type_name_def)
  then show ?thesis using False assms(1) by (auto simp: token_policy_def)
qed

text \<open>A policy put under a name is what the name stands for, and nothing else changes.\<close>

lemma acl_put:
  assumes "pinv holds s" "name_ok n"
  shows "\<exists>x. on_policy_store (view_put sops acl \<lparr>se_key = n, se_value = b\<rparr>) s = (Ok (), s\<lparr>ps_store := x\<rparr>) \<and> ready x \<and>
    (\<forall>k. name_ok k \<longrightarrow> view_stored stored acl x k = ((acls s)(n \<mapsto> b)) k) \<and>
    (\<forall>k. name_ok k \<longrightarrow> view_stored stored rgp x k = None)"
proof -
  obtain x where x: "view_put sops acl \<lparr>se_key = n, se_value = b\<rparr> (ps_store s) = (Ok (), x)" "ready x"
    "\<And>k. view_valid valid acl k \<Longrightarrow> view_stored stored acl x k = ((view_stored stored acl (ps_store s))(n \<mapsto> b)) k"
    "\<And>k. valid k \<Longrightarrow> \<not> starts_with k (bv_prefix acl) \<Longrightarrow> stored x k = stored (ps_store s) k"
    using av.view_put_stored [of "ps_store s" n b] assms by (auto simp: pinv_def name_ok_def)
  have "view_stored stored rgp x k = None" if "name_ok k" for k
    using x(4) [of "expand_key rgp k"] views_disjoint [OF apart, of k] that assms(1)
    by (auto simp: view_stored_def name_ok_def view_valid_def pinv_def)
  then show ?thesis using x by (auto simp: on_policy_store_def acls_def name_ok_def)
qed

lemma acl_delete:
  assumes "pinv holds s" "name_ok n"
  shows "\<exists>x. on_policy_store (view_delete sops acl n) s = (Ok (), s\<lparr>ps_store := x\<rparr>) \<and> ready x \<and>
    (\<forall>k. name_ok k \<longrightarrow> view_stored stored acl x k = ((acls s)(n := None)) k) \<and>
    (\<forall>k. name_ok k \<longrightarrow> view_stored stored rgp x k = None)"
proof -
  obtain x where x: "view_delete sops acl n (ps_store s) = (Ok (), x)" "ready x"
    "\<And>k. view_valid valid acl k \<Longrightarrow> view_stored stored acl x k = ((view_stored stored acl (ps_store s))(n := None)) k"
    "\<And>k. valid k \<Longrightarrow> \<not> starts_with k (bv_prefix acl) \<Longrightarrow> stored x k = stored (ps_store s) k"
    using av.view_delete_stored [of "ps_store s" n] assms by (auto simp: pinv_def name_ok_def)
  have "view_stored stored rgp x k = None" if "name_ok k" for k
    using x(4) [of "expand_key rgp k"] views_disjoint [OF apart, of k] that assms(1)
    by (auto simp: view_stored_def name_ok_def view_valid_def pinv_def)
  then show ?thesis using x by (auto simp: on_policy_store_def acls_def name_ok_def)
qed

lemma set_internal_spec:
  assumes inv: "pinv holds s" and n: "name_ok (po_name p)" "po_name p \<noteq> ''root''" "po_type p = Acl"
    and entry: "entry_policy E (po_name p) (pn_enc_entry E \<lparr>pe_version = 2, pe_raw = po_raw p,
      pe_templated = po_templated p, pe_policy_type = Acl\<rparr>) = Ok p"
  shows "\<exists>r s'. set_policy_internal E p s = (r, s') \<and>
    (r = Ok () \<or> r = Err (ErrString ''save token policy cache failed!'')) \<and>
    ((\<forall>c. fst (cc_insert (pn_cache E) (po_name p) p c)) \<longrightarrow> r = Ok ()) \<and>
    (\<forall>k. name_ok k \<longrightarrow> named_policy E (acls s') k = (if k = po_name p then Ok (Some p) else named_policy E (acls s) k)) \<and>
    (r = Ok () \<longrightarrow> pinv holds s')"
proof -
  let ?n = "po_name p"
  let ?b = "pn_enc_entry E \<lparr>pe_version = 2, pe_raw = po_raw p, pe_templated = po_templated p, pe_policy_type = Acl\<rparr>"
  have rg: "on_policy_store (view_get sops rgp ?n) s = (Ok None, s)"
    using rv.view_get_stored [of "ps_store s" ?n] inv n(1) by (auto simp: on_policy_store_def pinv_def name_ok_def)
  obtain x where x: "on_policy_store (view_put sops acl \<lparr>se_key = ?n, se_value = ?b\<rparr>) s = (Ok (), s\<lparr>ps_store := x\<rparr>)"
    "ready x" "\<And>k. name_ok k \<Longrightarrow> view_stored stored acl x k = ((acls s)(?n \<mapsto> ?b)) k"
    "\<And>k. name_ok k \<Longrightarrow> view_stored stored rgp x k = None"
    using acl_put [OF inv n(1), of ?b] by blast
  define s1 where "s1 = s\<lparr>ps_store := x, ps_policy_type_map := (ps_policy_type_map s)(?n \<mapsto> Acl)\<rparr>"
  have m1: "acls s1 = view_stored stored acl x" by (simp add: s1_def acls_def)
  have old: "cache_ok E holds name_ok (acls s) s1" using inv by (simp add: pinv_def cache_ok_def s1_def)
  have named: "named_policy E (view_stored stored acl x) ?n = Ok (Some p)"
    using x(3) [OF n(1)] n(2) entry by (simp add: named_policy_def)
  obtain ok s' where i: "cache_insert E (Some TokenPolicies) ?n p s1 = (Ok ok, s')" "ps_store s' = ps_store s1"
    "ps_policy_type_map s' = ps_policy_type_map s1"
    "ok \<or> view_stored stored acl x = acls s \<Longrightarrow> cache_ok E holds name_ok (view_stored stored acl x) s'"
    "\<forall>c. fst (cc_insert (pn_cache E) ?n p c) \<Longrightarrow> ok"
    by (rule cache_insertE [of E holds name_ok "acls s" s1 ?n "view_stored stored acl x" p])
      (use inv x(3) named old in \<open>auto simp: pinv_def\<close>)
  have run: "set_policy_internal E p s = (if ok then Ok () else Err (ErrString ''save token policy cache failed!''), s')"
    using rg x(1) i(1) n(3)
    by (simp add: set_policy_internal_def views env Let_def set_type_def s1_def save_token_policy_cache_def save_cache_def)
  have m': "acls s' = view_stored stored acl x" using i(2) m1 by (simp add: acls_def)
  have "named_policy E (acls s') k = (if k = ?n then Ok (Some p) else named_policy E (acls s) k)" if "name_ok k" for k
    using named x(3) [OF that] named_policy_cong [of "acls s'" k "acls s" E] by (simp add: m')
  moreover have "types_ok name_ok (acls s') s'"
    using inv x(3) n(1) i(3) unfolding types_ok_def m' by (auto simp: s1_def pinv_def types_ok_def)
  then have "pinv holds s'" if ok
    using inv x(2,4) i that m' by (simp add: pinv_def s1_def)
  ultimately show ?thesis using run i(5) by auto
qed

lemma delete_spec:
  assumes inv: "pinv holds s" and n: "name_ok (to_lowercase n)" "to_lowercase n \<notin> set IMMUTABLE_POLICIES"
    "to_lowercase n \<noteq> ''default''"
  shows "\<exists>s'. delete_policy E n Acl s = (Ok (), s') \<and> pinv holds s' \<and>
    (\<forall>k. name_ok k \<longrightarrow> named_policy E (acls s') k = (if k = to_lowercase n then Ok None else named_policy E (acls s) k))"
proof -
  let ?n = "to_lowercase n"
  have nr: "?n \<noteq> ''root''" using n(2) by (auto simp: IMMUTABLE_POLICIES_def)
  obtain x where x: "on_policy_store (view_delete sops acl ?n) s = (Ok (), s\<lparr>ps_store := x\<rparr>)"
    "ready x" "\<And>k. name_ok k \<Longrightarrow> view_stored stored acl x k = ((acls s)(?n := None)) k"
    "\<And>k. name_ok k \<Longrightarrow> view_stored stored rgp x k = None"
    using acl_delete [OF inv n(1)] by blast
  obtain s1 where s1: "remove_token_policy_cache E ?n (s\<lparr>ps_store := x\<rparr>) = (Ok (), s1)" "ps_store s1 = x"
    "ps_policy_type_map s1 = ps_policy_type_map s" "cache_ok E holds name_ok (view_stored stored acl x) s1"
    by (rule cache_removeE [of E holds name_ok "acls s" "s\<lparr>ps_store := x\<rparr>" ?n "view_stored stored acl x"])
      (use inv x(3) in \<open>auto simp: pinv_def cache_ok_def\<close>)
  define s' where "s' = s1\<lparr>ps_policy_type_map := (ps_policy_type_map s1)(?n := None)\<rparr>"
  have m': "acls s' = view_stored stored acl x" by (simp add: s'_def acls_def s1(2))
  have "delete_policy E n Acl s = (Ok (), s')"
    using x(1) s1(1) n(2,3) by (simp add: delete_policy_def views env Let_def set_type_def s'_def)
  moreover have "types_ok name_ok (acls s') s'"
    using inv x(3) nr unfolding types_ok_def m' by (auto simp: s'_def s1(3) pinv_def types_ok_def)
  then have "pinv holds s'" using inv x(2,4) s1(2,4) m' by (simp add: pinv_def s'_def cache_ok_def)
  moreover have "named_policy E (acls s') k = (if k = ?n then Ok None else named_policy E (acls s) k)" if "name_ok k" for k
    using x(3) [OF that] nr named_policy_cong [of "acls s'" k "acls s" E] by (auto simp: m' named_policy_def)
  ultimately show ?thesis by blast
qed

section \<open>The check\<close>

lemma get_policies_spec:
  assumes "pinv holds s" "\<And>n. n \<in> set ns \<Longrightarrow> name_ok (to_lowercase n)"
  shows "\<exists>s'. get_policies E ns s = (res_mapM (\<lambda>n. token_policy E (acls s) (to_lowercase n)) ns, s') \<and>
    ps_store s' = ps_store s \<and> pinv holds s'"
  using assms
proof (induction ns arbitrary: s)
  case (Cons n ns)
  obtain s1 where s1: "get_policy E n Token s =
      (res_bind (token_policy E (acls s) (to_lowercase n)) (\<lambda>p. Ok (Some p)), s1)"
    "ps_store s1 = ps_store s" "pinv holds s1"
    using get_policy_token [OF Cons.prems(1), of n] Cons.prems(2) by auto
  have m: "acls s1 = acls s" using s1(2) by (simp add: acls_def)
  obtain s2 where s2: "get_policies E ns s1 = (res_mapM (\<lambda>n. token_policy E (acls s) (to_lowercase n)) ns, s2)"
    "ps_store s2 = ps_store s" "pinv holds s2"
    using Cons.IH [OF s1(3)] Cons.prems(2) s1(2) m by auto
  show ?case
  proof (cases "token_policy E (acls s) (to_lowercase n)")
    case (Ok p)
    then show ?thesis
      using s1 s2 by (cases "res_mapM (\<lambda>n. token_policy E (acls s) (to_lowercase n)) ns") simp_all
  qed (use s1 in simp_all)
qed simp

lemma post_auth_spec:
  assumes "pinv holds s" "\<And>au n. rq_auth req = Some au \<Longrightarrow> n \<in> set (au_policies au) \<Longrightarrow> name_ok (to_lowercase n)"
  shows "\<exists>s' req'. post_auth E (s, req) = (authorise E (acls s) req, (s', req')) \<and>
    ps_store s' = ps_store s \<and> pinv holds s'"
proof (cases "rq_auth req")
  case None
  then show ?thesis using assms(1) by (simp add: post_auth_def authorise_def Let_def)
next
  case (Some au)
  let ?ps = "res_mapM (\<lambda>n. token_policy E (acls s) (to_lowercase n)) (au_policies au)"
  obtain s1 where s1: "get_policies E (au_policies au) s = (?ps, s1)" "ps_store s1 = ps_store s" "pinv holds s1"
    using get_policies_spec [OF assms(1), of "au_policies au"] assms(2) [OF Some] by auto
  have new: "new_acl E (au_policies au) None s = (res_bind ?ps acl_new, s1)"
    using s1(1) by (cases ?ps) (simp_all add: new_acl_def)
  show ?thesis
  proof (cases "au_policies au = []")
    case True
    then show ?thesis using Some assms(1) by (simp add: post_auth_def authorise_def Let_def)
  next
    case False
    show ?thesis
    proof (cases "res_bind ?ps acl_new")
      case (Ok a)
      then obtain ps where "?ps = Ok ps" "acl_new ps = Ok a" by (auto simp: res_bind_Ok_iff)
      then show ?thesis
        using Some False new s1(2,3)
        by (cases "allow_operation (pn_anc E) (pn_ovf E) a req False")
          (simp_all add: post_auth_def authorise_def Let_def)
    qed (use Some False new s1(2,3) in
        \<open>cases ?ps; simp add: post_auth_def authorise_def Let_def\<close>)+
  qed
qed

end

section \<open>The policy store over files\<close>

definition policy_env ::
  "crypto \<Rightarrow> (backend_entry \<Rightarrow> string) \<Rightarrow> (string \<Rightarrow> backend_entry option) \<Rightarrow> fpath \<Rightarrow>
    (fs barrier, 'c, 'r) penv \<Rightarrow> (fs barrier, 'c, 'r) penv" where
  "policy_env C ser de root E =
     E\<lparr>pn_sops := barrier_storage C (file_backend ser de root), pn_acl_view := Some (view_new ''sys/policy/''),
       pn_rgp_view := Some (view_new ''sys/policy-rgp/''), pn_egp_view := Some (view_new ''sys/policy-egp/'')\<rparr>"

interpretation fp: policy_storage "barrier_storage C (file_backend ser de root)" "barrier_valid clean_key"
  "barrier_stored C (file_contents de root)" "vault_ready C ser de root" "policy_env C ser de root E"
  "view_new ''sys/policy/''" "view_new ''sys/policy-rgp/''"
  for C ser de root E
  by unfold_locales (simp_all add: policy_env_def view_new_def starts_with_def)

definition policy_name_ok :: "string \<Rightarrow> bool" where
  "policy_name_ok n \<longleftrightarrow>
     view_valid (barrier_valid clean_key) (view_new ''sys/policy/'') n \<and>
     view_valid (barrier_valid clean_key) (view_new ''sys/policy-rgp/'') n"

definition policy_contents ::
  "crypto \<Rightarrow> (string \<Rightarrow> backend_entry option) \<Rightarrow> fpath \<Rightarrow> (fs barrier, 'c) pstate \<Rightarrow> contents" where
  "policy_contents C de root s = view_stored (barrier_stored C (file_contents de root)) (view_new ''sys/policy/'') (ps_store s)"

definition policy_inv ::
  "crypto \<Rightarrow> (backend_entry \<Rightarrow> string) \<Rightarrow> (string \<Rightarrow> backend_entry option) \<Rightarrow> fpath \<Rightarrow> (fs barrier, 'c, 'r) penv \<Rightarrow>
    ('c \<Rightarrow> string \<Rightarrow> policy option) \<Rightarrow> (fs barrier, 'c) pstate \<Rightarrow> bool" where
  "policy_inv C ser de root E holds s \<longleftrightarrow>
     cache_contract (pn_cache E) holds \<and> vault_ready C ser de root (ps_store s) \<and>
     (\<forall>n. policy_name_ok n \<longrightarrow>
        view_stored (barrier_stored C (file_contents de root)) (view_new ''sys/policy-rgp/'') (ps_store s) n = None) \<and>
     types_ok policy_name_ok (policy_contents C de root s) s \<and>
     cache_ok (policy_env C ser de root E) holds policy_name_ok (policy_contents C de root s) s"

lemma policy_files:
  "fp.name_ok = policy_name_ok" "fp.acls C de root = policy_contents C de root"
  by (simp_all add: fun_eq_iff fp.name_ok_def policy_name_ok_def fp.acls_def policy_contents_def)

lemma policy_inv_eq:
  "fp.pinv TYPE('r) C de root ser (E :: (fs barrier, 'c, 'r) penv) holds s = policy_inv C ser de root E holds s"
  by (simp add: fp.pinv_def policy_inv_def policy_files) (simp add: policy_env_def)

lemmas policy_files_eq = policy_files policy_inv_eq

lemma policy_view_files:
  "listing_view (barrier_storage C (file_backend ser de root)) (barrier_valid clean_key)
    (barrier_stored C (file_contents de root)) (vault_ready C ser de root)
    (barrier_folder clean_folder) (\<lambda>s. file_subdirs root (b_backend s)) (view_new ''sys/policy/'')"
proof (rule listing_view_files)
  have "plain_name ''policy''" by (simp add: plain_name_def)
  then show "clean_folder (bv_prefix (view_new ''sys/policy/''))"
    using plain_clean(1) [of "[''sys'', ''policy'']"] fixed_plain(1) by (simp add: view_new_def)
qed (simp_all add: view_new_def BARRIER_INIT_PATH_def starts_with_def)

lemma fold_types: "fold (\<lambda>k m. m(k \<mapsto> Acl)) ks m0 k = (if k \<in> set ks then Some Acl else m0 k)"
  by (induction ks arbitrary: m0) auto

text \<open>
  A new policy store agrees with the storage. When an unsealed vault starts, \<open>PolicyStore::new\<close> ends with fresh
  caches and a type for every stored policy and for \<open>root\<close>: the invariant of the store holds.
\<close>

theorem policy_store_new_agrees:
  assumes "vault_ready C ser de root (ps_store s)" "cache_contract (pn_cache E) holds"
    and "pn_sops E = barrier_storage C (file_backend ser de root)"
    and "\<forall>n. policy_name_ok n \<longrightarrow>
      view_stored (barrier_stored C (file_contents de root)) (view_new ''sys/policy-rgp/'') (ps_store s) n = None"
  shows "\<exists>s'. policy_store_new E (Some (view_new SYSTEM_BARRIER_PREFIX)) s = Some (Ok (policy_env C ser de root E), s') \<and>
    policy_inv C ser de root E holds s' \<and> ps_store s' = ps_store s"
proof -
  let ?v = "view_new ''sys/policy/''"
  have v: "new_sub_view (view_new SYSTEM_BARRIER_PREFIX) POLICY_ACL_SUB_PATH = ?v"
    "new_sub_view (view_new SYSTEM_BARRIER_PREFIX) POLICY_RGP_SUB_PATH = view_new ''sys/policy-rgp/''"
    "new_sub_view (view_new SYSTEM_BARRIER_PREFIX) POLICY_EGP_SUB_PATH = view_new ''sys/policy-egp/''"
    by (simp_all add: new_sub_view_def view_new_def expand_key_def SYSTEM_BARRIER_PREFIX_def POLICY_ACL_SUB_PATH_def
        POLICY_RGP_SUB_PATH_def POLICY_EGP_SUB_PATH_def)
  obtain ks where ks: "get_keys (barrier_storage C (file_backend ser de root)) ?v (ps_store s) = Some (Ok ks, ps_store s)"
    "set ks = {k. view_valid (barrier_valid clean_key) ?v k \<and> policy_contents C de root s k \<noteq> None}"
    using listing_view.get_keys_complete [OF policy_view_files assms(1)] by (auto simp: policy_contents_def)
  define s' where "s' = s\<lparr>ps_token_policies_lru := Some (cc_new (pn_cache E)), ps_egp_lru := Some (cc_new (pn_cache E)),
      ps_policy_type_map := (fold (\<lambda>k m. m(k \<mapsto> Acl)) ks Map.empty)(''root'' \<mapsto> Acl)\<rparr>"
  have "policy_store_new E (Some (view_new SYSTEM_BARRIER_PREFIX)) s = Some (Ok (policy_env C ser de root E), s')"
    using ks(1) assms(3) by (simp add: policy_store_new_def Let_def v list_keys_def pop_bind_def s'_def policy_env_def)
  moreover have "policy_inv C ser de root E holds s'"
    using assms(1,2,4) ks(2)
    by (auto simp: policy_inv_def s'_def types_ok_def cache_ok_def fold_types policy_contents_def policy_name_ok_def
        cache_contract_def)
  ultimately show ?thesis by (auto simp: s'_def)
qed

text \<open>
  A policy that was set is read back. Setting a policy of a parsed text under a name that is not built in stores it,
  and unless the cache refuses it the invariant holds again: then a lookup under any spelling of the name, cached or
  not, finds the policy, and every other name has the policy it had.
\<close>

theorem policy_set_get:
  assumes inv: "policy_inv C ser de root E holds s"
    and parse: "policy_from_str (pn_hcl E) text = Ok p" "\<forall>pe. pn_dec_entry E (pn_enc_entry E pe) = Some pe"
    and n: "n \<noteq> []" "policy_name_ok (to_lowercase n)" "to_lowercase n \<notin> set IMMUTABLE_POLICIES"
    and set: "set_policy (policy_env C ser de root E) (p\<lparr>po_name := n\<rparr>) s = (r, s1)"
  shows "(r = Ok () \<or> r = Err (ErrString ''save token policy cache failed!'')) \<and>
    ((\<forall>q c. fst (cc_insert (pn_cache E) (to_lowercase n) q c)) \<longrightarrow> r = Ok ()) \<and>
    (r = Ok () \<longrightarrow> policy_inv C ser de root E holds s1 \<and>
      (\<forall>n'. policy_name_ok (to_lowercase n') \<longrightarrow>
        fst (get_policy (policy_env C ser de root E) n' Acl s1) =
          (if to_lowercase n' = to_lowercase n then Ok (Some (p\<lparr>po_name := to_lowercase n\<rparr>))
           else fst (get_policy (policy_env C ser de root E) n' Acl s))))"
proof -
  let ?E = "policy_env C ser de root E" and ?q = "p\<lparr>po_name := to_lowercase n\<rparr>"
  have p: "po_raw p = text" "po_type p = Acl" "po_templated p = False"
    using parse(1) by (auto simp: policy_from_str_def policy_from_body_def res_bind_Ok_iff)
  have root: "to_lowercase n \<noteq> ''root''" using n(3) by (auto simp: IMMUTABLE_POLICIES_def)
  have entry: "entry_policy ?E (po_name ?q) (pn_enc_entry ?E \<lparr>pe_version = 2, pe_raw = po_raw ?q,
      pe_templated = po_templated ?q, pe_policy_type = Acl\<rparr>) = Ok ?q"
    using parse p by (simp add: entry_policy_def policy_env_def)
  have "set_policy_internal ?E ?q s = (r, s1)" using set n(1,3) by (simp add: set_policy_def Let_def)
  then have r: "r = Ok () \<or> r = Err (ErrString ''save token policy cache failed!'')"
    "\<And>k. policy_name_ok k \<Longrightarrow> named_policy ?E (policy_contents C de root s1) k =
      (if k = to_lowercase n then Ok (Some ?q) else named_policy ?E (policy_contents C de root s) k)"
    "r = Ok () \<Longrightarrow> policy_inv C ser de root E holds s1"
    "(\<forall>q c. fst (cc_insert (pn_cache E) (to_lowercase n) q c)) \<Longrightarrow> r = Ok ()"
    using fp.set_internal_spec [unfolded policy_files_eq, OF inv _ _ _ entry] n(2) root p(2)
    by (auto simp: policy_env_def)
  moreover have "fst (get_policy ?E n' Acl s') = named_policy ?E (policy_contents C de root s') (to_lowercase n')"
    if "policy_inv C ser de root E holds s'" "policy_name_ok (to_lowercase n')" for n' s'
    using fp.get_policy_acl [unfolded policy_files_eq, OF that] by auto
  ultimately show ?thesis using inv by auto
qed

text \<open>
  A deleted policy is gone. Deleting a policy that is neither built in nor \<open>default\<close> succeeds and keeps the
  invariant: afterwards no lookup finds it, cached or not, and every other name has the policy it had.
\<close>

theorem policy_delete_removes:
  assumes inv: "policy_inv C ser de root E holds s"
    and n: "policy_name_ok (to_lowercase n)" "to_lowercase n \<notin> set IMMUTABLE_POLICIES" "to_lowercase n \<noteq> ''default''"
  shows "\<exists>s1. delete_policy (policy_env C ser de root E) n Acl s = (Ok (), s1) \<and> policy_inv C ser de root E holds s1 \<and>
    (\<forall>n'. policy_name_ok (to_lowercase n') \<longrightarrow>
      fst (get_policy (policy_env C ser de root E) n' Acl s1) =
        (if to_lowercase n' = to_lowercase n then Ok None
         else fst (get_policy (policy_env C ser de root E) n' Acl s)))"
proof -
  let ?E = "policy_env C ser de root E"
  obtain s1 where s1: "delete_policy ?E n Acl s = (Ok (), s1)" "policy_inv C ser de root E holds s1"
    "\<And>k. policy_name_ok k \<Longrightarrow> named_policy ?E (policy_contents C de root s1) k =
      (if k = to_lowercase n then Ok None else named_policy ?E (policy_contents C de root s) k)"
    using fp.delete_spec [unfolded policy_files_eq, OF inv n] by auto
  moreover have "fst (get_policy ?E n' Acl s') = named_policy ?E (policy_contents C de root s') (to_lowercase n')"
    if "policy_inv C ser de root E holds s'" "policy_name_ok (to_lowercase n')" for n' s'
    using fp.get_policy_acl [unfolded policy_files_eq, OF that] by auto
  ultimately show ?thesis using inv by auto
qed

text \<open>
  C19: the check of a request is decided by the stored policies. Whichever of the stored policies the cache holds,
  \<open>post_auth\<close> gives the result of \<open>authorise\<close>, which builds the access control list from the storage, and keeps the
  invariant, which says that the vault is ready and that a cached policy is the one stored under its name.
\<close>

theorem post_auth_decides_by_stored_policies:
  assumes "policy_inv C ser de root E holds s"
    and "\<forall>au n. rq_auth req = Some au \<longrightarrow> n \<in> set (au_policies au) \<longrightarrow> policy_name_ok (to_lowercase n)"
  shows "\<exists>s' req'. post_auth (policy_env C ser de root E) (s, req) =
      (authorise (policy_env C ser de root E) (policy_contents C de root s) req, (s', req')) \<and>
    ps_store s' = ps_store s \<and> policy_inv C ser de root E holds s'"
  using fp.post_auth_spec [unfolded policy_files_eq, OF assms(1)] assms(2) by blast

section \<open>Requests\<close>

text \<open>A request after the check of its token.\<close>

definition checked_request :: "int \<Rightarrow> token_entry \<Rightarrow> request \<Rightarrow> request" where
  "checked_request now te req =
     req\<lparr>rq_name := tke_display_name te, rq_auth := Some (auth_of_entry now (rq_client_token req) te),
       rq_handle_phase := PostAuth\<rparr>"

text \<open>The loop over the handlers passes over a handler that declines.\<close>

definition handled :: "unit res \<Rightarrow> 'a option res" where
  "handled r = (case r of Ok _ \<Rightarrow> Ok None | Err e \<Rightarrow> if e = ErrHandlerDefault then Ok None else Err e | Panic \<Rightarrow> Panic)"

lemma each_post_auth_one:
  assumes "ah_post_auth h st = (r, st')"
  shows "fst (each_post_auth [h] st) = (case handled r of Ok _ \<Rightarrow> Ok () | Err e \<Rightarrow> Err e | Panic \<Rightarrow> Panic)"
    "snd (each_post_auth [h] st) = st'"
  using assms by (cases r; force simp: handled_def split: rv_error.splits)+

lemma pre_route_runs_post_auth:
  assumes "\<not> is_unauth_path (tn_anc T) (tn_router T) (rq_path req)"
    and "token_lookup T (rq_client_token req) t = (Ok (Some te), t)" "tke_num_uses te = 0" "rq_client_token req \<noteq> []"
    and "post_auth P (ts_store t, checked_request (tn_clock T (ts_reads t)) te req) = (r, (x, req'))"
  shows "token_pre_route T [policy_auth_handler P] (t, req) =
    Some (handled r, (t\<lparr>ts_store := x, ts_reads := Suc (ts_reads t)\<rparr>, req'))"
proof -
  have "tn_view T \<noteq> None"
    using assms(2,4) by (cases "tn_view T") (auto simp: token_lookup_def lookup_salted_def with_view_def)
  then have use: "use_token T te t = Some (Ok (), t)" using assms(3) by (auto simp: use_token_def)
  have check: "check_token T (rq_client_token req) t =
      Some (Ok (auth_of_entry (tn_clock T (ts_reads t)) (rq_client_token req) te), t\<lparr>ts_reads := Suc (ts_reads t)\<rparr>)"
    using assms(2,4) use by (simp add: check_token_def now_op_def)
  have h: "ah_post_auth (policy_auth_handler P)
      (t\<lparr>ts_reads := Suc (ts_reads t)\<rparr>, checked_request (tn_clock T (ts_reads t)) te req) =
      (r, (t\<lparr>ts_store := x, ts_reads := Suc (ts_reads t)\<rparr>, req'))"
    using assms(5) by (simp add: policy_auth_handler_def)
  show ?thesis
    using assms(1) check each_post_auth_one [OF h]
    by (cases "each_post_auth [policy_auth_handler P]
        (t\<lparr>ts_reads := Suc (ts_reads t)\<rparr>, checked_request (tn_clock T (ts_reads t)) te req)"; cases "handled r")
      (auto simp: token_pre_route_def policy_auth_handler_def check_request_token_def keep_req_def
        checked_request_def auth_of_entry_def handled_def split: res.splits if_splits)
qed

text \<open>
  C4: an authenticated request passes exactly when the stored policies of its token allow it. For a path that needs
  authentication and a token without a limit of uses whose policies have storable names, the phase before routing, with
  the policy store as its authentication handler, gives the result of \<open>authorise\<close> on the stored policies. This is
  as long as the invariant \<open>policy_inv\<close> holds, which the request keeps: the vault is ready, and every policy in the cache
  is the one that is stored under its name. A cache that is consistent may hold any part of the stored policies; an older
  policy that a refused insertion has left in it (\<open>set_policy_internal\<close> stores before it caches) is outside this statement
  and stays in force.
\<close>

theorem request_passes_iff_authorised:
  assumes "policy_inv C ser de root E holds (ts_store t)"
    and "\<not> is_unauth_path (tn_anc T) (tn_router T) (rq_path req)" "rq_client_token req \<noteq> []"
    and "token_lookup T (rq_client_token req) t = (Ok (Some te), t)" "tke_num_uses te = 0"
    and "\<forall>n \<in> set (sanitize_policies (tke_policies te) False). policy_name_ok (to_lowercase n)"
  shows "\<exists>t' req'. token_pre_route T [policy_auth_handler (policy_env C ser de root E)] (t, req) =
      Some (handled (authorise (policy_env C ser de root E) (policy_contents C de root (ts_store t))
        (checked_request (tn_clock T (ts_reads t)) te req)), (t', req')) \<and>
    policy_inv C ser de root E holds (ts_store t')"
proof -
  let ?req = "checked_request (tn_clock T (ts_reads t)) te req" and ?P = "policy_env C ser de root E"
  have n: "policy_name_ok (to_lowercase n)" if "rq_auth ?req = Some au" "n \<in> set (au_policies au)" for au n
    using that assms(6) by (auto simp: checked_request_def auth_of_entry_def)
  obtain x req' where x: "post_auth ?P (ts_store t, ?req) =
      (authorise ?P (policy_contents C de root (ts_store t)) ?req, (x, req'))" "policy_inv C ser de root E holds x"
    using fp.post_auth_spec [unfolded policy_files_eq, OF assms(1), of ?req] n by auto
  show ?thesis
    using pre_route_runs_post_auth [OF assms(2,4,5,3) x(1)] x(2) by auto
qed

text \<open>
  C35: a token without policies is not restricted. When no policy is left for a token, the check is skipped: the request
  passes the phase before routing for every path, also one that needs root privileges.
\<close>

theorem token_without_policies_unrestricted:
  assumes "\<not> is_unauth_path (tn_anc T) (tn_router T) (rq_path req)" "rq_client_token req \<noteq> []"
    and "token_lookup T (rq_client_token req) t = (Ok (Some te), t)" "tke_num_uses te = 0"
    and "sanitize_policies (tke_policies te) False = []"
  shows "\<exists>t' req'. token_pre_route T [policy_auth_handler E] (t, req) = Some (Ok None, (t', req'))"
proof -
  let ?req = "checked_request (tn_clock T (ts_reads t)) te req"
  have "post_auth E (ts_store t, ?req) = (Ok (), (ts_store t, ?req))"
    using assms(5) by (simp add: post_auth_def checked_request_def auth_of_entry_def Let_def)
  from pre_route_runs_post_auth [OF assms(1,3,4,2) this] show ?thesis by (simp add: handled_def)
qed

lemma mapM_refuses: "x \<in> set xs \<Longrightarrow> f x = Err e \<Longrightarrow> \<nexists>ys. res_mapM f xs = Ok ys"
  by (induction xs) (auto simp: res_bind_Ok_iff)

text \<open>
  A token with a policy that does not exist is refused everywhere. The code means to skip a missing policy, but
  the lookup of a name without a type is an error: with one policy of its token missing, or deleted since, every
  request on a path that needs authentication is refused, whatever the other policies grant.
\<close>

theorem missing_policy_refuses:
  assumes "policy_inv C ser de root E holds s" "rq_auth req = Some au"
    and "\<forall>n \<in> set (au_policies au). policy_name_ok (to_lowercase n)"
    and "n \<in> set (au_policies au)" "to_lowercase n \<noteq> ''root''"
    and "fst (get_policy (policy_env C ser de root E) n Acl s) = Ok None"
  shows "fst (post_auth (policy_env C ser de root E) (s, req)) \<noteq> Ok ()"
proof -
  let ?E = "policy_env C ser de root E" and ?m = "policy_contents C de root s"
  have "named_policy ?E ?m (to_lowercase n) = Ok None"
    using fp.get_policy_acl [unfolded policy_files_eq, OF assms(1), of n] assms(3,4,6) by auto
  then have "token_policy ?E ?m (to_lowercase n) = Err (ErrString ''unable to get the barrier subview for policy type token'')"
    using assms(5)
    by (cases "?m (to_lowercase n)"; cases "entry_policy ?E (to_lowercase n) (the (?m (to_lowercase n)))")
      (auto simp: named_policy_def token_policy_def)
  then have "\<nexists>ps. res_mapM (\<lambda>n. token_policy ?E ?m (to_lowercase n)) (au_policies au) = Ok ps"
    by (rule mapM_refuses [OF assms(4)])
  then have "authorise ?E ?m req \<noteq> Ok ()"
    using assms(2,4) by (auto simp: authorise_def Let_def res_bind_Ok_iff)
  moreover have "fst (post_auth ?E (s, req)) = authorise ?E ?m req"
    using fp.post_auth_spec [unfolded policy_files_eq, OF assms(1), of req] assms(2,3) by auto
  ultimately show ?thesis by simp
qed

section \<open>Witnesses\<close>

text \<open>A cache that keeps everything, a codec, and a parser that knows one text.\<close>

definition demo_cache :: "(string \<Rightarrow> policy option) cache_ops" where
  "demo_cache = \<lparr>cc_new = Map.empty, cc_get = (\<lambda>k c. (c k, c)), cc_insert = (\<lambda>k p c. (True, c(k \<mapsto> p))),
     cc_remove = (\<lambda>k c. c(k := None))\<rparr>"

definition demo_enc_entry :: "policy_entry \<Rightarrow> bytes" where
  "demo_enc_entry pe =
     replicate (unat (pe_version pe)) 1 @ [0, of_bool (pe_templated pe),
       case pe_policy_type pe of Acl \<Rightarrow> 0 | Rgp \<Rightarrow> 1 | Egp \<Rightarrow> 2 | Token \<Rightarrow> 3] @ map (of_nat \<circ> of_char) (pe_raw pe)"

definition demo_dec_entry :: "bytes \<Rightarrow> policy_entry option" where
  "demo_dec_entry bs =
     (case dropWhile (\<lambda>b. b = 1) bs of
        _ # t # ty # raw \<Rightarrow>
          Some \<lparr>pe_version = of_nat (length (takeWhile (\<lambda>b. b = 1) bs)), pe_raw = map (char_of \<circ> unat) raw,
            pe_templated = (t = 1), pe_policy_type = (if ty = 0 then Acl else if ty = 1 then Rgp else if ty = 2 then Egp else Token)\<rparr>
      | _ \<Rightarrow> None)"

lemma char_bytes: "map (char_of \<circ> unat) (map (of_nat \<circ> of_char) s :: bytes) = s"
proof -
  have "char_of (unat (of_nat (of_char c) :: u8)) = c" for c
    by (simp add: unat_of_nat)
  then show ?thesis by (simp add: o_def)
qed

lemma demo_entry_codec: "demo_dec_entry (demo_enc_entry pe) = Some pe"
proof -
  let ?r = "replicate (unat (pe_version pe)) (1 :: u8)"
  have "takeWhile (\<lambda>b. b = 1) (?r @ 0 # r) = ?r" "dropWhile (\<lambda>b. b = 1) (?r @ 0 # r) = 0 # r" for r
    by (simp_all add: takeWhile_append dropWhile_append)
  then show ?thesis
    using char_bytes [of "pe_raw pe"]
    by (cases pe; cases "pe_policy_type pe") (auto simp: demo_enc_entry_def demo_dec_entry_def)
qed

definition demo_penv :: "(fs barrier, string \<Rightarrow> policy option, unit) penv" where
  "demo_penv =
     \<lparr>pn_sops = barrier_storage demo_crypto demo_ops, pn_acl_view = None, pn_rgp_view = None, pn_egp_view = None,
      pn_cache = demo_cache, pn_router = [], pn_anc = (\<lambda>_ _. None), pn_ovf = True,
      pn_hcl = (\<lambda>_. Ok \<lparr>hcl_attributes = [], hcl_blocks = []\<rparr>),
      pn_enc_entry = demo_enc_entry, pn_dec_entry = demo_dec_entry, pn_base64 = (\<lambda>_. None),
      pn_utf8_lossy = map (char_of \<circ> unat), pn_parsers = (\<lambda>_. None, \<lambda>_. None)\<rparr>"

abbreviation demo_policy_env :: "(fs barrier, string \<Rightarrow> policy option, unit) penv" where
  "demo_policy_env \<equiv> policy_env demo_crypto demo_ser demo_de [''data''] demo_penv"

abbreviation demo_policy_inv :: "(fs barrier, string \<Rightarrow> policy option) pstate \<Rightarrow> bool" where
  "demo_policy_inv \<equiv> policy_inv demo_crypto demo_ser demo_de [''data''] demo_penv (\<lambda>c. c)"

definition demo_pstate :: "(fs barrier, string \<Rightarrow> policy option) pstate" where
  "demo_pstate = \<lparr>ps_store = demo_unsealed, ps_token_policies_lru = Some Map.empty, ps_egp_lru = Some Map.empty,
     ps_policy_type_map = [''root'' \<mapsto> Acl]\<rparr>"

lemma demo_cache_contract: "cache_contract demo_cache (\<lambda>c. c)"
  by (simp add: cache_contract_def demo_cache_def)

lemma demo_no_policies: "view_stored (barrier_stored demo_crypto (file_contents demo_de [''data''])) v demo_unsealed = Map.empty"
  by (simp add: view_stored_def barrier_stored_def file_contents_def demo_unsealed_def fun_eq_iff)

lemma demo_policy_inv: "demo_policy_inv demo_pstate"
  using demo_cache_contract demo_vault_ready demo_no_policies
  by (auto simp: policy_inv_def demo_penv_def demo_pstate_def types_ok_def cache_ok_def policy_contents_def)

lemma demo_name_ok: "policy_name_ok ''dev''" "policy_name_ok ''ops''" "to_lowercase ''Dev'' = ''dev''" "to_lowercase ''ops'' = ''ops''"
  "to_lowercase ''dev'' = ''dev''"
  unfolding policy_name_ok_def by code_simp+

theorem policy_store_new_agrees_witness:
  "\<exists>s'. policy_store_new demo_penv (Some (view_new SYSTEM_BARRIER_PREFIX)) (demo_pstate\<lparr>ps_policy_type_map := Map.empty\<rparr>) =
      Some (Ok demo_policy_env, s') \<and> demo_policy_inv s'"
proof -
  have "pn_sops demo_penv = barrier_storage demo_crypto (file_backend demo_ser demo_de [''data''])"
    "cache_contract (pn_cache demo_penv) (\<lambda>c. c)"
    using demo_cache_contract by (simp_all add: demo_penv_def demo_ops_def)
  moreover have "ps_store (demo_pstate\<lparr>ps_policy_type_map := Map.empty\<rparr>) = demo_unsealed" by (simp add: demo_pstate_def)
  ultimately show ?thesis
    using policy_store_new_agrees [where C = demo_crypto and ser = demo_ser and de = demo_de and root = "[''data'']" and
        s = "demo_pstate\<lparr>ps_policy_type_map := Map.empty\<rparr>" and E = demo_penv and holds = "\<lambda>c. c"] demo_vault_ready demo_no_policies by auto
qed

abbreviation demo_dev :: policy where
  "demo_dev \<equiv> \<lparr>po_name = ''dev'', po_paths = [], po_raw = ''text'', po_type = Acl, po_templated = False\<rparr>"

lemma demo_parse: "policy_from_str (pn_hcl demo_penv) ''text'' = Ok (demo_dev\<lparr>po_name := []\<rparr>)"
  by (simp add: demo_penv_def policy_from_str_def policy_from_body_def parse_name_def)

theorem policy_set_get_witness:
  "\<exists>s1. set_policy demo_policy_env (demo_dev\<lparr>po_name := ''Dev''\<rparr>) demo_pstate = (Ok (), s1) \<and> demo_policy_inv s1 \<and>
    fst (get_policy demo_policy_env ''dev'' Acl s1) = Ok (Some demo_dev)"
proof -
  obtain r s1 where set: "set_policy demo_policy_env ((demo_dev\<lparr>po_name := []\<rparr>)\<lparr>po_name := ''Dev''\<rparr>) demo_pstate = (r, s1)"
    by fastforce
  have c: "\<forall>pe. pn_dec_entry demo_penv (pn_enc_entry demo_penv pe) = Some pe" "''Dev'' \<noteq> []"
    "policy_name_ok (to_lowercase ''Dev'')" "to_lowercase ''Dev'' \<notin> set IMMUTABLE_POLICIES"
    "\<forall>q c. fst (cc_insert (pn_cache demo_penv) (to_lowercase ''Dev'') q c)"
    using demo_name_ok
    by (simp_all add: demo_penv_def demo_entry_codec demo_cache_def IMMUTABLE_POLICIES_def
        RESPONSE_WRAPPING_POLICY_NAME_def CONTROL_GROUP_POLICY_NAME_def)
  show ?thesis
    using policy_set_get [OF demo_policy_inv demo_parse c(1-4) set] c(5) set demo_name_ok by auto
qed

theorem policy_delete_removes_witness:
  "\<exists>s1. delete_policy demo_policy_env ''dev'' Acl demo_pstate = (Ok (), s1) \<and> demo_policy_inv s1 \<and>
    fst (get_policy demo_policy_env ''dev'' Acl s1) = Ok None"
proof -
  have "policy_name_ok (to_lowercase ''dev'')" "to_lowercase ''dev'' \<notin> set IMMUTABLE_POLICIES" "to_lowercase ''dev'' \<noteq> ''default''"
    using demo_name_ok
    by (simp_all add: IMMUTABLE_POLICIES_def RESPONSE_WRAPPING_POLICY_NAME_def CONTROL_GROUP_POLICY_NAME_def)
  from policy_delete_removes [OF demo_policy_inv this] this(1) show ?thesis by auto
qed

lemma demo_get_none: "fst (get_policy demo_policy_env ''dev'' Acl demo_pstate) = Ok None"
  using fp.get_policy_acl [unfolded policy_files_eq, OF demo_policy_inv, of "''dev''"] demo_name_ok demo_no_policies
  by (auto simp: named_policy_def policy_contents_def demo_pstate_def)

definition demo_prequest :: "string list \<Rightarrow> request" where
  "demo_prequest ps = (request_new ''secret/a'')\<lparr>rq_client_token := ''t'', rq_auth := Some ((auth_default 0)\<lparr>au_policies := ps\<rparr>)\<rparr>"

theorem post_auth_decides_by_stored_policies_witness:
  "fst (post_auth demo_policy_env (demo_pstate, demo_prequest [''dev''])) =
    Err (ErrString ''unable to get the barrier subview for policy type token'')"
proof -
  have "\<forall>au n. rq_auth (demo_prequest [''dev'']) = Some au \<longrightarrow> n \<in> set (au_policies au) \<longrightarrow> policy_name_ok (to_lowercase n)"
    using demo_name_ok by (simp add: demo_prequest_def)
  from post_auth_decides_by_stored_policies [OF demo_policy_inv this] demo_no_policies demo_name_ok show ?thesis
    by (auto simp: authorise_def demo_prequest_def token_policy_def policy_contents_def demo_pstate_def Let_def)
qed

theorem missing_policy_refuses_witness:
  "fst (post_auth demo_policy_env (demo_pstate, demo_prequest [''ops'', ''dev''])) \<noteq> Ok ()"
proof -
  have "rq_auth (demo_prequest [''ops'', ''dev'']) = Some ((auth_default 0)\<lparr>au_policies := [''ops'', ''dev'']\<rparr>)"
    "\<forall>n \<in> set (au_policies ((auth_default 0)\<lparr>au_policies := [''ops'', ''dev'']\<rparr>)). policy_name_ok (to_lowercase n)"
    "''dev'' \<in> set (au_policies ((auth_default 0)\<lparr>au_policies := [''ops'', ''dev'']\<rparr>))" "to_lowercase ''dev'' \<noteq> ''root''"
    using demo_name_ok by (simp_all add: demo_prequest_def)
  from missing_policy_refuses [OF demo_policy_inv this demo_get_none] show ?thesis .
qed

text \<open>A token store that finds one token under every id.\<close>

definition demo_token_env :: "string list \<Rightarrow> (fs barrier, string \<Rightarrow> policy option) pstate tenv" where
  "demo_token_env ps =
     \<lparr>tn_sops = \<lparr>storage_list = (\<lambda>_ s. (Ok [], s)), storage_get = (\<lambda>k s. (Ok (Some \<lparr>se_key = k, se_value = []\<rparr>), s)),
        storage_put = (\<lambda>_ s. (Ok (), s)), storage_delete = (\<lambda>_ s. (Ok (), s))\<rparr>,
      tn_view = Some (view_new ''sys/token/''), tn_salt = [], tn_id_view = view_new [], tn_token_view = view_new [],
      tn_linked = True, tn_router = [], tn_anc = (\<lambda>_ _. None), tn_mounts = [], tn_digest = (\<lambda>_. 0), tn_uuid = (\<lambda>_. []),
      tn_clock = (\<lambda>_. 0), tn_enc_token = (\<lambda>_. []),
      tn_dec_token = (\<lambda>_. Some ((demo_entry ''t'' [] 0)\<lparr>tke_policies := ps\<rparr>)),
      tn_enc_lease = (\<lambda>_. []), tn_dec_lease = (\<lambda>_. None), tn_dec_old_lease = (\<lambda>_. None), tn_dec_req = (\<lambda>_. None),
      tn_utf8 = (\<lambda>_. []), tn_lossy = (\<lambda>_. []), tn_parsers = (\<lambda>_. None, \<lambda>_. None)\<rparr>"

definition demo_pt :: "(fs barrier, string \<Rightarrow> policy option) pstate tstate" where
  "demo_pt = \<lparr>ts_store = demo_pstate, ts_queue = [], ts_uuids = 0, ts_reads = 0\<rparr>"

lemma demo_token_found:
  "token_lookup (demo_token_env ps) (rq_client_token (demo_prequest qs)) demo_pt =
    (Ok (Some ((demo_entry ''t'' [] 0)\<lparr>tke_policies := ps\<rparr>)), demo_pt)"
proof -
  have "sanity_check (id_key (ts_salt_id (demo_token_env ps) ''t'')) = Ok ()"
  proof -
    have "ts_salt_id (demo_token_env ps) ''t'' = replicate 40 CHR ''0''"
      by (simp add: ts_salt_id_def sha1_def demo_token_env_def hex_digit_def map_replicate_const)
    then show ?thesis by (simp only: TOKEN_LOOKUP_PREFIX_def) code_simp
  qed
  then show ?thesis
    by (simp add: token_lookup_def demo_prequest_def lookup_salted_def with_view_def on_store_def view_get_def
        demo_token_env_def demo_pt_def op_bind_def)
qed

lemma demo_protected: "\<not> is_unauth_path (tn_anc (demo_token_env ps)) (tn_router (demo_token_env ps)) p"
  by (simp add: demo_token_env_def is_unauth_path_def trie_ancestor_def)

theorem token_without_policies_unrestricted_witness:
  "\<exists>t' req'. token_pre_route (demo_token_env []) [policy_auth_handler demo_policy_env] (demo_pt, demo_prequest []) =
    Some (Ok None, (t', req'))"
proof (rule token_without_policies_unrestricted [OF demo_protected _ demo_token_found])
  have "sanitize_policies [] False = []" by code_simp
  then show "sanitize_policies (tke_policies ((demo_entry ''t'' [] 0)\<lparr>tke_policies := []\<rparr>)) False = []" by simp
qed (simp_all add: demo_prequest_def)

theorem request_passes_iff_authorised_witness:
  "\<exists>t' req'. token_pre_route (demo_token_env [''root'']) [policy_auth_handler demo_policy_env] (demo_pt, demo_prequest []) =
    Some (Ok None, (t', req'))"
proof -
  have san: "sanitize_policies [''root''] False = [''root'']" by code_simp
  have "policy_name_ok ''root''" "to_lowercase ''root'' = ''root''" unfolding policy_name_ok_def by code_simp+
  then have n: "\<forall>n \<in> set (sanitize_policies (tke_policies ((demo_entry ''t'' [] 0)\<lparr>tke_policies := [''root'']\<rparr>)) False).
      policy_name_ok (to_lowercase n)" by (simp add: san)
  have "policy_inv demo_crypto demo_ser demo_de [''data''] demo_penv (\<lambda>c. c) (ts_store demo_pt)"
    using demo_policy_inv by (simp add: demo_pt_def)
  from request_passes_iff_authorised [OF this demo_protected _ demo_token_found [of _ "[]"] _ n]
  obtain t' req' where "token_pre_route (demo_token_env [''root'']) [policy_auth_handler demo_policy_env] (demo_pt, demo_prequest []) =
      Some (handled (authorise demo_policy_env (policy_contents demo_crypto demo_de [''data''] (ts_store demo_pt))
        (checked_request (tn_clock (demo_token_env [''root'']) (ts_reads demo_pt)) ((demo_entry ''t'' [] 0)\<lparr>tke_policies := [''root'']\<rparr>)
          (demo_prequest []))), (t', req'))"
    by (auto simp: demo_prequest_def [of "[]"])
  then show ?thesis
    by (simp add: authorise_def checked_request_def auth_of_entry_def san token_policy_def \<open>to_lowercase ''root'' = ''root''\<close>
        acl_new_def root_policy_def policy_default_def allow_operation_def root_results_def handled_def Let_def)
qed

end
