(* ===== verification/Cidr.thy ===== *)
theory Cidr
  imports Text_Util Logical
begin

text \<open>
  Socket addresses and address blocks: \<open>src/utils/sock_addr.rs\<close>, \<open>ip_sock_addr.rs\<close>, \<open>unix_sock_addr.rs\<close> and
  \<open>cidr.rs\<close>.

  The parsers, the text of an address and the containment test of the crate \<open>ipnetwork\<close> are the record \<open>ip_env\<close>; its
  documented behaviour is \<open>ip_contract\<close>: an address is in a network when both are of one family and agree on the bits
  of the prefix. Shown: the comparison of blocks by prefix length and one address decides inclusion of the sets of
  addresses, and which addresses survive being printed and parsed.
\<close>

section \<open>Model\<close>

type_synonym u16 = "16 word"

datatype ip_addr = V4 "32 word" | V6 "128 word"

record ip_network =
  net_ip :: ip_addr
  net_prefix :: nat

datatype sock_addr_type = Unknown | Unix | IPv4 | IPv6 | IP

record ip_sock_addr =
  isa_addr :: ip_network
  isa_port :: u16

datatype sock_addr = IpSockAddr ip_sock_addr | UnixSockAddr string

record ip_env =
  ie_parse_ip :: "string \<Rightarrow> ip_addr option"
  ie_parse_net :: "string \<Rightarrow> ip_network option"
  ie_parse_socket :: "string \<Rightarrow> (ip_addr \<times> u16) option"
  ie_show_ip :: "ip_addr \<Rightarrow> string"
  ie_contains :: "ip_network \<Rightarrow> ip_addr \<Rightarrow> bool"

definition max_prefix :: "ip_addr \<Rightarrow> nat" where
  "max_prefix a = (case a of V4 _ \<Rightarrow> 32 | V6 _ \<Rightarrow> 128)"

definition network_of_ip :: "ip_addr \<Rightarrow> ip_network" where
  "network_of_ip a = \<lparr>net_ip = a, net_prefix = max_prefix a\<rparr>"

definition sock_addr_type_bits :: "sock_addr_type \<Rightarrow> u8" where
  "sock_addr_type_bits t = (case t of Unknown \<Rightarrow> 0 | Unix \<Rightarrow> 1 | IPv4 \<Rightarrow> 2 | IPv6 \<Rightarrow> 4 | IP \<Rightarrow> 6)"

definition sock_addr_type_name :: "sock_addr_type \<Rightarrow> string" where
  "sock_addr_type_name t = (case t of IPv4 \<Rightarrow> ''IPv4'' | IPv6 \<Rightarrow> ''IPv6'' | Unix \<Rightarrow> ''Unix'' | _ \<Rightarrow> ''Unknown'')"

definition sock_addr_type_from_str :: "string \<Rightarrow> sock_addr_type res" where
  "sock_addr_type_from_str s =
     (if s = ''IPv4'' \<or> s = ''ipv4'' then Ok IPv4
      else if s = ''IPv6'' \<or> s = ''ipv6'' then Ok IPv6
      else if s = ''Unix'' \<or> s = ''UNIX'' \<or> s = ''unix'' then Ok Unix
      else Err (ErrResponse ''invalid sockaddr type''))"

definition ip_sock_addr_new :: "ip_env \<Rightarrow> string \<Rightarrow> ip_sock_addr res" where
  "ip_sock_addr_new E s =
     (case ie_parse_socket E s of
        Some (a, port) \<Rightarrow> Ok \<lparr>isa_addr = network_of_ip a, isa_port = port\<rparr>
      | None \<Rightarrow>
          (case ie_parse_net E s of
             Some n \<Rightarrow> Ok \<lparr>isa_addr = n, isa_port = 0\<rparr>
           | None \<Rightarrow> Err (ErrResponse (''Unable to parse '' @ s @ '' to an IP address:''))))"

text \<open>\<open>s[0..1]\<close> is a slice of bytes: it panics inside a first character that takes more than one.\<close>

definition unix_sock_addr_new :: "string \<Rightarrow> string res" where
  "unix_sock_addr_new s =
     (if s \<noteq> [] \<and> 128 \<le> (of_char (hd s) :: nat) then Panic
      else if length s > 1 \<and> (hd s = CHR ''.'' \<or> hd s = CHR ''/'' \<or> CHR ''/'' \<in> set s) then Ok s
      else Err (ErrResponse (''Unable to convert '' @ s @
        '' to a UNIX Socke, make sure the string begins with either a '' @ [CHR 0x27] @ ''.'' @ [CHR 0x27] @ '' or '' @
        [CHR 0x27] @ ''/'' @ [CHR 0x27] @ '', or contains a '' @ [CHR 0x27] @ ''/'' @ [CHR 0x27])))"

definition new_sock_addr :: "ip_env \<Rightarrow> string \<Rightarrow> sock_addr res" where
  "new_sock_addr E s =
     (case ip_sock_addr_new E s of
        Ok a \<Rightarrow> Ok (IpSockAddr a)
      | _ \<Rightarrow>
          (case unix_sock_addr_new s of
             Ok p \<Rightarrow> Ok (UnixSockAddr p)
           | Panic \<Rightarrow> Panic
           | Err _ \<Rightarrow> Err (ErrResponse (''Unable to convert '' @ s @ '' to an IPv4 or IPv6 address, or a UNIX Socket''))))"

definition sock_contains :: "ip_env \<Rightarrow> sock_addr \<Rightarrow> sock_addr \<Rightarrow> bool" where
  "sock_contains E a b =
     (case (a, b) of
        (IpSockAddr x, IpSockAddr y) \<Rightarrow> ie_contains E (isa_addr x) (net_ip (isa_addr y))
      | (UnixSockAddr p, UnixSockAddr q) \<Rightarrow> p = q
      | _ \<Rightarrow> False)"

definition sock_equal :: "sock_addr \<Rightarrow> sock_addr \<Rightarrow> bool" where
  "sock_equal a b =
     (case (a, b) of
        (IpSockAddr x, IpSockAddr y) \<Rightarrow> isa_addr x = isa_addr y \<and> isa_port x = isa_port y
      | (UnixSockAddr p, UnixSockAddr q) \<Rightarrow> p = q
      | _ \<Rightarrow> False)"

definition sock_type :: "sock_addr \<Rightarrow> sock_addr_type" where
  "sock_type a =
     (case a of
        IpSockAddr x \<Rightarrow> (case net_ip (isa_addr x) of V4 _ \<Rightarrow> IPv4 | V6 _ \<Rightarrow> IPv6)
      | UnixSockAddr _ \<Rightarrow> Unix)"

text \<open>\<open>Display\<close>, which is also the form in which an address is stored.\<close>

definition show_sock_addr :: "ip_env \<Rightarrow> sock_addr \<Rightarrow> string" where
  "show_sock_addr E a =
     (case a of
        UnixSockAddr p \<Rightarrow> p
      | IpSockAddr x \<Rightarrow>
          let ip = ie_show_ip E (net_ip (isa_addr x)); n = net_prefix (isa_addr x) in
          if isa_port x \<noteq> 0 then ip @ '':'' @ nat_to_string (unat (isa_port x))
          else if n = 32 then ip
          else ip @ ''/'' @ nat_to_string n)"

definition is_ip_addr :: "sock_addr \<Rightarrow> bool" where
  "is_ip_addr a \<longleftrightarrow> (sock_addr_type_bits (sock_type a) AND sock_addr_type_bits IP) \<noteq> 0"

definition remote_addr_is_ok :: "ip_env \<Rightarrow> string \<Rightarrow> sock_addr list \<Rightarrow> bool res" where
  "remote_addr_is_ok E remote cidrs =
     (if cidrs = [] then Ok True
      else case new_sock_addr E remote of
          Ok a \<Rightarrow> Ok (list_ex (\<lambda>c. is_ip_addr c \<and> sock_contains E c a) cidrs)
        | Err _ \<Rightarrow> Ok False
        | Panic \<Rightarrow> Panic)"

definition parse_ip :: "ip_env \<Rightarrow> string \<Rightarrow> ip_addr res" where
  "parse_ip E s = (case ie_parse_ip E s of Some a \<Rightarrow> Ok a | None \<Rightarrow> Err (External AddrParseError ''invalid IP address''))"

definition parse_net :: "ip_env \<Rightarrow> string \<Rightarrow> ip_network res" where
  "parse_net E s = (case ie_parse_net E s of Some n \<Rightarrow> Ok n | None \<Rightarrow> Err (External IpNetworkError ''invalid network''))"

definition ip_belongs_to_cidr :: "ip_env \<Rightarrow> string \<Rightarrow> string \<Rightarrow> bool res" where
  "ip_belongs_to_cidr E ip_addr cidr =
     (if ip_addr = [] then Err (ErrResponse ''missing IP address'')
      else res_bind (parse_ip E ip_addr) (\<lambda>a. res_bind (parse_net E cidr) (\<lambda>n. Ok (ie_contains E n a))))"

fun belongs_to_any :: "ip_env \<Rightarrow> string \<Rightarrow> string list \<Rightarrow> bool res" where
  "belongs_to_any E ip_addr [] = Ok False"
| "belongs_to_any E ip_addr (c # cs) =
     res_bind (ip_belongs_to_cidr E ip_addr c) (\<lambda>b. if b then Ok True else belongs_to_any E ip_addr cs)"

definition ip_belongs_to_cidrs :: "ip_env \<Rightarrow> string \<Rightarrow> string list \<Rightarrow> bool res" where
  "ip_belongs_to_cidrs E ip_addr cidrs =
     (if ip_addr = [] then Err (ErrResponse ''missing IP address'')
      else if cidrs = [] then Err (ErrResponse ''missing CIDR blocks to be checked against'')
      else belongs_to_any E ip_addr cidrs)"

definition validate_cidrs :: "ip_env \<Rightarrow> string list \<Rightarrow> bool res" where
  "validate_cidrs E cidrs =
     (if cidrs = [] then Err (ErrResponse ''missing CIDR blocks that needs validation'')
      else res_bind (res_mapM (parse_net E) cidrs) (\<lambda>_. Ok True))"

text \<open>\<open>str::split\<close> by a string. The result for a set of pieces does not depend on the order in which they are walked.\<close>

function split_from :: "string \<Rightarrow> string \<Rightarrow> string \<Rightarrow> string list" where
  "split_from sep cur [] = [rev cur]"
| "split_from sep cur (c # s) =
     (if sep \<noteq> [] \<and> starts_with (c # s) sep then rev cur # split_from sep [] (drop (length sep) (c # s))
      else split_from sep (c # cur) s)"
  by pat_completeness auto
termination
  by (relation "measure (\<lambda>(_, _, s). length s)") auto

definition validate_cidr_string :: "ip_env \<Rightarrow> string \<Rightarrow> string \<Rightarrow> bool res" where
  "validate_cidr_string E cidr_list separator =
     (if cidr_list = [] then Err (ErrResponse ''missing CIDR list that needs validation'')
      else if separator = [] then Err (ErrResponse ''missing separator'')
      else validate_cidrs E (remdups (filter (\<lambda>c. c \<noteq> []) (map trim (split_from separator [] cidr_list)))))"

definition is_ip_addr_zero :: "ip_addr \<Rightarrow> bool" where
  "is_ip_addr_zero a = (case a of V4 x \<Rightarrow> x = 0 | V6 x \<Rightarrow> x = 0)"

definition cidr_subset :: "ip_env \<Rightarrow> string \<Rightarrow> string \<Rightarrow> bool res" where
  "cidr_subset E cidr1 cidr2 =
     (if cidr1 = [] then Err (ErrResponse ''missing CIDR to be checked against'')
      else if cidr2 = [] then Err (ErrResponse ''missing CIDR that needs to be checked'')
      else
        res_bind (parse_net E cidr1) (\<lambda>net1.
        if \<not> is_ip_addr_zero (net_ip net1) \<and> net_prefix net1 = 0 then
          Err (ErrResponse ''CIDR to be checked against is not in its canonical form'')
        else
          res_bind (parse_net E cidr2) (\<lambda>net2.
          if \<not> is_ip_addr_zero (net_ip net2) \<and> net_prefix net2 = 0 then
            Err (ErrResponse ''CIDR that needs to be checked is not in its canonical form'')
          else if net_prefix net2 < net_prefix net1 then Ok False
          else Ok (ie_contains E net1 (net_ip net2)))))"

fun subset_of_any :: "ip_env \<Rightarrow> string list \<Rightarrow> string \<Rightarrow> bool res" where
  "subset_of_any E [] c2 = Ok False"
| "subset_of_any E (c1 # cs) c2 = res_bind (cidr_subset E c1 c2) (\<lambda>b. if b then Ok True else subset_of_any E cs c2)"

fun all_subsets :: "ip_env \<Rightarrow> string list \<Rightarrow> string list \<Rightarrow> bool res" where
  "all_subsets E cs1 [] = Ok True"
| "all_subsets E cs1 (c2 # cs2) =
     res_bind (subset_of_any E cs1 c2) (\<lambda>b. if b then all_subsets E cs1 cs2 else Ok False)"

definition subset_blocks :: "ip_env \<Rightarrow> string list \<Rightarrow> string list \<Rightarrow> bool res" where
  "subset_blocks E blocks1 blocks2 =
     (if blocks1 = [] then Err (ErrResponse ''missing CIDR blocks to be checked against'')
      else if blocks2 = [] then Err (ErrResponse ''missing CIDR blocks that needs to be checked'')
      else all_subsets E blocks1 blocks2)"

section \<open>Inclusion of blocks\<close>

text \<open>Two addresses agree on a prefix when their upper bits are the same.\<close>

definition agree :: "nat \<Rightarrow> 'a::len word \<Rightarrow> 'a word \<Rightarrow> bool" where
  "agree p x y \<longleftrightarrow> (\<forall>i. LENGTH('a) - p \<le> i \<longrightarrow> i < LENGTH('a) \<longrightarrow> bit x i = bit y i)"

definition net_addresses :: "ip_network \<Rightarrow> ip_addr set" where
  "net_addresses n =
     (case net_ip n of V4 x \<Rightarrow> V4 ` {y. agree (net_prefix n) x y} | V6 x \<Rightarrow> V6 ` {y. agree (net_prefix n) x y})"

definition ip_contract :: "ip_env \<Rightarrow> bool" where
  "ip_contract E \<longleftrightarrow>
     (\<forall>n a. ie_contains E n a \<longleftrightarrow> a \<in> net_addresses n) \<and>
     (\<forall>s n. ie_parse_net E s = Some n \<longrightarrow> net_prefix n \<le> max_prefix (net_ip n))"

lemma agree_refl [simp]: "agree p x x"
  by (simp add: agree_def)

lemma agree_subset_iff:
  fixes x y :: "'a::len word"
  assumes "p \<le> LENGTH('a)"
  shows "(\<forall>a. agree q y a \<longrightarrow> agree p x a) \<longleftrightarrow> p \<le> q \<and> agree p x y"
proof
  assume r: "\<forall>a. agree q y a \<longrightarrow> agree p x a"
  then have xy: "agree p x y" by simp
  have "p \<le> q"
  proof (rule ccontr)
    assume "\<not> p \<le> q"
    let ?i = "LENGTH('a) - p"
    have i: "?i < LENGTH('a)" "?i < LENGTH('a) - q" using assms \<open>\<not> p \<le> q\<close> by auto
    then have "agree q y (flip_bit ?i y)" by (auto simp: agree_def bit_flip_bit_iff)
    with r have "agree p x (flip_bit ?i y)" by blast
    then have "bit x ?i = bit (flip_bit ?i y) ?i" using i by (simp add: agree_def)
    moreover have "bit x ?i = bit y ?i" using xy i by (simp add: agree_def)
    ultimately show False using i by (simp add: bit_flip_bit_iff)
  qed
  with xy show "p \<le> q \<and> agree p x y" by simp
next
  assume pq: "p \<le> q \<and> agree p x y"
  have "bit x i = bit a i" if "agree q y a" "LENGTH('a) - p \<le> i" "i < LENGTH('a)" for a i
  proof -
    have "LENGTH('a) - q \<le> i" using that(2) conjunct1 [OF pq] by linarith
    then show ?thesis using that conjunct2 [OF pq] by (simp add: agree_def)
  qed
  then show "\<forall>a. agree q y a \<longrightarrow> agree p x a" by (simp add: agree_def)
qed

lemma net_subset_iff:
  assumes "net_prefix n1 \<le> max_prefix (net_ip n1)"
  shows "net_addresses n2 \<subseteq> net_addresses n1 \<longleftrightarrow> net_prefix n1 \<le> net_prefix n2 \<and> net_ip n2 \<in> net_addresses n1"
proof -
  have img: "V4 ` A \<subseteq> V4 ` B \<longleftrightarrow> A \<subseteq> B" "V6 ` C \<subseteq> V6 ` D \<longleftrightarrow> C \<subseteq> D"
    "V4 y \<in> V4 ` A \<longleftrightarrow> y \<in> A" "V6 z \<in> V6 ` C \<longleftrightarrow> z \<in> C" "V4 ` A \<subseteq> V6 ` C \<longleftrightarrow> A = {}" "V6 ` C \<subseteq> V4 ` A \<longleftrightarrow> C = {}"
    "V4 y \<notin> V6 ` C" "V6 z \<notin> V4 ` A" for A B C D y z by auto
  have ne: "\<exists>a. agree q x a" for q and x :: "'a::len word" using agree_refl by blast
  note sub = subset_eq [of "Collect (agree q y)" "Collect (agree p x)" for p q x y]
  show ?thesis
    using assms
    by (cases "net_ip n1"; cases "net_ip n2")
      (simp_all add: net_addresses_def max_prefix_def img ne sub agree_subset_iff)
qed

lemma cidr_subset_decides:
  assumes "ip_contract E" "cidr_subset E c1 c2 = Ok b"
  obtains n1 n2 where "ie_parse_net E c1 = Some n1" "ie_parse_net E c2 = Some n2"
    "b \<longleftrightarrow> net_addresses n2 \<subseteq> net_addresses n1"
proof -
  obtain n1 n2 where n: "ie_parse_net E c1 = Some n1" "ie_parse_net E c2 = Some n2"
    "b = (\<not> net_prefix n2 < net_prefix n1 \<and> ie_contains E n1 (net_ip n2))"
    using assms(2) by (auto simp: cidr_subset_def parse_net_def res_bind_Ok_iff split: if_splits option.splits)
  moreover have "b \<longleftrightarrow> net_addresses n2 \<subseteq> net_addresses n1"
    using net_subset_iff [of n1 n2] assms(1) n by (auto simp: ip_contract_def)
  ultimately show ?thesis using that by blast
qed

text \<open>The addresses of a block given as text.\<close>

definition block :: "ip_env \<Rightarrow> string \<Rightarrow> ip_addr set" where
  "block E c = (case ie_parse_net E c of Some n \<Rightarrow> net_addresses n | None \<Rightarrow> {})"

lemma subset_of_any_decides:
  assumes "ip_contract E" "subset_of_any E cs c2 = Ok b"
  shows "b \<longleftrightarrow> (\<exists>c1 \<in> set cs. block E c2 \<subseteq> block E c1)"
  using assms(2)
proof (induction cs)
  case (Cons c cs)
  then obtain b1 where b1: "cidr_subset E c c2 = Ok b1" by (auto simp: res_bind_Ok_iff)
  obtain n1 n2 where "ie_parse_net E c = Some n1" "ie_parse_net E c2 = Some n2"
    "b1 \<longleftrightarrow> net_addresses n2 \<subseteq> net_addresses n1"
    by (rule cidr_subset_decides [OF assms(1) b1])
  then have "b1 \<longleftrightarrow> block E c2 \<subseteq> block E c" by (simp add: block_def)
  then show ?case using Cons b1 by (cases b1) auto
qed simp

lemma subset_blocks_included:
  assumes "ip_contract E" "subset_blocks E cs1 cs2 = Ok b"
  shows "b \<longleftrightarrow> (\<forall>c2 \<in> set cs2. \<exists>c1 \<in> set cs1. block E c2 \<subseteq> block E c1)"
proof -
  have "all_subsets E cs1 cs2 = Ok b" using assms(2) by (simp add: subset_blocks_def split: if_splits)
  then show ?thesis
  proof (induction cs2)
    case (Cons c cs)
    then obtain b1 where b1: "subset_of_any E cs1 c = Ok b1" by (auto simp: res_bind_Ok_iff)
    then show ?case
      using Cons subset_of_any_decides [OF assms(1) b1] by (cases b1) auto
  qed simp
qed

text \<open>
  C33: the comparison of address blocks decides inclusion. When \<open>subset_blocks\<close> returns, its answer is whether the
  addresses of every block of the second list are all in one block of the first, though the code compares only the
  lengths of the prefixes and tests one address of each block.
\<close>

theorem subset_blocks_decides_inclusion:
  assumes "ip_contract E" "subset_blocks E cs1 cs2 = Ok b"
  shows "b \<longleftrightarrow> (\<forall>c2 \<in> set cs2. \<exists>c1 \<in> set cs1. block E c2 \<subseteq> block E c1)"
  using assms by (rule subset_blocks_included)

section \<open>Addresses as text\<close>

text \<open>The documented forms: an address with a port, alone, and with a prefix length.\<close>

definition ip_text_contract :: "ip_env \<Rightarrow> bool" where
  "ip_text_contract E \<longleftrightarrow>
     (\<forall>a. ie_parse_socket E (ie_show_ip E a) = None \<and> ie_parse_net E (ie_show_ip E a) = Some (network_of_ip a)) \<and>
     (\<forall>x port. ie_parse_socket E (ie_show_ip E (V4 x) @ '':'' @ nat_to_string (unat port)) = Some (V4 x, port)) \<and>
     (\<forall>a n. n \<le> max_prefix a \<longrightarrow>
        ie_parse_socket E (ie_show_ip E a @ ''/'' @ nat_to_string n) = None \<and>
        ie_parse_net E (ie_show_ip E a @ ''/'' @ nat_to_string n) = Some \<lparr>net_ip = a, net_prefix = n\<rparr>)"

text \<open>
  A stored address is read back, except for some of the sixth version. An address of the fourth version with a port
  and no prefix, or with a prefix and no port, is parsed from its text; a block of the sixth version with a prefix of
  32 bits is read back as the single address.
\<close>

theorem sock_addr_text_roundtrip:
  assumes "ip_text_contract E" "net_prefix (isa_addr x) \<le> max_prefix (net_ip (isa_addr x))"
    and "isa_port x \<noteq> 0 \<longrightarrow> (\<exists>a. isa_addr x = network_of_ip (V4 a))"
  shows "new_sock_addr E (show_sock_addr E (IpSockAddr x)) =
    Ok (IpSockAddr (if isa_port x = 0 \<and> net_prefix (isa_addr x) = 32
      then x\<lparr>isa_addr := network_of_ip (net_ip (isa_addr x))\<rparr> else x))"
proof -
  let ?a = "net_ip (isa_addr x)" and ?n = "net_prefix (isa_addr x)"
  have x: "x = \<lparr>isa_addr = \<lparr>net_ip = ?a, net_prefix = ?n\<rparr>, isa_port = isa_port x\<rparr>" by simp
  consider "isa_port x \<noteq> 0" | "isa_port x = 0" "?n = 32" | "isa_port x = 0" "?n \<noteq> 32" by blast
  then show ?thesis
  proof cases
    case 1
    then obtain a where a: "isa_addr x = network_of_ip (V4 a)" using assms(3) by blast
    then have "ie_parse_socket E (show_sock_addr E (IpSockAddr x)) = Some (V4 a, isa_port x)"
      using 1 assms(1) by (simp add: show_sock_addr_def ip_text_contract_def network_of_ip_def Let_def)
    then show ?thesis using 1 a x by (simp add: new_sock_addr_def ip_sock_addr_new_def)
  next
    case 2
    then show ?thesis
      using assms(1) by (cases x) (simp add: show_sock_addr_def ip_text_contract_def new_sock_addr_def ip_sock_addr_new_def Let_def)
  next
    case 3
    then have "ie_parse_socket E (show_sock_addr E (IpSockAddr x)) = None"
      "ie_parse_net E (show_sock_addr E (IpSockAddr x)) = Some (isa_addr x)"
      using assms(1,2) by (simp_all add: show_sock_addr_def ip_text_contract_def Let_def)
    then show ?thesis using 3 by (cases x) (simp add: new_sock_addr_def ip_sock_addr_new_def)
  qed
qed

section \<open>Witnesses\<close>

text \<open>Networks of the fourth version written in unary: the address, a slash and the prefix; the containment of the contract.\<close>

definition demo_net :: "string \<Rightarrow> ip_network option" where
  "demo_net s =
     (if set s \<subseteq> {CHR ''/''} \<and> length s \<le> 33 \<and> s \<noteq> [] then Some \<lparr>net_ip = V4 0, net_prefix = length s - 1\<rparr> else None)"

definition demo_ip_env :: ip_env where
  "demo_ip_env = \<lparr>ie_parse_ip = (\<lambda>_. None), ie_parse_net = demo_net, ie_parse_socket = (\<lambda>_. None), ie_show_ip = (\<lambda>_. []),
     ie_contains = (\<lambda>n a. a \<in> net_addresses n)\<rparr>"

lemma demo_ip_contract: "ip_contract demo_ip_env"
  by (auto simp: ip_contract_def demo_ip_env_def demo_net_def max_prefix_def)

theorem subset_blocks_decides_inclusion_witness:
  "block demo_ip_env ''///////'' \<subseteq> block demo_ip_env ''///''"
proof -
  have "subset_blocks demo_ip_env [''///''] [''///////''] = Ok True"
    by (simp add: subset_blocks_def cidr_subset_def parse_net_def demo_ip_env_def demo_net_def net_addresses_def
        is_ip_addr_zero_def)
  from subset_blocks_decides_inclusion [OF demo_ip_contract this] show ?thesis by simp
qed

text \<open>Addresses in unary after the digit of their version.\<close>

definition demo_show :: "ip_addr \<Rightarrow> string" where
  "demo_show a = (case a of V4 x \<Rightarrow> CHR ''4'' # replicate (unat x) CHR ''a'' | V6 x \<Rightarrow> CHR ''6'' # replicate (unat x) CHR ''a'')"

definition demo_read :: "string \<Rightarrow> (ip_addr \<times> string) option" where
  "demo_read s =
     (case s of
        [] \<Rightarrow> None
      | c # r \<Rightarrow>
          let n = length (takeWhile (\<lambda>d. d = CHR ''a'') r) in
          Some (if c = CHR ''4'' then V4 (of_nat n) else V6 (of_nat n), dropWhile (\<lambda>d. d = CHR ''a'') r))"

definition demo_text_env :: ip_env where
  "demo_text_env = \<lparr>ie_parse_ip = (\<lambda>_. None),
     ie_parse_net = (\<lambda>s. case demo_read s of
         None \<Rightarrow> None
       | Some (a, []) \<Rightarrow> Some (network_of_ip a)
       | Some (a, c # r) \<Rightarrow> if c = CHR ''/'' then map_option (\<lambda>n. \<lparr>net_ip = a, net_prefix = n\<rparr>) (parse_digits 0 r) else None),
     ie_parse_socket = (\<lambda>s. case demo_read s of
         Some (a, c # r) \<Rightarrow> if c = CHR '':'' then map_option (\<lambda>n. (a, of_nat n)) (parse_digits 0 r) else None
       | _ \<Rightarrow> None),
     ie_show_ip = demo_show, ie_contains = (\<lambda>_ _. False)\<rparr>"

lemma demo_read_show: "r = [] \<or> hd r \<noteq> CHR ''a'' \<Longrightarrow> demo_read (demo_show a @ r) = Some (a, r)"
  by (cases a; cases r) (auto simp: demo_read_def demo_show_def takeWhile_append dropWhile_append)

lemma demo_text_contract: "ip_text_contract demo_text_env"
  using demo_read_show [of "[]"]
  by (simp add: ip_text_contract_def demo_text_env_def demo_read_show parse_nat_to_string)

theorem sock_addr_text_roundtrip_witness:
  "new_sock_addr demo_text_env (show_sock_addr demo_text_env
      (IpSockAddr \<lparr>isa_addr = \<lparr>net_ip = V6 1, net_prefix = 32\<rparr>, isa_port = 0\<rparr>)) =
    Ok (IpSockAddr \<lparr>isa_addr = \<lparr>net_ip = V6 1, net_prefix = 128\<rparr>, isa_port = 0\<rparr>)"
  using sock_addr_text_roundtrip [OF demo_text_contract,
      of "\<lparr>isa_addr = \<lparr>net_ip = V6 1, net_prefix = 32\<rparr>, isa_port = 0\<rparr>"]
  by (simp add: max_prefix_def network_of_ip_def)

end
