(* ===== verification/Token_Util.thy ===== *)
theory Token_Util
  imports Cidr
begin

text \<open>
  The token parameters that credential backends share, \<open>src/utils/token_util.rs\<close>: the fields a client may set, reading
  them from a request, showing them, what of them goes into the authentication data of a login, and the form in which
  they come back from the storage.
\<close>

record token_params =
  tp_token_type :: string
  tp_token_ttl :: duration
  tp_token_max_ttl :: duration
  tp_token_explicit_max_ttl :: duration
  tp_token_period :: duration
  tp_token_no_default_policy :: bool
  tp_token_num_uses :: nat
  tp_token_policies :: "string list"
  tp_token_bound_cidrs :: "sock_addr list"

definition token_params_new :: "string \<Rightarrow> token_params" where
  "token_params_new ty =
     \<lparr>tp_token_type = ty, tp_token_ttl = 0, tp_token_max_ttl = 0, tp_token_explicit_max_ttl = 0, tp_token_period = 0,
      tp_token_no_default_policy = False, tp_token_num_uses = 0, tp_token_policies = [], tp_token_bound_cidrs = []\<rparr>"

definition token_params_default :: token_params where
  "token_params_default = token_params_new []"

definition optional_field :: "field_type \<Rightarrow> field" where
  "optional_field t = \<lparr>required = False, field_type = t, field_default = JNull\<rparr>"

definition default_field :: "field_type \<Rightarrow> json \<Rightarrow> field" where
  "default_field t d = (optional_field t)\<lparr>field_default := d\<rparr>"

definition required_field :: "field_type \<Rightarrow> field" where
  "required_field t = \<lparr>required = True, field_type = t, field_default = JNull\<rparr>"

definition bool_field :: "bool \<Rightarrow> field" where "bool_field b = default_field BoolType (JBool b)"
definition text_field :: "string \<Rightarrow> field" where "text_field s = default_field Str (JString s)"
definition int_field :: "int \<Rightarrow> field" where "int_field i = default_field IntType (JNum i)"

text \<open>A path of a backend, the pattern of a name in it, and a list of strings in an answer.\<close>

definition new_path :: "string \<Rightarrow> (string \<times> field) list \<Rightarrow> (operation \<times> 's handler) list \<Rightarrow> 's backend_path" where
  "new_path pattern flds ops = \<lparr>bp_path = \<lparr>lp_pattern = pattern, lp_fields = flds\<rparr>, bp_operations = ops\<rparr>"

definition word_pattern :: "string \<Rightarrow> string \<Rightarrow> string" where
  "word_pattern pfx name =
     pfx @ ''(?P<'' @ name @ ''>'' @ [CHR 0x5C] @ ''w['' @ [CHR 0x5C] @ ''w-]+'' @ [CHR 0x5C] @ ''w)''"

definition str_list :: "string list \<Rightarrow> json" where
  "str_list xs = JArray (map JString xs)"

definition token_fields :: "(string \<times> field) list" where
  "token_fields =
     [(''token_type'', (optional_field Str)\<lparr>field_default := JString ''default''\<rparr>),
      (''token_ttl'', optional_field DurationSecond), (''token_max_ttl'', optional_field DurationSecond),
      (''token_explicit_max_ttl'', optional_field DurationSecond), (''token_period'', optional_field DurationSecond),
      (''token_no_default_policy'', optional_field BoolType), (''token_policies'', optional_field CommaStringSlice),
      (''token_bound_cidrs'', optional_field CommaStringSlice), (''token_num_uses'', optional_field IntType)]"

text \<open>A field that the request has is converted, one that it has not (or not of its type) is left alone.\<close>

definition set_field ::
  "parsers \<Rightarrow> request \<Rightarrow> string \<Rightarrow> (json \<Rightarrow> 'a option) \<Rightarrow> ('a \<Rightarrow> 'p \<Rightarrow> 'p) \<Rightarrow> 'p \<Rightarrow> 'p res" where
  "set_field P req key conv upd p =
     (case get_data P req key of
        Ok v \<Rightarrow> (case conv v of Some x \<Rightarrow> Ok (upd x p) | None \<Rightarrow> Err ErrRequestFieldInvalid)
      | Err _ \<Rightarrow> Ok p
      | Panic \<Rightarrow> Panic)"

definition parse_token_type :: "string \<Rightarrow> string option" where
  "parse_token_type s =
     (let t = (if s = [] then ''default'' else if s = ''default-service'' then ''service''
               else if s = ''default-batch'' then ''batch'' else s)
      in if t \<in> {''default'', ''service'', ''batch''} then Some t else None)"

definition set_token_type :: "parsers \<Rightarrow> request \<Rightarrow> token_params \<Rightarrow> token_params res" where
  "set_token_type P req p =
     (case get_data_or_default P req ''token_type'' of
        Ok v \<Rightarrow> (case Option.bind (as_str v) parse_token_type of
              Some t \<Rightarrow> Ok (p\<lparr>tp_token_type := t\<rparr>) | None \<Rightarrow> Err ErrRequestFieldInvalid)
      | Err _ \<Rightarrow> Ok p
      | Panic \<Rightarrow> Panic)"

definition parse_cidrs :: "ip_env \<Rightarrow> string list \<Rightarrow> sock_addr list res" where
  "parse_cidrs I cs = res_mapM (new_sock_addr I) cs"

definition set_bound_cidrs ::
  "ip_env \<Rightarrow> parsers \<Rightarrow> request \<Rightarrow> string \<Rightarrow> (sock_addr list \<Rightarrow> 'p \<Rightarrow> 'p) \<Rightarrow> 'p \<Rightarrow> 'p res" where
  "set_bound_cidrs I P req key upd p =
     (case get_data P req key of
        Ok v \<Rightarrow> (case as_comma_string_slice v of
              Some cs \<Rightarrow> res_bind (parse_cidrs I cs) (\<lambda>as. Ok (upd as p))
            | None \<Rightarrow> Err ErrRequestFieldInvalid)
      | Err _ \<Rightarrow> Ok p
      | Panic \<Rightarrow> Panic)"

definition parse_token_fields :: "ip_env \<Rightarrow> parsers \<Rightarrow> request \<Rightarrow> token_params \<Rightarrow> token_params res" where
  "parse_token_fields I P req p0 =
     (let dur = as_duration (snd P) in
      res_bind (set_field P req ''token_ttl'' dur (\<lambda>x p. p\<lparr>tp_token_ttl := x\<rparr>) p0) (\<lambda>p1.
      res_bind (set_field P req ''token_max_ttl'' dur (\<lambda>x p. p\<lparr>tp_token_max_ttl := x\<rparr>) p1) (\<lambda>p2.
      res_bind (set_field P req ''token_explicit_max_ttl'' dur (\<lambda>x p. p\<lparr>tp_token_explicit_max_ttl := x\<rparr>) p2) (\<lambda>p3.
      res_bind (set_field P req ''token_period'' dur (\<lambda>x p. p\<lparr>tp_token_period := x\<rparr>) p3) (\<lambda>p4.
      res_bind (set_field P req ''token_no_default_policy'' as_bool (\<lambda>x p. p\<lparr>tp_token_no_default_policy := x\<rparr>) p4) (\<lambda>p5.
      res_bind (set_field P req ''token_num_uses'' as_u64 (\<lambda>x p. p\<lparr>tp_token_num_uses := x\<rparr>) p5) (\<lambda>p6.
      res_bind (set_token_type P req p6) (\<lambda>p7.
      res_bind (set_field P req ''token_policies'' as_comma_string_slice (\<lambda>x p. p\<lparr>tp_token_policies := x\<rparr>) p7) (\<lambda>p8.
        set_bound_cidrs I P req ''token_bound_cidrs'' (\<lambda>x p. p\<lparr>tp_token_bound_cidrs := x\<rparr>) p8)))))))))"

definition secs :: "duration \<Rightarrow> json" where
  "secs d = JNum (int (d div NANOS))"

definition show_cidrs :: "ip_env \<Rightarrow> sock_addr list \<Rightarrow> json" where
  "show_cidrs I as = JArray (map (\<lambda>a. JString (show_sock_addr I a)) as)"

definition populate_token_data :: "ip_env \<Rightarrow> token_params \<Rightarrow> json_obj \<Rightarrow> json_obj" where
  "populate_token_data I p d =
     fold (\<lambda>(k, v). obj_insert k v)
       [(''token_type'', JString (tp_token_type p)), (''token_ttl'', secs (tp_token_ttl p)),
        (''token_max_ttl'', secs (tp_token_max_ttl p)), (''token_explicit_max_ttl'', secs (tp_token_explicit_max_ttl p)),
        (''token_period'', secs (tp_token_period p)), (''token_no_default_policy'', JBool (tp_token_no_default_policy p)),
        (''token_num_uses'', JNum (int (tp_token_num_uses p))),
        (''token_policies'', JArray (map JString (tp_token_policies p))),
        (''token_bound_cidrs'', show_cidrs I (tp_token_bound_cidrs p))] d"

text \<open>The period, the explicit maximum, the number of uses and the bound addresses are not copied.\<close>

definition populate_token_auth :: "token_params \<Rightarrow> auth \<Rightarrow> auth" where
  "populate_token_auth p au =
     au\<lparr>au_lease := (au_lease au)\<lparr>ttl := tp_token_ttl p, max_ttl := tp_token_max_ttl p, renewable := True\<rparr>,
        au_policies := tp_token_policies p, au_no_default_policy := tp_token_no_default_policy p\<rparr>"

text \<open>
  What \<open>serde\<close> gives back of a stored value: durations are written in whole seconds as a signed number and read as an
  unsigned one (\<open>serialize_duration\<close>), addresses are written and read as text.
\<close>

definition stored_duration :: "duration \<Rightarrow> duration option" where
  "stored_duration d = (if d div NANOS < 2 ^ 63 then Some (from_secs (d div NANOS)) else None)"

definition stored_cidrs :: "ip_env \<Rightarrow> sock_addr list \<Rightarrow> sock_addr list option" where
  "stored_cidrs I as = (case res_mapM (\<lambda>a. new_sock_addr I (show_sock_addr I a)) as of Ok bs \<Rightarrow> Some bs | _ \<Rightarrow> None)"

definition stored_params :: "ip_env \<Rightarrow> token_params \<Rightarrow> token_params option" where
  "stored_params I p =
     Option.bind (stored_duration (tp_token_ttl p)) (\<lambda>t.
     Option.bind (stored_duration (tp_token_max_ttl p)) (\<lambda>m.
     Option.bind (stored_duration (tp_token_explicit_max_ttl p)) (\<lambda>e.
     Option.bind (stored_duration (tp_token_period p)) (\<lambda>d.
     Option.bind (stored_cidrs I (tp_token_bound_cidrs p)) (\<lambda>cs.
       Some (p\<lparr>tp_token_ttl := t, tp_token_max_ttl := m, tp_token_explicit_max_ttl := e, tp_token_period := d,
         tp_token_bound_cidrs := cs\<rparr>))))))"

lemma stored_duration_whole: "stored_duration d = Some d \<longleftrightarrow> (\<exists>n < 2 ^ 63. d = from_secs n)"
  by (auto simp: stored_duration_def from_secs_def NANOS_def)

lemma set_field_Ok:
  "set_field P req key conv upd p = Ok q \<Longrightarrow> q = p \<or> (\<exists>x. q = upd x p)"
  by (auto simp: set_field_def split: res.splits option.splits)

lemma set_bound_cidrs_Ok:
  "set_bound_cidrs I P req key upd p = Ok q \<Longrightarrow> q = p \<or> (\<exists>x. q = upd x p)"
  by (auto simp: set_bound_cidrs_def res_bind_Ok_iff split: res.splits option.splits)

section \<open>Parameters as numbers, for codecs\<close>

definition sock_code :: "sock_addr \<Rightarrow> ((nat + nat) \<times> nat \<times> nat) + string" where
  "sock_code a =
     (case a of
        IpSockAddr x \<Rightarrow> Inl (case net_ip (isa_addr x) of V4 w \<Rightarrow> Inl (unat w) | V6 w \<Rightarrow> Inr (unat w),
          net_prefix (isa_addr x), unat (isa_port x))
      | UnixSockAddr p \<Rightarrow> Inr p)"

definition sock_decode :: "((nat + nat) \<times> nat \<times> nat) + string \<Rightarrow> sock_addr" where
  "sock_decode c =
     (case c of
        Inl (w, n, port) \<Rightarrow> IpSockAddr \<lparr>isa_addr = \<lparr>net_ip = (case w of Inl x \<Rightarrow> V4 (of_nat x) | Inr x \<Rightarrow> V6 (of_nat x)),
          net_prefix = n\<rparr>, isa_port = of_nat port\<rparr>
      | Inr p \<Rightarrow> UnixSockAddr p)"

lemma sock_decode_code [simp]: "sock_decode (sock_code a) = a"
  by (cases a; cases "net_ip (isa_addr (case a of IpSockAddr x \<Rightarrow> x))")
    (simp_all add: sock_code_def sock_decode_def)

definition params_code where
  "params_code p =
     (tp_token_type p, tp_token_ttl p, tp_token_max_ttl p, tp_token_explicit_max_ttl p, tp_token_period p,
      tp_token_no_default_policy p, tp_token_num_uses p, tp_token_policies p, map sock_code (tp_token_bound_cidrs p))"

definition params_decode where
  "params_decode c =
     (case c of (ty, t, m, e, pe, nd, n, ps, cs) \<Rightarrow>
        \<lparr>tp_token_type = ty, tp_token_ttl = t, tp_token_max_ttl = m, tp_token_explicit_max_ttl = e, tp_token_period = pe,
         tp_token_no_default_policy = nd, tp_token_num_uses = n, tp_token_policies = ps,
         tp_token_bound_cidrs = map sock_decode cs\<rparr>)"

lemma params_decode_code [simp]: "params_decode (params_code p) = p"
  by (simp add: params_code_def params_decode_def o_def)

text \<open>No text is an address.\<close>

definition demo_no_ip :: ip_env where
  "demo_no_ip = \<lparr>ie_parse_ip = (\<lambda>_. None), ie_parse_net = (\<lambda>_. None), ie_parse_socket = (\<lambda>_. None), ie_show_ip = (\<lambda>_. []),
     ie_contains = (\<lambda>_ _. False)\<rparr>"

end
