(* ===== verification/System.thy ===== *)
theory System
  imports Auth Policies Token_Util
begin

text \<open>
  The system backend, \<open>src/modules/system/mod.rs\<close>: the requests under \<open>sys/\<close> that mount and unmount backends, enable
  authentication backends, change policies and reach the storage below all views. The state is the core with the
  modules that the handlers look up; unmounting and listing policies may not end (type \<open>pop\<close>).

  Shown: a mount request mounts and the table shows it; an unmount request ends and leaves nothing of the mount; the raw
  requests reach the contents of every view; which paths need root privileges.
\<close>

section \<open>Model\<close>

text \<open>
  The authentication module holds the core. A module that is not there is \<open>sy_has_auth = False\<close> or
  \<open>sy_policies = None\<close>; the state of the policy module has the storage of the core while a handler runs.
\<close>

record ('s, 'c) sys_state =
  sy_auth :: "'s auth_module"
  sy_has_auth :: bool
  sy_policies :: "('s, 'c) pstate option"

record ('s, 'c, 'r) sys_env =
  sye_sops :: "'s storage_ops"
  sye_anc :: ancestor
  sye_mount :: mount_env
  sye_policy :: "('s, 'c, 'r) penv"
  sye_parsers :: parsers
  sye_utf8 :: "string \<Rightarrow> bytes"
  sye_lossy :: "bytes \<Rightarrow> string"

type_synonym ('s, 'c) sys_handler = "(('s, 'c) sys_state \<times> request, response option) pop"

definition sys_core :: "('s, 'c) sys_state \<Rightarrow> 's core" where
  "sys_core s = am_core (sy_auth s)"

definition on_sys_core :: "('s core, 'a) pop \<Rightarrow> (('s, 'c) sys_state, 'a) pop" where
  "on_sys_core f s = map_option (\<lambda>(r, c). (r, s\<lparr>sy_auth := (sy_auth s)\<lparr>am_core := c\<rparr>\<rparr>)) (f (sys_core s))"

definition on_sys_storage :: "('s, 'a) op \<Rightarrow> (('s, 'c) sys_state, 'a) pop" where
  "on_sys_storage f = on_sys_core (pop_of (\<lambda>c. case f (co_storage c) of (r, x) \<Rightarrow> (r, c\<lparr>co_storage := x\<rparr>)))"

definition on_auth_module :: "('s auth_module, 'a) pop \<Rightarrow> (('s, 'c) sys_state, 'a) pop" where
  "on_auth_module f s =
     (if sy_has_auth s then map_option (\<lambda>(r, a). (r, s\<lparr>sy_auth := a\<rparr>)) (f (sy_auth s)) else Some (Err ErrModuleNotFound, s))"

definition on_policy_module ::
  "((('s, 'c) pstate \<times> request, 'a) pop) \<Rightarrow> (('s, 'c) sys_state \<times> request, 'a) pop" where
  "on_policy_module f st =
     (case sy_policies (fst st) of
        None \<Rightarrow> Some (Err ErrModuleNotFound, st)
      | Some p \<Rightarrow>
          map_option (\<lambda>(r, (p', req)).
              (r, ((fst st)\<lparr>sy_policies := Some p',
                     sy_auth := (sy_auth (fst st))\<lparr>am_core := (sys_core (fst st))\<lparr>co_storage := ps_store p'\<rparr>\<rparr>\<rparr>, req)))
            (f (p\<lparr>ps_store := co_storage (sys_core (fst st))\<rparr>, snd st)))"

definition str_arg :: "json \<Rightarrow> string res" where
  "str_arg v = (case as_str v of None \<Rightarrow> Panic | Some s \<Rightarrow> Ok s)"

definition sanitize_path :: "string \<Rightarrow> string" where
  "sanitize_path path = (let p = with_slash path in if starts_with p ''/'' then tl p else p)"

text \<open>\<open>Value::as_map\<close>, with the items of the map.\<close>

definition str_items :: "(string \<times> json) list \<Rightarrow> (string \<times> string) list" where
  "str_items m = List.map_filter (\<lambda>(k, v). map_option (Pair k) (as_str v)) m"

definition map_items :: "(string \<Rightarrow> json option) \<Rightarrow> json \<Rightarrow> (string \<times> string) list option" where
  "map_items parse_json v =
     (case v of
        JObject m \<Rightarrow> Some (str_items m)
      | JString s \<Rightarrow>
          (case parse_json s of
             Some (JObject m) \<Rightarrow> Some (if list_all (\<lambda>(_, x). as_str x \<noteq> None) m then str_items m else [])
           | _ \<Rightarrow> Some [])
      | _ \<Rightarrow> None)"

definition table_info :: "'s core \<Rightarrow> mount_table \<Rightarrow> json_obj" where
  "table_info c tab =
     foldl (\<lambda>data (_, i). let e = co_heap c ! i in
       obj_insert (me_path e) (JObject [(''description'', JString (me_description e)), (''type'', JString (me_logical_type e))]) data)
       [] tab"

definition handle_mount_table :: "('s, 'c) sys_handler" where
  "handle_mount_table st =
     Some (Ok (Some (data_response (Some (table_info (sys_core (fst st)) (co_mounts (sys_core (fst st))))))), st)"

text \<open>The arguments of a mount: its path, type and description, and its options.\<close>

definition mount_args ::
  "('s, 'c, 'r) sys_env \<Rightarrow> request \<Rightarrow> (string \<times> string \<times> string \<times> (string \<times> string) list option) res" where
  "mount_args E req =
     res_bind (get_data (sye_parsers E) req ''path'') (\<lambda>p.
     res_bind (get_data (sye_parsers E) req ''type'') (\<lambda>t.
     res_bind (get_data_or_default (sye_parsers E) req ''description'') (\<lambda>d.
     res_bind (get_data_or_default (sye_parsers E) req ''options'') (\<lambda>opts.
     res_bind (str_arg p) (\<lambda>path.
     res_bind (str_arg t) (\<lambda>ty.
     res_bind (str_arg d) (\<lambda>desc.
       if ty = [] then Err ErrRequestInvalid
       else Ok (path, ty, desc, map_items (fst (sye_parsers E)) opts))))))))"

definition handle_mount :: "('s, 'c, 'r) sys_env \<Rightarrow> ('s, 'c) sys_handler" where
  "handle_mount E st =
     keep_req st (pop_bind (pop_of (op_res (mount_args E (snd st)))) (\<lambda>(path, ty, desc, opts).
       let me = (mount_entry_new MOUNT_TABLE_TYPE path ty desc)\<lparr>me_options := opts\<rparr> in
       pop_bind (on_sys_core (pop_of (core_mount (sye_anc E) (sye_mount E) (sye_sops E) me))) (\<lambda>_.
         pop_of (op_return None))))"

definition handle_unmount :: "('s, 'c, 'r) sys_env \<Rightarrow> ('s, 'c) sys_handler" where
  "handle_unmount E st =
     (let suffix = trim_start_matches ''mounts/'' (rq_path (snd st)) in
      keep_req st (if suffix = [] then pop_of (op_fail ErrRequestInvalid)
        else pop_bind (on_sys_core (core_unmount (sye_anc E) (sye_mount E) (sye_sops E) suffix)) (\<lambda>_.
          pop_of (op_return None))))"

definition remount_args :: "('s, 'c, 'r) sys_env \<Rightarrow> request \<Rightarrow> (string \<times> string) res" where
  "remount_args E req =
     res_bind (get_data (sye_parsers E) req ''from'') (\<lambda>f.
     res_bind (get_data (sye_parsers E) req ''to'') (\<lambda>t.
     res_bind (str_arg f) (\<lambda>src.
     res_bind (str_arg t) (\<lambda>dst.
       if src = [] \<or> dst = [] then Err ErrRequestInvalid else Ok (src, dst)))))"

definition move_mount ::
  "('s, 'c, 'r) sys_env \<Rightarrow> string \<Rightarrow> string \<Rightarrow> string \<Rightarrow> (('s, 'c) sys_state, unit) pop" where
  "move_mount E table from_path to_path =
     (if table = AUTH_TABLE_TYPE then
        on_auth_module (pop_of (remount_auth (sye_anc E) (sye_mount E) (sye_sops E) from_path to_path))
      else if table = MOUNT_TABLE_TYPE then
        on_sys_core (pop_of (core_remount (sye_anc E) (sye_mount E) (sye_sops E) from_path to_path))
      else pop_of (op_fail (ErrResponseStatus 409 ''Unknown mount table type.'')))"

definition handle_remount :: "('s, 'c, 'r) sys_env \<Rightarrow> ('s, 'c) sys_handler" where
  "handle_remount E st =
     keep_req st (pop_bind (pop_of (op_res (remount_args E (snd st)))) (\<lambda>(src, dst) s.
       let c = sys_core s; from_path = sanitize_path src; to_path = sanitize_path dst;
           used = matching_mount (sye_anc E) (co_router c) dst in
       case matching_mount_entry (sye_anc E) (co_router c) from_path of
         None \<Rightarrow> Some (Err (ErrResponseStatus 409 (''no matching mount at '' @ from_path)), s)
       | Some i \<Rightarrow>
           if used \<noteq> [] then Some (Err (ErrResponseStatus 409 (''path already in use at '' @ used)), s)
           else pop_bind (move_mount E (me_table (co_heap c ! i)) from_path to_path) (\<lambda>_. pop_of (op_return None)) s))"

text \<open>\<open>serde_json::from_value::<i32>\<close>.\<close>

definition i32_value :: "json \<Rightarrow> int res" where
  "i32_value v =
     (case v of
        JNum n \<Rightarrow> if - (2 ^ 31) \<le> n \<and> n < 2 ^ 31 then Ok n else Err (External SerdeJson ''invalid value'')
      | _ \<Rightarrow> Err (External SerdeJson ''invalid type''))"

definition handle_renew :: "('s, 'c, 'r) sys_env \<Rightarrow> ('s, 'c) sys_handler" where
  "handle_renew E st =
     keep_req st (pop_of (op_res (res_bind (get_data (sye_parsers E) (snd st) ''lease_id'') (\<lambda>_.
       res_bind (res_bind (get_data (sye_parsers E) (snd st) ''increment'') i32_value) (\<lambda>_. Ok None)))))"

definition handle_revoke :: "('s, 'c, 'r) sys_env \<Rightarrow> ('s, 'c) sys_handler" where
  "handle_revoke E st =
     keep_req st (pop_of (op_res (res_bind (get_data (sye_parsers E) (snd st) ''lease_id'') (\<lambda>_. Ok None))))"

definition handle_revoke_prefix :: "('s, 'c, 'r) sys_env \<Rightarrow> ('s, 'c) sys_handler" where
  "handle_revoke_prefix E st =
     keep_req st (pop_of (op_res (res_bind (get_data (sye_parsers E) (snd st) ''prefix'') (\<lambda>_. Ok None))))"

definition handle_auth_table :: "('s, 'c) sys_handler" where
  "handle_auth_table st =
     keep_req st (on_auth_module (pop_of (\<lambda>a. (Ok (Some (data_response (Some (table_info (am_core a) (am_mounts a))))), a))))"

definition handle_auth_enable :: "('s, 'c, 'r) sys_env \<Rightarrow> ('s, 'c) sys_handler" where
  "handle_auth_enable E st =
     keep_req st (pop_bind (pop_of (op_res (mount_args E (snd st)))) (\<lambda>(path, ty, desc, opts).
       let me = (mount_entry_new AUTH_TABLE_TYPE (sanitize_path path) ty desc)\<lparr>me_options := opts\<rparr> in
       pop_bind (on_auth_module (pop_of (enable_auth (sye_anc E) (sye_mount E) (sye_sops E) me))) (\<lambda>_.
         pop_of (op_return None))))"

definition handle_auth_disable :: "('s, 'c, 'r) sys_env \<Rightarrow> ('s, 'c) sys_handler" where
  "handle_auth_disable E st =
     (let path = sanitize_path (trim_start_matches ''auth/'' (rq_path (snd st))) in
      keep_req st (if path = [] then pop_of (op_fail ErrRequestInvalid)
        else pop_bind (on_auth_module (disable_auth (sye_anc E) (sye_mount E) (sye_sops E) path)) (\<lambda>_.
          pop_of (op_return None))))"

definition sys_policy_list :: "('s, 'c, 'r) sys_env \<Rightarrow> ('s, 'c) sys_handler" where
  "sys_policy_list E = on_policy_module (handle_policy_list (sye_policy E))"

definition sys_policy_read :: "('s, 'c, 'r) sys_env \<Rightarrow> ('s, 'c) sys_handler" where
  "sys_policy_read E = on_policy_module (pop_of (handle_policy_read (sye_policy E)))"

definition sys_policy_write :: "('s, 'c, 'r) sys_env \<Rightarrow> ('s, 'c) sys_handler" where
  "sys_policy_write E = on_policy_module (pop_of (handle_policy_write (sye_policy E)))"

definition sys_policy_delete :: "('s, 'c, 'r) sys_env \<Rightarrow> ('s, 'c) sys_handler" where
  "sys_policy_delete E = on_policy_module (pop_of (handle_policy_delete (sye_policy E)))"

definition handle_audit_table :: "('s, 'c) sys_handler" where "handle_audit_table st = Some (Ok None, st)"
definition handle_audit_enable :: "('s, 'c) sys_handler" where "handle_audit_enable st = Some (Ok None, st)"
definition handle_audit_disable :: "('s, 'c) sys_handler" where "handle_audit_disable st = Some (Ok None, st)"

definition raw_path :: "('s, 'c, 'r) sys_env \<Rightarrow> request \<Rightarrow> string res" where
  "raw_path E req = res_bind (get_data (sye_parsers E) req ''path'') str_arg"

definition handle_raw_read :: "('s, 'c, 'r) sys_env \<Rightarrow> ('s, 'c) sys_handler" where
  "handle_raw_read E st =
     keep_req st (pop_bind (pop_of (op_res (raw_path E (snd st)))) (\<lambda>path.
       pop_bind (on_sys_storage (storage_get (sye_sops E) path)) (\<lambda>e.
         pop_of (op_return (map_option (\<lambda>x. data_response (Some [(''value'', JString (sye_lossy E (se_value x)))])) e)))))"

definition raw_args :: "('s, 'c, 'r) sys_env \<Rightarrow> request \<Rightarrow> (string \<times> string) res" where
  "raw_args E req =
     res_bind (get_data (sye_parsers E) req ''path'') (\<lambda>p.
     res_bind (get_data (sye_parsers E) req ''value'') (\<lambda>v.
     res_bind (str_arg p) (\<lambda>path.
     res_bind (str_arg v) (\<lambda>val. Ok (path, val)))))"

definition handle_raw_write :: "('s, 'c, 'r) sys_env \<Rightarrow> ('s, 'c) sys_handler" where
  "handle_raw_write E st =
     keep_req st (pop_bind (pop_of (op_res (raw_args E (snd st)))) (\<lambda>(path, val).
       pop_bind (on_sys_storage (storage_put (sye_sops E) \<lparr>se_key = path, se_value = sye_utf8 E val\<rparr>)) (\<lambda>_.
         pop_of (op_return None))))"

definition handle_raw_delete :: "('s, 'c, 'r) sys_env \<Rightarrow> ('s, 'c) sys_handler" where
  "handle_raw_delete E st =
     keep_req st (pop_bind (pop_of (op_res (raw_path E (snd st)))) (\<lambda>path.
       pop_bind (on_sys_storage (storage_delete (sye_sops E) path)) (\<lambda>_. pop_of (op_return None))))"

section \<open>Paths\<close>

definition path_entry ::
  "string \<Rightarrow> (string \<times> field) list \<Rightarrow> (operation \<times> ('s, 'c) sys_handler) list \<Rightarrow> lpath \<times> (operation \<times> ('s, 'c) sys_handler) list" where
  "path_entry pattern flds ops = (\<lparr>lp_pattern = pattern, lp_fields = flds\<rparr>, ops)"

definition mount_fields :: "(string \<times> field) list" where
  "mount_fields =
     [(''path'', optional_field Str), (''type'', optional_field Str), (''description'', default_field Str (JString [])),
      (''options'', optional_field MapType)]"

definition policy_fields :: "(string \<times> field) list" where
  "policy_fields = [(''name'', optional_field Str), (''policy'', optional_field Str)]"

definition system_paths :: "('s, 'c, 'r) sys_env \<Rightarrow> (lpath \<times> (operation \<times> ('s, 'c) sys_handler) list) list" where
  "system_paths E =
     [path_entry ''mounts$'' [] [(Read, handle_mount_table)],
      path_entry ''mounts/(?P<path>.+)'' mount_fields [(Write, handle_mount E), (Delete, handle_unmount E)],
      path_entry ''remount'' [(''from'', optional_field Str), (''to'', optional_field Str)] [(Write, handle_remount E)],
      path_entry ''renew/(?P<lease_id>.+)'' [(''lease_id'', optional_field Str), (''increment'', optional_field IntType)]
        [(Write, handle_renew E)],
      path_entry ''revoke/(?P<lease_id>.+)'' [(''lease_id'', optional_field Str)] [(Write, handle_revoke E)],
      path_entry ''revoke-prefix/(?P<prefix>.+)'' [(''prefix'', optional_field Str)] [(Write, handle_revoke_prefix E)],
      path_entry ''auth$'' [] [(Read, handle_auth_table)],
      path_entry ''auth/(?P<path>.+)'' mount_fields [(Write, handle_auth_enable E), (Delete, handle_auth_disable E)],
      path_entry ''policy/?$'' [] [(Read, sys_policy_list E), (List, sys_policy_list E)],
      path_entry ''policy/(?P<name>.+)'' policy_fields
        [(Read, sys_policy_read E), (Write, sys_policy_write E), (Delete, sys_policy_delete E)],
      path_entry ''policies/acl/?$'' [] [(Read, sys_policy_list E), (List, sys_policy_list E)],
      path_entry ''policies/acl/(?P<name>.+)'' policy_fields
        [(Read, sys_policy_read E), (Write, sys_policy_write E), (Delete, sys_policy_delete E)],
      path_entry ''audit$'' [] [(Read, handle_audit_table)],
      path_entry ''audit/(?P<path>.+)''
        [(''path'', optional_field Str), (''type'', optional_field Str), (''description'', optional_field Str),
         (''options'', optional_field MapType)]
        [(Write, handle_audit_enable), (Delete, handle_audit_disable)],
      path_entry ''raw/(?P<path>.+)'' [(''path'', optional_field Str), (''value'', optional_field Str)]
        [(Read, handle_raw_read E), (Write, handle_raw_write E), (Delete, handle_raw_delete E)]]"

definition system_root_paths :: "string list" where
  "system_root_paths =
     [''mounts/*'', ''auth/*'', ''remount'', ''policy'', ''policy/*'', ''audit'', ''audit/*'', ''seal'', ''raw/*'', ''revoke-prefix/*'']"

text \<open>\<open>Module::setup\<close> and \<open>Module::cleanup\<close>, with the backend that the closure makes.\<close>

definition system_setup :: "'s backend_obj res \<Rightarrow> ('s core, unit) op" where
  "system_setup b = add_logical_backend ''system'' b"

definition system_cleanup :: "('s core, unit) op" where
  "system_cleanup = delete_logical_backend ''system''"

section \<open>Handlers on parts of the state\<close>

lemma keep_req_eq: "m s = Some (r, s') \<Longrightarrow> keep_req (s, req) m = Some (r, (s', req))"
  by (simp add: keep_req_def)

lemma on_sys_core_Some:
  "f (sys_core s) = Some (r, c) \<Longrightarrow> on_sys_core f s = Some (r, s\<lparr>sy_auth := (sy_auth s)\<lparr>am_core := c\<rparr>\<rparr>)"
  by (simp add: on_sys_core_def)

lemma sys_core_update [simp]: "sys_core (s\<lparr>sy_auth := (sy_auth s)\<lparr>am_core := c\<rparr>\<rparr>) = c"
  by (simp add: sys_core_def)

section \<open>Mounting by request\<close>

text \<open>A table in which every entry is under its own path, as it is until a mount is moved.\<close>

definition table_ok :: "'s core \<Rightarrow> bool" where
  "table_ok c \<longleftrightarrow>
     distinct (map fst (co_mounts c)) \<and> (\<forall>(p, i) \<in> set (co_mounts c). i < length (co_heap c) \<and> me_path (co_heap c ! i) = p)"

definition entry_info :: "mount_entry \<Rightarrow> json" where
  "entry_info e = JObject [(''description'', JString (me_description e)), (''type'', JString (me_logical_type e))]"

lemma table_info_lookup:
  assumes "distinct (map fst tab)" "\<forall>(p, i) \<in> set tab. me_path (co_heap c ! i) = p"
  shows "map_of (table_info c tab) p = map_option (\<lambda>i. entry_info (co_heap c ! i)) (map_of tab p)"
proof -
  let ?f = "\<lambda>data (_, i). let e = co_heap c ! i in obj_insert (me_path e) (entry_info e) data"
  have "map_of (foldl ?f d tab) p =
      (case map_of tab p of None \<Rightarrow> map_of d p | Some i \<Rightarrow> Some (entry_info (co_heap c ! i)))" for d
    using assms
  proof (induction tab arbitrary: d)
    case (Cons x tab)
    obtain q i where x: "x = (q, i)" by (cases x)
    have "map_of tab q = None" using Cons.prems(1) x by (simp add: map_of_eq_None_iff)
    then show ?case using Cons x by (auto simp: Let_def split: option.split)
  qed simp
  then show ?thesis by (simp add: table_info_def entry_info_def Let_def split: option.split)
qed

lemma mount_table_ok:
  assumes "table_ok c" "co_heap c' = co_heap c @ [e]" "co_mounts c' = AList.update p (length (co_heap c)) (co_mounts c)" "me_path e = p"
  shows "table_ok c'"
proof -
  have d: "distinct (map fst (co_mounts c'))" using assms(1,3) by (simp add: table_ok_def distinct_update)
  have "i < length (co_heap c') \<and> me_path (co_heap c' ! i) = q" if "(q, i) \<in> set (co_mounts c')" for q i
  proof (cases "q = p")
    case True
    then show ?thesis using that d assms(2-4) map_of_is_SomeI [OF d that] by (auto simp: update_conv' nth_append)
  next
    case False
    then have "(q, i) \<in> set (co_mounts c)"
      using map_of_is_SomeI [OF d that] assms(3) by (simp add: update_conv' map_of_SomeD)
    then show ?thesis using assms(1,2) by (auto simp: table_ok_def nth_append)
  qed
  then show ?thesis using d by (auto simp: table_ok_def)
qed

text \<open>
  C10: a request mounts a backend, and the table of the mounts shows it. For a path that is not protected and not under
  another mount, and a type of backend that there is, the request succeeds; then the path is routed to the new mount with
  a view of its own, and the table has its type and description under the path and for all other paths what it had.
\<close>

theorem mount_request_mounts:
  assumes "radix (sye_anc E)" "storage (sye_sops E) valid stored ready" "ready (co_storage (sys_core s))"
    "valid CORE_MOUNT_CONFIG_PATH" "table_ok (sys_core s)"
    and "mount_args E req = Ok (path, ty, desc, opts)" "p = with_slash path" "\<not> is_protect_path PROTECTED_MOUNTS [p]"
    and "\<forall>k \<in> fst ` set (co_router (sys_core s)). \<not> starts_with p k"
    and "map_of (co_logical_backends (sys_core s)) ty = Some (Ok backend)"
    and "\<And>k m. is_ok (hmac_sign (sye_mount E) k m)"
  shows "\<exists>s' info. handle_mount E (s, req) = Some (Ok None, (s', req)) \<and> table_ok (sys_core s') \<and>
    matching_mount (sye_anc E) (co_router (sys_core s')) p = p \<and>
    matching_view (sye_anc E) (co_router (sys_core s')) p =
      Some (view_new (''logical/'' @ new_uuid (sye_mount E) (co_uuids (sys_core s)) @ ''/'')) \<and>
    (\<forall>req'. handle_mount_table (s', req') = Some (Ok (Some (data_response (Some info))), (s', req'))) \<and>
    (\<forall>q. map_of info q =
      (if q = p then Some (JObject [(''description'', JString desc), (''type'', JString ty)])
       else map_of (table_info (sys_core s) (co_mounts (sys_core s))) q))"
proof -
  let ?c = "sys_core s" and ?me = "(mount_entry_new MOUNT_TABLE_TYPE path ty desc)\<lparr>me_options := opts\<rparr>"
  have me: "p = with_slash (me_path ?me)" "map_of (co_logical_backends ?c) (me_logical_type ?me) = Some (Ok backend)"
    using assms(7,10) by (simp_all add: mount_entry_new_def)
  obtain c' e x where c': "core_mount (sye_anc E) (sye_mount E) (sye_sops E) ?me ?c = (Ok (), c')" "co_heap c' = co_heap ?c @ [e]"
    "co_mounts c' = AList.update p (length (co_heap ?c)) (co_mounts ?c)" "me_path e = p"
    "me_logical_type e = me_logical_type ?me" "me_description e = me_description ?me"
    "re_view x = view_new (''logical/'' @ new_uuid (sye_mount E) (co_uuids ?c) @ ''/'')"
    "trie_ancestor (sye_anc E) (co_router c') p = Some (p, x)"
    by (rule core_mount_ok [OF assms(1-4) me(1) assms(8,9) me(2) assms(11)]) blast
  let ?s = "s\<lparr>sy_auth := (sy_auth s)\<lparr>am_core := c'\<rparr>\<rparr>"
  have t: "table_ok c'" by (rule mount_table_ok [OF assms(5) c'(2-4)])
  have run: "handle_mount E (s, req) = Some (Ok None, (?s, req))"
    unfolding handle_mount_def
    by (rule keep_req_eq) (use assms(6) c'(1) in \<open>simp add: on_sys_core_Some\<close>)
  have old: "map_of (table_info ?c (co_mounts ?c)) q = map_option (\<lambda>i. entry_info (co_heap ?c ! i)) (map_of (co_mounts ?c) q)" for q
    by (rule table_info_lookup) (use assms(5) in \<open>auto simp: table_ok_def\<close>)
  have new: "map_of (table_info c' (co_mounts c')) q = map_option (\<lambda>i. entry_info (co_heap c' ! i)) (map_of (co_mounts c') q)" for q
    by (rule table_info_lookup) (use t in \<open>auto simp: table_ok_def\<close>)
  have "map_of (table_info c' (co_mounts c')) q =
      (if q = p then Some (JObject [(''description'', JString desc), (''type'', JString ty)])
       else map_of (table_info ?c (co_mounts ?c)) q)" for q
  proof (cases "q = p")
    case True
    then show ?thesis using new c' by (simp add: update_conv' entry_info_def mount_entry_new_def)
  next
    case False
    then have "i < length (co_heap ?c)" if "map_of (co_mounts ?c) q = Some i" for i
      using assms(5) map_of_SomeD [OF that] by (auto simp: table_ok_def)
    then show ?thesis using False new old c'(2,3) by (auto simp: update_conv' nth_append intro!: option.map_cong)
  qed
  then show ?thesis
    using run t c'(7,8)
    by (intro exI [of _ ?s] exI [of _ "table_info c' (co_mounts c')"])
      (simp add: handle_mount_table_def matching_mount_def matching_view_def)
qed

section \<open>Unmounting by request\<close>

abbreviation vault_stored where "vault_stored C de root \<equiv> barrier_stored C (file_contents de root)"

lemma core_persist_stored:
  assumes "storage sops valid stored ready" "ready (co_storage c)" "valid CORE_MOUNT_CONFIG_PATH"
  obtains s' where "core_persist env sops c = (Ok (), c\<lparr>co_storage := s'\<rparr>)" "ready s'"
    "\<And>k. valid k \<Longrightarrow> stored s' k = ((stored (co_storage c))
      (CORE_MOUNT_CONFIG_PATH \<mapsto> ser_table env (table_contents (co_heap c, co_mounts c)))) k"
  using storage.put_stored [OF assms, of "ser_table env (table_contents (co_heap c, co_mounts c))"] that
  by (auto simp: core_persist_def table_persist_def)

lemma map_of_delete: "map_of (AList.delete k xs) = (map_of xs)(k := None)"
  by (induction xs) (auto simp: fun_eq_iff)

context listing_view
begin

lemma core_unmount_ok:
  assumes anc: "radix anc" and p: "p = with_slash path" "\<not> is_protect_path PROTECTED_MOUNTS [p]"
    and r: "map_of (co_router c) p = Some x" "re_view x = v" and t: "map_of (co_mounts c) p = Some i"
    and R: "ready (co_storage c)" "valid CORE_MOUNT_CONFIG_PATH" "\<not> starts_with CORE_MOUNT_CONFIG_PATH (bv_prefix v)"
  obtains c' where "core_unmount anc env sops path c = Some (Ok (), c')" "ready (co_storage c')"
    "map_of (co_router c') = (map_of (co_router c))(p := None)" "map_of (co_mounts c') = (map_of (co_mounts c))(p := None)"
    "stored (co_storage c') CORE_MOUNT_CONFIG_PATH = Some (ser_table env (table_contents (co_heap c', co_mounts c')))"
    "\<And>k. view_valid valid v k \<Longrightarrow> view_stored stored v (co_storage c') k = None"
    "\<And>k. valid k \<Longrightarrow> \<not> starts_with k (bv_prefix v) \<Longrightarrow> k \<noteq> CORE_MOUNT_CONFIG_PATH \<Longrightarrow>
      stored (co_storage c') k = stored (co_storage c) k"
proof -
  have st: "storage sops valid stored ready" by (rule storage_axioms)
  have m: "trie_ancestor anc (co_router c) p = Some (p, x)"
    by (rule trie_ancestorI [OF anc r(1)]) (auto simp: starts_with_iff_prefix dest: prefix_length_le)
  define c1 where "c1 = c\<lparr>co_heap := (co_heap c)[i := (co_heap c ! i)\<lparr>me_tainted := True\<rparr>]\<rparr>"
  obtain s1 where s1: "core_persist env sops c1 = (Ok (), c1\<lparr>co_storage := s1\<rparr>)" "ready s1"
    "\<And>k. valid k \<Longrightarrow> k \<noteq> CORE_MOUNT_CONFIG_PATH \<Longrightarrow> stored s1 k = stored (co_storage c) k"
    by (rule core_persist_stored [OF st, of c1 env]) (use R in \<open>auto simp: c1_def\<close>)
  define r2 where "r2 = AList.delete p (AList.update p (x\<lparr>re_tainted := True\<rparr>) (co_router c))"
  define c2 where "c2 = c1\<lparr>co_storage := s1, co_router := r2\<rparr>"
  have pre: "op_bind (taint_mount_entry env sops p)
      (\<lambda>_. op_bind (on_router (router_taint p)) (\<lambda>_. on_router (router_unmount p))) c = (Ok (), c2)"
    using s1(1) t r(1)
    by (simp add: op_bind_def taint_mount_entry_def table_set_taint_def on_router_def router_taint_def router_set_taint_def
        router_unmount_def c1_def c2_def r2_def)
  obtain s3 where s3: "view_clear sops v (co_storage c2) = Some (Ok (), s3)" "ready s3"
    "\<And>k. view_valid valid v k \<Longrightarrow> view_stored stored v s3 k = None"
    "\<And>k. valid k \<Longrightarrow> \<not> starts_with k (bv_prefix v) \<Longrightarrow> stored s3 k = stored s1 k"
    using clear_complete [of "co_storage c2"] s1(2) by (auto simp: c2_def)
  define c3 where "c3 = c2\<lparr>co_storage := s3, co_mounts := AList.delete p (co_mounts c)\<rparr>"
  obtain s4 where s4: "core_persist env sops c3 = (Ok (), c3\<lparr>co_storage := s4\<rparr>)" "ready s4"
    "\<And>k. valid k \<Longrightarrow> stored s4 k = ((stored s3)(CORE_MOUNT_CONFIG_PATH \<mapsto> ser_table env (table_contents (co_heap c3, co_mounts c3)))) k"
    by (rule core_persist_stored [OF st, of c3 env]) (use R(2) s3(2) in \<open>auto simp: c3_def\<close>)
  have "remove_mount_entry env sops p (c2\<lparr>co_storage := s3\<rparr>) = (Ok (), c3\<lparr>co_storage := s4\<rparr>)"
    using s4(1) t by (cases c) (simp add: remove_mount_entry_def table_delete_def c3_def c2_def c1_def)
  then have run: "core_unmount anc env sops path c = Some (Ok (), c3\<lparr>co_storage := s4\<rparr>)"
    using p m pre s3(1) r(2)
    by (simp add: core_unmount_def Let_def matching_mount_def matching_view_def c2_def [symmetric])
  have v: "view_stored stored v s4 k = None" if "view_valid valid v k" for k
  proof -
    have "expand_key v k \<noteq> CORE_MOUNT_CONFIG_PATH" using R(3) by (metis expand_key_def prefixI starts_with_iff_prefix)
    then show ?thesis using s3(3) [OF that] s4(3) [of "expand_key v k"] that view_valid_iff [of k] by (simp add: view_stored_def)
  qed
  show ?thesis
    by (rule that [OF run])
      (use s4 s3(4) s1(3) v R(2) in \<open>auto simp: c3_def c2_def c1_def r2_def map_of_delete update_conv'\<close>)
qed

end

text \<open>
  C25: an unmount request leaves nothing of a mount. On a vault over files in which all that is stored is under clean keys
  (\<open>vault_ready\<close>: no \<open>..\<close>, no empty component, and no directory whose name starts with an underscore), and for a mount
  that is not protected and whose view is a folder apart from the barrier's record and the table, the request ends,
  however much the backend has stored under such keys; then the path of the mount is in neither the router nor the table,
  the table that the storage has is the new one, no clean key of the view of the mount is stored any more, and every other
  clean key but the table is as it was. A backend that has stored a key with a directory whose name starts with an
  underscore, such as \<open>_a/b\<close>, is outside this statement: the file backend lists it as the key \<open>a\<close>, and the deletion of
  that key fails (\<open>underscore_directory_listed_as_key\<close>).
\<close>

theorem unmount_request_erases:
  assumes "radix (sye_anc E)" "sye_sops E = barrier_storage C (file_backend ser de root)"
    and "vault_ready C ser de root (co_storage (sys_core s))"
    and "path = trim_start_matches ''mounts/'' (rq_path req)" "path \<noteq> []" "p = with_slash path"
      "\<not> is_protect_path PROTECTED_MOUNTS [p]"
    and "map_of (co_router (sys_core s)) p = Some x" "re_view x = v" "map_of (co_mounts (sys_core s)) p = Some i"
    and "clean_folder (bv_prefix v)" "bv_prefix v \<noteq> []" "\<not> starts_with BARRIER_INIT_PATH (bv_prefix v)"
      "\<not> starts_with CORE_MOUNT_CONFIG_PATH (bv_prefix v)"
  shows "\<exists>s'. handle_unmount E (s, req) = Some (Ok None, (s', req)) \<and> vault_ready C ser de root (co_storage (sys_core s')) \<and>
    map_of (co_router (sys_core s')) = (map_of (co_router (sys_core s)))(p := None) \<and>
    map_of (co_mounts (sys_core s')) = (map_of (co_mounts (sys_core s)))(p := None) \<and>
    barrier_stored C (file_contents de root) (co_storage (sys_core s')) CORE_MOUNT_CONFIG_PATH =
      Some (ser_table (sye_mount E) (table_contents (co_heap (sys_core s'), co_mounts (sys_core s')))) \<and>
    (\<forall>k. view_valid (barrier_valid clean_key) v k \<longrightarrow>
      view_stored (barrier_stored C (file_contents de root)) v (co_storage (sys_core s')) k = None) \<and>
    (\<forall>k. barrier_valid clean_key k \<longrightarrow> \<not> starts_with k (bv_prefix v) \<longrightarrow> k \<noteq> CORE_MOUNT_CONFIG_PATH \<longrightarrow>
      barrier_stored C (file_contents de root) (co_storage (sys_core s')) k =
      barrier_stored C (file_contents de root) (co_storage (sys_core s)) k)"
proof -
  have k: "barrier_valid clean_key CORE_MOUNT_CONFIG_PATH" by code_simp
  obtain c' where c': "core_unmount (sye_anc E) (sye_mount E) (sye_sops E) path (sys_core s) = Some (Ok (), c')"
    and e: "vault_ready C ser de root (co_storage c')"
    "map_of (co_router c') = (map_of (co_router (sys_core s)))(p := None)"
    "map_of (co_mounts c') = (map_of (co_mounts (sys_core s)))(p := None)"
    "barrier_stored C (file_contents de root) (co_storage c') CORE_MOUNT_CONFIG_PATH =
      Some (ser_table (sye_mount E) (table_contents (co_heap c', co_mounts c')))"
    "\<And>k. view_valid (barrier_valid clean_key) v k \<Longrightarrow>
      view_stored (barrier_stored C (file_contents de root)) v (co_storage c') k = None"
    "\<And>k. barrier_valid clean_key k \<Longrightarrow> \<not> starts_with k (bv_prefix v) \<Longrightarrow> k \<noteq> CORE_MOUNT_CONFIG_PATH \<Longrightarrow>
      barrier_stored C (file_contents de root) (co_storage c') k =
      barrier_stored C (file_contents de root) (co_storage (sys_core s)) k"
    unfolding assms(2)
    by (rule listing_view.core_unmount_ok [OF listing_view_files [OF assms(11-13)] assms(1,6-10,3) k assms(14)]) blast
  have "handle_unmount E (s, req) = Some (Ok None, (s\<lparr>sy_auth := (sy_auth s)\<lparr>am_core := c'\<rparr>\<rparr>, req))"
    unfolding handle_unmount_def Let_def
    by (rule keep_req_eq) (use assms(4,5) c' in \<open>simp add: on_sys_core_Some\<close>)
  then show ?thesis using e by (intro exI [of _ "s\<lparr>sy_auth := (sy_auth s)\<lparr>am_core := c'\<rparr>\<rparr>"]) simp
qed

section \<open>Raw access\<close>

text \<open>
  C26: the raw requests reach into every view. Reading the full key of an entry of a view gives what the view stores
  under the rest of the key, and after a write to it the view gives the written value; the other entries of the view
  are as before.
\<close>

theorem raw_requests_reach_views:
  assumes "sye_sops E = barrier_storage C (file_backend ser de root)"
    and "barrier_ready C file_key (file_contents de root) (file_invar ser de root) (co_storage (sys_core s))"
    and "view_valid (barrier_valid file_key) v k"
    and "raw_path E r1 = Ok (expand_key v k)" "raw_args E r2 = Ok (expand_key v k, val)"
  shows "handle_raw_read E (s, r1) =
      Some (Ok (map_option (\<lambda>b. data_response (Some [(''value'', JString (sye_lossy E b))]))
        (view_stored (barrier_stored C (file_contents de root)) v (co_storage (sys_core s)) k)), (s, r1)) \<and>
    (\<exists>s'. handle_raw_write E (s, r2) = Some (Ok None, (s', r2)) \<and>
      (\<forall>k'. view_valid (barrier_valid file_key) v k' \<longrightarrow>
        fst (view_get (sye_sops E) v k' (co_storage (sys_core s'))) =
          (if k' = k then Ok (Some \<lparr>se_key = k, se_value = sye_utf8 E val\<rparr>)
           else fst (view_get (sye_sops E) v k' (co_storage (sys_core s))))))"
proof -
  let ?st = "co_storage (sys_core s)" and ?m = "view_stored (barrier_stored C (file_contents de root)) v"
  have ok: "sanity_check k = Ok ()" "barrier_valid file_key (expand_key v k)" using assms(3) by (simp_all add: view_valid_def)
  have raw: "storage_get (sye_sops E) (expand_key v k) ?st =
      (Ok (map_option (\<lambda>b. \<lparr>se_key = expand_key v k, se_value = b\<rparr>) (?m ?st k)), ?st)"
    unfolding assms(1) view_stored_def by (rule fb.bar.get_stored [OF assms(2) ok(2)])
  have same: "s\<lparr>sy_auth := (sy_auth s)\<lparr>am_core := (sys_core s)\<lparr>co_storage := co_storage (sys_core s)\<rparr>\<rparr>\<rparr> = s"
    by (simp add: sys_core_def)
  have "handle_raw_read E (s, r1) =
      Some (Ok (map_option (\<lambda>b. data_response (Some [(''value'', JString (sye_lossy E b))])) (?m ?st k)), (s, r1))"
    unfolding handle_raw_read_def
    by (rule keep_req_eq)
      (use assms(4) raw same in \<open>simp add: on_sys_storage_def on_sys_core_Some option.map_comp o_def\<close>)
  moreover obtain x where x: "view_put (sye_sops E) v \<lparr>se_key = k, se_value = sye_utf8 E val\<rparr> ?st = (Ok (), x)"
    "barrier_ready C file_key (file_contents de root) (file_invar ser de root) x"
    "\<And>k'. view_valid (barrier_valid file_key) v k' \<Longrightarrow> ?m x k' = ((?m ?st)(k \<mapsto> sye_utf8 E val)) k'"
    using fbv.view_put_stored [OF assms(2,3), of "sye_utf8 E val"] unfolding assms(1) by blast
  have put: "storage_put (sye_sops E) \<lparr>se_key = expand_key v k, se_value = sye_utf8 E val\<rparr> ?st = (Ok (), x)"
    using x(1) ok(1) by (simp add: view_put_def)
  let ?s = "s\<lparr>sy_auth := (sy_auth s)\<lparr>am_core := (sys_core s)\<lparr>co_storage := x\<rparr>\<rparr>\<rparr>"
  have "handle_raw_write E (s, r2) = Some (Ok None, (?s, r2))"
    unfolding handle_raw_write_def
    by (rule keep_req_eq) (use assms(5) put in \<open>simp add: on_sys_storage_def on_sys_core_Some\<close>)
  moreover have "fst (view_get (sye_sops E) v k' x) =
      (if k' = k then Ok (Some \<lparr>se_key = k, se_value = sye_utf8 E val\<rparr>) else fst (view_get (sye_sops E) v k' ?st))"
    if "view_valid (barrier_valid file_key) v k'" for k'
    using x(3) [OF that] fbv.view_get_stored [OF x(2) that] fbv.view_get_stored [OF assms(2) that] unfolding assms(1) by simp
  ultimately show ?thesis by auto
qed

section \<open>Root privileges\<close>

text \<open>The paths \<open>policy/\<close> and \<open>policies/acl/\<close> have the same handlers; only the first needs root privileges.\<close>

lemma policies_acl_needs_no_root:
  assumes "radix anc"
  shows "path_in_radix anc (new_radix_from_paths system_root_paths []) (''policy/'' @ n)"
    "\<not> path_in_radix anc (new_radix_from_paths system_root_paths []) (''policies/acl/'' @ n)"
proof -
  let ?t = "[(''mounts/'', True), (''auth/'', True), (''remount'', False), (''policy'', False), (''policy/'', True), (''audit'', False),
    (''audit/'', True), (''seal'', False), (''raw/'', True), (''revoke-prefix/'', True)]"
  have t: "new_radix_from_paths system_root_paths [] = ?t" by code_simp
  have "trie_ancestor anc ?t (''policy/'' @ n) = Some (''policy/'', True)"
    by (rule trie_ancestorI [OF assms]) (auto simp: starts_with_def)
  then show "path_in_radix anc (new_radix_from_paths system_root_paths []) (''policy/'' @ n)"
    unfolding t by (simp add: path_in_radix_def starts_with_def)
  have "trie_ancestor anc ?t (''policies/acl/'' @ n) = None"
    using trie_ancestor_None [OF assms, of ?t] by (auto simp: starts_with_def)
  then show "\<not> path_in_radix anc (new_radix_from_paths system_root_paths []) (''policies/acl/'' @ n)"
    unfolding t by (simp add: path_in_radix_def)
qed

section \<open>Instances\<close>

definition demo_sys :: "(fs barrier, string \<Rightarrow> policy option, unit) sys_env" where
  "demo_sys = \<lparr>sye_sops = barrier_storage demo_crypto (file_backend demo_ser demo_de [''data'']), sye_anc = longest_ancestor,
     sye_mount = demo_env, sye_policy = demo_policy_env, sye_parsers = (\<lambda>_. None, \<lambda>_. None), sye_utf8 = str_bytes,
     sye_lossy = map (char_of \<circ> unat)\<rparr>"

abbreviation demo_core :: "fs barrier core" where "demo_core \<equiv> core_empty demo_unsealed [(''kv'', Ok demo_fs_kv)]"

definition demo_state :: "fs barrier core \<Rightarrow> (fs barrier, string \<Rightarrow> policy option) sys_state" where
  "demo_state c = \<lparr>sy_auth = auth_module_new c, sy_has_auth = True, sy_policies = None\<rparr>"

lemma demo_state_core [simp]: "sys_core (demo_state c) = c"
  by (simp add: demo_state_def sys_core_def auth_module_new_def)

lemma demo_sys_sel [simp]:
  "sye_sops demo_sys = barrier_storage demo_crypto (file_backend demo_ser demo_de [''data''])" "sye_anc demo_sys = longest_ancestor"
  "sye_mount demo_sys = demo_env" "sye_parsers demo_sys = (\<lambda>_. None, \<lambda>_. None)" "sye_utf8 demo_sys = str_bytes"
  by (simp_all add: demo_sys_def)

definition demo_sys_request :: "nat \<Rightarrow> string \<Rightarrow> (string \<times> json) list \<Rightarrow> request" where
  "demo_sys_request n path data =
     (request_new path)\<lparr>rq_match_path := Some (fst (system_paths demo_sys ! n)), rq_body := Some data\<rparr>"

lemmas sys_fields = demo_sys_request_def request_new_def system_paths_def path_entry_def mount_fields_def policy_fields_def
  get_data_def get_data_or_default_def data_ready_def get_data_raw_def lookup_in_def typed_def check_data_type_def
  optional_field_def default_field_def as_str_def get_default_def zero_value_def str_arg_def

lemma demo_mount_args:
  "mount_args demo_sys (demo_sys_request 1 ''mounts/kv'' [(''path'', JString ''kv''), (''type'', JString ''kv''),
     (''description'', JString ''notes'')]) = Ok (''kv'', ''kv'', ''notes'', Some [])"
  by (simp add: mount_args_def map_items_def str_items_def sys_fields)

lemma demo_kv_path: "''kv/'' = with_slash ''kv''" "\<not> is_protect_path PROTECTED_MOUNTS [''kv/'']"
  by code_simp+

theorem mount_request_mounts_witness:
  "\<exists>s' info. handle_mount demo_sys (demo_state demo_core, demo_sys_request 1 ''mounts/kv'' [(''path'', JString ''kv''),
      (''type'', JString ''kv''), (''description'', JString ''notes'')]) =
      Some (Ok None, (s', demo_sys_request 1 ''mounts/kv'' [(''path'', JString ''kv''),
        (''type'', JString ''kv''), (''description'', JString ''notes'')])) \<and>
    handle_mount_table (s', demo_sys_request 0 ''mounts'' []) =
      Some (Ok (Some (data_response (Some info))), (s', demo_sys_request 0 ''mounts'' [])) \<and>
    map_of info ''kv/'' = Some (JObject [(''description'', JString ''notes''), (''type'', JString ''kv'')])"
proof -
  have st: "storage (sye_sops demo_sys) (barrier_valid file_key) (barrier_stored demo_crypto (file_contents demo_de [''data'']))
      (barrier_ready demo_crypto file_key (file_contents demo_de [''data'']) (file_invar demo_ser demo_de [''data'']))"
    using fb.bar.storage_axioms by simp
  have anc: "radix (sye_anc demo_sys)" using la.radix_axioms by simp
  have v: "barrier_valid file_key CORE_MOUNT_CONFIG_PATH" by code_simp
  have ready: "barrier_ready demo_crypto file_key (file_contents demo_de [''data'']) (file_invar demo_ser demo_de [''data''])
      (co_storage (sys_core (demo_state demo_core)))"
    using demo_ready by (simp add: core_empty_def)
  have rest: "table_ok (sys_core (demo_state demo_core))"
    "\<forall>k \<in> fst ` set (co_router (sys_core (demo_state demo_core))). \<not> starts_with ''kv/'' k"
    "map_of (co_logical_backends (sys_core (demo_state demo_core))) ''kv'' = Some (Ok demo_fs_kv)"
    "is_ok (hmac_sign (sye_mount demo_sys) k m)" for k m
    by (simp_all add: table_ok_def core_empty_def demo_env_def)
  from mount_request_mounts [OF anc st ready v rest(1) demo_mount_args demo_kv_path rest(2-4)] show ?thesis
    by (elim exE conjE) (intro exI conjI, assumption, erule allE, assumption, simp)
qed

theorem unmount_request_erases_witness:
  "\<exists>c s'. core_mount longest_ancestor demo_env (sye_sops demo_sys) (mount_entry_new MOUNT_TABLE_TYPE ''kv'' ''kv'' []) demo_core = (Ok (), c) \<and>
    handle_unmount demo_sys (demo_state c, request_new ''mounts/kv'') = Some (Ok None, (s', request_new ''mounts/kv'')) \<and>
    map_of (co_router (sys_core s')) ''kv/'' = None"
proof -
  let ?me = "mount_entry_new MOUNT_TABLE_TYPE ''kv'' ''kv'' []"
  have st: "storage (sye_sops demo_sys) (barrier_valid clean_key) (barrier_stored demo_crypto (file_contents demo_de [''data'']))
      (vault_ready demo_crypto demo_ser demo_de [''data''])"
    using fl.bar.storage_axioms by simp
  have v: "barrier_valid clean_key CORE_MOUNT_CONFIG_PATH" by code_simp
  have c0: "vault_ready demo_crypto demo_ser demo_de [''data''] (co_storage demo_core)"
    "\<forall>k \<in> fst ` set (co_router demo_core). \<not> starts_with ''kv/'' k" "''kv/'' = with_slash (me_path ?me)"
    "map_of (co_logical_backends demo_core) (me_logical_type ?me) = Some (Ok demo_fs_kv)" "is_ok (hmac_sign demo_env k m)" for k m
    using demo_vault_ready demo_kv_path(1) by (simp_all add: core_empty_def mount_entry_new_def demo_env_def)
  obtain c x where c: "core_mount longest_ancestor demo_env (sye_sops demo_sys) ?me demo_core = (Ok (), c)"
    "vault_ready demo_crypto demo_ser demo_de [''data''] (co_storage c)"
    "co_mounts c = AList.update ''kv/'' (length (co_heap demo_core)) (co_mounts demo_core)"
    "co_router c = AList.update ''kv/'' x (co_router demo_core)"
    "re_view x = view_new (''logical/'' @ new_uuid demo_env (co_uuids demo_core) @ ''/'')"
    by (rule core_mount_ok [OF la.radix_axioms st c0(1) v c0(3) demo_kv_path(2) c0(2,4,5)]) blast
  have view: "re_view x = view_new ''logical/u/''" using c(5) by (simp add: demo_env_def core_empty_def)
  have "clean_folder (dir_string [''logical'', ''u''])"
    by (rule plain_clean(1)) (simp add: plain_name_def)
  then have f: "clean_folder (bv_prefix (view_new ''logical/u/''))" "bv_prefix (view_new ''logical/u/'') \<noteq> []"
    "\<not> starts_with BARRIER_INIT_PATH (bv_prefix (view_new ''logical/u/''))"
    "\<not> starts_with CORE_MOUNT_CONFIG_PATH (bv_prefix (view_new ''logical/u/''))"
    by (simp_all add: view_new_def BARRIER_INIT_PATH_def CORE_MOUNT_CONFIG_PATH_def starts_with_def)
  have t: "''kv'' = trim_start_matches ''mounts/'' (rq_path (request_new ''mounts/kv''))" "''kv'' \<noteq> []"
    by (simp_all add: request_new_def trim_start_matches.simps starts_with_def)
  have r: "map_of (co_router (sys_core (demo_state c))) ''kv/'' = Some x" "map_of (co_mounts (sys_core (demo_state c))) ''kv/'' = Some 0"
    using c(3,4) by (simp_all add: update_conv' core_empty_def)
  have anc: "radix (sye_anc demo_sys)" using la.radix_axioms by simp
  have ready: "vault_ready demo_crypto demo_ser demo_de [''data''] (co_storage (sys_core (demo_state c)))" using c(2) by simp
  from unmount_request_erases [OF anc demo_sys_sel(1) ready t demo_kv_path r(1) view r(2) f] c(1) show ?thesis by auto
qed

theorem raw_requests_reach_views_witness:
  "\<exists>s'. handle_raw_write demo_sys (demo_state demo_core, demo_sys_request 14 ''raw/logical/1/foo''
      [(''path'', JString ''logical/1/foo''), (''value'', JString ''x'')]) =
      Some (Ok None, (s', demo_sys_request 14 ''raw/logical/1/foo'' [(''path'', JString ''logical/1/foo''), (''value'', JString ''x'')])) \<and>
    fst (view_get (sye_sops demo_sys) (view_new ''logical/1/'') ''foo'' (co_storage (sys_core s'))) =
      Ok (Some \<lparr>se_key = ''foo'', se_value = str_bytes ''x''\<rparr>)"
proof -
  have a: "raw_args demo_sys (demo_sys_request 14 ''raw/logical/1/foo'' [(''path'', JString ''logical/1/foo''), (''value'', JString ''x'')]) =
      Ok (expand_key (view_new ''logical/1/'') ''foo'', ''x'')"
    "raw_path demo_sys (demo_sys_request 14 ''raw/logical/1/foo'' [(''path'', JString ''logical/1/foo'')]) =
      Ok (expand_key (view_new ''logical/1/'') ''foo'')"
    by (simp_all add: raw_args_def raw_path_def sys_fields view_new_def expand_key_def)
  have v: "view_valid (barrier_valid file_key) (view_new ''logical/1/'') ''foo''" by code_simp
  have "barrier_ready demo_crypto file_key (file_contents demo_de [''data'']) (file_invar demo_ser demo_de [''data''])
      (co_storage (sys_core (demo_state demo_core)))"
    using demo_ready by (simp add: core_empty_def)
  from raw_requests_reach_views [OF demo_sys_sel(1) this v a(2,1)] v show ?thesis by auto
qed

end
