(* ===== verification/Userpass.thy ===== *)
theory Userpass
  imports Token_Util "HOL-Library.AList" "HOL-Library.Countable"
begin

text \<open>
  The credential backend for user names and passwords, \<open>src/modules/credential/userpass\<close>: users in the view of the
  mount, login and renewal. Bcrypt, the JSON form of a user and the clock are the record \<open>up_env\<close>.

  Shown: a user that was written logs in with the password and gets the user's policies and times to live, a wrong
  password gives no authentication data; and a password reset under a name with a capital letter changes nothing for
  the user.
\<close>

section \<open>Model\<close>

record user_entry =
  ue_password_hash :: string
  ue_policies :: "string list"
  ue_ttl :: duration
  ue_max_ttl :: duration
  ue_token_params :: token_params
  ue_bound_cidrs :: "sock_addr list"

record up_env =
  up_hash :: "string \<Rightarrow> string res"
  up_verify :: "string \<Rightarrow> string \<Rightarrow> bool res"
  up_enc :: "user_entry \<Rightarrow> bytes"
  up_dec :: "bytes \<Rightarrow> user_entry option"
  up_ip :: ip_env
  up_parsers :: parsers
  up_now :: int

definition user_entry_default :: user_entry where
  "user_entry_default = \<lparr>ue_password_hash = [], ue_policies = [], ue_ttl = 0, ue_max_ttl = 0,
     ue_token_params = token_params_default, ue_bound_cidrs = []\<rparr>"

text \<open>A user as it comes back from the storage.\<close>

definition stored_user :: "ip_env \<Rightarrow> user_entry \<Rightarrow> user_entry option" where
  "stored_user I u =
     Option.bind (stored_duration (ue_ttl u)) (\<lambda>t.
     Option.bind (stored_duration (ue_max_ttl u)) (\<lambda>m.
     Option.bind (stored_params I (ue_token_params u)) (\<lambda>p.
     Option.bind (stored_cidrs I (ue_bound_cidrs u)) (\<lambda>cs.
       Some (u\<lparr>ue_ttl := t, ue_max_ttl := m, ue_token_params := p, ue_bound_cidrs := cs\<rparr>)))))"

text \<open>The older fields of a user fill the token parameters that are not set.\<close>

definition fill_token_params :: "user_entry \<Rightarrow> user_entry" where
  "fill_token_params u =
     (let p = ue_token_params u in
      u\<lparr>ue_token_params := p\<lparr>
        tp_token_ttl := (if tp_token_ttl p div NANOS = 0 \<and> ue_ttl u div NANOS > 0 then ue_ttl u else tp_token_ttl p),
        tp_token_max_ttl := (if tp_token_max_ttl p div NANOS = 0 \<and> ue_max_ttl u div NANOS > 0 then ue_max_ttl u
                             else tp_token_max_ttl p),
        tp_token_policies := (if tp_token_policies p = [] \<and> ue_policies u \<noteq> [] then ue_policies u else tp_token_policies p),
        tp_token_bound_cidrs := (if tp_token_bound_cidrs p = [] \<and> ue_bound_cidrs u \<noteq> [] then ue_bound_cidrs u
                                 else tp_token_bound_cidrs p)\<rparr>\<rparr>)"

definition user_key :: "string \<Rightarrow> string" where
  "user_key name = ''user/'' @ name"

definition get_user :: "'s storage_ops \<Rightarrow> up_env \<Rightarrow> request \<Rightarrow> string \<Rightarrow> ('s, user_entry option) op" where
  "get_user sops E req name =
     op_bind (rq_storage_get sops req (user_key (to_lowercase name))) (\<lambda>e.
       case e of
         None \<Rightarrow> op_return None
       | Some entry \<Rightarrow>
           (case up_dec E (se_value entry) of
              None \<Rightarrow> op_fail (External SerdeJson ''invalid user entry'')
            | Some u \<Rightarrow> op_return (Some (fill_token_params u))))"

definition set_user :: "'s storage_ops \<Rightarrow> up_env \<Rightarrow> request \<Rightarrow> string \<Rightarrow> user_entry \<Rightarrow> ('s, unit) op" where
  "set_user sops E req name u = rq_storage_put sops req \<lparr>se_key = user_key name, se_value = up_enc E u\<rparr>"

text \<open>A field that has to be a string; \<open>login\<close> unwraps it, the other handlers give an error.\<close>

definition str_field :: "parsers \<Rightarrow> request \<Rightarrow> string \<Rightarrow> string res \<Rightarrow> string res" where
  "str_field P req key other =
     res_bind (get_data P req key) (\<lambda>v. case as_str v of Some s \<Rightarrow> Ok s | None \<Rightarrow> other)"

definition named_user :: "up_env \<Rightarrow> request \<Rightarrow> string res" where
  "named_user E req = str_field (up_parsers E) req ''username'' (Err ErrRequestFieldInvalid)"

definition user_data :: "ip_env \<Rightarrow> user_entry \<Rightarrow> json_obj" where
  "user_data I u =
     (let strs = (\<lambda>xs. JArray (map JString xs)); p = ue_token_params u;
          d0 = [(''bound_cidrs'', show_cidrs I (ue_bound_cidrs u)), (''max_ttl'', secs (ue_max_ttl u)),
                (''policies'', strs (ue_policies u)), (''ttl'', secs (ue_ttl u))];
          d1 = populate_token_data I p d0;
          d2 = (if ue_ttl u div NANOS = 0 then AList.delete ''ttl'' d1 else d1);
          d3 = (if ue_max_ttl u div NANOS = 0 then AList.delete ''max_ttl'' d2 else d2);
          d4 = (if ue_policies u \<noteq> [] then obj_insert ''policies'' (strs (tp_token_policies p)) d3 else d3)
      in if ue_bound_cidrs u \<noteq> [] then obj_insert ''bound_cidrs'' (show_cidrs I (tp_token_bound_cidrs p)) d4 else d4)"

definition read_user :: "'s storage_ops \<Rightarrow> up_env \<Rightarrow> 's handler" where
  "read_user sops E st =
     on_state st (\<lambda>req.
       op_bind (op_res (named_user E req)) (\<lambda>name.
       op_bind (get_user sops E req (to_lowercase name)) (\<lambda>r.
         op_return (map_option (\<lambda>u. data_response (Some (user_data (up_ip E) u))) r))))"

text \<open>The password and the older fields that \<open>write_user\<close> reads before the token parameters.\<close>

definition set_password :: "up_env \<Rightarrow> request \<Rightarrow> user_entry \<Rightarrow> user_entry res" where
  "set_password E req u =
     (case get_data (up_parsers E) req ''password'' of
        Ok v \<Rightarrow> (case as_str v of
              None \<Rightarrow> Err ErrRequestFieldInvalid
            | Some pw \<Rightarrow> if pw = [] then Ok u else res_bind (up_hash E pw) (\<lambda>h. Ok (u\<lparr>ue_password_hash := h\<rparr>)))
      | Err _ \<Rightarrow> Ok u
      | Panic \<Rightarrow> Panic)"

definition set_old_ttls :: "up_env \<Rightarrow> request \<Rightarrow> user_entry \<Rightarrow> user_entry res" where
  "set_old_ttls E req u =
     res_bind (get_data_or_default (up_parsers E) req ''ttl'') (\<lambda>v.
     case as_int v of
       None \<Rightarrow> Err ErrRequestFieldInvalid
     | Some t \<Rightarrow>
         let u1 = (if t > 0 then u\<lparr>ue_ttl := from_secs (nat t)\<rparr> else u) in
         res_bind (get_data_or_default (up_parsers E) req ''max_ttl'') (\<lambda>w.
         case as_u64 w of
           None \<Rightarrow> Err ErrRequestFieldInvalid
         | Some m \<Rightarrow> Ok (if m > 0 then u1\<lparr>ue_max_ttl := from_secs m\<rparr> else u1)))"

definition upd_params :: "(token_params \<Rightarrow> token_params) \<Rightarrow> user_entry \<Rightarrow> user_entry" where
  "upd_params f u = u\<lparr>ue_token_params := f (ue_token_params u)\<rparr>"

text \<open>After the token parameters were read, each older field follows its parameter when that changed.\<close>

definition sync_policies :: "up_env \<Rightarrow> request \<Rightarrow> string list \<Rightarrow> user_entry \<Rightarrow> user_entry res" where
  "sync_policies E req old u =
     (if old \<noteq> tp_token_policies (ue_token_params u) then Ok (u\<lparr>ue_policies := tp_token_policies (ue_token_params u)\<rparr>)
      else set_field (up_parsers E) req ''policies'' as_comma_string_slice
        (\<lambda>ps u. upd_params (\<lambda>p. p\<lparr>tp_token_policies := ps\<rparr>) (u\<lparr>ue_policies := ps\<rparr>)) u)"

definition sync_ttl :: "up_env \<Rightarrow> request \<Rightarrow> duration \<Rightarrow> user_entry \<Rightarrow> user_entry res" where
  "sync_ttl E req old u =
     (if old \<noteq> tp_token_ttl (ue_token_params u) then Ok (u\<lparr>ue_ttl := tp_token_ttl (ue_token_params u)\<rparr>)
      else set_field (up_parsers E) req ''ttl'' (as_duration (snd (up_parsers E)))
        (\<lambda>d u. upd_params (\<lambda>p. p\<lparr>tp_token_ttl := d\<rparr>) (u\<lparr>ue_ttl := d\<rparr>)) u)"

definition sync_max_ttl :: "up_env \<Rightarrow> request \<Rightarrow> duration \<Rightarrow> user_entry \<Rightarrow> user_entry res" where
  "sync_max_ttl E req old u =
     (if old \<noteq> tp_token_max_ttl (ue_token_params u) then Ok (u\<lparr>ue_max_ttl := tp_token_max_ttl (ue_token_params u)\<rparr>)
      else set_field (up_parsers E) req ''max_ttl'' (as_duration (snd (up_parsers E)))
        (\<lambda>d u. upd_params (\<lambda>p. p\<lparr>tp_token_max_ttl := d\<rparr>) (u\<lparr>ue_max_ttl := d\<rparr>)) u)"

definition sync_cidrs :: "up_env \<Rightarrow> request \<Rightarrow> sock_addr list \<Rightarrow> user_entry \<Rightarrow> user_entry res" where
  "sync_cidrs E req old u =
     (if \<not> list_all2 sock_equal old (tp_token_bound_cidrs (ue_token_params u))
      then Ok (u\<lparr>ue_bound_cidrs := tp_token_bound_cidrs (ue_token_params u)\<rparr>)
      else set_bound_cidrs (up_ip E) (up_parsers E) req ''bound_cidrs''
        (\<lambda>cs u. upd_params (\<lambda>p. p\<lparr>tp_token_bound_cidrs := cs\<rparr>) (u\<lparr>ue_bound_cidrs := cs\<rparr>)) u)"

definition updated_user :: "up_env \<Rightarrow> request \<Rightarrow> user_entry \<Rightarrow> user_entry res" where
  "updated_user E req u0 =
     res_bind (set_password E req u0) (\<lambda>u1.
     res_bind (set_old_ttls E req u1) (\<lambda>u2.
     let old = ue_token_params u2 in
     res_bind (parse_token_fields (up_ip E) (up_parsers E) req old) (\<lambda>p.
     res_bind (sync_policies E req (tp_token_policies old) (u2\<lparr>ue_token_params := p\<rparr>)) (\<lambda>u3.
     res_bind (sync_ttl E req (tp_token_ttl old) u3) (\<lambda>u4.
     res_bind (sync_max_ttl E req (tp_token_max_ttl old) u4) (\<lambda>u5.
       sync_cidrs E req (tp_token_bound_cidrs old) u5))))))"

definition write_user :: "'s storage_ops \<Rightarrow> up_env \<Rightarrow> 's handler" where
  "write_user sops E st =
     on_state st (\<lambda>req.
       op_bind (op_res (named_user E req)) (\<lambda>name0.
       let name = to_lowercase name0 in
       op_bind (get_user sops E req name) (\<lambda>r.
       op_bind (op_res (updated_user E req (case r of Some u \<Rightarrow> u | None \<Rightarrow> user_entry_default))) (\<lambda>u.
       op_bind (set_user sops E req name u) (\<lambda>_. op_return None)))))"

definition delete_user :: "'s storage_ops \<Rightarrow> up_env \<Rightarrow> 's handler" where
  "delete_user sops E st =
     on_state st (\<lambda>req.
       op_bind (op_res (named_user E req)) (\<lambda>name.
       if name = [] then op_fail ErrRequestNoDataField
       else op_bind (rq_storage_delete sops req (user_key (to_lowercase name))) (\<lambda>_. op_return None)))"

definition list_user :: "'s storage_ops \<Rightarrow> 's handler" where
  "list_user sops st =
     on_state st (\<lambda>req. op_bind (rq_storage_list sops req ''user/'') (\<lambda>users. op_return (Some (list_response users))))"

text \<open>The user is read under the name in lower case and written under the name as it is.\<close>

definition write_user_password :: "'s storage_ops \<Rightarrow> up_env \<Rightarrow> 's handler" where
  "write_user_password sops E st =
     on_state st (\<lambda>req.
       op_bind (op_res (named_user E req)) (\<lambda>name.
       op_bind (get_user sops E req name) (\<lambda>r.
       op_bind (op_res (str_field (up_parsers E) req ''password'' (Err ErrRequestFieldInvalid))) (\<lambda>pw.
       op_bind (op_res (up_hash E pw)) (\<lambda>h.
       op_bind (set_user sops E req name ((case r of Some u \<Rightarrow> u | None \<Rightarrow> user_entry_default)\<lparr>ue_password_hash := h\<rparr>)) (\<lambda>_.
         op_return None))))))"

definition login_auth :: "int \<Rightarrow> string \<Rightarrow> user_entry \<Rightarrow> auth" where
  "login_auth now name u =
     populate_token_auth (ue_token_params u)
       ((auth_default now)\<lparr>au_lease := (lease_default now)\<lparr>ttl := ue_ttl u, max_ttl := ue_max_ttl u,
            renewable := ue_ttl u div NANOS > 0\<rparr>,
          au_display_name := name, au_policies := ue_policies u, au_metadata := [''username'' \<mapsto> name]\<rparr>)"

definition login :: "'s storage_ops \<Rightarrow> up_env \<Rightarrow> 's handler" where
  "login sops E st =
     on_state st (\<lambda>req.
       op_bind (op_res (str_field (up_parsers E) req ''username'' Panic)) (\<lambda>name0.
       op_bind (op_res (str_field (up_parsers E) req ''password'' Panic)) (\<lambda>pw.
       let name = to_lowercase name0; refused = op_return (Some (error_response ''invalid username or password'')) in
       op_bind (get_user sops E req name) (\<lambda>r.
         case r of
           None \<Rightarrow> refused
         | Some u \<Rightarrow>
             op_bind (op_res (up_verify E pw (ue_password_hash u))) (\<lambda>ok.
               if ok then op_return (Some (response_new\<lparr>rs_auth := Some (login_auth (up_now E) name u)\<rparr>))
               else refused)))))"

definition login_renew :: "'s storage_ops \<Rightarrow> up_env \<Rightarrow> 's handler" where
  "login_renew sops E st =
     on_state st (\<lambda>req.
       case rq_auth req of
         None \<Rightarrow> op_fail (ErrString ''invalid request'')
       | Some au \<Rightarrow>
           (case au_metadata au ''username'' of
              None \<Rightarrow> op_return None
            | Some name \<Rightarrow>
                op_bind (get_user sops E req name) (\<lambda>r.
                  case r of
                    None \<Rightarrow> op_return None
                  | Some u \<Rightarrow>
                      if \<not> equivalent_policies (ue_policies u) (au_policies au) then
                        op_fail (ErrString ''policies have changed, not renewing'')
                      else
                        let p = ue_token_params u in
                        op_return (Some (response_new\<lparr>rs_auth := Some (au\<lparr>au_period := tp_token_period p,
                          au_lease := (au_lease au)\<lparr>ttl := tp_token_ttl p, max_ttl := tp_token_max_ttl p\<rparr>\<rparr>)\<rparr>)))))"

definition users_path :: "'s storage_ops \<Rightarrow> up_env \<Rightarrow> 's backend_path" where
  "users_path sops E =
     \<lparr>bp_path = \<lparr>lp_pattern = word_pattern ''users/'' ''username'',
        lp_fields = [(''username'', required_field Str), (''password'', optional_field SecretStr),
          (''policies'', optional_field Str),
          (''ttl'', (optional_field IntType)\<lparr>field_default := JNum 0\<rparr>),
          (''max_ttl'', (optional_field IntType)\<lparr>field_default := JNum 0\<rparr>)] @ token_fields\<rparr>,
      bp_operations = [(Read, read_user sops E), (Write, write_user sops E), (Delete, delete_user sops E)]\<rparr>"

definition user_list_path :: "'s storage_ops \<Rightarrow> 's backend_path" where
  "user_list_path sops = \<lparr>bp_path = \<lparr>lp_pattern = ''users/?'', lp_fields = []\<rparr>, bp_operations = [(List, list_user sops)]\<rparr>"

definition user_password_path :: "'s storage_ops \<Rightarrow> up_env \<Rightarrow> 's backend_path" where
  "user_password_path sops E =
     \<lparr>bp_path = \<lparr>lp_pattern = ''users/(?P<username>'' @ [CHR 0x5C] @ ''w['' @ [CHR 0x5C] @ ''w-]+'' @ [CHR 0x5C] @ ''w)/password$'',
        lp_fields = [(''username'', required_field Str), (''password'', required_field SecretStr)]\<rparr>,
      bp_operations = [(Write, write_user_password sops E)]\<rparr>"

definition login_path :: "'s storage_ops \<Rightarrow> up_env \<Rightarrow> 's backend_path" where
  "login_path sops E =
     \<lparr>bp_path = \<lparr>lp_pattern = word_pattern ''login/'' ''username'',
        lp_fields = [(''username'', required_field Str), (''password'', required_field SecretStr)]\<rparr>,
      bp_operations = [(Write, login sops E)]\<rparr>"

definition userpass_new_backend :: "'s storage_ops \<Rightarrow> up_env \<Rightarrow> 's logical_backend" where
  "userpass_new_backend sops E =
     \<lparr>lb_paths = [users_path sops E, user_list_path sops, user_password_path sops E, login_path sops E],
      lb_paths_re = [], lb_root_paths = [], lb_unauth_paths = [''login/*''], lb_secrets = [],
      lb_auth_renew_handler = Some (login_renew sops E)\<rparr>"

section \<open>Login\<close>

lemma sync_keeps_hash:
  "sync_policies E req ps u = Ok v \<Longrightarrow> ue_password_hash v = ue_password_hash u"
  "sync_ttl E req d u = Ok v \<Longrightarrow> ue_password_hash v = ue_password_hash u"
  "sync_max_ttl E req d u = Ok v \<Longrightarrow> ue_password_hash v = ue_password_hash u"
  "sync_cidrs E req cs u = Ok v \<Longrightarrow> ue_password_hash v = ue_password_hash u"
  by (auto simp: sync_policies_def sync_ttl_def sync_max_ttl_def sync_cidrs_def upd_params_def
      dest!: set_field_Ok set_bound_cidrs_Ok split: if_splits)

lemma set_old_ttls_hash: "set_old_ttls E req u = Ok v \<Longrightarrow> ue_password_hash v = ue_password_hash u"
  by (auto simp: set_old_ttls_def res_bind_Ok_iff Let_def split: option.splits if_splits)

lemma updated_user_hash:
  assumes "updated_user E req u0 = Ok u" "get_data (up_parsers E) req ''password'' = Ok (JString pw)" "pw \<noteq> []"
  shows "up_hash E pw = Ok (ue_password_hash u)"
proof -
  obtain u1 u2 u3 u4 u5 p where "set_password E req u0 = Ok u1" "set_old_ttls E req u1 = Ok u2"
    "sync_policies E req (tp_token_policies (ue_token_params u2)) (u2\<lparr>ue_token_params := p\<rparr>) = Ok u3"
    "sync_ttl E req (tp_token_ttl (ue_token_params u2)) u3 = Ok u4"
    "sync_max_ttl E req (tp_token_max_ttl (ue_token_params u2)) u4 = Ok u5"
    "sync_cidrs E req (tp_token_bound_cidrs (ue_token_params u2)) u5 = Ok u"
    using assms(1) by (auto simp: updated_user_def res_bind_Ok_iff Let_def)
  then have "ue_password_hash u = ue_password_hash u1" "set_password E req u0 = Ok u1"
    using sync_keeps_hash set_old_ttls_hash by fastforce+
  then show ?thesis
    using assms(2,3) by (auto simp: set_password_def as_str_def res_bind_Ok_iff)
qed

text \<open>
  A value that a request asks for: under the name of the token parameter or under the older name, not under both.
  A request with neither leaves what there was.
\<close>

definition asks :: "parsers \<Rightarrow> request \<Rightarrow> string \<Rightarrow> string \<Rightarrow> (json \<Rightarrow> 'a option) \<Rightarrow> 'a \<Rightarrow> bool" where
  "asks P req key older conv x \<longleftrightarrow>
     (case get_data P req key of
        Ok v \<Rightarrow> conv v = Some x \<and> (\<exists>e. get_data P req older = Err e)
      | Err _ \<Rightarrow> (\<exists>v. get_data P req older = Ok v \<and> conv v = Some x)
      | Panic \<Rightarrow> False)"

definition leaves :: "parsers \<Rightarrow> request \<Rightarrow> string \<Rightarrow> string \<Rightarrow> bool" where
  "leaves P req key older \<longleftrightarrow> (\<exists>e e'. get_data P req key = Err e \<and> get_data P req older = Err e')"

definition requested_value :: "parsers \<Rightarrow> request \<Rightarrow> string \<Rightarrow> (json \<Rightarrow> 'a option) \<Rightarrow> 'a \<Rightarrow> 'a" where
  "requested_value P req key conv x = (case get_data P req key of Ok v \<Rightarrow> (case conv v of Some y \<Rightarrow> y | None \<Rightarrow> x) | _ \<Rightarrow> x)"

lemma set_field_gives:
  assumes "set_field P req key conv upd p = Ok q" "\<And>x. f (upd x p) = x"
  shows "f q = requested_value P req key conv (f p)"
  using assms by (auto simp: set_field_def requested_value_def split: res.splits option.splits)

lemma set_field_keeps:
  "set_field P req key conv upd p = Ok q \<Longrightarrow> (\<And>x. f (upd x p) = f p) \<Longrightarrow> f q = f p"
  "set_bound_cidrs I P req key upd2 p = Ok q \<Longrightarrow> (\<And>x. f (upd2 x p) = f p) \<Longrightarrow> f q = f p"
  by (auto dest!: set_field_Ok set_bound_cidrs_Ok)

lemma set_token_type_keeps: "set_token_type P req p = Ok q \<Longrightarrow> (\<And>t. f (p\<lparr>tp_token_type := t\<rparr>) = f p) \<Longrightarrow> f q = f p"
  by (auto simp: set_token_type_def split: res.splits option.splits)

lemma parsed_fields:
  assumes "parse_token_fields I P req p0 = Ok p"
  shows "tp_token_ttl p = requested_value P req ''token_ttl'' (as_duration (snd P)) (tp_token_ttl p0)"
    "tp_token_max_ttl p = requested_value P req ''token_max_ttl'' (as_duration (snd P)) (tp_token_max_ttl p0)"
    "tp_token_policies p = requested_value P req ''token_policies'' as_comma_string_slice (tp_token_policies p0)"
proof -
  let ?dur = "as_duration (snd P)"
  obtain p1 p2 p3 p4 p5 p6 p7 p8 where q:
    "set_field P req ''token_ttl'' ?dur (\<lambda>x p. p\<lparr>tp_token_ttl := x\<rparr>) p0 = Ok p1"
    "set_field P req ''token_max_ttl'' ?dur (\<lambda>x p. p\<lparr>tp_token_max_ttl := x\<rparr>) p1 = Ok p2"
    "set_field P req ''token_explicit_max_ttl'' ?dur (\<lambda>x p. p\<lparr>tp_token_explicit_max_ttl := x\<rparr>) p2 = Ok p3"
    "set_field P req ''token_period'' ?dur (\<lambda>x p. p\<lparr>tp_token_period := x\<rparr>) p3 = Ok p4"
    "set_field P req ''token_no_default_policy'' as_bool (\<lambda>x p. p\<lparr>tp_token_no_default_policy := x\<rparr>) p4 = Ok p5"
    "set_field P req ''token_num_uses'' as_u64 (\<lambda>x p. p\<lparr>tp_token_num_uses := x\<rparr>) p5 = Ok p6"
    "set_token_type P req p6 = Ok p7"
    "set_field P req ''token_policies'' as_comma_string_slice (\<lambda>x p. p\<lparr>tp_token_policies := x\<rparr>) p7 = Ok p8"
    "set_bound_cidrs I P req ''token_bound_cidrs'' (\<lambda>x p. p\<lparr>tp_token_bound_cidrs := x\<rparr>) p8 = Ok p"
    using assms by (auto simp: parse_token_fields_def Let_def res_bind_Ok_iff)
  have keeps: "f p8 = f p7 \<Longrightarrow> f p = f p2" if "\<And>x p. f (p\<lparr>tp_token_explicit_max_ttl := x\<rparr>) = f p" "\<And>x p. f (p\<lparr>tp_token_period := x\<rparr>) = f p"
    "\<And>x p. f (p\<lparr>tp_token_no_default_policy := x\<rparr>) = f p" "\<And>x p. f (p\<lparr>tp_token_num_uses := x\<rparr>) = f p"
    "\<And>x p. f (p\<lparr>tp_token_type := x\<rparr>) = f p" "\<And>x p. f (p\<lparr>tp_token_bound_cidrs := x\<rparr>) = f p" for f :: "token_params \<Rightarrow> 'b"
    using set_field_keeps(1) [OF q(3), of f] set_field_keeps(1) [OF q(4), of f] set_field_keeps(1) [OF q(5), of f]
      set_field_keeps(1) [OF q(6), of f] set_token_type_keeps [OF q(7), of f] set_field_keeps(2) [OF q(9), of f] that by simp
  show "tp_token_ttl p = requested_value P req ''token_ttl'' ?dur (tp_token_ttl p0)"
    using keeps [of tp_token_ttl] set_field_gives [OF q(1), of tp_token_ttl] set_field_keeps(1) [OF q(2), of tp_token_ttl]
      set_field_keeps(1) [OF q(8), of tp_token_ttl] by simp
  show "tp_token_max_ttl p = requested_value P req ''token_max_ttl'' ?dur (tp_token_max_ttl p0)"
    using keeps [of tp_token_max_ttl] set_field_keeps(1) [OF q(1), of tp_token_max_ttl] set_field_gives [OF q(2), of tp_token_max_ttl]
      set_field_keeps(1) [OF q(8), of tp_token_max_ttl] by simp
  have "tp_token_policies p7 = tp_token_policies p0"
    using set_field_keeps(1) [OF q(1), of tp_token_policies] set_field_keeps(1) [OF q(2), of tp_token_policies]
      set_field_keeps(1) [OF q(3), of tp_token_policies] set_field_keeps(1) [OF q(4), of tp_token_policies]
      set_field_keeps(1) [OF q(5), of tp_token_policies] set_field_keeps(1) [OF q(6), of tp_token_policies]
      set_token_type_keeps [OF q(7), of tp_token_policies] by simp
  then show "tp_token_policies p = requested_value P req ''token_policies'' as_comma_string_slice (tp_token_policies p0)"
    using set_field_gives [OF q(8), of tp_token_policies] set_field_keeps(2) [OF q(9), of tp_token_policies] by simp
qed

lemma set_old_keeps:
  "set_password E req u = Ok v \<Longrightarrow> ue_token_params v = ue_token_params u \<and> ue_policies v = ue_policies u"
  "set_old_ttls E req u = Ok v \<Longrightarrow> ue_token_params v = ue_token_params u \<and> ue_policies v = ue_policies u"
  by (auto simp: set_password_def set_old_ttls_def res_bind_Ok_iff Let_def split: res.splits option.splits if_splits)

lemma sync_keeps_policies:
  "sync_ttl E req t u = Ok v \<Longrightarrow> tp_token_policies (ue_token_params v) = tp_token_policies (ue_token_params u) \<and> ue_policies v = ue_policies u"
  "sync_max_ttl E req t u = Ok v \<Longrightarrow> tp_token_policies (ue_token_params v) = tp_token_policies (ue_token_params u) \<and> ue_policies v = ue_policies u"
  "sync_cidrs E req cs u = Ok v \<Longrightarrow> tp_token_policies (ue_token_params v) = tp_token_policies (ue_token_params u) \<and> ue_policies v = ue_policies u"
  by (auto simp: sync_ttl_def sync_max_ttl_def sync_cidrs_def upd_params_def dest!: set_field_Ok set_bound_cidrs_Ok split: if_splits)

lemma sync_keeps_times:
  "sync_policies E req ps u = Ok v \<Longrightarrow> tp_token_ttl (ue_token_params v) = tp_token_ttl (ue_token_params u) \<and>
    tp_token_max_ttl (ue_token_params v) = tp_token_max_ttl (ue_token_params u)"
  "sync_ttl E req t u = Ok v \<Longrightarrow> tp_token_max_ttl (ue_token_params v) = tp_token_max_ttl (ue_token_params u)"
  "sync_max_ttl E req t u = Ok v \<Longrightarrow> tp_token_ttl (ue_token_params v) = tp_token_ttl (ue_token_params u)"
  "sync_cidrs E req cs u = Ok v \<Longrightarrow> tp_token_ttl (ue_token_params v) = tp_token_ttl (ue_token_params u) \<and>
    tp_token_max_ttl (ue_token_params v) = tp_token_max_ttl (ue_token_params u)"
  by (auto simp: sync_policies_def sync_ttl_def sync_max_ttl_def sync_cidrs_def upd_params_def
      dest!: set_field_Ok set_bound_cidrs_Ok split: if_splits)

lemma updated_userE:
  assumes "updated_user E req u0 = Ok u"
  obtains u2 u3 u4 u5 p where "ue_token_params u2 = ue_token_params u0" "ue_policies u2 = ue_policies u0"
    "parse_token_fields (up_ip E) (up_parsers E) req (ue_token_params u0) = Ok p"
    "sync_policies E req (tp_token_policies (ue_token_params u0)) (u2\<lparr>ue_token_params := p\<rparr>) = Ok u3"
    "sync_ttl E req (tp_token_ttl (ue_token_params u0)) u3 = Ok u4"
    "sync_max_ttl E req (tp_token_max_ttl (ue_token_params u0)) u4 = Ok u5"
    "sync_cidrs E req (tp_token_bound_cidrs (ue_token_params u0)) u5 = Ok u"
proof -
  obtain u1 u2 where u: "set_password E req u0 = Ok u1" "set_old_ttls E req u1 = Ok u2"
    and run: "res_bind (parse_token_fields (up_ip E) (up_parsers E) req (ue_token_params u2)) (\<lambda>p.
     res_bind (sync_policies E req (tp_token_policies (ue_token_params u2)) (u2\<lparr>ue_token_params := p\<rparr>)) (\<lambda>u3.
     res_bind (sync_ttl E req (tp_token_ttl (ue_token_params u2)) u3) (\<lambda>u4.
     res_bind (sync_max_ttl E req (tp_token_max_ttl (ue_token_params u2)) u4) (\<lambda>u5.
       sync_cidrs E req (tp_token_bound_cidrs (ue_token_params u2)) u5)))) = Ok u"
    using assms unfolding updated_user_def Let_def by (auto simp only: res_bind_Ok_iff [of "set_password E req u0"] res_bind_Ok_iff [of "set_old_ttls E req u1" for u1])
  have k: "ue_token_params u2 = ue_token_params u0" "ue_policies u2 = ue_policies u0"
    using set_old_keeps(1) [OF u(1)] set_old_keeps(2) [OF u(2)] by simp_all
  from run show ?thesis unfolding k(1) res_bind_Ok_iff by (elim exE conjE) (rule that [OF k])
qed

lemma updated_user_policies:
  assumes "updated_user E req u0 = Ok u"
  shows "asks (up_parsers E) req ''token_policies'' ''policies'' as_comma_string_slice ps \<Longrightarrow>
      tp_token_policies (ue_token_params u) = ps \<and>
      (ps = [] \<longrightarrow> ue_policies u = [] \<or> ue_policies u = ue_policies u0 \<and> tp_token_policies (ue_token_params u0) = [])"
    "leaves (up_parsers E) req ''token_policies'' ''policies'' \<Longrightarrow>
      tp_token_policies (ue_token_params u) = tp_token_policies (ue_token_params u0) \<and> ue_policies u = ue_policies u0"
proof -
  obtain u2 u3 u4 u5 p where q: "ue_token_params u2 = ue_token_params u0" "ue_policies u2 = ue_policies u0"
    "parse_token_fields (up_ip E) (up_parsers E) req (ue_token_params u0) = Ok p"
    "sync_policies E req (tp_token_policies (ue_token_params u0)) (u2\<lparr>ue_token_params := p\<rparr>) = Ok u3"
    "sync_ttl E req (tp_token_ttl (ue_token_params u0)) u3 = Ok u4"
    "sync_max_ttl E req (tp_token_max_ttl (ue_token_params u0)) u4 = Ok u5"
    "sync_cidrs E req (tp_token_bound_cidrs (ue_token_params u0)) u5 = Ok u"
    using assms by (rule updated_userE)
  have e: "tp_token_policies (ue_token_params u) = tp_token_policies (ue_token_params u3)" "ue_policies u = ue_policies u3"
    using sync_keeps_policies(1) [OF q(5)] sync_keeps_policies(2) [OF q(6)] sync_keeps_policies(3) [OF q(7)] by simp_all
  note pol = parsed_fields(3) [OF q(3)]
  show "asks (up_parsers E) req ''token_policies'' ''policies'' as_comma_string_slice ps \<Longrightarrow>
      tp_token_policies (ue_token_params u) = ps \<and>
      (ps = [] \<longrightarrow> ue_policies u = [] \<or> ue_policies u = ue_policies u0 \<and> tp_token_policies (ue_token_params u0) = [])"
    using q(2,4) pol unfolding e asks_def requested_value_def
    by (auto simp: sync_policies_def set_field_def upd_params_def split: res.splits if_splits)
  show "leaves (up_parsers E) req ''token_policies'' ''policies'' \<Longrightarrow>
      tp_token_policies (ue_token_params u) = tp_token_policies (ue_token_params u0) \<and> ue_policies u = ue_policies u0"
    using q(2,4) pol unfolding e leaves_def requested_value_def
    by (auto simp: sync_policies_def set_field_def split: res.splits if_splits)
qed

lemma updated_user_times:
  assumes "updated_user E req u0 = Ok u"
  shows "asks (up_parsers E) req ''token_ttl'' ''ttl'' (as_duration (snd (up_parsers E))) t \<Longrightarrow> tp_token_ttl (ue_token_params u) = t"
    "leaves (up_parsers E) req ''token_ttl'' ''ttl'' \<Longrightarrow> tp_token_ttl (ue_token_params u) = tp_token_ttl (ue_token_params u0)"
    "asks (up_parsers E) req ''token_max_ttl'' ''max_ttl'' (as_duration (snd (up_parsers E))) t \<Longrightarrow>
      tp_token_max_ttl (ue_token_params u) = t"
    "leaves (up_parsers E) req ''token_max_ttl'' ''max_ttl'' \<Longrightarrow>
      tp_token_max_ttl (ue_token_params u) = tp_token_max_ttl (ue_token_params u0)"
proof -
  obtain u2 u3 u4 u5 p where q: "parse_token_fields (up_ip E) (up_parsers E) req (ue_token_params u0) = Ok p"
    "sync_policies E req (tp_token_policies (ue_token_params u0)) (u2\<lparr>ue_token_params := p\<rparr>) = Ok u3"
    "sync_ttl E req (tp_token_ttl (ue_token_params u0)) u3 = Ok u4"
    "sync_max_ttl E req (tp_token_max_ttl (ue_token_params u0)) u4 = Ok u5"
    "sync_cidrs E req (tp_token_bound_cidrs (ue_token_params u0)) u5 = Ok u"
    using assms by (rule updated_userE)
  have e: "tp_token_ttl (ue_token_params u) = tp_token_ttl (ue_token_params u4)" "tp_token_ttl (ue_token_params u3) = tp_token_ttl p"
    "tp_token_max_ttl (ue_token_params u) = tp_token_max_ttl (ue_token_params u5)"
    "tp_token_max_ttl (ue_token_params u4) = tp_token_max_ttl p"
    using sync_keeps_times(1) [OF q(2)] sync_keeps_times(2) [OF q(3)] sync_keeps_times(3) [OF q(4)] sync_keeps_times(4) [OF q(5)]
    by simp_all
  note times = parsed_fields(1,2) [OF q(1)]
  show "asks (up_parsers E) req ''token_ttl'' ''ttl'' (as_duration (snd (up_parsers E))) t \<Longrightarrow> tp_token_ttl (ue_token_params u) = t"
    using q(3) times(1) e(2) unfolding e(1) asks_def requested_value_def
    by (auto simp: sync_ttl_def set_field_def upd_params_def split: res.splits if_splits)
  show "leaves (up_parsers E) req ''token_ttl'' ''ttl'' \<Longrightarrow> tp_token_ttl (ue_token_params u) = tp_token_ttl (ue_token_params u0)"
    using q(3) times(1) e(2) unfolding e(1) leaves_def requested_value_def
    by (auto simp: sync_ttl_def set_field_def split: res.splits if_splits)
  show "asks (up_parsers E) req ''token_max_ttl'' ''max_ttl'' (as_duration (snd (up_parsers E))) t \<Longrightarrow>
      tp_token_max_ttl (ue_token_params u) = t"
    using q(4) times(2) e(4) unfolding e(3) asks_def requested_value_def
    by (auto simp: sync_max_ttl_def set_field_def upd_params_def split: res.splits if_splits)
  show "leaves (up_parsers E) req ''token_max_ttl'' ''max_ttl'' \<Longrightarrow>
      tp_token_max_ttl (ue_token_params u) = tp_token_max_ttl (ue_token_params u0)"
    using q(4) times(2) e(4) unfolding e(3) leaves_def requested_value_def
    by (auto simp: sync_max_ttl_def set_field_def split: res.splits if_splits)
qed

text \<open>What a login answers for a user.\<close>

definition login_result :: "up_env \<Rightarrow> string \<Rightarrow> string \<Rightarrow> user_entry \<Rightarrow> response option res" where
  "login_result E name pw u =
     res_bind (up_verify E pw (ue_password_hash u)) (\<lambda>ok.
       Ok (Some (if ok then response_new\<lparr>rs_auth := Some (login_auth (up_now E) name u)\<rparr>
                 else error_response ''invalid username or password'')))"

context storage_view
begin

lemma get_user_stored:
  assumes "ready s" "rq_storage req = Some v" "view_valid valid v (user_key (to_lowercase n))"
  shows "get_user sops E req n s =
    ((case view_stored stored v s (user_key (to_lowercase n)) of
        None \<Rightarrow> Ok None
      | Some b \<Rightarrow> (case up_dec E b of None \<Rightarrow> Err (External SerdeJson ''invalid user entry'')
                  | Some u \<Rightarrow> Ok (Some (fill_token_params u)))), s)"
  using view_get_stored [OF assms(1,3)] assms(2)
  by (auto simp: get_user_def rq_storage_get_def on_storage_def op_bind_def split: option.splits)

lemma login_stored:
  assumes "ready s" "rq_storage req = Some v" "view_valid valid v (user_key (to_lowercase n))"
    and "str_field (up_parsers E) req ''username'' Panic = Ok n" "str_field (up_parsers E) req ''password'' Panic = Ok pw"
  shows "login sops E (s, req) =
    ((case view_stored stored v s (user_key (to_lowercase n)) of
        None \<Rightarrow> Ok (Some (error_response ''invalid username or password''))
      | Some b \<Rightarrow> (case up_dec E b of None \<Rightarrow> Err (External SerdeJson ''invalid user entry'')
                  | Some u \<Rightarrow> login_result E (to_lowercase n) pw (fill_token_params u))), (s, req))"
proof -
  have g: "get_user sops E req (to_lowercase n) s =
    ((case view_stored stored v s (user_key (to_lowercase n)) of
        None \<Rightarrow> Ok None
      | Some b \<Rightarrow> (case up_dec E b of None \<Rightarrow> Err (External SerdeJson ''invalid user entry'')
                  | Some u \<Rightarrow> Ok (Some (fill_token_params u)))), s)"
    using get_user_stored [OF assms(1,2), of "to_lowercase n"] assms(3) by simp
  show ?thesis
  proof (cases "view_stored stored v s (user_key (to_lowercase n))")
    case None
    then show ?thesis using g assms(4,5) by (simp add: login_def on_state_def op_bind_def Let_def)
  next
    case (Some b)
    show ?thesis
    proof (cases "up_dec E b")
      case None
      then show ?thesis using Some g assms(4,5) by (simp add: login_def on_state_def op_bind_def Let_def)
    next
      case (Some u)
      then show ?thesis
        using \<open>view_stored stored v s (user_key (to_lowercase n)) = Some b\<close> g assms(4,5)
        by (cases "up_verify E pw (ue_password_hash (fill_token_params u))")
          (auto simp: login_def on_state_def op_bind_def login_result_def Let_def)
    qed
  qed
qed

lemma write_then_login:
  assumes "ready s" "rq_storage req = Some v" "view_valid valid v (user_key (to_lowercase n))"
    and "write_user sops E (s, req) = (Ok None, (s1, req1))" "named_user E req = Ok n"
  obtains r u where "get_user sops E req (to_lowercase n) s = (Ok r, s)" "ready s1"
    "updated_user E req (case r of Some u0 \<Rightarrow> u0 | None \<Rightarrow> user_entry_default) = Ok u"
    "view_stored stored v s1 (user_key (to_lowercase n)) = Some (up_enc E u)"
proof -
  obtain r where g: "get_user sops E req (to_lowercase n) s = (r, s)"
    using get_user_stored [OF assms(1,2), of "to_lowercase n" E] assms(3) by simp
  obtain r' u where u: "r = Ok r'" "updated_user E req (case r' of Some u0 \<Rightarrow> u0 | None \<Rightarrow> user_entry_default) = Ok u"
    "set_user sops E req (to_lowercase n) u s = (Ok (), s1)"
    using assms(4,5) g
    by (cases r) (auto simp: write_user_def on_state_def Let_def op_bind_def split: res.splits prod.splits)
  then show ?thesis
    using view_put_stored [OF assms(1,3), of "up_enc E u"] assms(2,3) g that [of r' u]
    by (auto simp: set_user_def rq_storage_put_def on_storage_def)
qed

end

text \<open>
  What a client gets after a request has written the user: the policies and the times to live that the request asks for,
  and those that the user had where it asks for none.
\<close>

definition grants :: "up_env \<Rightarrow> request \<Rightarrow> user_entry option \<Rightarrow> string \<Rightarrow> auth \<Rightarrow> bool" where
  "grants E req before name au \<longleftrightarrow>
     (let P = up_parsers E; dur = as_duration (snd P); whole = (\<lambda>d. from_secs (d div NANOS)) in
      au_display_name au = name \<and> au_metadata au = [''username'' \<mapsto> name] \<and> renewable (au_lease au) \<and>
      (\<forall>ps. asks P req ''token_policies'' ''policies'' as_comma_string_slice ps \<longrightarrow> au_policies au = ps) \<and>
      (\<forall>t. asks P req ''token_ttl'' ''ttl'' dur t \<longrightarrow> 0 < t div NANOS \<longrightarrow> ttl (au_lease au) = whole t) \<and>
      (\<forall>t. asks P req ''token_max_ttl'' ''max_ttl'' dur t \<longrightarrow> 0 < t div NANOS \<longrightarrow> max_ttl (au_lease au) = whole t) \<and>
      (leaves P req ''token_policies'' ''policies'' \<longrightarrow>
        au_policies au = (case before of Some u \<Rightarrow> tp_token_policies (ue_token_params u) | None \<Rightarrow> [])) \<and>
      (\<forall>u. before = Some u \<longrightarrow> leaves P req ''token_ttl'' ''ttl'' \<longrightarrow> 0 < tp_token_ttl (ue_token_params u) div NANOS \<longrightarrow>
        ttl (au_lease au) = whole (tp_token_ttl (ue_token_params u))) \<and>
      (\<forall>u. before = Some u \<longrightarrow> leaves P req ''token_max_ttl'' ''max_ttl'' \<longrightarrow> 0 < tp_token_max_ttl (ue_token_params u) div NANOS \<longrightarrow>
        max_ttl (au_lease au) = whole (tp_token_max_ttl (ue_token_params u))))"

lemma stored_user_keeps:
  assumes "stored_user I u = Some w"
  shows "ue_password_hash w = ue_password_hash u" "ue_policies w = ue_policies u"
    "tp_token_policies (ue_token_params w) = tp_token_policies (ue_token_params u)"
    "tp_token_ttl (ue_token_params w) = from_secs (tp_token_ttl (ue_token_params u) div NANOS)"
    "tp_token_max_ttl (ue_token_params w) = from_secs (tp_token_max_ttl (ue_token_params u) div NANOS)"
  using assms by (auto simp: stored_user_def stored_params_def stored_duration_def bind_eq_Some_conv split: if_splits)

lemma login_auth_fields:
  "au_display_name (login_auth now name u) = name" "au_metadata (login_auth now name u) = [''username'' \<mapsto> name]"
  "renewable (au_lease (login_auth now name u))" "au_policies (login_auth now name u) = tp_token_policies (ue_token_params u)"
  "ttl (au_lease (login_auth now name u)) = tp_token_ttl (ue_token_params u)"
  "max_ttl (au_lease (login_auth now name u)) = tp_token_max_ttl (ue_token_params u)"
  by (simp_all add: login_auth_def populate_token_auth_def)

lemma filled_fields:
  "ue_password_hash (fill_token_params u) = ue_password_hash u"
  "tp_token_policies (ue_token_params (fill_token_params u)) =
    (if tp_token_policies (ue_token_params u) = [] then ue_policies u else tp_token_policies (ue_token_params u))"
  "0 < tp_token_ttl (ue_token_params u) div NANOS \<Longrightarrow>
    tp_token_ttl (ue_token_params (fill_token_params u)) = tp_token_ttl (ue_token_params u)"
  "0 < tp_token_max_ttl (ue_token_params u) div NANOS \<Longrightarrow>
    tp_token_max_ttl (ue_token_params (fill_token_params u)) = tp_token_max_ttl (ue_token_params u)"
  by (simp_all add: fill_token_params_def Let_def)

lemma updated_user_grants:
  assumes u: "updated_user E req (case before of Some u0 \<Rightarrow> u0 | None \<Rightarrow> user_entry_default) = Ok u"
    and filled: "\<And>u0. before = Some u0 \<Longrightarrow> tp_token_policies (ue_token_params u0) = [] \<Longrightarrow> ue_policies u0 = []"
    and w: "stored_user (up_ip E) u = Some w"
  shows "grants E req before name (login_auth now name (fill_token_params w))"
proof -
  let ?u0 = "case before of Some u0 \<Rightarrow> u0 | None \<Rightarrow> user_entry_default"
  have none: "ue_policies ?u0 = []" if "tp_token_policies (ue_token_params ?u0) = []"
    using filled that by (auto simp: user_entry_default_def split: option.splits)
  have d: "tp_token_policies (ue_token_params user_entry_default) = []"
    by (simp add: user_entry_default_def token_params_default_def token_params_new_def)
  have whole: "from_secs n div NANOS = n" for n by (simp add: from_secs_def NANOS_def)
  note f = stored_user_keeps [OF w] filled_fields login_auth_fields whole
  show ?thesis
    unfolding grants_def Let_def
  proof (intro conjI allI impI)
    fix ps assume "asks (up_parsers E) req ''token_policies'' ''policies'' as_comma_string_slice ps"
    from updated_user_policies(1) [OF u this] none show "au_policies (login_auth now name (fill_token_params w)) = ps"
      by (auto simp: f)
  next
    assume "leaves (up_parsers E) req ''token_policies'' ''policies''"
    from updated_user_policies(2) [OF u this] none
    show "au_policies (login_auth now name (fill_token_params w)) =
        (case before of Some u \<Rightarrow> tp_token_policies (ue_token_params u) | None \<Rightarrow> [])"
      by (auto simp: f d split: option.splits)
  qed (use updated_user_times [OF u] in \<open>auto simp: f\<close>)
qed

text \<open>
  C31: a user logs in with the password that was set. After \<open>write_user\<close> has set a password, a login under any spelling
  of the name is decided by comparing the given password with the hash of the one that was set. When they match the
  client gets authentication data under the name in lower case with the policies that the request asked for, under
  either name of the field, and its times to live in whole seconds when these are not zero; where the request asks for
  none, those that the user had. Otherwise the answer has no authentication data. A user that cannot be read back
  (\<open>stored_user\<close>: a time to live or an address that its text does not keep) makes the login fail.
\<close>

theorem login_after_write_user:
  assumes "barrier_ready C file_key (file_contents de root) (file_invar ser de root) s"
    and "rq_storage req = Some v" "view_valid (barrier_valid file_key) v (user_key (to_lowercase n))"
    and "write_user (barrier_storage C (file_backend ser de root)) E (s, req) = (Ok None, (s1, req1))"
    and "named_user E req = Ok n" "get_data (up_parsers E) req ''password'' = Ok (JString pw)" "pw \<noteq> []"
    and "\<forall>u. up_dec E (up_enc E u) = stored_user (up_ip E) u"
    and "rq_storage req2 = Some v" "to_lowercase n2 = to_lowercase n"
      "str_field (up_parsers E) req2 ''username'' Panic = Ok n2" "str_field (up_parsers E) req2 ''password'' Panic = Ok pw2"
  shows "\<exists>before u h. fst (get_user (barrier_storage C (file_backend ser de root)) E req n s) = Ok before \<and>
    view_stored (barrier_stored C (file_contents de root)) v s1 (user_key (to_lowercase n)) = Some (up_enc E u) \<and>
    up_hash E pw = Ok h \<and>
    (stored_user (up_ip E) u = None \<longrightarrow>
      fst (login (barrier_storage C (file_backend ser de root)) E (s1, req2)) = Err (External SerdeJson ''invalid user entry'')) \<and>
    (stored_user (up_ip E) u \<noteq> None \<longrightarrow> (\<exists>au. grants E req before (to_lowercase n) au \<and>
      fst (login (barrier_storage C (file_backend ser de root)) E (s1, req2)) =
        res_bind (up_verify E pw2 h) (\<lambda>ok. Ok (Some (if ok then response_new\<lparr>rs_auth := Some au\<rparr>
          else error_response ''invalid username or password'')))))"
proof -
  let ?ops = "barrier_storage C (file_backend ser de root)"
  obtain r u where u: "get_user ?ops E req (to_lowercase n) s = (Ok r, s)"
    "barrier_ready C file_key (file_contents de root) (file_invar ser de root) s1"
    "updated_user E req (case r of Some u0 \<Rightarrow> u0 | None \<Rightarrow> user_entry_default) = Ok u"
    "view_stored (barrier_stored C (file_contents de root)) v s1 (user_key (to_lowercase n)) = Some (up_enc E u)"
    by (rule fbv.write_then_login [OF assms(1-5)])
  have g: "fst (get_user ?ops E req n s) = Ok r" using u(1) by (simp add: get_user_def)
  have filled: "ue_policies u0 = []" if "r = Some u0" "tp_token_policies (ue_token_params u0) = []" for u0
    using g fbv.get_user_stored [OF assms(1,2), of n E] assms(3) that
    by (auto simp: fill_token_params_def Let_def split: option.splits if_splits)
  have l: "fst (login ?ops E (s1, req2)) =
      (case stored_user (up_ip E) u of
         None \<Rightarrow> Err (External SerdeJson ''invalid user entry'')
       | Some w \<Rightarrow> login_result E (to_lowercase n) pw2 (fill_token_params w))"
    using fbv.login_stored [OF u(2) assms(9), of n2 E pw2] assms(3,8,10-12) u(4) by (auto split: option.split)
  have h: "up_hash E pw = Ok (ue_password_hash u)" by (rule updated_user_hash [OF u(3) assms(6,7)])
  have "\<exists>au. grants E req r (to_lowercase n) au \<and> fst (login ?ops E (s1, req2)) =
      res_bind (up_verify E pw2 (ue_password_hash u)) (\<lambda>ok. Ok (Some (if ok then response_new\<lparr>rs_auth := Some au\<rparr>
        else error_response ''invalid username or password'')))" if w: "stored_user (up_ip E) u = Some w" for w
    by (rule exI, rule conjI, rule updated_user_grants [OF u(3) filled w, of "to_lowercase n" "up_now E"])
      (use l w in \<open>simp_all add: login_result_def filled_fields(1) stored_user_keeps(1) [OF w]\<close>)
  then show ?thesis using g u(4) h l by (cases "stored_user (up_ip E) u") (auto simp del: not_None_eq)
qed

section \<open>Password reset\<close>

text \<open>
  A password reset under a name with a capital letter is lost. The handler reads the user under the name in lower
  case and writes it under the name as given, where no login looks: every login, in particular one with the old
  password, has the result it had before.
\<close>

theorem password_reset_mixed_case_lost:
  assumes "barrier_ready C file_key (file_contents de root) (file_invar ser de root) s"
    and "rq_storage req = Some v" "named_user E req = Ok n" "to_lowercase n \<noteq> n"
    and "view_valid (barrier_valid file_key) v (user_key n)" "view_valid (barrier_valid file_key) v (user_key (to_lowercase n))"
    and "write_user_password (barrier_storage C (file_backend ser de root)) E (s, req) = (Ok None, (s1, req1))"
    and "rq_storage req2 = Some v" "view_valid (barrier_valid file_key) v (user_key (to_lowercase n2))"
      "str_field (up_parsers E) req2 ''username'' Panic = Ok n2" "str_field (up_parsers E) req2 ''password'' Panic = Ok pw2"
  shows "fst (login (barrier_storage C (file_backend ser de root)) E (s1, req2)) =
    fst (login (barrier_storage C (file_backend ser de root)) E (s, req2))"
proof -
  let ?sops = "barrier_storage C (file_backend ser de root)" and ?st = "barrier_stored C (file_contents de root)"
  obtain r where g: "get_user ?sops E req n s = (r, s)"
    using fbv.get_user_stored [OF assms(1,2,6)] by blast
  obtain u where "set_user ?sops E req n u s = (Ok (), s1)"
    using assms(3,7) g
    by (cases r) (auto simp: write_user_password_def on_state_def op_bind_def split: res.splits prod.splits)
  then obtain b where put: "view_put ?sops v \<lparr>se_key = user_key n, se_value = b\<rparr> s = (Ok (), s1)"
    using assms(2) by (auto simp: set_user_def rq_storage_put_def on_storage_def)
  obtain s' where "s' = s1" "barrier_ready C file_key (file_contents de root) (file_invar ser de root) s'"
    "\<And>k. view_valid (barrier_valid file_key) v k \<Longrightarrow> view_stored ?st v s' k = ((view_stored ?st v s)(user_key n \<mapsto> b)) k"
    using fbv.view_put_stored [OF assms(1,5), of b] put by auto
  moreover have "user_key (to_lowercase n2) \<noteq> user_key n"
  proof
    assume "user_key (to_lowercase n2) = user_key n"
    then have "to_lowercase n2 = n" by (simp add: user_key_def)
    then have "to_lowercase n = n" using to_lowercase_idem [of n2] by simp
    with assms(4) show False by simp
  qed
  ultimately show ?thesis
    using fbv.login_stored [OF assms(1,8,9,10,11)] fbv.login_stored [OF _ assms(8,9,10,11), where s = s1] assms(9) by simp
qed

section \<open>Witnesses\<close>

text \<open>A codec for users, by their number.\<close>

definition demo_enc_user :: "user_entry \<Rightarrow> bytes" where
  "demo_enc_user u = replicate (to_nat (ue_password_hash u, ue_policies u, ue_ttl u, ue_max_ttl u,
     params_code (ue_token_params u), map sock_code (ue_bound_cidrs u))) 0"

definition demo_dec_user :: "bytes \<Rightarrow> user_entry option" where
  "demo_dec_user b =
     (case from_nat (length b) of (h, ps, t, m, p, cs) \<Rightarrow>
        stored_user demo_no_ip \<lparr>ue_password_hash = h, ue_policies = ps, ue_ttl = t, ue_max_ttl = m,
          ue_token_params = params_decode p, ue_bound_cidrs = map sock_decode cs\<rparr>)"

lemma demo_user_codec: "demo_dec_user (demo_enc_user u) = stored_user demo_no_ip u"
  by (cases u) (simp add: demo_enc_user_def demo_dec_user_def o_def)

text \<open>Passwords as their own hash.\<close>

definition demo_up :: up_env where
  "demo_up = \<lparr>up_hash = Ok, up_verify = (\<lambda>pw h. Ok (pw = h)), up_enc = demo_enc_user, up_dec = demo_dec_user,
     up_ip = demo_no_ip, up_parsers = (\<lambda>_. None, \<lambda>_. None), up_now = 0\<rparr>"

abbreviation demo_up_sops :: "fs barrier storage_ops" where
  "demo_up_sops \<equiv> barrier_storage demo_crypto (file_backend demo_ser demo_de [''data''])"

definition demo_up_request :: "lpath \<Rightarrow> string \<Rightarrow> string \<Rightarrow> json_obj \<Rightarrow> request" where
  "demo_up_request p name pw extra =
     (request_new [])\<lparr>rq_match_path := Some p, rq_storage := Some (view_new ''auth/1/''),
       rq_data := Some [(''username'', JString name)], rq_body := Some ((''password'', JString pw) # extra)\<rparr>"

abbreviation demo_write :: request where
  "demo_write \<equiv> demo_up_request (bp_path (users_path demo_up_sops demo_up)) ''Alice'' ''pw''
     [(''token_policies'', JArray [JString ''ops''])]"

abbreviation demo_reset :: request where
  "demo_reset \<equiv> demo_up_request (bp_path (user_password_path demo_up_sops demo_up)) ''Alice'' ''new'' []"

abbreviation demo_up_login :: "string \<Rightarrow> request" where
  "demo_up_login pw \<equiv> demo_up_request (bp_path (login_path demo_up_sops demo_up)) ''alice'' pw []"

lemmas up_fields = demo_up_request_def request_new_def users_path_def user_password_path_def login_path_def demo_up_def
  get_data_def get_data_or_default_def data_ready_def get_data_raw_def lookup_in_def typed_def check_data_type_def
  required_field_def optional_field_def token_fields_def str_field_def named_user_def as_str_def

lemma demo_up_fields:
  "named_user demo_up demo_write = Ok ''Alice''" "get_data (up_parsers demo_up) demo_write ''password'' = Ok (JString ''pw'')"
  "named_user demo_up demo_reset = Ok ''Alice''"
  "str_field (up_parsers demo_up) (demo_up_login pw) ''username'' Panic = Ok ''alice''"
  "str_field (up_parsers demo_up) (demo_up_login pw) ''password'' Panic = Ok pw"
  "rq_storage (demo_up_request p n pw d) = Some (view_new ''auth/1/'')"
  by (simp_all add: up_fields)

lemma demo_up_valid:
  "view_valid (barrier_valid file_key) (view_new ''auth/1/'') (user_key (to_lowercase ''Alice''))"
  "view_valid (barrier_valid file_key) (view_new ''auth/1/'') (user_key ''Alice'')"
  "view_valid (barrier_valid file_key) (view_new ''auth/1/'') (user_key (to_lowercase ''alice''))"
  "to_lowercase ''alice'' = to_lowercase ''Alice''" "to_lowercase ''Alice'' \<noteq> ''Alice''"
  by code_simp+

definition demo_alice :: user_entry where
  "demo_alice = user_entry_default\<lparr>ue_password_hash := ''pw'', ue_policies := [''ops''],
     ue_token_params := (token_params_new ''default'')\<lparr>tp_token_policies := [''ops'']\<rparr>\<rparr>"

lemma demo_ops_trim: "trim ''ops'' = ''ops''"
  by code_simp

lemma demo_updated: "updated_user demo_up demo_write user_entry_default = Ok demo_alice"
  by (simp add: demo_alice_def user_entry_default_def token_params_default_def token_params_new_def updated_user_def set_password_def set_old_ttls_def parse_token_fields_def set_field_def set_token_type_def
      set_bound_cidrs_def sync_policies_def sync_ttl_def sync_max_ttl_def sync_cidrs_def get_default_def is_i64_def
      as_int_def as_u64_def as_i64_def parse_token_type_def as_comma_string_slice_def is_comma_string_slice_def Let_def up_fields demo_ops_trim)

lemma demo_up_sel: "up_hash demo_up = Ok" "up_verify demo_up pw h = Ok (pw = h)" "up_now demo_up = 0"
  by (simp_all add: demo_up_def)

lemma demo_get_user:
  assumes "view_valid (barrier_valid file_key) (view_new ''auth/1/'') (user_key (to_lowercase n))"
  shows "get_user demo_up_sops demo_up (demo_up_request p m pw d) n demo_unsealed = (Ok None, demo_unsealed)"
  using fbv.get_user_stored [OF demo_ready demo_up_fields(6) assms, of demo_up]
  by (simp add: view_stored_def barrier_stored_def file_contents_def demo_unsealed_def)

lemma demo_set_user:
  assumes "view_valid (barrier_valid file_key) (view_new ''auth/1/'') (user_key n)"
  shows "\<exists>s1. set_user demo_up_sops demo_up (demo_up_request p m pw d) n u demo_unsealed = (Ok (), s1)"
  using fbv.view_put_stored [OF demo_ready assms, of "up_enc demo_up u"]
  by (auto simp: set_user_def rq_storage_put_def on_storage_def demo_up_fields(6))

lemma demo_stored: "stored_user (up_ip demo_up) demo_alice = Some demo_alice"
  by (simp add: demo_alice_def user_entry_default_def token_params_new_def stored_user_def stored_params_def
      stored_cidrs_def stored_duration_def from_secs_def)

theorem login_after_write_user_witness:
  "\<exists>s1 req1 au. write_user demo_up_sops demo_up (demo_unsealed, demo_write) = (Ok None, (s1, req1)) \<and>
    fst (login demo_up_sops demo_up (s1, demo_up_login ''pw'')) = Ok (Some (response_new\<lparr>rs_auth := Some au\<rparr>)) \<and>
    au_policies au = [''ops''] \<and> au_display_name au = to_lowercase ''Alice''"
proof -
  obtain s1 where s1: "set_user demo_up_sops demo_up demo_write (to_lowercase ''Alice'') demo_alice demo_unsealed = (Ok (), s1)"
    "view_stored (barrier_stored demo_crypto (file_contents demo_de [''data''])) (view_new ''auth/1/'') s1 (user_key (to_lowercase ''Alice'')) =
      Some (up_enc demo_up demo_alice)"
    using fbv.view_put_stored [OF demo_ready demo_up_valid(1), of "up_enc demo_up demo_alice"] demo_up_valid(1)
    by (auto simp: set_user_def rq_storage_put_def on_storage_def demo_up_fields(6))
  then have w: "write_user demo_up_sops demo_up (demo_unsealed, demo_write) = (Ok None, (s1, demo_write))"
    using demo_updated demo_get_user [of "to_lowercase ''Alice''"] demo_up_valid(1) demo_up_fields(1)
    by (simp add: write_user_def on_state_def op_bind_def Let_def)
  have c: "\<forall>u. up_dec demo_up (up_enc demo_up u) = stored_user (up_ip demo_up) u" by (simp add: demo_up_def demo_user_codec)
  have "''pw'' \<noteq> []" by simp
  from login_after_write_user [OF demo_ready demo_up_fields(6) demo_up_valid(1) w demo_up_fields(1,2) this c demo_up_fields(6)
      demo_up_valid(4) demo_up_fields(4) [of "''pw''"] demo_up_fields(5)]
  obtain before u h where l: "Some (up_enc demo_up u) = Some (up_enc demo_up demo_alice)" "up_hash demo_up ''pw'' = Ok h"
    "stored_user (up_ip demo_up) u \<noteq> None \<longrightarrow> (\<exists>au. grants demo_up demo_write before (to_lowercase ''Alice'') au \<and>
      fst (login demo_up_sops demo_up (s1, demo_up_login ''pw'')) =
        res_bind (up_verify demo_up ''pw'' h) (\<lambda>ok. Ok (Some (if ok then response_new\<lparr>rs_auth := Some au\<rparr>
          else error_response ''invalid username or password''))))"
    unfolding s1(2) by (elim exE conjE) (rule that, simp_all)
  have "stored_user (up_ip demo_up) u = stored_user (up_ip demo_up) demo_alice"
    using c [rule_format, of u] c [rule_format, of demo_alice] l(1) by simp
  then obtain au where au: "grants demo_up demo_write before (to_lowercase ''Alice'') au"
    "fst (login demo_up_sops demo_up (s1, demo_up_login ''pw'')) = Ok (Some (response_new\<lparr>rs_auth := Some au\<rparr>))"
    using l(2,3) demo_stored by (auto simp: demo_up_sel)
  have "asks (up_parsers demo_up) demo_write ''token_policies'' ''policies'' as_comma_string_slice [''ops'']"
    by (simp add: asks_def as_comma_string_slice_def is_comma_string_slice_def up_fields demo_ops_trim)
  then have "au_policies au = [''ops'']" "au_display_name au = to_lowercase ''Alice''"
    using au(1) unfolding grants_def Let_def by blast+
  then show ?thesis using w au(2) by blast
qed

theorem password_reset_mixed_case_lost_witness:
  "\<exists>s1 req1. write_user_password demo_up_sops demo_up (demo_unsealed, demo_reset) = (Ok None, (s1, req1)) \<and>
    fst (login demo_up_sops demo_up (s1, demo_up_login ''new'')) =
      fst (login demo_up_sops demo_up (demo_unsealed, demo_up_login ''new''))"
proof -
  obtain s1 where "set_user demo_up_sops demo_up demo_reset ''Alice'' (user_entry_default\<lparr>ue_password_hash := ''new''\<rparr>)
      demo_unsealed = (Ok (), s1)"
    using demo_set_user [OF demo_up_valid(2)] by blast
  moreover have "str_field (up_parsers demo_up) demo_reset ''password'' (Err ErrRequestFieldInvalid) = Ok ''new''"
    "up_hash demo_up ''new'' = Ok ''new''"
    by (simp_all add: up_fields)
  ultimately have w: "write_user_password demo_up_sops demo_up (demo_unsealed, demo_reset) = (Ok None, (s1, demo_reset))"
    using demo_get_user [OF demo_up_valid(1)] demo_up_fields(3)
    by (simp add: write_user_password_def on_state_def op_bind_def)
  from password_reset_mixed_case_lost [OF demo_ready demo_up_fields(6,3) demo_up_valid(5,2,1) w demo_up_fields(6)
      demo_up_valid(3) demo_up_fields(4,5)] w
  show ?thesis by blast
qed

end
