(* ===== verification/Salt.thy ===== *)
theory Salt
  imports Token_Store
begin

text \<open>
  Salts, \<open>src/utils/salt.rs\<close>: a random text kept in a storage, and identifiers hashed with it. OpenSSL's digests and
  the conversions between text and bytes are the record \<open>salt_env\<close>.

  Shown: the salt that the first start leaves in the storage is the one that every later start reads, so that the hashes of
  identifiers stay the same.
\<close>

section \<open>Model\<close>

datatype digest_type = SHA256 | SM3 | MD5 | OtherDigest

record salt_config =
  sc_location :: string
  sc_hash_type :: digest_type
  sc_hmac_type :: digest_type

record salt =
  sa_config :: salt_config
  sa_salt :: string
  sa_generated :: bool

record salt_env =
  sn_digest :: "digest_type \<Rightarrow> bytes \<Rightarrow> bytes res"
  sn_hmac :: "digest_type \<Rightarrow> bytes \<Rightarrow> bytes \<Rightarrow> bytes res"
  sn_utf8 :: "string \<Rightarrow> bytes"
  sn_lossy :: "bytes \<Rightarrow> string"

definition DEFAULT_LOCATION :: string where "DEFAULT_LOCATION = ''salt''"

definition salt_config_default :: salt_config where
  "salt_config_default = \<lparr>sc_location = DEFAULT_LOCATION, sc_hash_type = SHA256, sc_hmac_type = SHA256\<rparr>"

text \<open>\<open>Salt::default\<close> draws a UUID, which is the argument here.\<close>

definition salt_default :: "string \<Rightarrow> salt" where
  "salt_default uuid = \<lparr>sa_config = salt_config_default, sa_salt = uuid, sa_generated = True\<rparr>"

definition salt_configured :: "salt_config option \<Rightarrow> salt \<Rightarrow> salt" where
  "salt_configured config s =
     (case config of
        None \<Rightarrow> s
      | Some c \<Rightarrow> s\<lparr>sa_config := \<lparr>
          sc_location = (if sc_location c \<noteq> [] then sc_location c else sc_location (sa_config s)),
          sc_hash_type = sc_hash_type c, sc_hmac_type = sc_hmac_type c\<rparr>\<rparr>)"

definition salt_new :: "salt_env \<Rightarrow> 's storage_ops option \<Rightarrow> salt_config option \<Rightarrow> string \<Rightarrow> ('s, salt) op" where
  "salt_new E st config uuid =
     (let s = salt_configured config (salt_default uuid) in
      case st of
        None \<Rightarrow> op_return s
      | Some ops \<Rightarrow>
          op_bind (storage_get ops (sc_location (sa_config s))) (\<lambda>r.
            case r of
              Some raw \<Rightarrow> op_return (s\<lparr>sa_salt := sn_lossy E (se_value raw), sa_generated := False\<rparr>)
            | None \<Rightarrow>
                op_bind (storage_put ops \<lparr>se_key = sc_location (sa_config s), se_value = sn_utf8 E (sa_salt s)\<rparr>) (\<lambda>_.
                  op_return s)))"

definition new_nonpersistent :: "string \<Rightarrow> salt" where
  "new_nonpersistent uuid = (salt_default uuid)\<lparr>sa_config := salt_config_default\<lparr>sc_location := []\<rparr>\<rparr>"

definition hex_bytes :: "bytes \<Rightarrow> string" where
  "hex_bytes bs = concat (map (\<lambda>b. [hex_digit (unat b div 16), hex_digit (unat b)]) bs)"

definition get_hmac :: "salt_env \<Rightarrow> salt \<Rightarrow> string \<Rightarrow> string res" where
  "get_hmac E s data =
     res_bind (sn_hmac E (sc_hmac_type (sa_config s)) (sn_utf8 E (sa_salt s)) (sn_utf8 E data)) (\<lambda>h. Ok (hex_bytes h))"

definition get_identified_hamc :: "salt_env \<Rightarrow> salt \<Rightarrow> string \<Rightarrow> string res" where
  "get_identified_hamc E s data =
     res_bind (get_hmac E s data) (\<lambda>h.
       Ok ((case sc_hmac_type (sa_config s) of
              SHA256 \<Rightarrow> ''hmac-sha256'' | SM3 \<Rightarrow> ''hmac-sm3'' | MD5 \<Rightarrow> ''hmac-md5'' | OtherDigest \<Rightarrow> ''hmac-unknown'')
           @ '':'' @ h))"

definition get_hash :: "salt_env \<Rightarrow> salt \<Rightarrow> string \<Rightarrow> string res" where
  "get_hash E s data = res_bind (sn_digest E (sc_hash_type (sa_config s)) (sn_utf8 E data)) (\<lambda>h. Ok (hex_bytes h))"

definition salted_id :: "salt_env \<Rightarrow> salt \<Rightarrow> string \<Rightarrow> string res" where
  "salted_id E s i = get_hash E s (sa_salt s @ i)"

definition did_generate :: "salt \<Rightarrow> bool" where
  "did_generate s = sa_generated s"

section \<open>Properties\<close>

lemma salt_configured_uuid:
  "sa_config (salt_configured config (salt_default u)) = sa_config (salt_configured config (salt_default u'))"
  "sa_salt (salt_configured config (salt_default u)) = u" "sa_generated (salt_configured config (salt_default u))"
  by (simp_all add: salt_configured_def salt_default_def split: option.split)

context storage_view
begin

lemma salt_new_stable:
  assumes R: "ready s" and k: "view_valid valid v (sc_location (sa_config (salt_configured config (salt_default u))))"
    and E: "sn_lossy E (sn_utf8 E u) = u"
  shows "\<exists>sa s1. salt_new E (Some (view_storage sops v)) config u s = (Ok sa, s1) \<and> ready s1 \<and>
    (\<forall>u'. salt_new E (Some (view_storage sops v)) config u' s1 = (Ok (sa\<lparr>sa_generated := False\<rparr>), s1))"
proof -
  let ?sa = "\<lambda>u. salt_configured config (salt_default u)"
  let ?k = "sc_location (sa_config (?sa u))"
  have loc: "sa_config (?sa u') = sa_config (?sa u)" for u' by (rule salt_configured_uuid(1))
  have same: "(?sa u')\<lparr>sa_salt := x, sa_generated := g\<rparr> = (?sa u)\<lparr>sa_salt := x, sa_generated := g\<rparr>" for u' x g
    using loc [of u'] by (cases "?sa u'"; cases "?sa u") simp
  have found: "salt_new E (Some (view_storage sops v)) config u' s' =
      (Ok ((?sa u)\<lparr>sa_salt := sn_lossy E b, sa_generated := False\<rparr>), s')"
    if "ready s'" "view_stored stored v s' ?k = Some b" for u' s' b
    using view_get_stored [OF that(1) k] that(2) same [where u' = u'] loc [of u']
    by (simp add: salt_new_def Let_def op_bind_def view_storage_sel)
  show ?thesis
  proof (cases "view_stored stored v s ?k")
    case None
    obtain s1 where p: "view_put sops v \<lparr>se_key = ?k, se_value = sn_utf8 E u\<rparr> s = (Ok (), s1)" "ready s1"
      "view_stored stored v s1 ?k = Some (sn_utf8 E u)"
      using view_put_stored [OF R k, of "sn_utf8 E u"] k by auto
    have "salt_new E (Some (view_storage sops v)) config u s = (Ok (?sa u), s1)"
      using view_get_stored [OF R k] None p(1)
      by (simp add: salt_new_def Let_def op_bind_def view_storage_sel salt_configured_uuid(2))
    moreover have "(?sa u)\<lparr>sa_salt := sn_lossy E (sn_utf8 E u), sa_generated := False\<rparr> = (?sa u)\<lparr>sa_generated := False\<rparr>"
      using E salt_configured_uuid(2) [of config u] by (cases "?sa u") simp
    ultimately show ?thesis using found [OF p(2,3)] p(2) by auto
  next
    case (Some b)
    then show ?thesis using found [OF R Some] R by auto
  qed
qed

end

text \<open>
  Identifiers keep their hashes over restarts. The first start of a component on a view of the storage, whether it
  finds a salt there or makes one, and every later one, whatever it draws, end with the same salt, so that an identifier
  has the same hash after each of them; a later start changes nothing.
\<close>

theorem salt_survives_restart:
  assumes "barrier_ready C file_key (file_contents de root) (file_invar ser de root) s"
    and "view_valid (barrier_valid file_key) v (sc_location (sa_config (salt_configured config (salt_default u))))"
    and "sn_lossy E (sn_utf8 E u) = u"
  shows "\<exists>sa s1. salt_new E (Some (view_storage (barrier_storage C (file_backend ser de root)) v)) config u s = (Ok sa, s1) \<and>
    (\<forall>u'. \<exists>sa'. salt_new E (Some (view_storage (barrier_storage C (file_backend ser de root)) v)) config u' s1 = (Ok sa', s1) \<and>
      \<not> did_generate sa' \<and> (\<forall>i. salted_id E sa' i = salted_id E sa i \<and> get_hmac E sa' i = get_hmac E sa i))"
proof -
  obtain sa s1 where s1: "salt_new E (Some (view_storage (barrier_storage C (file_backend ser de root)) v)) config u s = (Ok sa, s1)"
    "\<And>u'. salt_new E (Some (view_storage (barrier_storage C (file_backend ser de root)) v)) config u' s1 =
      (Ok (sa\<lparr>sa_generated := False\<rparr>), s1)"
    using fbv.salt_new_stable [OF assms] by blast
  then show ?thesis by (auto simp: did_generate_def salted_id_def get_hash_def get_hmac_def)
qed

definition demo_salt_env :: salt_env where
  "demo_salt_env = \<lparr>sn_digest = (\<lambda>_. Ok), sn_hmac = (\<lambda>_ _. Ok), sn_utf8 = map (\<lambda>c. of_nat (of_char c)),
     sn_lossy = map (\<lambda>b. char_of (unat b))\<rparr>"

lemma char_byte [simp]: "char_of (unat (of_nat (of_char c) :: 8 word)) = c"
  by (simp add: unat_of_nat)

lemma demo_text_bytes: "sn_lossy demo_salt_env (sn_utf8 demo_salt_env t) = t"
  by (simp add: demo_salt_env_def o_def)

theorem salt_survives_restart_witness:
  "\<exists>sa s1. salt_new demo_salt_env (Some (view_storage (barrier_storage demo_crypto (file_backend demo_ser demo_de [''data'']))
      (view_new ''auth/1/''))) None ''one'' demo_unsealed = (Ok sa, s1) \<and>
    (\<forall>u'. \<exists>sa'. salt_new demo_salt_env (Some (view_storage (barrier_storage demo_crypto (file_backend demo_ser demo_de [''data'']))
      (view_new ''auth/1/''))) None u' s1 = (Ok sa', s1) \<and>
      \<not> did_generate sa' \<and> (\<forall>i. salted_id demo_salt_env sa' i = salted_id demo_salt_env sa i \<and>
        get_hmac demo_salt_env sa' i = get_hmac demo_salt_env sa i))"
proof (rule salt_survives_restart [OF demo_ready])
  have "sc_location (sa_config (salt_configured None (salt_default ''one''))) = ''salt''"
    by (simp add: salt_configured_def salt_default_def salt_config_default_def DEFAULT_LOCATION_def)
  moreover have "view_valid (barrier_valid file_key) (view_new ''auth/1/'') ''salt''" by code_simp
  ultimately show "view_valid (barrier_valid file_key) (view_new ''auth/1/'')
      (sc_location (sa_config (salt_configured None (salt_default ''one''))))" by simp
qed (rule demo_text_bytes)

end
