(* ===== verification/Approle.thy ===== *)
theory Approle
  imports Salt Token_Util
begin

text \<open>
  The AppRole credential backend, \<open>src/modules/credential/approle\<close>: roles and the index of their identifiers
  (\<open>path_role.rs\<close>), secret identifiers and their accessors (\<open>validation.rs\<close>), login (\<open>path_login.rs\<close>), the removal of
  expired secret identifiers (\<open>path_tidy_secret_id.rs\<close>) and the backend itself (\<open>mod.rs\<close>).

  The state is the storage with the salt, the guard of the tidy operation, and the numbers of UUIDs drawn and of
  readings of the clock. The digests, the JSON forms of the stored records and the texts of errors are the record
  \<open>app_env\<close>. The locks of roles and secret identifiers are not in the model: each handler runs alone.
\<close>

section \<open>Data\<close>

definition HMAC_INPUT_LEN_MAX :: nat where "HMAC_INPUT_LEN_MAX = 4096"
definition SECRET_ID_PREFIX :: string where "SECRET_ID_PREFIX = ''secret_id/''"
definition SECRET_ID_LOCAL_PREFIX :: string where "SECRET_ID_LOCAL_PREFIX = ''secret_id_local/''"
definition SECRET_ID_ACCESSOR_PREFIX :: string where "SECRET_ID_ACCESSOR_PREFIX = ''accessor/''"
definition SECRET_ID_ACCESSOR_LOCAL_PREFIX :: string where "SECRET_ID_ACCESSOR_LOCAL_PREFIX = ''accessor_local/''"
definition MAX_HMAC_INPUT_LENGTH :: nat where "MAX_HMAC_INPUT_LENGTH = 4096"

record role_entry =
  re_name :: string
  re_role_id :: string
  re_hmac_key :: string
  re_policies :: "string list"
  re_lower_case_role_name :: bool
  re_bind_secret_id :: bool
  re_secret_id_num_uses :: int
  re_secret_id_prefix :: string
  re_bound_cidr_list_old :: string
  re_bound_cidr_list :: "string list"
  re_secret_id_bound_cidrs :: "string list"
  re_secret_id_ttl :: duration
  re_period :: duration
  re_token_params :: token_params

record role_id_entry =
  ri_name :: string

record secret_id_entry =
  si_accessor :: string
  si_num_uses :: int
  si_ttl :: duration
  si_creation_time :: int
  si_expiration_time :: int
  si_last_updated_time :: int
  si_metadata :: "string \<Rightarrow> string option"
  si_cidr_list :: "string list"
  si_token_cidr_list :: "string list"

record accessor_entry =
  ac_secret_id_hmac :: string

record app_env =
  ae_salt :: salt_env
  ae_enc_role :: "role_entry \<Rightarrow> bytes"
  ae_dec_role :: "bytes \<Rightarrow> role_entry option"
  ae_enc_role_id :: "role_id_entry \<Rightarrow> bytes"
  ae_dec_role_id :: "bytes \<Rightarrow> role_id_entry option"
  ae_enc_secret :: "secret_id_entry \<Rightarrow> bytes"
  ae_dec_secret :: "bytes \<Rightarrow> secret_id_entry option"
  ae_enc_accessor :: "accessor_entry \<Rightarrow> bytes"
  ae_dec_accessor :: "bytes \<Rightarrow> accessor_entry option"
  ae_secret_json :: "secret_id_entry \<Rightarrow> json_obj"
  ae_show_error :: "rv_error \<Rightarrow> string"
  ae_response_json :: "response \<Rightarrow> json"
  ae_request_id :: string
  ae_ip :: ip_env
  ae_parsers :: parsers
  ae_uuid :: "nat \<Rightarrow> string"
  ae_clock :: "nat \<Rightarrow> int"

record 's astate =
  as_store :: 's
  as_salt :: "salt option"
  as_tidying :: bool
  as_uuids :: nat
  as_reads :: nat

definition role_entry_default :: role_entry where
  "role_entry_default =
     \<lparr>re_name = [], re_role_id = [], re_hmac_key = [], re_policies = [], re_lower_case_role_name = True,
      re_bind_secret_id = False, re_secret_id_num_uses = 0, re_secret_id_prefix = [], re_bound_cidr_list_old = [],
      re_bound_cidr_list = [], re_secret_id_bound_cidrs = [], re_secret_id_ttl = 0, re_period = 0,
      re_token_params = token_params_default\<rparr>"

definition upd_role_params :: "(token_params \<Rightarrow> token_params) \<Rightarrow> role_entry \<Rightarrow> role_entry" where
  "upd_role_params f r = r\<lparr>re_token_params := f (re_token_params r)\<rparr>"

definition validate_role_constraints :: "role_entry \<Rightarrow> unit res" where
  "validate_role_constraints r =
     (if re_bind_secret_id r \<or> re_bound_cidr_list r \<noteq> [] \<or> re_secret_id_bound_cidrs r \<noteq> [] \<or>
         tp_token_bound_cidrs (re_token_params r) \<noteq> []
      then Ok () else Err (ErrResponse ''at least one constraint should be enabled on the role''))"

text \<open>The state: the storage below it, UUIDs and the clock.\<close>

definition astore_op :: "('s, 'a) op \<Rightarrow> ('s astate, 'a) op" where
  "astore_op m a = (case m (as_store a) of (r, s) \<Rightarrow> (r, a\<lparr>as_store := s\<rparr>))"

definition astore :: "'s storage_ops \<Rightarrow> 's astate storage_ops" where
  "astore sops = \<lparr>storage_list = (\<lambda>k. astore_op (storage_list sops k)), storage_get = (\<lambda>k. astore_op (storage_get sops k)),
     storage_put = (\<lambda>e. astore_op (storage_put sops e)), storage_delete = (\<lambda>k. astore_op (storage_delete sops k))\<rparr>"

definition app_now :: "app_env \<Rightarrow> ('s astate, int) op" where
  "app_now E a = (Ok (ae_clock E (as_reads a)), a\<lparr>as_reads := Suc (as_reads a)\<rparr>)"

definition app_uuid :: "app_env \<Rightarrow> ('s astate, string) op" where
  "app_uuid E a = (Ok (ae_uuid E (as_uuids a)), a\<lparr>as_uuids := Suc (as_uuids a)\<rparr>)"

definition app_salt :: "string \<Rightarrow> ('s astate, salt) op" where
  "app_salt msg a = (case as_salt a of None \<Rightarrow> (Err (ErrResponse msg), a) | Some s \<Rightarrow> (Ok s, a))"

definition app_salt_id :: "app_env \<Rightarrow> string \<Rightarrow> string \<Rightarrow> ('s astate, string) op" where
  "app_salt_id E msg i = op_bind (app_salt msg) (\<lambda>s. op_res (salted_id (ae_salt E) s i))"

text \<open>The storage of the request, which the handlers unwrap.\<close>

definition request_storage :: "'s storage_ops \<Rightarrow> request \<Rightarrow> 's astate storage_ops res" where
  "request_storage sops req = (case rq_storage req of None \<Rightarrow> Panic | Some v \<Rightarrow> Ok (view_storage (astore sops) v))"

definition decoded :: "(bytes \<Rightarrow> 'a option) \<Rightarrow> string \<Rightarrow> storage_entry option \<Rightarrow> 'a option res" where
  "decoded dec msg e =
     (case e of
        None \<Rightarrow> Ok None
      | Some x \<Rightarrow> (case dec (se_value x) of None \<Rightarrow> Err (External SerdeJson msg) | Some a \<Rightarrow> Ok (Some a)))"

section \<open>Secret identifiers\<close>

definition create_hmac :: "app_env \<Rightarrow> string \<Rightarrow> string \<Rightarrow> string res" where
  "create_hmac E key value =
     (if key = [] then Err (ErrResponse ''invalid hmac key'')
      else if length value > MAX_HMAC_INPUT_LENGTH then
        Err (ErrResponse (''value is longer than maximum of '' @ nat_to_string MAX_HMAC_INPUT_LENGTH @ '' bytes''))
      else res_bind (sn_hmac (ae_salt E) SHA256 (sn_utf8 (ae_salt E) key) (sn_utf8 (ae_salt E) value)) (\<lambda>h.
        Ok (hex_bytes h)))"

text \<open>The texts of the lists have been read as blocks, so that nothing in them is escaped.\<close>

definition debug_strs :: "string list \<Rightarrow> string" where
  "debug_strs xs = ''['' @ join_with '', '' (map (\<lambda>x. [CHR 0x22] @ x @ [CHR 0x22]) xs) @ '']''"

definition verify_cidr_role_secret_id_subset :: "app_env \<Rightarrow> string list \<Rightarrow> string list \<Rightarrow> unit res" where
  "verify_cidr_role_secret_id_subset E secret_cidrs role_cidrs =
     (if secret_cidrs \<noteq> [] \<and> role_cidrs \<noteq> [] then
        let cs = map (\<lambda>c. if CHR ''/'' \<in> set c then c else c @ ''/32'') role_cidrs in
        res_bind (subset_blocks (ae_ip E) cs secret_cidrs) (\<lambda>b.
          if b then Ok ()
          else Err (ErrResponse (''failed to verify subset relationship between CIDR blocks on the role '' @
            debug_strs cs @ '' and CIDR blocks on the secret ID '' @ debug_strs secret_cidrs)))
      else Ok ())"

definition secret_id_index :: "string \<Rightarrow> string \<Rightarrow> string \<Rightarrow> string" where
  "secret_id_index pfx role_hmac secret_hmac = pfx @ role_hmac @ ''/'' @ secret_hmac"

definition check_hmacs :: "string \<Rightarrow> string \<Rightarrow> unit res" where
  "check_hmacs role_hmac secret_hmac =
     (if secret_hmac = [] then Err (ErrResponse ''missing secret id hmac'')
      else if role_hmac = [] then Err (ErrResponse ''missing role name hmac'')
      else Ok ())"

definition get_secret_id_storage_entry ::
  "app_env \<Rightarrow> 'a storage_ops \<Rightarrow> string \<Rightarrow> string \<Rightarrow> string \<Rightarrow> ('a, secret_id_entry option) op" where
  "get_secret_id_storage_entry E st pfx role_hmac secret_hmac =
     op_bind (op_res (check_hmacs role_hmac secret_hmac)) (\<lambda>_.
     op_bind (storage_get st (secret_id_index pfx role_hmac secret_hmac)) (\<lambda>e.
       op_res (decoded (ae_dec_secret E) ''invalid secret id entry'' e)))"

definition set_secret_id_storage_entry ::
  "app_env \<Rightarrow> 'a storage_ops \<Rightarrow> string \<Rightarrow> string \<Rightarrow> string \<Rightarrow> secret_id_entry \<Rightarrow> ('a, unit) op" where
  "set_secret_id_storage_entry E st pfx role_hmac secret_hmac si =
     (if pfx = [] then op_fail (ErrResponse ''missing secret id prefix'')
      else
        op_bind (op_res (check_hmacs role_hmac secret_hmac)) (\<lambda>_.
          storage_put st \<lparr>se_key = secret_id_index pfx role_hmac secret_hmac, se_value = ae_enc_secret E si\<rparr>))"

definition delete_secret_id_storage_entry ::
  "'a storage_ops \<Rightarrow> string \<Rightarrow> string \<Rightarrow> string \<Rightarrow> ('a, unit) op" where
  "delete_secret_id_storage_entry st pfx role_hmac secret_hmac =
     op_bind (op_res (check_hmacs role_hmac secret_hmac)) (\<lambda>_.
       storage_delete st (secret_id_index pfx role_hmac secret_hmac))"

definition derive_secret_id_ttl :: "duration \<Rightarrow> duration" where
  "derive_secret_id_ttl t = (if t > MAX_LEASE_DURATION_SECS then MAX_LEASE_DURATION_SECS else t)"

definition accessor_prefix :: "string \<Rightarrow> string" where
  "accessor_prefix pfx = (if pfx = SECRET_ID_LOCAL_PREFIX then SECRET_ID_ACCESSOR_LOCAL_PREFIX else SECRET_ID_ACCESSOR_PREFIX)"

definition accessor_index :: "app_env \<Rightarrow> string \<Rightarrow> string \<Rightarrow> ('s astate, string) op" where
  "accessor_index E accessor pfx =
     op_bind (app_salt_id E ''approle module not initialized'' accessor) (\<lambda>i. op_return (accessor_prefix pfx @ i))"

definition get_secret_id_accessor_entry ::
  "app_env \<Rightarrow> 's astate storage_ops \<Rightarrow> string \<Rightarrow> string \<Rightarrow> ('s astate, accessor_entry option) op" where
  "get_secret_id_accessor_entry E st accessor pfx =
     (if accessor = [] then op_fail (ErrResponse ''missing secret id accessor'')
      else
        op_bind (accessor_index E accessor pfx) (\<lambda>i.
        op_bind (storage_get st i) (\<lambda>e.
          op_res (decoded (ae_dec_accessor E) ''invalid accessor entry'' e))))"

definition create_secret_id_accessor_entry ::
  "app_env \<Rightarrow> 's astate storage_ops \<Rightarrow> secret_id_entry \<Rightarrow> string \<Rightarrow> string \<Rightarrow> ('s astate, secret_id_entry) op" where
  "create_secret_id_accessor_entry E st si secret_hmac pfx =
     op_bind (app_uuid E) (\<lambda>u.
     op_bind (accessor_index E u pfx) (\<lambda>i.
     op_bind (storage_put st \<lparr>se_key = i, se_value = ae_enc_accessor E \<lparr>ac_secret_id_hmac = secret_hmac\<rparr>\<rparr>) (\<lambda>_.
       op_return (si\<lparr>si_accessor := u\<rparr>))))"

definition delete_secret_id_accessor_entry ::
  "app_env \<Rightarrow> 's astate storage_ops \<Rightarrow> string \<Rightarrow> string \<Rightarrow> ('s astate, unit) op" where
  "delete_secret_id_accessor_entry E st accessor pfx =
     op_bind (accessor_index E accessor pfx) (\<lambda>i. storage_delete st i)"

text \<open>The times that a new entry has: those of its default, which reads the clock three times, then those of the
  registration; a time to live of zero leaves the expiration of the default.\<close>

definition secret_id_entry_default :: "app_env \<Rightarrow> ('s astate, secret_id_entry) op" where
  "secret_id_entry_default E =
     op_bind (app_now E) (\<lambda>t1. op_bind (app_now E) (\<lambda>t2. op_bind (app_now E) (\<lambda>t3.
       op_return \<lparr>si_accessor = [], si_num_uses = 0, si_ttl = 0, si_creation_time = t1, si_expiration_time = t2,
         si_last_updated_time = t3, si_metadata = Map.empty, si_cidr_list = [], si_token_cidr_list = []\<rparr>)))"

definition timed :: "int \<Rightarrow> secret_id_entry \<Rightarrow> secret_id_entry" where
  "timed now si =
     (let t = derive_secret_id_ttl (si_ttl si) in
      si\<lparr>si_creation_time := now, si_last_updated_time := now,
        si_expiration_time := (if t div NANOS \<noteq> 0 then now + int t else si_expiration_time si)\<rparr>)"

definition not_registered ::
  "app_env \<Rightarrow> 'a storage_ops \<Rightarrow> string \<Rightarrow> string \<Rightarrow> string \<Rightarrow> ('a, unit) op" where
  "not_registered E st pfx role_hmac secret_hmac =
     op_bind (get_secret_id_storage_entry E st pfx role_hmac secret_hmac) (\<lambda>e.
       if e \<noteq> None then op_fail (ErrResponse ''secret_id is already registered'') else op_return ())"

definition register_secret_id_entry ::
  "app_env \<Rightarrow> 's astate storage_ops \<Rightarrow> string \<Rightarrow> string \<Rightarrow> string \<Rightarrow> string \<Rightarrow> secret_id_entry \<Rightarrow>
     ('s astate, secret_id_entry) op" where
  "register_secret_id_entry E st role_name secret_id key pfx si =
     op_bind (op_res (create_hmac E key role_name)) (\<lambda>role_hmac.
     op_bind (op_res (create_hmac E key secret_id)) (\<lambda>secret_hmac.
     op_bind (not_registered E st pfx role_hmac secret_hmac) (\<lambda>_.
     op_bind (not_registered E st pfx role_hmac secret_hmac) (\<lambda>_.
     op_bind (app_now E) (\<lambda>now.
     op_bind (create_secret_id_accessor_entry E st (timed now si) secret_hmac pfx) (\<lambda>si'.
     op_bind (set_secret_id_storage_entry E st pfx role_hmac secret_hmac si') (\<lambda>_.
       op_return si')))))))"

definition flush_role_secrets ::
  "app_env \<Rightarrow> 'a storage_ops \<Rightarrow> string \<Rightarrow> string \<Rightarrow> string \<Rightarrow> ('a, unit) op" where
  "flush_role_secrets E st role_name key pfx =
     op_bind (op_res (create_hmac E key role_name)) (\<lambda>role_hmac.
     op_bind (storage_list st (pfx @ role_hmac @ ''/'')) (\<lambda>hs.
       op_iter (\<lambda>h. storage_delete st (secret_id_index pfx role_hmac h)) hs))"

section \<open>Roles\<close>

definition role_id_key :: "string \<Rightarrow> string" where
  "role_id_key h = ''role_id/'' @ h"

definition role_id_index :: "app_env \<Rightarrow> string \<Rightarrow> ('s astate, string) op" where
  "role_id_index E role_id = op_bind (app_salt_id E ''salt not found'' role_id) (\<lambda>i. op_return (role_id_key i))"

definition get_role_id :: "app_env \<Rightarrow> 's storage_ops \<Rightarrow> request \<Rightarrow> string \<Rightarrow> ('s astate, role_id_entry option) op" where
  "get_role_id E sops req role_id =
     (if role_id = [] then op_fail (ErrResponse ''missing role_id'')
      else
        op_bind (role_id_index E role_id) (\<lambda>i.
        op_bind (rq_storage_get (astore sops) req i) (\<lambda>e.
          op_res (decoded (ae_dec_role_id E) ''invalid role id entry'' e))))"

definition set_role_id :: "app_env \<Rightarrow> 's storage_ops \<Rightarrow> request \<Rightarrow> string \<Rightarrow> role_id_entry \<Rightarrow> ('s astate, unit) op" where
  "set_role_id E sops req role_id ri =
     op_bind (role_id_index E role_id) (\<lambda>i.
       rq_storage_put (astore sops) req \<lparr>se_key = i, se_value = ae_enc_role_id E ri\<rparr>)"

definition delete_role_id :: "app_env \<Rightarrow> 's storage_ops \<Rightarrow> request \<Rightarrow> string \<Rightarrow> ('s astate, unit) op" where
  "delete_role_id E sops req role_id =
     (if role_id = [] then op_fail (ErrResponse ''missing role_id'')
      else op_bind (role_id_index E role_id) (\<lambda>i. rq_storage_delete (astore sops) req i))"

definition role_key :: "string \<Rightarrow> string" where
  "role_key name = ''role/'' @ to_lowercase name"

text \<open>A role as it is after it was read: the older fields fill the newer ones.\<close>

definition with_default_prefix :: "role_entry \<Rightarrow> role_entry" where
  "with_default_prefix r = (if re_secret_id_prefix r = [] then r\<lparr>re_secret_id_prefix := SECRET_ID_PREFIX\<rparr> else r)"

definition with_old_cidrs :: "role_entry \<Rightarrow> role_entry" where
  "with_old_cidrs r =
     (if re_bound_cidr_list_old r \<noteq> []
      then r\<lparr>re_secret_id_bound_cidrs := split_on CHR '','' (re_bound_cidr_list_old r), re_bound_cidr_list_old := []\<rparr> else r)"

definition with_cidr_list :: "role_entry \<Rightarrow> role_entry" where
  "with_cidr_list r =
     (if re_bound_cidr_list r \<noteq> [] then r\<lparr>re_secret_id_bound_cidrs := re_bound_cidr_list r, re_bound_cidr_list := []\<rparr> else r)"

definition with_period :: "role_entry \<Rightarrow> role_entry" where
  "with_period r =
     (if tp_token_period (re_token_params r) div NANOS = 0 \<and> re_period r div NANOS > 0
      then upd_role_params (\<lambda>p. p\<lparr>tp_token_period := re_period r\<rparr>) r else r)"

definition with_policies :: "role_entry \<Rightarrow> role_entry" where
  "with_policies r =
     (if tp_token_policies (re_token_params r) = [] \<and> re_policies r \<noteq> []
      then upd_role_params (\<lambda>p. p\<lparr>tp_token_policies := re_policies r\<rparr>) r else r)"

definition loaded_role :: "string \<Rightarrow> role_entry \<Rightarrow> role_entry" where
  "loaded_role name r =
     with_policies (with_period (with_cidr_list (with_old_cidrs (with_default_prefix
       (r\<lparr>re_name := (if re_lower_case_role_name r then to_lowercase name else name)\<rparr>)))))"

definition get_role :: "app_env \<Rightarrow> 's storage_ops \<Rightarrow> request \<Rightarrow> string \<Rightarrow> ('s astate, role_entry option) op" where
  "get_role E sops req name =
     op_bind (rq_storage_get (astore sops) req (role_key name)) (\<lambda>e.
     op_bind (op_res (decoded (ae_dec_role E) ''invalid role entry'' e)) (\<lambda>r.
       op_return (map_option (loaded_role name) r)))"

definition set_role ::
  "app_env \<Rightarrow> 's storage_ops \<Rightarrow> request \<Rightarrow> string \<Rightarrow> role_entry \<Rightarrow> string \<Rightarrow> ('s astate, unit) op" where
  "set_role E sops req name role previous =
     (if name = [] then op_fail (ErrResponse ''missing role name'')
      else
        op_bind (op_res (validate_role_constraints role)) (\<lambda>_.
        op_bind (get_role_id E sops req (re_role_id role)) (\<lambda>ri.
        if (case ri of Some x \<Rightarrow> ri_name x \<noteq> name | None \<Rightarrow> False) then op_fail (ErrResponse ''role_id already in use'')
        else
          op_bind (if previous \<noteq> [] \<and> previous \<noteq> re_role_id role then delete_role_id E sops req previous else op_return ()) (\<lambda>_.
          op_bind (rq_storage_put (astore sops) req \<lparr>se_key = role_key name, se_value = ae_enc_role E role\<rparr>) (\<lambda>_.
            if previous \<noteq> [] \<and> previous = re_role_id role then op_return ()
            else set_role_id E sops req (re_role_id role) \<lparr>ri_name = name\<rparr>)))))"

definition list_role :: "'s storage_ops \<Rightarrow> 's astate handler" where
  "list_role sops st =
     on_state st (\<lambda>req. op_bind (rq_storage_list (astore sops) req ''role/'') (\<lambda>rs. op_return (Some (list_response rs))))"

text \<open>A field that the request has, otherwise, for a new role, its default.\<close>

definition set_or_default ::
  "parsers \<Rightarrow> request \<Rightarrow> bool \<Rightarrow> string \<Rightarrow> (json \<Rightarrow> 'a option) \<Rightarrow> ('a \<Rightarrow> 'p \<Rightarrow> 'p) \<Rightarrow> 'p \<Rightarrow> 'p res" where
  "set_or_default P req create key conv upd p =
     (let use = (\<lambda>v. case conv v of Some x \<Rightarrow> Ok (upd x p) | None \<Rightarrow> Err ErrRequestFieldInvalid) in
      case get_data P req key of
        Ok v \<Rightarrow> use v
      | Err _ \<Rightarrow> if create then res_bind (get_data_or_default P req key) use else Ok p
      | Panic \<Rightarrow> Panic)"

definition role_policies :: "app_env \<Rightarrow> request \<Rightarrow> string list \<Rightarrow> role_entry \<Rightarrow> role_entry res" where
  "role_policies E req old r =
     (if old \<noteq> tp_token_policies (re_token_params r) then Ok (r\<lparr>re_policies := tp_token_policies (re_token_params r)\<rparr>)
      else set_field (ae_parsers E) req ''policies'' as_comma_string_slice
        (\<lambda>ps r. upd_role_params (\<lambda>p. p\<lparr>tp_token_policies := ps\<rparr>) (r\<lparr>re_policies := ps\<rparr>)) r)"

definition role_period :: "app_env \<Rightarrow> request \<Rightarrow> duration \<Rightarrow> role_entry \<Rightarrow> role_entry res" where
  "role_period E req old r =
     (if old \<noteq> tp_token_period (re_token_params r) then Ok (r\<lparr>re_period := tp_token_period (re_token_params r)\<rparr>)
      else set_field (ae_parsers E) req ''period'' (as_duration (snd (ae_parsers E)))
        (\<lambda>d r. upd_role_params (\<lambda>p. p\<lparr>tp_token_period := d\<rparr>) (r\<lparr>re_period := d\<rparr>)) r)"

definition role_local_ids :: "app_env \<Rightarrow> request \<Rightarrow> bool \<Rightarrow> role_entry \<Rightarrow> role_entry res" where
  "role_local_ids E req create r =
     (case get_data (ae_parsers E) req ''local_secret_ids'' of
        Ok v \<Rightarrow> (case as_bool v of
              None \<Rightarrow> Err ErrRequestFieldInvalid
            | Some False \<Rightarrow> Ok r
            | Some True \<Rightarrow>
                if create then Ok (r\<lparr>re_secret_id_prefix := SECRET_ID_LOCAL_PREFIX\<rparr>)
                else Err (ErrResponse ''local_secret_ids can only be modified during role creation''))
      | Err _ \<Rightarrow> Ok r
      | Panic \<Rightarrow> Panic)"

definition role_cidrs :: "app_env \<Rightarrow> request \<Rightarrow> role_entry \<Rightarrow> role_entry res" where
  "role_cidrs E req r =
     res_bind
       (case get_data_or_next (ae_parsers E) req [''secret_id_bound_cidrs'', ''bound_cidr_list''] of
          Ok v \<Rightarrow> (case as_comma_string_slice v of
                None \<Rightarrow> Err ErrRequestFieldInvalid | Some cs \<Rightarrow> Ok (r\<lparr>re_secret_id_bound_cidrs := cs\<rparr>))
        | Err _ \<Rightarrow> Ok r
        | Panic \<Rightarrow> Panic) (\<lambda>r'.
     if re_secret_id_bound_cidrs r' = [] then Ok r'
     else res_bind (validate_cidrs (ae_ip E) (re_secret_id_bound_cidrs r')) (\<lambda>ok.
       if ok then Ok r' else Err (ErrResponse ''invalid CIDR blocks'')))"

text \<open>The fields that \<open>write_role\<close> reads before and after the identifier of the role.\<close>

definition role_before_id :: "app_env \<Rightarrow> request \<Rightarrow> bool \<Rightarrow> role_entry \<Rightarrow> role_entry res" where
  "role_before_id E req create r =
     (let old = re_token_params r in
      res_bind (parse_token_fields (ae_ip E) (ae_parsers E) req old) (\<lambda>p.
      res_bind (role_policies E req (tp_token_policies old) (r\<lparr>re_token_params := p\<rparr>)) (\<lambda>r1.
      res_bind (role_period E req (tp_token_period old) r1) (\<lambda>r2.
        role_local_ids E req create r2))))"

definition role_after_id :: "app_env \<Rightarrow> request \<Rightarrow> bool \<Rightarrow> role_entry \<Rightarrow> role_entry res" where
  "role_after_id E req create r =
     res_bind (set_or_default (ae_parsers E) req create ''bind_secret_id'' as_bool (\<lambda>b r. r\<lparr>re_bind_secret_id := b\<rparr>) r) (\<lambda>r1.
     res_bind (role_cidrs E req r1) (\<lambda>r2.
     res_bind (set_or_default (ae_parsers E) req create ''secret_id_num_uses'' as_int
         (\<lambda>n r. r\<lparr>re_secret_id_num_uses := n\<rparr>) r2) (\<lambda>r3.
     if re_secret_id_num_uses r3 < 0 then Err (ErrResponse ''secret_id_num_uses cannot be negative'')
     else set_or_default (ae_parsers E) req create ''secret_id_ttl'' (as_duration (snd (ae_parsers E)))
         (\<lambda>d r. r\<lparr>re_secret_id_ttl := d\<rparr>) r3)))"

definition role_with_id :: "app_env \<Rightarrow> request \<Rightarrow> bool \<Rightarrow> role_entry \<Rightarrow> ('s astate, role_entry) op" where
  "role_with_id E req create r =
     op_bind
       (case get_data (ae_parsers E) req ''role_id'' of
          Ok v \<Rightarrow> op_res (case as_str v of None \<Rightarrow> Err ErrRequestFieldInvalid | Some i \<Rightarrow> Ok (r\<lparr>re_role_id := i\<rparr>))
        | Err _ \<Rightarrow> if create then op_bind (app_uuid E) (\<lambda>u. op_return (r\<lparr>re_role_id := u\<rparr>)) else op_return r
        | Panic \<Rightarrow> op_res Panic) (\<lambda>r'.
     if re_role_id r' = [] then op_fail (ErrResponse ''invalid role_id supplied, or failed to generate a role_id'')
     else op_return r')"

definition write_role :: "'s storage_ops \<Rightarrow> app_env \<Rightarrow> 's astate handler" where
  "write_role sops E st =
     on_state st (\<lambda>req.
       op_bind (op_res (res_bind (get_data (ae_parsers E) req ''role_name'') (\<lambda>v.
         case as_str v of None \<Rightarrow> Err ErrRequestFieldInvalid | Some n \<Rightarrow> Ok n))) (\<lambda>name.
       if length name > HMAC_INPUT_LEN_MAX then
         op_fail (ErrResponse (''role_name is longer than maximum of '' @ nat_to_string HMAC_INPUT_LEN_MAX @ '' bytes''))
       else
         op_bind (get_role E sops req name) (\<lambda>found.
         op_bind (case found of
             Some r \<Rightarrow> op_return r
           | None \<Rightarrow> op_bind (app_uuid E) (\<lambda>u. op_return (role_entry_default\<lparr>re_name := to_lowercase name, re_hmac_key := u\<rparr>))) (\<lambda>r0.
         op_bind (op_res (role_before_id E req (found = None) r0)) (\<lambda>r1.
         op_bind (role_with_id E req (found = None) r1) (\<lambda>r2.
         op_bind (op_res (role_after_id E req (found = None) r2)) (\<lambda>r3.
         op_bind (set_role E sops req (re_name r3) r3 (re_role_id r1)) (\<lambda>_.
           op_return None))))))))"

definition strs :: "string list \<Rightarrow> json" where
  "strs xs = JArray (map JString xs)"

definition role_data :: "app_env \<Rightarrow> role_entry \<Rightarrow> json_obj" where
  "role_data E r =
     (let d0 = [(''bind_secret_id'', JBool (re_bind_secret_id r)),
                (''local_secret_ids'', JBool (re_secret_id_prefix r = SECRET_ID_LOCAL_PREFIX)),
                (''secret_id_bound_cidrs'', strs (re_secret_id_bound_cidrs r)),
                (''secret_id_num_uses'', JNum (re_secret_id_num_uses r)), (''secret_id_ttl'', secs (re_secret_id_ttl r))];
          d1 = (if re_period r div NANOS \<noteq> 0 then obj_insert ''period'' (secs (re_period r)) d0 else d0);
          d2 = (if re_policies r \<noteq> [] then obj_insert ''policies'' (strs (re_policies r)) d1 else d1)
      in populate_token_data (ae_ip E) (re_token_params r) d2)"

text \<open>Reading a role restores a missing index of its identifier, with a warning.\<close>

definition read_role :: "'s storage_ops \<Rightarrow> app_env \<Rightarrow> 's astate handler" where
  "read_role sops E st =
     on_state st (\<lambda>req.
       op_bind (op_res (get_data_as_str (ae_parsers E) req ''role_name'')) (\<lambda>name.
       op_bind (get_role E sops req name) (\<lambda>found.
         case found of
           None \<Rightarrow> op_return None
         | Some r \<Rightarrow>
             let resp = data_response (Some (role_data E r)) in
             op_bind (get_role_id E sops req (re_role_id r)) (\<lambda>ri.
             if ri \<noteq> None then op_return (Some resp)
             else
               op_bind (get_role_id E sops req (re_role_id r)) (\<lambda>ri'.
               if ri' \<noteq> None then op_return (Some resp)
               else
                 op_bind (set_role_id E sops req (re_role_id r) \<lparr>ri_name = re_name r\<rparr>) (\<lambda>_.
                   op_return (Some (add_warning ''Role identifier was missing an index back to role name'' resp))))))))"

definition delete_role :: "'s storage_ops \<Rightarrow> app_env \<Rightarrow> 's astate handler" where
  "delete_role sops E st =
     on_state st (\<lambda>req.
       op_bind (op_res (get_data_as_str (ae_parsers E) req ''role_name'')) (\<lambda>name.
       op_bind (get_role E sops req name) (\<lambda>found.
         case found of
           None \<Rightarrow> op_return None
         | Some r \<Rightarrow>
             op_bind (op_res (request_storage sops req)) (\<lambda>v.
             op_bind (flush_role_secrets E v (re_name r) (re_hmac_key r) (re_secret_id_prefix r)) (\<lambda>_.
             op_bind (delete_role_id E sops req (re_role_id r)) (\<lambda>_.
             op_bind (rq_storage_delete (astore sops) req (role_key name)) (\<lambda>_.
               op_return None)))))))"

definition read_role_policies :: "'s storage_ops \<Rightarrow> app_env \<Rightarrow> 's astate handler" where
  "read_role_policies sops E st =
     on_state st (\<lambda>req.
       op_bind (op_res (get_data_as_str (ae_parsers E) req ''role_name'')) (\<lambda>name.
       op_bind (get_role E sops req name) (\<lambda>found.
         op_return (map_option (\<lambda>r.
           let d = [(''token_policies'', strs (tp_token_policies (re_token_params r)))] in
           data_response (Some (if re_policies r \<noteq> [] then obj_insert ''policies'' (strs (re_policies r)) d else d))) found))))"

text \<open>Changing a role that has to exist.\<close>

definition change_role ::
  "'s storage_ops \<Rightarrow> app_env \<Rightarrow> request \<Rightarrow> string \<Rightarrow> (role_entry \<Rightarrow> (role_entry \<times> string) res) \<Rightarrow>
     ('s astate, response option) op" where
  "change_role sops E req name f =
     op_bind (get_role E sops req name) (\<lambda>found.
       case found of
         None \<Rightarrow> op_fail ErrLogicalPathUnsupported
       | Some r \<Rightarrow>
           op_bind (op_res (f r)) (\<lambda>(r', previous).
           op_bind (set_role E sops req name r' previous) (\<lambda>_. op_return None)))"

definition write_role_policies :: "'s storage_ops \<Rightarrow> app_env \<Rightarrow> 's astate handler" where
  "write_role_policies sops E st =
     on_state st (\<lambda>req.
       op_bind (op_res (get_data_as_str (ae_parsers E) req ''role_name'')) (\<lambda>name.
       op_bind (op_res (get_data_or_next (ae_parsers E) req [''token_policies'', ''policies''])) (\<lambda>v.
         case as_comma_string_slice v of
           None \<Rightarrow> op_fail ErrRequestFieldInvalid
         | Some ps \<Rightarrow>
             change_role sops E req name (\<lambda>r.
               let ps' = sanitize_policies ps False in
               Ok (upd_role_params (\<lambda>p. p\<lparr>tp_token_policies := ps'\<rparr>) (r\<lparr>re_policies := ps'\<rparr>), [])))))"

definition delete_role_policies :: "'s storage_ops \<Rightarrow> app_env \<Rightarrow> 's astate handler" where
  "delete_role_policies sops E st =
     on_state st (\<lambda>req.
       op_bind (op_res (get_data_as_str (ae_parsers E) req ''role_name'')) (\<lambda>name.
         change_role sops E req name (\<lambda>r.
           Ok (upd_role_params (\<lambda>p. p\<lparr>tp_token_policies := []\<rparr>) (r\<lparr>re_policies := []\<rparr>), []))))"

section \<open>Single fields of a role\<close>

definition field_data :: "app_env \<Rightarrow> string \<Rightarrow> role_entry \<Rightarrow> json_obj res" where
  "field_data E field r =
     (let p = re_token_params r in
      if field = ''bound_cidr_list'' then Ok [(field, strs (re_bound_cidr_list r))]
      else if field = ''secret_id_bound_cidrs'' then Ok [(field, strs (re_secret_id_bound_cidrs r))]
      else if field = ''token_bound_cidrs'' then Ok [(field, show_cidrs (ae_ip E) (tp_token_bound_cidrs p))]
      else if field = ''bind_secret_id'' then Ok [(field, JBool (re_bind_secret_id r))]
      else if field = ''local_secret_ids'' then Ok [(field, JBool (re_secret_id_prefix r = SECRET_ID_LOCAL_PREFIX))]
      else if field = ''secret_id_num_uses'' then Ok [(field, JNum (re_secret_id_num_uses r))]
      else if field = ''role_id'' then Ok [(field, JString (re_role_id r))]
      else if field = ''secret_id_ttl'' then Ok [(field, secs (re_secret_id_ttl r))]
      else if field = ''token_period'' \<or> field = ''period'' then
        Ok ((if re_period r div NANOS > 0 then [(''period'', secs (re_period r))] else []) @
            [(''token_period'', secs (tp_token_period p))])
      else if field = ''token_num_uses'' then Ok [(field, JNum (int (tp_token_num_uses p)))]
      else if field = ''token_ttl'' then Ok [(field, secs (tp_token_ttl p))]
      else if field = ''token_max_ttl'' then Ok [(field, secs (tp_token_max_ttl p))]
      else Err (ErrResponse ''unrecognized field''))"

definition read_role_field :: "'s storage_ops \<Rightarrow> app_env \<Rightarrow> string \<Rightarrow> 's astate handler" where
  "read_role_field sops E field st =
     on_state st (\<lambda>req.
       op_bind (op_res (get_data_as_str (ae_parsers E) req ''role_name'')) (\<lambda>name.
       op_bind (get_role E sops req name) (\<lambda>found.
         case found of
           None \<Rightarrow> op_return None
         | Some r \<Rightarrow> op_bind (op_res (field_data E field r)) (\<lambda>d. op_return (Some (data_response (Some d)))))))"

definition conv_or :: "'a option \<Rightarrow> ('a \<Rightarrow> 'b res) \<Rightarrow> 'b res" where
  "conv_or x f = (case x of None \<Rightarrow> Err ErrLogicalOperationUnsupported | Some a \<Rightarrow> f a)"

definition is_cidr_field :: "string \<Rightarrow> bool" where
  "is_cidr_field field \<longleftrightarrow> field \<in> {''bound_cidr_list'', ''secret_id_bound_cidrs'', ''token_bound_cidrs''}"

definition field_cidrs :: "app_env \<Rightarrow> string \<Rightarrow> json \<Rightarrow> string list res" where
  "field_cidrs E field v =
     (if \<not> is_cidr_field field then Ok []
      else case as_comma_string_slice v of
          None \<Rightarrow> Err ErrRequestFieldInvalid
        | Some cs \<Rightarrow>
            if cs = [] then Err (ErrResponse (''missing '' @ field))
            else res_bind (validate_cidrs (ae_ip E) cs) (\<lambda>ok.
              if ok then Ok cs else Err (ErrResponse ''failed to validate CIDR blocks'')))"

text \<open>The changed role, with the identifier it had before when that is what changes.\<close>

definition update_field :: "app_env \<Rightarrow> string \<Rightarrow> json \<Rightarrow> string list \<Rightarrow> role_entry \<Rightarrow> (role_entry \<times> string) res" where
  "update_field E field v cidrs r =
     (let dur = as_duration (snd (ae_parsers E)); same = (\<lambda>r. Ok (r, [])); p = re_token_params r in
      if field = ''bound_cidr_list'' \<or> field = ''secret_id_bound_cidrs'' then same (r\<lparr>re_secret_id_bound_cidrs := cidrs\<rparr>)
      else if field = ''token_bound_cidrs'' then
        res_bind (parse_cidrs (ae_ip E) cidrs) (\<lambda>as. same (upd_role_params (\<lambda>p. p\<lparr>tp_token_bound_cidrs := as\<rparr>) r))
      else if field = ''bind_secret_id'' then conv_or (as_bool v) (\<lambda>b. same (r\<lparr>re_bind_secret_id := b\<rparr>))
      else if field = ''secret_id_num_uses'' then
        conv_or (as_int v) (\<lambda>n.
          if n < 0 then Err (ErrResponse ''secret_id_num_uses cannot be negative'')
          else same (r\<lparr>re_secret_id_num_uses := n\<rparr>))
      else if field = ''role_id'' then
        conv_or (as_str v) (\<lambda>i.
          if i = [] then Err (ErrResponse ''missing role_id'') else Ok (r\<lparr>re_role_id := i\<rparr>, re_role_id r))
      else if field = ''secret_id_ttl'' then conv_or (dur v) (\<lambda>d. same (r\<lparr>re_secret_id_ttl := d\<rparr>))
      else if field = ''token_period'' \<or> field = ''period'' then
        conv_or (dur v) (\<lambda>d. same (upd_role_params (\<lambda>p. p\<lparr>tp_token_period := d\<rparr>) (r\<lparr>re_period := d\<rparr>)))
      else if field = ''token_num_uses'' then
        conv_or (as_u64 v) (\<lambda>n. same (upd_role_params (\<lambda>p. p\<lparr>tp_token_num_uses := n\<rparr>) r))
      else if field = ''token_ttl'' then
        conv_or (dur v) (\<lambda>d.
          if tp_token_max_ttl p div NANOS > 0 \<and> d div NANOS > tp_token_max_ttl p div NANOS
          then Err (ErrResponse ''token_ttl should not be greater than token_max_ttl'')
          else same (upd_role_params (\<lambda>p. p\<lparr>tp_token_ttl := d\<rparr>) r))
      else if field = ''token_max_ttl'' then
        conv_or (dur v) (\<lambda>d.
          if d div NANOS > 0 \<and> tp_token_ttl p div NANOS > d div NANOS
          then Err (ErrResponse ''token_max_ttl should not be greater than token_ttl'')
          else same (upd_role_params (\<lambda>p. p\<lparr>tp_token_max_ttl := d\<rparr>) r))
      else Err (ErrResponse ''unrecognized field''))"

definition update_role_field :: "'s storage_ops \<Rightarrow> app_env \<Rightarrow> string \<Rightarrow> 's astate handler" where
  "update_role_field sops E field st =
     on_state st (\<lambda>req.
       op_bind (op_res (get_data_as_str (ae_parsers E) req ''role_name'')) (\<lambda>name.
       op_bind (op_res (if field = ''token_period'' \<or> field = ''period''
           then get_data_or_next (ae_parsers E) req [''token_period'', ''period''] else get_data (ae_parsers E) req field)) (\<lambda>v.
       op_bind (op_res (field_cidrs E field v)) (\<lambda>cidrs.
         change_role sops E req name (update_field E field v cidrs)))))"

definition clear_field :: "app_env \<Rightarrow> request \<Rightarrow> string \<Rightarrow> role_entry \<Rightarrow> role_entry res" where
  "clear_field E req field r =
     (let dflt = (\<lambda>conv upd. res_bind (get_field_default_or_zero (ae_parsers E) req field) (\<lambda>v. conv_or (conv v) (\<lambda>x. Ok (upd x))));
          dur = as_duration (snd (ae_parsers E)) in
      if field = ''bound_cidr_list'' then Ok (r\<lparr>re_bound_cidr_list := []\<rparr>)
      else if field = ''secret_id_bound_cidrs'' then Ok (r\<lparr>re_secret_id_bound_cidrs := []\<rparr>)
      else if field = ''token_bound_cidrs'' then Ok (upd_role_params (\<lambda>p. p\<lparr>tp_token_bound_cidrs := []\<rparr>) r)
      else if field = ''bind_secret_id'' then
        res_bind (get_field_default_or_zero (ae_parsers E) req field) (\<lambda>v. conv_or (as_bool v) (\<lambda>b. Ok (r\<lparr>re_bind_secret_id := b\<rparr>)))
      else if field = ''secret_id_num_uses'' then
        res_bind (get_field_default_or_zero (ae_parsers E) req field) (\<lambda>v. conv_or (as_int v) (\<lambda>n. Ok (r\<lparr>re_secret_id_num_uses := n\<rparr>)))
      else if field = ''secret_id_ttl'' then dflt dur (\<lambda>d. r\<lparr>re_secret_id_ttl := d\<rparr>)
      else if field = ''token_period'' \<or> field = ''period'' then
        Ok (upd_role_params (\<lambda>p. p\<lparr>tp_token_period := 0\<rparr>) (r\<lparr>re_period := 0\<rparr>))
      else if field = ''token_num_uses'' then dflt as_u64 (\<lambda>n. upd_role_params (\<lambda>p. p\<lparr>tp_token_num_uses := n\<rparr>) r)
      else if field = ''token_ttl'' then dflt dur (\<lambda>d. upd_role_params (\<lambda>p. p\<lparr>tp_token_ttl := d\<rparr>) r)
      else if field = ''token_max_ttl'' then dflt dur (\<lambda>d. upd_role_params (\<lambda>p. p\<lparr>tp_token_max_ttl := d\<rparr>) r)
      else Err (ErrResponse ''unrecognized field''))"

definition delete_role_field :: "'s storage_ops \<Rightarrow> app_env \<Rightarrow> string \<Rightarrow> 's astate handler" where
  "delete_role_field sops E field st =
     on_state st (\<lambda>req.
       op_bind (op_res (get_data_as_str (ae_parsers E) req ''role_name'')) (\<lambda>name.
       op_bind (get_role E sops req name) (\<lambda>found.
         case found of
           None \<Rightarrow> op_return None
         | Some r \<Rightarrow>
             op_bind (op_res (clear_field E req field r)) (\<lambda>r'.
             op_bind (set_role E sops req name r' []) (\<lambda>_. op_return None)))))"

section \<open>Handlers of secret identifiers\<close>

text \<open>The handlers first look up the role of the request, which has to exist.\<close>

definition with_role ::
  "'s storage_ops \<Rightarrow> app_env \<Rightarrow> request \<Rightarrow> string \<Rightarrow> (role_entry \<Rightarrow> ('s astate, 'a) op) \<Rightarrow> ('s astate, 'a) op" where
  "with_role sops E req name f =
     op_bind (get_role E sops req name) (\<lambda>found.
       case found of
         None \<Rightarrow> op_fail (ErrResponse (''role '' @ name @ '' does not exist''))
       | Some r \<Rightarrow> f r)"

fun list_accessors ::
  "'s storage_ops \<Rightarrow> app_env \<Rightarrow> request \<Rightarrow> string \<Rightarrow> string \<Rightarrow> string list \<Rightarrow> ('s astate, string list) op" where
  "list_accessors sops E req pfx role_hmac [] = op_return []"
| "list_accessors sops E req pfx role_hmac (h # hs) =
     op_bind (rq_storage_get (astore sops) req (secret_id_index pfx role_hmac h)) (\<lambda>e.
       if e = None then
         op_fail (ErrResponse ''storage entry for SecretID is present but no content found at the index'')
       else
         op_bind (op_res (decoded (ae_dec_secret E) ''invalid secret id entry'' e)) (\<lambda>si.
         op_bind (list_accessors sops E req pfx role_hmac hs) (\<lambda>rest.
           op_return ((case si of Some x \<Rightarrow> si_accessor x | None \<Rightarrow> []) # rest))))"

definition list_role_secret_id :: "'s storage_ops \<Rightarrow> app_env \<Rightarrow> 's astate handler" where
  "list_role_secret_id sops E st =
     on_state st (\<lambda>req.
       op_bind (op_res (get_data_as_str (ae_parsers E) req ''role_name'')) (\<lambda>name.
       with_role sops E req name (\<lambda>r.
         op_bind (op_res (create_hmac E (re_hmac_key r) (re_name r))) (\<lambda>role_hmac.
         op_bind (rq_storage_list (astore sops) req (re_secret_id_prefix r @ role_hmac @ ''/'')) (\<lambda>hs.
         op_bind (list_accessors sops E req (re_secret_id_prefix r) role_hmac hs) (\<lambda>as.
           op_return (Some (list_response as))))))))"

definition requested_cidrs :: "app_env \<Rightarrow> request \<Rightarrow> string \<Rightarrow> string list res" where
  "requested_cidrs E req key =
     res_bind (get_data_or_default (ae_parsers E) req key) (\<lambda>v.
     case as_comma_string_slice v of
       None \<Rightarrow> Err ErrRequestFieldInvalid
     | Some cs \<Rightarrow>
         if cs = [] then Ok []
         else res_bind (validate_cidrs (ae_ip E) cs) (\<lambda>ok.
           if ok then Ok cs else Err (ErrResponse ''failed to validate CIDR blocks'')))"

definition requested_uses :: "app_env \<Rightarrow> request \<Rightarrow> role_entry \<Rightarrow> int res" where
  "requested_uses E req r =
     (case get_data (ae_parsers E) req ''num_uses'' of
        Ok v \<Rightarrow> (case as_i64 v of
              None \<Rightarrow> Err ErrRequestFieldInvalid
            | Some n \<Rightarrow>
                if n < 0 then Err (ErrResponse ''num_uses cannot be negative'')
                else if re_secret_id_num_uses r > 0 \<and> (n = 0 \<or> n > re_secret_id_num_uses r)
                then Err (ErrResponse ''num_uses cannot be higher than the role's secret_id_num_uses'')
                else Ok n)
      | Err _ \<Rightarrow> Ok (re_secret_id_num_uses r)
      | Panic \<Rightarrow> Panic)"

definition requested_secret_ttl :: "app_env \<Rightarrow> request \<Rightarrow> role_entry \<Rightarrow> duration res" where
  "requested_secret_ttl E req r =
     (case get_data (ae_parsers E) req ''ttl'' of
        Ok v \<Rightarrow> (case as_duration (snd (ae_parsers E)) v of
              None \<Rightarrow> Err ErrRequestFieldInvalid
            | Some t \<Rightarrow>
                if t div NANOS = 0 \<and> re_secret_id_ttl r div NANOS > 0 \<or>
                   re_secret_id_ttl r div NANOS > 0 \<and> t div NANOS > re_secret_id_ttl r div NANOS
                then Err (ErrResponse ''ttl cannot be longer than the role's secret_id_ttl'')
                else Ok t)
      | Err _ \<Rightarrow> Ok (re_secret_id_ttl r)
      | Panic \<Rightarrow> Panic)"

text \<open>What a request asks of a new secret identifier, within the limits of the role.\<close>

definition requested_secret_id :: "app_env \<Rightarrow> request \<Rightarrow> role_entry \<Rightarrow> (string list \<times> string list \<times> int \<times> duration) res" where
  "requested_secret_id E req r =
     res_bind (requested_cidrs E req ''cidr_list'') (\<lambda>cs.
     res_bind (verify_cidr_role_secret_id_subset E cs (re_secret_id_bound_cidrs r)) (\<lambda>_.
     res_bind (requested_cidrs E req ''token_bound_cidrs'') (\<lambda>ts.
     res_bind (verify_cidr_role_secret_id_subset E ts
         (map (show_sock_addr (ae_ip E)) (tp_token_bound_cidrs (re_token_params r)))) (\<lambda>_.
     res_bind (requested_uses E req r) (\<lambda>n.
     res_bind (requested_secret_ttl E req r) (\<lambda>t.
       Ok (cs, ts, n, t)))))))"

definition secret_id_data :: "string \<Rightarrow> secret_id_entry \<Rightarrow> json_obj" where
  "secret_id_data secret_id si =
     [(''secret_id'', JString secret_id), (''secret_id_accessor'', JString (si_accessor si)),
      (''secret_id_num_uses'', JNum (si_num_uses si)), (''secret_id_ttl'', secs (derive_secret_id_ttl (si_ttl si)))]"

definition update_role_secret_id_common ::
  "'s storage_ops \<Rightarrow> app_env \<Rightarrow> request \<Rightarrow> string \<Rightarrow> ('s astate, response option) op" where
  "update_role_secret_id_common sops E req secret_id =
     op_bind (op_res (get_data_as_str (ae_parsers E) req ''role_name'')) (\<lambda>name.
     if secret_id = [] then op_fail (ErrResponse ''missing secret_id'')
     else with_role sops E req name (\<lambda>r.
       if \<not> re_bind_secret_id r then op_fail (ErrResponse ''bind_secret_id is not set on the role'')
       else
         op_bind (op_res (requested_secret_id E req r)) (\<lambda>(cs, ts, n, t).
         op_bind (secret_id_entry_default E) (\<lambda>si0.
         op_bind (op_res (set_field (ae_parsers E) req ''metadata'' (as_map (fst (ae_parsers E))) (\<lambda>m si. si\<lparr>si_metadata := m\<rparr>)
             (si0\<lparr>si_num_uses := n, si_ttl := t, si_cidr_list := cs, si_token_cidr_list := ts\<rparr>))) (\<lambda>si.
         op_bind (op_res (request_storage sops req)) (\<lambda>v.
         op_bind (register_secret_id_entry E v (re_name r) secret_id (re_hmac_key r) (re_secret_id_prefix r) si) (\<lambda>si'.
           op_return (Some (data_response (Some (secret_id_data secret_id si'))))))))))) "

definition write_role_secret_id :: "'s storage_ops \<Rightarrow> app_env \<Rightarrow> 's astate handler" where
  "write_role_secret_id sops E st =
     on_state st (\<lambda>req. op_bind (app_uuid E) (\<lambda>u. update_role_secret_id_common sops E req u))"

definition write_role_custom_secret_id :: "'s storage_ops \<Rightarrow> app_env \<Rightarrow> 's astate handler" where
  "write_role_custom_secret_id sops E st =
     on_state st (\<lambda>req.
       op_bind (op_res (get_data (ae_parsers E) req ''secret_id'')) (\<lambda>v.
         update_role_secret_id_common sops E req (case as_str v of Some i \<Rightarrow> i | None \<Rightarrow> [])))"

definition write_role_secret_id_lookup :: "'s storage_ops \<Rightarrow> app_env \<Rightarrow> 's astate handler" where
  "write_role_secret_id_lookup sops E st =
     on_state st (\<lambda>req.
       op_bind (op_res (get_data_as_str (ae_parsers E) req ''role_name'')) (\<lambda>name.
       op_bind (op_res (get_data_as_str (ae_parsers E) req ''secret_id'')) (\<lambda>secret_id.
       with_role sops E req name (\<lambda>r.
         op_bind (op_res (create_hmac E (re_hmac_key r) (re_name r))) (\<lambda>role_hmac.
         op_bind (op_res (create_hmac E (re_hmac_key r) secret_id)) (\<lambda>secret_hmac.
         op_bind (op_res (request_storage sops req)) (\<lambda>v.
         op_bind (get_secret_id_storage_entry E v (re_secret_id_prefix r) role_hmac secret_hmac) (\<lambda>found.
           case found of
             None \<Rightarrow> op_return None
           | Some si \<Rightarrow>
               op_bind (get_secret_id_accessor_entry E v (si_accessor si) (re_secret_id_prefix r)) (\<lambda>ac.
               if ac = None then
                 op_bind (rq_storage_delete (astore sops) req (secret_id_index (re_secret_id_prefix r) role_hmac secret_hmac)) (\<lambda>_.
                   op_fail (ErrResponse ''invalid secret_id''))
               else op_return (Some (data_response (Some (ae_secret_json E si)))))))))))))"

definition delete_role_secret_id_destory :: "'s storage_ops \<Rightarrow> app_env \<Rightarrow> 's astate handler" where
  "delete_role_secret_id_destory sops E st =
     on_state st (\<lambda>req.
       op_bind (op_res (get_data_as_str (ae_parsers E) req ''role_name'')) (\<lambda>name.
       op_bind (op_res (get_data_as_str (ae_parsers E) req ''secret_id'')) (\<lambda>secret_id.
       with_role sops E req name (\<lambda>r.
         op_bind (op_res (create_hmac E (re_hmac_key r) (re_name r))) (\<lambda>role_hmac.
         op_bind (op_res (create_hmac E (re_hmac_key r) secret_id)) (\<lambda>secret_hmac.
         op_bind (op_res (request_storage sops req)) (\<lambda>v.
         op_bind (get_secret_id_storage_entry E v (re_secret_id_prefix r) role_hmac secret_hmac) (\<lambda>found.
           case found of
             None \<Rightarrow> op_return None
           | Some si \<Rightarrow>
               op_bind (delete_secret_id_accessor_entry E v (si_accessor si) (re_secret_id_prefix r)) (\<lambda>_.
               op_bind (storage_delete v (secret_id_index (re_secret_id_prefix r) role_hmac secret_hmac)) (\<lambda>_.
                 op_return None)))))))))) "

definition no_accessor :: "string \<Rightarrow> rv_error" where
  "no_accessor accessor = ErrResponseStatus 404 (''failed to find accessor entry for secret_id_accessor: '' @ accessor)"

definition write_role_secret_id_accessor_lookup :: "'s storage_ops \<Rightarrow> app_env \<Rightarrow> 's astate handler" where
  "write_role_secret_id_accessor_lookup sops E st =
     on_state st (\<lambda>req.
       op_bind (op_res (get_data_as_str (ae_parsers E) req ''role_name'')) (\<lambda>name.
       op_bind (op_res (get_data_as_str (ae_parsers E) req ''secret_id_accessor'')) (\<lambda>accessor.
       with_role sops E req name (\<lambda>r.
         op_bind (op_res (request_storage sops req)) (\<lambda>v.
         op_bind (get_secret_id_accessor_entry E v accessor (re_secret_id_prefix r)) (\<lambda>ac.
           case ac of
             None \<Rightarrow> op_fail (no_accessor accessor)
           | Some a \<Rightarrow>
               op_bind (op_res (create_hmac E (re_hmac_key r) (re_name r))) (\<lambda>role_hmac.
               op_bind (get_secret_id_storage_entry E v (re_secret_id_prefix r) role_hmac (ac_secret_id_hmac a)) (\<lambda>found.
                 op_return (map_option (\<lambda>si. data_response (Some (ae_secret_json E si))) found)))))))))"

definition delete_role_secret_id_accessor_destory :: "'s storage_ops \<Rightarrow> app_env \<Rightarrow> 's astate handler" where
  "delete_role_secret_id_accessor_destory sops E st =
     on_state st (\<lambda>req.
       op_bind (op_res (get_data_as_str (ae_parsers E) req ''role_name'')) (\<lambda>name.
       op_bind (op_res (get_data_as_str (ae_parsers E) req ''secret_id_accessor'')) (\<lambda>accessor.
       with_role sops E req name (\<lambda>r.
         op_bind (op_res (request_storage sops req)) (\<lambda>v.
         op_bind (get_secret_id_accessor_entry E v accessor (re_secret_id_prefix r)) (\<lambda>ac.
           case ac of
             None \<Rightarrow> op_fail (no_accessor accessor)
           | Some a \<Rightarrow>
               op_bind (op_res (create_hmac E (re_hmac_key r) (re_name r))) (\<lambda>role_hmac.
               op_bind (get_secret_id_storage_entry E v (re_secret_id_prefix r) role_hmac (ac_secret_id_hmac a)) (\<lambda>found.
               if found = None then op_fail (ErrResponseStatus 403 (''invalid secret_id_accessor: '' @ accessor))
               else
                 op_bind (delete_secret_id_accessor_entry E v accessor (re_secret_id_prefix r)) (\<lambda>_.
                 op_bind (storage_delete v (secret_id_index (re_secret_id_prefix r) role_hmac (ac_secret_id_hmac a))) (\<lambda>_.
                   op_return None)))))))))) "

section \<open>Login\<close>

definition peer_allowed :: "app_env \<Rightarrow> request \<Rightarrow> string list \<Rightarrow> string \<Rightarrow> unit res" where
  "peer_allowed E req cidrs why =
     (if cidrs = [] then Ok ()
      else case rq_connection req of
          None \<Rightarrow> Err (ErrResponse ''failed to get connection information'')
        | Some c \<Rightarrow>
            if peer_addr c = [] then Err (ErrResponse ''failed to get connection information'')
            else res_bind (ip_belongs_to_cidrs (ae_ip E) (peer_addr c) cidrs) (\<lambda>ok.
              if ok then Ok () else Err (ErrResponse (''source address '' @ peer_addr c @ '' unauthorized '' @ why @
                '' CIDR restrictions on the secret ID''))))"

definition secret_id_allowed :: "app_env \<Rightarrow> request \<Rightarrow> role_entry \<Rightarrow> secret_id_entry \<Rightarrow> unit res" where
  "secret_id_allowed E req r si =
     res_bind (verify_cidr_role_secret_id_subset E (si_cidr_list si) (re_secret_id_bound_cidrs r)) (\<lambda>_.
       peer_allowed E req (si_cidr_list si) ''through'')"

text \<open>One use of a limited secret identifier: the last one removes it.\<close>

definition consume_secret_id ::
  "app_env \<Rightarrow> 's astate storage_ops \<Rightarrow> role_entry \<Rightarrow> string \<Rightarrow> secret_id_entry \<Rightarrow> ('s astate, secret_id_entry) op" where
  "consume_secret_id E v r index si =
     (if si_num_uses si = 1 then
        op_bind (delete_secret_id_accessor_entry E v (si_accessor si) (re_secret_id_prefix r)) (\<lambda>_.
        op_bind (storage_delete v index) (\<lambda>_. op_return si))
      else
        op_bind (app_now E) (\<lambda>now.
        let si' = si\<lparr>si_num_uses := si_num_uses si - 1, si_last_updated_time := now\<rparr> in
        op_bind (storage_put v \<lparr>se_key = index, se_value = ae_enc_secret E si'\<rparr>) (\<lambda>_. op_return si')))"

text \<open>A secret identifier without an accessor is removed and refused.\<close>

definition drop_secret_id :: "app_env \<Rightarrow> 'a storage_ops \<Rightarrow> string \<Rightarrow> string \<Rightarrow> ('a, 'b) op" where
  "drop_secret_id E v secret_hmac index s =
     (case storage_delete v index s of
        (Ok _, s') \<Rightarrow> (Err (ErrResponse ''invalid secret_id''), s')
      | (Err e, s') \<Rightarrow> (Err (ErrResponse (''error deleting secret_id '' @ secret_hmac @ '' from storage: '' @ ae_show_error E e)), s')
      | (Panic, s') \<Rightarrow> (Panic, s'))"

definition existing :: "'a option \<Rightarrow> string \<Rightarrow> ('s, 'a) op" where
  "existing x msg = (case x of None \<Rightarrow> op_fail (ErrResponse msg) | Some a \<Rightarrow> op_return a)"

definition check_secret_id ::
  "app_env \<Rightarrow> 's astate storage_ops \<Rightarrow> request \<Rightarrow> role_entry \<Rightarrow> ('s astate, string \<Rightarrow> string option) op" where
  "check_secret_id E v req r =
     op_bind (op_res (get_data_as_str (ae_parsers E) req ''secret_id'')) (\<lambda>secret_id.
     op_bind (op_res (create_hmac E (re_hmac_key r) secret_id)) (\<lambda>secret_hmac.
     op_bind (op_res (create_hmac E (re_hmac_key r) (re_name r))) (\<lambda>role_hmac.
     let pfx = re_secret_id_prefix r; index = secret_id_index pfx role_hmac secret_hmac in
     op_bind (get_secret_id_storage_entry E v pfx role_hmac secret_hmac) (\<lambda>found.
     op_bind (existing found ''invalid secret id'') (\<lambda>si.
     op_bind (get_secret_id_accessor_entry E v (si_accessor si) pfx) (\<lambda>ac.
     if ac = None then drop_secret_id E v secret_hmac index
     else if si_num_uses si = 0 then
       op_bind (op_res (secret_id_allowed E req r si)) (\<lambda>_. op_return (si_metadata si))
     else
       op_bind (get_secret_id_storage_entry E v pfx role_hmac secret_hmac) (\<lambda>found'.
       op_bind (existing found' ''invalid secret id'') (\<lambda>si1.
       op_bind (consume_secret_id E v r index si1) (\<lambda>si2.
       op_bind (op_res (secret_id_allowed E req r si2)) (\<lambda>_. op_return (si_metadata si)))))))))))"

definition approle_auth :: "int \<Rightarrow> role_entry \<Rightarrow> (string \<Rightarrow> string option) \<Rightarrow> auth" where
  "approle_auth now r metadata =
     populate_token_auth (re_token_params r)
       ((auth_default now)\<lparr>au_metadata := metadata(''role_name'' \<mapsto> re_name r),
          au_internal_data := [''role_name'' \<mapsto> re_name r]\<rparr>)"

definition approle_login :: "'s storage_ops \<Rightarrow> app_env \<Rightarrow> 's astate handler" where
  "approle_login sops E st =
     on_state st (\<lambda>req.
       op_bind (op_res (get_data_as_str (ae_parsers E) req ''role_id'')) (\<lambda>role_id.
       op_bind (get_role_id E sops req role_id) (\<lambda>ri0.
       op_bind (existing ri0 ''invalid role_id'') (\<lambda>ri.
       op_bind (get_role E sops req (ri_name ri)) (\<lambda>r0.
       op_bind (existing r0 ''invalid role_id'') (\<lambda>r.
       op_bind (op_res (request_storage sops req)) (\<lambda>v.
       op_bind (if re_bind_secret_id r then check_secret_id E v req r else op_return Map.empty) (\<lambda>metadata.
       op_bind (op_res (peer_allowed E req (re_secret_id_bound_cidrs r) ''by'')) (\<lambda>_.
       op_bind (app_now E) (\<lambda>now.
         op_return (Some (response_new\<lparr>rs_auth := Some (approle_auth now r metadata)\<rparr>))))))))))))"

text \<open>The renewal looks for a user name, which the login of a role does not put into the metadata.\<close>

definition approle_login_renew :: "'s storage_ops \<Rightarrow> app_env \<Rightarrow> 's astate handler" where
  "approle_login_renew sops E st =
     on_state st (\<lambda>req.
       case rq_auth req of
         None \<Rightarrow> op_fail (ErrString ''invalid request'')
       | Some au \<Rightarrow>
           (case au_metadata au ''username'' of
              None \<Rightarrow> op_return None
            | Some name \<Rightarrow>
                op_bind (get_role E sops req name) (\<lambda>r0.
                if r0 = None then op_return None
                else
                  op_bind (get_role E sops req name) (\<lambda>r1.
                  op_bind (existing r1 (''role '' @ name @ '' does not exist during renewal'')) (\<lambda>r.
                    let p = re_token_params r in
                    op_return (Some (response_new\<lparr>rs_auth := Some (au\<lparr>au_period := tp_token_period p,
                      au_lease := (au_lease au)\<lparr>ttl := tp_token_ttl p, max_ttl := tp_token_max_ttl p\<rparr>\<rparr>)\<rparr>)))))))"

section \<open>The handlers of single fields\<close>

definition read_role_local_secret_ids :: "'s storage_ops \<Rightarrow> app_env \<Rightarrow> 's astate handler" where
  "read_role_local_secret_ids sops E = read_role_field sops E ''local_secret_ids''"

definition read_role_bound_cidr_list :: "'s storage_ops \<Rightarrow> app_env \<Rightarrow> 's astate handler" where
  "read_role_bound_cidr_list sops E = read_role_field sops E ''bound_cidr_list''"

definition write_role_bound_cidr_list :: "'s storage_ops \<Rightarrow> app_env \<Rightarrow> 's astate handler" where
  "write_role_bound_cidr_list sops E = update_role_field sops E ''bound_cidr_list''"

definition delete_role_bound_cidr_list :: "'s storage_ops \<Rightarrow> app_env \<Rightarrow> 's astate handler" where
  "delete_role_bound_cidr_list sops E = delete_role_field sops E ''bound_cidr_list''"

definition read_role_secret_id_bound_cidrs :: "'s storage_ops \<Rightarrow> app_env \<Rightarrow> 's astate handler" where
  "read_role_secret_id_bound_cidrs sops E = read_role_field sops E ''secret_id_bound_cidrs''"

definition write_role_secret_id_bound_cidrs :: "'s storage_ops \<Rightarrow> app_env \<Rightarrow> 's astate handler" where
  "write_role_secret_id_bound_cidrs sops E = update_role_field sops E ''secret_id_bound_cidrs''"

definition delete_role_secret_id_bound_cidrs :: "'s storage_ops \<Rightarrow> app_env \<Rightarrow> 's astate handler" where
  "delete_role_secret_id_bound_cidrs sops E = delete_role_field sops E ''secret_id_bound_cidrs''"

definition read_role_token_bound_cidrs :: "'s storage_ops \<Rightarrow> app_env \<Rightarrow> 's astate handler" where
  "read_role_token_bound_cidrs sops E = read_role_field sops E ''token_bound_cidrs''"

definition write_role_token_bound_cidrs :: "'s storage_ops \<Rightarrow> app_env \<Rightarrow> 's astate handler" where
  "write_role_token_bound_cidrs sops E = update_role_field sops E ''token_bound_cidrs''"

definition delete_role_token_bound_cidrs :: "'s storage_ops \<Rightarrow> app_env \<Rightarrow> 's astate handler" where
  "delete_role_token_bound_cidrs sops E = delete_role_field sops E ''token_bound_cidrs''"

definition read_role_bind_secret_id :: "'s storage_ops \<Rightarrow> app_env \<Rightarrow> 's astate handler" where
  "read_role_bind_secret_id sops E = read_role_field sops E ''bind_secret_id''"

definition write_role_bind_secret_id :: "'s storage_ops \<Rightarrow> app_env \<Rightarrow> 's astate handler" where
  "write_role_bind_secret_id sops E = update_role_field sops E ''bind_secret_id''"

definition delete_role_bind_secret_id :: "'s storage_ops \<Rightarrow> app_env \<Rightarrow> 's astate handler" where
  "delete_role_bind_secret_id sops E = delete_role_field sops E ''bind_secret_id''"

definition read_role_secret_id_num_uses :: "'s storage_ops \<Rightarrow> app_env \<Rightarrow> 's astate handler" where
  "read_role_secret_id_num_uses sops E = read_role_field sops E ''secret_id_num_uses''"

definition write_role_secret_id_num_uses :: "'s storage_ops \<Rightarrow> app_env \<Rightarrow> 's astate handler" where
  "write_role_secret_id_num_uses sops E = update_role_field sops E ''secret_id_num_uses''"

definition delete_role_secret_id_num_uses :: "'s storage_ops \<Rightarrow> app_env \<Rightarrow> 's astate handler" where
  "delete_role_secret_id_num_uses sops E = delete_role_field sops E ''secret_id_num_uses''"

definition read_role_secret_id_ttl :: "'s storage_ops \<Rightarrow> app_env \<Rightarrow> 's astate handler" where
  "read_role_secret_id_ttl sops E = read_role_field sops E ''secret_id_ttl''"

definition write_role_secret_id_ttl :: "'s storage_ops \<Rightarrow> app_env \<Rightarrow> 's astate handler" where
  "write_role_secret_id_ttl sops E = update_role_field sops E ''secret_id_ttl''"

definition delete_role_secret_id_ttl :: "'s storage_ops \<Rightarrow> app_env \<Rightarrow> 's astate handler" where
  "delete_role_secret_id_ttl sops E = delete_role_field sops E ''secret_id_ttl''"

definition read_role_period :: "'s storage_ops \<Rightarrow> app_env \<Rightarrow> 's astate handler" where
  "read_role_period sops E = read_role_field sops E ''token_period''"

definition write_role_period :: "'s storage_ops \<Rightarrow> app_env \<Rightarrow> 's astate handler" where
  "write_role_period sops E = update_role_field sops E ''token_period''"

definition delete_role_period :: "'s storage_ops \<Rightarrow> app_env \<Rightarrow> 's astate handler" where
  "delete_role_period sops E = delete_role_field sops E ''token_period''"

definition read_role_token_num_uses :: "'s storage_ops \<Rightarrow> app_env \<Rightarrow> 's astate handler" where
  "read_role_token_num_uses sops E = read_role_field sops E ''token_num_uses''"

definition write_role_token_num_uses :: "'s storage_ops \<Rightarrow> app_env \<Rightarrow> 's astate handler" where
  "write_role_token_num_uses sops E = update_role_field sops E ''token_num_uses''"

definition delete_role_token_num_uses :: "'s storage_ops \<Rightarrow> app_env \<Rightarrow> 's astate handler" where
  "delete_role_token_num_uses sops E = delete_role_field sops E ''token_num_uses''"

definition read_role_token_ttl :: "'s storage_ops \<Rightarrow> app_env \<Rightarrow> 's astate handler" where
  "read_role_token_ttl sops E = read_role_field sops E ''token_ttl''"

definition write_role_token_ttl :: "'s storage_ops \<Rightarrow> app_env \<Rightarrow> 's astate handler" where
  "write_role_token_ttl sops E = update_role_field sops E ''token_ttl''"

definition delete_role_token_ttl :: "'s storage_ops \<Rightarrow> app_env \<Rightarrow> 's astate handler" where
  "delete_role_token_ttl sops E = delete_role_field sops E ''token_ttl''"

definition read_role_token_max_ttl :: "'s storage_ops \<Rightarrow> app_env \<Rightarrow> 's astate handler" where
  "read_role_token_max_ttl sops E = read_role_field sops E ''token_max_ttl''"

definition write_role_token_max_ttl :: "'s storage_ops \<Rightarrow> app_env \<Rightarrow> 's astate handler" where
  "write_role_token_max_ttl sops E = update_role_field sops E ''token_max_ttl''"

definition delete_role_token_max_ttl :: "'s storage_ops \<Rightarrow> app_env \<Rightarrow> 's astate handler" where
  "delete_role_token_max_ttl sops E = delete_role_field sops E ''token_max_ttl''"

definition read_role_role_id :: "'s storage_ops \<Rightarrow> app_env \<Rightarrow> 's astate handler" where
  "read_role_role_id sops E = read_role_field sops E ''role_id''"

definition write_role_role_id :: "'s storage_ops \<Rightarrow> app_env \<Rightarrow> 's astate handler" where
  "write_role_role_id sops E = update_role_field sops E ''role_id''"

definition write_role_secret_id_destory :: "'s storage_ops \<Rightarrow> app_env \<Rightarrow> 's astate handler" where
  "write_role_secret_id_destory sops E = delete_role_secret_id_destory sops E"

definition write_role_secret_id_accessor_destory :: "'s storage_ops \<Rightarrow> app_env \<Rightarrow> 's astate handler" where
  "write_role_secret_id_accessor_destory sops E = delete_role_secret_id_accessor_destory sops E"

section \<open>Tidying\<close>

fun accessor_entries ::
  "app_env \<Rightarrow> 'a storage_ops \<Rightarrow> string \<Rightarrow> string list \<Rightarrow> ('a, (string \<times> accessor_entry) list) op" where
  "accessor_entries E v apfx [] = op_return []"
| "accessor_entries E v apfx (h # hs) =
     op_bind (storage_get v (apfx @ h)) (\<lambda>e.
     op_bind (op_res (decoded (ae_dec_accessor E) ''invalid accessor entry'' e)) (\<lambda>ac.
     op_bind (accessor_entries E v apfx hs) (\<lambda>rest.
       op_return (case ac of None \<Rightarrow> rest | Some a \<Rightarrow> (h, a) # rest))))"

text \<open>One secret identifier: removed when it has no accessor or when it has expired, otherwise its accessor is kept.\<close>

definition secret_id_cleanup ::
  "app_env \<Rightarrow> 's astate storage_ops \<Rightarrow> string \<Rightarrow> string \<Rightarrow> string \<Rightarrow> string list \<Rightarrow> ('s astate, string list) op" where
  "secret_id_cleanup E v pfx role_hmac secret_hmac skip =
     op_bind (get_secret_id_storage_entry E v pfx role_hmac secret_hmac) (\<lambda>found.
     op_bind (existing found (''entry for secret id was nil, secret_id_hmac: '' @ secret_hmac)) (\<lambda>si.
     op_bind (get_secret_id_accessor_entry E v (si_accessor si) pfx) (\<lambda>ac.
     if ac = None then
       op_bind (delete_secret_id_storage_entry v pfx role_hmac secret_hmac) (\<lambda>_. op_return skip)
     else
       op_bind (app_now E) (\<lambda>now.
       if now > si_expiration_time si then
         op_bind (delete_secret_id_accessor_entry E v (si_accessor si) pfx) (\<lambda>_.
         op_bind (delete_secret_id_storage_entry v pfx role_hmac secret_hmac) (\<lambda>_. op_return skip))
       else
         op_bind (\<lambda>a. case as_salt a of
             None \<Rightarrow> (Panic, a) | Some s \<Rightarrow> (salted_id (ae_salt E) s (si_accessor si), a)) (\<lambda>i.
           op_return (i # skip))))))"

fun cleanup_role ::
  "app_env \<Rightarrow> 's astate storage_ops \<Rightarrow> string \<Rightarrow> string \<Rightarrow> string list \<Rightarrow> string list \<Rightarrow> ('s astate, string list) op" where
  "cleanup_role E v pfx role_hmac [] skip = op_return skip"
| "cleanup_role E v pfx role_hmac (h # hs) skip =
     op_bind (secret_id_cleanup E v pfx role_hmac h skip) (cleanup_role E v pfx role_hmac hs)"

definition trim_end_slashes :: "string \<Rightarrow> string" where
  "trim_end_slashes s = rev (dropWhile (\<lambda>c. c = CHR ''/'') (rev s))"

fun cleanup_roles ::
  "app_env \<Rightarrow> 's astate storage_ops \<Rightarrow> string \<Rightarrow> string list \<Rightarrow> string list \<Rightarrow> ('s astate, string list) op" where
  "cleanup_roles E v pfx [] skip = op_return skip"
| "cleanup_roles E v pfx (item # items) skip =
     (let role_hmac = trim_end_slashes item in
      op_bind (storage_list v (pfx @ role_hmac @ ''/'')) (\<lambda>hs.
      op_bind (cleanup_role E v pfx role_hmac hs skip) (cleanup_roles E v pfx items)))"

fun all_secret_hmacs :: "'a storage_ops \<Rightarrow> string \<Rightarrow> string list \<Rightarrow> ('a, string list) op" where
  "all_secret_hmacs v pfx [] = op_return []"
| "all_secret_hmacs v pfx (item # items) =
     op_bind (storage_list v (pfx @ trim_end_slashes item @ ''/'')) (\<lambda>hs.
     op_bind (all_secret_hmacs v pfx items) (\<lambda>rest. op_return (hs @ rest)))"

definition drop_accessors ::
  "'a storage_ops \<Rightarrow> string \<Rightarrow> string list \<Rightarrow> string list \<Rightarrow> (string \<times> accessor_entry) list \<Rightarrow> ('a, unit) op" where
  "drop_accessors v apfx skip hmacs entries =
     op_iter (\<lambda>(h, a).
       if h \<in> set skip \<or> ac_secret_id_hmac a \<in> set hmacs then op_return () else storage_delete v (apfx @ h)) entries"

definition tidy_func :: "app_env \<Rightarrow> 's astate storage_ops \<Rightarrow> string \<Rightarrow> string \<Rightarrow> ('s astate, unit) op" where
  "tidy_func E v pfx apfx =
     op_bind (storage_list v apfx) (\<lambda>accessor_hashes.
     op_bind (accessor_entries E v apfx accessor_hashes) (\<lambda>entries.
     op_bind (storage_list v pfx) (\<lambda>role_hmacs.
     op_bind (cleanup_roles E v pfx role_hmacs []) (\<lambda>skip.
     if length accessor_hashes > card (set skip) then
       op_bind (all_secret_hmacs v pfx role_hmacs) (\<lambda>hmacs. drop_accessors v apfx skip hmacs entries)
     else op_return ()))))"

text \<open>The routine logs an error of either half, and an error of the first half skips the second. The guard is released
  in every case.\<close>

definition tidy_secret_id_routine :: "app_env \<Rightarrow> 's astate storage_ops \<Rightarrow> ('s astate, unit) op" where
  "tidy_secret_id_routine E v a =
     (case tidy_func E v SECRET_ID_PREFIX SECRET_ID_ACCESSOR_PREFIX a of
        (Ok _, a1) \<Rightarrow>
          (case tidy_func E v SECRET_ID_LOCAL_PREFIX SECRET_ID_ACCESSOR_LOCAL_PREFIX a1 of
             (r, a2) \<Rightarrow> (if r = Panic then Panic else Ok (), a2\<lparr>as_tidying := False\<rparr>))
      | (Err _, a1) \<Rightarrow> (Ok (), a1\<lparr>as_tidying := False\<rparr>)
      | (Panic, a1) \<Rightarrow> (Panic, a1\<lparr>as_tidying := False\<rparr>))"

text \<open>The handler takes the guard and starts the routine as a task, which the model runs as a step of its own.\<close>

definition tidy_secret_id :: "app_env \<Rightarrow> 's astate handler" where
  "tidy_secret_id E st =
     on_state st (\<lambda>req a.
       if as_tidying a then (Ok (Some (add_warning ''Tidy operation already in progress'' response_new)), a)
       else
         (case rq_storage req of
            None \<Rightarrow> (Panic, a\<lparr>as_tidying := True\<rparr>)
          | Some _ \<Rightarrow>
              (Ok (Some (respond_with_status_code (ae_response_json E) (Some (add_warning
                 ''Tidy operation successfully started. Any information from the operation will be printed to RustyVault's server logs.''
                 (set_request_id (ae_request_id E) response_new))) 202)), a\<lparr>as_tidying := True\<rparr>)))"

section \<open>Paths and backend\<close>

definition role_pattern :: "string \<Rightarrow> string" where
  "role_pattern rest = ''role/(?P<role_name>'' @ [CHR 0x5C] @ ''w['' @ [CHR 0x5C] @ ''w-]+'' @ [CHR 0x5C] @ ''w)'' @ rest"

definition role_sub_path :: "string \<Rightarrow> (string \<times> field) list \<Rightarrow> (operation \<times> 's handler) list \<Rightarrow> 's backend_path" where
  "role_sub_path rest flds ops =
     \<lparr>bp_path = \<lparr>lp_pattern = role_pattern rest, lp_fields = (''role_name'', required_field Str) # flds\<rparr>, bp_operations = ops\<rparr>"

definition role_path :: "'s storage_ops \<Rightarrow> 's astate backend_path" where
  "role_path sops =
     \<lparr>bp_path = \<lparr>lp_pattern = ''role/?'', lp_fields = token_fields\<rparr>, bp_operations = [(List, list_role sops)]\<rparr>"

definition role_name_path :: "'s storage_ops \<Rightarrow> app_env \<Rightarrow> 's astate backend_path" where
  "role_name_path sops E =
     role_sub_path []
       ([(''bind_secret_id'', default_field BoolType (JBool True)), (''bound_cidr_list'', optional_field CommaStringSlice),
         (''secret_id_bound_cidrs'', optional_field CommaStringSlice), (''secret_id_num_uses'', optional_field IntType),
         (''secret_id_ttl'', optional_field DurationSecond), (''policies'', optional_field CommaStringSlice),
         (''period'', default_field DurationSecond (JNum 0)), (''role_id'', optional_field Str),
         (''local_secret_ids'', default_field BoolType (JBool False))] @ token_fields)
       [(Read, read_role sops E), (Write, write_role sops E), (Delete, delete_role sops E)]"

definition role_policies_path :: "'s storage_ops \<Rightarrow> app_env \<Rightarrow> 's astate backend_path" where
  "role_policies_path sops E =
     role_sub_path ''/policies$''
       [(''policies'', optional_field CommaStringSlice), (''token_policies'', required_field CommaStringSlice)]
       [(Read, read_role_policies sops E), (Write, write_role_policies sops E), (Delete, delete_role_policies sops E)]"

definition role_local_secret_ids_path :: "'s storage_ops \<Rightarrow> app_env \<Rightarrow> 's astate backend_path" where
  "role_local_secret_ids_path sops E = role_sub_path ''/local-secret-ids$'' [] [(Read, read_role_local_secret_ids sops E)]"

definition role_bound_cidr_list_path :: "'s storage_ops \<Rightarrow> app_env \<Rightarrow> 's astate backend_path" where
  "role_bound_cidr_list_path sops E =
     role_sub_path ''/bound-cidr-list$'' [(''bound_cidr_list'', optional_field CommaStringSlice)]
       [(Read, read_role_bound_cidr_list sops E), (Write, write_role_bound_cidr_list sops E), (Delete, delete_role_bound_cidr_list sops E)]"

definition role_secret_id_bound_cidrs_path :: "'s storage_ops \<Rightarrow> app_env \<Rightarrow> 's astate backend_path" where
  "role_secret_id_bound_cidrs_path sops E =
     role_sub_path ''/secret-id-bound-cidrs$'' [(''secret_id_bound_cidrs'', optional_field CommaStringSlice)]
       [(Read, read_role_secret_id_bound_cidrs sops E), (Write, write_role_secret_id_bound_cidrs sops E), (Delete, delete_role_secret_id_bound_cidrs sops E)]"

definition role_token_bound_cidrs_path :: "'s storage_ops \<Rightarrow> app_env \<Rightarrow> 's astate backend_path" where
  "role_token_bound_cidrs_path sops E =
     role_sub_path ''/token-bound-cidrs$'' [(''token_bound_cidrs'', optional_field CommaStringSlice)]
       [(Read, read_role_token_bound_cidrs sops E), (Write, write_role_token_bound_cidrs sops E), (Delete, delete_role_token_bound_cidrs sops E)]"

definition role_bind_secret_id_path :: "'s storage_ops \<Rightarrow> app_env \<Rightarrow> 's astate backend_path" where
  "role_bind_secret_id_path sops E =
     role_sub_path ''/bind-secret-id$'' [(''bind_secret_id'', default_field BoolType (JBool True))]
       [(Read, read_role_bind_secret_id sops E), (Write, write_role_bind_secret_id sops E), (Delete, delete_role_bind_secret_id sops E)]"

definition role_secret_id_num_uses_path :: "'s storage_ops \<Rightarrow> app_env \<Rightarrow> 's astate backend_path" where
  "role_secret_id_num_uses_path sops E =
     role_sub_path ''/secret-id-num-uses$'' [(''secret_id_num_uses'', default_field IntType (JNum 0))]
       [(Read, read_role_secret_id_num_uses sops E), (Write, write_role_secret_id_num_uses sops E), (Delete, delete_role_secret_id_num_uses sops E)]"

definition role_secret_id_ttl_path :: "'s storage_ops \<Rightarrow> app_env \<Rightarrow> 's astate backend_path" where
  "role_secret_id_ttl_path sops E =
     role_sub_path ''/secret-id-ttl$'' [(''secret_id_ttl'', default_field IntType (JNum 0))]
       [(Read, read_role_secret_id_ttl sops E), (Write, write_role_secret_id_ttl sops E), (Delete, delete_role_secret_id_ttl sops E)]"

definition role_period_path :: "'s storage_ops \<Rightarrow> app_env \<Rightarrow> 's astate backend_path" where
  "role_period_path sops E =
     role_sub_path ''/period$'' [(''period'', default_field DurationSecond (JNum 0)), (''token_period'', optional_field DurationSecond)]
       [(Read, read_role_period sops E), (Write, write_role_period sops E), (Delete, delete_role_period sops E)]"

definition role_token_num_uses_path :: "'s storage_ops \<Rightarrow> app_env \<Rightarrow> 's astate backend_path" where
  "role_token_num_uses_path sops E =
     role_sub_path ''/token-num-uses$'' [(''token_num_uses'', default_field IntType (JNum 0))]
       [(Read, read_role_token_num_uses sops E), (Write, write_role_token_num_uses sops E), (Delete, delete_role_token_num_uses sops E)]"

definition role_token_ttl_path :: "'s storage_ops \<Rightarrow> app_env \<Rightarrow> 's astate backend_path" where
  "role_token_ttl_path sops E =
     role_sub_path ''/token-ttl$'' [(''token_ttl'', optional_field DurationSecond)]
       [(Read, read_role_token_ttl sops E), (Write, write_role_token_ttl sops E), (Delete, delete_role_token_ttl sops E)]"

definition role_token_max_ttl_path :: "'s storage_ops \<Rightarrow> app_env \<Rightarrow> 's astate backend_path" where
  "role_token_max_ttl_path sops E =
     role_sub_path ''/token-max-ttl$'' [(''token_max_ttl'', optional_field DurationSecond)]
       [(Read, read_role_token_max_ttl sops E), (Write, write_role_token_max_ttl sops E), (Delete, delete_role_token_max_ttl sops E)]"

definition role_role_id_path :: "'s storage_ops \<Rightarrow> app_env \<Rightarrow> 's astate backend_path" where
  "role_role_id_path sops E =
     role_sub_path ''/role-id$'' [(''role_id'', optional_field Str)]
       [(Read, read_role_role_id sops E), (Write, write_role_role_id sops E)]"

text \<open>The fields of a request for a secret identifier.\<close>

definition secret_id_fields :: "(string \<times> field) list" where
  "secret_id_fields =
     [(''metadata'', optional_field Str), (''cidr_list'', optional_field CommaStringSlice),
      (''token_bound_cidrs'', optional_field CommaStringSlice), (''num_uses'', optional_field IntType),
      (''ttl'', optional_field DurationSecond)]"

definition role_secret_id_path :: "'s storage_ops \<Rightarrow> app_env \<Rightarrow> 's astate backend_path" where
  "role_secret_id_path sops E =
     role_sub_path ''/secret-id/?$'' secret_id_fields
       [(List, list_role_secret_id sops E), (Write, write_role_secret_id sops E)]"

definition role_secret_id_lookup_path :: "'s storage_ops \<Rightarrow> app_env \<Rightarrow> 's astate backend_path" where
  "role_secret_id_lookup_path sops E =
     role_sub_path ''/secret-id/lookup/?$'' [(''secret_id'', optional_field Str)] [(Write, write_role_secret_id_lookup sops E)]"

definition role_secret_id_destroy_path :: "'s storage_ops \<Rightarrow> app_env \<Rightarrow> 's astate backend_path" where
  "role_secret_id_destroy_path sops E =
     role_sub_path ''/secret-id/destroy/?$'' [(''secret_id'', optional_field Str)]
       [(Write, write_role_secret_id_destory sops E), (Delete, delete_role_secret_id_destory sops E)]"

definition role_secret_id_accessor_lookup_path :: "'s storage_ops \<Rightarrow> app_env \<Rightarrow> 's astate backend_path" where
  "role_secret_id_accessor_lookup_path sops E =
     role_sub_path ''/secret-id-accessor/lookup/?$'' [(''secret_id_accessor'', optional_field Str)]
       [(Write, write_role_secret_id_accessor_lookup sops E)]"

definition role_secret_id_accessor_destroy_path :: "'s storage_ops \<Rightarrow> app_env \<Rightarrow> 's astate backend_path" where
  "role_secret_id_accessor_destroy_path sops E =
     role_sub_path ''/secret-id-accessor/destroy/?$'' [(''secret_id_accessor'', optional_field Str)]
       [(Write, write_role_secret_id_accessor_destory sops E), (Delete, delete_role_secret_id_accessor_destory sops E)]"

definition role_custom_secret_id_path :: "'s storage_ops \<Rightarrow> app_env \<Rightarrow> 's astate backend_path" where
  "role_custom_secret_id_path sops E =
     role_sub_path ''/custom-secret-id$'' ((''secret_id'', optional_field Str) # secret_id_fields)
       [(Write, write_role_custom_secret_id sops E)]"

definition role_paths :: "'s storage_ops \<Rightarrow> app_env \<Rightarrow> 's astate backend_path list" where
  "role_paths sops E =
     [role_path sops, role_name_path sops E, role_policies_path sops E, role_local_secret_ids_path sops E,
      role_bound_cidr_list_path sops E, role_secret_id_bound_cidrs_path sops E, role_token_bound_cidrs_path sops E,
      role_bind_secret_id_path sops E, role_secret_id_num_uses_path sops E, role_secret_id_ttl_path sops E,
      role_period_path sops E, role_token_num_uses_path sops E, role_token_ttl_path sops E, role_token_max_ttl_path sops E,
      role_role_id_path sops E, role_secret_id_path sops E, role_secret_id_lookup_path sops E,
      role_secret_id_destroy_path sops E, role_secret_id_accessor_lookup_path sops E,
      role_secret_id_accessor_destroy_path sops E, role_custom_secret_id_path sops E]"

definition approle_login_path :: "'s storage_ops \<Rightarrow> app_env \<Rightarrow> 's astate backend_path" where
  "approle_login_path sops E =
     \<lparr>bp_path = \<lparr>lp_pattern = ''login$'', lp_fields = [(''role_id'', required_field Str), (''secret_id'', required_field Str)]\<rparr>,
      bp_operations = [(Write, approle_login sops E)]\<rparr>"

definition tidy_secret_id_path :: "app_env \<Rightarrow> 's astate backend_path" where
  "tidy_secret_id_path E =
     \<lparr>bp_path = \<lparr>lp_pattern = ''tidy/secret-id$'', lp_fields = []\<rparr>, bp_operations = [(Write, tidy_secret_id E)]\<rparr>"

definition approle_new_backend :: "'s storage_ops \<Rightarrow> app_env \<Rightarrow> 's astate logical_backend" where
  "approle_new_backend sops E =
     \<lparr>lb_paths = role_paths sops E @ [approle_login_path sops E, role_path sops, tidy_secret_id_path E],
      lb_paths_re = [], lb_root_paths = [], lb_unauth_paths = [''login''], lb_secrets = [],
      lb_auth_renew_handler = Some (approle_login_renew sops E)\<rparr>"

text \<open>Without a system view the vault is sealed; otherwise the salt is read from the system storage or made.\<close>

definition approle_init :: "app_env \<Rightarrow> 's storage_ops \<Rightarrow> barrier_view option \<Rightarrow> ('s astate, unit) op" where
  "approle_init E sops system_view =
     (case system_view of
        None \<Rightarrow> op_fail ErrBarrierSealed
      | Some v \<Rightarrow>
          op_bind (app_uuid E) (\<lambda>u.
          op_bind (salt_new (ae_salt E) (Some (view_storage (astore sops) v)) None u) (\<lambda>s a.
            (Ok (), a\<lparr>as_salt := Some s\<rparr>))))"

definition approle_new :: "'s \<Rightarrow> 's astate" where
  "approle_new store = \<lparr>as_store = store, as_salt = None, as_tidying = False, as_uuids = 0, as_reads = 0\<rparr>"

end
