(* ===== verification/Vault_View.thy ===== *)
theory Vault_View
  imports Salt Tokens
begin

text \<open>
  A view of the barrier over files, in which the properties of the credential backends and of the PKI engine are used:
  which keys are usable there, hexadecimal texts as keys, and an example view for the witnesses.
\<close>

abbreviation vault_key :: "barrier_view \<Rightarrow> string \<Rightarrow> bool" where
  "vault_key \<equiv> view_valid (barrier_valid file_key)"

abbreviation vault_ops where
  "vault_ops C ser de root \<equiv> barrier_storage C (file_backend ser de root)"

lemma hex_bytes_inj: "hex_bytes a = hex_bytes b \<longleftrightarrow> a = b"
proof
  have d: "m = n" if "hex_digit m = hex_digit n" "m < 16" "n < 16" for m n
  proof -
    have "distinct ''0123456789abcdef''" by simp
    then show ?thesis using that nth_eq_iff_index_eq [of "''0123456789abcdef''" m n] by (simp add: hex_digit_def)
  qed
  have w: "x = y" if "hex_digit (unat x div 16) = hex_digit (unat y div 16)" "hex_digit (unat x) = hex_digit (unat y)" for x y :: "8 word"
  proof -
    have b: "unat z < 16 * 16" for z :: "8 word" using unsigned_less [of z, where 'a = nat] by simp
    have "hex_digit (unat z) = hex_digit (unat z mod 16)" for z :: "8 word" by (simp add: hex_digit_def)
    then have "unat x mod 16 = unat y mod 16" using that(2) d [of "unat x mod 16" "unat y mod 16"] by simp
    moreover have "unat x div 16 = unat y div 16"
      using that(1) b by (intro d) (simp_all add: less_mult_imp_div_less)
    ultimately have "unat x = unat y" by (metis div_mult_mod_eq)
    then show ?thesis by (rule unsigned_word_eqI)
  qed
  show "a = b" if "hex_bytes a = hex_bytes b"
    using that
  proof (induction a arbitrary: b)
    case Nil
    then show ?case by (cases b) (auto simp: hex_bytes_def)
  next
    case (Cons x a)
    then obtain y b' where "b = y # b'" by (cases b) (auto simp: hex_bytes_def)
    then show ?case using Cons.prems Cons.IH [of b'] w [of x y] by (simp add: hex_bytes_def)
  qed
qed simp

lemma hex_bytes_name: "bs \<noteq> [] \<Longrightarrow> hex_name (hex_bytes bs)"
proof -
  have "set (hex_bytes bs) \<subseteq> set ''0123456789abcdef''"
    using hex_digit_in by (induction bs) (auto simp: hex_bytes_def simp del: insert_iff)
  then show "bs \<noteq> [] \<Longrightarrow> hex_name (hex_bytes bs)" by (cases bs) (simp_all add: hex_name_def hex_bytes_def)
qed

text \<open>Numbers as bytes, for the codecs of the witnesses.\<close>

abbreviation num_bytes :: "'a :: countable \<Rightarrow> bytes" where "num_bytes x \<equiv> replicate (to_nat x) 0"

abbreviation demo_view :: barrier_view where "demo_view \<equiv> view_new ''auth/1/''"

lemma demo_vault_key:
  assumes "list_all plain_name q" "q \<noteq> []" "plain_name c"
  shows "vault_key demo_view (dir_string q @ c)"
proof -
  have "list_all plain_name (''auth'' # ''1'' # q)" using assms(1) by (simp add: plain_name_def)
  from plain_clean(2) [OF this assms(3)] have "file_key (''auth/1/'' @ dir_string q @ c)" by (simp add: clean_key_def)
  moreover have "CHR ''.'' \<notin> set (dir_string q @ c)" using plain_dir_no_dot [OF assms(1)] assms(3) by (simp add: plain_name_def)
  then have "sanity_check (dir_string q @ c) = Ok ()"
    using no_dots [of "dir_string q @ c"] assms by (cases q; cases "hd q") (auto simp: sanity_check_Ok_iff starts_with_def plain_name_def)
  ultimately show ?thesis
    by (simp add: view_valid_def barrier_valid_def expand_key_def view_new_def BARRIER_INIT_PATH_def)
qed

abbreviation demo_ops2 :: "fs barrier storage_ops" where "demo_ops2 \<equiv> vault_ops demo_crypto demo_ser demo_de [''data'']"

end
