(* ===== verification/Approles.thy ===== *)
theory Approles
  imports Approle Vault_View "HOL-Library.Finite_Map"
begin

text \<open>
  The properties of the AppRole backend. The lemmas are about a view of any storage (locale \<open>storage_view\<close>) and are
  used for the barrier over files.

  Shown: what a login answers; a secret identifier with a limit of uses logs in at most that often; one that was made
  for a role logs in to it, one that was destroyed does not; it never has more than the role allows; two roles never
  share an identifier.
\<close>

section \<open>The storage below the state\<close>

lemma view_astore:
  "view_get (astore sops) v k = astore_op (view_get sops v k)"
  "view_put (astore sops) v e = astore_op (view_put sops v e)"
  "view_delete (astore sops) v k = astore_op (view_delete sops v k)"
  by (auto simp: fun_eq_iff view_get_def view_put_def view_delete_def astore_def astore_op_def op_bind_def op_res_def
      op_return_def split: res.splits prod.splits option.splits)

lemma astore_view:
  "storage_get (view_storage (astore sops) v) k = astore_op (view_get sops v k)"
  "storage_put (view_storage (astore sops) v) e = astore_op (view_put sops v e)"
  "storage_delete (view_storage (astore sops) v) k = astore_op (view_delete sops v k)"
  by (simp_all add: view_storage_sel view_astore)

lemma rq_astore:
  "rq_storage req = Some v \<Longrightarrow> rq_storage_get (astore sops) req k = astore_op (view_get sops v k)"
  "rq_storage req = Some v \<Longrightarrow> rq_storage_put (astore sops) req e = astore_op (view_put sops v e)"
  "rq_storage req = Some v \<Longrightarrow> rq_storage_delete (astore sops) req k = astore_op (view_delete sops v k)"
  by (simp_all add: rq_storage_get_def rq_storage_put_def rq_storage_delete_def on_storage_def view_astore)

lemma store_first [simp]:
  "a\<lparr>as_reads := n, as_store := s\<rparr> = a\<lparr>as_store := s, as_reads := n\<rparr>"
  "a\<lparr>as_uuids := u, as_store := s\<rparr> = a\<lparr>as_store := s, as_uuids := u\<rparr>"
  "a\<lparr>as_reads := n, as_uuids := u\<rparr> = a\<lparr>as_uuids := u, as_reads := n\<rparr>"
  by simp_all

lemma decoded_stored [simp]:
  "decoded dec msg (map_option (\<lambda>x. \<lparr>se_key = k, se_value = x\<rparr>) b) =
     (case b of None \<Rightarrow> Ok None | Some x \<Rightarrow> (case dec x of None \<Rightarrow> Err (External SerdeJson msg) | Some y \<Rightarrow> Ok (Some y)))"
  by (simp add: decoded_def split: option.split)

lemma existing_simps [simp]:
  "existing None msg s = (Err (ErrResponse msg), s)" "existing (Some x) msg s = (Ok x, s)"
  by (simp_all add: existing_def)

section \<open>What is stored\<close>

text \<open>The form in which a role and a secret identifier come back from the storage, and the contract of the codecs.\<close>

definition stored_role :: "ip_env \<Rightarrow> role_entry \<Rightarrow> role_entry option" where
  "stored_role I r =
     Option.bind (stored_duration (re_secret_id_ttl r)) (\<lambda>t.
     Option.bind (stored_duration (re_period r)) (\<lambda>d.
     Option.bind (stored_params I (re_token_params r)) (\<lambda>p.
       Some (r\<lparr>re_secret_id_ttl := t, re_period := d, re_token_params := p\<rparr>))))"

definition stored_secret :: "secret_id_entry \<Rightarrow> secret_id_entry option" where
  "stored_secret si = map_option (\<lambda>t. si\<lparr>si_ttl := t\<rparr>) (stored_duration (si_ttl si))"

text \<open>Times between the years 1970 and 9999 have a text of RFC 3339.\<close>

definition rfc3339_time :: "int \<Rightarrow> bool" where
  "rfc3339_time t \<longleftrightarrow> 0 \<le> t \<and> t < 253402300800 * int NANOS"

definition app_codecs :: "app_env \<Rightarrow> bool" where
  "app_codecs E \<longleftrightarrow>
     (\<forall>r. ae_dec_role E (ae_enc_role E r) = stored_role (ae_ip E) r) \<and>
     (\<forall>x. ae_dec_role_id E (ae_enc_role_id E x) = Some x) \<and>
     (\<forall>x. ae_dec_accessor E (ae_enc_accessor E x) = Some x) \<and>
     (\<forall>si. finite (dom (si_metadata si)) \<longrightarrow> rfc3339_time (si_creation_time si) \<longrightarrow> rfc3339_time (si_expiration_time si) \<longrightarrow>
        rfc3339_time (si_last_updated_time si) \<longrightarrow> ae_dec_secret E (ae_enc_secret E si) = stored_secret si)"

definition app_clock_ok :: "app_env \<Rightarrow> bool" where
  "app_clock_ok E \<longleftrightarrow> (\<forall>n. rfc3339_time (ae_clock E n) \<and> rfc3339_time (ae_clock E n + int MAX_LEASE_DURATION_SECS))"

text \<open>The role that an identifier names in the contents of a view, of which \<open>ok\<close> are the usable keys.\<close>

definition names_role ::
  "app_env \<Rightarrow> (string \<Rightarrow> bool) \<Rightarrow> (string \<Rightarrow> bytes option) \<Rightarrow> salt \<Rightarrow> string \<Rightarrow> role_entry \<Rightarrow> bool" where
  "names_role E ok m sa role_id r \<longleftrightarrow>
     role_id \<noteq> [] \<and>
     (\<exists>h b ri b' r0. salted_id (ae_salt E) sa role_id = Ok h \<and> ok (role_id_key h) \<and> m (role_id_key h) = Some b \<and>
        ae_dec_role_id E b = Some ri \<and> ok (role_key (ri_name ri)) \<and> m (role_key (ri_name ri)) = Some b' \<and>
        ae_dec_role E b' = Some r0 \<and> r = loaded_role (ri_name ri) r0)"

text \<open>The key of a secret identifier of a role, and the key of its accessor.\<close>

definition secret_key :: "app_env \<Rightarrow> role_entry \<Rightarrow> string \<Rightarrow> string \<Rightarrow> bool" where
  "secret_key E r secret_id k \<longleftrightarrow>
     (\<exists>rh sh. create_hmac E (re_hmac_key r) (re_name r) = Ok rh \<and> create_hmac E (re_hmac_key r) secret_id = Ok sh \<and>
        rh \<noteq> [] \<and> sh \<noteq> [] \<and> k = secret_id_index (re_secret_id_prefix r) rh sh)"

definition accessor_key :: "app_env \<Rightarrow> salt \<Rightarrow> role_entry \<Rightarrow> string \<Rightarrow> string \<Rightarrow> bool" where
  "accessor_key E sa r accessor k \<longleftrightarrow>
     accessor \<noteq> [] \<and> (\<exists>h. salted_id (ae_salt E) sa accessor = Ok h \<and> k = accessor_prefix (re_secret_id_prefix r) @ h)"

context storage_view
begin

lemma app_get:
  assumes "ready (as_store a)" "view_valid valid v k"
  shows "astore_op (view_get sops v k) a =
    (Ok (map_option (\<lambda>x. \<lparr>se_key = k, se_value = x\<rparr>) (view_stored stored v (as_store a) k)), a)"
  using view_get_stored [OF assms] by (simp add: astore_op_def)

lemma app_put:
  assumes "ready (as_store a)" "view_valid valid v k"
  shows "\<exists>s'. astore_op (view_put sops v \<lparr>se_key = k, se_value = x\<rparr>) a = (Ok (), a\<lparr>as_store := s'\<rparr>) \<and> ready s' \<and>
    (\<forall>k'. view_valid valid v k' \<longrightarrow> view_stored stored v s' k' = ((view_stored stored v (as_store a))(k \<mapsto> x)) k')"
  using view_put_stored [OF assms, of x] by (auto simp: astore_op_def)

lemma app_delete:
  assumes "ready (as_store a)" "view_valid valid v k"
  shows "\<exists>s'. astore_op (view_delete sops v k) a = (Ok (), a\<lparr>as_store := s'\<rparr>) \<and> ready s' \<and>
    (\<forall>k'. view_valid valid v k' \<longrightarrow> view_stored stored v s' k' = ((view_stored stored v (as_store a))(k := None)) k')"
  using view_delete_stored [OF assms] by (auto simp: astore_op_def)

lemma app_salt_id_Ok:
  assumes "as_salt a = Some sa" "salted_id (ae_salt E) sa i = Ok h"
  shows "app_salt_id E msg i a = (Ok h, a)"
  using assms by (simp add: app_salt_id_def app_salt_def op_bind_def)

lemma get_role_id_stored:
  assumes "ready (as_store a)" "rq_storage req = Some v" "as_salt a = Some sa" "role_id \<noteq> []"
    "salted_id (ae_salt E) sa role_id = Ok h" "view_valid valid v (role_id_key h)"
  shows "get_role_id E sops req role_id a =
    ((case view_stored stored v (as_store a) (role_id_key h) of
        None \<Rightarrow> Ok None
      | Some x \<Rightarrow> (case ae_dec_role_id E x of None \<Rightarrow> Err (External SerdeJson ''invalid role id entry'')
                  | Some y \<Rightarrow> Ok (Some y))), a)"
  using assms by (simp add: get_role_id_def role_id_index_def op_bind_def app_salt_id_Ok rq_astore app_get op_res_def)

lemma get_role_stored:
  assumes "ready (as_store a)" "rq_storage req = Some v" "view_valid valid v (role_key n)"
  shows "get_role E sops req n a =
    ((case view_stored stored v (as_store a) (role_key n) of
        None \<Rightarrow> Ok None
      | Some x \<Rightarrow> (case ae_dec_role E x of None \<Rightarrow> Err (External SerdeJson ''invalid role entry'')
                  | Some y \<Rightarrow> Ok (Some (loaded_role n y)))), a)"
  using assms
  by (simp add: get_role_def op_bind_def rq_astore app_get op_res_def split: option.split)

lemma get_secret_stored:
  assumes "ready (as_store a)" "rh \<noteq> []" "sh \<noteq> []" "view_valid valid v (secret_id_index pfx rh sh)"
  shows "get_secret_id_storage_entry E (view_storage (astore sops) v) pfx rh sh a =
    ((case view_stored stored v (as_store a) (secret_id_index pfx rh sh) of
        None \<Rightarrow> Ok None
      | Some x \<Rightarrow> (case ae_dec_secret E x of None \<Rightarrow> Err (External SerdeJson ''invalid secret id entry'')
                  | Some y \<Rightarrow> Ok (Some y))), a)"
  using assms by (simp add: get_secret_id_storage_entry_def check_hmacs_def op_bind_def astore_view app_get op_res_def)

lemma get_accessor_stored:
  assumes "ready (as_store a)" "as_salt a = Some sa" "accessor_key E sa r accessor k" "view_valid valid v k"
  shows "get_secret_id_accessor_entry E (view_storage (astore sops) v) accessor (re_secret_id_prefix r) a =
    ((case view_stored stored v (as_store a) k of
        None \<Rightarrow> Ok None
      | Some x \<Rightarrow> (case ae_dec_accessor E x of None \<Rightarrow> Err (External SerdeJson ''invalid accessor entry'')
                  | Some y \<Rightarrow> Ok (Some y))), a)"
  using assms
  by (auto simp: accessor_key_def get_secret_id_accessor_entry_def accessor_index_def op_bind_def app_salt_id_Ok astore_view
      app_get op_res_def)

lemma delete_accessor_stored:
  assumes "ready (as_store a)" "as_salt a = Some sa" "accessor_key E sa r accessor k" "view_valid valid v k"
  shows "\<exists>s'. delete_secret_id_accessor_entry E (view_storage (astore sops) v) accessor (re_secret_id_prefix r) a =
      (Ok (), a\<lparr>as_store := s'\<rparr>) \<and> ready s' \<and>
    (\<forall>k'. view_valid valid v k' \<longrightarrow> view_stored stored v s' k' = ((view_stored stored v (as_store a))(k := None)) k')"
  using app_delete [OF assms(1,4)] assms(2,3)
  by (auto simp: accessor_key_def delete_secret_id_accessor_entry_def accessor_index_def op_bind_def app_salt_id_Ok astore_view)

end

text \<open>The view of a mount on the barrier over files: its usable keys, its contents, and that it works.\<close>

abbreviation app_contents where
  "app_contents C de root v a \<equiv> view_stored (barrier_stored C (file_contents de root)) v (as_store a)"

abbreviation app_ready where
  "app_ready C ser de root a \<equiv> barrier_ready C file_key (file_contents de root) (file_invar ser de root) (as_store a)"

section \<open>Login\<close>

text \<open>A request with the credentials, on the view of the mount.\<close>

definition presents :: "app_env \<Rightarrow> barrier_view \<Rightarrow> string \<Rightarrow> string \<Rightarrow> request \<Rightarrow> bool" where
  "presents E v role_id secret_id req \<longleftrightarrow>
     rq_storage req = Some v \<and> get_data_as_str (ae_parsers E) req ''role_id'' = Ok role_id \<and>
     get_data_as_str (ae_parsers E) req ''secret_id'' = Ok secret_id"

definition known_prefix :: "role_entry \<Rightarrow> bool" where
  "known_prefix r \<longleftrightarrow> re_secret_id_prefix r \<in> {SECRET_ID_PREFIX, SECRET_ID_LOCAL_PREFIX}"

text \<open>The specification of a login: the addresses decide, and the client gets the parameters of the role.\<close>

definition login_outcome :: "app_env \<Rightarrow> int \<Rightarrow> request \<Rightarrow> role_entry \<Rightarrow> secret_id_entry \<Rightarrow> response option res" where
  "login_outcome E now req r si =
     res_bind (secret_id_allowed E req r si) (\<lambda>_.
     res_bind (peer_allowed E req (re_secret_id_bound_cidrs r) ''by'') (\<lambda>_.
       Ok (Some (response_new\<lparr>rs_auth := Some (approle_auth now r (si_metadata si))\<rparr>))))"

text \<open>A stored secret identifier with its accessor, which the storage gives back as it is when it is updated.\<close>

definition live_secret ::
  "app_env \<Rightarrow> (string \<Rightarrow> bool) \<Rightarrow> (string \<Rightarrow> bytes option) \<Rightarrow> salt \<Rightarrow> role_entry \<Rightarrow> string \<Rightarrow> secret_id_entry \<Rightarrow> bool" where
  "live_secret E ok m sa r k si \<longleftrightarrow>
     (\<exists>b ak c x. m k = Some b \<and> ae_dec_secret E b = Some si \<and> accessor_key E sa r (si_accessor si) ak \<and> ok ak \<and>
        m ak = Some c \<and> ae_dec_accessor E c = Some x) \<and>
     finite (dom (si_metadata si)) \<and> rfc3339_time (si_creation_time si) \<and> rfc3339_time (si_expiration_time si) \<and>
     stored_duration (si_ttl si) = Some (si_ttl si)"

definition uses_left ::
  "app_env \<Rightarrow> (string \<Rightarrow> bool) \<Rightarrow> (string \<Rightarrow> bytes option) \<Rightarrow> salt \<Rightarrow> role_entry \<Rightarrow> string \<Rightarrow> nat \<Rightarrow> bool" where
  "uses_left E ok m sa r secret_id n \<longleftrightarrow>
     (\<exists>k. secret_key E r secret_id k \<and> ok k \<and>
        (if n = 0 then m k = None else \<exists>si. live_secret E ok m sa r k si \<and> si_num_uses si = int n))"

lemma keys_differ:
  assumes "known_prefix r" "secret_key E r secret_id k"
  shows "k \<noteq> role_id_key h" "k \<noteq> role_key n" "accessor_key E sa r i ak \<Longrightarrow> k \<noteq> ak"
    "accessor_key E sa r i ak \<Longrightarrow> ak \<noteq> role_id_key h" "accessor_key E sa r i ak \<Longrightarrow> ak \<noteq> role_key n"
  using assms
  by (auto simp: known_prefix_def secret_key_def secret_id_index_def role_key_def role_id_key_def accessor_key_def accessor_prefix_def
      SECRET_ID_PREFIX_def SECRET_ID_LOCAL_PREFIX_def SECRET_ID_ACCESSOR_PREFIX_def SECRET_ID_ACCESSOR_LOCAL_PREFIX_def)

lemma names_role_cong:
  assumes "names_role E ok m sa i r"
    and "\<And>k. ok k \<Longrightarrow> (\<exists>h. k = role_id_key h) \<or> (\<exists>n. k = role_key n) \<Longrightarrow> m' k = m k"
  shows "names_role E ok m' sa i r"
  using assms(1) unfolding names_role_def using assms(2) by metis

text \<open>Changing a secret identifier and its accessor leaves the role that an identifier names.\<close>

lemma names_role_frame:
  assumes "names_role E ok m sa i r'" "known_prefix r" "secret_key E r secret_id k" "accessor_key E sa r acc ak"
    and "\<And>k'. ok k' \<Longrightarrow> k' \<noteq> k \<Longrightarrow> k' \<noteq> ak \<Longrightarrow> m' k' = m k'"
  shows "names_role E ok m' sa i r'"
proof (rule names_role_cong [OF assms(1)])
  fix k' assume k': "ok k'" "(\<exists>h. k' = role_id_key h) \<or> (\<exists>n. k' = role_key n)"
  then have "k' \<noteq> k" "k' \<noteq> ak"
    using keys_differ(1,2) [OF assms(2,3)] keys_differ(4,5) [OF assms(2,3,4)] by blast+
  then show "m' k' = m k'" using assms(5) k'(1) by blast
qed

lemma secret_id_allowed_uses [simp]:
  "secret_id_allowed E req r (si\<lparr>si_num_uses := n, si_last_updated_time := t\<rparr>) = secret_id_allowed E req r si"
  by (simp add: secret_id_allowed_def)

context storage_view
begin

lemma check_secret_id_gone:
  assumes "ready (as_store a)" "presents E v i secret_id req" "secret_key E r secret_id k" "view_valid valid v k"
    and "view_stored stored v (as_store a) k = None"
  shows "check_secret_id E (view_storage (astore sops) v) req r a = (Err (ErrResponse ''invalid secret id''), a)"
  using assms by (auto simp: presents_def secret_key_def check_secret_id_def op_bind_def Let_def get_secret_stored)

text \<open>One use: an unlimited secret identifier stays as it is, the last use removes it, any other counts down.\<close>

lemma check_secret_id_live:
  assumes R: "ready (as_store a)" and S: "as_salt a = Some sa" and req: "presents E v i secret_id req"
    and k: "secret_key E r secret_id k" "view_valid valid v k" "known_prefix r"
    and live: "live_secret E (view_valid valid v) (view_stored stored v (as_store a)) sa r k si"
  obtains s' n' ak where "check_secret_id E (view_storage (astore sops) v) req r a =
      (res_bind (secret_id_allowed E req r si) (\<lambda>_. Ok (si_metadata si)), a\<lparr>as_store := s', as_reads := n'\<rparr>)"
    "ready s'" "accessor_key E sa r (si_accessor si) ak" "view_valid valid v ak"
    "\<And>k'. view_valid valid v k' \<Longrightarrow> view_stored stored v s' k' =
      (if si_num_uses si = 0 then view_stored stored v (as_store a)
       else if si_num_uses si = 1 then (view_stored stored v (as_store a))(ak := None, k := None)
       else (view_stored stored v (as_store a))(k \<mapsto> ae_enc_secret E
         (si\<lparr>si_num_uses := si_num_uses si - 1, si_last_updated_time := ae_clock E (as_reads a)\<rparr>))) k'"
proof -
  let ?m = "view_stored stored v (as_store a)" and ?v = "view_storage (astore sops) v"
  obtain rh sh where h: "create_hmac E (re_hmac_key r) (re_name r) = Ok rh" "create_hmac E (re_hmac_key r) secret_id = Ok sh"
    "rh \<noteq> []" "sh \<noteq> []" "k = secret_id_index (re_secret_id_prefix r) rh sh"
    using k(1) by (auto simp: secret_key_def)
  obtain b ak c x where l: "?m k = Some b" "ae_dec_secret E b = Some si" "accessor_key E sa r (si_accessor si) ak"
    "view_valid valid v ak" "?m ak = Some c" "ae_dec_accessor E c = Some x"
    using live by (auto simp: live_secret_def)
  have get: "get_secret_id_storage_entry E ?v (re_secret_id_prefix r) rh sh a = (Ok (Some si), a)"
    using get_secret_stored [OF R h(3,4)] k(2) h(5) l(1,2) by simp
  have acc: "get_secret_id_accessor_entry E ?v (si_accessor si) (re_secret_id_prefix r) a = (Ok (Some x), a)"
    using get_accessor_stored [OF R S l(3,4)] l(5,6) by simp
  have sid: "get_data_as_str (ae_parsers E) req ''secret_id'' = Ok secret_id" using req by (simp add: presents_def)
  note chk = check_secret_id_def op_bind_def Let_def sid h(1,2) get acc
  consider "si_num_uses si = 0" | "si_num_uses si = 1" | "si_num_uses si \<noteq> 0" "si_num_uses si \<noteq> 1" by blast
  then show ?thesis
  proof cases
    case 1
    then have "check_secret_id E ?v req r a = (res_bind (secret_id_allowed E req r si) (\<lambda>_. Ok (si_metadata si)),
        a\<lparr>as_store := as_store a, as_reads := as_reads a\<rparr>)"
      by (cases "secret_id_allowed E req r si") (simp_all add: chk)
    then show ?thesis using that [where s' = "as_store a" and n' = "as_reads a", OF _ R l(3,4)] 1 by simp
  next
    case 2
    obtain s1 where s1: "delete_secret_id_accessor_entry E ?v (si_accessor si) (re_secret_id_prefix r) a =
        (Ok (), a\<lparr>as_store := s1\<rparr>)" "ready s1"
      "\<And>k'. view_valid valid v k' \<Longrightarrow> view_stored stored v s1 k' = (?m(ak := None)) k'"
      using delete_accessor_stored [OF R S l(3,4)] by blast
    obtain s2 where s2: "astore_op (view_delete sops v k) (a\<lparr>as_store := s1\<rparr>) = (Ok (), a\<lparr>as_store := s2\<rparr>)" "ready s2"
      "\<And>k'. view_valid valid v k' \<Longrightarrow> view_stored stored v s2 k' = ((view_stored stored v s1)(k := None)) k'"
      using app_delete [of "a\<lparr>as_store := s1\<rparr>" k] s1(2) k(2) by auto
    have "check_secret_id E ?v req r a = (res_bind (secret_id_allowed E req r si) (\<lambda>_. Ok (si_metadata si)),
        a\<lparr>as_store := s2, as_reads := as_reads a\<rparr>)"
      using 2 s1(1) s2(1) h(5)
      by (cases "secret_id_allowed E req r si") (simp_all add: chk consume_secret_id_def astore_view)
    then show ?thesis using that [where s' = s2 and n' = "as_reads a", OF _ s2(2) l(3,4)] 2 s1(3) s2(3) by simp
  next
    case 3
    let ?si = "si\<lparr>si_num_uses := si_num_uses si - 1, si_last_updated_time := ae_clock E (as_reads a)\<rparr>"
    obtain s1 where s1: "astore_op (view_put sops v \<lparr>se_key = k, se_value = ae_enc_secret E ?si\<rparr>)
        (a\<lparr>as_reads := Suc (as_reads a)\<rparr>) = (Ok (), a\<lparr>as_store := s1, as_reads := Suc (as_reads a)\<rparr>)" "ready s1"
      "\<And>k'. view_valid valid v k' \<Longrightarrow> view_stored stored v s1 k' = (?m(k \<mapsto> ae_enc_secret E ?si)) k'"
      using app_put [of "a\<lparr>as_reads := Suc (as_reads a)\<rparr>" k "ae_enc_secret E ?si"] R k(2) by auto
    have "check_secret_id E ?v req r a = (res_bind (secret_id_allowed E req r si) (\<lambda>_. Ok (si_metadata si)),
        a\<lparr>as_store := s1, as_reads := Suc (as_reads a)\<rparr>)"
      using 3 s1(1) h(5)
      by (cases "secret_id_allowed E req r si") (simp_all add: chk consume_secret_id_def astore_view app_now_def)
    then show ?thesis
      using that [where s' = s1 and n' = "Suc (as_reads a)", OF _ s1(2) l(3,4)] 3 s1(3) by simp
  qed
qed

lemma login_finds_role:
  assumes "ready (as_store a)" "as_salt a = Some sa" "presents E v i secret_id req"
    and "names_role E (view_valid valid v) (view_stored stored v (as_store a)) sa i r" "re_bind_secret_id r"
  shows "approle_login sops E (a, req) =
    (case check_secret_id E (view_storage (astore sops) v) req r a of
       (Ok metadata, a1) \<Rightarrow>
         (case peer_allowed E req (re_secret_id_bound_cidrs r) ''by'' of
            Ok _ \<Rightarrow> (Ok (Some (response_new\<lparr>rs_auth := Some (approle_auth (ae_clock E (as_reads a1)) r metadata)\<rparr>)),
                (a1\<lparr>as_reads := Suc (as_reads a1)\<rparr>, req))
          | Err e \<Rightarrow> (Err e, (a1, req))
          | Panic \<Rightarrow> (Panic, (a1, req)))
     | (Err e, a1) \<Rightarrow> (Err e, (a1, req))
     | (Panic, a1) \<Rightarrow> (Panic, (a1, req)))"
proof -
  obtain h b ri b' r0 where n: "i \<noteq> []" "salted_id (ae_salt E) sa i = Ok h" "view_valid valid v (role_id_key h)"
    "view_stored stored v (as_store a) (role_id_key h) = Some b" "ae_dec_role_id E b = Some ri"
    "view_valid valid v (role_key (ri_name ri))" "view_stored stored v (as_store a) (role_key (ri_name ri)) = Some b'"
    "ae_dec_role E b' = Some r0" "r = loaded_role (ri_name ri) r0"
    using assms(4) by (auto simp: names_role_def)
  have req: "rq_storage req = Some v" "get_data_as_str (ae_parsers E) req ''role_id'' = Ok i"
    using assms(3) by (simp_all add: presents_def)
  have "get_role_id E sops req i a = (Ok (Some ri), a)"
    using get_role_id_stored [OF assms(1) req(1) assms(2) n(1-3)] n(4,5) by simp
  moreover have "get_role E sops req (ri_name ri) a = (Ok (Some r), a)"
    using get_role_stored [OF assms(1) req(1) n(6)] n(7-9) by simp
  ultimately show ?thesis
    using assms(5) req
    by (simp add: approle_login_def on_state_def op_bind_def request_storage_def app_now_def split: res.split prod.split)
qed

text \<open>A login with a live secret identifier has the specified outcome and takes one use.\<close>

lemma login_live:
  assumes R: "ready (as_store a)" "as_salt a = Some sa" "presents E v i secret_id req"
    and r: "names_role E (view_valid valid v) (view_stored stored v (as_store a)) sa i r" "re_bind_secret_id r" "known_prefix r"
    and k: "secret_key E r secret_id k" "view_valid valid v k"
    and live: "live_secret E (view_valid valid v) (view_stored stored v (as_store a)) sa r k si"
  obtains t s' n' ak where "approle_login sops E (a, req) = (login_outcome E (ae_clock E t) req r si, (a\<lparr>as_store := s', as_reads := n'\<rparr>, req))"
    "ready s'" "accessor_key E sa r (si_accessor si) ak" "view_valid valid v ak"
    "\<And>k'. view_valid valid v k' \<Longrightarrow> view_stored stored v s' k' =
      (if si_num_uses si = 0 then view_stored stored v (as_store a)
       else if si_num_uses si = 1 then (view_stored stored v (as_store a))(ak := None, k := None)
       else (view_stored stored v (as_store a))(k \<mapsto> ae_enc_secret E
         (si\<lparr>si_num_uses := si_num_uses si - 1, si_last_updated_time := ae_clock E (as_reads a)\<rparr>))) k'"
proof -
  obtain s' n' ak where c: "check_secret_id E (view_storage (astore sops) v) req r a =
      (res_bind (secret_id_allowed E req r si) (\<lambda>_. Ok (si_metadata si)), a\<lparr>as_store := s', as_reads := n'\<rparr>)"
    "ready s'" "accessor_key E sa r (si_accessor si) ak" "view_valid valid v ak"
    "\<And>k'. view_valid valid v k' \<Longrightarrow> view_stored stored v s' k' =
      (if si_num_uses si = 0 then view_stored stored v (as_store a)
       else if si_num_uses si = 1 then (view_stored stored v (as_store a))(ak := None, k := None)
       else (view_stored stored v (as_store a))(k \<mapsto> ae_enc_secret E
         (si\<lparr>si_num_uses := si_num_uses si - 1, si_last_updated_time := ae_clock E (as_reads a)\<rparr>))) k'"
    using check_secret_id_live [OF R k r(3) live] by metis
  have "\<exists>n''. approle_login sops E (a, req) =
      (login_outcome E (ae_clock E n') req r si, (a\<lparr>as_store := s', as_reads := n''\<rparr>, req))"
    using login_finds_role [OF R r(1,2)] c(1)
    by (cases "secret_id_allowed E req r si"; cases "peer_allowed E req (re_secret_id_bound_cidrs r) ''by''")
      (auto simp: login_outcome_def)
  then show ?thesis using that c(2-5) by blast
qed

lemma login_gone:
  assumes "ready (as_store a)" "as_salt a = Some sa" "presents E v i secret_id req"
    and "names_role E (view_valid valid v) (view_stored stored v (as_store a)) sa i r" "re_bind_secret_id r"
    and "secret_key E r secret_id k" "view_valid valid v k" "view_stored stored v (as_store a) k = None"
  shows "approle_login sops E (a, req) = (Err (ErrResponse ''invalid secret id''), (a, req))"
  using login_finds_role [OF assms(1-5)] check_secret_id_gone [OF assms(1,3,6-8)] by simp

text \<open>Every login takes one of the uses that are left; without one it is refused.\<close>

lemma login_takes_use:
  assumes R: "ready (as_store a)" "as_salt a = Some sa" "presents E v i secret_id req"
    and r: "names_role E (view_valid valid v) (view_stored stored v (as_store a)) sa i r" "re_bind_secret_id r" "known_prefix r"
    and n: "uses_left E (view_valid valid v) (view_stored stored v (as_store a)) sa r secret_id n"
    and E: "app_codecs E" "app_clock_ok E"
  obtains x a' where "approle_login sops E (a, req) = (x, (a', req))" "ready (as_store a')" "as_salt a' = Some sa"
    "names_role E (view_valid valid v) (view_stored stored v (as_store a')) sa i r"
    "uses_left E (view_valid valid v) (view_stored stored v (as_store a')) sa r secret_id (n - 1)"
    "n = 0 \<Longrightarrow> x = Err (ErrResponse ''invalid secret id'')"
proof -
  let ?ok = "view_valid valid v" and ?m = "view_stored stored v (as_store a)"
  obtain k where k: "secret_key E r secret_id k" "?ok k"
    "if n = 0 then ?m k = None else \<exists>si. live_secret E ?ok ?m sa r k si \<and> si_num_uses si = int n"
    using n by (auto simp: uses_left_def)
  show ?thesis
  proof (cases "n = 0")
    case True
    then show ?thesis using login_gone [OF R r(1,2) k(1,2)] k(3) that [OF _ R(1,2) r(1)] n by simp
  next
    case False
    then obtain si where si: "live_secret E ?ok ?m sa r k si" "si_num_uses si = int n" using k(3) by auto
    obtain t s' n' ak where s': "approle_login sops E (a, req) =
        (login_outcome E (ae_clock E t) req r si, (a\<lparr>as_store := s', as_reads := n'\<rparr>, req))" "ready s'"
      "accessor_key E sa r (si_accessor si) ak" "?ok ak"
      and m': "\<And>k'. ?ok k' \<Longrightarrow> view_stored stored v s' k' = (if si_num_uses si = 0 then ?m
       else if si_num_uses si = 1 then ?m(ak := None, k := None)
       else ?m(k \<mapsto> ae_enc_secret E (si\<lparr>si_num_uses := si_num_uses si - 1, si_last_updated_time := ae_clock E (as_reads a)\<rparr>))) k'"
      using login_live [OF R r k(1,2) si(1)] by metis
    note d = keys_differ [OF r(3) k(1)]
    have names: "names_role E ?ok (view_stored stored v s') sa i r"
      by (rule names_role_frame [OF r(1,3) k(1) s'(3)]) (simp add: m')
    have "uses_left E ?ok (view_stored stored v s') sa r secret_id (n - 1)"
    proof (cases "n = 1")
      case True
      then show ?thesis using m' [OF k(2)] si(2) k(1,2) by (auto simp: uses_left_def)
    next
      case n1: False
      let ?si = "si\<lparr>si_num_uses := int (n - 1), si_last_updated_time := ae_clock E (as_reads a)\<rparr>"
      have u: "si_num_uses si \<noteq> 0" "si_num_uses si \<noteq> 1" "si_num_uses si - 1 = int (n - 1)" using si(2) False n1 by simp_all
      have si': "finite (dom (si_metadata ?si))" "rfc3339_time (si_creation_time ?si)" "rfc3339_time (si_expiration_time ?si)"
        "rfc3339_time (si_last_updated_time ?si)" "stored_duration (si_ttl ?si) = Some (si_ttl ?si)"
        using si(1) E(2) by (simp_all add: live_secret_def app_clock_ok_def)
      then have "ae_dec_secret E (ae_enc_secret E ?si) = Some ?si"
        using E(1) by (simp add: app_codecs_def stored_secret_def)
      moreover have "view_stored stored v s' k = Some (ae_enc_secret E ?si)" using m' [OF k(2)] u(1,2) unfolding u(3) by simp
      moreover obtain ak' c x where "accessor_key E sa r (si_accessor si) ak'" "?ok ak'" "?m ak' = Some c"
          "ae_dec_accessor E c = Some x"
        using si(1) unfolding live_secret_def by blast
      moreover have "view_stored stored v s' ak' = ?m ak'"
        using m' [OF \<open>?ok ak'\<close>] d(3) [OF \<open>accessor_key E sa r (si_accessor si) ak'\<close>] u(1,2) by simp
      ultimately have "live_secret E ?ok (view_stored stored v s') sa r k ?si"
        using si' unfolding live_secret_def by auto
      moreover have "si_num_uses ?si = int (n - 1)" "n - 1 \<noteq> 0" using n1 False by simp_all
      ultimately show ?thesis using k(1,2) unfolding uses_left_def by metis
    qed
    then show ?thesis using that [OF s'(1)] s'(2) R(2) names False by simp
  qed
qed

end

text \<open>Logins one after the other.\<close>

fun run_logins :: "'s storage_ops \<Rightarrow> app_env \<Rightarrow> request list \<Rightarrow> 's astate \<Rightarrow> response option res list \<times> 's astate" where
  "run_logins sops E [] a = ([], a)"
| "run_logins sops E (req # reqs) a =
     (case approle_login sops E (a, req) of (r, (a1, _)) \<Rightarrow>
        (case run_logins sops E reqs a1 of (rs, a2) \<Rightarrow> (r # rs, a2)))"

context storage_view
begin

lemma logins_limited:
  assumes "\<forall>req \<in> set reqs. presents E v i secret_id req" "app_codecs E" "app_clock_ok E" "re_bind_secret_id r" "known_prefix r"
    and "ready (as_store a)" "as_salt a = Some sa"
    and "names_role E (view_valid valid v) (view_stored stored v (as_store a)) sa i r"
    and "uses_left E (view_valid valid v) (view_stored stored v (as_store a)) sa r secret_id n"
  shows "length (filter is_ok (fst (run_logins sops E reqs a))) \<le> n \<and>
    (\<forall>j < length reqs. n \<le> j \<longrightarrow> fst (run_logins sops E reqs a) ! j = Err (ErrResponse ''invalid secret id''))"
  using assms(1,6-9)
proof (induction reqs arbitrary: a n)
  case (Cons req reqs)
  have req: "presents E v i secret_id req" using Cons.prems(1) by simp
  obtain x a' where s: "approle_login sops E (a, req) = (x, (a', req))" "ready (as_store a')" "as_salt a' = Some sa"
    "names_role E (view_valid valid v) (view_stored stored v (as_store a')) sa i r"
    "uses_left E (view_valid valid v) (view_stored stored v (as_store a')) sa r secret_id (n - 1)"
    "n = 0 \<Longrightarrow> x = Err (ErrResponse ''invalid secret id'')"
    by (rule login_takes_use [OF Cons.prems(2,3) req Cons.prems(4) assms(4,5) Cons.prems(5) assms(2,3)]) blast
  obtain rs a2 where run: "run_logins sops E reqs a' = (rs, a2)" by fastforce
  have IH: "length (filter is_ok rs) \<le> n - 1"
    "\<And>j. j < length reqs \<Longrightarrow> n - 1 \<le> j \<Longrightarrow> rs ! j = Err (ErrResponse ''invalid secret id'')"
    using Cons.IH [OF _ s(2-5)] Cons.prems(1) run by simp_all
  have run': "fst (run_logins sops E (req # reqs) a) = x # rs" using s(1) run by simp
  have "length (filter is_ok (x # rs)) \<le> n" using IH(1) s(6) by (cases n) auto
  moreover have "(x # rs) ! j = Err (ErrResponse ''invalid secret id'')" if "j < length (req # reqs)" "n \<le> j" for j
    using that IH(2) [of "j - 1"] s(6) by (cases j) auto
  ultimately show ?case unfolding run' by blast
qed simp

end

text \<open>
  C18: a limited secret identifier logs in at most as often as its limit. Whatever the clients of a role do with a
  secret identifier that has \<open>n\<close> uses left, in any sequence of login requests that present it at most \<open>n\<close> succeed, and
  every request after the first \<open>n\<close> is refused; a request that is refused because of the client's address takes a use
  as well.
\<close>

theorem secret_id_limited_uses:
  assumes "app_ready C ser de root a" "as_salt a = Some sa" "app_codecs E" "app_clock_ok E"
    and "re_bind_secret_id r" "known_prefix r" "names_role E (vault_key v) (app_contents C de root v a) sa i r"
    and "uses_left E (vault_key v) (app_contents C de root v a) sa r secret_id n"
    and "\<forall>req \<in> set reqs. presents E v i secret_id req"
    and "run_logins (vault_ops C ser de root) E reqs a = (results, a')"
  shows "length (filter is_ok results) \<le> n \<and>
    (\<forall>j < length reqs. n \<le> j \<longrightarrow> results ! j = Err (ErrResponse ''invalid secret id''))"
  using fbv.logins_limited [OF assms(9,3-6,1,2,7,8)] assms(10) by simp

section \<open>Making and destroying secret identifiers\<close>

lemma register_prefix: "known_prefix r \<Longrightarrow> re_secret_id_prefix r \<noteq> []"
  by (auto simp: known_prefix_def SECRET_ID_PREFIX_def SECRET_ID_LOCAL_PREFIX_def)

text \<open>The role that a name has in the contents of a view.\<close>

definition role_at :: "app_env \<Rightarrow> (string \<Rightarrow> bool) \<Rightarrow> (string \<Rightarrow> bytes option) \<Rightarrow> string \<Rightarrow> role_entry \<Rightarrow> bool" where
  "role_at E ok m name r \<longleftrightarrow>
     ok (role_key name) \<and> (\<exists>b r0. m (role_key name) = Some b \<and> ae_dec_role E b = Some r0 \<and> r = loaded_role name r0)"

context storage_view
begin

lemma get_role_at:
  assumes "ready (as_store a)" "rq_storage req = Some v" "role_at E (view_valid valid v) (view_stored stored v (as_store a)) n r"
  shows "get_role E sops req n a = (Ok (Some r), a)"
  using assms by (auto simp: role_at_def get_role_stored)

lemma register_effect:
  assumes R: "ready (as_store a)" "as_salt a = Some sa" and k: "secret_key E r secret_id k" "view_valid valid v k" "known_prefix r"
    and ak: "accessor_key E sa r (ae_uuid E (as_uuids a)) ak" "view_valid valid v ak"
    and none: "view_stored stored v (as_store a) k = None"
    and si'_def: "si' = (timed (ae_clock E (as_reads a)) si)\<lparr>si_accessor := ae_uuid E (as_uuids a)\<rparr>"
  obtains s' x where "register_secret_id_entry E (view_storage (astore sops) v) (re_name r) secret_id (re_hmac_key r) (re_secret_id_prefix r) si a =
      (Ok si', a\<lparr>as_store := s', as_uuids := Suc (as_uuids a), as_reads := Suc (as_reads a)\<rparr>)" "ready s'"
    "\<And>k'. view_valid valid v k' \<Longrightarrow> view_stored stored v s' k' =
      ((view_stored stored v (as_store a))(ak \<mapsto> ae_enc_accessor E x, k \<mapsto> ae_enc_secret E si')) k'"
proof -
  let ?m = "view_stored stored v (as_store a)" and ?v = "view_storage (astore sops) v"
  obtain rh sh where h: "create_hmac E (re_hmac_key r) (re_name r) = Ok rh" "create_hmac E (re_hmac_key r) secret_id = Ok sh"
    "rh \<noteq> []" "sh \<noteq> []" "k = secret_id_index (re_secret_id_prefix r) rh sh"
    using k(1) by (auto simp: secret_key_def)
  obtain ah where ah: "salted_id (ae_salt E) sa (ae_uuid E (as_uuids a)) = Ok ah" "ak = accessor_prefix (re_secret_id_prefix r) @ ah"
    using ak(1) by (auto simp: accessor_key_def)
  have free: "not_registered E ?v (re_secret_id_prefix r) rh sh a = (Ok (), a)"
    using get_secret_stored [OF R(1) h(3,4)] k(2) h(5) none by (simp add: not_registered_def op_bind_def)
  let ?a1 = "a\<lparr>as_uuids := Suc (as_uuids a), as_reads := Suc (as_reads a)\<rparr>" and ?x = "\<lparr>ac_secret_id_hmac = sh\<rparr>"
  obtain s1 where s1: "astore_op (view_put sops v \<lparr>se_key = ak, se_value = ae_enc_accessor E ?x\<rparr>) ?a1 = (Ok (), ?a1\<lparr>as_store := s1\<rparr>)"
    "ready s1" "\<And>k'. view_valid valid v k' \<Longrightarrow> view_stored stored v s1 k' = (?m(ak \<mapsto> ae_enc_accessor E ?x)) k'"
    using app_put [of ?a1 ak "ae_enc_accessor E ?x"] R(1) ak(2) by auto
  obtain s2 where s2: "astore_op (view_put sops v \<lparr>se_key = k, se_value = ae_enc_secret E si'\<rparr>) (?a1\<lparr>as_store := s1\<rparr>) =
      (Ok (), ?a1\<lparr>as_store := s2\<rparr>)" "ready s2"
    "\<And>k'. view_valid valid v k' \<Longrightarrow> view_stored stored v s2 k' = ((view_stored stored v s1)(k \<mapsto> ae_enc_secret E si')) k'"
    using app_put [of "?a1\<lparr>as_store := s1\<rparr>" k "ae_enc_secret E si'"] s1(2) k(2) by auto
  have "register_secret_id_entry E ?v (re_name r) secret_id (re_hmac_key r) (re_secret_id_prefix r) si a = (Ok si', ?a1\<lparr>as_store := s2\<rparr>)"
    using h free s1(1) s2(1) R(2) ah register_prefix [OF k(3)]
    by (simp add: register_secret_id_entry_def op_bind_def app_now_def create_secret_id_accessor_entry_def app_uuid_def
        accessor_index_def app_salt_id_def app_salt_def set_secret_id_storage_entry_def check_hmacs_def astore_view si'_def)
  then show ?thesis using that [of s2 ?x] s1(3) s2(2,3) by auto
qed

end

definition requested_metadata :: "app_env \<Rightarrow> request \<Rightarrow> (string \<Rightarrow> string option) \<Rightarrow> bool" where
  "requested_metadata E req md \<longleftrightarrow>
     (case get_data (ae_parsers E) req ''metadata'' of
        Ok v \<Rightarrow> as_map (fst (ae_parsers E)) v = Some md | Err _ \<Rightarrow> md = Map.empty | Panic \<Rightarrow> False)"

lemma requested_metadata_set:
  assumes "requested_metadata E req md" "si_metadata si = Map.empty"
  shows "set_field (ae_parsers E) req ''metadata'' (as_map (fst (ae_parsers E))) (\<lambda>m si. si\<lparr>si_metadata := m\<rparr>) si =
    Ok (si\<lparr>si_metadata := md\<rparr>)"
  using assms by (cases si) (auto simp: requested_metadata_def set_field_def split: res.splits)

lemma dom_bind_finite: "finite (dom (\<lambda>k. Option.bind (map_of m k) f))"
  by (rule finite_subset [OF _ finite_dom_map_of [of m]]) (auto simp: bind_eq_Some_conv)

lemma requested_metadata_finite: "requested_metadata E req md \<Longrightarrow> finite (dom md)"
  by (auto simp: requested_metadata_def as_map_def dom_bind_finite split: res.splits json.splits option.splits if_splits)

lemma timed_times:
  assumes "app_clock_ok E" "rfc3339_time (si_expiration_time si)"
  shows "rfc3339_time (si_creation_time (timed (ae_clock E n) si))" "rfc3339_time (si_expiration_time (timed (ae_clock E n) si))"
    "rfc3339_time (si_last_updated_time (timed (ae_clock E n) si))"
proof -
  have "derive_secret_id_ttl (si_ttl si) \<le> MAX_LEASE_DURATION_SECS" by (simp add: derive_secret_id_ttl_def)
  then have "int (derive_secret_id_ttl (si_ttl si)) \<le> int MAX_LEASE_DURATION_SECS" by simp
  moreover have "rfc3339_time (ae_clock E n)" "rfc3339_time (ae_clock E n + int MAX_LEASE_DURATION_SECS)"
    using assms(1) by (simp_all add: app_clock_ok_def)
  ultimately have "rfc3339_time (ae_clock E n + int (derive_secret_id_ttl (si_ttl si)))"
    by (simp add: rfc3339_time_def)
  then show "rfc3339_time (si_creation_time (timed (ae_clock E n) si))" "rfc3339_time (si_expiration_time (timed (ae_clock E n) si))"
    "rfc3339_time (si_last_updated_time (timed (ae_clock E n) si))"
    using assms by (simp_all add: timed_def Let_def app_clock_ok_def)
qed

context storage_view
begin

text \<open>A request within the limits of the role makes a live secret identifier, with the properties it asks for.\<close>

lemma create_secret_id:
  assumes R: "ready (as_store a)" "as_salt a = Some sa" "app_codecs E" "app_clock_ok E"
    and req: "rq_storage req = Some v" "get_data_as_str (ae_parsers E) req ''role_name'' = Ok name"
    and r: "role_at E (view_valid valid v) (view_stored stored v (as_store a)) name r" "re_bind_secret_id r" "known_prefix r"
    and q: "requested_secret_id E req r = Ok (cs, ts, n, t)" "requested_metadata E req md" "t div NANOS < 2 ^ 63"
    and k: "secret_id \<noteq> []" "secret_key E r secret_id k" "view_valid valid v k"
    and none: "view_stored stored v (as_store a) k = None"
    and ak: "accessor_key E sa r (ae_uuid E (as_uuids a)) ak" "view_valid valid v ak"
  obtains s' si n' where "update_role_secret_id_common sops E req secret_id a =
      (Ok (Some (data_response (Some (secret_id_data secret_id (si\<lparr>si_ttl := t\<rparr>))))),
       a\<lparr>as_store := s', as_uuids := Suc (as_uuids a), as_reads := n'\<rparr>)" "ready s'"
    "live_secret E (view_valid valid v) (view_stored stored v s') sa r k si" "si_num_uses si = n" "si_cidr_list si = cs"
    "si_token_cidr_list si = ts" "si_metadata si = md"
    "\<And>k'. view_valid valid v k' \<Longrightarrow> k' \<noteq> k \<Longrightarrow> k' \<noteq> ak \<Longrightarrow> view_stored stored v s' k' = view_stored stored v (as_store a) k'"
proof -
  let ?c = "\<lambda>i. ae_clock E (as_reads a + i)" and ?v = "view_storage (astore sops) v"
  define si0 where "si0 = \<lparr>si_accessor = [], si_num_uses = n, si_ttl = t, si_creation_time = ?c 0, si_expiration_time = ?c 1,
    si_last_updated_time = ?c 2, si_metadata = md, si_cidr_list = cs, si_token_cidr_list = ts\<rparr>"
  define si1 where "si1 = (timed (?c 3) si0)\<lparr>si_accessor := ae_uuid E (as_uuids a)\<rparr>"
  let ?si = "si1\<lparr>si_ttl := from_secs (t div NANOS)\<rparr>" and ?a = "a\<lparr>as_reads := as_reads a + 3\<rparr>"
  have kk: "ready (as_store ?a)" "as_salt ?a = Some sa" "accessor_key E sa r (ae_uuid E (as_uuids ?a)) ak"
    "view_stored stored v (as_store ?a) k = None" "si1 = (timed (ae_clock E (as_reads ?a)) si0)\<lparr>si_accessor := ae_uuid E (as_uuids ?a)\<rparr>"
    using R(1,2) ak(1) none by (simp_all add: si1_def)
  obtain s' x where s': "register_secret_id_entry E ?v (re_name r) secret_id (re_hmac_key r) (re_secret_id_prefix r) si0 ?a =
      (Ok si1, ?a\<lparr>as_store := s', as_uuids := Suc (as_uuids ?a), as_reads := Suc (as_reads ?a)\<rparr>)" "ready s'"
    and m': "\<And>k'. view_valid valid v k' \<Longrightarrow> view_stored stored v s' k' =
      ((view_stored stored v (as_store ?a))(ak \<mapsto> ae_enc_accessor E x, k \<mapsto> ae_enc_secret E si1)) k'"
    using register_effect [OF kk(1,2) k(2,3) r(3) kk(3) ak(2) kk(4,5)] by metis
  let ?s0 = "\<lparr>si_accessor = [], si_num_uses = 0, si_ttl = 0, si_creation_time = ?c 0, si_expiration_time = ?c 1,
    si_last_updated_time = ?c 2, si_metadata = Map.empty, si_cidr_list = [], si_token_cidr_list = []\<rparr>"
  have d: "secret_id_entry_default E a = (Ok ?s0, ?a)"
    by (simp add: secret_id_entry_default_def op_bind_def app_now_def numeral_2_eq_2 numeral_3_eq_3)
  have m: "set_field (ae_parsers E) req ''metadata'' (as_map (fst (ae_parsers E))) (\<lambda>m si. si\<lparr>si_metadata := m\<rparr>)
      (?s0\<lparr>si_num_uses := n, si_ttl := t, si_cidr_list := cs, si_token_cidr_list := ts\<rparr>) = Ok si0"
    using requested_metadata_set [OF q(2), of "?s0\<lparr>si_num_uses := n, si_ttl := t, si_cidr_list := cs, si_token_cidr_list := ts\<rparr>"]
    by (simp add: si0_def)
  have upd: "si1 = ?si\<lparr>si_ttl := t\<rparr>" by (simp add: si1_def si0_def timed_def Let_def)
  have run: "update_role_secret_id_common sops E req secret_id a =
      (Ok (Some (data_response (Some (secret_id_data secret_id (?si\<lparr>si_ttl := t\<rparr>))))),
       a\<lparr>as_store := s', as_uuids := Suc (as_uuids a), as_reads := Suc (as_reads a + 3)\<rparr>)"
    using get_role_at [OF R(1) req(1) r(1)] r(2) q(1) k(1) req d m s'(1)
    unfolding upd [symmetric]
    by (simp add: update_role_secret_id_common_def op_bind_def with_role_def request_storage_def)
  have f: "finite (dom (si_metadata si1))" "rfc3339_time (si_creation_time si1)" "rfc3339_time (si_expiration_time si1)"
    "rfc3339_time (si_last_updated_time si1)" "si_ttl si1 = t"
    using timed_times [OF R(4), of si0] R(4) requested_metadata_finite [OF q(2)]
    by (simp_all add: si1_def si0_def app_clock_ok_def timed_def Let_def)
  then have dec: "ae_dec_secret E (ae_enc_secret E si1) = Some ?si"
    using R(3) q(3) by (simp add: app_codecs_def stored_secret_def stored_duration_def)
  have "live_secret E (view_valid valid v) (view_stored stored v s') sa r k ?si"
    using m' [OF k(3)] m' [OF ak(2)] dec f R(3) ak keys_differ(3) [OF r(3) k(2) ak(1)] q(3)
    unfolding live_secret_def
    by (auto simp: si1_def app_codecs_def stored_duration_whole)
  then show ?thesis
    using that [OF run s'(2)] m' by (simp add: si1_def si0_def timed_def Let_def)
qed

lemma created_secret_id_login:
  assumes R: "ready (as_store a)" "as_salt a = Some sa" "app_codecs E" "app_clock_ok E"
    and req: "rq_storage req = Some v" "get_data_as_str (ae_parsers E) req ''role_name'' = Ok name"
    and r: "role_at E (view_valid valid v) (view_stored stored v (as_store a)) name r" "re_bind_secret_id r" "known_prefix r"
      "names_role E (view_valid valid v) (view_stored stored v (as_store a)) sa i r"
    and q: "requested_secret_id E req r = Ok (cs, ts, n, t)" "requested_metadata E req md" "t div NANOS < 2 ^ 63"
    and k: "ae_uuid E (as_uuids a) \<noteq> []" "secret_key E r (ae_uuid E (as_uuids a)) k" "view_valid valid v k"
      "view_stored stored v (as_store a) k = None"
    and ak: "accessor_key E sa r (ae_uuid E (Suc (as_uuids a))) ak" "view_valid valid v ak"
  shows "\<exists>a1 si. write_role_secret_id sops E (a, req) =
      (Ok (Some (data_response (Some (secret_id_data (ae_uuid E (as_uuids a)) (si\<lparr>si_ttl := t\<rparr>))))), (a1, req)) \<and>
    ready (as_store a1) \<and> live_secret E (view_valid valid v) (view_stored stored v (as_store a1)) sa r k si \<and>
    si_num_uses si = n \<and> si_cidr_list si = cs \<and> si_metadata si = md \<and>
    (\<forall>req2. presents E v i (ae_uuid E (as_uuids a)) req2 \<longrightarrow>
      (\<exists>now. fst (approle_login sops E (a1, req2)) = login_outcome E now req2 r si))"
proof -
  let ?u = "ae_uuid E (as_uuids a)" and ?a = "a\<lparr>as_uuids := Suc (as_uuids a)\<rparr>"
  have a: "ready (as_store ?a)" "as_salt ?a = Some sa" "role_at E (view_valid valid v) (view_stored stored v (as_store ?a)) name r"
    "view_stored stored v (as_store ?a) k = None" "accessor_key E sa r (ae_uuid E (as_uuids ?a)) ak"
    using R(1,2) r(1) k(4) ak(1) by simp_all
  obtain s' si n' where s': "update_role_secret_id_common sops E req ?u ?a =
      (Ok (Some (data_response (Some (secret_id_data ?u (si\<lparr>si_ttl := t\<rparr>))))),
       ?a\<lparr>as_store := s', as_uuids := Suc (as_uuids ?a), as_reads := n'\<rparr>)" "ready s'"
    "live_secret E (view_valid valid v) (view_stored stored v s') sa r k si" "si_num_uses si = n" "si_cidr_list si = cs"
    "si_token_cidr_list si = ts" "si_metadata si = md"
    "\<And>k'. view_valid valid v k' \<Longrightarrow> k' \<noteq> k \<Longrightarrow> k' \<noteq> ak \<Longrightarrow> view_stored stored v s' k' = view_stored stored v (as_store ?a) k'"
    by (rule create_secret_id [OF a(1,2) R(3,4) req a(3) r(2,3) q k(1-3) a(4,5) ak(2)]) blast
  let ?a1 = "?a\<lparr>as_store := s', as_uuids := Suc (as_uuids ?a), as_reads := n'\<rparr>"
  have w: "write_role_secret_id sops E (a, req) =
      (Ok (Some (data_response (Some (secret_id_data ?u (si\<lparr>si_ttl := t\<rparr>))))), (?a1, req))"
    using s'(1) by (simp add: write_role_secret_id_def on_state_def op_bind_def app_uuid_def)
  have n: "names_role E (view_valid valid v) (view_stored stored v s') sa i r"
    by (rule names_role_frame [OF r(4,3) k(2) ak(1)]) (use s'(8) in simp)
  have "\<exists>now. fst (approle_login sops E (?a1, req2)) = login_outcome E now req2 r si" if p: "presents E v i ?u req2" for req2
  proof -
    have "ready (as_store ?a1)" "as_salt ?a1 = Some sa" "names_role E (view_valid valid v) (view_stored stored v (as_store ?a1)) sa i r"
      "live_secret E (view_valid valid v) (view_stored stored v (as_store ?a1)) sa r k si"
      using s'(2,3) R(2) n by simp_all
    from login_live [OF this(1,2) p this(3) r(2,3) k(2,3) this(4)] show ?thesis by (metis fst_conv)
  qed
  then show ?thesis using w s'(2-7) by (intro exI [of _ ?a1] exI [of _ si]) simp
qed

text \<open>Destroying a live secret identifier removes it with its accessor.\<close>

lemma destroy_secret_id:
  assumes R: "ready (as_store a)" "as_salt a = Some sa"
    and req: "rq_storage req = Some v" "get_data_as_str (ae_parsers E) req ''role_name'' = Ok name"
      "get_data_as_str (ae_parsers E) req ''secret_id'' = Ok secret_id"
    and r: "role_at E (view_valid valid v) (view_stored stored v (as_store a)) name r" "known_prefix r"
    and k: "secret_key E r secret_id k" "view_valid valid v k"
    and live: "live_secret E (view_valid valid v) (view_stored stored v (as_store a)) sa r k si"
  obtains s' ak where "delete_role_secret_id_destory sops E (a, req) = (Ok None, (a\<lparr>as_store := s'\<rparr>, req))" "ready s'"
    "accessor_key E sa r (si_accessor si) ak"
    "\<And>k'. view_valid valid v k' \<Longrightarrow> view_stored stored v s' k' = ((view_stored stored v (as_store a))(ak := None, k := None)) k'"
proof -
  let ?m = "view_stored stored v (as_store a)" and ?v = "view_storage (astore sops) v"
  obtain rh sh where h: "create_hmac E (re_hmac_key r) (re_name r) = Ok rh" "create_hmac E (re_hmac_key r) secret_id = Ok sh"
    "rh \<noteq> []" "sh \<noteq> []" "k = secret_id_index (re_secret_id_prefix r) rh sh"
    using k(1) by (auto simp: secret_key_def)
  obtain b ak where l: "?m k = Some b" "ae_dec_secret E b = Some si" "accessor_key E sa r (si_accessor si) ak" "view_valid valid v ak"
    using live unfolding live_secret_def by blast
  have get: "get_secret_id_storage_entry E ?v (re_secret_id_prefix r) rh sh a = (Ok (Some si), a)"
    using get_secret_stored [OF R(1) h(3,4)] k(2) h(5) l(1,2) by simp
  obtain s1 where s1: "delete_secret_id_accessor_entry E ?v (si_accessor si) (re_secret_id_prefix r) a =
      (Ok (), a\<lparr>as_store := s1\<rparr>)" "ready s1"
    "\<And>k'. view_valid valid v k' \<Longrightarrow> view_stored stored v s1 k' = (?m(ak := None)) k'"
    using delete_accessor_stored [OF R l(3,4)] by blast
  obtain s2 where s2: "astore_op (view_delete sops v k) (a\<lparr>as_store := s1\<rparr>) = (Ok (), a\<lparr>as_store := s2\<rparr>)" "ready s2"
    "\<And>k'. view_valid valid v k' \<Longrightarrow> view_stored stored v s2 k' = ((view_stored stored v s1)(k := None)) k'"
    using app_delete [of "a\<lparr>as_store := s1\<rparr>" k] s1(2) k(2) by auto
  have "delete_role_secret_id_destory sops E (a, req) = (Ok None, (a\<lparr>as_store := s2\<rparr>, req))"
    using get_role_at [OF R(1) req(1) r(1)] req h get s1(1) s2(1)
    by (simp add: delete_role_secret_id_destory_def on_state_def op_bind_def with_role_def request_storage_def astore_view)
  then show ?thesis using that [OF _ s2(2) l(3)] s1(3) s2(3) by simp
qed

lemma destroyed_secret_id_gone:
  assumes R: "ready (as_store a)" "as_salt a = Some sa"
    and req: "rq_storage req = Some v" "get_data_as_str (ae_parsers E) req ''role_name'' = Ok name"
      "get_data_as_str (ae_parsers E) req ''secret_id'' = Ok secret_id"
    and r: "role_at E (view_valid valid v) (view_stored stored v (as_store a)) name r" "known_prefix r" "re_bind_secret_id r"
      "names_role E (view_valid valid v) (view_stored stored v (as_store a)) sa i r"
    and k: "secret_key E r secret_id k" "view_valid valid v k"
    and live: "live_secret E (view_valid valid v) (view_stored stored v (as_store a)) sa r k si"
  shows "\<exists>a1. delete_role_secret_id_destory sops E (a, req) = (Ok None, (a1, req)) \<and>
    (\<forall>req2. presents E v i secret_id req2 \<longrightarrow>
      approle_login sops E (a1, req2) = (Err (ErrResponse ''invalid secret id''), (a1, req2)))"
proof -
  obtain s' ak where s': "delete_role_secret_id_destory sops E (a, req) = (Ok None, (a\<lparr>as_store := s'\<rparr>, req))" "ready s'"
    "accessor_key E sa r (si_accessor si) ak"
    "\<And>k'. view_valid valid v k' \<Longrightarrow> view_stored stored v s' k' = ((view_stored stored v (as_store a))(ak := None, k := None)) k'"
    using destroy_secret_id [OF R req r(1,2) k live] by metis
  let ?a1 = "a\<lparr>as_store := s'\<rparr>"
  have n: "names_role E (view_valid valid v) (view_stored stored v (as_store ?a1)) sa i r"
    by (rule names_role_frame [OF r(4,2) k(1) s'(3)]) (use s'(4) in simp)
  have "approle_login sops E (?a1, req2) = (Err (ErrResponse ''invalid secret id''), (?a1, req2))"
    if "presents E v i secret_id req2" for req2
    using login_gone [OF _ _ that n r(3) k] s'(2) s'(4) [OF k(2)] R(2) by simp
  then show ?thesis using s'(1) by blast
qed

end

text \<open>
  C32: a secret identifier that was made for a role logs in to it. A request within the limits of the role
  (\<open>requested_secret_id\<close>) makes a secret identifier, which the response names; a login that presents it is decided by
  the addresses alone and gives the client the policies and times to live of the role with the metadata of the request.
  The outcome does not depend on the expiration time of the secret identifier.
\<close>

theorem created_secret_id_logs_in:
  assumes "app_ready C ser de root a" "as_salt a = Some sa" "app_codecs E" "app_clock_ok E"
    and "rq_storage req = Some v" "get_data_as_str (ae_parsers E) req ''role_name'' = Ok name"
    and "role_at E (vault_key v) (app_contents C de root v a) name r" "re_bind_secret_id r" "known_prefix r"
      "names_role E (vault_key v) (app_contents C de root v a) sa i r"
    and "requested_secret_id E req r = Ok (cs, ts, n, t)" "requested_metadata E req md" "t div NANOS < 2 ^ 63"
    and "ae_uuid E (as_uuids a) \<noteq> []" "secret_key E r (ae_uuid E (as_uuids a)) k" "vault_key v k" "app_contents C de root v a k = None"
    and "accessor_key E sa r (ae_uuid E (Suc (as_uuids a))) ak" "vault_key v ak"
  shows "\<exists>a1 si. write_role_secret_id (vault_ops C ser de root) E (a, req) =
      (Ok (Some (data_response (Some (secret_id_data (ae_uuid E (as_uuids a)) (si\<lparr>si_ttl := t\<rparr>))))), (a1, req)) \<and>
    app_ready C ser de root a1 \<and> live_secret E (vault_key v) (app_contents C de root v a1) sa r k si \<and>
    si_num_uses si = n \<and> si_cidr_list si = cs \<and> si_metadata si = md \<and>
    (\<forall>req2. presents E v i (ae_uuid E (as_uuids a)) req2 \<longrightarrow>
      (\<exists>now. fst (approle_login (vault_ops C ser de root) E (a1, req2)) = login_outcome E now req2 r si))"
  using assms by (rule fbv.created_secret_id_login)

text \<open>
  A destroyed secret identifier does not log in. The request to destroy a secret identifier of a role succeeds, and
  every later login that presents it is refused and changes nothing.
\<close>

theorem destroyed_secret_id_refused:
  assumes "app_ready C ser de root a" "as_salt a = Some sa"
    and "rq_storage req = Some v" "get_data_as_str (ae_parsers E) req ''role_name'' = Ok name"
      "get_data_as_str (ae_parsers E) req ''secret_id'' = Ok secret_id"
    and "role_at E (vault_key v) (app_contents C de root v a) name r" "known_prefix r" "re_bind_secret_id r"
      "names_role E (vault_key v) (app_contents C de root v a) sa i r"
    and "secret_key E r secret_id k" "vault_key v k" "live_secret E (vault_key v) (app_contents C de root v a) sa r k si"
  shows "\<exists>a1. delete_role_secret_id_destory (vault_ops C ser de root) E (a, req) = (Ok None, (a1, req)) \<and>
    (\<forall>req2. presents E v i secret_id req2 \<longrightarrow>
      approle_login (vault_ops C ser de root) E (a1, req2) = (Err (ErrResponse ''invalid secret id''), (a1, req2)))"
  using assms by (rule fbv.destroyed_secret_id_gone)

section \<open>Limits of a secret identifier\<close>

definition with_mask :: "string \<Rightarrow> string" where
  "with_mask c = (if CHR ''/'' \<in> set c then c else c @ ''/32'')"

lemma verify_cidr_inclusion:
  assumes "ip_contract (ae_ip E)" "verify_cidr_role_secret_id_subset E cs rs = Ok ()" "rs \<noteq> []" "c \<in> set cs"
  shows "\<exists>c' \<in> set rs. block (ae_ip E) c \<subseteq> block (ae_ip E) (with_mask c')"
proof -
  have "cs \<noteq> []" using assms(4) by auto
  then have "subset_blocks (ae_ip E) (map with_mask rs) cs = Ok True"
    using assms(2,3)
    by (auto simp: verify_cidr_role_secret_id_subset_def with_mask_def [abs_def] Let_def res_bind_Ok_iff split: if_splits)
  from subset_blocks_included [OF assms(1) this] show ?thesis using assms(4) by auto
qed

text \<open>What an entry has to keep of its role: at most its uses, its time to live and its blocks of addresses.\<close>

definition within_blocks :: "app_env \<Rightarrow> string list \<Rightarrow> string list \<Rightarrow> bool" where
  "within_blocks E cs rs \<longleftrightarrow> rs \<noteq> [] \<longrightarrow> (\<forall>c \<in> set cs. \<exists>c' \<in> set rs. block (ae_ip E) c \<subseteq> block (ae_ip E) (with_mask c'))"

definition within_role :: "app_env \<Rightarrow> role_entry \<Rightarrow> secret_id_entry \<Rightarrow> bool" where
  "within_role E r si \<longleftrightarrow>
     (0 < re_secret_id_num_uses r \<longrightarrow> 0 < si_num_uses si \<and> si_num_uses si \<le> re_secret_id_num_uses r) \<and>
     (0 < re_secret_id_ttl r div NANOS \<longrightarrow> 0 < si_ttl si div NANOS \<and> si_ttl si div NANOS \<le> re_secret_id_ttl r div NANOS \<and>
       si_expiration_time si \<le> si_creation_time si + int (si_ttl si)) \<and>
     within_blocks E (si_cidr_list si) (re_secret_id_bound_cidrs r) \<and>
     within_blocks E (si_token_cidr_list si) (map (show_sock_addr (ae_ip E)) (tp_token_bound_cidrs (re_token_params r)))"

lemma requested_within:
  assumes "ip_contract (ae_ip E)" "requested_secret_id E req r = Ok (cs, ts, n, t)"
    and "si_num_uses si = n" "si_ttl si = t" "si_cidr_list si = cs" "si_token_cidr_list si = ts"
  shows "within_role E r (timed now si)"
proof -
  have q: "verify_cidr_role_secret_id_subset E cs (re_secret_id_bound_cidrs r) = Ok ()"
    "verify_cidr_role_secret_id_subset E ts (map (show_sock_addr (ae_ip E)) (tp_token_bound_cidrs (re_token_params r))) = Ok ()"
    "requested_uses E req r = Ok n" "requested_secret_ttl E req r = Ok t"
    using assms(2) by (auto simp: requested_secret_id_def res_bind_Ok_iff)
  have "0 < re_secret_id_num_uses r \<Longrightarrow> 0 < n \<and> n \<le> re_secret_id_num_uses r"
    using q(3) by (auto simp: requested_uses_def split: res.splits option.splits if_splits)
  moreover have "0 < re_secret_id_ttl r div NANOS \<Longrightarrow> 0 < t div NANOS \<and> t div NANOS \<le> re_secret_id_ttl r div NANOS"
    using q(4) by (auto simp: requested_secret_ttl_def split: res.splits option.splits if_splits)
  moreover have "within_blocks E cs (re_secret_id_bound_cidrs r)"
    "within_blocks E ts (map (show_sock_addr (ae_ip E)) (tp_token_bound_cidrs (re_token_params r)))"
    using verify_cidr_inclusion [OF assms(1) q(1)] verify_cidr_inclusion [OF assms(1) q(2)] unfolding within_blocks_def by blast+
  moreover have "0 < t div NANOS \<Longrightarrow> derive_secret_id_ttl t div NANOS \<noteq> 0" "derive_secret_id_ttl t \<le> t"
    by (simp_all add: derive_secret_id_ttl_def MAX_LEASE_DURATION_SECS_def from_secs_def NANOS_def)
  ultimately show ?thesis
    using assms(3-) by (simp add: within_role_def timed_def Let_def)
qed

context storage_view
begin

lemma registered_entry:
  assumes R: "ready (as_store a)" "as_salt a = Some sa" and k: "secret_key E r secret_id k" "view_valid valid v k" "known_prefix r"
    and ak: "accessor_key E sa r (ae_uuid E (as_uuids a)) ak" "view_valid valid v ak"
    and run: "register_secret_id_entry E (view_storage (astore sops) v) (re_name r) secret_id (re_hmac_key r) (re_secret_id_prefix r) si a =
      (Ok si', a')"
  shows "view_stored stored v (as_store a) k = None"
    "si' = (timed (ae_clock E (as_reads a)) si)\<lparr>si_accessor := ae_uuid E (as_uuids a)\<rparr>"
    "view_stored stored v (as_store a') k = Some (ae_enc_secret E si')"
proof -
  let ?m = "view_stored stored v (as_store a)" and ?v = "view_storage (astore sops) v"
  obtain rh sh where h: "create_hmac E (re_hmac_key r) (re_name r) = Ok rh" "create_hmac E (re_hmac_key r) secret_id = Ok sh"
    "rh \<noteq> []" "sh \<noteq> []" "k = secret_id_index (re_secret_id_prefix r) rh sh"
    using k(1) by (auto simp: secret_key_def)
  have "fst (not_registered E ?v (re_secret_id_prefix r) rh sh a) = Ok ()"
    using run h(1,2) by (auto simp: register_secret_id_entry_def op_bind_def split: res.splits prod.splits)
  then show none: "?m k = None"
    using get_secret_stored [OF R(1) h(3,4), of "re_secret_id_prefix r" E] k(2) h(5)
    by (auto simp: not_registered_def op_bind_def split: option.splits)
  obtain s' x where e: "register_secret_id_entry E ?v (re_name r) secret_id (re_hmac_key r) (re_secret_id_prefix r) si a =
      (Ok ((timed (ae_clock E (as_reads a)) si)\<lparr>si_accessor := ae_uuid E (as_uuids a)\<rparr>),
       a\<lparr>as_store := s', as_uuids := Suc (as_uuids a), as_reads := Suc (as_reads a)\<rparr>)"
    "\<And>k'. view_valid valid v k' \<Longrightarrow> view_stored stored v s' k' = (?m(ak \<mapsto> ae_enc_accessor E x,
      k \<mapsto> ae_enc_secret E ((timed (ae_clock E (as_reads a)) si)\<lparr>si_accessor := ae_uuid E (as_uuids a)\<rparr>))) k'"
    using register_effect [OF R k ak none refl] by metis
  show "si' = (timed (ae_clock E (as_reads a)) si)\<lparr>si_accessor := ae_uuid E (as_uuids a)\<rparr>" using run e(1) by simp
  then show "view_stored stored v (as_store a') k = Some (ae_enc_secret E si')" using run e(1) e(2) [OF k(2)] by auto
qed

lemma accepted_secret_id_within:
  assumes R: "ready (as_store a)" "as_salt a = Some sa" "ip_contract (ae_ip E)"
    and req: "rq_storage req = Some v" "get_data_as_str (ae_parsers E) req ''role_name'' = Ok name"
    and r: "role_at E (view_valid valid v) (view_stored stored v (as_store a)) name r" "known_prefix r"
    and k: "secret_key E r secret_id k" "view_valid valid v k"
    and ak: "accessor_key E sa r (ae_uuid E (as_uuids a)) ak" "view_valid valid v ak"
    and run: "update_role_secret_id_common sops E req secret_id a = (Ok x, a')"
  shows "\<exists>si. view_stored stored v (as_store a) k = None \<and> view_stored stored v (as_store a') k = Some (ae_enc_secret E si) \<and>
    within_role E r si \<and> re_bind_secret_id r \<and> x = Some (data_response (Some (secret_id_data secret_id si)))"
proof -
  let ?v = "view_storage (astore sops) v"
  obtain cs ts n t where q: "requested_secret_id E req r = Ok (cs, ts, n, t)" and b: "re_bind_secret_id r"
    using run get_role_at [OF R(1) req(1) r(1)] req(2)
    by (auto simp: update_role_secret_id_common_def with_role_def op_bind_def op_res_def split: res.splits if_splits)
  let ?a = "a\<lparr>as_reads := Suc (Suc (Suc (as_reads a)))\<rparr>"
  let ?s = "\<lparr>si_accessor = [], si_num_uses = n, si_ttl = t, si_creation_time = ae_clock E (as_reads a),
    si_expiration_time = ae_clock E (Suc (as_reads a)), si_last_updated_time = ae_clock E (Suc (Suc (as_reads a))),
    si_metadata = Map.empty, si_cidr_list = cs, si_token_cidr_list = ts\<rparr>"
  obtain si si' where s: "set_field (ae_parsers E) req ''metadata'' (as_map (fst (ae_parsers E))) (\<lambda>m si. si\<lparr>si_metadata := m\<rparr>) ?s = Ok si"
    "register_secret_id_entry E ?v (re_name r) secret_id (re_hmac_key r) (re_secret_id_prefix r) si ?a = (Ok si', a')"
    "x = Some (data_response (Some (secret_id_data secret_id si')))"
    using run get_role_at [OF R(1) req(1) r(1)] req q b
    by (auto simp: update_role_secret_id_common_def with_role_def op_bind_def op_res_def op_return_def request_storage_def
        secret_id_entry_default_def app_now_def split: res.splits if_splits prod.splits)
  have f: "si_num_uses si = n" "si_ttl si = t" "si_cidr_list si = cs" "si_token_cidr_list si = ts"
    using s(1) by (auto simp: set_field_def split: res.splits option.splits)
  have "within_role E r (timed now si)" for now by (rule requested_within [OF R(3) q f])
  then have "within_role E r ((timed now si)\<lparr>si_accessor := u\<rparr>)" for now u by (simp add: within_role_def)
  moreover have "ready (as_store ?a)" "as_salt ?a = Some sa" "accessor_key E sa r (ae_uuid E (as_uuids ?a)) ak" using R(1,2) ak(1) by simp_all
  note registered_entry [OF this(1,2) k r(2) this(3) ak(2) s(2)]
  ultimately show ?thesis using s(3) b by auto
qed

end

text \<open>
  C34: an entry is made within the limits of its role. When the operation behind the requests for a secret identifier,
  drawn or chosen by the client, succeeds, the secret identifier was not registered and the storage has an entry for it
  with: at least one and at most as many uses as a role with a limit of uses gives; under a role with a time to live, a
  time to live that is not zero and, in whole seconds, not longer, and an expiration time at most that long after the
  creation; blocks of addresses, and blocks for the tokens, each inside a block of the role when the role has some,
  where an address of the role without a mask counts as a block of prefix length 32, for version 6 as well. This is about
  the entry: the login reads its uses and its blocks, and does not look at its expiration time nor at the blocks for
  the tokens.
\<close>

theorem secret_id_within_role:
  assumes "app_ready C ser de root a" "as_salt a = Some sa" "ip_contract (ae_ip E)"
    and "rq_storage req = Some v" "get_data_as_str (ae_parsers E) req ''role_name'' = Ok name"
    and "role_at E (vault_key v) (app_contents C de root v a) name r" "known_prefix r"
    and "secret_key E r secret_id k" "vault_key v k"
    and "accessor_key E sa r (ae_uuid E (as_uuids a)) ak" "vault_key v ak"
    and "update_role_secret_id_common (vault_ops C ser de root) E req secret_id a = (Ok x, a')"
  shows "\<exists>si. app_contents C de root v a k = None \<and> app_contents C de root v a' k = Some (ae_enc_secret E si) \<and>
    within_role E r si \<and> re_bind_secret_id r \<and> x = Some (data_response (Some (secret_id_data secret_id si)))"
  using assms by (rule fbv.accepted_secret_id_within)

section \<open>Identifiers of roles\<close>

text \<open>The index: the identifier of every stored role is set and leads back to the role.\<close>

definition indexed_at :: "app_env \<Rightarrow> (string \<Rightarrow> bytes option) \<Rightarrow> string \<Rightarrow> string \<Rightarrow> bool" where
  "indexed_at E m h name \<longleftrightarrow>
     (\<exists>x ri. m (role_id_key h) = Some x \<and> ae_dec_role_id E x = Some ri \<and> to_lowercase (ri_name ri) = to_lowercase name)"

definition indexed :: "app_env \<Rightarrow> (string \<Rightarrow> bytes option) \<Rightarrow> salt \<Rightarrow> string \<Rightarrow> string \<Rightarrow> bool" where
  "indexed E m sa i name \<longleftrightarrow> i \<noteq> [] \<and> (\<exists>h. salted_id (ae_salt E) sa i = Ok h \<and> indexed_at E m h name)"

definition index_inv :: "app_env \<Rightarrow> (string \<Rightarrow> bool) \<Rightarrow> (string \<Rightarrow> bytes option) \<Rightarrow> salt \<Rightarrow> bool" where
  "index_inv E ok m sa \<longleftrightarrow>
     (\<forall>n b r. ok (role_key n) \<longrightarrow> m (role_key n) = Some b \<longrightarrow> ae_dec_role E b = Some r \<longrightarrow> indexed E m sa (re_role_id r) n)"

text \<open>
  Salted hashes are hexadecimal digits, hence parts of keys of the view. Different identifiers may well have the same hash:
  the index then leads to one of the roles only, and the check of \<open>set_role\<close> refuses the other.
\<close>

definition salt_keys :: "app_env \<Rightarrow> (string \<Rightarrow> bool) \<Rightarrow> salt \<Rightarrow> bool" where
  "salt_keys E ok sa \<longleftrightarrow> (\<forall>i h. salted_id (ae_salt E) sa i = Ok h \<longrightarrow> ok (role_id_key h))"

lemma role_key_eq [simp]: "role_key a = role_key b \<longleftrightarrow> to_lowercase a = to_lowercase b" "role_key n \<noteq> role_id_key h"
  "role_id_key h \<noteq> role_key n" "role_id_key h = role_id_key h' \<longleftrightarrow> h = h'"
  by (auto simp: role_key_def role_id_key_def)

lemma indexed_at_unique: "indexed_at E m h n \<Longrightarrow> indexed_at E m h n' \<Longrightarrow> to_lowercase n = to_lowercase n'"
  by (auto simp: indexed_at_def)

text \<open>What \<open>set_role\<close> leaves in the storage keeps the index, on each of its three ways.\<close>

lemma index_inv_set:
  assumes inv: "index_inv E ok m sa" and d: "salt_keys E ok sa" and c: "app_codecs E"
    and name: "re_role_id role \<noteq> []" "salted_id (ae_salt E) sa (re_role_id role) = Ok h"
    and free: "\<And>b. m (role_id_key h) = Some b \<Longrightarrow> ae_dec_role_id E b = Some \<lparr>ri_name = name\<rparr>"
    and old: "\<And>h' n. salted_id (ae_salt E) sa previous = Ok h' \<Longrightarrow> previous \<noteq> [] \<Longrightarrow> indexed_at E m h' n \<Longrightarrow>
      to_lowercase n = to_lowercase name"
    and x: "ae_dec_role_id E x = Some ri" "to_lowercase (ri_name ri) = to_lowercase name"
    and m': "\<And>k. ok k \<Longrightarrow> m' k = (m(role_key name \<mapsto> ae_enc_role E role, role_id_key h \<mapsto> x)) k \<or>
      (\<exists>h'. k = role_id_key h' \<and> h' \<noteq> h \<and> previous \<noteq> [] \<and> salted_id (ae_salt E) sa previous = Ok h')"
  shows "index_inv E ok m' sa"
  unfolding index_inv_def
proof (intro allI impI)
  fix n b r assume n: "ok (role_key n)" "m' (role_key n) = Some b" "ae_dec_role E b = Some r"
  have okh: "ok (role_id_key h')" if "salted_id (ae_salt E) sa j = Ok h'" for j h'
    using d that unfolding salt_keys_def by blast
  have dec: "ae_dec_role E (ae_enc_role E role) = stored_role (ae_ip E) role" using c by (simp add: app_codecs_def)
  have mr: "m' (role_key n) = (m(role_key name \<mapsto> ae_enc_role E role)) (role_key n)" using m' [OF n(1)] by auto
  show "indexed E m' sa (re_role_id r) n"
  proof (cases "to_lowercase n = to_lowercase name")
    case True
    then have "re_role_id r = re_role_id role"
      using mr n(2,3) dec by (auto simp: stored_role_def bind_eq_Some_conv)
    moreover have "m' (role_id_key h) = Some x" using m' [OF okh [OF name(2)]] by auto
    ultimately show ?thesis using name x True by (auto simp: indexed_def indexed_at_def)
  next
    case False
    then have "m (role_key n) = Some b" using mr n(2) by simp
    then have "indexed E m sa (re_role_id r) n" using inv n unfolding index_inv_def by blast
    then obtain g where g: "re_role_id r \<noteq> []" "salted_id (ae_salt E) sa (re_role_id r) = Ok g" "indexed_at E m g n"
      by (auto simp: indexed_def)
    have "g \<noteq> h" using g(3) free False by (fastforce simp: indexed_at_def)
    moreover have "salted_id (ae_salt E) sa previous \<noteq> Ok g" if "previous \<noteq> []" using old [OF _ that g(3)] False by blast
    ultimately have "m' (role_id_key g) = m (role_id_key g)" using m' [OF okh [OF g(2)]] by auto
    then show ?thesis using g by (auto simp: indexed_def indexed_at_def)
  qed
qed

definition good_roles :: "app_env \<Rightarrow> (string \<Rightarrow> bool) \<Rightarrow> ('s \<Rightarrow> bool) \<Rightarrow> ('s \<Rightarrow> string \<Rightarrow> bytes option) \<Rightarrow> salt \<Rightarrow> 's astate \<Rightarrow> bool" where
  "good_roles E ok ready m sa a \<longleftrightarrow> ready (as_store a) \<and> as_salt a = Some sa \<and> index_inv E ok (m (as_store a)) sa"

lemma good_roles_counters [simp]:
  "good_roles E ok rd m sa (a\<lparr>as_uuids := u\<rparr>) = good_roles E ok rd m sa a"
  "good_roles E ok rd m sa (a\<lparr>as_reads := n\<rparr>) = good_roles E ok rd m sa a"
  by (simp_all add: good_roles_def)

context storage_view
begin

lemma set_role_refused:
  assumes "good_roles E (view_valid valid v) ready (view_stored stored v) sa a" "salt_keys E (view_valid valid v) sa"
    and "rq_storage req = Some v" "set_role E sops req name role previous a = (x, a')"
  obtains "a' = a" | h where "name \<noteq> []" "validate_role_constraints role = Ok ()" "re_role_id role \<noteq> []"
    "salted_id (ae_salt E) sa (re_role_id role) = Ok h"
    "\<And>b. view_stored stored v (as_store a) (role_id_key h) = Some b \<Longrightarrow> ae_dec_role_id E b = Some \<lparr>ri_name = name\<rparr>"
    "get_role_id E sops req (re_role_id role) a = (Ok (map_option (\<lambda>_. \<lparr>ri_name = name\<rparr>) (view_stored stored v (as_store a) (role_id_key h))), a)"
proof (cases "name = [] \<or> validate_role_constraints role \<noteq> Ok () \<or> re_role_id role = [] \<or>
    (\<forall>h. salted_id (ae_salt E) sa (re_role_id role) \<noteq> Ok h)")
  case True
  have "as_salt a = Some sa" using assms(1) by (simp add: good_roles_def)
  then have "a' = a"
    using assms(4) True
    by (cases "validate_role_constraints role"; cases "salted_id (ae_salt E) sa (re_role_id role)")
      (auto simp: set_role_def op_bind_def get_role_id_def role_id_index_def app_salt_id_def app_salt_def op_res_def split: if_splits)
  then show ?thesis by (rule that(1))
next
  case False
  then obtain h where h: "salted_id (ae_salt E) sa (re_role_id role) = Ok h" "view_valid valid v (role_id_key h)"
    using assms(2) by (auto simp: salt_keys_def)
  have g: "get_role_id E sops req (re_role_id role) a =
    ((case view_stored stored v (as_store a) (role_id_key h) of
        None \<Rightarrow> Ok None
      | Some x \<Rightarrow> (case ae_dec_role_id E x of None \<Rightarrow> Err (External SerdeJson ''invalid role id entry'')
                  | Some y \<Rightarrow> Ok (Some y))), a)"
    using get_role_id_stored [OF _ assms(3) _ _ h] assms(1) False by (simp add: good_roles_def)
  show ?thesis
  proof (cases "\<forall>b. view_stored stored v (as_store a) (role_id_key h) = Some b \<longrightarrow> ae_dec_role_id E b = Some \<lparr>ri_name = name\<rparr>")
    case True
    then have "get_role_id E sops req (re_role_id role) a = (Ok (map_option (\<lambda>_. \<lparr>ri_name = name\<rparr>) (view_stored stored v (as_store a) (role_id_key h))), a)"
      using g by (cases "view_stored stored v (as_store a) (role_id_key h)") auto
    then show ?thesis using that(2) [OF _ _ _ h(1)] True False by simp
  next
    case ex: False
    then obtain b where b: "view_stored stored v (as_store a) (role_id_key h) = Some b" "ae_dec_role_id E b \<noteq> Some \<lparr>ri_name = name\<rparr>"
      by blast
    have "a' = a"
    proof (cases "ae_dec_role_id E b")
      case None
      then show ?thesis using g b(1) assms(4) False by (auto simp: set_role_def op_bind_def)
    next
      case (Some ri)
      then have "ri_name ri \<noteq> name" using b(2) by (cases ri) auto
      then show ?thesis using g b(1) Some assms(4) False by (auto simp: set_role_def op_bind_def)
    qed
    then show ?thesis by (rule that(1))
  qed
qed

lemma set_role_keeps_index:
  assumes good: "good_roles E (view_valid valid v) ready (view_stored stored v) sa a" and d: "salt_keys E (view_valid valid v) sa"
    and c: "app_codecs E" and req: "rq_storage req = Some v" and name: "view_valid valid v (role_key name)"
    and prev: "previous \<noteq> [] \<Longrightarrow> indexed E (view_stored stored v (as_store a)) sa previous name"
    and run: "set_role E sops req name role previous a = (x, a')"
  shows "good_roles E (view_valid valid v) ready (view_stored stored v) sa a'"
  using good d req run
proof (cases rule: set_role_refused)
  case 1
  then show ?thesis using good by simp
next
  case (2 h)
  let ?m = "view_stored stored v (as_store a)" and ?ok = "view_valid valid v"
  have R: "ready (as_store a)" "as_salt a = Some sa" "index_inv E ?ok ?m sa" using good by (simp_all add: good_roles_def)
  have okh: "?ok (role_id_key h')" if "salted_id (ae_salt E) sa j = Ok h'" for j h'
    using d that unfolding salt_keys_def by blast
  obtain hp where hp: "previous \<noteq> [] \<Longrightarrow> salted_id (ae_salt E) sa previous = Ok hp" "previous \<noteq> [] \<Longrightarrow> indexed_at E ?m hp name"
    using prev by (cases "previous = []") (auto simp: indexed_def)
  let ?del = "previous \<noteq> [] \<and> previous \<noteq> re_role_id role"
  obtain s1 where s1: "(if ?del then delete_role_id E sops req previous else op_return ()) a = (Ok (), a\<lparr>as_store := s1\<rparr>)" "ready s1"
    "\<And>k. ?ok k \<Longrightarrow> view_stored stored v s1 k = (if ?del then ?m(role_id_key hp := None) else ?m) k"
  proof (cases ?del)
    case True
    then show ?thesis
      using app_delete [OF R(1) okh [OF hp(1)]] R(2) hp(1) that
      by (auto simp: delete_role_id_def role_id_index_def op_bind_def app_salt_id_Ok rq_astore [OF req])
  next
    case False
    then show ?thesis using that [of "as_store a"] R(1) by auto
  qed
  obtain s2 where s2: "astore_op (view_put sops v \<lparr>se_key = role_key name, se_value = ae_enc_role E role\<rparr>) (a\<lparr>as_store := s1\<rparr>) =
      (Ok (), a\<lparr>as_store := s2\<rparr>)" "ready s2"
    "\<And>k. ?ok k \<Longrightarrow> view_stored stored v s2 k = ((view_stored stored v s1)(role_key name \<mapsto> ae_enc_role E role)) k"
    using app_put [of "a\<lparr>as_store := s1\<rparr>" "role_key name"] s1(2) name by auto
  have step: "set_role E sops req name role previous a =
      (if previous \<noteq> [] \<and> previous = re_role_id role then (Ok (), a\<lparr>as_store := s2\<rparr>)
       else set_role_id E sops req (re_role_id role) \<lparr>ri_name = name\<rparr> (a\<lparr>as_store := s2\<rparr>))"
    using 2 s1(1) s2(1)
    by (cases "?m (role_id_key h)") (simp_all add: set_role_def op_bind_def rq_astore [OF req])
  have old: "to_lowercase n = to_lowercase name"
    if "salted_id (ae_salt E) sa previous = Ok h'" "previous \<noteq> []" "indexed_at E ?m h' n" for h' n
    using indexed_at_unique [OF that(3)] hp that(1,2) by auto
  show ?thesis
  proof (cases "previous \<noteq> [] \<and> previous = re_role_id role")
    case True
    then obtain y ri where y: "?m (role_id_key h) = Some y" "ae_dec_role_id E y = Some ri" "to_lowercase (ri_name ri) = to_lowercase name"
      using hp 2(4) by (auto simp: indexed_at_def)
    have a': "a' = a\<lparr>as_store := s2\<rparr>" using run step True by auto
    have "index_inv E ?ok (view_stored stored v s2) sa"
      by (rule index_inv_set [OF R(3) d c 2(3,4,5) old y(2,3)]) (use s1(3) s2(3) y(1) True in auto)
    then show ?thesis using s2(2) R(2) unfolding a' by (simp add: good_roles_def)
  next
    case False
    let ?x = "ae_enc_role_id E \<lparr>ri_name = name\<rparr>"
    obtain s3 where s3: "astore_op (view_put sops v \<lparr>se_key = role_id_key h, se_value = ?x\<rparr>) (a\<lparr>as_store := s2\<rparr>) = (Ok (), a\<lparr>as_store := s3\<rparr>)"
      "ready s3" "\<And>k. ?ok k \<Longrightarrow> view_stored stored v s3 k = ((view_stored stored v s2)(role_id_key h \<mapsto> ?x)) k"
      using app_put [of "a\<lparr>as_store := s2\<rparr>" "role_id_key h" ?x] s2(2) okh [OF 2(4)] by auto
    have a': "a' = a\<lparr>as_store := s3\<rparr>"
      using run step False s3(1) R(2) 2(4)
      by (auto simp: set_role_id_def role_id_index_def op_bind_def app_salt_id_Ok rq_astore [OF req])
    have x: "ae_dec_role_id E ?x = Some \<lparr>ri_name = name\<rparr>" "to_lowercase (ri_name \<lparr>ri_name = name\<rparr>) = to_lowercase name"
      using c by (simp_all add: app_codecs_def)
    have "index_inv E ?ok (view_stored stored v s3) sa"
      by (rule index_inv_set [OF R(3) d c 2(3,4,5) old x]) (use s1(3) s2(3) s3(3) hp(1) in auto)
    then show ?thesis using s3(2) R(2) unfolding a' by (simp add: good_roles_def)
  qed
qed

end

text \<open>A property of the state after an operation, whether it succeeds or not.\<close>

definition after :: "('s, 'a) op \<Rightarrow> 's \<Rightarrow> ('s \<Rightarrow> bool) \<Rightarrow> bool" where
  "after m s Q \<longleftrightarrow> Q (snd (m s))"

lemma after_bind:
  assumes "after m s Q" "\<And>y s1. m s = (Ok y, s1) \<Longrightarrow> Q s1 \<Longrightarrow> after (f y) s1 Q"
  shows "after (op_bind m f) s Q"
  using assms by (auto simp: after_def op_bind_def split: res.splits prod.splits)

lemma after_simps [simp]:
  "after (op_res r) s Q = Q s" "after (op_return y) s Q = Q s" "after (op_fail e) s Q = Q s"
  by (simp_all add: after_def)

lemma op_bind_return: "op_bind (op_return y) f = f y"
  by (simp add: fun_eq_iff op_bind_def)

lemma after_op_res: "(\<And>y. r = Ok y \<Longrightarrow> after (f y) s Q) \<Longrightarrow> Q s \<Longrightarrow> after (op_bind (op_res r) f) s Q"
  by (cases r) (auto simp: after_def op_bind_def)

section \<open>The handlers of roles keep the index\<close>

lemmas with_defs = with_default_prefix_def with_old_cidrs_def with_cidr_list_def with_period_def with_policies_def
  upd_role_params_def

lemma with_keeps [simp]:
  "re_role_id (with_default_prefix r) = re_role_id r" "re_name (with_default_prefix r) = re_name r"
  "re_role_id (with_old_cidrs r) = re_role_id r" "re_name (with_old_cidrs r) = re_name r"
  "re_role_id (with_cidr_list r) = re_role_id r" "re_name (with_cidr_list r) = re_name r"
  "re_role_id (with_period r) = re_role_id r" "re_name (with_period r) = re_name r"
  "re_role_id (with_policies r) = re_role_id r" "re_name (with_policies r) = re_name r"
  by (simp_all add: with_defs)

lemma loaded_role_keeps [simp]:
  "re_role_id (loaded_role n r) = re_role_id r" "to_lowercase (re_name (loaded_role n r)) = to_lowercase n"
  by (simp_all add: loaded_role_def)

lemma role_parts_keep:
  "role_policies E req ps r = Ok r' \<Longrightarrow> re_role_id r' = re_role_id r \<and> re_name r' = re_name r"
  "role_period E req d r = Ok r' \<Longrightarrow> re_role_id r' = re_role_id r \<and> re_name r' = re_name r"
  "role_local_ids E req create r = Ok r' \<Longrightarrow> re_role_id r' = re_role_id r \<and> re_name r' = re_name r"
  by (auto simp: role_policies_def role_period_def role_local_ids_def upd_role_params_def
      dest!: set_field_Ok split: if_splits res.splits option.splits bool.splits)

lemma role_before_id_keeps:
  assumes "role_before_id E req create r = Ok r'"
  shows "re_role_id r' = re_role_id r" "re_name r' = re_name r"
  using assms by (auto simp: role_before_id_def res_bind_Ok_iff Let_def dest!: role_parts_keep)

lemma set_or_default_Ok: "set_or_default P req create key conv upd p = Ok q \<Longrightarrow> q = p \<or> (\<exists>x. q = upd x p)"
  by (auto simp: set_or_default_def Let_def res_bind_Ok_iff split: res.splits option.splits if_splits)

lemma role_cidrs_keeps: "role_cidrs E req r = Ok r' \<Longrightarrow> re_role_id r' = re_role_id r \<and> re_name r' = re_name r"
  by (auto simp: role_cidrs_def res_bind_Ok_iff split: res.splits option.splits if_splits)

lemma role_after_id_keeps:
  assumes "role_after_id E req create r = Ok r'"
  shows "re_role_id r' = re_role_id r" "re_name r' = re_name r"
  using assms
  by (auto simp: role_after_id_def res_bind_Ok_iff dest!: set_or_default_Ok role_cidrs_keeps split: if_splits)

lemma role_with_id_keeps:
  "role_with_id E req create r a = (Ok r', a') \<Longrightarrow> re_name r' = re_name r"
  "good_roles E ok rd m sa a \<Longrightarrow> after (role_with_id E req create r) a (good_roles E ok rd m sa)"
  "role_with_id E req create r a = (Ok r', a') \<Longrightarrow> as_store a' = as_store a"
  by (auto simp: role_with_id_def op_bind_def app_uuid_def after_def op_res_def op_return_def
      split: res.splits option.splits if_splits)

definition role_request :: "app_env \<Rightarrow> (string \<Rightarrow> bool) \<Rightarrow> barrier_view \<Rightarrow> request \<Rightarrow> bool" where
  "role_request E ok v req \<longleftrightarrow>
     rq_storage req = Some v \<and>
     (\<forall>x name. get_data (ae_parsers E) req ''role_name'' = Ok x \<longrightarrow> as_str x = Some name \<longrightarrow>
        ok (role_key name) \<and> ok (role_key (trim name)))"

lemma role_request_str:
  "role_request E ok v req \<Longrightarrow> get_data_as_str (ae_parsers E) req ''role_name'' = Ok name \<Longrightarrow> ok (role_key name)"
  by (auto simp: role_request_def get_data_as_str_def res_bind_Ok_iff split: option.splits if_splits)

lemma on_state_after: "on_state (a, req) f = (x, (a', req')) \<Longrightarrow> after (f req) a Q \<Longrightarrow> Q a'"
  by (auto simp: on_state_def after_def split: prod.splits)

context storage_view
begin

abbreviation (input) "roles E sa \<equiv> good_roles E (view_valid valid v) ready (view_stored stored v) sa"

lemma get_role_after:
  assumes "roles E sa a" "rq_storage req = Some v" "view_valid valid v (role_key name)"
  obtains x where "get_role E sops req name a = (x, a)"
    "\<And>r. x = Ok (Some r) \<Longrightarrow> \<exists>r0. r = loaded_role name r0 \<and> indexed E (view_stored stored v (as_store a)) sa (re_role_id r) name"
proof -
  have R: "ready (as_store a)" "index_inv E (view_valid valid v) (view_stored stored v (as_store a)) sa"
    using assms(1) by (simp_all add: good_roles_def)
  show ?thesis
    by (rule that, rule get_role_stored [OF R(1) assms(2,3)])
      (use R(2) assms(3) in \<open>auto simp: index_inv_def split: option.splits\<close>)
qed

lemma set_role_after:
  assumes "roles E sa a" "salt_keys E (view_valid valid v) sa" "app_codecs E" "rq_storage req = Some v"
    and "view_valid valid v (role_key name)"
    and "previous \<noteq> [] \<Longrightarrow> indexed E (view_stored stored v (as_store a)) sa previous name"
  shows "after (set_role E sops req name role previous) a (roles E sa)"
  using set_role_keeps_index [OF assms] by (cases "set_role E sops req name role previous a") (auto simp: after_def)

lemma change_role_keeps_index:
  assumes good: "roles E sa a" and d: "salt_keys E (view_valid valid v) sa" "app_codecs E"
    and req: "rq_storage req = Some v" "view_valid valid v (role_key name)"
    and f: "\<And>r r' p. f r = Ok (r', p) \<Longrightarrow> p = [] \<or> p = re_role_id r"
  shows "after (change_role sops E req name f) a (roles E sa)"
proof -
  obtain x where g: "get_role E sops req name a = (x, a)"
    "\<And>r. x = Ok (Some r) \<Longrightarrow> \<exists>r0. r = loaded_role name r0 \<and> indexed E (view_stored stored v (as_store a)) sa (re_role_id r) name"
    by (rule get_role_after [OF good req]) blast
  have set: "after (set_role E sops req name r' p) a (roles E sa)" if "x = Ok (Some r)" "f r = Ok (r', p)" for r r' p
    by (rule set_role_after [OF good d req]) (use g(2) [OF that(1)] f [OF that(2)] in auto)
  show ?thesis
    unfolding change_role_def
  proof (rule after_bind)
    show "after (get_role E sops req name) a (roles E sa)" using g(1) good by (simp add: after_def)
    fix found a1 assume "get_role E sops req name a = (Ok found, a1)"
    then have x: "x = Ok found" "a1 = a" using g(1) by auto
    show "after (case found of None \<Rightarrow> op_fail ErrLogicalPathUnsupported
      | Some r \<Rightarrow> op_bind (op_res (f r)) (\<lambda>(r', previous). op_bind (set_role E sops req name r' previous) (\<lambda>_. op_return None)))
      a1 (roles E sa)"
      using set good unfolding x
      by (cases found) (auto intro!: after_op_res after_bind split: prod.splits)
  qed
qed

lemma write_role_tail:
  assumes good: "roles E sa a" and d: "salt_keys E (view_valid valid v) sa" "app_codecs E"
    and req: "rq_storage req = Some v" "view_valid valid v (role_key name)"
    and r0: "to_lowercase (re_name r0) = to_lowercase name"
      "re_role_id r0 \<noteq> [] \<Longrightarrow> indexed E (view_stored stored v (as_store a)) sa (re_role_id r0) name"
  shows "after (op_bind (op_res (role_before_id E req new r0)) (\<lambda>r1.
         op_bind (role_with_id E req new r1) (\<lambda>r2.
         op_bind (op_res (role_after_id E req new r2)) (\<lambda>r3.
         op_bind (set_role E sops req (re_name r3) r3 (re_role_id r1)) (\<lambda>_. op_return None))))) a (roles E sa)"
proof (intro after_op_res after_bind)
  fix r1 r2 r3 a1
  assume r: "role_before_id E req new r0 = Ok r1" "role_with_id E req new r1 a = (Ok r2, a1)" "roles E sa a1"
    "role_after_id E req new r2 = Ok r3"
  have id: "re_role_id r1 = re_role_id r0" "as_store a1 = as_store a" "to_lowercase (re_name r3) = to_lowercase name"
    using role_before_id_keeps [OF r(1)] role_with_id_keeps(1,3) [OF r(2)] role_after_id_keeps [OF r(4)] r0(1) by simp_all
  then have key: "view_valid valid v (role_key (re_name r3))" using req(2) by (simp add: role_key_def)
  show "after (set_role E sops req (re_name r3) r3 (re_role_id r1)) a1 (roles E sa)"
    by (rule set_role_after [OF r(3) d req(1) key]) (use r0(2) id in \<open>auto simp: indexed_def indexed_at_def\<close>)
qed (use good role_with_id_keeps(2) in auto)

lemma write_role_keeps_index:
  assumes good: "roles E sa a" and d: "salt_keys E (view_valid valid v) sa" "app_codecs E"
    and req: "role_request E (view_valid valid v) v req" and run: "write_role sops E (a, req) = (x, (a', req'))"
  shows "roles E sa a'"
proof (rule on_state_after [OF run [unfolded write_role_def]], rule after_op_res)
  fix name
  assume "res_bind (get_data (ae_parsers E) req ''role_name'')
      (\<lambda>v. case as_str v of None \<Rightarrow> Err ErrRequestFieldInvalid | Some n \<Rightarrow> Ok n) = Ok name"
  then have n: "rq_storage req = Some v" "view_valid valid v (role_key name)"
    using req by (auto simp: role_request_def res_bind_Ok_iff split: option.splits)
  obtain y where g: "get_role E sops req name a = (y, a)"
    "\<And>r. y = Ok (Some r) \<Longrightarrow> \<exists>r0. r = loaded_role name r0 \<and> indexed E (view_stored stored v (as_store a)) sa (re_role_id r) name"
    by (rule get_role_after [OF good n]) blast
  show "after (if length name > HMAC_INPUT_LEN_MAX then
         op_fail (ErrResponse (''role_name is longer than maximum of '' @ nat_to_string HMAC_INPUT_LEN_MAX @ '' bytes''))
       else
         op_bind (get_role E sops req name) (\<lambda>found.
         op_bind (case found of
             Some r \<Rightarrow> op_return r
           | None \<Rightarrow> op_bind (app_uuid E) (\<lambda>u. op_return (role_entry_default\<lparr>re_name := to_lowercase name, re_hmac_key := u\<rparr>))) (\<lambda>r0.
         op_bind (op_res (role_before_id E req (found = None) r0)) (\<lambda>r1.
         op_bind (role_with_id E req (found = None) r1) (\<lambda>r2.
         op_bind (op_res (role_after_id E req (found = None) r2)) (\<lambda>r3.
         op_bind (set_role E sops req (re_name r3) r3 (re_role_id r1)) (\<lambda>_.
           op_return None))))))) a (roles E sa)" (is "after (if _ then _ else op_bind _ ?rest) a _")
  proof (cases "length name > HMAC_INPUT_LEN_MAX")
    case False
    have "after (?rest found) a (roles E sa)" if "y = Ok found" for found
    proof (cases found)
      case None
      then show ?thesis
        using write_role_tail [of E sa "a\<lparr>as_uuids := u\<rparr>" req name
            "role_entry_default\<lparr>re_name := to_lowercase name, re_hmac_key := h\<rparr>" for u h] good d n
        by (auto intro!: after_bind simp: app_uuid_def op_bind_def op_return_def role_entry_default_def after_def)
    next
      case (Some r)
      then show ?thesis
        using write_role_tail [OF good d n, of r False] g(2) that good by (auto simp: op_bind_return)
    qed
    then have rest: "after (?rest found) a1 (roles E sa)" if "get_role E sops req name a = (Ok found, a1)" for found a1
      using g(1) that by simp
    have "after (op_bind (get_role E sops req name) ?rest) a (roles E sa)"
      by (rule after_bind [OF _ rest]) (use g(1) good in \<open>simp_all add: after_def\<close>)
    then show ?thesis using False by simp
  qed (use good in simp)
qed (rule good)

end

text \<open>The requests that change roles, and what they do one after the other.\<close>

datatype role_command = WriteRole | WritePolicies | DeletePolicies | UpdateField string | DeleteField string

fun role_handler :: "'s storage_ops \<Rightarrow> app_env \<Rightarrow> role_command \<Rightarrow> 's astate handler" where
  "role_handler sops E WriteRole = write_role sops E"
| "role_handler sops E WritePolicies = write_role_policies sops E"
| "role_handler sops E DeletePolicies = delete_role_policies sops E"
| "role_handler sops E (UpdateField field) = update_role_field sops E field"
| "role_handler sops E (DeleteField field) = delete_role_field sops E field"

inductive role_steps :: "'s storage_ops \<Rightarrow> app_env \<Rightarrow> (string \<Rightarrow> bool) \<Rightarrow> barrier_view \<Rightarrow> 's astate \<Rightarrow> 's astate \<Rightarrow> bool"
  for sops E ok v a where
  start: "role_steps sops E ok v a a"
| step: "role_steps sops E ok v a a1 \<Longrightarrow> role_request E ok v req \<Longrightarrow> role_handler sops E c (a1, req) = (x, (a2, req')) \<Longrightarrow>
    role_steps sops E ok v a a2"

lemma update_field_previous: "update_field E field w cidrs r = Ok (r', p) \<Longrightarrow> p = [] \<or> p = re_role_id r"
  by (auto simp: update_field_def Let_def conv_or_def res_bind_Ok_iff split: if_splits option.splits)

context storage_view
begin

lemma delete_role_field_keeps_index:
  assumes good: "roles E sa a" and d: "salt_keys E (view_valid valid v) sa" "app_codecs E"
    and req: "role_request E (view_valid valid v) v req" and run: "delete_role_field sops E field (a, req) = (x, (a', req'))"
  shows "roles E sa a'"
proof (rule on_state_after [OF run [unfolded delete_role_field_def]], rule after_op_res)
  fix name assume "get_data_as_str (ae_parsers E) req ''role_name'' = Ok name"
  then have n: "rq_storage req = Some v" "view_valid valid v (role_key name)"
    using req role_request_str [OF req] by (simp_all add: role_request_def)
  obtain y where g: "get_role E sops req name a = (y, a)"
    by (rule get_role_after [OF good n]) blast
  have set: "after (set_role E sops req name r' []) a (roles E sa)" for r'
    by (rule set_role_after [OF good d n]) simp
  show "after (op_bind (get_role E sops req name) (\<lambda>found.
      case found of
        None \<Rightarrow> op_return None
      | Some r \<Rightarrow>
          op_bind (op_res (clear_field E req field r)) (\<lambda>r'.
          op_bind (set_role E sops req name r' []) (\<lambda>_. op_return None)))) a (roles E sa)"
  proof (rule after_bind)
    show "after (get_role E sops req name) a (roles E sa)" using g good by (simp add: after_def)
    fix found a1 assume "get_role E sops req name a = (Ok found, a1)"
    then have "a1 = a" using g by simp
    then show "after (case found of
        None \<Rightarrow> op_return None
      | Some r \<Rightarrow>
          op_bind (op_res (clear_field E req field r)) (\<lambda>r'.
          op_bind (set_role E sops req name r' []) (\<lambda>_. op_return None))) a1 (roles E sa)"
      using set good by (cases found) (auto intro!: after_op_res after_bind)
  qed
qed (rule good)

lemma role_handler_keeps_index:
  assumes good: "roles E sa a" and d: "salt_keys E (view_valid valid v) sa" "app_codecs E"
    and req: "role_request E (view_valid valid v) v req" and run: "role_handler sops E c (a, req) = (x, (a', req'))"
  shows "roles E sa a'"
proof (cases c)
  case WriteRole
  then show ?thesis using write_role_keeps_index [OF good d req] run by simp
next
  case (DeleteField field)
  then show ?thesis using delete_role_field_keeps_index [OF good d req] run by simp
next
  case WritePolicies
  then have r: "write_role_policies sops E (a, req) = (x, (a', req'))" using run by simp
  show ?thesis
    by (rule on_state_after [OF r [unfolded write_role_policies_def]])
      (use good d req role_request_str [OF req] in
        \<open>auto intro!: after_op_res change_role_keeps_index simp: role_request_def Let_def split: option.split\<close>)
next
  case DeletePolicies
  then have r: "delete_role_policies sops E (a, req) = (x, (a', req'))" using run by simp
  show ?thesis
    by (rule on_state_after [OF r [unfolded delete_role_policies_def]])
      (use good d req role_request_str [OF req] in \<open>auto intro!: after_op_res change_role_keeps_index simp: role_request_def\<close>)
next
  case (UpdateField field)
  then have r: "update_role_field sops E field (a, req) = (x, (a', req'))" using run by simp
  show ?thesis
    by (rule on_state_after [OF r [unfolded update_role_field_def]])
      (use good d req role_request_str [OF req] in
        \<open>auto intro!: after_op_res change_role_keeps_index simp: role_request_def dest: update_field_previous\<close>)
qed

lemma role_steps_keep_index:
  assumes "role_steps sops E (view_valid valid v) v a a'" "roles E sa a" "salt_keys E (view_valid valid v) sa" "app_codecs E"
  shows "roles E sa a'"
  using assms(1)
proof induction
  case (step a1 req c x a2 req')
  then show ?case using role_handler_keeps_index [OF step.IH assms(3,4)] by blast
qed (rule assms(2))

end

lemma index_inv_unique:
  assumes "index_inv E ok m sa" "role_at E ok m n r" "role_at E ok m n' r'"
    "salted_id (ae_salt E) sa (re_role_id r) = salted_id (ae_salt E) sa (re_role_id r')"
  shows "to_lowercase n = to_lowercase n'"
proof -
  have i: "indexed E m sa (re_role_id q) k" if "role_at E ok m k q" for k q
    using that assms(1) by (auto simp: index_inv_def role_at_def loaded_role_keeps)
  show ?thesis
    using i [OF assms(2)] i [OF assms(3)] indexed_at_unique [of E m _ n n'] unfolding indexed_def assms(4)
    by (elim conjE exE) simp
qed

text \<open>
  C22: two roles never share an identifier. Starting without roles, whatever requests write roles, their policies or their
  single fields (the deletion of a role is not among them), with identifiers that the clients choose, and whether the
  requests succeed or fail: the index leads from the identifier of every role back to it, so that roles with the same
  identifier are the same role. Nothing is asked of the digest but that its hexadecimal text is a key of the storage: two
  identifiers may have the same salted hash, and even then they never belong to two roles.
\<close>

theorem role_ids_unique:
  assumes "app_ready C ser de root a" "as_salt a = Some sa" "\<forall>n. app_contents C de root v a (role_key n) = None"
    and "salt_keys E (vault_key v) sa" "app_codecs E"
    and "role_steps (vault_ops C ser de root) E (vault_key v) v a a'"
  shows "index_inv E (vault_key v) (app_contents C de root v a') sa \<and>
    (\<forall>n n' r r'. role_at E (vault_key v) (app_contents C de root v a') n r \<longrightarrow>
      role_at E (vault_key v) (app_contents C de root v a') n' r' \<longrightarrow>
      salted_id (ae_salt E) sa (re_role_id r) = salted_id (ae_salt E) sa (re_role_id r') \<longrightarrow> to_lowercase n = to_lowercase n')"
proof -
  have "index_inv E (vault_key v) (app_contents C de root v a') sa"
    using fbv.role_steps_keep_index [OF assms(6) _ assms(4,5)] assms(1-3) by (simp add: good_roles_def index_inv_def)
  then show ?thesis using index_inv_unique by blast
qed

section \<open>A role that works\<close>

context storage_view
begin

lemma set_role_new:
  assumes R: "ready (as_store a)" "as_salt a = Some sa" "rq_storage req = Some v" "name \<noteq> []" "validate_role_constraints role = Ok ()"
    and i: "re_role_id role \<noteq> []" "salted_id (ae_salt E) sa (re_role_id role) = Ok h" "view_valid valid v (role_id_key h)"
      "view_stored stored v (as_store a) (role_id_key h) = None"
    and n: "view_valid valid v (role_key name)"
  obtains s' where "set_role E sops req name role [] a = (Ok (), a\<lparr>as_store := s'\<rparr>)" "ready s'"
    "\<And>k. view_valid valid v k \<Longrightarrow> view_stored stored v s' k = ((view_stored stored v (as_store a))
      (role_key name \<mapsto> ae_enc_role E role, role_id_key h \<mapsto> ae_enc_role_id E \<lparr>ri_name = name\<rparr>)) k"
proof -
  obtain s1 where s1: "astore_op (view_put sops v \<lparr>se_key = role_key name, se_value = ae_enc_role E role\<rparr>) a = (Ok (), a\<lparr>as_store := s1\<rparr>)"
    "ready s1" "\<And>k. view_valid valid v k \<Longrightarrow> view_stored stored v s1 k = ((view_stored stored v (as_store a))(role_key name \<mapsto> ae_enc_role E role)) k"
    using app_put [OF R(1) n, of "ae_enc_role E role"] by blast
  obtain s2 where s2: "astore_op (view_put sops v \<lparr>se_key = role_id_key h, se_value = ae_enc_role_id E \<lparr>ri_name = name\<rparr>\<rparr>) (a\<lparr>as_store := s1\<rparr>) =
      (Ok (), a\<lparr>as_store := s2\<rparr>)" "ready s2"
    "\<And>k. view_valid valid v k \<Longrightarrow> view_stored stored v s2 k = ((view_stored stored v s1)(role_id_key h \<mapsto> ae_enc_role_id E \<lparr>ri_name = name\<rparr>)) k"
    using app_put [of "a\<lparr>as_store := s1\<rparr>" "role_id_key h" "ae_enc_role_id E \<lparr>ri_name = name\<rparr>"] s1(2) i(3) by auto
  have "set_role E sops req name role [] a = (Ok (), a\<lparr>as_store := s2\<rparr>)"
    using R(2-5) i s1(1) s2(1) get_role_id_stored [OF R(1,3,2) i(1-3)]
    by (simp add: set_role_def op_bind_def op_res_def rq_astore set_role_id_def role_id_index_def app_salt_id_Ok)
  then show ?thesis using that [OF _ s2(2)] s1(3) s2(3) by simp
qed

end

text \<open>Codecs by numbers.\<close>

definition role_code where
  "role_code r = (re_name r, re_role_id r, re_hmac_key r, re_policies r, re_lower_case_role_name r, re_bind_secret_id r,
     re_secret_id_num_uses r, re_secret_id_prefix r, re_bound_cidr_list_old r, re_bound_cidr_list r,
     re_secret_id_bound_cidrs r, re_secret_id_ttl r, re_period r, params_code (re_token_params r))"

definition role_decode where
  "role_decode c = (case c of (nm, i, h, ps, l, b, n, pfx, old, cl, cs, t, d, p) \<Rightarrow>
     \<lparr>re_name = nm, re_role_id = i, re_hmac_key = h, re_policies = ps, re_lower_case_role_name = l, re_bind_secret_id = b,
      re_secret_id_num_uses = n, re_secret_id_prefix = pfx, re_bound_cidr_list_old = old, re_bound_cidr_list = cl,
      re_secret_id_bound_cidrs = cs, re_secret_id_ttl = t, re_period = d, re_token_params = params_decode p\<rparr>)"

lemma role_decode_code [simp]: "role_decode (role_code r) = r"
  by (simp add: role_decode_def role_code_def)

definition secret_code where
  "secret_code si = (si_accessor si, si_num_uses si, si_ttl si, si_creation_time si, si_expiration_time si,
     si_last_updated_time si, Abs_fmap (si_metadata si), si_cidr_list si, si_token_cidr_list si)"

definition secret_decode where
  "secret_decode c = (case c of (ac, n, t, c1, c2, c3, m, cs, ts) \<Rightarrow>
     \<lparr>si_accessor = ac, si_num_uses = n, si_ttl = t, si_creation_time = c1, si_expiration_time = c2,
      si_last_updated_time = c3, si_metadata = fmlookup m, si_cidr_list = cs, si_token_cidr_list = ts\<rparr>)"

lemma secret_decode_code: "finite (dom (si_metadata si)) \<Longrightarrow> secret_decode (secret_code si) = si"
  by (simp add: secret_decode_def secret_code_def Abs_fmap_inverse)

text \<open>Texts as their own hashes.\<close>

definition demo_app :: app_env where
  "demo_app = \<lparr>ae_salt = demo_salt_env, ae_enc_role = (\<lambda>r. num_bytes (role_code r)),
     ae_dec_role = (\<lambda>b. stored_role demo_no_ip (role_decode (from_nat (length b)))),
     ae_enc_role_id = (\<lambda>x. num_bytes (ri_name x)), ae_dec_role_id = (\<lambda>b. Some \<lparr>ri_name = from_nat (length b)\<rparr>),
     ae_enc_secret = (\<lambda>si. num_bytes (secret_code si)),
     ae_dec_secret = (\<lambda>b. stored_secret (secret_decode (from_nat (length b)))),
     ae_enc_accessor = (\<lambda>x. num_bytes (ac_secret_id_hmac x)),
     ae_dec_accessor = (\<lambda>b. Some \<lparr>ac_secret_id_hmac = from_nat (length b)\<rparr>),
     ae_secret_json = (\<lambda>_. []), ae_show_error = (\<lambda>_. []), ae_response_json = (\<lambda>_. JNull), ae_request_id = [],
     ae_ip = demo_no_ip, ae_parsers = (\<lambda>_. None, \<lambda>_. None),
     ae_uuid = (\<lambda>n. CHR ''u'' # replicate n CHR ''x''), ae_clock = (\<lambda>_. 0)\<rparr>"

lemma demo_app_sel [simp]:
  "ae_salt demo_app = demo_salt_env" "ae_ip demo_app = demo_no_ip" "ae_parsers demo_app = (\<lambda>_. None, \<lambda>_. None)"
  "ae_uuid demo_app n = CHR ''u'' # replicate n CHR ''x''"
  by (simp_all add: demo_app_def)

lemma demo_app_ok: "app_codecs demo_app" "app_clock_ok demo_app"
  by (simp_all add: app_codecs_def demo_app_def secret_decode_code app_clock_ok_def rfc3339_time_def MAX_LEASE_DURATION_SECS_def
      from_secs_def NANOS_def)

abbreviation demo_sa :: salt where "demo_sa \<equiv> salt_default ''s''"

lemma demo_salted: "salted_id demo_salt_env demo_sa i = Ok (hex_bytes (sn_utf8 demo_salt_env (CHR ''s'' # i)))"
  by (simp add: salted_id_def get_hash_def salt_default_def demo_salt_env_def)

lemma demo_keys:
  assumes "hex_name h"
  shows "vault_key demo_view (role_id_key h)" "vault_key demo_view (''accessor/'' @ h)"
    "hex_name h' \<Longrightarrow> vault_key demo_view (''secret_id/'' @ h @ CHR ''/'' # h')"
  using demo_vault_key [of "[''role_id'']" h] demo_vault_key [of "[''accessor'']" h] demo_vault_key [of "[''secret_id'', h]" h'] hex_plain
    assms by (simp_all add: role_id_key_def plain_name_def)

lemma demo_utf8: "sn_utf8 demo_salt_env s = map (\<lambda>c. of_nat (of_char c)) s"
  by (simp add: demo_salt_env_def)

lemma demo_salt_keys: "salt_keys demo_app (vault_key demo_view) demo_sa"
  by (auto simp: salt_keys_def demo_salted demo_utf8 intro!: demo_keys hex_bytes_name)

definition demo_role :: role_entry where
  "demo_role = role_entry_default\<lparr>re_name := ''web'', re_role_id := ''r1'', re_hmac_key := ''k'', re_bind_secret_id := True,
     re_secret_id_num_uses := 2, re_secret_id_prefix := SECRET_ID_PREFIX\<rparr>"

lemma demo_role_sel [simp]:
  "re_name demo_role = ''web''" "re_role_id demo_role = ''r1''" "re_hmac_key demo_role = ''k''" "re_bind_secret_id demo_role"
  "re_secret_id_num_uses demo_role = 2" "re_secret_id_prefix demo_role = SECRET_ID_PREFIX" "re_secret_id_bound_cidrs demo_role = []"
  "re_secret_id_ttl demo_role = 0" "tp_token_bound_cidrs (re_token_params demo_role) = []" "known_prefix demo_role"
  by (simp_all add: demo_role_def role_entry_default_def token_params_default_def token_params_new_def known_prefix_def)

lemma demo_role_stored: "stored_role demo_no_ip demo_role = Some demo_role" "loaded_role ''web'' demo_role = demo_role"
  "validate_role_constraints demo_role = Ok ()"
proof -
  have "to_lowercase ''web'' = ''web''" by code_simp
  then show "loaded_role ''web'' demo_role = demo_role"
    by (simp add: demo_role_def role_entry_default_def loaded_role_def with_defs token_params_default_def token_params_new_def SECRET_ID_PREFIX_def)
qed (simp_all add: demo_role_def role_entry_default_def stored_role_def stored_duration_def from_secs_def stored_params_def
    stored_cidrs_def token_params_default_def token_params_new_def validate_role_constraints_def)

definition demo_a0 :: "fs barrier astate" where
  "demo_a0 = \<lparr>as_store = demo_unsealed, as_salt = Some demo_sa, as_tidying = False, as_uuids = 0, as_reads = 0\<rparr>"

abbreviation demo_stored_at where "demo_stored_at \<equiv> app_contents demo_crypto demo_de [''data''] demo_view"
abbreviation demo_app_ready where "demo_app_ready \<equiv> app_ready demo_crypto demo_ser demo_de [''data'']"

lemma demo_a0_sel: "demo_app_ready demo_a0" "as_salt demo_a0 = Some demo_sa" "demo_stored_at demo_a0 k = None" "as_uuids demo_a0 = 0"
  using demo_ready
  by (simp_all add: demo_a0_def view_stored_def barrier_stored_def file_contents_def demo_unsealed_def)

definition demo_app_request :: "lpath \<Rightarrow> (string \<times> json) list \<Rightarrow> request" where
  "demo_app_request p data = (request_new [])\<lparr>rq_match_path := Some p, rq_storage := Some demo_view, rq_body := Some data\<rparr>"

abbreviation demo_secret_req :: request where
  "demo_secret_req \<equiv> demo_app_request (bp_path (role_secret_id_path demo_ops2 demo_app)) [(''role_name'', JString ''web'')]"

abbreviation demo_destroy_req :: request where
  "demo_destroy_req \<equiv> demo_app_request (bp_path (role_secret_id_destroy_path demo_ops2 demo_app))
     [(''role_name'', JString ''web''), (''secret_id'', JString ''u'')]"

abbreviation demo_app_login :: request where
  "demo_app_login \<equiv> demo_app_request (bp_path (approle_login_path demo_ops2 demo_app))
     [(''role_id'', JString ''r1''), (''secret_id'', JString ''u'')]"

abbreviation demo_role_req :: "string \<Rightarrow> request" where
  "demo_role_req n \<equiv> demo_app_request (bp_path (role_name_path demo_ops2 demo_app))
     [(''role_name'', JString n), (''role_id'', JString ''r1'')]"

lemmas app_fields = demo_app_request_def request_new_def role_secret_id_path_def role_secret_id_destroy_path_def
  approle_login_path_def role_name_path_def role_sub_path_def secret_id_fields_def get_data_as_str_def
  get_data_def get_data_or_default_def data_ready_def get_data_raw_def lookup_in_def typed_def check_data_type_def
  required_field_def optional_field_def default_field_def token_fields_def as_str_def

lemma demo_trim: "trim ''web'' = ''web''" "trim ''u'' = ''u''" "trim ''r1'' = ''r1''" "trim ''db'' = ''db''"
  by code_simp+

lemma demo_app_fields:
  "rq_storage (demo_app_request p d) = Some demo_view"
  "get_data_as_str (ae_parsers demo_app) demo_secret_req ''role_name'' = Ok ''web''"
  "get_data_as_str (ae_parsers demo_app) demo_destroy_req ''role_name'' = Ok ''web''"
  "get_data_as_str (ae_parsers demo_app) demo_destroy_req ''secret_id'' = Ok ''u''"
  "presents demo_app demo_view ''r1'' ''u'' demo_app_login"
  "get_data (ae_parsers demo_app) (demo_role_req n) ''role_name'' = Ok (JString n)"
  "requested_metadata demo_app demo_secret_req Map.empty"
  by (simp_all add: app_fields presents_def demo_trim requested_metadata_def)

lemma demo_requested: "requested_secret_id demo_app demo_secret_req demo_role = Ok ([], [], 2, 0)"
proof -
  have "requested_cidrs demo_app demo_secret_req ''cidr_list'' = Ok []" "requested_cidrs demo_app demo_secret_req ''token_bound_cidrs'' = Ok []"
    "requested_uses demo_app demo_secret_req demo_role = Ok 2" "requested_secret_ttl demo_app demo_secret_req demo_role = Ok 0"
    by (simp_all add: app_fields requested_cidrs_def requested_uses_def requested_secret_ttl_def get_default_def as_comma_string_slice_def zero_value_def trim_def)
  then show ?thesis by (simp add: requested_secret_id_def verify_cidr_role_secret_id_subset_def)
qed

abbreviation demo_hash :: "string \<Rightarrow> string" where "demo_hash s \<equiv> hex_bytes (sn_utf8 demo_salt_env s)"

lemma demo_hash_name: "s \<noteq> [] \<Longrightarrow> hex_name (demo_hash s)" "s \<noteq> [] \<Longrightarrow> demo_hash s \<noteq> []"
  using hex_bytes_name by (auto simp: demo_utf8 hex_name_def)

abbreviation demo_secret_key :: string where
  "demo_secret_key \<equiv> secret_id_index SECRET_ID_PREFIX (demo_hash ''web'') (demo_hash ''u'')"

lemma demo_secret_key:
  "secret_key demo_app demo_role ''u'' demo_secret_key" "vault_key demo_view demo_secret_key"
  "accessor_key demo_app demo_sa demo_role ''ux'' (''accessor/'' @ demo_hash ''sux'')" "vault_key demo_view (''accessor/'' @ demo_hash ''sux'')"
proof -
  have "create_hmac demo_app ''k'' s = Ok (demo_hash s)" if "length s \<le> 4096" for s
    using that by (simp add: create_hmac_def MAX_HMAC_INPUT_LENGTH_def demo_salt_env_def)
  then show "secret_key demo_app demo_role ''u'' demo_secret_key"
    using demo_hash_name(2) [of "''web''"] demo_hash_name(2) [of "''u''"] by (simp add: secret_key_def)
  show "vault_key demo_view demo_secret_key" "vault_key demo_view (''accessor/'' @ demo_hash ''sux'')"
    using demo_keys(2,3) demo_hash_name(1) by (simp_all add: secret_id_index_def SECRET_ID_PREFIX_def)
  show "accessor_key demo_app demo_sa demo_role ''ux'' (''accessor/'' @ demo_hash ''sux'')"
    by (simp add: accessor_key_def demo_salted accessor_prefix_def SECRET_ID_PREFIX_def SECRET_ID_LOCAL_PREFIX_def
        SECRET_ID_ACCESSOR_PREFIX_def)
qed

lemma demo_role_made:
  obtains a where "set_role demo_app demo_ops2 demo_secret_req ''web'' demo_role [] demo_a0 = (Ok (), a)" "demo_app_ready a"
    "as_salt a = Some demo_sa" "as_uuids a = 0" "role_at demo_app (vault_key demo_view) (demo_stored_at a) ''web'' demo_role"
    "names_role demo_app (vault_key demo_view) (demo_stored_at a) demo_sa ''r1'' demo_role" "demo_stored_at a demo_secret_key = None"
proof -
  have k: "vault_key demo_view (role_key ''web'')" by code_simp
  have h: "vault_key demo_view (role_id_key (demo_hash ''sr1''))" using demo_keys(1) demo_hash_name by simp
  have st: "rq_storage demo_secret_req = Some demo_view" by (rule demo_app_fields(1))
  have i: "salted_id (ae_salt demo_app) demo_sa (re_role_id demo_role) = Ok (demo_hash ''sr1'')" by (simp add: demo_salted)
  obtain s' where s': "set_role demo_app demo_ops2 demo_secret_req ''web'' demo_role [] demo_a0 = (Ok (), demo_a0\<lparr>as_store := s'\<rparr>)"
    "demo_app_ready (demo_a0\<lparr>as_store := s'\<rparr>)"
    "\<And>k. vault_key demo_view k \<Longrightarrow> demo_stored_at (demo_a0\<lparr>as_store := s'\<rparr>) k = ((demo_stored_at demo_a0)
      (role_key ''web'' \<mapsto> ae_enc_role demo_app demo_role, role_id_key (demo_hash ''sr1'') \<mapsto> ae_enc_role_id demo_app \<lparr>ri_name = ''web''\<rparr>)) k"
    by (rule fbv.set_role_new [OF demo_a0_sel(1,2) st _ demo_role_stored(3) _ i h demo_a0_sel(3) k]) simp_all
  let ?m = "demo_stored_at (demo_a0\<lparr>as_store := s'\<rparr>)"
  have m: "?m (role_key ''web'') = Some (ae_enc_role demo_app demo_role)"
    "?m (role_id_key (demo_hash ''sr1'')) = Some (ae_enc_role_id demo_app \<lparr>ri_name = ''web''\<rparr>)" "?m demo_secret_key = None"
    using s'(3) k h demo_secret_key(2) demo_a0_sel(3) keys_differ(1,2) [OF demo_role_sel(10) demo_secret_key(1)] by simp_all
  have c: "ae_dec_role demo_app (ae_enc_role demo_app demo_role) = Some demo_role"
    "ae_dec_role_id demo_app (ae_enc_role_id demo_app \<lparr>ri_name = ''web''\<rparr>) = Some \<lparr>ri_name = ''web''\<rparr>"
    using demo_app_ok(1) demo_role_stored(1) by (simp_all add: app_codecs_def)
  show ?thesis
  proof (rule that [OF s'(1,2)])
    show "role_at demo_app (vault_key demo_view) ?m ''web'' demo_role" using m(1) c(1) k demo_role_stored(2) by (simp add: role_at_def)
    show "names_role demo_app (vault_key demo_view) ?m demo_sa ''r1'' demo_role"
      using m(1,2) c k h demo_role_stored(2) by (simp add: names_role_def demo_salted)
  qed (use m(3) demo_a0_sel in simp_all)
qed

lemma demo_secret_made:
  obtains a :: "fs barrier astate" and si where "demo_app_ready a" "as_salt a = Some demo_sa" "role_at demo_app (vault_key demo_view) (demo_stored_at a) ''web'' demo_role"
    "names_role demo_app (vault_key demo_view) (demo_stored_at a) demo_sa ''r1'' demo_role"
    "live_secret demo_app (vault_key demo_view) (demo_stored_at a) demo_sa demo_role demo_secret_key si" "si_num_uses si = 2"
proof -
  obtain a :: "fs barrier astate" where a: "demo_app_ready a" "as_salt a = Some demo_sa" "as_uuids a = 0"
    "role_at demo_app (vault_key demo_view) (demo_stored_at a) ''web'' demo_role"
    "names_role demo_app (vault_key demo_view) (demo_stored_at a) demo_sa ''r1'' demo_role" "demo_stored_at a demo_secret_key = None"
    by (rule demo_role_made) blast
  let ?a = "a\<lparr>as_uuids := 1\<rparr>" and ?ak = "''accessor/'' @ demo_hash ''sux''"
  have b: "demo_app_ready ?a" "as_salt ?a = Some demo_sa" "role_at demo_app (vault_key demo_view) (demo_stored_at ?a) ''web'' demo_role"
    "demo_stored_at ?a demo_secret_key = None" "accessor_key demo_app demo_sa demo_role (ae_uuid demo_app (as_uuids ?a)) ?ak"
    "''u'' \<noteq> ([] :: string)" "0 div NANOS < 2 ^ 63"
    using a demo_secret_key(3) by (simp_all add: NANOS_def)
  obtain s' si where s': "demo_app_ready (?a\<lparr>as_store := s'\<rparr>)"
    "live_secret demo_app (vault_key demo_view) (demo_stored_at (?a\<lparr>as_store := s'\<rparr>)) demo_sa demo_role demo_secret_key si" "si_num_uses si = 2"
    "\<And>k'. vault_key demo_view k' \<Longrightarrow> k' \<noteq> demo_secret_key \<Longrightarrow> k' \<noteq> ?ak \<Longrightarrow>
      demo_stored_at (?a\<lparr>as_store := s'\<rparr>) k' = demo_stored_at a k'"
    by (rule fbv.create_secret_id [OF b(1,2) demo_app_ok demo_app_fields(1,2) b(3) demo_role_sel(4,10) demo_requested demo_app_fields(7)
          b(7,6) demo_secret_key(1,2) b(4,5) demo_secret_key(4)]) simp
  have n: "names_role demo_app (vault_key demo_view) (demo_stored_at (?a\<lparr>as_store := s'\<rparr>)) demo_sa ''r1'' demo_role"
    by (rule names_role_frame [OF a(5) demo_role_sel(10) demo_secret_key(1,3) s'(4)])
  have r: "role_at demo_app (vault_key demo_view) (demo_stored_at (?a\<lparr>as_store := s'\<rparr>)) ''web'' demo_role"
    using a(4) s'(4) keys_differ(2) [OF demo_role_sel(10) demo_secret_key(1)] keys_differ(5) [OF demo_role_sel(10) demo_secret_key(1,3)]
    unfolding role_at_def by metis
  show ?thesis by (rule that [OF s'(1) _ r n s'(2,3)]) (use a(2) in simp)
qed

theorem secret_id_limited_uses_witness:
  "\<exists>a results a'. demo_app_ready a \<and> uses_left demo_app (vault_key demo_view) (demo_stored_at a) demo_sa demo_role ''u'' 2 \<and>
    run_logins demo_ops2 demo_app (replicate 3 demo_app_login) a = (results, a') \<and>
    length (filter is_ok results) \<le> 2 \<and> results ! 2 = Err (ErrResponse ''invalid secret id'')"
proof -
  obtain a :: "fs barrier astate" and si where a: "demo_app_ready a" "as_salt a = Some demo_sa"
    "names_role demo_app (vault_key demo_view) (demo_stored_at a) demo_sa ''r1'' demo_role"
    "live_secret demo_app (vault_key demo_view) (demo_stored_at a) demo_sa demo_role demo_secret_key si" "si_num_uses si = 2"
    by (rule demo_secret_made) blast
  then have u: "uses_left demo_app (vault_key demo_view) (demo_stored_at a) demo_sa demo_role ''u'' 2"
    using demo_secret_key by (auto simp: uses_left_def)
  have p: "\<forall>req \<in> set (replicate 3 demo_app_login). presents demo_app demo_view ''r1'' ''u'' req"
    using demo_app_fields(5) by simp
  obtain results a' where r: "run_logins demo_ops2 demo_app (replicate 3 demo_app_login) a = (results, a')" by fastforce
  from secret_id_limited_uses [OF a(1,2) demo_app_ok demo_role_sel(4,10) a(3) u p r] a(1) u r
  show ?thesis by (intro exI [of _ a] exI [of _ results] exI [of _ a']) (simp add: numeral_3_eq_3)
qed

theorem created_secret_id_logs_in_witness:
  "\<exists>a a1 si. set_role demo_app demo_ops2 demo_secret_req ''web'' demo_role [] demo_a0 = (Ok (), a) \<and>
    write_role_secret_id demo_ops2 demo_app (a, demo_secret_req) =
      (Ok (Some (data_response (Some (secret_id_data ''u'' (si\<lparr>si_ttl := 0\<rparr>))))), (a1, demo_secret_req)) \<and>
    si_num_uses si = 2 \<and> (\<exists>now. fst (approle_login demo_ops2 demo_app (a1, demo_app_login)) =
      Ok (Some (response_new\<lparr>rs_auth := Some (approle_auth now demo_role Map.empty)\<rparr>)))"
proof -
  obtain a where a: "set_role demo_app demo_ops2 demo_secret_req ''web'' demo_role [] demo_a0 = (Ok (), a)" "demo_app_ready a"
    "as_salt a = Some demo_sa" "as_uuids a = 0" "role_at demo_app (vault_key demo_view) (demo_stored_at a) ''web'' demo_role"
    "names_role demo_app (vault_key demo_view) (demo_stored_at a) demo_sa ''r1'' demo_role" "demo_stored_at a demo_secret_key = None"
    by (rule demo_role_made)
  have u: "ae_uuid demo_app (as_uuids a) = ''u''" "ae_uuid demo_app (Suc (as_uuids a)) = ''ux''" using a(4) by simp_all
  have k: "secret_key demo_app demo_role (ae_uuid demo_app (as_uuids a)) demo_secret_key"
    "accessor_key demo_app demo_sa demo_role (ae_uuid demo_app (Suc (as_uuids a))) (''accessor/'' @ demo_hash ''sux'')"
    using demo_secret_key(1,3) unfolding u by simp_all
  have t: "0 div NANOS < 2 ^ 63" "ae_uuid demo_app (as_uuids a) \<noteq> []" by (simp_all add: NANOS_def)
  obtain a1 si where w: "write_role_secret_id demo_ops2 demo_app (a, demo_secret_req) =
      (Ok (Some (data_response (Some (secret_id_data ''u'' (si\<lparr>si_ttl := 0\<rparr>))))), (a1, demo_secret_req))" "si_num_uses si = 2"
    "si_cidr_list si = []" "si_metadata si = Map.empty"
    and l: "\<exists>now. fst (approle_login demo_ops2 demo_app (a1, demo_app_login)) = login_outcome demo_app now demo_app_login demo_role si"
    using created_secret_id_logs_in [OF a(2,3) demo_app_ok demo_app_fields(1,2) a(5) demo_role_sel(4,10) a(6) demo_requested demo_app_fields(7)
        t k(1) demo_secret_key(2) a(7) k(2) demo_secret_key(4)] demo_app_fields(5)
    unfolding u by blast
  have "login_outcome demo_app now demo_app_login demo_role si =
      Ok (Some (response_new\<lparr>rs_auth := Some (approle_auth now demo_role Map.empty)\<rparr>))" for now
    using w(3,4) by (simp add: login_outcome_def secret_id_allowed_def peer_allowed_def verify_cidr_role_secret_id_subset_def)
  then show ?thesis using a(1) w(1,2) l by auto
qed

theorem destroyed_secret_id_refused_witness:
  "\<exists>a si a1. live_secret demo_app (vault_key demo_view) (demo_stored_at a) demo_sa demo_role demo_secret_key si \<and>
    delete_role_secret_id_destory demo_ops2 demo_app (a, demo_destroy_req) = (Ok None, (a1, demo_destroy_req)) \<and>
    approle_login demo_ops2 demo_app (a1, demo_app_login) = (Err (ErrResponse ''invalid secret id''), (a1, demo_app_login))"
proof -
  obtain a :: "fs barrier astate" and si where a: "demo_app_ready a" "as_salt a = Some demo_sa" "role_at demo_app (vault_key demo_view) (demo_stored_at a) ''web'' demo_role"
    "names_role demo_app (vault_key demo_view) (demo_stored_at a) demo_sa ''r1'' demo_role"
    "live_secret demo_app (vault_key demo_view) (demo_stored_at a) demo_sa demo_role demo_secret_key si"
    by (rule demo_secret_made) blast
  from destroyed_secret_id_refused [OF a(1,2) demo_app_fields(1,3,4) a(3) demo_role_sel(10,4) a(4) demo_secret_key(1,2) a(5)]
    demo_app_fields(5) a(5) show ?thesis by blast
qed

theorem role_ids_unique_witness:
  "\<exists>x1 a1 x2 a2. write_role demo_ops2 demo_app (demo_a0, demo_role_req ''web'') = (x1, (a1, demo_role_req ''web'')) \<and>
    write_role demo_ops2 demo_app (a1, demo_role_req ''db'') = (x2, (a2, demo_role_req ''db'')) \<and>
    index_inv demo_app (vault_key demo_view) (demo_stored_at a2) demo_sa"
proof -
  have w: "\<exists>x a'. write_role demo_ops2 demo_app (a, req) = (x, (a', req))" for a req
    by (auto simp: write_role_def on_state_def split: prod.splits)
  obtain x1 a1 where 1: "write_role demo_ops2 demo_app (demo_a0, demo_role_req ''web'') = (x1, (a1, demo_role_req ''web''))" using w by blast
  obtain x2 a2 where 2: "write_role demo_ops2 demo_app (a1, demo_role_req ''db'') = (x2, (a2, demo_role_req ''db''))" using w by blast
  have k: "vault_key demo_view (role_key ''web'')" "vault_key demo_view (role_key ''db'')" by code_simp+
  have q: "role_request demo_app (vault_key demo_view) demo_view (demo_role_req n)" if "n = ''web'' \<or> n = ''db''" for n
    using that k demo_app_fields(6) by (auto simp: role_request_def demo_app_fields(1) as_str_def demo_trim simp del: demo_app_sel)
  have "role_steps demo_ops2 demo_app (vault_key demo_view) demo_view demo_a0 a2"
    by (rule role_steps.step [where c = WriteRole, OF role_steps.step [where c = WriteRole, OF role_steps.start q _] q _])
      (use 1 2 in simp_all)
  from role_ids_unique [OF demo_a0_sel(1,2) _ demo_salt_keys demo_app_ok(1) this] demo_a0_sel(3) 1 2
  show ?thesis by blast
qed

text \<open>A role with limits of every kind, and a request within them.\<close>

abbreviation demo_limited :: role_entry where
  "demo_limited \<equiv> demo_role\<lparr>re_secret_id_bound_cidrs := [''///''], re_secret_id_ttl := from_secs 60\<rparr>"

abbreviation demo_limited_req :: request where
  "demo_limited_req \<equiv> demo_app_request (bp_path (role_secret_id_path demo_ops2 demo_app))
     [(''role_name'', JString ''web''), (''cidr_list'', JArray [JString ''///////'']), (''num_uses'', JNum 1), (''ttl'', JNum 30)]"

definition demo_block_app :: app_env where
  "demo_block_app = demo_app\<lparr>ae_ip := demo_ip_env, ae_dec_role := (\<lambda>b. stored_role demo_ip_env (role_decode (from_nat (length b))))\<rparr>"

lemma demo_block_sel [simp]:
  "ae_ip demo_block_app = demo_ip_env" "ae_parsers demo_block_app = (\<lambda>_. None, \<lambda>_. None)" "ae_salt demo_block_app = demo_salt_env"
  "ae_uuid demo_block_app = ae_uuid demo_app"
  by (simp_all add: demo_block_app_def)

lemma demo_block_ok: "app_codecs demo_block_app" "app_clock_ok demo_block_app" "create_hmac demo_block_app = create_hmac demo_app"
  by (simp_all add: app_codecs_def demo_block_app_def demo_app_def secret_decode_code app_clock_ok_def rfc3339_time_def
      MAX_LEASE_DURATION_SECS_def from_secs_def NANOS_def create_hmac_def fun_eq_iff)

lemma demo_within: "requested_secret_id demo_block_app demo_limited_req demo_limited = Ok ([''///////''], [], 1, from_secs 30)"
proof -
  let ?E = demo_block_app
  have "trim ''///////'' = ''///////''" by code_simp
  then have "requested_cidrs ?E demo_limited_req ''cidr_list'' = Ok [''///////'']"
    by (simp add: app_fields requested_cidrs_def get_default_def as_comma_string_slice_def is_comma_string_slice_def validate_cidrs_def
        parse_net_def demo_ip_env_def demo_net_def)
  moreover have "requested_cidrs ?E demo_limited_req ''token_bound_cidrs'' = Ok []"
    by (simp add: app_fields requested_cidrs_def get_default_def as_comma_string_slice_def zero_value_def trim_def)
  moreover have "requested_uses ?E demo_limited_req demo_limited = Ok 1"
    by (simp add: app_fields requested_uses_def as_i64_def is_i64_def is_int_def as_int_def)
  moreover have "requested_secret_ttl ?E demo_limited_req demo_limited = Ok (from_secs 30)"
    by (simp add: app_fields requested_secret_ttl_def as_duration_def is_duration_def is_int_def is_i64_def as_u64_def as_i64_def
        from_secs_def NANOS_def)
  moreover have "verify_cidr_role_secret_id_subset ?E [''///////''] [''///''] = Ok ()"
    by (simp add: verify_cidr_role_secret_id_subset_def subset_blocks_def cidr_subset_def parse_net_def demo_ip_env_def demo_net_def
        net_addresses_def is_ip_addr_zero_def)
  ultimately show ?thesis by (simp add: requested_secret_id_def verify_cidr_role_secret_id_subset_def)
qed

lemma demo_limited_stored:
  "stored_role demo_ip_env demo_limited = Some demo_limited" "loaded_role ''web'' demo_limited = demo_limited"
  "validate_role_constraints demo_limited = Ok ()" "known_prefix demo_limited"
proof -
  have "to_lowercase ''web'' = ''web''" by code_simp
  then show "loaded_role ''web'' demo_limited = demo_limited"
    by (simp add: demo_role_def role_entry_default_def loaded_role_def with_defs token_params_default_def token_params_new_def SECRET_ID_PREFIX_def)
qed (simp_all add: demo_role_def role_entry_default_def stored_role_def stored_duration_def from_secs_def stored_params_def NANOS_def
    stored_cidrs_def token_params_default_def token_params_new_def validate_role_constraints_def known_prefix_def)

lemma demo_limited_key:
  "secret_key demo_block_app demo_limited ''u'' demo_secret_key"
  "accessor_key demo_block_app demo_sa demo_limited ''ux'' (''accessor/'' @ demo_hash ''sux'')"
  using demo_secret_key(1,3) by (simp_all add: secret_key_def accessor_key_def demo_block_ok(3))

lemma demo_limited_made:
  obtains a :: "fs barrier astate" where "demo_app_ready a" "as_salt a = Some demo_sa" "as_uuids a = 1"
    "role_at demo_block_app (vault_key demo_view) (demo_stored_at a) ''web'' demo_limited" "demo_stored_at a demo_secret_key = None"
proof -
  have k: "vault_key demo_view (role_key ''web'')" by code_simp
  have h: "vault_key demo_view (role_id_key (demo_hash ''sr1''))" using demo_keys(1) demo_hash_name by simp
  have st: "rq_storage demo_secret_req = Some demo_view" by (rule demo_app_fields(1))
  have i: "salted_id (ae_salt demo_block_app) demo_sa (re_role_id demo_limited) = Ok (demo_hash ''sr1'')" by (simp add: demo_salted)
  obtain s' where s': "demo_app_ready (demo_a0\<lparr>as_store := s'\<rparr>)"
    "\<And>k. vault_key demo_view k \<Longrightarrow> demo_stored_at (demo_a0\<lparr>as_store := s'\<rparr>) k = ((demo_stored_at demo_a0)
      (role_key ''web'' \<mapsto> ae_enc_role demo_block_app demo_limited,
       role_id_key (demo_hash ''sr1'') \<mapsto> ae_enc_role_id demo_block_app \<lparr>ri_name = ''web''\<rparr>)) k"
    by (rule fbv.set_role_new [OF demo_a0_sel(1,2) st _ demo_limited_stored(3) _ i h demo_a0_sel(3) k]) simp_all
  have m: "demo_stored_at (demo_a0\<lparr>as_store := s'\<rparr>) (role_key ''web'') = Some (ae_enc_role demo_block_app demo_limited)"
    "demo_stored_at (demo_a0\<lparr>as_store := s'\<rparr>) demo_secret_key = None"
    using s'(2) k h demo_secret_key(2) demo_a0_sel(3) keys_differ(1,2) [OF demo_role_sel(10) demo_secret_key(1)] by simp_all
  have c: "ae_dec_role demo_block_app (ae_enc_role demo_block_app demo_limited) = Some demo_limited"
    using demo_block_ok(1) demo_limited_stored(1) unfolding app_codecs_def by simp
  show ?thesis
    by (rule that [of "demo_a0\<lparr>as_store := s', as_uuids := 1\<rparr>"])
      (use s'(1) m c k demo_limited_stored(2) demo_a0_sel in \<open>simp_all add: role_at_def\<close>)
qed

theorem secret_id_within_role_witness:
  "\<exists>a x a' si. update_role_secret_id_common demo_ops2 demo_block_app demo_limited_req ''u'' a = (Ok x, a') \<and>
    demo_stored_at a' demo_secret_key = Some (ae_enc_secret demo_block_app si) \<and> within_role demo_block_app demo_limited si"
proof -
  obtain a :: "fs barrier astate" where a: "demo_app_ready a" "as_salt a = Some demo_sa" "as_uuids a = 1"
    "role_at demo_block_app (vault_key demo_view) (demo_stored_at a) ''web'' demo_limited" "demo_stored_at a demo_secret_key = None"
    by (rule demo_limited_made)
  have f: "rq_storage demo_limited_req = Some demo_view" "get_data_as_str (ae_parsers demo_block_app) demo_limited_req ''role_name'' = Ok ''web''"
    "requested_metadata demo_block_app demo_limited_req Map.empty" "from_secs 30 div NANOS < 2 ^ 63" "''u'' \<noteq> ([] :: string)"
    "re_bind_secret_id demo_limited"
    by (simp_all add: app_fields demo_trim requested_metadata_def from_secs_def NANOS_def)
  have ak: "accessor_key demo_block_app demo_sa demo_limited (ae_uuid demo_block_app (as_uuids a)) (''accessor/'' @ demo_hash ''sux'')"
    using demo_limited_key(2) a(3) by simp
  obtain x a' where run: "update_role_secret_id_common demo_ops2 demo_block_app demo_limited_req ''u'' a = (Ok x, a')"
    using fbv.create_secret_id [OF a(1,2) demo_block_ok(1,2) f(1,2) a(4) f(6) demo_limited_stored(4) demo_within f(3,4,5)
        demo_limited_key(1) demo_secret_key(2) a(5) ak demo_secret_key(4)] by metis
  have "ip_contract (ae_ip demo_block_app)" using demo_ip_contract by simp
  from secret_id_within_role [OF a(1,2) this f(1,2) a(4) demo_limited_stored(4) demo_limited_key(1) demo_secret_key(2) ak demo_secret_key(4) run]
    run show ?thesis by blast
qed

end
