(* ===== verification/Credentials.thy ===== *)
theory Credentials
  imports Auth Userpass Approles
begin

text \<open>
  The registration of the credential backends with the authentication module, the modules of
  \<open>src/modules/credential/*/mod.rs\<close>, and of the secret engines of \<open>modules/kv\<close> and \<open>modules/pki\<close> with the core. The
  state is the authentication module, when the module manager has it, or the core; the backend that the closure of a
  module makes is an argument.

  Shown: the modules do not disturb each other.
\<close>

definition with_auth_module :: "('s auth_module, unit) op \<Rightarrow> ('s auth_module option, unit) op" where
  "with_auth_module f m = (case m of None \<Rightarrow> (Ok (), None) | Some a \<Rightarrow> (case f a of (r, a') \<Rightarrow> (r, Some a')))"

definition userpass_setup :: "'s backend_obj res \<Rightarrow> ('s auth_module option, unit) op" where
  "userpass_setup b = with_auth_module (add_auth_backend ''userpass'' b)"

definition userpass_cleanup :: "('s auth_module option, unit) op" where
  "userpass_cleanup = with_auth_module (delete_auth_backend ''userpass'')"

definition approle_setup :: "'s backend_obj res \<Rightarrow> ('s auth_module option, unit) op" where
  "approle_setup b = with_auth_module (add_auth_backend ''approle'' b)"

definition approle_cleanup :: "('s auth_module option, unit) op" where
  "approle_cleanup = with_auth_module (delete_auth_backend ''approle'')"

definition cert_setup :: "'s backend_obj res \<Rightarrow> ('s auth_module option, unit) op" where
  "cert_setup b = with_auth_module (add_auth_backend ''cert'' b)"

definition cert_cleanup :: "('s auth_module option, unit) op" where
  "cert_cleanup = with_auth_module (delete_auth_backend ''cert'')"

text \<open>Each backend is found under its type after the set-ups, until its own module is cleaned up.\<close>

lemma credentials_registered:
  assumes "am_backends a = []"
  obtains a' where "op_bind (userpass_setup u) (\<lambda>_. op_bind (approle_setup r) (\<lambda>_. cert_setup c)) (Some a) = (Ok (), Some a')"
    "get_auth_backend a' ''userpass'' = Ok u" "get_auth_backend a' ''approle'' = Ok r" "get_auth_backend a' ''cert'' = Ok c"
    "\<exists>a''. approle_cleanup (Some a') = (Ok (), Some a'') \<and> get_auth_backend a'' ''approle'' = Err ErrCoreLogicalBackendNoExist \<and>
      get_auth_backend a'' ''userpass'' = Ok u \<and> get_auth_backend a'' ''cert'' = Ok c"
  using assms
  by (simp add: op_bind_def with_auth_module_def userpass_setup_def approle_setup_def cert_setup_def approle_cleanup_def
      add_auth_backend_def delete_auth_backend_def get_auth_backend_def)

section \<open>Secret engines\<close>

definition kv_setup :: "'s backend_obj res \<Rightarrow> ('s core, unit) op" where
  "kv_setup b = add_logical_backend ''kv'' b"

definition kv_cleanup :: "('s core, unit) op" where "kv_cleanup = delete_logical_backend ''kv''"

definition pki_setup :: "'s backend_obj res \<Rightarrow> ('s core, unit) op" where
  "pki_setup b = add_logical_backend ''pki'' b"

definition pki_cleanup :: "('s core, unit) op" where "pki_cleanup = delete_logical_backend ''pki''"

text \<open>Both engines are found under their types; cleaning one up leaves the other, and it can be set up again.\<close>

lemma engines_registered:
  assumes "map_of (co_logical_backends c) ''kv'' = None" "map_of (co_logical_backends c) ''pki'' = None"
  obtains c' where "op_bind (kv_setup k) (\<lambda>_. pki_setup p) c = (Ok (), c')"
    "get_logical_backend c' ''kv'' = Ok k" "get_logical_backend c' ''pki'' = Ok p"
    "fst (pki_setup p' c') = Err ErrCoreLogicalBackendExist"
    "\<exists>c''. op_bind pki_cleanup (\<lambda>_. pki_setup p') c' = (Ok (), c'') \<and> get_logical_backend c'' ''kv'' = Ok k \<and>
      get_logical_backend c'' ''pki'' = Ok p'"
  using assms
  by (simp add: op_bind_def kv_setup_def pki_setup_def pki_cleanup_def add_logical_backend_def delete_logical_backend_def
      get_logical_backend_def update_conv' delete_conv')

end
