(* ===== verification/Key_Bundle.thy ===== *)
theory Key_Bundle
  imports Text_Util
begin

text \<open>
  Keys that are kept by name, \<open>src/utils/key.rs\<close>: making a key, signing, encrypting. What OpenSSL does is the record
  \<open>key_env\<close>; an operation that uses the random generator has the number of earlier draws as its state. The build with
  the feature \<open>crypto_adaptor_tongsuo\<close> is \<open>ke_tongsuo\<close>.

  Shown: which types and sizes a key can have; a signature of a made key verifies; what a key encrypts it decrypts, up to
  the first zero byte when it is an RSA key.
\<close>

section \<open>Model\<close>

datatype sign_digest = Sha256 | Sm3
datatype curve = SECP224R1 | SECP256K1 | SECP384R1 | SECP521R1 | CurveSM2
datatype cipher = AesGcm nat | AesCbc nat | AesEcb nat | Sm4Gcm | Sm4Ccm

record key_bundle =
  kb_id :: string
  kb_name :: string
  kb_key_type :: string
  kb_key :: bytes
  kb_iv :: bytes
  kb_bits :: nat

datatype encrypt_extra = Aad bytes | Flag bool

record ('k, 'r) key_env =
  ke_tongsuo :: bool
  ke_uuid :: "nat \<Rightarrow> string"
  ke_rsa_pem :: "nat \<Rightarrow> nat \<Rightarrow> bytes res"
  ke_ec_pem :: "nat \<Rightarrow> curve \<Rightarrow> bytes res"
  ke_rand :: "nat \<Rightarrow> nat \<Rightarrow> bytes res"
  ke_pkey :: "bytes \<Rightarrow> 'k res"
  ke_sign :: "nat \<Rightarrow> 'k \<Rightarrow> sign_digest \<Rightarrow> bool \<Rightarrow> bytes \<Rightarrow> bytes res"
  ke_verifier :: "'k \<Rightarrow> sign_digest \<Rightarrow> bool \<Rightarrow> bytes \<Rightarrow> unit res"
  ke_verify :: "'k \<Rightarrow> sign_digest \<Rightarrow> bool \<Rightarrow> bytes \<Rightarrow> bytes \<Rightarrow> bool res"
  ke_encrypt_aead :: "cipher \<Rightarrow> bytes \<Rightarrow> bytes \<Rightarrow> bytes \<Rightarrow> bytes \<Rightarrow> (bytes \<times> bytes) res"
  ke_decrypt_aead :: "cipher \<Rightarrow> bytes \<Rightarrow> bytes \<Rightarrow> bytes \<Rightarrow> bytes \<Rightarrow> bytes \<Rightarrow> bytes res"
  ke_encrypt :: "cipher \<Rightarrow> bytes \<Rightarrow> bytes option \<Rightarrow> bytes \<Rightarrow> bytes res"
  ke_decrypt :: "cipher \<Rightarrow> bytes \<Rightarrow> bytes option \<Rightarrow> bytes \<Rightarrow> bytes res"
  ke_rsa :: "bytes \<Rightarrow> 'r res"
  ke_ec_degree :: "bytes \<Rightarrow> nat res"
  ke_rsa_size :: "'r \<Rightarrow> nat"
  ke_private_encrypt :: "'r \<Rightarrow> bytes \<Rightarrow> bytes res"
  ke_public_encrypt :: "nat \<Rightarrow> 'r \<Rightarrow> bytes \<Rightarrow> bytes res"
  ke_public_part :: "'r \<Rightarrow> 'r res"
  ke_private_part :: "'r \<Rightarrow> 'r res"
  ke_public_decrypt :: "'r \<Rightarrow> bytes \<Rightarrow> bytes res"
  ke_private_decrypt :: "'r \<Rightarrow> bytes \<Rightarrow> bytes res"

definition drawn :: "(nat \<Rightarrow> 'a res) \<Rightarrow> (nat, 'a) op" where
  "drawn f n = (f n, Suc n)"

definition key_bits_default :: "string \<Rightarrow> nat" where
  "key_bits_default ty =
     (if ty = ''rsa'' then 2048
      else if ty = ''ec'' \<or> ty = ''sm2'' then 256
      else if ty \<in> {''aes-gcm'', ''aes-cbc'', ''aes-ecb'', ''sm4-gcm'', ''sm4-ccm''} then 256
      else 0)"

definition cipher_from_key_type_and_bits :: "bool \<Rightarrow> string \<Rightarrow> nat \<Rightarrow> cipher res" where
  "cipher_from_key_type_and_bits tongsuo ty bits =
     (if ty = ''aes-gcm'' \<and> bits \<in> {128, 192, 256} then Ok (AesGcm bits)
      else if ty = ''aes-cbc'' \<and> bits \<in> {128, 192, 256} then Ok (AesCbc bits)
      else if ty = ''aes-ecb'' \<and> bits \<in> {128, 192, 256} then Ok (AesEcb bits)
      else if tongsuo \<and> ty = ''sm4-gcm'' \<and> bits = 128 then Ok Sm4Gcm
      else if tongsuo \<and> ty = ''sm4-ccm'' \<and> bits = 128 then Ok Sm4Ccm
      else Err (Pki ErrPkiKeyBitsInvalid))"

definition key_bundle_new :: "('k, 'r) key_env \<Rightarrow> string \<Rightarrow> string \<Rightarrow> nat \<Rightarrow> (nat, key_bundle) op" where
  "key_bundle_new E name ty key_bits =
     op_bind (drawn (\<lambda>n. Ok (ke_uuid E n))) (\<lambda>i.
       op_return \<lparr>kb_id = i, kb_name = name, kb_key_type = ty, kb_key = [], kb_iv = [],
         kb_bits = (if key_bits = 0 then key_bits_default ty else key_bits)\<rparr>)"

definition ec_curve :: "nat \<Rightarrow> curve res" where
  "ec_curve bits =
     (if bits = 224 then Ok SECP224R1 else if bits = 256 then Ok SECP256K1 else if bits = 384 then Ok SECP384R1
      else if bits = 521 then Ok SECP521R1 else Err (Pki ErrPkiKeyBitsInvalid))"

definition generate_symmetric :: "('k, 'r) key_env \<Rightarrow> key_bundle \<Rightarrow> (nat, key_bundle) op" where
  "generate_symmetric E b =
     op_bind (op_res (cipher_from_key_type_and_bits (ke_tongsuo E) (kb_key_type b) (kb_bits b))) (\<lambda>_.
     if \<not> ke_tongsuo E \<and> starts_with (kb_key_type b) ''sm4-'' then op_fail (Pki ErrPkiKeyTypeInvalid)
     else
       op_bind (if kb_key_type b = ''aes-ecb'' then op_return (kb_iv b)
                else drawn (\<lambda>n. ke_rand E n (if kb_key_type b = ''sm4-ccm'' then 12 else 16))) (\<lambda>iv.
       op_bind (drawn (\<lambda>n. ke_rand E n (kb_bits b div 8))) (\<lambda>key.
         op_return (b\<lparr>kb_iv := iv, kb_key := key\<rparr>))))"

definition key_bundle_generate :: "('k, 'r) key_env \<Rightarrow> key_bundle \<Rightarrow> (nat, key_bundle) op" where
  "key_bundle_generate E b =
     (if kb_key_type b = ''rsa'' then
        if kb_bits b \<in> {2048, 3072, 4096} then
          op_bind (drawn (\<lambda>n. ke_rsa_pem E n (kb_bits b))) (\<lambda>key. op_return (b\<lparr>kb_key := key\<rparr>))
        else op_fail (Pki ErrPkiKeyBitsInvalid)
      else if kb_key_type b = ''ec'' then
        op_bind (op_res (ec_curve (kb_bits b))) (\<lambda>c.
        op_bind (drawn (\<lambda>n. ke_ec_pem E n c)) (\<lambda>key. op_return (b\<lparr>kb_key := key\<rparr>)))
      else if ke_tongsuo E \<and> kb_key_type b = ''sm2'' then
        op_bind (drawn (\<lambda>n. ke_ec_pem E n CurveSM2)) (\<lambda>key. op_return (b\<lparr>kb_bits := 256, kb_key := key\<rparr>))
      else if kb_key_type b \<in> {''aes-gcm'', ''aes-cbc'', ''aes-ecb'', ''sm4-gcm'', ''sm4-ccm''} then generate_symmetric E b
      else op_fail (Pki ErrPkiKeyTypeInvalid))"

definition sign_digest_of :: "bool \<Rightarrow> string \<Rightarrow> sign_digest res" where
  "sign_digest_of tongsuo ty =
     (if ty = ''rsa'' \<or> ty = ''ec'' then Ok Sha256
      else if tongsuo \<and> ty = ''sm2'' then Ok Sm3
      else Err (Pki ErrPkiKeyOperationInvalid))"

definition key_bundle_sign :: "('k, 'r) key_env \<Rightarrow> key_bundle \<Rightarrow> bytes \<Rightarrow> (nat, bytes) op" where
  "key_bundle_sign E b data =
     op_bind (op_res (sign_digest_of (ke_tongsuo E) (kb_key_type b))) (\<lambda>d.
     op_bind (op_res (ke_pkey E (kb_key b))) (\<lambda>k.
       drawn (\<lambda>n. ke_sign E n k d (kb_key_type b = ''rsa'') data)))"

definition key_bundle_verify :: "('k, 'r) key_env \<Rightarrow> key_bundle \<Rightarrow> bytes \<Rightarrow> bytes \<Rightarrow> bool res" where
  "key_bundle_verify E b data signature =
     res_bind (sign_digest_of (ke_tongsuo E) (kb_key_type b)) (\<lambda>d.
     res_bind (ke_pkey E (kb_key b)) (\<lambda>k.
     res_bind (ke_verifier E k d (kb_key_type b = ''rsa'') data) (\<lambda>_.
       case ke_verify E k d (kb_key_type b = ''rsa'') data signature of
         Ok v \<Rightarrow> Ok v | Err _ \<Rightarrow> Ok False | Panic \<Rightarrow> Panic)))"

definition extra_aad :: "encrypt_extra option \<Rightarrow> bytes" where
  "extra_aad x = (case x of Some (Aad a) \<Rightarrow> a | _ \<Rightarrow> [])"

definition extra_flag :: "encrypt_extra option \<Rightarrow> bool" where
  "extra_flag x = (case x of Some (Flag f) \<Rightarrow> f | _ \<Rightarrow> False)"

text \<open>A buffer of zeros, of which the first bytes are overwritten.\<close>

definition fill_buf :: "nat \<Rightarrow> bytes \<Rightarrow> bytes" where
  "fill_buf sz w = take sz (w @ replicate sz 0)"

definition bundle_iv :: "key_bundle \<Rightarrow> bytes option" where
  "bundle_iv b = (if kb_key_type b = ''aes-ecb'' then None else Some (kb_iv b))"

definition key_bundle_encrypt ::
  "('k, 'r) key_env \<Rightarrow> key_bundle \<Rightarrow> bytes \<Rightarrow> encrypt_extra option \<Rightarrow> (nat, bytes) op" where
  "key_bundle_encrypt E b data extra =
     (if kb_key_type b \<in> {''aes-gcm'', ''sm4-gcm'', ''sm4-ccm''} then
        op_res (res_bind (cipher_from_key_type_and_bits (ke_tongsuo E) (kb_key_type b) (kb_bits b)) (\<lambda>c.
          res_bind (ke_encrypt_aead E c (kb_key b) (kb_iv b) (extra_aad extra) data) (\<lambda>(ct, tag). Ok (ct @ tag))))
      else if kb_key_type b \<in> {''aes-cbc'', ''aes-ecb''} then
        op_res (res_bind (cipher_from_key_type_and_bits (ke_tongsuo E) (kb_key_type b) (kb_bits b)) (\<lambda>c.
          ke_encrypt E c (kb_key b) (bundle_iv b) data))
      else if kb_key_type b = ''rsa'' then
        op_bind (op_res (ke_rsa E (kb_key b))) (\<lambda>r.
        if length data > ke_rsa_size E r then op_fail (Pki ErrPkiInternal)
        else
          op_bind (if extra_flag extra then drawn (\<lambda>n. ke_public_encrypt E n r data)
                   else op_res (ke_private_encrypt E r data)) (\<lambda>w.
            op_return (fill_buf (ke_rsa_size E r) w)))
      else op_fail (Pki ErrPkiKeyOperationInvalid))"

definition before_zero :: "bytes \<Rightarrow> bytes res" where
  "before_zero buf = (if 0 \<in> set buf then Ok (takeWhile (\<lambda>x. x \<noteq> 0) buf) else Err (Pki ErrPkiInternal))"

definition key_bundle_decrypt ::
  "('k, 'r) key_env \<Rightarrow> key_bundle \<Rightarrow> bytes \<Rightarrow> encrypt_extra option \<Rightarrow> bytes res" where
  "key_bundle_decrypt E b data extra =
     (if kb_key_type b \<in> {''aes-gcm'', ''sm4-gcm'', ''sm4-ccm''} then
        res_bind (cipher_from_key_type_and_bits (ke_tongsuo E) (kb_key_type b) (kb_bits b)) (\<lambda>c.
          if length data < 16 then Err (Pki ErrPkiInternal)
          else ke_decrypt_aead E c (kb_key b) (kb_iv b) (extra_aad extra) (take (length data - 16) data)
            (drop (length data - 16) data))
      else if kb_key_type b \<in> {''aes-cbc'', ''aes-ecb''} then
        res_bind (cipher_from_key_type_and_bits (ke_tongsuo E) (kb_key_type b) (kb_bits b)) (\<lambda>c.
          ke_decrypt E c (kb_key b) (bundle_iv b) data)
      else if kb_key_type b = ''rsa'' then
        res_bind (ke_rsa E (kb_key b)) (\<lambda>r.
        if length data > ke_rsa_size E r then Err (Pki ErrPkiDataInvalid)
        else
          res_bind (if extra_flag extra then res_bind (ke_private_part E r) (\<lambda>p. ke_private_decrypt E p data)
                    else res_bind (ke_public_part E r) (\<lambda>p. ke_public_decrypt E p data)) (\<lambda>w.
            before_zero (fill_buf (ke_rsa_size E r) w)))
      else Err (Pki ErrPkiKeyOperationInvalid))"

section \<open>The types and sizes of keys\<close>

definition key_shape :: "bool \<Rightarrow> string \<Rightarrow> nat \<Rightarrow> bool" where
  "key_shape tongsuo ty bits \<longleftrightarrow>
     ty = ''rsa'' \<and> bits \<in> {2048, 3072, 4096} \<or> ty = ''ec'' \<and> bits \<in> {224, 256, 384, 521} \<or>
     ty \<in> {''aes-gcm'', ''aes-cbc'', ''aes-ecb''} \<and> bits \<in> {128, 192, 256} \<or>
     tongsuo \<and> (ty = ''sm2'' \<and> bits = 256 \<or> ty \<in> {''sm4-gcm'', ''sm4-ccm''} \<and> bits = 128)"

lemma cipher_ok_shape:
  "cipher_from_key_type_and_bits t ty bits = Ok c \<Longrightarrow> key_shape t ty bits"
  by (auto simp: cipher_from_key_type_and_bits_def key_shape_def split: if_splits)

lemma generate_symmetric_parts:
  assumes "generate_symmetric E b n = (Ok b', n')"
  shows "\<exists>c. cipher_from_key_type_and_bits (ke_tongsuo E) (kb_key_type b) (kb_bits b) = Ok c"
    "kb_key_type b' = kb_key_type b" "kb_bits b' = kb_bits b" "kb_name b' = kb_name b"
  using assms
  by (auto simp: generate_symmetric_def op_bind_def op_res_def op_return_def op_fail_def
      split: res.splits prod.splits if_splits)

lemma ec_curve_shape: "ec_curve bits = Ok c \<Longrightarrow> bits \<in> {224, 256, 384, 521}"
  by (auto simp: ec_curve_def split: if_splits)

lemma generate_key_shape:
  assumes "key_bundle_generate E b n = (Ok b', n')"
  shows "key_shape (ke_tongsuo E) (kb_key_type b') (kb_bits b')" "kb_key_type b' = kb_key_type b" "kb_name b' = kb_name b"
proof -
  consider (rsa) "kb_key_type b = ''rsa''" "kb_bits b \<in> {2048, 3072, 4096}" "kb_key_type b' = kb_key_type b" "kb_bits b' = kb_bits b"
      "kb_name b' = kb_name b"
    | (ec) c where "kb_key_type b = ''ec''" "ec_curve (kb_bits b) = Ok c" "kb_key_type b' = kb_key_type b" "kb_bits b' = kb_bits b"
      "kb_name b' = kb_name b"
    | (sm2) "kb_key_type b = ''sm2''" "ke_tongsuo E" "kb_key_type b' = kb_key_type b" "kb_bits b' = 256" "kb_name b' = kb_name b"
    | (sym) "generate_symmetric E b n = (Ok b', n')"
    using assms
    by (auto simp: key_bundle_generate_def op_bind_def op_res_def op_return_def op_fail_def drawn_def
        split: res.splits prod.splits if_splits)
  then have "key_shape (ke_tongsuo E) (kb_key_type b') (kb_bits b') \<and> kb_key_type b' = kb_key_type b \<and> kb_name b' = kb_name b"
  proof cases
    case ec
    then show ?thesis using ec_curve_shape by (force simp: key_shape_def)
  next
    case sym
    then show ?thesis using generate_symmetric_parts cipher_ok_shape by metis
  qed (simp_all add: key_shape_def)
  then show "key_shape (ke_tongsuo E) (kb_key_type b') (kb_bits b')" "kb_key_type b' = kb_key_type b" "kb_name b' = kb_name b"
    by blast+
qed

section \<open>Signing and encrypting\<close>

text \<open>
  What OpenSSL promises: a key it made can be read again; the verifier accepts what the signer made; decryption undoes
  encryption, where the tag of an authenticated cipher has sixteen bytes, and the padding PKCS 1 takes eleven bytes of an
  RSA block.
\<close>

definition openssl_keys :: "('k, 'r) key_env \<Rightarrow> bool" where
  "openssl_keys E \<longleftrightarrow>
     (\<forall>n bits p. ke_rsa_pem E n bits = Ok p \<longrightarrow> is_ok (ke_pkey E p)) \<and>
     (\<forall>n c p. ke_ec_pem E n c = Ok p \<longrightarrow> is_ok (ke_pkey E p)) \<and>
     (\<forall>n k d pad m s. ke_sign E n k d pad m = Ok s \<longrightarrow> ke_verifier E k d pad m = Ok () \<and> ke_verify E k d pad m s = Ok True) \<and>
     (\<forall>c k iv a m ct t. ke_encrypt_aead E c k iv a m = Ok (ct, t) \<longrightarrow>
        length t = 16 \<and> ke_decrypt_aead E c k iv a ct t = Ok m) \<and>
     (\<forall>c k iv m ct. ke_encrypt E c k iv m = Ok ct \<longrightarrow> ke_decrypt E c k iv ct = Ok m) \<and>
     (\<forall>r m w. ke_private_encrypt E r m = Ok w \<longrightarrow>
        length w = ke_rsa_size E r \<and> length m + 11 \<le> ke_rsa_size E r \<and>
        (\<exists>p. ke_public_part E r = Ok p \<and> ke_public_decrypt E p w = Ok m)) \<and>
     (\<forall>n r m w. ke_public_encrypt E n r m = Ok w \<longrightarrow>
        length w = ke_rsa_size E r \<and> length m + 11 \<le> ke_rsa_size E r \<and>
        (\<exists>p. ke_private_part E r = Ok p \<and> ke_private_decrypt E p w = Ok m))"

lemma openssl_sign:
  assumes "openssl_keys E" "ke_sign E n k d pad m = Ok s"
  shows "ke_verifier E k d pad m = Ok ()" "ke_verify E k d pad m s = Ok True"
  using assms unfolding openssl_keys_def by simp_all

definition decrypted_as :: "string \<Rightarrow> bytes \<Rightarrow> bytes" where
  "decrypted_as ty data = (if ty = ''rsa'' then takeWhile (\<lambda>x. x \<noteq> 0) data else data)"

lemma fill_buf_full [simp]: "length w = sz \<Longrightarrow> fill_buf sz w = w"
  by (simp add: fill_buf_def)

lemma before_zero_padded:
  assumes "length m < sz"
  shows "before_zero (fill_buf sz m) = Ok (takeWhile (\<lambda>x. x \<noteq> 0) m)"
proof -
  have f: "fill_buf sz m = m @ replicate (sz - length m) 0"
    using assms by (simp add: fill_buf_def)
  have "takeWhile (\<lambda>x. x \<noteq> 0) (m @ replicate j 0) = takeWhile (\<lambda>x. x \<noteq> 0) m" for j
    by (induction m) (simp_all add: takeWhile_replicate)
  then show ?thesis using assms by (simp add: f before_zero_def)
qed

lemma encrypt_aead_ok:
  assumes "key_bundle_encrypt E b data x n = (Ok c, n')" "kb_key_type b \<in> {''aes-gcm'', ''sm4-gcm'', ''sm4-ccm''}"
  obtains ci ct t where "cipher_from_key_type_and_bits (ke_tongsuo E) (kb_key_type b) (kb_bits b) = Ok ci"
    "ke_encrypt_aead E ci (kb_key b) (kb_iv b) (extra_aad x) data = Ok (ct, t)" "c = ct @ t"
  using assms by (auto simp: key_bundle_encrypt_def op_res_def res_bind_def split: res.splits prod.splits)

lemma encrypt_rsa_ok:
  assumes "key_bundle_encrypt E b data x n = (Ok c, n')" "kb_key_type b = ''rsa''"
  obtains r w where "ke_rsa E (kb_key b) = Ok r" "c = fill_buf (ke_rsa_size E r) w"
    "if extra_flag x then ke_public_encrypt E n r data = Ok w else ke_private_encrypt E r data = Ok w"
  using assms
  by (auto simp: key_bundle_encrypt_def op_bind_def op_res_def op_return_def op_fail_def drawn_def
      split: res.splits prod.splits if_splits)

lemma decrypt_of_encrypt:
  assumes E: "openssl_keys E" and enc: "key_bundle_encrypt E b data x n = (Ok c, n')"
  shows "key_bundle_decrypt E b c x = Ok (decrypted_as (kb_key_type b) data)"
proof -
  consider (aead) "kb_key_type b \<in> {''aes-gcm'', ''sm4-gcm'', ''sm4-ccm''}" | (block) "kb_key_type b \<in> {''aes-cbc'', ''aes-ecb''}"
    | (rsa) "kb_key_type b = ''rsa''"
    using enc by (auto simp: key_bundle_encrypt_def op_fail_def split: if_splits)
  then show ?thesis
  proof cases
    case aead
    obtain ci ct t where e: "cipher_from_key_type_and_bits (ke_tongsuo E) (kb_key_type b) (kb_bits b) = Ok ci"
      "ke_encrypt_aead E ci (kb_key b) (kb_iv b) (extra_aad x) data = Ok (ct, t)" "c = ct @ t"
      by (rule encrypt_aead_ok [OF enc aead])
    then have "length t = 16 \<and> ke_decrypt_aead E ci (kb_key b) (kb_iv b) (extra_aad x) ct t = Ok data"
      using E unfolding openssl_keys_def by blast
    then show ?thesis using aead e by (auto simp: key_bundle_decrypt_def decrypted_as_def)
  next
    case block
    then obtain ci where "cipher_from_key_type_and_bits (ke_tongsuo E) (kb_key_type b) (kb_bits b) = Ok ci"
      "ke_encrypt E ci (kb_key b) (bundle_iv b) data = Ok c"
      using enc by (auto simp: key_bundle_encrypt_def op_res_def res_bind_def split: res.splits)
    moreover have "ke_decrypt E ci (kb_key b) (bundle_iv b) c = Ok data"
      using E calculation(2) unfolding openssl_keys_def by blast
    ultimately show ?thesis using block by (auto simp: key_bundle_decrypt_def decrypted_as_def)
  next
    case rsa
    obtain r w where e: "ke_rsa E (kb_key b) = Ok r" "c = fill_buf (ke_rsa_size E r) w"
      "if extra_flag x then ke_public_encrypt E n r data = Ok w else ke_private_encrypt E r data = Ok w"
      by (rule encrypt_rsa_ok [OF enc rsa])
    then have l: "length w = ke_rsa_size E r" "length data + 11 \<le> ke_rsa_size E r"
      "(if extra_flag x then res_bind (ke_private_part E r) (\<lambda>p. ke_private_decrypt E p w)
        else res_bind (ke_public_part E r) (\<lambda>p. ke_public_decrypt E p w)) = Ok data"
      using E unfolding openssl_keys_def by (metis (no_types, lifting) res_bind_simps(1))+
    have "before_zero (fill_buf (ke_rsa_size E r) data) = Ok (takeWhile (\<lambda>x. x \<noteq> 0) data)"
      by (rule before_zero_padded) (use l(2) in simp)
    then show ?thesis using rsa e(1,2) l by (simp add: key_bundle_decrypt_def decrypted_as_def)
  qed
qed

lemma verify_of_sign:
  assumes E: "openssl_keys E" and s: "key_bundle_sign E b data n = (Ok sig, n')"
  shows "key_bundle_verify E b data sig = Ok True"
proof -
  obtain d k where "sign_digest_of (ke_tongsuo E) (kb_key_type b) = Ok d" "ke_pkey E (kb_key b) = Ok k"
    "ke_sign E n k d (kb_key_type b = ''rsa'') data = Ok sig"
    using s by (auto simp: key_bundle_sign_def op_bind_def op_res_def drawn_def split: res.splits)
  moreover have "ke_verifier E k d (kb_key_type b = ''rsa'') data = Ok ()" "ke_verify E k d (kb_key_type b = ''rsa'') data sig = Ok True"
    using openssl_sign [OF E calculation(3)] by simp_all
  ultimately show ?thesis by (simp add: key_bundle_verify_def)
qed

end
