(* ===== verification/Certificate.thy ===== *)
theory Certificate
  imports Key_Bundle Logical
begin

text \<open>
  Certificates, \<open>src/utils/cert.rs\<close>: what a certificate is built from, bundles of a certificate with its key and chain,
  and their check. An X.509 certificate and a private key are values of OpenSSL, of any two types, and what is done with
  them is the record \<open>x509_env\<close>. The contents that a builder is given before it signs are a record of their own.

  Shown: a certificate has the contents that were asked for, and so is one of a CA exactly when a CA is asked for; what the
  check of a bundle accepts.
\<close>

section \<open>Model\<close>

type_synonym x509_name = "(string \<times> string) list"

datatype san = DnsName string | EmailName string | IpName string | UriName string
datatype key_usage = KeyCertSign | CrlSign | NonRepudiation | DigitalSignature | KeyEncipherment
datatype x509_ext =
    SubjectAltName "san list" | BasicConstraints bool | KeyUsage "key_usage list" | ServerAndClientAuth
  | SubjectKeyId | AuthorityKeyId

record x509_tbs =
  tb_version :: int
  tb_serial :: nat
  tb_subject :: x509_name
  tb_issuer :: x509_name
  tb_not_before :: int
  tb_not_after :: int
  tb_extensions :: "x509_ext list"

record ('x, 'k) x509_env =
  xe_tongsuo :: bool
  xe_default :: 'x
  xe_key_default :: 'k
  xe_public_matches :: "'k \<Rightarrow> 'x \<Rightarrow> bool res"
  xe_check_ca :: "'x \<Rightarrow> int"
  xe_subject_key_id :: "'x \<Rightarrow> bytes option"
  xe_serial :: "'x \<Rightarrow> nat"
  xe_serial_hex :: "nat \<Rightarrow> string res"
  xe_subject_name :: "'x \<Rightarrow> x509_name"
  xe_not_after :: "'x \<Rightarrow> int"
  xe_not_after_text :: "'x \<Rightarrow> string"
  xe_before :: "'x \<Rightarrow> int \<Rightarrow> bool res"
  xe_ext_flags :: "'x \<Rightarrow> bool"
  xe_ext_key_usage :: "'x \<Rightarrow> u32"
  xe_name_entry :: "string \<Rightarrow> string \<Rightarrow> bool"
  xe_asn1 :: "int \<Rightarrow> unit res"
  xe_extension :: "'x option \<Rightarrow> x509_ext \<Rightarrow> unit res"
  xe_sign :: "nat \<Rightarrow> x509_tbs \<Rightarrow> 'k \<Rightarrow> 'k \<Rightarrow> sign_digest \<Rightarrow> 'x res"
  xe_rand_serial :: "nat \<Rightarrow> nat"
  xe_rsa_key :: "nat \<Rightarrow> nat \<Rightarrow> 'k res"
  xe_ec_key :: "nat \<Rightarrow> curve \<Rightarrow> 'k res"
  xe_pem :: "'x \<Rightarrow> bytes res"
  xe_of_pem :: "bytes \<Rightarrow> 'x res"
  xe_der :: "'x \<Rightarrow> bytes res"
  xe_of_der :: "bytes \<Rightarrow> 'x res"
  xe_key_pem :: "'k \<Rightarrow> bytes res"
  xe_key_of_pem :: "bytes \<Rightarrow> 'k res"
  xe_key_of_der :: "bytes \<Rightarrow> 'k res"
  xe_key_kind :: "'k \<Rightarrow> string"
  xe_lossy :: "bytes \<Rightarrow> string"
  xe_timestamp :: "string \<Rightarrow> int option"

record ('x, 'k) cert_bundle =
  cb_certificate :: 'x
  cb_ca_chain :: "'x list"
  cb_private_key :: 'k
  cb_private_key_type :: string
  cb_serial_number :: string

record certificate =
  ce_version :: int
  ce_serial_number :: nat
  ce_subject :: x509_name
  ce_not_before :: int
  ce_not_after :: int
  ce_extensions :: "x509_ext list"
  ce_dns_sans :: "string list"
  ce_email_sans :: "string list"
  ce_ip_sans :: "string list"
  ce_uri_sans :: "string list"
  ce_is_ca :: bool
  ce_key_type :: string
  ce_key_bits :: nat

definition cert_bundle_default :: "('x, 'k) x509_env \<Rightarrow> ('x, 'k) cert_bundle" where
  "cert_bundle_default E =
     \<lparr>cb_certificate = xe_default E, cb_ca_chain = [], cb_private_key = xe_key_default E, cb_private_key_type = [],
      cb_serial_number = []\<rparr>"

definition unwrapped :: "'a res \<Rightarrow> 'a res" where
  "unwrapped r = (case r of Ok x \<Rightarrow> Ok x | _ \<Rightarrow> Panic)"

text \<open>The serialised form of a bundle has the PEM texts of the certificates and of the key.\<close>

type_synonym pem_bundle = "bytes \<times> bytes list \<times> bytes \<times> string \<times> string"

definition serialize_bundle :: "('x, 'k) x509_env \<Rightarrow> ('x, 'k) cert_bundle \<Rightarrow> pem_bundle res" where
  "serialize_bundle E b =
     res_bind (unwrapped (xe_pem E (cb_certificate b))) (\<lambda>c.
     res_bind (res_mapM (\<lambda>x. unwrapped (xe_pem E x)) (cb_ca_chain b)) (\<lambda>cs.
     res_bind (unwrapped (xe_key_pem E (cb_private_key b))) (\<lambda>k.
       Ok (c, cs, k, cb_private_key_type b, cb_serial_number b))))"

definition serde_error :: "'a res \<Rightarrow> 'a res" where
  "serde_error r = (case r of Err _ \<Rightarrow> Err (External SerdeJson ''custom'') | _ \<Rightarrow> r)"

definition deserialize_bundle :: "('x, 'k) x509_env \<Rightarrow> pem_bundle \<Rightarrow> ('x, 'k) cert_bundle res" where
  "deserialize_bundle E p =
     (case p of (c, cs, k, ty, sn) \<Rightarrow>
        serde_error (
          res_bind (xe_of_pem E c) (\<lambda>x.
          res_bind (res_mapM (xe_of_pem E) cs) (\<lambda>xs.
          res_bind (xe_key_of_pem E k) (\<lambda>key.
            Ok \<lparr>cb_certificate = x, cb_ca_chain = xs, cb_private_key = key, cb_private_key_type = ty, cb_serial_number = sn\<rparr>)))))"

definition is_ca_cert :: "('x, 'k) x509_env \<Rightarrow> 'x \<Rightarrow> bool" where
  "is_ca_cert E x \<longleftrightarrow> xe_check_ca E x \<noteq> 0"

definition generate_serial_number :: "('x, 'k) x509_env \<Rightarrow> (nat, nat) op" where
  "generate_serial_number E = drawn (\<lambda>n. Ok (xe_rand_serial E n))"

definition has_x509_ext_key_usage :: "('x, 'k) x509_env \<Rightarrow> 'x \<Rightarrow> bool" where
  "has_x509_ext_key_usage E x = xe_ext_flags E x"

definition has_x509_ext_key_usage_flag :: "('x, 'k) x509_env \<Rightarrow> 'x \<Rightarrow> u32 \<Rightarrow> bool" where
  "has_x509_ext_key_usage_flag E x flag \<longleftrightarrow> xe_ext_flags E x \<and> and (xe_ext_key_usage E x) flag \<noteq> 0"

definition get_cert_chain :: "('x, 'k) x509_env \<Rightarrow> ('x, 'k) cert_bundle \<Rightarrow> 'x list" where
  "get_cert_chain E b =
     cb_certificate b #
     (case cb_ca_chain b of
        [] \<Rightarrow> []
      | x # _ \<Rightarrow> if xe_serial E x \<noteq> xe_serial E (cb_certificate b) then cb_ca_chain b else [])"

fun verify_chain :: "('x, 'k) x509_env \<Rightarrow> 'x \<Rightarrow> 'x list \<Rightarrow> unit res" where
  "verify_chain E x [] = Ok ()"
| "verify_chain E x (y # ys) =
     (if \<not> is_ca_cert E y then Err (Pki ErrPkiCertIsNotCA)
      else
        (case (xe_subject_key_id E x, xe_subject_key_id E y) of
           (Some a, Some s) \<Rightarrow> if a \<noteq> s then Err (Pki ErrPkiCertChainIncorrect) else verify_chain E y ys
         | _ \<Rightarrow> Err (Pki ErrPkiCaExtensionIncorrect)))"

definition cert_bundle_verify :: "('x, 'k) x509_env \<Rightarrow> ('x, 'k) cert_bundle \<Rightarrow> unit res" where
  "cert_bundle_verify E b =
     res_bind (xe_public_matches E (cb_private_key b) (cb_certificate b)) (\<lambda>same.
       if \<not> same then Err (Pki ErrPkiCertKeyMismatch)
       else verify_chain E (cb_certificate b) (tl (get_cert_chain E b)))"

text \<open>The certificate of \<open>Certificate::default()\<close>, whose serial number is drawn; the times are set by its callers.\<close>

definition certificate_default :: "('x, 'k) x509_env \<Rightarrow> (nat, certificate) op" where
  "certificate_default E =
     op_bind (generate_serial_number E) (\<lambda>sn.
       op_return \<lparr>ce_version = 2, ce_serial_number = sn, ce_subject = [], ce_not_before = 0, ce_not_after = 0,
         ce_extensions = [], ce_dns_sans = [], ce_email_sans = [], ce_ip_sans = [], ce_uri_sans = [], ce_is_ca = False,
         ce_key_type = ''rsa'', ce_key_bits = 2048\<rparr>)"

definition cert_sans :: "certificate \<Rightarrow> san list" where
  "cert_sans c =
     map DnsName (ce_dns_sans c) @ map EmailName (ce_email_sans c) @ map IpName (ce_ip_sans c) @ map UriName (ce_uri_sans c)"

definition cert_extensions :: "certificate \<Rightarrow> x509_ext list" where
  "cert_extensions c =
     (if cert_sans c \<noteq> [] then [SubjectAltName (cert_sans c)] else []) @ ce_extensions c @
     (if ce_is_ca c then [BasicConstraints True, KeyUsage [KeyCertSign, CrlSign]]
      else [BasicConstraints False, KeyUsage [NonRepudiation, DigitalSignature, KeyEncipherment], ServerAndClientAuth]) @
     [SubjectKeyId, AuthorityKeyId]"

definition unix_secs :: "int \<Rightarrow> int res" where
  "unix_secs t = (case secs_since_epoch t of None \<Rightarrow> Err (External SystemTimeError ''before the epoch'') | Some n \<Rightarrow> Ok (int n))"

definition cert_digest :: "bool \<Rightarrow> string \<Rightarrow> sign_digest res" where
  "cert_digest tongsuo ty =
     (if ty = ''rsa'' \<or> ty = ''ec'' then Ok Sha256 else if tongsuo \<and> ty = ''sm2'' then Ok Sm3
      else Err (Pki ErrPkiKeyTypeInvalid))"

definition to_x509 ::
  "('x, 'k) x509_env \<Rightarrow> certificate \<Rightarrow> 'x option \<Rightarrow> 'k option \<Rightarrow> 'k \<Rightarrow> (nat, 'x) op" where
  "to_x509 E c ca_cert ca_key key =
     op_bind (op_res (
       res_bind (unix_secs (ce_not_before c)) (\<lambda>nb.
       res_bind (xe_asn1 E nb) (\<lambda>_.
       res_bind (unix_secs (ce_not_after c)) (\<lambda>na.
       res_bind (xe_asn1 E na) (\<lambda>_.
       res_bind (res_mapM (xe_extension E ca_cert) (cert_extensions c)) (\<lambda>_.
       res_bind (cert_digest (xe_tongsuo E) (ce_key_type c)) (\<lambda>d.
         Ok (\<lparr>tb_version = ce_version c, tb_serial = ce_serial_number c, tb_subject = ce_subject c,
              tb_issuer = (case ca_cert of Some x \<Rightarrow> xe_subject_name E x | None \<Rightarrow> ce_subject c),
              tb_not_before = nb, tb_not_after = na, tb_extensions = cert_extensions c\<rparr>, d)))))))))
       (\<lambda>(T, d). drawn (\<lambda>n. xe_sign E n T key (case ca_key of Some k \<Rightarrow> k | None \<Rightarrow> key) d))"

definition new_private_key :: "('x, 'k) x509_env \<Rightarrow> string \<Rightarrow> nat \<Rightarrow> (nat, 'k) op" where
  "new_private_key E ty bits =
     (if ty = ''rsa'' then
        if bits \<in> {2048, 3072, 4096} then drawn (\<lambda>n. xe_rsa_key E n bits) else op_fail (Pki ErrPkiKeyBitsInvalid)
      else if ty = ''ec'' then op_bind (op_res (ec_curve bits)) (\<lambda>c. drawn (\<lambda>n. xe_ec_key E n c))
      else if xe_tongsuo E \<and> ty = ''sm2'' then
        if bits \<noteq> 256 then op_fail (Pki ErrPkiKeyBitsInvalid) else drawn (\<lambda>n. xe_ec_key E n CurveSM2)
      else op_fail (Pki ErrPkiKeyTypeInvalid))"

fun chunks2 :: "string \<Rightarrow> string list" where
  "chunks2 (a # b # s) = [a, b] # chunks2 s"
| "chunks2 [a] = [[a]]"
| "chunks2 [] = []"

definition colon_hex :: "string \<Rightarrow> string" where
  "colon_hex h = to_lowercase (join_with '':'' (chunks2 h))"

definition to_cert_bundle ::
  "('x, 'k) x509_env \<Rightarrow> certificate \<Rightarrow> 'x option \<Rightarrow> 'k option \<Rightarrow> (nat, ('x, 'k) cert_bundle) op" where
  "to_cert_bundle E c ca_cert ca_key =
     op_bind (new_private_key E (ce_key_type c) (ce_key_bits c)) (\<lambda>key.
     op_bind (to_x509 E c ca_cert ca_key key) (\<lambda>x.
     op_bind (op_res (xe_serial_hex E (xe_serial E x))) (\<lambda>h.
       op_return \<lparr>cb_certificate = x, cb_ca_chain = (case ca_cert of Some y \<Rightarrow> [y] | None \<Rightarrow> []), cb_private_key = key,
         cb_private_key_type = ce_key_type c, cb_serial_number = colon_hex h\<rparr>)))"

text \<open>\<open>asn1time_to_timestamp\<close> of \<open>src/utils/mod.rs\<close>.\<close>

definition asn1time_to_timestamp :: "('x, 'k) x509_env \<Rightarrow> string \<Rightarrow> int res" where
  "asn1time_to_timestamp E s =
     (case xe_timestamp E s of None \<Rightarrow> Err (External ChronoError ''invalid time'') | Some t \<Rightarrow> Ok t)"

section \<open>Contents of certificates\<close>

text \<open>
  What OpenSSL promises: a certificate has what its builder was given, its public key is that of the private key it was
  built with, and it is read again from its forms; the text of a time is read by chrono. The check for an authority is
  stated for certificates with exactly one extension of basic constraints, as \<open>cert.rs\<close> builds them, and, where that says
  that it is an authority, with a key usage for signing certificates; a comparison of times that succeeds is right.
\<close>

definition basic_constraints :: "x509_ext list \<Rightarrow> bool list" where
  "basic_constraints es = concat (map (\<lambda>e. case e of BasicConstraints b \<Rightarrow> [b] | _ \<Rightarrow> []) es)"

definition x509_ok :: "('x, 'k) x509_env \<Rightarrow> bool" where
  "x509_ok E \<longleftrightarrow>
     (\<forall>n T k sk d x. xe_sign E n T k sk d = Ok x \<longrightarrow>
        xe_serial E x = tb_serial T \<and> xe_subject_name E x = tb_subject T \<and> xe_not_after E x = tb_not_after T \<and>
        xe_public_matches E k x = Ok True \<and>
        (\<forall>b. basic_constraints (tb_extensions T) = [b] \<longrightarrow>
          (b \<longrightarrow> (\<exists>us. KeyUsage us \<in> set (tb_extensions T) \<and> KeyCertSign \<in> set us)) \<longrightarrow> (xe_check_ca E x \<noteq> 0 \<longleftrightarrow> b))) \<and>
     (\<forall>x t early. xe_before E x t = Ok early \<longrightarrow> (early \<longleftrightarrow> xe_not_after E x < t)) \<and>
     (\<forall>x. xe_timestamp E (xe_not_after_text E x) = Some (xe_not_after E x)) \<and>
     (\<forall>x b. xe_der E x = Ok b \<longrightarrow> xe_of_der E b = Ok x) \<and>
     (\<forall>x b. xe_pem E x = Ok b \<longrightarrow> xe_of_pem E b = Ok x) \<and>
     (\<forall>k b. xe_key_pem E k = Ok b \<longrightarrow> xe_key_of_pem E b = Ok k)"

lemma x509_sign:
  assumes "x509_ok E" "xe_sign E n T k sk d = Ok x"
  shows "xe_serial E x = tb_serial T" "xe_subject_name E x = tb_subject T" "xe_not_after E x = tb_not_after T"
    "xe_public_matches E k x = Ok True"
    "basic_constraints (tb_extensions T) = [b] \<Longrightarrow> (b \<Longrightarrow> \<exists>us. KeyUsage us \<in> set (tb_extensions T) \<and> KeyCertSign \<in> set us) \<Longrightarrow>
      is_ca_cert E x \<longleftrightarrow> b"
  using assms unfolding x509_ok_def is_ca_cert_def by blast+

lemma x509_forms:
  assumes "x509_ok E"
  shows "xe_before E x t = Ok early \<Longrightarrow> early \<longleftrightarrow> xe_not_after E x < t" "asn1time_to_timestamp E (xe_not_after_text E x) = Ok (xe_not_after E x)"
    "xe_der E x = Ok b \<Longrightarrow> xe_of_der E b = Ok x" "xe_pem E x = Ok b \<Longrightarrow> xe_of_pem E b = Ok x"
    "xe_key_pem E k = Ok b \<Longrightarrow> xe_key_of_pem E b = Ok k"
  using assms unfolding x509_ok_def asn1time_to_timestamp_def by simp_all

lemma unwrapped_Ok [simp]: "unwrapped r = Ok x \<longleftrightarrow> r = Ok x" "unwrapped r \<noteq> Err e" "unwrapped (Ok y) = Ok y"
  by (simp_all add: unwrapped_def split: res.split)

lemma res_mapM_back:
  assumes "\<And>x b. f x = Ok b \<Longrightarrow> g b = Ok x"
  shows "res_mapM f xs = Ok bs \<Longrightarrow> res_mapM g bs = Ok xs"
  by (induction xs arbitrary: bs) (auto simp: res_bind_Ok_iff assms)

text \<open>A bundle is read back as it was serialised.\<close>

lemma bundle_serialized:
  assumes "x509_ok E" "serialize_bundle E b = Ok p"
  shows "deserialize_bundle E p = Ok b"
proof -
  obtain c cs k where p: "p = (c, cs, k, cb_private_key_type b, cb_serial_number b)"
    and f: "xe_pem E (cb_certificate b) = Ok c" "res_mapM (\<lambda>x. unwrapped (xe_pem E x)) (cb_ca_chain b) = Ok cs"
      "xe_key_pem E (cb_private_key b) = Ok k"
    using assms(2) by (auto simp: serialize_bundle_def res_bind_Ok_iff)
  have "res_mapM (xe_of_pem E) cs = Ok (cb_ca_chain b)"
    by (rule res_mapM_back [OF _ f(2)]) (use x509_forms [OF assms(1)] in simp)
  then show ?thesis
    using p f(1,3) x509_forms [OF assms(1)] by (simp add: deserialize_bundle_def serde_error_def)
qed

lemma op_bind_Ok:
  "op_bind m f s = (Ok b, s') \<longleftrightarrow> (\<exists>a s1. m s = (Ok a, s1) \<and> f a s1 = (Ok b, s'))"
  by (auto simp: op_bind_def split: prod.split res.split)

lemma on_state_Ok: "on_state (a, req) f = (Ok x, (a', req')) \<longleftrightarrow> f req a = (Ok x, a') \<and> req' = req"
  by (auto simp: on_state_def split: prod.splits)

lemma on_state_Ok': "on_state (a, req) f = (Ok x, s) \<longleftrightarrow> (\<exists>a'. f req a = (Ok x, a') \<and> s = (a', req))"
  by (auto simp: on_state_def split: prod.splits)

lemma op_res_Ok [simp]: "op_res r s = (Ok a, s') \<longleftrightarrow> r = Ok a \<and> s' = s"
  by (auto simp: op_res_def)

lemma op_return_Ok [simp]: "op_return x s = (Ok a, s') \<longleftrightarrow> a = x \<and> s' = s"
  by (auto simp: op_return_def)

lemma op_fail_Ok [simp]: "op_fail e s \<noteq> (Ok a, s')"
  by (simp add: op_fail_def)

lemma drawn_Ok [simp]: "drawn f n = (Ok a, n') \<longleftrightarrow> f n = Ok a \<and> n' = Suc n"
  by (auto simp: drawn_def)

lemma to_x509_ok:
  assumes "to_x509 E c ca_cert ca_key key n = (Ok x, n')"
  obtains T d sk where "xe_sign E n T key sk d = Ok x" "tb_serial T = ce_serial_number c" "tb_subject T = ce_subject c"
    "unix_secs (ce_not_after c) = Ok (tb_not_after T)" "tb_extensions T = cert_extensions c"
    "ca_key = Some sk \<or> ca_key = None \<and> sk = key"
proof -
  let ?sk = "case ca_key of Some k \<Rightarrow> k | None \<Rightarrow> key"
  obtain T d where "xe_sign E n T key ?sk d = Ok x" "tb_serial T = ce_serial_number c" "tb_subject T = ce_subject c"
    "unix_secs (ce_not_after c) = Ok (tb_not_after T)" "tb_extensions T = cert_extensions c"
    using assms by (auto simp: to_x509_def op_bind_Ok res_bind_Ok_iff)
  then show ?thesis by (rule that) (simp split: option.split)
qed

lemma cert_constraints:
  assumes "ce_extensions c = []"
  shows "basic_constraints (cert_extensions c) = [ce_is_ca c]"
    "ce_is_ca c \<Longrightarrow> \<exists>us. KeyUsage us \<in> set (cert_extensions c) \<and> KeyCertSign \<in> set us"
  using assms by (auto simp: cert_extensions_def basic_constraints_def)

text \<open>What comes out when a bundle is made of a certificate.\<close>

lemma cert_bundle_made:
  assumes E: "x509_ok E" and mk: "to_cert_bundle E c ca_cert ca_key n = (Ok b, n')"
  shows "unix_secs (ce_not_after c) = Ok (xe_not_after E (cb_certificate b))" "xe_serial E (cb_certificate b) = ce_serial_number c"
    "xe_subject_name E (cb_certificate b) = ce_subject c"
    "xe_public_matches E (cb_private_key b) (cb_certificate b) = Ok True"
    "ce_extensions c = [] \<Longrightarrow> is_ca_cert E (cb_certificate b) \<longleftrightarrow> ce_is_ca c"
    "cb_ca_chain b = (case ca_cert of Some y \<Rightarrow> [y] | None \<Rightarrow> [])" "cb_private_key_type b = ce_key_type c"
    "\<exists>h. xe_serial_hex E (ce_serial_number c) = Ok h \<and> cb_serial_number b = colon_hex h"
proof -
  obtain n1 n2 key x h where k: "new_private_key E (ce_key_type c) (ce_key_bits c) n = (Ok key, n1)"
    and x: "to_x509 E c ca_cert ca_key key n1 = (Ok x, n2)" and h: "xe_serial_hex E (xe_serial E x) = Ok h"
    and b: "b = \<lparr>cb_certificate = x, cb_ca_chain = (case ca_cert of Some y \<Rightarrow> [y] | None \<Rightarrow> []), cb_private_key = key,
         cb_private_key_type = ce_key_type c, cb_serial_number = colon_hex h\<rparr>"
    using mk by (auto simp: to_cert_bundle_def op_bind_Ok)
  obtain T d sk where T: "xe_sign E n1 T key sk d = Ok x" "tb_serial T = ce_serial_number c" "tb_subject T = ce_subject c"
    "unix_secs (ce_not_after c) = Ok (tb_not_after T)" "tb_extensions T = cert_extensions c"
    by (rule to_x509_ok [OF x])
  note s = x509_sign [OF E T(1)]
  show "unix_secs (ce_not_after c) = Ok (xe_not_after E (cb_certificate b))" "xe_serial E (cb_certificate b) = ce_serial_number c"
    "xe_subject_name E (cb_certificate b) = ce_subject c"
    "xe_public_matches E (cb_private_key b) (cb_certificate b) = Ok True"
    "cb_ca_chain b = (case ca_cert of Some y \<Rightarrow> [y] | None \<Rightarrow> [])" "cb_private_key_type b = ce_key_type c"
    using s(1-4) T b by simp_all
  show "is_ca_cert E (cb_certificate b) \<longleftrightarrow> ce_is_ca c" if "ce_extensions c = []"
    using s(5) [of "ce_is_ca c"] cert_constraints [OF that] T(5) b by simp
  show "\<exists>h. xe_serial_hex E (ce_serial_number c) = Ok h \<and> cb_serial_number b = colon_hex h"
    using h b s(1) T(2) by auto
qed

section \<open>The check of a bundle\<close>

lemma verify_chain_ok_iff:
  "verify_chain E x ys = Ok () \<longleftrightarrow>
     (\<forall>y \<in> set ys. is_ca_cert E y) \<and>
     (ys = [] \<or> (\<exists>i. xe_subject_key_id E x = Some i \<and> (\<forall>y \<in> set ys. xe_subject_key_id E y = Some i)))"
  by (induction ys arbitrary: x) (auto split: option.splits)

text \<open>
  The check of a chain compares the subject key identifiers of neighbours, where the identifier that a certificate gives
  for its authority is meant: a chain of certificates of different keys does not pass.
\<close>

lemma chain_of_two_keys_refused:
  assumes "xe_public_matches E (cb_private_key b) (cb_certificate b) = Ok True"
    and "y \<in> set (cb_ca_chain b)" "xe_serial E (hd (cb_ca_chain b)) \<noteq> xe_serial E (cb_certificate b)"
    and "xe_subject_key_id E y \<noteq> xe_subject_key_id E (cb_certificate b)"
  shows "cert_bundle_verify E b \<noteq> Ok ()"
proof -
  have "get_cert_chain E b = cb_certificate b # cb_ca_chain b"
    using assms(2,3) by (auto simp: get_cert_chain_def split: list.split)
  then show ?thesis using assms(1,2,4) by (auto simp: cert_bundle_verify_def verify_chain_ok_iff)
qed

end
