(* ===== verification/Pki.thy ===== *)
theory Pki
  imports Certificate Salt Token_Util
begin

text \<open>
  The PKI engine, \<open>src/modules/pki\<close>: roles (\<open>path_roles.rs\<close>), the certificate authority (\<open>path_config_ca.rs\<close>,
  \<open>path_root.rs\<close>), issuing and fetching certificates (\<open>path_issue.rs\<close>, \<open>path_fetch.rs\<close>), keys that are kept by name
  (\<open>path_keys.rs\<close>), the end points without an effect, and the backend itself (\<open>mod.rs\<close>).

  The state is the storage with the numbers of random draws and of readings of the clock. Times are nanoseconds since the
  epoch. OpenSSL is in \<open>x509_env\<close> and \<open>key_env\<close>; the parsers of times, PEM and hexadecimal text and the JSON forms of
  what is stored are in the record \<open>pki_env\<close>. The counters of the backend, which nothing reads, are left out.
\<close>

section \<open>Data\<close>

record pki_role =
  pkr_ttl :: duration
  pkr_max_ttl :: duration
  pkr_not_before_duration :: duration
  pkr_key_type :: string
  pkr_key_bits :: nat
  pkr_signature_bits :: nat
  pkr_use_pss :: bool
  pkr_allow_localhost :: bool
  pkr_allow_bare_domains :: bool
  pkr_allow_subdomains :: bool
  pkr_allow_any_name :: bool
  pkr_allow_ip_sans :: bool
  pkr_server_flag :: bool
  pkr_client_flag :: bool
  pkr_use_csr_sans :: bool
  pkr_use_csr_common_name :: bool
  pkr_key_usage :: "string list"
  pkr_ext_key_usage :: "string list"
  pkr_country :: string
  pkr_province :: string
  pkr_locality :: string
  pkr_organization :: string
  pkr_ou :: string
  pkr_street_address :: string
  pkr_postal_code :: string
  pkr_no_store :: bool
  pkr_generate_lease :: bool
  pkr_not_after :: string

record ('x, 'p, 'k, 'r) pki_env =
  pe_x509 :: "('x, 'p) x509_env"
  pe_keys :: "('k, 'r) key_env"
  pe_parsers :: parsers
  pe_clock :: "nat \<Rightarrow> int"
  pe_parse_rfc3339 :: "string \<Rightarrow> int option"
  pe_parse_pem :: "string \<Rightarrow> (string \<times> bytes) list option"
  pe_hex_decode :: "string \<Rightarrow> bytes option"
  pe_utf8 :: "string \<Rightarrow> bytes"
  pe_enc_role :: "pki_role \<Rightarrow> bytes"
  pe_dec_role :: "bytes \<Rightarrow> pki_role option"
  pe_enc_bundle :: "pem_bundle \<Rightarrow> bytes"
  pe_dec_bundle :: "bytes \<Rightarrow> pem_bundle option"
  pe_enc_key :: "key_bundle \<Rightarrow> bytes"
  pe_dec_key :: "bytes \<Rightarrow> key_bundle option"

record 's pki_state =
  pks_store :: 's
  pks_draws :: nat
  pks_reads :: nat

definition DEFAULT_MAX_TTL :: duration where "DEFAULT_MAX_TTL = from_secs (365 * 24 * 60 * 60)"
definition PKI_CONFIG_KEY_PREFIX :: string where "PKI_CONFIG_KEY_PREFIX = ''config/key/''"

definition pki_role_default :: pki_role where
  "pki_role_default =
     \<lparr>pkr_ttl = 0, pkr_max_ttl = DEFAULT_MAX_TTL, pkr_not_before_duration = 0, pkr_key_type = ''rsa'', pkr_key_bits = 2048,
      pkr_signature_bits = 256, pkr_use_pss = False, pkr_allow_localhost = True, pkr_allow_bare_domains = True,
      pkr_allow_subdomains = True, pkr_allow_any_name = True, pkr_allow_ip_sans = True, pkr_server_flag = False,
      pkr_client_flag = False, pkr_use_csr_sans = True, pkr_use_csr_common_name = True, pkr_key_usage = [],
      pkr_ext_key_usage = [], pkr_country = [], pkr_province = [], pkr_locality = [], pkr_organization = [], pkr_ou = [],
      pkr_street_address = [], pkr_postal_code = [], pkr_no_store = True, pkr_generate_lease = False, pkr_not_after = []\<rparr>"

definition pki_role_json :: "pki_role \<Rightarrow> json_obj" where
  "pki_role_json r =
     [(''allow_any_name'', JBool (pkr_allow_any_name r)), (''allow_bare_domains'', JBool (pkr_allow_bare_domains r)),
      (''allow_ip_sans'', JBool (pkr_allow_ip_sans r)), (''allow_localhost'', JBool (pkr_allow_localhost r)),
      (''allow_subdomains'', JBool (pkr_allow_subdomains r)), (''client_flag'', JBool (pkr_client_flag r)),
      (''country'', JString (pkr_country r)), (''ext_key_usage'', str_list (pkr_ext_key_usage r)),
      (''generate_lease'', JBool (pkr_generate_lease r)), (''key_bits'', JNum (int (pkr_key_bits r))),
      (''key_type'', JString (pkr_key_type r)), (''key_usage'', str_list (pkr_key_usage r)),
      (''locality'', JString (pkr_locality r)), (''max_ttl'', secs (pkr_max_ttl r)), (''no_store'', JBool (pkr_no_store r)),
      (''not_after'', JString (pkr_not_after r)), (''not_before_duration'', secs (pkr_not_before_duration r)),
      (''organization'', JString (pkr_organization r)), (''ou'', JString (pkr_ou r)),
      (''postal_code'', JString (pkr_postal_code r)), (''province'', JString (pkr_province r)),
      (''server_flag'', JBool (pkr_server_flag r)), (''signature_bits'', JNum (int (pkr_signature_bits r))),
      (''street_address'', JString (pkr_street_address r)), (''ttl'', secs (pkr_ttl r)),
      (''use_csr_common_name'', JBool (pkr_use_csr_common_name r)), (''use_csr_sans'', JBool (pkr_use_csr_sans r)),
      (''use_pss'', JBool (pkr_use_pss r))]"

text \<open>The parts of the state.\<close>

definition pki_store :: "('s, 'a) op \<Rightarrow> ('s pki_state, 'a) op" where
  "pki_store m a = (case m (pks_store a) of (r, s) \<Rightarrow> (r, a\<lparr>pks_store := s\<rparr>))"

definition pki_rand :: "(nat, 'a) op \<Rightarrow> ('s pki_state, 'a) op" where
  "pki_rand m a = (case m (pks_draws a) of (r, n) \<Rightarrow> (r, a\<lparr>pks_draws := n\<rparr>))"

definition pki_now :: "('x, 'p, 'k, 'r) pki_env \<Rightarrow> ('s pki_state, int) op" where
  "pki_now E a = (Ok (pe_clock E (pks_reads a)), a\<lparr>pks_reads := Suc (pks_reads a)\<rparr>)"

section \<open>Arguments of requests\<close>

definition field_value :: "(json \<Rightarrow> 'a option) \<Rightarrow> json \<Rightarrow> 'a res" where
  "field_value as v = (case as v of None \<Rightarrow> Err ErrRequestFieldInvalid | Some x \<Rightarrow> Ok x)"

definition given_arg :: "('x, 'p, 'k, 'r) pki_env \<Rightarrow> request \<Rightarrow> string \<Rightarrow> string res" where
  "given_arg E req key = res_bind (get_data (pe_parsers E) req key) (field_value as_str)"

definition default_arg :: "('x, 'p, 'k, 'r) pki_env \<Rightarrow> request \<Rightarrow> (json \<Rightarrow> 'a option) \<Rightarrow> string \<Rightarrow> 'a res" where
  "default_arg E req as key = res_bind (get_data_or_default (pe_parsers E) req key) (field_value as)"

text \<open>A text that the request may have.\<close>

definition optional_arg :: "('x, 'p, 'k, 'r) pki_env \<Rightarrow> request \<Rightarrow> string \<Rightarrow> string option res" where
  "optional_arg E req key =
     (case get_data (pe_parsers E) req key of
        Ok v \<Rightarrow> res_bind (field_value as_str v) (\<lambda>s. Ok (Some s)) | Err _ \<Rightarrow> Ok None | Panic \<Rightarrow> Panic)"

definition parse_duration :: "('x, 'p, 'k, 'r) pki_env \<Rightarrow> string \<Rightarrow> duration res" where
  "parse_duration E s =
     (case snd (pe_parsers E) s of None \<Rightarrow> Err (External HumantimeDuration ''invalid duration'') | Some d \<Rightarrow> Ok d)"

definition duration_arg :: "('x, 'p, 'k, 'r) pki_env \<Rightarrow> request \<Rightarrow> string \<Rightarrow> duration res" where
  "duration_arg E req key =
     res_bind (optional_arg E req key) (\<lambda>s.
       case s of None \<Rightarrow> Ok DEFAULT_MAX_TTL | Some t \<Rightarrow> if t = [] then Ok DEFAULT_MAX_TTL else parse_duration E t)"

definition names_arg :: "('x, 'p, 'k, 'r) pki_env \<Rightarrow> request \<Rightarrow> string \<Rightarrow> string list res" where
  "names_arg E req key =
     res_bind (optional_arg E req key) (\<lambda>s.
       Ok (case s of None \<Rightarrow> [] | Some t \<Rightarrow> if t = [] then [] else split_on (CHR '','') t))"

definition check_key_bits :: "bool \<Rightarrow> string \<Rightarrow> nat \<Rightarrow> nat res" where
  "check_key_bits tongsuo ty bits =
     (if ty = ''rsa'' then
        let b = (if bits = 0 then 2048 else bits) in
        if b \<noteq> 2048 \<and> b \<noteq> 3072 \<and> b \<noteq> 4096 then Err (Pki ErrPkiKeyBitsInvalid) else Ok b
      else if ty = ''ec'' then
        let b = (if bits = 0 then 256 else bits) in
        if b \<noteq> 224 \<and> b \<noteq> 256 \<and> b \<noteq> 384 \<and> b \<noteq> 512 then Err (Pki ErrPkiKeyBitsInvalid) else Ok b
      else if tongsuo \<and> ty = ''sm2'' then
        let b = (if bits = 0 then 256 else bits) in if b \<noteq> 256 then Err (Pki ErrPkiKeyBitsInvalid) else Ok b
      else Err (Pki ErrPkiKeyTypeInvalid))"

definition u32_of :: "nat \<Rightarrow> nat" where "u32_of n = n mod 2 ^ 32"

section \<open>Roles\<close>

definition pki_role_key :: "string \<Rightarrow> string" where "pki_role_key name = ''role/'' @ name"

definition pki_get_role ::
  "('x, 'p, 'k, 'r) pki_env \<Rightarrow> 's storage_ops \<Rightarrow> request \<Rightarrow> string \<Rightarrow> ('s pki_state, pki_role option) op" where
  "pki_get_role E sops req name =
     op_bind (pki_store (rq_storage_get sops req (pki_role_key name))) (\<lambda>e.
       case e of
         None \<Rightarrow> op_return None
       | Some x \<Rightarrow>
           (case pe_dec_role E (se_value x) of
              None \<Rightarrow> op_fail (External SerdeJson ''invalid role'') | Some r \<Rightarrow> op_return (Some r)))"

definition read_path_role :: "('x, 'p, 'k, 'r) pki_env \<Rightarrow> 's storage_ops \<Rightarrow> 's pki_state handler" where
  "read_path_role E sops st =
     on_state st (\<lambda>req.
       op_bind (op_res (given_arg E req ''name'')) (\<lambda>name.
       op_bind (pki_get_role E sops req name) (\<lambda>r.
         case r of None \<Rightarrow> op_res Panic | Some x \<Rightarrow> op_return (Some (data_response (Some (pki_role_json x)))))))"

definition role_times :: "('x, 'p, 'k, 'r) pki_env \<Rightarrow> request \<Rightarrow> (duration \<times> duration) res" where
  "role_times E req =
     res_bind (duration_arg E req ''ttl'') (\<lambda>t. res_bind (duration_arg E req ''max_ttl'') (\<lambda>m. Ok (t, m)))"

definition key_args :: "('x, 'p, 'k, 'r) pki_env \<Rightarrow> request \<Rightarrow> (string \<times> nat) res" where
  "key_args E req =
     res_bind (default_arg E req as_str ''key_type'') (\<lambda>ty.
     res_bind (default_arg E req as_u64 ''key_bits'') (\<lambda>bits.
     res_bind (check_key_bits (xe_tongsuo (pe_x509 E)) ty bits) (\<lambda>b. Ok (ty, b))))"

definition role_flags :: "('x, 'p, 'k, 'r) pki_env \<Rightarrow> request \<Rightarrow> pki_role \<Rightarrow> pki_role res" where
  "role_flags E req r =
     res_bind (default_arg E req as_u64 ''signature_bits'') (\<lambda>sb.
     res_bind (default_arg E req as_bool ''allow_localhost'') (\<lambda>f1.
     res_bind (default_arg E req as_bool ''allow_bare_domains'') (\<lambda>f2.
     res_bind (default_arg E req as_bool ''allow_subdomains'') (\<lambda>f3.
     res_bind (default_arg E req as_bool ''allow_any_name'') (\<lambda>f4.
     res_bind (default_arg E req as_bool ''allow_ip_sans'') (\<lambda>f5.
     res_bind (default_arg E req as_bool ''server_flag'') (\<lambda>f6.
     res_bind (default_arg E req as_bool ''client_flag'') (\<lambda>f7.
     res_bind (default_arg E req as_bool ''use_csr_sans'') (\<lambda>f8.
     res_bind (default_arg E req as_bool ''use_csr_common_name'') (\<lambda>f9.
     res_bind (default_arg E req as_comma_string_slice ''key_usage'') (\<lambda>ku.
     res_bind (default_arg E req as_comma_string_slice ''ext_key_usage'') (\<lambda>eku.
       Ok (r\<lparr>pkr_signature_bits := u32_of sb, pkr_allow_localhost := f1, pkr_allow_bare_domains := f2, pkr_allow_subdomains := f3,
         pkr_allow_any_name := f4, pkr_allow_ip_sans := f5, pkr_server_flag := f6, pkr_client_flag := f7, pkr_use_csr_sans := f8,
         pkr_use_csr_common_name := f9, pkr_key_usage := ku, pkr_ext_key_usage := eku\<rparr>)))))))))))))"

definition role_names :: "('x, 'p, 'k, 'r) pki_env \<Rightarrow> request \<Rightarrow> pki_role \<Rightarrow> pki_role res" where
  "role_names E req r =
     res_bind (default_arg E req as_str ''country'') (\<lambda>c.
     res_bind (default_arg E req as_str ''province'') (\<lambda>p.
     res_bind (default_arg E req as_str ''locality'') (\<lambda>l.
     res_bind (default_arg E req as_str ''organization'') (\<lambda>og.
     res_bind (default_arg E req as_str ''ou'') (\<lambda>ou.
     res_bind (default_arg E req as_str ''street_address'') (\<lambda>sa.
     res_bind (default_arg E req as_str ''postal_code'') (\<lambda>pc.
       Ok (r\<lparr>pkr_country := c, pkr_province := p, pkr_locality := l, pkr_organization := og, pkr_ou := ou,
         pkr_street_address := sa, pkr_postal_code := pc\<rparr>))))))))"

definition role_storing :: "('x, 'p, 'k, 'r) pki_env \<Rightarrow> request \<Rightarrow> pki_role \<Rightarrow> pki_role res" where
  "role_storing E req r =
     res_bind (default_arg E req as_bool ''no_store'') (\<lambda>ns.
     res_bind (default_arg E req as_bool ''generate_lease'') (\<lambda>gl.
     res_bind (default_arg E req as_str ''not_after'') (\<lambda>na.
     res_bind (default_arg E req as_u64 ''not_before_duration'') (\<lambda>nb.
       Ok (r\<lparr>pkr_no_store := ns, pkr_generate_lease := gl, pkr_not_after := na, pkr_not_before_duration := from_secs nb\<rparr>)))))"

definition role_args :: "('x, 'p, 'k, 'r) pki_env \<Rightarrow> request \<Rightarrow> pki_role res" where
  "role_args E req =
     res_bind (role_times E req) (\<lambda>(t, m).
     res_bind (key_args E req) (\<lambda>(ty, b).
     res_bind (role_flags E req (pki_role_default\<lparr>pkr_ttl := t, pkr_max_ttl := m, pkr_key_type := ty, pkr_key_bits := u32_of b\<rparr>))
       (\<lambda>r1.
     res_bind (role_names E req r1) (role_storing E req))))"

definition create_path_role :: "('x, 'p, 'k, 'r) pki_env \<Rightarrow> 's storage_ops \<Rightarrow> 's pki_state handler" where
  "create_path_role E sops st =
     on_state st (\<lambda>req.
       op_bind (op_res (given_arg E req ''name'')) (\<lambda>name.
       op_bind (op_res (role_args E req)) (\<lambda>r.
       op_bind (pki_store (rq_storage_put sops req \<lparr>se_key = pki_role_key name, se_value = pe_enc_role E r\<rparr>)) (\<lambda>_.
         op_return None))))"

definition delete_path_role :: "('x, 'p, 'k, 'r) pki_env \<Rightarrow> 's storage_ops \<Rightarrow> 's pki_state handler" where
  "delete_path_role E sops st =
     on_state st (\<lambda>req.
       op_bind (op_res (given_arg E req ''name'')) (\<lambda>name.
       if name = [] then op_fail ErrRequestNoDataField
       else op_bind (pki_store (rq_storage_delete sops req (pki_role_key name))) (\<lambda>_. op_return None)))"

section \<open>Stored certificates\<close>

definition serial_key :: "string \<Rightarrow> string" where
  "serial_key sn = to_lowercase (map (\<lambda>c. if c = CHR '':'' then CHR ''-'' else c) sn)"

definition cert_key :: "string \<Rightarrow> string" where "cert_key sn = ''certs/'' @ sn"

definition fetch_cert ::
  "('x, 'p, 'k, 'r) pki_env \<Rightarrow> 's storage_ops \<Rightarrow> request \<Rightarrow> string \<Rightarrow> ('s pki_state, 'x) op" where
  "fetch_cert E sops req sn =
     op_bind (pki_store (rq_storage_get sops req (cert_key sn))) (\<lambda>e.
       case e of None \<Rightarrow> op_fail (Pki ErrPkiCertNotFound) | Some x \<Rightarrow> op_res (xe_of_der (pe_x509 E) (se_value x)))"

definition store_cert ::
  "('x, 'p, 'k, 'r) pki_env \<Rightarrow> 's storage_ops \<Rightarrow> request \<Rightarrow> string \<Rightarrow> 'x \<Rightarrow> ('s pki_state, unit) op" where
  "store_cert E sops req sn x =
     op_bind (op_res (xe_der (pe_x509 E) x)) (\<lambda>v.
       pki_store (rq_storage_put sops req \<lparr>se_key = cert_key sn, se_value = v\<rparr>))"

definition delete_cert :: "'s storage_ops \<Rightarrow> request \<Rightarrow> string \<Rightarrow> ('s pki_state, unit) op" where
  "delete_cert sops req sn = pki_store (rq_storage_delete sops req (cert_key sn))"

section \<open>The certificate authority\<close>

definition ca_bundle_key :: string where "ca_bundle_key = ''config/ca_bundle''"

definition fetch_ca_bundle ::
  "('x, 'p, 'k, 'r) pki_env \<Rightarrow> 's storage_ops \<Rightarrow> request \<Rightarrow> ('s pki_state, ('x, 'p) cert_bundle) op" where
  "fetch_ca_bundle E sops req =
     op_bind (pki_store (rq_storage_get sops req ca_bundle_key)) (\<lambda>e.
       case e of
         None \<Rightarrow> op_fail (Pki ErrPkiCaNotConfig)
       | Some x \<Rightarrow>
           (case pe_dec_bundle E (se_value x) of
              None \<Rightarrow> op_fail (External SerdeJson ''invalid bundle'') | Some p \<Rightarrow> op_res (deserialize_bundle (pe_x509 E) p)))"

definition store_ca_bundle ::
  "('x, 'p, 'k, 'r) pki_env \<Rightarrow> 's storage_ops \<Rightarrow> request \<Rightarrow> ('x, 'p) cert_bundle \<Rightarrow> ('s pki_state, unit) op" where
  "store_ca_bundle E sops req b =
     op_bind (op_res (serialize_bundle (pe_x509 E) b)) (\<lambda>p.
     op_bind (pki_store (rq_storage_put sops req \<lparr>se_key = ca_bundle_key, se_value = pe_enc_bundle E p\<rparr>)) (\<lambda>_.
     op_bind (op_res (unwrapped (xe_pem (pe_x509 E) (cb_certificate b)))) (\<lambda>pem.
     op_bind (pki_store (rq_storage_put sops req \<lparr>se_key = ''ca'', se_value = pem\<rparr>)) (\<lambda>_.
       store_cert E sops req (serial_key (cb_serial_number b)) (cb_certificate b)))))"

definition delete_ca_bundle :: "('x, 'p, 'k, 'r) pki_env \<Rightarrow> 's storage_ops \<Rightarrow> request \<Rightarrow> ('s pki_state, unit) op" where
  "delete_ca_bundle E sops req =
     op_bind (fetch_ca_bundle E sops req) (\<lambda>b.
     op_bind (delete_cert sops req (serial_key (cb_serial_number b))) (\<lambda>_.
       pki_store (rq_storage_delete sops req ca_bundle_key)))"

text \<open>The items of a PEM text: the bundle so far, how many certificates there were, and whether there was a key.\<close>

definition pem_certificate ::
  "('x, 'p) x509_env \<Rightarrow> bytes \<Rightarrow> ('x, 'p) cert_bundle \<times> nat \<times> bool \<Rightarrow> (('x, 'p) cert_bundle \<times> nat \<times> bool) res" where
  "pem_certificate X der s =
     (case s of (b, i, found) \<Rightarrow>
        res_bind (xe_of_der X der) (\<lambda>x.
          if \<not> is_ca_cert X x then Err (Pki ErrPkiPemBundleInvalid)
          else Ok (if i = 0 then b\<lparr>cb_certificate := x\<rparr> else b\<lparr>cb_ca_chain := cb_ca_chain b @ [x]\<rparr>, Suc i, found)))"

definition key_kind_name :: "string \<Rightarrow> string" where
  "key_kind_name kind = (if kind \<in> {''rsa'', ''ec'', ''sm2'', ''ed25519''} then kind else ''other'')"

definition pem_key ::
  "('x, 'p) x509_env \<Rightarrow> bytes \<Rightarrow> ('x, 'p) cert_bundle \<times> nat \<times> bool \<Rightarrow> (('x, 'p) cert_bundle \<times> nat \<times> bool) res" where
  "pem_key X der s =
     (case s of (b, i, found) \<Rightarrow>
        if found then Err (Pki ErrPkiPemBundleInvalid)
        else res_bind (xe_key_of_der X der) (\<lambda>k.
          Ok (b\<lparr>cb_private_key_type := key_kind_name (xe_key_kind X k), cb_private_key := k\<rparr>, i, True)))"

fun pem_items ::
  "('x, 'p) x509_env \<Rightarrow> (string \<times> bytes) list \<Rightarrow> ('x, 'p) cert_bundle \<times> nat \<times> bool \<Rightarrow>
     (('x, 'p) cert_bundle \<times> nat \<times> bool) res" where
  "pem_items X [] s = Ok s"
| "pem_items X ((tag, der) # items) s =
     res_bind (if tag = ''CERTIFICATE'' then pem_certificate X der s
               else if tag = ''PRIVATE KEY'' then pem_key X der s else Ok s) (pem_items X items)"

definition write_path_ca :: "('x, 'p, 'k, 'r) pki_env \<Rightarrow> 's storage_ops \<Rightarrow> 's pki_state handler" where
  "write_path_ca E sops st =
     on_state st (\<lambda>req.
       op_bind (op_res (given_arg E req ''pem_bundle'')) (\<lambda>text.
       case pe_parse_pem E text of
         None \<Rightarrow> op_fail (External Pem ''invalid text'')
       | Some items \<Rightarrow>
           op_bind (op_res (pem_items (pe_x509 E) items (cert_bundle_default (pe_x509 E), 0, False))) (\<lambda>(b, _, _).
           op_bind (op_res (cert_bundle_verify (pe_x509 E) b)) (\<lambda>_.
           op_bind (store_ca_bundle E sops req b) (\<lambda>_.
           op_bind (pki_store (rq_storage_put sops req \<lparr>se_key = ''crl'', se_value = []\<rparr>)) (\<lambda>_. op_return None))))))"

section \<open>Generating a root certificate\<close>

definition get_role_params :: "('x, 'p, 'k, 'r) pki_env \<Rightarrow> request \<Rightarrow> pki_role res" where
  "get_role_params E req =
     res_bind (duration_arg E req ''ttl'') (\<lambda>t.
     res_bind (default_arg E req as_u64 ''not_before_duration'') (\<lambda>nb.
     res_bind (key_args E req) (\<lambda>(ty, b).
     res_bind (default_arg E req as_u64 ''signature_bits'') (\<lambda>sb.
     res_bind (default_arg E req as_bool ''use_pss'') (\<lambda>pss.
     res_bind (role_names E req (pki_role_default\<lparr>pkr_ttl := t, pkr_not_before_duration := from_secs nb, pkr_use_pss := pss,
       pkr_key_type := ty, pkr_key_bits := u32_of b, pkr_signature_bits := u32_of sb\<rparr>)) (\<lambda>r.
     res_bind (default_arg E req as_str ''not_after'') (\<lambda>na. Ok (r\<lparr>pkr_not_after := na\<rparr>))))))))"

text \<open>Adding to a \<open>SystemTime\<close>, whose seconds are an \<open>i64\<close>.\<close>

definition time_add :: "int \<Rightarrow> duration \<Rightarrow> int res" where
  "time_add t d = (if t + int d < 2 ^ 63 * int NANOS then Ok (t + int d) else Panic)"

definition backdated :: "('x, 'p, 'k, 'r) pki_env \<Rightarrow> ('s pki_state, int) op" where
  "backdated E = op_bind (pki_now E) (\<lambda>now. op_return (now - int (from_secs 10)))"

definition common_name_args :: "('x, 'p, 'k, 'r) pki_env \<Rightarrow> request \<Rightarrow> (string \<times> string list) res" where
  "common_name_args E req =
     res_bind (default_arg E req as_str ''common_name'') (\<lambda>cn.
     res_bind (names_arg E req ''alt_names'') (\<lambda>alt.
       Ok (cn, (if cn = [] then [] else [cn]) @ alt)))"

definition role_not_after :: "('x, 'p, 'k, 'r) pki_env \<Rightarrow> pki_role \<Rightarrow> int \<Rightarrow> int res" where
  "role_not_after E r not_before =
     (if length (pkr_not_after r) > 18 then
        (case pe_parse_rfc3339 E (pkr_not_after r) of
           None \<Rightarrow> Err (External HumantimeTimestamp ''invalid time'') | Some t \<Rightarrow> Ok t)
      else time_add not_before (if pkr_ttl r \<noteq> 0 then pkr_ttl r else pkr_max_ttl r))"

definition subject_entries :: "pki_role \<Rightarrow> string \<Rightarrow> x509_name" where
  "subject_entries r cn =
     filter (\<lambda>(_, v). v \<noteq> [])
       [(''C'', pkr_country r), (''ST'', pkr_province r), (''L'', pkr_locality r), (''O'', pkr_organization r),
        (''OU'', pkr_ou r), (''CN'', cn)]"

definition subject_of :: "('x, 'p) x509_env \<Rightarrow> pki_role \<Rightarrow> string \<Rightarrow> x509_name res" where
  "subject_of X r cn =
     (if list_all (\<lambda>(k, v). xe_name_entry X k v) (subject_entries r cn) then Ok (subject_entries r cn) else Panic)"

definition new_certificate ::
  "('x, 'p, 'k, 'r) pki_env \<Rightarrow> pki_role \<Rightarrow> int \<Rightarrow> int \<Rightarrow> x509_name \<Rightarrow> string list \<Rightarrow> string list \<Rightarrow>
     ('s pki_state, certificate) op" where
  "new_certificate E r nb na subject names ips =
     op_bind (pki_rand (certificate_default (pe_x509 E))) (\<lambda>c.
       op_return (c\<lparr>ce_not_before := nb, ce_not_after := na, ce_subject := subject, ce_dns_sans := names, ce_ip_sans := ips,
         ce_key_type := pkr_key_type r, ce_key_bits := pkr_key_bits r\<rparr>))"

definition generate_certificate ::
  "('x, 'p, 'k, 'r) pki_env \<Rightarrow> pki_role \<Rightarrow> request \<Rightarrow> ('s pki_state, certificate) op" where
  "generate_certificate E r req =
     op_bind (op_res (common_name_args E req)) (\<lambda>(cn, names).
     op_bind (op_res (names_arg E req ''ip_sans'')) (\<lambda>ips.
     op_bind (backdated E) (\<lambda>nb.
     op_bind (op_res (role_not_after E r nb)) (\<lambda>na.
     op_bind (op_res (subject_of (pe_x509 E) r cn)) (\<lambda>subject.
       new_certificate E r nb na subject names ips)))))"

definition pem_text :: "('x, 'p) x509_env \<Rightarrow> 'x \<Rightarrow> string res" where
  "pem_text X x = res_bind (xe_pem X x) (\<lambda>b. Ok (xe_lossy X b))"

definition key_text :: "('x, 'p) x509_env \<Rightarrow> 'p \<Rightarrow> string res" where
  "key_text X k = res_bind (xe_key_pem X k) (\<lambda>b. Ok (xe_lossy X b))"

definition chain_text :: "('x, 'p) x509_env \<Rightarrow> 'x list \<Rightarrow> string res" where
  "chain_text X xs = res_bind (res_mapM (\<lambda>x. unwrapped (pem_text X x)) xs) (\<lambda>ts. Ok (concat ts))"

definition root_data :: "('x, 'p) x509_env \<Rightarrow> bool \<Rightarrow> ('x, 'p) cert_bundle \<Rightarrow> json_obj res" where
  "root_data X exported b =
     res_bind (asn1time_to_timestamp X (xe_not_after_text X (cb_certificate b))) (\<lambda>t.
     res_bind (pem_text X (cb_certificate b)) (\<lambda>c.
     let d = [(''certificate'', JString c), (''expiration'', JNum t), (''issuing_ca'', JString c),
              (''serial_number'', JString (cb_serial_number b))] in
     if exported then
       res_bind (key_text X (cb_private_key b)) (\<lambda>k.
         Ok (obj_insert ''private_key_type'' (JString (cb_private_key_type b)) (obj_insert ''private_key'' (JString k) d)))
     else Ok d))"

definition generate_root :: "('x, 'p, 'k, 'r) pki_env \<Rightarrow> 's storage_ops \<Rightarrow> 's pki_state handler" where
  "generate_root E sops st =
     on_state st (\<lambda>req.
       op_bind (op_res (default_arg E req as_str ''exported'')) (\<lambda>ex.
       op_bind (op_res (get_role_params E req)) (\<lambda>r.
       op_bind (generate_certificate E r req) (\<lambda>c.
       op_bind (pki_rand (to_cert_bundle (pe_x509 E) (c\<lparr>ce_is_ca := True\<rparr>) None None)) (\<lambda>b.
       op_bind (store_ca_bundle E sops req b) (\<lambda>_.
       op_bind (op_res (root_data (pe_x509 E) (ex = ''exported'') b)) (\<lambda>d.
         op_return (Some (data_response (Some d))))))))))"

definition delete_root :: "('x, 'p, 'k, 'r) pki_env \<Rightarrow> 's storage_ops \<Rightarrow> 's pki_state handler" where
  "delete_root E sops st = on_state st (\<lambda>req. op_bind (delete_ca_bundle E sops req) (\<lambda>_. op_return None))"

section \<open>Issuing and fetching\<close>

definition issue_not_after ::
  "('x, 'p, 'k, 'r) pki_env \<Rightarrow> request \<Rightarrow> 'x \<Rightarrow> int \<Rightarrow> ('s pki_state, int) op" where
  "issue_not_after E req ca nb =
     op_bind (op_res (time_add nb (from_secs (30 * 24 * 60 * 60)))) (\<lambda>dflt.
     op_bind (op_res (optional_arg E req ''ttl'')) (\<lambda>ttl.
       case ttl of
         None \<Rightarrow> op_return dflt
       | Some s \<Rightarrow>
           op_bind (op_res (parse_duration E s)) (\<lambda>d.
           op_bind (pki_now E) (\<lambda>now.
           op_bind (op_res (time_add now d)) (\<lambda>t.
           op_bind (op_res (unix_secs t)) (\<lambda>u.
           op_bind (op_res (xe_asn1 (pe_x509 E) u)) (\<lambda>_.
           op_bind (op_res (xe_before (pe_x509 E) ca u)) (\<lambda>early.
             if early then op_fail ErrRequestInvalid else op_return t))))))))"

definition issued_data :: "('x, 'p) x509_env \<Rightarrow> 'x \<Rightarrow> ('x, 'p) cert_bundle \<Rightarrow> (int \<times> json_obj) res" where
  "issued_data X ca b =
     res_bind (asn1time_to_timestamp X (xe_not_after_text X (cb_certificate b))) (\<lambda>t.
     res_bind (chain_text X (cb_ca_chain b)) (\<lambda>chain.
     res_bind (pem_text X ca) (\<lambda>ca_text.
     res_bind (pem_text X (cb_certificate b)) (\<lambda>c.
     res_bind (key_text X (cb_private_key b)) (\<lambda>k.
       Ok (t, [(''ca_chain'', JString chain), (''certificate'', JString c), (''expiration'', JNum t),
               (''issuing_ca'', JString ca_text), (''private_key'', JString k),
               (''private_key_type'', JString (cb_private_key_type b)), (''serial_number'', JString (cb_serial_number b))]))))))"

definition pki_secrets :: "string \<Rightarrow> secret_info option" where
  "pki_secrets key =
     (if key = ''pki'' then Some \<lparr>si_type = ''pki'', si_default_duration = 0, si_renewable = True\<rparr> else None)"

text \<open>\<open>Duration::from_secs(cert_expiration as u64) - now\<close>.\<close>

definition lease_left :: "int \<Rightarrow> int \<Rightarrow> duration res" where
  "lease_left expiration now =
     (if now < 0 then Err (External SystemTimeError ''before the epoch'')
      else dur_sub (from_secs (nat (expiration mod 2 ^ 64))) (nat now))"

definition issue_response ::
  "('x, 'p, 'k, 'r) pki_env \<Rightarrow> pki_role \<Rightarrow> string \<Rightarrow> int \<Rightarrow> json_obj \<Rightarrow> ('s pki_state, response) op" where
  "issue_response E r sn expiration d =
     (if pkr_generate_lease r then
        (case pki_secrets ''pki'' of
           None \<Rightarrow> op_res Panic
         | Some info \<Rightarrow>
             op_bind (pki_now E) (\<lambda>issued.
             op_bind (pki_now E) (\<lambda>now.
             op_bind (op_res (lease_left expiration now)) (\<lambda>left.
               let resp = secret_response issued info (Some d) (Some [(''serial_number'', JString sn)]) in
               op_return (resp\<lparr>rs_secret := map_option (\<lambda>s. s\<lparr>sd_lease := (sd_lease s)\<lparr>ttl := left, renewable := True\<rparr>\<rparr>)
                 (rs_secret resp)\<rparr>)))))
      else op_return (data_response (Some d)))"

definition issue_cert :: "('x, 'p, 'k, 'r) pki_env \<Rightarrow> 's storage_ops \<Rightarrow> 's pki_state handler" where
  "issue_cert E sops st =
     on_state st (\<lambda>req.
       op_bind (op_res (common_name_args E req)) (\<lambda>(cn, names).
       op_bind (op_res (given_arg E req ''role'')) (\<lambda>role.
       op_bind (pki_get_role E sops req role) (\<lambda>ro.
       case ro of
         None \<Rightarrow> op_fail (Pki ErrPkiRoleNotFound)
       | Some r \<Rightarrow>
           op_bind (op_res (names_arg E req ''ip_sans'')) (\<lambda>ips.
           op_bind (fetch_ca_bundle E sops req) (\<lambda>ca.
           op_bind (backdated E) (\<lambda>nb.
           op_bind (issue_not_after E req (cb_certificate ca) nb) (\<lambda>na.
           op_bind (op_res (subject_of (pe_x509 E) r cn)) (\<lambda>subject.
           op_bind (new_certificate E r nb na subject names ips) (\<lambda>c.
           op_bind (pki_rand (to_cert_bundle (pe_x509 E) c (Some (cb_certificate ca)) (Some (cb_private_key ca)))) (\<lambda>b.
           op_bind (if pkr_no_store r then op_return ()
                    else store_cert E sops req (serial_key (cb_serial_number b)) (cb_certificate b)) (\<lambda>_.
           op_bind (op_res (issued_data (pe_x509 E) (cb_certificate ca) b)) (\<lambda>(t, d).
           op_bind (issue_response E r (cb_serial_number b) t d) (\<lambda>resp. op_return (Some resp)))))))))))))))"

definition handle_fetch_cert_bundle :: "('x, 'p) x509_env \<Rightarrow> ('x, 'p) cert_bundle \<Rightarrow> response res" where
  "handle_fetch_cert_bundle X b =
     res_bind (chain_text X (rev (cb_ca_chain b))) (\<lambda>chain.
     res_bind (pem_text X (cb_certificate b)) (\<lambda>c.
       Ok (data_response (Some [(''ca_chain'', JString chain), (''certificate'', JString c),
         (''serial_number'', JString (cb_serial_number b))]))))"

definition read_path_fetch_ca :: "('x, 'p, 'k, 'r) pki_env \<Rightarrow> 's storage_ops \<Rightarrow> 's pki_state handler" where
  "read_path_fetch_ca E sops st =
     on_state st (\<lambda>req.
       op_bind (fetch_ca_bundle E sops req) (\<lambda>b.
       op_bind (op_res (handle_fetch_cert_bundle (pe_x509 E) b)) (\<lambda>r. op_return (Some r))))"

definition fetched_data :: "('x, 'p) x509_env \<Rightarrow> ('x, 'p) cert_bundle \<Rightarrow> 'x \<Rightarrow> string \<Rightarrow> json_obj res" where
  "fetched_data X ca x sn =
     res_bind (chain_text X (rev (cb_ca_chain ca))) (\<lambda>chain.
     res_bind (unwrapped (pem_text X (cb_certificate ca))) (\<lambda>ca_text.
     res_bind (pem_text X x) (\<lambda>c.
       Ok [(''ca_chain'', JString (chain @ ca_text)), (''certificate'', JString c), (''serial_number'', JString sn)])))"

definition read_path_fetch_cert :: "('x, 'p, 'k, 'r) pki_env \<Rightarrow> 's storage_ops \<Rightarrow> 's pki_state handler" where
  "read_path_fetch_cert E sops st =
     on_state st (\<lambda>req.
       op_bind (op_res (given_arg E req ''serial'')) (\<lambda>sn.
       op_bind (fetch_cert E sops req (serial_key sn)) (\<lambda>x.
       op_bind (fetch_ca_bundle E sops req) (\<lambda>ca.
       op_bind (op_res (fetched_data (pe_x509 E) ca x sn)) (\<lambda>d. op_return (Some (data_response (Some d))))))))"

text \<open>The handlers that answer success and do nothing.\<close>

definition read_path_fetch_crl :: "'s handler" where "read_path_fetch_crl st = (Ok None, st)"
definition read_path_fetch_cert_crl :: "'s handler" where "read_path_fetch_cert_crl st = (Ok None, st)"
definition read_path_crl :: "'s handler" where "read_path_crl st = (Ok None, st)"
definition write_path_crl :: "'s handler" where "write_path_crl st = (Ok None, st)"
definition revoke_cert :: "'s handler" where "revoke_cert st = (Ok None, st)"
definition read_rotate_crl :: "'s handler" where "read_rotate_crl st = (Ok None, st)"
definition revoke_secret_creds :: "'s handler" where "revoke_secret_creds st = (Ok None, st)"
definition renew_secret_creds :: "'s handler" where "renew_secret_creds st = (Ok None, st)"

section \<open>Keys\<close>

definition named_key :: "string \<Rightarrow> string" where "named_key name = PKI_CONFIG_KEY_PREFIX @ name"

definition fetch_key ::
  "('x, 'p, 'k, 'r) pki_env \<Rightarrow> 's storage_ops \<Rightarrow> request \<Rightarrow> string \<Rightarrow> ('s pki_state, key_bundle) op" where
  "fetch_key E sops req name =
     op_bind (pki_store (rq_storage_get sops req (named_key name))) (\<lambda>e.
       case e of
         None \<Rightarrow> op_fail (Pki ErrPkiCertNotFound)
       | Some x \<Rightarrow>
           (case pe_dec_key E (se_value x) of
              None \<Rightarrow> op_fail (External SerdeJson ''invalid key'') | Some b \<Rightarrow> op_return b))"

definition write_key ::
  "('x, 'p, 'k, 'r) pki_env \<Rightarrow> 's storage_ops \<Rightarrow> request \<Rightarrow> key_bundle \<Rightarrow> ('s pki_state, unit) op" where
  "write_key E sops req b = pki_store (rq_storage_put sops req \<lparr>se_key = named_key (kb_name b), se_value = pe_enc_key E b\<rparr>)"

text \<open>A new name: \<open>fetch_key\<close> succeeds for a name that is taken, and any error counts as a name that is free.\<close>

definition free_name ::
  "('x, 'p, 'k, 'r) pki_env \<Rightarrow> 's storage_ops \<Rightarrow> request \<Rightarrow> string \<Rightarrow> ('s pki_state, unit) op" where
  "free_name E sops req name s =
     (case fetch_key E sops req name s of
        (Ok _, s') \<Rightarrow> (Err (Pki ErrPkiKeyNameAlreadyExist), s') | (Err _, s') \<Rightarrow> (Ok (), s') | (Panic, s') \<Rightarrow> (Panic, s'))"

definition key_data :: "key_bundle \<Rightarrow> json_obj" where
  "key_data b =
     [(''key_bits'', JNum (int (kb_bits b))), (''key_id'', JString (kb_id b)), (''key_name'', JString (kb_name b)),
      (''key_type'', JString (kb_key_type b))]"

definition exported_key :: "('x, 'p) x509_env \<Rightarrow> string \<Rightarrow> key_bundle \<Rightarrow> json_obj \<Rightarrow> json_obj" where
  "exported_key X ty b d =
     (let d1 = obj_insert ''private_key''
            (JString (if ty \<in> {''rsa'', ''ec'', ''sm2''} then xe_lossy X (kb_key b) else hex_bytes (kb_key b))) d
      in if kb_iv b = [] then d1 else obj_insert ''iv'' (JString (hex_bytes (kb_iv b))) d1)"

definition pki_generate_key :: "('x, 'p, 'k, 'r) pki_env \<Rightarrow> 's storage_ops \<Rightarrow> 's pki_state handler" where
  "pki_generate_key E sops st =
     on_state st (\<lambda>req.
       op_bind (op_res (given_arg E req ''key_name'')) (\<lambda>name.
       op_bind (op_res (default_arg E req as_str ''key_type'')) (\<lambda>ty.
       op_bind (op_res (default_arg E req as_u64 ''key_bits'')) (\<lambda>bits.
       op_bind (free_name E sops req name) (\<lambda>_.
       op_bind (pki_rand (key_bundle_new (pe_keys E) name (to_lowercase ty) (u32_of bits))) (\<lambda>b0.
       op_bind (pki_rand (key_bundle_generate (pe_keys E) b0)) (\<lambda>b.
       op_bind (write_key E sops req b) (\<lambda>_.
         op_return (Some (data_response (Some
           (if ends_with (rq_path req) ''/exported'' then exported_key (pe_x509 E) ty b (key_data b) else key_data b))))))))))))"

definition import_pem :: "('x, 'p, 'k, 'r) pki_env \<Rightarrow> string \<Rightarrow> string \<Rightarrow> key_bundle \<Rightarrow> key_bundle res" where
  "import_pem E ty pem b =
     (if pem = [] then Ok b
      else
        let b1 = b\<lparr>kb_key := pe_utf8 E pem\<rparr> in
        if ty = ''rsa'' then
          res_bind (ke_rsa (pe_keys E) (kb_key b1)) (\<lambda>r. Ok (b1\<lparr>kb_bits := ke_rsa_size (pe_keys E) r * 8\<rparr>))
        else if ty = ''ec'' \<or> ty = ''sm2'' then
          res_bind (ke_ec_degree (pe_keys E) (kb_key b1)) (\<lambda>n. Ok (b1\<lparr>kb_bits := n\<rparr>))
        else Err (Pki ErrPkiKeyTypeInvalid))"

definition hex_decoded :: "('x, 'p, 'k, 'r) pki_env \<Rightarrow> string \<Rightarrow> bytes res" where
  "hex_decoded E s = (case pe_hex_decode E s of None \<Rightarrow> Err (External Hex ''invalid text'') | Some b \<Rightarrow> Ok b)"

definition valid_import_type :: "bool \<Rightarrow> string \<Rightarrow> bool" where
  "valid_import_type tongsuo ty \<longleftrightarrow>
     ty \<in> {''aes-gcm'', ''aes-cbc'', ''aes-ecb''} \<or> tongsuo \<and> ty \<in> {''sm4-gcm'', ''sm4-ccm''}"

definition import_hex :: "('x, 'p, 'k, 'r) pki_env \<Rightarrow> request \<Rightarrow> string \<Rightarrow> string \<Rightarrow> key_bundle \<Rightarrow> key_bundle res" where
  "import_hex E req ty hex b =
     (if hex = [] then Ok b
      else
        res_bind (hex_decoded E hex) (\<lambda>key.
        let bits = u32_of (length key) * 8 in
        if bits \<ge> 2 ^ 32 then Panic
        else if bits \<notin> {128, 192, 256} then Err (Pki ErrPkiKeyBitsInvalid)
        else
          res_bind (get_data_or_default (pe_parsers E) req ''iv'') (\<lambda>iv.
          if \<not> valid_import_type (ke_tongsuo (pe_keys E)) ty then Err (Pki ErrPkiKeyTypeInvalid)
          else if ty \<in> {''aes-gcm'', ''aes-cbc'', ''sm4-gcm'', ''sm4-ccm''} then
            (case as_str iv of
               None \<Rightarrow> Err ErrRequestFieldNotFound
             | Some t \<Rightarrow> res_bind (hex_decoded E t) (\<lambda>v. Ok (b\<lparr>kb_key := key, kb_bits := bits, kb_iv := v\<rparr>)))
          else Ok (b\<lparr>kb_key := key, kb_bits := bits\<rparr>))))"

definition import_key :: "('x, 'p, 'k, 'r) pki_env \<Rightarrow> 's storage_ops \<Rightarrow> 's pki_state handler" where
  "import_key E sops st =
     on_state st (\<lambda>req.
       op_bind (op_res (given_arg E req ''key_name'')) (\<lambda>name.
       op_bind (op_res (default_arg E req as_str ''key_type'')) (\<lambda>ty.
       op_bind (op_res (default_arg E req as_str ''pem_bundle'')) (\<lambda>pem.
       op_bind (op_res (default_arg E req as_str ''hex_bundle'')) (\<lambda>hex.
       if pem = [] \<and> hex = [] then op_fail ErrRequestFieldNotFound
       else
         op_bind (free_name E sops req name) (\<lambda>_.
         op_bind (pki_rand (key_bundle_new (pe_keys E) name (to_lowercase ty) 0)) (\<lambda>b0.
         op_bind (op_res (res_bind (import_pem E ty pem b0) (import_hex E req ty hex))) (\<lambda>b.
         op_bind (write_key E sops req b) (\<lambda>_. op_return (Some (data_response (Some (key_data b)))))))))))))"

definition result_response :: "json \<Rightarrow> response option" where
  "result_response v = Some (data_response (Some [(''result'', v)]))"

definition key_sign :: "('x, 'p, 'k, 'r) pki_env \<Rightarrow> 's storage_ops \<Rightarrow> 's pki_state handler" where
  "key_sign E sops st =
     on_state st (\<lambda>req.
       op_bind (op_res (given_arg E req ''data'')) (\<lambda>data.
       op_bind (op_res (given_arg E req ''key_name'')) (\<lambda>name.
       op_bind (fetch_key E sops req name) (\<lambda>b.
       op_bind (op_res (hex_decoded E data)) (\<lambda>m.
       op_bind (pki_rand (key_bundle_sign (pe_keys E) b m)) (\<lambda>s.
         op_return (result_response (JString (hex_bytes s)))))))))"

definition key_verify :: "('x, 'p, 'k, 'r) pki_env \<Rightarrow> 's storage_ops \<Rightarrow> 's pki_state handler" where
  "key_verify E sops st =
     on_state st (\<lambda>req.
       op_bind (op_res (given_arg E req ''data'')) (\<lambda>data.
       op_bind (op_res (given_arg E req ''signature'')) (\<lambda>signature.
       op_bind (op_res (given_arg E req ''key_name'')) (\<lambda>name.
       op_bind (fetch_key E sops req name) (\<lambda>b.
       op_bind (op_res (hex_decoded E data)) (\<lambda>m.
       op_bind (op_res (hex_decoded E signature)) (\<lambda>s.
       op_bind (op_res (key_bundle_verify (pe_keys E) b m s)) (\<lambda>v.
         op_return (result_response (JBool v))))))))))"

definition key_encrypt :: "('x, 'p, 'k, 'r) pki_env \<Rightarrow> 's storage_ops \<Rightarrow> 's pki_state handler" where
  "key_encrypt E sops st =
     on_state st (\<lambda>req.
       op_bind (op_res (given_arg E req ''data'')) (\<lambda>data.
       op_bind (op_res (default_arg E req as_str ''aad'')) (\<lambda>aad.
       op_bind (op_res (given_arg E req ''key_name'')) (\<lambda>name.
       op_bind (fetch_key E sops req name) (\<lambda>b.
       op_bind (op_res (hex_decoded E data)) (\<lambda>m.
       op_bind (pki_rand (key_bundle_encrypt (pe_keys E) b m (Some (Aad (pe_utf8 E aad))))) (\<lambda>c.
         op_return (result_response (JString (hex_bytes c))))))))))"

definition key_decrypt :: "('x, 'p, 'k, 'r) pki_env \<Rightarrow> 's storage_ops \<Rightarrow> 's pki_state handler" where
  "key_decrypt E sops st =
     on_state st (\<lambda>req.
       op_bind (op_res (given_arg E req ''data'')) (\<lambda>data.
       op_bind (op_res (default_arg E req as_str ''aad'')) (\<lambda>aad.
       op_bind (op_res (given_arg E req ''key_name'')) (\<lambda>name.
       op_bind (fetch_key E sops req name) (\<lambda>b.
       op_bind (op_res (hex_decoded E data)) (\<lambda>c.
       op_bind (op_res (key_bundle_decrypt (pe_keys E) b c (Some (Aad (pe_utf8 E aad))))) (\<lambda>m.
         op_return (result_response (JString (hex_bytes m))))))))))"

section \<open>The backend\<close>

definition roles_path :: "('x, 'p, 'k, 'r) pki_env \<Rightarrow> 's storage_ops \<Rightarrow> 's pki_state backend_path" where
  "roles_path E sops =
     new_path (word_pattern ''roles/'' ''name'')
       [(''name'', required_field Str), (''ttl'', optional_field Str), (''max_ttl'', optional_field Str),
        (''use_pss'', bool_field False), (''allow_localhost'', bool_field True), (''allowed_domains'', optional_field Str),
        (''allow_bare_domains'', bool_field False), (''allow_subdomains'', bool_field False), (''allow_any_name'', bool_field False),
        (''allow_ip_sans'', bool_field True), (''server_flag'', bool_field True), (''client_flag'', bool_field True),
        (''code_signing_flag'', optional_field BoolType), (''key_type'', text_field ''rsa''), (''key_bits'', int_field 0),
        (''signature_bits'', int_field 0),
        (''key_usage'', default_field CommaStringSlice (JString ''DigitalSignature,KeyAgreement,KeyEncipherment'')),
        (''ext_key_usage'', optional_field CommaStringSlice), (''not_before_duration'', int_field 30), (''not_after'', text_field []),
        (''ou'', optional_field Str), (''organization'', optional_field Str), (''country'', optional_field Str),
        (''locality'', optional_field Str), (''province'', optional_field Str), (''street_address'', optional_field Str),
        (''postal_code'', optional_field Str), (''use_csr_common_name'', bool_field True), (''use_csr_sans'', bool_field True),
        (''generate_lease'', bool_field False), (''no_store'', bool_field False)]
       [(Read, read_path_role E sops), (Write, create_path_role E sops), (Delete, delete_path_role E sops)]"

definition ca_common_fields :: "(string \<times> field) list" where
  "ca_common_fields =
     [(''alt_names'', text_field []), (''common_name'', required_field Str), (''ttl'', optional_field Str),
      (''not_before_duration'', int_field 30), (''not_after'', text_field []), (''ou'', text_field []),
      (''organization'', text_field []), (''country'', text_field []), (''locality'', text_field []), (''province'', text_field []),
      (''street_address'', text_field []), (''postal_code'', text_field []), (''serial_number'', text_field [])]"

definition ca_key_generation_fields :: "(string \<times> field) list" where
  "ca_key_generation_fields =
     [(''exported'', text_field ''internal''), (''key_type'', text_field ''rsa''), (''key_bits'', int_field 0),
      (''signature_bits'', int_field 0), (''use_pss'', bool_field False)]"

definition ca_issue_fields :: "(string \<times> field) list" where
  "ca_issue_fields = [(''permitted_dns_domains'', text_field ''rsa''), (''max_path_length'', int_field (- 1))]"

definition config_ca_path :: "('x, 'p, 'k, 'r) pki_env \<Rightarrow> 's storage_ops \<Rightarrow> 's pki_state backend_path" where
  "config_ca_path E sops = new_path ''config/ca'' [(''pem_bundle'', optional_field Str)] [(Write, write_path_ca E sops)]"

definition config_crl_path :: "'s backend_path" where
  "config_crl_path =
     new_path ''config/crl'' [(''expiry'', text_field ''72h'')] [(Read, read_path_crl), (Write, write_path_crl)]"

definition root_generate_path :: "('x, 'p, 'k, 'r) pki_env \<Rightarrow> 's storage_ops \<Rightarrow> 's pki_state backend_path" where
  "root_generate_path E sops =
     new_path ''root/generate/(?P<exported>.+)'' (ca_common_fields @ ca_key_generation_fields @ ca_issue_fields)
       [(Write, generate_root E sops)]"

definition root_delete_path :: "('x, 'p, 'k, 'r) pki_env \<Rightarrow> 's storage_ops \<Rightarrow> 's pki_state backend_path" where
  "root_delete_path E sops = new_path ''root'' [] [(Delete, delete_root E sops)]"

definition fetch_ca_path :: "('x, 'p, 'k, 'r) pki_env \<Rightarrow> 's storage_ops \<Rightarrow> 's pki_state backend_path" where
  "fetch_ca_path E sops = new_path ''ca(/pem)?'' [] [(Read, read_path_fetch_ca E sops)]"

definition fetch_crl_path :: "'s backend_path" where
  "fetch_crl_path = new_path ''crl(/pem)?'' [] [(Read, read_path_fetch_crl)]"

definition fetch_cert_path :: "('x, 'p, 'k, 'r) pki_env \<Rightarrow> 's storage_ops \<Rightarrow> 's pki_state backend_path" where
  "fetch_cert_path E sops =
     new_path ''cert/(?P<serial>[0-9A-Fa-f-:]+)'' [(''serial'', optional_field Str)] [(Read, read_path_fetch_cert E sops)]"

definition fetch_cert_crl_path :: "'s backend_path" where
  "fetch_cert_crl_path = new_path ''cert/crl'' [] [(Read, read_path_fetch_cert_crl)]"

definition issue_path :: "('x, 'p, 'k, 'r) pki_env \<Rightarrow> 's storage_ops \<Rightarrow> 's pki_state backend_path" where
  "issue_path E sops =
     new_path (word_pattern ''issue/'' ''role'')
       [(''role'', optional_field Str), (''common_name'', optional_field Str), (''alt_names'', optional_field Str),
        (''ip_sans'', optional_field Str), (''ttl'', optional_field Str)]
       [(Write, issue_cert E sops)]"

definition revoke_path :: "'s backend_path" where
  "revoke_path = new_path ''revoke'' [(''serial_number'', optional_field Str)] [(Write, revoke_cert)]"

definition crl_rotate_path :: "'s backend_path" where
  "crl_rotate_path = new_path ''crl/rotate'' [] [(Read, read_rotate_crl)]"

definition keys_generate_path :: "('x, 'p, 'k, 'r) pki_env \<Rightarrow> 's storage_ops \<Rightarrow> 's pki_state backend_path" where
  "keys_generate_path E sops =
     new_path ''keys/generate/(exported|internal)''
       [(''key_name'', required_field Str), (''key_bits'', int_field 0), (''key_type'', text_field ''rsa'')]
       [(Write, pki_generate_key E sops)]"

definition keys_import_path :: "('x, 'p, 'k, 'r) pki_env \<Rightarrow> 's storage_ops \<Rightarrow> 's pki_state backend_path" where
  "keys_import_path E sops =
     new_path ''keys/import''
       [(''key_name'', required_field Str), (''key_type'', text_field ''rsa''), (''pem_bundle'', optional_field Str),
        (''hex_bundle'', optional_field Str), (''iv'', optional_field Str)]
       [(Write, import_key E sops)]"

definition keys_sign_path :: "('x, 'p, 'k, 'r) pki_env \<Rightarrow> 's storage_ops \<Rightarrow> 's pki_state backend_path" where
  "keys_sign_path E sops =
     new_path ''keys/sign'' [(''key_name'', required_field Str), (''data'', required_field Str)] [(Write, key_sign E sops)]"

definition keys_verify_path :: "('x, 'p, 'k, 'r) pki_env \<Rightarrow> 's storage_ops \<Rightarrow> 's pki_state backend_path" where
  "keys_verify_path E sops =
     new_path ''keys/verify'' [(''key_name'', required_field Str), (''data'', required_field Str), (''signature'', required_field Str)]
       [(Write, key_verify E sops)]"

definition keys_encrypt_path :: "('x, 'p, 'k, 'r) pki_env \<Rightarrow> 's storage_ops \<Rightarrow> 's pki_state backend_path" where
  "keys_encrypt_path E sops =
     new_path ''keys/encrypt'' [(''key_name'', required_field Str), (''data'', required_field Str), (''aad'', text_field [])]
       [(Write, key_encrypt E sops)]"

definition keys_decrypt_path :: "('x, 'p, 'k, 'r) pki_env \<Rightarrow> 's storage_ops \<Rightarrow> 's pki_state backend_path" where
  "keys_decrypt_path E sops =
     new_path ''keys/decrypt'' [(''key_name'', required_field Str), (''data'', required_field Str), (''aad'', text_field [])]
       [(Write, key_decrypt E sops)]"

definition pki_new_backend :: "('x, 'p, 'k, 'r) pki_env \<Rightarrow> 's storage_ops \<Rightarrow> 's pki_state logical_backend" where
  "pki_new_backend E sops =
     \<lparr>lb_paths =
        [roles_path E sops, config_ca_path E sops, root_generate_path E sops, root_delete_path E sops, fetch_ca_path E sops,
         fetch_crl_path, fetch_cert_path E sops, fetch_cert_crl_path, issue_path E sops, revoke_path, crl_rotate_path,
         keys_generate_path E sops, keys_import_path E sops, keys_sign_path E sops, keys_verify_path E sops,
         keys_encrypt_path E sops, keys_decrypt_path E sops],
      lb_paths_re = [], lb_root_paths = [''config/*'', ''revoke/*'', ''crl/rotate''],
      lb_unauth_paths = [''cert/*'', ''ca/pem'', ''ca'', ''crl'', ''crl/pem''],
      lb_secrets = [\<lparr>secret_type = ''pki'', default_duration = 0, renew_handler = Some renew_secret_creds,
        revoke_handler = Some revoke_secret_creds\<rparr>],
      lb_auth_renew_handler = None\<rparr>"

text \<open>The secrets that the handlers see are the ones of the backend; no path of it configures the revocation list.\<close>

lemma pki_secrets_of_backend: "map_option info_of (find_secret (pki_new_backend E sops) key) = pki_secrets key"
  by (simp add: find_secret_def pki_new_backend_def pki_secrets_def info_of_def secret_renewable_def)

end
