(* ===== verification/Certificates.thy ===== *)
theory Certificates
  imports Pki Vault_View
begin

text \<open>
  The properties of the PKI engine. The lemmas are about a view of any storage (locale \<open>storage_view\<close>) and are used for
  the barrier over files.

  Shown: an issued certificate has what the role and the request say, ends with the certificate of the authority when a
  time to live is asked for, and is found under its serial number; a role is read back as it was written; a key that is
  kept by name decrypts what it encrypted and verifies what it signed; private keys are shown only when they are made
  and the export is asked for.
\<close>

section \<open>Runs of handlers\<close>

lemma pki_rand_Ok [simp]:
  "pki_rand m a = (Ok x, a') \<longleftrightarrow> (\<exists>n. m (pks_draws a) = (Ok x, n) \<and> a' = a\<lparr>pks_draws := n\<rparr>)"
  by (auto simp: pki_rand_def split: prod.splits)

lemma pki_now_Ok [simp]:
  "pki_now E a = (Ok x, a') \<longleftrightarrow> x = pe_clock E (pks_reads a) \<and> a' = a\<lparr>pks_reads := Suc (pks_reads a)\<rparr>"
  by (auto simp: pki_now_def)

text \<open>What is stored: roles, the bundle of the authority and certificates by serial number, in the contents of a view.\<close>

definition role_in :: "('x, 'p, 'k, 'r) pki_env \<Rightarrow> (string \<Rightarrow> bytes option) \<Rightarrow> string \<Rightarrow> pki_role \<Rightarrow> bool" where
  "role_in E m name r \<longleftrightarrow> (\<exists>b. m (pki_role_key name) = Some b \<and> pe_dec_role E b = Some r)"

definition ca_in :: "('x, 'p, 'k, 'r) pki_env \<Rightarrow> (string \<Rightarrow> bytes option) \<Rightarrow> ('x, 'p) cert_bundle \<Rightarrow> bool" where
  "ca_in E m ca \<longleftrightarrow>
     (\<exists>b p. m ca_bundle_key = Some b \<and> pe_dec_bundle E b = Some p \<and> deserialize_bundle (pe_x509 E) p = Ok ca)"

definition key_in :: "('x, 'p, 'k, 'r) pki_env \<Rightarrow> (string \<Rightarrow> bytes option) \<Rightarrow> string \<Rightarrow> key_bundle \<Rightarrow> bool" where
  "key_in E m name b \<longleftrightarrow> (\<exists>x. m (named_key name) = Some x \<and> pe_dec_key E x = Some b)"

lemma keys_apart:
  "cert_key sn \<noteq> ca_bundle_key" "cert_key sn \<noteq> pki_role_key name" "ca_bundle_key \<noteq> pki_role_key name"
  "named_key n \<noteq> cert_key sn" "named_key n \<noteq> ca_bundle_key" "named_key n \<noteq> pki_role_key name"
  by (simp_all add: cert_key_def ca_bundle_key_def pki_role_key_def named_key_def PKI_CONFIG_KEY_PREFIX_def)

context storage_view
begin

lemma pki_get:
  assumes "ready (pks_store a)" "rq_storage req = Some v" "view_valid valid v k"
  shows "pki_store (rq_storage_get sops req k) a =
    (Ok (map_option (\<lambda>x. \<lparr>se_key = k, se_value = x\<rparr>) (view_stored stored v (pks_store a) k)), a)"
  using view_get_stored [OF assms(1,3)] assms(2) by (simp add: pki_store_def rq_storage_get_def on_storage_def)

lemma pki_put:
  assumes "ready (pks_store a)" "rq_storage req = Some v" "view_valid valid v k"
  obtains s where "pki_store (rq_storage_put sops req \<lparr>se_key = k, se_value = x\<rparr>) a = (Ok (), a\<lparr>pks_store := s\<rparr>)" "ready s"
    "\<And>k'. view_valid valid v k' \<Longrightarrow> view_stored stored v s k' = ((view_stored stored v (pks_store a))(k \<mapsto> x)) k'"
  using view_put_stored [OF assms(1,3), of x] assms(2) that by (auto simp: pki_store_def rq_storage_put_def on_storage_def)

lemma pki_get_role_Ok:
  assumes "ready (pks_store a)" "rq_storage req = Some v" "view_valid valid v (pki_role_key name)"
  shows "pki_get_role E sops req name a = (Ok (Some r), a') \<longleftrightarrow> role_in E (view_stored stored v (pks_store a)) name r \<and> a' = a"
  using pki_get [OF assms]
  by (auto simp: pki_get_role_def op_bind_def role_in_def op_return_def op_fail_def split: option.splits)

lemma fetch_ca_bundle_Ok:
  assumes "ready (pks_store a)" "rq_storage req = Some v" "view_valid valid v ca_bundle_key"
  shows "fetch_ca_bundle E sops req a = (Ok ca, a') \<longleftrightarrow> ca_in E (view_stored stored v (pks_store a)) ca \<and> a' = a"
  using pki_get [OF assms]
  by (auto simp: fetch_ca_bundle_def op_bind_def ca_in_def op_return_def op_fail_def split: option.splits)

lemma fetch_key_Ok:
  assumes "ready (pks_store a)" "rq_storage req = Some v" "view_valid valid v (named_key name)"
  shows "fetch_key E sops req name a = (Ok b, a') \<longleftrightarrow> key_in E (view_stored stored v (pks_store a)) name b \<and> a' = a"
  using pki_get [OF assms]
  by (auto simp: fetch_key_def op_bind_def key_in_def op_return_def op_fail_def split: option.splits)

lemma store_cert_Ok:
  assumes "ready (pks_store a)" "rq_storage req = Some v" "view_valid valid v (cert_key sn)"
    "store_cert E sops req sn x a = (Ok (), a')"
  obtains s der where "xe_der (pe_x509 E) x = Ok der" "a' = a\<lparr>pks_store := s\<rparr>" "ready s"
    "\<And>k. view_valid valid v k \<Longrightarrow> view_stored stored v s k = ((view_stored stored v (pks_store a))(cert_key sn \<mapsto> der)) k"
proof -
  obtain der where d: "xe_der (pe_x509 E) x = Ok der"
    and p: "pki_store (rq_storage_put sops req \<lparr>se_key = cert_key sn, se_value = der\<rparr>) a = (Ok (), a')"
    using assms(4) by (auto simp: store_cert_def op_bind_Ok)
  show ?thesis by (rule pki_put [OF assms(1-3), of der]) (use that [OF d] p in auto)
qed

end

section \<open>Issuing\<close>

definition hex_serials :: "('x, 'p) x509_env \<Rightarrow> (string \<Rightarrow> bool) \<Rightarrow> bool" where
  "hex_serials X ok \<longleftrightarrow> (\<forall>n h. xe_serial_hex X n = Ok h \<longrightarrow> ok (cert_key (serial_key (colon_hex h))))"

text \<open>What a request to issue does: the role and the authority it finds, the certificate it makes, the contents it leaves.\<close>

definition issued ::
  "('x, 'p, 'k, 'r) pki_env \<Rightarrow> request \<Rightarrow> (string \<Rightarrow> bytes option) \<Rightarrow> nat \<Rightarrow> pki_role \<Rightarrow> ('x, 'p) cert_bundle \<Rightarrow>
     certificate \<Rightarrow> ('x, 'p) cert_bundle \<Rightarrow> bool" where
  "issued E req m reads r ca c b \<longleftrightarrow>
     (\<exists>role. given_arg E req ''role'' = Ok role \<and> role_in E m role r) \<and> ca_in E m ca \<and>
     (\<exists>n n'. to_cert_bundle (pe_x509 E) c (Some (cb_certificate ca)) (Some (cb_private_key ca)) n = (Ok b, n')) \<and>
     (\<exists>cn. common_name_args E req = Ok (cn, ce_dns_sans c) \<and> ce_subject c = subject_entries r cn) \<and>
     names_arg E req ''ip_sans'' = Ok (ce_ip_sans c) \<and>
     \<not> ce_is_ca c \<and> ce_extensions c = [] \<and> ce_key_type c = pkr_key_type r \<and> ce_key_bits c = pkr_key_bits r \<and>
     ce_not_before c = pe_clock E reads - int (from_secs 10) \<and>
     (case optional_arg E req ''ttl'' of
        Ok (Some s) \<Rightarrow>
          \<exists>d u. parse_duration E s = Ok d \<and> ce_not_after c = pe_clock E (Suc reads) + int d \<and>
            unix_secs (ce_not_after c) = Ok u \<and> xe_before (pe_x509 E) (cb_certificate ca) u = Ok False
      | _ \<Rightarrow> ce_not_after c = ce_not_before c + int (from_secs (30 * 24 * 60 * 60)))"

lemma time_add_Ok [simp]: "time_add t d = Ok x \<longleftrightarrow> x = t + int d \<and> t + int d < 2 ^ 63 * int NANOS"
  by (auto simp: time_add_def)

lemma subject_of_Ok [simp]:
  "subject_of X r cn = Ok s \<longleftrightarrow> s = subject_entries r cn \<and> list_all (\<lambda>(k, v). xe_name_entry X k v) (subject_entries r cn)"
  by (auto simp: subject_of_def)

lemma backdated_Ok [simp]:
  "backdated E a = (Ok nb, a') \<longleftrightarrow> nb = pe_clock E (pks_reads a) - int (from_secs 10) \<and> a' = a\<lparr>pks_reads := Suc (pks_reads a)\<rparr>"
  by (auto simp: backdated_def op_bind_Ok)

lemma new_certificate_Ok:
  assumes "new_certificate E r nb na subject names ips a = (Ok c, a')"
  shows "pks_store a' = pks_store a" "ce_not_before c = nb" "ce_not_after c = na" "ce_subject c = subject" "ce_dns_sans c = names"
    "ce_ip_sans c = ips" "ce_key_type c = pkr_key_type r" "ce_key_bits c = pkr_key_bits r" "\<not> ce_is_ca c" "ce_extensions c = []"
  using assms by (auto simp: new_certificate_def certificate_default_def generate_serial_number_def op_bind_Ok)

lemma issue_not_after_Ok:
  assumes "issue_not_after E req ca nb a = (Ok na, a')"
  shows "pks_store a' = pks_store a"
    "case optional_arg E req ''ttl'' of
       Ok (Some s) \<Rightarrow>
         \<exists>d u. parse_duration E s = Ok d \<and> na = pe_clock E (pks_reads a) + int d \<and> unix_secs na = Ok u \<and>
           xe_before (pe_x509 E) ca u = Ok False
     | _ \<Rightarrow> na = nb + int (from_secs (30 * 24 * 60 * 60))"
  using assms by (auto simp: issue_not_after_def op_bind_Ok split: option.splits if_splits)

lemma issue_response_Ok:
  assumes "issue_response E r sn t d a = (Ok resp, a')"
  shows "pks_store a' = pks_store a" "rs_data resp = Some d"
  using assms
  by (auto simp: issue_response_def op_bind_Ok pki_secrets_def Let_def secret_response_def data_response_def response_new_def
      split: if_splits)

context storage_view
begin

lemma issue_cert_Ok:
  assumes R: "ready (pks_store a)" "rq_storage req = Some v" "given_arg E req ''role'' = Ok role" "view_valid valid v (pki_role_key role)"
    "view_valid valid v ca_bundle_key" "hex_serials (pe_x509 E) (view_valid valid v)"
    and run: "issue_cert E sops (a, req) = (Ok (Some resp), (a', req'))"
  obtains r ca c b t d where "issued E req (view_stored stored v (pks_store a)) (pks_reads a) r ca c b" "ready (pks_store a')"
    "issued_data (pe_x509 E) (cb_certificate ca) b = Ok (t, d)" "rs_data resp = Some d"
    "pkr_no_store r \<Longrightarrow> pks_store a' = pks_store a"
    "\<not> pkr_no_store r \<Longrightarrow> \<exists>der. xe_der (pe_x509 E) (cb_certificate b) = Ok der \<and> (\<forall>k. view_valid valid v k \<longrightarrow>
      view_stored stored v (pks_store a') k =
        ((view_stored stored v (pks_store a))(cert_key (serial_key (cb_serial_number b)) \<mapsto> der)) k)"
proof -
  let ?m = "view_stored stored v (pks_store a)"
  obtain cn names r ips ca nb na subject c b t d a1 a2 a3 a4 a5 where
    cn: "common_name_args E req = Ok (cn, names)" and r: "role_in E ?m role r" and ips: "names_arg E req ''ip_sans'' = Ok ips"
    and ca: "ca_in E ?m ca" and nb: "backdated E a = (Ok nb, a1)"
    and na: "issue_not_after E req (cb_certificate ca) nb a1 = (Ok na, a2)"
    and su: "subject_of (pe_x509 E) r cn = Ok subject" and c: "new_certificate E r nb na subject names ips a2 = (Ok c, a3)"
    and b: "pki_rand (to_cert_bundle (pe_x509 E) c (Some (cb_certificate ca)) (Some (cb_private_key ca))) a3 = (Ok b, a4)"
    and st: "(if pkr_no_store r then op_return ()
              else store_cert E sops req (serial_key (cb_serial_number b)) (cb_certificate b)) a4 = (Ok (), a5)"
    and d: "issued_data (pe_x509 E) (cb_certificate ca) b = Ok (t, d)"
    and resp: "issue_response E r (cb_serial_number b) t d a5 = (Ok resp, a')"
    using run R(3)
    by (auto simp: issue_cert_def on_state_Ok op_bind_Ok pki_get_role_Ok [OF R(1,2,4)] fetch_ca_bundle_Ok [OF R(1,2,5)]
        simp del: backdated_Ok subject_of_Ok pki_rand_Ok split: option.splits)
  have s: "pks_store a4 = pks_store a" "pks_reads a1 = Suc (pks_reads a)"
    using nb issue_not_after_Ok(1) [OF na] new_certificate_Ok(1) [OF c] b by auto
  have iss: "issued E req ?m (pks_reads a) r ca c b"
    using R(3) r ca cn ips nb su b issue_not_after_Ok(2) [OF na] new_certificate_Ok(2-10) [OF c] s(2)
    unfolding issued_def by (auto split: res.splits option.splits)
  note fin = issue_response_Ok [OF resp]
  show ?thesis
  proof (cases "pkr_no_store r")
    case True
    then show ?thesis using that [OF iss _ d fin(2)] st s(1) fin(1) R(1) by simp
  next
    case False
    have "\<exists>h. cb_serial_number b = colon_hex h \<and> (\<exists>n. xe_serial_hex (pe_x509 E) n = Ok h)"
      using b by (auto simp: to_cert_bundle_def op_bind_Ok)
    then have k: "view_valid valid v (cert_key (serial_key (cb_serial_number b)))" using R(6) by (auto simp: hex_serials_def)
    obtain s' der where "xe_der (pe_x509 E) (cb_certificate b) = Ok der" "a5 = a4\<lparr>pks_store := s'\<rparr>" "ready s'"
      "\<And>k. view_valid valid v k \<Longrightarrow> view_stored stored v s' k = ((view_stored stored v (pks_store a4))
        (cert_key (serial_key (cb_serial_number b)) \<mapsto> der)) k"
      by (rule store_cert_Ok [OF _ R(2) k]) (use False st s(1) R(1) in auto)
    then show ?thesis using that [OF iss _ d fin(2)] False s(1) fin(1) by simp
  qed
qed

end

lemma role_in_unique: "role_in E m name r \<Longrightarrow> role_in E m name r' \<Longrightarrow> r' = r"
  by (auto simp: role_in_def)

lemma ca_in_unique: "ca_in E m ca \<Longrightarrow> ca_in E m ca' \<Longrightarrow> ca' = ca"
  by (auto simp: ca_in_def)

abbreviation pki_contents where
  "pki_contents C de root v a \<equiv> view_stored (barrier_stored C (file_contents de root)) v (pks_store a)"

abbreviation pki_ready where
  "pki_ready C ser de root a \<equiv> barrier_ready C file_key (file_contents de root) (file_invar ser de root) (pks_store a)"

text \<open>What the answer to a request says of a certificate.\<close>

lemma issued_data_fields:
  assumes "x509_ok X" "issued_data X ca b = Ok (t, d)"
  shows "map_of d ''expiration'' = Some (JNum (xe_not_after X (cb_certificate b)))"
    "\<exists>s. pem_text X (cb_certificate b) = Ok s \<and> map_of d ''certificate'' = Some (JString s)"
    "\<exists>s. pem_text X ca = Ok s \<and> map_of d ''issuing_ca'' = Some (JString s)"
    "map_of d ''serial_number'' = Some (JString (cb_serial_number b))"
  using assms x509_forms(2) [OF assms(1)] by (auto simp: issued_data_def res_bind_Ok_iff)

lemma unix_secs_Ok: "unix_secs t = Ok u \<longleftrightarrow> 0 \<le> t \<and> u = t div int NANOS"
  by (auto simp: unix_secs_def secs_since_epoch_def NANOS_def zdiv_int)

text \<open>
  C11: an issued certificate is what its role and its request ask for. It is not the certificate of an authority, its
  subject is made of the role and the common name, its public key belongs to the private key in the answer, and the
  expiration in the answer is its own. When the request has a time to live, the certificate does not outlive the one of the
  authority; without one it is valid for thirty days less ten seconds, whatever the role and the authority say.
\<close>

theorem issued_certificate_contents:
  fixes E :: "('x, 'p, 'k, 'r) pki_env"
  assumes "pki_ready C ser de root a" "rq_storage req = Some v" "given_arg E req ''role'' = Ok role" "vault_key v (pki_role_key role)"
    "vault_key v ca_bundle_key" "hex_serials (pe_x509 E) (vault_key v)" "x509_ok (pe_x509 E)"
    and "role_in E (pki_contents C de root v a) role r" "ca_in E (pki_contents C de root v a) ca"
    and "issue_cert E (vault_ops C ser de root) (a, req) = (Ok (Some resp), (a', req'))"
  shows "\<exists>(b :: ('x, 'p) cert_bundle) d cn names. rs_data resp = Some d \<and> common_name_args E req = Ok (cn, names) \<and>
    (let X = pe_x509 E; x = cb_certificate b in
     map_of d ''expiration'' = Some (JNum (xe_not_after X x)) \<and>
     (\<exists>s. pem_text X x = Ok s \<and> map_of d ''certificate'' = Some (JString s)) \<and>
     (\<exists>s. key_text X (cb_private_key b) = Ok s \<and> map_of d ''private_key'' = Some (JString s)) \<and>
     xe_public_matches X (cb_private_key b) x = Ok True \<and> \<not> is_ca_cert X x \<and> xe_subject_name X x = subject_entries r cn \<and>
     (case optional_arg E req ''ttl'' of
        Ok (Some s) \<Rightarrow> xe_not_after X x \<le> xe_not_after X (cb_certificate ca)
      | _ \<Rightarrow> xe_not_after X x = (pe_clock E (pks_reads a) - int (from_secs 10) + int (from_secs (30 * 24 * 60 * 60))) div int NANOS))"
proof -
  obtain r' ca' c b t d where i: "issued E req (pki_contents C de root v a) (pks_reads a) r' ca' c b"
    and d: "issued_data (pe_x509 E) (cb_certificate ca') b = Ok (t, d)" "rs_data resp = Some d"
    by (rule fbv.issue_cert_Ok [OF assms(1-6,10)]) blast
  have eq: "r' = r" "ca' = ca"
    using i assms(3,8,9) role_in_unique ca_in_unique unfolding issued_def by (metis res.inject(1))+
  obtain n n' where mk: "to_cert_bundle (pe_x509 E) c (Some (cb_certificate ca)) (Some (cb_private_key ca)) n = (Ok b, n')"
    using i eq(2) by (auto simp: issued_def)
  obtain cn where cn: "common_name_args E req = Ok (cn, ce_dns_sans c)" "ce_subject c = subject_entries r cn"
    using i eq(1) by (auto simp: issued_def)
  note made = cert_bundle_made [OF assms(7) mk]
  have k: "\<exists>s. key_text (pe_x509 E) (cb_private_key b) = Ok s \<and> map_of d ''private_key'' = Some (JString s)"
    using d(1) by (auto simp: issued_data_def res_bind_Ok_iff)
  have nca: "\<not> is_ca_cert (pe_x509 E) (cb_certificate b)"
    using made(5) i by (simp add: issued_def)
  have exp: "xe_not_after (pe_x509 E) (cb_certificate b) = ce_not_after c div int NANOS" using made(1) by (simp add: unix_secs_Ok)
  have val: "case optional_arg E req ''ttl'' of
      Ok (Some s) \<Rightarrow> xe_not_after (pe_x509 E) (cb_certificate b) \<le> xe_not_after (pe_x509 E) (cb_certificate ca)
    | _ \<Rightarrow> xe_not_after (pe_x509 E) (cb_certificate b) =
        (pe_clock E (pks_reads a) - int (from_secs 10) + int (from_secs (30 * 24 * 60 * 60))) div int NANOS"
    using i eq(2) exp x509_forms(1) [OF assms(7), of "cb_certificate ca" _ False]
    by (auto simp: issued_def unix_secs_Ok not_less split: res.splits option.splits)
  have "xe_subject_name (pe_x509 E) (cb_certificate b) = subject_entries r cn" using made(3) cn(2) by simp
  note all = d(2) cn(1) issued_data_fields(1,2) [OF assms(7) d(1)] k made(4) nca this val
  show ?thesis unfolding Let_def by (intro exI [of _ b] exI [of _ d] exI [of _ cn] exI [of _ "ce_dns_sans c"] conjI all)
qed

text \<open>
  An issued certificate is found under its serial number, unless its role says that certificates are not stored.
  Fetching it, with the serial number of the answer in any spelling (colons or hyphens, upper or lower case), gives the
  same certificate, with a chain that ends in the issuing certificate.
\<close>

theorem issued_certificate_fetched:
  assumes "pki_ready C ser de root a" "rq_storage req = Some v" "given_arg E req ''role'' = Ok role" "vault_key v (pki_role_key role)"
    "vault_key v ca_bundle_key" "hex_serials (pe_x509 E) (vault_key v)" "x509_ok (pe_x509 E)" "\<forall>x. is_ok (xe_pem (pe_x509 E) x)"
    and "role_in E (pki_contents C de root v a) role r" "\<not> pkr_no_store r"
    and "issue_cert E (vault_ops C ser de root) (a, req) = (Ok (Some resp), (a1, req1))"
  shows "\<exists>d sn. rs_data resp = Some d \<and> map_of d ''serial_number'' = Some (JString sn) \<and>
    (\<forall>req2 sn2. rq_storage req2 = Some v \<longrightarrow> given_arg E req2 ''serial'' = Ok sn2 \<longrightarrow> serial_key sn2 = serial_key sn \<longrightarrow>
      (\<exists>d2 chain ca_text. read_path_fetch_cert E (vault_ops C ser de root) (a1, req2) =
          (Ok (Some (data_response (Some d2))), (a1, req2)) \<and>
        map_of d2 ''certificate'' = map_of d ''certificate'' \<and> map_of d2 ''serial_number'' = Some (JString sn2) \<and>
        map_of d ''issuing_ca'' = Some (JString ca_text) \<and> map_of d2 ''ca_chain'' = Some (JString (chain @ ca_text))))"
proof -
  let ?m = "pki_contents C de root v" and ?X = "pe_x509 E"
  obtain r' ca c b t d where i: "issued E req (?m a) (pks_reads a) r' ca c b" "pki_ready C ser de root a1"
    and d: "issued_data ?X (cb_certificate ca) b = Ok (t, d)" "rs_data resp = Some d"
    and st: "\<not> pkr_no_store r' \<Longrightarrow> \<exists>der. xe_der ?X (cb_certificate b) = Ok der \<and>
      (\<forall>k. vault_key v k \<longrightarrow> ?m a1 k = ((?m a)(cert_key (serial_key (cb_serial_number b)) \<mapsto> der)) k)"
    by (rule fbv.issue_cert_Ok [OF assms(1-6,11)]) blast
  let ?sn = "cb_serial_number b"
  have eq: "r' = r" using i assms(3,9) role_in_unique unfolding issued_def by (metis res.inject(1))
  obtain der where der: "xe_der ?X (cb_certificate b) = Ok der"
    "\<And>k. vault_key v k \<Longrightarrow> ?m a1 k = ((?m a)(cert_key (serial_key ?sn) \<mapsto> der)) k"
    using st eq assms(10) by blast
  have k: "vault_key v (cert_key (serial_key ?sn))"
    using i(1) assms(6) cert_bundle_made(8) [OF assms(7)] unfolding issued_def hex_serials_def by metis
  have ca1: "ca_in E (?m a1) ca"
    using i(1) der(2) [OF assms(5)] keys_apart(1) [symmetric] by (simp add: issued_def ca_in_def)
  note f = issued_data_fields [OF assms(7) d(1)]
  obtain ct ca_text where ct: "pem_text ?X (cb_certificate b) = Ok ct" "map_of d ''certificate'' = Some (JString ct)"
    "pem_text ?X (cb_certificate ca) = Ok ca_text" "map_of d ''issuing_ca'' = Some (JString ca_text)"
    using f(2,3) by blast
  have p: "\<exists>s. pem_text ?X x = Ok s" for x
    using assms(8) by (cases "xe_pem ?X x") (auto simp: pem_text_def is_ok_def dest: spec [of _ x])
  have "\<exists>ts. res_mapM (\<lambda>x. unwrapped (pem_text ?X x)) xs = Ok ts" for xs
    using p by (induction xs) (force simp: res_bind_Ok_iff)+
  then obtain ts where "res_mapM (\<lambda>x. unwrapped (pem_text ?X x)) (rev (cb_ca_chain ca)) = Ok ts" by blast
  then obtain chain where ch: "chain_text ?X (rev (cb_ca_chain ca)) = Ok chain" by (simp add: chain_text_def)
  have fetch: "\<exists>d2. read_path_fetch_cert E (vault_ops C ser de root) (a1, req2) = (Ok (Some (data_response (Some d2))), (a1, req2)) \<and>
      map_of d2 ''certificate'' = Some (JString ct) \<and> map_of d2 ''serial_number'' = Some (JString sn2) \<and>
      map_of d2 ''ca_chain'' = Some (JString (chain @ ca_text))"
    if q: "rq_storage req2 = Some v" "given_arg E req2 ''serial'' = Ok sn2" "serial_key sn2 = serial_key ?sn" for req2 sn2
  proof -
    have "fetch_cert E (vault_ops C ser de root) req2 (serial_key sn2) a1 = (Ok (cb_certificate b), a1)"
      using fbv.pki_get [OF i(2) q(1) k] der k x509_forms(3) [OF assms(7)] q(3) by (simp add: fetch_cert_def op_bind_def)
    moreover have "fetch_ca_bundle E (vault_ops C ser de root) req2 a1 = (Ok ca, a1)"
      using fbv.fetch_ca_bundle_Ok [OF i(2) q(1) assms(5)] ca1 by blast
    ultimately have "read_path_fetch_cert E (vault_ops C ser de root) (a1, req2) =
        (Ok (Some (data_response (Some [(''ca_chain'', JString (chain @ ca_text)), (''certificate'', JString ct),
          (''serial_number'', JString sn2)]))), (a1, req2))"
      using q(2) ch ct(1,3) by (simp add: read_path_fetch_cert_def on_state_def op_bind_def fetched_data_def)
    then show ?thesis by (intro exI conjI) (assumption, simp_all)
  qed
  show ?thesis
  proof (rule exI [of _ d], rule exI [of _ ?sn], intro conjI allI impI)
    fix req2 sn2
    assume "rq_storage req2 = Some v" "given_arg E req2 ''serial'' = Ok sn2" "serial_key sn2 = serial_key ?sn"
    from fetch [OF this] obtain d2 where "read_path_fetch_cert E (vault_ops C ser de root) (a1, req2) =
        (Ok (Some (data_response (Some d2))), (a1, req2))" "map_of d2 ''certificate'' = Some (JString ct)"
      "map_of d2 ''serial_number'' = Some (JString sn2)" "map_of d2 ''ca_chain'' = Some (JString (chain @ ca_text))" by blast
    then show "\<exists>d2 chain ca_text. read_path_fetch_cert E (vault_ops C ser de root) (a1, req2) =
          (Ok (Some (data_response (Some d2))), (a1, req2)) \<and>
        map_of d2 ''certificate'' = map_of d ''certificate'' \<and> map_of d2 ''serial_number'' = Some (JString sn2) \<and>
        map_of d ''issuing_ca'' = Some (JString ca_text) \<and> map_of d2 ''ca_chain'' = Some (JString (chain @ ca_text))"
      using ct(2,4) by (intro exI [of _ d2] exI [of _ chain] exI [of _ ca_text]) simp
  qed (use d(2) f(4) in simp_all)
qed

section \<open>Roles\<close>

text \<open>The form in which a role comes back from the storage, and the contract of the JSON forms.\<close>

definition stored_pki_role :: "pki_role \<Rightarrow> pki_role option" where
  "stored_pki_role r =
     Option.bind (stored_duration (pkr_ttl r)) (\<lambda>t.
     Option.bind (stored_duration (pkr_max_ttl r)) (\<lambda>m.
     Option.bind (stored_duration (pkr_not_before_duration r)) (\<lambda>nb.
       Some (r\<lparr>pkr_ttl := t, pkr_max_ttl := m, pkr_not_before_duration := nb\<rparr>))))"

definition pki_codecs :: "('x, 'p, 'k, 'r) pki_env \<Rightarrow> bool" where
  "pki_codecs E \<longleftrightarrow>
     (\<forall>r. pkr_key_bits r < 2 ^ 32 \<longrightarrow> pkr_signature_bits r < 2 ^ 32 \<longrightarrow> pe_dec_role E (pe_enc_role E r) = stored_pki_role r) \<and>
     (\<forall>p. pe_dec_bundle E (pe_enc_bundle E p) = Some p) \<and>
     (\<forall>b. kb_bits b < 2 ^ 32 \<longrightarrow> pe_dec_key E (pe_enc_key E b) = Some b)"

definition role_shape :: "bool \<Rightarrow> string \<Rightarrow> nat \<Rightarrow> bool" where
  "role_shape tongsuo ty bits \<longleftrightarrow>
     ty = ''rsa'' \<and> bits \<in> {2048, 3072, 4096} \<or> ty = ''ec'' \<and> bits \<in> {224, 256, 384, 512} \<or> tongsuo \<and> ty = ''sm2'' \<and> bits = 256"

definition role_durations :: "pki_role \<Rightarrow> duration set" where
  "role_durations r = {pkr_ttl r, pkr_max_ttl r, pkr_not_before_duration r}"

lemma check_key_bits_shape: "check_key_bits t ty bits = Ok b \<Longrightarrow> role_shape t ty b"
  by (auto simp: check_key_bits_def role_shape_def Let_def split: if_splits)

lemma role_shape_u32: "role_shape t ty b \<Longrightarrow> u32_of b = b"
  by (auto simp: role_shape_def u32_of_def)

lemma role_parts_key:
  "role_flags E req r = Ok r1 \<Longrightarrow> pkr_key_type r1 = pkr_key_type r \<and> pkr_key_bits r1 = pkr_key_bits r \<and> pkr_signature_bits r1 < 2 ^ 32"
  "role_names E req r1 = Ok r2 \<Longrightarrow>
    pkr_key_type r2 = pkr_key_type r1 \<and> pkr_key_bits r2 = pkr_key_bits r1 \<and> pkr_signature_bits r2 = pkr_signature_bits r1"
  "role_storing E req r2 = Ok r3 \<Longrightarrow>
    pkr_key_type r3 = pkr_key_type r2 \<and> pkr_key_bits r3 = pkr_key_bits r2 \<and> pkr_signature_bits r3 = pkr_signature_bits r2"
  by (auto simp: role_flags_def role_names_def role_storing_def res_bind_Ok_iff u32_of_def)

lemma role_args_shape:
  assumes "role_args E req = Ok r"
  shows "role_shape (xe_tongsuo (pe_x509 E)) (pkr_key_type r) (pkr_key_bits r)" "pkr_key_bits r < 2 ^ 32" "pkr_signature_bits r < 2 ^ 32"
    "default_arg E req as_str ''key_type'' = Ok (pkr_key_type r)"
proof -
  obtain t m ty b r1 r2 where k: "key_args E req = Ok (ty, b)"
    and p: "role_flags E req (pki_role_default\<lparr>pkr_ttl := t, pkr_max_ttl := m, pkr_key_type := ty, pkr_key_bits := u32_of b\<rparr>) = Ok r1"
      "role_names E req r1 = Ok r2" "role_storing E req r2 = Ok r"
    using assms by (auto simp: role_args_def res_bind_Ok_iff)
  have s: "role_shape (xe_tongsuo (pe_x509 E)) ty b" "default_arg E req as_str ''key_type'' = Ok ty"
    using k check_key_bits_shape by (auto simp: key_args_def res_bind_Ok_iff)
  have e: "pkr_key_type r = ty" "pkr_key_bits r = b" "pkr_signature_bits r < 2 ^ 32"
    using role_parts_key(1) [OF p(1)] role_parts_key(2) [OF p(2)] role_parts_key(3) [OF p(3)] role_shape_u32 [OF s(1)] by simp_all
  show "role_shape (xe_tongsuo (pe_x509 E)) (pkr_key_type r) (pkr_key_bits r)" "pkr_signature_bits r < 2 ^ 32"
    "default_arg E req as_str ''key_type'' = Ok (pkr_key_type r)"
    using s e by simp_all
  show "pkr_key_bits r < 2 ^ 32" using s(1) e(2) by (auto simp: role_shape_def)
qed

lemma stored_role_json:
  assumes "\<forall>d \<in> role_durations r. d div NANOS < 2 ^ 63"
  shows "\<exists>r'. stored_pki_role r = Some r' \<and> pki_role_json r' = pki_role_json r \<and>
    pkr_key_type r' = pkr_key_type r \<and> pkr_key_bits r' = pkr_key_bits r"
  using assms
  by (simp add: stored_pki_role_def stored_duration_def role_durations_def pki_role_json_def secs_def from_secs_def NANOS_def)

context storage_view
begin

lemma role_written:
  assumes "ready (pks_store a)" "rq_storage req = Some v" "given_arg E req ''name'' = Ok name" "view_valid valid v (pki_role_key name)"
    "pki_codecs E" "role_args E req = Ok r" "\<forall>d \<in> role_durations r. d div NANOS < 2 ^ 63"
  obtains a1 r' where "create_path_role E sops (a, req) = (Ok None, (a1, req))" "ready (pks_store a1)"
    "role_in E (view_stored stored v (pks_store a1)) name r'" "pki_role_json r' = pki_role_json r"
    "pkr_key_type r' = pkr_key_type r" "pkr_key_bits r' = pkr_key_bits r"
proof -
  obtain s where s: "pki_store (rq_storage_put sops req \<lparr>se_key = pki_role_key name, se_value = pe_enc_role E r\<rparr>) a =
      (Ok (), a\<lparr>pks_store := s\<rparr>)" "ready s"
    "\<And>k'. view_valid valid v k' \<Longrightarrow> view_stored stored v s k' = ((view_stored stored v (pks_store a))(pki_role_key name \<mapsto> pe_enc_role E r)) k'"
    by (rule pki_put [OF assms(1,2,4), of "pe_enc_role E r"]) blast
  obtain r' where r': "stored_pki_role r = Some r'" "pki_role_json r' = pki_role_json r" "pkr_key_type r' = pkr_key_type r"
    "pkr_key_bits r' = pkr_key_bits r"
    using stored_role_json [OF assms(7)] by blast
  have "role_in E (view_stored stored v s) name r'"
    using s(3) [OF assms(4)] assms(5) role_args_shape(2,3) [OF assms(6)] r'(1) by (simp add: role_in_def pki_codecs_def)
  then show ?thesis
    using that [of "a\<lparr>pks_store := s\<rparr>"] s(1,2) r'(2-4) assms(3,6) by (simp add: create_path_role_def on_state_def op_bind_def)
qed

lemma read_role_stored:
  assumes "ready (pks_store a)" "rq_storage req = Some v" "given_arg E req ''name'' = Ok name" "view_valid valid v (pki_role_key name)"
    "role_in E (view_stored stored v (pks_store a)) name r"
  shows "read_path_role E sops (a, req) = (Ok (Some (data_response (Some (pki_role_json r)))), (a, req))"
proof -
  have "pki_get_role E sops req name a = (Ok (Some r), a)" using pki_get_role_Ok [OF assms(1,2,4)] assms(5) by blast
  then show ?thesis using assms(3) by (simp add: read_path_role_def on_state_def op_bind_def)
qed

text \<open>Reading a role that does not exist panics.\<close>

lemma read_missing_role_panics:
  assumes "ready (pks_store a)" "rq_storage req = Some v" "given_arg E req ''name'' = Ok name" "view_valid valid v (pki_role_key name)"
    "view_stored stored v (pks_store a) (pki_role_key name) = None"
  shows "read_path_role E sops (a, req) = (Panic, (a, req))"
  using pki_get [OF assms(1,2,4)] assms(3,5)
  by (simp add: read_path_role_def on_state_def op_bind_def pki_get_role_def op_return_def op_res_def)

end

text \<open>
  A role is read back as it was written. A request with valid arguments stores the role, whose type and size of key
  are among the supported ones, and reading it gives the arguments, the durations in whole seconds.
\<close>

theorem role_read_back:
  assumes "pki_ready C ser de root a" "rq_storage req = Some v" "given_arg E req ''name'' = Ok name" "vault_key v (pki_role_key name)"
    "pki_codecs E" "role_args E req = Ok r" "\<forall>d \<in> role_durations r. d div NANOS < 2 ^ 63"
  shows "\<exists>a1. create_path_role E (vault_ops C ser de root) (a, req) = (Ok None, (a1, req)) \<and>
    role_shape (xe_tongsuo (pe_x509 E)) (pkr_key_type r) (pkr_key_bits r) \<and>
    (\<forall>req2. rq_storage req2 = Some v \<longrightarrow> given_arg E req2 ''name'' = Ok name \<longrightarrow>
      read_path_role E (vault_ops C ser de root) (a1, req2) = (Ok (Some (data_response (Some (pki_role_json r)))), (a1, req2)))"
proof -
  obtain a1 r' where w: "create_path_role E (vault_ops C ser de root) (a, req) = (Ok None, (a1, req))" "pki_ready C ser de root a1"
    "role_in E (pki_contents C de root v a1) name r'" "pki_role_json r' = pki_role_json r"
    by (rule fbv.role_written [OF assms]) blast
  show ?thesis
    by (intro exI [of _ a1] conjI allI impI)
      (use w fbv.read_role_stored [OF w(2) _ _ assms(4) w(3)] role_args_shape(1) [OF assms(6)] in simp_all)
qed

text \<open>
  A role for elliptic curves of 512 bits is accepted and can not be used: after it was written, every request to issue
  a certificate for it fails. The size that the engine can make, 521 bits, is refused for a role.
\<close>

theorem ec_512_role_never_issues:
  assumes "pki_ready C ser de root a" "rq_storage req = Some v" "given_arg E req ''name'' = Ok name" "vault_key v (pki_role_key name)"
    "pki_codecs E" "role_args E req = Ok r" "\<forall>d \<in> role_durations r. d div NANOS < 2 ^ 63"
    and "pkr_key_type r = ''ec''" "pkr_key_bits r = 512" "vault_key v ca_bundle_key" "hex_serials (pe_x509 E) (vault_key v)"
  shows "\<exists>a1. create_path_role E (vault_ops C ser de root) (a, req) = (Ok None, (a1, req)) \<and>
    (\<forall>req2. rq_storage req2 = Some v \<longrightarrow> given_arg E req2 ''role'' = Ok name \<longrightarrow>
      \<not> is_ok (fst (issue_cert E (vault_ops C ser de root) (a1, req2)))) \<and>
    check_key_bits (xe_tongsuo (pe_x509 E)) ''ec'' 521 = Err (Pki ErrPkiKeyBitsInvalid)"
proof -
  obtain a1 r' where w: "create_path_role E (vault_ops C ser de root) (a, req) = (Ok None, (a1, req))" "pki_ready C ser de root a1"
    "role_in E (pki_contents C de root v a1) name r'" "pkr_key_type r' = pkr_key_type r" "pkr_key_bits r' = pkr_key_bits r"
    by (rule fbv.role_written [OF assms(1-7)]) blast
  have "\<not> is_ok (fst (issue_cert E (vault_ops C ser de root) (a1, req2)))"
    if q: "rq_storage req2 = Some v" "given_arg E req2 ''role'' = Ok name" for req2
  proof
    assume "is_ok (fst (issue_cert E (vault_ops C ser de root) (a1, req2)))"
    then obtain o2 a2 req3 where ok: "issue_cert E (vault_ops C ser de root) (a1, req2) = (Ok o2, (a2, req3))"
      by (cases "issue_cert E (vault_ops C ser de root) (a1, req2)") (auto simp: is_ok_def split: res.splits)
    then obtain resp where resp: "o2 = Some resp"
      by (auto simp: issue_cert_def on_state_Ok op_bind_Ok split: option.splits)
    obtain r2 ca c b t d where i: "issued E req2 (pki_contents C de root v a1) (pks_reads a1) r2 ca c b"
      by (rule fbv.issue_cert_Ok [OF w(2) q assms(4,10,11) ok [unfolded resp]]) blast
    then have "r2 = r'" using q(2) w(3) role_in_unique unfolding issued_def by (metis res.inject(1))
    then have "ce_key_type c = ''ec''" "ce_key_bits c = 512" "\<exists>n n'. to_cert_bundle (pe_x509 E) c (Some (cb_certificate ca)) (Some (cb_private_key ca)) n = (Ok b, n')"
      using i w(4,5) assms(8,9) by (auto simp: issued_def)
    then show False by (auto simp: to_cert_bundle_def new_private_key_def ec_curve_def op_bind_Ok)
  qed
  then show ?thesis using w(1) by (auto simp: check_key_bits_def)
qed

section \<open>Keys by name\<close>

lemma key_in_unique: "key_in E m name b \<Longrightarrow> key_in E m name b' \<Longrightarrow> b' = b"
  by (auto simp: key_in_def)

lemma result_data [simp]: "result_response x = Some r \<longleftrightarrow> r = data_response (Some [(''result'', x)])"
  by (auto simp: result_response_def)

lemma hex_decoded_Ok [simp]: "hex_decoded E s = Ok b \<longleftrightarrow> pe_hex_decode E s = Some b"
  by (simp add: hex_decoded_def split: option.split)

lemma key_bundle_new_Ok:
  assumes "key_bundle_new K name ty bits n = (Ok b, n')"
  shows "kb_name b = name" "kb_key_type b = ty"
  using assms by (auto simp: key_bundle_new_def op_bind_Ok)

lemma key_shape_u32: "key_shape t ty bits \<Longrightarrow> bits < 2 ^ 32"
  by (auto simp: key_shape_def)

context storage_view
begin

lemma free_name_Ok:
  assumes "ready (pks_store a)" "rq_storage req = Some v" "view_valid valid v (named_key name)"
  shows "free_name E sops req name a = (Ok (), a') \<longleftrightarrow> (\<nexists>b. key_in E (view_stored stored v (pks_store a)) name b) \<and> a' = a"
  using pki_get [OF assms]
  by (auto simp: free_name_def fetch_key_def op_bind_def key_in_def op_return_def op_fail_def split: option.splits)

lemma write_key_Ok:
  assumes "ready (pks_store a)" "rq_storage req = Some v" "view_valid valid v (named_key (kb_name b))"
    "pki_codecs E" "kb_bits b < 2 ^ 32" "write_key E sops req b a = (Ok (), a')"
  shows "ready (pks_store a')" "key_in E (view_stored stored v (pks_store a')) (kb_name b) b"
proof -
  obtain s where s: "a' = a\<lparr>pks_store := s\<rparr>" "ready s" "\<And>k. view_valid valid v k \<Longrightarrow> view_stored stored v s k =
      ((view_stored stored v (pks_store a))(named_key (kb_name b) \<mapsto> pe_enc_key E b)) k"
    by (rule pki_put [OF assms(1-3), of "pe_enc_key E b"]) (use assms(6) in \<open>auto simp: write_key_def\<close>)
  then show "ready (pks_store a')" "key_in E (view_stored stored v (pks_store a')) (kb_name b) b"
    using assms(3-5) by (simp_all add: key_in_def pki_codecs_def)
qed

lemma generate_key_stored:
  assumes R: "ready (pks_store a)" "rq_storage req = Some v" "given_arg E req ''key_name'' = Ok name" "view_valid valid v (named_key name)"
    "pki_codecs E" and run: "pki_generate_key E sops (a, req) = (Ok o1, (a', req'))"
  shows "ready (pks_store a')" "\<nexists>b. key_in E (view_stored stored v (pks_store a)) name b"
    "\<exists>b. key_in E (view_stored stored v (pks_store a')) name b \<and> kb_name b = name \<and>
      key_shape (ke_tongsuo (pe_keys E)) (kb_key_type b) (kb_bits b)"
proof -
  obtain ty bits b0 b n1 n2 where f: "free_name E sops req name a = (Ok (), a)"
    "key_bundle_new (pe_keys E) name (to_lowercase ty) (u32_of bits) (pks_draws a) = (Ok b0, n1)"
    "key_bundle_generate (pe_keys E) b0 n1 = (Ok b, n2)" "write_key E sops req b (a\<lparr>pks_draws := n2\<rparr>) = (Ok (), a')"
    using run R(3)
    by (auto simp: pki_generate_key_def on_state_Ok op_bind_Ok free_name_Ok [OF R(1,2,4)])
  note g = generate_key_shape [OF f(3)]
  have n: "kb_name b = name" using g(3) key_bundle_new_Ok(1) [OF f(2)] by simp
  have w: "ready (pks_store a')" "key_in E (view_stored stored v (pks_store a')) name b"
    using write_key_Ok [OF _ R(2) _ R(5) key_shape_u32 [OF g(1)] f(4)] R(1,4) n by simp_all
  show "ready (pks_store a')" "\<nexists>b. key_in E (view_stored stored v (pks_store a)) name b"
    "\<exists>b. key_in E (view_stored stored v (pks_store a')) name b \<and> kb_name b = name \<and>
      key_shape (ke_tongsuo (pe_keys E)) (kb_key_type b) (kb_bits b)"
    using w n g(1) f(1) free_name_Ok [OF R(1,2,4)] by blast+
qed

lemma taken_name_refused:
  assumes R: "ready (pks_store a)" "rq_storage req = Some v" "given_arg E req ''key_name'' = Ok name" "view_valid valid v (named_key name)"
    "key_in E (view_stored stored v (pks_store a)) name b"
  shows "snd (pki_generate_key E sops (a, req)) = (a, req)" "snd (import_key E sops (a, req)) = (a, req)"
    "\<not> is_ok (fst (pki_generate_key E sops (a, req)))" "\<not> is_ok (fst (import_key E sops (a, req)))"
proof -
  have f: "free_name E sops req name a = (Err (Pki ErrPkiKeyNameAlreadyExist), a)"
    using pki_get [OF R(1,2,4)] R(5) by (auto simp: free_name_def fetch_key_def op_bind_def key_in_def op_return_def)
  show "snd (pki_generate_key E sops (a, req)) = (a, req)" "\<not> is_ok (fst (pki_generate_key E sops (a, req)))"
    using R(3) f
    by (simp_all add: pki_generate_key_def on_state_def op_bind_def op_res_def split: res.split)
  show "snd (import_key E sops (a, req)) = (a, req)" "\<not> is_ok (fst (import_key E sops (a, req)))"
    using R(3) f
    by (simp_all add: import_key_def on_state_def op_bind_def op_res_def op_fail_def split: res.split)
qed

lemma encrypt_run:
  assumes R: "ready (pks_store a)" "rq_storage req = Some v" "given_arg E req ''key_name'' = Ok name" "view_valid valid v (named_key name)"
    "key_in E (view_stored stored v (pks_store a)) name b"
    and run: "key_encrypt E sops (a, req) = (Ok o1, (a1, req1))"
  obtains data aad m c n n' where "given_arg E req ''data'' = Ok data" "default_arg E req as_str ''aad'' = Ok aad"
    "pe_hex_decode E data = Some m" "key_bundle_encrypt (pe_keys E) b m (Some (Aad (pe_utf8 E aad))) n = (Ok c, n')"
    "o1 = Some (data_response (Some [(''result'', JString (hex_bytes c))]))" "pks_store a1 = pks_store a"
proof -
  have "key_in E (view_stored stored v (pks_store a)) name b' \<longleftrightarrow> b' = b" for b' using R(5) key_in_unique by blast
  then show ?thesis
    using run R(3) that
    by (auto simp: key_encrypt_def on_state_Ok op_bind_Ok fetch_key_Ok [OF R(1,2,4)] result_response_def)
qed

lemma sign_run:
  assumes R: "ready (pks_store a)" "rq_storage req = Some v" "given_arg E req ''key_name'' = Ok name" "view_valid valid v (named_key name)"
    "key_in E (view_stored stored v (pks_store a)) name b"
    and run: "key_sign E sops (a, req) = (Ok o1, (a1, req1))"
  obtains data m s n n' where "given_arg E req ''data'' = Ok data" "pe_hex_decode E data = Some m"
    "key_bundle_sign (pe_keys E) b m n = (Ok s, n')"
    "o1 = Some (data_response (Some [(''result'', JString (hex_bytes s))]))" "pks_store a1 = pks_store a"
proof -
  have "key_in E (view_stored stored v (pks_store a)) name b' \<longleftrightarrow> b' = b" for b' using R(5) key_in_unique by blast
  then show ?thesis
    using run R(3) that
    by (auto simp: key_sign_def on_state_Ok op_bind_Ok fetch_key_Ok [OF R(1,2,4)] result_response_def)
qed

end

text \<open>
  Every key that the engine makes has a type and a size that are supported, and is kept under its name; making or
  importing a key under a name that is taken is refused and changes nothing.
\<close>

theorem generated_key_kept:
  assumes "pki_ready C ser de root a" "rq_storage req = Some v" "given_arg E req ''key_name'' = Ok name" "vault_key v (named_key name)"
    "pki_codecs E" "pki_generate_key E (vault_ops C ser de root) (a, req) = (Ok o1, (a1, req1))"
  shows "\<exists>b. key_in E (pki_contents C de root v a1) name b \<and> kb_name b = name \<and>
    key_shape (ke_tongsuo (pe_keys E)) (kb_key_type b) (kb_bits b) \<and>
    (\<forall>req2. rq_storage req2 = Some v \<longrightarrow> given_arg E req2 ''key_name'' = Ok name \<longrightarrow>
      (\<forall>h \<in> {pki_generate_key E (vault_ops C ser de root), import_key E (vault_ops C ser de root)}.
        \<not> is_ok (fst (h (a1, req2))) \<and> snd (h (a1, req2)) = (a1, req2)))"
proof -
  note g = fbv.generate_key_stored [OF assms]
  obtain b where b: "key_in E (pki_contents C de root v a1) name b" "kb_name b = name"
    "key_shape (ke_tongsuo (pe_keys E)) (kb_key_type b) (kb_bits b)"
    using g(3) by blast
  show ?thesis
    by (rule exI [of _ b]) (use b fbv.taken_name_refused [OF g(1) _ _ assms(4) b(1)] in auto)
qed

text \<open>
  C28: a key that is kept by name decrypts what it encrypted, with the same additional data: all of it for a symmetric
  key; for an RSA key only what comes before the first zero byte.
\<close>

theorem kept_key_decrypts:
  assumes "pki_ready C ser de root a" "rq_storage req = Some v" "given_arg E req ''key_name'' = Ok name" "vault_key v (named_key name)"
    "key_in E (pki_contents C de root v a) name b" "openssl_keys (pe_keys E)" "\<forall>bs. pe_hex_decode E (hex_bytes bs) = Some bs"
    "given_arg E req ''data'' = Ok (hex_bytes m)" "default_arg E req as_str ''aad'' = Ok aad"
    "key_encrypt E (vault_ops C ser de root) (a, req) = (Ok (Some resp), (a1, req1))"
  shows "\<exists>c. resp = data_response (Some [(''result'', JString c)]) \<and>
    (\<forall>req2. rq_storage req2 = Some v \<longrightarrow> given_arg E req2 ''key_name'' = Ok name \<longrightarrow> given_arg E req2 ''data'' = Ok c \<longrightarrow>
      default_arg E req2 as_str ''aad'' = Ok aad \<longrightarrow>
      key_decrypt E (vault_ops C ser de root) (a1, req2) =
        (Ok (Some (data_response (Some
          [(''result'', JString (hex_bytes (if kb_key_type b = ''rsa'' then takeWhile (\<lambda>x. x \<noteq> 0) m else m)))]))), (a1, req2)))"
proof -
  obtain c n n' where c: "key_bundle_encrypt (pe_keys E) b m (Some (Aad (pe_utf8 E aad))) n = (Ok c, n')"
    "resp = data_response (Some [(''result'', JString (hex_bytes c))])" "pks_store a1 = pks_store a"
    by (rule fbv.encrypt_run [OF assms(1-5,10)]) (use assms(7-9) in auto)
  note d = decrypt_of_encrypt [OF assms(6) c(1)]
  have R: "pki_ready C ser de root a1" "key_in E (pki_contents C de root v a1) name b" using assms(1,5) c(3) by simp_all
  have "fetch_key E (vault_ops C ser de root) req2 name a1 = (Ok b, a1)" if "rq_storage req2 = Some v" for req2
    using fbv.fetch_key_Ok [OF R(1) that assms(4)] R(2) by blast
  then show ?thesis
    using c(2) d assms(7)
    by (auto simp: key_decrypt_def on_state_def op_bind_def result_response_def hex_decoded_def decrypted_as_def)
qed

text \<open>A signature that a key kept by name makes is accepted when it is verified with the key of that name.\<close>

theorem kept_key_verifies:
  assumes "pki_ready C ser de root a" "rq_storage req = Some v" "given_arg E req ''key_name'' = Ok name" "vault_key v (named_key name)"
    "key_in E (pki_contents C de root v a) name b" "openssl_keys (pe_keys E)" "\<forall>bs. pe_hex_decode E (hex_bytes bs) = Some bs"
    "given_arg E req ''data'' = Ok data"
    "key_sign E (vault_ops C ser de root) (a, req) = (Ok (Some resp), (a1, req1))"
  shows "\<exists>s. resp = data_response (Some [(''result'', JString s)]) \<and>
    (\<forall>req2. rq_storage req2 = Some v \<longrightarrow> given_arg E req2 ''key_name'' = Ok name \<longrightarrow> given_arg E req2 ''data'' = Ok data \<longrightarrow>
      given_arg E req2 ''signature'' = Ok s \<longrightarrow>
      key_verify E (vault_ops C ser de root) (a1, req2) =
        (Ok (Some (data_response (Some [(''result'', JBool True)]))), (a1, req2)))"
proof -
  obtain m s n n' where s: "pe_hex_decode E data = Some m" "key_bundle_sign (pe_keys E) b m n = (Ok s, n')"
    "resp = data_response (Some [(''result'', JString (hex_bytes s))])" "pks_store a1 = pks_store a"
    by (rule fbv.sign_run [OF assms(1-5,9)]) (use assms(8) in auto)
  note d = verify_of_sign [OF assms(6) s(2)]
  have R: "pki_ready C ser de root a1" "key_in E (pki_contents C de root v a1) name b" using assms(1,5) s(4) by simp_all
  have "fetch_key E (vault_ops C ser de root) req2 name a1 = (Ok b, a1)" if "rq_storage req2 = Some v" for req2
    using fbv.fetch_key_Ok [OF R(1) that assms(4)] R(2) by blast
  then show ?thesis
    using s(1,3) d assms(7)
    by (auto simp: key_verify_def on_state_def op_bind_def result_response_def hex_decoded_def)
qed

section \<open>Private keys in answers\<close>

definition shows_key :: "response option res \<times> 'a \<Rightarrow> bool" where
  "shows_key x \<longleftrightarrow> (case fst x of Ok (Some resp) \<Rightarrow> (\<exists>d. rs_data resp = Some d \<and> map_of d ''private_key'' \<noteq> None) | _ \<Rightarrow> False)"

lemma shows_key_iff: "shows_key (r, s) \<longleftrightarrow> (\<exists>resp d. r = Ok (Some resp) \<and> rs_data resp = Some d \<and> map_of d ''private_key'' \<noteq> None)"
  by (auto simp: shows_key_def split: res.splits option.splits)

lemma data_response_data [simp]: "rs_data (data_response d) = d"
  by (simp add: data_response_def)

lemma no_key_data:
  "map_of (pki_role_json r) ''private_key'' = None" "map_of (key_data b) ''private_key'' = None"
  "root_data X e b' = Ok d \<Longrightarrow> map_of d ''private_key'' = Some y \<Longrightarrow> e"
  "handle_fetch_cert_bundle X b' = Ok resp \<Longrightarrow> rs_data resp = Some d \<Longrightarrow> map_of d ''private_key'' \<noteq> Some y"
  by (auto simp: pki_role_json_def key_data_def root_data_def handle_fetch_cert_bundle_def res_bind_Ok_iff
      Let_def split: if_splits)

lemma shows_key_run: "shows_key (h (a, req)) \<Longrightarrow> \<exists>resp d s. h (a, req) = (Ok (Some resp), s) \<and> rs_data resp = Some d \<and> map_of d ''private_key'' \<noteq> None"
  by (cases "h (a, req)") (auto simp: shows_key_iff)

lemma quiet_handlers:
  "\<not> shows_key (read_path_role E sops (a, req))" "\<not> shows_key (create_path_role E sops (a, req))"
  "\<not> shows_key (delete_path_role E sops (a, req))" "\<not> shows_key (write_path_ca E sops (a, req))"
  "\<not> shows_key (delete_root E sops (a, req))" "\<not> shows_key (read_path_fetch_ca E sops (a, req))"
  "\<not> shows_key (read_path_fetch_cert E sops (a, req))" "\<not> shows_key (import_key E sops (a, req))"
  "\<not> shows_key (key_sign E sops (a, req))" "\<not> shows_key (key_verify E sops (a, req))"
  "\<not> shows_key (key_encrypt E sops (a, req))" "\<not> shows_key (key_decrypt E sops (a, req))"
proof -
  note [dest!] = shows_key_run
  note defs = on_state_Ok' op_bind_Ok no_key_data(1,2)
  show "\<not> shows_key (read_path_role E sops (a, req))" by (auto simp: read_path_role_def defs split: option.splits)
  show "\<not> shows_key (create_path_role E sops (a, req))" by (auto simp: create_path_role_def defs)
  show "\<not> shows_key (delete_path_role E sops (a, req))" by (auto simp: delete_path_role_def defs split: if_splits)
  show "\<not> shows_key (write_path_ca E sops (a, req))" by (auto simp: write_path_ca_def defs split: option.splits)
  show "\<not> shows_key (delete_root E sops (a, req))" by (auto simp: delete_root_def defs)
  show "\<not> shows_key (read_path_fetch_ca E sops (a, req))"
    by (auto simp: read_path_fetch_ca_def defs dest: no_key_data(4))
  show "\<not> shows_key (read_path_fetch_cert E sops (a, req))"
    by (auto simp: read_path_fetch_cert_def defs fetched_data_def res_bind_Ok_iff)
  show "\<not> shows_key (import_key E sops (a, req))" by (auto simp: import_key_def defs split: if_splits)
  show "\<not> shows_key (key_sign E sops (a, req))" by (auto simp: key_sign_def defs result_response_def)
  show "\<not> shows_key (key_verify E sops (a, req))" by (auto simp: key_verify_def defs result_response_def)
  show "\<not> shows_key (key_encrypt E sops (a, req))" by (auto simp: key_encrypt_def defs result_response_def)
  show "\<not> shows_key (key_decrypt E sops (a, req))" by (auto simp: key_decrypt_def defs result_response_def)
qed

lemma root_shows_key: "shows_key (generate_root E sops (a, req)) \<Longrightarrow> default_arg E req as_str ''exported'' = Ok ''exported''"
  by (drule shows_key_run) (auto simp: generate_root_def on_state_Ok' op_bind_Ok dest: no_key_data(3) split: if_splits)

lemma generate_shows_key: "shows_key (pki_generate_key E sops (a, req)) \<Longrightarrow> ends_with (rq_path req) ''/exported''"
  by (drule shows_key_run) (auto simp: pki_generate_key_def on_state_Ok' op_bind_Ok no_key_data(2) split: if_splits)

lemma idle_handlers:
  "\<not> shows_key (read_path_fetch_crl st)" "\<not> shows_key (read_path_fetch_cert_crl st)" "\<not> shows_key (revoke_cert st)"
  "\<not> shows_key (read_rotate_crl st)"
  by (simp_all add: shows_key_def read_path_fetch_crl_def read_path_fetch_cert_crl_def revoke_cert_def read_rotate_crl_def)

text \<open>
  An answer shows a private key only when it is the answer to issuing a certificate, whose key is made for the client,
  or when a root certificate or a key is generated and the request asks for its export. No request reads the key of the
  authority or a key that is kept by name.
\<close>

theorem private_keys_shown_on_export:
  assumes "p \<in> set (lb_paths (pki_new_backend E sops))" "(opn, h) \<in> set (bp_operations p)" "shows_key (h (a, req))"
  shows "p = issue_path E sops \<or>
    p = root_generate_path E sops \<and> default_arg E req as_str ''exported'' = Ok ''exported'' \<or>
    p = keys_generate_path E sops \<and> ends_with (rq_path req) ''/exported''"
proof -
  note paths = roles_path_def config_ca_path_def root_delete_path_def fetch_ca_path_def fetch_crl_path_def fetch_cert_path_def
    fetch_cert_crl_path_def revoke_path_def crl_rotate_path_def keys_import_path_def keys_sign_path_def keys_verify_path_def
    keys_encrypt_path_def keys_decrypt_path_def new_path_def
  have quiet: "\<not> shows_key (h (a, req))"
    if "p \<in> {roles_path E sops, config_ca_path E sops, root_delete_path E sops, fetch_ca_path E sops, fetch_crl_path,
        fetch_cert_path E sops, fetch_cert_crl_path, revoke_path, crl_rotate_path, keys_import_path E sops, keys_sign_path E sops,
        keys_verify_path E sops, keys_encrypt_path E sops, keys_decrypt_path E sops}"
    using that assms(2)
    by (elim insertE emptyE) (auto simp: paths quiet_handlers idle_handlers)
  then have "p \<in> {issue_path E sops, root_generate_path E sops, keys_generate_path E sops}"
    using assms(1,3) unfolding pki_new_backend_def by (simp del: not_None_eq) blast
  then consider "p = issue_path E sops" | "p = root_generate_path E sops" | "p = keys_generate_path E sops" by blast
  then show ?thesis
  proof cases
    case 2
    then have "h = generate_root E sops" using assms(2) by (simp add: root_generate_path_def new_path_def)
    then show ?thesis using 2 assms(3) root_shows_key by blast
  next
    case 3
    then have "h = pki_generate_key E sops" using assms(2) by (simp add: keys_generate_path_def new_path_def)
    then show ?thesis using 3 assms(3) generate_shows_key by blast
  qed simp
qed

section \<open>Witnesses\<close>

text \<open>
  Certificates are their serial number, subject, end of validity, kind and public key, and keys are numbers. What is stored
  is coded by numbers. An RSA block is its message with a one after it, filled up with zeros.
\<close>

type_synonym demo_cert = "nat \<times> x509_name \<times> int \<times> bool \<times> nat"

definition demo_x509 :: "(demo_cert, nat) x509_env" where
  "demo_x509 =
     \<lparr>xe_tongsuo = False, xe_default = (0, [], 0, False, 0), xe_key_default = 0,
      xe_public_matches = (\<lambda>k (_, _, _, _, pk). Ok (k = pk)), xe_check_ca = (\<lambda>(_, _, _, ca, _). if ca then 1 else 0),
      xe_subject_key_id = (\<lambda>_. Some []), xe_serial = fst,
      xe_serial_hex = (\<lambda>n. if n = 2587 then Ok ''0A1B'' else Err (External OpenSSL [])),
      xe_subject_name = (\<lambda>(_, s, _). s), xe_not_after = (\<lambda>(_, _, t, _). t),
      xe_not_after_text = (\<lambda>(_, _, t, _). replicate (to_nat t) CHR ''i''), xe_before = (\<lambda>(_, _, t, _) u. Ok (t < u)),
      xe_ext_flags = (\<lambda>_. False), xe_ext_key_usage = (\<lambda>_. 0), xe_name_entry = (\<lambda>_ _. True), xe_asn1 = (\<lambda>_. Ok ()),
      xe_extension = (\<lambda>_ _. Ok ()),
      xe_sign = (\<lambda>_ T k _ _. Ok (tb_serial T, tb_subject T, tb_not_after T, BasicConstraints True \<in> set (tb_extensions T), k)),
      xe_rand_serial = (\<lambda>_. 2587), xe_rsa_key = (\<lambda>n _. Ok n), xe_ec_key = (\<lambda>n _. Ok n),
      xe_pem = (\<lambda>x. Ok (num_bytes x)), xe_of_pem = (\<lambda>b. Ok (from_nat (length b))),
      xe_der = (\<lambda>x. Ok (num_bytes x)), xe_of_der = (\<lambda>b. Ok (from_nat (length b))),
      xe_key_pem = (\<lambda>k. Ok (replicate k 0)), xe_key_of_pem = (\<lambda>b. Ok (length b)), xe_key_of_der = (\<lambda>b. Ok (length b)),
      xe_key_kind = (\<lambda>_. ''rsa''), xe_lossy = map (\<lambda>_. CHR ''x''), xe_timestamp = (\<lambda>s. Some (from_nat (length s)))\<rparr>"

lemma demo_x509_ok: "x509_ok demo_x509"
proof -
  have "b \<longleftrightarrow> BasicConstraints True \<in> set es" if "basic_constraints es = [b]" for es b
    using that by (induction es) (auto simp: basic_constraints_def split: x509_ext.splits)
  then show ?thesis unfolding x509_ok_def by (auto simp: demo_x509_def)
qed

definition demo_block :: "bytes \<Rightarrow> bytes" where "demo_block m = m @ 1 # replicate (255 - length m) 0"
definition demo_unblock :: "bytes \<Rightarrow> bytes" where "demo_unblock w = butlast (rev (dropWhile (\<lambda>x. x = 0) (rev w)))"

lemma demo_unblock_block [simp]: "demo_unblock (demo_block m) = m"
  by (simp add: demo_block_def demo_unblock_def dropWhile_append)

lemma demo_block_length [simp]: "length m + 11 \<le> 256 \<Longrightarrow> length (demo_block m) = 256"
  by (simp add: demo_block_def)

definition demo_key_env :: "(bytes, bytes) key_env" where
  "demo_key_env =
     \<lparr>ke_tongsuo = False, ke_uuid = (\<lambda>n. replicate n CHR ''u''), ke_rsa_pem = (\<lambda>n b. Ok [of_nat n]), ke_ec_pem = (\<lambda>n c. Ok [of_nat n]),
      ke_rand = (\<lambda>n k. Ok (replicate k (of_nat n))), ke_pkey = Ok, ke_sign = (\<lambda>_ k _ _ m. Ok (k @ m)),
      ke_verifier = (\<lambda>_ _ _ _. Ok ()), ke_verify = (\<lambda>k _ _ m s. Ok (s = k @ m)),
      ke_encrypt_aead = (\<lambda>_ _ _ _ m. Ok (rev m, replicate 16 0)), ke_decrypt_aead = (\<lambda>_ _ _ _ c _. Ok (rev c)),
      ke_encrypt = (\<lambda>_ _ _ m. Ok (rev m)), ke_decrypt = (\<lambda>_ _ _ c. Ok (rev c)), ke_rsa = Ok, ke_ec_degree = (\<lambda>_. Ok 256),
      ke_rsa_size = (\<lambda>_. 256),
      ke_private_encrypt = (\<lambda>_ m. if length m + 11 \<le> 256 then Ok (demo_block m) else Err (External OpenSSL [])),
      ke_public_encrypt = (\<lambda>_ _ m. if length m + 11 \<le> 256 then Ok (demo_block m) else Err (External OpenSSL [])),
      ke_public_part = Ok, ke_private_part = Ok, ke_public_decrypt = (\<lambda>_ w. Ok (demo_unblock w)),
      ke_private_decrypt = (\<lambda>_ w. Ok (demo_unblock w))\<rparr>"

lemma demo_keys_ok: "openssl_keys demo_key_env"
  unfolding openssl_keys_def by (auto simp: demo_key_env_def is_ok_def split: if_splits)

definition demo_unhex_digit :: "char \<Rightarrow> nat" where
  "demo_unhex_digit c = length (takeWhile (\<lambda>x. x \<noteq> c) ''0123456789abcdef'')"

fun demo_unhex :: "string \<Rightarrow> bytes" where
  "demo_unhex (a # b # s) = of_nat (16 * demo_unhex_digit a + demo_unhex_digit b) # demo_unhex s"
| "demo_unhex _ = []"

lemma demo_unhex_digit: "demo_unhex_digit (hex_digit n) = n mod 16"
proof -
  have "\<forall>m \<in> {0..<16}. demo_unhex_digit (hex_digit m) = m" by code_simp
  moreover have "hex_digit n = hex_digit (n mod 16)" by (simp add: hex_digit_def)
  ultimately show ?thesis by simp
qed

lemma demo_unhex_bytes [simp]: "demo_unhex (hex_bytes bs) = bs"
proof (induction bs)
  case (Cons x bs)
  have "unat x < 16 * 16" using unsigned_less [of x, where 'a = nat] by simp
  then have "16 * (unat x div 16 mod 16) + unat x mod 16 = unat x" by simp
  then show ?case using Cons by (simp add: hex_bytes_def demo_unhex_digit)
qed (simp add: hex_bytes_def)

definition pki_role_code where
  "pki_role_code r = ((pkr_ttl r, pkr_max_ttl r, pkr_not_before_duration r, pkr_key_type r, pkr_key_bits r, pkr_signature_bits r, pkr_use_pss r),
     (pkr_allow_localhost r, pkr_allow_bare_domains r, pkr_allow_subdomains r, pkr_allow_any_name r, pkr_allow_ip_sans r, pkr_server_flag r,
      pkr_client_flag r), (pkr_use_csr_sans r, pkr_use_csr_common_name r, pkr_key_usage r, pkr_ext_key_usage r, pkr_country r, pkr_province r,
      pkr_locality r), (pkr_organization r, pkr_ou r, pkr_street_address r, pkr_postal_code r, pkr_no_store r, pkr_generate_lease r, pkr_not_after r))"

definition pki_role_decode where
  "pki_role_decode c = (case c of ((a1, a2, a3, a4, a5, a6, a7), (b1, b2, b3, b4, b5, b6, b7), (c1, c2, c3, c4, c5, c6, c7), (d1, d2, d3, d4, d5, d6, d7)) \<Rightarrow>
     \<lparr>pkr_ttl = a1, pkr_max_ttl = a2, pkr_not_before_duration = a3, pkr_key_type = a4, pkr_key_bits = a5, pkr_signature_bits = a6,
      pkr_use_pss = a7, pkr_allow_localhost = b1, pkr_allow_bare_domains = b2, pkr_allow_subdomains = b3, pkr_allow_any_name = b4,
      pkr_allow_ip_sans = b5, pkr_server_flag = b6, pkr_client_flag = b7, pkr_use_csr_sans = c1, pkr_use_csr_common_name = c2,
      pkr_key_usage = c3, pkr_ext_key_usage = c4, pkr_country = c5, pkr_province = c6, pkr_locality = c7, pkr_organization = d1,
      pkr_ou = d2, pkr_street_address = d3, pkr_postal_code = d4, pkr_no_store = d5, pkr_generate_lease = d6, pkr_not_after = d7\<rparr>)"

lemma pki_role_decode_code [simp]: "pki_role_decode (pki_role_code r) = r"
  by (simp add: pki_role_decode_def pki_role_code_def)

definition word_nats :: "bytes \<Rightarrow> nat list" where "word_nats = map unat"
definition nat_words :: "nat list \<Rightarrow> bytes" where "nat_words = map of_nat"

lemma nat_words_word_nats [simp]: "nat_words (word_nats b) = b"
  by (simp add: nat_words_def word_nats_def o_def map_idI)

definition bundle_code :: "pem_bundle \<Rightarrow> nat list \<times> nat list list \<times> nat list \<times> string \<times> string" where
  "bundle_code p = (case p of (c, cs, k, ty, sn) \<Rightarrow> (word_nats c, map word_nats cs, word_nats k, ty, sn))"

definition bundle_decode :: "nat list \<times> nat list list \<times> nat list \<times> string \<times> string \<Rightarrow> pem_bundle" where
  "bundle_decode p = (case p of (c, cs, k, ty, sn) \<Rightarrow> (nat_words c, map nat_words cs, nat_words k, ty, sn))"

lemma bundle_decode_code [simp]: "bundle_decode (bundle_code p) = p"
  by (cases p) (simp add: bundle_code_def bundle_decode_def o_def)

definition key_code where
  "key_code b = (kb_id b, kb_name b, kb_key_type b, word_nats (kb_key b), word_nats (kb_iv b), kb_bits b)"

definition key_decode where
  "key_decode c = (case c of (i, n, ty, k, iv, bits) \<Rightarrow>
     \<lparr>kb_id = i, kb_name = n, kb_key_type = ty, kb_key = nat_words k, kb_iv = nat_words iv, kb_bits = bits\<rparr>)"

lemma key_decode_code [simp]: "key_decode (key_code b) = b"
  by (simp add: key_code_def key_decode_def)

definition demo_pki :: "(demo_cert, nat, bytes, bytes) pki_env" where
  "demo_pki =
     \<lparr>pe_x509 = demo_x509, pe_keys = demo_key_env, pe_parsers = (\<lambda>_. None, \<lambda>s. if s = ''1h'' then Some (from_secs 3600) else None),
      pe_clock = (\<lambda>n. int (from_secs 1000)), pe_parse_rfc3339 = (\<lambda>_. None), pe_parse_pem = (\<lambda>_. None),
      pe_hex_decode = (\<lambda>s. Some (demo_unhex s)), pe_utf8 = map (\<lambda>c. of_nat (of_char c)),
      pe_enc_role = (\<lambda>r. num_bytes (pki_role_code r)),
      pe_dec_role = (\<lambda>b. stored_pki_role (pki_role_decode (from_nat (length b)))),
      pe_enc_bundle = (\<lambda>p. num_bytes (bundle_code p)), pe_dec_bundle = (\<lambda>b. Some (bundle_decode (from_nat (length b)))),
      pe_enc_key = (\<lambda>b. num_bytes (key_code b)), pe_dec_key = (\<lambda>b. Some (key_decode (from_nat (length b))))\<rparr>"

lemma demo_pki_sel [simp]:
  "pe_x509 demo_pki = demo_x509" "pe_keys demo_pki = demo_key_env" "pe_clock demo_pki n = int (from_secs 1000)"
  "pe_hex_decode demo_pki s = Some (demo_unhex s)" "fst (pe_parsers demo_pki) = (\<lambda>_. None)"
  "snd (pe_parsers demo_pki) s = (if s = ''1h'' then Some (from_secs 3600) else None)"
  by (simp_all add: demo_pki_def)

lemma demo_pki_codecs: "pki_codecs demo_pki"
  by (simp add: pki_codecs_def demo_pki_def)

definition demo_pki_request :: "lpath \<Rightarrow> (string \<times> json) list \<Rightarrow> request" where
  "demo_pki_request p data = (request_new [])\<lparr>rq_match_path := Some p, rq_storage := Some demo_view, rq_body := Some data\<rparr>"

abbreviation demo_role_write :: "string \<Rightarrow> int \<Rightarrow> request" where
  "demo_role_write ty bits \<equiv> demo_pki_request (bp_path (roles_path demo_pki demo_ops2))
     [(''name'', JString ''web''), (''key_type'', JString ty), (''key_bits'', JNum bits)]"

abbreviation demo_issue :: request where
  "demo_issue \<equiv> demo_pki_request (bp_path (issue_path demo_pki demo_ops2))
     [(''role'', JString ''web''), (''common_name'', JString ''a''), (''ttl'', JString ''1h'')]"

abbreviation demo_fetch :: request where
  "demo_fetch \<equiv> demo_pki_request (bp_path (fetch_cert_path demo_pki demo_ops2)) [(''serial'', JString ''0A-1B'')]"

abbreviation demo_key_req :: "request" where
  "demo_key_req \<equiv> demo_pki_request (bp_path (keys_generate_path demo_pki demo_ops2)) [(''key_name'', JString ''k''), (''key_type'', JString ''aes-gcm'')]"

abbreviation demo_encrypt :: "bytes \<Rightarrow> request" where
  "demo_encrypt m \<equiv> demo_pki_request (bp_path (keys_encrypt_path demo_pki demo_ops2))
     [(''key_name'', JString ''k''), (''data'', JString (hex_bytes m))]"

abbreviation demo_verify :: "bytes \<Rightarrow> bytes \<Rightarrow> request" where
  "demo_verify m s \<equiv> demo_pki_request (bp_path (keys_verify_path demo_pki demo_ops2))
     [(''key_name'', JString ''k''), (''data'', JString (hex_bytes m)), (''signature'', JString (hex_bytes s))]"

lemmas pki_fields = demo_pki_request_def request_new_def roles_path_def issue_path_def fetch_cert_path_def keys_generate_path_def
  keys_encrypt_path_def keys_verify_path_def new_path_def given_arg_def default_arg_def optional_arg_def names_arg_def duration_arg_def
  get_data_def get_data_or_default_def data_ready_def get_data_raw_def lookup_in_def typed_def check_data_type_def field_value_def
  required_field_def optional_field_def default_field_def text_field_def int_field_def bool_field_def as_str_def

lemma demo_pki_storage [simp]: "rq_storage (demo_pki_request p d) = Some demo_view"
  by (simp add: demo_pki_request_def)

lemma demo_pki_args:
  "given_arg demo_pki (demo_role_write ty bits) ''name'' = Ok ''web''" "given_arg demo_pki demo_issue ''role'' = Ok ''web''"
  "common_name_args demo_pki demo_issue = Ok (''a'', [''a''])" "optional_arg demo_pki demo_issue ''ttl'' = Ok (Some ''1h'')"
  "names_arg demo_pki demo_issue ''ip_sans'' = Ok []" "given_arg demo_pki demo_fetch ''serial'' = Ok ''0A-1B''"
  "given_arg demo_pki demo_key_req ''key_name'' = Ok ''k''" "default_arg demo_pki demo_key_req as_str ''key_type'' = Ok ''aes-gcm''"
  "default_arg demo_pki demo_key_req as_u64 ''key_bits'' = Ok 0"
  "given_arg demo_pki (demo_encrypt m) ''key_name'' = Ok ''k''" "given_arg demo_pki (demo_encrypt m) ''data'' = Ok (hex_bytes m)"
  "default_arg demo_pki (demo_encrypt m) as_str ''aad'' = Ok []"
  "given_arg demo_pki (demo_verify m s) ''key_name'' = Ok ''k''" "given_arg demo_pki (demo_verify m s) ''data'' = Ok (hex_bytes m)"
  "given_arg demo_pki (demo_verify m s) ''signature'' = Ok (hex_bytes s)"
  by (simp_all add: pki_fields common_name_args_def get_default_def zero_value_def as_u64_def as_i64_def is_i64_def as_int_def)

lemma demo_pki_keys:
  "vault_key demo_view (pki_role_key ''web'')" "vault_key demo_view ca_bundle_key" "vault_key demo_view (named_key ''k'')"
  "hex_serials demo_x509 (vault_key demo_view)"
proof -
  show "vault_key demo_view (pki_role_key ''web'')" "vault_key demo_view ca_bundle_key" "vault_key demo_view (named_key ''k'')"
    by code_simp+
  have "vault_key demo_view (cert_key (serial_key (colon_hex ''0A1B'')))" by code_simp
  then show "hex_serials demo_x509 (vault_key demo_view)" by (auto simp: hex_serials_def demo_x509_def)
qed

definition demo_pki_role :: "string \<Rightarrow> nat \<Rightarrow> pki_role" where
  "demo_pki_role ty bits =
     pki_role_default\<lparr>pkr_ttl := DEFAULT_MAX_TTL, pkr_key_type := ty, pkr_key_bits := bits, pkr_signature_bits := 0,
       pkr_allow_bare_domains := False, pkr_allow_subdomains := False, pkr_allow_any_name := False, pkr_server_flag := True,
       pkr_client_flag := True, pkr_key_usage := [''DigitalSignature'', ''KeyAgreement'', ''KeyEncipherment''], pkr_no_store := False,
       pkr_not_before_duration := from_secs 30\<rparr>"

lemma demo_usage: "as_comma_string_slice (JString ''DigitalSignature,KeyAgreement,KeyEncipherment'') =
    Some [''DigitalSignature'', ''KeyAgreement'', ''KeyEncipherment'']" "as_comma_string_slice (JArray []) = Some []"
  "is_comma_string_slice (JString ''DigitalSignature,KeyAgreement,KeyEncipherment'')"
  by code_simp+

lemma demo_role_defaults:
  fixes ty bits defines "req \<equiv> demo_role_write ty bits"
  shows "optional_arg demo_pki req ''ttl'' = Ok None" "optional_arg demo_pki req ''max_ttl'' = Ok None"
    "default_arg demo_pki req as_u64 ''signature_bits'' = Ok 0" "default_arg demo_pki req as_bool ''allow_localhost'' = Ok True"
    "default_arg demo_pki req as_bool ''allow_bare_domains'' = Ok False" "default_arg demo_pki req as_bool ''allow_subdomains'' = Ok False"
    "default_arg demo_pki req as_bool ''allow_any_name'' = Ok False" "default_arg demo_pki req as_bool ''allow_ip_sans'' = Ok True"
    "default_arg demo_pki req as_bool ''server_flag'' = Ok True" "default_arg demo_pki req as_bool ''client_flag'' = Ok True"
    "default_arg demo_pki req as_bool ''use_csr_sans'' = Ok True" "default_arg demo_pki req as_bool ''use_csr_common_name'' = Ok True"
    "default_arg demo_pki req as_comma_string_slice ''key_usage'' = Ok [''DigitalSignature'', ''KeyAgreement'', ''KeyEncipherment'']"
    "default_arg demo_pki req as_comma_string_slice ''ext_key_usage'' = Ok []"
    "default_arg demo_pki req as_str ''country'' = Ok []" "default_arg demo_pki req as_str ''province'' = Ok []"
    "default_arg demo_pki req as_str ''locality'' = Ok []" "default_arg demo_pki req as_str ''organization'' = Ok []"
    "default_arg demo_pki req as_str ''ou'' = Ok []" "default_arg demo_pki req as_str ''street_address'' = Ok []"
    "default_arg demo_pki req as_str ''postal_code'' = Ok []" "default_arg demo_pki req as_bool ''no_store'' = Ok False"
    "default_arg demo_pki req as_bool ''generate_lease'' = Ok False" "default_arg demo_pki req as_str ''not_after'' = Ok []"
    "default_arg demo_pki req as_u64 ''not_before_duration'' = Ok 30"
  unfolding req_def
  by (simp_all add: pki_fields get_default_def zero_value_def as_u64_def as_i64_def is_i64_def as_int_def as_bool_def demo_usage Let_def)

lemma demo_role_key_args:
  "key_args demo_pki (demo_role_write ''rsa'' 2048) = Ok (''rsa'', 2048)" "key_args demo_pki (demo_role_write ''ec'' 512) = Ok (''ec'', 512)"
  by (simp_all add: key_args_def pki_fields as_u64_def as_i64_def is_i64_def is_int_def as_int_def check_key_bits_def)

lemma demo_role_args:
  "role_args demo_pki (demo_role_write ''rsa'' 2048) = Ok (demo_pki_role ''rsa'' 2048)"
  "role_args demo_pki (demo_role_write ''ec'' 512) = Ok (demo_pki_role ''ec'' 512)"
  by (simp_all add: role_args_def role_times_def duration_arg_def role_flags_def role_names_def role_storing_def demo_role_defaults
      demo_role_key_args u32_of_def demo_pki_role_def pki_role_default_def)

definition demo_p0 :: "fs barrier pki_state" where
  "demo_p0 = \<lparr>pks_store = demo_unsealed, pks_draws = 0, pks_reads = 0\<rparr>"

definition demo_ca :: "(demo_cert, nat) cert_bundle" where
  "demo_ca = \<lparr>cb_certificate = (1, [], 1000000, True, 7), cb_ca_chain = [], cb_private_key = 7, cb_private_key_type = ''rsa'',
     cb_serial_number = ''01''\<rparr>"

definition demo_kept_key :: key_bundle where
  "demo_kept_key = \<lparr>kb_id = [], kb_name = ''k'', kb_key_type = ''rsa'', kb_key = [1], kb_iv = [], kb_bits = 2048\<rparr>"

abbreviation demo_pki_ready where "demo_pki_ready \<equiv> pki_ready demo_crypto demo_ser demo_de [''data'']"
abbreviation demo_pki_contents where "demo_pki_contents \<equiv> pki_contents demo_crypto demo_de [''data''] demo_view"

lemma demo_p0_ready: "demo_pki_ready demo_p0"
  using demo_ready by (simp add: demo_p0_def)

lemma demo_p0_empty: "demo_pki_contents demo_p0 k = None"
  by (simp add: demo_p0_def view_stored_def barrier_stored_def file_contents_def demo_unsealed_def)

lemma demo_role_durations: "\<forall>d \<in> role_durations (demo_pki_role ty bits). d div NANOS < 2 ^ 63"
  by (simp add: role_durations_def demo_pki_role_def pki_role_default_def DEFAULT_MAX_TTL_def from_secs_def NANOS_def)

text \<open>A state in which a role, an authority and a key were stored.\<close>

lemma demo_pki_made:
  obtains a :: "fs barrier pki_state" where "demo_pki_ready a" "role_in demo_pki (demo_pki_contents a) ''web'' (demo_pki_role ''rsa'' 2048)"
    "ca_in demo_pki (demo_pki_contents a) demo_ca" "key_in demo_pki (demo_pki_contents a) ''k'' demo_kept_key"
proof -
  let ?req = "demo_role_write ''rsa'' 2048"
  have st: "rq_storage ?req = Some demo_view" by simp
  obtain p where p: "serialize_bundle demo_x509 demo_ca = Ok p" by (simp add: serialize_bundle_def demo_x509_def demo_ca_def)
  obtain s1 where s1: "pki_ready demo_crypto demo_ser demo_de [''data''] (demo_p0\<lparr>pks_store := s1\<rparr>)"
    "\<And>k. vault_key demo_view k \<Longrightarrow> demo_pki_contents (demo_p0\<lparr>pks_store := s1\<rparr>) k =
      ((demo_pki_contents demo_p0)(pki_role_key ''web'' \<mapsto> pe_enc_role demo_pki (demo_pki_role ''rsa'' 2048))) k"
    by (rule fbv.pki_put [OF demo_p0_ready st demo_pki_keys(1), of "pe_enc_role demo_pki (demo_pki_role ''rsa'' 2048)"]) auto
  obtain s2 where s2: "pki_ready demo_crypto demo_ser demo_de [''data''] (demo_p0\<lparr>pks_store := s2\<rparr>)"
    "\<And>k. vault_key demo_view k \<Longrightarrow> demo_pki_contents (demo_p0\<lparr>pks_store := s2\<rparr>) k =
      ((demo_pki_contents (demo_p0\<lparr>pks_store := s1\<rparr>))(ca_bundle_key \<mapsto> pe_enc_bundle demo_pki p)) k"
    by (rule fbv.pki_put [OF s1(1) st demo_pki_keys(2), of "pe_enc_bundle demo_pki p"]) auto
  obtain s3 where s3: "pki_ready demo_crypto demo_ser demo_de [''data''] (demo_p0\<lparr>pks_store := s3\<rparr>)"
    "\<And>k. vault_key demo_view k \<Longrightarrow> demo_pki_contents (demo_p0\<lparr>pks_store := s3\<rparr>) k =
      ((demo_pki_contents (demo_p0\<lparr>pks_store := s2\<rparr>))(named_key ''k'' \<mapsto> pe_enc_key demo_pki demo_kept_key)) k"
    by (rule fbv.pki_put [OF s2(1) st demo_pki_keys(3), of "pe_enc_key demo_pki demo_kept_key"]) auto
  let ?a = "demo_p0\<lparr>pks_store := s3\<rparr>"
  have m: "demo_pki_contents ?a (pki_role_key ''web'') = Some (pe_enc_role demo_pki (demo_pki_role ''rsa'' 2048))"
    "demo_pki_contents ?a ca_bundle_key = Some (pe_enc_bundle demo_pki p)"
    "demo_pki_contents ?a (named_key ''k'') = Some (pe_enc_key demo_pki demo_kept_key)"
    using s1(2) s2(2) s3(2) demo_pki_keys(1-3) keys_apart(3,5,6) keys_apart(3,5,6) [symmetric] by simp_all
  have "stored_pki_role (demo_pki_role ''rsa'' 2048) = Some (demo_pki_role ''rsa'' 2048)"
    by (simp add: stored_pki_role_def stored_duration_def demo_pki_role_def pki_role_default_def DEFAULT_MAX_TTL_def from_secs_def NANOS_def)
  then have "role_in demo_pki (demo_pki_contents ?a) ''web'' (demo_pki_role ''rsa'' 2048)"
    using m(1) by (simp add: role_in_def demo_pki_def)
  moreover have "ca_in demo_pki (demo_pki_contents ?a) demo_ca"
    using m(2) bundle_serialized [OF demo_x509_ok p] by (cases p) (force simp: ca_in_def demo_pki_def)
  moreover have "key_in demo_pki (demo_pki_contents ?a) ''k'' demo_kept_key"
    using m(3) by (simp add: key_in_def demo_pki_def)
  ultimately show ?thesis using that s3(1) by blast
qed

text \<open>Issuing for the role succeeds.\<close>

lemma demo_issues:
  fixes a :: "fs barrier pki_state"
  assumes "demo_pki_ready a" "role_in demo_pki (demo_pki_contents a) ''web'' (demo_pki_role ''rsa'' 2048)"
    "ca_in demo_pki (demo_pki_contents a) demo_ca"
  obtains resp a' req' where "issue_cert demo_pki demo_ops2 (a, demo_issue) = (Ok (Some resp), (a', req'))"
proof -
  have r: "pki_get_role demo_pki demo_ops2 demo_issue ''web'' a = (Ok (Some (demo_pki_role ''rsa'' 2048)), a)"
    by (rule iffD2 [OF fbv.pki_get_role_Ok [OF assms(1) demo_pki_storage demo_pki_keys(1)]]) (use assms(2) in simp)
  have ca: "fetch_ca_bundle demo_pki demo_ops2 demo_issue a = (Ok demo_ca, a)"
    by (rule iffD2 [OF fbv.fetch_ca_bundle_Ok [OF assms(1) demo_pki_storage demo_pki_keys(2)]]) (use assms(3) in simp)
  have v: "vault_key demo_view (cert_key (serial_key (colon_hex ''0A1B'')))" by code_simp
  have store: "\<exists>a'. store_cert demo_pki demo_ops2 demo_issue (serial_key (colon_hex ''0A1B'')) x (a\<lparr>pks_reads := n, pks_draws := d\<rparr>) = (Ok (), a')" for x n d
  proof -
    have "demo_pki_ready (a\<lparr>pks_reads := n, pks_draws := d\<rparr>)" "rq_storage demo_issue = Some demo_view" using assms(1) by simp_all
    then obtain a' where "pki_store (rq_storage_put demo_ops2 demo_issue
        \<lparr>se_key = cert_key (serial_key (colon_hex ''0A1B'')), se_value = num_bytes x\<rparr>) (a\<lparr>pks_reads := n, pks_draws := d\<rparr>) = (Ok (), a')"
      using fbv.pki_put [OF _ _ v] by metis
    then show ?thesis by (auto simp: store_cert_def op_bind_def demo_x509_def)
  qed
  let ?R = "demo_pki_role ''rsa'' 2048" and ?X = demo_x509 and ?n = "pks_reads a" and ?d = "pks_draws a"
  let ?nb = "990000000000 :: int" and ?na = "4600000000000 :: int"
  let ?a1 = "a\<lparr>pks_reads := Suc ?n\<rparr>" and ?a2 = "a\<lparr>pks_reads := Suc (Suc ?n)\<rparr>"
  have nb: "backdated demo_pki a = (Ok ?nb, ?a1)" by (simp add: backdated_def pki_now_def op_bind_def op_return_def from_secs_def)
  have na: "issue_not_after demo_pki demo_issue (cb_certificate demo_ca) ?nb ?a1 = (Ok ?na, ?a2)"
    using demo_pki_args(4)
    by (simp add: issue_not_after_def op_bind_def time_add_def op_res_def parse_duration_def pki_now_def unix_secs_def
        secs_since_epoch_def op_return_def from_secs_def NANOS_def demo_x509_def demo_ca_def)
  have su: "subject_of ?X ?R ''a'' = Ok [(''CN'', ''a'')]"
    by (simp add: subject_of_def subject_entries_def demo_x509_def demo_pki_role_def pki_role_default_def)
  obtain c where c: "new_certificate demo_pki ?R ?nb ?na [(''CN'', ''a'')] [''a''] [] ?a2 = (Ok c, ?a2\<lparr>pks_draws := Suc ?d\<rparr>)"
    "ce_serial_number c = 2587" "ce_not_before c = ?nb" "ce_not_after c = ?na" "ce_key_type c = ''rsa''" "ce_key_bits c = 2048"
    by (simp add: new_certificate_def pki_rand_def certificate_default_def generate_serial_number_def drawn_def op_bind_def op_return_def
        demo_x509_def demo_pki_role_def pki_role_default_def)
  have "res_mapM (xe_extension ?X (Some y)) es = Ok (map (\<lambda>_. ()) es)" for y es by (induction es) (simp_all add: demo_x509_def)
  then obtain b where b: "pki_rand (to_cert_bundle ?X c (Some (cb_certificate demo_ca)) (Some (cb_private_key demo_ca)))
      (?a2\<lparr>pks_draws := Suc ?d\<rparr>) = (Ok b, a\<lparr>pks_reads := Suc (Suc ?n), pks_draws := Suc (Suc (Suc ?d))\<rparr>)"
    "cb_serial_number b = colon_hex ''0A1B''"
    using c(2-6)
    by (simp add: pki_rand_def to_cert_bundle_def new_private_key_def drawn_def op_bind_def to_x509_def op_res_def op_return_def
        unix_secs_def secs_since_epoch_def cert_digest_def NANOS_def demo_x509_def)
  have pem: "\<exists>s. pem_text ?X x = Ok s" "\<exists>s. key_text ?X k = Ok s" for x k by (simp_all add: pem_text_def key_text_def demo_x509_def)
  have "\<exists>ts. res_mapM (\<lambda>x. unwrapped (pem_text ?X x)) xs = Ok ts" for xs
    using pem(1) by (induction xs) (force simp: res_bind_Ok_iff)+
  then have ch: "\<exists>s. chain_text ?X xs = Ok s" for xs by (metis chain_text_def res_bind_simps(1))
  obtain t d where d: "issued_data ?X (cb_certificate demo_ca) b = Ok (t, d)"
    using x509_forms(2) [OF demo_x509_ok] pem ch unfolding issued_data_def by (metis res_bind_simps(1))
  have "\<not> pkr_no_store ?R" "\<not> pkr_generate_lease ?R" by (simp_all add: demo_pki_role_def pki_role_default_def)
  moreover obtain a' where "store_cert demo_pki demo_ops2 demo_issue (serial_key (colon_hex ''0A1B'')) (cb_certificate b)
      (a\<lparr>pks_reads := Suc (Suc ?n), pks_draws := Suc (Suc (Suc ?d))\<rparr>) = (Ok (), a')"
    using store by blast
  ultimately have "issue_cert demo_pki demo_ops2 (a, demo_issue) = (Ok (Some (data_response (Some d))), (a', demo_issue))"
    using r c(1) nb na su b d demo_pki_args(2,3,5) ca
    by (simp add: issue_cert_def on_state_def op_bind_def issue_response_def op_return_def op_res_def
        del: backdated_Ok subject_of_Ok pki_rand_Ok)
  then show ?thesis by (rule that)
qed

theorem issued_certificate_contents_witness:
  "\<exists>a resp a' req' d t. issue_cert demo_pki demo_ops2 (a, demo_issue) = (Ok (Some resp), (a', req')) \<and>
    rs_data resp = Some d \<and> map_of d ''expiration'' = Some (JNum t) \<and> t \<le> 1000000"
proof -
  obtain a :: "fs barrier pki_state" where a: "demo_pki_ready a" "role_in demo_pki (demo_pki_contents a) ''web'' (demo_pki_role ''rsa'' 2048)"
    "ca_in demo_pki (demo_pki_contents a) demo_ca"
    by (rule demo_pki_made) blast
  obtain resp a' req' where i: "issue_cert demo_pki demo_ops2 (a, demo_issue) = (Ok (Some resp), (a', req'))"
    by (rule demo_issues [OF a])
  have X: "hex_serials (pe_x509 demo_pki) (vault_key demo_view)" "x509_ok (pe_x509 demo_pki)"
    using demo_pki_keys(4) demo_x509_ok by simp_all
  have "xe_not_after demo_x509 (cb_certificate demo_ca) = 1000000" by (simp add: demo_x509_def demo_ca_def)
  with issued_certificate_contents [OF a(1) demo_pki_storage demo_pki_args(2) demo_pki_keys(1,2) X a(2,3) i] i
  show ?thesis by (auto simp: demo_pki_args(4) Let_def)
qed

theorem issued_certificate_fetched_witness:
  "\<exists>a resp a1 req1 d d2. issue_cert demo_pki demo_ops2 (a, demo_issue) = (Ok (Some resp), (a1, req1)) \<and> rs_data resp = Some d \<and>
    read_path_fetch_cert demo_pki demo_ops2 (a1, demo_fetch) = (Ok (Some (data_response (Some d2))), (a1, demo_fetch)) \<and>
    map_of d2 ''certificate'' = map_of d ''certificate''"
proof -
  obtain a :: "fs barrier pki_state" where a: "demo_pki_ready a" "role_in demo_pki (demo_pki_contents a) ''web'' (demo_pki_role ''rsa'' 2048)"
    "ca_in demo_pki (demo_pki_contents a) demo_ca"
    by (rule demo_pki_made) blast
  obtain resp a1 req1 where i: "issue_cert demo_pki demo_ops2 (a, demo_issue) = (Ok (Some resp), (a1, req1))"
    by (rule demo_issues [OF a])
  have X: "hex_serials (pe_x509 demo_pki) (vault_key demo_view)" "x509_ok (pe_x509 demo_pki)" "\<forall>x. is_ok (xe_pem (pe_x509 demo_pki) x)"
    "\<not> pkr_no_store (demo_pki_role ''rsa'' 2048)"
    using demo_pki_keys(4) demo_x509_ok by (simp_all add: demo_x509_def is_ok_def demo_pki_role_def)
  have sk: "serial_key ''0A-1B'' = serial_key (colon_hex ''0A1B'')" by code_simp
  from issued_certificate_fetched [OF a(1) demo_pki_storage demo_pki_args(2) demo_pki_keys(1,2) X(1-3) a(2) X(4) i]
  obtain d sn where d: "rs_data resp = Some d" "map_of d ''serial_number'' = Some (JString sn)"
    and f: "\<forall>req2 sn2. rq_storage req2 = Some demo_view \<longrightarrow> given_arg demo_pki req2 ''serial'' = Ok sn2 \<longrightarrow> serial_key sn2 = serial_key sn \<longrightarrow>
      (\<exists>d2 chain ca_text. read_path_fetch_cert demo_pki demo_ops2 (a1, req2) = (Ok (Some (data_response (Some d2))), (a1, req2)) \<and>
        map_of d2 ''certificate'' = map_of d ''certificate'' \<and> map_of d2 ''serial_number'' = Some (JString sn2) \<and>
        map_of d ''issuing_ca'' = Some (JString ca_text) \<and> map_of d2 ''ca_chain'' = Some (JString (chain @ ca_text)))"
    by (elim exE conjE) (rule that)
  obtain r c ca b t d' where "issued demo_pki demo_issue (demo_pki_contents a) (pks_reads a) r ca c b"
    and d': "issued_data (pe_x509 demo_pki) (cb_certificate ca) b = Ok (t, d')" "rs_data resp = Some d'"
    by (rule fbv.issue_cert_Ok [OF a(1) demo_pki_storage demo_pki_args(2) demo_pki_keys(1,2) X(1) i]) blast
  then obtain n n' where "to_cert_bundle (pe_x509 demo_pki) c (Some (cb_certificate ca)) (Some (cb_private_key ca)) n = (Ok b, n')"
    unfolding issued_def by blast
  from cert_bundle_made(8) [OF X(2) this] obtain h where h: "xe_serial_hex demo_x509 (ce_serial_number c) = Ok h" "cb_serial_number b = colon_hex h"
    by auto
  moreover have "sn = cb_serial_number b" using issued_data_fields(4) [OF X(2) d'(1)] d d'(2) by simp
  ultimately have h: "sn = colon_hex h" "\<exists>n. xe_serial_hex demo_x509 n = Ok h" by auto
  then have "h = ''0A1B''" by (auto simp: demo_x509_def split: if_splits)
  then obtain d2 where "read_path_fetch_cert demo_pki demo_ops2 (a1, demo_fetch) = (Ok (Some (data_response (Some d2))), (a1, demo_fetch))"
    "map_of d2 ''certificate'' = map_of d ''certificate''"
    using f [rule_format, OF demo_pki_storage demo_pki_args(6)] sk h(1) by blast
  then show ?thesis using i d(1) by blast
qed

theorem role_read_back_witness:
  "\<exists>a1. create_path_role demo_pki demo_ops2 (demo_p0, demo_role_write ''rsa'' 2048) = (Ok None, (a1, demo_role_write ''rsa'' 2048)) \<and>
    read_path_role demo_pki demo_ops2 (a1, demo_role_write ''rsa'' 2048) =
      (Ok (Some (data_response (Some (pki_role_json (demo_pki_role ''rsa'' 2048))))), (a1, demo_role_write ''rsa'' 2048))"
  using role_read_back [OF demo_p0_ready demo_pki_storage demo_pki_args(1) demo_pki_keys(1) demo_pki_codecs demo_role_args(1)
      demo_role_durations] demo_pki_storage demo_pki_args(1) by blast

theorem ec_512_role_never_issues_witness:
  "\<exists>a1. create_path_role demo_pki demo_ops2 (demo_p0, demo_role_write ''ec'' 512) = (Ok None, (a1, demo_role_write ''ec'' 512)) \<and>
    \<not> is_ok (fst (issue_cert demo_pki demo_ops2 (a1, demo_issue)))"
proof -
  have k: "pkr_key_type (demo_pki_role ''ec'' 512) = ''ec''" "pkr_key_bits (demo_pki_role ''ec'' 512) = 512"
    "hex_serials (pe_x509 demo_pki) (vault_key demo_view)"
    using demo_pki_keys(4) by (simp_all add: demo_pki_role_def)
  from ec_512_role_never_issues [OF demo_p0_ready demo_pki_storage demo_pki_args(1) demo_pki_keys(1) demo_pki_codecs demo_role_args(2)
      demo_role_durations k(1,2) demo_pki_keys(2) k(3)] demo_pki_storage demo_pki_args(2)
  show ?thesis by blast
qed

text \<open>Making a key succeeds, and the answer has the key when the path says so.\<close>

lemma args_path [simp]:
  "given_arg E (req\<lparr>rq_path := q\<rparr>) k = given_arg E req k" "default_arg E (req\<lparr>rq_path := q\<rparr>) as k = default_arg E req as k"
  by (simp_all add: given_arg_def default_arg_def get_data_def get_data_or_default_def data_ready_def get_data_raw_def
      cong: option.case_cong)

lemma demo_generates:
  obtains a1 b where "pki_generate_key demo_pki demo_ops2 (demo_p0, demo_key_req\<lparr>rq_path := q\<rparr>) =
    (Ok (Some (data_response (Some (if ends_with q ''/exported'' then exported_key demo_x509 ''aes-gcm'' b (key_data b) else key_data b)))),
     (a1, demo_key_req\<lparr>rq_path := q\<rparr>))"
proof -
  let ?r = "demo_key_req\<lparr>rq_path := q\<rparr>"
  have st: "rq_storage ?r = Some demo_view" by (simp add: demo_pki_request_def)
  have f: "free_name demo_pki demo_ops2 ?r ''k'' demo_p0 = (Ok (), demo_p0)"
    by (rule iffD2 [OF fbv.free_name_Ok [OF demo_p0_ready st demo_pki_keys(3)]]) (simp add: key_in_def demo_p0_empty)
  have l: "to_lowercase ''aes-gcm'' = ''aes-gcm''" "starts_with ''aes-gcm'' ''sm4-'' = False" by code_simp+
  let ?b = "\<lparr>kb_id = [], kb_name = ''k'', kb_key_type = ''aes-gcm'', kb_key = replicate 32 2, kb_iv = replicate 16 1, kb_bits = 256\<rparr>"
  have "demo_pki_ready (demo_p0\<lparr>pks_draws := 3\<rparr>)" using demo_p0_ready by simp
  then obtain a1 where w: "write_key demo_pki demo_ops2 ?r ?b (demo_p0\<lparr>pks_draws := 3\<rparr>) = (Ok (), a1)"
    using fbv.pki_put [OF _ st demo_pki_keys(3)] unfolding write_key_def by (metis key_bundle.select_convs(2))
  have new: "pki_rand (key_bundle_new demo_key_env ''k'' ''aes-gcm'' 0) demo_p0 =
      (Ok (?b\<lparr>kb_key := [], kb_iv := []\<rparr>), demo_p0\<lparr>pks_draws := 1\<rparr>)"
    by (simp add: pki_rand_def key_bundle_new_def drawn_def op_bind_def op_return_def key_bits_default_def demo_key_env_def demo_p0_def)
  have gen: "pki_rand (key_bundle_generate demo_key_env (?b\<lparr>kb_key := [], kb_iv := []\<rparr>)) (demo_p0\<lparr>pks_draws := 1\<rparr>) =
      (Ok ?b, demo_p0\<lparr>pks_draws := 3\<rparr>)"
    using l(2)
    by (simp add: pki_rand_def key_bundle_generate_def generate_symmetric_def cipher_from_key_type_and_bits_def drawn_def op_bind_def
        op_res_def op_return_def demo_key_env_def numeral_3_eq_3)
  show ?thesis
    by (rule that [of ?b a1])
      (use f w new gen l(1) demo_pki_args(7-9) in \<open>simp add: pki_generate_key_def on_state_def op_bind_def op_return_def u32_of_def
        del: pki_rand_Ok\<close>)
qed

theorem generated_key_kept_witness:
  "\<exists>o1 a1 req1 b. pki_generate_key demo_pki demo_ops2 (demo_p0, demo_key_req\<lparr>rq_path := ''keys/generate/internal''\<rparr>) = (Ok o1, (a1, req1)) \<and>
    key_in demo_pki (demo_pki_contents a1) ''k'' b \<and> key_shape False (kb_key_type b) (kb_bits b)"
proof -
  let ?r = "demo_key_req\<lparr>rq_path := ''keys/generate/internal''\<rparr>"
  have st: "rq_storage ?r = Some demo_view" "given_arg demo_pki ?r ''key_name'' = Ok ''k''"
    using demo_pki_args(7) by (simp_all add: demo_pki_request_def)
  obtain o1 a1 where run: "pki_generate_key demo_pki demo_ops2 (demo_p0, ?r) = (Ok o1, (a1, ?r))" by (rule demo_generates) blast
  have "ke_tongsuo (pe_keys demo_pki) = False" by (simp add: demo_key_env_def)
  with generated_key_kept [OF demo_p0_ready st demo_pki_keys(3) demo_pki_codecs run] run
  show ?thesis by auto
qed

theorem kept_key_decrypts_witness:
  "\<exists>a resp a1 req1 c. key_encrypt demo_pki demo_ops2 (a, demo_encrypt [1, 0, 2]) = (Ok (Some resp), (a1, req1)) \<and>
    resp = data_response (Some [(''result'', JString (hex_bytes c))]) \<and>
    key_decrypt demo_pki demo_ops2 (a1, demo_encrypt c) =
      (Ok (Some (data_response (Some [(''result'', JString (hex_bytes [1]))]))), (a1, demo_encrypt c))"
proof -
  obtain a :: "fs barrier pki_state" where a: "demo_pki_ready a" "key_in demo_pki (demo_pki_contents a) ''k'' demo_kept_key" by (rule demo_pki_made) blast
  let ?m = "[1, 0, 2] :: bytes" and ?c = "demo_block [1, 0, 2]"
  have st: "rq_storage (demo_encrypt ?m) = Some demo_view" by simp
  have f: "fetch_key demo_pki demo_ops2 (demo_encrypt ?m) ''k'' a = (Ok demo_kept_key, a)"
    by (rule iffD2 [OF fbv.fetch_key_Ok [OF a(1) st demo_pki_keys(3)]]) (use a(2) in simp)
  have "length ?c = 256" by simp
  then have e: "key_bundle_encrypt demo_key_env demo_kept_key ?m x n = (Ok ?c, n)" if "x = Some (Aad y)" for x y n
    using that
    by (simp add: key_bundle_encrypt_def demo_kept_key_def extra_flag_def op_bind_def op_res_def op_return_def demo_key_env_def)
  have run: "key_encrypt demo_pki demo_ops2 (a, demo_encrypt ?m) =
      (Ok (Some (data_response (Some [(''result'', JString (hex_bytes ?c))]))), (a, demo_encrypt ?m))"
    using f e demo_pki_args(10-12) [of ?m]
    by (simp add: key_encrypt_def on_state_def op_bind_def op_return_def pki_rand_def op_res_def result_response_def hex_decoded_def
        del: pki_rand_Ok)
  have K: "openssl_keys (pe_keys demo_pki)" "\<forall>bs. pe_hex_decode demo_pki (hex_bytes bs) = Some bs" using demo_keys_ok by simp_all
  have t: "kb_key_type demo_kept_key = ''rsa''" by (simp add: demo_kept_key_def)
  from kept_key_decrypts [OF a(1) st demo_pki_args(10) demo_pki_keys(3) a(2) K demo_pki_args(11,12) run]
  obtain c where c: "hex_bytes ?c = c" and d: "\<And>req2. rq_storage req2 = Some demo_view \<Longrightarrow> given_arg demo_pki req2 ''key_name'' = Ok ''k'' \<Longrightarrow>
      given_arg demo_pki req2 ''data'' = Ok c \<Longrightarrow> default_arg demo_pki req2 as_str ''aad'' = Ok [] \<Longrightarrow>
      key_decrypt demo_pki demo_ops2 (a, req2) = (Ok (Some (data_response (Some [(''result'', JString (hex_bytes [1]))]))), (a, req2))"
    by (auto simp: t data_response_def response_new_def)
  show ?thesis using run d [OF demo_pki_storage demo_pki_args(10) _ demo_pki_args(12)] demo_pki_args(11) c by blast
qed

theorem kept_key_verifies_witness:
  "\<exists>a resp a1 req1 s. key_sign demo_pki demo_ops2 (a, demo_verify [5] []) = (Ok (Some resp), (a1, req1)) \<and>
    resp = data_response (Some [(''result'', JString (hex_bytes s))]) \<and>
    key_verify demo_pki demo_ops2 (a1, demo_verify [5] s) =
      (Ok (Some (data_response (Some [(''result'', JBool True)]))), (a1, demo_verify [5] s))"
proof -
  obtain a :: "fs barrier pki_state" where a: "demo_pki_ready a" "key_in demo_pki (demo_pki_contents a) ''k'' demo_kept_key" by (rule demo_pki_made) blast
  let ?r = "demo_verify [5] []" and ?a1 = "a\<lparr>pks_draws := Suc (pks_draws a)\<rparr>"
  have st: "rq_storage ?r = Some demo_view" by simp
  have f: "fetch_key demo_pki demo_ops2 ?r ''k'' a = (Ok demo_kept_key, a)"
    by (rule iffD2 [OF fbv.fetch_key_Ok [OF a(1) st demo_pki_keys(3)]]) (use a(2) in simp)
  have e: "key_bundle_sign demo_key_env demo_kept_key [5] n = (Ok [1, 5], Suc n)" for n
    by (simp add: key_bundle_sign_def sign_digest_of_def demo_kept_key_def op_bind_def op_res_def drawn_def demo_key_env_def)
  have run: "key_sign demo_pki demo_ops2 (a, ?r) =
      (Ok (Some (data_response (Some [(''result'', JString (hex_bytes [1, 5]))]))), (?a1, ?r))"
    using f e demo_pki_args(13,14) [of "[5]" "[]"]
    by (simp add: key_sign_def on_state_def op_bind_def op_return_def pki_rand_def op_res_def result_response_def hex_decoded_def
        del: pki_rand_Ok)
  have K: "openssl_keys (pe_keys demo_pki)" "\<forall>bs. pe_hex_decode demo_pki (hex_bytes bs) = Some bs" using demo_keys_ok by simp_all
  from kept_key_verifies [OF a(1) st demo_pki_args(13) demo_pki_keys(3) a(2) K demo_pki_args(14) run]
  have "key_verify demo_pki demo_ops2 (?a1, demo_verify [5] [1, 5]) =
      (Ok (Some (data_response (Some [(''result'', JBool True)]))), (?a1, demo_verify [5] [1, 5]))"
    using demo_pki_args(13-15) by (auto simp: data_response_def response_new_def)
  then show ?thesis using run by blast
qed

theorem private_keys_shown_on_export_witness:
  "shows_key (pki_generate_key demo_pki demo_ops2 (demo_p0, demo_key_req\<lparr>rq_path := ''keys/generate/exported''\<rparr>)) \<and>
    \<not> shows_key (pki_generate_key demo_pki demo_ops2 (demo_p0, demo_key_req\<lparr>rq_path := ''keys/generate/internal''\<rparr>))"
proof -
  let ?r = "\<lambda>q. demo_key_req\<lparr>rq_path := q\<rparr>"
  have e: "ends_with ''keys/generate/exported'' ''/exported''" "\<not> ends_with ''keys/generate/internal'' ''/exported''" by code_simp+
  have "shows_key (pki_generate_key demo_pki demo_ops2 (demo_p0, ?r ''keys/generate/exported''))"
    by (rule demo_generates [of "''keys/generate/exported''"])
      (use e(1) in \<open>auto simp: shows_key_iff exported_key_def Let_def\<close>)
  moreover have "lp_pattern (bp_path (keys_generate_path demo_pki demo_ops2)) \<noteq> lp_pattern (bp_path (issue_path demo_pki demo_ops2))"
    "lp_pattern (bp_path (keys_generate_path demo_pki demo_ops2)) \<noteq> lp_pattern (bp_path (root_generate_path demo_pki demo_ops2))"
    by (simp_all add: keys_generate_path_def issue_path_def root_generate_path_def new_path_def word_pattern_def)
  then have "keys_generate_path demo_pki demo_ops2 \<noteq> issue_path demo_pki demo_ops2"
    "keys_generate_path demo_pki demo_ops2 \<noteq> root_generate_path demo_pki demo_ops2" by metis+
  moreover have "keys_generate_path demo_pki demo_ops2 \<in> set (lb_paths (pki_new_backend demo_pki demo_ops2))"
    "(Write, pki_generate_key demo_pki demo_ops2) \<in> set (bp_operations (keys_generate_path demo_pki demo_ops2))"
    by (simp_all add: pki_new_backend_def keys_generate_path_def new_path_def)
  ultimately show ?thesis
    using private_keys_shown_on_export [of "keys_generate_path demo_pki demo_ops2" demo_pki demo_ops2 Write
        "pki_generate_key demo_pki demo_ops2" demo_p0 "?r ''keys/generate/internal''"] e(2) by auto
qed

end
