(* ===== verification/Cert_Auth.thy ===== *)
theory Cert_Auth
  imports Certificate Salt Token_Api Token_Util "HOL-Library.AList"
begin

text \<open>
  The credential backend for TLS client certificates, \<open>src/modules/credential/cert\<close>: its configuration
  (\<open>path_config.rs\<close>), the trusted certificates (\<open>path_certs.rs\<close>), revocation lists with their cache in memory
  (\<open>path_crls.rs\<close>), login and renewal (\<open>path_login.rs\<close>) and the backend (\<open>mod.rs\<close>).

  The state is the storage with the cached lists. A certificate is its DER form. The contents of certificates, the
  verification of a chain by OpenSSL, glob patterns, the HTTP client and the JSON forms of what is stored are the record
  \<open>cert_env\<close>.
\<close>

section \<open>Data\<close>

type_synonym x509 = bytes

record cert_config =
  cc_disable_binding :: bool
  cc_enable_identity_alias_metadata :: bool
  cc_ocsp_cache_size :: int

record cdp_info =
  cdp_url :: string
  cdp_valid_until :: duration

text \<open>The revoked serial numbers are the keys of a map to an empty structure.\<close>

record crl_info =
  ci_cdp :: "cdp_info option"
  ci_serials :: "string list"

record cert_entry =
  en_name :: string
  en_display_name :: string
  en_certificate :: "x509 list"
  en_policies :: "string list"
  en_ttl :: duration
  en_max_ttl :: duration
  en_period :: duration
  en_bound_cidrs :: "sock_addr list"
  en_allowed_names :: "string list"
  en_allowed_common_names :: "string list"
  en_allowed_dns_sans :: "string list"
  en_allowed_email_sans :: "string list"
  en_allowed_uri_sans :: "string list"
  en_allowed_organizational_units :: "string list"
  en_allowed_metadata_extensions :: "string list"
  en_required_extensions :: "string list"
  en_ocsp_enabled :: bool
  en_ocsp_ca_certificates :: "x509 list"
  en_ocsp_servers_override :: "string list"
  en_ocsp_fail_open :: bool
  en_ocsp_query_all_servers :: bool
  en_token_params :: token_params

record parsed_cert =
  pc_entry :: cert_entry
  pc_certs :: "x509 list"

datatype failure_mode = OcspFailOpenNotSet | FailOpenTrue | FailOpenFalse

record ocsp_config =
  oc_enable :: bool
  oc_extra_ca :: "x509 list"
  oc_servers_override :: "string list"
  oc_failure_mode :: failure_mode
  oc_query_all_servers :: bool

record 'k cert_env =
  ck_x509 :: "(x509, 'k) x509_env"
  ck_ip :: ip_env
  ck_parsers :: parsers
  ck_now :: int
  ck_utf8 :: "string \<Rightarrow> bytes"
  ck_base64 :: "bytes \<Rightarrow> string"
  ck_dec_str :: "nat \<Rightarrow> string res"
  ck_stack_from_pem :: "bytes \<Rightarrow> x509 list res"
  ck_crl_from_pem :: "bytes \<Rightarrow> nat list option res"
  ck_http_get :: "string \<Rightarrow> string res"
  ck_url_parse :: "string \<Rightarrow> unit res"
  ck_common_name :: "x509 \<Rightarrow> string res option"
  ck_organizational_unit :: "x509 \<Rightarrow> string res option"
  ck_authority_key_id :: "x509 \<Rightarrow> bytes option"
  ck_alt_names :: "x509 \<Rightarrow> san list option"
  ck_extensions :: "x509 \<Rightarrow> (string \<times> bytes) list"
  ck_octet_string :: "bytes \<Rightarrow> bytes res"
  ck_pattern :: "string \<Rightarrow> (string \<Rightarrow> bool) option"
  ck_add_root :: "x509 list \<Rightarrow> x509 \<Rightarrow> unit res"
  ck_verify_cert :: "x509 list \<Rightarrow> x509 \<Rightarrow> x509 list \<Rightarrow> (bool \<times> int \<times> x509 list option) res"
  ck_verify_text :: "int \<Rightarrow> string"
  ck_show_errors :: "rv_error list \<Rightarrow> string"
  ck_enc_config :: "cert_config \<Rightarrow> bytes"
  ck_dec_config :: "bytes \<Rightarrow> cert_config option"
  ck_enc_crl :: "crl_info \<Rightarrow> bytes"
  ck_dec_crl :: "bytes \<Rightarrow> crl_info option"
  ck_enc_entry :: "cert_entry \<Rightarrow> bytes"
  ck_dec_entry :: "bytes \<Rightarrow> cert_entry option"

record 's cert_state =
  cs_store :: 's
  cs_crls :: "(string \<times> crl_info) list"

definition cert_config_default :: cert_config where
  "cert_config_default =
     \<lparr>cc_disable_binding = False, cc_enable_identity_alias_metadata = False, cc_ocsp_cache_size = 0\<rparr>"

definition cert_entry_default :: cert_entry where
  "cert_entry_default =
     \<lparr>en_name = [], en_display_name = [], en_certificate = [], en_policies = [], en_ttl = 0, en_max_ttl = 0, en_period = 0,
      en_bound_cidrs = [], en_allowed_names = [], en_allowed_common_names = [], en_allowed_dns_sans = [],
      en_allowed_email_sans = [], en_allowed_uri_sans = [], en_allowed_organizational_units = [],
      en_allowed_metadata_extensions = [], en_required_extensions = [], en_ocsp_enabled = False, en_ocsp_ca_certificates = [],
      en_ocsp_servers_override = [], en_ocsp_fail_open = False, en_ocsp_query_all_servers = False,
      en_token_params = token_params_default\<rparr>"

definition ocsp_config_default :: ocsp_config where
  "ocsp_config_default =
     \<lparr>oc_enable = False, oc_extra_ca = [], oc_servers_override = [], oc_failure_mode = OcspFailOpenNotSet,
      oc_query_all_servers = False\<rparr>"

definition XKU_SSL_CLIENT :: u32 where "XKU_SSL_CLIENT = 2"
definition XKU_ANYEKU :: u32 where "XKU_ANYEKU = 256"
definition X509_V_ERR_CERT_HAS_EXPIRED :: int where "X509_V_ERR_CERT_HAS_EXPIRED = 10"

definition cert_store :: "('s, 'a) op \<Rightarrow> ('s cert_state, 'a) op" where
  "cert_store m a = (case m (cs_store a) of (r, s) \<Rightarrow> (r, a\<lparr>cs_store := s\<rparr>))"

definition opt_unwrap :: "'a option \<Rightarrow> 'a res" where
  "opt_unwrap x = (case x of None \<Rightarrow> Panic | Some y \<Rightarrow> Ok y)"

section \<open>Configuration\<close>

definition get_config :: "'k cert_env \<Rightarrow> 's storage_ops \<Rightarrow> request \<Rightarrow> ('s cert_state, cert_config option) op" where
  "get_config E sops req =
     op_bind (cert_store (rq_storage_get sops req ''config'')) (\<lambda>e.
       case e of
         None \<Rightarrow> op_return (Some cert_config_default)
       | Some x \<Rightarrow>
           (case ck_dec_config E (se_value x) of
              None \<Rightarrow> op_fail (External SerdeJson ''invalid configuration'') | Some c \<Rightarrow> op_return (Some c)))"

definition set_config :: "'k cert_env \<Rightarrow> 's storage_ops \<Rightarrow> request \<Rightarrow> cert_config \<Rightarrow> ('s cert_state, unit) op" where
  "set_config E sops req c = cert_store (rq_storage_put sops req \<lparr>se_key = ''config'', se_value = ck_enc_config E c\<rparr>)"

definition read_config :: "'k cert_env \<Rightarrow> 's storage_ops \<Rightarrow> 's cert_state handler" where
  "read_config E sops st =
     on_state st (\<lambda>req.
       op_bind (get_config E sops req) (\<lambda>r.
         op_return (map_option (\<lambda>c. data_response (Some
           [(''disable_binding'', JBool (cc_disable_binding c)),
            (''enable_identity_alias_metadata'', JBool (cc_enable_identity_alias_metadata c)),
            (''ocsp_cache_size'', JNum (cc_ocsp_cache_size c))])) r)))"

text \<open>A field that the request has is unwrapped, one that it has not is left alone.\<close>

definition set_unwrapped ::
  "parsers \<Rightarrow> request \<Rightarrow> string \<Rightarrow> (json \<Rightarrow> 'a option) \<Rightarrow> ('a \<Rightarrow> 'p \<Rightarrow> 'p res) \<Rightarrow> 'p \<Rightarrow> 'p res" where
  "set_unwrapped P req key conv upd p =
     (case get_data P req key of Ok v \<Rightarrow> res_bind (opt_unwrap (conv v)) (\<lambda>x. upd x p) | Err _ \<Rightarrow> Ok p | Panic \<Rightarrow> Panic)"

definition updated_config :: "parsers \<Rightarrow> request \<Rightarrow> cert_config \<Rightarrow> cert_config res" where
  "updated_config P req c0 =
     res_bind (set_unwrapped P req ''disable_binding'' as_bool (\<lambda>x c. Ok (c\<lparr>cc_disable_binding := x\<rparr>)) c0) (\<lambda>c1.
     res_bind (set_unwrapped P req ''enable_identity_alias_metadata'' as_bool
       (\<lambda>x c. Ok (c\<lparr>cc_enable_identity_alias_metadata := x\<rparr>)) c1) (\<lambda>c2.
       set_unwrapped P req ''ocsp_cache_size'' as_i64
         (\<lambda>n c. if n < 2 then Err ErrRequestInvalid else Ok (c\<lparr>cc_ocsp_cache_size := n\<rparr>)) c2))"

definition write_config :: "'k cert_env \<Rightarrow> 's storage_ops \<Rightarrow> 's cert_state handler" where
  "write_config E sops st =
     on_state st (\<lambda>req.
       op_bind (get_config E sops req) (\<lambda>r.
         case r of
           None \<Rightarrow> op_return None
         | Some c \<Rightarrow>
             op_bind (op_res (updated_config (ck_parsers E) req c)) (\<lambda>c'.
             op_bind (set_config E sops req c') (\<lambda>_. op_return None))))"

section \<open>Revocation lists\<close>

definition crl_key :: "string \<Rightarrow> string" where "crl_key name = ''crls/'' @ name"

text \<open>A function without callers, which reads a configuration from the folder of the lists.\<close>

definition get_crl :: "'k cert_env \<Rightarrow> 's storage_ops \<Rightarrow> request \<Rightarrow> ('s cert_state, cert_config option) op" where
  "get_crl E sops req =
     op_bind (cert_store (rq_storage_get sops req ''crls'')) (\<lambda>e.
       case e of
         None \<Rightarrow> op_return None
       | Some x \<Rightarrow>
           (case ck_dec_config E (se_value x) of
              None \<Rightarrow> op_fail (External SerdeJson ''invalid configuration'') | Some c \<Rightarrow> op_return (Some c)))"

definition cached_crl :: "string \<Rightarrow> crl_info \<Rightarrow> ('s cert_state, unit) op" where
  "cached_crl name ci a = (Ok (), a\<lparr>cs_crls := AList.update name ci (cs_crls a)\<rparr>)"

text \<open>An error clears the cache.\<close>

definition clearing :: "('s cert_state, 'a) op \<Rightarrow> ('s cert_state, 'a) op" where
  "clearing m a = (case m a of (Err e, a') \<Rightarrow> (Err e, a'\<lparr>cs_crls := []\<rparr>) | r \<Rightarrow> r)"

fun load_crls :: "'k cert_env \<Rightarrow> 's storage_ops \<Rightarrow> request \<Rightarrow> string list \<Rightarrow> ('s cert_state, unit) op" where
  "load_crls E sops req [] a = (Ok (), a)"
| "load_crls E sops req (key # keys) a =
     op_bind (clearing (cert_store (rq_storage_get sops req (crl_key key)))) (\<lambda>e.
       case e of
         None \<Rightarrow> load_crls E sops req keys
       | Some x \<Rightarrow>
           op_bind (clearing (case ck_dec_crl E (se_value x) of
               None \<Rightarrow> op_fail (External SerdeJson ''invalid list'') | Some ci \<Rightarrow> op_return ci)) (\<lambda>ci.
           op_bind (cached_crl key ci) (\<lambda>_. load_crls E sops req keys))) a"

definition update_crl_cache :: "'k cert_env \<Rightarrow> 's storage_ops \<Rightarrow> request \<Rightarrow> ('s cert_state, unit) op" where
  "update_crl_cache E sops req a =
     (if cs_crls a \<noteq> [] then (Ok (), a)
      else op_bind (cert_store (rq_storage_list sops req ''crls/'')) (load_crls E sops req) a)"

fun revoked_serials :: "'k cert_env \<Rightarrow> nat list \<Rightarrow> string list \<Rightarrow> string list res" where
  "revoked_serials E [] ss = Ok ss"
| "revoked_serials E (n # ns) ss =
     res_bind (ck_dec_str E n) (\<lambda>s. revoked_serials E ns (List.insert (to_lowercase s) ss))"

definition set_crl ::
  "'k cert_env \<Rightarrow> 's storage_ops \<Rightarrow> request \<Rightarrow> nat list option option \<Rightarrow> string \<Rightarrow> cdp_info option \<Rightarrow>
     ('s cert_state, unit) op" where
  "set_crl E sops req x509crl name cdp =
     op_bind (update_crl_cache E sops req) (\<lambda>_.
     op_bind (op_res (revoked_serials E (case x509crl of Some (Some ns) \<Rightarrow> ns | _ \<Rightarrow> []) [])) (\<lambda>ss.
     let ci = \<lparr>ci_cdp = cdp, ci_serials = ss\<rparr> in
     op_bind (cert_store (rq_storage_put sops req \<lparr>se_key = crl_key name, se_value = ck_enc_crl E ci\<rparr>)) (\<lambda>_.
       cached_crl name ci)))"

definition fetch_crl ::
  "'k cert_env \<Rightarrow> 's storage_ops \<Rightarrow> request \<Rightarrow> string \<Rightarrow> crl_info \<Rightarrow> ('s cert_state, unit) op" where
  "fetch_crl E sops req name ci =
     (case ci_cdp ci of
        None \<Rightarrow> op_fail ErrRequestInvalid
      | Some cdp \<Rightarrow>
          op_bind (op_res (ck_http_get E (cdp_url cdp))) (\<lambda>body.
          op_bind (op_res (ck_crl_from_pem E (ck_utf8 E body))) (\<lambda>crl.
            set_crl E sops req (Some crl) name (ci_cdp ci))))"

definition list_crl :: "'s storage_ops \<Rightarrow> 's cert_state handler" where
  "list_crl sops st =
     on_state st (\<lambda>req.
       op_bind (cert_store (rq_storage_list sops req ''crls/'')) (\<lambda>ns. op_return (Some (list_response ns))))"

definition crl_name :: "'k cert_env \<Rightarrow> request \<Rightarrow> string res" where
  "crl_name E req =
     res_bind (get_data_as_str (ck_parsers E) req ''name'') (\<lambda>s.
       if to_lowercase s = [] then Err ErrRequestNoDataField else Ok (to_lowercase s))"

definition crl_data :: "crl_info \<Rightarrow> json_obj" where
  "crl_data ci =
     [(''cdp'', case ci_cdp ci of
          None \<Rightarrow> JNull
        | Some d \<Rightarrow> JObject [(''url'', JString (cdp_url d)), (''valid_until'', secs (cdp_valid_until d))]),
      (''serials'', JObject (map (\<lambda>s. (s, JNull)) (sort (ci_serials ci))))]"

definition read_crl :: "'k cert_env \<Rightarrow> 's storage_ops \<Rightarrow> 's cert_state handler" where
  "read_crl E sops st =
     on_state st (\<lambda>req.
       op_bind (op_res (crl_name E req)) (\<lambda>name.
       op_bind (update_crl_cache E sops req) (\<lambda>_ a.
         case map_of (cs_crls a) name of
           None \<Rightarrow> (Err ErrRequestInvalid, a)
         | Some ci \<Rightarrow> (Ok (Some (data_response (Some (crl_data ci)))), a))))"

definition write_crl :: "'k cert_env \<Rightarrow> 's storage_ops \<Rightarrow> 's cert_state handler" where
  "write_crl E sops st =
     on_state st (\<lambda>req.
       op_bind (op_res (crl_name E req)) (\<lambda>name.
       case get_data (ck_parsers E) req ''crl'' of
         Ok v \<Rightarrow>
           (case as_str v of
              None \<Rightarrow> op_fail ErrRequestFieldInvalid
            | Some text \<Rightarrow>
                op_bind (op_res (ck_crl_from_pem E (ck_utf8 E text))) (\<lambda>crl.
                op_bind (set_crl E sops req (Some crl) name None) (\<lambda>_. op_return None)))
       | Panic \<Rightarrow> op_res Panic
       | Err _ \<Rightarrow>
           (case get_data (ck_parsers E) req ''url'' of
              Ok v \<Rightarrow>
                (case as_str v of
                   None \<Rightarrow> op_fail ErrRequestFieldInvalid
                 | Some url \<Rightarrow>
                     if url = [] then op_fail ErrRequestInvalid
                     else
                       op_bind (op_res (ck_url_parse E url)) (\<lambda>_.
                       op_bind (fetch_crl E sops req name
                         \<lparr>ci_cdp = Some \<lparr>cdp_url = url, cdp_valid_until = 0\<rparr>, ci_serials = []\<rparr>) (\<lambda>_. op_return None)))
            | Panic \<Rightarrow> op_res Panic
            | Err _ \<Rightarrow> op_fail ErrRequestNoDataField)))"

definition delete_crl :: "'k cert_env \<Rightarrow> 's storage_ops \<Rightarrow> 's cert_state handler" where
  "delete_crl E sops st =
     on_state st (\<lambda>req.
       op_bind (op_res (crl_name E req)) (\<lambda>name.
       op_bind (update_crl_cache E sops req) (\<lambda>_ a.
         if map_of (cs_crls a) name = None then (Err ErrRequestInvalid, a)
         else
           op_bind (cert_store (rq_storage_delete sops req (crl_key (to_lowercase name)))) (\<lambda>_ a.
             (Ok None, a\<lparr>cs_crls := AList.delete name (cs_crls a)\<rparr>)) a)))"

text \<open>The names of the cached lists that have a serial number.\<close>

definition find_serial_in_crls :: "'k cert_env \<Rightarrow> (string \<times> crl_info) list \<Rightarrow> nat \<Rightarrow> string list res" where
  "find_serial_in_crls E crls serial =
     res_bind (ck_dec_str E serial) (\<lambda>s.
       Ok (map fst (filter (\<lambda>(_, ci). to_lowercase s \<in> set (ci_serials ci)) crls)))"

section \<open>Trusted certificates\<close>

definition cert_entry_key :: "string \<Rightarrow> string" where "cert_entry_key name = ''cert/'' @ name"

text \<open>The stored form of an entry has the PEM texts of its certificates.\<close>

definition serialize_entry :: "'k cert_env \<Rightarrow> cert_entry \<Rightarrow> cert_entry res" where
  "serialize_entry E e =
     res_bind (res_mapM (\<lambda>x. unwrapped (xe_pem (ck_x509 E) x)) (en_certificate e)) (\<lambda>cs.
     res_bind (res_mapM (\<lambda>x. unwrapped (xe_pem (ck_x509 E) x)) (en_ocsp_ca_certificates e)) (\<lambda>os.
       Ok (e\<lparr>en_certificate := cs, en_ocsp_ca_certificates := os\<rparr>)))"

definition deserialize_entry :: "'k cert_env \<Rightarrow> cert_entry \<Rightarrow> cert_entry res" where
  "deserialize_entry E e =
     serde_error (
       res_bind (res_mapM (xe_of_pem (ck_x509 E)) (en_certificate e)) (\<lambda>cs.
       res_bind (res_mapM (xe_of_pem (ck_x509 E)) (en_ocsp_ca_certificates e)) (\<lambda>os.
         Ok (e\<lparr>en_certificate := cs, en_ocsp_ca_certificates := os\<rparr>))))"

text \<open>The older fields of an entry fill the token parameters that are not set.\<close>

definition fill_entry :: "cert_entry \<Rightarrow> cert_entry" where
  "fill_entry e =
     (let p = en_token_params e in
      e\<lparr>en_token_params := p\<lparr>
        tp_token_ttl := (if tp_token_ttl p div NANOS = 0 \<and> en_ttl e div NANOS > 0 then en_ttl e else tp_token_ttl p),
        tp_token_max_ttl := (if tp_token_max_ttl p div NANOS = 0 \<and> en_max_ttl e div NANOS > 0 then en_max_ttl e
                             else tp_token_max_ttl p),
        tp_token_period := (if tp_token_period p div NANOS = 0 \<and> en_period e div NANOS > 0 then en_period e
                            else tp_token_period p),
        tp_token_policies := (if tp_token_policies p = [] \<and> en_policies e \<noteq> [] then en_policies e else tp_token_policies p),
        tp_token_bound_cidrs := (if tp_token_bound_cidrs p = [] \<and> en_bound_cidrs e \<noteq> [] then en_bound_cidrs e
                                 else tp_token_bound_cidrs p)\<rparr>\<rparr>)"

definition get_cert :: "'k cert_env \<Rightarrow> 's storage_ops \<Rightarrow> request \<Rightarrow> string \<Rightarrow> ('s cert_state, cert_entry option) op" where
  "get_cert E sops req name =
     op_bind (cert_store (rq_storage_get sops req (cert_entry_key (to_lowercase name)))) (\<lambda>r.
       case r of
         None \<Rightarrow> op_return None
       | Some x \<Rightarrow>
           (case ck_dec_entry E (se_value x) of
              None \<Rightarrow> op_fail (External SerdeJson ''invalid entry'')
            | Some e \<Rightarrow> op_res (res_bind (deserialize_entry E e) (\<lambda>e'. Ok (Some (fill_entry e'))))))"

definition set_cert :: "'k cert_env \<Rightarrow> 's storage_ops \<Rightarrow> request \<Rightarrow> string \<Rightarrow> cert_entry \<Rightarrow> ('s cert_state, unit) op" where
  "set_cert E sops req name e =
     op_bind (op_res (serialize_entry E e)) (\<lambda>x.
       cert_store (rq_storage_put sops req \<lparr>se_key = cert_entry_key name, se_value = ck_enc_entry E x\<rparr>))"

definition cert_entry_name :: "'k cert_env \<Rightarrow> request \<Rightarrow> string res" where
  "cert_entry_name E req = res_bind (get_data_as_str (ck_parsers E) req ''name'') (\<lambda>s. Ok (to_lowercase s))"

definition pem_array :: "bytes list \<Rightarrow> json" where
  "pem_array xs = JArray (map (\<lambda>p. JArray (map (\<lambda>b. JNum (uint b)) p)) xs)"

text \<open>The JSON value of the stored form of an entry, with the token parameters beside the other fields.\<close>

definition entry_json :: "ip_env \<Rightarrow> cert_entry \<Rightarrow> json_obj" where
  "entry_json I e =
     populate_token_data I (en_token_params e)
       [(''allowed_common_names'', str_list (en_allowed_common_names e)), (''allowed_dns_sans'', str_list (en_allowed_dns_sans e)),
        (''allowed_email_sans'', str_list (en_allowed_email_sans e)),
        (''allowed_metadata_extensions'', str_list (en_allowed_metadata_extensions e)),
        (''allowed_names'', str_list (en_allowed_names e)),
        (''allowed_organizational_units'', str_list (en_allowed_organizational_units e)),
        (''allowed_uri_sans'', str_list (en_allowed_uri_sans e)), (''bound_cidrs'', show_cidrs I (en_bound_cidrs e)),
        (''certificate'', pem_array (en_certificate e)), (''display_name'', JString (en_display_name e)),
        (''max_ttl'', secs (en_max_ttl e)), (''name'', JString (en_name e)),
        (''ocsp_ca_certificates'', pem_array (en_ocsp_ca_certificates e)), (''ocsp_enabled'', JBool (en_ocsp_enabled e)),
        (''ocsp_fail_open'', JBool (en_ocsp_fail_open e)), (''ocsp_query_all_servers'', JBool (en_ocsp_query_all_servers e)),
        (''ocsp_servers_override'', str_list (en_ocsp_servers_override e)), (''period'', secs (en_period e)),
        (''policies'', str_list (en_policies e)), (''required_extensions'', str_list (en_required_extensions e)),
        (''ttl'', secs (en_ttl e))]"

definition shown_entry :: "ip_env \<Rightarrow> cert_entry \<Rightarrow> json_obj" where
  "shown_entry I e =
     (let p = en_token_params e; d0 = entry_json I e;
          d1 = (if en_ttl e div NANOS = 0 then AList.delete ''ttl'' d0 else d0);
          d2 = (if en_max_ttl e div NANOS = 0 then AList.delete ''max_ttl'' d1 else d1);
          d3 = (if en_policies e \<noteq> [] then obj_insert ''policies'' (str_list (tp_token_policies p)) d2 else d2)
      in if en_bound_cidrs e \<noteq> [] then obj_insert ''bound_cidrs'' (show_cidrs I (tp_token_bound_cidrs p)) d3 else d3)"

definition read_cert :: "'k cert_env \<Rightarrow> 's storage_ops \<Rightarrow> 's cert_state handler" where
  "read_cert E sops st =
     on_state st (\<lambda>req.
       op_bind (op_res (cert_entry_name E req)) (\<lambda>name.
       op_bind (get_cert E sops req name) (\<lambda>r.
         case r of
           None \<Rightarrow> op_return None
         | Some e \<Rightarrow>
             op_bind (op_res (serialize_entry E e)) (\<lambda>x.
               op_return (Some (data_response (Some (shown_entry (ck_ip E) x))))))))"

text \<open>The fields of \<open>write_cert\<close> in their order: certificates, options, names, token parameters, older fields.\<close>

definition set_stack ::
  "'k cert_env \<Rightarrow> request \<Rightarrow> string \<Rightarrow> (x509 list \<Rightarrow> cert_entry \<Rightarrow> cert_entry) \<Rightarrow> cert_entry \<Rightarrow> cert_entry res" where
  "set_stack E req key upd e =
     (case get_data (ck_parsers E) req key of
        Ok v \<Rightarrow>
          (case as_str v of
             None \<Rightarrow> Err ErrRequestFieldInvalid
           | Some s \<Rightarrow> res_bind (ck_stack_from_pem E (ck_utf8 E s)) (\<lambda>xs. Ok (upd xs e)))
      | Err _ \<Rightarrow> Ok e
      | Panic \<Rightarrow> Panic)"

definition set_certificates :: "'k cert_env \<Rightarrow> request \<Rightarrow> cert_entry \<Rightarrow> cert_entry res" where
  "set_certificates E req e =
     res_bind (set_stack E req ''certificate'' (\<lambda>xs e. e\<lparr>en_certificate := xs\<rparr>) e)
       (set_stack E req ''ocsp_ca_certificates'' (\<lambda>xs e. e\<lparr>en_ocsp_ca_certificates := xs\<rparr>))"

definition set_ocsp_options :: "'k cert_env \<Rightarrow> request \<Rightarrow> cert_entry \<Rightarrow> cert_entry res" where
  "set_ocsp_options E req e0 =
     (let P = ck_parsers E in
      res_bind (set_field P req ''ocsp_enabled'' as_bool (\<lambda>x e. e\<lparr>en_ocsp_enabled := x\<rparr>) e0) (\<lambda>e1.
      res_bind (set_field P req ''ocsp_servers_override'' as_comma_string_slice (\<lambda>x e. e\<lparr>en_ocsp_servers_override := x\<rparr>) e1) (\<lambda>e2.
      res_bind (set_field P req ''ocsp_fail_open'' as_bool (\<lambda>x e. e\<lparr>en_ocsp_fail_open := x\<rparr>) e2) (\<lambda>e3.
        set_field P req ''ocsp_query_all_servers'' as_bool (\<lambda>x e. e\<lparr>en_ocsp_query_all_servers := x\<rparr>) e3))))"

definition set_names :: "'k cert_env \<Rightarrow> request \<Rightarrow> cert_entry \<Rightarrow> cert_entry res" where
  "set_names E req e0 =
     (let set = (\<lambda>key upd. set_field (ck_parsers E) req key as_comma_string_slice upd) in
      res_bind (set_field (ck_parsers E) req ''display_name'' as_str (\<lambda>x e. e\<lparr>en_display_name := x\<rparr>) e0) (\<lambda>e1.
      res_bind (set ''allowed_names'' (\<lambda>x e. e\<lparr>en_allowed_names := x\<rparr>) e1) (\<lambda>e2.
      res_bind (set ''allowed_common_names'' (\<lambda>x e. e\<lparr>en_allowed_common_names := x\<rparr>) e2) (\<lambda>e3.
      res_bind (set ''allowed_dns_sans'' (\<lambda>x e. e\<lparr>en_allowed_dns_sans := x\<rparr>) e3) (\<lambda>e4.
      res_bind (set ''allowed_email_sans'' (\<lambda>x e. e\<lparr>en_allowed_email_sans := x\<rparr>) e4) (\<lambda>e5.
      res_bind (set ''allowed_uri_sans'' (\<lambda>x e. e\<lparr>en_allowed_uri_sans := x\<rparr>) e5) (\<lambda>e6.
      res_bind (set ''allowed_organizational_units'' (\<lambda>x e. e\<lparr>en_allowed_organizational_units := x\<rparr>) e6) (\<lambda>e7.
      res_bind (set ''required_extensions'' (\<lambda>x e. e\<lparr>en_required_extensions := x\<rparr>) e7) (\<lambda>e8.
        set ''allowed_metadata_extensions'' (\<lambda>x e. e\<lparr>en_allowed_metadata_extensions := x\<rparr>) e8)))))))))"

definition entry_params :: "(token_params \<Rightarrow> token_params) \<Rightarrow> cert_entry \<Rightarrow> cert_entry" where
  "entry_params f e = e\<lparr>en_token_params := f (en_token_params e)\<rparr>"

definition follow_policies :: "'k cert_env \<Rightarrow> request \<Rightarrow> string list \<Rightarrow> cert_entry \<Rightarrow> cert_entry res" where
  "follow_policies E req old e =
     (if old \<noteq> tp_token_policies (en_token_params e) then Ok (e\<lparr>en_policies := tp_token_policies (en_token_params e)\<rparr>)
      else set_field (ck_parsers E) req ''policies'' as_comma_string_slice
        (\<lambda>x e. entry_params (\<lambda>p. p\<lparr>tp_token_policies := x\<rparr>) (e\<lparr>en_policies := x\<rparr>)) e)"

definition follow_period :: "'k cert_env \<Rightarrow> request \<Rightarrow> duration \<Rightarrow> cert_entry \<Rightarrow> cert_entry res" where
  "follow_period E req old e =
     (if old \<noteq> tp_token_period (en_token_params e) then Ok (e\<lparr>en_period := tp_token_period (en_token_params e)\<rparr>)
      else set_field (ck_parsers E) req ''period'' (as_duration (snd (ck_parsers E)))
        (\<lambda>x e. entry_params (\<lambda>p. p\<lparr>tp_token_period := x\<rparr>) (e\<lparr>en_period := x\<rparr>)) e)"

definition follow_ttl :: "'k cert_env \<Rightarrow> request \<Rightarrow> duration \<Rightarrow> cert_entry \<Rightarrow> cert_entry res" where
  "follow_ttl E req old e =
     (let set = (\<lambda>x e. entry_params (\<lambda>p. p\<lparr>tp_token_ttl := x\<rparr>) (e\<lparr>en_ttl := x\<rparr>)) in
      if old \<noteq> tp_token_ttl (en_token_params e) then Ok (e\<lparr>en_ttl := tp_token_ttl (en_token_params e)\<rparr>)
      else
        (case get_data (ck_parsers E) req ''ttl'' of
           Err _ \<Rightarrow> set_field (ck_parsers E) req ''lease'' as_u64 (\<lambda>n. set (from_secs n)) e
         | _ \<Rightarrow> set_field (ck_parsers E) req ''ttl'' (as_duration (snd (ck_parsers E))) set e))"

definition follow_max_ttl :: "'k cert_env \<Rightarrow> request \<Rightarrow> duration \<Rightarrow> cert_entry \<Rightarrow> cert_entry res" where
  "follow_max_ttl E req old e =
     (if old \<noteq> tp_token_max_ttl (en_token_params e) then Ok (e\<lparr>en_max_ttl := tp_token_max_ttl (en_token_params e)\<rparr>)
      else set_field (ck_parsers E) req ''max_ttl'' (as_duration (snd (ck_parsers E)))
        (\<lambda>x e. entry_params (\<lambda>p. p\<lparr>tp_token_max_ttl := x\<rparr>) (e\<lparr>en_max_ttl := x\<rparr>)) e)"

definition follow_cidrs :: "'k cert_env \<Rightarrow> request \<Rightarrow> sock_addr list \<Rightarrow> cert_entry \<Rightarrow> cert_entry res" where
  "follow_cidrs E req old e =
     (if \<not> list_all2 sock_equal old (tp_token_bound_cidrs (en_token_params e))
      then Ok (e\<lparr>en_bound_cidrs := tp_token_bound_cidrs (en_token_params e)\<rparr>)
      else set_bound_cidrs (ck_ip E) (ck_parsers E) req ''bound_cidrs''
        (\<lambda>x e. entry_params (\<lambda>p. p\<lparr>tp_token_bound_cidrs := x\<rparr>) (e\<lparr>en_bound_cidrs := x\<rparr>)) e)"

definition set_token_fields :: "'k cert_env \<Rightarrow> request \<Rightarrow> cert_entry \<Rightarrow> cert_entry res" where
  "set_token_fields E req e0 =
     (let old = en_token_params e0 in
      res_bind (parse_token_fields (ck_ip E) (ck_parsers E) req old) (\<lambda>p.
      res_bind (follow_policies E req (tp_token_policies old) (e0\<lparr>en_token_params := p\<rparr>)) (\<lambda>e1.
      res_bind (follow_period E req (tp_token_period old) e1) (\<lambda>e2.
      res_bind (follow_ttl E req (tp_token_ttl old) e2) (\<lambda>e3.
      res_bind (follow_max_ttl E req (tp_token_max_ttl old) e3) (\<lambda>e4.
        follow_cidrs E req (tp_token_bound_cidrs old) e4))))))"

definition named_display :: "string \<Rightarrow> cert_entry \<Rightarrow> cert_entry" where
  "named_display name e = (if en_display_name e = [] then e\<lparr>en_display_name := name\<rparr> else e)"

text \<open>A leaf certificate with extended key usages has to have the one of clients.\<close>

definition check_client_usage :: "('x, 'k) x509_env \<Rightarrow> 'x list \<Rightarrow> unit res" where
  "check_client_usage X cs =
     (case cs of
        [] \<Rightarrow> Panic
      | c # _ \<Rightarrow>
          if \<not> is_ca_cert X c \<and> has_x509_ext_key_usage X c \<and> \<not> has_x509_ext_key_usage_flag X c XKU_SSL_CLIENT then
            Err (ErrResponse ''nonCA certificates should have TLS client authentication set as an extended key usage'')
          else Ok ())"

definition updated_entry :: "'k cert_env \<Rightarrow> request \<Rightarrow> string \<Rightarrow> cert_entry \<Rightarrow> cert_entry res" where
  "updated_entry E req name e0 =
     res_bind (set_certificates E req e0) (\<lambda>e1.
     res_bind (set_ocsp_options E req e1) (\<lambda>e2.
     res_bind (set_names E req e2) (\<lambda>e3.
     res_bind (set_token_fields E req e3) (\<lambda>e4.
     let e5 = named_display name e4 in
     res_bind (check_client_usage (ck_x509 E) (en_certificate e5)) (\<lambda>_. Ok e5)))))"

definition write_cert :: "'k cert_env \<Rightarrow> 's storage_ops \<Rightarrow> 's cert_state handler" where
  "write_cert E sops st =
     on_state st (\<lambda>req.
       op_bind (op_res (cert_entry_name E req)) (\<lambda>name.
       op_bind (get_cert E sops req name) (\<lambda>r.
       op_bind (op_res (updated_entry E req name
         (case r of Some e \<Rightarrow> e | None \<Rightarrow> cert_entry_default\<lparr>en_name := name\<rparr>))) (\<lambda>e.
       op_bind (set_cert E sops req name e) (\<lambda>_. op_return None)))))"

definition delete_cert_entry :: "'k cert_env \<Rightarrow> 's storage_ops \<Rightarrow> 's cert_state handler" where
  "delete_cert_entry E sops st =
     on_state st (\<lambda>req.
       op_bind (op_res (cert_entry_name E req)) (\<lambda>name.
       op_bind (cert_store (rq_storage_delete sops req (cert_entry_key name))) (\<lambda>_. op_return None)))"

definition list_cert :: "'s storage_ops \<Rightarrow> 's cert_state handler" where
  "list_cert sops st =
     on_state st (\<lambda>req.
       op_bind (cert_store (rq_storage_list sops req ''cert/'')) (\<lambda>ns. op_return (Some (list_response ns))))"

section \<open>Constraints\<close>

text \<open>The first pattern that matches decides, and so does the first one that is no pattern.\<close>

fun match_any :: "'k cert_env \<Rightarrow> ((string \<Rightarrow> bool) \<Rightarrow> bool) \<Rightarrow> string list \<Rightarrow> bool" where
  "match_any E hit [] = False"
| "match_any E hit (p # ps) =
     (case ck_pattern E p of None \<Rightarrow> False | Some m \<Rightarrow> hit m \<or> match_any E hit ps)"

definition san_hit :: "(san \<Rightarrow> string option) \<Rightarrow> san list option \<Rightarrow> (string \<Rightarrow> bool) \<Rightarrow> bool" where
  "san_hit name sans m =
     (case sans of
        None \<Rightarrow> False | Some xs \<Rightarrow> list_ex (\<lambda>x. case name x of None \<Rightarrow> False | Some s \<Rightarrow> m s) xs)"

definition dns_name :: "san \<Rightarrow> string option" where
  "dns_name x = (case x of DnsName s \<Rightarrow> Some s | _ \<Rightarrow> None)"

definition email_name :: "san \<Rightarrow> string option" where
  "email_name x = (case x of EmailName s \<Rightarrow> Some s | _ \<Rightarrow> None)"

definition uri_name :: "san \<Rightarrow> string option" where
  "uri_name x = (case x of UriName s \<Rightarrow> Some s | _ \<Rightarrow> None)"

definition matches_names :: "'k cert_env \<Rightarrow> x509 \<Rightarrow> cert_entry \<Rightarrow> bool" where
  "matches_names E c e =
     (if en_allowed_names e = [] then True
      else
        (case ck_common_name E c of
           Some (Ok cn) \<Rightarrow>
             match_any E (\<lambda>m. m cn \<or> san_hit dns_name (ck_alt_names E c) m \<or> san_hit email_name (ck_alt_names E c) m)
               (en_allowed_names e)
         | _ \<Rightarrow> False))"

definition matches_common_name :: "'k cert_env \<Rightarrow> x509 \<Rightarrow> cert_entry \<Rightarrow> bool" where
  "matches_common_name E c e =
     (if en_allowed_common_names e = [] then True
      else
        (case ck_common_name E c of
           Some (Ok cn) \<Rightarrow> match_any E (\<lambda>m. m cn) (en_allowed_common_names e) | _ \<Rightarrow> False))"

definition matches_dns_sans :: "'k cert_env \<Rightarrow> x509 \<Rightarrow> cert_entry \<Rightarrow> bool" where
  "matches_dns_sans E c e \<longleftrightarrow>
     en_allowed_dns_sans e = [] \<or> match_any E (san_hit dns_name (ck_alt_names E c)) (en_allowed_dns_sans e)"

definition matches_email_sans :: "'k cert_env \<Rightarrow> x509 \<Rightarrow> cert_entry \<Rightarrow> bool" where
  "matches_email_sans E c e \<longleftrightarrow>
     en_allowed_email_sans e = [] \<or> match_any E (san_hit email_name (ck_alt_names E c)) (en_allowed_email_sans e)"

definition matches_uri_sans :: "'k cert_env \<Rightarrow> x509 \<Rightarrow> cert_entry \<Rightarrow> bool" where
  "matches_uri_sans E c e \<longleftrightarrow>
     en_allowed_uri_sans e = [] \<or> match_any E (san_hit uri_name (ck_alt_names E c)) (en_allowed_uri_sans e)"

definition matches_organizational_units :: "'k cert_env \<Rightarrow> x509 \<Rightarrow> cert_entry \<Rightarrow> bool" where
  "matches_organizational_units E c e =
     (if en_allowed_organizational_units e = [] then True
      else
        (case ck_organizational_unit E c of
           Some (Ok ou) \<Rightarrow> match_any E (\<lambda>m. m ou) (en_allowed_organizational_units e) | _ \<Rightarrow> False))"

text \<open>
  The text of an object identifier in a buffer of 128 bytes: \<open>OBJ_obj2txt\<close> gives the length of the whole text and
  writes what fits before a zero byte.
\<close>

definition oid_in_buffer :: "string \<Rightarrow> string res" where
  "oid_in_buffer oid =
     (if length oid > 128 then Panic else if length oid = 128 then Ok (take 127 oid @ [CHR 0x00]) else Ok oid)"

definition ext_text :: "'k cert_env \<Rightarrow> bytes \<Rightarrow> string" where
  "ext_text E d = (case ck_octet_string E d of Ok b \<Rightarrow> xe_lossy (ck_x509 E) b | _ \<Rightarrow> [])"

fun ext_maps ::
  "'k cert_env \<Rightarrow> (string \<times> bytes) list \<Rightarrow> (string \<rightharpoonup> string) \<times> (string \<rightharpoonup> string) \<Rightarrow>
     ((string \<rightharpoonup> string) \<times> (string \<rightharpoonup> string)) res" where
  "ext_maps E [] ms = Ok ms"
| "ext_maps E ((oid, d) # xs) (txt, hex) =
     res_bind (oid_in_buffer oid) (\<lambda>o1. ext_maps E xs (txt(o1 \<mapsto> ext_text E d), hex(o1 \<mapsto> hex_bytes d)))"

definition split_colon :: "string \<Rightarrow> (string \<times> string) option" where
  "split_colon s =
     (if CHR '':'' \<in> set s then Some (takeWhile (\<lambda>c. c \<noteq> CHR '':'') s, tl (dropWhile (\<lambda>c. c \<noteq> CHR '':'') s)) else None)"

definition ext_matches :: "'k cert_env \<Rightarrow> (string \<rightharpoonup> string) \<Rightarrow> string \<Rightarrow> string \<Rightarrow> bool" where
  "ext_matches E m oid p =
     (case m oid of None \<Rightarrow> False | Some v \<Rightarrow> (case ck_pattern E p of None \<Rightarrow> False | Some f \<Rightarrow> f v))"

definition has_extension :: "'k cert_env \<Rightarrow> (string \<rightharpoonup> string) \<times> (string \<rightharpoonup> string) \<Rightarrow> string \<Rightarrow> bool" where
  "has_extension E ms required_ext =
     (case split_colon required_ext of
        None \<Rightarrow> False
      | Some (oid, v) \<Rightarrow>
          if oid = ''hex'' then
            (case split_colon v of None \<Rightarrow> False | Some (oid', v') \<Rightarrow> ext_matches E (snd ms) oid' (to_lowercase v'))
          else ext_matches E (fst ms) oid v)"

definition matches_certificate_extensions :: "'k cert_env \<Rightarrow> x509 \<Rightarrow> cert_entry \<Rightarrow> bool res" where
  "matches_certificate_extensions E c e =
     (if en_required_extensions e = [] then Ok True
      else
        res_bind (ext_maps E (ck_extensions E c) (Map.empty, Map.empty)) (\<lambda>ms.
          Ok (list_all (has_extension E ms) (en_required_extensions e))))"

definition dashed :: "string \<Rightarrow> string" where
  "dashed oid = map (\<lambda>c. if c = CHR ''.'' then CHR ''-'' else c) oid"

fun metadata_loop ::
  "'k cert_env \<Rightarrow> string list \<Rightarrow> (string \<times> bytes) list \<Rightarrow> (string \<rightharpoonup> string) \<Rightarrow> (string \<rightharpoonup> string) res" where
  "metadata_loop E allowed [] m = Ok m"
| "metadata_loop E allowed ((oid, d) # xs) m =
     res_bind (oid_in_buffer oid) (\<lambda>o1.
       metadata_loop E allowed xs (if o1 \<in> set allowed then m(dashed o1 \<mapsto> ext_text E d) else m))"

definition certificate_extensions_metadata :: "'k cert_env \<Rightarrow> x509 \<Rightarrow> cert_entry \<Rightarrow> (string \<rightharpoonup> string) res" where
  "certificate_extensions_metadata E c e =
     (if en_allowed_metadata_extensions e = [] then Ok Map.empty
      else metadata_loop E (en_allowed_metadata_extensions e) (ck_extensions E c) Map.empty)"

definition check_for_cert_in_ocsp :: "x509 \<Rightarrow> x509 list \<Rightarrow> ocsp_config \<Rightarrow> bool res" where
  "check_for_cert_in_ocsp c chain oc = (if \<not> oc_enable oc \<or> length chain < 2 then Ok True else Ok True)"

text \<open>A serial number that cannot be printed counts as one that is not revoked.\<close>

definition check_for_chain_in_crls :: "'k cert_env \<Rightarrow> (string \<times> crl_info) list \<Rightarrow> x509 list \<Rightarrow> bool" where
  "check_for_chain_in_crls E crls chain =
     list_ex (\<lambda>c. case find_serial_in_crls E crls (xe_serial (ck_x509 E) c) of Ok bad \<Rightarrow> bad \<noteq> [] | _ \<Rightarrow> False) chain"

definition names_match :: "'k cert_env \<Rightarrow> x509 \<Rightarrow> cert_entry \<Rightarrow> bool" where
  "names_match E c e \<longleftrightarrow>
     matches_names E c e \<and> matches_common_name E c e \<and> matches_dns_sans E c e \<and> matches_email_sans E c e \<and>
     matches_uri_sans E c e \<and> matches_organizational_units E c e"

definition matches_constraints ::
  "'k cert_env \<Rightarrow> (string \<times> crl_info) list \<Rightarrow> x509 \<Rightarrow> x509 list \<Rightarrow> parsed_cert \<Rightarrow> ocsp_config \<Rightarrow> bool res" where
  "matches_constraints E crls c chain t oc =
     res_bind (if \<not> check_for_chain_in_crls E crls chain \<and> names_match E c (pc_entry t)
               then matches_certificate_extensions E c (pc_entry t) else Ok False) (\<lambda>ret.
       if en_ocsp_enabled (pc_entry t) then res_bind (check_for_cert_in_ocsp c chain oc) (\<lambda>o1. Ok (ret \<and> o1))
       else Ok ret)"

section \<open>Login\<close>

definition ocsp_of_entry :: "cert_entry \<Rightarrow> ocsp_config \<Rightarrow> ocsp_config" where
  "ocsp_of_entry e oc =
     (if en_ocsp_enabled e then
        oc\<lparr>oc_enable := True, oc_servers_override := oc_servers_override oc @ en_ocsp_servers_override e,
           oc_failure_mode := (if en_ocsp_fail_open e then FailOpenTrue else FailOpenFalse),
           oc_query_all_servers := oc_query_all_servers oc \<or> en_ocsp_query_all_servers e\<rparr>
      else oc)"

fun add_roots :: "'k cert_env \<Rightarrow> x509 list \<Rightarrow> x509 list \<Rightarrow> x509 list res" where
  "add_roots E [] roots = Ok roots"
| "add_roots E (c # cs) roots = res_bind (ck_add_root E roots c) (\<lambda>_. add_roots E cs (roots @ [c]))"

type_synonym trusts = "x509 list \<times> parsed_cert list \<times> parsed_cert list \<times> ocsp_config"

definition add_trust :: "'k cert_env \<Rightarrow> cert_entry \<Rightarrow> trusts \<Rightarrow> trusts res" where
  "add_trust E e ts =
     (case ts of (roots, trusted, non_ca, oc) \<Rightarrow>
        case en_certificate e of
          [] \<Rightarrow> Ok ts
        | c # _ \<Rightarrow>
            let t = \<lparr>pc_entry = e, pc_certs = en_certificate e @ en_ocsp_ca_certificates e\<rparr>; oc' = ocsp_of_entry e oc in
            if is_ca_cert (ck_x509 E) c then
              res_bind (add_roots E (pc_certs t) roots) (\<lambda>rs. Ok (rs, trusted @ [t], non_ca, oc'))
            else Ok (roots, trusted, non_ca @ [t], oc'))"

fun load_entries :: "'k cert_env \<Rightarrow> 's storage_ops \<Rightarrow> request \<Rightarrow> string list \<Rightarrow> trusts \<Rightarrow> ('s cert_state, trusts) op" where
  "load_entries E sops req [] ts a = (Ok ts, a)"
| "load_entries E sops req (n # ns) ts a =
     op_bind (get_cert E sops req (trim_start_matches ''cert/'' n)) (\<lambda>r.
       case r of
         None \<Rightarrow> load_entries E sops req ns ts
       | Some e \<Rightarrow> op_bind (op_res (add_trust E e ts)) (load_entries E sops req ns)) a"

definition load_trusted_certs :: "'k cert_env \<Rightarrow> 's storage_ops \<Rightarrow> request \<Rightarrow> string \<Rightarrow> ('s cert_state, trusts) op" where
  "load_trusted_certs E sops req name =
     op_bind (if name \<noteq> [] then op_return [name] else cert_store (rq_storage_list sops req ''cert/'')) (\<lambda>ns.
       load_entries E sops req ns ([], [], [], ocsp_config_default))"

definition client_usage :: "('x, 'k) x509_env \<Rightarrow> 'x \<Rightarrow> bool" where
  "client_usage X c \<longleftrightarrow> \<not> has_x509_ext_key_usage X c \<or> has_x509_ext_key_usage_flag X c (or XKU_ANYEKU XKU_SSL_CLIENT)"

definition validate_cert :: "'k cert_env \<Rightarrow> x509 list \<Rightarrow> x509 list \<Rightarrow> x509 list res" where
  "validate_cert E roots peers =
     (case peers of
        [] \<Rightarrow> Ok []
      | c # rest \<Rightarrow>
          res_bind (ck_verify_cert E roots c rest) (\<lambda>(ok, err, chain).
            if ok then Ok (filter (client_usage (ck_x509 E)) (case chain of Some xs \<Rightarrow> xs | None \<Rightarrow> []))
            else if err = 2 \<or> err = 20 then
              if xe_not_after (ck_x509 E) c \<le> ck_now E div int NANOS then
                Err (ErrResponse (ck_verify_text E X509_V_ERR_CERT_HAS_EXPIRED))
              else Ok []
            else Err (ErrResponse (ck_verify_text E err))))"

text \<open>Trusted certificates are tried in turn, those that \<open>f\<close> passes over are skipped; errors are collected.\<close>

fun try_trusts ::
  "(parsed_cert \<Rightarrow> bool res option) \<Rightarrow> parsed_cert list \<Rightarrow> rv_error list \<Rightarrow> (parsed_cert + rv_error list) res" where
  "try_trusts f [] errs = Ok (Inr errs)"
| "try_trusts f (t # ts) errs =
     (case f t of
        None \<Rightarrow> try_trusts f ts errs
      | Some (Ok True) \<Rightarrow> Ok (Inl t)
      | Some (Ok False) \<Rightarrow> try_trusts f ts errs
      | Some (Err e) \<Rightarrow> try_trusts f ts (errs @ [e])
      | Some Panic \<Rightarrow> Panic)"

definition same_leaf :: "'k cert_env \<Rightarrow> x509 \<Rightarrow> x509 \<Rightarrow> bool" where
  "same_leaf E c crt \<longleftrightarrow>
     ck_authority_key_id E crt \<noteq> None \<and> ck_authority_key_id E c \<noteq> None \<and>
     xe_serial (ck_x509 E) crt = xe_serial (ck_x509 E) c \<and> ck_authority_key_id E crt = ck_authority_key_id E c"

definition try_leaf ::
  "'k cert_env \<Rightarrow> (string \<times> crl_info) list \<Rightarrow> x509 \<Rightarrow> ocsp_config \<Rightarrow> parsed_cert \<Rightarrow> bool res option" where
  "try_leaf E crls c oc t =
     (case pc_certs t of
        [] \<Rightarrow> Some Panic
      | crt # _ \<Rightarrow> if same_leaf E c crt then Some (matches_constraints E crls c (pc_certs t) t oc) else None)"

definition try_chain ::
  "'k cert_env \<Rightarrow> (string \<times> crl_info) list \<Rightarrow> x509 \<Rightarrow> x509 list \<Rightarrow> ocsp_config \<Rightarrow> parsed_cert \<Rightarrow> bool res option" where
  "try_chain E crls c chain oc t =
     (if list_ex (\<lambda>crt. crt \<in> set chain) (pc_certs t) then Some (matches_constraints E crls c chain t oc) else None)"

definition with_errors :: "'k cert_env \<Rightarrow> string \<Rightarrow> string \<Rightarrow> rv_error list \<Rightarrow> rv_error" where
  "with_errors E text sep errs = ErrResponse (if errs = [] then text else text @ sep @ ck_show_errors E errs)"

definition match_trusts ::
  "'k cert_env \<Rightarrow> (string \<times> crl_info) list \<Rightarrow> x509 \<Rightarrow> x509 list \<Rightarrow> trusts \<Rightarrow> parsed_cert res" where
  "match_trusts E crls c chain ts =
     (case ts of (_, trusted, non_ca, oc) \<Rightarrow>
        res_bind (try_trusts (try_leaf E crls c oc) non_ca []) (\<lambda>r.
        case r of
          Inl t \<Rightarrow> Ok t
        | Inr errs \<Rightarrow>
            if chain = [] then
              Err (with_errors E ''invalid certificate or no client certificate supplied''
                ''; additionally got errors during verification:: '' errs)
            else
              res_bind (try_trusts (try_chain E crls c chain oc) trusted errs) (\<lambda>r.
              case r of
                Inl t \<Rightarrow> Ok t
              | Inr errs \<Rightarrow>
                  Err (with_errors E ''no chain matching all constraints could be found for this login certificate''
                    ''; additionally got errors during verification: '' errs))))"

definition peer_certs :: "request \<Rightarrow> x509 list" where
  "peer_certs req =
     (case rq_connection req of
        None \<Rightarrow> [] | Some conn \<Rightarrow> (case peer_tls_cert conn of None \<Rightarrow> [] | Some cs \<Rightarrow> cs))"

definition login_cert_name :: "'k cert_env \<Rightarrow> request \<Rightarrow> string res" where
  "login_cert_name E req =
     (case Option.bind (rq_auth req) (\<lambda>au. au_metadata au ''cert_name'') of
        Some n \<Rightarrow> Ok n
      | None \<Rightarrow>
          (case get_data (ck_parsers E) req ''name'' of
             Ok v \<Rightarrow> Ok (case as_str v of Some s \<Rightarrow> s | None \<Rightarrow> []) | Err _ \<Rightarrow> Ok [] | Panic \<Rightarrow> Panic))"

definition verify_credentials :: "'k cert_env \<Rightarrow> 's storage_ops \<Rightarrow> request \<Rightarrow> ('s cert_state, parsed_cert) op" where
  "verify_credentials E sops req =
     (case peer_certs req of
        [] \<Rightarrow> op_fail (ErrResponse ''client certificate must be supplied'')
      | c # _ \<Rightarrow>
          op_bind (op_res (login_cert_name E req)) (\<lambda>name.
          op_bind (load_trusted_certs E sops req name) (\<lambda>ts.
          op_bind (op_res (validate_cert E (fst ts) (peer_certs req))) (\<lambda>chain a.
            (match_trusts E (cs_crls a) c chain ts, a)))))"

definition hex_encode_with_colon :: "bytes \<Rightarrow> string" where
  "hex_encode_with_colon bs = join_with '':'' (chunks2 (hex_bytes bs))"

definition subject_key :: "'k cert_env \<Rightarrow> x509 \<Rightarrow> bytes" where
  "subject_key E c = (case xe_subject_key_id (ck_x509 E) c of Some b \<Rightarrow> b | None \<Rightarrow> [])"

definition authority_key :: "'k cert_env \<Rightarrow> x509 \<Rightarrow> bytes" where
  "authority_key E c = (case ck_authority_key_id E c of Some b \<Rightarrow> b | None \<Rightarrow> [])"

definition cert_auth :: "'k cert_env \<Rightarrow> x509 \<Rightarrow> string \<Rightarrow> string \<Rightarrow> (string \<rightharpoonup> string) \<Rightarrow> cert_entry \<Rightarrow> auth" where
  "cert_auth E c cn sn ext e =
     populate_token_auth (en_token_params e)
       ((auth_default (ck_now E))\<lparr>au_display_name := en_display_name e,
          au_metadata := [''cert_name'' \<mapsto> en_name e, ''common_name'' \<mapsto> cn, ''serial_number'' \<mapsto> sn,
            ''subject_key_id'' \<mapsto> hex_encode_with_colon (subject_key E c),
            ''authority_key_id'' \<mapsto> hex_encode_with_colon (authority_key E c)] ++ ext,
          au_internal_data := [''subject_key_id'' \<mapsto> ck_base64 E (subject_key E c),
            ''authority_key_id'' \<mapsto> ck_base64 E (authority_key E c)]\<rparr>)"

definition check_login_addr :: "'k cert_env \<Rightarrow> string \<Rightarrow> cert_entry \<Rightarrow> unit res" where
  "check_login_addr E addr e =
     (let cidrs = tp_token_bound_cidrs (en_token_params e) in
      if cidrs = [] then Ok ()
      else res_bind (remote_addr_is_ok (ck_ip E) addr cidrs) (\<lambda>ok. if ok then Ok () else Err ErrPermissionDenied))"

definition cert_login :: "'k cert_env \<Rightarrow> 's storage_ops \<Rightarrow> 's cert_state handler" where
  "cert_login E sops st =
     on_state st (\<lambda>req.
       op_bind (get_config E sops req) (\<lambda>cfg.
       if cfg = None then op_fail ErrCredentailNotConfig
       else
         case rq_connection req of
           None \<Rightarrow> op_fail (ErrResponse ''tls connection required'')
         | Some conn \<Rightarrow>
             (case peer_certs req of
                [] \<Rightarrow> op_fail (ErrResponse ''no client certificate found'')
              | c # _ \<Rightarrow>
                  op_bind (op_res (case ck_common_name E c of None \<Rightarrow> Ok [] | Some r \<Rightarrow> r)) (\<lambda>cn.
                  op_bind (op_res (ck_dec_str E (xe_serial (ck_x509 E) c))) (\<lambda>sn.
                  op_bind (verify_credentials E sops req) (\<lambda>t.
                  op_bind (op_res (check_login_addr E (peer_addr conn) (pc_entry t))) (\<lambda>_.
                  op_bind (op_res (certificate_extensions_metadata E c (pc_entry t))) (\<lambda>ext.
                    op_return (Some (response_new\<lparr>rs_auth := Some (cert_auth E c cn sn ext (pc_entry t))\<rparr>))))))))))"

text \<open>The binding of a renewal to the certificate of the login: one of the two key identifiers has to be the same.\<close>

definition check_binding :: "'k cert_env \<Rightarrow> 's storage_ops \<Rightarrow> request \<Rightarrow> auth \<Rightarrow> ('s cert_state, unit) op" where
  "check_binding E sops req au =
     (case au_metadata au ''subject_key_id'' of
        None \<Rightarrow> op_fail (ErrResponse ''invalid request, not found subject_key_id'')
      | Some skid \<Rightarrow>
          (case au_metadata au ''authority_key_id'' of
             None \<Rightarrow> op_fail (ErrResponse ''invalid request, not found authority_key_id'')
           | Some akid \<Rightarrow>
               op_bind (verify_credentials E sops req) (\<lambda>_.
               case peer_certs req of
                 [] \<Rightarrow> op_fail (ErrResponse ''no client certificate found'')
               | c # _ \<Rightarrow>
                   if skid \<noteq> hex_encode_with_colon (subject_key E c) \<and> akid \<noteq> hex_encode_with_colon (authority_key E c)
                   then op_fail (ErrResponse ''client identity during renewal not matching client identity used during login'')
                   else op_return ())))"

definition cert_login_renew :: "'k cert_env \<Rightarrow> 's storage_ops \<Rightarrow> 's cert_state handler" where
  "cert_login_renew E sops st =
     on_state st (\<lambda>req.
       op_bind (get_config E sops req) (\<lambda>r.
       case r of
         None \<Rightarrow> op_fail ErrCredentailNotConfig
       | Some cfg \<Rightarrow>
           if rq_connection req = None then op_fail (ErrResponse ''tls connection required'')
           else
             (case rq_auth req of
                None \<Rightarrow> op_fail (ErrResponse ''invalid request'')
              | Some au \<Rightarrow>
                  op_bind (if cc_disable_binding cfg then op_return () else check_binding E sops req au) (\<lambda>_.
                  case au_metadata au ''cert_name'' of
                    None \<Rightarrow> op_fail (ErrResponse ''invalid request, not found cert_name'')
                  | Some name \<Rightarrow>
                      op_bind (get_cert E sops req name) (\<lambda>r.
                      case r of
                        None \<Rightarrow> op_return None
                      | Some e \<Rightarrow>
                          if \<not> equivalent_policies (en_policies e) (au_policies au) then
                            op_fail (ErrString ''policies have changed, not renewing'')
                          else
                            let p = en_token_params e in
                            op_return (Some (response_new\<lparr>rs_auth := Some (au\<lparr>au_period := tp_token_period p,
                              au_lease := (au_lease au)\<lparr>ttl := tp_token_ttl p, max_ttl := tp_token_max_ttl p\<rparr>\<rparr>)\<rparr>)))))))"

section \<open>The backend\<close>

definition config_path :: "'k cert_env \<Rightarrow> 's storage_ops \<Rightarrow> 's cert_state backend_path" where
  "config_path E sops =
     new_path ''config''
       [(''disable_binding'', bool_field False), (''enable_identity_alias_metadata'', bool_field False),
        (''ocsp_cache_size'', int_field 100)]
       [(Read, read_config E sops), (Write, write_config E sops)]"

definition certs_path :: "'k cert_env \<Rightarrow> 's storage_ops \<Rightarrow> 's cert_state backend_path" where
  "certs_path E sops =
     (let names = (\<lambda>n. (n, optional_field CommaStringSlice)) in
      new_path (word_pattern ''certs/'' ''name'')
        ([(''name'', required_field Str), (''certificate'', required_field Str), (''ocsp_enabled'', bool_field False),
          (''ocsp_ca_certificates'', optional_field Str), names ''ocsp_servers_override'', (''ocsp_fail_open'', bool_field False),
          (''ocsp_query_all_servers'', bool_field False), names ''allowed_names'', names ''allowed_common_names'',
          names ''allowed_dns_sans'', names ''allowed_email_sans'', names ''allowed_uri_sans'',
          names ''allowed_organizational_units'', names ''required_extensions'', names ''allowed_metadata_extensions'',
          names ''policies'', (''lease'', optional_field IntType), (''ttl'', optional_field DurationSecond),
          (''max_ttl'', optional_field DurationSecond), (''period'', default_field DurationSecond (JNum 0)),
          names ''bound_cidrs'', (''display_name'', optional_field Str)] @ token_fields)
        [(Read, read_cert E sops), (Write, write_cert E sops), (Delete, delete_cert_entry E sops)])"

definition certs_list_path :: "'s storage_ops \<Rightarrow> 's cert_state backend_path" where
  "certs_list_path sops = new_path ''certs/?'' [] [(List, list_cert sops)]"

definition crl_path :: "'k cert_env \<Rightarrow> 's storage_ops \<Rightarrow> 's cert_state backend_path" where
  "crl_path E sops =
     new_path (word_pattern ''crls/'' ''name'')
       [(''name'', required_field Str), (''crl'', optional_field Str), (''url'', optional_field Str)]
       [(Read, read_crl E sops), (Write, write_crl E sops), (Delete, delete_crl E sops)]"

definition crl_list_path :: "'s storage_ops \<Rightarrow> 's cert_state backend_path" where
  "crl_list_path sops = new_path ''crls/?$'' [] [(List, list_crl sops)]"

definition cert_login_path :: "'k cert_env \<Rightarrow> 's storage_ops \<Rightarrow> 's cert_state backend_path" where
  "cert_login_path E sops = new_path ''login'' [(''name'', required_field Str)] [(Write, cert_login E sops)]"

definition cert_new_backend :: "'k cert_env \<Rightarrow> 's storage_ops \<Rightarrow> 's cert_state logical_backend" where
  "cert_new_backend E sops =
     \<lparr>lb_paths = [config_path E sops, certs_path E sops, certs_list_path sops, crl_path E sops, crl_list_path sops,
        cert_login_path E sops],
      lb_paths_re = [], lb_root_paths = [], lb_unauth_paths = [''login''], lb_secrets = [],
      lb_auth_renew_handler = Some (cert_login_renew E sops)\<rparr>"

end
