(* ===== verification/Cert_Logins.thy ===== *)
theory Cert_Logins
  imports Cert_Auth Vault_View
begin

text \<open>
  The properties of the certificate credentials. A storage whose reads leave it as it is (locale \<open>reading_storage\<close>, the
  barrier over files is one) is enough for what a login means; what becomes of the revocation lists is shown on a view
  that lists its keys (locale \<open>listing_view\<close>).
\<close>

section \<open>Reading\<close>

locale reading_storage =
  fixes sops :: "'s storage_ops"
  assumes get_same: "storage_get sops k s = (r, s') \<Longrightarrow> s' = s"
    and list_same: "storage_list sops p s = (q, s') \<Longrightarrow> s' = s"
begin

lemma rq_get_same: "rq_storage_get sops req k s = (r, s') \<Longrightarrow> s' = s"
  by (auto simp: rq_storage_get_def on_storage_def view_get_def op_bind_def op_res_def op_return_def op_fail_def
      split: option.splits res.splits prod.splits dest!: get_same)

lemma rq_list_same: "rq_storage_list sops req p s = (r, s') \<Longrightarrow> s' = s"
  by (auto simp: rq_storage_list_def on_storage_def view_list_def op_bind_def op_res_def op_return_def op_fail_def
      split: option.splits res.splits prod.splits dest!: list_same)

lemma cert_get_same: "cert_store (rq_storage_get sops req k) a = (r, a') \<Longrightarrow> a' = a"
  by (auto simp: cert_store_def split: prod.splits dest!: rq_get_same)

lemma cert_list_same: "cert_store (rq_storage_list sops req p) a = (r, a') \<Longrightarrow> a' = a"
  by (auto simp: cert_store_def split: prod.splits dest!: rq_list_same)

lemma get_cert_same: "get_cert E sops req n a = (r, a') \<Longrightarrow> a' = a"
  by (auto simp: get_cert_def op_bind_def op_res_def op_return_def op_fail_def
      split: option.splits res.splits prod.splits dest!: cert_get_same)

lemma get_config_same: "get_config E sops req a = (r, a') \<Longrightarrow> a' = a"
  by (auto simp: get_config_def op_bind_def op_res_def op_return_def op_fail_def
      split: option.splits res.splits prod.splits dest!: cert_get_same)

end

lemma file_get_same: "file_get de root k fs = (r, fs') \<Longrightarrow> fs' = fs"
  by (auto simp: file_get_def split: if_splits res.splits prod.splits sum.splits option.splits io_kind.splits)

lemma file_list_same: "file_list root p fs = (r, fs') \<Longrightarrow> fs' = fs"
  by (auto simp: file_list_def Let_def split: if_splits res.splits prod.splits sum.splits option.splits node.splits)

interpretation rd: reading_storage "barrier_storage C (file_backend ser de root)" for C ser de root
proof
  show "s' = s" if "storage_get (barrier_storage C (file_backend ser de root)) k s = (r, s')" for k s r s'
    using that
    by (auto simp: barrier_storage_sel file_backend_sel barrier_get_def op_bind_def op_return_def on_backend_def
        split: if_splits res.splits prod.splits option.splits dest!: file_get_same)
  show "s' = s" if "storage_list (barrier_storage C (file_backend ser de root)) p s = (r, s')" for p s r s'
    using that
    by (auto simp: barrier_storage_sel file_backend_sel barrier_list_def op_bind_def op_return_def on_backend_def
        split: if_splits res.splits prod.splits dest!: file_list_same)
qed

section \<open>What a login means\<close>

abbreviation entry_certs :: "cert_entry \<Rightarrow> x509 list" where
  "entry_certs e \<equiv> en_certificate e @ en_ocsp_ca_certificates e"

text \<open>An entry that the storage has under some name.\<close>

definition known_entry :: "'k cert_env \<Rightarrow> 's storage_ops \<Rightarrow> request \<Rightarrow> 's cert_state \<Rightarrow> cert_entry \<Rightarrow> bool" where
  "known_entry E sops req a e \<longleftrightarrow> (\<exists>n. get_cert E sops req n a = (Ok (Some e), a))"

definition trust_of :: "'k cert_env \<Rightarrow> (cert_entry \<Rightarrow> bool) \<Rightarrow> bool \<Rightarrow> parsed_cert \<Rightarrow> bool" where
  "trust_of E P ca t \<longleftrightarrow>
     P (pc_entry t) \<and> pc_certs t = entry_certs (pc_entry t) \<and> en_certificate (pc_entry t) \<noteq> [] \<and>
     (is_ca_cert (ck_x509 E) (hd (en_certificate (pc_entry t))) \<longleftrightarrow> ca)"

definition trusts_of :: "'k cert_env \<Rightarrow> (cert_entry \<Rightarrow> bool) \<Rightarrow> trusts \<Rightarrow> bool" where
  "trusts_of E P ts \<longleftrightarrow>
     (case ts of (roots, trusted, non_ca, _) \<Rightarrow>
        (\<forall>t \<in> set trusted. trust_of E P True t) \<and> (\<forall>t \<in> set non_ca. trust_of E P False t) \<and>
        (\<forall>r \<in> set roots. \<exists>e. P e \<and> r \<in> set (entry_certs e)))"

lemma add_roots_Ok: "add_roots E cs roots = Ok rs \<Longrightarrow> rs = roots @ cs"
  by (induction cs arbitrary: roots) (fastforce simp: res_bind_Ok_iff)+

lemma add_trust_Ok:
  assumes "add_trust E e (roots, trusted, non_ca, oc) = Ok ts"
  shows "ts = (roots, trusted, non_ca, oc) \<or>
    en_certificate e \<noteq> [] \<and> (let t = \<lparr>pc_entry = e, pc_certs = entry_certs e\<rparr> in
      if is_ca_cert (ck_x509 E) (hd (en_certificate e)) then ts = (roots @ entry_certs e, trusted @ [t], non_ca, ocsp_of_entry e oc)
      else ts = (roots, trusted, non_ca @ [t], ocsp_of_entry e oc))"
proof (cases "en_certificate e")
  case (Cons c cs)
  then show ?thesis
    using assms by (auto simp: add_trust_def Let_def res_bind_Ok_iff simp del: add_roots.simps dest: add_roots_Ok)
qed (use assms in \<open>simp add: add_trust_def\<close>)

lemma add_trust_of:
  assumes "add_trust E e ts = Ok ts'" "trusts_of E P ts" "P e"
  shows "trusts_of E P ts'"
proof -
  obtain roots trusted non_ca oc where ts: "ts = (roots, trusted, non_ca, oc)" by (cases ts)
  show ?thesis
    using add_trust_Ok [OF assms(1) [unfolded ts]] assms(2,3) unfolding ts trusts_of_def trust_of_def Let_def
    by (auto split: if_splits)
qed

lemma validate_cert_Ok:
  assumes "validate_cert E roots (c # rest) = Ok chain"
  obtains ok err xs where "ck_verify_cert E roots c rest = Ok (ok, err, xs)"
    "ok \<Longrightarrow> chain = filter (client_usage (ck_x509 E)) (case xs of Some ys \<Rightarrow> ys | None \<Rightarrow> [])"
    "\<not> ok \<Longrightarrow> err \<in> {2, 20} \<and> ck_now E div int NANOS < xe_not_after (ck_x509 E) c \<and> chain = []"
  using assms that by (auto simp: validate_cert_def res_bind_Ok_iff split: if_splits)

lemma try_trusts_Inl: "try_trusts f ts errs = Ok (Inl t) \<Longrightarrow> t \<in> set ts \<and> f t = Some (Ok True)"
  by (induction ts arbitrary: errs) (auto split: option.splits res.splits bool.splits)

lemma matches_constraints_True:
  "matches_constraints E crls c chain t oc = Ok True \<longleftrightarrow>
     \<not> check_for_chain_in_crls E crls chain \<and> names_match E c (pc_entry t) \<and>
     matches_certificate_extensions E c (pc_entry t) = Ok True"
  by (auto simp: matches_constraints_def res_bind_Ok_iff check_for_cert_in_ocsp_def split: if_splits)

text \<open>What \<open>match_trusts\<close> accepts: a leaf by its serial number and the key of its issuer, or a chain.\<close>

lemma match_trusts_Ok:
  assumes "match_trusts E crls c chain (roots, trusted, non_ca, oc) = Ok t"
  shows "matches_certificate_extensions E c (pc_entry t) = Ok True \<and> names_match E c (pc_entry t) \<and>
    (t \<in> set non_ca \<and> pc_certs t \<noteq> [] \<and> same_leaf E c (hd (pc_certs t)) \<and> \<not> check_for_chain_in_crls E crls (pc_certs t) \<or>
     t \<in> set trusted \<and> (\<exists>crt \<in> set (pc_certs t). crt \<in> set chain) \<and> \<not> check_for_chain_in_crls E crls chain)"
proof -
  consider "try_trusts (try_leaf E crls c oc) non_ca [] = Ok (Inl t)"
    | errs where "try_trusts (try_chain E crls c chain oc) trusted errs = Ok (Inl t)"
    using assms by (fastforce simp: match_trusts_def res_bind_def split: res.splits sum.splits if_splits)
  then show ?thesis
  proof cases
    case 1
    from try_trusts_Inl [OF this] show ?thesis
      by (auto simp: try_leaf_def matches_constraints_True split: list.splits if_splits)
  next
    case 2
    from try_trusts_Inl [OF this] show ?thesis
      by (auto simp: try_chain_def matches_constraints_True list_ex_iff split: if_splits)
  qed
qed

context reading_storage
begin

lemma load_entries_Ok:
  assumes "load_entries E sops req ns ts a = (Ok ts', a')" "trusts_of E (known_entry E sops req a) ts"
  shows "a' = a \<and> trusts_of E (known_entry E sops req a) ts'"
  using assms
proof (induction ns arbitrary: ts a')
  case (Cons n ns)
  let ?n = "trim_start_matches ''cert/'' n"
  obtain r where g: "get_cert E sops req ?n a = (Ok r, a)"
    using Cons.prems(1) by (auto simp: op_bind_Ok simp del: trim_start_matches.simps dest: get_cert_same)
  show ?case
  proof (cases r)
    case None
    then show ?thesis using Cons g by (auto simp: op_bind_Ok simp del: trim_start_matches.simps)
  next
    case (Some e)
    then obtain ts1 where t: "add_trust E e ts = Ok ts1" "load_entries E sops req ns ts1 a = (Ok ts', a')"
      using Cons.prems(1) g by (auto simp: op_bind_Ok simp del: trim_start_matches.simps)
    have "known_entry E sops req a e" using g Some by (auto simp: known_entry_def)
    then show ?thesis using Cons.IH [OF t(2)] add_trust_of [OF t(1) Cons.prems(2)] by blast
  qed
qed simp

lemma load_trusted_certs_Ok:
  assumes "load_trusted_certs E sops req name a = (Ok ts, a')"
  shows "a' = a \<and> trusts_of E (known_entry E sops req a) ts"
proof -
  have e: "trusts_of E P ([], [], [], oc)" for P oc by (simp add: trusts_of_def)
  show ?thesis
    using assms e
    by (auto simp: load_trusted_certs_def op_bind_Ok simp del: load_entries.simps split: if_splits
        dest!: cert_list_same load_entries_Ok)
qed

end

text \<open>
  The two ways into the vault. A client certificate that is configured itself is recognised by its serial number and the
  key identifier of its issuer; any other one needs a chain that OpenSSL verified from configured authorities.
\<close>

definition leaf_trusted :: "'k cert_env \<Rightarrow> (string \<times> crl_info) list \<Rightarrow> x509 \<Rightarrow> cert_entry \<Rightarrow> bool" where
  "leaf_trusted E crls c e \<longleftrightarrow>
     \<not> is_ca_cert (ck_x509 E) (hd (en_certificate e)) \<and> same_leaf E c (hd (en_certificate e)) \<and>
     \<not> check_for_chain_in_crls E crls (entry_certs e)"

definition chain_trusted ::
  "'k cert_env \<Rightarrow> (cert_entry \<Rightarrow> bool) \<Rightarrow> (string \<times> crl_info) list \<Rightarrow> x509 \<Rightarrow> x509 list \<Rightarrow> cert_entry \<Rightarrow> bool" where
  "chain_trusted E known crls c rest e \<longleftrightarrow>
     is_ca_cert (ck_x509 E) (hd (en_certificate e)) \<and>
     (\<exists>roots err chain.
        (\<forall>r \<in> set roots. \<exists>e'. known e' \<and> r \<in> set (entry_certs e')) \<and> ck_verify_cert E roots c rest = Ok (True, err, Some chain) \<and>
        (\<exists>crt \<in> set (entry_certs e). crt \<in> set chain \<and> client_usage (ck_x509 E) crt) \<and>
        \<not> check_for_chain_in_crls E crls (filter (client_usage (ck_x509 E)) chain))"

lemma cert_auth_sel [simp]:
  "au_policies (cert_auth E c cn sn ext e) = tp_token_policies (en_token_params e)"
  "au_display_name (cert_auth E c cn sn ext e) = en_display_name e"
  "ttl (au_lease (cert_auth E c cn sn ext e)) = tp_token_ttl (en_token_params e)"
  "max_ttl (au_lease (cert_auth E c cn sn ext e)) = tp_token_max_ttl (en_token_params e)"
  by (simp_all add: cert_auth_def populate_token_auth_def)

context reading_storage
begin

lemma verify_credentials_Ok:
  assumes "verify_credentials E sops req a = (Ok t, a')"
  obtains c rest where "peer_certs req = c # rest" "a' = a" "known_entry E sops req a (pc_entry t)" "en_certificate (pc_entry t) \<noteq> []"
    "names_match E c (pc_entry t)" "matches_certificate_extensions E c (pc_entry t) = Ok True"
    "leaf_trusted E (cs_crls a) c (pc_entry t) \<or> chain_trusted E (known_entry E sops req a) (cs_crls a) c rest (pc_entry t)"
proof -
  let ?P = "known_entry E sops req a"
  obtain c rest where p: "peer_certs req = c # rest"
    using assms by (cases "peer_certs req") (auto simp: verify_credentials_def)
  obtain name ts chain where l: "load_trusted_certs E sops req name a = (Ok ts, a')" "validate_cert E (fst ts) (c # rest) = Ok chain"
    and m: "match_trusts E (cs_crls a') c chain ts = Ok t"
    using assms p by (auto simp: verify_credentials_def op_bind_Ok)
  have a': "a' = a" using load_trusted_certs_Ok [OF l(1)] by blast
  obtain roots trusted non_ca oc where ts: "ts = (roots, trusted, non_ca, oc)" by (cases ts)
  have P: "trusts_of E ?P ts" using load_trusted_certs_Ok [OF l(1)] by blast
  note M = match_trusts_Ok [OF m [unfolded ts a']]
  have "(t \<in> set non_ca \<longrightarrow> trust_of E ?P False t) \<and> (t \<in> set trusted \<longrightarrow> trust_of E ?P True t)"
    "\<forall>r \<in> set roots. \<exists>e. ?P e \<and> r \<in> set (entry_certs e)"
    using P ts by (auto simp: trusts_of_def)
  note T = this
  have e: "?P (pc_entry t)" "en_certificate (pc_entry t) \<noteq> []" using M T(1) by (auto simp: trust_of_def)
  have "leaf_trusted E (cs_crls a) c (pc_entry t) \<or> chain_trusted E ?P (cs_crls a) c rest (pc_entry t)"
  proof (cases "t \<in> set non_ca \<and> same_leaf E c (hd (pc_certs t)) \<and> \<not> check_for_chain_in_crls E (cs_crls a) (pc_certs t)")
    case True
    then show ?thesis using T(1) by (auto simp: leaf_trusted_def trust_of_def hd_append)
  next
    case False
    then have t: "trust_of E ?P True t" "\<exists>crt \<in> set (pc_certs t). crt \<in> set chain"
      "\<not> check_for_chain_in_crls E (cs_crls a) chain" using M T(1) by auto
    obtain ok err xs where v: "ck_verify_cert E roots c rest = Ok (ok, err, xs)"
      "ok \<Longrightarrow> chain = filter (client_usage (ck_x509 E)) (case xs of Some ys \<Rightarrow> ys | None \<Rightarrow> [])" "\<not> ok \<Longrightarrow> chain = []"
      using validate_cert_Ok [OF l(2) [unfolded ts fst_conv]] by metis
    then obtain ys where y: "ok" "xs = Some ys" "chain = filter (client_usage (ck_x509 E)) ys"
      using t(2) by (cases ok; cases xs) auto
    have "ck_verify_cert E roots c rest = Ok (True, err, Some ys)" using v(1) y by simp
    moreover have "\<exists>crt \<in> set (entry_certs (pc_entry t)). crt \<in> set ys \<and> client_usage (ck_x509 E) crt"
      using t(1,2) y(3) by (auto simp: trust_of_def)
    moreover have "is_ca_cert (ck_x509 E) (hd (en_certificate (pc_entry t)))" using t(1) by (simp add: trust_of_def)
    ultimately show ?thesis using t(3) y(3) T(2) unfolding chain_trusted_def by blast
  qed
  then show ?thesis using that [OF p a' e] M by blast
qed

lemma cert_login_Ok:
  assumes "cert_login E sops (a, req) = (Ok o1, st')"
  obtains c rest e cn sn ext conn where "o1 = Some (response_new\<lparr>rs_auth := Some (cert_auth E c cn sn ext e)\<rparr>)" "st' = (a, req)"
    "rq_connection req = Some conn" "peer_certs req = c # rest" "known_entry E sops req a e" "en_certificate e \<noteq> []"
    "check_login_addr E (peer_addr conn) e = Ok ()"
    "names_match E c e" "matches_certificate_extensions E c e = Ok True"
    "leaf_trusted E (cs_crls a) c e \<or> chain_trusted E (known_entry E sops req a) (cs_crls a) c rest e"
proof -
  obtain a' where st': "st' = (a', req)" using assms by (cases st') (auto simp: on_state_def cert_login_def split: prod.splits)
  obtain cfg a1 conn c rest cn sn t ext where g: "get_config E sops req a = (Ok cfg, a1)" and conn: "rq_connection req = Some conn"
    and p: "peer_certs req = c # rest" and v: "verify_credentials E sops req a1 = (Ok t, a')"
    and ad: "check_login_addr E (peer_addr conn) (pc_entry t) = Ok ()"
    and o1: "o1 = Some (response_new\<lparr>rs_auth := Some (cert_auth E c cn sn ext (pc_entry t))\<rparr>)"
    using assms unfolding st' cert_login_def on_state_def
    by (auto simp: op_bind_Ok split: prod.splits if_splits option.splits list.splits)
  show ?thesis
    by (rule verify_credentials_Ok [OF v [unfolded get_config_same [OF g]]]) (use that [OF o1 _ conn p _ _ ad] p st' in auto)
qed

end

text \<open>
  C12: who gets in with a certificate. When a login answers with authentication data, its display name, policies and
  times to live are those of an entry of the storage, all whose constraints on names, organisational units, extensions and
  addresses hold for the client certificate; and either the entry's certificate is not an authority and has the serial
  number and the issuer's key identifier of the client certificate, or the entry's certificate is an authority and
  OpenSSL verified a chain that has a certificate of the entry, from roots that are all certificates of entries. No
  certificate of the chain with client usage (in the first case, none of the entry) is on a cached revocation list.
\<close>

theorem cert_login_sound:
  assumes "cert_login E (vault_ops C ser de root) (a, req) = (Ok o1, st')"
  shows "st' = (a, req) \<and>
    (\<exists>c rest e au conn. peer_certs req = c # rest \<and> o1 = Some (response_new\<lparr>rs_auth := Some au\<rparr>) \<and>
      known_entry E (vault_ops C ser de root) req a e \<and>
      au_policies au = tp_token_policies (en_token_params e) \<and> au_display_name au = en_display_name e \<and>
      ttl (au_lease au) = tp_token_ttl (en_token_params e) \<and> max_ttl (au_lease au) = tp_token_max_ttl (en_token_params e) \<and>
      rq_connection req = Some conn \<and> check_login_addr E (peer_addr conn) e = Ok () \<and>
      names_match E c e \<and> matches_certificate_extensions E c e = Ok True \<and>
      (leaf_trusted E (cs_crls a) c e \<or>
       chain_trusted E (known_entry E (vault_ops C ser de root) req a) (cs_crls a) c rest e))"
proof -
  obtain c rest e cn sn ext conn where *: "o1 = Some (response_new\<lparr>rs_auth := Some (cert_auth E c cn sn ext e)\<rparr>)" "st' = (a, req)"
    "rq_connection req = Some conn" "peer_certs req = c # rest" "known_entry E (vault_ops C ser de root) req a e"
    "check_login_addr E (peer_addr conn) e = Ok ()" "names_match E c e" "matches_certificate_extensions E c e = Ok True"
    "leaf_trusted E (cs_crls a) c e \<or> chain_trusted E (known_entry E (vault_ops C ser de root) req a) (cs_crls a) c rest e"
    by (rule rd.cert_login_Ok [OF assms])
  show ?thesis
    by (intro conjI exI [of _ c] exI [of _ rest] exI [of _ e] exI [of _ conn] exI [of _ "cert_auth E c cn sn ext e"])
      (use * in simp_all)
qed

section \<open>Configured leaf certificates\<close>

lemma named_trusts:
  assumes "name \<noteq> []" "get_cert E sops req (trim_start_matches ''cert/'' name) a = (Ok (Some e), a)" "en_certificate e = crt # others"
    "\<not> is_ca_cert (ck_x509 E) crt"
  shows "load_trusted_certs E sops req name a =
    (Ok ([], [], [\<lparr>pc_entry = e, pc_certs = entry_certs e\<rparr>], ocsp_of_entry e ocsp_config_default), a)"
  using assms by (simp add: load_trusted_certs_def op_bind_def add_trust_def Let_def op_res_def op_return_def
      del: trim_start_matches.simps)

lemma leaf_login:
  assumes cfg: "get_config E sops req a = (Ok (Some cfg), a)"
    and conn: "rq_connection req = Some conn" "peer_tls_cert conn = Some (c # rest)"
    and entry: "login_cert_name E req = Ok name" "name \<noteq> []" "get_cert E sops req (trim_start_matches ''cert/'' name) a = (Ok (Some e), a)"
      "en_certificate e = crt # others" "\<not> is_ca_cert (ck_x509 E) crt"
    and leaf: "same_leaf E c crt" "\<not> check_for_chain_in_crls E (cs_crls a) (entry_certs e)"
    and unknown: "ck_verify_cert E [] c rest = Ok (False, err, xs)" "err \<in> {2, 20}" "ck_now E div int NANOS < xe_not_after (ck_x509 E) c"
    and constraints: "names_match E c e" "matches_certificate_extensions E c e = Ok True" "check_login_addr E (peer_addr conn) e = Ok ()"
    and data: "(case ck_common_name E c of None \<Rightarrow> Ok [] | Some r \<Rightarrow> r) = Ok cn" "ck_dec_str E (xe_serial (ck_x509 E) c) = Ok sn"
      "certificate_extensions_metadata E c e = Ok ext"
  shows "cert_login E sops (a, req) = (Ok (Some (response_new\<lparr>rs_auth := Some (cert_auth E c cn sn ext e)\<rparr>)), (a, req))"
proof -
  let ?t = "\<lparr>pc_entry = e, pc_certs = entry_certs e\<rparr>"
  have p: "peer_certs req = c # rest" using conn by (simp add: peer_certs_def)
  have "validate_cert E [] (c # rest) = Ok []" using unknown by (auto simp: validate_cert_def)
  moreover have "try_leaf E (cs_crls a) c oc ?t = Some (Ok True)" for oc
    using leaf constraints(1,2) entry(4) by (simp add: try_leaf_def matches_constraints_True)
  then have "match_trusts E (cs_crls a) c [] ([], [], [?t], oc) = Ok ?t" for oc by (simp add: match_trusts_def)
  ultimately have "verify_credentials E sops req a = (Ok ?t, a)"
    using p entry(1) named_trusts [OF entry(2-5)] by (simp add: verify_credentials_def op_bind_def op_res_def)
  then show ?thesis
    using cfg conn p data constraints(3) by (simp add: cert_login_def on_state_def op_bind_def op_res_def op_return_def)
qed

text \<open>
  C38: a certificate that is configured itself is not compared with the one the client has. Take a configured backend and
  an entry, named in the login, whose first certificate is not an authority, has an authority key identifier and whose
  certificates are in no revocation list. A certificate with the same serial number and the same authority key identifier,
  made by whom and with whatever key, logs in with the policies of the entry, provided that OpenSSL ends its
  verification with the error that the issuer is not found (20), that it has not expired, that its names and its
  extensions pass the constraints of the entry and the address of the client its bound blocks, and that its common name,
  serial number and the extensions for the metadata can be read.
\<close>

theorem leaf_certificate_forged:
  assumes "get_config E (vault_ops C ser de root) req a = (Ok (Some cfg), a)"
    and "rq_connection req = Some conn" "peer_tls_cert conn = Some (forged # rest)"
    and "login_cert_name E req = Ok name" "name \<noteq> []"
      "get_cert E (vault_ops C ser de root) req (trim_start_matches ''cert/'' name) a = (Ok (Some e), a)"
      "en_certificate e = crt # others" "\<not> is_ca_cert (ck_x509 E) crt"
    and "xe_serial (ck_x509 E) forged = xe_serial (ck_x509 E) crt" "ck_authority_key_id E forged = ck_authority_key_id E crt"
      "ck_authority_key_id E crt \<noteq> None" "\<not> check_for_chain_in_crls E (cs_crls a) (entry_certs e)"
    and "ck_verify_cert E [] forged rest = Ok (False, 20, xs)" "ck_now E div int NANOS < xe_not_after (ck_x509 E) forged"
    and "names_match E forged e" "matches_certificate_extensions E forged e = Ok True" "check_login_addr E (peer_addr conn) e = Ok ()"
    and "(case ck_common_name E forged of None \<Rightarrow> Ok [] | Some r \<Rightarrow> r) = Ok cn" "ck_dec_str E (xe_serial (ck_x509 E) forged) = Ok sn"
      "certificate_extensions_metadata E forged e = Ok ext"
  shows "\<exists>au. cert_login E (vault_ops C ser de root) (a, req) = (Ok (Some (response_new\<lparr>rs_auth := Some au\<rparr>)), (a, req)) \<and>
    au_policies au = tp_token_policies (en_token_params e)"
  using leaf_login [OF assms(1-8) _ assms(12,13) _ assms(14-20)] assms(9-11) by (auto simp: same_leaf_def)

section \<open>Revocation\<close>

lemma chain_in_crls:
  assumes "ck_dec_str E (xe_serial (ck_x509 E) c) = Ok s" "(n, ci) \<in> set crls" "to_lowercase s \<in> set (ci_serials ci)" "c \<in> set chain"
  shows "check_for_chain_in_crls E crls chain"
  using assms
  by (auto simp: check_for_chain_in_crls_def list_ex_iff find_serial_in_crls_def filter_empty_conv intro!: bexI [of _ c])
    force

lemma revoked_serials_Ok:
  assumes "revoked_serials E ns ss = Ok ss'"
  shows "set ss \<subseteq> set ss' \<and> (\<forall>n \<in> set ns. \<forall>s. ck_dec_str E n = Ok s \<longrightarrow> to_lowercase s \<in> set ss')"
  using assms
proof (induction ns arbitrary: ss)
  case (Cons n ns)
  then obtain s where s: "ck_dec_str E n = Ok s" "revoked_serials E ns (List.insert (to_lowercase s) ss) = Ok ss'"
    by (auto simp: res_bind_Ok_iff)
  then show ?case using Cons.IH [OF s(2)] by auto
qed simp

text \<open>The list that a request brings, or that it points to.\<close>

definition submitted_crl :: "'k cert_env \<Rightarrow> request \<Rightarrow> nat list option res" where
  "submitted_crl E req =
     (case get_data (ck_parsers E) req ''crl'' of
        Ok v \<Rightarrow> ck_crl_from_pem E (ck_utf8 E (the (as_str v)))
      | _ \<Rightarrow>
          (case get_data (ck_parsers E) req ''url'' of
             Ok v \<Rightarrow> res_bind (ck_http_get E (the (as_str v))) (\<lambda>body. ck_crl_from_pem E (ck_utf8 E body))
           | _ \<Rightarrow> Panic))"

lemma write_crl_Ok:
  assumes "write_crl E sops (a, req) = (Ok o1, st')"
  obtains name crl cdp a' where "st' = (a', req)" "crl_name E req = Ok name" "submitted_crl E req = Ok crl"
    "set_crl E sops req (Some crl) name cdp a = (Ok (), a')"
proof -
  obtain a' where st': "st' = (a', req)" using assms by (cases st') (auto simp: on_state_def write_crl_def split: prod.splits)
  let ?text = "get_data (ck_parsers E) req ''crl''" and ?url = "get_data (ck_parsers E) req ''url''"
  note run = assms [unfolded st' write_crl_def on_state_Ok op_bind_Ok snd_conv fst_conv]
  show ?thesis
  proof (cases ?text)
    case (Ok v)
    then show ?thesis using run that [OF st'] by (auto simp: submitted_crl_def op_bind_Ok split: option.splits)
  next
    case (Err e)
    then show ?thesis
      using run that [OF st'] by (cases ?url) (auto simp: submitted_crl_def fetch_crl_def op_bind_Ok split: option.splits if_splits)
  qed (use run in auto)
qed

lemma set_crl_Ok:
  assumes "set_crl E sops req (Some crl) name cdp a = (Ok (), a')"
  obtains a1 a2 ci where "update_crl_cache E sops req a = (Ok (), a1)"
    "cert_store (rq_storage_put sops req \<lparr>se_key = crl_key name, se_value = ck_enc_crl E ci\<rparr>) a1 = (Ok (), a2)"
    "a' = a2\<lparr>cs_crls := AList.update name ci (cs_crls a2)\<rparr>"
    "\<And>ns n s. crl = Some ns \<Longrightarrow> n \<in> set ns \<Longrightarrow> ck_dec_str E n = Ok s \<Longrightarrow> to_lowercase s \<in> set (ci_serials ci)"
proof -
  obtain a1 a2 ss where "update_crl_cache E sops req a = (Ok (), a1)"
    "revoked_serials E (case crl of Some ns \<Rightarrow> ns | None \<Rightarrow> []) [] = Ok ss"
    "cert_store (rq_storage_put sops req \<lparr>se_key = crl_key name, se_value = ck_enc_crl E \<lparr>ci_cdp = cdp, ci_serials = ss\<rparr>\<rparr>) a1 = (Ok (), a2)"
    "a' = a2\<lparr>cs_crls := AList.update name \<lparr>ci_cdp = cdp, ci_serials = ss\<rparr> (cs_crls a2)\<rparr>"
    using assms by (auto simp: set_crl_def op_bind_Ok Let_def cached_crl_def split: option.splits)
  then show ?thesis using that [of a1 "\<lparr>ci_cdp = cdp, ci_serials = ss\<rparr>" a2] revoked_serials_Ok by fastforce
qed

text \<open>A list that was written is in the cache, with every serial number of it.\<close>

lemma write_crl_cached:
  assumes "write_crl E sops (a, r1) = (Ok o1, (a1, r1'))" "submitted_crl E r1 = Ok (Some ns)" "n \<in> set ns" "ck_dec_str E n = Ok s"
  obtains name ci where "(name, ci) \<in> set (cs_crls a1)" "to_lowercase s \<in> set (ci_serials ci)"
proof -
  obtain name crl cdp a' where w: "(a1, r1') = (a', r1)" "submitted_crl E r1 = Ok crl" "set_crl E sops r1 (Some crl) name cdp a = (Ok (), a')"
    by (rule write_crl_Ok [OF assms(1)])
  obtain a2 ci where "a' = a2\<lparr>cs_crls := AList.update name ci (cs_crls a2)\<rparr>" "to_lowercase s \<in> set (ci_serials ci)"
    by (rule set_crl_Ok [OF w(3)]) (use w(2) assms(2-4) in auto)
  then have "map_of (cs_crls a1) name = Some ci" using w(1) by (simp add: update_conv')
  then show ?thesis using that \<open>to_lowercase s \<in> set (ci_serials ci)\<close> map_of_SomeD by fast
qed

text \<open>
  C13: after a revocation list was accepted, no certificate with one of its serial numbers logs in, neither as a
  configured certificate nor through an authority. For the second, the certificate has to have client usage (or no extended
  usages), and OpenSSL has to put the certificate first in the chain that it verifies.
\<close>

theorem revoked_certificate_refused:
  assumes "write_crl E (vault_ops C ser de root) (a, r1) = (Ok o1, (a1, r1'))" "submitted_crl E r1 = Ok (Some ns)"
    and "peer_certs req = c # rest" "xe_serial (ck_x509 E) c \<in> set ns" "ck_dec_str E (xe_serial (ck_x509 E) c) = Ok s"
    and "client_usage (ck_x509 E) c"
      "\<forall>roots err ch. ck_verify_cert E roots c rest = Ok (True, err, ch) \<longrightarrow> (\<exists>xs. ch = Some (c # xs))"
  shows "\<not> is_ok (fst (cert_login E (vault_ops C ser de root) (a1, req)))"
proof
  assume "is_ok (fst (cert_login E (vault_ops C ser de root) (a1, req)))"
  then obtain o2 st' where l: "cert_login E (vault_ops C ser de root) (a1, req) = (Ok o2, st')"
    by (auto simp: is_ok_iff prod_eq_iff)
  obtain e known where e: "en_certificate e \<noteq> []" "leaf_trusted E (cs_crls a1) c e \<or> chain_trusted E known (cs_crls a1) c rest e"
    by (rule rd.cert_login_Ok [OF l]) (use assms(3) in auto)
  obtain name ci where n: "(name, ci) \<in> set (cs_crls a1)" "to_lowercase s \<in> set (ci_serials ci)"
    by (rule write_crl_cached [OF assms(1,2,4,5)])
  have bad: "check_for_chain_in_crls E (cs_crls a1) chain"
    if "c' \<in> set chain" "xe_serial (ck_x509 E) c' = xe_serial (ck_x509 E) c" for c' chain
    using chain_in_crls [of E c' s, OF _ n that(1)] assms(5) that(2) by simp
  show False
    using e(2)
  proof
    assume "leaf_trusted E (cs_crls a1) c e"
    then show False
      using bad [of "hd (en_certificate e)" "entry_certs e"] e(1) by (simp add: leaf_trusted_def same_leaf_def)
  next
    assume "chain_trusted E known (cs_crls a1) c rest e"
    then show False
      using bad [of c] assms(6,7) unfolding chain_trusted_def by fastforce
  qed
qed

section \<open>The lists after a restart\<close>

locale cert_storage = storage_view sops valid stored ready v + reading_storage sops
  for sops :: "'s storage_ops" and valid stored ready v

interpretation fcv: cert_storage "barrier_storage C (file_backend ser de root)" "barrier_valid file_key"
  "barrier_stored C (file_contents de root)" "barrier_ready C file_key (file_contents de root) (file_invar ser de root)" v
  for C ser de root v
  by unfold_locales

lemma clearing_simps [simp]:
  "clearing (op_return x) = op_return x" "clearing (op_fail e) a = (Err e, a\<lparr>cs_crls := []\<rparr>)"
  by (auto simp: clearing_def op_return_def op_fail_def)

context reading_storage
begin

lemma load_crls_store: "load_crls E sops req ns a = (r, a') \<Longrightarrow> cs_store a' = cs_store a"
proof (induction ns arbitrary: a)
  case (Cons n ns)
  have c: "cs_store a2 = cs_store a1" if "clearing (cert_store (rq_storage_get sops req k)) a1 = (x, a2)" for k x a1 a2
    using that by (auto simp: clearing_def split: prod.splits res.splits dest: cert_get_same)
  have n: "cs_store a2 = cs_store a1" if "cached_crl k ci a1 = (x, a2)" for k ci x a1 a2
    using that by (auto simp: cached_crl_def)
  show ?case
    using Cons.prems
    by (auto simp: op_bind_def op_return_def split: prod.splits res.splits option.splits dest!: c n Cons.IH)
qed simp

lemma update_crl_cache_store: "update_crl_cache E sops req a = (r, a') \<Longrightarrow> cs_store a' = cs_store a"
  by (auto simp: update_crl_cache_def op_bind_def split: if_splits prod.splits res.splits dest!: cert_list_same load_crls_store)

end

text \<open>A login by name depends on the storage through the configuration and the entry of that name only.\<close>

lemma named_login_cong:
  assumes "login_cert_name E req = Ok name" "name \<noteq> []" "cs_crls a' = cs_crls a"
    and "get_config E sops req a = (r, a)" "get_config E sops req a' = (r, a')"
    and "get_cert E sops req (trim_start_matches ''cert/'' name) a = (q, a)"
      "get_cert E sops req (trim_start_matches ''cert/'' name) a' = (q, a')"
  shows "fst (cert_login E sops (a', req)) = fst (cert_login E sops (a, req))"
proof -
  have "fst (load_trusted_certs E sops req name b) =
      (case q of Ok None \<Rightarrow> Ok ([], [], [], ocsp_config_default) | Ok (Some e) \<Rightarrow> add_trust E e ([], [], [], ocsp_config_default)
       | Err x \<Rightarrow> Err x | Panic \<Rightarrow> Panic) \<and> snd (load_trusted_certs E sops req name b) = b" if "b = a \<or> b = a'" for b
    using that assms(2,6,7)
    by (auto simp: load_trusted_certs_def op_bind_def op_return_def op_res_def simp del: trim_start_matches.simps
        split: res.splits option.splits)
  then obtain T where t: "load_trusted_certs E sops req name a = (T, a)" "load_trusted_certs E sops req name a' = (T, a')"
    by (metis prod.collapse)
  have "fst (verify_credentials E sops req a') = fst (verify_credentials E sops req a) \<and>
      snd (verify_credentials E sops req a') = a' \<and> snd (verify_credentials E sops req a) = a"
    using t assms(1,3)
    by (cases "peer_certs req"; cases T)
      (auto simp: verify_credentials_def op_bind_def op_res_def op_fail_def split: res.splits)
  then obtain V where v: "verify_credentials E sops req a = (V, a)" "verify_credentials E sops req a' = (V, a')"
    by (metis prod.collapse)
  show ?thesis
    using v assms(4,5)
    by (auto simp: cert_login_def on_state_def op_bind_def op_res_def op_fail_def op_return_def
        split: res.splits option.splits list.splits prod.splits)
qed

context cert_storage
begin

lemma write_crl_stored:
  assumes "ready (cs_store a)" "rq_storage r1 = Some v" "crl_name E r1 = Ok name" "view_valid valid v (crl_key name)"
    "write_crl E sops (a, r1) = (Ok o1, (a1, r1'))"
  obtains ci where "ready (cs_store a1)" "\<And>k. view_valid valid v k \<Longrightarrow>
      view_stored stored v (cs_store a1) k = ((view_stored stored v (cs_store a))(crl_key name \<mapsto> ck_enc_crl E ci)) k"
proof -
  obtain crl cdp where w: "set_crl E sops r1 (Some crl) name cdp a = (Ok (), a1)"
    by (rule write_crl_Ok [OF assms(5)]) (use assms(3) in auto)
  obtain a2 a3 ci where u: "update_crl_cache E sops r1 a = (Ok (), a2)"
    and p: "cert_store (rq_storage_put sops r1 \<lparr>se_key = crl_key name, se_value = ck_enc_crl E ci\<rparr>) a2 = (Ok (), a3)"
    and a1: "a1 = a3\<lparr>cs_crls := AList.update name ci (cs_crls a3)\<rparr>"
    by (rule set_crl_Ok [OF w]) blast
  have "cs_store a2 = cs_store a" using update_crl_cache_store [OF u] .
  then show ?thesis
    using view_put_stored [OF assms(1,4), of "ck_enc_crl E ci"] p that [of ci] assms(2) a1
    by (auto simp: cert_store_def rq_storage_put_def on_storage_def split: prod.splits)
qed

lemma cert_get:
  assumes "ready (cs_store a)" "rq_storage req = Some v" "view_valid valid v k"
  shows "cert_store (rq_storage_get sops req k) a =
    (Ok (map_option (\<lambda>x. \<lparr>se_key = k, se_value = x\<rparr>) (view_stored stored v (cs_store a) k)), a)"
  using view_get_stored [OF assms(1,3)] assms(2) by (simp add: cert_store_def rq_storage_get_def on_storage_def)

lemma get_cert_cong:
  assumes "ready (cs_store a)" "ready (cs_store a')" "rq_storage req = Some v" "view_valid valid v (cert_entry_key (to_lowercase n))"
    "view_stored stored v (cs_store a') (cert_entry_key (to_lowercase n)) = view_stored stored v (cs_store a) (cert_entry_key (to_lowercase n))"
  shows "\<exists>q. get_cert E sops req n a = (q, a) \<and> get_cert E sops req n a' = (q, a')"
  using cert_get [OF assms(1,3,4)] cert_get [OF assms(2,3,4)] assms(5)
  by (auto simp: get_cert_def op_bind_def op_return_def op_fail_def op_res_def split: option.splits res.splits)

lemma get_config_cong:
  assumes "ready (cs_store a)" "ready (cs_store a')" "rq_storage req = Some v" "view_valid valid v ''config''"
    "view_stored stored v (cs_store a') ''config'' = view_stored stored v (cs_store a) ''config''"
  shows "\<exists>q. get_config E sops req a = (q, a) \<and> get_config E sops req a' = (q, a')"
  using cert_get [OF assms(1,3,4)] cert_get [OF assms(2,3,4)] assms(5)
  by (auto simp: get_config_def op_bind_def op_return_def op_fail_def op_res_def split: option.splits res.splits)

lemma login_after_restart:
  assumes R: "ready (cs_store a)" "cs_crls a = []" "rq_storage r1 = Some v" "crl_name E r1 = Ok lname" "view_valid valid v (crl_key lname)"
    and w: "write_crl E sops (a, r1) = (Ok o1, (a1, r1'))"
    and L: "rq_storage req = Some v" "login_cert_name E req = Ok name" "name \<noteq> []" "view_valid valid v ''config''"
      "view_valid valid v (cert_entry_key (to_lowercase (trim_start_matches ''cert/'' name)))"
  shows "fst (cert_login E sops (a1\<lparr>cs_crls := []\<rparr>, req)) = fst (cert_login E sops (a, req))"
proof -
  let ?a = "a1\<lparr>cs_crls := []\<rparr>"
  obtain ci where s: "ready (cs_store ?a)" "\<And>k. view_valid valid v k \<Longrightarrow> k \<noteq> crl_key lname \<Longrightarrow>
      view_stored stored v (cs_store ?a) k = view_stored stored v (cs_store a) k"
    by (rule write_crl_stored [OF R(1,3,4,5) w]) auto
  have "''config'' \<noteq> crl_key lname" "cert_entry_key n \<noteq> crl_key lname" for n by (simp_all add: crl_key_def cert_entry_key_def)
  then show ?thesis
    using get_config_cong [OF R(1) s(1) L(1,4) s(2) [OF L(4)]] get_cert_cong [OF R(1) s(1) L(1,5) s(2) [OF L(5)]]
      named_login_cong [OF L(2,3), where a = a and a' = ?a and sops = sops] R(2) by fastforce
qed

end

text \<open>
  A login does not read the revocation lists of the storage. When the vault is started again, or the credential
  backend is made anew, its cache is empty until some request for a list: a login by name that succeeded before the list
  was written succeeds again, with the same answer.
\<close>

theorem revocation_forgotten_at_restart:
  assumes "barrier_ready C file_key (file_contents de root) (file_invar ser de root) (cs_store a)" "cs_crls a = []"
    and "rq_storage r1 = Some v" "crl_name E r1 = Ok lname" "vault_key v (crl_key lname)"
      "write_crl E (vault_ops C ser de root) (a, r1) = (Ok o1, (a1, r1'))"
    and "rq_storage req = Some v" "login_cert_name E req = Ok name" "name \<noteq> []" "vault_key v ''config''"
      "vault_key v (cert_entry_key (to_lowercase (trim_start_matches ''cert/'' name)))"
  shows "fst (cert_login E (vault_ops C ser de root) (a1\<lparr>cs_crls := []\<rparr>, req)) = fst (cert_login E (vault_ops C ser de root) (a, req))"
  by (rule fcv.login_after_restart [OF assms])

section \<open>The cache of revocation lists\<close>

definition crl_eq :: "crl_info \<Rightarrow> crl_info \<Rightarrow> bool" where
  "crl_eq x y \<longleftrightarrow> ci_cdp x = ci_cdp y \<and> set (ci_serials x) = set (ci_serials y)"

text \<open>The lists that the contents of a view have, and a cache that has them all and no other ones.\<close>

definition stored_crl :: "'k cert_env \<Rightarrow> (string \<Rightarrow> bytes option) \<Rightarrow> string \<Rightarrow> crl_info option" where
  "stored_crl E m n = Option.bind (m (crl_key n)) (ck_dec_crl E)"

definition crls_agree :: "'k cert_env \<Rightarrow> (string \<Rightarrow> bool) \<Rightarrow> (string \<Rightarrow> bytes option) \<Rightarrow> (string \<times> crl_info) list \<Rightarrow> bool" where
  "crls_agree E ok m crls \<longleftrightarrow> (\<forall>n. ok (crl_key n) \<longrightarrow> rel_option crl_eq (map_of crls n) (stored_crl E m n))"

definition no_subfolders :: "string set \<Rightarrow> bool" where
  "no_subfolders dirs \<longleftrightarrow> (\<forall>d \<in> dirs. starts_with d ''crls/'' \<longrightarrow> d = ''crls/'')"

text \<open>The JSON form of a list gives it back, up to the order of the serial numbers.\<close>

definition crl_codec :: "'k cert_env \<Rightarrow> bool" where
  "crl_codec E \<longleftrightarrow>
     (\<forall>ci. (\<forall>d. ci_cdp ci = Some d \<longrightarrow> cdp_valid_until d = 0) \<longrightarrow> (\<exists>ci'. ck_dec_crl E (ck_enc_crl E ci) = Some ci' \<and> crl_eq ci ci'))"

lemma crl_eq_refl [simp]: "crl_eq x x"
  by (simp add: crl_eq_def)

lemma rel_option_refl [simp]: "rel_option crl_eq x x"
  by (cases x) simp_all

definition crl_inv ::
  "'k cert_env \<Rightarrow> (string \<Rightarrow> bool) \<Rightarrow> (string \<Rightarrow> bytes option) \<Rightarrow> string set \<Rightarrow> (string \<times> crl_info) list \<Rightarrow> bool" where
  "crl_inv E ok m dirs crls \<longleftrightarrow> no_subfolders dirs \<and> (crls = [] \<or> crls_agree E ok m crls)"

lemma lists_folder_entry:
  assumes "lists_folder ok has fld dirs p names" "n \<in> set names"
  shows "n \<noteq> [] \<and> (if ends_with n ''/'' then p @ n \<in> dirs else ok (p @ n) \<and> has (p @ n))"
  using assms unfolding lists_folder_def by (metis (full_types))

lemma lists_folder_key:
  assumes "lists_folder ok has fld dirs p names" "ok k" "has k" "starts_with k p"
  shows "\<exists>n \<in> set names. if ends_with n ''/'' then starts_with k (p @ n) else k = p @ n"
  using assms unfolding lists_folder_def by blast

context listing_view
begin

abbreviation vdirs :: "'s cert_state \<Rightarrow> string set" where
  "vdirs a \<equiv> {d. expand_key v d \<in> subdirs (cs_store a)}"

abbreviation vst :: "'s cert_state \<Rightarrow> string \<Rightarrow> bytes option" where
  "vst a \<equiv> view_stored stored v (cs_store a)"

definition crl_state :: "'k cert_env \<Rightarrow> 's cert_state \<Rightarrow> bool" where
  "crl_state E a \<longleftrightarrow> ready (cs_store a) \<and> crl_inv E (view_valid valid v) (vst a) (vdirs a) (cs_crls a)"

lemma vget:
  assumes "ready (cs_store a)" "rq_storage req = Some v" "view_valid valid v k"
  shows "cert_store (rq_storage_get sops req k) a = (Ok (map_option (\<lambda>x. \<lparr>se_key = k, se_value = x\<rparr>) (vst a k)), a)"
  using sv.view_get_stored [OF assms(1,3)] assms(2) by (simp add: cert_store_def rq_storage_get_def on_storage_def)

lemma load_crls_spec:
  assumes "ready (cs_store a)" "rq_storage req = Some v" "\<forall>n \<in> set ns. view_valid valid v (crl_key n) \<and> vst a (crl_key n) \<noteq> None"
  obtains r a' where "load_crls E sops req ns a = (r, a')" "cs_store a' = cs_store a" "r \<noteq> Ok () \<Longrightarrow> cs_crls a' = []"
    "r = Ok () \<Longrightarrow> (\<forall>n. map_of (cs_crls a') n = (if n \<in> set ns then stored_crl E (vst a) n else map_of (cs_crls a) n))"
  using assms
proof (induction ns arbitrary: a thesis)
  case (Cons n ns)
  obtain x where x: "vst a (crl_key n) = Some x" using Cons.prems(4) by auto
  have g: "cert_store (rq_storage_get sops req (crl_key n)) a = (Ok (Some \<lparr>se_key = crl_key n, se_value = x\<rparr>), a)"
    using vget [OF Cons.prems(2,3), of "crl_key n"] Cons.prems(4) x by simp
  show ?case
  proof (cases "ck_dec_crl E x")
    case None
    then have "load_crls E sops req (n # ns) a = (Err (External SerdeJson ''invalid list''), a\<lparr>cs_crls := []\<rparr>)"
      using g by (simp add: op_bind_def clearing_def op_fail_def)
    then show ?thesis by (rule Cons.prems(1)) simp_all
  next
    case (Some ci)
    let ?a = "a\<lparr>cs_crls := AList.update n ci (cs_crls a)\<rparr>"
    have l: "load_crls E sops req (n # ns) a = load_crls E sops req ns ?a"
      using g Some by (simp add: op_bind_def clearing_def op_return_def cached_crl_def)
    have r: "ready (cs_store ?a)" "\<forall>n \<in> set ns. view_valid valid v (crl_key n) \<and> vst ?a (crl_key n) \<noteq> None"
      using Cons.prems(2,4) by simp_all
    obtain r a' where L: "load_crls E sops req ns ?a = (r, a')" "cs_store a' = cs_store a" "r \<noteq> Ok () \<Longrightarrow> cs_crls a' = []"
      "r = Ok () \<Longrightarrow> (\<forall>k. map_of (cs_crls a') k = (if k \<in> set ns then stored_crl E (vst a) k else map_of (cs_crls ?a) k))"
      by (rule Cons.IH [OF _ r(1) Cons.prems(3) r(2)]) auto
    show ?thesis
    proof (rule Cons.prems(1) [OF _ L(2,3)])
      show "load_crls E sops req (n # ns) a = (r, a')" unfolding l by (rule L(1))
      assume "r = Ok ()"
      then show "\<forall>k. map_of (cs_crls a') k = (if k \<in> set (n # ns) then stored_crl E (vst a) k else map_of (cs_crls a) k)"
        using L(4) x Some by (simp add: update_conv' stored_crl_def)
    qed
  qed
qed simp

text \<open>After an update of the cache that succeeds, the cache has all the lists of the storage.\<close>

lemma update_crl_cache_spec:
  assumes I: "crl_state E a" and q: "rq_storage req = Some v" "folder (expand_key v ''crls/'')"
  obtains r a' where "update_crl_cache E sops req a = (r, a')" "crl_state E a'" "cs_store a' = cs_store a"
    "r = Ok () \<Longrightarrow> crls_agree E (view_valid valid v) (vst a') (cs_crls a')"
proof (cases "cs_crls a = []")
  case True
  have R: "ready (cs_store a)" using I by (simp add: crl_state_def)
  obtain names where l: "view_list sops v ''crls/'' (cs_store a) = (Ok names, cs_store a)"
    and n: "lists_folder (view_valid valid v) (\<lambda>k. vst a k \<noteq> None) (\<lambda>p. folder (expand_key v p)) (vdirs a) ''crls/'' names"
    using view_list_stored [OF R q(2)] by blast
  have flat: "no_subfolders (vdirs a)" using I by (simp add: crl_state_def crl_inv_def)
  have nm: "n \<noteq> [] \<and> (if ends_with n ''/'' then ''crls/'' @ n \<in> vdirs a else view_valid valid v (crl_key n) \<and> vst a (crl_key n) \<noteq> None)"
    if "n \<in> set names" for n
    unfolding crl_key_def by (rule lists_folder_entry [OF n that])
  have no: "\<not> ends_with n ''/''" if "n \<in> set names" for n
  proof
    assume e: "ends_with n ''/''"
    have "starts_with (''crls/'' @ n) ''crls/''" by (simp add: starts_with_iff_prefix)
    moreover have "''crls/'' @ n \<in> vdirs a" using nm [OF that] e by metis
    ultimately have "''crls/'' @ n = ''crls/''" using flat unfolding no_subfolders_def by blast
    then show False using nm [OF that] by simp
  qed
  have nv: "\<forall>n \<in> set names. view_valid valid v (crl_key n) \<and> vst a (crl_key n) \<noteq> None" using nm no by simp
  have all: "n \<in> set names" if k: "view_valid valid v (crl_key n)" "vst a (crl_key n) \<noteq> None" for n
  proof -
    have "starts_with (crl_key n) ''crls/''" by (simp add: crl_key_def starts_with_iff_prefix)
    then obtain m where "m \<in> set names" "if ends_with m ''/'' then starts_with (crl_key n) (''crls/'' @ m) else crl_key n = ''crls/'' @ m"
      using lists_folder_key [OF n k] by blast
    then show ?thesis using no [of m] by (simp add: crl_key_def)
  qed
  obtain r a' where L: "load_crls E sops req names a = (r, a')" "cs_store a' = cs_store a" "r \<noteq> Ok () \<Longrightarrow> cs_crls a' = []"
    "r = Ok () \<Longrightarrow> (\<forall>n. map_of (cs_crls a') n = (if n \<in> set names then stored_crl E (vst a) n else map_of (cs_crls a) n))"
    by (rule load_crls_spec [OF R q(1) nv, where E = E]) blast
  have u: "update_crl_cache E sops req a = (r, a')"
    using True l q(1) L(1) by (simp add: update_crl_cache_def op_bind_def cert_store_def rq_storage_list_def on_storage_def)
  have ag: "crls_agree E (view_valid valid v) (vst a') (cs_crls a')" if "r = Ok ()"
    unfolding crls_agree_def
  proof (intro allI impI)
    fix n assume "view_valid valid v (crl_key n)"
    then have "map_of (cs_crls a') n = stored_crl E (vst a) n"
      using L(4) [OF that] all [of n] True by (cases "n \<in> set names"; cases "vst a (crl_key n)") (auto simp: stored_crl_def)
    then show "rel_option crl_eq (map_of (cs_crls a') n) (stored_crl E (vst a') n)" using L(2) by simp
  qed
  have "crl_state E a'"
    using I L(2,3) ag by (cases "r = Ok ()") (auto simp: crl_state_def crl_inv_def)
  then show ?thesis using that u L(2) ag by blast
next
  case False
  then show ?thesis using that [of "Ok ()" a] I by (auto simp: update_crl_cache_def crl_state_def crl_inv_def)
qed

text \<open>Without lists in the storage the cache stays empty.\<close>

lemma update_crl_cache_none:
  assumes "crl_state E a" "rq_storage req = Some v" "folder (expand_key v ''crls/'')" "cs_crls a = []"
    "\<And>n. view_valid valid v (crl_key n) \<Longrightarrow> vst a (crl_key n) = None"
  shows "update_crl_cache E sops req a = (Ok (), a)"
proof -
  have R: "ready (cs_store a)" "no_subfolders (vdirs a)" using assms(1) by (simp_all add: crl_state_def crl_inv_def)
  obtain names where l: "view_list sops v ''crls/'' (cs_store a) = (Ok names, cs_store a)"
    and n: "lists_folder (view_valid valid v) (\<lambda>k. vst a k \<noteq> None) (\<lambda>p. folder (expand_key v p)) (vdirs a) ''crls/'' names"
    using view_list_stored [OF R(1) assms(3)] by blast
  have "names = []"
  proof (rule ccontr)
    assume "names \<noteq> []"
    then obtain m where m: "m \<in> set names" by (cases names) auto
    note e = lists_folder_entry [OF n m]
    have "starts_with (''crls/'' @ m) ''crls/''" by (simp add: starts_with_iff_prefix)
    then have "ends_with m ''/'' \<Longrightarrow> ''crls/'' @ m = ''crls/''" using e R(2) unfolding no_subfolders_def by metis
    then show False using e assms(5) [of m] unfolding crl_key_def by (metis append_self_conv)
  qed
  then show ?thesis
    using l assms(2,4) by (simp add: update_crl_cache_def op_bind_def cert_store_def rq_storage_list_def on_storage_def)
qed

lemma lv_put_stored:
  assumes "ready s" "view_valid valid v k"
  shows "\<exists>s'. view_put sops v \<lparr>se_key = k, se_value = x\<rparr> s = (Ok (), s') \<and> ready s' \<and>
    (\<forall>k'. view_valid valid v k' \<longrightarrow> view_stored stored v s' k' = ((view_stored stored v s)(k \<mapsto> x)) k')"
  using sv.view_put_stored [OF assms] by blast

lemma vput:
  assumes "ready (cs_store a)" "rq_storage req = Some v" "view_valid valid v k"
  obtains s where "cert_store (rq_storage_put sops req \<lparr>se_key = k, se_value = x\<rparr>) a = (Ok (), a\<lparr>cs_store := s\<rparr>)" "ready s"
    "\<And>k'. view_valid valid v k' \<Longrightarrow> view_stored stored v s k' = ((vst a)(k \<mapsto> x)) k'"
    "\<And>d. expand_key v d \<in> subdirs s \<Longrightarrow> d \<in> vdirs a \<or> folder_of k d"
proof -
  obtain s where s: "view_put sops v \<lparr>se_key = k, se_value = x\<rparr> (cs_store a) = (Ok (), s)" "ready s"
    "\<And>k'. view_valid valid v k' \<Longrightarrow> view_stored stored v s k' = ((vst a)(k \<mapsto> x)) k'"
    using sv.view_put_stored [OF assms(1,3), of x] by blast
  have "d \<in> vdirs a \<or> folder_of k d" if "expand_key v d \<in> subdirs s" for d
    using lv.put_subdirs [OF assms(1,3), unfolded view_storage_sel, OF s(1)] that by blast
  then show ?thesis using that s assms(2) by (simp add: cert_store_def rq_storage_put_def on_storage_def)
qed

lemma vdelete:
  assumes "ready (cs_store a)" "rq_storage req = Some v" "view_valid valid v k"
  obtains s where "cert_store (rq_storage_delete sops req k) a = (Ok (), a\<lparr>cs_store := s\<rparr>)" "ready s"
    "\<And>k'. view_valid valid v k' \<Longrightarrow> view_stored stored v s k' = ((vst a)(k := None)) k'"
    "\<And>d. expand_key v d \<in> subdirs s \<Longrightarrow> d \<in> vdirs a"
proof -
  obtain s where s: "view_delete sops v k (cs_store a) = (Ok (), s)" "ready s"
    "\<And>k'. view_valid valid v k' \<Longrightarrow> view_stored stored v s k' = ((vst a)(k := None)) k'"
    using sv.view_delete_stored [OF assms(1,3)] by blast
  have "d \<in> vdirs a" if "expand_key v d \<in> subdirs s" for d
    using lv.delete_subdirs [of k "cs_store a", unfolded view_storage_sel, OF s(1)] that by blast
  then show ?thesis using that s assms(2) by (simp add: cert_store_def rq_storage_delete_def on_storage_def)
qed

lemma set_crl_inv:
  assumes I: "crl_state E a" and q: "rq_storage req = Some v" "folder (expand_key v ''crls/'')" and E: "crl_codec E"
    and n: "view_valid valid v (crl_key n)" "CHR ''/'' \<notin> set n" and c: "\<forall>d. cdp = Some d \<longrightarrow> cdp_valid_until d = 0"
    and run: "set_crl E sops req crl n cdp a = (r, a')"
  shows "crl_state E a'"
proof -
  obtain r1 a1 where u: "update_crl_cache E sops req a = (r1, a1)" "crl_state E a1"
    "r1 = Ok () \<Longrightarrow> crls_agree E (view_valid valid v) (vst a1) (cs_crls a1)"
    by (rule update_crl_cache_spec [OF I q]) blast
  show ?thesis
  proof (cases "r1 = Ok () \<and> is_ok (revoked_serials E (case crl of Some (Some ns) \<Rightarrow> ns | _ \<Rightarrow> []) [])")
    case True
    then obtain ss where ss: "revoked_serials E (case crl of Some (Some ns) \<Rightarrow> ns | _ \<Rightarrow> []) [] = Ok ss" by (auto simp: is_ok_iff)
    let ?ci = "\<lparr>ci_cdp = cdp, ci_serials = ss\<rparr>"
    have R: "ready (cs_store a1)" "no_subfolders (vdirs a1)" using u(2) by (simp_all add: crl_state_def crl_inv_def)
    obtain s where s: "cert_store (rq_storage_put sops req \<lparr>se_key = crl_key n, se_value = ck_enc_crl E ?ci\<rparr>) a1 = (Ok (), a1\<lparr>cs_store := s\<rparr>)"
      "ready s" "\<And>k. view_valid valid v k \<Longrightarrow> view_stored stored v s k = ((vst a1)(crl_key n \<mapsto> ck_enc_crl E ?ci)) k"
      "\<And>d. expand_key v d \<in> subdirs s \<Longrightarrow> d \<in> vdirs a1 \<or> folder_of (crl_key n) d"
      by (rule vput [OF R(1) q(1) n(1)]) blast
    have a': "a' = a1\<lparr>cs_store := s, cs_crls := AList.update n ?ci (cs_crls a1)\<rparr>"
      using run u(1) True ss s(1) by (simp add: set_crl_def op_bind_def op_res_def cached_crl_def Let_def)
    have "d = ''crls/''" if d: "folder_of (crl_key n) d" "starts_with d ''crls/''" for d
    proof -
      obtain t where t: "d = ''crls/'' @ t" using d(2) by (auto elim: starts_withE)
      then have "prefix t n" "ends_with d ''/''" using d(1) by (auto simp: folder_of_def crl_key_def starts_with_iff_prefix)
      moreover from this(2) have "t = [] \<or> CHR ''/'' \<in> set t"
        using t by (cases t rule: rev_cases) (simp_all add: ends_with_iff)
      ultimately show ?thesis using t n(2) by (metis append_Nil2 set_mono_prefix subsetD)
    qed
    then have "no_subfolders (vdirs a')" using R(2) s(4) a' by (auto simp: no_subfolders_def)
    moreover have "rel_option crl_eq (map_of (cs_crls a') k) (stored_crl E (vst a') k)" if k: "view_valid valid v (crl_key k)" for k
    proof (cases "k = n")
      case True
      obtain ci' where "ck_dec_crl E (ck_enc_crl E ?ci) = Some ci'" "crl_eq ?ci ci'"
        using E [unfolded crl_codec_def, rule_format, of ?ci] c by auto
      then show ?thesis using True a' s(3) [OF n(1)] by (simp add: update_conv' stored_crl_def)
    next
      case False
      then show ?thesis
        using a' s(3) [OF k] u(3) True k \<open>r1 = Ok () \<and> _\<close>
        by (simp add: update_conv' stored_crl_def crls_agree_def crl_key_def)
    qed
    ultimately show ?thesis using s(2) a' by (simp add: crl_state_def crl_inv_def crls_agree_def)
  next
    case False
    then have "a' = a1"
      using run u(1) by (cases r1) (auto simp: set_crl_def op_bind_def op_res_def is_ok_iff split: res.splits)
    then show ?thesis using u(2) by simp
  qed
qed

definition good_crl_name :: "'k cert_env \<Rightarrow> request \<Rightarrow> bool" where
  "good_crl_name E req \<longleftrightarrow> (\<forall>n. crl_name E req = Ok n \<longrightarrow> view_valid valid v (crl_key n) \<and> CHR ''/'' \<notin> set n)"

lemma write_crl_state:
  assumes "crl_state E a" "rq_storage req = Some v" "folder (expand_key v ''crls/'')" "crl_codec E" "good_crl_name E req"
    "write_crl E sops (a, req) = (r, (a', req'))"
  shows "crl_state E a'"
proof -
  have step: "crl_state E a2"
    if "set_crl E sops req crl n cdp a = (r1, a2)" "crl_name E req = Ok n" "\<forall>d. cdp = Some d \<longrightarrow> cdp_valid_until d = 0" for crl n cdp r1 a2
    using set_crl_inv [OF assms(1-4) _ _ that(3,1)] assms(5) that(2) by (simp add: good_crl_name_def)
  show ?thesis
    using assms(1,6)
    by (cases "get_data (ck_parsers E) req ''crl''"; cases "get_data (ck_parsers E) req ''url''")
      (auto simp: write_crl_def on_state_def fetch_crl_def op_bind_def op_res_def op_fail_def op_return_def
        split: prod.splits res.splits option.splits if_splits intro: step)
qed

lemma read_crl_state:
  assumes "crl_state E a" "rq_storage req = Some v" "folder (expand_key v ''crls/'')" "read_crl E sops (a, req) = (r, (a', req'))"
  shows "crl_state E a'"
proof -
  obtain r1 a1 where u: "update_crl_cache E sops req a = (r1, a1)" "crl_state E a1"
    by (rule update_crl_cache_spec [OF assms(1-3)]) blast
  have "a' = a \<or> a' = a1"
    using assms(4) u(1)
    by (auto simp: read_crl_def on_state_def op_bind_def op_res_def split: prod.splits res.splits option.splits)
  then show ?thesis using assms(1) u(2) by blast
qed

lemma delete_crl_state:
  assumes I: "crl_state E a" and q: "rq_storage req = Some v" "folder (expand_key v ''crls/'')" and n: "good_crl_name E req"
    and run: "delete_crl E sops (a, req) = (r, (a', req'))"
  shows "crl_state E a'"
proof -
  obtain r1 a1 where u: "update_crl_cache E sops req a = (r1, a1)" "crl_state E a1"
    "r1 = Ok () \<Longrightarrow> crls_agree E (view_valid valid v) (vst a1) (cs_crls a1)"
    by (rule update_crl_cache_spec [OF I q]) blast
  consider "a' = a" | "a' = a1"
    | name r2 a2 where "crl_name E req = Ok name" "r1 = Ok ()" "cert_store (rq_storage_delete sops req (crl_key (to_lowercase name))) a1 = (r2, a2)"
      "a' = (if r2 = Ok () then a2\<lparr>cs_crls := AList.delete name (cs_crls a2)\<rparr> else a2)"
    using run u(1)
    by (auto simp: delete_crl_def on_state_def op_bind_def op_res_def split: prod.splits res.splits if_splits)
  then show ?thesis
  proof cases
    case 3
    have R: "ready (cs_store a1)" "no_subfolders (vdirs a1)" using u(2) by (simp_all add: crl_state_def crl_inv_def)
    have l: "to_lowercase name = name" using 3(1) by (auto simp: crl_name_def res_bind_Ok_iff to_lowercase_idem split: if_splits)
    have nv: "view_valid valid v (crl_key name)" using n 3(1) by (simp add: good_crl_name_def)
    obtain s where s: "cert_store (rq_storage_delete sops req (crl_key name)) a1 = (Ok (), a1\<lparr>cs_store := s\<rparr>)" "ready s"
      "\<And>k. view_valid valid v k \<Longrightarrow> view_stored stored v s k = ((vst a1)(crl_key name := None)) k"
      "\<And>d. expand_key v d \<in> subdirs s \<Longrightarrow> d \<in> vdirs a1"
      by (rule vdelete [OF R(1) q(1) nv]) blast
    have a': "a' = a1\<lparr>cs_store := s, cs_crls := AList.delete name (cs_crls a1)\<rparr>" using 3(3,4) s(1) l by auto
    have "rel_option crl_eq (map_of (cs_crls a') k) (stored_crl E (vst a') k)" if k: "view_valid valid v (crl_key k)" for k
      using u(3) [OF 3(2)] s(3) [OF k] k a' by (auto simp: crls_agree_def stored_crl_def delete_conv' crl_key_def)
    then show ?thesis using a' s(2,4) R(2) by (auto simp: crl_state_def crl_inv_def crls_agree_def no_subfolders_def)
  qed (use I u(2) in simp_all)
qed

text \<open>What is written or deleted elsewhere does not touch the lists.\<close>

lemma elsewhere_state:
  assumes I: "crl_state E a" and q: "rq_storage req = Some v" "view_valid valid v k" "\<not> starts_with k ''crls/''"
  shows "cert_store (rq_storage_put sops req \<lparr>se_key = k, se_value = x\<rparr>) a = (r, a') \<Longrightarrow> crl_state E a'"
    and "cert_store (rq_storage_delete sops req k) a = (r, a') \<Longrightarrow> crl_state E a'"
proof -
  have R: "ready (cs_store a)" using I by (simp add: crl_state_def)
  have k: "crl_key n \<noteq> k" for n using q(3) by (auto simp: crl_key_def starts_with_iff_prefix)
  have d: "\<not> (folder_of k d \<and> starts_with d ''crls/'')" for d
    using q(3) by (auto simp: folder_of_def starts_with_iff_prefix dest: prefix_order.trans)
  have st: "crl_state E (a\<lparr>cs_store := s\<rparr>)"
    if "ready s" "\<And>k'. view_valid valid v k' \<Longrightarrow> view_stored stored v s k' = ((vst a)(k := y)) k'"
      "\<And>d. expand_key v d \<in> subdirs s \<Longrightarrow> d \<in> vdirs a \<or> folder_of k d" for s y
  proof -
    have "no_subfolders {d. expand_key v d \<in> subdirs s}"
      using I that(3) d unfolding crl_state_def crl_inv_def no_subfolders_def by blast
    then show ?thesis using I that(1,2) k by (auto simp: crl_state_def crl_inv_def crls_agree_def stored_crl_def)
  qed
  show "crl_state E a'" if "cert_store (rq_storage_put sops req \<lparr>se_key = k, se_value = x\<rparr>) a = (r, a')"
    by (rule vput [OF R q(1,2), of x]) (use that st in auto)
  show "crl_state E a'" if "cert_store (rq_storage_delete sops req k) a = (r, a')"
    by (rule vdelete [OF R q(1,2)]) (use that st in auto)
qed

end

text \<open>The handlers that only read.\<close>

context reading_storage
begin

lemma load_entries_same: "load_entries E sops req ns ts a = (r, a') \<Longrightarrow> a' = a"
proof (induction ns arbitrary: ts)
  case (Cons n ns)
  obtain q where g: "get_cert E sops req (trim_start_matches ''cert/'' n) a = (q, a)" using get_cert_same by (metis surj_pair)
  show ?case
    using Cons.prems Cons.IH g
    by (cases q) (auto simp: op_bind_def op_res_def simp del: trim_start_matches.simps split: option.splits res.splits)
qed simp

lemma load_trusted_certs_same: "load_trusted_certs E sops req name a = (r, a') \<Longrightarrow> a' = a"
  by (auto simp: load_trusted_certs_def op_bind_def op_return_def split: if_splits prod.splits res.splits
      dest!: cert_list_same load_entries_same simp del: load_entries.simps)

lemma verify_credentials_same: "verify_credentials E sops req a = (r, a') \<Longrightarrow> a' = a"
  by (auto simp: verify_credentials_def op_bind_def op_res_def op_fail_def split: list.splits prod.splits res.splits
      dest!: load_trusted_certs_same)

lemma check_binding_same: "check_binding E sops req au a = (r, a') \<Longrightarrow> a' = a"
  by (auto simp: check_binding_def op_bind_def op_return_def op_fail_def
      split: list.splits prod.splits res.splits option.splits if_splits dest!: verify_credentials_same)

lemma reads_keep:
  "read_config E sops (a, req) = (r, (a', req')) \<Longrightarrow> a' = a"
  "read_cert E sops (a, req) = (r, (a', req')) \<Longrightarrow> a' = a"
  "list_cert sops (a, req) = (r, (a', req')) \<Longrightarrow> a' = a"
  "list_crl sops (a, req) = (r, (a', req')) \<Longrightarrow> a' = a"
  by (auto simp: read_config_def read_cert_def list_cert_def list_crl_def on_state_def op_bind_def op_res_def op_return_def
      split: prod.splits res.splits option.splits dest!: get_config_same get_cert_same cert_list_same)

lemma login_keeps: "cert_login E sops (a, req) = (r, (a', req')) \<Longrightarrow> a' = a"
  by (auto simp: cert_login_def on_state_def op_bind_def op_res_def op_return_def op_fail_def
      split: prod.splits res.splits option.splits list.splits if_splits dest!: get_config_same verify_credentials_same)

lemma renewal_keeps: "cert_login_renew E sops (a, req) = (r, (a', req')) \<Longrightarrow> a' = a"
  by (auto simp: cert_login_renew_def on_state_def op_bind_def op_res_def op_return_def op_fail_def Let_def
      split: prod.splits res.splits option.splits if_splits dest!: get_config_same check_binding_same get_cert_same)

end

text \<open>Runs of the backend: requests, in any order, and restarts, after which the cache is empty.\<close>

definition cert_handlers :: "'k cert_env \<Rightarrow> 's storage_ops \<Rightarrow> 's cert_state handler set" where
  "cert_handlers E sops =
     insert (cert_login_renew E sops) {h. \<exists>p \<in> set (lb_paths (cert_new_backend E sops)). \<exists>op. (op, h) \<in> set (bp_operations p)}"

inductive cert_step :: "'k cert_env \<Rightarrow> 's storage_ops \<Rightarrow> (request \<Rightarrow> bool) \<Rightarrow> 's cert_state \<Rightarrow> 's cert_state \<Rightarrow> bool"
  for E sops ok where
  handled: "h \<in> cert_handlers E sops \<Longrightarrow> ok req \<Longrightarrow> h (a, req) = (r, (a', req')) \<Longrightarrow> cert_step E sops ok a a'"
| restarted: "cert_step E sops ok a (a\<lparr>cs_crls := []\<rparr>)"

lemma cert_handlers_eq:
  "cert_handlers E sops =
     {cert_login_renew E sops, read_config E sops, write_config E sops, read_cert E sops, write_cert E sops,
      delete_cert_entry E sops, list_cert sops, read_crl E sops, write_crl E sops, delete_crl E sops, list_crl sops, cert_login E sops}"
  by (auto simp: cert_handlers_def cert_new_backend_def config_path_def certs_path_def certs_list_path_def crl_path_def
      crl_list_path_def cert_login_path_def new_path_def Let_def)

definition usable_names :: "(string \<Rightarrow> bool) \<Rightarrow> 'k cert_env \<Rightarrow> request \<Rightarrow> bool" where
  "usable_names ok E req \<longleftrightarrow>
     (\<forall>n. crl_name E req = Ok n \<longrightarrow> ok (crl_key n) \<and> CHR ''/'' \<notin> set n) \<and>
     (\<forall>n. cert_entry_name E req = Ok n \<longrightarrow> ok (cert_entry_key n))"

context listing_view
begin

lemma cert_writes_state:
  assumes rd: "reading_storage sops" and I: "crl_state E a"
    and q: "rq_storage req = Some v" "usable_names (view_valid valid v) E req" "view_valid valid v ''config''"
  shows "write_config E sops (a, req) = (r, (a', req')) \<Longrightarrow> crl_state E a'"
    and "write_cert E sops (a, req) = (r, (a', req')) \<Longrightarrow> crl_state E a'"
    and "delete_cert_entry E sops (a, req) = (r, (a', req')) \<Longrightarrow> crl_state E a'"
proof -
  have k: "\<not> starts_with ''config'' ''crls/''" "\<not> starts_with (cert_entry_key n) ''crls/''" for n
    by (simp_all add: cert_entry_key_def starts_with_iff_prefix)
  have cn: "view_valid valid v (cert_entry_key n)" if "cert_entry_name E req = Ok n" for n
    using q(2) that by (simp add: usable_names_def)
  note S = elsewhere_state [OF I q(1)]
  note same = reading_storage.get_config_same [OF rd] reading_storage.get_cert_same [OF rd]
  show "crl_state E a'" if "write_config E sops (a, req) = (r, (a', req'))"
    using that I
    by (auto simp: write_config_def set_config_def on_state_def op_bind_def op_res_def op_return_def
        split: prod.splits res.splits option.splits dest!: same intro: S(1) [OF q(3) k(1)])
  show "crl_state E a'" if "write_cert E sops (a, req) = (r, (a', req'))"
    using that I
    by (auto simp: write_cert_def set_cert_def on_state_def op_bind_def op_res_def op_return_def
        split: prod.splits res.splits dest!: same intro: S(1) [OF cn k(2)])
  show "crl_state E a'" if "delete_cert_entry E sops (a, req) = (r, (a', req'))"
    using that I
    by (auto simp: delete_cert_entry_def on_state_def op_bind_def op_res_def op_return_def
        split: prod.splits res.splits intro: S(2) [OF cn k(2)])
qed

lemma cert_step_state:
  assumes rd: "reading_storage sops" and E: "crl_codec E" "folder (expand_key v ''crls/'')" "view_valid valid v ''config''"
    and step: "cert_step E sops (\<lambda>req. rq_storage req = Some v \<and> usable_names (view_valid valid v) E req) a a'"
    and I: "crl_state E a"
  shows "crl_state E a'"
  using step
proof cases
  case (handled h req r req')
  have g: "good_crl_name E req" using handled(2) by (simp add: usable_names_def good_crl_name_def)
  note keep = reading_storage.reads_keep [OF rd] reading_storage.login_keeps [OF rd] reading_storage.renewal_keeps [OF rd]
  note q = conjunct1 [OF handled(2)] conjunct2 [OF handled(2)]
  from handled(1) consider (reads) "h \<in> {cert_login_renew E sops, read_config E sops, read_cert E sops, list_cert sops, list_crl sops, cert_login E sops}"
    | (cfg) "h = write_config E sops" | (cert) "h = write_cert E sops" | (del) "h = delete_cert_entry E sops"
    | (rcrl) "h = read_crl E sops" | (wcrl) "h = write_crl E sops" | (dcrl) "h = delete_crl E sops"
    unfolding cert_handlers_eq by blast
  then show ?thesis
  proof cases
    case reads
    then have "a' = a" using handled(3) by (auto dest: keep)
    then show ?thesis using I by simp
  next
    case cfg
    show ?thesis by (rule cert_writes_state(1) [OF rd I q E(3) handled(3) [unfolded cfg]])
  next
    case cert
    show ?thesis by (rule cert_writes_state(2) [OF rd I q E(3) handled(3) [unfolded cert]])
  next
    case del
    show ?thesis by (rule cert_writes_state(3) [OF rd I q E(3) handled(3) [unfolded del]])
  next
    case rcrl
    show ?thesis by (rule read_crl_state [OF I q(1) E(2) handled(3) [unfolded rcrl]])
  next
    case wcrl
    show ?thesis by (rule write_crl_state [OF I q(1) E(2,1) g handled(3) [unfolded wcrl]])
  next
    case dcrl
    show ?thesis by (rule delete_crl_state [OF I q(1) E(2) g handled(3) [unfolded dcrl]])
  qed
next
  case restarted
  then show ?thesis using I by (simp add: crl_state_def crl_inv_def)
qed

end

text \<open>
  C23: the cache of revocation lists agrees with the storage. From a state with an empty cache and no subfolder among the
  lists, through any requests to the backend and any restarts: the cache is empty, or it has exactly the lists of the
  storage, each with its distribution point and serial numbers.
\<close>

theorem crl_cache_agrees:
  assumes "clean_folder (bv_prefix v)" "bv_prefix v \<noteq> []" "\<not> starts_with BARRIER_INIT_PATH (bv_prefix v)"
    and "clean_folder (bv_prefix v @ ''crls/'')" "clean_key (bv_prefix v @ ''config'')"
    and "crl_codec E" "vault_ready C ser de root (cs_store a)" "cs_crls a = []"
      "no_subfolders {d. expand_key v d \<in> file_subdirs root (b_backend (cs_store a))}"
    and "(cert_step E (vault_ops C ser de root)
      (\<lambda>req. rq_storage req = Some v \<and> usable_names (view_valid (barrier_valid clean_key) v) E req))\<^sup>*\<^sup>* a a'"
  shows "cs_crls a' = [] \<or>
    crls_agree E (view_valid (barrier_valid clean_key) v) (view_stored (barrier_stored C (file_contents de root)) v (cs_store a'))
      (cs_crls a')"
proof -
  note LV = listing_view_files [OF assms(1-3), of C ser de root]
  have rd: "reading_storage (vault_ops C ser de root)" by unfold_locales
  have n: "\<not> starts_with BARRIER_INIT_PATH (expand_key v k)" for k
    using assms(3) by (auto simp: expand_key_def starts_with_iff_prefix dest: append_prefixD)
  then have f: "barrier_folder clean_folder (expand_key v ''crls/'')"
    using assms(4) by (simp add: barrier_folder_def expand_key_def)
  have "expand_key v ''config'' \<noteq> BARRIER_INIT_PATH" using n [of "''config''"] by (auto simp: starts_with_iff_prefix)
  then have c: "view_valid (barrier_valid clean_key) v ''config''"
    unfolding listing_view.view_valid_iff [OF LV] using assms(5) by (simp add: barrier_valid_def expand_key_def)
  have "listing_view.crl_state (barrier_valid clean_key) (barrier_stored C (file_contents de root)) (vault_ready C ser de root)
      (\<lambda>s. file_subdirs root (b_backend s)) v E a"
    unfolding listing_view.crl_state_def [OF LV] using assms(7-9) by (simp add: crl_inv_def)
  with assms(10) have "listing_view.crl_state (barrier_valid clean_key) (barrier_stored C (file_contents de root)) (vault_ready C ser de root)
      (\<lambda>s. file_subdirs root (b_backend s)) v E a'"
    by (induction rule: rtranclp_induct) (blast intro: listing_view.cert_step_state [OF LV rd assms(6) f c])+
  then show ?thesis unfolding listing_view.crl_state_def [OF LV] by (simp add: crl_inv_def)
qed

section \<open>Witnesses\<close>

text \<open>
  A certificate is its serial number, whether it is an authority, the key of its issuer and its own key, a byte each. One
  entry can be stored, with a configured leaf certificate; a revocation list has the serial number seven, and numbers are
  printed in unary.
\<close>

definition demo_cert_x509 :: "(x509, unit) x509_env" where
  "demo_cert_x509 =
     \<lparr>xe_tongsuo = False, xe_default = [], xe_key_default = (), xe_public_matches = (\<lambda>_ _. Ok True),
      xe_check_ca = (\<lambda>c. if hd (tl c) = 1 then 1 else 0), xe_subject_key_id = (\<lambda>c. Some [last c]), xe_serial = (\<lambda>c. unat (hd c)),
      xe_serial_hex = (\<lambda>_. Ok []), xe_subject_name = (\<lambda>_. []), xe_not_after = (\<lambda>_. 100), xe_not_after_text = (\<lambda>_. []),
      xe_before = (\<lambda>_ u. Ok (100 < u)), xe_ext_flags = (\<lambda>_. False), xe_ext_key_usage = (\<lambda>_. 0), xe_name_entry = (\<lambda>_ _. True),
      xe_asn1 = (\<lambda>_. Ok ()), xe_extension = (\<lambda>_ _. Ok ()), xe_sign = (\<lambda>_ _ _ _ _. Ok []), xe_rand_serial = (\<lambda>n. n),
      xe_rsa_key = (\<lambda>_ _. Ok ()), xe_ec_key = (\<lambda>_ _. Ok ()), xe_pem = Ok, xe_of_pem = Ok, xe_der = Ok, xe_of_der = Ok,
      xe_key_pem = (\<lambda>_. Ok []), xe_key_of_pem = (\<lambda>_. Ok ()), xe_key_of_der = (\<lambda>_. Ok ()), xe_key_kind = (\<lambda>_. ''rsa''),
      xe_lossy = (\<lambda>_. []), xe_timestamp = (\<lambda>_. None)\<rparr>"

definition demo_cert_entry :: cert_entry where
  "demo_cert_entry = cert_entry_default\<lparr>en_name := ''web'', en_certificate := [[7, 0, 1, 9]],
     en_token_params := token_params_default\<lparr>tp_token_policies := [''admin'']\<rparr>\<rparr>"

definition crl_code :: "crl_info \<Rightarrow> (string \<times> nat) option \<times> string list" where
  "crl_code ci = (map_option (\<lambda>d. (cdp_url d, cdp_valid_until d)) (ci_cdp ci), ci_serials ci)"

definition crl_decode :: "(string \<times> nat) option \<times> string list \<Rightarrow> crl_info" where
  "crl_decode c = \<lparr>ci_cdp = map_option (\<lambda>(u, t). \<lparr>cdp_url = u, cdp_valid_until = t\<rparr>) (fst c), ci_serials = snd c\<rparr>"

lemma crl_decode_code [simp]: "crl_decode (crl_code ci) = ci"
  by (cases "ci_cdp ci") (simp_all add: crl_decode_def crl_code_def)

definition demo_certs :: "unit cert_env" where
  "demo_certs =
     \<lparr>ck_x509 = demo_cert_x509, ck_ip = demo_no_ip, ck_parsers = (\<lambda>_. None, \<lambda>_. None), ck_now = 0, ck_utf8 = (\<lambda>_. []),
      ck_base64 = (\<lambda>_. []), ck_dec_str = (\<lambda>n. Ok (replicate n CHR ''i'')), ck_stack_from_pem = (\<lambda>_. Ok []),
      ck_crl_from_pem = (\<lambda>_. Ok (Some [7])), ck_http_get = (\<lambda>_. Ok []), ck_url_parse = (\<lambda>_. Ok ()), ck_common_name = (\<lambda>_. None),
      ck_organizational_unit = (\<lambda>_. None), ck_authority_key_id = (\<lambda>c. Some [c ! 2]), ck_alt_names = (\<lambda>_. None),
      ck_extensions = (\<lambda>_. []), ck_octet_string = Ok, ck_pattern = (\<lambda>_. None), ck_add_root = (\<lambda>_ _. Ok ()),
      ck_verify_cert = (\<lambda>roots c _. if roots = [] then Ok (False, 20, None) else Ok (True, 0, Some (c # roots))),
      ck_verify_text = (\<lambda>_. []), ck_show_errors = (\<lambda>_. []), ck_enc_config = (\<lambda>_. []), ck_dec_config = (\<lambda>_. Some cert_config_default),
      ck_enc_crl = (\<lambda>ci. num_bytes (crl_code ci)), ck_dec_crl = (\<lambda>b. Some (crl_decode (from_nat (length b)))),
      ck_enc_entry = (\<lambda>_. []), ck_dec_entry = (\<lambda>_. Some demo_cert_entry)\<rparr>"

lemma demo_certs_sel [simp]:
  "ck_x509 demo_certs = demo_cert_x509" "ck_parsers demo_certs = (\<lambda>_. None, \<lambda>_. None)" "ck_now demo_certs = 0"
  "ck_dec_str demo_certs n = Ok (replicate n CHR ''i'')" "ck_crl_from_pem demo_certs b = Ok (Some [7])"
  "ck_common_name demo_certs c = None" "ck_authority_key_id demo_certs c = Some [c ! 2]"
  "ck_verify_cert demo_certs roots c rest = (if roots = [] then Ok (False, 20, None) else Ok (True, 0, Some (c # roots)))"
  "ck_dec_entry demo_certs b = Some demo_cert_entry" "ck_dec_config demo_certs b = Some cert_config_default"
  "ck_dec_crl demo_certs (ck_enc_crl demo_certs ci) = Some ci"
  by (simp_all add: demo_certs_def)

lemma demo_cert_x509_sel [simp]:
  "xe_serial demo_cert_x509 c = unat (hd c)" "xe_check_ca demo_cert_x509 c = (if hd (tl c) = 1 then 1 else 0)"
  "xe_not_after demo_cert_x509 c = 100" "xe_ext_flags demo_cert_x509 c = False" "xe_of_pem demo_cert_x509 b = Ok b"
  by (simp_all add: demo_cert_x509_def)

lemma demo_crl_codec: "crl_codec demo_certs"
  by (simp add: crl_codec_def)

definition demo_cert_login :: "x509 \<Rightarrow> request" where
  "demo_cert_login c =
     (request_new ''login'')\<lparr>rq_match_path := Some (bp_path (cert_login_path demo_certs demo_ops2)), rq_storage := Some demo_view,
       rq_body := Some [(''name'', JString ''web'')], rq_connection := Some \<lparr>peer_addr = [], peer_tls_cert = Some [c]\<rparr>\<rparr>"

definition demo_crl_write :: request where
  "demo_crl_write =
     (request_new ''crls/all'')\<lparr>rq_match_path := Some (bp_path (crl_path demo_certs demo_ops2)), rq_storage := Some demo_view,
       rq_body := Some [(''name'', JString ''all''), (''crl'', JString ''pem'')]\<rparr>"

lemmas cert_fields = demo_cert_login_def demo_crl_write_def request_new_def cert_login_path_def crl_path_def new_path_def get_data_def
  data_ready_def get_data_raw_def lookup_in_def typed_def check_data_type_def required_field_def optional_field_def as_str_def

lemma demo_cert_args:
  "rq_storage (demo_cert_login c) = Some demo_view" "rq_storage demo_crl_write = Some demo_view"
  "rq_connection (demo_cert_login c) = Some \<lparr>peer_addr = [], peer_tls_cert = Some [c]\<rparr>" "peer_certs (demo_cert_login c) = [c]"
  "login_cert_name demo_certs (demo_cert_login c) = Ok ''web''" "get_data (ck_parsers demo_certs) demo_crl_write ''crl'' = Ok (JString ''pem'')"
  "get_data (ck_parsers demo_certs) demo_crl_write ''name'' = Ok (JString ''all'')"
  by (simp_all add: cert_fields peer_certs_def login_cert_name_def)

lemma demo_crl_name: "crl_name demo_certs demo_crl_write = Ok ''all''" "cert_entry_name demo_certs demo_crl_write = Ok ''all''"
proof -
  have "trim ''all'' = ''all''" "to_lowercase ''all'' = ''all''" by code_simp+
  then show "crl_name demo_certs demo_crl_write = Ok ''all''" "cert_entry_name demo_certs demo_crl_write = Ok ''all''"
    using demo_cert_args(7) by (simp_all add: crl_name_def cert_entry_name_def get_data_as_str_def as_str_def)
qed

lemma demo_cert_keys:
  "vault_key demo_view (cert_entry_key ''web'')" "vault_key demo_view ''config''" "vault_key demo_view (crl_key ''all'')"
  "clean_key ''auth/1/config''" "view_valid (barrier_valid clean_key) demo_view (cert_entry_key ''web'')"
  "view_valid (barrier_valid clean_key) demo_view (crl_key ''all'')" "view_valid (barrier_valid clean_key) demo_view (cert_entry_key ''all'')"
  by code_simp+

lemma demo_lower_web: "to_lowercase (trim_start_matches ''cert/'' ''web'') = ''web''" "to_lowercase ''web'' = ''web''"
  "trim_start_matches ''cert/'' ''web'' = ''web''"
  by code_simp+

lemma demo_auth_folder: "clean_folder ''auth/1/''" "clean_folder ''auth/1/crls/''"
  using plain_clean(1) [of "[''auth'', ''1'']"] plain_clean(1) [of "[''auth'', ''1'', ''crls'']"] by (simp_all add: plain_name_def)

lemma demo_prefix: "clean_folder (bv_prefix demo_view)" "bv_prefix demo_view \<noteq> []" "\<not> starts_with BARRIER_INIT_PATH (bv_prefix demo_view)"
  "clean_folder (bv_prefix demo_view @ ''crls/'')" "clean_key (bv_prefix demo_view @ ''config'')"
  using demo_auth_folder demo_cert_keys(4) by (simp_all add: view_new_def BARRIER_INIT_PATH_def starts_with_def)

lemmas demo_listing = listing_view_files [OF demo_prefix(1-3), of demo_crypto demo_ser demo_de "[''data'']"]

abbreviation demo_cert_contents :: "fs barrier cert_state \<Rightarrow> string \<Rightarrow> bytes option" where
  "demo_cert_contents a \<equiv> view_stored (barrier_stored demo_crypto (file_contents demo_de [''data''])) demo_view (cs_store a)"

abbreviation demo_cert_ready :: "fs barrier cert_state \<Rightarrow> bool" where
  "demo_cert_ready a \<equiv> barrier_ready demo_crypto file_key (file_contents demo_de [''data'']) (file_invar demo_ser demo_de [''data'']) (cs_store a)"

abbreviation demo_crl_state :: "fs barrier cert_state \<Rightarrow> bool" where
  "demo_crl_state \<equiv> listing_view.crl_state (barrier_valid clean_key) (barrier_stored demo_crypto (file_contents demo_de [''data'']))
     (vault_ready demo_crypto demo_ser demo_de [''data'']) (\<lambda>s. file_subdirs [''data''] (b_backend s)) demo_view demo_certs"

definition demo_c0 :: "fs barrier cert_state" where
  "demo_c0 = \<lparr>cs_store = demo_unsealed, cs_crls = []\<rparr>"

lemma demo_c0_empty: "demo_cert_contents demo_c0 k = None"
  by (simp add: demo_c0_def view_stored_def barrier_stored_def file_contents_def demo_unsealed_def)

lemma demo_c0_flat: "no_subfolders {d. expand_key demo_view d \<in> file_subdirs [''data''] (b_backend (cs_store demo_c0))}"
  by (simp add: no_subfolders_def demo_c0_def demo_unsealed_def file_subdirs_def)

lemma demo_c0_state: "demo_crl_state demo_c0"
  unfolding listing_view.crl_state_def [OF demo_listing] using demo_vault_ready demo_c0_flat
  by (simp add: crl_inv_def demo_c0_def)

text \<open>A state with the entry, in both views of what the vault promises.\<close>

lemma demo_certs_made:
  obtains a where "demo_cert_ready a" "demo_crl_state a" "cs_crls a = []" "demo_cert_contents a (cert_entry_key ''web'') = Some []"
    "\<And>k. vault_key demo_view k \<Longrightarrow> k \<noteq> cert_entry_key ''web'' \<Longrightarrow> demo_cert_contents a k = None"
    "\<And>k. view_valid (barrier_valid clean_key) demo_view k \<Longrightarrow> k \<noteq> cert_entry_key ''web'' \<Longrightarrow> demo_cert_contents a k = None"
proof -
  let ?e = "\<lparr>se_key = cert_entry_key ''web'', se_value = []\<rparr>" and ?q = "(request_new [])\<lparr>rq_storage := Some demo_view\<rparr>"
  have r: "vault_ready demo_crypto demo_ser demo_de [''data''] (cs_store demo_c0)" "demo_cert_ready demo_c0"
    using demo_vault_ready demo_ready by (simp_all add: demo_c0_def)
  obtain s where s: "view_put demo_ops2 demo_view ?e (cs_store demo_c0) = (Ok (), s)" "demo_cert_ready (demo_c0\<lparr>cs_store := s\<rparr>)"
    "\<And>k. vault_key demo_view k \<Longrightarrow> demo_cert_contents (demo_c0\<lparr>cs_store := s\<rparr>) k = ((demo_cert_contents demo_c0)(cert_entry_key ''web'' \<mapsto> [])) k"
    using fbv.view_put_stored [OF r(2) demo_cert_keys(1), of "[]"] by auto
  have st: "cert_store (rq_storage_put demo_ops2 ?q ?e) demo_c0 = (Ok (), demo_c0\<lparr>cs_store := s\<rparr>)"
    using s(1) by (simp add: cert_store_def rq_storage_put_def on_storage_def)
  obtain s' where "view_put demo_ops2 demo_view ?e (cs_store demo_c0) = (Ok (), s')"
    "\<And>k. view_valid (barrier_valid clean_key) demo_view k \<Longrightarrow>
      demo_cert_contents (demo_c0\<lparr>cs_store := s'\<rparr>) k = ((demo_cert_contents demo_c0)(cert_entry_key ''web'' \<mapsto> [])) k"
    using listing_view.lv_put_stored [OF demo_listing, OF r(1) demo_cert_keys(5), of "[]"] by auto
  then have clean: "\<And>k. view_valid (barrier_valid clean_key) demo_view k \<Longrightarrow>
      demo_cert_contents (demo_c0\<lparr>cs_store := s\<rparr>) k = ((demo_cert_contents demo_c0)(cert_entry_key ''web'' \<mapsto> [])) k"
    using s(1) by simp
  have "\<not> starts_with (cert_entry_key ''web'') ''crls/''" by (simp add: cert_entry_key_def starts_with_iff_prefix)
  then have "demo_crl_state (demo_c0\<lparr>cs_store := s\<rparr>)"
    using listing_view.elsewhere_state(1) [OF demo_listing, OF demo_c0_state _ demo_cert_keys(5) _ st] by simp
  then show ?thesis
    by (rule that [OF s(2)]) (use s(3) [OF demo_cert_keys(1)] s(3) clean demo_c0_empty in \<open>simp_all add: demo_c0_def\<close>)
qed

lemma demo_named:
  assumes "demo_cert_ready a" "demo_cert_contents a (cert_entry_key ''web'') = Some []" "demo_cert_contents a ''config'' = None"
  shows "get_config demo_certs demo_ops2 (demo_cert_login c) a = (Ok (Some cert_config_default), a)"
    "get_cert demo_certs demo_ops2 (demo_cert_login c) (trim_start_matches ''cert/'' ''web'') a = (Ok (Some demo_cert_entry), a)"
proof -
  have "deserialize_entry demo_certs demo_cert_entry = Ok demo_cert_entry" "fill_entry demo_cert_entry = demo_cert_entry"
    by (simp_all add: deserialize_entry_def serde_error_def fill_entry_def Let_def demo_cert_entry_def cert_entry_default_def
        token_params_default_def token_params_new_def)
  then show "get_cert demo_certs demo_ops2 (demo_cert_login c) (trim_start_matches ''cert/'' ''web'') a = (Ok (Some demo_cert_entry), a)"
    unfolding demo_lower_web(3)
    using fcv.cert_get [OF assms(1) demo_cert_args(1) demo_cert_keys(1)] assms(2) demo_lower_web(2)
    by (simp add: get_cert_def op_bind_def op_res_def)
  show "get_config demo_certs demo_ops2 (demo_cert_login c) a = (Ok (Some cert_config_default), a)"
    using fcv.cert_get [OF assms(1) demo_cert_args(1) demo_cert_keys(2)] assms(3) by (simp add: get_config_def op_bind_def op_return_def)
qed

lemma demo_entry_facts:
  "en_certificate demo_cert_entry = [7, 0, 1, 9] # []" "names_match demo_certs c demo_cert_entry"
  "matches_certificate_extensions demo_certs c demo_cert_entry = Ok True" "check_login_addr demo_certs addr demo_cert_entry = Ok ()"
  "certificate_extensions_metadata demo_certs c demo_cert_entry = Ok Map.empty" "tp_token_policies (en_token_params demo_cert_entry) = [''admin'']"
  "\<not> is_ca_cert (ck_x509 demo_certs) [7, 0, 1, 9]"
  by (simp_all add: demo_cert_entry_def cert_entry_default_def names_match_def matches_names_def matches_common_name_def matches_dns_sans_def
      matches_email_sans_def matches_uri_sans_def matches_organizational_units_def matches_certificate_extensions_def check_login_addr_def
      certificate_extensions_metadata_def token_params_default_def token_params_new_def is_ca_cert_def)

lemma not_in_empty_crls [simp]: "\<not> check_for_chain_in_crls E [] chain"
  by (induction chain) (simp_all add: check_for_chain_in_crls_def find_serial_in_crls_def res_bind_def split: res.splits)

theorem leaf_certificate_forged_witness:
  "\<exists>a au. cert_login demo_certs demo_ops2 (a, demo_cert_login [7, 0, 1, 66]) =
      (Ok (Some (response_new\<lparr>rs_auth := Some au\<rparr>)), (a, demo_cert_login [7, 0, 1, 66])) \<and> au_policies au = [''admin'']"
proof -
  obtain a where a: "demo_cert_ready a" "cs_crls a = []" "demo_cert_contents a (cert_entry_key ''web'') = Some []"
    "demo_cert_contents a ''config'' = None"
    by (rule demo_certs_made) (use demo_cert_keys(2) in \<open>simp add: cert_entry_key_def\<close>)
  note n = demo_named [OF a(1,3,4), of "[7, 0, 1, 66]"]
  have "\<exists>au. cert_login demo_certs demo_ops2 (a, demo_cert_login [7, 0, 1, 66]) =
      (Ok (Some (response_new\<lparr>rs_auth := Some au\<rparr>)), (a, demo_cert_login [7, 0, 1, 66])) \<and>
      au_policies au = tp_token_policies (en_token_params demo_cert_entry)"
    by (rule leaf_certificate_forged [where e = demo_cert_entry and crt = "[7, 0, 1, 9]" and name = "''web''" and forged = "[7, 0, 1, 66]"
          and conn = "\<lparr>peer_addr = [], peer_tls_cert = Some [[7, 0, 1, 66]]\<rparr>" and cfg = cert_config_default and others = "[]"
          and rest = "[]" and xs = None and cn = "[]" and sn = "replicate 7 CHR ''i''" and ext = Map.empty])
      (use n demo_cert_args(3,5) demo_entry_facts a(2) in simp_all)
  then show ?thesis using demo_entry_facts(6) by auto
qed

text \<open>The configured certificate logs in, and a list that has its serial number can be written.\<close>

lemma demo_logs_in:
  assumes "demo_cert_ready a" "demo_cert_contents a (cert_entry_key ''web'') = Some []" "demo_cert_contents a ''config'' = None" "cs_crls a = []"
  obtains au where "cert_login demo_certs demo_ops2 (a, demo_cert_login [7, 0, 1, 9]) =
    (Ok (Some (response_new\<lparr>rs_auth := Some au\<rparr>)), (a, demo_cert_login [7, 0, 1, 9]))"
proof -
  note n = demo_named [OF assms(1-3), of "[7, 0, 1, 9]"]
  show ?thesis
    by (rule that, rule leaf_login [where e = demo_cert_entry and crt = "[7, 0, 1, 9]" and name = "''web''" and c = "[7, 0, 1, 9]"
          and conn = "\<lparr>peer_addr = [], peer_tls_cert = Some [[7, 0, 1, 9]]\<rparr>" and cfg = cert_config_default and others = "[]"
          and rest = "[]" and xs = None and err = 20 and sn = "replicate 7 CHR ''i''" and cn = "[]" and ext = Map.empty])
      (use n demo_cert_args(3,5) demo_entry_facts assms(4) in \<open>simp_all add: same_leaf_def\<close>)
qed

lemma demo_writes_crl:
  assumes "demo_cert_ready a" "demo_crl_state a" "cs_crls a = []"
    "\<And>n. view_valid (barrier_valid clean_key) demo_view (crl_key n) \<Longrightarrow> demo_cert_contents a (crl_key n) = None"
  obtains a1 where "write_crl demo_certs demo_ops2 (a, demo_crl_write) = (Ok None, (a1, demo_crl_write))" "cs_crls a1 \<noteq> []"
proof -
  have f: "barrier_folder clean_folder (expand_key demo_view ''crls/'')"
    using demo_auth_folder(2) by (simp add: barrier_folder_def expand_key_def view_new_def BARRIER_INIT_PATH_def starts_with_def)
  have u: "update_crl_cache demo_certs demo_ops2 demo_crl_write a = (Ok (), a)"
    by (rule listing_view.update_crl_cache_none [OF demo_listing, OF assms(2) demo_cert_args(2) f assms(3,4)])
  let ?ci = "\<lparr>ci_cdp = None, ci_serials = [replicate 7 CHR ''i'']\<rparr>"
  obtain s where p: "view_put demo_ops2 demo_view \<lparr>se_key = crl_key ''all'', se_value = ck_enc_crl demo_certs ?ci\<rparr> (cs_store a) = (Ok (), s)"
    using fbv.view_put_stored [OF assms(1) demo_cert_keys(3), of "ck_enc_crl demo_certs ?ci"] by auto
  have l: "to_lowercase (replicate 7 CHR ''i'') = replicate 7 CHR ''i''" by code_simp
  have "write_crl demo_certs demo_ops2 (a, demo_crl_write) =
      (Ok None, (a\<lparr>cs_store := s, cs_crls := [(''all'', ?ci)]\<rparr>, demo_crl_write))"
    using u p l assms(3) demo_crl_name(1) demo_cert_args(2,6)
    by (simp add: write_crl_def on_state_def op_bind_def op_res_def op_return_def as_str_def set_crl_def Let_def cert_store_def
        rq_storage_put_def on_storage_def cached_crl_def)
  then show ?thesis by (rule that) simp
qed

lemma demo_submitted: "submitted_crl demo_certs demo_crl_write = Ok (Some [7])"
  using demo_cert_args(6) by (simp add: submitted_crl_def)

lemma demo_certs_full:
  obtains a a1 au where "demo_cert_ready a" "cs_crls a = []"
    "cert_login demo_certs demo_ops2 (a, demo_cert_login [7, 0, 1, 9]) =
      (Ok (Some (response_new\<lparr>rs_auth := Some au\<rparr>)), (a, demo_cert_login [7, 0, 1, 9]))"
    "write_crl demo_certs demo_ops2 (a, demo_crl_write) = (Ok None, (a1, demo_crl_write))"
proof -
  obtain a where a: "demo_cert_ready a" "demo_crl_state a" "cs_crls a = []" "demo_cert_contents a (cert_entry_key ''web'') = Some []"
    "\<And>k. vault_key demo_view k \<Longrightarrow> k \<noteq> cert_entry_key ''web'' \<Longrightarrow> demo_cert_contents a k = None"
    "\<And>k. view_valid (barrier_valid clean_key) demo_view k \<Longrightarrow> k \<noteq> cert_entry_key ''web'' \<Longrightarrow> demo_cert_contents a k = None"
    by (rule demo_certs_made) blast
  have k: "''config'' \<noteq> cert_entry_key ''web''" "crl_key n \<noteq> cert_entry_key ''web''" for n
    by (simp_all add: cert_entry_key_def crl_key_def)
  obtain au where l: "cert_login demo_certs demo_ops2 (a, demo_cert_login [7, 0, 1, 9]) =
      (Ok (Some (response_new\<lparr>rs_auth := Some au\<rparr>)), (a, demo_cert_login [7, 0, 1, 9]))"
    by (rule demo_logs_in [OF a(1,4) a(5) [OF demo_cert_keys(2) k(1)] a(3)])
  obtain a1 where "write_crl demo_certs demo_ops2 (a, demo_crl_write) = (Ok None, (a1, demo_crl_write))"
    by (rule demo_writes_crl [OF a(1-3) a(6) [OF _ k(2)]])
  then show ?thesis by (rule that [OF a(1,3) l])
qed

theorem cert_login_sound_witness:
  "\<exists>a o1 e. cert_login demo_certs demo_ops2 (a, demo_cert_login [7, 0, 1, 9]) = (Ok o1, (a, demo_cert_login [7, 0, 1, 9])) \<and>
    known_entry demo_certs demo_ops2 (demo_cert_login [7, 0, 1, 9]) a e \<and> names_match demo_certs [7, 0, 1, 9] e"
proof -
  obtain a au where l: "cert_login demo_certs demo_ops2 (a, demo_cert_login [7, 0, 1, 9]) =
      (Ok (Some (response_new\<lparr>rs_auth := Some au\<rparr>)), (a, demo_cert_login [7, 0, 1, 9]))"
    by (rule demo_certs_full)
  from cert_login_sound [OF l] l demo_cert_args(4) [of "[7, 0, 1, 9]"] show ?thesis by auto
qed

theorem revoked_certificate_refused_witness:
  "\<exists>a a1. is_ok (fst (cert_login demo_certs demo_ops2 (a, demo_cert_login [7, 0, 1, 9]))) \<and>
    write_crl demo_certs demo_ops2 (a, demo_crl_write) = (Ok None, (a1, demo_crl_write)) \<and>
    \<not> is_ok (fst (cert_login demo_certs demo_ops2 (a1, demo_cert_login [7, 0, 1, 9])))"
proof -
  obtain a a1 au where a: "cert_login demo_certs demo_ops2 (a, demo_cert_login [7, 0, 1, 9]) =
      (Ok (Some (response_new\<lparr>rs_auth := Some au\<rparr>)), (a, demo_cert_login [7, 0, 1, 9]))"
    "write_crl demo_certs demo_ops2 (a, demo_crl_write) = (Ok None, (a1, demo_crl_write))"
    by (rule demo_certs_full)
  have "\<not> is_ok (fst (cert_login demo_certs demo_ops2 (a1, demo_cert_login [7, 0, 1, 9])))"
    by (rule revoked_certificate_refused [OF a(2) demo_submitted demo_cert_args(4)])
      (simp_all add: client_usage_def has_x509_ext_key_usage_def)
  then show ?thesis using a by (intro exI [of _ a] exI [of _ a1]) (simp add: is_ok_def)
qed

theorem revocation_forgotten_at_restart_witness:
  "\<exists>a1. is_ok (fst (cert_login demo_certs demo_ops2 (a1\<lparr>cs_crls := []\<rparr>, demo_cert_login [7, 0, 1, 9]))) \<and>
    (\<exists>a. write_crl demo_certs demo_ops2 (a, demo_crl_write) = (Ok None, (a1, demo_crl_write)))"
proof -
  obtain a a1 au where a: "demo_cert_ready a" "cs_crls a = []" "cert_login demo_certs demo_ops2 (a, demo_cert_login [7, 0, 1, 9]) =
      (Ok (Some (response_new\<lparr>rs_auth := Some au\<rparr>)), (a, demo_cert_login [7, 0, 1, 9]))"
    "write_crl demo_certs demo_ops2 (a, demo_crl_write) = (Ok None, (a1, demo_crl_write))"
    by (rule demo_certs_full)
  have k: "vault_key demo_view (cert_entry_key (to_lowercase (trim_start_matches ''cert/'' ''web'')))"
    unfolding demo_lower_web(1) by (rule demo_cert_keys(1))
  from revocation_forgotten_at_restart [OF a(1,2) demo_cert_args(2) demo_crl_name(1) demo_cert_keys(3) a(4) demo_cert_args(1,5) _
      demo_cert_keys(2) k, of "[7, 0, 1, 9]"] a(3)
  have "is_ok (fst (cert_login demo_certs demo_ops2 (a1\<lparr>cs_crls := []\<rparr>, demo_cert_login [7, 0, 1, 9])))"
    by (simp add: is_ok_def)
  then show ?thesis using a(4) by blast
qed

theorem crl_cache_agrees_witness:
  "\<exists>a. cs_crls a \<noteq> [] \<and> crls_agree demo_certs (view_valid (barrier_valid clean_key) demo_view) (demo_cert_contents a) (cs_crls a) \<and>
    write_crl demo_certs demo_ops2 (demo_c0, demo_crl_write) = (Ok None, (a, demo_crl_write))"
proof -
  let ?ok = "\<lambda>req. rq_storage req = Some demo_view \<and> usable_names (view_valid (barrier_valid clean_key) demo_view) demo_certs req"
  have r: "demo_cert_ready demo_c0" "cs_crls demo_c0 = []" "vault_ready demo_crypto demo_ser demo_de [''data''] (cs_store demo_c0)"
    using demo_ready demo_vault_ready by (simp_all add: demo_c0_def)
  obtain a where a: "write_crl demo_certs demo_ops2 (demo_c0, demo_crl_write) = (Ok None, (a, demo_crl_write))" "cs_crls a \<noteq> []"
    by (rule demo_writes_crl [OF r(1) demo_c0_state r(2) demo_c0_empty])
  have "?ok demo_crl_write"
    using demo_cert_args(2) demo_crl_name demo_cert_keys(6,7) by (simp add: usable_names_def)
  then have "cert_step demo_certs demo_ops2 ?ok demo_c0 a"
    using a(1) by (intro handled [of "write_crl demo_certs demo_ops2"]) (simp_all add: cert_handlers_eq)
  then have "(cert_step demo_certs demo_ops2 ?ok)\<^sup>*\<^sup>* demo_c0 a" by (rule r_into_rtranclp)
  from crl_cache_agrees [OF demo_prefix demo_crl_codec r(3,2) demo_c0_flat this] show ?thesis using a by blast
qed

end
