(* ===== verification/Error_Text.thy ===== *)
theory Error_Text
  imports Logical
begin

text \<open>
  The texts of the errors, from the attributes of \<open>RvError\<close> in \<open>src/errors.rs\<close>; they reach the client in the answer of
  the HTTP server. What another crate says of its own error is the description that \<open>External\<close> carries.
\<close>

definition pki_error_text :: "pki_error \<Rightarrow> string" where
  "pki_error_text e =
     (case e of
        ErrPkiPemBundleInvalid \<Rightarrow> ''PKI pem bundle is invalid.''
      | ErrPkiCertKeyMismatch \<Rightarrow> ''PKI ca public key of certificate does not match private key.''
      | ErrPkiCertChainIncorrect \<Rightarrow> ''PKI cert chain is incorrect.''
      | ErrPkiCertIsNotCA \<Rightarrow> ''PKI cert is not ca.''
      | ErrPkiCaKeyNotFound \<Rightarrow> ''PKI ca private key is not found.''
      | ErrPkiCaNotConfig \<Rightarrow> ''PKI ca is not config.''
      | ErrPkiCaExtensionIncorrect \<Rightarrow> ''PKI ca extension is incorrect.''
      | ErrPkiKeyTypeInvalid \<Rightarrow> ''PKI key type is invalid.''
      | ErrPkiKeyBitsInvalid \<Rightarrow> ''PKI key bits is invalid.''
      | ErrPkiKeyNameAlreadyExist \<Rightarrow> ''PKI key_name already exists.''
      | ErrPkiKeyOperationInvalid \<Rightarrow> ''PKI key operation is invalid.''
      | ErrPkiCertNotFound \<Rightarrow> ''PKI certificate is not found.''
      | ErrPkiRoleNotFound \<Rightarrow> ''PKI role is not found.''
      | ErrPkiDataInvalid \<Rightarrow> ''PKI data is invalid.''
      | ErrPkiInternal \<Rightarrow> ''PKI internal error.'')"

definition unraised_error_text :: "unraised_error \<Rightarrow> string" where
  "unraised_error_text e =
     (case e of
        ErrCoreRouterNotHandling \<Rightarrow> ''Core router not handling.''
      | ErrBarrierKeyGenerationFailed \<Rightarrow> ''RustyVault barrier key generation failed.''
      | ErrMountTableNotFound \<Rightarrow> ''Mount table not found.''
      | ErrMountTableNotReady \<Rightarrow> ''Mount table is not ready.''
      | ErrResponseDataInvalid \<Rightarrow> ''Response data is invalid.''
      | ErrAuthModuleDisabled \<Rightarrow> ''Auth module is disabled.''
      | ErrCredentailInvalid \<Rightarrow> ''Credentail is invalid.''
      | ErrRwLockReadPoison \<Rightarrow> ''RwLock was poisoned (reading)''
      | ErrRwLockWritePoison \<Rightarrow> ''RwLock was poisoned (writing)''
      | ErrDatabaseTypeInvalid \<Rightarrow> ''Database type is not support now. Please try postgressql or mysql again.''
      | ErrDatabaseConnectionInfoInvalid \<Rightarrow> ''Database connection info is invalid.''
      | ErrUnknown \<Rightarrow> ''Unknown error.'')"

definition external_error_text :: "ext_source \<Rightarrow> string \<Rightarrow> string" where
  "external_error_text src shown =
     (case src of
        IO \<Rightarrow> ''Some IO error happened, '' @ shown
      | SerdeJson \<Rightarrow> ''Some serde_json error happened, '' @ shown
      | SerdeYaml \<Rightarrow> ''Some serde_yaml error happened, '' @ shown
      | OpenSSL \<Rightarrow> ''Some openssl error happened, '' @ shown
      | Pem \<Rightarrow> ''Some pem error happened, '' @ shown
      | Regex \<Rightarrow> ''Some regex error happened, '' @ shown
      | Hex \<Rightarrow> ''Some hex error happened, '' @ shown
      | Hcl \<Rightarrow> ''Some hcl error happened, '' @ shown
      | HumantimeDuration \<Rightarrow> ''Some humantime duration error happened, '' @ shown
      | HumantimeTimestamp \<Rightarrow> ''Some humantime timestamp error happened, '' @ shown
      | SystemTimeError \<Rightarrow> ''Some system_time error happened, '' @ shown
      | ChronoError \<Rightarrow> ''Some chrono error happened, '' @ shown
      | BcryptError \<Rightarrow> ''Some bcrypt error happened, '' @ shown
      | UreqError \<Rightarrow> ''Some ureq error happened, '' @ shown
      | AddrParseError \<Rightarrow> ''Some net addr parse error happened, '' @ shown
      | IpNetworkError \<Rightarrow> ''Some ipnetwork error happened, '' @ shown
      | ActixWebHttpHeaderError \<Rightarrow> ''Some actix_web http header error happened, '' @ shown
      | UrlError \<Rightarrow> ''Some url error happened, '' @ shown
      | RustlsError \<Rightarrow> ''Some rustls error happened, '' @ shown
      | RustlsPemFileError \<Rightarrow> ''Some rustls_pemfile error happened''
      | RustlsPkiTypesPemFileError \<Rightarrow> ''Some rustls_pki_types error happened''
      | TokioTaskJoinError \<Rightarrow> ''Some tokio task error happened''
      | StringUtf8 \<Rightarrow> ''Some string utf8 error happened, '' @ shown
      | ConnectionPoolCreate \<Rightarrow> ''Database connection pool ocurrs errors when creating'' @ [CHR 0xEF, CHR 0xBC, CHR 0x8C] @ '' '' @ shown
      | DatabaseExecuteEntry \<Rightarrow> ''Failed to execute entry with database, '' @ shown
      | Other \<Rightarrow> shown)"

definition error_text :: "rv_error \<Rightarrow> string" where
  "error_text e =
     (case e of
        ErrCryptoCipherUpdateFailed \<Rightarrow> ''Cipher operation update failed.''
      | ErrCryptoCipherFinalizeFailed \<Rightarrow> ''Cipher operation finalization failed.''
      | ErrCryptoCipherInitFailed \<Rightarrow> ''Cipher initialization failed.''
      | ErrCryptoCipherNotInited \<Rightarrow> ''Cipher not initialized.''
      | ErrCryptoCipherOPNotSupported \<Rightarrow> ''Cipher operation not supported.''
      | ErrCryptoCipherNoTag \<Rightarrow> ''AEAD Cipher tag is missing.''
      | ErrCryptoCipherAEADTagPresent \<Rightarrow> ''AEAD Cipher tag should not be present.''
      | ErrConfigPathInvalid \<Rightarrow> ''Config path is invalid.''
      | ErrConfigLoadFailed \<Rightarrow> ''Config load failed.''
      | ErrConfigStorageNotFound \<Rightarrow> ''Config storage not found.''
      | ErrConfigListenerNotFound \<Rightarrow> ''Config listener not found.''
      | ErrCoreNotInit \<Rightarrow> ''Core is not initialized.''
      | ErrCoreLogicalBackendExist \<Rightarrow> ''Core logical backend already exists.''
      | ErrCoreLogicalBackendNoExist \<Rightarrow> ''Core logical backend does not exist.''
      | ErrCoreHandlerExist \<Rightarrow> ''Core handler already exists.''
      | ErrCoreSealConfigInvalid \<Rightarrow> ''Core seal config is invalid.''
      | ErrCoreSealConfigNotFound \<Rightarrow> ''Core seal config not found.''
      | ErrPhysicalConfigItemMissing \<Rightarrow> ''Physical configuration item is missing.''
      | ErrPhysicalTypeInvalid \<Rightarrow> ''Physical type is invalid.''
      | ErrPhysicalBackendPrefixInvalid \<Rightarrow> ''Physical backend prefix is invalid.''
      | ErrPhysicalBackendKeyInvalid \<Rightarrow> ''Physical backend key is invalid.''
      | ErrBarrierKeySanityCheckFailed \<Rightarrow> ''RustyVault key sanity check failed.''
      | ErrBarrierAlreadyInit \<Rightarrow> ''RustyVault is already initialized.''
      | ErrBarrierKeyInvalid \<Rightarrow> ''RustyVault unseal key is invalid.''
      | ErrBarrierNotInit \<Rightarrow> ''RustyVault is not initialized.''
      | ErrBarrierSealed \<Rightarrow> ''RustyVault is sealed.''
      | ErrBarrierUnsealed \<Rightarrow> ''RustyVault is unsealed.''
      | ErrBarrierUnsealFailed \<Rightarrow> ''RustyVault unseal failed.''
      | ErrBarrierEpochMismatch \<Rightarrow> ''RustyVualt barrier epoch do not match.''
      | ErrBarrierVersionMismatch \<Rightarrow> ''RustyVault barrier version do not match.''
      | ErrRouterMountConflict \<Rightarrow> ''Router mount conflict.''
      | ErrRouterMountNotFound \<Rightarrow> ''Router mount not found.''
      | ErrMountFailed \<Rightarrow> ''Mount path is failed, cannot mount.''
      | ErrMountPathProtected \<Rightarrow> ''Mount path is protected, cannot mount.''
      | ErrMountPathExist \<Rightarrow> ''Mount path already exists.''
      | ErrMountNotMatch \<Rightarrow> ''Mount not match.''
      | ErrLogicalPathUnsupported \<Rightarrow> ''Logical backend path not supported.''
      | ErrLogicalOperationUnsupported \<Rightarrow> ''Logical backend operation not supported.''
      | ErrRequestNotReady \<Rightarrow> ''Request is not ready.''
      | ErrRequestNoData \<Rightarrow> ''No data is available for the request.''
      | ErrRequestNoDataField \<Rightarrow> ''No data field is available for the request.''
      | ErrRequestInvalid \<Rightarrow> ''Request is invalid.''
      | ErrRequestClientTokenMissing \<Rightarrow> ''Request client token is missing.''
      | ErrRequestFieldNotFound \<Rightarrow> ''Request field is not found.''
      | ErrRequestFieldInvalid \<Rightarrow> ''Request field is invalid.''
      | ErrHandlerDefault \<Rightarrow> ''Handler is default.''
      | ErrModuleKvDataFieldMissing \<Rightarrow> ''Module kv data field is missing.''
      | ErrRustDowncastFailed \<Rightarrow> ''Rust downcast failed.''
      | ErrShamirShareCountInvalid \<Rightarrow> ''Shamir share count invalid.''
      | ErrModuleConflict \<Rightarrow> ''Module conflict.''
      | ErrModuleNotInit \<Rightarrow> ''Module is not init.''
      | ErrModuleNotFound \<Rightarrow> ''Module is not found.''
      | ErrAuthTokenNotFound \<Rightarrow> ''Auth token is not found.''
      | ErrAuthTokenIdInvalid \<Rightarrow> ''Auth token id is invalid.''
      | ErrLeaseNotFound \<Rightarrow> ''Lease is not found.''
      | ErrLeaseNotRenewable \<Rightarrow> ''Lease is not renewable.''
      | ErrPermissionDenied \<Rightarrow> ''Permission denied.''
      | ErrCredentailNotConfig \<Rightarrow> ''Credentail is not config.''
      | Pki p \<Rightarrow> pki_error_text p
      | Unraised u \<Rightarrow> unraised_error_text u
      | External src shown \<Rightarrow> external_error_text src shown
      | ErrResponse s \<Rightarrow> ''Some error happend, response text: '' @ s
      | ErrResponseStatus n s \<Rightarrow> ''Some error happend, status: '' @ nat_to_string n @ '', response text: '' @ s
      | ErrString s \<Rightarrow> s)"

end
