(* ===== verification/Http.thy ===== *)
theory Http
  imports Core Salt Token_Api Error_Text
begin

text \<open>
  The HTTP server, \<open>src/http/mod.rs\<close>, \<open>src/http/logical.rs\<close> and \<open>src/http/sys.rs\<close>: the connection, the client token of a
  request, the requests that are handed to the core, the answers, and the routes under \<open>/v1\<close>.

  The server sees the core through the record \<open>core_api\<close>; \<open>vault_api\<close> makes it from the operations of theory \<open>Core\<close>. The
  framework \<open>actix_web\<close> gives the path with its escapes decoded, the cookies, and chooses the first service, resource and
  route that match: outside the resources of a scope the answer is 404, for another method 405. The JSON readers of the
  request bodies, hexadecimal decoding and the clock are in \<open>http_env\<close>. The body of an answer is the value that is
  serialised.
\<close>

section \<open>Connections\<close>

record tls_client_info =
  ti_client_cert_chain :: "bytes list option"
  ti_client_verify_result :: int

record http_connection =
  hc_bind :: string
  hc_peer :: string
  hc_ttl :: "u32 option"
  hc_tls :: "tls_client_info option"

definition X509_V_OK :: int where "X509_V_OK = 0"

definition tls_client_info_new :: tls_client_info where
  "tls_client_info_new = \<lparr>ti_client_cert_chain = None, ti_client_verify_result = X509_V_OK\<rparr>"

definition http_connection_new :: http_connection where
  "http_connection_new = \<lparr>hc_bind = ''0.0.0.0:8080'', hc_peer = ''127.0.0.1:8888'', hc_ttl = None, hc_tls = None\<rparr>"

text \<open>
  What the handler of new connections is given: a TLS stream with the certificates that the client sent beside its own,
  the certificate of the client and the result of its verification, a plain socket, or something else.
\<close>

record socket =
  sk_peer_addr :: "string res"
  sk_local_addr :: "string res"
  sk_ttl :: "u32 res"

datatype conn_object =
    TlsConn socket "bytes list option" "bytes option" int
  | TcpConn socket
  | OtherConn

definition res_ok :: "'a res \<Rightarrow> 'a option" where
  "res_ok r = (case r of Ok x \<Rightarrow> Some x | _ \<Rightarrow> None)"

definition client_chain :: "bytes list option \<Rightarrow> bytes option \<Rightarrow> bytes list option" where
  "client_chain chain cert =
     (case cert of None \<Rightarrow> chain | Some c \<Rightarrow> (case chain of Some cs \<Rightarrow> Some (cs @ [c]) | None \<Rightarrow> Some [c]))"

definition connected :: "socket \<Rightarrow> tls_client_info option \<Rightarrow> http_connection option res" where
  "connected s tls =
     (case sk_peer_addr s of
        Ok peer \<Rightarrow>
          (case sk_local_addr s of
             Ok bind \<Rightarrow> Ok (Some \<lparr>hc_bind = bind, hc_peer = peer, hc_ttl = res_ok (sk_ttl s), hc_tls = tls\<rparr>)
           | _ \<Rightarrow> Panic)
      | _ \<Rightarrow> Ok None)"

definition request_on_connect_handler :: "conn_object \<Rightarrow> http_connection option res" where
  "request_on_connect_handler conn =
     (case conn of
        TlsConn s chain cert result \<Rightarrow>
          connected s (Some \<lparr>ti_client_cert_chain = client_chain chain cert, ti_client_verify_result = result\<rparr>)
      | TcpConn s \<Rightarrow> connected s None
      | OtherConn \<Rightarrow> Panic)"

section \<open>Requests and answers\<close>

datatype http_method = GET | POST | PUT | DELETE | OtherMethod string

record http_request =
  hr_method :: http_method
  hr_path :: string
  hr_headers :: "(string \<times> bytes) list"
  hr_cookies :: "(string \<times> string) list"
  hr_body :: bytes
  hr_connection :: "http_connection option"

record cookie =
  cookie_name :: string
  cookie_value :: string
  cookie_path :: string
  cookie_expires :: int

record http_auth =
  ha_client_token :: string
  ha_policies :: "string list"
  ha_metadata :: "string \<rightharpoonup> string"
  ha_lease_duration :: nat
  ha_renewable :: bool

record logical_response =
  lr_renewable :: bool
  lr_lease_id :: string
  lr_lease_duration :: nat
  lr_auth :: "http_auth option"
  lr_data :: json_obj

record init_response =
  in_keys :: "string list"
  in_root_token :: string

record seal_status_response =
  ss_sealed :: bool
  ss_t :: u8
  ss_n :: u8
  ss_progress :: nat

datatype http_body =
    NoBody
  | JsonBody json_obj
  | LogicalBody logical_response
  | InitBody init_response
  | SealStatusBody seal_status_response
  | TextBody string

record http_response =
  hp_status :: nat
  hp_cookie :: "cookie option"
  hp_body :: http_body

record http_env =
  he_object :: "bytes \<Rightarrow> json_obj option"
  he_init_request :: "bytes \<Rightarrow> (u8 \<times> u8) option"
  he_unseal_request :: "bytes \<Rightarrow> string option"
  he_mount_request :: "bytes \<Rightarrow> (string \<times> string) option"
  he_remount_request :: "bytes \<Rightarrow> (string \<times> string) option"
  he_policy_request :: "bytes \<Rightarrow> (string \<times> string) option"
  he_hex_decode :: "string \<Rightarrow> bytes option"
  he_now :: int
  he_metrics :: "string option"

text \<open>The operations of the core that the server calls.\<close>

record 'v core_api =
  ca_inited :: "('v, bool) op"
  ca_sealed :: "'v \<Rightarrow> bool"
  ca_progress :: "'v \<Rightarrow> nat"
  ca_seal_config :: "('v, seal_config) op"
  ca_init :: "seal_config \<Rightarrow> ('v, init_result) op"
  ca_unseal :: "bytes \<Rightarrow> ('v, bool) op"
  ca_seal :: "('v, unit) op"
  ca_handle :: "'v handler"

definition vault_handle_request :: "'b vault_env \<Rightarrow> (string \<Rightarrow> 'b barrier handler_ref) \<Rightarrow> 'b vault handler" where
  "vault_handle_request E bound st =
     (let v = fst st; c = va_core v in
      case core_handle_request bound (ve_ancestor E) (va_sealed v) (co_router c) (co_handlers c) (co_storage c, snd st) of
        (r, (s, req)) \<Rightarrow> (r, (v\<lparr>va_core := c\<lparr>co_storage := s\<rparr>\<rparr>, req)))"

definition vault_api :: "'b vault_env \<Rightarrow> (string \<Rightarrow> 'b barrier handler_ref) \<Rightarrow> 'b vault core_api" where
  "vault_api E bound =
     \<lparr>ca_inited = core_inited E, ca_sealed = va_sealed, ca_progress = unseal_progress, ca_seal_config = core_seal_config E,
      ca_init = core_init E, ca_unseal = core_unseal E, ca_seal = core_seal E, ca_handle = vault_handle_request E bound\<rparr>"

section \<open>Common functions\<close>

definition AUTH_COOKIE_NAME :: string where "AUTH_COOKIE_NAME = ''token''"
definition AUTH_HEADER_NAME :: string where "AUTH_HEADER_NAME = ''X-RustyVault-Token''"
definition VAULT_AUTH_HEADER_NAME :: string where "VAULT_AUTH_HEADER_NAME = ''X-Vault-Token''"

text \<open>The name of a header is compared without case; its value is a text when every byte is visible ASCII or a tab.\<close>

definition header_value :: "http_request \<Rightarrow> string \<Rightarrow> bytes option" where
  "header_value req name = map_option snd (find (\<lambda>(n, _). to_lowercase n = to_lowercase name) (hr_headers req))"

definition header_str :: "bytes \<Rightarrow> string res" where
  "header_str bs =
     (if list_all (\<lambda>b. (32 \<le> b \<and> b < 127) \<or> b = 9) bs then Ok (map (\<lambda>b. char_of (unat b)) bs)
      else Err (External ActixWebHttpHeaderError ''invalid header''))"

definition missing_token :: rv_error where "missing_token = ErrResponse ''missing client token''"

definition get_token_from_req :: "http_request \<Rightarrow> string res" where
  "get_token_from_req req =
     (case header_value req AUTH_HEADER_NAME of
        Some b \<Rightarrow> header_str b
      | None \<Rightarrow>
          (case header_value req VAULT_AUTH_HEADER_NAME of
             Some b \<Rightarrow> header_str b
           | None \<Rightarrow>
               (case header_value req ''authorization'' of
                  Some b \<Rightarrow>
                    (case header_str b of
                       Ok s \<Rightarrow> if starts_with s ''Bearer '' then Ok (trim_start_matches ''Bearer '' s) else Err missing_token
                     | _ \<Rightarrow> Err missing_token)
                | None \<Rightarrow>
                    (case map_of (hr_cookies req) AUTH_COOKIE_NAME of Some t \<Rightarrow> Ok t | None \<Rightarrow> Err missing_token))))"

definition request_auth :: "http_request \<Rightarrow> request" where
  "request_auth req =
     (case get_token_from_req req of Ok t \<Rightarrow> (request_new [])\<lparr>rq_client_token := t\<rparr> | _ \<Rightarrow> request_new [])"

definition response_error :: "nat \<Rightarrow> string \<Rightarrow> http_response" where
  "response_error status msg =
     \<lparr>hp_status = status, hp_cookie = None,
      hp_body = (if msg = [] then NoBody else JsonBody [(''error'', JString msg)])\<rparr>"

definition response_ok :: "cookie option \<Rightarrow> json_obj option \<Rightarrow> http_response" where
  "response_ok cookie body =
     (case body of
        None \<Rightarrow> \<lparr>hp_status = 204, hp_cookie = cookie, hp_body = NoBody\<rparr>
      | Some m \<Rightarrow> \<lparr>hp_status = 200, hp_cookie = cookie, hp_body = JsonBody m\<rparr>)"

definition response_json :: "nat \<Rightarrow> cookie option \<Rightarrow> http_body \<Rightarrow> http_response" where
  "response_json status cookie body = \<lparr>hp_status = status, hp_cookie = cookie, hp_body = body\<rparr>"

definition response_json_ok :: "cookie option \<Rightarrow> http_body \<Rightarrow> http_response" where
  "response_json_ok cookie body = response_json 200 cookie body"

text \<open>An error as an answer; a status outside the range of \<open>StatusCode\<close> is unwrapped.\<close>

definition http_error_response :: "rv_error \<Rightarrow> http_response res" where
  "http_error_response e =
     (let answer = (\<lambda>status txt. response_json status None (JsonBody [(''error'', JString txt)])) in
      case e of
        ErrResponse txt \<Rightarrow> Ok (answer 400 txt)
      | ErrResponseStatus status txt \<Rightarrow> if 100 \<le> status \<and> status < 1000 then Ok (answer status txt) else Panic
      | _ \<Rightarrow> Ok (answer (response_status e) (error_text e)))"

definition http_handle_request :: "'v core_api \<Rightarrow> request \<Rightarrow> ('v, http_response) op" where
  "http_handle_request api r v =
     (case ca_handle api (v, r) of
        (Ok resp, (v', _)) \<Rightarrow> (Ok (response_ok None (Option.bind resp rs_data)), v')
      | (Err e, (v', _)) \<Rightarrow> (Err e, v')
      | (Panic, (v', _)) \<Rightarrow> (Panic, v'))"

text \<open>A body that \<open>serde\<close> reads, or its error.\<close>

definition parsed_body :: "(bytes \<Rightarrow> 'a option) \<Rightarrow> bytes \<Rightarrow> 'a res" where
  "parsed_body read body =
     (case read body of Some x \<Rightarrow> Ok x | None \<Rightarrow> Err (External SerdeJson ''invalid body''))"

section \<open>Logical requests\<close>

definition MAX_DATETIME :: int where "MAX_DATETIME = 253402300799"

definition cookie_duration :: "secret_data option \<Rightarrow> nat" where
  "cookie_duration secret =
     (case secret of
        None \<Rightarrow> 365 * 24 * 60 * 60
      | Some s \<Rightarrow> (let d = ttl (sd_lease s) div NANOS in if d \<noteq> 0 then d else 365 * 24 * 60 * 60))"

definition auth_cookie :: "http_env \<Rightarrow> response \<Rightarrow> string \<Rightarrow> auth \<Rightarrow> cookie option res" where
  "auth_cookie E resp path au =
     (if starts_with path ''auth/token/'' then Ok None
      else
        let t = he_now E + int (cookie_duration (rs_secret resp)) in
        if t > MAX_DATETIME then Panic
        else Ok (Some \<lparr>cookie_name = AUTH_COOKIE_NAME, cookie_value = au_client_token au, cookie_path = ''/'',
          cookie_expires = t\<rparr>))"

definition response_logical :: "http_env \<Rightarrow> response \<Rightarrow> string \<Rightarrow> http_response res" where
  "response_logical E resp path =
     res_bind (case rs_auth resp of None \<Rightarrow> Ok None | Some au \<Rightarrow> auth_cookie E resp path au) (\<lambda>cookie.
       if rs_secret resp = None \<and> rs_auth resp = None \<and> rs_data resp = None then Ok (response_ok cookie None)
       else
         Ok (response_json_ok cookie (LogicalBody
           \<lparr>lr_renewable = (case rs_secret resp of None \<Rightarrow> False | Some s \<Rightarrow> renewable (sd_lease s)),
            lr_lease_id = (case rs_secret resp of None \<Rightarrow> [] | Some s \<Rightarrow> sd_lease_id s),
            lr_lease_duration = (case rs_secret resp of None \<Rightarrow> 0 | Some s \<Rightarrow> ttl (sd_lease s) div NANOS),
            lr_auth = map_option (\<lambda>au.
              \<lparr>ha_client_token = au_client_token au, ha_policies = au_policies au, ha_metadata = au_metadata au,
               ha_lease_duration = ttl (au_lease au) div NANOS, ha_renewable = renewable (au_lease au)\<rparr>) (rs_auth resp),
            lr_data = (case rs_data resp of None \<Rightarrow> [] | Some d \<Rightarrow> d)\<rparr>)))"

definition request_connection :: "http_connection \<Rightarrow> connection" where
  "request_connection conn =
     \<lparr>peer_addr = hc_peer conn, peer_tls_cert = Option.bind (hc_tls conn) ti_client_cert_chain\<rparr>"

text \<open>The request for the core; \<open>None\<close> for a method that is not allowed.\<close>

definition logical_request :: "http_env \<Rightarrow> http_request \<Rightarrow> string \<Rightarrow> http_connection \<Rightarrow> request option res" where
  "logical_request E req path conn =
     (let r = (request_auth req)\<lparr>rq_path := path, rq_connection := Some (request_connection conn)\<rparr>;
          write = (if hr_body req = [] then Ok (Some (r\<lparr>rq_operation := Write\<rparr>))
                   else res_bind (parsed_body (he_object E) (hr_body req)) (\<lambda>m.
                     Ok (Some (r\<lparr>rq_operation := Write, rq_body := Some m\<rparr>))))
      in case hr_method req of
           GET \<Rightarrow> Ok (Some (r\<lparr>rq_operation := Read\<rparr>))
         | POST \<Rightarrow> write
         | PUT \<Rightarrow> write
         | DELETE \<Rightarrow> Ok (Some (r\<lparr>rq_operation := Delete\<rparr>))
         | OtherMethod m \<Rightarrow> Ok (if m = ''LIST'' then Some (r\<lparr>rq_operation := List\<rparr>) else None))"

definition logical_answer :: "http_env \<Rightarrow> response option \<Rightarrow> request \<Rightarrow> http_response res" where
  "logical_answer E resp r =
     (case resp of
        Some resp \<Rightarrow> response_logical E resp (rq_path r)
      | None \<Rightarrow> Ok (if rq_operation r = Read \<or> rq_operation r = List then response_error 404 [] else response_ok None None))"

definition logical_request_handler ::
  "'v core_api \<Rightarrow> http_env \<Rightarrow> http_request \<Rightarrow> string \<Rightarrow> ('v, http_response) op" where
  "logical_request_handler api E req path =
     (case hr_connection req of
        None \<Rightarrow> op_res Panic
      | Some conn \<Rightarrow>
          op_bind (op_res (logical_request E req path conn)) (\<lambda>r v.
            case r of
              None \<Rightarrow> (Ok (response_error 405 []), v)
            | Some r \<Rightarrow>
                (case ca_handle api (v, r) of
                   (Ok resp, (v', r')) \<Rightarrow> (logical_answer E resp r', v')
                 | (Err e, (v', _)) \<Rightarrow> (Err e, v')
                 | (Panic, (v', _)) \<Rightarrow> (Panic, v'))))"

section \<open>System requests\<close>

definition response_seal_status :: "'v core_api \<Rightarrow> ('v, http_response) op" where
  "response_seal_status api v =
     op_bind (ca_seal_config api) (\<lambda>cfg.
       op_return (response_json_ok None (SealStatusBody
         \<lparr>ss_sealed = ca_sealed api v, ss_t = secret_shares cfg, ss_n = secret_threshold cfg,
          ss_progress = ca_progress api v\<rparr>))) v"

definition sys_init_get_request_handler :: "'v core_api \<Rightarrow> ('v, http_response) op" where
  "sys_init_get_request_handler api =
     op_bind (ca_inited api) (\<lambda>inited. op_return (response_ok None (Some [(''initialized'', JBool inited)])))"

definition sys_init_put_request_handler :: "'v core_api \<Rightarrow> http_env \<Rightarrow> http_request \<Rightarrow> ('v, http_response) op" where
  "sys_init_put_request_handler api E req =
     op_bind (op_res (parsed_body (he_init_request E) (hr_body req))) (\<lambda>(shares, threshold).
     op_bind (ca_init api \<lparr>secret_shares = shares, secret_threshold = threshold\<rparr>) (\<lambda>result.
       op_return (response_json_ok None (InitBody
         \<lparr>in_keys = map hex_bytes (ir_secret_shares result), in_root_token = ir_root_token result\<rparr>))))"

definition sys_seal_status_request_handler :: "'v core_api \<Rightarrow> ('v, http_response) op" where
  "sys_seal_status_request_handler api = response_seal_status api"

definition sys_seal_request_handler :: "'v core_api \<Rightarrow> ('v, http_response) op" where
  "sys_seal_request_handler api = op_bind (ca_seal api) (\<lambda>_. op_return (response_ok None None))"

definition sys_unseal_request_handler :: "'v core_api \<Rightarrow> http_env \<Rightarrow> http_request \<Rightarrow> ('v, http_response) op" where
  "sys_unseal_request_handler api E req =
     op_bind (op_res (parsed_body (he_unseal_request E) (hr_body req))) (\<lambda>text.
     op_bind (op_res (case he_hex_decode E text of
         Some key \<Rightarrow> Ok key | None \<Rightarrow> Err (External Hex ''invalid hexadecimal text''))) (\<lambda>key.
     op_bind (ca_unseal api key) (\<lambda>_. response_seal_status api)))"

text \<open>
  The other handlers hand a request to the core. A handler with a body checks first that it has the form of its
  structure, and reads it again as an object.
\<close>

definition sys_request :: "http_request \<Rightarrow> string \<Rightarrow> operation \<Rightarrow> request" where
  "sys_request req path op = (request_auth req)\<lparr>rq_path := path, rq_operation := op\<rparr>"

definition checked_body :: "(bytes \<Rightarrow> 'a option) \<Rightarrow> http_env \<Rightarrow> http_request \<Rightarrow> json_obj res" where
  "checked_body read E req =
     res_bind (parsed_body read (hr_body req)) (\<lambda>_. parsed_body (he_object E) (hr_body req))"

definition sys_list_mounts_request_handler :: "'v core_api \<Rightarrow> http_request \<Rightarrow> ('v, http_response) op" where
  "sys_list_mounts_request_handler api req = http_handle_request api (sys_request req ''sys/mounts'' Read)"

definition sys_mount_request_handler ::
  "'v core_api \<Rightarrow> http_env \<Rightarrow> http_request \<Rightarrow> string \<Rightarrow> ('v, http_response) op" where
  "sys_mount_request_handler api E req path =
     op_bind (op_res (checked_body (he_mount_request E) E req)) (\<lambda>payload.
       if path = [] then op_return (response_error 404 [])
       else http_handle_request api ((sys_request req (''sys/mounts/'' @ path) Write)\<lparr>rq_body := Some payload\<rparr>))"

definition sys_unmount_request_handler :: "'v core_api \<Rightarrow> http_request \<Rightarrow> string \<Rightarrow> ('v, http_response) op" where
  "sys_unmount_request_handler api req path =
     (if path = [] then op_return (response_error 404 [])
      else http_handle_request api (sys_request req (''sys/mounts/'' @ path) Delete))"

definition sys_remount_request_handler :: "'v core_api \<Rightarrow> http_env \<Rightarrow> http_request \<Rightarrow> ('v, http_response) op" where
  "sys_remount_request_handler api E req =
     op_bind (op_res (checked_body (he_remount_request E) E req)) (\<lambda>payload.
       http_handle_request api ((sys_request req ''sys/remount'' Write)\<lparr>rq_body := Some payload\<rparr>))"

definition sys_list_auth_mounts_request_handler :: "'v core_api \<Rightarrow> http_request \<Rightarrow> ('v, http_response) op" where
  "sys_list_auth_mounts_request_handler api req = http_handle_request api (sys_request req ''sys/auth'' Read)"

definition sys_auth_enable_request_handler ::
  "'v core_api \<Rightarrow> http_env \<Rightarrow> http_request \<Rightarrow> string \<Rightarrow> ('v, http_response) op" where
  "sys_auth_enable_request_handler api E req path =
     op_bind (op_res (checked_body (he_mount_request E) E req)) (\<lambda>payload.
       if path = [] then op_return (response_error 404 [])
       else http_handle_request api ((sys_request req (''sys/auth/'' @ path) Write)\<lparr>rq_body := Some payload\<rparr>))"

definition sys_auth_disable_request_handler :: "'v core_api \<Rightarrow> http_request \<Rightarrow> string \<Rightarrow> ('v, http_response) op" where
  "sys_auth_disable_request_handler api req path =
     (if path = [] then op_return (response_error 404 [])
      else http_handle_request api (sys_request req (''sys/auth/'' @ path) Delete))"

definition sys_list_policy_request_handler :: "'v core_api \<Rightarrow> http_request \<Rightarrow> ('v, http_response) op" where
  "sys_list_policy_request_handler api req = http_handle_request api (sys_request req ''sys/policy'' List)"

definition sys_read_policy_request_handler :: "'v core_api \<Rightarrow> http_request \<Rightarrow> string \<Rightarrow> ('v, http_response) op" where
  "sys_read_policy_request_handler api req name =
     http_handle_request api (sys_request req (''sys/policy/'' @ name) (if name = [] then List else Read))"

definition sys_write_policy_request_handler ::
  "'v core_api \<Rightarrow> http_env \<Rightarrow> http_request \<Rightarrow> string \<Rightarrow> ('v, http_response) op" where
  "sys_write_policy_request_handler api E req name =
     op_bind (op_res (checked_body (he_policy_request E) E req)) (\<lambda>payload.
       if name = [] then op_return (response_error 404 [])
       else http_handle_request api ((sys_request req (''sys/policy/'' @ name) Write)\<lparr>rq_body := Some payload\<rparr>))"

definition sys_delete_policy_request_handler :: "'v core_api \<Rightarrow> http_request \<Rightarrow> string \<Rightarrow> ('v, http_response) op" where
  "sys_delete_policy_request_handler api req name =
     (if name = [] then op_return (response_error 404 [])
      else http_handle_request api (sys_request req (''sys/policy/'' @ name) Delete))"

definition sys_list_policies_request_handler :: "'v core_api \<Rightarrow> http_request \<Rightarrow> ('v, http_response) op" where
  "sys_list_policies_request_handler api req = http_handle_request api (sys_request req ''sys/policies/acl'' List)"

definition sys_read_policies_request_handler :: "'v core_api \<Rightarrow> http_request \<Rightarrow> string \<Rightarrow> ('v, http_response) op" where
  "sys_read_policies_request_handler api req name =
     http_handle_request api (sys_request req (''sys/policies/acl/'' @ name) (if name = [] then List else Read))"

definition sys_write_policies_request_handler ::
  "'v core_api \<Rightarrow> http_env \<Rightarrow> http_request \<Rightarrow> string \<Rightarrow> ('v, http_response) op" where
  "sys_write_policies_request_handler api E req name =
     op_bind (op_res (checked_body (he_policy_request E) E req)) (\<lambda>payload.
       if name = [] then op_return (response_error 404 [])
       else http_handle_request api ((sys_request req (''sys/policies/acl/'' @ name) Write)\<lparr>rq_body := Some payload\<rparr>))"

definition sys_delete_policies_request_handler :: "'v core_api \<Rightarrow> http_request \<Rightarrow> string \<Rightarrow> ('v, http_response) op" where
  "sys_delete_policies_request_handler api req name =
     (if name = [] then op_return (response_error 404 [])
      else http_handle_request api (sys_request req (''sys/policies/acl/'' @ name) Delete))"

section \<open>Routes\<close>

text \<open>The pattern of a resource: one path, or every path below a prefix, whose rest is the argument of the handler.\<close>

datatype resource_pattern = Exactly string | Below string

definition resource_arg :: "resource_pattern \<Rightarrow> string \<Rightarrow> string option" where
  "resource_arg p path =
     (case p of
        Exactly s \<Rightarrow> if path = s then Some [] else None
      | Below s \<Rightarrow> strip_prefix path s)"

type_synonym 'v route_handler = "http_request \<Rightarrow> string \<Rightarrow> ('v, http_response) op"
type_synonym 'v resource = "resource_pattern \<times> (http_method \<times> 'v route_handler) list"

definition init_resource :: "'v core_api \<Rightarrow> http_env \<Rightarrow> 'v resource" where
  "init_resource api E =
     (Exactly ''/init'',
      [(GET, \<lambda>_ _. sys_init_get_request_handler api), (POST, \<lambda>req _. sys_init_put_request_handler api E req),
       (PUT, \<lambda>req _. sys_init_put_request_handler api E req)])"

definition sys_resources :: "'v core_api \<Rightarrow> http_env \<Rightarrow> 'v resource list" where
  "sys_resources api E =
     [init_resource api E,
      (Exactly ''/seal-status'', [(GET, \<lambda>_ _. sys_seal_status_request_handler api)]),
      (Exactly ''/seal'', [(POST, \<lambda>_ _. sys_seal_request_handler api), (PUT, \<lambda>_ _. sys_seal_request_handler api)]),
      (Exactly ''/unseal'',
        [(POST, \<lambda>req _. sys_unseal_request_handler api E req), (PUT, \<lambda>req _. sys_unseal_request_handler api E req)]),
      (Exactly ''/mounts'', [(GET, \<lambda>req _. sys_list_mounts_request_handler api req)]),
      (Below ''/mounts/'',
        [(GET, \<lambda>req _. sys_list_mounts_request_handler api req), (POST, sys_mount_request_handler api E),
         (DELETE, sys_unmount_request_handler api)]),
      (Exactly ''/remount'',
        [(POST, \<lambda>req _. sys_remount_request_handler api E req), (PUT, \<lambda>req _. sys_remount_request_handler api E req)]),
      (Exactly ''/auth'', [(GET, \<lambda>req _. sys_list_auth_mounts_request_handler api req)]),
      (Below ''/auth/'',
        [(GET, \<lambda>req _. sys_list_auth_mounts_request_handler api req), (POST, sys_auth_enable_request_handler api E),
         (DELETE, sys_auth_disable_request_handler api)]),
      (Exactly ''/policy'', [(GET, \<lambda>req _. sys_list_policy_request_handler api req)]),
      (Below ''/policy/'',
        [(GET, sys_read_policy_request_handler api), (POST, sys_write_policy_request_handler api E),
         (DELETE, sys_delete_policy_request_handler api)]),
      (Exactly ''/policies/acl'', [(GET, \<lambda>req _. sys_list_policies_request_handler api req)]),
      (Below ''/policies/acl/'',
        [(GET, sys_read_policies_request_handler api), (POST, sys_write_policies_request_handler api E),
         (DELETE, sys_delete_policies_request_handler api)])]"

fun find_resource :: "string \<Rightarrow> 'v resource list \<Rightarrow> (string \<times> (http_method \<times> 'v route_handler) list) option" where
  "find_resource path [] = None"
| "find_resource path ((p, routes) # rs) =
     (case resource_arg p path of Some arg \<Rightarrow> Some (arg, routes) | None \<Rightarrow> find_resource path rs)"

definition init_sys_service :: "'v core_api \<Rightarrow> http_env \<Rightarrow> http_request \<Rightarrow> string \<Rightarrow> ('v, http_response) op" where
  "init_sys_service api E req rest =
     (case find_resource rest (sys_resources api E) of
        None \<Rightarrow> op_return (response_error 404 [])
      | Some (arg, routes) \<Rightarrow>
          (case map_of routes (hr_method req) of
             None \<Rightarrow> op_return (response_error 405 []) | Some h \<Rightarrow> h req arg))"

definition init_logical_service :: "'v core_api \<Rightarrow> http_env \<Rightarrow> http_request \<Rightarrow> string \<Rightarrow> ('v, http_response) op" where
  "init_logical_service api E req rest =
     (case strip_prefix rest ''/'' of
        None \<Rightarrow> op_return (response_error 404 [])
      | Some path \<Rightarrow> logical_request_handler api E req path)"

definition metrics_handler :: "http_env \<Rightarrow> http_response" where
  "metrics_handler E =
     (case he_metrics E of
        None \<Rightarrow> response_error 500 [] | Some text \<Rightarrow> \<lparr>hp_status = 200, hp_cookie = None, hp_body = TextBody text\<rparr>)"

definition init_metrics_service :: "http_env \<Rightarrow> http_request \<Rightarrow> ('v, http_response) op" where
  "init_metrics_service E req =
     op_return (if hr_method req = GET then metrics_handler E else response_error 405 [])"

text \<open>A scope takes the paths below its prefix.\<close>

definition scope_rest :: "string \<Rightarrow> string \<Rightarrow> string option" where
  "scope_rest scope path =
     (if path = scope then Some []
      else if starts_with path (scope @ ''/'') then strip_prefix path scope
      else None)"

definition init_service :: "'v core_api \<Rightarrow> http_env \<Rightarrow> http_request \<Rightarrow> ('v, http_response) op" where
  "init_service api E req =
     (case scope_rest ''/v1/sys'' (hr_path req) of
        Some rest \<Rightarrow> init_sys_service api E req rest
      | None \<Rightarrow>
          (case scope_rest ''/v1'' (hr_path req) of
             Some rest \<Rightarrow> init_logical_service api E req rest
           | None \<Rightarrow>
               if hr_path req = ''/metrics'' then init_metrics_service E req else op_return (response_error 404 [])))"

text \<open>The answer of the server: an error of a handler is turned into one.\<close>

definition http_serve :: "'v core_api \<Rightarrow> http_env \<Rightarrow> http_request \<Rightarrow> ('v, http_response) op" where
  "http_serve api E req v =
     (case init_service api E req v of (Err e, v') \<Rightarrow> (http_error_response e, v') | r \<Rightarrow> r)"

end
