(* ===== verification/Server.thy ===== *)
theory Server
  imports Http Cert_Logins Certificates
begin

text \<open>
  Properties of the HTTP server over the core: what a sealed vault answers, sealing and unsealing by requests, which
  requests reach the core, and what the connection passes on to the login by certificate.

  The locale \<open>sealing_core\<close> is what the server relies on when the vault is sealed; it is interpreted on \<open>vault_api\<close>.
\<close>

section \<open>A sealed core\<close>

text \<open>An outcome of a handler that did not reach a backend: an answer from 400 on, or one of two errors.\<close>

definition refused :: "http_response res \<Rightarrow> bool" where
  "refused r \<longleftrightarrow>
     (case r of
        Ok resp \<Rightarrow> 400 \<le> hp_status resp
      | Err e \<Rightarrow> e = ErrBarrierSealed \<or> e = External SerdeJson ''invalid body''
      | Panic \<Rightarrow> True)"

lemma refused_simps [simp]:
  "refused (Ok resp) \<longleftrightarrow> 400 \<le> hp_status resp" "refused (Err ErrBarrierSealed)"
  "refused (Err (External SerdeJson ''invalid body''))" "refused Panic"
  by (simp_all add: refused_def)

lemma response_error_status [simp]: "hp_status (response_error n msg) = n" "hp_body (response_error n []) = NoBody"
  by (simp_all add: response_error_def)

lemma parsed_body_cases:
  obtains x where "parsed_body read body = Ok x" | "parsed_body read body = Err (External SerdeJson ''invalid body'')"
  by (cases "read body") (simp_all add: parsed_body_def)

lemma checked_body_cases:
  obtains x where "checked_body read E req = Ok x" | "checked_body read E req = Err (External SerdeJson ''invalid body'')"
  by (cases rule: parsed_body_cases [of read "hr_body req"]; cases rule: parsed_body_cases [of "he_object E" "hr_body req"])
    (simp_all add: checked_body_def)

lemma error_answer_status:
  assumes "refused (Err e)" "http_error_response e = Ok resp"
  shows "400 \<le> hp_status resp"
  using assms by (auto simp: refused_def http_error_response_def response_json_def response_status_def Let_def)

text \<open>The paths whose handlers call the core otherwise than by a request.\<close>

definition direct_paths :: "string list" where
  "direct_paths = [''/v1/sys/init'', ''/v1/sys/seal-status'', ''/v1/sys/seal'', ''/v1/sys/unseal'']"

definition refuses :: "'v core_api \<Rightarrow> ('v, http_response) op \<Rightarrow> bool" where
  "refuses api m \<longleftrightarrow> (\<forall>v. ca_sealed api v \<longrightarrow> snd (m v) = v \<and> refused (fst (m v)))"

locale sealing_core =
  fixes api :: "'v core_api"
  assumes sealed_handle: "ca_sealed api v \<Longrightarrow> ca_handle api (v, r) = (Err ErrBarrierSealed, (v, r))"
begin

lemma sealed_request: "ca_sealed api v \<Longrightarrow> http_handle_request api r v = (Err ErrBarrierSealed, v)"
  by (simp add: http_handle_request_def sealed_handle)

lemma refuses_basic [simp]:
  "refuses api (http_handle_request api r)" "400 \<le> hp_status resp \<Longrightarrow> refuses api (op_return resp)"
  "refuses api (op_res Panic)"
  by (simp_all add: refuses_def sealed_request op_return_def op_res_def)

lemma refuses_checked:
  assumes "\<And>x. refuses api (f x)"
  shows "refuses api (op_bind (op_res (checked_body read E req)) f)"
  using assms by (cases rule: checked_body_cases [of read E req]) (simp_all add: refuses_def op_bind_def op_res_def)

lemma refuses_logical [simp]: "refuses api (logical_request_handler api E req path)"
  by (cases "he_object E (hr_body req)")
    (auto simp: refuses_def logical_request_handler_def logical_request_def Let_def op_bind_def op_res_def sealed_handle
      parsed_body_def split: option.split http_method.split)

lemma refuses_handlers [simp]:
  "refuses api (sys_list_mounts_request_handler api req)" "refuses api (sys_mount_request_handler api E req p)"
  "refuses api (sys_unmount_request_handler api req p)" "refuses api (sys_remount_request_handler api E req)"
  "refuses api (sys_list_auth_mounts_request_handler api req)" "refuses api (sys_auth_enable_request_handler api E req p)"
  "refuses api (sys_auth_disable_request_handler api req p)" "refuses api (sys_list_policy_request_handler api req)"
  "refuses api (sys_read_policy_request_handler api req p)" "refuses api (sys_write_policy_request_handler api E req p)"
  "refuses api (sys_delete_policy_request_handler api req p)" "refuses api (sys_list_policies_request_handler api req)"
  "refuses api (sys_read_policies_request_handler api req p)" "refuses api (sys_write_policies_request_handler api E req p)"
  "refuses api (sys_delete_policies_request_handler api req p)"
  by (auto simp: sys_list_mounts_request_handler_def sys_mount_request_handler_def sys_unmount_request_handler_def
      sys_remount_request_handler_def sys_list_auth_mounts_request_handler_def sys_auth_enable_request_handler_def
      sys_auth_disable_request_handler_def sys_list_policy_request_handler_def sys_read_policy_request_handler_def
      sys_write_policy_request_handler_def sys_delete_policy_request_handler_def sys_list_policies_request_handler_def
      sys_read_policies_request_handler_def sys_write_policies_request_handler_def sys_delete_policies_request_handler_def
      intro!: refuses_checked)

lemma refuses_sys:
  assumes "rest \<notin> {''/init'', ''/seal-status'', ''/seal'', ''/unseal''}"
  shows "refuses api (init_sys_service api E req rest)"
  using assms
  by (auto simp: init_sys_service_def sys_resources_def init_resource_def resource_arg_def split: option.split)

lemma sealed_serves_nothing:
  assumes "ca_sealed api v" "hr_path req \<notin> set direct_paths" "hr_path req \<noteq> ''/metrics''"
    and "http_serve api E req v = (r, v')"
  shows "v' = v \<and> (\<forall>resp. r = Ok resp \<longrightarrow> 400 \<le> hp_status resp)"
proof -
  have "refuses api (init_service api E req)"
  proof (cases "scope_rest ''/v1/sys'' (hr_path req)")
    case None
    then show ?thesis
      using assms(3) by (auto simp: init_service_def init_logical_service_def split: option.split)
  next
    case (Some rest)
    then have "hr_path req = ''/v1/sys'' @ rest"
      by (auto simp: scope_rest_def strip_prefix_def starts_with_iff_prefix elim!: prefixE split: if_splits)
    then have "refuses api (init_sys_service api E req rest)"
      using assms(2) by (intro refuses_sys) (auto simp: direct_paths_def)
    then show ?thesis using Some by (simp add: init_service_def)
  qed
  then have "snd (init_service api E req v) = v" "refused (fst (init_service api E req v))"
    using assms(1) by (simp_all add: refuses_def)
  then show ?thesis
    using assms(4) error_answer_status by (cases "init_service api E req v") (auto simp: http_serve_def split: res.splits)
qed

end

interpretation vc: sealing_core "vault_api E bound"
  by unfold_locales (simp add: vault_api_def vault_handle_request_def core_handle_request_def op_fail_def Let_def)

text \<open>
  C5: a sealed vault serves nothing. Whatever a request asks for and whatever token it has, apart from the paths of
  initialisation, sealing and unsealing and the page of the metrics, the server answers with an error status and the vault,
  with its storage, is as before.
\<close>

theorem sealed_vault_serves_nothing:
  assumes "va_sealed v" "hr_path req \<notin> {''/v1/sys/init'', ''/v1/sys/seal-status'', ''/v1/sys/seal'', ''/v1/sys/unseal'', ''/metrics''}"
    and "http_serve (vault_api E bound) H req v = (r, v')"
  shows "v' = v \<and> (\<forall>resp. r = Ok resp \<longrightarrow> 400 \<le> hp_status resp)"
  using vc.sealed_serves_nothing [of E bound v, OF _ _ _ assms(3)] assms(1,2) by (simp add: vault_api_def direct_paths_def)

section \<open>Sealing and unsealing by requests\<close>

lemma serve_sys:
  "hr_path req = ''/v1/sys/'' @ p \<Longrightarrow> init_service api H req = init_sys_service api H req (CHR ''/'' # p)"
  by (simp add: init_service_def scope_rest_def strip_prefix_def starts_with_def)

lemma serve_seal:
  assumes "hr_path req = ''/v1/sys/seal''" "hr_method req \<in> {POST, PUT}"
  shows "init_service api H req = sys_seal_request_handler api"
  using assms serve_sys [of req "''seal''" api H]
  by (auto simp: init_sys_service_def sys_resources_def init_resource_def resource_arg_def)

lemma serve_unseal:
  assumes "hr_path req = ''/v1/sys/unseal''" "hr_method req \<in> {POST, PUT}"
  shows "init_service api H req = sys_unseal_request_handler api H req"
  using assms serve_sys [of req "''unseal''" api H]
  by (auto simp: init_sys_service_def sys_resources_def init_resource_def resource_arg_def)

text \<open>
  C36: sealing needs no token. A request to \<open>/v1/sys/seal\<close>, with whatever headers, cookies and body, seals a vault over files
  that is initialised and unsealed, once the modules let it go. Afterwards every request is refused and changes nothing,
  except those to \<open>/v1/sys/init\<close>, \<open>/v1/sys/seal-status\<close>, \<open>/v1/sys/seal\<close>, \<open>/v1/sys/unseal\<close> and \<open>/metrics\<close>, which a
  sealed vault answers too.
\<close>

theorem anyone_seals:
  assumes "ve_physical E = file_backend ser de root" "file_invar ser de root (b_backend (the_barrier v))"
    and "file_contents de root (b_backend (the_barrier v)) BARRIER_INIT_PATH \<noteq> None" "\<not> b_sealed (the_barrier v)"
    and "pre_seal v = (Ok (), v1)"
    and "hr_path req = ''/v1/sys/seal''" "hr_method req \<in> {POST, PUT}"
  shows "\<exists>v'. http_serve (vault_api E bound) H req v = (Ok (response_ok None None), v') \<and> va_sealed v' \<and> b_sealed (the_barrier v') \<and>
    (\<forall>other r v''. hr_path other \<notin> {''/v1/sys/init'', ''/v1/sys/seal-status'', ''/v1/sys/seal'', ''/v1/sys/unseal'', ''/metrics''} \<longrightarrow>
      http_serve (vault_api E bound) H other v' = (r, v'') \<longrightarrow> v'' = v' \<and> (\<forall>resp. r = Ok resp \<longrightarrow> 400 \<le> hp_status resp))"
proof -
  have i: "core_inited E v = (Ok True, v)"
    using fb.core_inited_eq [OF assms(2) core_file_keys(1) assms(1)] assms(3) by simp
  obtain b where b: "barrier_seal (the_barrier v1) = (Ok (), b)" "b_sealed b"
    by (simp add: barrier_seal_def)
  let ?v = "v1\<lparr>va_sealed := True, va_core := (va_core v1)\<lparr>co_storage := b\<rparr>\<rparr>"
  have "core_seal E v = (Ok (), ?v)"
    using i assms(4,5) b(1) by (simp add: core_seal_def op_bind_def on_barrier_def the_barrier_def)
  then have "http_serve (vault_api E bound) H req v = (Ok (response_ok None None), ?v)"
    by (simp add: http_serve_def serve_seal [OF assms(6,7)] sys_seal_request_handler_def vault_api_def op_bind_def op_return_def)
  moreover have "va_sealed ?v" "b_sealed (the_barrier ?v)" using b(2) by (simp_all add: the_barrier_def)
  ultimately show ?thesis
    using vc.sealed_serves_nothing [of E bound ?v] by (intro exI [of _ ?v]) (auto simp: vault_api_def direct_paths_def)
qed

text \<open>Reading the stored configuration changes nothing.\<close>

lemma seal_config_reads:
  assumes "ve_physical E = file_backend ser de root"
  shows "snd (core_seal_config E v) = v"
proof -
  have g: "snd (file_get de root k fs) = fs" for k fs
    by (simp add: file_get_def split: option.split res.split prod.split sum.split io_kind.split)
  have "on_barrier (on_backend (file_get de root k)) v = (fst (file_get de root k (b_backend (the_barrier v))), v)" for k
    by (intro on_barrier_same) (simp add: on_backend_def split_def Let_def g)
  then show ?thesis
    using assms by (simp add: core_seal_config_def op_bind_def op_fail_def op_return_def op_res_def file_backend_def
      split: res.split option.split)
qed

text \<open>A request that presents a share in the hexadecimal form in which the initialisation gives it out.\<close>

definition posts_key :: "http_env \<Rightarrow> http_request \<Rightarrow> bytes \<Rightarrow> bool" where
  "posts_key H req key \<longleftrightarrow>
     hr_path req = ''/v1/sys/unseal'' \<and> hr_method req \<in> {POST, PUT} \<and> he_unseal_request H (hr_body req) = Some (hex_bytes key)"

definition serve_all :: "'v core_api \<Rightarrow> http_env \<Rightarrow> http_request list \<Rightarrow> 'v \<Rightarrow> 'v" where
  "serve_all api H reqs v = fold (\<lambda>req v. snd (http_serve api H req v)) reqs v"

lemma serve_snd: "snd (http_serve api H req v) = snd (init_service api H req v)"
  by (simp add: http_serve_def split: prod.split res.split)

lemma posted_key_unseals:
  assumes "ve_physical E = file_backend ser de root" "\<forall>b. he_hex_decode H (hex_bytes b) = Some b" "posts_key H req key"
  shows "snd (http_serve (vault_api E bound) H req v) = snd (core_unseal E key v)"
proof -
  have "snd (response_seal_status (vault_api E bound) w) = w" for w
    using seal_config_reads [OF assms(1), of w]
    by (auto simp: response_seal_status_def vault_api_def op_bind_def op_return_def split: prod.splits res.splits)
  then have "snd (sys_unseal_request_handler (vault_api E bound) H req v) = snd (core_unseal E key v)"
    using assms(2,3)
    by (auto simp: sys_unseal_request_handler_def parsed_body_def op_bind_def op_res_def posts_key_def vault_api_def
        split: prod.splits res.splits)
  then show ?thesis using assms(3) serve_unseal [of req "vault_api E bound" H] by (simp add: serve_snd posts_key_def)
qed

lemma posted_keys_present:
  assumes "ve_physical E = file_backend ser de root" "\<forall>b. he_hex_decode H (hex_bytes b) = Some b" "list_all2 (posts_key H) reqs keys"
  shows "serve_all (vault_api E bound) H reqs v = present E keys v"
  using assms(3)
  by (induction arbitrary: v rule: list_all2_induct)
    (simp_all add: serve_all_def present_def posted_key_unseals [OF assms(1,2)])

text \<open>
  C3: the shares of an initialisation unseal the vault by requests. Let \<open>out\<close> be the shares of a master key of 32 bytes under
  the stored configuration, with a positive threshold. The texts of one share less than the threshold are posted to
  \<open>/v1/sys/unseal\<close>, in any order and with any repetitions, and then the text of one more: the barrier is unsealed with the
  stored key and the set-up after an unseal decides the outcome.
\<close>

theorem posted_shares_unseal:
  assumes "ve_physical E = file_backend ser de root" "\<forall>b. he_hex_decode H (hex_bytes b) = Some b"
    and "awaits_shares (file_contents de root) (file_invar ser de root) E cfg v" "va_unseal_key_shares v = []" "secret_threshold cfg \<noteq> 0"
    and "make_shares E cfg master = Ok out" "length master = 32"
    and "list_all2 (posts_key H) reqs keys" "set keys \<subseteq> set out" "Suc (card (set keys)) = unat (secret_threshold cfg)"
    and "posts_key H req key" "key \<in> set out - set keys"
    and "file_contents de root (b_backend (the_barrier v)) BARRIER_INIT_PATH = Some c"
    and "barrier_decrypt (ve_crypto E) (Some master) BARRIER_INIT_PATH c = Ok x" "de_init (ve_crypto E) x = Some i"
  shows "snd (http_serve (vault_api E bound) H req (serve_all (vault_api E bound) H reqs v)) =
    snd (op_bind (post_unseal E) (\<lambda>_ v. (Ok True, v\<lparr>va_sealed := False\<rparr>))
      (v\<lparr>va_unseal_key_shares := [],
         va_core := (va_core v)\<lparr>co_storage := (the_barrier v)\<lparr>b_key := Some (bi_key i), b_sealed := False\<rparr>\<rparr>\<rparr>))"
  using threshold_unseals [OF assms(1,3-7,9,12,10,13-15)]
  by (simp add: posted_keys_present [OF assms(1,2,8)] posted_key_unseals [OF assms(1,2,11)])

section \<open>Requests that do not reach the core\<close>

text \<open>
  Parts of the system backend cannot be reached. Requests for the paths of the backend that read and write behind the
  views, that renew and revoke leases, and for its audit table are answered with 404 by the server, which has no resource for
  them; the core is not asked.
\<close>

theorem unrouted_system_paths:
  assumes "\<exists>p \<in> {''raw/'', ''renew/'', ''revoke/'', ''revoke-prefix/'', ''audit/''}. hr_path req = ''/v1/sys/'' @ p @ rest"
  shows "http_serve api H req v = (Ok (response_error 404 []), v)"
  using assms
  by (auto simp: http_serve_def serve_sys init_sys_service_def sys_resources_def init_resource_def resource_arg_def strip_prefix_def
      starts_with_def op_return_def)

section \<open>The certificates of a connection\<close>

text \<open>
  C37: the certificate that a client proves to hold is not the one that is checked. The certificates that the client sends
  beside its own come first in the connection, and the login by certificate takes the first one. A client with any certificate
  of its own that sends the configured certificate of somebody else, which is public, logs in as its owner, as long as the
  owner could: the certificate is not revoked, has not expired, its names pass and OpenSSL does not find its issuer.
\<close>

theorem sent_certificate_impersonates:
  assumes "request_on_connect_handler (TlsConn s (Some (victim # sent)) (Some own) result) = Ok (Some conn)"
    and "logical_request H hreq path conn = Ok (Some r0)" "rq_connection req = rq_connection r0"
    and "get_config E (vault_ops C ser de root) req a = (Ok (Some cfg), a)"
    and "login_cert_name E req = Ok name" "name \<noteq> []"
      "get_cert E (vault_ops C ser de root) req (trim_start_matches ''cert/'' name) a = (Ok (Some e), a)"
      "en_certificate e = victim # others" "\<not> is_ca_cert (ck_x509 E) victim"
    and "ck_authority_key_id E victim \<noteq> None" "\<not> check_for_chain_in_crls E (cs_crls a) (entry_certs e)"
    and "ck_verify_cert E [] victim (sent @ [own]) = Ok (False, 20, xs)" "ck_now E div int NANOS < xe_not_after (ck_x509 E) victim"
    and "names_match E victim e" "matches_certificate_extensions E victim e = Ok True" "check_login_addr E (hc_peer conn) e = Ok ()"
    and "(case ck_common_name E victim of None \<Rightarrow> Ok [] | Some r \<Rightarrow> r) = Ok cn" "ck_dec_str E (xe_serial (ck_x509 E) victim) = Ok sn"
      "certificate_extensions_metadata E victim e = Ok ext"
  shows "cert_login E (vault_ops C ser de root) (a, req) =
    (Ok (Some (response_new\<lparr>rs_auth := Some (cert_auth E victim cn sn ext e)\<rparr>)), (a, req))"
proof -
  have "hc_tls conn = Some \<lparr>ti_client_cert_chain = Some (victim # sent @ [own]), ti_client_verify_result = result\<rparr>"
    using assms(1) by (auto simp: request_on_connect_handler_def connected_def client_chain_def split: res.splits)
  moreover have "rq_connection r0 = Some (request_connection conn)"
    using assms(2)
    by (auto simp: logical_request_def Let_def parsed_body_def split: http_method.splits if_splits option.splits)
  ultimately have "rq_connection req = Some (request_connection conn)"
    "peer_tls_cert (request_connection conn) = Some (victim # sent @ [own])" "peer_addr (request_connection conn) = hc_peer conn"
    using assms(3) by (simp_all add: request_connection_def)
  then show ?thesis
    using leaf_login [of E "vault_ops C ser de root" req a cfg, OF assms(4) _ _ assms(5-9) _ assms(11,12) _ assms(13-15) _ assms(17-19)]
      assms(10,16) by (simp add: same_leaf_def)
qed

section \<open>Witnesses\<close>

text \<open>Hexadecimal texts are decoded by looking for the bytes; the body of an unsealing request is the share itself.\<close>

definition demo_http :: http_env where
  "demo_http =
     \<lparr>he_object = (\<lambda>_. Some []), he_init_request = (\<lambda>_. Some (3, 2)), he_unseal_request = (\<lambda>b. Some (hex_bytes b)),
      he_mount_request = (\<lambda>_. None), he_remount_request = (\<lambda>_. None), he_policy_request = (\<lambda>_. None),
      he_hex_decode = (\<lambda>t. Some (demo_unhex t)), he_now = 0, he_metrics = None\<rparr>"

definition demo_http_request :: "http_method \<Rightarrow> string \<Rightarrow> bytes \<Rightarrow> http_request" where
  "demo_http_request m p b =
     \<lparr>hr_method = m, hr_path = p, hr_headers = [], hr_cookies = [], hr_body = b, hr_connection = Some http_connection_new\<rparr>"

lemma demo_posts: "posts_key demo_http (demo_http_request PUT ''/v1/sys/unseal'' b) b"
  by (simp add: posts_key_def demo_http_def demo_http_request_def)

theorem sealed_vault_serves_nothing_witness:
  "va_sealed demo_vault \<and>
   http_serve (vault_api demo_venv (\<lambda>_. CoreRouter)) demo_http (demo_http_request GET ''/v1/secret/a'' []) demo_vault =
     (Ok \<lparr>hp_status = 503, hp_cookie = None, hp_body = JsonBody [(''error'', JString ''RustyVault is sealed.'')]\<rparr>, demo_vault) \<and>
   400 \<le> (503 :: nat)"
proof -
  have v: "va_sealed demo_vault" by (simp add: demo_vault_def)
  have e: "http_serve (vault_api demo_venv (\<lambda>_. CoreRouter)) demo_http (demo_http_request GET ''/v1/secret/a'' []) demo_vault =
     (Ok \<lparr>hp_status = 503, hp_cookie = None, hp_body = JsonBody [(''error'', JString ''RustyVault is sealed.'')]\<rparr>, demo_vault)"
    using vc.sealed_handle [of demo_venv "\<lambda>_. CoreRouter" demo_vault] v
    by (simp add: http_serve_def init_service_def scope_rest_def starts_with_def strip_prefix_def demo_http_request_def
        init_logical_service_def logical_request_handler_def logical_request_def Let_def op_bind_def op_res_def http_error_response_def
        response_json_def response_status_def error_text_def vault_api_def)
  from sealed_vault_serves_nothing [OF v _ e] v e show ?thesis by (simp add: demo_http_request_def)
qed

theorem anyone_seals_witness:
  "\<exists>v v'. \<not> b_sealed (the_barrier v) \<and>
    http_serve (vault_api demo_venv (\<lambda>_. CoreRouter)) demo_http (demo_http_request PUT ''/v1/sys/seal'' []) v =
      (Ok (response_ok None None), v') \<and> va_sealed v' \<and> b_sealed (the_barrier v')"
proof -
  obtain v0 c where v0: "awaits_shares (file_contents demo_de [''data'']) (file_invar demo_ser demo_de [''data'']) demo_venv demo_config v0"
    "file_contents demo_de [''data''] (b_backend (the_barrier v0)) BARRIER_INIT_PATH = Some c"
    using demo_awaiting by blast
  let ?v = "v0\<lparr>va_core := core_empty ((the_barrier v0)\<lparr>b_sealed := False\<rparr>) [], va_modules := []\<rparr>"
  have b: "the_barrier ?v = (the_barrier v0)\<lparr>b_sealed := False\<rparr>" by (simp add: the_barrier_def core_empty_def)
  obtain v1 where p: "pre_seal ?v = (Ok (), v1)"
    by (simp add: pre_seal_def modules_cleanup_def op_bind_def on_core_def unload_mounts_def core_empty_def Let_def)
  obtain v' where "http_serve (vault_api demo_venv (\<lambda>_. CoreRouter)) demo_http (demo_http_request PUT ''/v1/sys/seal'' []) ?v =
      (Ok (response_ok None None), v')" "va_sealed v'" "b_sealed (the_barrier v')"
    using anyone_seals [OF demo_vault_simps(1) _ _ _ p, of "demo_http_request PUT ''/v1/sys/seal'' []" "\<lambda>_. CoreRouter" demo_http]
      v0 b by (auto simp: awaits_shares_def demo_http_request_def)
  moreover have "\<not> b_sealed (the_barrier ?v)" using b by simp
  ultimately show ?thesis by blast
qed

theorem posted_shares_unseal_witness:
  "\<exists>v. awaits_shares (file_contents demo_de [''data'']) (file_invar demo_ser demo_de [''data'']) demo_venv demo_config v \<and>
    snd (http_serve (vault_api demo_venv (\<lambda>_. CoreRouter)) demo_http (demo_http_request PUT ''/v1/sys/unseal'' (replicate 32 9 @ [3]))
      (serve_all (vault_api demo_venv (\<lambda>_. CoreRouter)) demo_http
        [demo_http_request PUT ''/v1/sys/unseal'' (replicate 32 7 @ [1])] v)) =
    snd (op_bind (post_unseal demo_venv) (\<lambda>_ v. (Ok True, v\<lparr>va_sealed := False\<rparr>))
      (v\<lparr>va_unseal_key_shares := [],
         va_core := (va_core v)\<lparr>co_storage := (the_barrier v)\<lparr>b_key := Some (replicate 32 1), b_sealed := False\<rparr>\<rparr>\<rparr>))"
proof -
  obtain v c where aw: "awaits_shares (file_contents demo_de [''data'']) (file_invar demo_ser demo_de [''data''])
      demo_venv demo_config v" "va_unseal_key_shares v = []"
    and c: "file_contents demo_de [''data''] (b_backend (the_barrier v)) BARRIER_INIT_PATH = Some c"
    and dec: "barrier_decrypt demo_crypto (Some (replicate 32 0)) BARRIER_INIT_PATH c =
      Ok (ser_init demo_crypto \<lparr>bi_version = 1, bi_key = rng_fill demo_crypto 1 32\<rparr>)"
    using demo_awaiting by blast
  have dec': "barrier_decrypt (ve_crypto demo_venv) (Some (replicate 32 0)) BARRIER_INIT_PATH c =
      Ok (ser_init demo_crypto \<lparr>bi_version = 1, bi_key = replicate 32 1\<rparr>)"
    using dec by (simp add: demo_crypto_def)
  have de: "de_init (ve_crypto demo_venv) (ser_init demo_crypto i) = Some i" for i by (simp add: demo_init_codec)
  have t: "secret_threshold demo_config \<noteq> 0" "Suc (card (set [replicate 32 (7 :: u8) @ [1]])) = unat (secret_threshold demo_config)"
    by (simp_all add: demo_config_def)
  have k: "length (replicate 32 (0 :: u8)) = 32"
    "set [replicate 32 7 @ [1]] \<subseteq> set [replicate 32 7 @ [1 :: u8], replicate 32 14 @ [2], replicate 32 9 @ [3]]"
    "replicate 32 9 @ [3] \<in> set [replicate 32 7 @ [1 :: u8], replicate 32 14 @ [2], replicate 32 9 @ [3]] -
      set [replicate 32 7 @ [1]]"
    by simp_all
  have h: "\<forall>b. he_hex_decode demo_http (hex_bytes b) = Some b" by (simp add: demo_http_def)
  have p: "list_all2 (posts_key demo_http) [demo_http_request PUT ''/v1/sys/unseal'' (replicate 32 7 @ [1])] [replicate 32 7 @ [1]]"
    by (simp add: demo_posts)
  from posted_shares_unseal [OF demo_vault_simps(1) h aw t(1) demo_shares k(1) p k(2) t(2) demo_posts k(3) c dec' de, of "\<lambda>_. CoreRouter"] aw(1)
  show ?thesis by auto
qed

theorem unrouted_system_paths_witness:
  "http_serve (vault_api demo_venv (\<lambda>_. CoreRouter)) demo_http (demo_http_request GET ''/v1/sys/raw/core/mounts'' []) demo_vault =
    (Ok (response_error 404 []), demo_vault)"
  using unrouted_system_paths [of "demo_http_request GET ''/v1/sys/raw/core/mounts'' []" "''core/mounts''"]
  by (simp add: demo_http_request_def)

text \<open>The client has the certificate with the number 5 and sends the configured one, with the number 7, beside it.\<close>

definition demo_tls :: conn_object where
  "demo_tls = TlsConn \<lparr>sk_peer_addr = Ok [], sk_local_addr = Ok [], sk_ttl = Ok 64\<rparr> (Some [[7, 0, 1, 9]]) (Some [5, 0, 2, 3]) 18"

lemma connection_not_data: "get_data ps (req\<lparr>rq_connection := x\<rparr>) key = get_data ps req key"
  by (simp add: get_data_def data_ready_def get_data_raw_def cong: option.case_cong if_cong)

lemma connection_not_storage [simp]:
  "get_config E sops (req\<lparr>rq_connection := x\<rparr>) = get_config E sops req"
  "get_cert E sops (req\<lparr>rq_connection := x\<rparr>) n = get_cert E sops req n"
  "login_cert_name E (req\<lparr>rq_connection := x\<rparr>) = login_cert_name E req"
  by (simp_all add: get_config_def get_cert_def rq_storage_get_def on_storage_def login_cert_name_def connection_not_data
      cong: option.case_cong)

theorem sent_certificate_impersonates_witness:
  "\<exists>a req conn au. request_on_connect_handler demo_tls = Ok (Some conn) \<and> rq_connection req = Some (request_connection conn) \<and>
    cert_login demo_certs demo_ops2 (a, req) = (Ok (Some (response_new\<lparr>rs_auth := Some au\<rparr>)), (a, req)) \<and> au_policies au = [''admin'']"
proof -
  obtain a where a: "demo_cert_ready a" "cs_crls a = []" "demo_cert_contents a (cert_entry_key ''web'') = Some []"
    "demo_cert_contents a ''config'' = None"
    by (rule demo_certs_made) (use demo_cert_keys(2) in \<open>simp add: cert_entry_key_def\<close>)
  let ?hreq = "demo_http_request PUT ''/v1/auth/cert/login'' []"
  obtain conn where c: "request_on_connect_handler demo_tls = Ok (Some conn)"
    by (simp add: demo_tls_def request_on_connect_handler_def connected_def)
  obtain r0 where r0: "logical_request demo_http ?hreq ''auth/cert/login'' conn = Ok (Some r0)"
    "rq_connection r0 = Some (request_connection conn)"
    by (simp add: logical_request_def demo_http_request_def Let_def)
  let ?req = "(demo_cert_login [])\<lparr>rq_connection := rq_connection r0\<rparr>"
  note n = demo_named [OF a(1,3,4), of "[]"]
  have "cert_login demo_certs demo_ops2 (a, ?req) =
      (Ok (Some (response_new\<lparr>rs_auth := Some (cert_auth demo_certs [7, 0, 1, 9] [] (replicate 7 CHR ''i'') Map.empty demo_cert_entry)\<rparr>)), (a, ?req))"
    by (rule sent_certificate_impersonates [where victim = "[7, 0, 1, 9]" and sent = "[]" and own = "[5, 0, 2, 3]",
          OF c [unfolded demo_tls_def] r0(1), where e = demo_cert_entry and name = "''web''" and cfg = cert_config_default])
      (use n demo_cert_args(5) demo_entry_facts a(2) in simp_all)
  moreover have "au_policies (cert_auth demo_certs [7, 0, 1, 9] [] (replicate 7 CHR ''i'') Map.empty demo_cert_entry) = [''admin'']"
    using demo_entry_facts(6) by (simp add: cert_auth_def populate_token_auth_def)
  ultimately show ?thesis using c r0(2) by (intro exI [of _ a] exI [of _ ?req] exI [of _ conn]) auto
qed

end
