(* ===== verification/Config.thy ===== *)
theory Config
  imports Core "HOL-Library.Monad_Syntax"
begin

text \<open>
  The configuration of the server, \<open>src/cli/config.rs\<close>, how the core takes it (\<open>Core::config\<close> of \<open>src/core.rs\<close> and
  \<open>set_default_modules\<close> of \<open>src/module_manager.rs\<close>), and the choices of \<open>src/cli/command/server.rs\<close> that depend on it.

  A file is read by the HCL or the JSON crate into a JSON object, which the derived deserialisers turn into the structures,
  with the defaults and the functions that the attributes name; \<open>None\<close> is their error. The file system is in
  \<open>config_files\<close>. The process as a daemon, the log and the sockets are not modelled.
\<close>

section \<open>Data\<close>

datatype ssl_version = SSL3 | TLS1 | TLS1_1 | TLS1_2 | TLS1_3

record listener =
  li_ltype :: string
  li_address :: string
  li_tls_disable :: bool
  li_tls_cert_file :: string
  li_tls_key_file :: string
  li_tls_client_ca_file :: string
  li_tls_disable_client_certs :: bool
  li_tls_require_and_verify_client_cert :: bool
  li_tls_min_version :: ssl_version
  li_tls_max_version :: ssl_version
  li_tls_cipher_suites :: string

record storage_conf =
  sc_stype :: string
  sc_config :: json_obj

record server_config =
  sv_listener :: "(string \<times> listener) list"
  sv_storage :: "(string \<times> storage_conf) list"
  sv_api_addr :: string
  sv_log_format :: string
  sv_log_level :: string
  sv_pid_file :: string
  sv_work_dir :: string
  sv_daemon :: bool
  sv_daemon_user :: string
  sv_daemon_group :: string
  sv_collection_interval :: nat
  sv_mount_entry_hmac_level :: hmac_level

section \<open>Deserialisers\<close>

definition default_hmac_level :: hmac_level where "default_hmac_level = HmacNone"
definition default_collection_interval :: nat where "default_collection_interval = 15"
definition default_bool_true :: bool where "default_bool_true = True"
definition default_tls_min_version :: ssl_version where "default_tls_min_version = TLS1_2"
definition default_tls_max_version :: ssl_version where "default_tls_max_version = TLS1_3"
definition default_tls_cipher_suites :: string where "default_tls_cipher_suites = ''HIGH:!PSK:!SRP:!3DES''"
definition STORAGE_TYPE_KEYWORDS :: "string list" where "STORAGE_TYPE_KEYWORDS = [''file'', ''mysql'']"

definition parse_bool_string :: "json \<Rightarrow> bool option" where
  "parse_bool_string v =
     (case v of
        JBool b \<Rightarrow> Some b
      | JString s \<Rightarrow> if s = ''true'' then Some True else if s = ''false'' then Some False else None
      | _ \<Rightarrow> None)"

definition serialize_tls_version :: "ssl_version \<Rightarrow> string res" where
  "serialize_tls_version v =
     (case v of TLS1 \<Rightarrow> Ok ''tls10'' | TLS1_1 \<Rightarrow> Ok ''tls11'' | TLS1_2 \<Rightarrow> Ok ''tls12'' | TLS1_3 \<Rightarrow> Ok ''tls13'' | _ \<Rightarrow> Panic)"

definition deserialize_tls_version :: "json \<Rightarrow> ssl_version option" where
  "deserialize_tls_version v =
     (case v of
        JString s \<Rightarrow>
          if s = ''tls10'' then Some TLS1 else if s = ''tls11'' then Some TLS1_1
          else if s = ''tls12'' then Some TLS1_2 else if s = ''tls13'' then Some TLS1_3 else None
      | _ \<Rightarrow> None)"

definition deserialize_hmac_level :: "json \<Rightarrow> hmac_level option" where
  "deserialize_hmac_level v =
     (case v of
        JString s \<Rightarrow>
          if s = ''none'' then Some HmacNone else if s = ''compat'' then Some HmacCompat
          else if s = ''high'' then Some HmacHigh else None
      | _ \<Rightarrow> None)"

text \<open>A field with a default, and one without.\<close>

definition de_field :: "(json \<Rightarrow> 'a option) \<Rightarrow> 'a \<Rightarrow> string \<Rightarrow> json_obj \<Rightarrow> 'a option" where
  "de_field de dflt k m = (case map_of m k of None \<Rightarrow> Some dflt | Some v \<Rightarrow> de v)"

definition de_required :: "(json \<Rightarrow> 'a option) \<Rightarrow> string \<Rightarrow> json_obj \<Rightarrow> 'a option" where
  "de_required de k m = Option.bind (map_of m k) de"

definition de_listener :: "json_obj \<Rightarrow> listener option" where
  "de_listener m =
     do {
       ltype \<leftarrow> de_field as_str [] ''ltype'' m;
       address \<leftarrow> de_required as_str ''address'' m;
       disable \<leftarrow> de_field parse_bool_string default_bool_true ''tls_disable'' m;
       cert \<leftarrow> de_field as_str [] ''tls_cert_file'' m;
       key \<leftarrow> de_field as_str [] ''tls_key_file'' m;
       ca \<leftarrow> de_field as_str [] ''tls_client_ca_file'' m;
       no_certs \<leftarrow> de_field parse_bool_string False ''tls_disable_client_certs'' m;
       require \<leftarrow> de_field parse_bool_string False ''tls_require_and_verify_client_cert'' m;
       min_v \<leftarrow> de_field deserialize_tls_version default_tls_min_version ''tls_min_version'' m;
       max_v \<leftarrow> de_field deserialize_tls_version default_tls_max_version ''tls_max_version'' m;
       suites \<leftarrow> de_field as_str default_tls_cipher_suites ''tls_cipher_suites'' m;
       Some \<lparr>li_ltype = ltype, li_address = address, li_tls_disable = disable, li_tls_cert_file = cert, li_tls_key_file = key,
         li_tls_client_ca_file = ca, li_tls_disable_client_certs = no_certs, li_tls_require_and_verify_client_cert = require,
         li_tls_min_version = min_v, li_tls_max_version = max_v, li_tls_cipher_suites = suites\<rparr>
     }"

text \<open>The fields of a storage that have no name of their own are its configuration.\<close>

definition de_storage :: "json_obj \<Rightarrow> storage_conf option" where
  "de_storage m =
     do {
       stype \<leftarrow> de_field as_str [] ''stype'' m;
       Some \<lparr>sc_stype = stype, sc_config = filter (\<lambda>(k, _). k \<noteq> ''stype'') m\<rparr>
     }"

text \<open>Every value of an object is read; of values under the same key a \<open>HashMap\<close> keeps the last.\<close>

fun de_map :: "(json_obj \<Rightarrow> 'a option) \<Rightarrow> json_obj \<Rightarrow> (string \<times> 'a) list option" where
  "de_map de [] = Some []"
| "de_map de ((k, v) # m) =
     (case v of
        JObject o1 \<Rightarrow> Option.bind (de o1) (\<lambda>x. map_option (\<lambda>xs. if k \<in> fst ` set xs then xs else (k, x) # xs) (de_map de m))
      | _ \<Rightarrow> None)"

definition de_object :: "(json_obj \<Rightarrow> 'a option) \<Rightarrow> json \<Rightarrow> (string \<times> 'a) list option" where
  "de_object de v = (case v of JObject m \<Rightarrow> de_map de m | _ \<Rightarrow> None)"

definition validate_storage :: "json \<Rightarrow> (string \<times> storage_conf) list option" where
  "validate_storage v =
     Option.bind (de_object de_storage v) (\<lambda>m. if list_all (\<lambda>(k, _). k \<in> set STORAGE_TYPE_KEYWORDS) m then Some m else None)"

definition valid_listener :: "string \<Rightarrow> listener \<Rightarrow> bool" where
  "valid_listener key l \<longleftrightarrow>
     key = ''tcp'' \<and>
     \<not> (\<not> li_tls_disable l \<and> (li_tls_cert_file l = [] \<or> li_tls_key_file l = [])) \<and>
     \<not> (\<not> li_tls_disable l \<and> li_tls_require_and_verify_client_cert l \<and> li_tls_disable_client_certs l)"

definition validate_listener :: "json \<Rightarrow> (string \<times> listener) list option" where
  "validate_listener v =
     Option.bind (de_object de_listener v) (\<lambda>m. if list_all (\<lambda>(k, l). valid_listener k l) m then Some m else None)"

definition de_config :: "json_obj \<Rightarrow> server_config option" where
  "de_config m =
     do {
       listener \<leftarrow> de_required validate_listener ''listener'' m;
       storage \<leftarrow> de_required validate_storage ''storage'' m;
       api_addr \<leftarrow> de_field as_str [] ''api_addr'' m;
       log_format \<leftarrow> de_field as_str [] ''log_format'' m;
       log_level \<leftarrow> de_field as_str [] ''log_level'' m;
       pid_file \<leftarrow> de_field as_str [] ''pid_file'' m;
       work_dir \<leftarrow> de_field as_str [] ''work_dir'' m;
       daemon \<leftarrow> de_field parse_bool_string False ''daemon'' m;
       daemon_user \<leftarrow> de_field as_str [] ''daemon_user'' m;
       daemon_group \<leftarrow> de_field as_str [] ''daemon_group'' m;
       interval \<leftarrow> de_field as_u64 default_collection_interval ''collection_interval'' m;
       level \<leftarrow> de_field deserialize_hmac_level default_hmac_level ''mount_entry_hmac_level'' m;
       Some \<lparr>sv_listener = listener, sv_storage = storage, sv_api_addr = api_addr, sv_log_format = log_format,
         sv_log_level = log_level, sv_pid_file = pid_file, sv_work_dir = work_dir, sv_daemon = daemon,
         sv_daemon_user = daemon_user, sv_daemon_group = daemon_group, sv_collection_interval = interval,
         sv_mount_entry_hmac_level = level\<rparr>
     }"

section \<open>Loading\<close>

record config_files =
  cf_is_dir :: "string \<Rightarrow> bool"
  cf_is_file :: "string \<Rightarrow> bool"
  cf_read_dir :: "string \<Rightarrow> string list option"
  cf_open :: "string \<Rightarrow> bytes res"
  cf_hcl :: "bytes \<Rightarrow> json_obj option"
  cf_json :: "bytes \<Rightarrow> json_obj option"

definition or_else :: "string \<Rightarrow> string \<Rightarrow> string" where
  "or_else new old = (if new \<noteq> [] then new else old)"

definition extend_map :: "('k \<times> 'v) list \<Rightarrow> ('k \<times> 'v) list \<Rightarrow> ('k \<times> 'v) list" where
  "extend_map old new = fold (\<lambda>(k, v). AList.update k v) new old"

definition merge :: "server_config \<Rightarrow> server_config \<Rightarrow> server_config" where
  "merge self other =
     self\<lparr>sv_listener := extend_map (sv_listener self) (sv_listener other),
       sv_storage := extend_map (sv_storage self) (sv_storage other),
       sv_api_addr := or_else (sv_api_addr other) (sv_api_addr self),
       sv_log_format := or_else (sv_log_format other) (sv_log_format self),
       sv_log_level := or_else (sv_log_level other) (sv_log_level self),
       sv_pid_file := or_else (sv_pid_file other) (sv_pid_file self),
       sv_mount_entry_hmac_level :=
         (if sv_mount_entry_hmac_level other \<noteq> HmacNone then sv_mount_entry_hmac_level other
          else sv_mount_entry_hmac_level self)\<rparr>"

definition set_config_type_field :: "server_config \<Rightarrow> server_config" where
  "set_config_type_field c =
     c\<lparr>sv_storage := map (\<lambda>(k, s). (k, s\<lparr>sc_stype := k\<rparr>)) (sv_storage c),
       sv_listener := map (\<lambda>(k, l). (k, l\<lparr>li_ltype := k\<rparr>)) (sv_listener c)\<rparr>"

definition check_config :: "server_config \<Rightarrow> unit res" where
  "check_config c =
     (if length (sv_storage c) \<noteq> 1 then Err ErrConfigStorageNotFound
      else if length (sv_listener c) \<noteq> 1 then Err ErrConfigListenerNotFound else Ok ())"

definition checked_config :: "ext_source \<Rightarrow> json_obj option \<Rightarrow> server_config res" where
  "checked_config src m =
     (case Option.bind m de_config of
        None \<Rightarrow> Err (External src ''invalid configuration'')
      | Some c \<Rightarrow> let c = set_config_type_field c in res_bind (check_config c) (\<lambda>_. Ok c))"

definition load_config_file :: "config_files \<Rightarrow> string \<Rightarrow> server_config res" where
  "load_config_file F path =
     res_bind (cf_open F path) (\<lambda>text.
       if ends_with path ''.hcl'' then checked_config Hcl (cf_hcl F text)
       else if ends_with path ''.json'' then checked_config SerdeJson (cf_json F text)
       else Err ErrConfigPathInvalid)"

text \<open>The extension of a path is what follows the last dot of its last component, unless that dot begins it.\<close>

definition path_extension :: "string \<Rightarrow> string option" where
  "path_extension path =
     (let name = last (split_on CHR ''/'' path); parts = split_on CHR ''.'' name in
      if name = ''..'' \<or> length parts < 2 \<or> butlast parts = [[]] then None else Some (last parts))"

definition config_paths :: "config_files \<Rightarrow> string \<Rightarrow> string list" where
  "config_paths F dir =
     (case cf_read_dir F dir of
        None \<Rightarrow> []
      | Some es \<Rightarrow> filter (\<lambda>p. cf_is_file F p \<and> path_extension p \<in> {Some ''hcl'', Some ''json''}) es)"

fun merge_files :: "config_files \<Rightarrow> string list \<Rightarrow> server_config option \<Rightarrow> server_config option res" where
  "merge_files F [] acc = Ok acc"
| "merge_files F (p # ps) acc =
     res_bind (load_config_file F p) (\<lambda>c.
       merge_files F ps (Some (case acc of None \<Rightarrow> c | Some r \<Rightarrow> merge r c)))"

definition load_config_dir :: "config_files \<Rightarrow> string \<Rightarrow> server_config res" where
  "load_config_dir F dir =
     res_bind (merge_files F (config_paths F dir) None) (\<lambda>r.
       case r of None \<Rightarrow> Err ErrConfigLoadFailed | Some c \<Rightarrow> Ok c)"

definition load_config :: "config_files \<Rightarrow> string \<Rightarrow> server_config res" where
  "load_config F path =
     (if cf_is_dir F path then load_config_dir F path
      else if cf_is_file F path then load_config_file F path
      else Err ErrConfigPathInvalid)"

section \<open>The core and the server\<close>

text \<open>A core over a barrier, as \<open>Core::default\<close> makes it around the barrier of the server.\<close>

definition core_default :: "'b barrier \<Rightarrow> 'b vault" where
  "core_default b =
     \<lparr>va_core =
        \<lparr>co_storage = b, co_system_view = None, co_heap = [], co_mounts = [], co_router = [], co_handlers = [CoreRouter],
         co_logical_backends = [], co_hmac_key = [], co_hmac_level = HmacNone, co_uuids = 0\<rparr>,
      va_sealed = True, va_unseal_key_shares = [], va_modules = []\<rparr>"

text \<open>The modules that the constructors make, in the order of \<open>set_default_modules\<close> and \<open>config\<close>.\<close>

record 's module_set =
  ms_kv :: "'s module"
  ms_system :: "'s module"
  ms_auth :: "'s module res"
  ms_policy :: "'s module"
  ms_pki :: "'s module"
  ms_userpass :: "'s module"
  ms_approle :: "'s module"
  ms_cert :: "'s module"

definition set_default_modules :: "'s module_set \<Rightarrow> 's module list" where
  "set_default_modules M = [ms_kv M, ms_system M]"

fun add_modules :: "'s module list \<Rightarrow> ('s module list, unit) op" where
  "add_modules [] ms = (Ok (), ms)"
| "add_modules (m # rest) ms = op_bind (add_module m) (\<lambda>_. add_modules rest) ms"

definition on_modules :: "('b barrier module list, 'a) op \<Rightarrow> ('b vault, 'a) op" where
  "on_modules f v = (case f (va_modules v) of (r, ms) \<Rightarrow> (r, v\<lparr>va_modules := ms\<rparr>))"

text \<open>No handler has a \<open>post_config\<close> of its own: the default of the trait fails with the error that is ignored.\<close>

definition post_config :: "'s handler_ref \<Rightarrow> unit res" where
  "post_config h = Err ErrHandlerDefault"

fun each_post_config :: "'s handler_ref list \<Rightarrow> unit res" where
  "each_post_config [] = Ok ()"
| "each_post_config (h # hs) =
     (case post_config h of
        Ok _ \<Rightarrow> each_post_config hs
      | Err e \<Rightarrow> if \<not> rv_error_eq e ErrHandlerDefault then Err e else each_post_config hs
      | Panic \<Rightarrow> Panic)"

definition core_config :: "'b barrier module_set \<Rightarrow> server_config option \<Rightarrow> ('b vault, unit) op" where
  "core_config M conf v =
     (let v1 = (case conf of
          None \<Rightarrow> v
        | Some c \<Rightarrow> v\<lparr>va_core := (va_core v)\<lparr>co_hmac_level := sv_mount_entry_hmac_level c\<rparr>\<rparr>);
        v2 = v1\<lparr>va_modules := set_default_modules M\<rparr> in
      op_bind (op_res (ms_auth M)) (\<lambda>auth.
      op_bind (on_modules (add_modules [auth, ms_policy M, ms_pki M, ms_userpass M, ms_approle M, ms_cert M])) (\<lambda>_ v.
        (each_post_config (co_handlers (va_core v)), v))) v2)"

text \<open>How the server treats the certificate of a client: it asks for none, accepts every one, or requires a verified one.\<close>

datatype client_verification = PlainSocket | NoClientCert | AcceptAnyCert | RequireVerified "string option"

definition client_verification_of :: "listener \<Rightarrow> client_verification" where
  "client_verification_of l =
     (if li_tls_disable l then PlainSocket
      else if li_tls_require_and_verify_client_cert l then
        RequireVerified (if li_tls_client_ca_file l = [] then None else Some (li_tls_client_ca_file l))
      else if \<not> li_tls_disable_client_certs l then AcceptAnyCert
      else NoClientCert)"

text \<open>The start of the server up to the sockets: the configuration, the backend and the treatment of clients.\<close>

definition server_main ::
  "config_files \<Rightarrow> string \<Rightarrow> (server_config \<times> backend_choice \<times> client_verification) res" where
  "server_main F path =
     res_bind (load_config F path) (\<lambda>c.
       case sv_storage c of
         [(_, st)] \<Rightarrow>
           (case sv_listener c of
              [(_, l)] \<Rightarrow>
                (case new_backend (sc_stype st) (map_of (sc_config st)) of
                   Ok b \<Rightarrow> Ok (c, b, client_verification_of l)
                 | _ \<Rightarrow> Panic)
            | _ \<Rightarrow> Err ErrConfigListenerNotFound)
       | _ \<Rightarrow> Err ErrConfigStorageNotFound)"

section \<open>What a loaded configuration has\<close>

lemma tls_version_roundtrip: "serialize_tls_version v = Ok s \<Longrightarrow> deserialize_tls_version (JString s) = Some v"
  by (cases v) (auto simp: serialize_tls_version_def deserialize_tls_version_def)

definition storage_entry_ok :: "string \<times> storage_conf \<Rightarrow> bool" where
  "storage_entry_ok x \<longleftrightarrow> fst x \<in> set STORAGE_TYPE_KEYWORDS \<and> sc_stype (snd x) = fst x"

definition listener_entry_ok :: "string \<times> listener \<Rightarrow> bool" where
  "listener_entry_ok x \<longleftrightarrow> valid_listener (fst x) (snd x) \<and> li_ltype (snd x) = fst x"

definition config_ok :: "server_config \<Rightarrow> bool" where
  "config_ok c \<longleftrightarrow>
     (\<exists>x. sv_listener c = [x] \<and> listener_entry_ok x) \<and> sv_storage c \<noteq> [] \<and> distinct (map fst (sv_storage c)) \<and>
     list_all storage_entry_ok (sv_storage c)"

lemma valid_listener_type [simp]: "valid_listener k (l\<lparr>li_ltype := t\<rparr>) = valid_listener k l"
  by (simp add: valid_listener_def)

lemma de_config_valid:
  assumes "de_config m = Some c"
  shows "list_all (\<lambda>(k, l). valid_listener k l) (sv_listener c)" "list_all (\<lambda>(k, _). k \<in> set STORAGE_TYPE_KEYWORDS) (sv_storage c)"
  using assms
  by (auto simp: de_config_def de_required_def validate_listener_def validate_storage_def split: bind_splits if_splits)

lemma checked_config_ok:
  assumes "checked_config src m = Ok c"
  shows "config_ok c"
proof -
  obtain c0 where c0: "Option.bind m de_config = Some c0" "c = set_config_type_field c0" "check_config c = Ok ()"
    using assms by (auto simp: checked_config_def Let_def res_bind_def split: option.splits res.splits)
  then obtain j where "de_config j = Some c0" by (cases m) auto
  note v = de_config_valid [OF this]
  obtain s l where "sv_storage c0 = [s]" "sv_listener c0 = [l]"
    using c0(2,3) by (auto simp: check_config_def set_config_type_field_def length_Suc_conv split: if_splits)
  then show ?thesis
    using v c0(2)
    by (auto simp: config_ok_def set_config_type_field_def listener_entry_ok_def storage_entry_ok_def split: prod.splits)
qed

lemma load_file_ok: "load_config_file F path = Ok c \<Longrightarrow> config_ok c"
  by (auto simp: load_config_file_def res_bind_def intro: checked_config_ok split: res.splits if_splits)

lemma extend_map_ok:
  assumes "list_all P old" "list_all P new" "distinct (map fst old)" "old \<noteq> []"
  shows "list_all P (extend_map old new) \<and> distinct (map fst (extend_map old new)) \<and> extend_map old new \<noteq> []"
  using assms
proof (induction new arbitrary: old)
  case (Cons x new)
  obtain k v where x: "x = (k, v)" by (cases x)
  have "set (AList.update k v old) \<subseteq> insert (k, v) (set old)" by (induction old) auto
  then have "list_all P (AList.update k v old)" using Cons.prems(1,2) x by (auto simp: list_all_iff)
  moreover have "distinct (map fst (AList.update k v old))" "AList.update k v old \<noteq> []"
    using Cons.prems(3,4) by (simp_all add: distinct_update neq_Nil_conv split: prod.split)
  ultimately show ?case using Cons.IH [of "AList.update k v old"] Cons.prems(2) x by (simp add: extend_map_def)
qed (simp_all add: extend_map_def)

lemma merge_ok:
  assumes "config_ok a" "config_ok b"
  shows "config_ok (merge a b)"
proof -
  obtain x y where l: "sv_listener a = [x]" "sv_listener b = [y]" "listener_entry_ok x" "listener_entry_ok y"
    using assms by (auto simp: config_ok_def)
  then have "fst x = ''tcp''" "fst y = ''tcp''" by (simp_all add: listener_entry_ok_def valid_listener_def)
  then have "sv_listener (merge a b) = [y]" using l(1,2) by (cases x; cases y) (simp add: merge_def extend_map_def)
  then show ?thesis
    using l(4) assms extend_map_ok [of storage_entry_ok "sv_storage a" "sv_storage b"] by (simp add: config_ok_def merge_def)
qed

lemma merge_files_ok:
  assumes "merge_files F ps acc = Ok (Some c)" "\<forall>r. acc = Some r \<longrightarrow> config_ok r"
  shows "config_ok c"
  using assms
proof (induction ps arbitrary: acc)
  case (Cons p ps)
  obtain r where r: "load_config_file F p = Ok r" "merge_files F ps (Some (case acc of None \<Rightarrow> r | Some a \<Rightarrow> merge a r)) = Ok (Some c)"
    using Cons.prems(1) by (auto simp: res_bind_def split: res.splits)
  have "config_ok (case acc of None \<Rightarrow> r | Some a \<Rightarrow> merge a r)"
    using load_file_ok [OF r(1)] Cons.prems(2) merge_ok by (auto split: option.split)
  then show ?case using Cons.IH [OF r(2)] by simp
qed simp

lemma load_config_config_ok: "load_config F path = Ok c \<Longrightarrow> config_ok c"
  using merge_files_ok [of F "config_paths F path" None c] load_file_ok
  by (auto simp: load_config_def load_config_dir_def res_bind_def split: if_splits res.splits option.splits)

text \<open>
  C30: what the server can rely on in a configuration. A configuration that was loaded, from a file or merged from the files of
  a directory, has exactly one listener, under the name \<open>tcp\<close>; with TLS it has the files of a certificate and a key and does
  not both forbid and require client certificates. It has at least one storage, under distinct names that are known types,
  and the type of each is its name.
\<close>

theorem loaded_config_valid:
  assumes "load_config F path = Ok c"
  shows "(\<exists>l. sv_listener c = [(''tcp'', l)] \<and> li_ltype l = ''tcp'' \<and>
      (\<not> li_tls_disable l \<longrightarrow> li_tls_cert_file l \<noteq> [] \<and> li_tls_key_file l \<noteq> [] \<and>
        \<not> (li_tls_require_and_verify_client_cert l \<and> li_tls_disable_client_certs l))) \<and>
    sv_storage c \<noteq> [] \<and> distinct (map fst (sv_storage c)) \<and>
    (\<forall>(k, s) \<in> set (sv_storage c). k \<in> {''file'', ''mysql''} \<and> sc_stype s = k)"
proof -
  have c: "config_ok c" by (rule load_config_config_ok [OF assms])
  then obtain k l where l: "sv_listener c = [(k, l)]" "listener_entry_ok (k, l)" by (auto simp: config_ok_def)
  then have "k = ''tcp''" by (simp add: listener_entry_ok_def valid_listener_def)
  then show ?thesis
    using c l by (auto simp: config_ok_def list_all_iff storage_entry_ok_def STORAGE_TYPE_KEYWORDS_def listener_entry_ok_def valid_listener_def)
qed

text \<open>
  The configured type \<open>mysql\<close> is accepted by the validation and has no backend in the default build: the server panics at the
  start. Client certificates are not verified unless the listener says so.
\<close>

lemma mysql_start_panics:
  assumes "load_config F path = Ok c" "sv_storage c = [(''mysql'', st)]"
  shows "server_main F path = Panic"
proof -
  have "config_ok c" by (rule load_config_config_ok [OF assms(1)])
  then obtain l where "sv_listener c = [l]" "sc_stype st = ''mysql''" using assms(2) by (auto simp: config_ok_def storage_entry_ok_def)
  then show ?thesis using assms by (cases l) (simp add: server_main_def res_bind_def new_backend_def)
qed

lemma client_certs_unverified:
  assumes "de_listener m = Some l" "map_of m ''tls_require_and_verify_client_cert'' = None"
    "map_of m ''tls_disable_client_certs'' = None" "\<not> li_tls_disable l"
  shows "client_verification_of l = AcceptAnyCert"
  using assms by (auto simp: de_listener_def client_verification_of_def de_field_def split: bind_splits)

section \<open>The modules of the core\<close>

text \<open>Modules with distinct names are all added, in their order.\<close>

lemma add_modules_all:
  assumes "distinct (map mo_name (ms @ ns))"
  shows "add_modules ns ms = (Ok (), ms @ ns)"
  using assms
proof (induction ns arbitrary: ms)
  case (Cons n ns)
  then have "get_module ms (mo_name n) = None" by (auto simp: get_module_def find_None_iff) (metis imageI)
  then show ?case using Cons.IH [of "ms @ [n]"] Cons.prems by (simp add: add_module_def op_bind_def)
qed simp

lemma core_config_modules:
  assumes "ms_auth M = Ok auth"
    and "distinct (map mo_name [ms_kv M, ms_system M, auth, ms_policy M, ms_pki M, ms_userpass M, ms_approle M, ms_cert M])"
  shows "\<exists>v'. core_config M conf v = (Ok (), v') \<and> va_sealed v' = va_sealed v \<and> the_barrier v' = the_barrier v \<and>
    va_modules v' = [ms_kv M, ms_system M, auth, ms_policy M, ms_pki M, ms_userpass M, ms_approle M, ms_cert M]"
proof -
  have "each_post_config hs = Ok ()" for hs :: "'b barrier handler_ref list" by (induction hs) (simp_all add: post_config_def)
  then show ?thesis
    using add_modules_all [of "[ms_kv M, ms_system M]" "[auth, ms_policy M, ms_pki M, ms_userpass M, ms_approle M, ms_cert M]"] assms
    by (auto simp: core_config_def Let_def op_bind_def op_res_def on_modules_def set_default_modules_def the_barrier_def
        simp del: add_modules.simps split: option.split)
qed

section \<open>Witnesses\<close>

definition demo_conf_json :: json_obj where
  "demo_conf_json =
     [(''listener'', JObject [(''tcp'', JObject [(''address'', JString ''127.0.0.1:8200''), (''tls_disable'', JString ''true'')])]),
      (''storage'', JObject [(''file'', JObject [(''path'', JString ''data'')])])]"

definition demo_config_files :: config_files where
  "demo_config_files =
     \<lparr>cf_is_dir = (\<lambda>_. False), cf_is_file = (\<lambda>_. True), cf_read_dir = (\<lambda>_. None), cf_open = (\<lambda>_. Ok []), cf_hcl = (\<lambda>_. None),
      cf_json = (\<lambda>_. Some demo_conf_json)\<rparr>"

theorem loaded_config_valid_witness:
  "\<exists>c l. load_config demo_config_files ''rv.json'' = Ok c \<and> sv_listener c = [(''tcp'', l)] \<and> sv_storage c \<noteq> []"
proof -
  have j: "ends_with ''rv.json'' ''.json''" "\<not> ends_with ''rv.json'' ''.hcl''" by code_simp+
  obtain c where c: "load_config demo_config_files ''rv.json'' = Ok c"
    using j by (auto simp: load_config_def demo_config_files_def load_config_file_def res_bind_def checked_config_def demo_conf_json_def
        de_config_def de_required_def de_field_def validate_listener_def validate_storage_def de_object_def de_listener_def
        de_storage_def as_str_def parse_bool_string_def valid_listener_def STORAGE_TYPE_KEYWORDS_def check_config_def
        set_config_type_field_def Let_def)
  from loaded_config_valid [OF c] c show ?thesis by blast
qed

end
