(* ===== verification/Cipher.thy ===== *)
theory Cipher
  imports Prelude
begin

text \<open>
  The cryptography adaptors, \<open>src/modules/crypto\<close>: block ciphers that encrypt and decrypt at once or as a stream of updates,
  with additional data and a tag in GCM mode. The functions of both adaptors for AES are those of
  \<open>crypto_adaptors/common.rs\<close>; SM4 is in \<open>crypto_adaptors/tongsuo_adaptor.rs\<close>.

  An object is the key, the initialisation vector, the additional data, the tag and the context of the stream, with the
  algorithm. The functions of OpenSSL are the record \<open>symm\<close>; \<open>symm_ok\<close> says what is relied on. The output of an update goes to
  the front of a buffer of the caller, whose length is given to OpenSSL.

  Shown: a message that is encrypted as a stream, in whatever pieces, gives the ciphertext and the tag of the encryption at
  once, and its decryption as a stream, in whatever pieces, gives the message back.
\<close>

section \<open>Data\<close>

datatype cipher_mode = CBC | GCM | CCM

datatype aes_key_size = AES128 | AES192 | AES256

datatype public_key_type = RSA_key | ECDSA_key | SM2_key

text \<open>The ciphers and the direction of a context, of \<open>openssl::symm\<close>.\<close>

datatype symm_cipher = AesCipher aes_key_size cipher_mode | Sm4Cipher cipher_mode

datatype crypter_mode = Encrypt | Decrypt

record 'c symm =
  sy_encrypt :: "symm_cipher \<Rightarrow> bytes \<Rightarrow> bytes \<Rightarrow> bytes \<Rightarrow> bytes res"
  sy_decrypt :: "symm_cipher \<Rightarrow> bytes \<Rightarrow> bytes \<Rightarrow> bytes \<Rightarrow> bytes res"
  sy_encrypt_aead :: "symm_cipher \<Rightarrow> bytes \<Rightarrow> bytes \<Rightarrow> bytes \<Rightarrow> bytes \<Rightarrow> nat \<Rightarrow> (bytes \<times> bytes) res"
  sy_decrypt_aead :: "symm_cipher \<Rightarrow> bytes \<Rightarrow> bytes \<Rightarrow> bytes \<Rightarrow> bytes \<Rightarrow> bytes \<Rightarrow> bytes res"
  sy_crypter :: "symm_cipher \<Rightarrow> crypter_mode \<Rightarrow> bytes \<Rightarrow> bytes \<Rightarrow> 'c res"
  sy_aad_update :: "bytes \<Rightarrow> ('c, unit) op"
  sy_update :: "bytes \<Rightarrow> nat \<Rightarrow> ('c, bytes) op"
  sy_finalize :: "nat \<Rightarrow> ('c, bytes) op"
  sy_get_tag :: "nat \<Rightarrow> ('c, bytes) op"
  sy_set_tag :: "bytes \<Rightarrow> ('c, unit) op"

record 'c adaptor_ctx =
  ac_ctx :: 'c
  ac_tag_set :: bool
  ac_aad_set :: bool

text \<open>The fields that the structures have in common, and the structures.\<close>

record 'c cipher_data =
  cx_key :: bytes
  cx_iv :: bytes
  cx_aad :: "bytes option"
  cx_tag :: "bytes option"
  cx_ctx :: "'c adaptor_ctx option"

record 'c aes = "'c cipher_data" +
  aes_alg :: "aes_key_size \<times> cipher_mode"

record 'c sm4 = "'c cipher_data" +
  sm4_mode :: cipher_mode

section \<open>Contexts and buffers\<close>

definition written :: "bytes \<Rightarrow> bytes \<Rightarrow> nat \<times> bytes" where
  "written out buf = (length out, out @ drop (length out) buf)"

text \<open>An operation on the context, which is unwrapped.\<close>

definition on_ctx :: "('c, 'a) op \<Rightarrow> (('c, 'r) cipher_data_scheme, 'a) op" where
  "on_ctx m x =
     (case cx_ctx x of
        None \<Rightarrow> (Panic, x)
      | Some k \<Rightarrow> (case m (ac_ctx k) of (r, c) \<Rightarrow> (r, x\<lparr>cx_ctx := Some (k\<lparr>ac_ctx := c\<rparr>)\<rparr>)))"

definition mark_ctx :: "('c adaptor_ctx \<Rightarrow> 'c adaptor_ctx) \<Rightarrow> (('c, 'r) cipher_data_scheme, unit) op" where
  "mark_ctx f x = (Ok (), x\<lparr>cx_ctx := map_option f (cx_ctx x)\<rparr>)"

definition start_ctx :: "'c symm \<Rightarrow> symm_cipher \<Rightarrow> crypter_mode \<Rightarrow> (('c, 'r) cipher_data_scheme, unit) op" where
  "start_ctx S c m x =
     (if cx_ctx x = None then
        op_bind (op_res (sy_crypter S c m (cx_key x) (cx_iv x))) (\<lambda>k x.
          (Ok (), x\<lparr>cx_ctx := Some \<lparr>ac_ctx = k, ac_tag_set = False, ac_aad_set = False\<rparr>\<rparr>)) x
      else (Ok (), x))"

definition ctx_flag :: "('c adaptor_ctx \<Rightarrow> bool) \<Rightarrow> ('c, 'r) cipher_data_scheme \<Rightarrow> bool" where
  "ctx_flag f x \<longleftrightarrow> (case cx_ctx x of None \<Rightarrow> False | Some k \<Rightarrow> f k)"

definition feed_aad :: "'c symm \<Rightarrow> (('c, 'r) cipher_data_scheme, unit) op" where
  "feed_aad S x =
     (if ctx_flag ac_aad_set x then (Ok (), x)
      else
        (case cx_aad x of
           None \<Rightarrow> (Ok (), x)
         | Some a \<Rightarrow> op_bind (on_ctx (sy_aad_update S a)) (\<lambda>_. mark_ctx (\<lambda>k. k\<lparr>ac_aad_set := True\<rparr>)) x))"

definition feed_tag :: "'c symm \<Rightarrow> (('c, 'r) cipher_data_scheme, unit) op" where
  "feed_tag S x =
     (if ctx_flag ac_tag_set x then (Ok (), x)
      else
        (case cx_tag x of
           None \<Rightarrow> (Err ErrCryptoCipherNoTag, x)
         | Some t \<Rightarrow> op_bind (on_ctx (sy_set_tag S t)) (\<lambda>_. mark_ctx (\<lambda>k. k\<lparr>ac_tag_set := True\<rparr>)) x))"

definition failing_with :: "rv_error \<Rightarrow> ('s, 'a) op \<Rightarrow> ('s, 'a) op" where
  "failing_with e m s = (case m s of (Err _, s') \<Rightarrow> (Err e, s') | r \<Rightarrow> r)"

definition encrypt_stream ::
  "'c symm \<Rightarrow> symm_cipher \<Rightarrow> bool \<Rightarrow> bytes \<Rightarrow> bytes \<Rightarrow> (('c, 'r) cipher_data_scheme, nat \<times> bytes) op" where
  "encrypt_stream S c aead plaintext buf =
     op_bind (start_ctx S c Encrypt) (\<lambda>_.
     op_bind (if aead then feed_aad S else op_return ()) (\<lambda>_.
     op_bind (on_ctx (sy_update S plaintext (length buf))) (\<lambda>out. op_return (written out buf))))"

definition encrypt_end ::
  "'c symm \<Rightarrow> bool \<Rightarrow> bytes \<Rightarrow> (('c, 'r) cipher_data_scheme, nat \<times> bytes) op" where
  "encrypt_end S aead buf x =
     (if cx_ctx x = None then (Err ErrCryptoCipherNotInited, x)
      else
        op_bind (on_ctx (sy_finalize S (length buf))) (\<lambda>out x.
          if \<not> aead then (Ok (written out buf), x)
          else if cx_tag x \<noteq> None then (Err ErrCryptoCipherAEADTagPresent, x)
          else op_bind (on_ctx (sy_get_tag S 16)) (\<lambda>t x. (Ok (written out buf), x\<lparr>cx_tag := Some t\<rparr>)) x) x)"

definition decrypt_stream ::
  "'c symm \<Rightarrow> symm_cipher \<Rightarrow> bool \<Rightarrow> bytes \<Rightarrow> bytes \<Rightarrow> (('c, 'r) cipher_data_scheme, nat \<times> bytes) op" where
  "decrypt_stream S c aead ciphertext buf =
     op_bind (start_ctx S c Decrypt) (\<lambda>_.
     op_bind (if aead then feed_aad S else op_return ()) (\<lambda>_.
     op_bind (failing_with ErrCryptoCipherUpdateFailed (on_ctx (sy_update S ciphertext (length buf)))) (\<lambda>out.
       op_return (written out buf))))"

definition decrypt_end ::
  "'c symm \<Rightarrow> bool \<Rightarrow> bytes \<Rightarrow> (('c, 'r) cipher_data_scheme, nat \<times> bytes) op" where
  "decrypt_end S aead buf x =
     (if cx_ctx x = None then (Err ErrCryptoCipherNotInited, x)
      else
        op_bind (if aead then feed_tag S else op_return ()) (\<lambda>_.
        op_bind (failing_with ErrCryptoCipherFinalizeFailed (on_ctx (sy_finalize S (length buf)))) (\<lambda>out.
          op_return (written out buf))) x)"

section \<open>Additional data and tags\<close>

definition set_aad :: "bytes \<Rightarrow> (('c, 'r) cipher_data_scheme, unit) op" where
  "set_aad a x = (Ok (), x\<lparr>cx_aad := Some a\<rparr>)"

definition get_tag :: "(('c, 'r) cipher_data_scheme, bytes) op" where
  "get_tag x = (case cx_tag x of None \<Rightarrow> (Err ErrCryptoCipherNoTag, x) | Some t \<Rightarrow> (Ok t, x))"

definition set_tag :: "bytes \<Rightarrow> (('c, 'r) cipher_data_scheme, unit) op" where
  "set_tag t x = (Ok (), x\<lparr>cx_tag := Some t\<rparr>)"

definition get_key_iv :: "('c, 'r) cipher_data_scheme \<Rightarrow> bytes \<times> bytes" where
  "get_key_iv x = (cx_key x, cx_iv x)"

text \<open>The key and the vector of a new object: given, or drawn from the generator one after the other.\<close>

definition new_key_iv ::
  "(nat \<Rightarrow> nat \<Rightarrow> bytes res) \<Rightarrow> bool \<Rightarrow> nat \<Rightarrow> bytes option \<Rightarrow> bytes option \<Rightarrow> (bytes \<times> bytes) res" where
  "new_key_iv rnd keygen len key iv =
     (if \<not> keygen then
        (case (key, iv) of (Some k, Some v) \<Rightarrow> Ok (k, v) | _ \<Rightarrow> Err ErrCryptoCipherInitFailed)
      else res_bind (rnd 0 len) (\<lambda>k. res_bind (rnd 1 16) (\<lambda>v. Ok (k, v))))"

section \<open>AES\<close>

definition aes_key_length :: "aes_key_size \<Rightarrow> nat" where
  "aes_key_length s = (case s of AES128 \<Rightarrow> 16 | AES192 \<Rightarrow> 24 | AES256 \<Rightarrow> 32)"

definition aes_new ::
  "(nat \<Rightarrow> nat \<Rightarrow> bytes res) \<Rightarrow> bool \<Rightarrow> aes_key_size option \<Rightarrow> cipher_mode option \<Rightarrow> bytes option \<Rightarrow> bytes option \<Rightarrow> 'c aes res" where
  "aes_new rnd keygen sz mode key iv =
     (let k_size = (case sz of Some x \<Rightarrow> x | None \<Rightarrow> AES128); c_mode = (case mode of Some y \<Rightarrow> y | None \<Rightarrow> CBC) in
      res_bind (new_key_iv rnd keygen (aes_key_length k_size) key iv) (\<lambda>(k, v).
        Ok \<lparr>cx_key = k, cx_iv = v, cx_aad = None, cx_tag = None, cx_ctx = None, aes_alg = (k_size, c_mode)\<rparr>))"

definition common_internal_get_cipher_alg :: "aes_key_size \<times> cipher_mode \<Rightarrow> (symm_cipher \<times> bool) res" where
  "common_internal_get_cipher_alg alg =
     (case alg of
        (s, CBC) \<Rightarrow> Ok (AesCipher s CBC, False)
      | (s, GCM) \<Rightarrow> Ok (AesCipher s GCM, True)
      | _ \<Rightarrow> Err ErrCryptoCipherOPNotSupported)"

text \<open>Encryption and decryption at once; the additional data and the tag are unwrapped.\<close>

definition encrypt_once ::
  "'c symm \<Rightarrow> symm_cipher \<Rightarrow> bool \<Rightarrow> bytes \<Rightarrow> (('c, 'r) cipher_data_scheme, bytes) op" where
  "encrypt_once S c aead plaintext x =
     (if \<not> aead then (sy_encrypt S c (cx_key x) (cx_iv x) plaintext, x)
      else
        (case cx_aad x of
           None \<Rightarrow> (Panic, x)
         | Some a \<Rightarrow>
             (case sy_encrypt_aead S c (cx_key x) (cx_iv x) a plaintext 16 of
                Ok (ct, t) \<Rightarrow> (Ok ct, x\<lparr>cx_tag := Some t\<rparr>) | Err e \<Rightarrow> (Err e, x) | Panic \<Rightarrow> (Panic, x))))"

definition decrypt_once ::
  "'c symm \<Rightarrow> symm_cipher \<Rightarrow> bool \<Rightarrow> bytes \<Rightarrow> (('c, 'r) cipher_data_scheme, bytes) op" where
  "decrypt_once S c aead ciphertext x =
     (if \<not> aead then (sy_decrypt S c (cx_key x) (cx_iv x) ciphertext, x)
      else
        (case cx_aad x of
           None \<Rightarrow> (Panic, x)
         | Some a \<Rightarrow>
             (case cx_tag x of
                None \<Rightarrow> (Panic, x) | Some t \<Rightarrow> (sy_decrypt_aead S c (cx_key x) (cx_iv x) a ciphertext t, x))))"

definition aes_encrypt :: "'c symm \<Rightarrow> bytes \<Rightarrow> ('c aes, bytes) op" where
  "aes_encrypt S plaintext x =
     op_bind (op_res (common_internal_get_cipher_alg (aes_alg x))) (\<lambda>(c, aead). encrypt_once S c aead plaintext) x"

definition aes_decrypt :: "'c symm \<Rightarrow> bytes \<Rightarrow> ('c aes, bytes) op" where
  "aes_decrypt S ciphertext x =
     op_bind (op_res (common_internal_get_cipher_alg (aes_alg x))) (\<lambda>(c, aead). decrypt_once S c aead ciphertext) x"

text \<open>A stream is only supported for keys of 128 bits.\<close>

definition aes_encrypt_update :: "'c symm \<Rightarrow> bytes \<Rightarrow> bytes \<Rightarrow> ('c aes, nat \<times> bytes) op" where
  "aes_encrypt_update S plaintext buf x =
     (case aes_alg x of
        (AES128, CBC) \<Rightarrow> encrypt_stream S (AesCipher AES128 CBC) False plaintext buf x
      | (AES128, GCM) \<Rightarrow> encrypt_stream S (AesCipher AES128 GCM) True plaintext buf x
      | _ \<Rightarrow> (Err ErrCryptoCipherOPNotSupported, x))"

definition aes_encrypt_final :: "'c symm \<Rightarrow> bytes \<Rightarrow> ('c aes, nat \<times> bytes) op" where
  "aes_encrypt_final S buf x = encrypt_end S (snd (aes_alg x) = GCM) buf x"

definition aes_decrypt_update :: "'c symm \<Rightarrow> bytes \<Rightarrow> bytes \<Rightarrow> ('c aes, nat \<times> bytes) op" where
  "aes_decrypt_update S ciphertext buf x =
     (case aes_alg x of
        (AES128, CBC) \<Rightarrow> decrypt_stream S (AesCipher AES128 CBC) False ciphertext buf x
      | (AES128, GCM) \<Rightarrow> decrypt_stream S (AesCipher AES128 GCM) True ciphertext buf x
      | _ \<Rightarrow> (Err ErrCryptoCipherOPNotSupported, x))"

definition aes_decrypt_final :: "'c symm \<Rightarrow> bytes \<Rightarrow> ('c aes, nat \<times> bytes) op" where
  "aes_decrypt_final S buf x = decrypt_end S (snd (aes_alg x) = GCM) buf x"

section \<open>SM4\<close>

definition sm4_new ::
  "(nat \<Rightarrow> nat \<Rightarrow> bytes res) \<Rightarrow> bool \<Rightarrow> cipher_mode option \<Rightarrow> bytes option \<Rightarrow> bytes option \<Rightarrow> 'c sm4 res" where
  "sm4_new rnd keygen mode key iv =
     res_bind (new_key_iv rnd keygen 16 key iv) (\<lambda>(k, v).
       Ok \<lparr>cx_key = k, cx_iv = v, cx_aad = None, cx_tag = None, cx_ctx = None,
         sm4_mode = (case mode of Some x \<Rightarrow> x | None \<Rightarrow> CBC)\<rparr>)"

definition sm4_encrypt :: "'c symm \<Rightarrow> bytes \<Rightarrow> ('c sm4, bytes) op" where
  "sm4_encrypt S plaintext x =
     (case sm4_mode x of
        CBC \<Rightarrow> encrypt_once S (Sm4Cipher CBC) False plaintext x
      | GCM \<Rightarrow> encrypt_once S (Sm4Cipher GCM) True plaintext x
      | _ \<Rightarrow> (Err ErrCryptoCipherOPNotSupported, x))"

definition sm4_encrypt_update :: "'c symm \<Rightarrow> bytes \<Rightarrow> bytes \<Rightarrow> ('c sm4, nat \<times> bytes) op" where
  "sm4_encrypt_update S plaintext buf x =
     (case sm4_mode x of
        CBC \<Rightarrow> encrypt_stream S (Sm4Cipher CBC) False plaintext buf x
      | GCM \<Rightarrow> encrypt_stream S (Sm4Cipher GCM) True plaintext buf x
      | _ \<Rightarrow> (Err ErrCryptoCipherOPNotSupported, x))"

definition sm4_encrypt_final :: "'c symm \<Rightarrow> bytes \<Rightarrow> ('c sm4, nat \<times> bytes) op" where
  "sm4_encrypt_final S buf x = encrypt_end S (sm4_mode x = GCM) buf x"

definition sm4_decrypt :: "'c symm \<Rightarrow> bytes \<Rightarrow> ('c sm4, bytes) op" where
  "sm4_decrypt S ciphertext x =
     (case sm4_mode x of
        CBC \<Rightarrow> decrypt_once S (Sm4Cipher CBC) False ciphertext x
      | GCM \<Rightarrow> decrypt_once S (Sm4Cipher GCM) True ciphertext x
      | _ \<Rightarrow> (Err ErrCryptoCipherOPNotSupported, x))"

definition sm4_decrypt_update :: "'c symm \<Rightarrow> bytes \<Rightarrow> bytes \<Rightarrow> ('c sm4, nat \<times> bytes) op" where
  "sm4_decrypt_update S ciphertext buf x =
     (case sm4_mode x of
        CBC \<Rightarrow> decrypt_stream S (Sm4Cipher CBC) False ciphertext buf x
      | GCM \<Rightarrow> decrypt_stream S (Sm4Cipher GCM) True ciphertext buf x
      | _ \<Rightarrow> (Err ErrCryptoCipherOPNotSupported, x))"

definition sm4_decrypt_final :: "'c symm \<Rightarrow> bytes \<Rightarrow> ('c sm4, nat \<times> bytes) op" where
  "sm4_decrypt_final S buf x = decrypt_end S (sm4_mode x = GCM) buf x"

section \<open>What is relied on\<close>

text \<open>
  The functions that an instance of OpenSSL computes, and what the contexts have seen: \<open>sp_encrypting k x aad pt ct\<close> says that
  \<open>k\<close> encrypts under \<open>x\<close>, was given \<open>aad\<close> and \<open>pt\<close> and has given \<open>ct\<close> out.
\<close>

type_synonym keyed = "symm_cipher \<times> bytes \<times> bytes"

record 'c symm_spec =
  sp_valid :: "keyed \<Rightarrow> bool"
  sp_enc :: "keyed \<Rightarrow> bytes option \<Rightarrow> bytes \<Rightarrow> bytes"
  sp_tag :: "keyed \<Rightarrow> bytes option \<Rightarrow> bytes \<Rightarrow> bytes"
  sp_encrypting :: "'c \<Rightarrow> keyed \<Rightarrow> bytes option \<Rightarrow> bytes \<Rightarrow> bytes \<Rightarrow> bool"
  sp_decrypting :: "'c \<Rightarrow> keyed \<Rightarrow> bytes option \<Rightarrow> bytes option \<Rightarrow> bytes \<Rightarrow> bytes \<Rightarrow> bool"

fun is_gcm :: "symm_cipher \<Rightarrow> bool" where
  "is_gcm (AesCipher _ m) = (m = GCM)"
| "is_gcm (Sm4Cipher m) = (m = GCM)"

definition encrypting_as :: "'c symm_spec \<Rightarrow> keyed \<Rightarrow> bytes \<Rightarrow> bytes \<Rightarrow> bytes option \<Rightarrow> 'c \<Rightarrow> bool" where
  "encrypting_as T x i o1 a k = sp_encrypting T k x a i o1"

definition decrypting_as :: "'c symm_spec \<Rightarrow> keyed \<Rightarrow> bytes \<Rightarrow> bytes \<Rightarrow> bytes option \<Rightarrow> 'c \<Rightarrow> bool" where
  "decrypting_as T x i o1 a k = sp_decrypting T k x a None i o1"

text \<open>A context starts, takes additional data in GCM mode, and takes any data when the buffer has a block more than it.\<close>

definition starts :: "'c symm \<Rightarrow> crypter_mode \<Rightarrow> keyed \<Rightarrow> (bytes \<Rightarrow> bytes \<Rightarrow> bytes option \<Rightarrow> 'c \<Rightarrow> bool) \<Rightarrow> bool" where
  "starts S m x R \<longleftrightarrow>
     (case x of (c, key, iv) \<Rightarrow>
       \<exists>k. sy_crypter S c m key iv = Ok k \<and> R [] [] None k \<and>
         (is_gcm c \<longrightarrow> (\<forall>a. \<exists>k'. sy_aad_update S a k = (Ok (), k') \<and> R [] [] (Some a) k')))"

definition updates :: "'c symm \<Rightarrow> (bytes \<Rightarrow> bytes \<Rightarrow> bytes option \<Rightarrow> 'c \<Rightarrow> bool) \<Rightarrow> bool" where
  "updates S R \<longleftrightarrow>
     (\<forall>i o1 a k d n. R i o1 a k \<and> length d + 16 \<le> n \<longrightarrow>
       (\<exists>out k'. sy_update S d n k = (Ok out, k') \<and> R (i @ d) (o1 @ out) a k'))"

text \<open>At the end an encryption has given the whole ciphertext and has its tag; a decryption with the right tag the message.\<close>

definition encryption_ends :: "'c symm \<Rightarrow> 'c symm_spec \<Rightarrow> bool" where
  "encryption_ends S T \<longleftrightarrow>
     (\<forall>k x a pt ct n. sp_encrypting T k x a pt ct \<and> 16 \<le> n \<longrightarrow>
       (\<exists>out k' k''. sy_finalize S n k = (Ok out, k') \<and> ct @ out = sp_enc T x a pt \<and>
         (is_gcm (fst x) \<longrightarrow> sy_get_tag S 16 k' = (Ok (sp_tag T x a pt), k''))))"

definition tag_taken :: "'c symm \<Rightarrow> 'c symm_spec \<Rightarrow> bool" where
  "tag_taken S T \<longleftrightarrow>
     (\<forall>k x a ct pt t. is_gcm (fst x) \<and> sp_decrypting T k x a None ct pt \<longrightarrow>
       (\<exists>k'. sy_set_tag S t k = (Ok (), k') \<and> sp_decrypting T k' x a (Some t) ct pt))"

definition decryption_ends :: "'c symm \<Rightarrow> 'c symm_spec \<Rightarrow> bool" where
  "decryption_ends S T \<longleftrightarrow>
     (\<forall>k x a pt t n m. sp_decrypting T k x a t (sp_enc T x a m) pt \<and>
       (is_gcm (fst x) \<longrightarrow> t = Some (sp_tag T x a m)) \<and> 16 \<le> n \<longrightarrow>
       (\<exists>out k'. sy_finalize S n k = (Ok out, k') \<and> pt @ out = m))"

definition once_ok :: "'c symm \<Rightarrow> 'c symm_spec \<Rightarrow> bool" where
  "once_ok S T \<longleftrightarrow>
     (\<forall>c key iv m. sp_valid T (c, key, iv) \<and> \<not> is_gcm c \<longrightarrow>
       sy_encrypt S c key iv m = Ok (sp_enc T (c, key, iv) None m) \<and>
       sy_decrypt S c key iv (sp_enc T (c, key, iv) None m) = Ok m) \<and>
     (\<forall>c key iv a m. sp_valid T (c, key, iv) \<and> is_gcm c \<longrightarrow>
       sy_encrypt_aead S c key iv a m 16 = Ok (sp_enc T (c, key, iv) (Some a) m, sp_tag T (c, key, iv) (Some a) m) \<and>
       sy_decrypt_aead S c key iv a (sp_enc T (c, key, iv) (Some a) m) (sp_tag T (c, key, iv) (Some a) m) = Ok m)"

definition symm_ok :: "'c symm \<Rightarrow> 'c symm_spec \<Rightarrow> bool" where
  "symm_ok S T \<longleftrightarrow>
     (\<forall>x. sp_valid T x \<longrightarrow> starts S Encrypt x (encrypting_as T x) \<and> starts S Decrypt x (decrypting_as T x)) \<and>
     (\<forall>x. updates S (encrypting_as T x) \<and> updates S (decrypting_as T x)) \<and>
     encryption_ends S T \<and> tag_taken S T \<and> decryption_ends S T \<and> once_ok S T"

section \<open>Streams\<close>

text \<open>The caller of a stream: each piece with a buffer, of which the bytes that were written are kept, then the end.\<close>

fun feed :: "(bytes \<Rightarrow> bytes \<Rightarrow> ('x, nat \<times> bytes) op) \<Rightarrow> (bytes \<times> bytes) list \<Rightarrow> ('x, bytes) op" where
  "feed upd [] x = (Ok [], x)"
| "feed upd ((d, buf) # ps) x =
     op_bind (upd d buf) (\<lambda>(n, b). op_bind (feed upd ps) (\<lambda>out. op_return (take n b @ out))) x"

definition run_stream ::
  "(bytes \<Rightarrow> bytes \<Rightarrow> ('x, nat \<times> bytes) op) \<Rightarrow> (bytes \<Rightarrow> ('x, nat \<times> bytes) op) \<Rightarrow> (bytes \<times> bytes) list \<Rightarrow> bytes \<Rightarrow> ('x, bytes) op" where
  "run_stream upd fin ps buf =
     op_bind (feed upd ps) (\<lambda>out. op_bind (fin buf) (\<lambda>(n, b). op_return (out @ take n b)))"

text \<open>Pieces of a message with buffers that are large enough.\<close>

definition pieces :: "bytes \<Rightarrow> (bytes \<times> bytes) list \<Rightarrow> bool" where
  "pieces m ps \<longleftrightarrow> ps \<noteq> [] \<and> concat (map fst ps) = m \<and> (\<forall>(d, buf) \<in> set ps. length d + 16 \<le> length buf)"

lemma take_written [simp]: "written out buf = (n, b) \<Longrightarrow> take n b = out"
  by (auto simp: written_def)

definition fed_aad :: "bool \<Rightarrow> ('c, 'r) cipher_data_scheme \<Rightarrow> bytes option" where
  "fed_aad aead x = (if aead then cx_aad x else None)"

lemma fed_aad_ctx [simp]: "fed_aad aead (x\<lparr>cx_ctx := k\<rparr>) = fed_aad aead x"
  by (simp add: fed_aad_def)

text \<open>An object in the middle of a stream, whose context was given the additional data.\<close>

definition in_stream ::
  "bool \<Rightarrow> (bytes option \<Rightarrow> 'c \<Rightarrow> bool) \<Rightarrow> ('c, 'r) cipher_data_scheme \<Rightarrow> bool" where
  "in_stream aead P x \<longleftrightarrow>
     (\<exists>k. cx_ctx x = Some k \<and> \<not> ac_tag_set k \<and> (aead \<and> cx_aad x \<noteq> None \<longrightarrow> ac_aad_set k) \<and> P (fed_aad aead x) (ac_ctx k))"

text \<open>Starting a context and giving it the additional data, for either direction.\<close>

lemma stream_started:
  assumes "cx_ctx x = None" "sy_crypter S c m (cx_key x) (cx_iv x) = Ok k" "P None k"
    and "\<And>a. aead \<Longrightarrow> \<exists>k'. sy_aad_update S a k = (Ok (), k') \<and> P (Some a) k'"
  shows "\<exists>k'. op_bind (start_ctx S c m) (\<lambda>_. if aead then feed_aad S else op_return ()) x = (Ok (), x\<lparr>cx_ctx := Some k'\<rparr>) \<and>
    in_stream aead P (x\<lparr>cx_ctx := Some k'\<rparr>)"
proof (cases "aead \<and> cx_aad x \<noteq> None")
  case True
  then obtain a where a: "cx_aad x = Some a" by auto
  obtain k' where "sy_aad_update S a k = (Ok (), k')" "P (Some a) k'" using assms(4) True by blast
  then show ?thesis
    using assms(1,2) True a
    by (intro exI [of _ "\<lparr>ac_ctx = k', ac_tag_set = False, ac_aad_set = True\<rparr>"])
      (simp add: start_ctx_def op_bind_def op_res_def feed_aad_def ctx_flag_def on_ctx_def mark_ctx_def in_stream_def fed_aad_def)
next
  case False
  then show ?thesis
    using assms(1-3)
    by (intro exI [of _ "\<lparr>ac_ctx = k, ac_tag_set = False, ac_aad_set = False\<rparr>"])
      (auto simp: start_ctx_def op_bind_def op_res_def op_return_def feed_aad_def ctx_flag_def in_stream_def fed_aad_def)
qed

lemma stream_continued:
  assumes "in_stream aead P x"
  shows "op_bind (start_ctx S c m) (\<lambda>_. if aead then feed_aad S else op_return ()) x = (Ok (), x)"
  using assms
  by (auto simp: in_stream_def start_ctx_def op_bind_def op_return_def feed_aad_def ctx_flag_def split: option.splits)

text \<open>An object that was given \<open>i\<close> and has given \<open>o\<close> out, from the beginning on; \<open>R\<close> is what its context has seen.\<close>

definition stream_at ::
  "bool \<Rightarrow> (bytes \<Rightarrow> bytes \<Rightarrow> bytes option \<Rightarrow> 'c \<Rightarrow> bool) \<Rightarrow> ('c, 'r) cipher_data_scheme \<Rightarrow> ('c, 'r) cipher_data_scheme \<Rightarrow>
     bytes \<Rightarrow> bytes \<Rightarrow> bool" where
  "stream_at aead R x0 y i o1 \<longleftrightarrow>
     (y = x0 \<and> cx_ctx x0 = None \<and> i = [] \<and> o1 = []) \<or>
     (\<exists>k. y = x0\<lparr>cx_ctx := Some k\<rparr> \<and> in_stream aead (R i o1) y)"

lemma stream_begun:
  assumes "stream_at (is_gcm c) R x0 y i o1" "starts S m (c, cx_key x0, cx_iv x0) R"
  shows "\<exists>k. op_bind (start_ctx S c m) (\<lambda>_. if is_gcm c then feed_aad S else op_return ()) y = (Ok (), x0\<lparr>cx_ctx := Some k\<rparr>) \<and>
    in_stream (is_gcm c) (R i o1) (x0\<lparr>cx_ctx := Some k\<rparr>)"
  using assms(1) unfolding stream_at_def
proof (elim disjE exE conjE)
  assume y: "y = x0" "cx_ctx x0 = None" "i = []" "o1 = []"
  obtain k where "sy_crypter S c m (cx_key x0) (cx_iv x0) = Ok k" "R [] [] None k"
    "\<And>a. is_gcm c \<Longrightarrow> \<exists>k'. sy_aad_update S a k = (Ok (), k') \<and> R [] [] (Some a) k'"
    using assms(2) by (auto simp: starts_def)
  from stream_started [OF y(2) this(1), where P = "R [] []" and aead = "is_gcm c", OF this(2,3)] show ?thesis using y by blast
next
  fix k assume "y = x0\<lparr>cx_ctx := Some k\<rparr>" "in_stream (is_gcm c) (R i o1) y"
  then show ?thesis using stream_continued [of "is_gcm c" "R i o1" y S c m] by auto
qed

lemma ctx_updated:
  assumes "in_stream aead (R i o1) (x0\<lparr>cx_ctx := Some k\<rparr>)" "updates S R" "length d + 16 \<le> n"
  shows "\<exists>out k'. on_ctx (sy_update S d n) (x0\<lparr>cx_ctx := Some k\<rparr>) = (Ok out, x0\<lparr>cx_ctx := Some k'\<rparr>) \<and>
    in_stream aead (R (i @ d) (o1 @ out)) (x0\<lparr>cx_ctx := Some k'\<rparr>)"
proof -
  let ?a = "fed_aad aead x0"
  have k: "R i o1 ?a (ac_ctx k)" "\<not> ac_tag_set k" "aead \<and> cx_aad x0 \<noteq> None \<longrightarrow> ac_aad_set k"
    using assms(1) by (simp_all add: in_stream_def)
  obtain out c' where "sy_update S d n (ac_ctx k) = (Ok out, c')" "R (i @ d) (o1 @ out) ?a c'"
    using assms(2,3) k(1) unfolding updates_def by blast
  then show ?thesis
    using k(2,3) by (intro exI [of _ out] exI [of _ "k\<lparr>ac_ctx := c'\<rparr>"]) (simp add: on_ctx_def in_stream_def)
qed

lemma bind_prefix: "op_bind a (\<lambda>_. b) x = (Ok (), y) \<Longrightarrow> op_bind a (\<lambda>_. op_bind b f) x = f () y"
  by (auto simp: op_bind_def split: prod.splits res.splits)

lemma stream_steps:
  assumes "stream_at (is_gcm c) R x0 y i o1" "updates S R" "length d + 16 \<le> length buf"
  shows "starts S Encrypt (c, cx_key x0, cx_iv x0) R \<Longrightarrow>
      \<exists>out k. encrypt_stream S c (is_gcm c) d buf y = (Ok (written out buf), x0\<lparr>cx_ctx := Some k\<rparr>) \<and>
        in_stream (is_gcm c) (R (i @ d) (o1 @ out)) (x0\<lparr>cx_ctx := Some k\<rparr>)"
    "starts S Decrypt (c, cx_key x0, cx_iv x0) R \<Longrightarrow>
      \<exists>out k. decrypt_stream S c (is_gcm c) d buf y = (Ok (written out buf), x0\<lparr>cx_ctx := Some k\<rparr>) \<and>
        in_stream (is_gcm c) (R (i @ d) (o1 @ out)) (x0\<lparr>cx_ctx := Some k\<rparr>)"
proof -
  have u: "\<exists>out k'. on_ctx (sy_update S d (length buf)) (x0\<lparr>cx_ctx := Some k\<rparr>) = (Ok out, x0\<lparr>cx_ctx := Some k'\<rparr>) \<and>
      in_stream (is_gcm c) (R (i @ d) (o1 @ out)) (x0\<lparr>cx_ctx := Some k'\<rparr>)"
    if "in_stream (is_gcm c) (R i o1) (x0\<lparr>cx_ctx := Some k\<rparr>)" for k
    by (rule ctx_updated [OF that assms(2,3)])
  show "\<exists>out k. encrypt_stream S c (is_gcm c) d buf y = (Ok (written out buf), x0\<lparr>cx_ctx := Some k\<rparr>) \<and>
      in_stream (is_gcm c) (R (i @ d) (o1 @ out)) (x0\<lparr>cx_ctx := Some k\<rparr>)" if "starts S Encrypt (c, cx_key x0, cx_iv x0) R"
    using stream_begun [OF assms(1) that] u unfolding encrypt_stream_def
    by (elim exE conjE) (fastforce simp: bind_prefix op_bind_def [of "on_ctx _"] op_return_def)
  show "\<exists>out k. decrypt_stream S c (is_gcm c) d buf y = (Ok (written out buf), x0\<lparr>cx_ctx := Some k\<rparr>) \<and>
      in_stream (is_gcm c) (R (i @ d) (o1 @ out)) (x0\<lparr>cx_ctx := Some k\<rparr>)" if "starts S Decrypt (c, cx_key x0, cx_iv x0) R"
    using stream_begun [OF assms(1) that] u unfolding decrypt_stream_def
    by (elim exE conjE) (fastforce simp: bind_prefix op_bind_def [of "failing_with _ _"] op_return_def failing_with_def)
qed

text \<open>Any number of updates.\<close>

lemma feed_stream:
  assumes "stream_at aead R x0 y i o1" "\<forall>(d, buf) \<in> set ps. length d + 16 \<le> length buf"
    and step: "\<And>y i o1 d buf. stream_at aead R x0 y i o1 \<Longrightarrow> length d + 16 \<le> length buf \<Longrightarrow>
      \<exists>out k. upd d buf y = (Ok (written out buf), x0\<lparr>cx_ctx := Some k\<rparr>) \<and>
        in_stream aead (R (i @ d) (o1 @ out)) (x0\<lparr>cx_ctx := Some k\<rparr>)"
  shows "\<exists>out z. feed upd ps y = (Ok out, z) \<and> stream_at aead R x0 z (i @ concat (map fst ps)) (o1 @ out) \<and>
    (ps \<noteq> [] \<longrightarrow> (\<exists>k. z = x0\<lparr>cx_ctx := Some k\<rparr> \<and> in_stream aead (R (i @ concat (map fst ps)) (o1 @ out)) z))"
  using assms(1,2)
proof (induction ps arbitrary: y i o1)
  case (Cons p ps)
  obtain d buf where p: "p = (d, buf)" by (cases p)
  obtain out k where u: "upd d buf y = (Ok (written out buf), x0\<lparr>cx_ctx := Some k\<rparr>)"
    "in_stream aead (R (i @ d) (o1 @ out)) (x0\<lparr>cx_ctx := Some k\<rparr>)"
    using step [OF Cons.prems(1), of d buf] Cons.prems(2) p by auto
  then have at: "stream_at aead R x0 (x0\<lparr>cx_ctx := Some k\<rparr>) (i @ d) (o1 @ out)" by (auto simp: stream_at_def)
  obtain out2 z where z: "feed upd ps (x0\<lparr>cx_ctx := Some k\<rparr>) = (Ok out2, z)"
    "stream_at aead R x0 z ((i @ d) @ concat (map fst ps)) ((o1 @ out) @ out2)"
    "ps \<noteq> [] \<longrightarrow> (\<exists>k. z = x0\<lparr>cx_ctx := Some k\<rparr> \<and> in_stream aead (R ((i @ d) @ concat (map fst ps)) ((o1 @ out) @ out2)) z)"
    using Cons.IH [OF at] Cons.prems(2) by auto
  have f: "feed upd (p # ps) y = (Ok (out @ out2), z)"
    using u(1) z(1) p by (cases "written out buf") (simp add: op_bind_def op_return_def)
  moreover have "ps = [] \<Longrightarrow> z = x0\<lparr>cx_ctx := Some k\<rparr> \<and> out2 = []" using z(1) by auto
  ultimately show ?case using z(2,3) u(2) p by (cases "ps = []") auto
qed simp

lemma directions_ok:
  assumes "symm_ok S T"
  shows "sp_valid T x \<Longrightarrow> starts S Encrypt x (encrypting_as T x)" "sp_valid T x \<Longrightarrow> starts S Decrypt x (decrypting_as T x)"
    "updates S (encrypting_as T x)" "updates S (decrypting_as T x)" "encryption_ends S T" "tag_taken S T" "decryption_ends S T"
    "once_ok S T"
  using assms unfolding symm_ok_def by blast+

text \<open>The operations of an object are those of its cipher as long as only its context has changed.\<close>

lemma stream_at_object: "stream_at aead R x y i o1 \<Longrightarrow> \<exists>k. y = x\<lparr>cx_ctx := k\<rparr>"
  unfolding stream_at_def by (metis cipher_data.surjective cipher_data.update_convs(5))

lemma untagged: "cx_tag x = None \<Longrightarrow> x\<lparr>cx_ctx := k, cx_tag := None\<rparr> = x\<lparr>cx_ctx := k\<rparr>"
  by (cases x) simp

lemma fed:
  assumes "\<And>k d b. upd d b (x\<lparr>cx_ctx := k\<rparr>) = str d b (x\<lparr>cx_ctx := k\<rparr>)" "cx_ctx x = None" "pieces m ps"
    and step: "\<And>y i o1 d buf. stream_at aead R x y i o1 \<Longrightarrow> length d + 16 \<le> length buf \<Longrightarrow>
      \<exists>out k. str d buf y = (Ok (written out buf), x\<lparr>cx_ctx := Some k\<rparr>) \<and>
        in_stream aead (R (i @ d) (o1 @ out)) (x\<lparr>cx_ctx := Some k\<rparr>)"
  shows "\<exists>out k. feed upd ps x = (Ok out, x\<lparr>cx_ctx := Some k\<rparr>) \<and> in_stream aead (R m out) (x\<lparr>cx_ctx := Some k\<rparr>)"
proof -
  have "stream_at aead R x x [] []" using assms(2) by (simp add: stream_at_def)
  moreover have "\<exists>out k. upd d buf y = (Ok (written out buf), x\<lparr>cx_ctx := Some k\<rparr>) \<and>
      in_stream aead (R (i @ d) (o1 @ out)) (x\<lparr>cx_ctx := Some k\<rparr>)"
    if "stream_at aead R x y i o1" "length d + 16 \<le> length buf" for y i o1 d buf
    using step [OF that] stream_at_object [OF that(1)] assms(1) by metis
  ultimately show ?thesis
    using feed_stream [where upd = upd and ps = ps and aead = aead and R = R and y = x and i = "[]" and ?o1.0 = "[]" and ?x0.0 = x] assms(3)
    by (fastforce simp: pieces_def)
qed

text \<open>A whole stream, in either direction, over the common operations.\<close>

lemma encryption_run:
  assumes upd: "\<And>k d b. upd d b (x\<lparr>cx_ctx := k\<rparr>) = encrypt_stream S c (is_gcm c) d b (x\<lparr>cx_ctx := k\<rparr>)"
    and fin: "\<And>k b. fin b (x\<lparr>cx_ctx := k\<rparr>) = encrypt_end S (is_gcm c) b (x\<lparr>cx_ctx := k\<rparr>)"
    and "symm_ok S T" "sp_valid T (c, cx_key x, cx_iv x)" "cx_ctx x = None" "cx_tag x = None"
    and "pieces m ps" and buf: "16 \<le> length buf"
  shows "\<exists>k. run_stream upd fin ps buf x =
    (Ok (sp_enc T (c, cx_key x, cx_iv x) (fed_aad (is_gcm c) x) m),
     x\<lparr>cx_ctx := Some k, cx_tag := if is_gcm c then Some (sp_tag T (c, cx_key x, cx_iv x) (fed_aad True x) m) else None\<rparr>)"
proof -
  let ?q = "(c, cx_key x, cx_iv x)" and ?a = "fed_aad (is_gcm c) x"
  note d = directions_ok [OF assms(3)]
  obtain out k where f: "feed upd ps x = (Ok out, x\<lparr>cx_ctx := Some k\<rparr>)"
    "in_stream (is_gcm c) (encrypting_as T ?q m out) (x\<lparr>cx_ctx := Some k\<rparr>)"
    using fed [where upd = upd and str = "encrypt_stream S c (is_gcm c)" and R = "encrypting_as T ?q",
        OF upd assms(5) assms(7) stream_steps(1) [OF _ d(3) _ d(1) [OF assms(4)]]] by blast
  then have e: "sp_encrypting T (ac_ctx k) ?q ?a m out" by (simp add: in_stream_def encrypting_as_def)
  obtain rest k1 k2 where r: "sy_finalize S (length buf) (ac_ctx k) = (Ok rest, k1)" "out @ rest = sp_enc T ?q ?a m"
    "is_gcm c \<Longrightarrow> sy_get_tag S 16 k1 = (Ok (sp_tag T ?q ?a m), k2)"
    using d(5) buf e unfolding encryption_ends_def by (metis fst_conv)
  show ?thesis
    using f(1) r assms(6)
    by (cases "written rest buf"; cases "is_gcm c")
      (auto simp: run_stream_def op_bind_def fin encrypt_end_def on_ctx_def op_return_def fed_aad_def untagged dest: take_written)
qed

lemma decryption_run:
  assumes upd: "\<And>k d b. upd d b (x\<lparr>cx_ctx := k\<rparr>) = decrypt_stream S c (is_gcm c) d b (x\<lparr>cx_ctx := k\<rparr>)"
    and fin: "\<And>k b. fin b (x\<lparr>cx_ctx := k\<rparr>) = decrypt_end S (is_gcm c) b (x\<lparr>cx_ctx := k\<rparr>)"
    and "symm_ok S T" "sp_valid T (c, cx_key x, cx_iv x)" "cx_ctx x = None"
    and tag: "is_gcm c \<Longrightarrow> cx_tag x = Some (sp_tag T (c, cx_key x, cx_iv x) (fed_aad True x) m)"
    and "pieces (sp_enc T (c, cx_key x, cx_iv x) (fed_aad (is_gcm c) x) m) ps" and buf: "16 \<le> length buf"
  shows "\<exists>k. run_stream upd fin ps buf x = (Ok m, x\<lparr>cx_ctx := Some k\<rparr>)"
proof -
  let ?q = "(c, cx_key x, cx_iv x)" and ?a = "fed_aad (is_gcm c) x"
  let ?ct = "sp_enc T ?q ?a m"
  note d = directions_ok [OF assms(3)]
  obtain out k where f: "feed upd ps x = (Ok out, x\<lparr>cx_ctx := Some k\<rparr>)"
    "in_stream (is_gcm c) (decrypting_as T ?q ?ct out) (x\<lparr>cx_ctx := Some k\<rparr>)"
    using fed [where upd = upd and str = "decrypt_stream S c (is_gcm c)" and R = "decrypting_as T ?q",
        OF upd assms(5) assms(7) stream_steps(2) [OF _ d(4) _ d(2) [OF assms(4)]]] by blast
  then have e: "sp_decrypting T (ac_ctx k) ?q ?a None ?ct out" "\<not> ac_tag_set k" by (simp_all add: in_stream_def decrypting_as_def)
  show ?thesis
  proof (cases "is_gcm c")
    case True
    obtain k1 where t: "sy_set_tag S (sp_tag T ?q ?a m) (ac_ctx k) = (Ok (), k1)"
      "sp_decrypting T k1 ?q ?a (Some (sp_tag T ?q ?a m)) ?ct out"
      using d(6) e(1) True unfolding tag_taken_def by (metis fst_conv)
    obtain rest k2 where "sy_finalize S (length buf) k1 = (Ok rest, k2)" "out @ rest = m"
      using d(7) buf t(2) unfolding decryption_ends_def by blast
    then show ?thesis
      using f(1) t(1) e(2) tag True
      by (cases "written rest buf") (auto simp: run_stream_def op_bind_def fin decrypt_end_def feed_tag_def ctx_flag_def on_ctx_def
          mark_ctx_def failing_with_def op_return_def dest: take_written)
  next
    case False
    obtain rest k2 where "sy_finalize S (length buf) (ac_ctx k) = (Ok rest, k2)" "out @ rest = m"
      using d(7) buf e(1) False unfolding decryption_ends_def by (metis fst_conv)
    then show ?thesis
      using f(1) False
      by (cases "written rest buf") (auto simp: run_stream_def op_bind_def fin decrypt_end_def on_ctx_def failing_with_def op_return_def
          dest: take_written)
  qed
qed

section \<open>AES and SM4\<close>

lemma encrypted_once:
  assumes "symm_ok S T" "sp_valid T (c, cx_key x, cx_iv x)" "is_gcm c \<longrightarrow> cx_aad x \<noteq> None" "cx_tag x = None"
  shows "encrypt_once S c (is_gcm c) m x =
    (Ok (sp_enc T (c, cx_key x, cx_iv x) (fed_aad (is_gcm c) x) m),
     x\<lparr>cx_tag := if is_gcm c then Some (sp_tag T (c, cx_key x, cx_iv x) (fed_aad True x) m) else None\<rparr>)"
  using directions_ok(8) [OF assms(1)] assms(2-4) untagged [of x "cx_ctx x"]
  by (auto simp: once_ok_def encrypt_once_def fed_aad_def)

lemma decrypted_once:
  assumes "symm_ok S T" "sp_valid T (c, cx_key x, cx_iv x)" "is_gcm c \<longrightarrow> cx_aad x \<noteq> None"
    and "is_gcm c \<Longrightarrow> cx_tag x = Some (sp_tag T (c, cx_key x, cx_iv x) (fed_aad True x) m)"
  shows "decrypt_once S c (is_gcm c) (sp_enc T (c, cx_key x, cx_iv x) (fed_aad (is_gcm c) x) m) x = (Ok m, x)"
  using directions_ok(8) [OF assms(1)] assms(2-4) by (auto simp: once_ok_def decrypt_once_def fed_aad_def)

lemma aes_operations:
  assumes "aes_alg x = (AES128, md)" "md \<noteq> CCM"
  shows "aes_encrypt_update S d b (x\<lparr>cx_ctx := k\<rparr>) = encrypt_stream S (AesCipher AES128 md) (md = GCM) d b (x\<lparr>cx_ctx := k\<rparr>)"
    "aes_decrypt_update S d b (x\<lparr>cx_ctx := k\<rparr>) = decrypt_stream S (AesCipher AES128 md) (md = GCM) d b (x\<lparr>cx_ctx := k\<rparr>)"
    "aes_encrypt_final S b (x\<lparr>cx_ctx := k\<rparr>) = encrypt_end S (md = GCM) b (x\<lparr>cx_ctx := k\<rparr>)"
    "aes_decrypt_final S b (x\<lparr>cx_ctx := k\<rparr>) = decrypt_end S (md = GCM) b (x\<lparr>cx_ctx := k\<rparr>)"
  using assms
  by (cases md; simp add: aes_encrypt_update_def aes_decrypt_update_def aes_encrypt_final_def aes_decrypt_final_def)+

lemma aes_once:
  assumes "aes_alg x = (s, md)" "md \<noteq> CCM"
  shows "aes_encrypt S m x = encrypt_once S (AesCipher s md) (md = GCM) m x"
    "aes_decrypt S m x = decrypt_once S (AesCipher s md) (md = GCM) m x"
  using assms by (cases md; simp add: aes_encrypt_def aes_decrypt_def common_internal_get_cipher_alg_def op_bind_def op_res_def)+

lemma sm4_operations:
  assumes "sm4_mode x = md" "md \<noteq> CCM"
  shows "sm4_encrypt_update S d b (x\<lparr>cx_ctx := k\<rparr>) = encrypt_stream S (Sm4Cipher md) (md = GCM) d b (x\<lparr>cx_ctx := k\<rparr>)"
    "sm4_decrypt_update S d b (x\<lparr>cx_ctx := k\<rparr>) = decrypt_stream S (Sm4Cipher md) (md = GCM) d b (x\<lparr>cx_ctx := k\<rparr>)"
    "sm4_encrypt_final S b (x\<lparr>cx_ctx := k\<rparr>) = encrypt_end S (md = GCM) b (x\<lparr>cx_ctx := k\<rparr>)"
    "sm4_decrypt_final S b (x\<lparr>cx_ctx := k\<rparr>) = decrypt_end S (md = GCM) b (x\<lparr>cx_ctx := k\<rparr>)"
    "sm4_encrypt S m x = encrypt_once S (Sm4Cipher md) (md = GCM) m x"
    "sm4_decrypt S m x = decrypt_once S (Sm4Cipher md) (md = GCM) m x"
  using assms
  by (cases md; simp add: sm4_encrypt_update_def sm4_decrypt_update_def sm4_encrypt_final_def sm4_decrypt_final_def
      sm4_encrypt_def sm4_decrypt_def)+

text \<open>
  What the operations of an object have in common: a stream gives the ciphertext and the tag of the encryption at once, and
  another object with the same key, vector, additional data and tag the message.
\<close>

lemma streams_agree:
  fixes x :: "('c, 'r) cipher_data_scheme"
  assumes "symm_ok S T" "sp_valid T (c, cx_key x, cx_iv x)" "cx_ctx x = None" "cx_tag x = None" "pieces m ps" "16 \<le> length buf"
    and e: "\<And>k d b. eu d b (x\<lparr>cx_ctx := k\<rparr>) = encrypt_stream S c (is_gcm c) d b (x\<lparr>cx_ctx := k\<rparr>)"
      "\<And>k b. ef b (x\<lparr>cx_ctx := k\<rparr>) = encrypt_end S (is_gcm c) b (x\<lparr>cx_ctx := k\<rparr>)"
    and d: "\<And>k t d b. du d b (x\<lparr>cx_tag := t, cx_ctx := k\<rparr>) = decrypt_stream S c (is_gcm c) d b (x\<lparr>cx_tag := t, cx_ctx := k\<rparr>)"
      "\<And>k t b. df b (x\<lparr>cx_tag := t, cx_ctx := k\<rparr>) = decrypt_end S (is_gcm c) b (x\<lparr>cx_tag := t, cx_ctx := k\<rparr>)"
  shows "\<exists>ct x'. run_stream eu ef ps buf x = (Ok ct, x') \<and>
    ((is_gcm c \<longrightarrow> cx_aad x \<noteq> None) \<longrightarrow> encrypt_once S c (is_gcm c) m x = (Ok ct, x\<lparr>cx_tag := cx_tag x'\<rparr>)) \<and>
    (\<forall>qs buf'. pieces ct qs \<and> 16 \<le> length buf' \<longrightarrow> fst (run_stream du df qs buf' (x\<lparr>cx_tag := cx_tag x'\<rparr>)) = Ok m)"
proof -
  let ?a = "fed_aad (is_gcm c) x" and ?q = "(c, cx_key x, cx_iv x)"
  let ?t = "if is_gcm c then Some (sp_tag T ?q (fed_aad True x) m) else None"
  let ?y = "x\<lparr>cx_tag := ?t\<rparr>"
  obtain k where r: "run_stream eu ef ps buf x = (Ok (sp_enc T ?q ?a m), x\<lparr>cx_ctx := Some k, cx_tag := ?t\<rparr>)"
    using encryption_run [OF e assms(1-6)] by blast
  have "fst (run_stream du df qs buf' ?y) = Ok m" if "pieces (sp_enc T ?q ?a m) qs" "16 \<le> length buf'" for qs buf'
    using decryption_run [where x = ?y and upd = du and fin = df and m = m and ps = qs, OF d assms(1)] assms(2,3) that
    by (force simp: fed_aad_def)
  then show ?thesis
    using r encrypted_once [OF assms(1,2) _ assms(4)] by (intro exI [of _ "sp_enc T ?q ?a m"] exI [of _ "x\<lparr>cx_ctx := Some k, cx_tag := ?t\<rparr>"]) simp
qed

text \<open>
  C29: A message that an AES-128 object encrypts as a stream, in CBC or GCM mode and in whatever pieces, succeeds with a
  ciphertext; it is the ciphertext, and its tag the tag, of the encryption at once (which GCM needs additional data for); and
  an object with the same key, vector and additional data, to which the tag is given, decrypts that ciphertext, in whatever
  pieces, to the message. The buffers have a block more than the pieces.
\<close>

theorem aes_streams_agree:
  assumes "symm_ok S T" "aes_alg x = (AES128, md)" "md \<noteq> CCM" "sp_valid T (AesCipher AES128 md, cx_key x, cx_iv x)"
    and "cx_ctx x = None" "cx_tag x = None" "pieces m ps" "16 \<le> length buf"
  shows "\<exists>ct x'. run_stream (aes_encrypt_update S) (aes_encrypt_final S) ps buf x = (Ok ct, x') \<and>
    ((md = GCM \<longrightarrow> cx_aad x \<noteq> None) \<longrightarrow> aes_encrypt S m x = (Ok ct, x\<lparr>cx_tag := cx_tag x'\<rparr>)) \<and>
    (\<forall>qs buf'. pieces ct qs \<and> 16 \<le> length buf' \<longrightarrow>
      fst (run_stream (aes_decrypt_update S) (aes_decrypt_final S) qs buf' (x\<lparr>cx_tag := cx_tag x'\<rparr>)) = Ok m)"
proof -
  note o = aes_operations [OF assms(2,3)] aes_operations [where x = "x\<lparr>cx_tag := t\<rparr>" and md = md for t]
  show ?thesis
    using streams_agree [OF assms(1,4-8), of "aes_encrypt_update S" "aes_encrypt_final S" "aes_decrypt_update S" "aes_decrypt_final S"]
    by (simp add: o assms(2,3) aes_once [OF assms(2,3)])
qed

lemma sm4_streams_agree:
  assumes "symm_ok S T" "sm4_mode x = md" "md \<noteq> CCM" "sp_valid T (Sm4Cipher md, cx_key x, cx_iv x)"
    and "cx_ctx x = None" "cx_tag x = None" "pieces m ps" "16 \<le> length buf"
  shows "\<exists>ct x'. run_stream (sm4_encrypt_update S) (sm4_encrypt_final S) ps buf x = (Ok ct, x') \<and>
    ((md = GCM \<longrightarrow> cx_aad x \<noteq> None) \<longrightarrow> sm4_encrypt S m x = (Ok ct, x\<lparr>cx_tag := cx_tag x'\<rparr>)) \<and>
    (\<forall>qs buf'. pieces ct qs \<and> 16 \<le> length buf' \<longrightarrow>
      fst (run_stream (sm4_decrypt_update S) (sm4_decrypt_final S) qs buf' (x\<lparr>cx_tag := cx_tag x'\<rparr>)) = Ok m)"
proof -
  note o = sm4_operations [OF assms(2,3)] sm4_operations [where x = "x\<lparr>cx_tag := t\<rparr>" and md = md for t]
  show ?thesis
    using streams_agree [OF assms(1,4-8), of "sm4_encrypt_update S" "sm4_encrypt_final S" "sm4_decrypt_update S" "sm4_decrypt_final S"]
    by (simp add: o assms(2,3))
qed

text \<open>
  Encryption and decryption at once, with keys of every size; the tag is left in the object. The streams of an object with a
  longer key are refused, and an object that has a stream behind it keeps its context: the tag that is left in it makes the end of
  a second stream fail, after the data was finalised.
\<close>

lemma aes_once_round_trip:
  assumes "symm_ok S T" "aes_alg x = (s, md)" "md \<noteq> CCM" "sp_valid T (AesCipher s md, cx_key x, cx_iv x)"
    and "md = GCM \<longrightarrow> cx_aad x \<noteq> None" "cx_tag x = None"
  shows "\<exists>ct x'. aes_encrypt S m x = (Ok ct, x') \<and> aes_decrypt S ct x' = (Ok m, x')"
proof -
  let ?c = "AesCipher s md"
  let ?y = "snd (encrypt_once S ?c (md = GCM) m x)"
  have e: "encrypt_once S ?c (md = GCM) m x =
      (Ok (sp_enc T (?c, cx_key x, cx_iv x) (fed_aad (md = GCM) x) m),
       x\<lparr>cx_tag := if md = GCM then Some (sp_tag T (?c, cx_key x, cx_iv x) (fed_aad True x) m) else None\<rparr>)"
    using encrypted_once [OF assms(1,4) _ assms(6), of m] assms(5) by simp
  have y: "aes_alg ?y = (s, md)" using e assms(2) by simp
  have "decrypt_once S ?c (md = GCM) (sp_enc T (?c, cx_key x, cx_iv x) (fed_aad (md = GCM) x) m) ?y = (Ok m, ?y)"
    using decrypted_once [OF assms(1), of ?c ?y m] assms(4,5) e
    by (cases "md = GCM") (simp_all add: fed_aad_def)
  then show ?thesis using aes_once [OF assms(2,3)] aes_once [OF y assms(3)] e by (metis snd_conv)
qed

lemma aes_long_keys_not_streamed:
  assumes "fst (aes_alg x) \<noteq> AES128"
  shows "aes_encrypt_update S d buf x = (Err ErrCryptoCipherOPNotSupported, x)"
    "aes_decrypt_update S d buf x = (Err ErrCryptoCipherOPNotSupported, x)"
  using assms
  by (cases "aes_alg x"; cases "fst (aes_alg x)"; simp add: aes_encrypt_update_def aes_decrypt_update_def)+

lemma aes_second_stream_fails:
  assumes "snd (aes_alg x) = GCM" "cx_ctx x = Some k" "cx_tag x = Some t" "sy_finalize S (length buf) (ac_ctx k) = (Ok out, c)"
  shows "aes_encrypt_final S buf x = (Err ErrCryptoCipherAEADTagPresent, x\<lparr>cx_ctx := Some (k\<lparr>ac_ctx := c\<rparr>)\<rparr>)"
  using assms by (simp add: aes_encrypt_final_def encrypt_end_def op_bind_def on_ctx_def)

lemma aes_gcm_needs_additional_data: "aes_alg x = (s, GCM) \<Longrightarrow> cx_aad x = None \<Longrightarrow> aes_encrypt S m x = (Panic, x)"
  by (simp add: aes_once encrypt_once_def)

section \<open>An instance\<close>

text \<open>The requirements can be met: contexts that give their input out and a constant tag.\<close>

definition plain_symm :: "unit symm" where
  "plain_symm =
     \<lparr>sy_encrypt = (\<lambda>_ _ _ m. Ok m), sy_decrypt = (\<lambda>_ _ _ m. Ok m), sy_encrypt_aead = (\<lambda>_ _ _ _ m n. Ok (m, replicate n 0)),
      sy_decrypt_aead = (\<lambda>_ _ _ _ m t. if t = replicate 16 0 then Ok m else Err ErrCryptoCipherFinalizeFailed),
      sy_crypter = (\<lambda>_ _ _ _. Ok ()), sy_aad_update = (\<lambda>_. op_return ()), sy_update = (\<lambda>d _. op_return d),
      sy_finalize = (\<lambda>_. op_return []), sy_get_tag = (\<lambda>n. op_return (replicate n 0)), sy_set_tag = (\<lambda>_. op_return ())\<rparr>"

definition plain_spec :: "unit symm_spec" where
  "plain_spec =
     \<lparr>sp_valid = (\<lambda>(_, key, iv). length key = 16 \<and> length iv = 16), sp_enc = (\<lambda>_ _ m. m), sp_tag = (\<lambda>_ _ _. replicate 16 0),
      sp_encrypting = (\<lambda>_ _ _ i o1. o1 = i), sp_decrypting = (\<lambda>_ _ _ _ i o1. o1 = i)\<rparr>"

lemma plain_symm_ok: "symm_ok plain_symm plain_spec"
  by (simp add: symm_ok_def starts_def updates_def encryption_ends_def tag_taken_def decryption_ends_def once_ok_def
      encrypting_as_def decrypting_as_def plain_symm_def plain_spec_def op_return_def split: prod.splits)

definition plain_object :: "unit aes" where
  "plain_object =
     \<lparr>cx_key = replicate 16 1, cx_iv = replicate 16 2, cx_aad = Some [3], cx_tag = None, cx_ctx = None, aes_alg = (AES128, GCM)\<rparr>"

theorem aes_streams_agree_witness:
  "\<exists>ct x'. run_stream (aes_encrypt_update plain_symm) (aes_encrypt_final plain_symm)
      [([7, 8], replicate 18 0), ([9], replicate 20 0)] (replicate 16 0) plain_object = (Ok ct, x') \<and>
    ((GCM = GCM \<longrightarrow> cx_aad plain_object \<noteq> None) \<longrightarrow>
      aes_encrypt plain_symm [7, 8, 9] plain_object = (Ok ct, plain_object\<lparr>cx_tag := cx_tag x'\<rparr>)) \<and>
    (\<forall>qs buf'. pieces ct qs \<and> 16 \<le> length buf' \<longrightarrow>
      fst (run_stream (aes_decrypt_update plain_symm) (aes_decrypt_final plain_symm) qs buf'
        (plain_object\<lparr>cx_tag := cx_tag x'\<rparr>)) = Ok [7, 8, 9])"
  by (rule aes_streams_agree [OF plain_symm_ok])
    (simp_all add: plain_object_def plain_spec_def pieces_def)

end
