(* ===== verification/Spec2Isabelle.thy ===== *)
theory Spec2Isabelle
  imports Core Acl Kv Tokens System Credentials Certificates Cert_Logins Server Config Cipher
begin

text \<open>
  A model of RustyVault, the secret manager whose sources are under \<open>src/src\<close>.

  \<^bold>\<open>The program.\<close> A physical backend stores entries under string keys (\<open>storage/\<close>). The security barrier
  (\<open>storage/barrier_aes_gcm.rs\<close>) encrypts what it stores there; it is sealed until it is given the key
  encryption key, which \<open>core.rs\<close> splits into shares (\<open>shamir.rs\<close>) at initialisation and recovers at unseal.
  Logical backends (\<open>logical/\<close>) are mounted under path prefixes (\<open>mount.rs\<close>, \<open>router.rs\<close>), each with a view of
  the barrier under its own prefix (\<open>storage/barrier_view.rs\<close>). A request passes the handlers of the core, where
  the access control list of the policies of its token decides it (\<open>modules/policy\<close>), and is routed to a
  backend. Credential backends (\<open>modules/credential\<close>) log clients in. The token store and the expiration manager
  (\<open>modules/auth\<close>) keep the tokens, with the tree of who made whom, and the leases of secrets and tokens; the key-value engine (\<open>modules/kv\<close>) and the certificate
  authority (\<open>modules/pki\<close>) are backends.

  \<^bold>\<open>Theories.\<close>
  \<^item> \<open>Prelude\<close>: results, state-passing operations, JSON values, bytes, the errors of \<open>errors.rs\<close>.
  \<^item> \<open>GF256\<close>, \<open>Shamir\<close>: \<open>shamir.rs\<close>. The table arithmetic is that of the field with 256 elements; shares of a
    split give the secret back, and fewer than the threshold are consistent with every secret.
  \<^item> \<open>Text_Util\<close>: \<open>utils/string.rs\<close>, \<open>utils/policy.rs\<close> and two functions of \<open>utils/mod.rs\<close>.
  \<^item> \<open>Physical\<close>: the \<open>Backend\<close> trait with the locale \<open>physical_backend\<close>, the file backend on a model of the file
    system (interpretation \<open>fb\<close>), the mock backend.
  \<^item> \<open>Barrier\<close>: the \<open>Storage\<close> trait with the locale \<open>storage\<close> and the AES-GCM barrier, which implements it over
    every physical backend (a sublocale).
  \<^item> \<open>Barrier_View\<close>: views, as a locale over a storage, interpreted on the barrier over files.
  \<^item> \<open>Logical\<close>: fields, paths, requests, responses, leases and the dispatch of \<open>LogicalBackend\<close>.
  \<^item> \<open>Policy\<close>, \<open>Radix\<close>, \<open>Acl\<close>: policies, the contract of the radix tree crate (locale \<open>radix\<close>), access control
    lists.
  \<^item> \<open>Router\<close>, \<open>Mount\<close>: routing and mounts; mount entries are shared objects in a heap. Requests that revoke a secret
    (\<open>idle_revocations\<close>): what they may do to the storage, for a router all of whose backends keep it.
  \<^item> \<open>Listing\<close>: what listing a folder shows, as a locale over a storage, discharged for the barrier over files;
    clearing a view ends and clears it.
  \<^item> \<open>Kv\<close>: the key-value engine; through the dispatch of its backend it is a map from well-formed paths to documents.
  \<^item> \<open>Token_Store\<close>, \<open>Expiration\<close>, \<open>Token_Api\<close>: the token store and the expiration manager, which revoke through
    each other in one partial function; the thread that revokes expired leases is a step relation.
  \<^item> \<open>Token_Tree\<close>, \<open>Token_Use\<close>, \<open>Tokens\<close>: the tree of tokens in the storage as an invariant (locale
    \<open>token_storage\<close>, interpreted on the barrier over files as \<open>ft\<close>); revocation ends on a finite tree and takes
    exactly the descendants with their leases, does not end on a cycle, which a root token can make; limits of uses;
    what the entry of a created token grants. Revoking a lease routes a request to the backend of its secret; the
    hypothesis is that the backends keep the state then (\<open>idle_revocations\<close>), which the backends of the program do
    (\<open>program_backends_revoke_idly\<close> below).
  \<^item> \<open>Policy_Store\<close>, \<open>Policies\<close>: \<open>policy_store.rs\<close> and the policy module; the caches agree with the storage (locale
    \<open>policy_storage\<close>, interpreted on the barrier over files as \<open>fp\<close>), so that a request with a token passes exactly
    when the stored policies of the token allow it.
  \<^item> \<open>Auth\<close>: \<open>modules/auth/mod.rs\<close>, the authentication backends, mounted under \<open>auth/\<close>.
  \<^item> \<open>Cidr\<close>, \<open>Token_Util\<close>, \<open>Userpass\<close>: network addresses and blocks, the token parameters of credentials, the
    users and the login of \<open>modules/credential/userpass\<close>.
  \<^item> \<open>Salt\<close>, \<open>Approle\<close>, \<open>Approles\<close>: \<open>utils/salt.rs\<close> and \<open>modules/credential/approle\<close>, roles with secret identifiers.
    Over any view of a storage, and so over the barrier on files: a secret identifier that was made logs in, as often
    as its limit says, until it is destroyed; an entry is made within the limits of its role; the index of the role
    identifiers is an invariant of the requests, whatever the digest.
  \<^item> \<open>Vault_View\<close>: the view of the barrier over files as the storage of a backend, shared by the theories below.
  \<^item> \<open>Key_Bundle\<close>, \<open>Certificate\<close>: \<open>utils/key.rs\<close> and \<open>utils/cert.rs\<close>, keys and certificates over the contracts of
    OpenSSL (\<open>openssl_keys\<close>, \<open>x509_ok\<close>).
  \<^item> \<open>Pki\<close>, \<open>Certificates\<close>: \<open>modules/pki\<close>, the certificate authority. What an issued certificate says, that it is found
    under its serial number, that a kept key decrypts and verifies what it encrypted and signed, which keys are kept.
  \<^item> \<open>Cert_Auth\<close>, \<open>Cert_Logins\<close>: \<open>modules/credential/cert\<close>, the login by client certificates. A login is backed by a stored
    entry whose constraints the certificate meets; the cache of the revocation lists agrees with the storage (an invariant
    of the requests) and a revoked certificate is refused, until a restart empties the cache; a configured leaf certificate
    is recognised by its serial number only.
  \<^item> \<open>Credentials\<close>: the registration of the credential backends with the authentication module, and of the engines with
    the core.
  \<^item> \<open>System\<close>: \<open>modules/system/mod.rs\<close>, the requests under \<open>sys/\<close>. A mount request mounts and the table of the mounts shows
    it, an unmount request ends and erases what the mount stored, the raw requests reach behind the views.
  \<^item> \<open>Core\<close>: \<open>core.rs\<close>, \<open>module_manager.rs\<close>, \<open>handler.rs\<close>: init, unseal, seal and the phases of a request.
  \<^item> \<open>Error_Text\<close>, \<open>Http\<close>, \<open>Server\<close>: the texts of errors and \<open>src/http\<close>, the server. It calls the core through a record of
    operations (\<open>vault_api\<close>, locale \<open>sealing_core\<close>). A sealed vault serves nothing, the shares of an initialisation unseal it by
    requests, anyone seals it, and a client that sends the certificate of somebody else logs in as that person.
  \<^item> \<open>Config\<close>: \<open>cli/config.rs\<close>, the configuration of the server, with the default core and its modules; what a loaded
    configuration is sure to have.
  \<^item> \<open>Cipher\<close>: \<open>modules/crypto\<close>, the cryptography adaptors: AES and SM4 over the record \<open>symm\<close> of the functions of OpenSSL. A
    stream, in whatever pieces, agrees with the encryption at once and is decrypted to the message.

  \<^bold>\<open>Conventions.\<close> An operation is a function from the state to a result and a new state (type \<open>op\<close>). A result is
  \<open>Ok\<close>, \<open>Err\<close> with an error of \<open>errors.rs\<close>, or \<open>Panic\<close>, for an out-of-range index, an unwrap of nothing or an
  arithmetic overflow. Each operation runs alone and a lock is
  never poisoned; the one lock in the model is that of the queue of leases, which a thread can hold while it asks for
  it again. Hash maps
  are association lists, whose order is the order of iteration. What the code takes from other crates is an
  argument (OpenSSL and the random generator in \<open>crypto\<close>, JSON and the message authentication code in \<open>mount_env\<close>,
  the HCL parser, the regular expressions, the lookup of an ancestor in a radix tree, the cache crate, bcrypt, the
  parser of network addresses); what is relied on is a
  named hypothesis, with an instance in the witnesses. Loops over a finite structure are recursive functions; the
  traversal of \<open>get_keys\<close>, which may meet an endless directory, and revocation, which may meet a cycle, are
  \<open>partial_function\<close>s into options (type \<open>pop\<close>), where not returning is \<open>None\<close>. Statements over files are about
  well-formed keys (\<open>file_key\<close>, \<open>clean_key\<close>): no empty or dotted component and no directory whose name starts with an
  underscore. The file backend accepts other keys and confuses them with these; \<open>Physical\<close> shows how
  (\<open>underscore_directory_listed_as_key\<close>). Conversion to lower case is that of ASCII.

  \<^bold>\<open>Not modelled.\<close> The client, the other commands of the command line, the metrics, the
  MySQL backend.
\<close>

section \<open>The backends and the revocation of their secrets\<close>

text \<open>
  No backend of the program does anything when one of its secrets is revoked: the handlers of the key-value engine and of
  the certificate authority answer at once, and the other backends have no secrets. A router whose mounts are these
  backends satisfies the hypothesis on revocations in the statements about the tree of tokens.
\<close>

lemma program_backends_revoke_idly:
  "idle_revocation (kv_new_backend sops KE)" "idle_revocation (pki_new_backend PE sops)"
  "idle_revocation (userpass_new_backend sops UE)" "idle_revocation (approle_new_backend sops AE)"
  "idle_revocation (cert_new_backend CE sops)"
  by (simp_all add: idle_revocation_def kv_new_backend_def pki_new_backend_def userpass_new_backend_def
      approle_new_backend_def cert_new_backend_def secret_revoke_def kv_handle_noop_def revoke_secret_creds_def)

end
